(* ===== verification/Civic_Prelude.thy ===== *)
theory Civic_Prelude
  imports Main "HOL-Library.AList"
begin

section \<open>Prelude: effects, tables, ordered maps and strings\<close>

text \<open>
  What the components share.
  \<^item> An asynchronous method that may throw is a function from the state to a result and
    the next state, the result a sum with the error on the left (\<open>em\<close>); \<open>ebind\<close> is
    \<open>await\<close> followed by the rest of the body, \<open>ecatch\<close> is \<open>try/catch\<close>,
    \<open>equiet\<close> is \<open>try { ... } catch {}\<close>.
  \<^item> The state of a component that talks to the SQLite adapter extends \<open>dbenv\<close>: the
    reading of \<open>Date.now()\<close> and a script that says which of the coming adapter calls fail
    with an I/O error, so that a theorem can quantify over every pattern of failures.
  \<^item> A JavaScript \<open>Map\<close> is an association list in insertion order: \<open>AList.update\<close>
    replaces in place or appends, as \<open>Map.set\<close> does, and \<open>AList.delete\<close> is
    \<open>Map.delete\<close>.
  Milliseconds since the epoch and durations are \<open>int\<close> (JavaScript numbers hold them
  exactly), strings are character lists.
\<close>

type_synonym msec = int

named_theorems em_defs \<open>definitions of the effect combinators\<close>
named_theorems em_frame_intros \<open>introduction rules for frame conditions\<close>

subsection \<open>Computations that may throw\<close>

type_synonym ('s, 'e, 'a) em = "'s \<Rightarrow> ('e + 'a) \<times> 's"

definition ereturn :: "'a \<Rightarrow> ('s, 'e, 'a) em" where
  "ereturn a = (\<lambda>s. (Inr a, s))"

definition ethrow :: "'e \<Rightarrow> ('s, 'e, 'a) em" where
  "ethrow e = (\<lambda>s. (Inl e, s))"

definition ebind :: "('s, 'e, 'a) em \<Rightarrow> ('a \<Rightarrow> ('s, 'e, 'b) em) \<Rightarrow> ('s, 'e, 'b) em" where
  "ebind m f = (\<lambda>s. case m s of (Inl e, s') \<Rightarrow> (Inl e, s') | (Inr a, s') \<Rightarrow> f a s')"

definition eseq :: "('s, 'e, 'a) em \<Rightarrow> ('s, 'e, 'b) em \<Rightarrow> ('s, 'e, 'b) em" where
  "eseq m n = ebind m (\<lambda>_. n)"

definition ecatch :: "('s, 'e, 'a) em \<Rightarrow> ('e \<Rightarrow> ('s, 'f, 'a) em) \<Rightarrow> ('s, 'f, 'a) em" where
  "ecatch m h = (\<lambda>s. case m s of (Inl e, s') \<Rightarrow> h e s' | (Inr a, s') \<Rightarrow> (Inr a, s'))"

definition equiet :: "('s, 'e, 'a) em \<Rightarrow> ('s, 'f, unit) em" where
  "equiet m = (\<lambda>s. (Inr (), snd (m s)))"

definition eget :: "('s \<Rightarrow> 'a) \<Rightarrow> ('s, 'e, 'a) em" where
  "eget f = (\<lambda>s. (Inr (f s), s))"

definition emodify :: "('s \<Rightarrow> 's) \<Rightarrow> ('s, 'e, unit) em" where
  "emodify f = (\<lambda>s. (Inr (), f s))"

definition ewhen :: "bool \<Rightarrow> ('s, 'e, unit) em \<Rightarrow> ('s, 'e, unit) em" where
  "ewhen b m = (if b then m else ereturn ())"

text \<open>A \<open>finally\<close> block whose own failures are all caught: the outcome is that of the
  body, the state is the one the block leaves.\<close>

definition efinally :: "('s, 'e, 'a) em \<Rightarrow> ('s, 'f, unit) em \<Rightarrow> ('s, 'e, 'a) em" where
  "efinally m f = (\<lambda>s. case m s of (r, s') \<Rightarrow> (r, snd (f s')))"

text \<open>Changing the error type (a wrapper constructor) and the state (a part of a larger one).\<close>

definition emap_err :: "('e \<Rightarrow> 'f) \<Rightarrow> ('s, 'e, 'a) em \<Rightarrow> ('s, 'f, 'a) em" where
  "emap_err w m = (\<lambda>s. case m s of (Inl e, s') \<Rightarrow> (Inl (w e), s') | (Inr a, s') \<Rightarrow> (Inr a, s'))"

definition ezoom :: "('t \<Rightarrow> 's) \<Rightarrow> ('s \<Rightarrow> 't \<Rightarrow> 't) \<Rightarrow> ('s, 'e, 'a) em \<Rightarrow> ('t, 'e, 'a) em" where
  "ezoom get put m = (\<lambda>t. case m (get t) of (r, s') \<Rightarrow> (r, put s' t))"

lemmas em_combinators [em_defs] =
  ereturn_def ethrow_def ebind_def eseq_def ecatch_def equiet_def eget_def emodify_def
  ewhen_def efinally_def emap_err_def ezoom_def

lemma ebind_Inr: "m s = (Inr a, s') \<Longrightarrow> ebind m f s = f a s'"
  by (simp add: ebind_def)

lemma ebind_Inl: "m s = (Inl e, s') \<Longrightarrow> ebind m f s = (Inl e, s')"
  by (simp add: ebind_def)

lemma eseq_Inr: "m s = (Inr a, s') \<Longrightarrow> eseq m n s = n s'"
  by (simp add: eseq_def ebind_def)

lemma eseq_Inl: "m s = (Inl e, s') \<Longrightarrow> eseq m n s = (Inl e, s')"
  by (simp add: eseq_def ebind_def)

subsection \<open>Frame conditions\<close>

text \<open>
  A relation between the state before and after that every step keeps (a preserved
  invariant, a part left alone, a counter that only grows) is reflexive and transitive.
  The locale proves once that such a relation is kept by a composed computation when its
  parts keep it; the components interpret it for their invariants.
\<close>

definition em_rel :: "('s \<Rightarrow> 's \<Rightarrow> bool) \<Rightarrow> ('s, 'e, 'a) em \<Rightarrow> bool" where
  "em_rel R m \<longleftrightarrow> (\<forall>s. R s (snd (m s)))"

lemma em_relI: "(\<And>s. R s (snd (m s))) \<Longrightarrow> em_rel R m"
  by (simp add: em_rel_def)

lemma em_relD: "em_rel R m \<Longrightarrow> R s (snd (m s))"
  by (simp add: em_rel_def)

lemma em_relD': "em_rel R m \<Longrightarrow> m s = (r, s') \<Longrightarrow> R s s'"
  using em_relD [of R m s] by simp

locale em_frame =
  fixes R :: "'s \<Rightarrow> 's \<Rightarrow> bool"
  assumes frame_refl: "R s s"
    and frame_trans: "R s t \<Longrightarrow> R t u \<Longrightarrow> R s u"
begin

lemma rel_return: "em_rel R (ereturn a)"
  by (simp add: em_rel_def ereturn_def frame_refl)

lemma rel_throw: "em_rel R (ethrow e)"
  by (simp add: em_rel_def ethrow_def frame_refl)

lemma rel_get: "em_rel R (eget f)"
  by (simp add: em_rel_def eget_def frame_refl)

lemma rel_bind:
  assumes "em_rel R m" and "\<And>a. em_rel R (f a)"
  shows "em_rel R (ebind m f)"
proof (rule em_relI)
  fix s
  obtain r t where m: "m s = (r, t)" by (cases "m s")
  with assms(1) have st: "R s t" by (blast intro: em_relD')
  show "R s (snd (ebind m f s))"
  proof (cases r)
    case (Inl e)
    with m st show ?thesis by (simp add: ebind_def)
  next
    case (Inr a)
    from assms(2) have "R t (snd (f a t))" by (rule em_relD)
    with st have "R s (snd (f a t))" by (rule frame_trans)
    with m Inr show ?thesis by (simp add: ebind_def)
  qed
qed

lemma rel_seq: "em_rel R m \<Longrightarrow> em_rel R n \<Longrightarrow> em_rel R (eseq m n)"
  unfolding eseq_def by (rule rel_bind)

lemma rel_catch:
  assumes "em_rel R m" and "\<And>e. em_rel R (h e)"
  shows "em_rel R (ecatch m h)"
proof (rule em_relI)
  fix s
  obtain r t where m: "m s = (r, t)" by (cases "m s")
  with assms(1) have st: "R s t" by (blast intro: em_relD')
  show "R s (snd (ecatch m h s))"
  proof (cases r)
    case (Inl e)
    from assms(2) have "R t (snd (h e t))" by (rule em_relD)
    with st have "R s (snd (h e t))" by (rule frame_trans)
    with m Inl show ?thesis by (simp add: ecatch_def)
  next
    case (Inr a)
    with m st show ?thesis by (simp add: ecatch_def)
  qed
qed

lemma rel_quiet: "em_rel R m \<Longrightarrow> em_rel R (equiet m)"
  by (simp add: em_rel_def equiet_def)

lemma rel_when: "em_rel R m \<Longrightarrow> em_rel R (ewhen b m)"
  by (simp add: ewhen_def rel_return)

lemma rel_finally:
  assumes "em_rel R m" and "em_rel R f"
  shows "em_rel R (efinally m f)"
proof (rule em_relI)
  fix s
  obtain r t where m: "m s = (r, t)" by (cases "m s")
  with assms(1) have st: "R s t" by (blast intro: em_relD')
  from assms(2) have "R t (snd (f t))" by (rule em_relD)
  with st have "R s (snd (f t))" by (rule frame_trans)
  with m show "R s (snd (efinally m f s))" by (simp add: efinally_def)
qed

lemma rel_map_err: "em_rel R m \<Longrightarrow> em_rel R (emap_err w m)"
  by (auto simp: em_rel_def emap_err_def split: prod.splits sum.splits) (metis snd_conv)+

lemmas rel_intros = rel_return rel_throw rel_get rel_bind rel_seq rel_catch rel_quiet
  rel_when rel_finally rel_map_err

end

subsection \<open>The database adapter\<close>

text \<open>
  \<open>DbIo\<close> stands for any failure of the adapter itself (a lost file, a busy timeout);
  the two violations are SQLite's, raised by the constraints of the schema. The
  \<open>faults\<close> list is read one entry per adapter call: \<open>True\<close> makes that call fail
  before it does anything, and an exhausted list means no more failures.
\<close>

datatype db_error = DbIo | UniqueViolation | ForeignKeyViolation

record dbenv =
  clock :: msec
  faults :: "bool list"

definition db_call :: "('x dbenv_scheme, db_error, 'a) em \<Rightarrow> ('x dbenv_scheme, db_error, 'a) em" where
  "db_call m = (\<lambda>s. case faults s of
     [] \<Rightarrow> m s
   | True # fs \<Rightarrow> (Inl DbIo, s\<lparr>faults := fs\<rparr>)
   | False # fs \<Rightarrow> m (s\<lparr>faults := fs\<rparr>))"

definition date_now :: "('x dbenv_scheme, 'e, msec) em" where
  "date_now = eget clock"

lemma db_call_no_faults [simp]: "faults s = [] \<Longrightarrow> db_call m s = m s"
  by (simp add: db_call_def)

lemma db_call_cases:
  assumes "db_call m s = (r, s')"
  obtains (fault) fs where "faults s = True # fs" "r = Inl DbIo" "s' = s\<lparr>faults := fs\<rparr>"
  | (runs) t where "t = s \<or> (\<exists>fs. t = s\<lparr>faults := fs\<rparr>)" "m t = (r, s')"
  using assms unfolding db_call_def
  by (auto split: list.splits bool.splits)

subsection \<open>Insertion-ordered maps\<close>

abbreviation jm_get :: "('k \<times> 'v) list \<Rightarrow> 'k \<Rightarrow> 'v option" where
  "jm_get \<equiv> map_of"

abbreviation jm_set :: "'k \<Rightarrow> 'v \<Rightarrow> ('k \<times> 'v) list \<Rightarrow> ('k \<times> 'v) list" where
  "jm_set \<equiv> AList.update"

abbreviation jm_delete :: "'k \<Rightarrow> ('k \<times> 'v) list \<Rightarrow> ('k \<times> 'v) list" where
  "jm_delete \<equiv> AList.delete"

abbreviation jm_keys :: "('k \<times> 'v) list \<Rightarrow> 'k list" where
  "jm_keys m \<equiv> map fst m"

definition jm_ok :: "('k \<times> 'v) list \<Rightarrow> bool" where
  "jm_ok m \<longleftrightarrow> distinct (map fst m)"

lemma jm_ok_Nil [simp]: "jm_ok []"
  by (simp add: jm_ok_def)

lemma jm_ok_set [simp]: "jm_ok m \<Longrightarrow> jm_ok (jm_set k v m)"
  by (simp add: jm_ok_def distinct_update)

lemma jm_ok_delete [simp]: "jm_ok m \<Longrightarrow> jm_ok (jm_delete k m)"
  by (simp add: jm_ok_def distinct_delete)

lemma jm_ok_filter [simp]: "jm_ok m \<Longrightarrow> jm_ok (filter P m)"
  by (simp add: jm_ok_def distinct_map_filter)

lemma jm_get_set: "jm_get (jm_set k v m) k' = (if k' = k then Some v else jm_get m k')"
  by (simp add: update_conv')

lemma jm_get_delete: "jm_get (jm_delete k m) k' = (if k' = k then None else jm_get m k')"
  by (simp add: delete_conv')

lemma jm_get_filter:
  "jm_ok m \<Longrightarrow> jm_get (filter P m) k =
     (case jm_get m k of None \<Rightarrow> None | Some v \<Rightarrow> if P (k, v) then Some v else None)"
proof (induction m)
  case (Cons kv m)
  then show ?case
    by (cases kv) (auto simp: jm_ok_def map_of_eq_None_iff image_iff split: option.splits)
qed simp

subsection \<open>Strings\<close>

fun str_starts_with :: "string \<Rightarrow> string \<Rightarrow> bool" where
  "str_starts_with s [] = True"
| "str_starts_with [] (p # ps) = False"
| "str_starts_with (c # s) (p # ps) = (c = p \<and> str_starts_with s ps)"

fun str_includes :: "string \<Rightarrow> string \<Rightarrow> bool" where
  "str_includes [] p = (p = [])"
| "str_includes (c # s) p = (str_starts_with (c # s) p \<or> str_includes s p)"

definition lower_char :: "char \<Rightarrow> char" where
  "lower_char c = (let n = (of_char c :: nat) in if 65 \<le> n \<and> n \<le> 90 then char_of (n + 32) else c)"

definition to_lower :: "string \<Rightarrow> string" where
  "to_lower s = map lower_char s"

definition is_space :: "char \<Rightarrow> bool" where
  "is_space c \<longleftrightarrow> (let n = (of_char c :: nat) in n = 32 \<or> (9 \<le> n \<and> n \<le> 13))"

definition trim :: "string \<Rightarrow> string" where
  "trim s = rev (dropWhile is_space (rev (dropWhile is_space s)))"

fun join_with :: "string \<Rightarrow> string list \<Rightarrow> string" where
  "join_with sep [] = []"
| "join_with sep [x] = x"
| "join_with sep (x # y # ys) = x @ sep @ join_with sep (y # ys)"

text \<open>\<open>s.split(c)\<close> for a single character.\<close>

fun split_char :: "char \<Rightarrow> string \<Rightarrow> string list" where
  "split_char c [] = [[]]"
| "split_char c (x # xs) = (if x = c then [] # split_char c xs
     else (case split_char c xs of [] \<Rightarrow> [[x]] | p # ps \<Rightarrow> (x # p) # ps))"

fun show_nat :: "nat \<Rightarrow> string" where
  "show_nat n = (if n < 10 then [char_of (48 + n)] else show_nat (n div 10) @ [char_of (48 + n mod 10)])"

declare show_nat.simps [simp del]

definition show_int :: "int \<Rightarrow> string" where
  "show_int i = (if i < 0 then CHR ''-'' # show_nat (nat (- i)) else show_nat (nat i))"

text \<open>\<open>Date.toISOString\<close> for the years 0 to 9999: the civil date of a day count by the
  400-year era computation, then the time of day.\<close>

definition pad :: "nat \<Rightarrow> int \<Rightarrow> string" where
  "pad w i = (let s = show_int i in replicate (w - length s) (CHR ''0'') @ s)"

definition civil_of_days :: "int \<Rightarrow> int \<times> int \<times> int" where
  "civil_of_days days =
     (let z = days + 719468;
          era = z div 146097;
          doe = z - era * 146097;
          yoe = (doe - doe div 1460 + doe div 36524 - doe div 146096) div 365;
          doy = doe - (365 * yoe + yoe div 4 - yoe div 100);
          mp = (5 * doy + 2) div 153;
          d = doy - (153 * mp + 2) div 5 + 1;
          m = (if mp < 10 then mp + 3 else mp - 9);
          y = yoe + era * 400 + (if m \<le> 2 then 1 else 0)
      in (y, m, d))"

definition iso_string :: "msec \<Rightarrow> string" where
  "iso_string t =
     (let (y, m, d) = civil_of_days (t div 86400000);
          r = t mod 86400000
      in pad 4 y @ ''-'' @ pad 2 m @ ''-'' @ pad 2 d @ ''T'' @ pad 2 (r div 3600000) @ '':'' @
         pad 2 (r div 60000 mod 60) @ '':'' @ pad 2 (r div 1000 mod 60) @ ''.'' @
         pad 3 (r mod 1000) @ ''Z'')"

text \<open>JavaScript's \<open>x || null\<close> on an optional string: the empty string counts as absent.\<close>

definition or_null :: "string option \<Rightarrow> string option" where
  "or_null x = (case x of Some [] \<Rightarrow> None | _ \<Rightarrow> x)"

definition truthy :: "string option \<Rightarrow> bool" where
  "truthy x \<longleftrightarrow> (case x of None \<Rightarrow> False | Some s \<Rightarrow> s \<noteq> [])"

lemma or_null_id [simp]: "x \<noteq> Some [] \<Longrightarrow> or_null x = x"
  by (auto simp: or_null_def split: option.splits list.splits)

lemma or_null_None [simp]: "or_null None = None"
  by (simp add: or_null_def)

lemma or_null_idem [simp]: "or_null (or_null x) = or_null x"
  by (auto simp: or_null_def split: option.splits list.splits)

lemma or_null_not_empty [simp]: "or_null x \<noteq> Some []"
  by (auto simp: or_null_def split: option.splits list.splits)

lemma str_starts_with_append [simp]: "str_starts_with (p @ s) p"
  by (induction p) auto

lemma str_starts_with_iff: "str_starts_with s p \<longleftrightarrow> (\<exists>t. s = p @ t)"
  by (induction s p rule: str_starts_with.induct) auto

lemma str_includes_iff: "str_includes s p \<longleftrightarrow> (\<exists>a b. s = a @ p @ b)"
proof (induction s)
  case Nil
  then show ?case by simp
next
  case (Cons c s)
  show ?case
  proof
    assume "str_includes (c # s) p"
    then consider "str_starts_with (c # s) p" | "str_includes s p" by auto
    then show "\<exists>a b. c # s = a @ p @ b"
    proof cases
      case 1
      then show ?thesis by (metis append_Nil str_starts_with_iff)
    next
      case 2
      then obtain a b where "s = a @ p @ b" using Cons.IH by blast
      then have "c # s = (c # a) @ p @ b" by simp
      then show ?thesis by blast
    qed
  next
    assume "\<exists>a b. c # s = a @ p @ b"
    then obtain a b where ab: "c # s = a @ p @ b" by blast
    show "str_includes (c # s) p"
    proof (cases a)
      case Nil
      with ab have "str_starts_with (c # s) p" by (auto simp: str_starts_with_iff)
      then show ?thesis by simp
    next
      case a: (Cons d a')
      with ab have "s = a' @ p @ b" by simp
      then have "str_includes s p" using Cons.IH by blast
      then show ?thesis by simp
    qed
  qed
qed

subsection \<open>Decimal numbers\<close>

text \<open>They contain no separator and name their number.\<close>

lemma show_nat_digits: "c \<in> set (show_nat n) \<Longrightarrow> c \<noteq> CHR '':''"
proof (induction n rule: show_nat.induct)
  case (1 n)
  have digit: "char_of (48 + d) \<noteq> CHR '':''" if "d < 10" for d :: nat
  proof
    assume "char_of (48 + d) = CHR '':''"
    then have "of_char (char_of (48 + d) :: char) = (58 :: nat)" by simp
    moreover have "of_char (char_of (48 + d) :: char) = 48 + d" using that by simp
    ultimately show False using that by simp
  qed
  show ?case
  proof (cases "n < 10")
    case True
    with 1 digit show ?thesis by (subst (asm) show_nat.simps) simp
  next
    case False
    with 1 digit [of "n mod 10"] show ?thesis by (subst (asm) show_nat.simps) auto
  qed
qed

lemma show_nat_nonempty: "show_nat n \<noteq> []"
  by (subst show_nat.simps) simp

lemma show_nat_chars: "c \<in> set (show_nat n) \<Longrightarrow> (48 :: nat) \<le> of_char c \<and> of_char c \<le> (57 :: nat)"
  by (induction n rule: show_nat.induct) (subst (asm) (2) show_nat.simps, auto split: if_splits)

lemma show_nat_inj: "show_nat m = show_nat n \<Longrightarrow> m = n"
proof (induction m arbitrary: n rule: show_nat.induct)
  case (1 m)
  have digit: "char_of (48 + a) = (char_of (48 + b) :: char) \<Longrightarrow> a = b" if "a < 10" "b < 10" for a b :: nat
  proof -
    assume "char_of (48 + a) = (char_of (48 + b) :: char)"
    then have "of_char (char_of (48 + a) :: char) = (of_char (char_of (48 + b) :: char) :: nat)" by simp
    with that show ?thesis by simp
  qed
  have ne: "show_nat k \<noteq> []" for k by (subst show_nat.simps) simp
  show ?case
  proof (cases "m < 10"; cases "n < 10")
    assume "m < 10" "n < 10"
    with "1.prems" digit show ?thesis by (simp add: show_nat.simps [of m] show_nat.simps [of n])
  next
    assume "m < 10" "\<not> n < 10"
    with "1.prems" ne [of "n div 10"] show ?thesis
      by (simp add: show_nat.simps [of m] show_nat.simps [of n])
  next
    assume "\<not> m < 10" "n < 10"
    with "1.prems" ne [of "m div 10"] show ?thesis
      by (simp add: show_nat.simps [of m] show_nat.simps [of n])
  next
    assume a: "\<not> m < 10" "\<not> n < 10"
    with "1.prems" have "show_nat (m div 10) = show_nat (n div 10)"
      and "char_of (48 + m mod 10) = (char_of (48 + n mod 10) :: char)"
      by (simp_all add: show_nat.simps [of m] show_nat.simps [of n])
    then have "m div 10 = n div 10" and "m mod 10 = n mod 10"
      using "1.IH" [OF a(1)] digit by simp_all
    then show ?thesis by (metis div_mult_mod_eq)
  qed
qed

lemma append_separator:
  assumes "c \<notin> set a" and "c \<notin> set b" and "a @ c # x = b @ c # y"
  shows "a = b \<and> x = y"
  using assms
proof (induction a arbitrary: b)
  case Nil
  then show ?case by (cases b) auto
next
  case (Cons d a)
  then show ?case by (cases b) auto
qed

subsection \<open>Lists\<close>

lemma filter_map_comp_id: "(\<And>x. x \<in> set xs \<Longrightarrow> P (f x) = P x) \<Longrightarrow>
    filter P (map f xs) = map f (filter P xs)"
  by (induction xs) auto

lemma distinct_map_filterI: "distinct (map f xs) \<Longrightarrow> distinct (map f (filter P xs))"
  by (rule distinct_map_filter)

end
