(* ===== verification/Saga_Types.thy ===== *)
theory Saga_Types
  imports Civic_Prelude
begin

section \<open>Sagas: statuses, contexts, errors and the database rows\<close>

text \<open>
  The types of \<open>core/src/saga/types.ts\<close> and \<open>errors.ts\<close>, and the two tables the
  saga engine keeps (\<open>saga_states\<close> and \<open>saga_resource_locks\<close> of
  \<open>core/src/database/schema/tables.ts\<close>). One record serves as \<open>SagaState\<close> and as
  a row of \<open>saga_states\<close>: instants are milliseconds where the columns hold ISO strings
  (which compare alike), \<open>step_results\<close> is the list the column encodes.
\<close>

datatype saga_status = Pending | Executing | Completed | Failed | Compensating | Compensated

datatype comp_status = CompPending | CompExecuting | CompCompleted | CompFailed | CompPartial

datatype user_id = UserStr string | UserNum nat

fun show_user_id :: "user_id \<Rightarrow> string" where
  "show_user_id (UserStr s) = s"
| "show_user_id (UserNum n) = show_nat n"

text \<open>The fields of a saga context that the engine reads: the base \<open>SagaContext\<close>, and
  the optional fields the concrete contexts add (\<open>recordId\<close>, \<open>draftId\<close>,
  \<open>request\<close>, \<open>userId\<close>). \<open>cx_request\<close> is the request payload as its JSON text.\<close>

record saga_context =
  cx_correlationId :: string
  cx_idempotencyKey :: "string option"
  cx_user :: "user_id option"
  cx_userId :: "nat option"
  cx_metadata :: "string \<rightharpoonup> string"
  cx_recordId :: "string option"
  cx_draftId :: "string option"
  cx_request :: "string option"

record saga_state =
  st_id :: string
  st_sagaType :: string
  st_sagaVersion :: "string option"
  st_context :: string
  st_status :: saga_status
  st_currentStep :: nat
  st_stepResults :: "string option list"
  st_startedAt :: msec
  st_completedAt :: "msec option"
  st_error :: "string option"
  st_compStatus :: "comp_status option"
  st_compCompletedAt :: "msec option"
  st_compError :: "string option"
  st_idempotencyKey :: "string option"
  st_correlationId :: string

record resource_lock =
  lk_key :: string
  lk_holder :: string
  lk_acquiredAt :: msec
  lk_expiresAt :: msec

text \<open>The database as the saga engine sees it.\<close>

record saga_db = dbenv +
  states :: "saga_state list"
  locks :: "resource_lock list"

text \<open>
  The error classes. A \<open>DbFailure\<close> is an error of the adapter passed on unchanged, an
  \<open>OtherError\<close> any other \<open>Error\<close>, with its message.
\<close>

datatype saga_error =
    SagaStepError string string
  | SagaContextError string "string list"
  | SagaTimeoutError string msec bool
  | SagaDuplicateError string string
  | SagaLockError string string
  | DbFailure db_error
  | OtherError string

fun db_message :: "db_error \<Rightarrow> string" where
  "db_message DbIo = ''SQLITE_IOERR: disk I/O error''"
| "db_message UniqueViolation = ''SQLITE_CONSTRAINT: UNIQUE constraint failed''"
| "db_message ForeignKeyViolation = ''SQLITE_CONSTRAINT: FOREIGN KEY constraint failed''"

fun err_message :: "saga_error \<Rightarrow> string" where
  "err_message (SagaStepError step msg) = ''Saga step '' @ [CHR 39] @ step @ [CHR 39] @ '' failed: '' @ msg"
| "err_message (SagaContextError name errs) =
     ''Invalid context for saga '' @ [CHR 39] @ name @ [CHR 39] @ '': '' @ join_with '', '' errs"
| "err_message (SagaTimeoutError what t isStep) =
     (if isStep then ''Step'' else ''Saga'') @ '' '' @ [CHR 39] @ what @ [CHR 39] @
     '' timed out after '' @ show_int t @ ''ms''"
| "err_message (SagaDuplicateError key sid) =
     ''An identical operation is already in progress (saga '' @ sid @ '')''"
| "err_message (SagaLockError key reason) =
     ''Failed to acquire lock on resource '' @ [CHR 39] @ key @ [CHR 39] @ '': '' @ reason"
| "err_message (DbFailure e) = db_message e"
| "err_message (OtherError msg) = msg"

subsection \<open>The integrity of the two tables\<close>

text \<open>
  What the schema declares: the primary keys, the unique idempotency key, and the foreign
  key from a lock to the saga row that holds it.
\<close>

definition idem_keys :: "saga_state list \<Rightarrow> string list" where
  "idem_keys rs = List.map_filter st_idempotencyKey rs"

definition saga_db_ok :: "saga_db \<Rightarrow> bool" where
  "saga_db_ok db \<longleftrightarrow>
     distinct (map st_id (states db)) \<and>
     distinct (idem_keys (states db)) \<and>
     distinct (map lk_key (locks db)) \<and>
     lk_holder ` set (locks db) \<subseteq> st_id ` set (states db)"

lemma idem_keys_simps [simp]:
  "idem_keys [] = []"
  "idem_keys (r # rs) = (case st_idempotencyKey r of None \<Rightarrow> idem_keys rs | Some k \<Rightarrow> k # idem_keys rs)"
  "idem_keys (rs @ rs') = idem_keys rs @ idem_keys rs'"
  by (auto simp: idem_keys_def map_filter_simps map_filter_def split: option.splits)

lemma set_idem_keys: "k \<in> set (idem_keys rs) \<longleftrightarrow> (\<exists>r \<in> set rs. st_idempotencyKey r = Some k)"
  by (induction rs) (auto split: option.splits)

text \<open>Updates that leave the key columns alone, and deletions, keep the constraints.\<close>

lemma map_preserves_col:
  "(\<And>r. f (g r) = f r) \<Longrightarrow> map f (map g rs) = map f rs"
  by simp

lemma idem_keys_map_same:
  "(\<And>r. st_idempotencyKey (g r) = st_idempotencyKey r) \<Longrightarrow> idem_keys (map g rs) = idem_keys rs"
  by (induction rs) (auto split: option.splits)

lemma distinct_idem_keys_filter: "distinct (idem_keys rs) \<Longrightarrow> distinct (idem_keys (filter P rs))"
  by (induction rs) (auto simp: set_idem_keys split: option.splits)

lemma distinct_idem_keys_clear:
  assumes "\<And>r. st_idempotencyKey (g r) = st_idempotencyKey r \<or> st_idempotencyKey (g r) = None"
  shows "distinct (idem_keys rs) \<Longrightarrow> distinct (idem_keys (map g rs))"
proof (induction rs)
  case (Cons r rs)
  have sub: "set (idem_keys (map g rs)) \<subseteq> set (idem_keys rs)"
  proof
    fix k assume "k \<in> set (idem_keys (map g rs))"
    then obtain r' where "r' \<in> set rs" "st_idempotencyKey (g r') = Some k"
      by (auto simp: set_idem_keys)
    with assms [of r'] show "k \<in> set (idem_keys rs)" by (auto simp: set_idem_keys)
  qed
  with Cons assms [of r] show ?case by (auto split: option.splits)
qed simp

end
