(* ===== verification/Saga_State_Store.thy ===== *)
theory Saga_State_Store
  imports Saga_Types
begin

section \<open>The saga state store\<close>

text \<open>
  \<open>core/src/saga/saga-state-store.ts\<close>: one definition per method of
  \<open>SagaStateStore\<close>, each the SQL statement it executes on the table and the rows it
  reads back. The methods rethrow what the adapter throws, so their \<open>try/catch\<close> leaves
  the outcome alone. Then the interface the executor and the recovery scan rely on, as a
  locale of keyed rows, and the integrity of the tables under every method.
\<close>

subsection \<open>Rows\<close>

text \<open>The parameter list of the upsert: \<open>x || null\<close> on every optional text column.\<close>

definition state_to_row :: "saga_state \<Rightarrow> saga_state" where
  "state_to_row st = st\<lparr>
     st_sagaVersion := or_null (st_sagaVersion st),
     st_error := or_null (st_error st),
     st_compError := or_null (st_compError st),
     st_idempotencyKey := or_null (st_idempotencyKey st)\<rparr>"

definition rowToState :: "saga_state \<Rightarrow> saga_state" where
  "rowToState row = row\<lparr>
     st_sagaVersion := or_null (st_sagaVersion row),
     st_error := or_null (st_error row),
     st_compError := or_null (st_compError row),
     st_idempotencyKey := or_null (st_idempotencyKey row)\<rparr>"

definition row_lookup :: "string \<Rightarrow> saga_state list \<Rightarrow> saga_state option" where
  "row_lookup i rs = find (\<lambda>r. st_id r = i) rs"

definition row_upsert :: "saga_state \<Rightarrow> saga_state list \<Rightarrow> saga_state list" where
  "row_upsert row rs =
     (if list_ex (\<lambda>r. st_id r = st_id row) rs
      then map (\<lambda>r. if st_id r = st_id row then row else r) rs
      else rs @ [row])"

definition row_update :: "string \<Rightarrow> (saga_state \<Rightarrow> saga_state) \<Rightarrow> saga_state list \<Rightarrow> saga_state list" where
  "row_update i f rs = map (\<lambda>r. if st_id r = i then f r else r) rs"

definition row_delete :: "string \<Rightarrow> saga_state list \<Rightarrow> saga_state list" where
  "row_delete i rs = filter (\<lambda>r. st_id r \<noteq> i) rs"

text \<open>SQLite's check of the unique column: another row already holds the key.\<close>

definition key_taken :: "saga_state \<Rightarrow> saga_state list \<Rightarrow> bool" where
  "key_taken row rs \<longleftrightarrow> st_idempotencyKey row \<noteq> None \<and>
     list_ex (\<lambda>r. st_id r \<noteq> st_id row \<and> st_idempotencyKey r = st_idempotencyKey row) rs"

subsection \<open>The methods\<close>

definition saveState :: "saga_state \<Rightarrow> (saga_db, db_error, unit) em" where
  "saveState st = db_call (\<lambda>db.
     let row = state_to_row st in
     if key_taken row (states db) then (Inl UniqueViolation, db)
     else (Inr (), db\<lparr>states := row_upsert row (states db)\<rparr>))"

definition getState :: "string \<Rightarrow> (saga_db, db_error, saga_state option) em" where
  "getState sagaId = db_call (\<lambda>db.
     (Inr (map_option rowToState (row_lookup sagaId (states db))), db))"

definition getStateByIdempotencyKey :: "string \<Rightarrow> (saga_db, db_error, saga_state option) em" where
  "getStateByIdempotencyKey key = db_call (\<lambda>db.
     (Inr (map_option rowToState (find (\<lambda>r. st_idempotencyKey r = Some key) (states db))), db))"

definition clearIdempotencyKey :: "string \<Rightarrow> (saga_db, db_error, unit) em" where
  "clearIdempotencyKey key = db_call (\<lambda>db.
     (Inr (), db\<lparr>states := map (\<lambda>r. if st_idempotencyKey r = Some key
                                     then r\<lparr>st_idempotencyKey := None\<rparr> else r) (states db)\<rparr>))"

text \<open>Deleting the row fires the cascade of the lock table's foreign key.\<close>

definition deleteState :: "string \<Rightarrow> (saga_db, db_error, unit) em" where
  "deleteState sagaId = db_call (\<lambda>db.
     (Inr (), db\<lparr>states := row_delete sagaId (states db),
                  locks := filter (\<lambda>l. lk_holder l \<noteq> sagaId) (locks db)\<rparr>))"

definition updateStatus :: "string \<Rightarrow> saga_status \<Rightarrow> nat option \<Rightarrow> string option \<Rightarrow>
    (saga_db, db_error, unit) em" where
  "updateStatus sagaId status currentStep err = db_call (\<lambda>db.
     (Inr (), db\<lparr>states := row_update sagaId (\<lambda>r. r\<lparr>
        st_status := status,
        st_currentStep := (case currentStep of None \<Rightarrow> st_currentStep r | Some n \<Rightarrow> n),
        st_error := (case err of None \<Rightarrow> st_error r | Some e \<Rightarrow> Some e),
        st_completedAt := (if status = Completed \<or> status = Compensated
                           then Some (clock db) else st_completedAt r)\<rparr>) (states db)\<rparr>))"

definition updateStepResults :: "string \<Rightarrow> string option list \<Rightarrow> (saga_db, db_error, unit) em" where
  "updateStepResults sagaId results = db_call (\<lambda>db.
     (Inr (), db\<lparr>states := row_update sagaId (\<lambda>r. r\<lparr>st_stepResults := results\<rparr>) (states db)\<rparr>))"

definition updateCompensationStatus :: "string \<Rightarrow> comp_status \<Rightarrow> string option \<Rightarrow>
    (saga_db, db_error, unit) em" where
  "updateCompensationStatus sagaId status err = db_call (\<lambda>db.
     (Inr (), db\<lparr>states := row_update sagaId (\<lambda>r. r\<lparr>
        st_compStatus := Some status,
        st_compError := (case err of None \<Rightarrow> st_compError r | Some e \<Rightarrow> Some e),
        st_compCompletedAt := (if status = CompCompleted \<or> status = CompFailed
                               then Some (clock db) else st_compCompletedAt r)\<rparr>) (states db)\<rparr>))"

definition is_stuck :: "msec \<Rightarrow> saga_state \<Rightarrow> bool" where
  "is_stuck cutoff r \<longleftrightarrow> st_status r = Executing \<and> st_startedAt r < cutoff"

definition getStuckSagas :: "msec \<Rightarrow> (saga_db, db_error, saga_state list) em" where
  "getStuckSagas timeoutMs = db_call (\<lambda>db.
     (Inr (map rowToState (filter (is_stuck (clock db - timeoutMs)) (states db))), db))"

definition needs_recovery :: "saga_state \<Rightarrow> bool" where
  "needs_recovery r \<longleftrightarrow> st_status r = Failed \<and>
     (st_compStatus r = None \<or> st_compStatus r \<noteq> Some CompCompleted)"

definition getFailedSagas :: "(saga_db, db_error, saga_state list) em" where
  "getFailedSagas = db_call (\<lambda>db. (Inr (map rowToState (filter needs_recovery (states db))), db))"

lemmas store_method_defs =
  saveState_def getState_def getStateByIdempotencyKey_def clearIdempotencyKey_def
  deleteState_def updateStatus_def updateStepResults_def updateCompensationStatus_def
  getStuckSagas_def getFailedSagas_def

subsection \<open>The interface: rows found by their key\<close>

text \<open>
  What a client of a table may rely on. The laws are stated over lookups, so that the
  order of the rows stays private to the table.
\<close>

locale keyed_rows =
  fixes lookup :: "'k \<Rightarrow> 't \<Rightarrow> 'r option"
    and upsert :: "'r \<Rightarrow> 't \<Rightarrow> 't"
    and remove :: "'k \<Rightarrow> 't \<Rightarrow> 't"
    and key_of :: "'r \<Rightarrow> 'k"
  assumes lookup_upsert: "lookup k (upsert r t) = (if k = key_of r then Some r else lookup k t)"
    and lookup_remove: "lookup k (remove j t) = (if k = j then None else lookup k t)"
begin

lemma upsert_last_wins: "key_of r = key_of r' \<Longrightarrow> lookup k (upsert r (upsert r' t)) = lookup k (upsert r t)"
  by (simp add: lookup_upsert)

lemma upsert_then_remove: "lookup (key_of r) t = None \<Longrightarrow> lookup k (remove (key_of r) (upsert r t)) = lookup k t"
  by (auto simp: lookup_upsert lookup_remove)

end

lemma row_lookup_map:
  assumes "\<And>r. st_id r = i \<Longrightarrow> st_id (f r) = i"
  shows "row_lookup k (map (\<lambda>r. if st_id r = i then f r else r) rs) =
     (if k = i then map_option f (row_lookup k rs) else row_lookup k rs)"
  using assms by (induction rs) (auto simp: row_lookup_def)

lemma row_lookup_None: "row_lookup k rs = None \<longleftrightarrow> k \<notin> st_id ` set rs"
  by (auto simp: row_lookup_def find_None_iff)

lemma row_lookup_Some: "row_lookup k rs = Some r \<Longrightarrow> r \<in> set rs \<and> st_id r = k"
  by (auto simp: row_lookup_def find_Some_iff)

lemma row_lookup_append: "row_lookup k (rs @ rs') =
    (case row_lookup k rs of Some r \<Rightarrow> Some r | None \<Rightarrow> row_lookup k rs')"
  by (induction rs) (auto simp: row_lookup_def)

lemma row_lookup_upsert: "row_lookup k (row_upsert row rs) =
    (if k = st_id row then Some row else row_lookup k rs)"
proof (cases "list_ex (\<lambda>r. st_id r = st_id row) rs")
  case True
  then obtain r where "row_lookup (st_id row) rs = Some r"
    by (cases "row_lookup (st_id row) rs") (auto simp: row_lookup_None list_ex_iff image_iff)
  with True row_lookup_map [of "st_id row" "\<lambda>_. row" k rs] show ?thesis
    by (simp add: row_upsert_def)
next
  case False
  then have "row_lookup (st_id row) rs = None"
    by (auto simp: row_lookup_None list_ex_iff)
  with False show ?thesis
    by (auto simp: row_upsert_def row_lookup_append split: option.splits)
       (auto simp: row_lookup_def)
qed

lemma row_lookup_update:
  assumes "\<And>r. st_id (f r) = st_id r"
  shows "row_lookup k (row_update i f rs) =
     (if k = i then map_option f (row_lookup k rs) else row_lookup k rs)"
  unfolding row_update_def by (rule row_lookup_map) (simp add: assms)

lemma row_lookup_delete: "row_lookup k (row_delete i rs) = (if k = i then None else row_lookup k rs)"
  by (induction rs) (auto simp: row_delete_def row_lookup_def)

interpretation saga_rows: keyed_rows row_lookup row_upsert row_delete st_id
  by unfold_locales (simp_all add: row_lookup_upsert row_lookup_delete)

subsection \<open>Integrity under every method\<close>

lemma map_ids_replace:
  "map st_id (map (\<lambda>r. if st_id r = st_id row then row else r) rs) = map st_id rs"
  by (induction rs) auto

lemma ids_upsert: "distinct (map st_id rs) \<Longrightarrow> distinct (map st_id (row_upsert row rs))"
  by (auto simp: row_upsert_def list_ex_iff map_ids_replace simp del: map_map)

lemma set_ids_upsert: "st_id ` set (row_upsert row rs) = insert (st_id row) (st_id ` set rs)"
  by (auto simp: row_upsert_def list_ex_iff image_iff)

lemma map_upsert_absent:
  "st_id row \<notin> st_id ` set rs \<Longrightarrow> map (\<lambda>r. if st_id r = st_id row then row else r) rs = rs"
  by (induction rs) auto

lemma idem_keys_upsert_present:
  assumes "distinct (map st_id rs)" and "distinct (idem_keys rs)" and "\<not> key_taken row rs"
  shows "distinct (idem_keys (map (\<lambda>r. if st_id r = st_id row then row else r) rs))"
  using assms
proof (induction rs)
  case (Cons r rs)
  have free: "\<not> key_taken row rs" using Cons.prems(3) by (auto simp: key_taken_def)
  show ?case
  proof (cases "st_id r = st_id row")
    case True
    with Cons.prems(1) have rest: "map (\<lambda>r. if st_id r = st_id row then row else r) rs = rs"
      by (intro map_upsert_absent) auto
    have "k \<notin> set (idem_keys rs)" if "st_idempotencyKey row = Some k" for k
    proof
      assume "k \<in> set (idem_keys rs)"
      then obtain r' where "r' \<in> set rs" "st_idempotencyKey r' = Some k"
        by (auto simp: set_idem_keys)
      moreover have "st_id row \<notin> st_id ` set rs" using True Cons.prems(1) by simp
      with \<open>r' \<in> set rs\<close> have "st_id r' \<noteq> st_id row" by (metis imageI)
      ultimately show False using free that by (auto simp: key_taken_def list_ex_iff)
    qed
    with True rest Cons.prems(2) show ?thesis by (auto split: option.splits)
  next
    case False
    have "k \<notin> set (idem_keys (map (\<lambda>r. if st_id r = st_id row then row else r) rs))"
      if k: "st_idempotencyKey r = Some k" for k
    proof
      assume "k \<in> set (idem_keys (map (\<lambda>r. if st_id r = st_id row then row else r) rs))"
      then obtain r' where "r' \<in> set rs"
        and "st_idempotencyKey (if st_id r' = st_id row then row else r') = Some k"
        by (auto simp: set_idem_keys)
      then consider "st_idempotencyKey row = Some k" | "k \<in> set (idem_keys rs)"
        by (auto simp: set_idem_keys split: if_splits)
      then show False
      proof cases
        case 1
        with k False Cons.prems(3) show False by (auto simp: key_taken_def)
      next
        case 2
        with k Cons.prems(2) show False by auto
      qed
    qed
    with False Cons free show ?thesis by (auto split: option.splits)
  qed
qed simp

lemma idem_keys_upsert:
  assumes "distinct (map st_id rs)" and "distinct (idem_keys rs)" and "\<not> key_taken row rs"
  shows "distinct (idem_keys (row_upsert row rs))"
proof (cases "list_ex (\<lambda>r. st_id r = st_id row) rs")
  case True
  with idem_keys_upsert_present [OF assms] show ?thesis by (simp add: row_upsert_def)
next
  case False
  with assms show ?thesis
    by (auto simp: row_upsert_def set_idem_keys key_taken_def list_ex_iff split: option.splits)
qed

definition keeps_ok :: "saga_db \<Rightarrow> saga_db \<Rightarrow> bool" where
  "keeps_ok db db' \<longleftrightarrow> (saga_db_ok db \<longrightarrow> saga_db_ok db')"

interpretation ok_frame: em_frame keeps_ok
  by unfold_locales (auto simp: keeps_ok_def)

lemma saga_db_ok_faults [simp]: "saga_db_ok (db\<lparr>faults := fs\<rparr>) = saga_db_ok db"
  by (simp add: saga_db_ok_def)

lemma keeps_ok_db_call:
  assumes "\<And>db. saga_db_ok db \<Longrightarrow> saga_db_ok (snd (m db))"
  shows "em_rel keeps_ok (db_call m)"
  using assms by (auto simp: em_rel_def keeps_ok_def db_call_def split: list.splits bool.splits)

lemma saga_db_ok_states:
  assumes "saga_db_ok db" and "map st_id rs = map st_id (states db)" and "distinct (idem_keys rs)"
  shows "saga_db_ok (db\<lparr>states := rs\<rparr>)"
proof -
  from assms(2) have "st_id ` set rs = st_id ` set (states db)" by (metis list.set_map)
  with assms show ?thesis by (simp add: saga_db_ok_def)
qed

lemma saga_db_ok_row_update:
  assumes "saga_db_ok db" and "\<And>r. st_id (f r) = st_id r"
    and "\<And>r. st_idempotencyKey (f r) = st_idempotencyKey r"
  shows "saga_db_ok (db\<lparr>states := row_update i f (states db)\<rparr>)"
proof (rule saga_db_ok_states [OF assms(1)])
  show "map st_id (row_update i f (states db)) = map st_id (states db)"
    using assms(2) by (simp add: row_update_def)
  have "idem_keys (row_update i f (states db)) = idem_keys (states db)"
    unfolding row_update_def by (rule idem_keys_map_same) (simp add: assms(3))
  with assms(1) show "distinct (idem_keys (row_update i f (states db)))"
    by (simp add: saga_db_ok_def)
qed

lemma store_methods_keep_ok [em_frame_intros]:
  "em_rel keeps_ok (saveState st)"
  "em_rel keeps_ok (getState i)"
  "em_rel keeps_ok (getStateByIdempotencyKey k)"
  "em_rel keeps_ok (clearIdempotencyKey k)"
  "em_rel keeps_ok (deleteState i)"
  "em_rel keeps_ok (updateStatus i status n e)"
  "em_rel keeps_ok (updateStepResults i rs)"
  "em_rel keeps_ok (updateCompensationStatus i c e)"
  "em_rel keeps_ok (getStuckSagas t)"
  "em_rel keeps_ok getFailedSagas"
proof -
  show "em_rel keeps_ok (saveState st)"
    unfolding saveState_def
  proof (rule keeps_ok_db_call)
    fix db assume ok: "saga_db_ok db"
    then show "saga_db_ok (snd (let row = state_to_row st in
        if key_taken row (states db) then (Inl UniqueViolation, db)
        else (Inr (), db\<lparr>states := row_upsert row (states db)\<rparr>)))"
      by (auto simp: Let_def saga_db_ok_def ids_upsert idem_keys_upsert set_ids_upsert)
  qed
  show "em_rel keeps_ok (clearIdempotencyKey k)"
    unfolding clearIdempotencyKey_def
  proof (rule keeps_ok_db_call)
    fix db assume ok: "saga_db_ok db"
    let ?g = "\<lambda>r. if st_idempotencyKey r = Some k then r\<lparr>st_idempotencyKey := None\<rparr> else r"
    have "distinct (idem_keys (map ?g (states db)))"
      using ok by (intro distinct_idem_keys_clear) (auto simp: saga_db_ok_def)
    moreover have "map st_id (map ?g (states db)) = map st_id (states db)" by simp
    ultimately show "saga_db_ok (snd (Inr (), db\<lparr>states := map ?g (states db)\<rparr>))"
      using saga_db_ok_states [OF ok] by (simp del: map_map)
  qed
  show "em_rel keeps_ok (deleteState i)"
    unfolding deleteState_def
    by (rule keeps_ok_db_call)
       (auto simp: saga_db_ok_def row_delete_def distinct_map_filter distinct_idem_keys_filter)
  show "em_rel keeps_ok (updateStatus i status n e)"
    unfolding updateStatus_def by (rule keeps_ok_db_call) (simp add: saga_db_ok_row_update)
  show "em_rel keeps_ok (updateStepResults i rs)"
    unfolding updateStepResults_def by (rule keeps_ok_db_call) (simp add: saga_db_ok_row_update)
  show "em_rel keeps_ok (updateCompensationStatus i c e)"
    unfolding updateCompensationStatus_def by (rule keeps_ok_db_call) (simp add: saga_db_ok_row_update)
qed (auto simp: getState_def getStateByIdempotencyKey_def getStuckSagas_def getFailedSagas_def
       intro!: keeps_ok_db_call)

subsection \<open>Reading back what was saved\<close>

lemma state_to_row_id [simp]: "st_id (state_to_row st) = st_id st"
  by (simp add: state_to_row_def)

lemma rowToState_to_row [simp]: "rowToState (state_to_row st) = state_to_row st"
  by (simp add: rowToState_def state_to_row_def)

lemma state_to_row_same:
  "st_sagaVersion st \<noteq> Some [] \<Longrightarrow> st_error st \<noteq> Some [] \<Longrightarrow> st_compError st \<noteq> Some [] \<Longrightarrow>
   st_idempotencyKey st \<noteq> Some [] \<Longrightarrow> state_to_row st = st"
  by (simp add: state_to_row_def)

end
