(* ===== verification/Saga_Locks.thy ===== *)
theory Saga_Locks
  imports Saga_State_Store
begin

section \<open>Resource locks\<close>

text \<open>
  \<open>core/src/saga/resource-lock.ts\<close>: the methods of \<open>ResourceLockManager\<close> on the
  table \<open>saga_resource_locks\<close>. The insertion fails on an existing key (the primary key)
  and on a holder without a saga row (the foreign key). \<open>acquireLock\<close> retries after
  removing an expired lock; its recursion ends because each retry starts with fewer locks
  on the resource. The theorems say who can hold a lock and for how long, whatever adapter
  calls fail.
\<close>

subsection \<open>The methods\<close>

definition lock_find :: "string \<Rightarrow> resource_lock list \<Rightarrow> resource_lock option" where
  "lock_find k ls = find (\<lambda>l. lk_key l = k) ls"

definition insertLock :: "resource_lock \<Rightarrow> (saga_db, db_error, unit) em" where
  "insertLock l = db_call (\<lambda>db.
     if lock_find (lk_key l) (locks db) \<noteq> None then (Inl UniqueViolation, db)
     else if row_lookup (lk_holder l) (states db) = None then (Inl ForeignKeyViolation, db)
     else (Inr (), db\<lparr>locks := locks db @ [l]\<rparr>))"

definition getLock :: "string \<Rightarrow> (saga_db, db_error, resource_lock option) em" where
  "getLock k = db_call (\<lambda>db. (Inr (lock_find k (locks db)), db))"

definition releaseLock :: "string \<Rightarrow> string option \<Rightarrow> (saga_db, db_error, unit) em" where
  "releaseLock k sagaId = (case or_null sagaId of
     Some s \<Rightarrow> db_call (\<lambda>db. (Inr (), db\<lparr>locks :=
       filter (\<lambda>l. \<not> (lk_key l = k \<and> lk_holder l = s)) (locks db)\<rparr>))
   | None \<Rightarrow> db_call (\<lambda>db. (Inr (), db\<lparr>locks := filter (\<lambda>l. lk_key l \<noteq> k) (locks db)\<rparr>)))"

text \<open>The test on the driver's message that tells a key conflict from other failures.\<close>

fun key_conflict :: "db_error \<Rightarrow> bool" where
  "key_conflict UniqueViolation = True"
| "key_conflict ForeignKeyViolation = False"
| "key_conflict DbIo = False"

definition locked_reason :: "resource_lock \<Rightarrow> string" where
  "locked_reason l = ''Resource is locked by saga '' @ lk_holder l @ '' until '' @ iso_string (lk_expiresAt l)"

definition released_since :: string where
  "released_since = ''Resource lock was held during acquisition and released since '' @
     [CHR 0xE2, CHR 0x80, CHR 0x94] @ '' retry''"

definition new_lock :: "string \<Rightarrow> string \<Rightarrow> msec \<Rightarrow> saga_db \<Rightarrow> resource_lock" where
  "new_lock k sagaId timeout db =
     \<lparr>lk_key = k, lk_holder = sagaId, lk_acquiredAt = clock db, lk_expiresAt = clock db + timeout\<rparr>"

definition same_key_locks :: "string \<Rightarrow> saga_db \<Rightarrow> nat" where
  "same_key_locks k db = length (filter (\<lambda>l. lk_key l = k) (locks db))"

lemma insertLock_Inl:
  "insertLock l db = (Inl e, db') \<Longrightarrow> locks db' = locks db \<and> clock db' = clock db \<and> states db' = states db"
  by (auto simp: insertLock_def db_call_def split: list.splits bool.splits if_splits)

lemma getLock_Inr:
  "getLock k db = (Inr r, db') \<Longrightarrow> r = lock_find k (locks db) \<and> locks db' = locks db \<and>
     clock db' = clock db \<and> states db' = states db"
  by (auto simp: getLock_def db_call_def split: list.splits bool.splits)

lemma releaseLock_all_Inr:
  "releaseLock k None db = (Inr u, db') \<Longrightarrow>
     locks db' = filter (\<lambda>l. lk_key l \<noteq> k) (locks db) \<and> clock db' = clock db \<and> states db' = states db"
  by (auto simp: releaseLock_def db_call_def split: list.splits bool.splits)

lemma lock_find_Some: "lock_find k ls = Some l \<Longrightarrow> l \<in> set ls \<and> lk_key l = k"
  by (auto simp: lock_find_def find_Some_iff)

lemma lock_find_None: "lock_find k ls = None \<longleftrightarrow> (\<forall>l \<in> set ls. lk_key l \<noteq> k)"
  by (auto simp: lock_find_def find_None_iff)

lemma same_key_locks_release:
  assumes "insertLock l db = (Inl e, db1)" and "getLock k db1 = (Inr (Some l'), db2)"
    and "releaseLock k None db2 = (Inr u, db3)"
  shows "same_key_locks k db3 < same_key_locks k db"
proof -
  have same: "locks db2 = locks db" and l': "lock_find k (locks db) = Some l'"
    using insertLock_Inl [OF assms(1)] getLock_Inr [OF assms(2)] by auto
  from lock_find_Some [OF l'] have "filter (\<lambda>l. lk_key l = k) (locks db) \<noteq> []"
    by (auto simp: filter_empty_conv)
  moreover have "filter (\<lambda>l. lk_key l = k) (locks db3) = []"
    using releaseLock_all_Inr [OF assms(3)] same by simp
  ultimately show ?thesis by (simp add: same_key_locks_def)
qed

function acquireLock :: "string \<Rightarrow> string \<Rightarrow> msec \<Rightarrow> saga_db \<Rightarrow> (saga_error + resource_lock) \<times> saga_db" where
  "acquireLock k sagaId timeout db =
     (let l = new_lock k sagaId timeout db in
      case insertLock l db of
        (Inr u, db1) \<Rightarrow> (Inr l, db1)
      | (Inl e, db1) \<Rightarrow>
          (case getLock k db1 of
             (Inl e', db2) \<Rightarrow> (Inl (DbFailure e'), db2)
           | (Inr (Some existing), db2) \<Rightarrow>
               if lk_expiresAt existing < clock db2
               then (case releaseLock k None db2 of
                       (Inl e', db3) \<Rightarrow> (Inl (DbFailure e'), db3)
                     | (Inr u, db3) \<Rightarrow> acquireLock k sagaId timeout db3)
               else (Inl (SagaLockError k (locked_reason existing)), db2)
           | (Inr None, db2) \<Rightarrow>
               if key_conflict e then (Inl (SagaLockError k released_since), db2)
               else (Inl (DbFailure e), db2)))"
  by pat_completeness auto
termination
  by (relation "measure (\<lambda>(k, s, t, db). same_key_locks k db)")
     (simp, metis case_prod_conv in_measure same_key_locks_release)

declare acquireLock.simps [simp del]

definition releaseAllForSaga :: "string \<Rightarrow> (saga_db, 'e, nat) em" where
  "releaseAllForSaga sagaId = ecatch
     (db_call (\<lambda>db. (Inr (length (filter (\<lambda>l. lk_holder l = sagaId) (locks db))),
        db\<lparr>locks := filter (\<lambda>l. lk_holder l \<noteq> sagaId) (locks db)\<rparr>)))
     (\<lambda>_. ereturn 0)"

definition cleanupExpiredLocks :: "(saga_db, 'e, nat) em" where
  "cleanupExpiredLocks = ecatch
     (db_call (\<lambda>db. (Inr (length (filter (\<lambda>l. lk_expiresAt l < clock db) (locks db))),
        db\<lparr>locks := filter (\<lambda>l. \<not> lk_expiresAt l < clock db) (locks db)\<rparr>)))
     (\<lambda>_. ereturn 0)"

definition extendLock :: "string \<Rightarrow> string \<Rightarrow> msec \<Rightarrow> (saga_db, saga_error, unit) em" where
  "extendLock k sagaId additionalTimeout =
     ebind (emap_err DbFailure (getLock k)) (\<lambda>l.
       case l of
         Some lock \<Rightarrow>
           if lk_holder lock \<noteq> sagaId then ethrow (SagaLockError k ''Lock not held by this saga'')
           else emap_err DbFailure (db_call (\<lambda>db.
             (Inr (), db\<lparr>locks := map (\<lambda>r. if lk_key r = k \<and> lk_holder r = sagaId
                then r\<lparr>lk_expiresAt := lk_expiresAt lock + additionalTimeout\<rparr> else r) (locks db)\<rparr>)))
       | None \<Rightarrow> ethrow (SagaLockError k ''Lock not held by this saga''))"

text \<open>Locks for holders that are not sagas: a stub row of type \<open>external-lock\<close> satisfies
  the foreign key and is removed with the lock.\<close>

definition external_stub :: "string \<Rightarrow> msec \<Rightarrow> saga_state" where
  "external_stub holderId now = \<lparr>st_id = holderId, st_sagaType = ''external-lock'',
     st_sagaVersion = None, st_context = ''{}'', st_status = Executing, st_currentStep = 0,
     st_stepResults = [], st_startedAt = now, st_completedAt = None, st_error = None,
     st_compStatus = None, st_compCompletedAt = None, st_compError = None,
     st_idempotencyKey = None, st_correlationId = holderId\<rparr>"

definition insertExternalStub :: "string \<Rightarrow> (saga_db, db_error, unit) em" where
  "insertExternalStub holderId = db_call (\<lambda>db.
     (Inr (), if row_lookup holderId (states db) = None
              then db\<lparr>states := states db @ [external_stub holderId (clock db)]\<rparr> else db))"

definition deleteExternalStub :: "string \<Rightarrow> (saga_db, db_error, unit) em" where
  "deleteExternalStub holderId = db_call (\<lambda>db.
     let gone = (\<lambda>r. st_id r = holderId \<and> st_sagaType r = ''external-lock'') in
     (Inr (), db\<lparr>states := filter (\<lambda>r. \<not> gone r) (states db),
        locks := filter (\<lambda>l. \<not> list_ex (\<lambda>r. gone r \<and> st_id r = lk_holder l) (states db)) (locks db)\<rparr>))"

definition acquireExternalLock :: "string \<Rightarrow> string \<Rightarrow> msec \<Rightarrow> (saga_db, saga_error, resource_lock) em" where
  "acquireExternalLock k holderId timeout =
     eseq (emap_err DbFailure (insertExternalStub holderId))
       (ecatch (acquireLock k holderId timeout)
          (\<lambda>e. eseq (equiet (deleteExternalStub holderId)) (ethrow e)))"

definition releaseExternalLock :: "string \<Rightarrow> string \<Rightarrow> (saga_db, db_error, unit) em" where
  "releaseExternalLock k holderId = eseq (releaseLock k (Some holderId)) (deleteExternalStub holderId)"

subsection \<open>Integrity\<close>

lemma saga_db_ok_locks_filter: "saga_db_ok db \<Longrightarrow> saga_db_ok (db\<lparr>locks := filter P (locks db)\<rparr>)"
  by (auto simp: saga_db_ok_def distinct_map_filter)

lemma insertLock_keeps_ok [em_frame_intros]: "em_rel keeps_ok (insertLock l)"
  unfolding insertLock_def
  by (rule keeps_ok_db_call)
     (auto simp: saga_db_ok_def lock_find_None row_lookup_None)

lemma getLock_keeps_ok [em_frame_intros]: "em_rel keeps_ok (getLock k)"
  unfolding getLock_def by (rule keeps_ok_db_call) simp

lemma releaseLock_keeps_ok [em_frame_intros]: "em_rel keeps_ok (releaseLock k s)"
  unfolding releaseLock_def
  by (auto split: option.splits intro!: keeps_ok_db_call saga_db_ok_locks_filter)

lemma acquireLock_rel:
  assumes ins: "\<And>k s t db. R db (snd (insertLock (new_lock k s t db) db))"
    and get: "\<And>k. em_rel R (getLock k)"
    and rel: "\<And>k db e. lock_find k (locks db) = Some e \<Longrightarrow> lk_expiresAt e < clock db \<Longrightarrow>
      R db (snd (releaseLock k None db))"
    and tr: "\<And>a b c. R a b \<Longrightarrow> R b c \<Longrightarrow> R a c"
  shows "R db (snd (acquireLock k s t db))"
proof (induction k s t db rule: acquireLock.induct)
  case (1 k s t db)
  obtain r1 db1 where i: "insertLock (new_lock k s t db) db = (r1, db1)" by fastforce
  obtain r2 db2 where g: "getLock k db1 = (r2, db2)" by fastforce
  have R01: "R db db1" using ins [of db k s t] i by simp
  have R02: "R db db2" using tr [OF R01 em_relD' [OF get g]] .
  show "R db (snd (acquireLock k s t db))"
  proof (cases r1)
    case (Inr u)
    with i R01 show ?thesis by (subst acquireLock.simps) simp
  next
    case e: (Inl e)
    show ?thesis
    proof (cases r2)
      case (Inl e')
      with i e g R02 show ?thesis by (subst acquireLock.simps) simp
    next
      case r2: (Inr lo)
      show ?thesis
      proof (cases "\<exists>l. lo = Some l \<and> lk_expiresAt l < clock db2")
        case False
        with i e g r2 R02 show ?thesis
          by (subst acquireLock.simps) (auto split: option.splits)
      next
        case True
        then obtain l where l: "lo = Some l" "lk_expiresAt l < clock db2" by blast
        obtain r3 db3 where f: "releaseLock k None db2 = (r3, db3)" by fastforce
        from getLock_Inr [OF g [unfolded r2]] l have "lock_find k (locks db2) = Some l" by simp
        from rel [OF this l(2)] f have "R db2 db3" by simp
        with R02 have R03: "R db db3" by (rule tr)
        show ?thesis
        proof (cases r3)
          case (Inl e')
          with i e g r2 l f R03 show ?thesis by (subst acquireLock.simps) simp
        next
          case r3: (Inr u)
          from "1.IH" [of "new_lock k s t db" "Inl e" db1 e r2 db2 lo l r3 db3 u]
          have "R db3 (snd (acquireLock k s t db3))"
            using i e g r2 l f r3 by simp
          with R03 have "R db (snd (acquireLock k s t db3))" by (rule tr)
          with i e g r2 l f r3 show ?thesis by (subst acquireLock.simps) simp
        qed
      qed
    qed
  qed
qed

lemma acquireLock_keeps_ok [em_frame_intros]: "em_rel keeps_ok (acquireLock k s t)"
  by (rule em_relI, rule acquireLock_rel)
     (auto intro: em_relD insertLock_keeps_ok getLock_keeps_ok releaseLock_keeps_ok ok_frame.frame_trans)

lemma releaseAllForSaga_keeps_ok [em_frame_intros]: "em_rel keeps_ok (releaseAllForSaga i)"
  unfolding releaseAllForSaga_def
  by (intro ok_frame.rel_catch ok_frame.rel_return keeps_ok_db_call) (simp add: saga_db_ok_locks_filter)

lemma cleanupExpiredLocks_keeps_ok [em_frame_intros]: "em_rel keeps_ok cleanupExpiredLocks"
  unfolding cleanupExpiredLocks_def
  by (intro ok_frame.rel_catch ok_frame.rel_return keeps_ok_db_call) (simp add: saga_db_ok_locks_filter)

lemma saga_db_ok_locks_map:
  assumes "saga_db_ok db" and "\<And>l. lk_key (f l) = lk_key l" and "\<And>l. lk_holder (f l) = lk_holder l"
  shows "saga_db_ok (db\<lparr>locks := map f (locks db)\<rparr>)"
proof -
  have "map lk_key (map f (locks db)) = map lk_key (locks db)" using assms(2) by simp
  moreover have "lk_holder ` set (map f (locks db)) = lk_holder ` set (locks db)"
    using assms(3) by (simp add: image_image)
  ultimately show ?thesis using assms(1) by (simp add: saga_db_ok_def del: map_map set_map)
qed

lemma extendLock_keeps_ok [em_frame_intros]: "em_rel keeps_ok (extendLock k s t)"
  unfolding extendLock_def
  by (auto intro!: ok_frame.rel_intros getLock_keeps_ok keeps_ok_db_call saga_db_ok_locks_map
      split: option.splits)

lemma insertExternalStub_keeps_ok [em_frame_intros]: "em_rel keeps_ok (insertExternalStub h)"
  unfolding insertExternalStub_def
  by (rule keeps_ok_db_call) (auto simp: saga_db_ok_def row_lookup_None external_stub_def)

lemma deleteExternalStub_keeps_ok [em_frame_intros]: "em_rel keeps_ok (deleteExternalStub h)"
  unfolding deleteExternalStub_def
proof (rule keeps_ok_db_call)
  fix db assume ok: "saga_db_ok db"
  let ?gone = "\<lambda>r. st_id r = h \<and> st_sagaType r = ''external-lock''"
  let ?ls = "filter (\<lambda>l. \<not> list_ex (\<lambda>r. ?gone r \<and> st_id r = lk_holder l) (states db)) (locks db)"
  let ?rs = "filter (\<lambda>r. \<not> ?gone r) (states db)"
  have "lk_holder l \<in> st_id ` set ?rs" if l: "l \<in> set ?ls" for l
  proof -
    from l ok obtain r where "r \<in> set (states db)" "lk_holder l = st_id r"
      by (auto simp: saga_db_ok_def)
    with l show ?thesis by (auto simp: list_ex_iff)
  qed
  with ok show "saga_db_ok (snd (let gone = ?gone in
      (Inr (), db\<lparr>states := filter (\<lambda>r. \<not> gone r) (states db),
        locks := filter (\<lambda>l. \<not> list_ex (\<lambda>r. gone r \<and> st_id r = lk_holder l) (states db)) (locks db)\<rparr>)))"
    by (auto simp: saga_db_ok_def distinct_map_filter distinct_idem_keys_filter Let_def)
qed

lemma external_locks_keep_ok [em_frame_intros]:
  "em_rel keeps_ok (acquireExternalLock k h t)"
  "em_rel keeps_ok (releaseExternalLock k h)"
  unfolding acquireExternalLock_def releaseExternalLock_def
  by (intro ok_frame.rel_intros em_frame_intros)+

subsection \<open>What acquisition does\<close>

lemma lock_find_drop: "lock_find k (filter (\<lambda>l. lk_key l \<noteq> k) ls) = None"
  by (simp add: lock_find_None)

lemma acquireLock_free:
  assumes "faults db = []" and "lock_find k (locks db) = None" and "row_lookup s (states db) \<noteq> None"
  shows "acquireLock k s t db =
     (Inr (new_lock k s t db), db\<lparr>locks := locks db @ [new_lock k s t db]\<rparr>)"
  using assms by (subst acquireLock.simps) (auto simp: insertLock_def new_lock_def Let_def)

lemma acquireLock_held:
  assumes "faults db = []" and "lock_find k (locks db) = Some e" and "clock db \<le> lk_expiresAt e"
  shows "acquireLock k s t db = (Inl (SagaLockError k (locked_reason e)), db)"
  using assms by (subst acquireLock.simps) (simp add: insertLock_def getLock_def new_lock_def)

lemma acquireLock_expired:
  assumes "faults db = []" and "lock_find k (locks db) = Some e" and "lk_expiresAt e < clock db"
    and "row_lookup s (states db) \<noteq> None"
  shows "acquireLock k s t db =
     (let rest = filter (\<lambda>l. lk_key l \<noteq> k) (locks db)
      in (Inr (new_lock k s t db), db\<lparr>locks := rest @ [new_lock k s t db]\<rparr>))"
proof -
  let ?db = "db\<lparr>locks := filter (\<lambda>l. lk_key l \<noteq> k) (locks db)\<rparr>"
  have "acquireLock k s t db = acquireLock k s t ?db"
    using assms by (subst acquireLock.simps)
      (auto simp: insertLock_def getLock_def releaseLock_def new_lock_def Let_def)
  also have "\<dots> = (Inr (new_lock k s t ?db), ?db\<lparr>locks := locks ?db @ [new_lock k s t ?db]\<rparr>)"
    using assms by (intro acquireLock_free) (simp_all add: lock_find_drop)
  finally show ?thesis by (simp add: new_lock_def Let_def)
qed

lemma acquireLock_unexpired_fails:
  assumes ok: "saga_db_ok db" and l: "l \<in> set (locks db)" "lk_key l = k" "clock db \<le> lk_expiresAt l"
  shows "\<exists>e. fst (acquireLock k s t db) = Inl e"
proof -
  have find: "lock_find k (locks db) = Some l"
  proof (cases "lock_find k (locks db)")
    case None
    with l show ?thesis by (auto simp: lock_find_None)
  next
    case (Some l')
    from lock_find_Some [OF this] l ok have "l' = l"
      by (auto simp: saga_db_ok_def distinct_map inj_on_def)
    with Some show ?thesis by simp
  qed
  obtain r1 db1 where i1: "insertLock (new_lock k s t db) db = (r1, db1)" by fastforce
  with find obtain e where r1: "r1 = Inl e"
    by (auto simp: insertLock_def new_lock_def db_call_def split: list.splits bool.splits)
  note i = i1 [unfolded r1]
  obtain r2 db2 where g: "getLock k db1 = (r2, db2)" by fastforce
  show ?thesis
  proof (cases r2)
    case (Inl e')
    with i g show ?thesis by (subst acquireLock.simps) simp
  next
    case (Inr lo)
    with getLock_Inr [OF g [unfolded Inr]] insertLock_Inl [OF i] find l(3) i g show ?thesis
      by (subst acquireLock.simps) simp
  qed
qed

subsection \<open>No other caller takes an unexpired lock\<close>

text \<open>
  The steps that callers other than the saga \<open>sid\<close> can take between two moments of its
  run: their lock operations, every row update, time passing, and any change of the
  coming failures. The rules name the methods with their preconditions: a caller releases
  under its own, non-empty id, and removes its own row.
\<close>

inductive other_step :: "string \<Rightarrow> saga_db \<Rightarrow> saga_db \<Rightarrow> bool" for sid where
  acquire: "other_step sid db (snd (acquireLock k s t db))"
| release: "s \<noteq> sid \<Longrightarrow> s \<noteq> [] \<Longrightarrow> other_step sid db (snd (releaseLock k (Some s) db))"
| release_all: "s \<noteq> sid \<Longrightarrow>
    other_step sid db (snd ((releaseAllForSaga s :: (saga_db, db_error, nat) em) db))"
| extend: "s \<noteq> sid \<Longrightarrow> other_step sid db (snd (extendLock k s t db))"
| cleanup: "other_step sid db (snd ((cleanupExpiredLocks :: (saga_db, db_error, nat) em) db))"
| save: "other_step sid db (snd (saveState st db))"
| status: "other_step sid db (snd (updateStatus i status n e db))"
| results: "other_step sid db (snd (updateStepResults i rs db))"
| compensation: "other_step sid db (snd (updateCompensationStatus i c e db))"
| clear: "other_step sid db (snd (clearIdempotencyKey k db))"
| delete: "s \<noteq> sid \<Longrightarrow> other_step sid db (snd (deleteState s db))"
| tick: "0 \<le> d \<Longrightarrow> other_step sid db (db\<lparr>clock := clock db + d\<rparr>)"
| failures: "other_step sid db (db\<lparr>faults := fs\<rparr>)"

definition lock_kept :: "string \<Rightarrow> saga_db \<Rightarrow> saga_db \<Rightarrow> bool" where
  "lock_kept sid db db' \<longleftrightarrow> (saga_db_ok db \<longrightarrow> saga_db_ok db' \<and> clock db \<le> clock db' \<and>
     (\<forall>l \<in> set (locks db). lk_holder l = sid \<and> clock db' \<le> lk_expiresAt l \<longrightarrow> l \<in> set (locks db')))"

interpretation kept_frame: em_frame "lock_kept sid" for sid
  by unfold_locales (auto simp: lock_kept_def)

text \<open>An operation that keeps the integrity, the clock and the locks of \<open>sid\<close> is fine.\<close>

lemma lock_kept_db_call:
  assumes "em_rel keeps_ok (db_call m)"
    and "\<And>db. clock (snd (m db)) = clock db"
    and "\<And>db l. saga_db_ok db \<Longrightarrow> l \<in> set (locks db) \<Longrightarrow> lk_holder l = sid \<Longrightarrow>
      clock db \<le> lk_expiresAt l \<Longrightarrow> l \<in> set (locks (snd (m db)))"
  shows "em_rel (lock_kept sid) (db_call m)"
proof (rule em_relI)
  fix db
  have ok: "saga_db_ok db \<Longrightarrow> saga_db_ok (snd (db_call m db))"
    using em_relD [OF assms(1), of db] by (simp add: keeps_ok_def)
  have run: "clock (snd (m t)) = clock t" for t using assms(2) .
  have keep: "l \<in> set (locks (snd (m (db\<lparr>faults := fs\<rparr>))))"
    if "saga_db_ok db" "l \<in> set (locks db)" "lk_holder l = sid" "clock db \<le> lk_expiresAt l" for l fs
    using assms(3) [of "db\<lparr>faults := fs\<rparr>" l] that by simp
  have "clock (snd (db_call m db)) = clock db"
    by (auto simp: db_call_def run split: list.splits bool.splits)
  moreover have "l \<in> set (locks (snd (db_call m db)))"
    if "saga_db_ok db" "l \<in> set (locks db)" "lk_holder l = sid" "clock db \<le> lk_expiresAt l" for l
    using assms(3) [OF that] keep [OF that] that
    by (auto simp: db_call_def split: list.splits bool.splits)
  ultimately show "lock_kept sid db (snd (db_call m db))"
    using ok by (simp add: lock_kept_def)
qed

lemma lock_kept_release_expired:
  assumes "lock_find k (locks db) = Some e" and "lk_expiresAt e < clock db"
  shows "lock_kept sid db (snd (releaseLock k None db))"
proof -
  have "l \<in> set (locks (snd (releaseLock k None db)))"
    if ok: "saga_db_ok db" and l: "l \<in> set (locks db)" "clock db \<le> lk_expiresAt l" for l
  proof -
    have "lk_key l \<noteq> k"
    proof
      assume "lk_key l = k"
      with lock_find_Some [OF assms(1)] l(1) ok have "l = e"
        by (auto simp: saga_db_ok_def distinct_map inj_on_def)
      with assms(2) l(2) show False by simp
    qed
    with l(1) show ?thesis
      by (auto simp: releaseLock_def db_call_def split: list.splits bool.splits)
  qed
  moreover have "clock (snd (releaseLock k None db)) = clock db"
    by (auto simp: releaseLock_def db_call_def split: list.splits bool.splits)
  ultimately show ?thesis
    using em_relD [OF releaseLock_keeps_ok, of db k None] by (simp add: lock_kept_def keeps_ok_def)
qed

lemma insertLock_kept: "em_rel (lock_kept sid) (insertLock l)"
  using insertLock_keeps_ok [of l] unfolding insertLock_def by (rule lock_kept_db_call) auto

lemma getLock_kept: "em_rel (lock_kept sid) (getLock k)"
  using getLock_keeps_ok [of k] unfolding getLock_def by (rule lock_kept_db_call) auto

lemma acquireLock_kept: "lock_kept sid db (snd (acquireLock k s t db))"
  by (rule acquireLock_rel)
     (auto intro: em_relD [OF insertLock_kept] getLock_kept lock_kept_release_expired
        kept_frame.frame_trans)

lemma releaseLock_kept: "s \<noteq> sid \<Longrightarrow> s \<noteq> [] \<Longrightarrow> em_rel (lock_kept sid) (releaseLock k (Some s))"
  using releaseLock_keeps_ok [of k "Some s"] unfolding releaseLock_def
  by (simp, intro lock_kept_db_call) auto

lemma releaseAllForSaga_kept: "s \<noteq> sid \<Longrightarrow> em_rel (lock_kept sid) (releaseAllForSaga s)"
  unfolding releaseAllForSaga_def
  by (intro kept_frame.rel_intros lock_kept_db_call keeps_ok_db_call) (auto simp: saga_db_ok_locks_filter)

lemma cleanupExpiredLocks_kept: "em_rel (lock_kept sid) cleanupExpiredLocks"
  unfolding cleanupExpiredLocks_def
  by (intro kept_frame.rel_intros lock_kept_db_call keeps_ok_db_call) (auto simp: saga_db_ok_locks_filter)

lemma extendLock_kept:
  assumes "s \<noteq> sid"
  shows "em_rel (lock_kept sid) (extendLock k s t)"
proof -
  let ?m = "\<lambda>lock db. (Inr (), db\<lparr>locks := map (\<lambda>r. if lk_key r = k \<and> lk_holder r = s
        then r\<lparr>lk_expiresAt := lk_expiresAt lock + t\<rparr> else r) (locks db)\<rparr>)"
  have "em_rel (lock_kept sid) (db_call (?m lock))" for lock
    using assms
    by (intro lock_kept_db_call keeps_ok_db_call) (auto intro!: saga_db_ok_locks_map image_eqI)
  then show ?thesis
    unfolding extendLock_def
    by (auto intro!: kept_frame.rel_intros getLock_kept split: option.splits)
qed

lemma store_methods_kept:
  "em_rel (lock_kept sid) (saveState st)"
  "em_rel (lock_kept sid) (updateStatus i status n e)"
  "em_rel (lock_kept sid) (updateStepResults i rs)"
  "em_rel (lock_kept sid) (updateCompensationStatus i c e)"
  "em_rel (lock_kept sid) (clearIdempotencyKey key)"
  "s \<noteq> sid \<Longrightarrow> em_rel (lock_kept sid) (deleteState s)"
  using store_methods_keep_ok
  unfolding saveState_def updateStatus_def updateStepResults_def updateCompensationStatus_def
    clearIdempotencyKey_def deleteState_def
  by (auto intro!: lock_kept_db_call simp: Let_def)

lemma other_step_kept: "other_step sid db db' \<Longrightarrow> lock_kept sid db db'"
proof (induction rule: other_step.induct)
  case (tick d db)
  then show ?case by (auto simp: lock_kept_def saga_db_ok_def)
qed (auto intro: acquireLock_kept em_relD releaseLock_kept releaseAllForSaga_kept extendLock_kept
      cleanupExpiredLocks_kept store_methods_kept simp: lock_kept_def [of _ _ "_\<lparr>faults := _\<rparr>"])

lemma other_steps_kept: "(other_step sid)\<^sup>*\<^sup>* db db' \<Longrightarrow> lock_kept sid db db'"
  by (induction rule: rtranclp_induct)
     (auto intro: kept_frame.frame_refl kept_frame.frame_trans other_step_kept)

end
