(* ===== verification/Saga_Idempotency.thy ===== *)
theory Saga_Idempotency
  imports Saga_Locks
begin

section \<open>Idempotency keys\<close>

text \<open>
  \<open>core/src/saga/idempotency.ts\<close>: the derivation of an idempotency key from a saga
  context, and the check that answers a repeated operation from the stored results or
  refuses it while the first run is in flight.
\<close>

subsection \<open>What the engine takes from outside\<close>

text \<open>
  \<open>js_stringify\<close> and \<open>js_parse\<close> are \<open>JSON.stringify\<close> and \<open>JSON.parse\<close> on
  step results (\<open>None\<close> is \<open>undefined\<close>, which has no JSON text); \<open>js_context\<close> is
  the JSON text of a context; \<open>js_digest\<close> is the first 32 hex digits of SHA-256 over the
  JSON text of the stable content, from Node's \<open>crypto\<close>.
\<close>

record stable_content =
  sc_user :: user_id
  sc_recordId :: "string option"
  sc_draftId :: "string option"
  sc_request :: "string option"

record 'r js_env =
  js_stringify :: "'r \<Rightarrow> string option"
  js_parse :: "string \<Rightarrow> 'r"
  js_context :: "saga_context \<Rightarrow> string"
  js_digest :: "stable_content \<Rightarrow> string"

record 'r exec_result =
  er_result :: "'r option"
  er_sagaId :: string
  er_duration :: msec
  er_compensated :: bool

record idempotency_manager =
  im_ttl :: msec
  im_autoKeyTtl :: msec

definition default_idempotency_manager :: idempotency_manager where
  "default_idempotency_manager = \<lparr>im_ttl = 24 * 60 * 60 * 1000, im_autoKeyTtl = 5 * 60 * 1000\<rparr>"

definition IN_FLIGHT_STALENESS_MS :: msec where
  "IN_FLIGHT_STALENESS_MS = 6 * 60 * 1000"

subsection \<open>Deriving the key\<close>

definition user_or_anonymous :: "saga_context \<Rightarrow> user_id" where
  "user_or_anonymous ctx = (case cx_user ctx of None \<Rightarrow> UserStr ''anonymous'' | Some u \<Rightarrow> u)"

definition stable_of :: "saga_context \<Rightarrow> stable_content" where
  "stable_of ctx = \<lparr>sc_user = user_or_anonymous ctx,
     sc_recordId = cx_recordId ctx,
     sc_draftId = (case cx_draftId ctx of Some d \<Rightarrow> Some d | None \<Rightarrow> cx_metadata ctx ''draftId''),
     sc_request = cx_request ctx\<rparr>"

definition scoped_key :: "string \<Rightarrow> user_id \<Rightarrow> string \<Rightarrow> string" where
  "scoped_key sagaType u key = ''saga:key:'' @ sagaType @ '':'' @ show_user_id u @ '':'' @ key"

definition normalized_key :: "string \<Rightarrow> bool" where
  "normalized_key key \<longleftrightarrow> str_starts_with key ''saga:key:'' \<or> str_starts_with key ''saga:auto:''"

definition generateIdempotencyKey :: "(stable_content \<Rightarrow> string) \<Rightarrow> string \<Rightarrow> saga_context \<Rightarrow> string" where
  "generateIdempotencyKey digest sagaType ctx =
     (let userId = user_or_anonymous ctx in
      case or_null (cx_idempotencyKey ctx) of
        Some key \<Rightarrow> if normalized_key key then key else scoped_key sagaType userId key
      | None \<Rightarrow> ''saga:auto:'' @ sagaType @ '':'' @ digest (stable_of ctx))"

subsection \<open>Checking the key\<close>

definition key_ttl :: "idempotency_manager \<Rightarrow> string \<Rightarrow> msec" where
  "key_ttl im key = (if str_starts_with key ''saga:auto:'' then im_autoKeyTtl im else im_ttl im)"

definition final_result :: "'r js_env \<Rightarrow> string option list \<Rightarrow> 'r option" where
  "final_result js rs = (if rs = [] then None else map_option (js_parse js) (last rs))"

definition cached_result :: "'r js_env \<Rightarrow> saga_state \<Rightarrow> 'r exec_result" where
  "cached_result js st = \<lparr>er_result = final_result js (st_stepResults st), er_sagaId = st_id st,
     er_duration = (case st_completedAt st of Some c \<Rightarrow> c - st_startedAt st | None \<Rightarrow> 0),
     er_compensated = False\<rparr>"

definition checkIdempotency :: "idempotency_manager \<Rightarrow> 'r js_env \<Rightarrow> string option \<Rightarrow>
    (saga_db, saga_error, 'r exec_result option) em" where
  "checkIdempotency im js idempotencyKey =
     (case or_null idempotencyKey of
        None \<Rightarrow> ereturn None
      | Some key \<Rightarrow>
          ebind (emap_err DbFailure (getStateByIdempotencyKey key)) (\<lambda>existing.
            case existing of
              None \<Rightarrow> ereturn None
            | Some st \<Rightarrow>
                ebind date_now (\<lambda>now.
                  let age = now - st_startedAt st in
                  if key_ttl im key < age then ereturn None
                  else if st_status st = Completed then ereturn (Some (cached_result js st))
                  else if (st_status st = Executing \<or> st_status st = Pending) \<and> age \<le> IN_FLIGHT_STALENESS_MS
                  then ethrow (SagaDuplicateError key (st_id st))
                  else ereturn None)))"

subsection \<open>Facts about keys\<close>

lemma generateIdempotencyKey_nonempty: "generateIdempotencyKey digest t ctx \<noteq> []"
proof (cases "or_null (cx_idempotencyKey ctx)")
  case None
  then show ?thesis by (simp add: generateIdempotencyKey_def)
next
  case (Some key)
  have "key \<noteq> []"
    using Some by (auto simp: or_null_def split: option.splits list.splits)
  with Some show ?thesis by (simp add: generateIdempotencyKey_def scoped_key_def)
qed

lemma normalized_generated: "normalized_key (generateIdempotencyKey digest t ctx)"
  by (auto simp: generateIdempotencyKey_def normalized_key_def scoped_key_def Let_def
      split: option.splits)

lemma generate_key_given:
  "cx_idempotencyKey ctx = Some key \<Longrightarrow> key \<noteq> [] \<Longrightarrow> \<not> normalized_key key \<Longrightarrow>
     generateIdempotencyKey digest t ctx = scoped_key t (user_or_anonymous ctx) key"
  by (simp add: generateIdempotencyKey_def)

lemma checkIdempotency_keeps_ok [em_frame_intros]: "em_rel keeps_ok (checkIdempotency im js key)"
  unfolding checkIdempotency_def date_now_def Let_def
  by (auto intro!: ok_frame.rel_intros em_frame_intros split: option.splits)

text \<open>The check only reads: it leaves rows and locks alone.\<close>

lemma getStateByIdempotencyKey_reads:
  "getStateByIdempotencyKey k db = (r, db') \<Longrightarrow> states db' = states db \<and> locks db' = locks db \<and> clock db' = clock db"
  by (auto simp: getStateByIdempotencyKey_def db_call_def split: list.splits bool.splits)

lemma checkIdempotency_reads:
  "checkIdempotency im js key db = (r, db') \<Longrightarrow>
     states db' = states db \<and> locks db' = locks db \<and> clock db' = clock db"
  by (auto simp: checkIdempotency_def em_defs date_now_def Let_def
      split: option.splits prod.splits sum.splits if_splits dest: getStateByIdempotencyKey_reads)

lemma checkIdempotency_no_faults:
  assumes "faults db = []" and "key \<noteq> []"
  shows "checkIdempotency im js (Some key) db =
     (case find (\<lambda>r. st_idempotencyKey r = Some key) (states db) of
        None \<Rightarrow> (Inr None, db)
      | Some row \<Rightarrow>
          let st = rowToState row; age = clock db - st_startedAt st in
          if key_ttl im key < age then (Inr None, db)
          else if st_status st = Completed then (Inr (Some (cached_result js st)), db)
          else if (st_status st = Executing \<or> st_status st = Pending) \<and> age \<le> IN_FLIGHT_STALENESS_MS
          then (Inl (SagaDuplicateError key (st_id st)), db)
          else (Inr None, db))"
  using assms
  by (auto simp: checkIdempotency_def em_defs date_now_def getStateByIdempotencyKey_def Let_def
      split: option.splits)

end
