(* ===== verification/Saga_Executor.thy ===== *)
theory Saga_Executor
  imports Saga_Idempotency
begin

section \<open>The saga executor\<close>

text \<open>
  \<open>core/src/saga/saga-executor.ts\<close>. A saga is a list of steps over an application state;
  \<open>execute\<close> derives the idempotency key, answers a repeated call from the stored
  results, writes the parent row, takes the resource lock, claims the key, runs the steps
  with the row updated before and after each, compensates on a step failure, and releases
  the lock in its \<open>finally\<close> block.

  A race of a step against its timer is the outcome the step reports: it returned, it
  threw, its own timer fired first, or the timer of the whole saga fired while it was
  pending. Every step also reports the milliseconds that passed. The application state is
  the part of the world the steps read and write (files, git, record tables).
\<close>

subsection \<open>Steps, sagas and the world\<close>

datatype 'r step_outcome = Returned 'r | Threw saga_error | StepTimer | SagaTimer

record ('w, 'r) saga_step =
  sp_name :: string
  sp_isCompensatable :: bool
  sp_timeout :: "msec option"
  sp_execute :: "saga_context \<Rightarrow> 'w \<Rightarrow> 'r step_outcome \<times> nat \<times> 'w"
  sp_compensate :: "(saga_context \<Rightarrow> 'r option \<Rightarrow> 'w \<Rightarrow> (saga_error + unit) \<times> 'w) option"

record ('w, 'r) saga =
  sg_name :: string
  sg_version :: "string option"
  sg_steps :: "('w, 'r) saga_step list"
  sg_validate :: "(saga_context \<Rightarrow> bool \<times> string list option) option"

record audit_event =
  au_action :: string
  au_resourceId :: "string option"
  au_userId :: "nat option"
  au_success :: bool
  au_message :: string
  au_durationMs :: "msec option"
  au_correlationId :: string

text \<open>The world: the database, the application state, and the two audit trails (the file
  and the table).\<close>

record 'w world =
  w_db :: saga_db
  w_app :: 'w
  w_audit_file :: "audit_event list"
  w_audit_table :: "audit_event list"

record saga_config =
  cf_defaultTimeout :: msec
  cf_defaultStepTimeout :: msec
  cf_lockTimeout :: msec
  cf_idempotencyTtl :: msec
  cf_persistState :: bool

record saga_config_opts =
  co_defaultTimeout :: "msec option"
  co_defaultStepTimeout :: "msec option"
  co_lockTimeout :: "msec option"
  co_idempotencyTtl :: "msec option"
  co_persistState :: "bool option"

definition or_default :: "msec option \<Rightarrow> msec \<Rightarrow> msec" where
  "or_default x d = (case x of None \<Rightarrow> d | Some v \<Rightarrow> if v = 0 then d else v)"

text \<open>The constructor. \<open>0\<close> counts as absent, as with JavaScript's \<open>||\<close>.\<close>

definition mk_config :: "saga_config_opts \<Rightarrow> saga_config" where
  "mk_config co =
     (let defaultTimeout = or_default (co_defaultTimeout co) 300000 in
      \<lparr>cf_defaultTimeout = defaultTimeout,
       cf_defaultStepTimeout = or_default (co_defaultStepTimeout co) 60000,
       cf_lockTimeout = or_default (co_lockTimeout co) (defaultTimeout + 30000),
       cf_idempotencyTtl = or_default (co_idempotencyTtl co) (24 * 60 * 60 * 1000),
       cf_persistState = (co_persistState co \<noteq> Some False)\<rparr>)"

record 'r executor =
  ex_config :: saga_config
  ex_idempotency :: idempotency_manager
  ex_js :: "'r js_env"
  ex_audit :: bool

subsection \<open>Access to the parts of the world\<close>

definition on_db :: "(saga_db, 'e, 'a) em \<Rightarrow> ('w world, 'e, 'a) em" where
  "on_db m = ezoom w_db (\<lambda>db w. w\<lparr>w_db := db\<rparr>) m"

definition store :: "(saga_db, db_error, 'a) em \<Rightarrow> ('w world, saga_error, 'a) em" where
  "store m = emap_err DbFailure (on_db m)"

definition on_app :: "('w \<Rightarrow> (saga_error + 'a) \<times> 'w) \<Rightarrow> ('w world, saga_error, 'a) em" where
  "on_app f = ezoom w_app (\<lambda>a w. w\<lparr>w_app := a\<rparr>) f"

subsection \<open>Audit entries\<close>

text \<open>\<open>AuditChannel.record\<close>: the file first, whatever happens, then the table, whose
  failure propagates; \<open>auditSagaLifecycle\<close> swallows it.\<close>

definition audit_record :: "audit_event \<Rightarrow> ('w world, db_error, unit) em" where
  "audit_record ev = eseq (emodify (\<lambda>w. w\<lparr>w_audit_file := w_audit_file w @ [ev]\<rparr>))
     (eseq (on_db (db_call (ereturn ())))
       (emodify (\<lambda>w. w\<lparr>w_audit_table := w_audit_table w @ [ev]\<rparr>)))"

datatype audit_phase = AuditStart | AuditComplete | AuditFailure

fun show_phase :: "audit_phase \<Rightarrow> string" where
  "show_phase AuditStart = ''start''"
| "show_phase AuditComplete = ''complete''"
| "show_phase AuditFailure = ''failure''"

definition audit_user :: "saga_context \<Rightarrow> nat option" where
  "audit_user ctx = (case cx_userId ctx of Some n \<Rightarrow> Some n
     | None \<Rightarrow> (case cx_user ctx of Some (UserNum n) \<Rightarrow> Some n | _ \<Rightarrow> None))"

definition audit_event_of :: "string \<Rightarrow> saga_context \<Rightarrow> audit_phase \<Rightarrow> string \<Rightarrow> msec option \<Rightarrow>
    string option \<Rightarrow> audit_event" where
  "audit_event_of name ctx phase sagaId duration err =
     \<lparr>au_action = ''saga:'' @ name @ '':'' @ show_phase phase,
      au_resourceId = Some sagaId,
      au_userId = audit_user ctx,
      au_success = (phase \<noteq> AuditFailure),
      au_message = (if phase = AuditFailure
        then ''Saga '' @ name @ '' failed'' @ (case or_null err of Some e \<Rightarrow> '': '' @ e | None \<Rightarrow> [])
        else ''Saga '' @ name @ '' '' @ show_phase phase),
      au_durationMs = duration,
      au_correlationId = cx_correlationId ctx\<rparr>"

definition auditSagaLifecycle :: "'r executor \<Rightarrow> string \<Rightarrow> saga_context \<Rightarrow> audit_phase \<Rightarrow> string \<Rightarrow>
    msec option \<Rightarrow> string option \<Rightarrow> ('w world, 'e, unit) em" where
  "auditSagaLifecycle ex name ctx phase sagaId duration err =
     (if \<not> ex_audit ex then ereturn ()
      else equiet (audit_record (audit_event_of name ctx phase sagaId duration err)))"

subsection \<open>Running the steps\<close>

datatype abort = StepError nat saga_error | SagaTimedOut

text \<open>One iteration of the loop body around the race, and the loop. The error of a step is
  tagged with the index \<open>currentStepIndex\<close> holds when it is caught.\<close>

definition run_race :: "'r executor \<Rightarrow> ('w, 'r) saga_step \<Rightarrow> saga_context \<Rightarrow> nat \<Rightarrow>
    ('w world, abort, 'r) em" where
  "run_race ex step ctx i = (\<lambda>w.
     case sp_execute step ctx (w_app w) of (outcome, elapsed, app) \<Rightarrow>
       let w' = w\<lparr>w_app := app, w_db := (w_db w)\<lparr>clock := clock (w_db w) + int elapsed\<rparr>\<rparr> in
       (case outcome of
         Returned r \<Rightarrow> (Inr r, w')
       | Threw e \<Rightarrow> (Inl (StepError i e), w')
       | StepTimer \<Rightarrow> (Inl (StepError i (SagaTimeoutError (sp_name step)
            (or_default (sp_timeout step) (cf_defaultStepTimeout (ex_config ex))) True)), w')
       | SagaTimer \<Rightarrow> (Inl SagaTimedOut, w')))"

definition persist_results :: "'r executor \<Rightarrow> string \<Rightarrow> 'r list \<Rightarrow> ('w world, saga_error, unit) em" where
  "persist_results ex sagaId rs =
     store (updateStepResults sagaId (map (js_stringify (ex_js ex)) rs))"

primrec run_steps :: "'r executor \<Rightarrow> saga_context \<Rightarrow> string \<Rightarrow> nat \<Rightarrow> 'r list \<Rightarrow>
    ('w, 'r) saga_step list \<Rightarrow> ('w world, abort, 'r list) em" where
  "run_steps ex ctx sagaId i rs [] = ereturn rs"
| "run_steps ex ctx sagaId i rs (step # steps) =
     eseq (emap_err (StepError i) (ewhen (cf_persistState (ex_config ex))
             (eseq (store (updateStatus sagaId Executing (Some i) None))
                   (persist_results ex sagaId rs))))
     (ebind (run_race ex step ctx i) (\<lambda>r.
        eseq (emap_err (StepError i) (ewhen (cf_persistState (ex_config ex))
                (persist_results ex sagaId (rs @ [r]))))
          (run_steps ex ctx sagaId (Suc i) (rs @ [r]) steps)))"

definition last_result :: "'r list \<Rightarrow> 'r option" where
  "last_result rs = (if rs = [] then None else Some (last rs))"

definition step_name_at :: "('w, 'r) saga \<Rightarrow> nat \<Rightarrow> string" where
  "step_name_at sg i = (if i < length (sg_steps sg) \<and> sp_name (sg_steps sg ! i) \<noteq> []
     then sp_name (sg_steps sg ! i) else ''step-'' @ show_nat i)"

fun is_step_error :: "saga_error \<Rightarrow> bool" where
  "is_step_error (SagaStepError s m) = True"
| "is_step_error _ = False"

fun is_timeout_error :: "saga_error \<Rightarrow> bool" where
  "is_timeout_error (SagaTimeoutError a b c) = True"
| "is_timeout_error _ = False"

definition executeSaga :: "'r executor \<Rightarrow> ('w, 'r) saga \<Rightarrow> saga_context \<Rightarrow> string \<Rightarrow>
    ('w world, saga_error, 'r option) em" where
  "executeSaga ex sg ctx sagaId =
     ecatch (ebind (run_steps ex ctx sagaId 0 [] (sg_steps sg)) (\<lambda>rs. ereturn (last_result rs)))
       (\<lambda>a. case a of
          SagaTimedOut \<Rightarrow> ethrow (SagaTimeoutError (sg_name sg) (cf_defaultTimeout (ex_config ex)) False)
        | StepError i e \<Rightarrow>
            eseq (ewhen (cf_persistState (ex_config ex))
                    (store (updateStatus sagaId Failed (Some i) (Some (err_message e)))))
              (ethrow (if is_step_error e then e
                       else SagaStepError (step_name_at sg i) (err_message e))))"

subsection \<open>Compensation\<close>

record compensation_result =
  cr_success :: bool
  cr_failedSteps :: "string list"
  cr_requiresManualIntervention :: bool
  cr_error :: "string option"

definition isCriticalStep :: "string \<Rightarrow> bool" where
  "isCriticalStep name =
     (let n = to_lower name in
      str_includes n ''git'' \<or> str_includes n ''commit'' \<or>
      str_includes n ''publish'' \<or> str_includes n ''move'' \<or> str_includes n ''delete'')"

text \<open>The stored result of step \<open>i\<close>: absent, the empty text and \<open>null\<close> all count as
  \<open>undefined\<close>.\<close>

definition stored_result :: "'r js_env \<Rightarrow> saga_state option \<Rightarrow> nat \<Rightarrow> 'r option" where
  "stored_result js st i =
     (let rs = (case st of None \<Rightarrow> [] | Some s \<Rightarrow> st_stepResults s) in
      if i < length rs then map_option (js_parse js) (or_null (rs ! i)) else None)"

definition compensate_step :: "'r executor \<Rightarrow> saga_context \<Rightarrow> string \<Rightarrow> nat \<Rightarrow>
    (saga_context \<Rightarrow> 'r option \<Rightarrow> 'w \<Rightarrow> (saga_error + unit) \<times> 'w) \<Rightarrow> ('w world, saga_error, unit) em" where
  "compensate_step ex ctx sagaId i undo =
     ebind (store (getState sagaId)) (\<lambda>st. on_app (undo ctx (stored_result (ex_js ex) st i)))"

definition note_failure :: "string \<Rightarrow> saga_error \<Rightarrow> compensation_result \<Rightarrow> compensation_result" where
  "note_failure name e cr =
     (let cr' = cr\<lparr>cr_success := False, cr_failedSteps := cr_failedSteps cr @ [name]\<rparr> in
      if isCriticalStep name
      then cr'\<lparr>cr_requiresManualIntervention := True,
              cr_error := Some (''Critical step '' @ [CHR 39] @ name @ [CHR 39] @
                '' compensation failed: '' @ err_message e)\<rparr>
      else cr')"

text \<open>The loop from step \<open>n - 1\<close> down to \<open>0\<close>.\<close>

primrec compensate_loop :: "'r executor \<Rightarrow> ('w, 'r) saga \<Rightarrow> saga_context \<Rightarrow> string \<Rightarrow> nat \<Rightarrow>
    compensation_result \<Rightarrow> ('w world, saga_error, compensation_result) em" where
  "compensate_loop ex sg ctx sagaId 0 cr = ereturn cr"
| "compensate_loop ex sg ctx sagaId (Suc i) cr =
     (let step = sg_steps sg ! i in
      case (sp_isCompensatable step, sp_compensate step) of
        (True, Some undo) \<Rightarrow>
          ebind (ecatch (eseq (compensate_step ex ctx sagaId i undo) (ereturn cr))
                        (\<lambda>e. ereturn (note_failure (sp_name step) e cr)))
            (compensate_loop ex sg ctx sagaId i)
      | _ \<Rightarrow> compensate_loop ex sg ctx sagaId i cr)"

fun find_index :: "('a \<Rightarrow> bool) \<Rightarrow> 'a list \<Rightarrow> nat option" where
  "find_index P [] = None"
| "find_index P (x # xs) = (if P x then Some 0 else map_option Suc (find_index P xs))"

definition comp_status_of :: "compensation_result \<Rightarrow> comp_status" where
  "comp_status_of cr = (if cr_success cr then CompCompleted
     else if cr_requiresManualIntervention cr then CompFailed else CompPartial)"

definition compensate :: "'r executor \<Rightarrow> ('w, 'r) saga \<Rightarrow> saga_context \<Rightarrow> string \<Rightarrow> string \<Rightarrow>
    ('w world, saga_error, compensation_result) em" where
  "compensate ex sg ctx sagaId failedStepName =
     (case find_index (\<lambda>s. sp_name s = failedStepName) (sg_steps sg) of
        None \<Rightarrow> ereturn \<lparr>cr_success = False, cr_failedSteps = [], cr_requiresManualIntervention = True,
          cr_error = Some (''Failed step '' @ [CHR 39] @ failedStepName @ [CHR 39] @ '' not found in saga'')\<rparr>
      | Some failedStepIndex \<Rightarrow>
          eseq (ewhen (cf_persistState (ex_config ex))
                  (store (updateCompensationStatus sagaId CompExecuting None)))
          (ebind (compensate_loop ex sg ctx sagaId failedStepIndex
                    \<lparr>cr_success = True, cr_failedSteps = [], cr_requiresManualIntervention = False,
                     cr_error = None\<rparr>) (\<lambda>cr.
             eseq (ewhen (cf_persistState (ex_config ex))
                     (store (updateCompensationStatus sagaId (comp_status_of cr) (cr_error cr))))
               (ereturn cr))))"

subsection \<open>Executing a saga\<close>

definition getResourceKey :: "saga_context \<Rightarrow> string option" where
  "getResourceKey ctx =
     (case or_null (cx_metadata ctx ''recordId'') of
        Some r \<Rightarrow> Some (''record:'' @ r)
      | None \<Rightarrow> (case or_null (cx_metadata ctx ''draftId'') of
          Some d \<Rightarrow> Some (''draft:'' @ d) | None \<Rightarrow> None))"

definition initial_state :: "'r executor \<Rightarrow> ('w, 'r) saga \<Rightarrow> saga_context \<Rightarrow> string \<Rightarrow> msec \<Rightarrow> saga_state" where
  "initial_state ex sg ctx sagaId now =
     \<lparr>st_id = sagaId, st_sagaType = sg_name sg, st_sagaVersion = sg_version sg,
      st_context = js_context (ex_js ex) ctx, st_status = Executing, st_currentStep = 0,
      st_stepResults = [], st_startedAt = now, st_completedAt = None, st_error = None,
      st_compStatus = None, st_compCompletedAt = None, st_compError = None,
      st_idempotencyKey = cx_idempotencyKey ctx, st_correlationId = cx_correlationId ctx\<rparr>"

text \<open>The \<open>try\<close> block up to the lock: nothing is held when it throws.\<close>

definition acquire_phase :: "'r executor \<Rightarrow> string option \<Rightarrow> saga_state \<Rightarrow>
    ('w world, saga_error, resource_lock option) em" where
  "acquire_phase ex resourceKey st0 =
     (let needsParentRow = cf_persistState (ex_config ex) \<or> resourceKey \<noteq> None in
      eseq (ewhen needsParentRow (store (saveState (st0\<lparr>st_idempotencyKey := None\<rparr>))))
        (case resourceKey of
           None \<Rightarrow> ereturn None
         | Some k \<Rightarrow>
             ebind (ecatch (on_db (acquireLock k (st_id st0) (cf_lockTimeout (ex_config ex))))
                (\<lambda>e. eseq (ewhen needsParentRow (equiet (store (deleteState (st_id st0))))) (ethrow e)))
               (\<lambda>l. ereturn (Some l))))"

text \<open>The rest of the \<open>try\<close> block.\<close>

definition claim_key :: "'r executor \<Rightarrow> saga_context \<Rightarrow> saga_state \<Rightarrow> ('w world, saga_error, unit) em" where
  "claim_key ex ctx st0 =
     ewhen (cf_persistState (ex_config ex))
       (eseq (case or_null (cx_idempotencyKey ctx) of
                Some key \<Rightarrow> store (clearIdempotencyKey key) | None \<Rightarrow> ereturn ())
          (store (saveState st0)))"

definition saga_body :: "'r executor \<Rightarrow> ('w, 'r) saga \<Rightarrow> saga_context \<Rightarrow> saga_state \<Rightarrow> msec \<Rightarrow>
    ('w world, saga_error, 'r exec_result) em" where
  "saga_body ex sg ctx st0 startTime =
     (let sagaId = st_id st0 in
      eseq (claim_key ex ctx st0)
      (eseq (auditSagaLifecycle ex (sg_name sg) ctx AuditStart sagaId None None)
      (ebind (executeSaga ex sg ctx sagaId) (\<lambda>result.
       ebind (on_db date_now) (\<lambda>now.
       eseq (ewhen (cf_persistState (ex_config ex)) (store (updateStatus sagaId Completed None None)))
       (eseq (auditSagaLifecycle ex (sg_name sg) ctx AuditComplete sagaId (Some (now - startTime)) None)
         (ereturn \<lparr>er_result = result, er_sagaId = sagaId, er_duration = now - startTime,
                   er_compensated = False\<rparr>)))))))"

text \<open>The \<open>catch\<close> block: only a step error compensates.\<close>

definition mark_failed :: "'r executor \<Rightarrow> ('w, 'r) saga \<Rightarrow> saga_context \<Rightarrow> string \<Rightarrow> msec \<Rightarrow> saga_error \<Rightarrow>
    ('w world, saga_error, unit) em" where
  "mark_failed ex sg ctx sagaId duration e =
     eseq (store (updateStatus sagaId Failed None (Some (err_message e))))
       (auditSagaLifecycle ex (sg_name sg) ctx AuditFailure sagaId (Some duration) (Some (err_message e)))"

definition handle_error :: "'r executor \<Rightarrow> ('w, 'r) saga \<Rightarrow> saga_context \<Rightarrow> string \<Rightarrow> msec \<Rightarrow> saga_error \<Rightarrow>
    ('w world, saga_error, 'a) em" where
  "handle_error ex sg ctx sagaId startTime e =
     ebind (on_db date_now) (\<lambda>now.
       eseq (case e of
               SagaStepError step msg \<Rightarrow>
                 eseq (compensate ex sg ctx sagaId step) (mark_failed ex sg ctx sagaId (now - startTime) e)
             | _ \<Rightarrow> mark_failed ex sg ctx sagaId (now - startTime) e)
         (ethrow e))"

text \<open>The \<open>finally\<close> block.\<close>

definition cleanup :: "'r executor \<Rightarrow> string option \<Rightarrow> resource_lock option \<Rightarrow> string \<Rightarrow> ('w world, saga_error, unit) em" where
  "cleanup ex resourceKey lock sagaId =
     eseq (case (lock, resourceKey) of
             (Some l, Some k) \<Rightarrow> equiet (store (releaseLock k (Some sagaId)))
           | _ \<Rightarrow> ereturn ())
       (ewhen (\<not> cf_persistState (ex_config ex) \<and> resourceKey \<noteq> None)
          (equiet (store (deleteState sagaId))))"

definition validation_errors :: "('w, 'r) saga \<Rightarrow> saga_context \<Rightarrow> string list option" where
  "validation_errors sg ctx = (case sg_validate sg of None \<Rightarrow> None
     | Some v \<Rightarrow> (case v ctx of
         (True, _) \<Rightarrow> None
       | (False, errs) \<Rightarrow> Some (case errs of Some es \<Rightarrow> es | None \<Rightarrow> [''Unknown validation error''])))"

definition run_locked :: "'r executor \<Rightarrow> ('w, 'r) saga \<Rightarrow> saga_context \<Rightarrow> string \<Rightarrow> msec \<Rightarrow>
    ('w world, saga_error, 'r exec_result) em" where
  "run_locked ex sg ctx sagaId startTime = (\<lambda>w.
     let resourceKey = getResourceKey ctx;
         st0 = initial_state ex sg ctx sagaId (clock (w_db w)) in
     case acquire_phase ex resourceKey st0 w of
       (Inl e, w1) \<Rightarrow>
         efinally (handle_error ex sg ctx sagaId startTime e) (cleanup ex resourceKey None sagaId) w1
     | (Inr lock, w1) \<Rightarrow>
         efinally (ecatch (saga_body ex sg ctx st0 startTime) (handle_error ex sg ctx sagaId startTime))
           (cleanup ex resourceKey lock sagaId) w1)"

text \<open>\<open>sagaId\<close> is the fresh identifier of \<open>generateSagaId\<close>.\<close>

definition execute :: "'r executor \<Rightarrow> ('w, 'r) saga \<Rightarrow> string \<Rightarrow> saga_context \<Rightarrow>
    ('w world, saga_error, 'r exec_result) em" where
  "execute ex sg sagaId ctx0 =
     ebind (on_db date_now) (\<lambda>startTime.
       let key = generateIdempotencyKey (js_digest (ex_js ex)) (sg_name sg) ctx0;
           ctx = ctx0\<lparr>cx_idempotencyKey := Some key\<rparr> in
       ebind (on_db (checkIdempotency (ex_idempotency ex) (ex_js ex) (Some key))) (\<lambda>cached.
         case cached of
           Some r \<Rightarrow> ereturn r
         | None \<Rightarrow>
             (case validation_errors sg ctx of
                Some errs \<Rightarrow> ethrow (SagaContextError (sg_name sg) errs)
              | None \<Rightarrow> run_locked ex sg ctx sagaId startTime)))"

end
