(* ===== verification/Saga_Executor_Frame.thy ===== *)
theory Saga_Executor_Frame
  imports Saga_Executor
begin

section \<open>What an execution leaves alone\<close>

text \<open>
  The executor touches the database only through the methods of the state store and of
  the lock manager, always under its own saga id. The locale \<open>saga_row_effects\<close> states
  what a relation between database states has to satisfy under the row methods, and
  concludes it for the steps, the compensations and the error handling; \<open>saga_effects\<close>
  adds the lock methods and concludes it for a whole execution. Both conclusions hold for
  every step behaviour and every pattern of adapter failures. They are interpreted for the
  integrity of the tables, for the unexpired locks and the rows of other sagas, and for
  the saga's own lock.
\<close>

definition on_part :: "(saga_db \<Rightarrow> saga_db \<Rightarrow> bool) \<Rightarrow> 'w world \<Rightarrow> 'w world \<Rightarrow> bool" where
  "on_part R w w' \<longleftrightarrow> R (w_db w) (w_db w')"

lemma on_part_frame: "em_frame R \<Longrightarrow> em_frame (on_part R)"
  unfolding em_frame_def on_part_def by blast

lemma on_part_on_db: "em_rel R m \<Longrightarrow> em_rel (on_part R) (on_db m)"
  by (auto simp: em_rel_def on_part_def on_db_def ezoom_def split: prod.splits) (metis snd_conv)

lemma on_part_store: "em_rel R m \<Longrightarrow> em_rel (on_part R) (store m)"
  unfolding store_def
  by (auto simp: em_rel_def on_part_def on_db_def ezoom_def emap_err_def split: prod.splits sum.splits)
     (metis snd_conv)+

locale saga_row_effects = em_frame R for R :: "saga_db \<Rightarrow> saga_db \<Rightarrow> bool" +
  fixes sid :: string
  assumes eff_save: "st_id st = sid \<Longrightarrow> em_rel R (saveState st)"
    and eff_get: "em_rel R (getState i)"
    and eff_clear: "em_rel R (clearIdempotencyKey key)"
    and eff_status: "em_rel R (updateStatus sid s n e)"
    and eff_results: "em_rel R (updateStepResults sid rs)"
    and eff_comp: "em_rel R (updateCompensationStatus sid c e)"
    and eff_adapter: "em_rel R (db_call (ereturn ()))"
    and eff_clock: "R db (db\<lparr>clock := clock db + int m\<rparr>)"
begin

lemma lifted: "em_frame (on_part R)"
  by (rule on_part_frame) (rule em_frame_axioms)

lemmas lifted_intros =
  em_frame.rel_intros [OF lifted]

lemma eff_clock_read: "em_rel (on_part R) (on_db date_now)"
  by (intro on_part_on_db) (simp add: date_now_def rel_get)

lemma eff_app: "em_rel (on_part R) (on_app f)"
  by (auto simp: em_rel_def on_part_def on_app_def ezoom_def frame_refl split: prod.splits)

lemma eff_emodify: "(\<And>w. w_db (f w) = w_db w) \<Longrightarrow> em_rel (on_part R) (emodify f)"
  by (simp add: em_rel_def on_part_def emodify_def frame_refl)

lemma eff_audit: "em_rel (on_part R) (auditSagaLifecycle ex name ctx phase i d e)"
  unfolding auditSagaLifecycle_def audit_record_def
  by (auto intro!: lifted_intros on_part_on_db eff_adapter eff_emodify)

lemma eff_race: "em_rel (on_part R) (run_race ex step ctx i)"
proof (rule em_relI)
  fix w :: "'a world"
  obtain out n app where "sp_execute step ctx (w_app w) = (out, n, app)" by (cases "sp_execute step ctx (w_app w)")
  then show "on_part R w (snd (run_race ex step ctx i w))"
    using eff_clock [of "w_db w" n]
    by (auto simp: run_race_def on_part_def Let_def split: step_outcome.splits)
qed

lemma eff_run_steps: "em_rel (on_part R) (run_steps ex ctx sid i rs steps)"
  by (induction steps arbitrary: i rs)
     (auto intro!: lifted_intros on_part_store eff_status eff_results eff_race simp: persist_results_def)

lemma eff_executeSaga: "em_rel (on_part R) (executeSaga ex sg ctx sid)"
  unfolding executeSaga_def
  by (auto intro!: lifted_intros on_part_store eff_status eff_run_steps split: abort.splits)

lemma eff_compensate_loop: "em_rel (on_part R) (compensate_loop ex sg ctx sid n cr)"
  by (induction n arbitrary: cr)
     (auto intro!: lifted_intros on_part_store eff_get eff_app
       simp: compensate_step_def Let_def split: prod.splits bool.splits option.splits)

lemma eff_compensate: "em_rel (on_part R) (compensate ex sg ctx sid name)"
  unfolding compensate_def
  by (auto intro!: lifted_intros on_part_store eff_comp eff_compensate_loop split: option.splits)

lemma eff_mark_failed: "em_rel (on_part R) (mark_failed ex sg ctx sid d e)"
  unfolding mark_failed_def by (intro lifted_intros on_part_store eff_status eff_audit)

lemma eff_handle_error: "em_rel (on_part R) (handle_error ex sg ctx sid t e)"
  unfolding handle_error_def
  by (auto intro!: lifted_intros eff_clock_read eff_compensate eff_mark_failed split: saga_error.splits)

lemma eff_body:
  assumes st: "st_id st0 = sid"
  shows "em_rel (on_part R) (saga_body ex sg ctx st0 t)"
  unfolding saga_body_def claim_key_def Let_def st
  by (auto intro!: lifted_intros on_part_store eff_save eff_clear eff_audit eff_executeSaga
      eff_clock_read eff_status simp: st split: option.splits)

end

locale saga_effects = saga_row_effects +
  assumes eff_by_key: "em_rel R (getStateByIdempotencyKey key)"
    and eff_acquire: "em_rel R (acquireLock k sid t)"
    and eff_delete: "em_rel R (deleteState sid)"
    and eff_release: "em_rel R (releaseLock k (Some sid))"
begin

lemma eff_acquire_phase:
  assumes st: "st_id st0 = sid"
  shows "em_rel (on_part R) (acquire_phase ex rk st0)"
  unfolding acquire_phase_def Let_def st
  by (auto intro!: lifted_intros on_part_store on_part_on_db eff_save eff_acquire eff_delete
      simp: st split: option.splits)

lemma eff_cleanup: "em_rel (on_part R) (cleanup ex rk lock sid)"
  unfolding cleanup_def
  by (auto intro!: lifted_intros on_part_store eff_release eff_delete split: option.splits)

lemma eff_run_locked: "em_rel (on_part R) (run_locked ex sg ctx sid t)"
proof (rule em_relI)
  fix w :: "'a world"
  let ?st0 = "initial_state ex sg ctx sid (clock (w_db w))"
  let ?rk = "getResourceKey ctx"
  have id: "st_id ?st0 = sid" by (simp add: initial_state_def)
  obtain r w1 where a: "acquire_phase ex ?rk ?st0 w = (r, w1)" by fastforce
  have R1: "on_part R w w1" by (rule em_relD' [OF eff_acquire_phase [OF id] a])
  have tr: "on_part R a b \<Longrightarrow> on_part R b c \<Longrightarrow> on_part R a c" for a b c :: "'a world"
    using frame_trans by (auto simp: on_part_def)
  show "on_part R w (snd (run_locked ex sg ctx sid t w))"
  proof (cases r)
    case (Inl e)
    have "em_rel (on_part R) (efinally (handle_error ex sg ctx sid t e) (cleanup ex ?rk None sid))"
      by (intro lifted_intros eff_handle_error eff_cleanup)
    from tr [OF R1 em_relD [OF this]] a Inl show ?thesis
      by (simp add: run_locked_def Let_def)
  next
    case (Inr lock)
    have "em_rel (on_part R) (efinally (ecatch (saga_body ex sg ctx ?st0 t) (handle_error ex sg ctx sid t))
        (cleanup ex ?rk lock sid))"
      by (intro lifted_intros eff_body id eff_handle_error eff_cleanup)
    from tr [OF R1 em_relD [OF this]] a Inr show ?thesis
      by (simp add: run_locked_def Let_def)
  qed
qed

lemma eff_check: "em_rel R (checkIdempotency im js key)"
  unfolding checkIdempotency_def date_now_def Let_def
  by (auto intro!: rel_intros eff_by_key split: option.splits)

lemma execute_rel: "em_rel (on_part R) (execute ex sg sid ctx)"
  unfolding execute_def Let_def
  by (auto intro!: lifted_intros eff_clock_read on_part_on_db eff_check eff_run_locked
      split: option.splits)

end

subsection \<open>The integrity of the tables\<close>

interpretation integrity: saga_effects keeps_ok sid for sid
proof unfold_locales
  show "em_rel keeps_ok (db_call (ereturn ()))"
    by (rule keeps_ok_db_call) (simp add: ereturn_def)
  show "keeps_ok db (db\<lparr>clock := clock db + int m\<rparr>)" for db m
    by (simp add: keeps_ok_def saga_db_ok_def)
qed (rule em_frame_intros)+

subsection \<open>The locks of other sagas\<close>

text \<open>An empty saga id would make the release unconditional, hence the premise.\<close>

definition others_locks_kept :: "string \<Rightarrow> saga_db \<Rightarrow> saga_db \<Rightarrow> bool" where
  "others_locks_kept sid db db' \<longleftrightarrow> (sid \<noteq> [] \<longrightarrow> (\<forall>o'. o' \<noteq> sid \<longrightarrow> lock_kept o' db db'))"

lemma others_locks_keptI:
  "(\<And>o'. sid \<noteq> [] \<Longrightarrow> o' \<noteq> sid \<Longrightarrow> em_rel (lock_kept o') m) \<Longrightarrow> em_rel (others_locks_kept sid) m"
  by (auto simp: em_rel_def others_locks_kept_def)

lemma read_methods_kept:
  "em_rel (lock_kept sid) (getState i)"
  "em_rel (lock_kept sid) (getStateByIdempotencyKey key)"
  "em_rel (lock_kept sid) (db_call (ereturn ()))"
  using store_methods_keep_ok(2,3) keeps_ok_db_call [of "ereturn ()"]
  unfolding getState_def getStateByIdempotencyKey_def
  by (auto intro!: lock_kept_db_call simp: ereturn_def)

lemma acquireLock_kept_rel: "em_rel (lock_kept sid) (acquireLock k s t)"
  by (rule em_relI, rule acquireLock_kept)

lemma others_frame: "em_frame (others_locks_kept sid)"
  by unfold_locales
     (auto simp: others_locks_kept_def intro: kept_frame.frame_refl kept_frame.frame_trans)

interpretation foreign_locks: saga_effects "others_locks_kept sid" sid for sid
proof (intro saga_effects.intro saga_row_effects.intro others_frame)
  show "saga_row_effects_axioms (others_locks_kept sid) sid"
    by unfold_locales
       (auto intro!: others_locks_keptI store_methods_kept read_methods_kept
         simp: others_locks_kept_def lock_kept_def saga_db_ok_def)
  show "saga_effects_axioms (others_locks_kept sid) sid"
    by unfold_locales
       (auto intro!: others_locks_keptI acquireLock_kept_rel releaseLock_kept store_methods_kept read_methods_kept)
qed

subsection \<open>The rows of other sagas\<close>

text \<open>Another saga's row keeps every column but its idempotency key, which a new run of the
  same operation takes over.\<close>

definition rows_but :: "string \<Rightarrow> saga_db \<Rightarrow> saga_state list" where
  "rows_but sid db = map (\<lambda>r. r\<lparr>st_idempotencyKey := None\<rparr>) (filter (\<lambda>r. st_id r \<noteq> sid) (states db))"

definition same_rows_but :: "string \<Rightarrow> saga_db \<Rightarrow> saga_db \<Rightarrow> bool" where
  "same_rows_but sid db db' \<longleftrightarrow> rows_but sid db' = rows_but sid db"

lemma filter_row_upsert: "filter (\<lambda>r. st_id r \<noteq> st_id row) (row_upsert row rs) = filter (\<lambda>r. st_id r \<noteq> st_id row) rs"
proof -
  have "filter (\<lambda>r. st_id r \<noteq> st_id row) (map (\<lambda>r. if st_id r = st_id row then row else r) rs) =
      filter (\<lambda>r. st_id r \<noteq> st_id row) rs"
    by (induction rs) auto
  then show ?thesis by (simp add: row_upsert_def)
qed

lemma filter_row_update:
  "(\<And>r. st_id (f r) = st_id r) \<Longrightarrow> filter (\<lambda>r. st_id r \<noteq> sid) (row_update sid f rs) = filter (\<lambda>r. st_id r \<noteq> sid) rs"
  by (induction rs) (auto simp: row_update_def)

lemma same_rows_db_call:
  "(\<And>db. rows_but sid (snd (m db)) = rows_but sid db) \<Longrightarrow> em_rel (same_rows_but sid) (db_call m)"
  by (auto simp: em_rel_def same_rows_but_def db_call_def rows_but_def split: list.splits bool.splits)

lemma rows_but_simps [simp]:
  "rows_but sid (db\<lparr>locks := ls\<rparr>) = rows_but sid db"
  "rows_but sid (db\<lparr>clock := c\<rparr>) = rows_but sid db"
  "rows_but sid (db\<lparr>faults := fs\<rparr>) = rows_but sid db"
  by (simp_all add: rows_but_def)

lemma rows_but_upsert [simp]: "st_id row = sid \<Longrightarrow> rows_but sid (db\<lparr>states := row_upsert row (states db)\<rparr>) = rows_but sid db"
  using filter_row_upsert [of row] by (auto simp: rows_but_def)

lemma rows_but_update [simp]:
  "(\<And>r. st_id (f r) = st_id r) \<Longrightarrow> rows_but sid (db\<lparr>states := row_update sid f (states db)\<rparr>) = rows_but sid db"
  by (simp add: rows_but_def filter_row_update)

lemma rows_but_clear [simp]:
  "rows_but sid (db\<lparr>states := map (\<lambda>r. if st_idempotencyKey r = Some key
     then r\<lparr>st_idempotencyKey := None\<rparr> else r) (states db)\<rparr>) = rows_but sid db"
proof -
  have "map (\<lambda>r. r\<lparr>st_idempotencyKey := None\<rparr>) (filter (\<lambda>r. st_id r \<noteq> sid)
      (map (\<lambda>r. if st_idempotencyKey r = Some key then r\<lparr>st_idempotencyKey := None\<rparr> else r) rs)) =
    map (\<lambda>r. r\<lparr>st_idempotencyKey := None\<rparr>) (filter (\<lambda>r. st_id r \<noteq> sid) rs)" for rs
    by (induction rs) auto
  then show ?thesis by (simp add: rows_but_def)
qed

lemma rows_but_delete [simp]: "rows_but sid (db\<lparr>states := row_delete sid (states db)\<rparr>) = rows_but sid db"
  by (simp add: rows_but_def row_delete_def)

lemma same_rows_frame: "em_frame (same_rows_but sid)"
  by unfold_locales (auto simp: same_rows_but_def)

lemma acquireLock_same_rows: "em_rel (same_rows_but sid) (acquireLock k s t)"
proof (rule em_relI, rule acquireLock_rel)
  show "same_rows_but sid db (snd (insertLock (new_lock k s t db) db))" for k s t db
    by (rule em_relD) (auto simp: insertLock_def intro!: same_rows_db_call)
  show "em_rel (same_rows_but sid) (getLock k)" for k
    by (auto simp: getLock_def intro!: same_rows_db_call)
  show "same_rows_but sid db (snd (releaseLock k None db))" for k db
    by (rule em_relD) (auto simp: releaseLock_def intro!: same_rows_db_call)
qed (auto simp: same_rows_but_def)

interpretation foreign_rows: saga_effects "same_rows_but sid" sid for sid
proof (intro saga_effects.intro saga_row_effects.intro same_rows_frame)
  show "saga_row_effects_axioms (same_rows_but sid) sid"
    by unfold_locales
       (auto intro!: same_rows_db_call simp: store_method_defs Let_def ereturn_def same_rows_but_def)
  show "saga_effects_axioms (same_rows_but sid) sid"
    by unfold_locales
       (auto intro!: same_rows_db_call acquireLock_same_rows split: option.splits
         simp: store_method_defs releaseLock_def Let_def)
qed


subsection \<open>Between taking and releasing the lock\<close>

text \<open>The steps, the compensations and the error handling leave the lock table as it is,
  never turn the clock back, and keep every saga row in place.\<close>

definition body_rel :: "saga_db \<Rightarrow> saga_db \<Rightarrow> bool" where
  "body_rel db db' \<longleftrightarrow> locks db' = locks db \<and> clock db \<le> clock db' \<and>
     (faults db = [] \<longrightarrow> faults db' = []) \<and> st_id ` set (states db) \<subseteq> st_id ` set (states db')"

lemma body_rel_db_call:
  assumes "\<And>db. locks (snd (m db)) = locks db \<and> clock (snd (m db)) = clock db \<and> faults (snd (m db)) = faults db"
    and "\<And>db. st_id ` set (states db) \<subseteq> st_id ` set (states (snd (m db)))"
  shows "em_rel body_rel (db_call m)"
proof (rule em_relI)
  fix db
  have "st_id ` set (states db) \<subseteq> st_id ` set (states (snd (m (db\<lparr>faults := fs\<rparr>))))" for fs
    using assms(2) [of "db\<lparr>faults := fs\<rparr>"] by simp
  with assms show "body_rel db (snd (db_call m db))"
    by (auto simp: body_rel_def db_call_def split: list.splits bool.splits)
qed

lemma ids_map_same: "(\<And>r. st_id (f r) = st_id r) \<Longrightarrow> st_id ` set (map f rs) = st_id ` set rs"
  by (simp add: image_image)

lemma ids_row_update: "(\<And>r. st_id (f r) = st_id r) \<Longrightarrow> st_id ` set (row_update i f rs) = st_id ` set rs"
  unfolding row_update_def by (rule ids_map_same) simp

interpretation own_body: saga_row_effects body_rel sid for sid
proof unfold_locales
  show "em_rel body_rel (clearIdempotencyKey key)" for key
    unfolding clearIdempotencyKey_def
    by (rule body_rel_db_call) (simp_all add: ids_map_same del: set_map)
  show "em_rel body_rel (saveState st)" for st
    unfolding saveState_def by (rule body_rel_db_call) (simp_all add: Let_def set_ids_upsert subset_insertI)
qed (auto intro!: body_rel_db_call simp: body_rel_def getState_def updateStatus_def
       updateStepResults_def updateCompensationStatus_def ids_row_update ereturn_def)

end
