(* ===== verification/Saga_Atomicity.thy ===== *)
theory Saga_Atomicity
  imports Saga_Executor_Frame
begin

section \<open>An execution as one atomic change\<close>

text \<open>
  The specification of the executor and the refinement between the two. \<open>forward\<close> runs
  the steps on the application state alone, \<open>rollback\<close> undoes completed steps from the
  last to the first, \<open>atomic_effect\<close> combines them: every step, or a prefix and its
  undoing. \<open>execute_clear\<close> says that an execution which meets no adapter failure has
  exactly that effect and that outcome, leaves the lock table as it was and records status
  and results in its row.
\<close>

subsection \<open>The specification: all steps, or a prefix and its undoing\<close>

primrec forward :: "'r executor \<Rightarrow> saga_context \<Rightarrow> nat \<Rightarrow> 'r list \<Rightarrow> ('w, 'r) saga_step list \<Rightarrow> 'w \<Rightarrow>
    abort option \<times> 'r list \<times> 'w" where
  "forward ex ctx i rs [] app = (None, rs, app)"
| "forward ex ctx i rs (s # ss) app =
     (case sp_execute s ctx app of (outcome, elapsed, app') \<Rightarrow>
        (case outcome of
           Returned r \<Rightarrow> forward ex ctx (Suc i) (rs @ [r]) ss app'
         | Threw e \<Rightarrow> (Some (StepError i e), rs, app')
         | StepTimer \<Rightarrow> (Some (StepError i (SagaTimeoutError (sp_name s)
             (or_default (sp_timeout s) (cf_defaultStepTimeout (ex_config ex))) True)), rs, app')
         | SagaTimer \<Rightarrow> (Some SagaTimedOut, rs, app')))"

definition undo_step :: "'r js_env \<Rightarrow> saga_context \<Rightarrow> ('w, 'r) saga_step \<times> 'r \<Rightarrow> 'w \<Rightarrow> 'w" where
  "undo_step js ctx = (\<lambda>(s, r) app.
     (case (sp_isCompensatable s, sp_compensate s) of
        (True, Some undo) \<Rightarrow> snd (undo ctx (map_option (js_parse js) (or_null (js_stringify js r))) app)
      | _ \<Rightarrow> app))"

definition rollback :: "'r js_env \<Rightarrow> saga_context \<Rightarrow> ('w, 'r) saga_step list \<Rightarrow> 'r list \<Rightarrow> 'w \<Rightarrow> 'w" where
  "rollback js ctx steps rs = foldr (undo_step js ctx) (zip steps rs)"

definition atomic_effect :: "'r executor \<Rightarrow> ('w, 'r) saga \<Rightarrow> saga_context \<Rightarrow> 'w \<Rightarrow> 'w" where
  "atomic_effect ex sg ctx app =
     (case forward ex ctx 0 [] (sg_steps sg) app of
        (Some (StepError i e), rs, app') \<Rightarrow> rollback (ex_js ex) ctx (sg_steps sg) rs app'
      | (_, rs, app') \<Rightarrow> app')"

definition saga_outcome :: "'r executor \<Rightarrow> ('w, 'r) saga \<Rightarrow> saga_context \<Rightarrow> 'w \<Rightarrow> saga_error + 'r option" where
  "saga_outcome ex sg ctx app =
     (case forward ex ctx 0 [] (sg_steps sg) app of
        (None, rs, _) \<Rightarrow> Inr (last_result rs)
      | (Some SagaTimedOut, _, _) \<Rightarrow>
          Inl (SagaTimeoutError (sg_name sg) (cf_defaultTimeout (ex_config ex)) False)
      | (Some (StepError i e), _, _) \<Rightarrow>
          Inl (if is_step_error e then e else SagaStepError (step_name_at sg i) (err_message e)))"

subsection \<open>What an execution sees of the world\<close>

definition view :: "string \<Rightarrow> 'w world \<Rightarrow>
    'w \<times> bool list \<times> (string option list \<times> saga_status \<times> string option \<times> msec) option" where
  "view sid w = (w_app w, faults (w_db w),
     map_option (\<lambda>r. (st_stepResults r, st_status r, st_idempotencyKey r, st_startedAt r)) (row_lookup sid (states (w_db w))))"

lemmas run_defs = store_def on_db_def emap_err_def ezoom_def

lemma view_status:
  assumes "view sid w = (app, [], Some (rs, s0, m))"
  obtains w' where "store (updateStatus sid s n e) w = (Inr (), w')" "view sid w' = (app, [], Some (rs, s, m))"
  using assms
  by (auto simp: run_defs updateStatus_def view_def row_lookup_update)

lemma view_results:
  assumes "view sid w = (app, [], Some (rs0, s, m))"
  obtains w' where "persist_results ex sid rs w = (Inr (), w')"
    "view sid w' = (app, [], Some (map (js_stringify (ex_js ex)) rs, s, m))"
  using assms
  by (auto simp: persist_results_def run_defs updateStepResults_def view_def row_lookup_update)

lemma view_compensation:
  assumes "view sid w = (app, [], Some (rs, s, m))"
  obtains w' where "store (updateCompensationStatus sid c e) w = (Inr (), w')" "view sid w' = (app, [], Some (rs, s, m))"
  using assms
  by (auto simp: run_defs updateCompensationStatus_def view_def row_lookup_update)

lemma view_audit:
  assumes "view sid w = (app, [], Some (rs, s, m))"
  obtains w' where "(auditSagaLifecycle ex name ctx phase i d e :: ('w world, 'e, unit) em) w = (Inr (), w')"
    "view sid w' = (app, [], Some (rs, s, m))"
proof (cases "ex_audit ex")
  case True
  with assms that show ?thesis
    by (auto simp: auditSagaLifecycle_def audit_record_def em_defs on_db_def view_def)
next
  case False
  with assms that show ?thesis by (simp add: auditSagaLifecycle_def ereturn_def)
qed

lemma run_steps_refines:
  assumes "cf_persistState (ex_config ex)"
    and "view sid w = (app, [], Some (map (js_stringify (ex_js ex)) rs, Executing, m))"
    and "forward ex ctx i rs steps app = (out, rs', app')"
  shows "\<exists>w'. run_steps ex ctx sid i rs steps w = ((case out of None \<Rightarrow> Inr rs' | Some a \<Rightarrow> Inl a), w') \<and>
     view sid w' = (app', [], Some (map (js_stringify (ex_js ex)) rs', Executing, m))"
  using assms(2,3)
proof (induction steps arbitrary: i rs w app)
  case Nil
  then show ?case by (simp add: ereturn_def)
next
  case (Cons step steps)
  obtain w1 where w1: "store (updateStatus sid Executing (Some i) None) w = (Inr (), w1)"
    and v1: "view sid w1 = (app, [], Some (map (js_stringify (ex_js ex)) rs, Executing, m))"
    using view_status [OF Cons.prems(1)] .
  obtain w2 where w2: "persist_results ex sid rs w1 = (Inr (), w2)"
    and v2: "view sid w2 = (app, [], Some (map (js_stringify (ex_js ex)) rs, Executing, m))"
    using view_results [OF v1] .
  obtain outcome n app1 where st: "sp_execute step ctx app = (outcome, n, app1)"
    by (cases "sp_execute step ctx app")
  let ?w3 = "w2\<lparr>w_app := app1, w_db := (w_db w2)\<lparr>clock := clock (w_db w2) + int n\<rparr>\<rparr>"
  have v3: "view sid ?w3 = (app1, [], Some (map (js_stringify (ex_js ex)) rs, Executing, m))"
    and a2: "w_app w2 = app"
    using v2 by (auto simp: view_def)
  have head: "run_steps ex ctx sid i rs (step # steps) w =
     ebind (run_race ex step ctx i) (\<lambda>r.
        eseq (emap_err (StepError i) (ewhen (cf_persistState (ex_config ex))
                (persist_results ex sid (rs @ [r]))))
          (run_steps ex ctx sid (Suc i) (rs @ [r]) steps)) w2"
    using assms(1) w1 w2 by (simp add: eseq_def ebind_def emap_err_def ewhen_def)
  show ?case
  proof (cases outcome)
    case (Returned r)
    with st a2 have race: "run_race ex step ctx i w2 = (Inr r, ?w3)"
      by (simp add: run_race_def Let_def)
    obtain w4 where w4: "persist_results ex sid (rs @ [r]) ?w3 = (Inr (), w4)"
      and v4: "view sid w4 = (app1, [], Some (map (js_stringify (ex_js ex)) (rs @ [r]), Executing, m))"
      using view_results [OF v3] .
    have "run_steps ex ctx sid i rs (step # steps) w = run_steps ex ctx sid (Suc i) (rs @ [r]) steps w4"
      unfolding head using assms(1) race w4
      by (simp add: eseq_def ebind_def emap_err_def ewhen_def)
    moreover have "forward ex ctx (Suc i) (rs @ [r]) steps app1 = (out, rs', app')"
      using Cons.prems(2) st Returned by simp
    ultimately show ?thesis using Cons.IH [OF v4] by simp
  next
    case (Threw e)
    with st a2 v3 Cons.prems(2) show ?thesis
      unfolding head by (auto simp: run_race_def ebind_def Let_def)
  next
    case StepTimer
    with st a2 v3 Cons.prems(2) show ?thesis
      unfolding head by (auto simp: run_race_def ebind_def Let_def)
  next
    case SagaTimer
    with st a2 v3 Cons.prems(2) show ?thesis
      unfolding head by (auto simp: run_race_def ebind_def Let_def)
  qed
qed

lemma executeSaga_refines:
  assumes "cf_persistState (ex_config ex)"
    and "view sid w = (app, [], Some ([], Executing, m))"
    and "forward ex ctx 0 [] (sg_steps sg) app = (out, rs', app')"
  shows "\<exists>w'. executeSaga ex sg ctx sid w = (saga_outcome ex sg ctx app, w') \<and>
     view sid w' = (app', [], Some (map (js_stringify (ex_js ex)) rs',
       (case out of Some (StepError i e) \<Rightarrow> Failed | _ \<Rightarrow> Executing), m))"
proof -
  obtain w1 where w1: "run_steps ex ctx sid 0 [] (sg_steps sg) w =
      ((case out of None \<Rightarrow> Inr rs' | Some a \<Rightarrow> Inl a), w1)"
    and v1: "view sid w1 = (app', [], Some (map (js_stringify (ex_js ex)) rs', Executing, m))"
    using run_steps_refines [OF assms(1) _ assms(3), of sid w m] assms(2) by auto
  consider "out = None" | "out = Some SagaTimedOut" | i e where "out = Some (StepError i e)"
    by (cases out) (auto intro: abort.exhaust)
  then show ?thesis
  proof cases
    case 3
    obtain w2 where "store (updateStatus sid Failed (Some i) (Some (err_message e))) w1 = (Inr (), w2)"
      and "view sid w2 = (app', [], Some (map (js_stringify (ex_js ex)) rs', Failed, m))"
      using view_status [OF v1] .
    with 3 w1 assms(1,3) show ?thesis
      by (simp add: executeSaga_def saga_outcome_def ecatch_def ebind_def eseq_def ewhen_def ethrow_def)
  qed (use w1 v1 assms(3) in \<open>auto simp: executeSaga_def saga_outcome_def ecatch_def ebind_def
      ereturn_def ethrow_def\<close>)
qed

lemma rollback_Suc:
  assumes "i < length steps" and "i < length rs"
  shows "rollback js ctx (take (Suc i) steps) (take (Suc i) rs) app =
     rollback js ctx (take i steps) (take i rs) (undo_step js ctx (steps ! i, rs ! i) app)"
  using assms by (simp add: rollback_def take_Suc_conv_app_nth)

lemma compensate_loop_refines:
  assumes "view sid w = (app, [], Some (map (js_stringify (ex_js ex)) rs, s, m))"
    and "n \<le> length (sg_steps sg)" and "n \<le> length rs"
  shows "\<exists>cr' w'. compensate_loop ex sg ctx sid n cr w = (Inr cr', w') \<and>
     view sid w' = (rollback (ex_js ex) ctx (take n (sg_steps sg)) (take n rs) app, [],
       Some (map (js_stringify (ex_js ex)) rs, s, m))"
  using assms
proof (induction n arbitrary: w app cr)
  case 0
  then show ?case by (simp add: ereturn_def rollback_def)
next
  case (Suc i)
  let ?step = "sg_steps sg ! i"
  let ?S = "js_stringify (ex_js ex)"
  have step: "rollback (ex_js ex) ctx (take (Suc i) (sg_steps sg)) (take (Suc i) rs) app =
      rollback (ex_js ex) ctx (take i (sg_steps sg)) (take i rs) (undo_step (ex_js ex) ctx (?step, rs ! i) app)"
    using Suc.prems by (intro rollback_Suc) auto
  show ?case
  proof (cases "sp_isCompensatable ?step \<and> sp_compensate ?step \<noteq> None")
    case False
    then have "compensate_loop ex sg ctx sid (Suc i) cr = compensate_loop ex sg ctx sid i cr"
      and "undo_step (ex_js ex) ctx (?step, rs ! i) app = app"
      by (auto simp: undo_step_def Let_def split: bool.splits option.splits)
    with Suc step show ?thesis by simp
  next
    case True
    then obtain undo where u: "sp_isCompensatable ?step" "sp_compensate ?step = Some undo" by blast
    obtain r where r: "row_lookup sid (states (w_db w)) = Some r" "st_stepResults r = map ?S rs"
      and a: "w_app w = app" and f: "faults (w_db w) = []"
      using Suc.prems(1) by (auto simp: view_def)
    let ?arg = "map_option (js_parse (ex_js ex)) (or_null (?S (rs ! i)))"
    obtain res app1 where un: "undo ctx ?arg app = (res, app1)" by fastforce
    have get: "store (getState sid) w = (Inr (Some (rowToState r)), w)"
      using r(1) f by (simp add: run_defs getState_def)
    have arg: "stored_result (ex_js ex) (Some (rowToState r)) i = ?arg"
      using Suc.prems r(2) by (simp add: stored_result_def rowToState_def)
    have cs: "compensate_step ex ctx sid i undo w = (res, w\<lparr>w_app := app1\<rparr>)"
      using get arg un a by (simp add: compensate_step_def ebind_def on_app_def ezoom_def)
    let ?cr = "case res of Inl e \<Rightarrow> note_failure (sp_name ?step) e cr | Inr _ \<Rightarrow> cr"
    have "compensate_loop ex sg ctx sid (Suc i) cr w = compensate_loop ex sg ctx sid i ?cr (w\<lparr>w_app := app1\<rparr>)"
      using u cs by (auto simp: ebind_def ecatch_def eseq_def ereturn_def Let_def split: sum.splits)
    moreover have "view sid (w\<lparr>w_app := app1\<rparr>) = (app1, [], Some (map ?S rs, s, m))"
      using Suc.prems(1) by (simp add: view_def)
    moreover have "undo_step (ex_js ex) ctx (?step, rs ! i) app = app1"
      using u un by (simp add: undo_step_def)
    ultimately show ?thesis using Suc step by simp
  qed
qed


lemma forward_StepError:
  "forward ex ctx i rs steps app = (Some (StepError j e), rs', app') \<Longrightarrow>
     length rs' + i = length rs + j \<and> i \<le> j \<and> j < i + length steps"
proof (induction steps arbitrary: i rs app)
  case (Cons s steps)
  obtain outcome n app1 where "sp_execute s ctx app = (outcome, n, app1)"
    by (cases "sp_execute s ctx app")
  with Cons show ?case by (cases outcome) fastforce+
qed simp

lemma forward_StepError_0:
  assumes "forward ex ctx 0 [] steps app = (Some (StepError j e), rs', app')"
  shows "length rs' = j" and "j < length steps"
  using forward_StepError [OF assms] by auto

lemma find_index_distinct:
  "distinct (map f xs) \<Longrightarrow> i < length xs \<Longrightarrow> find_index (\<lambda>x. f x = f (xs ! i)) xs = Some i"
proof (induction xs arbitrary: i)
  case (Cons x xs)
  show ?case
  proof (cases i)
    case (Suc k)
    with Cons.prems have "xs ! k \<in> set xs" by simp
    with Cons.prems have "f x \<noteq> f (xs ! k)" by auto
    with Suc Cons show ?thesis by simp
  qed simp
qed simp

definition well_named :: "('w, 'r) saga \<Rightarrow> bool" where
  "well_named sg \<longleftrightarrow> distinct (map sp_name (sg_steps sg)) \<and> [] \<notin> sp_name ` set (sg_steps sg)"

lemma step_name_at_nth: "well_named sg \<Longrightarrow> i < length (sg_steps sg) \<Longrightarrow> step_name_at sg i = sp_name (sg_steps sg ! i)"
  by (auto simp: step_name_at_def well_named_def) (metis nth_mem rev_image_eqI)

lemma compensate_refines:
  assumes "cf_persistState (ex_config ex)" and "well_named sg" and "j < length (sg_steps sg)"
    and "length rs = j"
    and "view sid w = (app, [], Some (map (js_stringify (ex_js ex)) rs, s, m))"
  shows "\<exists>cr w'. compensate ex sg ctx sid (step_name_at sg j) w = (Inr cr, w') \<and>
     view sid w' = (rollback (ex_js ex) ctx (sg_steps sg) rs app, [],
       Some (map (js_stringify (ex_js ex)) rs, s, m))"
proof -
  have idx: "find_index (\<lambda>s. sp_name s = step_name_at sg j) (sg_steps sg) = Some j"
    using assms(2,3) find_index_distinct [of sp_name "sg_steps sg" j]
    by (simp add: step_name_at_nth well_named_def)
  let ?cr0 = "\<lparr>cr_success = True, cr_failedSteps = [], cr_requiresManualIntervention = False, cr_error = None\<rparr>"
  obtain w1 where w1: "store (updateCompensationStatus sid CompExecuting None) w = (Inr (), w1)"
    and v1: "view sid w1 = (app, [], Some (map (js_stringify (ex_js ex)) rs, s, m))"
    using view_compensation [OF assms(5)] .
  obtain cr w2 where w2: "compensate_loop ex sg ctx sid j ?cr0 w1 = (Inr cr, w2)"
    and v2: "view sid w2 = (rollback (ex_js ex) ctx (take j (sg_steps sg)) (take j rs) app, [],
       Some (map (js_stringify (ex_js ex)) rs, s, m))"
    using compensate_loop_refines [OF v1, of j sg ctx ?cr0] assms(3,4) by auto
  obtain w3 where w3: "store (updateCompensationStatus sid (comp_status_of cr) (cr_error cr)) w2 = (Inr (), w3)"
    and v3: "view sid w3 = (rollback (ex_js ex) ctx (take j (sg_steps sg)) (take j rs) app, [],
       Some (map (js_stringify (ex_js ex)) rs, s, m))"
    using view_compensation [OF v2] .
  have zip: "rollback (ex_js ex) ctx (take j (sg_steps sg)) (take j rs) app = rollback (ex_js ex) ctx (sg_steps sg) rs app"
    using assms(4) by (simp add: rollback_def) (metis take_all_iff order_refl take_zip length_zip min.cobounded2)
  have "compensate ex sg ctx sid (step_name_at sg j) w = (Inr cr, w3)"
    using assms(1) w1 w2 w3 by (simp add: compensate_def idx eseq_def ebind_def ewhen_def ereturn_def)
  with v3 zip show ?thesis by auto
qed

lemma mark_failed_refines:
  assumes "view sid w = (app, [], Some (rs, s, m))"
  obtains w' where "mark_failed ex sg ctx sid d e w = (Inr (), w')" "view sid w' = (app, [], Some (rs, Failed, m))"
proof -
  obtain w1 where w1: "store (updateStatus sid Failed None (Some (err_message e))) w = (Inr (), w1)"
    and v1: "view sid w1 = (app, [], Some (rs, Failed, m))"
    using view_status [OF assms] .
  obtain w2 where w2: "(auditSagaLifecycle ex (sg_name sg) ctx AuditFailure sid (Some d) (Some (err_message e)) ::
      ('a world, saga_error, unit) em) w1 = (Inr (), w2)"
    and v2: "view sid w2 = (app, [], Some (rs, Failed, m))"
    using view_audit [OF v1] .
  from w1 w2 have "mark_failed ex sg ctx sid d e w = (Inr (), w2)"
    by (simp add: mark_failed_def eseq_def ebind_def)
  then show thesis using v2 by (rule that)
qed

lemma handle_error_refines:
  assumes "cf_persistState (ex_config ex)" and "well_named sg"
    and "forward ex ctx 0 [] (sg_steps sg) app = (Some a, rs, app')"
    and "\<And>i e. a = StepError i e \<Longrightarrow> \<not> is_step_error e"
    and "saga_outcome ex sg ctx app = Inl err"
    and "view sid w = (app', [], Some (map (js_stringify (ex_js ex)) rs, s, m))"
  shows "\<exists>w'. handle_error ex sg ctx sid t err w = (Inl err, w') \<and>
     view sid w' = (atomic_effect ex sg ctx app, [], Some (map (js_stringify (ex_js ex)) rs, Failed, m))"
proof (cases a)
  case SagaTimedOut
  have err: "err = SagaTimeoutError (sg_name sg) (cf_defaultTimeout (ex_config ex)) False"
    using assms(3,5) SagaTimedOut by (simp add: saga_outcome_def)
  have eff: "atomic_effect ex sg ctx app = app'"
    using assms(3) SagaTimedOut by (simp add: atomic_effect_def)
  obtain w1 where w1: "mark_failed ex sg ctx sid (clock (w_db w) - t) err w = (Inr (), w1)"
    and v1: "view sid w1 = (app', [], Some (map (js_stringify (ex_js ex)) rs, Failed, m))"
    using mark_failed_refines [OF assms(6)] .
  have "handle_error ex sg ctx sid t err w = (Inl err, w1)"
    using w1 by (simp add: err handle_error_def ebind_def eseq_def on_db_def ezoom_def date_now_def
        eget_def ethrow_def)
  with v1 eff show ?thesis by (intro exI [of _ w1]) simp
next
  case (StepError i e)
  have err: "err = SagaStepError (step_name_at sg i) (err_message e)"
    using assms(3,4,5) StepError by (simp add: saga_outcome_def)
  have idx: "length rs = i" "i < length (sg_steps sg)"
    using forward_StepError_0 [OF assms(3) [unfolded StepError]] by auto
  obtain cr w1 where w1: "compensate ex sg ctx sid (step_name_at sg i) w = (Inr cr, w1)"
    and v1: "view sid w1 = (rollback (ex_js ex) ctx (sg_steps sg) rs app', [],
       Some (map (js_stringify (ex_js ex)) rs, s, m))"
    using compensate_refines [OF assms(1,2) idx(2,1) assms(6)] by blast
  obtain w2 where w2: "mark_failed ex sg ctx sid (clock (w_db w) - t) err w1 = (Inr (), w2)"
    and v2: "view sid w2 = (rollback (ex_js ex) ctx (sg_steps sg) rs app', [],
       Some (map (js_stringify (ex_js ex)) rs, Failed, m))"
    using mark_failed_refines [OF v1] .
  have eff: "atomic_effect ex sg ctx app = rollback (ex_js ex) ctx (sg_steps sg) rs app'"
    using assms(3) StepError by (simp add: atomic_effect_def)
  have "handle_error ex sg ctx sid t err w = (Inl err, w2)"
    using w1 w2 by (simp add: err handle_error_def ebind_def eseq_def on_db_def ezoom_def date_now_def
        eget_def ethrow_def)
  with v2 eff show ?thesis by (intro exI [of _ w2]) simp
qed


text \<open>The body: the key is claimed, then the steps run.\<close>

lemma row_lookup_upsert_same: "row_lookup (st_id row) (row_upsert row rs) = Some row"
  using saga_rows.lookup_upsert [of "st_id row" row rs] by simp

lemma not_key_taken_clear:
  "\<not> key_taken row (map (\<lambda>r. if st_idempotencyKey r = st_idempotencyKey row
      then r\<lparr>st_idempotencyKey := None\<rparr> else r) rs)"
  by (auto simp: key_taken_def list_ex_iff split: if_splits)

lemma claim_key_refines:
  assumes "cf_persistState (ex_config ex)" and "faults (w_db w) = []"
    and "cx_idempotencyKey ctx = Some key" and "key \<noteq> []"
    and "st_id st0 = sid" and "st_idempotencyKey st0 = Some key"
    and "st_stepResults st0 = []" and "st_status st0 = Executing"
  obtains w' where "claim_key ex ctx st0 w = (Inr (), w')" "view sid w' = (w_app w, [], Some ([], Executing, Some key, st_startedAt st0))"
proof -
  let ?g = "\<lambda>r. if st_idempotencyKey r = Some key then r\<lparr>st_idempotencyKey := None\<rparr> else r"
  have k: "st_idempotencyKey (state_to_row st0) = Some key" and i: "st_id (state_to_row st0) = sid"
    using assms by (simp_all add: state_to_row_def)
  have "\<not> key_taken (state_to_row st0) (map ?g (states (w_db w)))"
    using not_key_taken_clear [of "state_to_row st0"] k by simp
  moreover have "row_lookup sid (row_upsert (state_to_row st0) (map ?g (states (w_db w)))) = Some (state_to_row st0)"
    using row_lookup_upsert_same [of "state_to_row st0"] i by simp
  ultimately show thesis
    using assms that
    by (simp add: claim_key_def ewhen_def eseq_def ebind_def run_defs clearIdempotencyKey_def saveState_def
        view_def Let_def) (simp add: state_to_row_def)
qed

text \<open>What the error handler has to do with the application state for the body's error.\<close>

definition handler_effect :: "'r executor \<Rightarrow> ('w, 'r) saga \<Rightarrow> saga_context \<Rightarrow> string \<Rightarrow> 'w \<Rightarrow> 'w \<Rightarrow> 'r list \<Rightarrow> 'w \<Rightarrow> bool" where
  "handler_effect ex sg ctx sid app app' rs eff \<longleftrightarrow> (\<forall>err t s key started w.
     saga_outcome ex sg ctx app = Inl err \<longrightarrow>
     view sid w = (app', [], Some (map (js_stringify (ex_js ex)) rs, s, key, started)) \<longrightarrow>
     (\<exists>w'. (handle_error ex sg ctx sid t err :: ('w world, saga_error, 'r exec_result) em) w = (Inl err, w') \<and>
        view sid w' = (eff, [], Some (map (js_stringify (ex_js ex)) rs, Failed, key, started))))"

lemma saga_body_refines:
  fixes w :: "'w world" and ex :: "'r executor"
  assumes ex: "cf_persistState (ex_config ex)"
    and f: "forward ex ctx 0 [] (sg_steps sg) (w_app w) = (out, rs, app')"
    and han: "out \<noteq> None \<Longrightarrow> handler_effect ex sg ctx sid (w_app w) app' rs eff"
    and ok: "out = None \<Longrightarrow> eff = app'"
    and key: "cx_idempotencyKey ctx = Some key" "key \<noteq> []"
    and st: "st_id st0 = sid" "st_idempotencyKey st0 = Some key" "st_stepResults st0 = []" "st_status st0 = Executing"
    and q: "faults (w_db w) = []"
  shows "\<exists>w'. snd (ecatch (saga_body ex sg ctx st0 t) (handle_error ex sg ctx sid t) w) = w' \<and>
     map_sum id er_result (fst (ecatch (saga_body ex sg ctx st0 t) (handle_error ex sg ctx sid t) w)) =
       saga_outcome ex sg ctx (w_app w) \<and>
     view sid w' = (eff, [], Some (map (js_stringify (ex_js ex)) rs, (if out = None then Completed else Failed), Some key, st_startedAt st0))"
proof -
  obtain w1 where w1: "claim_key ex ctx st0 w = (Inr (), w1)" and v1: "view sid w1 = (w_app w, [], Some ([], Executing, Some key, st_startedAt st0))"
    using claim_key_refines [OF ex q key st] .
  obtain w2 where w2: "(auditSagaLifecycle ex (sg_name sg) ctx AuditStart sid None None :: ('w world, saga_error, unit) em) w1 = (Inr (), w2)"
    and v2: "view sid w2 = (w_app w, [], Some ([], Executing, Some key, st_startedAt st0))"
    using view_audit [OF v1] .
  obtain w3 where w3: "executeSaga ex sg ctx sid w2 = (saga_outcome ex sg ctx (w_app w), w3)"
    and v3: "view sid w3 = (app', [], Some (map (js_stringify (ex_js ex)) rs,
       (case out of Some (StepError i e) \<Rightarrow> Failed | _ \<Rightarrow> Executing), Some key, st_startedAt st0))"
    using executeSaga_refines [OF ex v2 f] by blast
  show ?thesis
  proof (cases out)
    case None
    then have o: "saga_outcome ex sg ctx (w_app w) = Inr (last_result rs)"
      using f by (simp add: saga_outcome_def)
    obtain w4 where w4: "store (updateStatus sid Completed None None) w3 = (Inr (), w4)"
      and v4: "view sid w4 = (app', [], Some (map (js_stringify (ex_js ex)) rs, Completed, Some key, st_startedAt st0))"
      using view_status [OF v3] .
    obtain w5 where w5: "(auditSagaLifecycle ex (sg_name sg) ctx AuditComplete sid (Some (clock (w_db w3) - t)) None ::
        ('w world, saga_error, unit) em) w4 = (Inr (), w5)"
      and v5: "view sid w5 = (app', [], Some (map (js_stringify (ex_js ex)) rs, Completed, Some key, st_startedAt st0))"
      using view_audit [OF v4] .
    have "saga_body ex sg ctx st0 t w = (Inr \<lparr>er_result = last_result rs, er_sagaId = sid,
        er_duration = clock (w_db w3) - t, er_compensated = False\<rparr>, w5)"
      using w1 w2 w3 w4 w5 o ex st(1)
      by (simp add: saga_body_def eseq_def ebind_def ewhen_def on_db_def ezoom_def date_now_def
          eget_def ereturn_def)
    with None o ok v5 show ?thesis by (simp add: ecatch_def)
  next
    case (Some a)
    then obtain err where o: "saga_outcome ex sg ctx (w_app w) = Inl err"
      using f by (cases a) (simp_all add: saga_outcome_def)
    have body: "saga_body ex sg ctx st0 t w = (Inl err, w3)"
      using w1 w2 w3 o st(1) by (simp add: saga_body_def eseq_def ebind_def)
    obtain w4 where "(handle_error ex sg ctx sid t err :: ('w world, saga_error, 'r exec_result) em) w3 = (Inl err, w4)"
      and "view sid w4 = (eff, [], Some (map (js_stringify (ex_js ex)) rs, Failed, Some key, st_startedAt st0))"
      using han Some o v3 unfolding handler_effect_def by blast
    with body Some o show ?thesis by (simp add: ecatch_def)
  qed
qed


subsection \<open>The execution as a whole\<close>

definition keyed :: "'r executor \<Rightarrow> ('w, 'r) saga \<Rightarrow> saga_context \<Rightarrow> saga_context" where
  "keyed ex sg ctx = ctx\<lparr>cx_idempotencyKey := Some (generateIdempotencyKey (js_digest (ex_js ex)) (sg_name sg) ctx)\<rparr>"

definition lock_free :: "saga_context \<Rightarrow> saga_db \<Rightarrow> bool" where
  "lock_free ctx db \<longleftrightarrow> (case getResourceKey ctx of None \<Rightarrow> True | Some k \<Rightarrow> lock_find k (locks db) = None)"

text \<open>A run that meets no obstacle of its own making: no adapter failure to come, a fresh
  saga id, a key nobody holds, a valid context, a free resource, steps with distinct names.\<close>

definition clear_run :: "'r executor \<Rightarrow> ('w, 'r) saga \<Rightarrow> string \<Rightarrow> saga_context \<Rightarrow> 'w world \<Rightarrow> bool" where
  "clear_run ex sg sid ctx w \<longleftrightarrow>
     cf_persistState (ex_config ex) \<and> faults (w_db w) = [] \<and> sid \<noteq> [] \<and>
     sid \<notin> set (map st_id (states (w_db w))) \<and>
     the (cx_idempotencyKey (keyed ex sg ctx)) \<notin> set (idem_keys (states (w_db w))) \<and>
     validation_errors sg (keyed ex sg ctx) = None \<and> lock_free ctx (w_db w) \<and> well_named sg"

lemma getResourceKey_keyed [simp]: "getResourceKey (keyed ex sg ctx) = getResourceKey ctx"
  by (simp add: getResourceKey_def keyed_def cong: option.case_cong)

lemma row_upsert_fresh: "st_id row \<notin> st_id ` set rs \<Longrightarrow> row_upsert row rs = rs @ [row]"
  by (auto simp: row_upsert_def list_ex_iff) (metis image_eqI)

lemma acquire_phase_clear:
  assumes "cf_persistState (ex_config ex)" and "faults (w_db w) = []" and "st_id st0 = sid"
    and "sid \<notin> set (map st_id (states (w_db w)))"
    and "case rk of None \<Rightarrow> True | Some k \<Rightarrow> lock_find k (locks (w_db w)) = None"
  shows "\<exists>w' l. acquire_phase ex rk st0 w = (Inr l, w') \<and> w_app w' = w_app w \<and> faults (w_db w') = [] \<and>
     (l = None \<longleftrightarrow> rk = None) \<and>
     locks (w_db w') = locks (w_db w) @ (case rk of None \<Rightarrow> [] | Some k \<Rightarrow>
       [new_lock k sid (cf_lockTimeout (ex_config ex)) (w_db w)])"
proof -
  let ?row = "state_to_row (st0\<lparr>st_idempotencyKey := None\<rparr>)"
  let ?db = "(w_db w)\<lparr>states := states (w_db w) @ [?row]\<rparr>"
  have id: "st_id ?row = sid" using assms(3) by simp
  have "\<not> key_taken ?row (states (w_db w))" by (simp add: key_taken_def state_to_row_def)
  moreover have "row_upsert ?row (states (w_db w)) = states (w_db w) @ [?row]"
    using assms(4) id by (intro row_upsert_fresh) simp
  ultimately have save: "store (saveState (st0\<lparr>st_idempotencyKey := None\<rparr>)) w = (Inr (), w\<lparr>w_db := ?db\<rparr>)"
    using assms(2) by (simp add: run_defs saveState_def Let_def)
  show ?thesis
  proof (cases rk)
    case None
    with save assms(1,2) show ?thesis
      by (auto simp: acquire_phase_def eseq_def ebind_def ewhen_def ereturn_def)
  next
    case (Some k)
    let ?l = "new_lock k sid (cf_lockTimeout (ex_config ex)) (w_db w)"
    have row: "row_lookup sid (states ?db) \<noteq> None" using id by (simp add: row_lookup_None)
    have nl: "new_lock k sid (cf_lockTimeout (ex_config ex)) ?db = ?l" by (simp add: new_lock_def)
    have "acquireLock k sid (cf_lockTimeout (ex_config ex)) ?db = (Inr ?l, ?db\<lparr>locks := locks (w_db w) @ [?l]\<rparr>)"
      using acquireLock_free [of ?db k sid "cf_lockTimeout (ex_config ex)"] row assms(2,5) Some nl by simp
    with save assms(1-3) Some show ?thesis
      by (simp add: acquire_phase_def eseq_def ebind_def ewhen_def ereturn_def ecatch_def on_db_def ezoom_def)
  qed
qed

lemma cleanup_clear:
  assumes "cf_persistState (ex_config ex)" and "faults (w_db w) = []" and "sid \<noteq> []"
    and "l = None \<longleftrightarrow> rk = None"
  shows "view i (snd (cleanup ex rk l sid w)) = view i w \<and>
     locks (w_db (snd (cleanup ex rk l sid w))) =
       (case rk of None \<Rightarrow> locks (w_db w)
        | Some k \<Rightarrow> filter (\<lambda>m. \<not> (lk_key m = k \<and> lk_holder m = sid)) (locks (w_db w)))"
  using assms
  by (cases rk)
     (auto simp: cleanup_def eseq_def ebind_def ewhen_def ereturn_def equiet_def run_defs releaseLock_def
        view_def)

lemma execute_clear_gen:
  assumes clear: "clear_run ex sg sid ctx w"
    and f: "forward ex (keyed ex sg ctx) 0 [] (sg_steps sg) (w_app w) = (out, rs, app')"
    and han: "out \<noteq> None \<Longrightarrow> handler_effect ex sg (keyed ex sg ctx) sid (w_app w) app' rs eff"
    and ok: "out = None \<Longrightarrow> eff = app'"
  shows "map_sum id er_result (fst (execute ex sg sid ctx w)) = saga_outcome ex sg (keyed ex sg ctx) (w_app w)"
    and "view sid (snd (execute ex sg sid ctx w)) = (eff, [],
       Some (map (js_stringify (ex_js ex)) rs, (if out = None then Completed else Failed), cx_idempotencyKey (keyed ex sg ctx), clock (w_db w)))"
    and "locks (w_db (snd (execute ex sg sid ctx w))) = locks (w_db w)"
proof -
  let ?ctx = "keyed ex sg ctx" and ?t = "clock (w_db w)" and ?rk = "getResourceKey ctx"
  let ?st0 = "initial_state ex sg ?ctx sid ?t"
  obtain key where key: "cx_idempotencyKey ?ctx = Some key" "key \<noteq> []"
    by (simp add: keyed_def generateIdempotencyKey_nonempty)
  note c = clear [unfolded clear_run_def]
  have find: "find (\<lambda>r. st_idempotencyKey r = Some key) (states (w_db w)) = None"
    using c key by (auto simp: find_None_iff set_idem_keys)
  have check: "checkIdempotency (ex_idempotency ex) (ex_js ex) (Some key) (w_db w) = (Inr None, w_db w)"
    using checkIdempotency_no_faults [of "w_db w" key] c key(2) find by simp
  have run: "execute ex sg sid ctx w = run_locked ex sg ?ctx sid ?t w"
    using key c check
    by (simp add: execute_def keyed_def ebind_def on_db_def ezoom_def date_now_def eget_def Let_def)
  obtain w1 l where a: "acquire_phase ex ?rk ?st0 w = (Inr l, w1)" and w1: "w_app w1 = w_app w"
      "faults (w_db w1) = []" and l: "l = None \<longleftrightarrow> ?rk = None"
    and ls: "locks (w_db w1) = locks (w_db w) @ (case ?rk of None \<Rightarrow> [] | Some k \<Rightarrow>
       [new_lock k sid (cf_lockTimeout (ex_config ex)) (w_db w)])"
    using acquire_phase_clear [of ex w ?st0 sid ?rk] c by (auto simp: initial_state_def lock_free_def)
  let ?m = "ecatch (saga_body ex sg ?ctx ?st0 ?t) (handle_error ex sg ?ctx sid ?t)"
  obtain w2 where w2: "snd (?m w1) = w2"
    and res: "map_sum id er_result (fst (?m w1)) = saga_outcome ex sg ?ctx (w_app w)"
    and v2: "view sid w2 = (eff, [],
       Some (map (js_stringify (ex_js ex)) rs, (if out = None then Completed else Failed), cx_idempotencyKey (keyed ex sg ctx), clock (w_db w)))"
    using saga_body_refines [of ex ?ctx sg w1 out rs app' sid eff key ?st0 ?t] c f han ok key w1
    by (auto simp: initial_state_def)
  have "em_rel (on_part body_rel) ?m"
    by (intro em_frame.rel_catch [OF own_body.lifted] own_body.eff_handle_error own_body.eff_body)
       (simp add: initial_state_def)
  then have ls2: "locks (w_db w2) = locks (w_db w1)"
    using em_relD [of "on_part body_rel" ?m w1] w2 by (simp add: on_part_def body_rel_def)
  have q2: "faults (w_db w2) = []" using v2 by (simp add: view_def)
  have ex_run: "execute ex sg sid ctx w = (fst (?m w1), snd (cleanup ex ?rk l sid w2))"
    unfolding run using a w2 by (cases "?m w1") (simp add: run_locked_def Let_def efinally_def)
  note cl = cleanup_clear [OF conjunct1 [OF c] q2 _ l, of sid sid]
  show "map_sum id er_result (fst (execute ex sg sid ctx w)) = saga_outcome ex sg ?ctx (w_app w)"
    using ex_run res by simp
  show "view sid (snd (execute ex sg sid ctx w)) = (eff, [],
       Some (map (js_stringify (ex_js ex)) rs, (if out = None then Completed else Failed), cx_idempotencyKey (keyed ex sg ctx), clock (w_db w)))"
    using ex_run cl v2 c by simp
  show "locks (w_db (snd (execute ex sg sid ctx w))) = locks (w_db w)"
    using ex_run cl c ls ls2
    by (auto simp: lock_free_def lock_find_None new_lock_def filter_id_conv split: option.splits)
qed

text \<open>The error of a failed step is the saga's own: the completed steps are undone.\<close>

lemma execute_clear:
  assumes clear: "clear_run ex sg sid ctx w"
    and f: "forward ex (keyed ex sg ctx) 0 [] (sg_steps sg) (w_app w) = (out, rs, app')"
    and ne: "\<And>i e. out = Some (StepError i e) \<Longrightarrow> \<not> is_step_error e"
  shows "map_sum id er_result (fst (execute ex sg sid ctx w)) = saga_outcome ex sg (keyed ex sg ctx) (w_app w)"
    and "view sid (snd (execute ex sg sid ctx w)) = (atomic_effect ex sg (keyed ex sg ctx) (w_app w), [],
       Some (map (js_stringify (ex_js ex)) rs, (if out = None then Completed else Failed),
         cx_idempotencyKey (keyed ex sg ctx), clock (w_db w)))"
    and "locks (w_db (snd (execute ex sg sid ctx w))) = locks (w_db w)"
proof -
  let ?eff = "atomic_effect ex sg (keyed ex sg ctx) (w_app w)"
  have han: "handler_effect ex sg (keyed ex sg ctx) sid (w_app w) app' rs ?eff" if "out \<noteq> None"
    unfolding handler_effect_def
  proof (intro allI impI)
    fix err t s key started w'
    assume o: "saga_outcome ex sg (keyed ex sg ctx) (w_app w) = Inl err"
      and v: "view sid w' = (app', [], Some (map (js_stringify (ex_js ex)) rs, s, key, started))"
    from that obtain a where a: "out = Some a" by blast
    show "\<exists>w2. handle_error ex sg (keyed ex sg ctx) sid t err w' = (Inl err, w2) \<and>
        view sid w2 = (?eff, [], Some (map (js_stringify (ex_js ex)) rs, Failed, key, started))"
      by (rule handle_error_refines [OF _ _ f [unfolded a] _ o v])
         (use clear ne a in \<open>auto simp: clear_run_def\<close>)
  qed
  have ok: "out = None \<Longrightarrow> ?eff = app'" using f by (simp add: atomic_effect_def)
  note g = execute_clear_gen [OF clear f han ok]
  show "map_sum id er_result (fst (execute ex sg sid ctx w)) = saga_outcome ex sg (keyed ex sg ctx) (w_app w)"
    by (rule g(1))
  show "view sid (snd (execute ex sg sid ctx w)) = (?eff, [],
       Some (map (js_stringify (ex_js ex)) rs, (if out = None then Completed else Failed),
         cx_idempotencyKey (keyed ex sg ctx), clock (w_db w)))" by (rule g(2))
  show "locks (w_db (snd (execute ex sg sid ctx w))) = locks (w_db w)" by (rule g(3))
qed

text \<open>The error of a step is the step error of another saga: nothing is undone.\<close>

lemma find_index_None: "find_index P xs = None \<longleftrightarrow> (\<forall>x \<in> set xs. \<not> P x)"
  by (induction xs) auto

lemma execute_foreign_step_error:
  assumes clear: "clear_run ex sg sid ctx w"
    and f: "forward ex (keyed ex sg ctx) 0 [] (sg_steps sg) (w_app w) =
      (Some (StepError i (SagaStepError inner msg)), rs, app')"
    and inner: "inner \<notin> set (map sp_name (sg_steps sg))"
  shows "w_app (snd (execute ex sg sid ctx w)) = app'"
    and "map_sum id er_result (fst (execute ex sg sid ctx w)) = Inl (SagaStepError inner msg)"
proof -
  let ?ctx = "keyed ex sg ctx"
  have out: "saga_outcome ex sg ?ctx (w_app w) = Inl (SagaStepError inner msg)"
    using f by (simp add: saga_outcome_def)
  have idx: "find_index (\<lambda>s. sp_name s = inner) (sg_steps sg) = None"
    using inner by (auto simp: find_index_None)
  have "handler_effect ex sg ?ctx sid (w_app w) app' rs app'"
    unfolding handler_effect_def out
  proof (intro allI impI)
    fix err t s key started w'
    assume err: "Inl (SagaStepError inner msg) = Inl err"
      and v: "view sid w' = (app', [], Some (map (js_stringify (ex_js ex)) rs, s, key, started))"
    obtain w2 where "mark_failed ex sg ?ctx sid (clock (w_db w') - t) err w' = (Inr (), w2)"
      and "view sid w2 = (app', [], Some (map (js_stringify (ex_js ex)) rs, Failed, key, started))"
      using mark_failed_refines [OF v] .
    with err idx show "\<exists>w2. handle_error ex sg ?ctx sid t err w' = (Inl err, w2) \<and>
        view sid w2 = (app', [], Some (map (js_stringify (ex_js ex)) rs, Failed, key, started))"
      by (auto simp: handle_error_def compensate_def ebind_def eseq_def on_db_def ezoom_def date_now_def
          eget_def ethrow_def ereturn_def)
  qed
  note g = execute_clear_gen [OF clear f this]
  show "w_app (snd (execute ex sg sid ctx w)) = app'" using g(2) by (simp add: view_def)
  show "map_sum id er_result (fst (execute ex sg sid ctx w)) = Inl (SagaStepError inner msg)"
    using g(1) out by simp
qed

end
