(* ===== verification/Saga_Theorems.thy ===== *)
theory Saga_Theorems
  imports Saga_Atomicity
begin

section \<open>What the saga engine guarantees\<close>

text \<open>
  The properties of the executor: atomicity, the record it leaves
  and independence from other sagas under every pattern of adapter failures, no leaked
  lock, mutual exclusion on a resource, replay and refusal of repeated operations, and the
  scoping of idempotency keys. Each is followed by a run of a small saga.
\<close>

subsection \<open>A lock is not kept beyond the execution\<close>

lemma acquireLock_calm:
  assumes "faults db = []" and "row_lookup s (states db) \<noteq> None"
  obtains (held) e where "acquireLock k s t db = (Inl e, db)"
  | (got) l db' where "acquireLock k s t db = (Inr l, db')" "faults db' = []" "lk_key l = k"
      "locks db' = filter (\<lambda>m. lk_key m \<noteq> k) (locks db) @ [l]"
proof (cases "lock_find k (locks db)")
  case None
  then have "filter (\<lambda>m. lk_key m \<noteq> k) (locks db) = locks db"
    by (simp add: lock_find_None filter_id_conv)
  then show thesis
    using assms by (intro got [OF acquireLock_free [OF assms(1) None assms(2)]]) (simp_all add: new_lock_def)
next
  case (Some e)
  show thesis
  proof (cases "lk_expiresAt e < clock db")
    case True
    from got [OF acquireLock_expired [OF assms(1) Some True assms(2), unfolded Let_def]] assms(1)
    show thesis by (simp add: new_lock_def)
  next
    case False
    with Some assms acquireLock_held [of db k e s t] show thesis by (intro held) auto
  qed
qed

lemma save_keyless:
  assumes "faults (w_db w) = []"
  shows "store (saveState (st0\<lparr>st_idempotencyKey := None\<rparr>)) w = (Inr (), w\<lparr>w_db := (w_db w)\<lparr>states :=
    row_upsert (state_to_row (st0\<lparr>st_idempotencyKey := None\<rparr>)) (states (w_db w))\<rparr>\<rparr>)"
  using assms by (simp add: run_defs saveState_def Let_def key_taken_def state_to_row_def)

lemma delete_quiet:
  assumes "faults (w_db w) = []"
  shows "(equiet (store (deleteState i)) :: ('w world, 'e, unit) em) w = (Inr (), w\<lparr>w_db := (w_db w)\<lparr>
     states := row_delete i (states (w_db w)), locks := filter (\<lambda>l. lk_holder l \<noteq> i) (locks (w_db w))\<rparr>\<rparr>)"
  using assms by (simp add: equiet_def run_defs deleteState_def)

definition holds_only :: "string \<Rightarrow> string option \<Rightarrow> 'w world \<Rightarrow> bool" where
  "holds_only sid k w \<longleftrightarrow> (\<forall>l \<in> set (locks (w_db w)). lk_holder l = sid \<longrightarrow> k = Some (lk_key l))"

lemma acquire_phase_holds:
  assumes q: "faults (w_db w) = []" and none: "holds_only sid None w" and st: "st_id st0 = sid"
    and run: "acquire_phase ex rk st0 w = (r, w1)"
  shows "faults (w_db w1) = [] \<and> holds_only sid (case r of Inr (Some l) \<Rightarrow> rk | _ \<Rightarrow> None) w1"
proof (cases rk)
  case None
  with run q none save_keyless [of w st0] show ?thesis
    by (auto simp: acquire_phase_def eseq_def ebind_def ewhen_def ereturn_def holds_only_def split: if_splits)
next
  case (Some k)
  let ?row = "state_to_row (st0\<lparr>st_idempotencyKey := None\<rparr>)"
  let ?db = "(w_db w)\<lparr>states := row_upsert ?row (states (w_db w))\<rparr>"
  have row: "row_lookup sid (states ?db) \<noteq> None"
    using row_lookup_upsert_same [of ?row] st by simp
  show ?thesis
  proof (rule acquireLock_calm [of ?db sid k "cf_lockTimeout (ex_config ex)"])
    show "faults ?db = []" using q by simp
    show "row_lookup sid (states ?db) \<noteq> None" by (rule row)
  next
    fix e assume a: "acquireLock k sid (cf_lockTimeout (ex_config ex)) ?db = (Inl e, ?db)"
    then have "r = Inl e" and "w1 = snd ((equiet (store (deleteState sid)) :: ('a world, saga_error, unit) em) (w\<lparr>w_db := ?db\<rparr>))"
      using run Some st save_keyless [OF q, of st0] q
      by (auto simp: acquire_phase_def eseq_def ebind_def ewhen_def ecatch_def on_db_def ezoom_def ethrow_def
          delete_quiet)
    with q none show ?thesis by (auto simp: holds_only_def delete_quiet)
  next
    fix l db' assume a: "acquireLock k sid (cf_lockTimeout (ex_config ex)) ?db = (Inr l, db')"
      "faults db' = []" "lk_key l = k" "locks db' = filter (\<lambda>m. lk_key m \<noteq> k) (locks ?db) @ [l]"
    then have "r = Inr (Some l)" and "w1 = w\<lparr>w_db := db'\<rparr>"
      using run Some st save_keyless [OF q, of st0]
      by (auto simp: acquire_phase_def eseq_def ebind_def ewhen_def ecatch_def on_db_def ezoom_def ereturn_def)
    with a Some none show ?thesis by (auto simp: holds_only_def)
  qed
qed

lemma cleanup_releases:
  assumes "faults (w_db w) = []" and "sid \<noteq> []"
    and "holds_only sid (if l = None then None else rk) w"
  shows "holds_only sid None (snd (cleanup ex rk l sid w))"
  using assms
  by (cases l; cases rk)
     (auto simp: cleanup_def eseq_def ebind_def ewhen_def ereturn_def equiet_def run_defs releaseLock_def
        deleteState_def holds_only_def split: option.splits)

lemma body_rel_holds:
  "em_rel (on_part body_rel) m \<Longrightarrow> faults (w_db w) = [] \<Longrightarrow> holds_only sid k w \<Longrightarrow>
     faults (w_db (snd (m w))) = [] \<and> holds_only sid k (snd (m w))"
  using em_relD [of "on_part body_rel" m w] by (auto simp: on_part_def body_rel_def holds_only_def)

lemma run_locked_releases:
  fixes w :: "'w world" and ex :: "'r executor"
  assumes "faults (w_db w) = []" and "holds_only sid None w" and "sid \<noteq> []"
  shows "holds_only sid None (snd (run_locked ex sg ctx sid t w))"
proof -
  let ?st0 = "initial_state ex sg ctx sid (clock (w_db w))" and ?rk = "getResourceKey ctx"
  have id: "st_id ?st0 = sid" by (simp add: initial_state_def)
  obtain r w1 where a: "acquire_phase ex ?rk ?st0 w = (r, w1)" by fastforce
  note h1 = acquire_phase_holds [OF assms(1,2) id a]
  have body: "em_rel (on_part body_rel) (ecatch (saga_body ex sg ctx ?st0 t) (handle_error ex sg ctx sid t))"
    by (intro em_frame.rel_catch [OF own_body.lifted] own_body.eff_handle_error
        own_body.eff_body [where sid = sid] id)
  show ?thesis
  proof (cases r)
    case (Inl e)
    let ?m = "handle_error ex sg ctx sid t e :: ('w world, saga_error, 'r exec_result) em"
    have "faults (w_db (snd (?m w1))) = [] \<and> holds_only sid None (snd (?m w1))"
      using h1 Inl by (intro body_rel_holds own_body.eff_handle_error) auto
    then have "holds_only sid None (snd (cleanup ex ?rk None sid (snd (?m w1))))"
      using assms(3) by (intro cleanup_releases) auto
    with a Inl show ?thesis by (auto simp: run_locked_def efinally_def Let_def split: prod.splits)
  next
    case (Inr l)
    let ?m = "ecatch (saga_body ex sg ctx ?st0 t) (handle_error ex sg ctx sid t)"
    have "faults (w_db (snd (?m w1))) = [] \<and> holds_only sid (if l = None then None else ?rk) (snd (?m w1))"
      using h1 Inr by (intro body_rel_holds body) (auto split: option.splits)
    then have "holds_only sid None (snd (cleanup ex ?rk l sid (snd (?m w1))))"
      using assms(3) by (intro cleanup_releases) auto
    with a Inr show ?thesis by (auto simp: run_locked_def efinally_def Let_def split: prod.splits)
  qed
qed

lemma execute_cases:
  assumes "faults (w_db w) = []"
  shows "snd (execute ex sg sid ctx w) = w \<or>
    execute ex sg sid ctx w = run_locked ex sg (keyed ex sg ctx) sid (clock (w_db w)) w"
  using assms checkIdempotency_no_faults
    [OF assms generateIdempotencyKey_nonempty [of "js_digest (ex_js ex)" "sg_name sg" ctx],
     of "ex_idempotency ex" "ex_js ex"]
  by (auto simp: execute_def keyed_def ebind_def on_db_def ezoom_def date_now_def eget_def Let_def
      ereturn_def ethrow_def split: option.splits if_splits)

subsection \<open>Mutual exclusion\<close>

definition same_app :: "'w world \<Rightarrow> 'w world \<Rightarrow> bool" where
  "same_app w w' \<longleftrightarrow> w_app w' = w_app w"

interpretation app_frame: em_frame same_app
  by unfold_locales (auto simp: same_app_def)

lemma same_app_db [em_frame_intros]:
  "em_rel same_app (on_db m)" "em_rel same_app (store n)"
  by (auto simp: em_rel_def same_app_def run_defs split: prod.splits sum.splits)

lemma same_app_emodify: "(\<And>w. w_app (f w) = w_app w) \<Longrightarrow> em_rel same_app (emodify f)"
  by (simp add: em_rel_def same_app_def emodify_def)

lemma same_app_mark_failed: "em_rel same_app (mark_failed ex sg ctx sid d e)"
  unfolding mark_failed_def auditSagaLifecycle_def audit_record_def
  by (auto intro!: app_frame.rel_intros em_frame_intros same_app_emodify)

lemma same_app_cleanup: "em_rel same_app (cleanup ex rk l sid)"
  unfolding cleanup_def
  by (auto intro!: app_frame.rel_intros em_frame_intros split: option.splits)

lemma same_app_handle_error:
  "\<not> is_step_error e \<Longrightarrow> em_rel same_app (handle_error ex sg ctx sid t e)"
  unfolding handle_error_def
  by (cases e) (auto intro!: app_frame.rel_intros em_frame_intros same_app_mark_failed)

lemma same_app_acquire_phase: "em_rel same_app (acquire_phase ex rk st0)"
  unfolding acquire_phase_def Let_def
  by (auto intro!: app_frame.rel_intros em_frame_intros split: option.splits)

lemma acquireLock_errors: "acquireLock k s t db = (Inl e, db') \<Longrightarrow> \<not> is_step_error e"
proof (induction k s t db rule: acquireLock.induct)
  case (1 k s t db)
  obtain r1 db1 where i: "insertLock (new_lock k s t db) db = (r1, db1)" by fastforce
  obtain r2 db2 where g: "getLock k db1 = (r2, db2)" by fastforce
  obtain r3 db3 where f: "releaseLock k None db2 = (r3, db3)" by fastforce
  show ?case
  proof (cases "\<exists>e1 l u. r1 = Inl e1 \<and> r2 = Inr (Some l) \<and> lk_expiresAt l < clock db2 \<and> r3 = Inr u")
    case True
    then obtain e1 l u where c: "r1 = Inl e1" "r2 = Inr (Some l)" "lk_expiresAt l < clock db2" "r3 = Inr u"
      by blast
    have "acquireLock k s t db = acquireLock k s t db3"
      using i g f c by (subst acquireLock.simps) simp
    with "1.prems" have "acquireLock k s t db3 = (Inl e, db')" by simp
    with "1.IH" [of "new_lock k s t db" "Inl e1" db1 e1 r2 db2 "Some l" l r3 db3 u] i g f c show ?thesis by simp
  next
    case False
    with "1.prems" [unfolded acquireLock.simps [of k s t db]] i g f show ?thesis
      by (auto split: sum.splits option.splits if_splits)
  qed
qed

lemma acquire_phase_errors: "acquire_phase ex rk st0 w = (Inl e, w') \<Longrightarrow> \<not> is_step_error e"
  by (auto simp: acquire_phase_def eseq_def ebind_def ewhen_def ereturn_def ecatch_def on_db_def ezoom_def
      ethrow_def store_def emap_err_def equiet_def Let_def
      split: prod.splits sum.splits if_splits option.splits dest: acquireLock_errors)

lemma save_keeps_locks: "store (saveState st) w = (r, w') \<Longrightarrow> locks (w_db w') = locks (w_db w) \<and> clock (w_db w') = clock (w_db w)"
  by (auto simp: run_defs saveState_def db_call_def Let_def split: list.splits bool.splits if_splits prod.splits sum.splits)

lemma save_keeps_ok: "store (saveState st) w = (r, w') \<Longrightarrow> saga_db_ok (w_db w) \<Longrightarrow> saga_db_ok (w_db w')"
  using em_relD' [OF on_part_store [OF store_methods_keep_ok(1)]] by (fastforce simp: on_part_def keeps_ok_def)

lemma acquire_phase_held:
  assumes "saga_db_ok (w_db w)" and "l \<in> set (locks (w_db w))" and "clock (w_db w) \<le> lk_expiresAt l"
  shows "\<exists>e w'. acquire_phase ex (Some (lk_key l)) st0 w = (Inl e, w')"
proof -
  obtain r w1 where s: "store (saveState (st0\<lparr>st_idempotencyKey := None\<rparr>)) w = (r, w1)" by fastforce
  note k = save_keeps_locks [OF s] save_keeps_ok [OF s assms(1)]
  have "\<exists>e. fst (acquireLock (lk_key l) (st_id st0) (cf_lockTimeout (ex_config ex)) (w_db w1)) = Inl e"
    by (rule acquireLock_unexpired_fails [of _ l]) (use k assms in auto)
  then obtain e db where "acquireLock (lk_key l) (st_id st0) (cf_lockTimeout (ex_config ex)) (w_db w1) = (Inl e, db)"
    by (metis prod.collapse)
  with s show ?thesis
    by (cases r) (auto simp: acquire_phase_def eseq_def ebind_def ewhen_def ecatch_def on_db_def ezoom_def
        ethrow_def equiet_def Let_def)
qed

lemma run_locked_held:
  assumes "saga_db_ok (w_db w)" and "l \<in> set (locks (w_db w))" and "clock (w_db w) \<le> lk_expiresAt l"
    and "getResourceKey ctx = Some (lk_key l)"
  shows "w_app (snd (run_locked ex sg ctx sid t w)) = w_app w"
proof -
  let ?st0 = "initial_state ex sg ctx sid (clock (w_db w))"
  obtain e w1 where a: "acquire_phase ex (Some (lk_key l)) ?st0 w = (Inl e, w1)"
    using acquire_phase_held [OF assms(1-3)] by metis
  have "em_rel same_app (efinally (handle_error ex sg ctx sid t e) (cleanup ex (Some (lk_key l)) None sid))"
    by (intro app_frame.rel_finally same_app_handle_error same_app_cleanup acquire_phase_errors [OF a])
  from em_relD [OF this, of w1] em_relD' [OF same_app_acquire_phase a] a assms(4)
  show ?thesis by (simp add: run_locked_def same_app_def Let_def)
qed

subsection \<open>Rows found by their idempotency key\<close>

lemma find_key_distinct:
  "distinct (idem_keys rs) \<Longrightarrow> r \<in> set rs \<Longrightarrow> st_idempotencyKey r = Some k \<Longrightarrow>
     find (\<lambda>r. st_idempotencyKey r = Some k) rs = Some r"
  by (induction rs) (auto simp: set_idem_keys split: option.splits)

lemma execute_cached:
  assumes "saga_db_ok (w_db w)" and "faults (w_db w) = []" and "row \<in> set (states (w_db w))"
    and "st_idempotencyKey row = cx_idempotencyKey (keyed ex sg ctx)" and "st_status row = Completed"
    and "clock (w_db w) - st_startedAt row \<le> key_ttl (ex_idempotency ex) (the (cx_idempotencyKey (keyed ex sg ctx)))"
  shows "execute ex sg sid ctx w = (Inr (cached_result (ex_js ex) (rowToState row)), w)"
proof -
  let ?key = "generateIdempotencyKey (js_digest (ex_js ex)) (sg_name sg) ctx"
  have key: "cx_idempotencyKey (keyed ex sg ctx) = Some ?key" "?key \<noteq> []"
    by (simp_all add: keyed_def generateIdempotencyKey_nonempty)
  have "find (\<lambda>r. st_idempotencyKey r = Some ?key) (states (w_db w)) = Some row"
    using assms key by (simp add: find_key_distinct saga_db_ok_def)
  then have "checkIdempotency (ex_idempotency ex) (ex_js ex) (Some ?key) (w_db w) =
      (Inr (Some (cached_result (ex_js ex) (rowToState row))), w_db w)"
    using checkIdempotency_no_faults [OF assms(2) key(2), of "ex_idempotency ex" "ex_js ex"] key assms
    by (simp add: rowToState_def)
  then show ?thesis
    by (simp add: execute_def ebind_def on_db_def ezoom_def date_now_def eget_def ereturn_def Let_def)
qed

subsection \<open>A small saga for concrete runs\<close>

text \<open>Three steps that write their name to a log and take it back with a minus sign; the
  last one ends as \<open>demo_saga\<close> is told.\<close>

definition demo_js :: "string js_env" where
  "demo_js = \<lparr>js_stringify = Some, js_parse = id, js_context = (\<lambda>_. ''{}''), js_digest = (\<lambda>_. ''0f'')\<rparr>"

definition demo_executor :: "string executor" where
  "demo_executor = \<lparr>ex_config = mk_config \<lparr>co_defaultTimeout = None, co_defaultStepTimeout = None,
       co_lockTimeout = None, co_idempotencyTtl = None, co_persistState = None\<rparr>,
     ex_idempotency = default_idempotency_manager, ex_js = demo_js, ex_audit = True\<rparr>"

definition demo_step :: "string \<Rightarrow> string step_outcome \<Rightarrow> (string list, string) saga_step" where
  "demo_step name out = \<lparr>sp_name = name, sp_isCompensatable = True, sp_timeout = None,
     sp_execute = (\<lambda>ctx log. (out, 5, log @ [name])),
     sp_compensate = Some (\<lambda>ctx r log. (Inr (), log @ [CHR ''-'' # (case r of None \<Rightarrow> [] | Some x \<Rightarrow> x)]))\<rparr>"

definition demo_saga :: "string step_outcome \<Rightarrow> (string list, string) saga" where
  "demo_saga out = \<lparr>sg_name = ''PublishDraft'', sg_version = None, sg_steps =
     [demo_step ''write'' (Returned ''r1''), demo_step ''index'' (Returned ''r2''), demo_step ''commit'' out],
     sg_validate = None\<rparr>"

definition demo_ctx :: "nat \<Rightarrow> saga_context" where
  "demo_ctx u = \<lparr>cx_correlationId = ''c1'', cx_idempotencyKey = Some ''k1'', cx_user = Some (UserNum u),
     cx_userId = None, cx_metadata = [''draftId'' \<mapsto> ''d7''], cx_recordId = None, cx_draftId = None,
     cx_request = None\<rparr>"

definition demo_world :: "bool list \<Rightarrow> saga_state list \<Rightarrow> resource_lock list \<Rightarrow> string list world" where
  "demo_world fs rs ls = \<lparr>w_db = \<lparr>clock = 1000, faults = fs, states = rs, locks = ls\<rparr>, w_app = [],
     w_audit_file = [], w_audit_table = []\<rparr>"

definition demo_row :: "string \<Rightarrow> string option \<Rightarrow> saga_state" where
  "demo_row i key = (external_stub i 900)\<lparr>st_sagaType := ''PublishDraft'', st_idempotencyKey := key\<rparr>"

definition demo_lock :: "string \<Rightarrow> resource_lock" where
  "demo_lock holder = \<lparr>lk_key = ''draft:d7'', lk_holder = holder, lk_acquiredAt = 900, lk_expiresAt = 330900\<rparr>"

lemma demo_clear: "clear_run demo_executor (demo_saga out) ''s1'' (demo_ctx 4) (demo_world [] [] [])"
  by code_simp

abbreviation demo_full :: "(string list, string) saga" where
  "demo_full \<equiv> demo_saga (Threw (OtherError ''full''))"

lemma demo_failing_forward:
  "forward demo_executor (keyed demo_executor demo_full (demo_ctx 4)) 0 [] (sg_steps demo_full) [] =
   (Some (StepError 2 (OtherError ''full'')), [''r1'', ''r2''], [''write'', ''index'', ''commit''])"
  by code_simp

lemma demo_failing_effect:
  "atomic_effect demo_executor demo_full (keyed demo_executor demo_full (demo_ctx 4)) [] =
   [''write'', ''index'', ''commit'', ''-r2'', ''-r1'']"
  by code_simp

subsection \<open>Properties\<close>

text \<open>C1: All or nothing. An execution that meets no adapter failure changes the
  application state exactly as the specification says: every step, or, when a step fails,
  the steps run so far followed by the compensations of the completed ones from the last to
  the first, each given the stored result of its step; and it returns the specified outcome.
  (A run that hits the timeout of the whole saga is the exception the specification makes.)\<close>

theorem execute_is_atomic:
  assumes "clear_run ex sg sid ctx w"
    and "forward ex (keyed ex sg ctx) 0 [] (sg_steps sg) (w_app w) = (out, rs, app')"
    and "\<And>i e. out = Some (StepError i e) \<Longrightarrow> \<not> is_step_error e"
  shows "w_app (snd (execute ex sg sid ctx w)) = atomic_effect ex sg (keyed ex sg ctx) (w_app w) \<and>
    map_sum id er_result (fst (execute ex sg sid ctx w)) = saga_outcome ex sg (keyed ex sg ctx) (w_app w)"
  using execute_clear [OF assms] by (simp add: view_def)

lemma execute_is_atomic_witness:
  "w_app (snd (execute demo_executor demo_full ''s1'' (demo_ctx 4) (demo_world [] [] []))) =
     [''write'', ''index'', ''commit'', ''-r2'', ''-r1'']"
  using execute_is_atomic [OF demo_clear [of "Threw (OtherError ''full'')"], unfolded demo_world_def,
      simplified, OF demo_failing_forward]
  by (simp add: demo_world_def demo_failing_effect)

text \<open>C4: The record of a clear run. A run is clear when state is persisted, no adapter call fails,
  the id and the idempotency key are unused, the context is valid, the steps have distinct names
  and the resource is not locked. After a clear run whose steps throw no nested step error, the
  saga's row is \<open>completed\<close> if every step returned and \<open>failed\<close> if one threw or ran out
  of time, holds the JSON text of every completed step's result in order and the idempotency key of
  the run, and bears the time the run started. (Where the last status update fails, the row stays \<open>executing\<close>; this and
  the other adapter failures are not covered by this statement.)\<close>

theorem execute_records_outcome:
  assumes "clear_run ex sg sid ctx w"
    and "forward ex (keyed ex sg ctx) 0 [] (sg_steps sg) (w_app w) = (out, rs, app')"
    and "\<And>i e. out = Some (StepError i e) \<Longrightarrow> \<not> is_step_error e"
  shows "\<exists>r. row_lookup sid (states (w_db (snd (execute ex sg sid ctx w)))) = Some r \<and>
    st_status r = (if out = None then Completed else Failed) \<and>
    st_stepResults r = map (js_stringify (ex_js ex)) rs \<and>
    st_idempotencyKey r = cx_idempotencyKey (keyed ex sg ctx) \<and> st_startedAt r = clock (w_db w)"
proof -
  have "view sid (snd (execute ex sg sid ctx w)) = (atomic_effect ex sg (keyed ex sg ctx) (w_app w), [],
       Some (map (js_stringify (ex_js ex)) rs, (if out = None then Completed else Failed),
         cx_idempotencyKey (keyed ex sg ctx), clock (w_db w)))"
    by (rule execute_clear(2) [OF assms(1,2)]) (rule assms(3))
  then show ?thesis by (auto simp: view_def)
qed

lemma execute_records_outcome_witness:
  "\<exists>r. row_lookup ''s1'' (states (w_db (snd (execute demo_executor demo_full ''s1'' (demo_ctx 4)
     (demo_world [] [] []))))) = Some r \<and> st_status r = Failed \<and> st_stepResults r = [Some ''r1'', Some ''r2'']"
  using execute_records_outcome [OF demo_clear [of "Threw (OtherError ''full'')"], unfolded demo_world_def,
      simplified, OF demo_failing_forward]
  by (auto simp: demo_world_def demo_executor_def demo_js_def)

text \<open>C7: Another saga's lock survives. Whatever fails, an execution leaves every lock of
  another saga in the table that has not expired by the time the execution ends.\<close>

theorem execute_keeps_other_locks:
  assumes "saga_db_ok (w_db w)" and "l \<in> set (locks (w_db w))" and "lk_holder l \<noteq> sid" and "sid \<noteq> []"
    and "clock (w_db (snd (execute ex sg sid ctx w))) \<le> lk_expiresAt l"
  shows "l \<in> set (locks (w_db (snd (execute ex sg sid ctx w))))"
  using foreign_locks.execute_rel [of sid ex sg ctx, THEN em_relD, of w] assms
  by (auto simp: on_part_def others_locks_kept_def lock_kept_def)

lemma execute_keeps_other_locks_witness:
  "demo_lock ''s0'' \<in> set (locks (w_db (snd (execute demo_executor demo_full ''s1'' (demo_ctx 4)
     (demo_world [False, True, False, True] [demo_row ''s0'' None] [demo_lock ''s0''])))))"
  by (rule execute_keeps_other_locks) code_simp+

text \<open>Other sagas' rows. Whatever fails, an execution leaves every row of another saga
  in place with every column unchanged but the idempotency key.\<close>

theorem execute_keeps_other_rows:
  "rows_but sid (w_db (snd (execute ex sg sid ctx w))) = rows_but sid (w_db w)"
  using foreign_rows.execute_rel [of sid ex sg ctx, THEN em_relD, of w]
  by (simp add: on_part_def same_rows_but_def)

text \<open>C6: No leaked lock. When the adapter works, no lock is held by the saga once
  \<open>execute\<close> has returned or thrown, on every path: cached answer, invalid context, lock
  refused, steps failed, compensation failed, timeout, success.\<close>

theorem execute_never_leaks_lock:
  assumes "saga_db_ok (w_db w)" and "faults (w_db w) = []" and "sid \<noteq> []"
    and "sid \<notin> set (map st_id (states (w_db w)))"
  shows "sid \<notin> set (map lk_holder (locks (w_db (snd (execute ex sg sid ctx w)))))"
proof -
  have none: "holds_only sid None w" using assms(1,4) by (auto simp: holds_only_def saga_db_ok_def)
  then have "holds_only sid None (snd (execute ex sg sid ctx w))"
    using execute_cases [OF assms(2)] run_locked_releases [OF assms(2) none assms(3)] by metis
  then show ?thesis by (auto simp: holds_only_def)
qed

lemma execute_never_leaks_lock_witness:
  "''s1'' \<notin> set (map lk_holder (locks (w_db (snd (execute demo_executor (demo_saga SagaTimer) ''s1'' (demo_ctx 4)
     (demo_world [] [demo_row ''s0'' None] []))))))"
  by (rule execute_never_leaks_lock) code_simp+

text \<open>C5: Mutual exclusion. While an unexpired lock on the resource is in the table, no
  step and no compensation of another execution on that resource runs: the application
  state is untouched, whichever adapter calls fail.\<close>

theorem execute_excluded_by_lock:
  assumes "saga_db_ok (w_db w)" and "l \<in> set (locks (w_db w))" and "clock (w_db w) \<le> lk_expiresAt l"
    and "getResourceKey ctx = Some (lk_key l)"
  shows "w_app (snd (execute ex sg sid ctx w)) = w_app w"
proof -
  let ?key = "generateIdempotencyKey (js_digest (ex_js ex)) (sg_name sg) ctx"
  obtain r db1 where c: "checkIdempotency (ex_idempotency ex) (ex_js ex) (Some ?key) (w_db w) = (r, db1)"
    by fastforce
  let ?w1 = "w\<lparr>w_db := db1\<rparr>"
  have "saga_db_ok db1" "locks db1 = locks (w_db w)" "clock db1 = clock (w_db w)"
    using checkIdempotency_reads [OF c] assms(1) by (auto simp: saga_db_ok_def)
  then have "w_app (snd (run_locked ex sg (keyed ex sg ctx) sid (clock (w_db w)) ?w1)) = w_app w"
    using run_locked_held [of ?w1 l "keyed ex sg ctx"] assms by simp
  with c show ?thesis
    by (auto simp: execute_def keyed_def ebind_def on_db_def ezoom_def date_now_def eget_def Let_def
        ereturn_def ethrow_def split: sum.splits option.splits)
qed

lemma execute_excluded_by_lock_witness:
  "w_app (snd (execute demo_executor demo_full ''s1'' (demo_ctx 4)
     (demo_world [False, True] [demo_row ''s0'' None] [demo_lock ''s0'']))) = []"
  using execute_excluded_by_lock [of "demo_world [False, True] [demo_row ''s0'' None] [demo_lock ''s0'']"
      "demo_lock ''s0''" "demo_ctx 4" demo_executor demo_full "''s1''"]
  by (rule trans) code_simp+

text \<open>C27: Replay. After a completed run, a later execution under the same key and within
  the key's lifetime returns the stored last result of that run under its saga id and
  changes nothing at all: no step, no row, no lock, no audit entry.\<close>

theorem execute_replays:
  assumes "saga_db_ok (w_db w)" and "clear_run ex sg sid ctx w"
    and "forward ex (keyed ex sg ctx) 0 [] (sg_steps sg) (w_app w) = (None, rs, app')"
    and "snd (execute ex sg sid ctx w) = w1"
    and "w2 = w1\<lparr>w_db := (w_db w1)\<lparr>clock := clock (w_db w1) + d\<rparr>\<rparr>"
    and "cx_idempotencyKey (keyed ex sg ctx2) = cx_idempotencyKey (keyed ex sg ctx)"
    and "clock (w_db w2) - clock (w_db w) \<le> key_ttl (ex_idempotency ex) (the (cx_idempotencyKey (keyed ex sg ctx)))"
  shows "\<exists>r. execute ex sg sid2 ctx2 w2 = (Inr r, w2) \<and> er_sagaId r = sid \<and>
     er_result r = (if rs = [] then None else map_option (js_parse (ex_js ex)) (js_stringify (ex_js ex) (last rs)))"
proof -
  obtain row where lk: "row_lookup sid (states (w_db w1)) = Some row"
    and row: "st_status row = Completed" "st_stepResults row = map (js_stringify (ex_js ex)) rs"
      "st_idempotencyKey row = cx_idempotencyKey (keyed ex sg ctx)" "st_startedAt row = clock (w_db w)"
    and q: "faults (w_db w1) = []"
    using execute_clear(2) [OF assms(2,3)] assms(4) by (auto simp: view_def)
  have "saga_db_ok (w_db w1)"
    using integrity.execute_rel [of ex sg sid ctx, THEN em_relD, of w] assms(1,4)
    by (simp add: on_part_def keeps_ok_def)
  then have "execute ex sg sid2 ctx2 w2 = (Inr (cached_result (ex_js ex) (rowToState row)), w2)"
    using row_lookup_Some [OF lk] row q assms(5-7)
    by (intro execute_cached) (auto simp: saga_db_ok_def)
  with row row_lookup_Some [OF lk] show ?thesis
    by (auto simp: cached_result_def final_result_def rowToState_def last_map)
qed

lemma demo_ok_forward:
  "forward demo_executor (keyed demo_executor (demo_saga (Returned ''r3'')) (demo_ctx 4)) 0 []
     (sg_steps (demo_saga (Returned ''r3''))) (w_app (demo_world [] [] [])) =
   (None, [''r1'', ''r2'', ''r3''], [''write'', ''index'', ''commit''])"
  by code_simp

lemma execute_replays_witness:
  "\<exists>w2 r. execute demo_executor (demo_saga (Returned ''r3'')) ''s2'' (demo_ctx 4) w2 = (Inr r, w2) \<and>
     er_sagaId r = ''s1'' \<and> er_result r = Some ''r3''"
proof -
  let ?w1 = "snd (execute demo_executor (demo_saga (Returned ''r3'')) ''s1'' (demo_ctx 4) (demo_world [] [] []))"
  have "saga_db_ok (w_db (demo_world [] [] []))" by code_simp
  moreover have "clock (w_db (?w1\<lparr>w_db := (w_db ?w1)\<lparr>clock := clock (w_db ?w1) + 60000\<rparr>\<rparr>)) -
      clock (w_db (demo_world [] [] [])) \<le> key_ttl (ex_idempotency demo_executor)
        (the (cx_idempotencyKey (keyed demo_executor (demo_saga (Returned ''r3'')) (demo_ctx 4))))"
    by code_simp
  ultimately show ?thesis
    using execute_replays [OF _ demo_clear demo_ok_forward refl refl refl, of 60000 "''s2''"]
    by (auto simp: demo_executor_def demo_js_def)
qed

text \<open>A duplicate in flight is refused. While a row under the same key is executing or
  pending and is younger than the staleness limit and the key's lifetime, an execution
  throws \<open>SagaDuplicateError\<close> naming that saga and changes nothing.\<close>

theorem execute_refuses_in_flight:
  assumes "faults (w_db w) = []"
    and "find (\<lambda>r. st_idempotencyKey r = cx_idempotencyKey (keyed ex sg ctx)) (states (w_db w)) = Some row"
    and "st_status row \<in> {Executing, Pending}"
    and "clock (w_db w) - st_startedAt row \<le> min IN_FLIGHT_STALENESS_MS
      (key_ttl (ex_idempotency ex) (the (cx_idempotencyKey (keyed ex sg ctx))))"
  shows "execute ex sg sid ctx w =
    (Inl (SagaDuplicateError (the (cx_idempotencyKey (keyed ex sg ctx))) (st_id row)), w)"
proof -
  let ?key = "generateIdempotencyKey (js_digest (ex_js ex)) (sg_name sg) ctx"
  have "checkIdempotency (ex_idempotency ex) (ex_js ex) (Some ?key) (w_db w) =
      (Inl (SagaDuplicateError ?key (st_id row)), w_db w)"
    using checkIdempotency_no_faults [of "w_db w" ?key "ex_idempotency ex" "ex_js ex"] assms
      generateIdempotencyKey_nonempty
    by (auto simp: rowToState_def keyed_def)
  then show ?thesis
    by (simp add: execute_def keyed_def ebind_def on_db_def ezoom_def date_now_def eget_def Let_def)
qed

lemma execute_refuses_in_flight_witness:
  "fst (execute demo_executor demo_full ''s1'' (demo_ctx 4)
     (demo_world [] [demo_row ''s0'' (Some ''saga:key:PublishDraft:4:k1'')] [])) =
   Inl (SagaDuplicateError ''saga:key:PublishDraft:4:k1'' ''s0'')"
proof -
  have k: "cx_idempotencyKey (keyed demo_executor demo_full (demo_ctx 4)) = Some ''saga:key:PublishDraft:4:k1''"
    by code_simp
  show ?thesis
    by (subst execute_refuses_in_flight [where row = "demo_row ''s0'' (Some ''saga:key:PublishDraft:4:k1'')"])
       (code_simp | simp add: k)+
qed

text \<open>Keys are scoped. The same caller-provided key of two numbered users yields the
  same engine key exactly when the users are the same.\<close>

theorem caller_keys_are_scoped_per_user:
  assumes "cx_idempotencyKey c1 = Some key" and "cx_idempotencyKey c2 = Some key"
    and "key \<noteq> []" and "\<not> normalized_key key"
    and "cx_user c1 = Some (UserNum m)" and "cx_user c2 = Some (UserNum n)"
  shows "generateIdempotencyKey digest t c1 = generateIdempotencyKey digest t c2 \<longleftrightarrow> m = n"
proof
  assume eq: "generateIdempotencyKey digest t c1 = generateIdempotencyKey digest t c2"
  have "show_nat m @ CHR '':'' # key = show_nat n @ CHR '':'' # key"
    using eq assms by (simp add: generate_key_given scoped_key_def user_or_anonymous_def)
  then have "show_nat m = show_nat n"
    using append_separator [of "CHR '':''" "show_nat m" "show_nat n"] show_nat_digits by blast
  then show "m = n" by (rule show_nat_inj)
qed (use assms in \<open>simp add: generate_key_given user_or_anonymous_def\<close>)

lemma caller_keys_are_scoped_per_user_witness:
  "generateIdempotencyKey (\<lambda>_. ''0f'') ''PublishDraft'' (demo_ctx 4) \<noteq>
   generateIdempotencyKey (\<lambda>_. ''0f'') ''PublishDraft'' (demo_ctx 12)"
  using caller_keys_are_scoped_per_user [of "demo_ctx 4" "''k1''" "demo_ctx 12" 4 12]
  by (simp add: demo_ctx_def normalized_key_def)

text \<open>A caller's key that starts with \<open>saga:key:\<close> is taken for an engine key and is
  not scoped: two users who send it share one engine key, across users and saga types.\<close>

theorem prefixed_keys_are_not_scoped:
  assumes "cx_idempotencyKey c1 = Some (''saga:key:'' @ rest)" and "cx_idempotencyKey c2 = Some (''saga:key:'' @ rest)"
  shows "generateIdempotencyKey digest t1 c1 = generateIdempotencyKey digest t2 c2"
  using assms by (simp add: generateIdempotencyKey_def normalized_key_def)

lemma prefixed_keys_are_not_scoped_witness:
  "generateIdempotencyKey (\<lambda>_. ''0f'') ''PublishDraft'' ((demo_ctx 4)\<lparr>cx_idempotencyKey := Some ''saga:key:x''\<rparr>) =
   generateIdempotencyKey (\<lambda>_. ''0f'') ''CreateRecord'' ((demo_ctx 12)\<lparr>cx_idempotencyKey := Some ''saga:key:x''\<rparr>)"
  by (rule prefixed_keys_are_not_scoped [where rest = "''x''"]) simp_all

text \<open>C28: The step error of another saga suppresses the compensation. When a step ends
  with a \<open>SagaStepError\<close> naming a step this saga does not have, as one from a nested
  saga does, none of the completed steps is undone.\<close>

theorem nested_step_error_skips_compensation:
  assumes "clear_run ex sg sid ctx w"
    and "forward ex (keyed ex sg ctx) 0 [] (sg_steps sg) (w_app w) =
      (Some (StepError i (SagaStepError inner msg)), rs, app')"
    and "inner \<notin> set (map sp_name (sg_steps sg))"
  shows "w_app (snd (execute ex sg sid ctx w)) = app' \<and>
    map_sum id er_result (fst (execute ex sg sid ctx w)) = Inl (SagaStepError inner msg)"
  using execute_foreign_step_error [OF assms] by simp

lemma demo_nested_forward:
  "forward demo_executor (keyed demo_executor (demo_saga (Threw (SagaStepError ''inner'' ''x''))) (demo_ctx 4)) 0 []
     (sg_steps (demo_saga (Threw (SagaStepError ''inner'' ''x'')))) (w_app (demo_world [] [] [])) =
   (Some (StepError 2 (SagaStepError ''inner'' ''x'')), [''r1'', ''r2''], [''write'', ''index'', ''commit''])"
  by code_simp

lemma nested_step_error_skips_compensation_witness:
  "w_app (snd (execute demo_executor (demo_saga (Threw (SagaStepError ''inner'' ''x''))) ''s1'' (demo_ctx 4)
     (demo_world [] [] []))) = [''write'', ''index'', ''commit'']"
  using nested_step_error_skips_compensation [OF demo_clear demo_nested_forward]
  by (simp add: demo_saga_def demo_step_def)

text \<open>A saga timeout is not compensated. A run whose timeout as a whole strikes keeps the
  effects of the steps run so far: no compensation runs, although the row says that the saga
  failed.\<close>

theorem saga_timeout_skips_compensation:
  assumes "clear_run ex sg sid ctx w"
    and "forward ex (keyed ex sg ctx) 0 [] (sg_steps sg) (w_app w) = (Some SagaTimedOut, rs, app')"
  shows "w_app (snd (execute ex sg sid ctx w)) = app' \<and>
    map_sum id er_result (fst (execute ex sg sid ctx w)) =
      Inl (SagaTimeoutError (sg_name sg) (cf_defaultTimeout (ex_config ex)) False) \<and>
    map_option st_status (row_lookup sid (states (w_db (snd (execute ex sg sid ctx w))))) = Some Failed"
  using execute_clear(1,2) [OF assms]
  by (auto simp: view_def atomic_effect_def saga_outcome_def assms(2))

lemma demo_timeout_forward:
  "forward demo_executor (keyed demo_executor (demo_saga SagaTimer) (demo_ctx 4)) 0 []
     (sg_steps (demo_saga SagaTimer)) (w_app (demo_world [] [] [])) =
   (Some SagaTimedOut, [''r1'', ''r2''], [''write'', ''index'', ''commit''])"
  by code_simp

lemma saga_timeout_skips_compensation_witness:
  "w_app (snd (execute demo_executor (demo_saga SagaTimer) ''s1'' (demo_ctx 4) (demo_world [] [] []))) =
     [''write'', ''index'', ''commit'']"
  using saga_timeout_skips_compensation [OF demo_clear demo_timeout_forward] by simp

end
