(* ===== verification/Saga_Recovery.thy ===== *)
theory Saga_Recovery
  imports Saga_Executor_Frame
begin

section \<open>Crash recovery\<close>

text \<open>
  \<open>core/src/saga/saga-recovery.ts\<close>: the scan at startup for sagas a dead process left
  behind. A recoverer is any computation on the database that may throw. The properties:
  the scan never throws and accounts for every saga it saw; afterwards no orphan holds a
  lock and none is still \<open>executing\<close>; and a flagged saga is an orphan again for the next
  scan.
\<close>

subsection \<open>The service\<close>

datatype recovery_outcome = Recovered | Flagged

type_synonym recoverer = "saga_state \<Rightarrow> (saga_db, saga_error, recovery_outcome) em"

record recovery_service =
  rv_recoverers :: "(string \<times> recoverer) list"
  rv_stuckTimeoutMs :: msec

record recovery_summary =
  rs_scanned :: nat
  rs_recovered :: nat
  rs_flagged :: nat
  rs_locksReleased :: nat

definition new_recovery_service :: "msec option \<Rightarrow> recovery_service" where
  "new_recovery_service stuckTimeoutMs = \<lparr>rv_recoverers = [],
     rv_stuckTimeoutMs = (case stuckTimeoutMs of Some t \<Rightarrow> t | None \<Rightarrow> 10 * 60 * 1000)\<rparr>"

definition registerRecoverer :: "string \<Rightarrow> recoverer \<Rightarrow> recovery_service \<Rightarrow> recovery_service" where
  "registerRecoverer sagaType r rv = rv\<lparr>rv_recoverers := jm_set sagaType r (rv_recoverers rv)\<rparr>"

definition orphaned_message :: string where
  "orphaned_message = ''Orphaned by a crashed process before completion (recovered at startup)''"

definition flagForReview :: "saga_state \<Rightarrow> (saga_db, saga_error, unit) em" where
  "flagForReview st = emap_err DbFailure
     (eseq (ewhen (st_status st = Executing)
              (updateStatus (st_id st) Failed (Some (st_currentStep st))
                (Some (case st_error st of Some e \<Rightarrow> e | None \<Rightarrow> orphaned_message))))
        (updateCompensationStatus (st_id st) CompPartial None))"

text \<open>Both queries are issued before either is awaited; one rejection rejects both.\<close>

definition scan_orphans :: "msec \<Rightarrow> (saga_db, db_error, saga_state list) em" where
  "scan_orphans timeout = (\<lambda>db.
     case getStuckSagas timeout db of (r1, db1) \<Rightarrow>
       (case getFailedSagas db1 of (r2, db2) \<Rightarrow>
          (case (r1, r2) of
             (Inl e, _) \<Rightarrow> (Inl e, db2)
           | (_, Inl e) \<Rightarrow> (Inl e, db2)
           | (Inr stuck, Inr failed) \<Rightarrow>
               (Inr (map snd (foldl (\<lambda>m s. jm_set (st_id s) s m) [] (stuck @ failed))), db2))))"

definition recover_item :: "recovery_service \<Rightarrow> saga_state \<Rightarrow> (saga_db, saga_error, recovery_outcome) em" where
  "recover_item rv st =
     (case jm_get (rv_recoverers rv) (st_sagaType st) of
        Some recoverer \<Rightarrow> ebind (recoverer st) (\<lambda>out. case out of
            Recovered \<Rightarrow> ereturn Recovered
          | Flagged \<Rightarrow> eseq (flagForReview st) (ereturn Flagged))
      | None \<Rightarrow> eseq (flagForReview st) (ereturn Flagged))"

definition recover_one :: "recovery_service \<Rightarrow> recovery_summary \<Rightarrow> saga_state \<Rightarrow>
    (saga_db, saga_error, recovery_summary) em" where
  "recover_one rv s st =
     (let s1 = s\<lparr>rs_scanned := rs_scanned s + 1\<rparr> in
      ebind (releaseAllForSaga (st_id st)) (\<lambda>n.
        let s2 = s1\<lparr>rs_locksReleased := rs_locksReleased s1 + n\<rparr> in
        ecatch (ebind (recover_item rv st) (\<lambda>out. ereturn (case out of
                  Recovered \<Rightarrow> s2\<lparr>rs_recovered := rs_recovered s2 + 1\<rparr>
                | Flagged \<Rightarrow> s2\<lparr>rs_flagged := rs_flagged s2 + 1\<rparr>)))
          (\<lambda>_. eseq (equiet (flagForReview st)) (ereturn (s2\<lparr>rs_flagged := rs_flagged s2 + 1\<rparr>)))))"

primrec recover_loop :: "recovery_service \<Rightarrow> recovery_summary \<Rightarrow> saga_state list \<Rightarrow>
    (saga_db, saga_error, recovery_summary) em" where
  "recover_loop rv s [] = ereturn s"
| "recover_loop rv s (st # sts) = ebind (recover_one rv s st) (\<lambda>s'. recover_loop rv s' sts)"

definition recover :: "recovery_service \<Rightarrow> (saga_db, saga_error, recovery_summary) em" where
  "recover rv =
     (let zero = \<lparr>rs_scanned = 0, rs_recovered = 0, rs_flagged = 0, rs_locksReleased = 0\<rparr> in
      ebind (ecatch (ebind (emap_err DbFailure (scan_orphans (rv_stuckTimeoutMs rv))) (\<lambda>os. ereturn (Some os)))
               (\<lambda>_. ereturn None))
        (\<lambda>orphaned. case orphaned of None \<Rightarrow> ereturn zero | Some os \<Rightarrow> recover_loop rv zero os))"

subsection \<open>Accounting\<close>

definition balanced :: "recovery_summary \<Rightarrow> bool" where
  "balanced s \<longleftrightarrow> rs_scanned s = rs_recovered s + rs_flagged s"

lemma releaseAllForSaga_returns:
  "\<exists>n db'. (releaseAllForSaga i :: (saga_db, saga_error, nat) em) db = (Inr n, db')"
  by (auto simp: releaseAllForSaga_def ecatch_def ereturn_def split: prod.splits sum.splits)

lemma recover_one_returns:
  "\<exists>s' db'. recover_one rv s st db = (Inr s', db') \<and> rs_scanned s' = Suc (rs_scanned s) \<and>
     (balanced s \<longrightarrow> balanced s')"
proof -
  obtain n db1 where r: "(releaseAllForSaga (st_id st) :: (saga_db, saga_error, nat) em) db = (Inr n, db1)"
    using releaseAllForSaga_returns by blast
  obtain out db2 where i: "recover_item rv st db1 = (out, db2)" by fastforce
  show ?thesis
    using r i
    by (cases out)
       (auto simp: recover_one_def balanced_def ebind_def ecatch_def ereturn_def eseq_def equiet_def Let_def
         split: recovery_outcome.splits)
qed

lemma recover_loop_balanced:
  "balanced s \<Longrightarrow> \<exists>s' db'. recover_loop rv s sts db = (Inr s', db') \<and> balanced s' \<and>
     rs_scanned s' = rs_scanned s + length sts"
proof (induction sts arbitrary: s db)
  case Nil
  then show ?case by (simp add: ereturn_def)
next
  case (Cons st sts)
  obtain s1 db1 where "recover_one rv s st db = (Inr s1, db1)" "balanced s1" "rs_scanned s1 = Suc (rs_scanned s)"
    using recover_one_returns [of rv s st db] Cons.prems by blast
  with Cons.IH [of s1 db1] show ?case by (auto simp: ebind_def)
qed

subsection \<open>What a scan without recoverers does\<close>

text \<open>The orphans of a database: the rows either query reports.\<close>

definition orphan :: "msec \<Rightarrow> saga_db \<Rightarrow> saga_state \<Rightarrow> bool" where
  "orphan timeout db r \<longleftrightarrow> is_stuck (clock db - timeout) r \<or> needs_recovery r"

definition flag_row :: "saga_state \<Rightarrow> saga_state" where
  "flag_row r = (let r1 = (if st_status r = Executing
       then r\<lparr>st_status := Failed, st_error := Some (case or_null (st_error r) of Some e \<Rightarrow> e | None \<Rightarrow> orphaned_message)\<rparr>
       else r)
     in r1\<lparr>st_compStatus := Some CompPartial\<rparr>)"

lemma rowToState_fields [simp]:
  "st_id (rowToState r) = st_id r" "st_status (rowToState r) = st_status r"
  "st_currentStep (rowToState r) = st_currentStep r" "st_sagaType (rowToState r) = st_sagaType r"
  "st_error (rowToState r) = or_null (st_error r)"
  by (simp_all add: rowToState_def)

lemma row_update_twice: "(\<And>r. st_id (f r) = st_id r) \<Longrightarrow>
    row_update i g (row_update i f rs) = row_update i (\<lambda>r. g (f r)) rs"
  by (simp add: row_update_def)

lemma row_update_cong:
  "(\<And>r. r \<in> set rs \<Longrightarrow> st_id r = i \<Longrightarrow> f r = g r) \<Longrightarrow> row_update i f rs = row_update i g rs"
  by (simp add: row_update_def)

lemma row_eq_of_id: "distinct (map st_id rs) \<Longrightarrow> r \<in> set rs \<Longrightarrow> r' \<in> set rs \<Longrightarrow> st_id r = st_id r' \<Longrightarrow> r = r'"
  by (auto simp: distinct_map inj_on_def)

lemma flagForReview_row:
  assumes "faults db = []" and "distinct (map st_id (states db))" and "r \<in> set (states db)"
  shows "flagForReview (rowToState r) db = (Inr (), db\<lparr>states := row_update (st_id r) flag_row (states db)\<rparr>)"
proof (cases "st_status r = Executing")
  case True
  have "row_update (st_id r) (\<lambda>x. (x\<lparr>st_status := Failed, st_currentStep := st_currentStep r,
      st_error := Some (case or_null (st_error r) of Some e \<Rightarrow> e | None \<Rightarrow> orphaned_message)\<rparr>)
      \<lparr>st_compStatus := Some CompPartial\<rparr>) (states db) = row_update (st_id r) flag_row (states db)"
  proof (rule row_update_cong)
    fix x assume "x \<in> set (states db)" and "st_id x = st_id r"
    with row_eq_of_id [OF assms(2) _ assms(3)] have "x = r" by blast
    with True show "(x\<lparr>st_status := Failed, st_currentStep := st_currentStep r,
      st_error := Some (case or_null (st_error r) of Some e \<Rightarrow> e | None \<Rightarrow> orphaned_message)\<rparr>)
      \<lparr>st_compStatus := Some CompPartial\<rparr> = flag_row x"
      by (cases r) (simp add: flag_row_def Let_def)
  qed
  with True assms(1) show ?thesis
    by (simp add: flagForReview_def emap_err_def eseq_def ebind_def ewhen_def updateStatus_def
        updateCompensationStatus_def row_update_twice)
next
  case False
  have "row_update (st_id r) (\<lambda>x. x\<lparr>st_compStatus := Some CompPartial\<rparr>) (states db) =
      row_update (st_id r) flag_row (states db)"
    using row_eq_of_id [OF assms(2) _ assms(3)] False
    by (intro row_update_cong) (auto simp: flag_row_def Let_def)
  with False assms(1) show ?thesis
    by (simp add: flagForReview_def emap_err_def eseq_def ebind_def ewhen_def ereturn_def
        updateCompensationStatus_def)
qed


definition flag_all :: "string set \<Rightarrow> saga_db \<Rightarrow> saga_db" where
  "flag_all ids db = db\<lparr>states := map (\<lambda>r. if st_id r \<in> ids then flag_row r else r) (states db),
     locks := filter (\<lambda>l. lk_holder l \<notin> ids) (locks db)\<rparr>"

lemma flag_row_id [simp]: "st_id (flag_row r) = st_id r"
  by (simp add: flag_row_def Let_def)

lemma recover_one_plain:
  assumes "rv_recoverers rv = []" and "faults db = []" and "distinct (map st_id (states db))"
    and "r \<in> set (states db)"
  shows "snd (recover_one rv s (rowToState r) db) = flag_all {st_id r} db"
proof -
  let ?db1 = "db\<lparr>locks := filter (\<lambda>l. lk_holder l \<noteq> st_id r) (locks db)\<rparr>"
  have "(releaseAllForSaga (st_id r) :: (saga_db, saga_error, nat) em) db =
      (Inr (length (filter (\<lambda>l. lk_holder l = st_id r) (locks db))), ?db1)"
    using assms(2) by (simp add: releaseAllForSaga_def ecatch_def)
  moreover have "flagForReview (rowToState r) ?db1 =
      (Inr (), ?db1\<lparr>states := row_update (st_id r) flag_row (states db)\<rparr>)"
    using flagForReview_row [of ?db1 r] assms by simp
  ultimately show ?thesis
    using assms(1)
    by (simp add: recover_one_def recover_item_def ebind_def eseq_def ecatch_def ereturn_def flag_all_def
        row_update_def Let_def)
qed

lemma recover_loop_plain:
  assumes "rv_recoverers rv = []" and "faults db = []" and "distinct (map st_id (states db))"
    and "set rs \<subseteq> set (states db)" and "distinct (map st_id rs)"
  shows "snd (recover_loop rv s (map rowToState rs) db) = flag_all (st_id ` set rs) db"
  using assms
proof (induction rs arbitrary: s db)
  case Nil
  then show ?case by (simp add: ereturn_def flag_all_def)
next
  case (Cons r rs)
  let ?db1 = "flag_all {st_id r} db"
  obtain s1 db1 where one: "recover_one rv s (rowToState r) db = (Inr s1, db1)"
    using recover_one_returns by blast
  have db1: "db1 = ?db1" using recover_one_plain [of rv db r s] one Cons.prems by simp
  have "map st_id (states ?db1) = map st_id (states db)" by (simp add: flag_all_def)
  then have "distinct (map st_id (states ?db1))" using Cons.prems(3) by simp
  moreover have "set rs \<subseteq> set (states ?db1)"
  proof
    fix x assume x: "x \<in> set rs"
    with Cons.prems(4,5) have "x \<in> set (states db)" "st_id x \<noteq> st_id r" by (auto simp: image_iff)
    then show "x \<in> set (states ?db1)" by (force simp: flag_all_def)
  qed
  ultimately have "snd (recover_loop rv s1 (map rowToState rs) ?db1) = flag_all (st_id ` set rs) ?db1"
    using Cons.prems by (intro Cons.IH) (simp_all add: flag_all_def del: map_map)
  moreover have "flag_all (st_id ` set rs) ?db1 = flag_all (st_id ` set (r # rs)) db"
    using Cons.prems(5) by (auto simp: flag_all_def)
  ultimately show ?case using one db1 by (simp add: ebind_def)
qed

subsection \<open>The orphans that are found\<close>

lemma list_in_image: "set ys \<subseteq> f ` A \<Longrightarrow> \<exists>xs. ys = map f xs \<and> set xs \<subseteq> A"
proof (induction ys)
  case (Cons y ys)
  then obtain x xs where "y = f x" "x \<in> A" "ys = map f xs" "set xs \<subseteq> A" by auto
  then show ?case by (intro exI [of _ "x # xs"]) simp
qed simp

lemma update_known: "(k, v) \<in> set m \<Longrightarrow> distinct (map fst m) \<Longrightarrow> jm_set k v m = m"
  by (induction m) force+

lemma dedupe_by_id:
  assumes "inj_on st_id (set xs \<union> snd ` set m)" and "\<forall>(k, v) \<in> set m. k = st_id v" and "distinct (map fst m)"
  shows "snd ` set (foldl (\<lambda>m s. jm_set (st_id s) s m) m xs) = snd ` set m \<union> set xs \<and>
    (\<forall>(k, v) \<in> set (foldl (\<lambda>m s. jm_set (st_id s) s m) m xs). k = st_id v) \<and>
    distinct (map fst (foldl (\<lambda>m s. jm_set (st_id s) s m) m xs))"
  using assms
proof (induction xs arbitrary: m)
  case (Cons x xs)
  let ?m = "jm_set (st_id x) x m"
  have set: "set ?m = insert (st_id x, x) (set m)"
  proof (cases "st_id x \<in> fst ` set m")
    case True
    then obtain v where v: "(st_id x, v) \<in> set m" by auto
    with Cons.prems(2) have "st_id x = st_id v" by auto
    moreover have "v \<in> snd ` set m" using v by force
    ultimately have "v = x" using Cons.prems(1) by (auto simp: inj_on_def)
    with v update_known [OF _ Cons.prems(3), of "st_id x" x] show ?thesis by auto
  next
    case False
    then have "?m = m @ [(st_id x, x)]" by (induction m) auto
    then show ?thesis by simp
  qed
  have "inj_on st_id (set xs \<union> snd ` set ?m)"
    by (rule inj_on_subset [OF Cons.prems(1)]) (auto simp: set)
  moreover have "\<forall>(k, v) \<in> set ?m. k = st_id v" using Cons.prems(2) by (auto simp: set)
  moreover have "distinct (map fst ?m)" using Cons.prems(3) by (simp add: distinct_update)
  ultimately have "snd ` set (foldl (\<lambda>m s. jm_set (st_id s) s m) ?m xs) = snd ` set ?m \<union> set xs \<and>
    (\<forall>(k, v) \<in> set (foldl (\<lambda>m s. jm_set (st_id s) s m) ?m xs). k = st_id v) \<and>
    distinct (map fst (foldl (\<lambda>m s. jm_set (st_id s) s m) ?m xs))"
    by (rule Cons.IH)
  moreover have union: "snd ` set m \<union> set (x # xs) = snd ` set ?m \<union> set xs" by (simp add: set)
  ultimately show ?case unfolding union foldl.simps by blast
qed simp

lemma scan_orphans_found:
  assumes "faults db = []" and "distinct (map st_id (states db))"
  obtains rs where "scan_orphans t db = (Inr (map rowToState rs), db)" and "distinct (map st_id rs)"
    and "set rs = {r \<in> set (states db). orphan t db r}"
proof -
  let ?found = "filter (is_stuck (clock db - t)) (states db) @ filter needs_recovery (states db)"
  let ?m = "foldl (\<lambda>m s. jm_set (st_id s) s m) [] (map rowToState ?found)"
  have inj: "inj_on st_id (set (states db))" using assms(2) by (simp add: distinct_map)
  have "inj_on (st_id \<circ> rowToState) (set ?found)"
    by (rule inj_onI) (use inj in \<open>auto dest: inj_onD\<close>)
  then have "inj_on st_id (rowToState ` set ?found)" by (rule inj_on_imageI)
  then have "inj_on st_id (set (map rowToState ?found) \<union> snd ` set [])"
    by (simp only: list.set_map list.set image_empty Un_empty_right)
  from dedupe_by_id [OF this] have m: "snd ` set ?m = rowToState ` set ?found"
    and k: "\<forall>(k, v) \<in> set ?m. k = st_id v" and d: "distinct (map fst ?m)"
    by (simp_all add: image_Un)
  have "set ?found = {r \<in> set (states db). orphan t db r}" by (auto simp: orphan_def)
  with m have "set (map snd ?m) \<subseteq> rowToState ` {r \<in> set (states db). orphan t db r}"
    by (simp only: list.set_map subset_refl)
  from list_in_image [OF this] obtain rs where rs: "map snd ?m = map rowToState rs" "set rs \<subseteq> {r \<in> set (states db). orphan t db r}"
    by (elim exE conjE)
  have ids: "map st_id (map snd ?m) = map fst ?m" using k by (auto simp: case_prod_beta)
  have "map st_id (map rowToState rs) = map st_id rs" by simp
  with ids have "map st_id rs = map fst ?m" by (simp only: rs(1))
  with d have dist: "distinct (map st_id rs)" by simp
  have "r \<in> set rs" if r: "r \<in> set (states db)" "orphan t db r" for r
  proof -
    have "rowToState r \<in> snd ` set ?m" using r m by (auto simp: orphan_def)
    then have "rowToState r \<in> set (map snd ?m)" by (simp only: list.set_map)
    then have "rowToState r \<in> rowToState ` set rs" unfolding rs(1) by (simp only: list.set_map)
    then obtain x where "x \<in> set rs" "rowToState r = rowToState x" by blast
    moreover then have "st_id r = st_id x" by (metis rowToState_fields(1))
    ultimately show ?thesis using inj r rs(2) by (auto simp: inj_on_def)
  qed
  with rs(2) have "set rs = {r \<in> set (states db). orphan t db r}" by blast
  moreover have "scan_orphans t db = (Inr (map rowToState rs), db)"
    using assms(1) rs(1) by (simp add: scan_orphans_def getStuckSagas_def getFailedSagas_def)
  ultimately show thesis using dist by (intro that)
qed

lemma recover_plain:
  assumes "rv_recoverers rv = []" and "faults db = []" and "distinct (map st_id (states db))"
  shows "snd (recover rv db) =
    flag_all (st_id ` {r \<in> set (states db). orphan (rv_stuckTimeoutMs rv) db r}) db"
proof -
  obtain rs where "scan_orphans (rv_stuckTimeoutMs rv) db = (Inr (map rowToState rs), db)"
    and "distinct (map st_id rs)" and rs: "set rs = {r \<in> set (states db). orphan (rv_stuckTimeoutMs rv) db r}"
    using scan_orphans_found [OF assms(2,3)] .
  with recover_loop_plain [OF assms, of rs] show ?thesis
    by (simp add: recover_def ebind_def ecatch_def emap_err_def ereturn_def Let_def subset_eq)
qed


subsection \<open>Properties\<close>

text \<open>The two queries of the scan are the first two adapter calls; if either fails, so does the scan.\<close>

lemma scan_outcome:
  assumes "distinct (map st_id (states db))"
  shows "if True \<in> set (take 2 (faults db)) then \<exists>e. fst (scan_orphans t db) = Inl e
    else \<exists>os. fst (scan_orphans t db) = Inr os \<and> length os = card {r \<in> set (states db). orphan t db r}"
proof (cases "True \<in> set (take 2 (faults db))")
  case True
  then obtain a b fs where f: "faults db = True # fs \<or> faults db = False # True # fs"
    by (cases "faults db"; cases "tl (faults db)") auto
  then have "\<exists>e. fst (scan_orphans t db) = Inl e"
    by (auto simp: scan_orphans_def getStuckSagas_def getFailedSagas_def db_call_def split: prod.splits sum.splits list.splits bool.splits)
  with True show ?thesis by simp
next
  case False
  obtain rs where rs: "scan_orphans t (db\<lparr>faults := []\<rparr>) = (Inr (map rowToState rs), db\<lparr>faults := []\<rparr>)"
    "distinct (map st_id rs)" "set rs = {r \<in> set (states db). orphan t db r}"
    using scan_orphans_found [of "db\<lparr>faults := []\<rparr>" t] assms by (auto simp: orphan_def)
  have "faults db = [] \<or> faults db = [False] \<or> (\<exists>fs. faults db = False # False # fs)"
    using False by (cases "faults db"; cases "tl (faults db)") auto
  then have "fst (scan_orphans t db) = fst (scan_orphans t (db\<lparr>faults := []\<rparr>))"
    by (elim disjE exE) (simp_all add: scan_orphans_def getStuckSagas_def getFailedSagas_def db_call_def)
  moreover have "length rs = card (set rs)" using rs(2) by (simp add: distinct_map distinct_card)
  ultimately show ?thesis using False rs by simp
qed

text \<open>C29: Recovery never throws and accounts for every orphan. Whatever adapter calls fail and
  whatever the registered recoverers do, the scan returns a summary in which the scanned
  sagas are exactly the recovered and the flagged ones; and it scans each saga that is stuck or
  failed without a completed compensation once, or none when one of its two queries fails.\<close>

theorem recover_accounts_for_every_saga:
  "\<exists>s db'. recover rv db = (Inr s, db') \<and> rs_scanned s = rs_recovered s + rs_flagged s \<and>
    (distinct (map st_id (states db)) \<longrightarrow> rs_scanned s = (if True \<in> set (take 2 (faults db)) then 0
       else card {r \<in> set (states db). orphan (rv_stuckTimeoutMs rv) db r}))"
proof -
  let ?zero = "\<lparr>rs_scanned = 0, rs_recovered = 0, rs_flagged = 0, rs_locksReleased = 0\<rparr>" and ?t = "rv_stuckTimeoutMs rv"
  obtain r db1 where scan: "scan_orphans ?t db = (r, db1)" by fastforce
  have "balanced ?zero" by (simp add: balanced_def)
  from recover_loop_balanced [OF this] have loop: "\<exists>s db'. recover_loop rv ?zero os db1 = (Inr s, db') \<and>
      rs_scanned s = rs_recovered s + rs_flagged s \<and> rs_scanned s = length os" for os
    unfolding balanced_def by fastforce
  show ?thesis
  proof (cases r)
    case (Inl e)
    then have "distinct (map st_id (states db)) \<longrightarrow> True \<in> set (take 2 (faults db))"
      using scan_outcome [of db ?t] scan by (auto split: if_splits)
    with Inl scan show ?thesis by (simp add: recover_def ebind_def ecatch_def emap_err_def ereturn_def Let_def)
  next
    case (Inr os)
    then have "distinct (map st_id (states db)) \<longrightarrow> True \<notin> set (take 2 (faults db)) \<and>
        length os = card {r \<in> set (states db). orphan ?t db r}"
      using scan_outcome [of db ?t] scan by (auto split: if_splits)
    moreover obtain s db' where "recover_loop rv ?zero os db1 = (Inr s, db')" "rs_scanned s = rs_recovered s + rs_flagged s"
      "rs_scanned s = length os" using loop by blast
    ultimately show ?thesis using Inr scan
      by (auto simp: recover_def ebind_def ecatch_def emap_err_def ereturn_def Let_def)
  qed
qed

text \<open>Recovery unpins. Without recoverers and adapter failures, no saga the scan found
  holds a lock afterwards, none is still \<open>executing\<close>, and every other row and lock is
  as before.\<close>

theorem recover_unpins_orphans:
  assumes "rv_recoverers rv = []" and "faults db = []" and "saga_db_ok db"
    and "r \<in> set (states db)"
  shows "if orphan (rv_stuckTimeoutMs rv) db r
    then st_id r \<notin> lk_holder ` set (locks (snd (recover rv db))) \<and> flag_row r \<in> set (states (snd (recover rv db))) \<and>
      st_status (flag_row r) \<noteq> Executing \<and> st_compStatus (flag_row r) = Some CompPartial
    else r \<in> set (states (snd (recover rv db))) \<and>
      filter (\<lambda>l. lk_holder l = st_id r) (locks (snd (recover rv db))) = filter (\<lambda>l. lk_holder l = st_id r) (locks db)"
proof -
  have d: "distinct (map st_id (states db))" using assms(3) by (simp add: saga_db_ok_def)
  define ids where "ids = st_id ` {r \<in> set (states db). orphan (rv_stuckTimeoutMs rv) db r}"
  have iff: "st_id r \<in> ids \<longleftrightarrow> orphan (rv_stuckTimeoutMs rv) db r"
    using row_eq_of_id [OF d _ assms(4)] assms(4) unfolding ids_def by auto
  have rest: "filter (\<lambda>l. lk_holder l \<notin> ids \<and> lk_holder l = st_id r) (locks db) = filter (\<lambda>l. lk_holder l = st_id r) (locks db)"
    if "\<not> orphan (rv_stuckTimeoutMs rv) db r"
    using that iff by (intro filter_cong refl) metis
  have run: "snd (recover rv db) = flag_all ids db"
    unfolding recover_plain [OF assms(1,2) d] ids_def ..
  have "flag_row r \<in> set (states (flag_all ids db)) \<and> st_id r \<notin> lk_holder ` set (locks (flag_all ids db))"
    if "st_id r \<in> ids"
    using that assms(4) by (auto simp: flag_all_def)
  moreover have "r \<in> set (states (flag_all ids db))" if "st_id r \<notin> ids"
    using that assms(4) by (auto simp: flag_all_def intro!: image_eqI [of r _ r])
  moreover have "locks (flag_all ids db) = filter (\<lambda>l. lk_holder l \<notin> ids) (locks db)"
    by (simp add: flag_all_def)
  moreover have "st_status (flag_row r) \<noteq> Executing \<and> st_compStatus (flag_row r) = Some CompPartial"
    by (simp add: flag_row_def Let_def)
  ultimately show ?thesis unfolding run using iff rest by simp
qed

definition demo_crashed :: saga_db where
  "demo_crashed = \<lparr>clock = 2000000, faults = [],
     states = [external_stub ''s0'' 5, (external_stub ''s1'' 1999990)],
     locks = [\<lparr>lk_key = ''record:r1'', lk_holder = ''s0'', lk_acquiredAt = 5, lk_expiresAt = 330005\<rparr>]\<rparr>"

lemma recover_accounts_for_every_saga_witness:
  "\<exists>s db'. recover (new_recovery_service None) (demo_crashed\<lparr>faults := [False, False, True, True]\<rparr>) = (Inr s, db') \<and>
     rs_scanned s = rs_recovered s + rs_flagged s \<and> rs_scanned s = 1"
proof -
  have "distinct (map st_id (states (demo_crashed\<lparr>faults := [False, False, True, True]\<rparr>)))" by (simp add: demo_crashed_def external_stub_def)
  moreover have "{r \<in> set (states (demo_crashed\<lparr>faults := [False, False, True, True]\<rparr>)).
      orphan (rv_stuckTimeoutMs (new_recovery_service None)) (demo_crashed\<lparr>faults := [False, False, True, True]\<rparr>) r} =
      {external_stub ''s0'' 5}"
    by (auto simp: demo_crashed_def orphan_def is_stuck_def needs_recovery_def external_stub_def new_recovery_service_def)
  moreover have "True \<notin> set (take 2 (faults (demo_crashed\<lparr>faults := [False, False, True, True]\<rparr>)))" by simp
  ultimately show ?thesis
    using recover_accounts_for_every_saga [of "new_recovery_service None" "demo_crashed\<lparr>faults := [False, False, True, True]\<rparr>"]
    by (metis (no_types, lifting) card.empty card.insert empty_iff finite.emptyI One_nat_def)
qed

lemma recover_unpins_orphans_witness:
  "''s0'' \<notin> lk_holder ` set (locks (snd (recover (new_recovery_service None) demo_crashed)))"
proof -
  have "orphan (rv_stuckTimeoutMs (new_recovery_service None)) demo_crashed (external_stub ''s0'' 5)"
    by code_simp
  moreover have "st_id (external_stub ''s0'' 5) = ''s0''" by code_simp
  moreover have "saga_db_ok demo_crashed" by code_simp
  moreover have "external_stub ''s0'' 5 \<in> set (states demo_crashed)" by (simp add: demo_crashed_def)
  ultimately show ?thesis
    using recover_unpins_orphans [of "new_recovery_service None" demo_crashed "external_stub ''s0'' 5"]
    by (simp add: new_recovery_service_def demo_crashed_def)
qed

text \<open>Flagging does not settle a saga. A saga the scan flagged is found again by the
  next one: it stays \<open>failed\<close> with compensation \<open>partial\<close>, which the query for failed
  sagas keeps reporting at every startup.\<close>

theorem flagged_sagas_are_found_again:
  assumes "rv_recoverers rv = []" and "faults db = []" and "saga_db_ok db"
    and "r \<in> set (states db)" and "orphan (rv_stuckTimeoutMs rv) db r"
  shows "\<exists>r' \<in> set (states (snd (recover rv db))). st_id r' = st_id r \<and>
    orphan (rv_stuckTimeoutMs rv) (snd (recover rv db)) r'"
proof -
  have d: "distinct (map st_id (states db))" using assms(3) by (simp add: saga_db_ok_def)
  have "flag_row r \<in> set (states (snd (recover rv db)))"
    unfolding recover_plain [OF assms(1,2) d] using assms(4,5) by (auto simp: flag_all_def)
  moreover have "needs_recovery (flag_row r)"
    using assms(5) by (auto simp: orphan_def is_stuck_def needs_recovery_def flag_row_def Let_def)
  ultimately show ?thesis by (intro bexI [of _ "flag_row r"]) (simp_all add: orphan_def)
qed

lemma flagged_sagas_are_found_again_witness:
  "\<exists>r' \<in> set (states (snd (recover (new_recovery_service None) demo_crashed))). st_id r' = ''s0'' \<and>
    orphan 600000 (snd (recover (new_recovery_service None) demo_crashed)) r'"
proof -
  have "orphan (rv_stuckTimeoutMs (new_recovery_service None)) demo_crashed (external_stub ''s0'' 5)"
    by code_simp
  moreover have "saga_db_ok demo_crashed" by code_simp
  ultimately show ?thesis
    using flagged_sagas_are_found_again [of "new_recovery_service None" demo_crashed "external_stub ''s0'' 5"]
    by (simp add: new_recovery_service_def demo_crashed_def external_stub_def)
qed

end
