(* ===== verification/Js_Values.thy ===== *)
theory Js_Values
  imports Civic_Prelude
begin

section \<open>JavaScript values\<close>

text \<open>
  The values that frontmatter, metadata and JSON columns hold, with the operators the code
  applies to them: truthiness, member access, object spread, \<open>JSON.stringify\<close> followed
  by \<open>JSON.parse\<close>. An object is its list of members in insertion order; a member can be
  present and \<open>undefined\<close>. Numbers are the integers.
\<close>

datatype jv =
    JUndef
  | JNull
  | JBool bool
  | JNum int
  | JStr string
  | JDate msec
  | JArr "jv list"
  | JObj "(string \<times> jv) list"

type_synonym members = "(string \<times> jv) list"

fun jtruthy :: "jv \<Rightarrow> bool" where
  "jtruthy JUndef \<longleftrightarrow> False"
| "jtruthy JNull \<longleftrightarrow> False"
| "jtruthy (JBool b) \<longleftrightarrow> b"
| "jtruthy (JNum n) \<longleftrightarrow> n \<noteq> 0"
| "jtruthy (JStr s) \<longleftrightarrow> s \<noteq> []"
| "jtruthy (JDate t) \<longleftrightarrow> True"
| "jtruthy (JArr xs) \<longleftrightarrow> True"
| "jtruthy (JObj kvs) \<longleftrightarrow> True"

definition jor :: "jv \<Rightarrow> jv \<Rightarrow> jv" where
  "jor x y = (if jtruthy x then x else y)"

definition jget :: "members \<Rightarrow> string \<Rightarrow> jv" where
  "jget kvs k = (case jm_get kvs k of None \<Rightarrow> JUndef | Some v \<Rightarrow> v)"

text \<open>Member access with \<open>?.\<close>: values without members have none.\<close>

fun jmember :: "jv \<Rightarrow> string \<Rightarrow> jv" where
  "jmember (JObj kvs) k = jget kvs k"
| "jmember _ k = JUndef"

text \<open>The own enumerable members of a value, as \<open>Object.entries\<close> and spread read them.\<close>

fun own_members :: "jv \<Rightarrow> members" where
  "own_members (JObj kvs) = kvs"
| "own_members (JArr xs) = zip (map show_nat [0..<length xs]) xs"
| "own_members (JStr s) = zip (map show_nat [0..<length s]) (map (\<lambda>c. JStr [c]) s)"
| "own_members _ = []"

definition spread :: "members \<Rightarrow> members \<Rightarrow> members" where
  "spread a b = fold (\<lambda>(k, v). jm_set k v) b a"

text \<open>A conditional member \<open>...(x && { k: x })\<close> and a conditional assignment.\<close>

definition set_if :: "bool \<Rightarrow> string \<Rightarrow> jv \<Rightarrow> members \<Rightarrow> members" where
  "set_if b k v kvs = (if b then jm_set k v kvs else kvs)"

text \<open>\<open>x && x.length > 0\<close>.\<close>

definition has_length :: "jv \<Rightarrow> bool" where
  "has_length v \<longleftrightarrow> (case v of
     JArr xs \<Rightarrow> xs \<noteq> []
   | JStr s \<Rightarrow> s \<noteq> []
   | JObj kvs \<Rightarrow> (case jget kvs ''length'' of JNum n \<Rightarrow> 0 < n | _ \<Rightarrow> False)
   | _ \<Rightarrow> False)"

text \<open>What \<open>JSON.parse(JSON.stringify(v))\<close> makes of a value that is not \<open>undefined\<close>.\<close>

primrec json_of :: "jv \<Rightarrow> jv" where
  "json_of JUndef = JUndef"
| "json_of JNull = JNull"
| "json_of (JBool b) = JBool b"
| "json_of (JNum n) = JNum n"
| "json_of (JStr s) = JStr s"
| "json_of (JDate t) = JStr (iso_string t)"
| "json_of (JArr xs) = JArr (map (\<lambda>x. if x = JUndef then JNull else x) (map json_of xs))"
| "json_of (JObj kvs) = JObj (filter (\<lambda>kv. snd kv \<noteq> JUndef) (map (map_prod id json_of) kvs))"

primrec no_dates :: "jv \<Rightarrow> bool" where
  "no_dates JUndef \<longleftrightarrow> True"
| "no_dates JNull \<longleftrightarrow> True"
| "no_dates (JBool b) \<longleftrightarrow> True"
| "no_dates (JNum n) \<longleftrightarrow> True"
| "no_dates (JStr s) \<longleftrightarrow> True"
| "no_dates (JDate t) \<longleftrightarrow> False"
| "no_dates (JArr xs) \<longleftrightarrow> list_all id (map no_dates xs)"
| "no_dates (JObj kvs) \<longleftrightarrow> list_all snd (map (map_prod id no_dates) kvs)"

subsection \<open>Facts\<close>

lemma jget_Nil [simp]: "jget [] k = JUndef"
  by (simp add: jget_def)

lemma jget_Cons [simp]: "jget ((k', v) # kvs) k = (if k = k' then v else jget kvs k)"
  by (simp add: jget_def)

lemma jget_set [simp]: "jget (jm_set k v kvs) k' = (if k' = k then v else jget kvs k')"
  by (simp add: jget_def jm_get_set)

lemma jget_set_if [simp]: "jget (set_if b k v kvs) k' = (if b \<and> k' = k then v else jget kvs k')"
  by (simp add: set_if_def)

lemma jm_ok_set_if [simp]: "jm_ok kvs \<Longrightarrow> jm_ok (set_if b k v kvs)"
  by (simp add: set_if_def)

lemma jm_ok_spread [simp]: "jm_ok a \<Longrightarrow> jm_ok (spread a b)"
  unfolding spread_def by (induction b arbitrary: a) auto

lemma jget_absent: "k \<notin> set (jm_keys kvs) \<Longrightarrow> jget kvs k = JUndef"
  unfolding jget_def by (metis map_of_eq_None_iff option.case(1) set_map)

lemma key_defined: "(\<And>k v. (k, v) \<in> set kvs \<Longrightarrow> v \<noteq> JUndef) \<Longrightarrow> k \<in> set (jm_keys kvs) \<longleftrightarrow> jget kvs k \<noteq> JUndef"
proof (cases "jm_get kvs k")
  case None
  then show "k \<in> set (jm_keys kvs) \<longleftrightarrow> jget kvs k \<noteq> JUndef"
    using map_of_eq_None_iff[of kvs k] by (simp add: jget_def)
next
  case (Some v)
  assume "\<And>k v. (k, v) \<in> set kvs \<Longrightarrow> v \<noteq> JUndef"
  then have "v \<noteq> JUndef" using map_of_SomeD[OF Some] by simp
  with Some show "k \<in> set (jm_keys kvs) \<longleftrightarrow> jget kvs k \<noteq> JUndef"
    using map_of_SomeD[OF Some] by (force simp: jget_def)
qed

lemma jget_filter:
  "jm_ok kvs \<Longrightarrow> jget (filter (\<lambda>(k, v). P k) kvs) k' = (if P k' then jget kvs k' else JUndef)"
  by (simp add: jget_def jm_get_filter split: option.splits)

lemma jget_spread:
  "jm_ok b \<Longrightarrow> jget (spread a b) k = (if k \<in> set (jm_keys b) then jget b k else jget a k)"
proof (induction b arbitrary: a)
  case Nil
  then show ?case by (simp add: spread_def)
next
  case (Cons kv b)
  obtain k1 v1 where kv: "kv = (k1, v1)" by fastforce
  from Cons.prems kv have ok: "jm_ok b" and new: "k1 \<notin> set (jm_keys b)" by (auto simp: jm_ok_def)
  have "spread a (kv # b) = spread (jm_set k1 v1 a) b" by (simp add: spread_def kv)
  then show ?case using Cons.IH[OF ok, of "jm_set k1 v1 a"] new kv by auto
qed

lemma jget_map: "jget (map (map_prod id f) kvs) k = (if k \<in> set (jm_keys kvs) then f (jget kvs k) else JUndef)"
proof (induction kvs)
  case (Cons kv kvs)
  then show ?case by (cases kv) (simp split: if_splits)
qed simp

lemma keys_map_prod [simp]: "jm_keys (map (map_prod id f) kvs) = jm_keys kvs"
  by (induction kvs) auto

lemma jm_ok_map [simp]: "jm_ok (map (map_prod id f) kvs) \<longleftrightarrow> jm_ok kvs"
  by (simp only: jm_ok_def keys_map_prod)

lemma keys_update [simp]: "set (jm_keys (jm_set k v kvs)) = insert k (set (jm_keys kvs))"
  by (simp add: dom_update)

text \<open>Members of which none is \<open>undefined\<close>, as parsers produce them.\<close>

definition defined :: "members \<Rightarrow> bool" where
  "defined kvs \<longleftrightarrow> (\<forall>k v. (k, v) \<in> set kvs \<longrightarrow> v \<noteq> JUndef)"

lemma defined_filter [simp]: "defined kvs \<Longrightarrow> defined (filter P kvs)"
  by (auto simp: defined_def)

lemma defined_set: "defined kvs \<Longrightarrow> v \<noteq> JUndef \<Longrightarrow> defined (jm_set k v kvs)"
  unfolding defined_def by (induction kvs) (auto split: if_splits)

lemma jget_spread_defined:
  "jm_ok b \<Longrightarrow> defined b \<Longrightarrow> jget (spread a b) k = (if jget b k \<noteq> JUndef then jget b k else jget a k)"
  using key_defined[of b k] by (simp add: jget_spread defined_def)

lemma spread_append: "jm_ok (a @ b) \<Longrightarrow> spread a b = a @ b"
proof (induction b arbitrary: a)
  case (Cons kv b)
  obtain k v where kv: "kv = (k, v)" by fastforce
  from Cons.prems kv have "k \<notin> set (jm_keys a)" by (auto simp: jm_ok_def)
  then have "jm_set k v a = a @ [(k, v)]" by (induction a) auto
  moreover have "spread (a @ [(k, v)]) b = (a @ [(k, v)]) @ b" using Cons.prems kv by (intro Cons.IH) simp
  ultimately show ?case by (simp add: spread_def kv)
qed (simp add: spread_def)

lemma spread_Nil [simp]: "jm_ok b \<Longrightarrow> spread [] b = b"
  using spread_append[of "[]" b] by simp

text \<open>Members without a \<open>Date\<close> anywhere below.\<close>

definition dateless :: "members \<Rightarrow> bool" where
  "dateless kvs \<longleftrightarrow> (\<forall>k v. (k, v) \<in> set kvs \<longrightarrow> no_dates v)"

lemma no_dates_obj [simp]: "no_dates (JObj kvs) \<longleftrightarrow> dateless kvs"
  by (force simp: dateless_def list_all_iff)

lemma no_dates_arr [simp]: "no_dates (JArr xs) \<longleftrightarrow> (\<forall>x\<in>set xs. no_dates x)"
  by (simp add: list_all_iff)

declare no_dates.simps(7,8) [simp del]

lemma dateless_Nil [simp]: "dateless []"
  by (simp add: dateless_def)

lemma dateless_Cons [simp]: "dateless ((k, v) # kvs) \<longleftrightarrow> no_dates v \<and> dateless kvs"
  by (auto simp: dateless_def)

lemma dateless_jget [simp]: "dateless kvs \<Longrightarrow> no_dates (jget kvs k)"
  by (auto simp: dateless_def jget_def dest: map_of_SomeD split: option.splits)

lemma dateless_set [simp]: "dateless kvs \<Longrightarrow> no_dates v \<Longrightarrow> dateless (jm_set k v kvs)"
  by (induction kvs) (auto simp: dateless_def)

lemma dateless_set_if [simp]: "dateless kvs \<Longrightarrow> (b \<Longrightarrow> no_dates v) \<Longrightarrow> dateless (set_if b k v kvs)"
  by (simp add: set_if_def)

lemma dateless_filter [simp]: "dateless kvs \<Longrightarrow> dateless (filter P kvs)"
  by (auto simp: dateless_def)

lemma dateless_spread [simp]: "dateless a \<Longrightarrow> dateless b \<Longrightarrow> dateless (spread a b)"
proof (induction b arbitrary: a)
  case (Cons kv b)
  then show ?case by (cases kv) (simp add: spread_def)
qed (simp add: spread_def)

lemma dateless_own_members [simp]: "no_dates v \<Longrightarrow> dateless (own_members v)"
  by (cases v) (fastforce simp: dateless_def dest: set_zip_rightD)+

end
