(* ===== verification/Record_Parser.thy ===== *)
theory Record_Parser
  imports Js_Values
begin

section \<open>Records as Markdown files\<close>

text \<open>
  \<open>core/src/records/record-parser.ts\<close>: a record is written as YAML frontmatter and a body,
  and read back through gray-matter, a migration of old field names, a schema check and a
  check of the required fields. Parameters (\<open>parser_env\<close>): gray-matter, the YAML writer, JSON
  text, the schema validator, the fields that module extensions add, the clock. Values are
  JavaScript values, because frontmatter is untyped; \<open>JUndef\<close> is an absent field.
\<close>

subsection \<open>Records and the environment\<close>

record record_data =
  rd_id :: jv
  rd_title :: jv
  rd_type :: jv
  rd_status :: jv
  rd_workflowState :: jv
  rd_content :: "string option"
  rd_metadata :: jv
  rd_geography :: jv
  rd_attachedFiles :: jv
  rd_linkedRecords :: jv
  rd_linkedGeographyFiles :: jv
  rd_path :: "string option"
  rd_author :: jv
  rd_authors :: jv
  rd_created_at :: jv
  rd_updated_at :: jv
  rd_source :: jv
  rd_commit_ref :: jv
  rd_commit_signature :: jv

text \<open>\<open>pe_yaml\<close> is the text of a one-member object or an exception; \<open>pe_schema\<close> is
  \<open>isValid\<close> with the errors as field and message.\<close>

record parser_env =
  pe_matter :: "string \<Rightarrow> string + jv \<times> string"
  pe_yaml :: "string \<Rightarrow> jv \<Rightarrow> string option"
  pe_json :: "jv \<Rightarrow> string"
  pe_schema :: "members \<Rightarrow> jv \<Rightarrow> bool \<times> (string \<times> string) list"
  pe_extension :: "jv \<Rightarrow> string list"
  pe_now :: msec

subsection \<open>Old formats\<close>

primrec normalizeDateValues :: "jv \<Rightarrow> jv" where
  "normalizeDateValues JUndef = JUndef"
| "normalizeDateValues JNull = JNull"
| "normalizeDateValues (JBool b) = JBool b"
| "normalizeDateValues (JNum n) = JNum n"
| "normalizeDateValues (JStr s) = JStr s"
| "normalizeDateValues (JDate t) = JStr (iso_string t)"
| "normalizeDateValues (JArr xs) = JArr (map normalizeDateValues xs)"
| "normalizeDateValues (JObj kvs) = JObj (map (map_prod id normalizeDateValues) kvs)"

fun is_array :: "jv \<Rightarrow> bool" where
  "is_array (JArr _) \<longleftrightarrow> True"
| "is_array _ \<longleftrightarrow> False"

fun array_first :: "jv \<Rightarrow> jv" where
  "array_first (JArr (x # _)) = x"
| "array_first _ = JUndef"

text \<open>\<open>replace(/\s+/g, '.')\<close>.\<close>

fun dot_spaces :: "bool \<Rightarrow> string \<Rightarrow> string" where
  "dot_spaces run [] = []"
| "dot_spaces run (c # cs) = (if is_space c
     then (if run then dot_spaces True cs else CHR ''.'' # dot_spaces True cs)
     else c # dot_spaces False cs)"

definition author_from :: "jv \<Rightarrow> jv \<Rightarrow> string + jv" where
  "author_from current first = (case first of
     JStr s \<Rightarrow> Inr (JStr s)
   | _ \<Rightarrow> if jtruthy (jmember first ''username'') then Inr (jmember first ''username'')
       else if jtruthy (jmember first ''name'') then
         (case jmember first ''name'' of
            JStr n \<Rightarrow> Inr (JStr (dot_spaces False (to_lower n)))
          | _ \<Rightarrow> Inl ''firstAuthor.name.toLowerCase is not a function'')
       else Inr current)"

definition normalize_author :: "members \<Rightarrow> string + members" where
  "normalize_author fm =
     (if jtruthy (jget fm ''author'') then Inr fm
      else case (if is_array (jget fm ''authors'') then author_from (jget fm ''author'') (array_first (jget fm ''authors''))
                 else Inr (jget fm ''author'')) of
          Inl e \<Rightarrow> Inl e
        | Inr a \<Rightarrow> Inr (jm_set ''author'' (jor a (JStr ''unknown'')) fm))"

text \<open>\<open>if (!x.new && x.old) x.new = x.old\<close>, and a \<open>Date\<close> turned into text.\<close>

definition migrate :: "string \<Rightarrow> string \<Rightarrow> members \<Rightarrow> members" where
  "migrate new old fm = set_if (\<not> jtruthy (jget fm new) \<and> jtruthy (jget fm old)) new (jget fm old) fm"

definition date_to_text :: "string \<Rightarrow> members \<Rightarrow> members" where
  "date_to_text k fm = (case jget fm k of JDate t \<Rightarrow> jm_set k (JStr (iso_string t)) fm | _ \<Rightarrow> fm)"

definition normalizeFormat :: "members \<Rightarrow> string + members" where
  "normalizeFormat frontmatter = (case normalize_author frontmatter of
     Inl e \<Rightarrow> Inl e
   | Inr fm1 \<Rightarrow>
       let fm2 = migrate ''updated'' ''updated_at'' (migrate ''created'' ''created_at'' fm1);
           fm3 = date_to_text ''updated'' (date_to_text ''created'' fm2);
           fm4 = migrate ''attached_files'' ''attachedFiles'' (migrate ''linked_geography_files'' ''linkedGeographyFiles''
             (migrate ''linked_records'' ''linkedRecords'' fm3));
           fm5 = migrate ''geography_data'' ''geography'' fm4 in
       Inr (map (map_prod id normalizeDateValues) fm5))"

subsection \<open>From frontmatter to a record\<close>

definition classification_fields :: "string list" where
  "classification_fields = [''tags'', ''module'', ''slug'', ''version'', ''priority'', ''department'', ''category'',
     ''session_type'', ''date'', ''duration'', ''location'', ''attendees'', ''topics'', ''media'']"

definition record_fields :: "string list" where
  "record_fields = [''id'', ''title'', ''type'', ''status'', ''author'', ''authors'', ''created'', ''updated'', ''source'',
     ''commit_ref'', ''commit_signature'', ''geography_data'', ''linked_records'', ''linkedRecords'',
     ''linked_geography_files'', ''linkedGeographyFiles'', ''attached_files'', ''attachedFiles''] @
     classification_fields @ [''metadata'']"

fun is_object :: "jv \<Rightarrow> bool" where
  "is_object (JObj _) \<longleftrightarrow> True"
| "is_object (JDate _) \<longleftrightarrow> True"
| "is_object (JArr _) \<longleftrightarrow> True"
| "is_object JNull \<longleftrightarrow> True"
| "is_object _ \<longleftrightarrow> False"

definition pick :: "string list \<Rightarrow> members \<Rightarrow> members" where
  "pick ks fm = fold (\<lambda>k. set_if (jtruthy (jget fm k)) k (jget fm k)) ks []"

definition parse_metadata :: "members \<Rightarrow> members" where
  "parse_metadata fm = spread (spread (pick classification_fields fm)
       (if jtruthy (jget fm ''metadata'') \<and> is_object (jget fm ''metadata'') \<and> \<not> is_array (jget fm ''metadata'')
        then own_members (jget fm ''metadata'') else []))
     (filter (\<lambda>(k, v). k \<notin> set record_fields) fm)"

definition required_fields :: "string list" where
  "required_fields = [''id'', ''title'', ''type'', ''status'', ''author'', ''created'', ''updated'']"

definition in_file :: "string option \<Rightarrow> string \<Rightarrow> string" where
  "in_file filePath prep = (if truthy filePath then '' '' @ prep @ '' '' @ the filePath else [])"

definition validateRequiredFields :: "members \<Rightarrow> string option \<Rightarrow> string option" where
  "validateRequiredFields fm filePath =
     (let missing = filter (\<lambda>f. \<not> jtruthy (jget fm f)) required_fields in
      if missing = [] then None
      else Some (''Missing required fields'' @ in_file filePath ''in'' @ '': '' @ join_with '', '' missing))"

definition record_of_fields :: "members \<Rightarrow> string \<Rightarrow> record_data" where
  "record_of_fields fm body = \<lparr>rd_id = jget fm ''id'', rd_title = jget fm ''title'', rd_type = jget fm ''type'',
     rd_status = jget fm ''status'', rd_workflowState = JUndef, rd_content = Some (trim body),
     rd_metadata = JObj (parse_metadata fm),
     rd_geography = (if jtruthy (jget fm ''geography_data'') then JObj (own_members (jget fm ''geography_data'')) else JUndef),
     rd_attachedFiles = jor (jget fm ''attached_files'') (jget fm ''attachedFiles''),
     rd_linkedRecords = jor (jget fm ''linked_records'') (jget fm ''linkedRecords''),
     rd_linkedGeographyFiles = jor (jget fm ''linked_geography_files'') (jget fm ''linkedGeographyFiles''),
     rd_path = None, rd_author = jget fm ''author'', rd_authors = jget fm ''authors'',
     rd_created_at = jget fm ''created'', rd_updated_at = jget fm ''updated'', rd_source = jget fm ''source'',
     rd_commit_ref = jget fm ''commit_ref'', rd_commit_signature = jget fm ''commit_signature''\<rparr>"

definition schema_message :: "(string \<times> string) list \<Rightarrow> string" where
  "schema_message errs = join_with ''; '' (map (\<lambda>(f, m). f @ '': '' @ m) errs)"

definition parse_fields :: "parser_env \<Rightarrow> string option \<Rightarrow> jv \<Rightarrow> string \<Rightarrow> string + record_data" where
  "parse_fields env filePath data body =
     (if \<not> jtruthy data \<or> \<not> is_object data then Inl ''Invalid or missing frontmatter''
      else case normalizeFormat (own_members data) of
        Inl e \<Rightarrow> Inl e
      | Inr fm \<Rightarrow> (case pe_schema env fm (jget fm ''type'') of (valid, errs) \<Rightarrow>
          if \<not> valid \<and> errs \<noteq> []
          then Inl (''Schema validation failed for record'' @ in_file filePath ''at'' @ '': '' @ schema_message errs)
          else case validateRequiredFields fm filePath of
            Some e \<Rightarrow> Inl e
          | None \<Rightarrow> Inr (record_of_fields fm body)))"

definition parseFromMarkdown :: "parser_env \<Rightarrow> string \<Rightarrow> string option \<Rightarrow> string + record_data" where
  "parseFromMarkdown env content filePath =
     (case (case pe_matter env content of Inl e \<Rightarrow> Inl e | Inr (data, body) \<Rightarrow> parse_fields env filePath data body) of
        Inl e \<Rightarrow> Inl (''Record parsing failed'' @
          (if truthy filePath then '' ('' @ the filePath @ '')'' else []) @ '': '' @ e)
      | Inr r \<Rightarrow> Inr r)"

subsection \<open>From a record to frontmatter\<close>

text \<open>\<open>typeof x === 'string' ? x : new Date(x).toISOString()\<close>; an array or object is taken to
  be no date.\<close>

fun date_text :: "jv \<Rightarrow> string + jv" where
  "date_text (JStr s) = Inr (JStr s)"
| "date_text (JDate t) = Inr (JStr (iso_string t))"
| "date_text (JNum t) = Inr (JStr (iso_string t))"
| "date_text (JBool b) = Inr (JStr (iso_string (if b then 1 else 0)))"
| "date_text JNull = Inr (JStr (iso_string 0))"
| "date_text _ = Inl ''Invalid time value''"

definition source_fields :: "jv \<Rightarrow> string + members" where
  "source_fields source =
     (let s = own_members source; at = jget s ''imported_at'' in
      if at = JUndef \<or> at = JNull then Inr s
      else case date_text at of Inl e \<Rightarrow> Inl e | Inr d \<Rightarrow> Inr (jm_set ''imported_at'' d s))"

definition add_source :: "jv \<Rightarrow> members \<Rightarrow> string + members" where
  "add_source source fm =
     (if jtruthy source
      then (case source_fields source of Inl e \<Rightarrow> Inl e | Inr s \<Rightarrow> Inr (jm_set ''source'' (JObj s) fm))
      else Inr fm)"

definition copy_if :: "jv \<Rightarrow> string list \<Rightarrow> members \<Rightarrow> members" where
  "copy_if m ks fm = fold (\<lambda>k. set_if (jtruthy (jmember m k)) k (jmember m k)) ks fm"

definition add_classification :: "jv \<Rightarrow> members \<Rightarrow> string + members" where
  "add_classification m fm =
     (let tags = jmember m ''tags'';
          fm1 = set_if (jtruthy tags) ''tags'' (if is_array tags then tags else JArr [tags]) fm;
          fm2 = copy_if m [''module'', ''slug'', ''version'', ''priority'', ''department'', ''category'', ''session_type''] fm1;
          rest = copy_if m [''duration'', ''location'', ''attendees'', ''topics'', ''media''] in
      if jtruthy (jmember m ''date'')
      then (case date_text (jmember m ''date'') of Inl e \<Rightarrow> Inl e | Inr d \<Rightarrow> Inr (rest (jm_set ''date'' d fm2)))
      else Inr (rest fm2))"

text \<open>Metadata that is no classification: fields of module extensions at the top level, the
  rest under \<open>metadata\<close>.\<close>

definition add_passthrough :: "string list \<Rightarrow> jv \<Rightarrow> members \<Rightarrow> members" where
  "add_passthrough ext m fm =
     (let others = filter (\<lambda>(k, v). k \<notin> set classification_fields) (own_members m);
          top = filter (\<lambda>(k, v). k \<in> set ext) others;
          nested = filter (\<lambda>(k, v). k \<notin> set ext) others;
          fm1 = spread fm top in
      if nested = [] then fm1
      else jm_set ''metadata'' (JObj (spread (own_members (jget fm1 ''metadata'')) (spread [] nested))) fm1)"

definition buildFrontmatter :: "parser_env \<Rightarrow> record_data \<Rightarrow> string + members" where
  "buildFrontmatter env r =
     (let now = JStr (iso_string (pe_now env));
          fm0 = [(''id'', rd_id r), (''title'', rd_title r), (''type'', rd_type r), (''status'', rd_status r),
            (''author'', rd_author r)];
          fm1 = set_if (has_length (rd_authors r)) ''authors'' (rd_authors r) fm0 in
      case (date_text (jor (rd_created_at r) now), date_text (jor (rd_updated_at r) now)) of
        (Inl e, _) \<Rightarrow> Inl e
      | (_, Inl e) \<Rightarrow> Inl e
      | (Inr created, Inr updated) \<Rightarrow>
          (case add_source (rd_source r) (jm_set ''updated'' updated (jm_set ''created'' created fm1)) of
             Inl e \<Rightarrow> Inl e
           | Inr fm2 \<Rightarrow>
               let fm3 = set_if (jtruthy (rd_commit_signature r)) ''commit_signature'' (rd_commit_signature r)
                 (set_if (jtruthy (rd_commit_ref r)) ''commit_ref'' (rd_commit_ref r) fm2) in
               (case (if jtruthy (rd_metadata r) then add_classification (rd_metadata r) fm3 else Inr fm3) of
                  Inl e \<Rightarrow> Inl e
                | Inr fm4 \<Rightarrow>
                    let fm5 = set_if (jtruthy (rd_geography r)) ''geography_data'' (rd_geography r) fm4;
                        fm6 = set_if (has_length (rd_linkedRecords r)) ''linked_records'' (rd_linkedRecords r) fm5;
                        fm7 = set_if (has_length (rd_linkedGeographyFiles r)) ''linked_geography_files''
                          (rd_linkedGeographyFiles r) fm6;
                        fm8 = set_if (has_length (rd_attachedFiles r)) ''attached_files'' (rd_attachedFiles r) fm7 in
                    Inr (if jtruthy (rd_metadata r)
                         then add_passthrough (pe_extension env (rd_type r)) (rd_metadata r) fm8 else fm8))))"

subsection \<open>Writing the YAML\<close>

definition split_lines :: "string \<Rightarrow> string list" where
  "split_lines s = foldr (\<lambda>c acc. if c = CHR 10 then [] # acc else (c # hd acc) # tl acc) s [[]]"

definition NL :: string where "NL = [CHR 10]"

text \<open>The position of the first colon, when it is not the first character, and what follows it.\<close>

definition after_colon :: "string \<Rightarrow> string option" where
  "after_colon line = (let n = length (takeWhile (\<lambda>c. c \<noteq> CHR '':'') line) in
     if 0 < n \<and> n < length line then Some (drop (Suc n) line) else None)"

definition formatYamlField :: "parser_env \<Rightarrow> string \<Rightarrow> jv \<Rightarrow> string" where
  "formatYamlField env key value = (case pe_yaml env key value of
     None \<Rightarrow> key @ '': '' @ pe_json env value
   | Some doc \<Rightarrow> (case filter (\<lambda>line. trim line \<noteq> []) (split_lines doc) of
       [] \<Rightarrow> key @ '': null''
     | [line] \<Rightarrow> (case after_colon line of
         Some v \<Rightarrow> key @ '': '' @ trim v
       | None \<Rightarrow> key @ '': '' @ line)
     | line # lines \<Rightarrow> join_with NL ((case after_colon line of
         Some v \<Rightarrow> key @ '':'' @ v
       | None \<Rightarrow> key @ '': '' @ line) # lines)))"

definition yaml_sections :: "string list list" where
  "yaml_sections =
    [[''id'', ''title'', ''type'', ''status''],
     [''author'', ''authors''],
     [''created'', ''updated''],
     [''tags'', ''module'', ''slug'', ''version'', ''priority'', ''department''],
     [''source''],
     [''commit_ref'', ''commit_signature''],
     [''geography_data'', ''category'', ''session_type'', ''date'', ''duration'', ''location'', ''attendees'', ''topics'', ''media''],
     [''linked_records'', ''linked_geography_files''],
     [''attached_files'']]"

definition is_nullish :: "jv \<Rightarrow> bool" where
  "is_nullish v \<longleftrightarrow> v = JUndef \<or> v = JNull"

definition section_lines :: "parser_env \<Rightarrow> members \<Rightarrow> string list \<Rightarrow> string list" where
  "section_lines env fm names =
     map (\<lambda>f. formatYamlField env f (jget fm f)) (filter (\<lambda>f. \<not> is_nullish (jget fm f)) names)"

definition separate :: "string list \<Rightarrow> string list" where
  "separate ls = (if ls \<noteq> [] \<and> last ls \<noteq> [] then ls @ [[]] else ls)"

primrec add_sections :: "parser_env \<Rightarrow> members \<Rightarrow> string list list \<Rightarrow> string list \<Rightarrow> string list" where
  "add_sections env fm [] ls = ls"
| "add_sections env fm (names # rest) ls = add_sections env fm rest
     (let own = section_lines env fm names in if own = [] then ls else separate ls @ own @ [[]])"

definition remaining_fields :: "members \<Rightarrow> string list" where
  "remaining_fields fm = filter (\<lambda>k. \<not> (k \<in> set (concat yaml_sections) \<and> \<not> is_nullish (jget fm k)) \<and> jget fm k \<noteq> JUndef)
     (jm_keys fm)"

definition drop_trailing :: "string list \<Rightarrow> string list" where
  "drop_trailing ls = rev (dropWhile (\<lambda>l. l = []) (rev ls))"

definition generateOrderedYaml :: "parser_env \<Rightarrow> members \<Rightarrow> string" where
  "generateOrderedYaml env fm =
     (let ls = add_sections env fm yaml_sections [];
          rest = remaining_fields fm;
          ls' = (if rest = [] then ls else separate ls @ map (\<lambda>f. formatYamlField env f (jget fm f)) rest) in
      join_with NL (drop_trailing ls') @ NL)"

definition serializeToMarkdown :: "parser_env \<Rightarrow> record_data \<Rightarrow> string + string" where
  "serializeToMarkdown env r = (case buildFrontmatter env r of
     Inl e \<Rightarrow> Inl e
   | Inr fm \<Rightarrow> Inr (''---'' @ NL @ generateOrderedYaml env fm @ NL @ ''---'' @ NL @ NL @
       (case rd_content r of None \<Rightarrow> [] | Some c \<Rightarrow> c)))"

subsection \<open>Lookups\<close>

lemma jget_copy_if [simp]: "jget (copy_if m ks fm) k =
  (if k \<in> set ks \<and> jtruthy (jmember m k) then jmember m k else jget fm k)"
  unfolding copy_if_def by (induction ks arbitrary: fm) auto

lemma jget_pick [simp]: "jget (pick ks fm) k = (if k \<in> set ks \<and> jtruthy (jget fm k) then jget fm k else JUndef)"
proof -
  have "jget (fold (\<lambda>k. set_if (jtruthy (jget fm k)) k (jget fm k)) ks acc) k =
    (if k \<in> set ks \<and> jtruthy (jget fm k) then jget fm k else jget acc k)" for acc
    by (induction ks arbitrary: acc) auto
  then show ?thesis by (simp add: pick_def)
qed

lemma dateless_pick [simp]: "dateless fm \<Longrightarrow> dateless (pick ks fm)"
proof -
  assume "dateless fm"
  then have "dateless acc \<Longrightarrow> dateless (fold (\<lambda>k. set_if (jtruthy (jget fm k)) k (jget fm k)) ks acc)" for acc
    by (induction ks arbitrary: acc) auto
  then show ?thesis by (simp add: pick_def)
qed

lemma norm_no_dates [simp]: "no_dates (normalizeDateValues v)"
proof (induction v)
  case (JObj kvs)
  then have "no_dates (normalizeDateValues w)" if "(k, w) \<in> set kvs" for k w using that by force
  then show ?case by (auto simp: dateless_def)
qed auto

lemma norm_id [simp]: "no_dates v \<Longrightarrow> normalizeDateValues v = v"
proof (induction v)
  case (JObj kvs)
  then have "normalizeDateValues w = w" if "(k, w) \<in> set kvs" for k w
    using that by (fastforce simp: dateless_def)
  then show ?case by (auto intro!: map_idI)
qed (auto intro: map_idI)

lemma iso_string_nonempty: "iso_string t \<noteq> []"
  by (simp add: iso_string_def Let_def split: prod.splits)

lemma norm_truthy [simp]: "jtruthy (normalizeDateValues v) = jtruthy v"
  by (cases v) (simp_all add: iso_string_nonempty)

lemma norm_undef [simp]: "normalizeDateValues v = JUndef \<longleftrightarrow> v = JUndef"
  by (cases v) auto

lemma jget_norm: "jget (map (map_prod id normalizeDateValues) fm) k = normalizeDateValues (jget fm k)"
  by (simp add: jget_map jget_absent)

lemma dateless_norm [simp]: "dateless (map (map_prod id normalizeDateValues) fm)"
  by (auto simp: dateless_def)

subsection \<open>What is read contains no Date\<close>

definition record_dateless :: "record_data \<Rightarrow> bool" where
  "record_dateless r \<longleftrightarrow> list_all no_dates [rd_id r, rd_title r, rd_type r, rd_status r, rd_workflowState r, rd_metadata r,
     rd_geography r, rd_attachedFiles r, rd_linkedRecords r, rd_linkedGeographyFiles r, rd_author r, rd_authors r,
     rd_created_at r, rd_updated_at r, rd_source r, rd_commit_ref r, rd_commit_signature r]"

lemma normalizeFormat_dateless: "normalizeFormat data = Inr fm \<Longrightarrow> dateless fm"
  by (auto simp: normalizeFormat_def Let_def split: sum.splits)

lemma dateless_parse_metadata: "dateless fm \<Longrightarrow> dateless (parse_metadata fm)"
  by (simp add: parse_metadata_def)

lemma record_of_fields_dateless: "dateless fm \<Longrightarrow> record_dateless (record_of_fields fm body)"
  by (simp add: record_dateless_def record_of_fields_def dateless_parse_metadata jor_def)

text \<open>C33: Frontmatter is untyped, records are not. Whatever gray-matter produces, with \<open>Date\<close>
  objects anywhere in nested values, a record that the parser returns holds none: every
  field is plain JSON data.\<close>

theorem parsed_records_hold_no_dates:
  assumes "parseFromMarkdown env content filePath = Inr r"
  shows "record_dateless r"
  using assms
  by (auto simp: parseFromMarkdown_def parse_fields_def intro!: record_of_fields_dateless normalizeFormat_dateless
      split: sum.splits prod.splits if_splits option.splits)

definition demo_env :: "members \<Rightarrow> string \<Rightarrow> parser_env" where
  "demo_env data body = \<lparr>pe_matter = (\<lambda>_. Inr (JObj data, body)), pe_yaml = (\<lambda>_ _. None), pe_json = (\<lambda>_. ''null''),
     pe_schema = (\<lambda>_ _. (True, [])), pe_extension = (\<lambda>_. []), pe_now = 0\<rparr>"

definition demo_front :: members where
  "demo_front = [(''id'', JStr ''b1''), (''title'', JStr ''Noise''), (''type'', JStr ''bylaw''), (''status'', JStr ''adopted''),
     (''created'', JDate 0), (''updated'', JDate 0), (''metadata'', JObj [(''read_at'', JArr [JDate 0])])]"

lemma parsed_records_hold_no_dates_witness:
  "\<exists>r. parseFromMarkdown (demo_env demo_front ''Text'') ''file'' None = Inr r \<and> record_dateless r \<and>
     rd_created_at r = JStr ''1970-01-01T00:00:00.000Z'' \<and>
     rd_metadata r = JObj [(''read_at'', JArr [JStr ''1970-01-01T00:00:00.000Z''])]"
proof -
  have "case parseFromMarkdown (demo_env demo_front ''Text'') ''file'' None of Inl e \<Rightarrow> False
     | Inr r \<Rightarrow> rd_created_at r = JStr ''1970-01-01T00:00:00.000Z'' \<and>
         rd_metadata r = JObj [(''read_at'', JArr [JStr ''1970-01-01T00:00:00.000Z''])]"
    by code_simp
  then obtain r where "parseFromMarkdown (demo_env demo_front ''Text'') ''file'' None = Inr r"
    "rd_created_at r = JStr ''1970-01-01T00:00:00.000Z''"
    "rd_metadata r = JObj [(''read_at'', JArr [JStr ''1970-01-01T00:00:00.000Z''])]"
    by (auto split: sum.splits)
  with parsed_records_hold_no_dates[of "demo_env demo_front ''Text''" "''file''" None] show ?thesis by blast
qed

subsection \<open>Writing, then reading\<close>

text \<open>The records of the round trip: the required fields are there, optional ones are absent or
  not empty, the classifications in the metadata are truthy, dates are text, and no field of
  a module extension has a name of the format.\<close>

definition optional_list :: "jv \<Rightarrow> bool" where
  "optional_list v \<longleftrightarrow> v = JUndef \<or> (\<exists>x xs. v = JArr (x # xs))"

definition text_or_none :: "jv \<Rightarrow> bool" where
  "text_or_none v \<longleftrightarrow> v = JUndef \<or> (\<exists>s. s \<noteq> [] \<and> v = JStr s)"

definition tidy_metadata :: "members \<Rightarrow> bool" where
  "tidy_metadata m \<longleftrightarrow> jm_ok m \<and> defined m \<and>
     (\<forall>k\<in>set classification_fields. jget m k = JUndef \<or> jtruthy (jget m k)) \<and>
     optional_list (jget m ''tags'') \<and> text_or_none (jget m ''date'')"

definition tidy_record :: "record_data \<Rightarrow> bool" where
  "tidy_record r \<longleftrightarrow> jtruthy (rd_id r) \<and> jtruthy (rd_title r) \<and> jtruthy (rd_type r) \<and> jtruthy (rd_status r) \<and>
     jtruthy (rd_author r) \<and>
     jtruthy (rd_created_at r) \<and> text_or_none (rd_created_at r) \<and> jtruthy (rd_updated_at r) \<and> text_or_none (rd_updated_at r) \<and>
     list_all optional_list [rd_authors r, rd_attachedFiles r, rd_linkedRecords r, rd_linkedGeographyFiles r] \<and>
     list_all text_or_none [rd_commit_ref r, rd_commit_signature r] \<and>
     (rd_geography r = JUndef \<or> (\<exists>g. rd_geography r = JObj g)) \<and>
     (rd_source r = JUndef \<or> (\<exists>s. rd_source r = JObj s \<and> text_or_none (jget s ''imported_at''))) \<and>
     (\<exists>m. rd_metadata r = JObj m \<and> tidy_metadata m)"

definition format_names :: "string list" where
  "format_names = record_fields @ [''created_at'', ''updated_at'', ''geography'']"

definition accepts :: "parser_env \<Rightarrow> jv \<Rightarrow> members \<Rightarrow> bool" where
  "accepts env type fm \<longleftrightarrow> (\<forall>fm'. (\<forall>k. jget fm' k = jget fm k) \<longrightarrow> fst (pe_schema env fm' type))"

lemma optional_list_cases: "optional_list v \<Longrightarrow> (has_length v \<longleftrightarrow> v \<noteq> JUndef) \<and> (jtruthy v \<longleftrightarrow> v \<noteq> JUndef)"
  by (auto simp: optional_list_def has_length_def)

lemma text_or_none_cases: "text_or_none v \<Longrightarrow> (jtruthy v \<longleftrightarrow> v \<noteq> JUndef) \<and> (v \<noteq> JUndef \<longrightarrow> date_text v = Inr v)"
  by (auto simp: text_or_none_def)

lemma update_same: "jget kvs k = v \<Longrightarrow> v \<noteq> JUndef \<Longrightarrow> jm_set k v kvs = kvs"
  by (auto simp: jget_def intro: update_triv split: option.splits)

lemma source_kept: "text_or_none (jget s ''imported_at'') \<Longrightarrow> source_fields (JObj s) = Inr s"
  using text_or_none_cases[of "jget s ''imported_at''"]
  by (auto simp: source_fields_def Let_def text_or_none_def update_same)

lemma classification_kept:
  assumes "tidy_metadata m"
  shows "\<exists>fm'. add_classification (JObj m) fm = Inr fm' \<and> (jm_ok fm \<longrightarrow> jm_ok fm') \<and>
    (\<forall>k. jget fm' k = (if k \<in> set classification_fields \<and> jget m k \<noteq> JUndef then jget m k else jget fm k))"
proof -
  have cls: "jtruthy (jget m k) \<longleftrightarrow> jget m k \<noteq> JUndef" if "k \<in> set classification_fields" for k
    using assms that by (auto simp: tidy_metadata_def)
  have tags: "jtruthy (jget m ''tags'') \<Longrightarrow> is_array (jget m ''tags'')" and date: "text_or_none (jget m ''date'')"
    using assms by (auto simp: tidy_metadata_def optional_list_def)
  have ok: "jm_ok fm \<Longrightarrow> jm_ok (copy_if m ks fm)" for m ks fm
    unfolding copy_if_def by (induction ks arbitrary: fm) auto
  define d where "d = jget m ''date''"
  define fm1 where "fm1 = copy_if (JObj m) [''module'', ''slug'', ''version'', ''priority'', ''department'', ''category'', ''session_type'']
      (set_if (jtruthy (jget m ''tags'')) ''tags'' (jget m ''tags'') fm)"
  define fm' where "fm' = copy_if (JObj m) [''duration'', ''location'', ''attendees'', ''topics'', ''media'']
      (set_if (d \<noteq> JUndef) ''date'' d fm1)"
  have "add_classification (JObj m) fm = Inr fm'"
    using text_or_none_cases[OF date] tags
    by (cases "d = JUndef") (auto simp: add_classification_def Let_def fm'_def fm1_def d_def set_if_def)
  moreover have "jm_ok fm \<Longrightarrow> jm_ok fm'" by (simp add: fm'_def fm1_def ok)
  moreover have "jget fm' k = (if k \<in> set classification_fields \<and> jget m k \<noteq> JUndef then jget m k else jget fm k)" for k
  proof (cases "k \<in> set classification_fields")
    case False
    then show ?thesis by (simp add: fm'_def fm1_def classification_fields_def)
  next
    case True
    note c = cls[OF True]
    from True have "k \<in> {''tags'', ''module'', ''slug'', ''version'', ''priority'', ''department'', ''category'',
        ''session_type'', ''date'', ''duration'', ''location'', ''attendees'', ''topics'', ''media''}"
      by (simp add: classification_fields_def)
    then show ?thesis
      using True c unfolding fm'_def fm1_def d_def by (elim insertE emptyE) simp_all
  qed
  ultimately show ?thesis by blast
qed

definition base_list :: "record_data \<Rightarrow> members" where
  "base_list r = [(''id'', rd_id r), (''title'', rd_title r), (''type'', rd_type r), (''status'', rd_status r),
     (''author'', rd_author r), (''authors'', rd_authors r), (''created'', rd_created_at r), (''updated'', rd_updated_at r),
     (''source'', rd_source r), (''commit_ref'', rd_commit_ref r), (''commit_signature'', rd_commit_signature r),
     (''geography_data'', rd_geography r), (''linked_records'', rd_linkedRecords r),
     (''linked_geography_files'', rd_linkedGeographyFiles r), (''attached_files'', rd_attachedFiles r)]"

definition nested_metadata :: "string list \<Rightarrow> members \<Rightarrow> members" where
  "nested_metadata ext m = filter (\<lambda>(k, v). k \<notin> set ext) (filter (\<lambda>(k, v). k \<notin> set classification_fields) m)"

definition frontmatter_field :: "record_data \<Rightarrow> members \<Rightarrow> string list \<Rightarrow> string \<Rightarrow> jv" where
  "frontmatter_field r m ext k =
     (if k \<in> set classification_fields then jget m k
      else if k = ''metadata'' then (if nested_metadata ext m = [] then JUndef else JObj (nested_metadata ext m))
      else if k \<in> set ext then jget m k
      else jget (base_list r) k)"

definition top_fields :: "record_data \<Rightarrow> members" where
  "top_fields r = set_if (rd_commit_signature r \<noteq> JUndef) ''commit_signature'' (rd_commit_signature r)
     (set_if (rd_commit_ref r \<noteq> JUndef) ''commit_ref'' (rd_commit_ref r)
     (set_if (rd_source r \<noteq> JUndef) ''source'' (rd_source r)
     (jm_set ''updated'' (rd_updated_at r) (jm_set ''created'' (rd_created_at r)
     (set_if (rd_authors r \<noteq> JUndef) ''authors'' (rd_authors r)
       [(''id'', rd_id r), (''title'', rd_title r), (''type'', rd_type r), (''status'', rd_status r), (''author'', rd_author r)])))))"

definition with_relations :: "record_data \<Rightarrow> members \<Rightarrow> members" where
  "with_relations r fm = set_if (rd_attachedFiles r \<noteq> JUndef) ''attached_files'' (rd_attachedFiles r)
     (set_if (rd_linkedGeographyFiles r \<noteq> JUndef) ''linked_geography_files'' (rd_linkedGeographyFiles r)
     (set_if (rd_linkedRecords r \<noteq> JUndef) ''linked_records'' (rd_linkedRecords r)
     (set_if (rd_geography r \<noteq> JUndef) ''geography_data'' (rd_geography r) fm)))"

lemma build_tidy:
  assumes "tidy_record r" and m: "rd_metadata r = JObj m"
    and fm4: "add_classification (JObj m) (top_fields r) = Inr fm4"
  shows "buildFrontmatter env r = Inr (add_passthrough (pe_extension env (rd_type r)) (JObj m) (with_relations r fm4))"
proof -
  note t = assms(1)[unfolded tidy_record_def list.pred_inject]
  from t have lists: "has_length (rd_authors r) \<longleftrightarrow> rd_authors r \<noteq> JUndef" "has_length (rd_attachedFiles r) \<longleftrightarrow> rd_attachedFiles r \<noteq> JUndef"
      "has_length (rd_linkedRecords r) \<longleftrightarrow> rd_linkedRecords r \<noteq> JUndef"
      "has_length (rd_linkedGeographyFiles r) \<longleftrightarrow> rd_linkedGeographyFiles r \<noteq> JUndef"
    using optional_list_cases by blast+
  from t have texts: "jtruthy (rd_commit_ref r) \<longleftrightarrow> rd_commit_ref r \<noteq> JUndef"
      "jtruthy (rd_commit_signature r) \<longleftrightarrow> rd_commit_signature r \<noteq> JUndef"
    using text_or_none_cases by blast+
  have dates: "date_text (jor (rd_created_at r) now) = Inr (rd_created_at r)" "date_text (jor (rd_updated_at r) now) = Inr (rd_updated_at r)" for now
    using t text_or_none_cases[of "rd_created_at r"] text_or_none_cases[of "rd_updated_at r"] by (auto simp: jor_def)
  have source: "add_source (rd_source r) fm = Inr (set_if (rd_source r \<noteq> JUndef) ''source'' (rd_source r) fm)" for fm
    using t source_kept by (auto simp: add_source_def set_if_def)
  have geo: "jtruthy (rd_geography r) \<longleftrightarrow> rd_geography r \<noteq> JUndef" using t by auto
  show ?thesis
    by (simp add: buildFrontmatter_def Let_def lists texts dates source geo m fm4[unfolded top_fields_def] with_relations_def)
qed

lemma nested_no_class [simp]: "k \<in> set classification_fields \<Longrightarrow> jget (nested_metadata ext m) k = JUndef"
  by (intro jget_absent) (auto simp: nested_metadata_def)

lemma base_names: "k \<notin> set format_names \<Longrightarrow> jget (base_list r) k = JUndef"
  by (simp add: format_names_def record_fields_def base_list_def)

lemma top_lookup: "jget (with_relations r (top_fields r)) k = jget (base_list r) k"
proof (cases "k \<in> set (jm_keys (base_list r))")
  case False
  then show ?thesis by (simp add: base_list_def with_relations_def top_fields_def)
next
  case True
  then have "k \<in> {''id'', ''title'', ''type'', ''status'', ''author'', ''authors'', ''created'', ''updated'', ''source'',
      ''commit_ref'', ''commit_signature'', ''geography_data'', ''linked_records'', ''linked_geography_files'', ''attached_files''}"
    by (simp add: base_list_def)
  then show ?thesis
    unfolding with_relations_def top_fields_def base_list_def by (elim insertE emptyE) simp_all
qed

lemma relations_elsewhere:
  "k \<notin> set (jm_keys (base_list r)) \<Longrightarrow> jget (with_relations r fm) k = jget fm k"
  by (simp add: base_list_def with_relations_def)

lemma class_not_base: "k \<in> set classification_fields \<Longrightarrow> k \<notin> set (jm_keys (base_list r))"
  unfolding classification_fields_def base_list_def by (simp, elim disjE) simp_all

lemma relations_lookup:
  assumes "\<And>k. jget fm4 k = (if k \<in> set classification_fields \<and> jget m k \<noteq> JUndef then jget m k else jget (top_fields r) k)"
  shows "jget (with_relations r fm4) k = (if k \<in> set classification_fields then jget m k else jget (base_list r) k)"
proof (cases "k \<in> set classification_fields")
  case True
  note out = class_not_base[OF True, of r]
  have "jget (top_fields r) k = jget (base_list r) k"
    using top_lookup[of r k] relations_elsewhere[OF out] by simp
  also have "\<dots> = JUndef" by (rule jget_absent[OF out])
  finally show ?thesis using True relations_elsewhere[OF out] by (simp add: assms)
next
  case False
  then have "jget (with_relations r fm4) k = jget (with_relations r (top_fields r)) k"
    by (simp add: with_relations_def assms)
  with False top_lookup show ?thesis by simp
qed

lemma passthrough_lookup:
  assumes "jm_ok m" and ext: "set ext \<inter> set format_names = {}"
    and fm: "\<And>k. jget fm k = (if k \<in> set classification_fields then jget m k else jget (base_list r) k)"
  shows "jget (add_passthrough ext (JObj m) fm) k = frontmatter_field r m ext k"
proof -
  define top where "top = filter (\<lambda>(k, v). k \<in> set ext) (filter (\<lambda>(k, v). k \<notin> set classification_fields) m)"
  have class_names: "set classification_fields \<subseteq> set format_names" by (auto simp: format_names_def record_fields_def)
  have ok: "jm_ok top" "jm_ok (nested_metadata ext m)" using assms(1) by (simp_all add: top_def nested_metadata_def)
  have topget: "jget top k = (if k \<in> set ext \<and> k \<notin> set classification_fields then jget m k else JUndef)" for k
    using assms(1) by (simp add: top_def jget_filter del: filter_filter)
  have keys: "k \<in> set (jm_keys top) \<Longrightarrow> k \<in> set ext \<and> k \<notin> set classification_fields" for k
    by (auto simp: top_def)
  have absent: "k \<notin> set (jm_keys top) \<Longrightarrow> k \<in> set ext \<Longrightarrow> jget m k = JUndef" for k
    using topget[of k] jget_absent[of k top] ext class_names by (metis disjoint_iff subsetD)
  have sp: "jget (spread fm top) k = (if k \<in> set classification_fields then jget m k
      else if k \<in> set ext then jget m k else jget (base_list r) k)" for k
    using keys[of k] absent[of k] topget[of k] base_names[of k r] ext class_names
    by (auto simp: jget_spread[OF ok(1)] fm)
  have meta: "''metadata'' \<in> set format_names" "''metadata'' \<notin> set classification_fields"
    by (simp_all add: format_names_def record_fields_def classification_fields_def)
  have "jget (spread fm top) ''metadata'' = JUndef" using sp[of "''metadata''"] meta ext
    by (auto simp: base_list_def)
  then have "add_passthrough ext (JObj m) fm = (if nested_metadata ext m = [] then spread fm top
      else jm_set ''metadata'' (JObj (nested_metadata ext m)) (spread fm top))"
    using ok(2) by (simp add: add_passthrough_def Let_def top_def nested_metadata_def)
  then show ?thesis using sp[of k] meta ext by (auto simp: frontmatter_field_def base_list_def)
qed

lemma built_fields:
  assumes "tidy_record r" and "rd_metadata r = JObj m" and "set (pe_extension env (rd_type r)) \<inter> set format_names = {}"
  shows "\<exists>fm. buildFrontmatter env r = Inr fm \<and> jm_ok fm \<and> (\<forall>k. jget fm k = frontmatter_field r m (pe_extension env (rd_type r)) k)"
proof -
  from assms(1,2) have m: "tidy_metadata m" by (auto simp: tidy_record_def)
  from classification_kept[OF m, of "top_fields r"] obtain fm4 where
    fm4: "add_classification (JObj m) (top_fields r) = Inr fm4" and "jm_ok (top_fields r) \<longrightarrow> jm_ok fm4"
    and look: "\<And>k. jget fm4 k = (if k \<in> set classification_fields \<and> jget m k \<noteq> JUndef then jget m k else jget (top_fields r) k)"
    by blast
  moreover have "jm_ok [(''id'', a), (''title'', b), (''type'', c), (''status'', d), (''author'', e :: jv)]" for a b c d e
    by (simp add: jm_ok_def)
  then have "jm_ok (top_fields r)" by (simp add: top_fields_def)
  ultimately have "jm_ok (with_relations r fm4)" by (simp add: with_relations_def)
  then have ok: "jm_ok (add_passthrough ext (JObj m) (with_relations r fm4))" for ext
    by (simp add: add_passthrough_def Let_def)
  from m have "jm_ok m" by (simp add: tidy_metadata_def)
  from passthrough_lookup[OF this assms(3) relations_lookup[OF look]] build_tidy[OF assms(1,2) fm4] ok show ?thesis by blast
qed

text \<open>On fields that were written from a record the migrations of old formats change nothing.\<close>

lemma migrate_done: "jtruthy (jget fm new) \<or> \<not> jtruthy (jget fm old) \<Longrightarrow> migrate new old fm = fm"
  by (auto simp: migrate_def set_if_def)

lemma date_to_text_norm: "normalizeDateValues (jget (date_to_text k fm) k') = normalizeDateValues (jget fm k')"
  by (auto simp: date_to_text_def split: jv.splits)

lemma date_to_text_truthy [simp]: "jtruthy (jget (date_to_text k fm) k') = jtruthy (jget fm k')"
  by (metis date_to_text_norm norm_truthy)

lemma date_to_text_ok [simp]: "jm_ok fm \<Longrightarrow> jm_ok (date_to_text k fm)"
  by (simp add: date_to_text_def split: jv.splits)

lemma date_to_text_defined: "defined fm \<Longrightarrow> defined (date_to_text k fm)"
  by (auto simp: date_to_text_def intro: defined_set split: jv.splits)

lemma norm_defined: "defined fm \<Longrightarrow> defined (map (map_prod id normalizeDateValues) fm)"
  by (auto simp: defined_def)

lemma normalize_written:
  assumes "jm_ok data" and "defined data"
    and same: "\<And>k. normalizeDateValues (jget data k) = jget fm k"
    and "jtruthy (jget fm ''author'')" "jtruthy (jget fm ''created'')" "jtruthy (jget fm ''updated'')"
    and "\<And>k. k \<in> {''linkedRecords'', ''linkedGeographyFiles'', ''attachedFiles'', ''geography''} \<Longrightarrow> jget fm k = JUndef"
  shows "\<exists>fm'. normalizeFormat data = Inr fm' \<and> jm_ok fm' \<and> (\<forall>k. jget fm' k = jget fm k) \<and> defined fm'"
proof -
  let ?d = "date_to_text ''updated'' (date_to_text ''created'' data)"
  have truth: "jtruthy (jget data k) = jtruthy (jget fm k)" for k
    using same[of k] norm_truthy by metis
  have "normalize_author data = Inr data" using truth assms(4) by (simp add: normalize_author_def)
  then have "normalizeFormat data = Inr (map (map_prod id normalizeDateValues) ?d)"
    using assms(5-7) by (simp add: normalizeFormat_def Let_def migrate_done truth)
  moreover have "jget (map (map_prod id normalizeDateValues) ?d) k = jget fm k" for k
    by (simp add: jget_norm date_to_text_norm same)
  moreover have "defined (map (map_prod id normalizeDateValues) ?d)"
    using assms(2) by (intro norm_defined date_to_text_defined)
  moreover have "jm_ok ?d" using assms(1) by simp
  ultimately show ?thesis by (metis jm_ok_map)
qed

lemma read_metadata:
  assumes "tidy_metadata m" and "jm_ok fm" and "defined fm"
    and ext: "set ext \<inter> set format_names = {}" and fm: "\<And>k. jget fm k = frontmatter_field r m ext k"
  shows "jget (parse_metadata fm) k = jget m k"
proof -
  have mok: "jm_ok m" and "defined m" using assms(1) by (auto simp: tidy_metadata_def)
  then have nested_ok: "jm_ok (nested_metadata ext m)" "defined (nested_metadata ext m)" by (simp_all add: nested_metadata_def)
  have meta: "''metadata'' \<in> set record_fields" "''metadata'' \<notin> set classification_fields"
    by (simp_all add: record_fields_def classification_fields_def)
  have sub: "set classification_fields \<subseteq> set record_fields" "set record_fields \<subseteq> set format_names"
    by (auto simp: format_names_def record_fields_def)
  define nested where "nested = (if jtruthy (jget fm ''metadata'') \<and> is_object (jget fm ''metadata'') \<and>
      \<not> is_array (jget fm ''metadata'') then own_members (jget fm ''metadata'') else [])"
  have nested: "nested = nested_metadata ext m"
    using meta by (simp add: nested_def fm frontmatter_field_def)
  have nget: "jget (nested_metadata ext m) k = (if k \<notin> set classification_fields \<and> k \<notin> set ext then jget m k else JUndef)" for k
    using mok by (simp add: nested_metadata_def jget_filter del: filter_filter)
  define custom where "custom = filter (\<lambda>(k, v). k \<notin> set record_fields) fm"
  have cget: "jget custom k = (if k \<notin> set record_fields then jget fm k else JUndef)" for k
    using assms(2) by (simp add: custom_def jget_filter)
  have "jm_ok custom" "defined custom" using assms(2,3) by (simp_all add: custom_def)
  then have "jget (parse_metadata fm) k = (if jget custom k \<noteq> JUndef then jget custom k
      else if jget nested k \<noteq> JUndef then jget nested k else jget (pick classification_fields fm) k)"
    unfolding parse_metadata_def nested_def[symmetric] custom_def[symmetric]
    by (simp add: jget_spread_defined nested nested_ok)
  also have "\<dots> = jget m k"
  proof -
    have cls: "jget m k = JUndef \<or> jtruthy (jget m k)" if "k \<in> set classification_fields"
      using that assms(1) by (auto simp: tidy_metadata_def)
    have outside: "k \<notin> set record_fields \<Longrightarrow> k \<notin> set ext \<Longrightarrow> jget fm k = JUndef"
      using meta sub base_names[of k r] unfolding fm frontmatter_field_def
      by (cases "k \<in> set format_names") (auto simp: format_names_def base_list_def record_fields_def)
    have extk: "k \<in> set ext \<Longrightarrow> k \<notin> set record_fields" using ext sub by auto
    show ?thesis
      using cls outside extk sub meta
      by (auto simp: cget nested nget fm frontmatter_field_def)
  qed
  finally show ?thesis .
qed

lemma read_record:
  assumes "tidy_record r" and "rd_metadata r = JObj m" and "set ext \<inter> set format_names = {}"
    and "jm_ok fm" and "defined fm" and fm: "\<And>k. jget fm k = frontmatter_field r m ext k"
  shows "\<exists>m'. record_of_fields fm body = r\<lparr>rd_workflowState := JUndef, rd_path := None, rd_content := Some (trim body),
      rd_metadata := JObj m'\<rparr> \<and> (\<forall>k. jget m' k = jget m k)"
proof -
  note t = assms(1)[unfolded tidy_record_def list.pred_inject]
  from assms(1,2) have "tidy_metadata m" by (auto simp: tidy_record_def)
  note meta = read_metadata[OF this assms(4,5,3) fm]
  have name: "jget fm k = jget (base_list r) k" if "k \<in> set record_fields" "k \<notin> set classification_fields" "k \<noteq> ''metadata''" for k
    using that assms(3) by (auto simp: fm frontmatter_field_def format_names_def)
  have lists: "jor (rd_attachedFiles r) JUndef = rd_attachedFiles r" "jor (rd_linkedRecords r) JUndef = rd_linkedRecords r"
      "jor (rd_linkedGeographyFiles r) JUndef = rd_linkedGeographyFiles r"
    using t by (auto simp: jor_def optional_list_def)
  have geo: "jtruthy (rd_geography r) \<longrightarrow> JObj (own_members (rd_geography r)) = rd_geography r"
      "\<not> jtruthy (rd_geography r) \<longrightarrow> JUndef = rd_geography r"
    using t by auto
  have "record_of_fields fm body = r\<lparr>rd_workflowState := JUndef, rd_path := None, rd_content := Some (trim body),
      rd_metadata := JObj (parse_metadata fm)\<rparr>"
    by (cases r) (use lists geo in \<open>simp add: record_of_fields_def name record_fields_def classification_fields_def base_list_def
        del: jtruthy.simps own_members.simps\<close>)
  with meta show ?thesis by blast
qed

definition content_of :: "record_data \<Rightarrow> string" where
  "content_of r = (case rd_content r of None \<Rightarrow> [] | Some c \<Rightarrow> c)"

lemma trim_required: "tidy_record r \<Longrightarrow> (\<And>k. jget fm k = jget (base_list r) k \<or> k \<notin> set required_fields) \<Longrightarrow>
  validateRequiredFields fm path = None"
proof -
  assume t: "tidy_record r" and fm: "\<And>k. jget fm k = jget (base_list r) k \<or> k \<notin> set required_fields"
  have "jtruthy (jget (base_list r) k)" if "k \<in> set required_fields" for k
  proof -
    from that have "k \<in> {''id'', ''title'', ''type'', ''status'', ''author'', ''created'', ''updated''}"
      by (simp add: required_fields_def)
    with t show ?thesis unfolding tidy_record_def base_list_def by (elim insertE emptyE) simp_all
  qed
  with fm have "filter (\<lambda>f. \<not> jtruthy (jget fm f)) required_fields = []"
    unfolding filter_empty_conv by metis
  then show ?thesis by (simp add: validateRequiredFields_def Let_def)
qed

subsection \<open>Blank lines in texts\<close>

text \<open>\<open>formatYamlField\<close> drops the blank lines of what the YAML library wrote, also those that
  are part of a block scalar: two values whose YAML differs in them are written alike.\<close>

lemma blank_lines_are_dropped:
  assumes "pe_yaml env k v = Some doc" and "pe_yaml env k v' = Some doc'"
    and "filter (\<lambda>line. trim line \<noteq> []) (split_lines doc) = filter (\<lambda>line. trim line \<noteq> []) (split_lines doc')"
  shows "formatYamlField env k v = formatYamlField env k v'"
  using assms by (simp add: formatYamlField_def)

end
