(* ===== verification/Record_Paths.thy ===== *)
theory Record_Paths
  imports Civic_Prelude
begin

section \<open>Paths of record files\<close>

text \<open>
  \<open>core/src/utils/record-paths.ts\<close>. Paths are strings, split and joined as Node's POSIX
  \<open>path.join\<close> does; a directory is a tree whose entries come in the order of
  \<open>readdirSync\<close>. Parsing a date string is a parameter: outside the ISO format it is up to
  the engine.
\<close>

subsection \<open>Node's path.join\<close>

definition split_path :: "string \<Rightarrow> string list" where
  "split_path s = foldr (\<lambda>c acc. if c = CHR ''/'' then [] # acc else (c # hd acc) # tl acc) s [[]]"

definition unbackslash :: "string \<Rightarrow> string" where
  "unbackslash s = map (\<lambda>c. if c = CHR 92 then CHR ''/'' else c) s"

text \<open>One segment of \<open>normalizeString\<close>: \<open>out\<close> is the result so far, last segment first.\<close>

definition push_segment :: "bool \<Rightarrow> string \<Rightarrow> string list \<Rightarrow> string list" where
  "push_segment absolute seg out =
     (if seg = [] \<or> seg = ''.'' then out
      else if seg = ''..'' then
        (case out of
           x # xs \<Rightarrow> if x = ''..'' then seg # out else xs
         | [] \<Rightarrow> if absolute then [] else [seg])
      else seg # out)"

definition normalize_path :: "string \<Rightarrow> string" where
  "normalize_path p =
     (if p = [] then ''.''
      else let absolute = (hd p = CHR ''/''); trailing = (last p = CHR ''/'');
               body = join_with ''/'' (rev (fold (push_segment absolute) (split_path p) [])) in
        if body = [] then (if absolute then ''/'' else if trailing then ''./'' else ''.'')
        else (if absolute then ''/'' else []) @ body @ (if trailing then ''/'' else []))"

definition path_join :: "string list \<Rightarrow> string" where
  "path_join parts = (let ps = filter (\<lambda>p. p \<noteq> []) parts in
     if ps = [] then ''.'' else normalize_path (join_with ''/'' ps))"

subsection \<open>Building and parsing a record path\<close>

datatype date_input = NoDate | DateText string | DateValue "msec option"

text \<open>\<open>DateValue None\<close> is an invalid \<open>Date\<close> object, which is passed on as it is.\<close>

definition normalizeDateInput :: "(string \<Rightarrow> msec option) \<Rightarrow> date_input \<Rightarrow> msec \<Rightarrow> msec option" where
  "normalizeDateInput date_parse input fallback = (case input of
     NoDate \<Rightarrow> Some fallback
   | DateValue d \<Rightarrow> d
   | DateText t \<Rightarrow> if t = [] then Some fallback
       else (case date_parse t of None \<Rightarrow> Some fallback | Some d \<Rightarrow> Some d))"

definition getRecordYear :: "(string \<Rightarrow> msec option) \<Rightarrow> date_input \<Rightarrow> msec \<Rightarrow> string" where
  "getRecordYear date_parse input now = (case normalizeDateInput date_parse input now of
     None \<Rightarrow> ''NaN''
   | Some d \<Rightarrow> show_int (fst (civil_of_days (d div 86400000))))"

definition buildRecordRelativePath :: "(string \<Rightarrow> msec option) \<Rightarrow> string \<Rightarrow> string \<Rightarrow> date_input \<Rightarrow> msec \<Rightarrow> string" where
  "buildRecordRelativePath date_parse type recordId createdAt now =
     unbackslash (path_join [''records'', type, getRecordYear date_parse createdAt now, recordId @ ''.md''])"

definition buildArchiveRelativePath :: "(string \<Rightarrow> msec option) \<Rightarrow> string \<Rightarrow> string \<Rightarrow> date_input \<Rightarrow> msec \<Rightarrow> string" where
  "buildArchiveRelativePath date_parse type recordId createdAt now =
     unbackslash (path_join [''archive'', type, getRecordYear date_parse createdAt now, recordId @ ''.md''])"

datatype path_kind = RecordsKind | ArchiveKind | UnknownKind

record path_info =
  pi_kind :: path_kind
  pi_type :: string
  pi_year :: "string option"
  pi_id :: string
  pi_filename :: string
  pi_relativePath :: string

definition strip_md :: "string \<Rightarrow> string" where
  "strip_md s = (if drop (length s - 3) s = ''.md'' then take (length s - 3) s else s)"

definition parseRecordRelativePath :: "string \<Rightarrow> path_info" where
  "parseRecordRelativePath recordPath =
     (let cleaned = dropWhile (\<lambda>c. c = CHR ''/'') (unbackslash recordPath);
          segments = filter (\<lambda>s. s \<noteq> []) (split_path cleaned) in
      case segments of
        [] \<Rightarrow> \<lparr>pi_kind = UnknownKind, pi_type = [], pi_year = None, pi_id = [], pi_filename = [], pi_relativePath = cleaned\<rparr>
      | [s] \<Rightarrow> \<lparr>pi_kind = UnknownKind, pi_type = [], pi_year = None, pi_id = strip_md s, pi_filename = s, pi_relativePath = cleaned\<rparr>
      | kindSegment # typeSegment # others \<Rightarrow>
          let maybeYear = (case others of [] \<Rightarrow> None | y # _ \<Rightarrow> Some y);
              rest = drop 1 others;
              filename = (if rest \<noteq> [] then last rest else case maybeYear of None \<Rightarrow> [] | Some y \<Rightarrow> y);
              id = strip_md filename in
          if kindSegment = ''records'' \<or> kindSegment = ''archive'' then
            \<lparr>pi_kind = (if kindSegment = ''records'' then RecordsKind else ArchiveKind), pi_type = typeSegment,
             pi_year = (if 4 \<le> length segments then maybeYear else None), pi_id = id, pi_filename = filename,
             pi_relativePath = cleaned\<rparr>
          else case others of
            file # _ \<Rightarrow> \<lparr>pi_kind = UnknownKind, pi_type = kindSegment, pi_year = Some typeSegment,
              pi_id = strip_md file, pi_filename = file, pi_relativePath = cleaned\<rparr>
          | [] \<Rightarrow> \<lparr>pi_kind = UnknownKind, pi_type = kindSegment, pi_year = None,
              pi_id = strip_md typeSegment, pi_filename = typeSegment, pi_relativePath = cleaned\<rparr>)"

subsection \<open>Directories\<close>

text \<open>\<open>OtherNode\<close> is an entry that is neither a file nor a directory.\<close>

datatype fs_node = FileNode | OtherNode | DirNode "(string \<times> fs_node) list"

fun ends_with :: "string \<Rightarrow> string \<Rightarrow> bool" where
  "ends_with s suf \<longleftrightarrow> length suf \<le> length s \<and> drop (length s - length suf) s = suf"

declare ends_with.simps [simp del]

definition hidden :: "string \<Rightarrow> bool" where
  "hidden name \<longleftrightarrow> str_starts_with name ''.''"

primrec markdown_below :: "fs_node \<Rightarrow> string list \<Rightarrow> string list list" where
  "markdown_below FileNode rel = (if ends_with (last rel) ''.md'' then [rel] else [])"
| "markdown_below OtherNode rel = []"
| "markdown_below (DirNode es) rel = concat (map (\<lambda>(name, below). if hidden name then [] else below (rel @ [name]))
     (map (map_prod id markdown_below) es))"

definition listMarkdownFilesRecursive :: "fs_node \<Rightarrow> string list" where
  "listMarkdownFilesRecursive dir = map (\<lambda>rel. unbackslash (path_join rel)) (markdown_below dir [])"

definition entries :: "fs_node \<Rightarrow> (string \<times> fs_node) list" where
  "entries n = (case n of DirNode es \<Rightarrow> es | _ \<Rightarrow> [])"

definition is_dir :: "fs_node \<Rightarrow> bool" where
  "is_dir n \<longleftrightarrow> (case n of DirNode _ \<Rightarrow> True | _ \<Rightarrow> False)"

lemma is_dir_simps [simp]: "is_dir (DirNode es)" "\<not> is_dir FileNode" "\<not> is_dir OtherNode"
  by (simp_all add: is_dir_def)

definition type_names :: "string option \<Rightarrow> fs_node \<Rightarrow> string list" where
  "type_names type base = (if truthy type then [the type] else map fst (filter (\<lambda>(n, d). is_dir d) (entries base)))"

text \<open>\<open>None\<close> is \<open>readdirSync\<close> throwing on an entry that is not a directory.\<close>

fun collect :: "'a list option list \<Rightarrow> 'a list option" where
  "collect [] = Some []"
| "collect (None # rs) = None"
| "collect (Some xs # rs) = map_option ((@) xs) (collect rs)"

definition list_area :: "string option \<Rightarrow> string \<Rightarrow> fs_node \<Rightarrow> string list option" where
  "list_area type prefix base =
     (if \<not> truthy type \<and> \<not> is_dir base then None
      else collect (map (\<lambda>t. case jm_get (entries base) t of
         None \<Rightarrow> Some []
       | Some d \<Rightarrow> if is_dir d
           then Some (map (\<lambda>f. unbackslash (path_join [prefix, t, f])) (listMarkdownFilesRecursive d))
           else None)
       (type_names type base)))"

definition area :: "string \<Rightarrow> fs_node \<Rightarrow> fs_node option" where
  "area name dataDir = jm_get (entries dataDir) name"

definition listRecordFilesSync :: "fs_node \<Rightarrow> string option \<Rightarrow> bool \<Rightarrow> string list option" where
  "listRecordFilesSync dataDir type includeArchive = collect
     [case area ''records'' dataDir of None \<Rightarrow> Some [] | Some b \<Rightarrow> list_area type ''records'' b,
      if includeArchive
      then (case area ''archive'' dataDir of None \<Rightarrow> Some [] | Some b \<Rightarrow> list_area type ''archive'' b)
      else Some []]"

subsection \<open>Finding one record\<close>

text \<open>The entries of one directory: the file, or the stack with the subdirectories pushed.\<close>

fun scan_entries :: "string \<Rightarrow> string list \<Rightarrow> (string \<times> fs_node) list \<Rightarrow> (fs_node \<times> string list) list \<Rightarrow>
    string list + (fs_node \<times> string list) list" where
  "scan_entries target rel [] stack = Inr stack"
| "scan_entries target rel ((name, n) # es) stack =
     (if hidden name then scan_entries target rel es stack
      else if is_dir n then scan_entries target rel es ((n, rel @ [name]) # stack)
      else if n = FileNode \<and> name = target then Inl (rel @ [name])
      else scan_entries target rel es stack)"

definition stack_size :: "(fs_node \<times> string list) list \<Rightarrow> nat" where
  "stack_size stack = sum_list (map (\<lambda>(n, rel). Suc (size n)) stack)"

lemma size_is_dir: "size (DirNode es) = Suc (sum_list (map (\<lambda>e. Suc (Suc (size (snd e)))) es))"
  by (induction es) auto

lemma scan_size: "scan_entries target rel es stack = Inr stack' \<Longrightarrow>
  stack_size stack' \<le> stack_size stack + sum_list (map (\<lambda>e. Suc (Suc (size (snd e)))) es)"
proof (induction target rel es stack rule: scan_entries.induct)
  case (2 target rel name n es stack)
  then show ?case by (fastforce simp: stack_size_def split: if_splits)
qed (simp add: stack_size_def)

function search_stack :: "string \<Rightarrow> (fs_node \<times> string list) list \<Rightarrow> string list option" where
  "search_stack target [] = None"
| "search_stack target ((cur, rel) # stack) = (case scan_entries target rel (entries cur) stack of
     Inl found \<Rightarrow> Some found
   | Inr stack' \<Rightarrow> if jm_get (entries cur) target \<noteq> None then Some (rel @ [target])
       else search_stack target stack')"
  by pat_completeness auto
termination
proof (relation "measure (\<lambda>(target, stack). stack_size stack)", goal_cases)
  case (2 target cur rel stack stack')
  have "sum_list (map (\<lambda>e. Suc (Suc (size (snd e)))) (entries cur)) < Suc (size cur)"
  proof (cases cur)
    case (DirNode es)
    then show ?thesis using size_is_dir[of es] by (simp add: entries_def)
  qed (simp_all add: entries_def)
  with scan_size[OF 2(1)] show ?case by (simp add: stack_size_def)
qed simp

text \<open>\<open>Inl\<close> is \<open>readdirSync\<close> throwing.\<close>

fun search_types :: "string \<Rightarrow> string \<Rightarrow> fs_node \<Rightarrow> string list \<Rightarrow> unit + string option" where
  "search_types target prefix base [] = Inr None"
| "search_types target prefix base (t # ts) = (case jm_get (entries base) t of
     None \<Rightarrow> search_types target prefix base ts
   | Some d \<Rightarrow> if \<not> is_dir d then Inl ()
       else (case search_stack target [(d, [t])] of
           Some rel \<Rightarrow> Inr (Some (unbackslash (path_join (prefix # rel))))
         | None \<Rightarrow> search_types target prefix base ts))"

definition searchDirectories :: "string \<Rightarrow> string option \<Rightarrow> string \<Rightarrow> fs_node option \<Rightarrow> unit + string option" where
  "searchDirectories target type prefix base = (case base of
     None \<Rightarrow> Inr None
   | Some b \<Rightarrow> if \<not> truthy type \<and> \<not> is_dir b then Inl ()
       else search_types target prefix b (type_names type b))"

definition findRecordFileSync :: "fs_node \<Rightarrow> string \<Rightarrow> string option \<Rightarrow> bool \<Rightarrow> unit + string option" where
  "findRecordFileSync dataDir recordId type includeArchive =
     (let target = strip_md recordId @ ''.md'' in
      case searchDirectories target type ''records'' (area ''records'' dataDir) of
        Inl e \<Rightarrow> Inl e
      | Inr (Some p) \<Rightarrow> Inr (Some p)
      | Inr None \<Rightarrow> if includeArchive then searchDirectories target type ''archive'' (area ''archive'' dataDir)
          else Inr None)"

subsection \<open>Paths of plain names\<close>

definition plain_name :: "string \<Rightarrow> bool" where
  "plain_name s \<longleftrightarrow> s \<noteq> [] \<and> CHR ''/'' \<notin> set s \<and> CHR 92 \<notin> set s \<and> s \<noteq> ''.'' \<and> s \<noteq> ''..''"

lemma split_path_Nil [simp]: "split_path [] = [[]]"
  by (simp add: split_path_def)

lemma split_path_Cons [simp]: "split_path (c # s) =
  (if c = CHR ''/'' then [] # split_path s else (c # hd (split_path s)) # tl (split_path s))"
  by (simp add: split_path_def)

lemma split_path_single [simp]: "CHR ''/'' \<notin> set s \<Longrightarrow> split_path s = [s]"
  by (induction s) auto

lemma split_path_append: "CHR ''/'' \<notin> set s \<Longrightarrow> split_path (s @ CHR ''/'' # t) = s # split_path t"
  by (induction s) auto

lemma split_join: "ss \<noteq> [] \<Longrightarrow> \<forall>s\<in>set ss. CHR ''/'' \<notin> set s \<Longrightarrow> split_path (join_with ''/'' ss) = ss"
  by (induction "''/''" ss rule: join_with.induct) (auto simp: split_path_append)

lemma push_plain: "\<forall>s\<in>set ss. plain_name s \<Longrightarrow> fold (push_segment b) ss out = rev ss @ out"
  by (induction ss arbitrary: out) (auto simp: push_segment_def plain_name_def)

lemma join_hd: "plain_name s \<Longrightarrow> hd (join_with ''/'' (s # ss)) \<noteq> CHR ''/''"
  by (cases s; cases ss) (auto simp: plain_name_def)

lemma join_last: "ss \<noteq> [] \<Longrightarrow> \<forall>s\<in>set ss. plain_name s \<Longrightarrow> last (join_with ''/'' ss) \<noteq> CHR ''/'' \<and> join_with ''/'' ss \<noteq> []"
proof (induction "''/''" ss rule: join_with.induct)
  case (2 x)
  then have "last x \<in> set x" and "CHR ''/'' \<notin> set x" and "x \<noteq> []" by (simp_all add: plain_name_def)
  then show ?case by (metis join_with.simps(2))
qed auto

lemma unbackslash_id: "CHR 92 \<notin> set s \<Longrightarrow> unbackslash s = s"
  by (induction s) (auto simp: unbackslash_def)

lemma set_join: "set (join_with sep ss) \<subseteq> \<Union> (set ` set ss) \<union> set sep"
  by (induction sep ss rule: join_with.induct) auto

lemma unbackslash_join: "\<forall>s\<in>set ss. plain_name s \<Longrightarrow> unbackslash (join_with ''/'' ss) = join_with ''/'' ss"
  using set_join[of "''/''" ss] by (intro unbackslash_id) (auto simp: plain_name_def)

lemma path_join_plain:
  assumes "ss \<noteq> []" and "\<forall>s\<in>set ss. plain_name s"
  shows "path_join ss = join_with ''/'' ss"
proof -
  have "filter (\<lambda>p. p \<noteq> []) ss = ss" using assms(2) by (auto simp: plain_name_def filter_id_conv)
  moreover have "split_path (join_with ''/'' ss) = ss" using assms by (intro split_join) (auto simp: plain_name_def)
  moreover have "hd (join_with ''/'' ss) \<noteq> CHR ''/''" using assms by (cases ss) (auto dest: join_hd simp del: join_with.simps)
  ultimately show ?thesis using assms push_plain[OF assms(2), of False "[]"] join_last[OF assms]
    by (simp add: path_join_def normalize_path_def Let_def)
qed

subsection \<open>Building, then parsing\<close>

lemma plain_year: "plain_name (getRecordYear date_parse d now)"
proof -
  have digits: "plain_name (show_nat n)" for n
    using show_nat_chars[of _ n] show_nat_nonempty[of n] by (force simp: plain_name_def)
  have "plain_name (CHR ''-'' # show_nat n)" for n
    using digits[of n] by (auto simp: plain_name_def)
  with digits show ?thesis by (simp add: getRecordYear_def show_int_def plain_name_def split: option.splits)
qed

lemma parse_joined:
  assumes "k \<in> {''records'', ''archive''}" and "plain_name t" and "plain_name y" and "plain_name f"
  shows "parseRecordRelativePath (join_with ''/'' [k, t, y, f]) =
    \<lparr>pi_kind = (if k = ''records'' then RecordsKind else ArchiveKind), pi_type = t, pi_year = Some y,
     pi_id = strip_md f, pi_filename = f, pi_relativePath = join_with ''/'' [k, t, y, f]\<rparr>"
proof -
  let ?p = "join_with ''/'' [k, t, y, f]"
  have plain: "\<forall>s\<in>set [k, t, y, f]. plain_name s" using assms by (auto simp: plain_name_def)
  have "split_path ?p = [k, t, y, f]" using plain by (intro split_join) (auto simp: plain_name_def)
  moreover have "unbackslash ?p = ?p" using plain by (rule unbackslash_join)
  moreover have "dropWhile (\<lambda>c. c = CHR ''/'') ?p = ?p" using assms(1) by auto
  moreover have "filter (\<lambda>s. s \<noteq> []) [k, t, y, f] = [k, t, y, f]" using plain by (auto simp: plain_name_def)
  ultimately show ?thesis using assms(1) by (auto simp: parseRecordRelativePath_def Let_def simp del: join_with.simps)
qed

lemma strip_md_append [simp]: "strip_md (s @ ''.md'') = s"
  by (simp add: strip_md_def)

text \<open>C32: A record path parses back. From the path built for a record, live or archived, the
  parser recovers the kind, the type, the year folder and the record id.\<close>

theorem record_paths_round_trip:
  assumes "plain_name type" and "CHR ''/'' \<notin> set recordId" and "CHR 92 \<notin> set recordId"
  shows "parseRecordRelativePath (buildRecordRelativePath date_parse type recordId d now) =
      \<lparr>pi_kind = RecordsKind, pi_type = type, pi_year = Some (getRecordYear date_parse d now), pi_id = recordId,
       pi_filename = recordId @ ''.md'', pi_relativePath = buildRecordRelativePath date_parse type recordId d now\<rparr> \<and>
    parseRecordRelativePath (buildArchiveRelativePath date_parse type recordId d now) =
      \<lparr>pi_kind = ArchiveKind, pi_type = type, pi_year = Some (getRecordYear date_parse d now), pi_id = recordId,
       pi_filename = recordId @ ''.md'', pi_relativePath = buildArchiveRelativePath date_parse type recordId d now\<rparr>"
proof -
  let ?y = "getRecordYear date_parse d now" and ?f = "recordId @ ''.md''"
  have f: "plain_name ?f" using assms(2,3) by (cases recordId) (auto simp: plain_name_def)
  have "unbackslash (path_join [k, type, ?y, ?f]) = join_with ''/'' [k, type, ?y, ?f]"
    if "k \<in> {''records'', ''archive''}" for k
  proof -
    have plain: "\<forall>s\<in>set [k, type, ?y, ?f]. plain_name s"
      using that assms(1) f plain_year by (auto simp: plain_name_def[of "''records''"] plain_name_def[of "''archive''"])
    with path_join_plain[OF _ plain] unbackslash_join[OF plain] show ?thesis by (simp del: join_with.simps)
  qed
  with parse_joined[OF _ assms(1) plain_year[of date_parse d now] f] show ?thesis
    by (simp add: buildRecordRelativePath_def buildArchiveRelativePath_def del: join_with.simps)
qed

lemma record_paths_round_trip_witness:
  "pi_id (parseRecordRelativePath (buildRecordRelativePath (\<lambda>_. None) ''bylaw'' ''record-17'' NoDate 1700000000000)) = ''record-17''"
  using record_paths_round_trip[of "''bylaw''" "''record-17''" "\<lambda>_. None" NoDate 1700000000000]
  by (simp add: plain_name_def)

subsection \<open>The search and the listing\<close>

text \<open>Entries under the searched name are files; all names are plain.\<close>

primrec files_only :: "string \<Rightarrow> fs_node \<Rightarrow> bool" where
  "files_only target FileNode \<longleftrightarrow> True"
| "files_only target OtherNode \<longleftrightarrow> True"
| "files_only target (DirNode es) \<longleftrightarrow> (\<forall>e\<in>set es. fst e = target \<longrightarrow> snd e = FileNode) \<and>
     list_all snd (map (map_prod id (files_only target)) es)"

primrec plain_tree :: "fs_node \<Rightarrow> bool" where
  "plain_tree FileNode \<longleftrightarrow> True"
| "plain_tree OtherNode \<longleftrightarrow> True"
| "plain_tree (DirNode es) \<longleftrightarrow> jm_ok es \<and> (\<forall>e\<in>set es. plain_name (fst e)) \<and> list_all snd (map (map_prod id plain_tree) es)"

lemma files_only_dir: "files_only target (DirNode es) \<longleftrightarrow>
  (\<forall>name n. (name, n) \<in> set es \<longrightarrow> (name = target \<longrightarrow> n = FileNode) \<and> files_only target n)"
  by (force simp: list_all_iff)

lemma plain_tree_dir: "plain_tree (DirNode es) \<longleftrightarrow>
  jm_ok es \<and> (\<forall>name n. (name, n) \<in> set es \<longrightarrow> plain_name name \<and> plain_tree n)"
  by (force simp: list_all_iff)

lemma markdown_dir: "r \<in> set (markdown_below (DirNode es) rel) \<longleftrightarrow>
  (\<exists>name n. (name, n) \<in> set es \<and> \<not> hidden name \<and> r \<in> set (markdown_below n (rel @ [name])))"
  by (force split: if_splits)

lemma markdown_entries: "markdown_below (DirNode es) rel =
  concat (map (\<lambda>e. if hidden (fst e) then [] else markdown_below (snd e) (rel @ [fst e])) es)"
  by (induction es) (simp_all add: split_def)

declare markdown_below.simps(3) [simp del] files_only.simps(3) [simp del] plain_tree.simps(3) [simp del]

lemma markdown_prefix: "is_dir n \<or> rel \<noteq> [] \<Longrightarrow> markdown_below n (pre @ rel) = map ((@) pre) (markdown_below n rel)"
proof (induction n arbitrary: rel)
  case (DirNode es)
  have "markdown_below n ((pre @ rel) @ [name]) = map ((@) pre) (markdown_below n (rel @ [name]))"
    if "(name, n) \<in> set es" for name n
    using DirNode.IH[of "(name, n)" n "rel @ [name]"] that by simp
  then have "map (\<lambda>e. if hidden (fst e) then [] else markdown_below (snd e) ((pre @ rel) @ [fst e])) es =
      map (\<lambda>e. map ((@) pre) (if hidden (fst e) then [] else markdown_below (snd e) (rel @ [fst e]))) es"
    by (intro map_cong refl) (auto split: if_splits)
  then show ?case
    by (simp only: markdown_entries map_concat map_map o_def)
qed (simp_all add: is_dir_def)

lemma scan_found: "scan_entries target rel es stack = Inl r \<Longrightarrow>
  r = rel @ [target] \<and> (target, FileNode) \<in> set es \<and> \<not> hidden target"
  by (induction target rel es stack rule: scan_entries.induct) (auto split: if_splits)

lemma scan_not_found: "scan_entries target rel es stack = Inr stack' \<Longrightarrow>
  set stack' = set stack \<union> {(n, rel @ [name]) | name n. (name, n) \<in> set es \<and> is_dir n \<and> \<not> hidden name} \<and>
  (\<not> hidden target \<longrightarrow> (target, FileNode) \<notin> set es)"
  by (induction target rel es stack rule: scan_entries.induct) (auto split: if_splits simp: is_dir_def)

lemma search_stack_spec:
  assumes "\<not> hidden target" and "ends_with target ''.md''"
    and "\<forall>(n, rel)\<in>set stack. is_dir n \<and> files_only target n"
  shows "case search_stack target stack of
     Some r \<Rightarrow> \<exists>n rel. (n, rel) \<in> set stack \<and> r \<in> set (markdown_below n rel) \<and> last r = target
   | None \<Rightarrow> \<forall>n rel r. (n, rel) \<in> set stack \<longrightarrow> r \<in> set (markdown_below n rel) \<longrightarrow> last r \<noteq> target"
  using assms
proof (induction target stack rule: search_stack.induct)
  case (2 target cur rel stack)
  from "2.prems"(3) obtain es where cur: "cur = DirNode es" by (auto simp: is_dir_def split: fs_node.splits)
  have only: "files_only target (DirNode es)" using "2.prems"(3) cur by auto
  show ?case
  proof (cases "scan_entries target rel es stack")
    case (Inl r)
    from scan_found[OF this] "2.prems"(1,2) have "r \<in> set (markdown_below cur rel) \<and> last r = target"
      by (force simp: cur markdown_dir)
    then show ?thesis using Inl cur by (auto simp: entries_def)
  next
    case (Inr stack')
    note sc = scan_not_found[OF Inr]
    have absent: "jm_get es target = None"
    proof (rule ccontr)
      assume "jm_get es target \<noteq> None"
      then obtain n where "(target, n) \<in> set es" by (auto dest: map_of_SomeD)
      with only sc "2.prems"(1) show False by (auto simp: files_only_dir)
    qed
    have st': "\<forall>(n, rel)\<in>set stack'. is_dir n \<and> files_only target n"
      using sc "2.prems"(3) only by (auto simp: files_only_dir)
    have below: "(\<exists>n rel'. (n, rel') \<in> set stack' \<and> r \<in> set (markdown_below n rel') \<and> last r = target) \<longleftrightarrow>
      (\<exists>n rel'. (n, rel') \<in> set ((cur, rel) # stack) \<and> r \<in> set (markdown_below n rel') \<and> last r = target)" for r
    proof
      assume "\<exists>n rel'. (n, rel') \<in> set stack' \<and> r \<in> set (markdown_below n rel') \<and> last r = target"
      then show "\<exists>n rel'. (n, rel') \<in> set ((cur, rel) # stack) \<and> r \<in> set (markdown_below n rel') \<and> last r = target"
        using sc cur markdown_dir[of r es rel] by auto
    next
      assume "\<exists>n rel'. (n, rel') \<in> set ((cur, rel) # stack) \<and> r \<in> set (markdown_below n rel') \<and> last r = target"
      then obtain n rel' where n: "(n, rel') \<in> set ((cur, rel) # stack)" "r \<in> set (markdown_below n rel')" "last r = target" by blast
      show "\<exists>n rel'. (n, rel') \<in> set stack' \<and> r \<in> set (markdown_below n rel') \<and> last r = target"
      proof (cases "(n, rel') \<in> set stack")
        case True
        with n sc show ?thesis by blast
      next
        case False
        with n(1,2) cur obtain name m where m: "(name, m) \<in> set es" "\<not> hidden name" "r \<in> set (markdown_below m (rel @ [name]))"
          by (auto simp: markdown_dir)
        have "is_dir m"
          using m n(3) sc "2.prems"(1) by (cases m) (auto simp: is_dir_def split: if_splits)
        with m n(3) sc show ?thesis by blast
      qed
    qed
    have "search_stack target ((cur, rel) # stack) = search_stack target stack'"
      using Inr absent cur by (simp add: entries_def)
    with "2.IH"[of stack'] Inr absent cur "2.prems"(1,2) st' below show ?thesis
      by (auto simp: entries_def split: option.splits) blast+
  qed
qed simp

lemma markdown_plain: "plain_tree n \<Longrightarrow> \<forall>s\<in>set rel. plain_name s \<Longrightarrow> r \<in> set (markdown_below n rel) \<Longrightarrow>
  \<forall>s\<in>set r. plain_name s"
proof (induction n arbitrary: rel)
  case (DirNode es)
  from DirNode.prems(3) obtain name n where n: "(name, n) \<in> set es" "r \<in> set (markdown_below n (rel @ [name]))"
    by (auto simp: markdown_dir)
  with DirNode.prems(1,2) DirNode.IH[of "(name, n)" n "rel @ [name]"] show ?case
    by (auto simp: plain_tree_dir)
qed (auto split: if_splits)

lemma markdown_nonempty: "is_dir n \<or> rel \<noteq> [] \<Longrightarrow> r \<in> set (markdown_below n rel) \<Longrightarrow> r \<noteq> []"
proof (induction n arbitrary: rel)
  case (DirNode es)
  from DirNode.prems(2) obtain name n where n: "(name, n) \<in> set es" "r \<in> set (markdown_below n (rel @ [name]))"
    by (auto simp: markdown_dir)
  with DirNode.IH[of "(name, n)" n "rel @ [name]"] show ?case by auto
qed (auto simp: is_dir_def split: if_splits)

lemma join_nested: "r \<noteq> [] \<Longrightarrow> join_with sep [a, b, join_with sep r] = join_with sep (a # b # r)"
  by (cases r) auto

lemma parse_filename:
  assumes plain: "\<forall>s\<in>set (k # t # r). plain_name s" and "r \<noteq> []" and "k \<in> {''records'', ''archive''}"
  shows "pi_filename (parseRecordRelativePath (join_with ''/'' (k # t # r))) = last r"
proof -
  let ?p = "join_with ''/'' (k # t # r)"
  have "split_path ?p = k # t # r" using plain by (intro split_join) (auto simp: plain_name_def)
  moreover have "unbackslash ?p = ?p" using plain by (rule unbackslash_join)
  moreover have "dropWhile (\<lambda>c. c = CHR ''/'') ?p = ?p" using assms(3) by auto
  moreover have "filter (\<lambda>s. s \<noteq> []) (k # t # r) = k # t # r" using plain by (auto simp: plain_name_def filter_id_conv)
  ultimately show ?thesis using assms(2,3)
    by (cases r) (auto simp: parseRecordRelativePath_def Let_def simp del: join_with.simps)
qed

lemma nested_path:
  assumes "\<forall>s\<in>set r. plain_name s" and "r \<noteq> []" and "plain_name a" and "plain_name b" and "join_with ''/'' r \<noteq> []"
  shows "unbackslash (path_join [a, b, unbackslash (path_join r)]) = join_with ''/'' (a # b # r)"
proof -
  have plain: "\<forall>s\<in>set (a # b # r). plain_name s" using assms by simp
  have r: "unbackslash (path_join r) = join_with ''/'' r"
    by (simp only: path_join_plain[OF assms(2,1)] unbackslash_join[OF assms(1)])
  have "filter (\<lambda>p. p \<noteq> []) [a, b, join_with ''/'' r] = [a, b, join_with ''/'' r]"
    using assms(3-5) by (simp add: plain_name_def)
  moreover have "filter (\<lambda>p. p \<noteq> []) (a # b # r) = a # b # r"
    using plain by (auto simp: plain_name_def filter_id_conv)
  ultimately have "path_join [a, b, join_with ''/'' r] = path_join (a # b # r)"
    unfolding path_join_def by (simp only: join_nested[OF assms(2)] Let_def list.distinct if_False)
  moreover have "path_join (a # b # r) = join_with ''/'' (a # b # r)" by (rule path_join_plain[OF _ plain]) simp
  ultimately show ?thesis by (simp only: r unbackslash_join[OF plain])
qed

definition type_paths :: "string \<Rightarrow> (string \<times> fs_node) \<Rightarrow> string list" where
  "type_paths prefix = (\<lambda>(t, d). map (\<lambda>r. join_with ''/'' (prefix # t # r)) (markdown_below d []))"

lemma collect_Some: "collect (map (\<lambda>x. Some (f x)) xs) = Some (concat (map f xs))"
  by (induction xs) auto

lemma listing_paths:
  assumes "plain_name prefix" and "plain_tree (DirNode es)"
  shows "list_area None prefix (DirNode es) = Some (concat (map (type_paths prefix) (filter (\<lambda>(t, d). is_dir d) es)))"
proof -
  have one: "(case jm_get es (fst e) of None \<Rightarrow> Some [] | Some d \<Rightarrow> if is_dir d
      then Some (map (\<lambda>f. unbackslash (path_join [prefix, fst e, f])) (listMarkdownFilesRecursive d)) else None) =
    Some (type_paths prefix e)" if e: "e \<in> set es" "is_dir (snd e)" for e
  proof -
    have pair: "(fst e, snd e) \<in> set es" using e(1) by simp
    have ok: "plain_name (fst e)" "plain_tree (snd e)" "jm_get es (fst e) = Some (snd e)"
      using pair assms(2) unfolding plain_tree_dir jm_ok_def by (blast, blast, metis map_of_is_SomeI)
    have "unbackslash (path_join [prefix, fst e, unbackslash (path_join r)]) = join_with ''/'' (prefix # fst e # r)"
      if r: "r \<in> set (markdown_below (snd e) [])" for r
    proof -
      have "\<forall>s\<in>set r. plain_name s" using markdown_plain[OF ok(2) _ r] by simp
      moreover have "r \<noteq> []" using markdown_nonempty[OF _ r] e(2) by simp
      moreover have "join_with ''/'' r \<noteq> []" using join_last[OF calculation(2,1)] by simp
      ultimately show ?thesis
        using assms(1) ok(1) by (simp add: nested_path del: join_with.simps)
    qed
    then show ?thesis using ok(3) e(2) by (simp add: type_paths_def listMarkdownFilesRecursive_def split_def o_def)
  qed
  have "map (\<lambda>t. case jm_get es t of None \<Rightarrow> Some [] | Some d \<Rightarrow> if is_dir d
      then Some (map (\<lambda>f. unbackslash (path_join [prefix, t, f])) (listMarkdownFilesRecursive d)) else None)
      (map fst (filter (\<lambda>(t, d). is_dir d) es)) =
    map (\<lambda>e. Some (type_paths prefix e)) (filter (\<lambda>(t, d). is_dir d) es)"
    using one by (simp add: split_def)
  then show ?thesis
    by (simp only: list_area_def type_names_def truthy_def entries_def collect_Some option.case fs_node.case
        is_dir_simps simp_thms if_True if_False)
qed

lemma search_types_spec:
  assumes "plain_name prefix" and "prefix \<in> {''records'', ''archive''}" and "plain_tree (DirNode es)"
    and "\<not> hidden target" and "ends_with target ''.md''" and "\<forall>e\<in>set es. files_only target (snd e)"
    and "set ts \<subseteq> set (filter (\<lambda>(t, d). is_dir d) es)"
  shows "\<exists>r. search_types target prefix (DirNode es) (map fst ts) = Inr r \<and>
    (case r of None \<Rightarrow> \<forall>p\<in>set (concat (map (type_paths prefix) ts)). pi_filename (parseRecordRelativePath p) \<noteq> target
     | Some p \<Rightarrow> p \<in> set (concat (map (type_paths prefix) ts)) \<and> pi_filename (parseRecordRelativePath p) = target)"
  using assms(7)
proof (induction ts)
  case (Cons td ts)
  obtain t d where td: "td = (t, d)" by fastforce
  with Cons.prems have e: "(t, d) \<in> set es" "is_dir d" by auto
  have ok: "plain_name t" "plain_tree d" "jm_get es t = Some d"
    using e(1) assms(3) by (auto simp: plain_tree_dir jm_ok_def)
  have below: "set (markdown_below d [t]) = (#) t ` set (markdown_below d [])"
    using markdown_prefix[of d "[]" "[t]"] e(2) by simp
  have name: "pi_filename (parseRecordRelativePath (join_with ''/'' (prefix # t # r))) = last r"
    if "r \<in> set (markdown_below d [])" for r
    using markdown_plain[OF ok(2) _ that] markdown_nonempty[OF _ that] e(2) ok(1) assms(1,2)
    by (intro parse_filename) auto
  have spec: "case search_stack target [(d, [t])] of
     Some r \<Rightarrow> r \<in> set (markdown_below d [t]) \<and> last r = target
   | None \<Rightarrow> \<forall>r\<in>set (markdown_below d [t]). last r \<noteq> target"
  proof -
    have "files_only target d" using e(1) assms(6) by auto
    then have "\<forall>(n, rel)\<in>set [(d, [t])]. is_dir n \<and> files_only target n" using e(2) by simp
    from search_stack_spec[OF assms(4,5) this] show ?thesis
      by (auto simp del: search_stack.simps split: option.splits)
  qed
  show ?case
  proof (cases "search_stack target [(d, [t])]")
    case None
    with spec below have "\<forall>r\<in>set (markdown_below d []). last r \<noteq> target"
      using markdown_nonempty[of d "[]"] e(2) by (auto simp: last_ConsR)
    then have "\<forall>p\<in>set (type_paths prefix td). pi_filename (parseRecordRelativePath p) \<noteq> target"
      using name by (auto simp: type_paths_def td simp del: join_with.simps)
    moreover have "set ts \<subseteq> set (filter (\<lambda>(t, d). is_dir d) es)" using Cons.prems by simp
    ultimately show ?thesis using Cons.IH None td ok(3) e(2)
      by (fastforce simp: entries_def simp del: join_with.simps split: option.splits)
  next
    case (Some rel)
    with spec below obtain r where r: "rel = t # r" "r \<in> set (markdown_below d [])" "last rel = target" by auto
    then have "r \<noteq> []" using markdown_nonempty[of d "[]"] e(2) by simp
    moreover have "\<forall>s\<in>set (prefix # rel). plain_name s"
      using markdown_plain[OF ok(2) _ r(2)] ok(1) assms(1) r(1) by auto
    ultimately have "unbackslash (path_join (prefix # rel)) = join_with ''/'' (prefix # t # r)"
      and "last r = target"
      using path_join_plain[of "prefix # rel"] unbackslash_join[of "prefix # rel"] r by simp_all
    then show ?thesis using Some td ok(3) e(2) r(2) name[OF r(2)]
      by (simp add: entries_def type_paths_def del: join_with.simps)
  qed
qed simp

text \<open>The data directory of the property: both areas, where present, are directories of plain
  names in which the searched name is a file.\<close>

definition tidy_area :: "string \<Rightarrow> fs_node option \<Rightarrow> bool" where
  "tidy_area target b \<longleftrightarrow> (case b of None \<Rightarrow> True
     | Some n \<Rightarrow> is_dir n \<and> plain_tree n \<and> (\<forall>e\<in>set (entries n). files_only target (snd e)))"

lemma search_area:
  assumes "prefix \<in> {''records'', ''archive''}" and "tidy_area target b" and "\<not> hidden target" and "ends_with target ''.md''"
  shows "\<exists>r ps. searchDirectories target None prefix b = Inr r \<and>
    (case b of None \<Rightarrow> Some [] | Some b \<Rightarrow> list_area None prefix b) = Some ps \<and>
    (case r of None \<Rightarrow> \<forall>p\<in>set ps. pi_filename (parseRecordRelativePath p) \<noteq> target
     | Some p \<Rightarrow> p \<in> set ps \<and> pi_filename (parseRecordRelativePath p) = target)"
proof (cases b)
  case None
  then show ?thesis by (simp add: searchDirectories_def)
next
  case (Some n)
  with assms(2) obtain es where es: "n = DirNode es" "plain_tree (DirNode es)" "\<forall>e\<in>set es. files_only target (snd e)"
    by (cases n) (simp_all add: tidy_area_def is_dir_def entries_def)
  have prefix: "plain_name prefix" using assms(1) by (auto simp: plain_name_def)
  from search_types_spec[OF prefix assms(1) es(2) assms(3,4) es(3) subset_refl] listing_paths[OF prefix es(2)] show ?thesis
    by (simp add: Some es(1) searchDirectories_def type_names_def truthy_def entries_def)
qed

text \<open>The search finds what the listing lists. In a directory of plain names the search by
  id returns, and it finds a record file exactly when the listing of the same areas has a
  file of that name; the path it gives is one of the listed ones.\<close>

theorem find_agrees_with_listing:
  assumes "tidy_area (strip_md recordId @ ''.md'') (area ''records'' dataDir)"
    and "tidy_area (strip_md recordId @ ''.md'') (area ''archive'' dataDir)"
    and "\<not> hidden (strip_md recordId @ ''.md'')"
  shows "\<exists>r ps. findRecordFileSync dataDir recordId None arch = Inr r \<and> listRecordFilesSync dataDir None arch = Some ps \<and>
    (case r of None \<Rightarrow> \<forall>p\<in>set ps. pi_filename (parseRecordRelativePath p) \<noteq> strip_md recordId @ ''.md''
     | Some p \<Rightarrow> p \<in> set ps \<and> pi_filename (parseRecordRelativePath p) = strip_md recordId @ ''.md'')"
proof -
  have md: "ends_with (strip_md recordId @ ''.md'') ''.md''" by (simp add: ends_with.simps)
  obtain r ps where r: "searchDirectories (strip_md recordId @ ''.md'') None ''records'' (area ''records'' dataDir) = Inr r"
    "(case area ''records'' dataDir of None \<Rightarrow> Some [] | Some b \<Rightarrow> list_area None ''records'' b) = Some ps"
    "case r of None \<Rightarrow> \<forall>p\<in>set ps. pi_filename (parseRecordRelativePath p) \<noteq> strip_md recordId @ ''.md''
     | Some p \<Rightarrow> p \<in> set ps \<and> pi_filename (parseRecordRelativePath p) = strip_md recordId @ ''.md''"
    using search_area[OF _ assms(1,3) md, of "''records''"] by auto
  obtain r' ps' where r': "searchDirectories (strip_md recordId @ ''.md'') None ''archive'' (area ''archive'' dataDir) = Inr r'"
    "(case area ''archive'' dataDir of None \<Rightarrow> Some [] | Some b \<Rightarrow> list_area None ''archive'' b) = Some ps'"
    "case r' of None \<Rightarrow> \<forall>p\<in>set ps'. pi_filename (parseRecordRelativePath p) \<noteq> strip_md recordId @ ''.md''
     | Some p \<Rightarrow> p \<in> set ps' \<and> pi_filename (parseRecordRelativePath p) = strip_md recordId @ ''.md''"
    using search_area[OF _ assms(2,3) md, of "''archive''"] by auto
  show ?thesis
    using r(3) r'(3) by (auto simp: findRecordFileSync_def listRecordFilesSync_def Let_def r(1,2) r'(1,2) split: option.splits)
qed

definition demo_tree :: fs_node where
  "demo_tree = DirNode [(''records'', DirNode [(''bylaw'', DirNode [(''2024'', DirNode [(''b1.md'', FileNode),
     (''notes.txt'', FileNode)])]), (''policy'', DirNode [(''p1.md'', FileNode)])])]"

lemma find_agrees_with_listing_witness:
  "findRecordFileSync demo_tree ''b1'' None True = Inr (Some ''records/bylaw/2024/b1.md'') \<and>
   ''records/bylaw/2024/b1.md'' \<in> set (the (listRecordFilesSync demo_tree None True))"
proof -
  have "findRecordFileSync demo_tree ''b1'' None True = Inr (Some ''records/bylaw/2024/b1.md'')" by code_simp
  moreover have "tidy_area (strip_md ''b1'' @ ''.md'') (area ''records'' demo_tree)" by code_simp
  moreover have "tidy_area (strip_md ''b1'' @ ''.md'') (area ''archive'' demo_tree)" by code_simp
  moreover have "\<not> hidden (strip_md ''b1'' @ ''.md'')" by code_simp
  ultimately show ?thesis using find_agrees_with_listing[of "''b1''" demo_tree True] by auto
qed

end
