(* ===== verification/Document_Numbers.thy ===== *)
theory Document_Numbers
  imports Civic_Prelude
begin

section \<open>Official document numbers\<close>

text \<open>
  \<open>core/src/utils/document-number-generator.ts\<close>: numbers such as \<open>BYL-2024-001\<close>. The
  configured formats are an argument (\<open>None\<close> when reading them throws); the two patterns of
  \<open>parse\<close> are written out as scans. Years and sequences are natural numbers.
\<close>

record number_format =
  nf_prefix :: string
  nf_short :: bool
  nf_separator :: string
  nf_padding :: nat

record format_config =
  fc_prefix :: string
  fc_year_format :: string
  fc_separator :: string
  fc_padding :: nat

definition getDefaultPrefix :: "string \<Rightarrow> string" where
  "getDefaultPrefix recordType = (case map_of
     [(''bylaw'', ''BYL''), (''ordinance'', ''ORD''), (''policy'', ''POL''), (''proclamation'', ''PRO''),
      (''resolution'', ''RES''), (''geography'', ''GEO''), (''session'', ''SES'')] recordType of
     None \<Rightarrow> ''DOC'' | Some p \<Rightarrow> p)"

definition getFormat :: "(string \<times> format_config) list option \<Rightarrow> string \<Rightarrow> number_format" where
  "getFormat formats recordType = (case (case formats of None \<Rightarrow> None | Some fs \<Rightarrow> jm_get fs recordType) of
     Some c \<Rightarrow> \<lparr>nf_prefix = fc_prefix c, nf_short = (fc_year_format c = ''short''),
       nf_separator = (if fc_separator c = [] then ''-'' else fc_separator c),
       nf_padding = (if fc_padding c = 0 then 3 else fc_padding c)\<rparr>
   | None \<Rightarrow> \<lparr>nf_prefix = getDefaultPrefix recordType, nf_short = False, nf_separator = ''-'', nf_padding = 3\<rparr>)"

definition pad_start :: "nat \<Rightarrow> string \<Rightarrow> string" where
  "pad_start n s = replicate (n - length s) (CHR ''0'') @ s"

definition last_two :: "string \<Rightarrow> string" where
  "last_two s = drop (length s - 2) s"

text \<open>\<open>year\<close> falls back to the current year also when it is 0.\<close>

definition generate :: "(string \<times> format_config) list option \<Rightarrow> nat \<Rightarrow> string \<Rightarrow> nat option \<Rightarrow> nat \<Rightarrow> string" where
  "generate formats current_year recordType year seqno =
     (let f = getFormat formats recordType;
          y = (case year of Some y \<Rightarrow> if y = 0 then current_year else y | None \<Rightarrow> current_year);
          yearStr = (if nf_short f then last_two (show_nat y) else show_nat y) in
      nf_prefix f @ nf_separator f @ yearStr @ nf_separator f @ pad_start (nf_padding f) (show_nat seqno))"

record doc_number =
  dn_prefix :: string
  dn_year :: nat
  dn_sequence :: nat

definition is_upper :: "char \<Rightarrow> bool" where
  "is_upper c \<longleftrightarrow> (let n = (of_char c :: nat) in 65 \<le> n \<and> n \<le> 90)"

definition is_digit :: "char \<Rightarrow> bool" where
  "is_digit c \<longleftrightarrow> (let n = (of_char c :: nat) in 48 \<le> n \<and> n \<le> 57)"

definition is_sep :: "char \<Rightarrow> bool" where
  "is_sep c \<longleftrightarrow> c = CHR ''-'' \<or> c = CHR ''/''"

definition parse_digits :: "string \<Rightarrow> nat" where
  "parse_digits s = foldl (\<lambda>n c. 10 * n + (of_char c - 48)) 0 s"

text \<open>A group of characters, then one separator: the group and the rest.\<close>

definition group_then_sep :: "(char \<Rightarrow> bool) \<Rightarrow> string \<Rightarrow> (string \<times> string) option" where
  "group_then_sep P s = (case dropWhile P s of
     c # rest \<Rightarrow> if takeWhile P s \<noteq> [] \<and> is_sep c then Some (takeWhile P s, rest) else None
   | [] \<Rightarrow> None)"

definition all_digits :: "string \<Rightarrow> bool" where
  "all_digits s \<longleftrightarrow> s \<noteq> [] \<and> list_all is_digit s"

definition match_three :: "string \<Rightarrow> (string \<times> string \<times> string) option" where
  "match_three s = (case group_then_sep is_upper s of
     None \<Rightarrow> None
   | Some (prefix, rest) \<Rightarrow> (case group_then_sep is_digit rest of
       None \<Rightarrow> None
     | Some (year, seq) \<Rightarrow>
         if 2 \<le> length year \<and> length year \<le> 4 \<and> all_digits seq then Some (prefix, year, seq) else None))"

definition match_two :: "string \<Rightarrow> (string \<times> string) option" where
  "match_two s = (case group_then_sep is_upper s of
     None \<Rightarrow> None
   | Some (prefix, seq) \<Rightarrow> if all_digits seq then Some (prefix, seq) else None)"

definition components :: "string \<Rightarrow> string \<Rightarrow> string \<Rightarrow> doc_number option" where
  "components prefix year seq =
     (if length year = 2 then Some \<lparr>dn_prefix = prefix, dn_year = 2000 + parse_digits year, dn_sequence = parse_digits seq\<rparr>
      else if length year = 4 then Some \<lparr>dn_prefix = prefix, dn_year = parse_digits year, dn_sequence = parse_digits seq\<rparr>
      else None)"

definition parse_number :: "string \<Rightarrow> doc_number option" where
  "parse_number s = (case (case match_three s of None \<Rightarrow> None | Some (p, y, n) \<Rightarrow> components p y n) of
     Some d \<Rightarrow> Some d
   | None \<Rightarrow> (case match_two s of None \<Rightarrow> None | Some (p, n) \<Rightarrow> components p n n))"

definition validate_number :: "string \<Rightarrow> string option \<Rightarrow> bool" where
  "validate_number s recordType = (case parse_number s of
     None \<Rightarrow> False
   | Some d \<Rightarrow> if truthy recordType then dn_prefix d = getDefaultPrefix (the recordType) else True)"

text \<open>The placeholder of the source.\<close>

definition getNextSequence :: "string \<Rightarrow> nat option \<Rightarrow> nat" where
  "getNextSequence recordType year = 1"

subsection \<open>Digits\<close>

lemma parse_digits_snoc: "parse_digits (s @ [c]) = 10 * parse_digits s + (of_char c - 48)"
  by (simp add: parse_digits_def)

lemma parse_show_nat [simp]: "parse_digits (show_nat n) = n"
proof (induction n rule: show_nat.induct)
  case (1 n)
  have digit: "of_char (char_of (48 + d) :: char) = 48 + d" if "d < 10" for d :: nat
    using that by simp
  show ?case
  proof (cases "n < 10")
    case True
    then show ?thesis using digit[of n] by (subst show_nat.simps) (simp add: parse_digits_def)
  next
    case False
    then show ?thesis using 1[OF False] digit[of "n mod 10"]
      by (subst show_nat.simps) (simp add: parse_digits_snoc)
  qed
qed

lemma parse_pad_start [simp]: "parse_digits (pad_start k s) = parse_digits s"
proof -
  have "foldl (\<lambda>n c. 10 * n + (of_char c - 48)) 0 (replicate j (CHR ''0'')) = (0 :: nat)" for j
    by (induction j) auto
  then show ?thesis by (simp add: parse_digits_def pad_start_def)
qed

lemma show_nat_digit: "c \<in> set (show_nat n) \<Longrightarrow> is_digit c"
  using show_nat_chars[of c n] by (simp add: is_digit_def)

lemma pad_digits: "all_digits (pad_start k (show_nat n))"
  using show_nat_nonempty[of n] show_nat_digit[of _ n]
  by (auto simp: all_digits_def pad_start_def list_all_iff is_digit_def)

lemma length_show_nat: "10 ^ k \<le> n \<Longrightarrow> n < 10 ^ Suc k \<Longrightarrow> length (show_nat n) = Suc k"
proof (induction k arbitrary: n)
  case 0
  then show ?case by (subst show_nat.simps) simp
next
  case (Suc k)
  then have "10 ^ k \<le> n div 10" "n div 10 < 10 ^ Suc k" by (simp_all add: less_eq_div_iff_mult_less_eq div_less_iff_less_mult mult.commute)
  moreover from Suc.prems have "\<not> n < 10" by (simp add: not_less order_trans[OF _ Suc.prems(1)])
  ultimately show ?case using Suc.IH by (subst show_nat.simps) simp
qed

lemma group_then_sep_append:
  assumes "s \<noteq> []" and "list_all P s" and "\<not> P c" and "is_sep c"
  shows "group_then_sep P (s @ c # rest) = Some (s, rest)"
proof -
  have "takeWhile P (s @ c # rest) = s" "dropWhile P (s @ c # rest) = c # rest"
    using assms(2,3) by (induction s) auto
  with assms(1,4) show ?thesis by (simp add: group_then_sep_def)
qed

text \<open>Generated numbers are read back. In the default format, for a year of four digits, the
  parser recovers prefix, year and sequence of every generated number, and the validator
  accepts it for its record type.\<close>

theorem document_numbers_round_trip:
  assumes "1000 \<le> y" and "y \<le> 9999" and "\<And>fs. formats = Some fs \<Longrightarrow> jm_get fs recordType = None"
  shows "parse_number (generate formats now recordType (Some y) n) =
      Some \<lparr>dn_prefix = getDefaultPrefix recordType, dn_year = y, dn_sequence = n\<rparr> \<and>
    validate_number (generate formats now recordType (Some y) n) (Some recordType)"
proof -
  let ?p = "getDefaultPrefix recordType" and ?s = "pad_start 3 (show_nat n)"
  have gen: "generate formats now recordType (Some y) n = ?p @ CHR ''-'' # show_nat y @ CHR ''-'' # ?s"
    using assms by (cases formats) (auto simp: generate_def getFormat_def)
  have p: "?p \<noteq> []" "list_all is_upper ?p"
    by (simp_all add: getDefaultPrefix_def is_upper_def)
  have year: "length (show_nat y) = 4" using length_show_nat[of 3 y] assms(1,2) by simp
  have "group_then_sep is_upper (?p @ CHR ''-'' # show_nat y @ CHR ''-'' # ?s) = Some (?p, show_nat y @ CHR ''-'' # ?s)"
    using p by (intro group_then_sep_append) (simp_all add: is_upper_def is_sep_def)
  moreover have "group_then_sep is_digit (show_nat y @ CHR ''-'' # ?s) = Some (show_nat y, ?s)"
    using show_nat_nonempty[of y] show_nat_digit[of _ y]
    by (intro group_then_sep_append) (auto simp: is_digit_def is_sep_def list_all_iff)
  ultimately have "match_three (generate formats now recordType (Some y) n) = Some (?p, show_nat y, ?s)"
    using year pad_digits[of 3 n] by (simp add: gen match_three_def)
  then have "parse_number (generate formats now recordType (Some y) n) =
      Some \<lparr>dn_prefix = ?p, dn_year = y, dn_sequence = n\<rparr>"
    using year by (simp add: parse_number_def components_def)
  then show ?thesis by (simp add: validate_number_def)
qed

lemma document_numbers_round_trip_witness:
  "parse_number (generate None 2026 ''bylaw'' (Some 2024) 7) =
     Some \<lparr>dn_prefix = ''BYL'', dn_year = 2024, dn_sequence = 7\<rparr>"
  using document_numbers_round_trip[of 2024 None "''bylaw''" 2026 7] by (simp add: getDefaultPrefix_def)

text \<open>The pattern without a year accepts only numbers of two or four digits, and takes them for
  the year as well.\<close>

lemma number_without_year: "parse_number ''BYL-001'' = None" "parse_number ''BYL-2024'' =
    Some \<lparr>dn_prefix = ''BYL'', dn_year = 2024, dn_sequence = 2024\<rparr>"
  by code_simp+

end
