(* ===== verification/Record_World.thy ===== *)
theory Record_World
  imports Record_Parser Record_Paths Document_Numbers Saga_Types
begin

section \<open>The world of the record operations\<close>

text \<open>
  What the record operations read and write: the tables of
  \<open>core/src/database/stores/record-store.ts\<close> and \<open>draft-store.ts\<close>, the working tree, the
  staged paths and commits of \<open>core/src/git/git-engine.ts\<close>, the emitted hooks, the audit trail and the mutable
  part of the running saga's context. Every call that leaves the process (a statement, a file
  operation, a commit) takes one entry of \<open>faults\<close>.

  A JSON column holds text: \<open>Json v\<close> is the text of \<open>v\<close>, \<open>Malformed s\<close> is text that does not
  parse. Scalar columns hold values, \<open>JNull\<close> for \<open>NULL\<close>; the \<open>NOT NULL\<close> checks are left out,
  as the request types require the fields. No search service is installed, so indexing is the
  fallback that writes \<open>search_index\<close>.
\<close>

subsection \<open>Tables and state\<close>

datatype json_text = Json jv | Malformed string

fun text_truthy :: "json_text option \<Rightarrow> bool" where
  "text_truthy None \<longleftrightarrow> False"
| "text_truthy (Some (Json v)) \<longleftrightarrow> True"
| "text_truthy (Some (Malformed s)) \<longleftrightarrow> s \<noteq> []"

definition stringify :: "jv \<Rightarrow> json_text option" where
  "stringify v = (if v = JUndef then None else Some (Json (json_of v)))"

text \<open>\<open>x ? JSON.stringify(x) : undefined\<close>.\<close>

definition stringify_if :: "jv \<Rightarrow> json_text option" where
  "stringify_if v = (if jtruthy v then stringify v else None)"

record record_row =
  rr_id :: string
  rr_title :: jv
  rr_type :: jv
  rr_status :: jv
  rr_workflow_state :: jv
  rr_content :: "string option"
  rr_metadata :: "json_text option"
  rr_geography :: "json_text option"
  rr_attached_files :: "json_text option"
  rr_linked_records :: "json_text option"
  rr_linked_geography_files :: "json_text option"
  rr_path :: "string option"
  rr_author :: jv
  rr_created_at :: msec
  rr_updated_at :: msec

record draft_row =
  dr_id :: string
  dr_title :: jv
  dr_type :: jv
  dr_status :: jv
  dr_workflow_state :: jv
  dr_markdown_body :: "string option"
  dr_metadata :: "json_text option"
  dr_geography :: "json_text option"
  dr_attached_files :: "json_text option"
  dr_linked_records :: "json_text option"
  dr_linked_geography_files :: "json_text option"
  dr_author :: jv
  dr_created_by :: jv
  dr_saved_at :: msec
  dr_created_at :: msec
  dr_updated_at :: msec

record index_row =
  ix_record_id :: string
  ix_record_type :: jv
  ix_title :: jv
  ix_content :: "string option"
  ix_tags :: string
  ix_metadata :: "json_text option"

text \<open>The fields the saga contexts add while a saga runs.\<close>

record saga_scratch =
  sc_record :: "record_data option"
  sc_filePath :: "string option"
  sc_commitHash :: "string option"
  sc_originalRecord :: "record_data option"
  sc_updatedRecord :: "record_data option"
  sc_originalFilePath :: "string option"
  sc_archiveFilePath :: "string option"
  sc_draft :: "draft_row option"
  sc_recordExisted :: bool
  sc_draftBackup :: "draft_row option"

definition no_scratch :: saga_scratch where
  "no_scratch = \<lparr>sc_record = None, sc_filePath = None, sc_commitHash = None, sc_originalRecord = None,
     sc_updatedRecord = None, sc_originalFilePath = None, sc_archiveFilePath = None, sc_draft = None,
     sc_recordExisted = False, sc_draftBackup = None\<rparr>"

record rec_world = dbenv +
  w_records :: "record_row list"
  w_drafts :: "draft_row list"
  w_draft_column :: bool
  w_index :: "index_row list"
  w_files :: "(string \<times> string) list"
  w_staged :: "string list"
  w_commits :: "(string \<times> string list) list"
  w_hooks :: "(string \<times> record_data) list"
  w_audit :: "(string \<times> string) list"
  w_record_locks :: "string list"
  w_queued :: "jv list"
  w_scratch :: saga_scratch

text \<open>Parameters: the parser's libraries, the directory, commit hashes by serial number, the role
  prefix, the development switch, which hooks are enabled, whether an indexing service is
  wired, date parsing, the local year of an instant, the configured document numbers.\<close>

record record_env =
  re_parser :: parser_env
  re_dataDir :: string
  re_hash :: "nat \<Rightarrow> string"
  re_role :: "string option"
  re_no_git :: bool
  re_hook_on :: "string \<Rightarrow> bool"
  re_indexing :: bool
  re_date_parse :: "string \<Rightarrow> msec option"
  re_local_year :: "msec \<Rightarrow> nat"
  re_formats :: "(string \<times> format_config) list option"

type_synonym 'a rec_op = "(rec_world, saga_error, 'a) em"

definition external :: "saga_error \<Rightarrow> 'a rec_op \<Rightarrow> 'a rec_op" where
  "external err m = (\<lambda>w. case faults w of
     [] \<Rightarrow> m w
   | True # fs \<Rightarrow> (Inl err, w\<lparr>faults := fs\<rparr>)
   | False # fs \<Rightarrow> m (w\<lparr>faults := fs\<rparr>))"

definition sql :: "'a rec_op \<Rightarrow> 'a rec_op" where
  "sql m = external (DbFailure DbIo) m"

definition fs_op :: "'a rec_op \<Rightarrow> 'a rec_op" where
  "fs_op m = external (OtherError ''EIO: i/o error'') m"

definition now_iso :: "string rec_op" where
  "now_iso = eget (\<lambda>w. iso_string (clock w))"

text \<open>\<open>DATETIME\<close> text of SQLite.\<close>

definition sql_time :: "msec \<Rightarrow> string" where
  "sql_time t = (let s = iso_string t in take 10 s @ '' '' @ take 8 (drop 11 s))"

subsection \<open>Files and commits\<close>

definition full_path :: "record_env \<Rightarrow> string \<Rightarrow> string" where
  "full_path env p = path_join [re_dataDir env, p]"

definition ensureDirectoryForRecordPath :: "record_env \<Rightarrow> string \<Rightarrow> unit rec_op" where
  "ensureDirectoryForRecordPath env p = fs_op (ereturn ())"

definition write_file :: "record_env \<Rightarrow> string \<Rightarrow> string \<Rightarrow> unit rec_op" where
  "write_file env p content = fs_op (emodify (\<lambda>w. w\<lparr>w_files := jm_set (full_path env p) content (w_files w)\<rparr>))"

definition read_file :: "record_env \<Rightarrow> string \<Rightarrow> string rec_op" where
  "read_file env p = fs_op (ebind (eget (\<lambda>w. jm_get (w_files w) (full_path env p)))
     (\<lambda>f. case f of None \<Rightarrow> ethrow (OtherError ''ENOENT: no such file or directory'') | Some c \<Rightarrow> ereturn c))"

definition unlink_file :: "record_env \<Rightarrow> string \<Rightarrow> unit rec_op" where
  "unlink_file env p = fs_op (ebind (eget (\<lambda>w. jm_get (w_files w) (full_path env p)))
     (\<lambda>f. case f of None \<Rightarrow> ethrow (OtherError ''ENOENT: no such file or directory'')
       | Some c \<Rightarrow> emodify (\<lambda>w. w\<lparr>w_files := jm_delete (full_path env p) (w_files w)\<rparr>)))"

definition rename_file :: "record_env \<Rightarrow> string \<Rightarrow> string \<Rightarrow> unit rec_op" where
  "rename_file env old new = fs_op (ebind (eget (\<lambda>w. jm_get (w_files w) (full_path env old)))
     (\<lambda>f. case f of None \<Rightarrow> ethrow (OtherError ''ENOENT: no such file or directory'')
       | Some c \<Rightarrow> emodify (\<lambda>w. w\<lparr>w_files := jm_set (full_path env new) c
           (if full_path env new = full_path env old then w_files w else jm_delete (full_path env old) (w_files w))\<rparr>)))"

text \<open>\<open>git add\<close> and \<open>git commit\<close> are two calls; the second commits whatever is staged. Every caller
  names its files.\<close>

definition git_commit :: "record_env \<Rightarrow> string \<Rightarrow> string list \<Rightarrow> string rec_op" where
  "git_commit env message files =
     (if re_no_git env then ereturn ''dev-skip-commit''
      else eseq (external (OtherError ''Failed to create commit'') (emodify (\<lambda>w. w\<lparr>w_staged := w_staged w @ files\<rparr>)))
        (external (OtherError ''Failed to create commit'')
          (let m = (case or_null (re_role env) of None \<Rightarrow> message | Some r \<Rightarrow> ''feat('' @ r @ ''): '' @ message) in
           eseq (emodify (\<lambda>w. w\<lparr>w_commits := w_commits w @ [(m, w_staged w)], w_staged := []\<rparr>))
             (eget (\<lambda>w. re_hash env (length (w_commits w)))))))"

definition emit_hook :: "record_env \<Rightarrow> string \<Rightarrow> record_data \<Rightarrow> unit rec_op" where
  "emit_hook env name r =
     (if \<not> re_hook_on env name then ereturn ()
      else eseq (emodify (\<lambda>w. w\<lparr>w_hooks := w_hooks w @ [(name, r)]\<rparr>))
        (external (OtherError ''hook log'') (ereturn ())))"

definition write_audit :: "string \<Rightarrow> string \<Rightarrow> unit rec_op" where
  "write_audit action rid = sql (emodify (\<lambda>w. w\<lparr>w_audit := w_audit w @ [(action, rid)]\<rparr>))"

subsection \<open>The search index\<close>

primrec js_text :: "jv \<Rightarrow> string" where
  "js_text JUndef = []"
| "js_text JNull = []"
| "js_text (JBool b) = (if b then ''true'' else ''false'')"
| "js_text (JNum n) = show_int n"
| "js_text (JStr s) = s"
| "js_text (JDate t) = iso_string t"
| "js_text (JArr xs) = join_with '','' (map js_text xs)"
| "js_text (JObj kvs) = ''[object Object]''"

definition tags_text :: "json_text option \<Rightarrow> string" where
  "tags_text metadata = (case metadata of
     Some (Json v) \<Rightarrow> (case jmember v ''tags'' of JArr xs \<Rightarrow> join_with '','' (map js_text xs) | JStr s \<Rightarrow> s | _ \<Rightarrow> [])
   | _ \<Rightarrow> [])"

definition indexRecord :: "index_row \<Rightarrow> unit rec_op" where
  "indexRecord row = eseq
     (sql (emodify (\<lambda>w. w\<lparr>w_index := filter (\<lambda>x. \<not> (ix_record_id x = ix_record_id row \<and> ix_record_type x = ix_record_type row)) (w_index w)\<rparr>)))
     (sql (emodify (\<lambda>w. w\<lparr>w_index := w_index w @ [row]\<rparr>)))"

definition removeRecordFromIndex :: "string \<Rightarrow> jv \<Rightarrow> unit rec_op" where
  "removeRecordFromIndex rid type = sql (emodify (\<lambda>w. w\<lparr>w_index :=
     filter (\<lambda>x. \<not> (ix_record_id x = rid \<and> ix_record_type x = type)) (w_index w)\<rparr>))"

definition index_of_row :: "record_row \<Rightarrow> index_row" where
  "index_of_row r = \<lparr>ix_record_id = rr_id r, ix_record_type = rr_type r, ix_title = rr_title r, ix_content = rr_content r,
     ix_tags = tags_text (rr_metadata r), ix_metadata = rr_metadata r\<rparr>"

subsection \<open>The records table\<close>

definition find_record :: "string \<Rightarrow> record_row list \<Rightarrow> record_row option" where
  "find_record rid rs = List.find (\<lambda>r. rr_id r = rid) rs"

definition db_getRecord :: "string \<Rightarrow> record_row option rec_op" where
  "db_getRecord rid = sql (eget (\<lambda>w. find_record rid (w_records w)))"

definition col :: "jv \<Rightarrow> jv" where
  "col v = (if v = JUndef then JNull else v)"

definition insert_record :: "record_row \<Rightarrow> unit rec_op" where
  "insert_record row = sql (\<lambda>w. if rr_id row \<in> rr_id ` set (w_records w) then (Inl (DbFailure UniqueViolation), w)
     else (Inr (), w\<lparr>w_records := w_records w @ [row\<lparr>rr_created_at := clock w, rr_updated_at := clock w\<rparr>]\<rparr>))"

text \<open>\<open>createRecord\<close> of the store; \<open>row\<close> holds the arguments, an absent status or editorial state
  as \<open>JUndef\<close>.\<close>

definition db_createRecord :: "record_row \<Rightarrow> unit rec_op" where
  "db_createRecord row =
     (let row' = row\<lparr>rr_status := jor (rr_status row) (JStr ''draft''),
        rr_workflow_state := (if rr_workflow_state row = JUndef then JStr ''draft'' else rr_workflow_state row),
        rr_title := col (rr_title row), rr_type := col (rr_type row), rr_author := col (rr_author row)\<rparr> in
      eseq (insert_record row') (indexRecord (index_of_row row)))"

text \<open>The columns of an update: \<open>JUndef\<close> and \<open>None\<close> are not given, \<open>Some None\<close> writes \<open>NULL\<close>.\<close>

record row_updates =
  ru_title :: jv
  ru_status :: jv
  ru_workflow_state :: jv
  ru_content :: "string option option"
  ru_metadata :: "json_text option option"
  ru_geography :: "json_text option option"
  ru_attached_files :: "json_text option option"
  ru_linked_records :: "json_text option option"
  ru_linked_geography_files :: "json_text option option"
  ru_path :: "string option option"

definition no_updates :: row_updates where
  "no_updates = \<lparr>ru_title = JUndef, ru_status = JUndef, ru_workflow_state = JUndef, ru_content = None,
     ru_metadata = None, ru_geography = None, ru_attached_files = None, ru_linked_records = None,
     ru_linked_geography_files = None, ru_path = None\<rparr>"

definition given :: "jv \<Rightarrow> jv \<Rightarrow> jv" where
  "given new old = (if new = JUndef then old else new)"

definition given_col :: "'a option option \<Rightarrow> 'a option \<Rightarrow> 'a option" where
  "given_col new old = (case new of None \<Rightarrow> old | Some v \<Rightarrow> v)"

definition apply_updates :: "row_updates \<Rightarrow> msec \<Rightarrow> record_row \<Rightarrow> record_row" where
  "apply_updates u now r = r\<lparr>
     rr_title := given (ru_title u) (rr_title r), rr_status := given (ru_status u) (rr_status r),
     rr_workflow_state := given (ru_workflow_state u) (rr_workflow_state r),
     rr_content := given_col (ru_content u) (rr_content r), rr_metadata := given_col (ru_metadata u) (rr_metadata r),
     rr_geography := given_col (ru_geography u) (rr_geography r),
     rr_attached_files := given_col (ru_attached_files u) (rr_attached_files r),
     rr_linked_records := given_col (ru_linked_records u) (rr_linked_records r),
     rr_linked_geography_files := given_col (ru_linked_geography_files u) (rr_linked_geography_files r),
     rr_path := given_col (ru_path u) (rr_path r), rr_updated_at := now\<rparr>"

definition db_updateRecord :: "string \<Rightarrow> row_updates \<Rightarrow> unit rec_op" where
  "db_updateRecord rid u =
     eseq (sql (emodify (\<lambda>w. w\<lparr>w_records := map (\<lambda>r. if rr_id r = rid then apply_updates u (clock w) r else r) (w_records w)\<rparr>)))
     (ebind (db_getRecord rid) (\<lambda>r. case r of
        None \<Rightarrow> ereturn ()
      | Some row \<Rightarrow> indexRecord (index_of_row row\<lparr>ix_metadata := Some (case rr_metadata row of
            None \<Rightarrow> Json (JObj []) | Some t \<Rightarrow> t)\<rparr>)))"

definition delete_record_row :: "jv \<Rightarrow> unit rec_op" where
  "delete_record_row rid = sql (emodify (\<lambda>w. w\<lparr>w_records := filter (\<lambda>r. JStr (rr_id r) \<noteq> rid) (w_records w)\<rparr>))"

text \<open>\<open>deleteRecord\<close> asks for the index entry of the empty type.\<close>

definition db_deleteRecord :: "string \<Rightarrow> unit rec_op" where
  "db_deleteRecord rid =
     eseq (sql (emodify (\<lambda>w. w\<lparr>w_record_locks := filter (\<lambda>l. l \<noteq> rid) (w_record_locks w)\<rparr>)))
     (eseq (delete_record_row (JStr rid)) (removeRecordFromIndex rid (JStr [])))"

subsection \<open>The drafts table\<close>

definition find_draft :: "string \<Rightarrow> draft_row list \<Rightarrow> draft_row option" where
  "find_draft rid ds = List.find (\<lambda>d. dr_id d = rid) ds"

definition text_or_null :: "json_text option \<Rightarrow> json_text option" where
  "text_or_null t = (if text_truthy t then t else None)"

text \<open>The column \<open>workflow_state\<close> of a table made by an older version may be missing
  (\<open>w_draft_column\<close>); the store adds it when it finds out. A column that is there cannot be added.\<close>

definition NO_COLUMN :: saga_error where
  "NO_COLUMN = OtherError ''table record_drafts has no column named workflow_state''"

definition has_column :: "bool rec_op" where
  "has_column = sql (eget w_draft_column)"

definition add_column :: "unit rec_op" where
  "add_column = sql (\<lambda>w. if w_draft_column w then (Inl (OtherError ''duplicate column name: workflow_state''), w)
     else (Inr (), w\<lparr>w_draft_column := True, w_drafts := map (\<lambda>d. d\<lparr>dr_workflow_state := JStr ''draft''\<rparr>) (w_drafts w)\<rparr>))"

definition select_draft :: "string \<Rightarrow> draft_row option rec_op" where
  "select_draft rid = sql (eget (\<lambda>w. map_option (\<lambda>d. if w_draft_column w then d else d\<lparr>dr_workflow_state := JUndef\<rparr>)
     (find_draft rid (w_drafts w))))"

definition stored_draft :: "draft_row \<Rightarrow> msec \<Rightarrow> draft_row" where
  "stored_draft d now = d\<lparr>dr_status := jor (dr_status d) (JStr ''draft''),
     dr_workflow_state := jor (dr_workflow_state d) (JStr ''draft''), dr_markdown_body := or_null (dr_markdown_body d),
     dr_metadata := text_or_null (dr_metadata d), dr_geography := text_or_null (dr_geography d),
     dr_attached_files := text_or_null (dr_attached_files d), dr_linked_records := text_or_null (dr_linked_records d),
     dr_linked_geography_files := text_or_null (dr_linked_geography_files d),
     dr_saved_at := now, dr_created_at := now, dr_updated_at := now\<rparr>"

definition insert_draft :: "draft_row \<Rightarrow> unit rec_op" where
  "insert_draft d = sql (\<lambda>w. if \<not> w_draft_column w then (Inl NO_COLUMN, w)
     else if dr_id d \<in> dr_id ` set (w_drafts w) then (Inl (DbFailure UniqueViolation), w)
     else (Inr (), w\<lparr>w_drafts := w_drafts w @ [stored_draft d (clock w)]\<rparr>))"

text \<open>\<open>createDraft\<close>: look for the column and add it, failures swallowed; insert, adding the column
  and trying again when it is missing; check the stored editorial state, failures swallowed.\<close>

definition ensure_column :: "bool rec_op" where
  "ensure_column = ecatch (eseq (sql (ereturn ())) (ebind has_column (\<lambda>has.
       if has then ereturn False
       else eseq add_column (ebind has_column (\<lambda>ok. if ok then ereturn True
         else ethrow (OtherError ''Failed to add workflow_state column to record_drafts table''))))))
     (\<lambda>e. ereturn False)"

definition insert_or_migrate :: "draft_row \<Rightarrow> bool \<Rightarrow> bool rec_op" where
  "insert_or_migrate d added = ecatch (eseq (insert_draft d) (ereturn added))
     (\<lambda>e. if e = NO_COLUMN then eseq add_column (eseq (insert_draft d) (ereturn True)) else ethrow e)"

definition verify_state :: "string \<Rightarrow> jv \<Rightarrow> unit rec_op" where
  "verify_state rid requested = equiet (ebind (select_draft rid) (\<lambda>row.
     ewhen ((case row of None \<Rightarrow> JUndef | Some r \<Rightarrow> dr_workflow_state r) \<noteq> requested)
       (eseq (sql (emodify (\<lambda>w. w\<lparr>w_drafts := map (\<lambda>x. if dr_id x = rid
           then x\<lparr>dr_workflow_state := col requested\<rparr> else x) (w_drafts w)\<rparr>)))
         (ebind (select_draft rid) (\<lambda>r. ereturn ())))))"

definition db_createDraft :: "draft_row \<Rightarrow> unit rec_op" where
  "db_createDraft d = ebind ensure_column (\<lambda>checked. ebind (insert_or_migrate d checked) (\<lambda>added.
     let requested = dr_workflow_state d in
     ewhen (added \<or> jtruthy requested \<and> requested \<noteq> JStr ''draft'') (verify_state (dr_id d) requested)))"

definition db_getDraft :: "string \<Rightarrow> draft_row option rec_op" where
  "db_getDraft rid = ebind (select_draft rid) (\<lambda>found. case found of
     None \<Rightarrow> ereturn None
   | Some row \<Rightarrow> if dr_workflow_state row = JNull \<or> dr_workflow_state row = JUndef
       then ebind (ecatch (ebind has_column (\<lambda>has. if has then ereturn None
           else eseq add_column (ebind (select_draft rid) (\<lambda>again. ereturn (map_option
             (\<lambda>r. r\<lparr>dr_workflow_state := jor (dr_workflow_state r) (JStr ''draft'')\<rparr>) again)))))
         (\<lambda>e. ereturn None))
         (\<lambda>migrated. ereturn (Some (case migrated of Some r \<Rightarrow> r | None \<Rightarrow> row\<lparr>dr_workflow_state := JStr ''draft''\<rparr>)))
       else ereturn (Some row))"

definition db_deleteDraft :: "string \<Rightarrow> unit rec_op" where
  "db_deleteDraft rid = sql (emodify (\<lambda>w. w\<lparr>w_drafts := filter (\<lambda>d. dr_id d \<noteq> rid) (w_drafts w)\<rparr>))"

record draft_updates =
  du_title :: jv
  du_type :: jv
  du_status :: jv
  du_workflow_state :: jv
  du_markdown_body :: "string option"
  du_metadata :: "json_text option"
  du_geography :: "json_text option"
  du_attached_files :: "json_text option"
  du_linked_records :: "json_text option"
  du_linked_geography_files :: "json_text option"

definition keep_or :: "'a option \<Rightarrow> 'a option \<Rightarrow> 'a option" where
  "keep_or new old = (case new of None \<Rightarrow> old | Some v \<Rightarrow> Some v)"

definition apply_draft_updates :: "draft_updates \<Rightarrow> msec \<Rightarrow> draft_row \<Rightarrow> draft_row" where
  "apply_draft_updates u now d = d\<lparr>dr_title := given (du_title u) (dr_title d), dr_type := given (du_type u) (dr_type d),
     dr_status := given (du_status u) (dr_status d),
     dr_workflow_state := given (du_workflow_state u) (dr_workflow_state d),
     dr_markdown_body := keep_or (du_markdown_body u) (dr_markdown_body d),
     dr_metadata := keep_or (du_metadata u) (dr_metadata d), dr_geography := keep_or (du_geography u) (dr_geography d),
     dr_attached_files := keep_or (du_attached_files u) (dr_attached_files d),
     dr_linked_records := keep_or (du_linked_records u) (dr_linked_records d),
     dr_linked_geography_files := keep_or (du_linked_geography_files u) (dr_linked_geography_files d),
     dr_saved_at := now, dr_updated_at := now\<rparr>"

definition no_draft_updates :: "draft_updates \<Rightarrow> bool" where
  "no_draft_updates u \<longleftrightarrow> u = \<lparr>du_title = JUndef, du_type = JUndef, du_status = JUndef, du_workflow_state = JUndef,
     du_markdown_body = None, du_metadata = None, du_geography = None, du_attached_files = None,
     du_linked_records = None, du_linked_geography_files = None\<rparr>"

definition db_updateDraft :: "string \<Rightarrow> draft_updates \<Rightarrow> unit rec_op" where
  "db_updateDraft rid u =
     eseq (ewhen (du_workflow_state u \<noteq> JUndef)
       (equiet (ebind has_column (\<lambda>has. if has then ereturn () else add_column))))
       (if no_draft_updates u then ereturn ()
        else sql (\<lambda>w. if du_workflow_state u \<noteq> JUndef \<and> \<not> w_draft_column w
          then (Inl (OtherError ''no such column: workflow_state''), w)
          else (Inr (), w\<lparr>w_drafts := map (\<lambda>d. if dr_id d = rid then apply_draft_updates u (clock w) d else d) (w_drafts w)\<rparr>)))"

end
