(* ===== verification/Record_Manager.thy ===== *)
theory Record_Manager
  imports Record_World
begin

section \<open>The record manager\<close>

text \<open>
  \<open>core/src/records/record-manager.ts\<close> with \<open>record-manager/helpers.ts\<close> and
  \<open>file-ops.ts\<close>: building a record from a request, the merge of row and file in
  \<open>getRecord\<close>, and the direct path of drafts, which writes row, file and commit one after the
  other without a saga.
\<close>

subsection \<open>Users and requests\<close>

record auth_user =
  us_id :: jv
  us_username :: jv
  us_role :: jv
  us_email :: jv
  us_name :: jv

record create_request =
  cq_title :: string
  cq_type :: string
  cq_content :: "string option"
  cq_metadata :: jv
  cq_status :: jv
  cq_workflowState :: jv
  cq_createdAt :: "string option"
  cq_updatedAt :: "string option"
  cq_relativePath :: "string option"
  cq_skipFileGeneration :: bool
  cq_geography :: jv
  cq_attachedFiles :: jv
  cq_linkedRecords :: jv
  cq_linkedGeographyFiles :: jv
  cq_authors :: jv
  cq_source :: jv

record update_request =
  uq_title :: jv
  uq_content :: "string option"
  uq_status :: jv
  uq_workflowState :: jv
  uq_relativePath :: "string option"
  uq_skipSaga :: bool
  uq_skipFileGeneration :: bool
  uq_skipAudit :: bool
  uq_skipHooks :: bool
  uq_metadata :: jv
  uq_geography :: jv
  uq_attachedFiles :: jv
  uq_linkedRecords :: jv
  uq_linkedGeographyFiles :: jv
  uq_authors :: jv
  uq_source :: jv

subsection \<open>A record from a request\<close>

definition valid_time :: "record_env \<Rightarrow> string option \<Rightarrow> msec option" where
  "valid_time env t = (case or_null t of None \<Rightarrow> None | Some s \<Rightarrow> re_date_parse env s)"

definition createdAt_text :: "record_env \<Rightarrow> create_request \<Rightarrow> msec \<Rightarrow> string" where
  "createdAt_text env q now = iso_string (case valid_time env (cq_createdAt q) of None \<Rightarrow> now | Some t \<Rightarrow> t)"

definition updatedAt_text :: "record_env \<Rightarrow> create_request \<Rightarrow> msec \<Rightarrow> string" where
  "updatedAt_text env q now = (case valid_time env (cq_updatedAt q) of
     None \<Rightarrow> createdAt_text env q now | Some t \<Rightarrow> iso_string t)"

definition legal_types :: "string list" where
  "legal_types = [''bylaw'', ''ordinance'', ''policy'', ''proclamation'', ''resolution'']"

definition document_number :: "record_env \<Rightarrow> create_request \<Rightarrow> members \<Rightarrow> msec \<Rightarrow> jv" where
  "document_number env q metadata now =
     (let given = jget metadata ''document_number'' in
      if \<not> jtruthy given \<and> cq_type q \<in> set legal_types then
        let year = re_local_year env (case or_null (cq_createdAt q) of None \<Rightarrow> now
              | Some t \<Rightarrow> (case re_date_parse env t of None \<Rightarrow> now | Some d \<Rightarrow> d)) in
        JStr (generate (re_formats env) (re_local_year env now) (cq_type q) (Some year) (getNextSequence (cq_type q) (Some year)))
      else given)"

definition add_default :: "string \<Rightarrow> jv \<Rightarrow> members \<Rightarrow> members" where
  "add_default k v kvs = set_if (jtruthy v \<and> jget kvs k = JUndef) k v kvs"

definition metadata_defaults :: "auth_user \<Rightarrow> string \<Rightarrow> string \<Rightarrow> members \<Rightarrow> members" where
  "metadata_defaults user createdAt updatedAt kvs =
     add_default ''updated'' (JStr updatedAt) (add_default ''created'' (JStr createdAt)
     (add_default ''authorEmail'' (us_email user) (add_default ''authorName'' (us_name user)
     (add_default ''authorId'' (us_id user) (add_default ''author'' (us_username user) kvs)))))"

definition requested_path :: "record_env \<Rightarrow> create_request \<Rightarrow> string \<Rightarrow> msec \<Rightarrow> string" where
  "requested_path env q recordId now = (case or_null (cq_relativePath q) of
     Some p \<Rightarrow> unbackslash p
   | None \<Rightarrow> buildRecordRelativePath (re_date_parse env) (cq_type q) recordId (DateText (createdAt_text env q now)) now)"

definition default_authors :: "auth_user \<Rightarrow> jv" where
  "default_authors user = JArr [JObj [(''name'', jor (us_name user) (us_username user)), (''username'', us_username user),
     (''role'', us_role user), (''email'', us_email user)]]"

definition record_of_request :: "record_env \<Rightarrow> create_request \<Rightarrow> auth_user \<Rightarrow> string \<Rightarrow> jv \<Rightarrow> members \<Rightarrow> msec \<Rightarrow> record_data" where
  "record_of_request env q user recordId workflowState metadata now = \<lparr>rd_id = JStr recordId, rd_title = JStr (cq_title q),
     rd_type = JStr (cq_type q), rd_status = jor (cq_status q) (JStr ''draft''), rd_workflowState = workflowState,
     rd_content = cq_content q, rd_metadata = JObj metadata, rd_geography = cq_geography q,
     rd_attachedFiles = cq_attachedFiles q, rd_linkedRecords = cq_linkedRecords q,
     rd_linkedGeographyFiles = cq_linkedGeographyFiles q, rd_path = Some (requested_path env q recordId now),
     rd_author = us_username user, rd_authors = jor (cq_authors q) (default_authors user),
     rd_created_at = JStr (createdAt_text env q now), rd_updated_at = JStr (updatedAt_text env q now),
     rd_source = cq_source q, rd_commit_ref = JUndef, rd_commit_signature = JUndef\<rparr>"

text \<open>\<open>createRecord\<close> and the create saga: a document number for legal types, and no editorial
  state counts as \<open>draft\<close>.\<close>

definition numbered_record :: "record_env \<Rightarrow> create_request \<Rightarrow> auth_user \<Rightarrow> string \<Rightarrow> msec \<Rightarrow> record_data" where
  "numbered_record env q user recordId now =
     (let given = own_members (jor (cq_metadata q) (JObj []));
          number = document_number env q given now;
          metadata = metadata_defaults user (createdAt_text env q now) (updatedAt_text env q now) given in
      record_of_request env q user recordId (jor (cq_workflowState q) (JStr ''draft''))
        (set_if (jtruthy number) ''document_number'' number metadata) now)"

text \<open>\<open>createRecordWithId\<close>: an editorial state of \<open>null\<close> is kept, and no number is given.\<close>

definition plain_record :: "record_env \<Rightarrow> create_request \<Rightarrow> auth_user \<Rightarrow> string \<Rightarrow> msec \<Rightarrow> record_data" where
  "plain_record env q user recordId now = record_of_request env q user recordId
     (if cq_workflowState q = JUndef then JStr ''draft'' else cq_workflowState q)
     (metadata_defaults user (createdAt_text env q now) (updatedAt_text env q now)
        (own_members (jor (cq_metadata q) (JObj [])))) now"

definition row_of_record :: "string \<Rightarrow> record_data \<Rightarrow> record_row" where
  "row_of_record rid r = \<lparr>rr_id = rid, rr_title = rd_title r, rr_type = rd_type r, rr_status = rd_status r,
     rr_workflow_state = rd_workflowState r, rr_content = rd_content r, rr_metadata = stringify (rd_metadata r),
     rr_geography = stringify_if (rd_geography r), rr_attached_files = stringify_if (rd_attachedFiles r),
     rr_linked_records = stringify_if (rd_linkedRecords r),
     rr_linked_geography_files = stringify_if (rd_linkedGeographyFiles r), rr_path = rd_path r,
     rr_author = rd_author r, rr_created_at = 0, rr_updated_at = 0\<rparr>"

subsection \<open>Reading a record\<close>

definition parser_now :: "record_env \<Rightarrow> msec \<Rightarrow> parser_env" where
  "parser_now env now = re_parser env\<lparr>pe_now := now\<rparr>"

definition or_empty :: "json_text option \<Rightarrow> jv" where
  "or_empty t = (case t of Some (Json v) \<Rightarrow> v | _ \<Rightarrow> JArr [])"

text \<open>The record as the row alone has it.\<close>

definition row_metadata :: "json_text option \<Rightarrow> jv" where
  "row_metadata t = (if \<not> text_truthy t then JUndef
     else case t of Some (Json v) \<Rightarrow> if v = JNull then JObj [] else v | _ \<Rightarrow> JObj [])"

definition row_source :: "jv \<Rightarrow> jv" where
  "row_source metadata = (case jmember metadata ''source'' of
     JStr s \<Rightarrow> if s = [] then JUndef else JObj [(''reference'', JStr s)]
   | v \<Rightarrow> if jtruthy v then v else JUndef)"

definition record_of_row :: "record_row \<Rightarrow> record_data" where
  "record_of_row row = (let m = row_metadata (rr_metadata row) in
     \<lparr>rd_id = JStr (rr_id row), rd_title = rr_title row, rd_type = rr_type row,
      rd_status = jor (rr_status row) (JStr ''draft''), rd_workflowState = col (rr_workflow_state row),
      rd_content = Some (case rr_content row of None \<Rightarrow> [] | Some c \<Rightarrow> c), rd_metadata = m,
      rd_geography = (case rr_geography row of Some (Json v) \<Rightarrow> v | _ \<Rightarrow> JUndef),
      rd_attachedFiles = or_empty (rr_attached_files row), rd_linkedRecords = or_empty (rr_linked_records row),
      rd_linkedGeographyFiles = or_empty (rr_linked_geography_files row), rd_path = rr_path row,
      rd_author = jor (rr_author row) (JStr ''unknown''),
      rd_authors = (if jtruthy (jmember m ''authors'') then jmember m ''authors'' else JUndef),
      rd_created_at = JStr (sql_time (rr_created_at row)), rd_updated_at = JStr (sql_time (rr_updated_at row)),
      rd_source = row_source m, rd_commit_ref = JUndef, rd_commit_signature = JUndef\<rparr>)"

text \<open>The file wins over the row, but for the path and the editorial state.\<close>

definition merged_record :: "record_row \<Rightarrow> record_data \<Rightarrow> record_data" where
  "merged_record row parsed = parsed\<lparr>rd_path := rr_path row, rd_workflowState := col (rr_workflow_state row),
     rd_created_at := jor (rd_created_at parsed) (JStr (sql_time (rr_created_at row))),
     rd_updated_at := jor (rd_updated_at parsed) (JStr (sql_time (rr_updated_at row)))\<rparr>"

definition parse_record :: "record_env \<Rightarrow> string \<Rightarrow> string option \<Rightarrow> record_data rec_op" where
  "parse_record env content path = (\<lambda>w. case parseFromMarkdown (parser_now env (clock w)) content path of
     Inl e \<Rightarrow> (Inl (OtherError e), w) | Inr r \<Rightarrow> (Inr r, w))"

definition getRecord :: "record_env \<Rightarrow> string \<Rightarrow> record_data option rec_op" where
  "getRecord env rid = ebind (db_getRecord rid) (\<lambda>found. case found of
     None \<Rightarrow> ereturn None
   | Some row \<Rightarrow> (case or_null (rr_path row) of
       None \<Rightarrow> ereturn (Some (record_of_row row))
     | Some p \<Rightarrow> ecatch
         (ebind (read_file env p) (\<lambda>content. ebind (parse_record env content (rr_path row))
           (\<lambda>parsed. ereturn (Some (merged_record row parsed)))))
         (\<lambda>e. ereturn (Some (record_of_row row)))))"

subsection \<open>Writing the file\<close>

definition normalizeSource :: "record_data \<Rightarrow> record_data" where
  "normalizeSource r = (case rd_source r of
     JStr s \<Rightarrow> if s = [] then r else r\<lparr>rd_source := JObj [(''reference'', JStr s)]\<rparr>
   | _ \<Rightarrow> r)"

definition serialize_record :: "record_env \<Rightarrow> record_data \<Rightarrow> string rec_op" where
  "serialize_record env r = (\<lambda>w. case serializeToMarkdown (parser_now env (clock w)) (normalizeSource r) of
     Inl e \<Rightarrow> (Inl (OtherError e), w) | Inr t \<Rightarrow> (Inr t, w))"

text \<open>\<open>normalizeFrontmatterForValidation\<close> of \<open>helpers.ts\<close>; its \<open>normalizeDatesInObject\<close> is the
  parser's \<open>normalizeDateValues\<close>.\<close>

definition normalizeFrontmatterForValidation :: "members \<Rightarrow> members" where
  "normalizeFrontmatterForValidation fm =
     (let fm1 = date_to_text ''date'' (date_to_text ''updated'' (date_to_text ''created'' fm));
          source = jget fm1 ''source'';
          fm2 = (case source of
             JStr s \<Rightarrow> set_if (s \<noteq> []) ''source'' (JObj [(''reference'', JStr s)]) fm1
           | _ \<Rightarrow> set_if (jtruthy source \<and> is_object source) ''source'' (normalizeDateValues source) fm1);
          metadata = jget fm2 ''metadata'' in
      set_if (jtruthy metadata \<and> is_object metadata) ''metadata'' (normalizeDateValues metadata) fm2)"

definition check_schema :: "record_env \<Rightarrow> (members \<Rightarrow> members) \<Rightarrow> string \<Rightarrow> string \<Rightarrow> jv \<Rightarrow> unit rec_op" where
  "check_schema env prepare prefix content type = (case pe_matter (re_parser env) content of
     Inl e \<Rightarrow> ethrow (OtherError e)
   | Inr (data, body) \<Rightarrow> (case pe_schema (re_parser env) (prepare (own_members data)) type of (valid, errs) \<Rightarrow>
       if \<not> valid \<and> errs \<noteq> [] then ethrow (OtherError (prefix @ schema_message errs)) else ereturn ()))"

definition record_id_text :: "record_data \<Rightarrow> string" where
  "record_id_text r = js_text (rd_id r)"

definition write_record_file :: "record_env \<Rightarrow> string \<Rightarrow> string \<Rightarrow> record_data \<Rightarrow> unit rec_op" where
  "write_record_file env action verb r = (case or_null (rd_path r) of
     None \<Rightarrow> ereturn ()
   | Some p \<Rightarrow> ebind (serialize_record env r) (\<lambda>content.
       eseq (check_schema env normalizeFrontmatterForValidation
         (''Schema validation failed before '' @ action @ '' record '' @ record_id_text r @ '': '') content (rd_type r))
       (eseq (ensureDirectoryForRecordPath env p)
       (eseq (write_file env p content)
       (eseq (git_commit env (verb @ '' record: '' @ js_text (rd_title r)) [p]) (ereturn ()))))))"

definition createRecordFile :: "record_env \<Rightarrow> record_data \<Rightarrow> unit rec_op" where
  "createRecordFile env r = write_record_file env ''saving'' ''Create'' r"

definition updateRecordFile :: "record_env \<Rightarrow> record_data \<Rightarrow> unit rec_op" where
  "updateRecordFile env r = write_record_file env ''updating'' ''Update'' r"

definition date_of_jv :: "jv \<Rightarrow> date_input" where
  "date_of_jv v = (case v of JStr s \<Rightarrow> DateText s | JDate t \<Rightarrow> DateValue (Some t) | _ \<Rightarrow> NoDate)"

definition archive_path :: "record_env \<Rightarrow> record_data \<Rightarrow> string \<Rightarrow> msec \<Rightarrow> string" where
  "archive_path env r p now = (let parsed = parseRecordRelativePath p; type = js_text (rd_type r) in
     if truthy (pi_year parsed) \<and> JStr (pi_type parsed) = rd_type r
     then unbackslash (path_join [''archive'', type, the (pi_year parsed), record_id_text r @ ''.md''])
     else buildArchiveRelativePath (re_date_parse env) type (record_id_text r) (date_of_jv (rd_created_at r)) now)"

definition archiveRecordFile :: "record_env \<Rightarrow> record_data \<Rightarrow> unit rec_op" where
  "archiveRecordFile env r = (case or_null (rd_path r) of
     None \<Rightarrow> ereturn ()
   | Some p \<Rightarrow> ebind (eget (\<lambda>w. archive_path env r p (clock w))) (\<lambda>target.
       eseq (ensureDirectoryForRecordPath env target)
       (eseq (rename_file env p target)
       (eseq (git_commit env (''Archive record: '' @ js_text (rd_title r)) [target]) (ereturn ())))))"

subsection \<open>The direct path\<close>

definition store_new_record :: "record_env \<Rightarrow> create_request \<Rightarrow> string \<Rightarrow> record_data \<Rightarrow> record_data rec_op" where
  "store_new_record env q recordId r =
     eseq (db_createRecord (row_of_record recordId r))
     (eseq (ewhen (\<not> cq_skipFileGeneration q) (createRecordFile env r))
     (eseq (write_audit ''create_record'' recordId)
     (eseq (emit_hook env ''record:created'' r) (ereturn r))))"

text \<open>\<open>createRecord\<close> below its choice of the saga.\<close>

definition createRecord_direct :: "record_env \<Rightarrow> create_request \<Rightarrow> auth_user \<Rightarrow> record_data rec_op" where
  "createRecord_direct env q user = ebind (eget clock) (\<lambda>now.
     let rid = ''record-'' @ show_int now in store_new_record env q rid (numbered_record env q user rid now))"

definition createRecordWithId :: "record_env \<Rightarrow> string \<Rightarrow> create_request \<Rightarrow> auth_user \<Rightarrow> record_data rec_op" where
  "createRecordWithId env recordId q user = ebind (eget clock) (\<lambda>now.
     store_new_record env q recordId (plain_record env q user recordId now))"

definition uses_create_saga :: "create_request \<Rightarrow> bool" where
  "uses_create_saga q \<longleftrightarrow> jtruthy (cq_status q) \<and> cq_status q \<noteq> JStr ''draft'' \<and> \<not> cq_skipFileGeneration q"

subsection \<open>Updates\<close>

definition source_object :: "jv \<Rightarrow> jv" where
  "source_object v = (case v of JStr s \<Rightarrow> if s = [] then v else JObj [(''reference'', JStr s)] | _ \<Rightarrow> v)"

text \<open>The updated record: the existing one, its source as an object, the given fields over it,
  the metadata merged, a source inside the metadata moved out.\<close>

definition updated_fields :: "record_data \<Rightarrow> update_request \<Rightarrow> string \<Rightarrow> record_data" where
  "updated_fields existing q now = existing\<lparr>rd_updated_at := JStr now,
     rd_title := given (uq_title q) (rd_title existing),
     rd_content := keep_or (uq_content q) (rd_content existing),
     rd_status := given (uq_status q) (rd_status existing),
     rd_workflowState := given (uq_workflowState q) (rd_workflowState existing),
     rd_geography := given (uq_geography q) (rd_geography existing),
     rd_attachedFiles := given (uq_attachedFiles q) (rd_attachedFiles existing),
     rd_linkedRecords := given (uq_linkedRecords q) (rd_linkedRecords existing),
     rd_linkedGeographyFiles := given (uq_linkedGeographyFiles q) (rd_linkedGeographyFiles existing),
     rd_path := keep_or (map_option unbackslash (uq_relativePath q)) (rd_path existing),
     rd_authors := given (uq_authors q) (rd_authors existing),
     rd_source := given (uq_source q) (source_object (rd_source existing))\<rparr>"

definition merged_metadata :: "record_data \<Rightarrow> update_request \<Rightarrow> members" where
  "merged_metadata existing q = spread (spread [] (own_members (rd_metadata existing)))
     (own_members (jor (uq_metadata q) (JObj [])))"

definition updated_record :: "record_data \<Rightarrow> update_request \<Rightarrow> string \<Rightarrow> record_data" where
  "updated_record existing q now =
     (let r = updated_fields existing q now; m = merged_metadata existing q in
      case jget m ''source'' of
        JStr s \<Rightarrow> if s = [] then r\<lparr>rd_metadata := JObj m\<rparr>
          else r\<lparr>rd_metadata := JObj (jm_delete ''source'' m),
                 rd_source := (if jtruthy (rd_source r) then rd_source r else JObj [(''reference'', JStr s)])\<rparr>
      | _ \<Rightarrow> r\<lparr>rd_metadata := JObj m\<rparr>)"

definition metadata_column :: "record_data \<Rightarrow> json_text option" where
  "metadata_column r = stringify (JObj (set_if (jtruthy (rd_source r)) ''source'' (rd_source r)
     (set_if (jtruthy (rd_authors r)) ''authors'' (rd_authors r) (own_members (rd_metadata r)))))"

definition given_text :: "jv \<Rightarrow> json_text option option" where
  "given_text v = (if v = JUndef then None else Some (stringify v))"

definition request_updates :: "update_request \<Rightarrow> record_data \<Rightarrow> row_updates" where
  "request_updates q updated = \<lparr>ru_title = uq_title q, ru_status = uq_status q, ru_workflow_state = uq_workflowState q,
     ru_content = map_option Some (uq_content q), ru_metadata = Some (metadata_column updated),
     ru_geography = given_text (uq_geography q), ru_attached_files = given_text (uq_attachedFiles q),
     ru_linked_records = given_text (uq_linkedRecords q), ru_linked_geography_files = given_text (uq_linkedGeographyFiles q),
     ru_path = (if uq_relativePath q = None then None else Some (rd_path updated))\<rparr>"

definition uses_update_saga :: "update_request \<Rightarrow> record_data \<Rightarrow> bool" where
  "uses_update_saga q existing \<longleftrightarrow> jtruthy (rd_status existing) \<and> rd_status existing \<noteq> JStr ''draft'' \<and> \<not> uq_skipSaga q"

text \<open>\<open>updateRecord\<close> below its choice of the saga: the record is read a second time.\<close>

definition updateRecord_direct :: "record_env \<Rightarrow> string \<Rightarrow> update_request \<Rightarrow> record_data option rec_op" where
  "updateRecord_direct env rid q = ebind (getRecord env rid) (\<lambda>found. case found of
     None \<Rightarrow> ereturn None
   | Some existing \<Rightarrow> ebind now_iso (\<lambda>now.
       let updated = updated_record existing q now in
       eseq (db_updateRecord rid (request_updates q updated))
       (eseq (ewhen (\<not> uq_skipFileGeneration q) (updateRecordFile env updated))
       (eseq (ewhen (\<not> uq_skipAudit q) (write_audit ''update_record'' rid))
       (eseq (ewhen (\<not> uq_skipHooks q \<and> \<not> uq_skipFileGeneration q) (emit_hook env ''record:updated'' updated))
         (ereturn (Some updated)))))))"

end
