(* ===== verification/Record_Sagas.thy ===== *)
theory Record_Sagas
  imports Record_Manager Saga_Executor
begin

section \<open>The sagas of the record operations\<close>

text \<open>
  \<open>core/src/saga/create-record-saga.ts\<close>, \<open>update-record-saga.ts\<close>,
  \<open>archive-record-saga.ts\<close>, \<open>publish-draft-saga.ts\<close> as sagas of \<open>Saga_Executor\<close> over the
  state \<open>rec_world\<close>, one definition per step method, and the entry points of
  \<open>core/src/records/record-manager/sagas.ts\<close>. What a step leaves in the context object is in
  \<open>w_scratch\<close>. A step takes no time here: the timers are the executor's subject.
\<close>

subsection \<open>Steps\<close>

datatype step_value = RecordV record_data | TextV string | BoolV bool | VoidV

type_synonym record_step = "(rec_world, step_value) saga_step"

definition make_step :: "string \<Rightarrow> bool \<Rightarrow> msec \<Rightarrow> (saga_context \<Rightarrow> step_value rec_op) \<Rightarrow>
    (saga_context \<Rightarrow> step_value option \<Rightarrow> unit rec_op) \<Rightarrow> record_step" where
  "make_step name compensatable t run undo = \<lparr>sp_name = name, sp_isCompensatable = compensatable, sp_timeout = Some t,
     sp_execute = (\<lambda>ctx w. case run ctx w of
        (Inr r, w') \<Rightarrow> (Returned r, 0, w') | (Inl e, w') \<Rightarrow> (Threw e, 0, w')),
     sp_compensate = Some undo\<rparr>"

definition no_undo :: "saga_context \<Rightarrow> step_value option \<Rightarrow> unit rec_op" where
  "no_undo ctx r = ereturn ()"

definition remember :: "(saga_scratch \<Rightarrow> saga_scratch) \<Rightarrow> unit rec_op" where
  "remember f = emodify (\<lambda>w. w\<lparr>w_scratch := f (w_scratch w)\<rparr>)"

definition scratch :: "(saga_scratch \<Rightarrow> 'a) \<Rightarrow> 'a rec_op" where
  "scratch f = eget (\<lambda>w. f (w_scratch w))"

definition need :: "string \<Rightarrow> (saga_scratch \<Rightarrow> 'a option) \<Rightarrow> ('a \<Rightarrow> 'b rec_op) \<Rightarrow> 'b rec_op" where
  "need msg f k = ebind (scratch f) (\<lambda>x. case x of None \<Rightarrow> ethrow (OtherError msg) | Some a \<Rightarrow> k a)"

definition ctx_recordId :: "saga_context \<Rightarrow> string" where
  "ctx_recordId ctx = (case cx_recordId ctx of Some s \<Rightarrow> s | None \<Rightarrow> [])"

definition ctx_draftId :: "saga_context \<Rightarrow> string" where
  "ctx_draftId ctx = (case cx_draftId ctx of Some s \<Rightarrow> s | None \<Rightarrow> [])"

subsection \<open>Steps that several sagas have\<close>

definition saga_frontmatter :: "members \<Rightarrow> members" where
  "saga_frontmatter fm = date_to_text ''updated'' (date_to_text ''created'' fm)"

definition file_step :: "record_env \<Rightarrow> string \<Rightarrow> (saga_scratch \<Rightarrow> record_data option) \<Rightarrow> step_value rec_op" where
  "file_step env missing f = need missing f (\<lambda>r. case or_null (rd_path r) of
     None \<Rightarrow> ethrow (OtherError (''Record '' @ record_id_text r @ '' has no path''))
   | Some p \<Rightarrow> ebind (serialize_record env r) (\<lambda>content.
       eseq (check_schema env saga_frontmatter ''Schema validation failed: '' content (rd_type r))
       (eseq (ensureDirectoryForRecordPath env p)
       (eseq (write_file env p content)
       (eseq (remember (\<lambda>s. s\<lparr>sc_filePath := Some p\<rparr>)) (ereturn (TextV p)))))))"

definition undo_file :: "record_env \<Rightarrow> saga_context \<Rightarrow> step_value option \<Rightarrow> unit rec_op" where
  "undo_file env ctx r = (case r of
     Some (TextV p) \<Rightarrow> if p = [] then ereturn () else equiet (unlink_file env p)
   | _ \<Rightarrow> ereturn ())"

definition commit_files :: "record_env \<Rightarrow> string \<Rightarrow> string list \<Rightarrow> step_value rec_op" where
  "commit_files env message files = ebind (git_commit env message files) (\<lambda>h.
     eseq (remember (\<lambda>s. s\<lparr>sc_commitHash := Some h\<rparr>)) (ereturn (TextV h)))"

definition commit_step :: "record_env \<Rightarrow> string \<Rightarrow> (saga_scratch \<Rightarrow> record_data option) \<Rightarrow> (saga_scratch \<Rightarrow> string) \<Rightarrow>
    step_value rec_op" where
  "commit_step env missing f verb = need missing f (\<lambda>r. need missing (\<lambda>s. or_null (sc_filePath s)) (\<lambda>p.
     ebind (scratch verb) (\<lambda>v. commit_files env (v @ '' record: '' @ js_text (rd_title r)) [p])))"

definition queue_indexing :: "record_env \<Rightarrow> step_value rec_op" where
  "queue_indexing env = ebind (scratch sc_record) (\<lambda>r. case r of
     None \<Rightarrow> ereturn VoidV
   | Some r \<Rightarrow> eseq (ewhen (re_indexing env) (emodify (\<lambda>w. w\<lparr>w_queued := w_queued w @ [rd_type r]\<rparr>))) (ereturn VoidV))"

definition hook_step :: "record_env \<Rightarrow> string \<Rightarrow> string \<Rightarrow> (saga_scratch \<Rightarrow> record_data option) \<Rightarrow>
    (record_data \<Rightarrow> step_value) \<Rightarrow> step_value rec_op" where
  "hook_step env missing name f result = need missing f (\<lambda>r. eseq (equiet (emit_hook env name r)) (ereturn (result r)))"

subsection \<open>Create\<close>

definition create_id :: "saga_context \<Rightarrow> msec \<Rightarrow> string" where
  "create_id ctx now = (case or_null (cx_recordId ctx) of
     Some i \<Rightarrow> i
   | None \<Rightarrow> (case or_null (cx_metadata ctx ''recordId'') of Some i \<Rightarrow> i | None \<Rightarrow> ''record-'' @ show_int now))"

definition CreateInRecords :: "record_env \<Rightarrow> create_request \<Rightarrow> auth_user \<Rightarrow> saga_context \<Rightarrow> step_value rec_op" where
  "CreateInRecords env q user ctx = ebind (eget clock) (\<lambda>now.
     let rid = create_id ctx now; r = numbered_record env q user rid now in
     eseq (db_createRecord (row_of_record rid r))
     (eseq (remember (\<lambda>s. s\<lparr>sc_record := Some r\<rparr>)) (ereturn (RecordV r))))"

definition undo_CreateInRecords :: "saga_context \<Rightarrow> step_value option \<Rightarrow> unit rec_op" where
  "undo_CreateInRecords ctx r = (case r of Some (RecordV x) \<Rightarrow> delete_record_row (rd_id x) | _ \<Rightarrow> ereturn ())"

definition undo_EmitHooks :: "record_env \<Rightarrow> saga_context \<Rightarrow> step_value option \<Rightarrow> unit rec_op" where
  "undo_EmitHooks env ctx r = (case r of
     Some (RecordV x) \<Rightarrow> equiet (emit_hook env ''record:created:reverted'' x) | _ \<Rightarrow> ereturn ())"

definition no_record :: string where
  "no_record = ''Record not available in context''"

definition CreateRecordSaga :: "record_env \<Rightarrow> create_request \<Rightarrow> auth_user \<Rightarrow> (rec_world, step_value) saga" where
  "CreateRecordSaga env q user = \<lparr>sg_name = ''CreateRecord'', sg_version = Some ''1.0.0'',
     sg_steps =
      [make_step ''CreateInRecords'' True 30000 (CreateInRecords env q user) undo_CreateInRecords,
       make_step ''CreateFile'' True 30000 (\<lambda>ctx. file_step env no_record sc_record) (undo_file env),
       make_step ''CommitToGit'' False 30000 (\<lambda>ctx. commit_step env ''Record and filePath not available in context'' sc_record (\<lambda>_. ''Create'')) no_undo,
       make_step ''QueueIndexing'' False 5000 (\<lambda>ctx. queue_indexing env) no_undo,
       make_step ''EmitHooks'' True 5000 (\<lambda>ctx. hook_step env no_record ''record:created'' sc_record RecordV) (undo_EmitHooks env)],
     sg_validate = Some (\<lambda>ctx.
       let errs = (if cq_title q = [] then [''request.title is required''] else []) @
         (if cq_type q = [] then [''request.type is required''] else []) @
         (if cx_correlationId ctx = [] then [''correlationId is required''] else []) in
       (errs = [], if errs = [] then None else Some errs))\<rparr>"

subsection \<open>Update\<close>

definition UpdateInRecords :: "record_env \<Rightarrow> update_request \<Rightarrow> saga_context \<Rightarrow> step_value rec_op" where
  "UpdateInRecords env q ctx = ebind (getRecord env (ctx_recordId ctx)) (\<lambda>found. case found of
     None \<Rightarrow> ethrow (OtherError (''Record not found: '' @ ctx_recordId ctx))
   | Some existing \<Rightarrow>
       eseq (remember (\<lambda>s. s\<lparr>sc_originalRecord := Some existing\<rparr>))
       (ebind now_iso (\<lambda>now. let updated = updated_record existing q now in
         eseq (db_updateRecord (ctx_recordId ctx) (request_updates q updated))
         (eseq (remember (\<lambda>s. s\<lparr>sc_updatedRecord := Some updated\<rparr>)) (ereturn (RecordV updated))))))"

definition reset_col :: "jv \<Rightarrow> json_text option option" where
  "reset_col v = Some (stringify_if v)"

definition original_updates :: "record_data \<Rightarrow> row_updates" where
  "original_updates orig = \<lparr>ru_title = rd_title orig, ru_status = rd_status orig, ru_workflow_state = rd_workflowState orig,
     ru_content = map_option Some (rd_content orig), ru_metadata = Some (metadata_column orig),
     ru_geography = reset_col (rd_geography orig), ru_attached_files = reset_col (rd_attachedFiles orig),
     ru_linked_records = reset_col (rd_linkedRecords orig), ru_linked_geography_files = reset_col (rd_linkedGeographyFiles orig),
     ru_path = (if truthy (rd_path orig) then Some (rd_path orig) else None)\<rparr>"

definition undo_UpdateInRecords :: "saga_context \<Rightarrow> step_value option \<Rightarrow> unit rec_op" where
  "undo_UpdateInRecords ctx r = ebind (scratch sc_originalRecord) (\<lambda>original. case (original, r) of
     (Some orig, Some _) \<Rightarrow> db_updateRecord (ctx_recordId ctx) (original_updates orig)
   | _ \<Rightarrow> ereturn ())"

definition undo_UpdateFile :: "record_env \<Rightarrow> saga_context \<Rightarrow> step_value option \<Rightarrow> unit rec_op" where
  "undo_UpdateFile env ctx r = ebind (scratch sc_originalRecord) (\<lambda>original. case (original, r) of
     (Some orig, Some (TextV p)) \<Rightarrow> if p = [] then ereturn ()
        else equiet (ebind (serialize_record env orig) (\<lambda>content. write_file env p content))
   | _ \<Rightarrow> ereturn ())"

definition no_updated :: string where
  "no_updated = ''Updated record not available in context''"

definition UpdateRecordSaga :: "record_env \<Rightarrow> update_request \<Rightarrow> (rec_world, step_value) saga" where
  "UpdateRecordSaga env q = \<lparr>sg_name = ''UpdateRecord'', sg_version = Some ''1.0.0'',
     sg_steps =
      [make_step ''UpdateInRecords'' True 30000 (UpdateInRecords env q) undo_UpdateInRecords,
       make_step ''UpdateFile'' True 30000 (\<lambda>ctx. file_step env no_updated sc_updatedRecord) (undo_UpdateFile env),
       make_step ''CommitToGit'' False 30000 (\<lambda>ctx. commit_step env ''Updated record and filePath not available in context'' sc_updatedRecord (\<lambda>_. ''Update'')) no_undo,
       make_step ''EmitHooks'' False 5000 (\<lambda>ctx. hook_step env no_updated ''record:updated'' sc_updatedRecord RecordV) no_undo],
     sg_validate = Some (\<lambda>ctx.
       let errs = (if ctx_recordId ctx = [] then [''recordId is required''] else []) @
         (if cx_correlationId ctx = [] then [''correlationId is required''] else []) in
       (errs = [], if errs = [] then None else Some errs))\<rparr>"

subsection \<open>Archive\<close>

definition archived_metadata :: "record_data \<Rightarrow> auth_user \<Rightarrow> string \<Rightarrow> members" where
  "archived_metadata r user now = spread (spread [] (own_members (rd_metadata r)))
     [(''archived_by'', us_username user), (''archived_by_id'', us_id user),
      (''archived_by_name'', jor (us_name user) (us_username user)), (''archived_at'', JStr now)]"

definition UpdateStatusToArchived :: "record_env \<Rightarrow> auth_user \<Rightarrow> saga_context \<Rightarrow> step_value rec_op" where
  "UpdateStatusToArchived env user ctx = ebind (getRecord env (ctx_recordId ctx)) (\<lambda>found. case found of
     None \<Rightarrow> ethrow (OtherError (''Record not found: '' @ ctx_recordId ctx))
   | Some r \<Rightarrow>
       eseq (remember (\<lambda>s. s\<lparr>sc_originalRecord := Some r, sc_originalFilePath := rd_path r\<rparr>))
       (ebind now_iso (\<lambda>now.
         eseq (db_updateRecord (ctx_recordId ctx) (no_updates\<lparr>ru_status := JStr ''archived'',
           ru_metadata := Some (stringify (JObj (archived_metadata r user now)))\<rparr>))
         (ebind (getRecord env (ctx_recordId ctx)) (\<lambda>again. case again of
            None \<Rightarrow> ethrow (OtherError (''Failed to retrieve updated record: '' @ ctx_recordId ctx))
          | Some u \<Rightarrow> ereturn (RecordV u))))))"

definition undo_UpdateStatus :: "saga_context \<Rightarrow> step_value option \<Rightarrow> unit rec_op" where
  "undo_UpdateStatus ctx r = ebind (scratch sc_originalRecord) (\<lambda>original. case (original, r) of
     (Some orig, Some _) \<Rightarrow> db_updateRecord (ctx_recordId ctx)
        (no_updates\<lparr>ru_status := rd_status orig, ru_metadata := given_text (rd_metadata orig)\<rparr>)
   | _ \<Rightarrow> ereturn ())"

definition MoveFileToArchive :: "record_env \<Rightarrow> saga_context \<Rightarrow> step_value rec_op" where
  "MoveFileToArchive env ctx = need ''Original record and file path not available in context'' sc_originalRecord (\<lambda>r.
     need ''Original record and file path not available in context'' (\<lambda>s. or_null (sc_originalFilePath s)) (\<lambda>p.
     ebind (eget (\<lambda>w. archive_path env r p (clock w))) (\<lambda>target.
       eseq (ensureDirectoryForRecordPath env target)
       (eseq (rename_file env p target)
       (eseq (remember (\<lambda>s. s\<lparr>sc_archiveFilePath := Some target\<rparr>)) (ereturn (TextV target)))))))"

definition undo_MoveFile :: "record_env \<Rightarrow> saga_context \<Rightarrow> step_value option \<Rightarrow> unit rec_op" where
  "undo_MoveFile env ctx r = ebind (scratch (\<lambda>s. or_null (sc_originalFilePath s))) (\<lambda>original. case (original, r) of
     (Some p, Some (TextV target)) \<Rightarrow> if target = [] then ereturn ()
        else equiet (eseq (ensureDirectoryForRecordPath env p) (rename_file env target p))
   | _ \<Rightarrow> ereturn ())"

definition CommitArchive :: "record_env \<Rightarrow> saga_context \<Rightarrow> step_value rec_op" where
  "CommitArchive env ctx = need ''Record and archive file path not available in context'' sc_originalRecord (\<lambda>r.
     need ''Record and archive file path not available in context'' (\<lambda>s. or_null (sc_archiveFilePath s)) (\<lambda>target.
     need ''Record and archive file path not available in context'' (\<lambda>s. or_null (sc_originalFilePath s)) (\<lambda>p.
       commit_files env (''Archive record: '' @ js_text (rd_title r)) [target, p])))"

definition RemoveFromIndex :: "saga_context \<Rightarrow> step_value rec_op" where
  "RemoveFromIndex ctx = ebind (scratch sc_originalRecord) (\<lambda>r. case r of
     None \<Rightarrow> ereturn VoidV
   | Some orig \<Rightarrow> eseq (equiet (removeRecordFromIndex (ctx_recordId ctx) (rd_type orig))) (ereturn VoidV))"

definition ArchiveRecordSaga :: "record_env \<Rightarrow> auth_user \<Rightarrow> (rec_world, step_value) saga" where
  "ArchiveRecordSaga env user = \<lparr>sg_name = ''ArchiveRecord'', sg_version = Some ''1.0.0'',
     sg_steps =
      [make_step ''UpdateStatusToArchived'' True 30000 (UpdateStatusToArchived env user) undo_UpdateStatus,
       make_step ''MoveFileToArchive'' True 30000 (MoveFileToArchive env) (undo_MoveFile env),
       make_step ''CommitToGit'' False 30000 (CommitArchive env) no_undo,
       make_step ''RemoveFromIndex'' False 5000 RemoveFromIndex no_undo,
       make_step ''EmitHooks'' False 5000 (\<lambda>ctx. hook_step env ''Original record not available in context'' ''record:archived'' sc_originalRecord (\<lambda>_. BoolV True)) no_undo],
     sg_validate = Some (\<lambda>ctx.
       let errs = (if ctx_recordId ctx = [] then [''recordId is required''] else []) @
         (if cx_correlationId ctx = [] then [''correlationId is required''] else []) in
       (errs = [], if errs = [] then None else Some errs))\<rparr>"

subsection \<open>Publish\<close>

text \<open>\<open>x ? JSON.parse(x) : d\<close>.\<close>

definition parse_column :: "jv \<Rightarrow> json_text option \<Rightarrow> jv rec_op" where
  "parse_column d t = (if \<not> text_truthy t then ereturn d
     else case t of Some (Json v) \<Rightarrow> ereturn v | _ \<Rightarrow> ethrow (OtherError ''Unexpected token in JSON''))"

definition draft_columns :: "draft_row \<Rightarrow> (jv \<Rightarrow> jv \<Rightarrow> jv \<Rightarrow> jv \<Rightarrow> jv \<Rightarrow> 'a rec_op) \<Rightarrow> 'a rec_op" where
  "draft_columns d k = ebind (parse_column (JObj []) (dr_metadata d)) (\<lambda>m.
     ebind (parse_column JUndef (dr_geography d)) (\<lambda>g. ebind (parse_column JUndef (dr_attached_files d)) (\<lambda>a.
     ebind (parse_column JUndef (dr_linked_records d)) (\<lambda>l.
     ebind (parse_column JUndef (dr_linked_geography_files d)) (\<lambda>lg. k m g a l lg)))))"

text \<open>The published record over an existing row.\<close>

definition republished :: "record_env \<Rightarrow> record_row \<Rightarrow> draft_row \<Rightarrow> jv \<Rightarrow> jv \<Rightarrow> jv \<Rightarrow> jv \<Rightarrow> jv \<Rightarrow> jv \<Rightarrow> msec \<Rightarrow> record_data" where
  "republished env row d status m g a l lg now = \<lparr>rd_id = JStr (rr_id row), rd_title = dr_title d, rd_type = rr_type row,
     rd_status = status, rd_workflowState = JNull, rd_content = dr_markdown_body d, rd_metadata = m, rd_geography = g,
     rd_attachedFiles = a, rd_linkedRecords = l, rd_linkedGeographyFiles = lg,
     rd_path = (case or_null (rr_path row) of Some p \<Rightarrow> Some p
       | None \<Rightarrow> Some (buildRecordRelativePath (re_date_parse env) (js_text (rr_type row)) (rr_id row)
           (DateText (sql_time (rr_created_at row))) now)),
     rd_author = jor (rr_author row) (jor (dr_author d) (JStr [])), rd_authors = JUndef,
     rd_created_at = JStr (sql_time (rr_created_at row)), rd_updated_at = JStr (iso_string now), rd_source = JUndef,
     rd_commit_ref = JUndef, rd_commit_signature = JUndef\<rparr>"

definition publish_updates :: "record_data \<Rightarrow> row_updates" where
  "publish_updates r = no_updates\<lparr>ru_title := rd_title r, ru_content := Some (rd_content r), ru_status := rd_status r,
     ru_workflow_state := JNull, ru_geography := map_option Some (stringify_if (rd_geography r)),
     ru_attached_files := map_option Some (stringify_if (rd_attachedFiles r)),
     ru_linked_records := map_option Some (stringify_if (rd_linkedRecords r)),
     ru_linked_geography_files := map_option Some (stringify_if (rd_linkedGeographyFiles r)),
     ru_metadata := Some (metadata_column r)\<rparr>"

definition publish_request :: "draft_row \<Rightarrow> jv \<Rightarrow> jv \<Rightarrow> jv \<Rightarrow> jv \<Rightarrow> jv \<Rightarrow> jv \<Rightarrow> string \<Rightarrow> create_request" where
  "publish_request d status m g a l lg now = \<lparr>cq_title = js_text (dr_title d), cq_type = js_text (dr_type d),
     cq_content = dr_markdown_body d, cq_metadata = m, cq_status = status, cq_workflowState = JNull,
     cq_createdAt = Some (sql_time (dr_created_at d)), cq_updatedAt = Some now, cq_relativePath = None,
     cq_skipFileGeneration = True, cq_geography = g, cq_attachedFiles = a, cq_linkedRecords = l,
     cq_linkedGeographyFiles = lg, cq_authors = JUndef, cq_source = JUndef\<rparr>"

definition MoveToRecords :: "record_env \<Rightarrow> auth_user \<Rightarrow> jv \<Rightarrow> saga_context \<Rightarrow> step_value rec_op" where
  "MoveToRecords env user targetStatus ctx = ebind (db_getDraft (ctx_draftId ctx)) (\<lambda>found. case found of
     None \<Rightarrow> ethrow (OtherError (''Draft not found: '' @ ctx_draftId ctx))
   | Some d \<Rightarrow>
       eseq (remember (\<lambda>s. s\<lparr>sc_draft := Some d\<rparr>))
       (ebind (db_getRecord (ctx_draftId ctx)) (\<lambda>existing.
         let status = jor targetStatus (jor (dr_status d) (JStr ''draft'')) in
         eseq (remember (\<lambda>s. s\<lparr>sc_recordExisted := (existing \<noteq> None)\<rparr>))
         (ebind (draft_columns d (\<lambda>m g a l lg. ebind (eget clock) (\<lambda>now. case existing of
            Some row \<Rightarrow> let r = republished env row d status m g a l lg now in
              eseq (db_updateRecord (ctx_draftId ctx) (publish_updates r)) (ereturn r)
          | None \<Rightarrow> createRecordWithId env (ctx_draftId ctx) (publish_request d status m g a l lg (iso_string now)) user)))
         (\<lambda>r. eseq (remember (\<lambda>s. s\<lparr>sc_record := Some r\<rparr>)) (ereturn (RecordV r)))))))"

definition undo_MoveToRecords :: "saga_context \<Rightarrow> step_value option \<Rightarrow> unit rec_op" where
  "undo_MoveToRecords ctx r = ebind (scratch sc_recordExisted) (\<lambda>existed. case r of
     Some (RecordV x) \<Rightarrow> if existed then ereturn () else delete_record_row (rd_id x)
   | _ \<Rightarrow> ereturn ())"

definition DeleteDraft :: "saga_context \<Rightarrow> step_value rec_op" where
  "DeleteDraft ctx = ebind (db_getDraft (ctx_draftId ctx)) (\<lambda>backup.
     eseq (ewhen (backup \<noteq> None) (remember (\<lambda>s. s\<lparr>sc_draftBackup := backup\<rparr>)))
     (eseq (db_deleteDraft (ctx_draftId ctx)) (ereturn VoidV)))"

definition undo_DeleteDraft :: "saga_context \<Rightarrow> step_value option \<Rightarrow> unit rec_op" where
  "undo_DeleteDraft ctx r = ebind (scratch sc_draftBackup) (\<lambda>backup. case backup of
     None \<Rightarrow> ereturn ()
   | Some d \<Rightarrow> equiet (db_createDraft (d\<lparr>dr_author := (if is_nullish (dr_author d) then JStr [] else dr_author d),
       dr_created_by := (if \<not> is_nullish (dr_created_by d) then dr_created_by d
         else if is_nullish (dr_author d) then JStr [] else dr_author d)\<rparr>)))"

definition PublishDraftSaga :: "record_env \<Rightarrow> auth_user \<Rightarrow> jv \<Rightarrow> (rec_world, step_value) saga" where
  "PublishDraftSaga env user targetStatus = \<lparr>sg_name = ''PublishDraft'', sg_version = Some ''1.0.0'',
     sg_steps =
      [make_step ''MoveToRecords'' True 30000 (MoveToRecords env user targetStatus) undo_MoveToRecords,
       make_step ''CreateOrUpdateFile'' True 30000 (\<lambda>ctx. file_step env no_record sc_record) (undo_file env),
       make_step ''CommitToGit'' False 30000 (\<lambda>ctx. commit_step env ''Record and filePath not available in context'' sc_record
         (\<lambda>s. if sc_recordExisted s then ''Update'' else ''Create'')) no_undo,
       make_step ''DeleteDraft'' True 10000 DeleteDraft undo_DeleteDraft,
       make_step ''QueueIndexing'' False 5000 (\<lambda>ctx. queue_indexing env) no_undo,
       make_step ''EmitHooks'' False 5000 (\<lambda>ctx. hook_step env no_record ''record:published'' sc_record RecordV) no_undo],
     sg_validate = Some (\<lambda>ctx.
       let errs = (if ctx_draftId ctx = [] then [''draftId is required''] else []) @
         (if cx_correlationId ctx = [] then [''correlationId is required''] else []) in
       (errs = [], if errs = [] then None else Some errs))\<rparr>"

subsection \<open>Entry points\<close>

text \<open>A new context has no results of steps yet. The JSON text of the request, which only feeds
  the derived idempotency key, is a parameter.\<close>

type_synonym record_executor = "step_value executor"

type_synonym 'a app_op = "(rec_world world, saga_error, 'a) em"

definition user_ref :: "auth_user \<Rightarrow> user_id option" where
  "user_ref user = (case us_id user of JNum n \<Rightarrow> Some (UserNum (nat n)) | JStr s \<Rightarrow> Some (UserStr s) | _ \<Rightarrow> None)"

definition saga_ctx :: "string \<Rightarrow> auth_user \<Rightarrow> (string \<rightharpoonup> string) \<Rightarrow> saga_context" where
  "saga_ctx corr user meta = \<lparr>cx_correlationId = corr, cx_idempotencyKey = None, cx_user = user_ref user, cx_userId = None,
     cx_metadata = meta, cx_recordId = None, cx_draftId = None, cx_request = None\<rparr>"

definition run_saga :: "record_executor \<Rightarrow> (rec_world, step_value) saga \<Rightarrow> string \<Rightarrow> saga_context \<Rightarrow> step_value option app_op" where
  "run_saga ex sg sid ctx =
     eseq (on_app (emodify (\<lambda>a. a\<lparr>w_scratch := no_scratch\<rparr>)))
     (ebind (execute ex sg sid ctx) (\<lambda>r. ereturn (er_result r)))"

definition named :: "string \<Rightarrow> string option \<Rightarrow> string" where
  "named d corr = (case or_null corr of Some c \<Rightarrow> c | None \<Rightarrow> d)"

definition result_id :: "step_value option \<Rightarrow> string option" where
  "result_id r = (case r of Some (RecordV x) \<Rightarrow> (if is_nullish (rd_id x) then None else Some (js_text (rd_id x))) | _ \<Rightarrow> None)"

definition createRecordSaga :: "record_env \<Rightarrow> record_executor \<Rightarrow> string \<Rightarrow> string \<Rightarrow> create_request \<Rightarrow> auth_user \<Rightarrow>
    string option \<Rightarrow> string option \<Rightarrow> step_value option app_op" where
  "createRecordSaga env ex sid payload q user recordId corr = ebind (on_app (eget clock)) (\<lambda>now.
     let effective = (case or_null recordId of Some i \<Rightarrow> i | None \<Rightarrow> ''record-'' @ show_int now);
         ctx = (saga_ctx (named (''create-'' @ effective) corr) user
           [''recordType'' \<mapsto> cq_type q, ''recordId'' \<mapsto> effective])\<lparr>cx_recordId := recordId, cx_request := Some payload\<rparr> in
     ebind (run_saga ex (CreateRecordSaga env q user) sid ctx) (\<lambda>r.
       eseq (on_app (write_audit ''create_record'' (case result_id r of Some i \<Rightarrow> i | None \<Rightarrow> effective))) (ereturn r)))"

definition updateRecordSaga :: "record_env \<Rightarrow> record_executor \<Rightarrow> string \<Rightarrow> string \<Rightarrow> string \<Rightarrow> update_request \<Rightarrow> auth_user \<Rightarrow>
    string option \<Rightarrow> step_value option app_op" where
  "updateRecordSaga env ex sid payload rid q user corr = ebind (on_app (eget clock)) (\<lambda>now.
     let ctx = (saga_ctx (named (''update-'' @ rid @ ''-'' @ show_int now) corr) user
           [''recordId'' \<mapsto> rid])\<lparr>cx_recordId := Some rid, cx_request := Some payload\<rparr> in
     ebind (run_saga ex (UpdateRecordSaga env q) sid ctx) (\<lambda>r.
       eseq (on_app (write_audit ''update_record'' rid)) (ereturn r)))"

definition archiveRecordSaga :: "record_env \<Rightarrow> record_executor \<Rightarrow> string \<Rightarrow> string \<Rightarrow> auth_user \<Rightarrow> string option \<Rightarrow>
    step_value option app_op" where
  "archiveRecordSaga env ex sid rid user corr = ebind (on_app (eget clock)) (\<lambda>now.
     let ctx = (saga_ctx (named (''archive-'' @ rid @ ''-'' @ show_int now) corr) user
           [''recordId'' \<mapsto> rid])\<lparr>cx_recordId := Some rid\<rparr> in
     ebind (run_saga ex (ArchiveRecordSaga env user) sid ctx) (\<lambda>r.
       eseq (on_app (write_audit ''archive_record'' rid)) (ereturn r)))"

text \<open>The digest of a publish reads draft id, target status, title, status, body and metadata.\<close>

type_synonym publish_fields = "string \<times> jv \<times> jv \<times> jv \<times> string option \<times> json_text option"

definition publish_fields :: "string \<Rightarrow> jv \<Rightarrow> draft_row option \<Rightarrow> publish_fields" where
  "publish_fields draftId targetStatus d =
     (draftId,
      (if \<not> is_nullish targetStatus then targetStatus else case d of None \<Rightarrow> JNull | Some x \<Rightarrow> col (dr_status x)),
      (case d of None \<Rightarrow> JNull | Some x \<Rightarrow> col (dr_title x)), (case d of None \<Rightarrow> JNull | Some x \<Rightarrow> col (dr_status x)),
      (case d of None \<Rightarrow> None | Some x \<Rightarrow> dr_markdown_body x), (case d of None \<Rightarrow> None | Some x \<Rightarrow> dr_metadata x))"

definition publish_ctx :: "(publish_fields \<Rightarrow> string) \<Rightarrow> string \<Rightarrow> auth_user \<Rightarrow> jv \<Rightarrow> string \<Rightarrow> draft_row option \<Rightarrow> saga_context" where
  "publish_ctx digest corr user targetStatus draftId d =
     (saga_ctx corr user [''recordId'' \<mapsto> draftId, ''draftId'' \<mapsto> draftId])\<lparr>cx_draftId := Some draftId,
       cx_idempotencyKey := Some (''publish:'' @ draftId @ '':'' @ digest (publish_fields draftId targetStatus d))\<rparr>"

definition publishDraft :: "record_env \<Rightarrow> record_executor \<Rightarrow> string \<Rightarrow> (publish_fields \<Rightarrow> string) \<Rightarrow> string \<Rightarrow> auth_user \<Rightarrow> jv \<Rightarrow>
    string option \<Rightarrow> step_value option app_op" where
  "publishDraft env ex sid digest draftId user targetStatus corr =
     ebind (ecatch (on_app (db_getDraft draftId)) (\<lambda>e. ereturn None)) (\<lambda>d.
     ebind (on_app (eget clock)) (\<lambda>now.
     ebind (run_saga ex (PublishDraftSaga env user targetStatus) sid
         (publish_ctx digest (named (''publish-'' @ draftId @ ''-'' @ show_int now) corr) user targetStatus draftId d)) (\<lambda>r.
       eseq (on_app (write_audit ''publish_record'' draftId)) (ereturn r))))"

text \<open>\<open>createRecord\<close> and \<open>updateRecord\<close> of the record manager choose between saga and direct path.\<close>

definition createRecord :: "record_env \<Rightarrow> record_executor \<Rightarrow> string \<Rightarrow> string \<Rightarrow> create_request \<Rightarrow> auth_user \<Rightarrow>
    step_value option app_op" where
  "createRecord env ex sid payload q user =
     (if uses_create_saga q then createRecordSaga env ex sid payload q user None None
      else on_app (ebind (createRecord_direct env q user) (\<lambda>r. ereturn (Some (RecordV r)))))"

definition updateRecord :: "record_env \<Rightarrow> record_executor \<Rightarrow> string \<Rightarrow> string \<Rightarrow> string \<Rightarrow> update_request \<Rightarrow> auth_user \<Rightarrow>
    step_value option app_op" where
  "updateRecord env ex sid payload rid q user = ebind (on_app (getRecord env rid)) (\<lambda>found. case found of
     None \<Rightarrow> ereturn None
   | Some existing \<Rightarrow> if uses_update_saga q existing then updateRecordSaga env ex sid payload rid q user None
       else on_app (ebind (updateRecord_direct env rid q) (\<lambda>r. ereturn (map_option RecordV r))))"

end
