(* ===== verification/Record_Saga_Steps.thy ===== *)
theory Record_Saga_Steps
  imports Record_Sagas Saga_Atomicity
begin

section \<open>What the steps of the record sagas leave alone\<close>

text \<open>
  The frame of the derived and external operations (commits, hooks, audit, index), the errors
  of steps, and the shape of a rollback for a saga whose first two steps are the compensable
  ones. \<open>Record_Saga_Theorems\<close> rests on these.
\<close>

subsection \<open>External calls\<close>

lemma external_calm [simp]: "faults w = [] \<Longrightarrow> external err m w = m w"
  by (simp add: external_def)

lemma sql_calm [simp]: "faults w = [] \<Longrightarrow> sql m w = m w"
  by (simp add: sql_def)

lemma fs_op_calm [simp]: "faults w = [] \<Longrightarrow> fs_op m w = m w"
  by (simp add: fs_op_def)

lemma external_cases:
  assumes "external err m w = (r, w')"
  obtains (fault) fs where "r = Inl err" "w' = w\<lparr>faults := fs\<rparr>"
  | (runs) fs where "m (w\<lparr>faults := fs\<rparr>) = (r, w')"
proof (cases "faults w")
  case Nil
  then have "w\<lparr>faults := []\<rparr> = w" by simp
  with Nil assms runs [of "[]"] show thesis by (simp add: external_def)
next
  case (Cons b fs)
  with assms fault runs show thesis by (cases b) (auto simp: external_def)
qed

text \<open>A relation that ignores the script of failures is kept by an external call when its
  operation keeps it.\<close>

lemma rel_external:
  assumes "em_frame R" and "\<And>w fs. R w (w\<lparr>faults := fs\<rparr>)" and "em_rel R m"
  shows "em_rel R (external err m)"
proof (rule em_relI)
  fix w
  obtain r w' where e: "external err m w = (r, w')" by fastforce
  show "R w (snd (external err m w))"
    using e
  proof (cases rule: external_cases)
    case (fault fs)
    with e assms(2) show ?thesis by simp
  next
    case (runs fs)
    then have "R (w\<lparr>faults := fs\<rparr>) w'" using em_relD' [OF assms(3)] by blast
    with e assms(1,2) show ?thesis by (auto intro: em_frame.frame_trans)
  qed
qed

subsection \<open>The stores\<close>

text \<open>What only the two compensable steps of a saga change.\<close>

definition same_stores :: "rec_world \<Rightarrow> rec_world \<Rightarrow> bool" where
  "same_stores a b \<longleftrightarrow> w_records b = w_records a \<and> w_files b = w_files a \<and> w_drafts b = w_drafts a \<and>
     clock b = clock a \<and> sc_originalRecord (w_scratch b) = sc_originalRecord (w_scratch a) \<and>
     sc_originalFilePath (w_scratch b) = sc_originalFilePath (w_scratch a) \<and>
     sc_recordExisted (w_scratch b) = sc_recordExisted (w_scratch a)"

interpretation stores: em_frame same_stores
  by unfold_locales (auto simp: same_stores_def)

lemma stores_external:
  "em_rel same_stores m \<Longrightarrow> em_rel same_stores (external err m)"
  "em_rel same_stores m \<Longrightarrow> em_rel same_stores (sql m)"
  "em_rel same_stores m \<Longrightarrow> em_rel same_stores (fs_op m)"
  unfolding sql_def fs_op_def
  by (rule rel_external [OF stores.em_frame_axioms]; simp add: same_stores_def)+

lemma stores_modify: "(\<And>w. same_stores w (f w)) \<Longrightarrow> em_rel same_stores (emodify f)"
  by (simp add: em_rel_def emodify_def)

lemmas stores_intros = stores.rel_intros stores_external

lemma stores_remember:
  "(\<And>s. sc_originalRecord (f s) = sc_originalRecord s \<and> sc_originalFilePath (f s) = sc_originalFilePath s \<and>
     sc_recordExisted (f s) = sc_recordExisted s) \<Longrightarrow> em_rel same_stores (remember f)"
  unfolding remember_def by (rule stores_modify) (simp add: same_stores_def)

lemma stores_need: "(\<And>a. em_rel same_stores (k a)) \<Longrightarrow> em_rel same_stores (need msg f k)"
  unfolding need_def scratch_def by (intro stores_intros) (simp add: stores_intros split: option.split)

lemma stores_git_commit: "em_rel same_stores (git_commit env message files)"
  unfolding git_commit_def Let_def
  by (auto intro!: stores_intros stores_modify simp: same_stores_def)

lemma stores_emit_hook: "em_rel same_stores (emit_hook env name r)"
  unfolding emit_hook_def by (auto intro!: stores_intros stores_modify simp: same_stores_def)

lemma stores_index: "em_rel same_stores (indexRecord row)" "em_rel same_stores (removeRecordFromIndex i t)"
  unfolding indexRecord_def removeRecordFromIndex_def
  by (auto intro!: stores_intros stores_modify simp: same_stores_def)

lemma stores_audit: "em_rel same_stores (write_audit action rid)"
  unfolding write_audit_def by (auto intro!: stores_intros stores_modify simp: same_stores_def)

lemma stores_queries: "em_rel same_stores (db_getRecord rid)" "em_rel same_stores (read_file env p)"
  unfolding db_getRecord_def read_file_def
  by (auto intro!: stores_intros split: option.split)

lemma same_stores_refl [simp]: "same_stores w w"
  by (simp add: same_stores_def)

lemma stores_pure:
  "em_rel same_stores (parse_record env content path)" "em_rel same_stores (serialize_record env r)"
  "em_rel same_stores (check_schema env f pre content t)"
  by (auto simp: em_rel_def parse_record_def serialize_record_def check_schema_def em_defs split: sum.split prod.split)

lemma stores_getRecord: "em_rel same_stores (getRecord env rid)"
  unfolding getRecord_def
  by (auto intro!: stores_intros stores_queries stores_pure split: option.split)

lemma stores_ensure: "em_rel same_stores (ensureDirectoryForRecordPath env p)"
  unfolding ensureDirectoryForRecordPath_def by (intro stores_intros)

lemma stores_commit_files: "em_rel same_stores (commit_files env message files)"
  unfolding commit_files_def by (intro stores_intros stores_git_commit stores_remember) simp

lemma stores_steps:
  "em_rel same_stores (commit_step env missing f verb)" "em_rel same_stores (queue_indexing env)"
  "em_rel same_stores (hook_step env missing name f result)" "em_rel same_stores (CommitArchive env ctx)"
  "em_rel same_stores (RemoveFromIndex ctx)"
  unfolding commit_step_def queue_indexing_def hook_step_def CommitArchive_def RemoveFromIndex_def scratch_def
  by (auto intro!: stores_intros stores_need stores_commit_files stores_emit_hook stores_index stores_modify
      simp: same_stores_def split: option.split)

subsection \<open>Errors of steps\<close>

text \<open>No step of a record saga throws the step error of another saga.\<close>

definition plain :: "'a rec_op \<Rightarrow> bool" where
  "plain m \<longleftrightarrow> (\<forall>w. case fst (m w) of Inl e \<Rightarrow> \<not> is_step_error e | Inr _ \<Rightarrow> True)"

lemma plainD: "plain m \<Longrightarrow> m w = (Inl e, w') \<Longrightarrow> \<not> is_step_error e"
  unfolding plain_def by (metis fst_conv sum.simps(5))

lemma plain_basic [simp, intro]:
  "plain (ereturn a)" "plain (eget f)" "plain (emodify g)" "plain (equiet m)" "plain (ethrow (OtherError s))"
  "plain (scratch h)" "plain (remember k)"
  by (simp_all add: plain_def em_defs scratch_def remember_def)

lemma plain_bind [intro]: "plain m \<Longrightarrow> (\<And>a. plain (f a)) \<Longrightarrow> plain (ebind m f)"
  by (auto simp: plain_def ebind_def split: prod.split sum.splits) (metis fst_conv sum.simps(5))+

lemma plain_seq [intro]: "plain m \<Longrightarrow> plain n \<Longrightarrow> plain (eseq m n)"
  unfolding eseq_def by (rule plain_bind)

lemma plain_catch [intro]: "(\<And>e. plain (h e)) \<Longrightarrow> plain (ecatch m h)"
  by (fastforce simp: plain_def ecatch_def split: prod.split sum.splits)

lemma plain_option [intro]: "plain n \<Longrightarrow> (\<And>a. plain (f a)) \<Longrightarrow> plain (case x of None \<Rightarrow> n | Some a \<Rightarrow> f a)"
  by (cases x) simp_all

lemma plain_if [intro]: "plain m \<Longrightarrow> plain n \<Longrightarrow> plain (if b then m else n)"
  by simp

lemma plain_when [intro]: "plain m \<Longrightarrow> plain (ewhen b m)"
  by (simp add: ewhen_def)

lemma plain_external [intro]: "\<not> is_step_error err \<Longrightarrow> plain m \<Longrightarrow> plain (external err m)"
  by (auto simp: plain_def external_def split: list.split bool.split)

lemma plain_sql [intro]: "plain m \<Longrightarrow> plain (sql m)"
  unfolding sql_def by (rule plain_external) simp

lemma plain_fs_op [intro]: "plain m \<Longrightarrow> plain (fs_op m)"
  unfolding fs_op_def by (rule plain_external) simp

lemma plain_need [intro]: "(\<And>a. plain (k a)) \<Longrightarrow> plain (need msg f k)"
  unfolding need_def by (intro plain_bind plain_option) simp_all

lemmas plain_rules = plain_seq plain_bind plain_catch plain_when plain_sql plain_fs_op plain_external plain_option
  plain_if plain_need

lemma plain_ops [simp, intro]:
  "plain (parse_record env content path)" "plain (serialize_record env r)" "plain (check_schema env f pre content t)"
  "plain (insert_record row)"
  by (auto simp: plain_def parse_record_def serialize_record_def check_schema_def insert_record_def sql_def
      external_def em_defs split: sum.split prod.split list.split bool.split)

lemma plain_stores [simp, intro]:
  "plain (indexRecord row)" "plain (removeRecordFromIndex i t)" "plain (db_getRecord rid)" "plain (write_audit a rid)"
  "plain (emit_hook env name rec)" "plain (git_commit env message files)" "plain (write_file env p c)"
  "plain (ensureDirectoryForRecordPath env p)"
  unfolding indexRecord_def removeRecordFromIndex_def db_getRecord_def write_audit_def emit_hook_def git_commit_def
    write_file_def ensureDirectoryForRecordPath_def Let_def
  by (auto intro!: plain_rules)

lemma plain_files [simp, intro]: "plain (read_file env p)" "plain (rename_file env p q)" "plain (unlink_file env p)"
  unfolding read_file_def rename_file_def unlink_file_def by (rule plain_fs_op plain_bind plain_option | simp)+

lemma plain_records [simp, intro]: "plain (getRecord env rid)" "plain (db_createRecord row)" "plain (db_updateRecord rid u)"
  unfolding getRecord_def db_createRecord_def db_updateRecord_def Let_def by (rule plain_rules | simp)+

lemma plain_shared [simp, intro]:
  "plain (file_step env missing f)" "plain (commit_files env message files)" "plain (queue_indexing env)"
  "plain (hook_step env missing name f result)"
  unfolding file_step_def commit_files_def queue_indexing_def hook_step_def
  by (rule plain_rules | simp)+

lemma plain_commit_step [simp, intro]: "plain (commit_step env missing f verb)"
  unfolding commit_step_def by (rule plain_rules | simp)+

subsection \<open>Steps in a run\<close>

lemma make_step_simps [simp]:
  "sp_name (make_step n c t run undo) = n" "sp_isCompensatable (make_step n c t run undo) = c"
  "sp_compensate (make_step n c t run undo) = Some undo"
  by (simp_all add: make_step_def)

lemma forward_make_step:
  "forward ex ctx i rs (make_step n c t run undo # ss) app = (case run ctx app of
     (Inr r, app') \<Rightarrow> forward ex ctx (Suc i) (rs @ [r]) ss app'
   | (Inl e, app') \<Rightarrow> (Some (StepError i e), rs, app'))"
  by (simp add: make_step_def split: prod.split sum.split)

definition plain_step :: "record_step \<Rightarrow> bool" where
  "plain_step s \<longleftrightarrow> (\<exists>n c t run undo. s = make_step n c t run undo \<and> (\<forall>ctx. plain (run ctx)))"

lemma plain_stepI [intro]: "(\<And>ctx. plain (run ctx)) \<Longrightarrow> plain_step (make_step n c t run undo)"
  unfolding plain_step_def by blast

lemma forward_plain:
  "list_all plain_step steps \<Longrightarrow> forward ex ctx i rs steps app = (Some (StepError j e), rs', app') \<Longrightarrow> \<not> is_step_error e"
proof (induction steps arbitrary: i rs app)
  case (Cons s steps)
  then obtain n c t run undo where s: "s = make_step n c t run undo" and p: "\<And>ctx. plain (run ctx)"
    by (auto simp: plain_step_def)
  show ?case
    using Cons.prems(2) Cons.IH Cons.prems(1) plainD [OF p]
    by (auto simp: s forward_make_step simp del: forward.simps split: prod.splits sum.splits)
qed simp

text \<open>Steps that keep the stores.\<close>

definition keeping_step :: "record_step \<Rightarrow> bool" where
  "keeping_step s \<longleftrightarrow> (\<exists>n c t run undo. s = make_step n c t run undo \<and> (\<forall>ctx. em_rel same_stores (run ctx)))"

lemma keeping_stepI [intro]: "(\<And>ctx. em_rel same_stores (run ctx)) \<Longrightarrow> keeping_step (make_step n c t run undo)"
  unfolding keeping_step_def by blast

lemma forward_keeps:
  "list_all keeping_step steps \<Longrightarrow> forward ex ctx i rs steps app = (out, rs', app') \<Longrightarrow> same_stores app app'"
proof (induction steps arbitrary: i rs app)
  case (Cons s steps)
  then obtain n c t run undo where s: "s = make_step n c t run undo" and k: "\<And>ctx. em_rel same_stores (run ctx)"
    by (auto simp: keeping_step_def)
  obtain r app1 where r: "run ctx app = (r, app1)" by fastforce
  then have "same_stores app app1" using em_relD' [OF k] by blast
  with r Cons s show ?case
    by (auto simp: forward_make_step simp del: forward.simps split: sum.splits intro: stores.frame_trans)
qed simp

text \<open>A step without a compensation that does anything.\<close>

definition inert_step :: "record_step \<Rightarrow> bool" where
  "inert_step s \<longleftrightarrow> \<not> sp_isCompensatable s"

lemma rollback_inert: "list_all inert_step (take (length rs) steps) \<Longrightarrow> rollback js ctx steps rs app = app"
proof (induction rs arbitrary: steps)
  case (Cons r rs)
  then show ?case
    by (cases steps) (auto simp: rollback_def undo_step_def inert_step_def split: prod.split)
qed (simp add: rollback_def)

definition stored :: "step_value js_env \<Rightarrow> step_value \<Rightarrow> step_value option" where
  "stored js v = map_option (js_parse js) (or_null (js_stringify js v))"

lemma undo_make_step: "undo_step js ctx (make_step n True t run undo, r) app = snd (undo ctx (stored js r) app)"
  by (simp add: undo_step_def stored_def)

lemma forward_length: "forward ex ctx i rs steps app = (out, rs', app') \<Longrightarrow> \<exists>qs. rs' = rs @ qs"
proof (induction steps arbitrary: i rs app)
  case (Cons s steps)
  obtain outcome n app1 where "sp_execute s ctx app = (outcome, n, app1)" by (cases "sp_execute s ctx app")
  with Cons show ?case by (cases outcome) fastforce+
qed simp

text \<open>A saga with two compensable steps fails after the first: either the second failed, or both
  are undone after a failure among the rest.\<close>

lemma two_step_failure:
  assumes "forward ex ctx 0 [] (make_step n0 True t0 run0 undo0 # make_step n1 True t1 run1 undo1 # rest) a =
      (Some (StepError i e), rs, a')" and "1 \<le> i"
    and "list_all inert_step (butlast rest)" and "list_all keeping_step rest"
  obtains (second) v0 a1 where "run0 ctx a = (Inr v0, a1)" "run1 ctx a1 = (Inl e, a')"
      "rollback js ctx (make_step n0 True t0 run0 undo0 # make_step n1 True t1 run1 undo1 # rest) rs a' =
         snd (undo0 ctx (stored js v0) a')"
  | (later) v0 a1 v1 a2 where "run0 ctx a = (Inr v0, a1)" "run1 ctx a1 = (Inr v1, a2)" "same_stores a2 a'"
      "rollback js ctx (make_step n0 True t0 run0 undo0 # make_step n1 True t1 run1 undo1 # rest) rs a' =
         snd (undo0 ctx (stored js v0) (snd (undo1 ctx (stored js v1) a')))"
proof -
  let ?s0 = "make_step n0 True t0 run0 undo0" and ?s1 = "make_step n1 True t1 run1 undo1"
  obtain v0 a1 where r0: "run0 ctx a = (Inr v0, a1)"
    and f1: "forward ex ctx 1 [v0] (?s1 # rest) a1 = (Some (StepError i e), rs, a')"
    using assms(1,2) by (auto simp: forward_make_step simp del: forward.simps split: prod.splits sum.splits)
  show thesis
  proof (cases "run1 ctx a1")
    case (Pair x a2)
    show thesis
    proof (cases x)
      case (Inl e')
      with Pair f1 have r: "e' = e" "rs = [v0]" "a2 = a'" by (auto simp: forward_make_step simp del: forward.simps)
      have "rollback js ctx (?s0 # ?s1 # rest) rs a' = snd (undo0 ctx (stored js v0) a')"
        by (simp add: r rollback_def undo_make_step)
      with second r0 Pair Inl r show thesis by blast
    next
      case (Inr v1)
      with Pair f1 have f2: "forward ex ctx 2 [v0, v1] rest a2 = (Some (StepError i e), rs, a')"
        by (simp add: forward_make_step numeral_2_eq_2 del: forward.simps)
      obtain qs where rs: "rs = [v0, v1] @ qs" using forward_length [OF f2] by blast
      have i: "length rs + 2 = 2 + i" "i < 2 + length rest"
        using forward_StepError [OF f2] by auto
      then have "length qs < length rest" using rs by simp
      then have "take (length qs) rest = take (length qs) (butlast rest)"
        by (simp add: take_butlast)
      then have "list_all inert_step (take (length qs) rest)"
        using assms(3) by (metis list_all_append append_take_drop_id)
      then have "rollback js ctx rest qs a' = a'" by (rule rollback_inert)
      then have "rollback js ctx (?s0 # ?s1 # rest) rs a' =
          snd (undo0 ctx (stored js v0) (snd (undo1 ctx (stored js v1) a')))"
        by (simp add: rs rollback_def undo_make_step)
      moreover have "same_stores a2 a'" by (rule forward_keeps [OF assms(4) f2])
      ultimately show thesis using later r0 Pair Inr by blast
    qed
  qed
qed

end
