(* ===== verification/Record_Saga_Theorems.thy ===== *)
theory Record_Saga_Theorems
  imports Record_Saga_Steps Saga_Theorems
begin

section \<open>What the record sagas guarantee and where they do not\<close>

text \<open>
  The executor's theorems hold for any steps; here they meet the real ones: what a failed
  create, update and archive leave behind, what publishing over an existing record does when it
  fails, and what a publish answered from the idempotency key does.
\<close>

subsection \<open>Results that survive JSON\<close>

text \<open>What the sagas rely on of \<open>JSON.stringify\<close> and \<open>JSON.parse\<close>: a non-empty text comes back,
  and a record comes back as a record, with the same id when that is text.\<close>

definition json_survives :: "step_value js_env \<Rightarrow> bool" where
  "json_survives js \<longleftrightarrow> (\<forall>p. p \<noteq> [] \<longrightarrow> stored js (TextV p) = Some (TextV p)) \<and>
     (\<forall>r. \<exists>r'. stored js (RecordV r) = Some (RecordV r') \<and> (\<forall>s. rd_id r = JStr s \<longrightarrow> rd_id r' = JStr s))"

lemma stored_text: "json_survives js \<Longrightarrow> p \<noteq> [] \<Longrightarrow> stored js (TextV p) = Some (TextV p)"
  by (simp add: json_survives_def)

lemma stored_record:
  assumes "json_survives js" and "rd_id r = JStr s"
  obtains r' where "stored js (RecordV r) = Some (RecordV r')" "rd_id r' = JStr s"
  using assms unfolding json_survives_def by metis

lemma stored_some:
  assumes "json_survives js"
  obtains r' where "stored js (RecordV r) = Some (RecordV r')"
  using assms unfolding json_survives_def by blast

text \<open>A text form with that property, for concrete runs.\<close>

definition no_record_data :: record_data where
  "no_record_data = \<lparr>rd_id = JUndef, rd_title = JUndef, rd_type = JUndef, rd_status = JUndef, rd_workflowState = JUndef,
     rd_content = None, rd_metadata = JUndef, rd_geography = JUndef, rd_attachedFiles = JUndef, rd_linkedRecords = JUndef,
     rd_linkedGeographyFiles = JUndef, rd_path = None, rd_author = JUndef, rd_authors = JUndef, rd_created_at = JUndef,
     rd_updated_at = JUndef, rd_source = JUndef, rd_commit_ref = JUndef, rd_commit_signature = JUndef\<rparr>"

definition tag_text :: "step_value \<Rightarrow> string option" where
  "tag_text v = (case v of TextV p \<Rightarrow> Some (CHR ''T'' # p) | RecordV r \<Rightarrow> Some (CHR ''R'' # js_text (rd_id r))
     | BoolV b \<Rightarrow> Some (if b then ''B1'' else ''B0'') | VoidV \<Rightarrow> None)"

definition read_tag :: "string \<Rightarrow> step_value" where
  "read_tag s = (if hd s = CHR ''T'' then TextV (tl s)
     else if hd s = CHR ''R'' then RecordV (no_record_data\<lparr>rd_id := JStr (tl s)\<rparr>) else BoolV (s = ''B1''))"

definition tag_js :: "step_value js_env" where
  "tag_js = \<lparr>js_stringify = tag_text, js_parse = read_tag, js_context = (\<lambda>_. ''{}''), js_digest = (\<lambda>_. ''0f'')\<rparr>"

lemma tag_survives: "json_survives tag_js"
  by (simp add: json_survives_def stored_def tag_js_def tag_text_def read_tag_def)

subsection \<open>A failed execution\<close>

lemma failed_execution:
  assumes "clear_run ex sg sid ctx w" and "list_all plain_step (sg_steps sg)"
    and "forward ex (keyed ex sg ctx) 0 [] (sg_steps sg) (w_app w) = (Some (StepError i e), rs, a')"
    and "execute ex sg sid ctx w = (r, w')"
  shows "\<exists>err. r = Inl err" and "w_app w' = rollback (ex_js ex) (keyed ex sg ctx) (sg_steps sg) rs a'"
proof -
  have ne: "\<not> is_step_error e" by (rule forward_plain [OF assms(2,3)])
  have o: "map_sum id er_result (fst (execute ex sg sid ctx w)) = saga_outcome ex sg (keyed ex sg ctx) (w_app w)"
    and v: "view sid (snd (execute ex sg sid ctx w)) = (atomic_effect ex sg (keyed ex sg ctx) (w_app w), [],
       Some (map (js_stringify (ex_js ex)) rs, Failed, cx_idempotencyKey (keyed ex sg ctx), clock (w_db w)))"
    using execute_clear(1,2) [OF assms(1,3)] ne by auto
  from o assms(3,4) show "\<exists>err. r = Inl err" by (cases r) (auto simp: saga_outcome_def)
  from v assms(3,4) show "w_app w' = rollback (ex_js ex) (keyed ex sg ctx) (sg_steps sg) rs a'"
    by (simp add: view_def atomic_effect_def)
qed

subsection \<open>Creating the row and the file\<close>

lemma insert_record_ok:
  "insert_record row w = (Inr u, w') \<Longrightarrow> rr_id row \<notin> rr_id ` set (w_records w) \<and>
     w_records w' = w_records w @ [row\<lparr>rr_created_at := clock w, rr_updated_at := clock w\<rparr>] \<and>
     w_files w' = w_files w \<and> w_drafts w' = w_drafts w \<and> clock w' = clock w \<and> w_scratch w' = w_scratch w"
  unfolding insert_record_def sql_def by (erule external_cases) (auto split: if_splits)

lemma indexRecord_stores: "indexRecord row w = (r, w') \<Longrightarrow> same_stores w w'"
  using em_relD' [OF stores_index(1)] by blast

lemma CreateInRecords_ok:
  assumes "CreateInRecords env q user ctx a = (Inr v, a1)"
  obtains row where "v = RecordV (numbered_record env q user (create_id ctx (clock a)) (clock a))"
    "rr_id row = create_id ctx (clock a)" "rr_id row \<notin> rr_id ` set (w_records a)" "w_records a1 = w_records a @ [row]"
    "w_files a1 = w_files a" "w_drafts a1 = w_drafts a"
    "sc_record (w_scratch a1) = Some (numbered_record env q user (create_id ctx (clock a)) (clock a))"
proof -
  let ?rid = "create_id ctx (clock a)"
  let ?r = "numbered_record env q user ?rid (clock a)"
  obtain u a0 where d: "db_createRecord (row_of_record ?rid ?r) a = (Inr u, a0)"
    and v: "v = RecordV ?r" and a1: "a1 = a0\<lparr>w_scratch := (w_scratch a0)\<lparr>sc_record := Some ?r\<rparr>\<rparr>"
    using assms by (auto simp: CreateInRecords_def remember_def em_defs Let_def split: prod.splits sum.splits)
  obtain row u1 w1 where i: "insert_record row a = (Inr u1, w1)" and id: "rr_id row = ?rid"
    and x: "indexRecord (index_of_row (row_of_record ?rid ?r)) w1 = (Inr u, a0)"
    using d by (force simp: db_createRecord_def row_of_record_def em_defs Let_def split: prod.splits sum.splits)
  from insert_record_ok [OF i] indexRecord_stores [OF x] v a1 id
  show thesis by (intro that [of "row\<lparr>rr_created_at := clock a, rr_updated_at := clock a\<rparr>"]) (auto simp: same_stores_def)
qed

lemma serialize_pure: "\<exists>x. serialize_record env r a = (x, a)"
  by (simp add: serialize_record_def split: sum.split)

lemma check_schema_pure: "\<exists>x. check_schema env f pre c t a = (x, a)"
  by (simp add: check_schema_def em_defs split: sum.split prod.split)

lemma file_step_cases:
  assumes "file_step env missing f a = (x, a2)"
  obtains (failed) e where "x = Inl e" "same_stores a a2"
  | (written) r p c where "x = Inr (TextV p)" "f (w_scratch a) = Some r" "or_null (rd_path r) = Some p"
      "fst (serialize_record env r a) = Inr c" "w_files a2 = jm_set (full_path env p) c (w_files a)"
      "w_records a2 = w_records a" "w_drafts a2 = w_drafts a" "clock a2 = clock a"
      "sc_originalRecord (w_scratch a2) = sc_originalRecord (w_scratch a)"
      "sc_recordExisted (w_scratch a2) = sc_recordExisted (w_scratch a)"
proof (cases "f (w_scratch a)")
  case None
  with assms show thesis by (intro failed) (auto simp: file_step_def need_def scratch_def em_defs)
next
  case (Some r)
  show thesis
  proof (cases "or_null (rd_path r)")
    case None
    with assms Some show thesis by (intro failed) (auto simp: file_step_def need_def scratch_def em_defs)
  next
    case p: (Some p)
    obtain s where s: "serialize_record env r a = (s, a)"
      using serialize_pure by blast
    show thesis
    proof (cases s)
      case (Inl e)
      with assms Some p s show thesis
        by (intro failed) (auto simp: file_step_def need_def scratch_def ebind_def eget_def)
    next
      case (Inr c)
      obtain k where k: "check_schema env saga_frontmatter ''Schema validation failed: '' c (rd_type r) a = (k, a)"
        using check_schema_pure by blast
      let ?tail = "eseq (ensureDirectoryForRecordPath env p) (eseq (write_file env p c)
        (eseq (remember (\<lambda>s. s\<lparr>sc_filePath := Some p\<rparr>)) (ereturn (TextV p))))"
      have head: "file_step env missing f a = (case k of Inl e \<Rightarrow> (Inl e, a) | Inr u \<Rightarrow> ?tail a)"
        using Some p s Inr k
        by (cases k) (simp_all add: file_step_def need_def scratch_def ebind_def eseq_def eget_def)
      show thesis
      proof (cases k)
        case (Inl e)
        with head assms show thesis by (intro failed) auto
      next
        case k: (Inr u)
        obtain d b where d: "ensureDirectoryForRecordPath env p a = (d, b)" by fastforce
        then have ab: "same_stores a b" using em_relD' [OF stores_ensure] by blast
        obtain wr b2 where w: "write_file env p c b = (wr, b2)" by fastforce
        have wcases: "(\<exists>e. wr = Inl e) \<and> same_stores b b2 \<or> (\<exists>u. wr = Inr u) \<and> w_files b2 = jm_set (full_path env p) c (w_files b) \<and>
            w_records b2 = w_records b \<and> w_drafts b2 = w_drafts b \<and> clock b2 = clock b \<and> w_scratch b2 = w_scratch b"
          using w unfolding write_file_def fs_op_def
          by (rule external_cases) (auto simp: same_stores_def em_defs)
        show thesis
        proof (cases d)
          case (Inl e)
          with head k d ab assms show thesis by (intro failed) (auto simp: eseq_def ebind_def)
        next
          case d': (Inr u)
          show thesis
          proof (cases wr)
            case (Inl e)
            then have "same_stores a b2" using ab wcases by (auto intro: stores.frame_trans)
            with Inl head k d d' w assms show thesis by (intro failed) (auto simp: eseq_def ebind_def)
          next
            case (Inr u')
            have "x = Inr (TextV p)" "a2 = b2\<lparr>w_scratch := (w_scratch b2)\<lparr>sc_filePath := Some p\<rparr>\<rparr>"
              using Inr head k d d' w assms by (simp_all add: eseq_def ebind_def remember_def emodify_def ereturn_def)
            with Inr wcases ab Some p s \<open>s = Inr c\<close> show thesis
              by (intro written [of p r c]) (auto simp: same_stores_def)
          qed
        qed
      qed
    qed
  qed
qed

lemma or_null_nonempty: "or_null x = Some p \<Longrightarrow> p \<noteq> []"
  by (auto simp: or_null_def split: option.splits list.splits if_splits)

lemma undo_file_calm:
  assumes "faults a = []" and "p \<noteq> []"
  shows "snd (undo_file env ctx (Some (TextV p)) a) = a\<lparr>w_files := jm_delete (full_path env p) (w_files a)\<rparr>"
proof (cases "jm_get (w_files a) (full_path env p)")
  case None
  then have "jm_delete (full_path env p) (w_files a) = w_files a"
    by (metis delete_id map_of_eq_None_iff)
  with None assms show ?thesis by (simp add: undo_file_def unlink_file_def em_defs)
next
  case (Some c)
  with assms show ?thesis by (simp add: undo_file_def unlink_file_def em_defs)
qed

lemma undo_row_calm:
  "faults a = [] \<Longrightarrow> snd (undo_CreateInRecords ctx (Some (RecordV x)) a) =
     a\<lparr>w_records := filter (\<lambda>r. JStr (rr_id r) \<noteq> rd_id x) (w_records a)\<rparr>"
  by (simp add: undo_CreateInRecords_def delete_record_row_def emodify_def)

lemma delete_fresh: "jm_get m k = None \<Longrightarrow> jm_delete k (jm_set k v m) = m"
  by (induction m) (auto split: if_splits)

lemma filter_fresh_row: "rid \<notin> rr_id ` set rows \<Longrightarrow> filter (\<lambda>r. rr_id r \<noteq> rid) rows = rows"
  by (auto simp: filter_id_conv)

lemma numbered_record_fields [simp]:
  "rd_id (numbered_record env q user rid now) = JStr rid"
  "rd_path (numbered_record env q user rid now) = Some (requested_path env q rid now)"
  by (simp_all add: numbered_record_def record_of_request_def Let_def)

definition create_rest :: "record_env \<Rightarrow> record_step list" where
  "create_rest env =
     [make_step ''CommitToGit'' False 30000 (\<lambda>ctx. commit_step env ''Record and filePath not available in context'' sc_record (\<lambda>_. ''Create'')) no_undo,
      make_step ''QueueIndexing'' False 5000 (\<lambda>ctx. queue_indexing env) no_undo,
      make_step ''EmitHooks'' True 5000 (\<lambda>ctx. hook_step env no_record ''record:created'' sc_record RecordV) (undo_EmitHooks env)]"

definition create_all :: "record_env \<Rightarrow> create_request \<Rightarrow> auth_user \<Rightarrow> record_step list" where
  "create_all env q user = make_step ''CreateInRecords'' True 30000 (CreateInRecords env q user) undo_CreateInRecords #
     make_step ''CreateFile'' True 30000 (\<lambda>ctx. file_step env no_record sc_record) (undo_file env) #
     create_rest env"

lemma create_steps: "sg_steps (CreateRecordSaga env q user) = create_all env q user"
  by (simp add: CreateRecordSaga_def create_all_def create_rest_def)

lemma plain_create: "list_all plain_step (sg_steps (CreateRecordSaga env q user))"
  unfolding create_steps create_all_def create_rest_def CreateInRecords_def Let_def
  by (auto intro!: plain_rules)

lemma create_rolls_back:
  assumes "json_survives js" and "1 \<le> i" and "faults a' = []"
    and "forward ex ctx 0 [] (sg_steps (CreateRecordSaga env q user)) a = (Some (StepError i e), rs, a')"
    and "jm_get (w_files a) (full_path env (requested_path env q (create_id ctx (clock a)) (clock a))) = None"
  shows "w_records (rollback js ctx (sg_steps (CreateRecordSaga env q user)) rs a') = w_records a"
    and "w_files (rollback js ctx (sg_steps (CreateRecordSaga env q user)) rs a') = w_files a"
    and "w_drafts (rollback js ctx (sg_steps (CreateRecordSaga env q user)) rs a') = w_drafts a"
proof -
  let ?rid = "create_id ctx (clock a)"
  let ?r = "numbered_record env q user ?rid (clock a)"
  let ?S = "sg_steps (CreateRecordSaga env q user)"
  obtain x' where x': "stored js (RecordV ?r) = Some (RecordV x')" "rd_id x' = JStr ?rid"
    using stored_record [OF assms(1), of ?r ?rid] by auto
  have "w_records (rollback js ctx ?S rs a') = w_records a \<and> w_files (rollback js ctx ?S rs a') = w_files a \<and>
      w_drafts (rollback js ctx ?S rs a') = w_drafts a"
  proof (rule two_step_failure [OF assms(4) [unfolded create_steps create_all_def] assms(2), where js = js, folded create_all_def])
    show "list_all inert_step (butlast (create_rest env))"
      by (simp add: create_rest_def inert_step_def)
    show "list_all keeping_step (create_rest env)"
      by (auto simp: create_rest_def intro: stores_steps)
  next
    fix v0 a1
    assume r0: "CreateInRecords env q user ctx a = (Inr v0, a1)" and r1: "file_step env no_record sc_record a1 = (Inl e, a')"
      and rb: "rollback js ctx (create_all env q user) rs a' =
        snd (undo_CreateInRecords ctx (stored js v0) a')"
    obtain row where c: "v0 = RecordV ?r" "rr_id row = ?rid" "rr_id row \<notin> rr_id ` set (w_records a)" "w_records a1 = w_records a @ [row]"
      "w_files a1 = w_files a" "w_drafts a1 = w_drafts a"
      using CreateInRecords_ok [OF r0] by blast
    have "same_stores a1 a'" using r1 by (cases rule: file_step_cases) auto
    with c x' rb assms(3) show ?thesis
      by (simp add: create_steps undo_row_calm filter_fresh_row same_stores_def)
  next
    fix v0 a1 v1 a2
    assume r0: "CreateInRecords env q user ctx a = (Inr v0, a1)" and r1: "file_step env no_record sc_record a1 = (Inr v1, a2)"
      and ss: "same_stores a2 a'"
      and rb: "rollback js ctx (create_all env q user) rs a' =
        snd (undo_CreateInRecords ctx (stored js v0) (snd (undo_file env ctx (stored js v1) a')))"
    obtain row where c: "v0 = RecordV ?r" "rr_id row = ?rid" "rr_id row \<notin> rr_id ` set (w_records a)" "w_records a1 = w_records a @ [row]"
      "w_files a1 = w_files a" "w_drafts a1 = w_drafts a" "sc_record (w_scratch a1) = Some ?r"
      using CreateInRecords_ok [OF r0] by blast
    let ?p = "requested_path env q ?rid (clock a)"
    obtain t where f: "v1 = TextV ?p" "?p \<noteq> []" "w_files a2 = jm_set (full_path env ?p) t (w_files a1)"
      "w_records a2 = w_records a1" "w_drafts a2 = w_drafts a1"
      using r1 c(7) by (cases rule: file_step_cases) (auto dest: or_null_nonempty simp: or_null_def split: if_splits list.splits)
    have "w_files a' = jm_set (full_path env ?p) t (w_files a)" "w_records a' = w_records a @ [row]" "w_drafts a' = w_drafts a"
      using ss f c by (auto simp: same_stores_def)
    with c x' rb f(1,2) stored_text [OF assms(1) f(2)] assms(3,5) show ?thesis
      by (simp add: create_steps undo_row_calm undo_file_calm filter_fresh_row delete_fresh)
  qed
  then show "w_records (rollback js ctx ?S rs a') = w_records a"
    and "w_files (rollback js ctx ?S rs a') = w_files a" and "w_drafts (rollback js ctx ?S rs a') = w_drafts a"
    by simp_all
qed

subsection \<open>Failed creation\<close>

text \<open>C2: A failed creation leaves nothing. When a step after the first fails and the store and the
  file system answer the compensations, then after \<open>execute\<close> has thrown, the records, the files
  and the drafts are exactly those before the call, provided that no file was at the target path.\<close>

theorem failed_create_leaves_nothing:
  assumes "clear_run ex (CreateRecordSaga env q user) sid ctx w" and "json_survives (ex_js ex)"
    and "forward ex (keyed ex (CreateRecordSaga env q user) ctx) 0 [] (sg_steps (CreateRecordSaga env q user)) (w_app w) =
      (Some (StepError i e), rs, a')"
    and "1 \<le> i" and "faults a' = []"
    and "jm_get (w_files (w_app w)) (full_path env (requested_path env q (create_id ctx (clock (w_app w))) (clock (w_app w)))) = None"
    and "execute ex (CreateRecordSaga env q user) sid ctx w = (r, w')"
  shows "(\<exists>err. r = Inl err) \<and> w_records (w_app w') = w_records (w_app w) \<and> w_files (w_app w') = w_files (w_app w) \<and>
    w_drafts (w_app w') = w_drafts (w_app w)"
proof -
  let ?sg = "CreateRecordSaga env q user"
  have id: "create_id (keyed ex ?sg ctx) = create_id ctx"
    by (simp add: fun_eq_iff create_id_def keyed_def cong: option.case_cong)
  note f = failed_execution [OF assms(1) plain_create assms(3,7)]
  with create_rolls_back [OF assms(2,4,5,3)] assms(6) id show ?thesis by simp
qed

definition demo_rec_env :: record_env where
  "demo_rec_env = \<lparr>re_parser = demo_env demo_front ''Text'', re_dataDir = ''/data'', re_hash = show_nat, re_role = None,
     re_no_git = False, re_hook_on = (\<lambda>_. True), re_indexing = False, re_date_parse = (\<lambda>_. None),
     re_local_year = (\<lambda>_. 1970), re_formats = None\<rparr>"

definition demo_user :: auth_user where
  "demo_user = \<lparr>us_id = JNum 4, us_username = JStr ''ada'', us_role = JStr ''clerk'', us_email = JUndef, us_name = JUndef\<rparr>"

definition demo_request :: create_request where
  "demo_request = \<lparr>cq_title = ''Noise'', cq_type = ''bylaw'', cq_content = Some ''Text'', cq_metadata = JUndef,
     cq_status = JStr ''adopted'', cq_workflowState = JUndef, cq_createdAt = None, cq_updatedAt = None,
     cq_relativePath = Some ''records/bylaw/b1.md'', cq_skipFileGeneration = False, cq_geography = JUndef,
     cq_attachedFiles = JUndef, cq_linkedRecords = JUndef, cq_linkedGeographyFiles = JUndef, cq_authors = JUndef,
     cq_source = JUndef\<rparr>"

definition demo_app :: "bool list \<Rightarrow> record_row list \<Rightarrow> draft_row list \<Rightarrow> (string \<times> string) list \<Rightarrow> rec_world" where
  "demo_app fs records drafts files = \<lparr>clock = 0, faults = fs, w_records = records, w_drafts = drafts, w_draft_column = True,
     w_index = [], w_files = files, w_staged = [], w_commits = [], w_hooks = [], w_audit = [], w_record_locks = [],
     w_queued = [], w_scratch = no_scratch\<rparr>"

definition demo_rec_world :: "rec_world \<Rightarrow> rec_world world" where
  "demo_rec_world a = \<lparr>w_db = \<lparr>clock = 1000, faults = [], states = [], locks = []\<rparr>, w_app = a, w_audit_file = [],
     w_audit_table = []\<rparr>"

definition demo_rec_executor :: record_executor where
  "demo_rec_executor = \<lparr>ex_config = ex_config demo_executor, ex_idempotency = default_idempotency_manager, ex_js = tag_js,
     ex_audit = True\<rparr>"

definition demo_rec_ctx :: "string \<Rightarrow> saga_context" where
  "demo_rec_ctx rid = (saga_ctx ''c1'' demo_user [''recordId'' \<mapsto> rid])\<lparr>cx_recordId := Some rid, cx_request := Some ''{}''\<rparr>"

lemma demo_rec_clear:
  assumes "well_named sg" and "validation_errors sg (keyed demo_rec_executor sg ctx) = None"
  shows "clear_run demo_rec_executor sg ''s1'' ctx (demo_rec_world a)"
  using assms
  by (simp add: clear_run_def demo_rec_executor_def demo_executor_def mk_config_def or_default_def demo_rec_world_def
      lock_free_def lock_find_def idem_keys_def split: option.split)

abbreviation demo_create :: "(rec_world, step_value) saga" where
  "demo_create \<equiv> CreateRecordSaga demo_rec_env demo_request demo_user"

text \<open>The commit fails: the seventh call.\<close>

abbreviation demo_commit_fails :: rec_world where
  "demo_commit_fails \<equiv> demo_app [False, False, False, False, False, False, True] [] [] []"

lemma jget_add_default: "jget (add_default k v kvs) k' = (if k' = k \<and> jtruthy v \<and> jget kvs k = JUndef then v else jget kvs k')"
  by (simp add: add_default_def)

lemma serialize_ok:
  assumes "rd_created_at r = JStr s" and "rd_updated_at r = JStr t" and "rd_source r = JUndef"
    and "jmember (rd_metadata r) ''date'' = JUndef"
  shows "\<exists>c. serialize_record env r a = (Inr c, a)"
  using assms
  by (auto simp: serialize_record_def serializeToMarkdown_def buildFrontmatter_def normalizeSource_def jor_def
      add_source_def add_classification_def Let_def split: sum.split prod.split)

lemma demo_serializes: "\<exists>c. serialize_record demo_rec_env (numbered_record demo_rec_env demo_request demo_user rid t) a = (Inr c, a)"
  by (rule serialize_ok) (simp_all add: numbered_record_def record_of_request_def demo_request_def Let_def metadata_defaults_def
      jget_add_default jor_def)

lemma demo_path: "or_null (Some (requested_path demo_rec_env demo_request rid t)) = Some ''records/bylaw/b1.md''"
  by (simp add: requested_path_def demo_request_def unbackslash_def or_null_def)

lemma demo_schema: "check_schema demo_rec_env f pre c t = ereturn ()"
  by (rule ext) (simp add: check_schema_def demo_rec_env_def demo_env_def)

lemma demo_create_forward:
  "\<exists>i e rs a'. forward ex ctx 0 [] (sg_steps demo_create) demo_commit_fails = (Some (StepError i e), rs, a') \<and> 1 \<le> i \<and> faults a' = []"
proof -
  obtain c where c: "serialize_record demo_rec_env (numbered_record demo_rec_env demo_request demo_user rid t) a = (Inr (c rid t a), a)" for rid t a
    using demo_serializes by metis
  have p: "or_null (rd_path (numbered_record demo_rec_env demo_request demo_user rid t)) = Some ''records/bylaw/b1.md''" for rid t
    using demo_path by simp
  show ?thesis
    unfolding create_steps create_all_def create_rest_def
    by (simp add: forward_make_step CreateInRecords_def file_step_def commit_step_def commit_files_def need_def scratch_def remember_def
      db_createRecord_def insert_record_def indexRecord_def write_file_def ensureDirectoryForRecordPath_def git_commit_def sql_def fs_op_def external_def
      em_defs demo_app_def no_scratch_def c p demo_schema Let_def del: forward.simps numbered_record_fields) (simp add: demo_rec_env_def)
qed

lemma failed_create_leaves_nothing_witness:
  "\<exists>w' err. execute demo_rec_executor demo_create ''s1'' (demo_rec_ctx ''b1'') (demo_rec_world demo_commit_fails) = (Inl err, w') \<and>
     w_records (w_app w') = [] \<and> w_files (w_app w') = []"
proof -
  let ?w = "demo_rec_world demo_commit_fails"
  obtain i e rs a' where f: "forward demo_rec_executor (keyed demo_rec_executor demo_create (demo_rec_ctx ''b1'')) 0 []
      (sg_steps demo_create) (w_app ?w) = (Some (StepError i e), rs, a')" "1 \<le> i" "faults a' = []"
    using demo_create_forward [of demo_rec_executor "keyed demo_rec_executor demo_create (demo_rec_ctx ''b1'')"] that
    by (auto simp: demo_rec_world_def)
  obtain r w' where x: "execute demo_rec_executor demo_create ''s1'' (demo_rec_ctx ''b1'') ?w = (r, w')" by fastforce
  have c: "clear_run demo_rec_executor demo_create ''s1'' (demo_rec_ctx ''b1'') ?w"
    by (intro demo_rec_clear)
       (simp_all add: well_named_def CreateRecordSaga_def validation_errors_def keyed_def demo_request_def demo_rec_ctx_def saga_ctx_def)
  have j: "json_survives (ex_js demo_rec_executor)" by (simp add: demo_rec_executor_def tag_survives)
  have "w_records (w_app ?w) = []" "w_files (w_app ?w) = []" by (simp_all add: demo_rec_world_def demo_app_def)
  with failed_create_leaves_nothing [OF c j f(1-3) _ x] x show ?thesis by auto
qed

subsection \<open>Failed update\<close>

definition rewrite_row :: "string \<Rightarrow> row_updates \<Rightarrow> msec \<Rightarrow> record_row list \<Rightarrow> record_row list" where
  "rewrite_row rid u t rows = map (\<lambda>r. if rr_id r = rid then apply_updates u t r else r) rows"

lemma db_updateRecord_ok:
  "db_updateRecord rid u w = (Inr x, w') \<Longrightarrow>
     w_records w' = rewrite_row rid u (clock w) (w_records w) \<and>
     w_files w' = w_files w \<and> w_drafts w' = w_drafts w \<and> clock w' = clock w \<and>
     sc_originalRecord (w_scratch w') = sc_originalRecord (w_scratch w) \<and>
     sc_originalFilePath (w_scratch w') = sc_originalFilePath (w_scratch w) \<and>
     sc_recordExisted (w_scratch w') = sc_recordExisted (w_scratch w)"
proof -
  assume a: "db_updateRecord rid u w = (Inr x, w')"
  let ?f = "\<lambda>w. w\<lparr>w_records := rewrite_row rid u (clock w) (w_records w)\<rparr>"
  obtain y w1 where s: "sql (emodify ?f) w = (Inr y, w1)"
    and t: "ebind (db_getRecord rid) (\<lambda>r. case r of None \<Rightarrow> ereturn () | Some row \<Rightarrow> indexRecord (index_of_row row\<lparr>ix_metadata := Some
        (case rr_metadata row of None \<Rightarrow> Json (JObj []) | Some t \<Rightarrow> t)\<rparr>)) w1 = (Inr x, w')"
    using a unfolding db_updateRecord_def eseq_def ebind_def rewrite_row_def by (auto split: prod.splits sum.splits)
  have "em_rel same_stores (ebind (db_getRecord rid) (\<lambda>r. case r of None \<Rightarrow> ereturn () | Some row \<Rightarrow> indexRecord
      (index_of_row row\<lparr>ix_metadata := Some (case rr_metadata row of None \<Rightarrow> Json (JObj []) | Some t \<Rightarrow> t)\<rparr>)))"
    by (auto intro!: stores_intros stores_queries stores_index split: option.split)
  then have "same_stores w1 w'" using t by (rule em_relD')
  moreover have "w_records w1 = rewrite_row rid u (clock w) (w_records w) \<and>
      w_files w1 = w_files w \<and> w_drafts w1 = w_drafts w \<and> clock w1 = clock w \<and> w_scratch w1 = w_scratch w"
    using s unfolding sql_def by (rule external_cases) (auto simp: emodify_def)
  ultimately show ?thesis by (simp add: same_stores_def)
qed

lemma db_updateRecord_calm:
  assumes "faults w = []"
  shows "\<exists>w'. db_updateRecord rid u w = (Inr (), w')"
  using assms by (auto simp: db_updateRecord_def db_getRecord_def indexRecord_def em_defs split: option.split)

lemma UpdateInRecords_ok:
  assumes "UpdateInRecords env q ctx a = (Inr v, a1)" and "getRecord env (ctx_recordId ctx) a = (Inr (Some orig), a0)"
  shows "v = RecordV (updated_record orig q (iso_string (clock a)))"
    and "sc_originalRecord (w_scratch a1) = Some orig"
    and "sc_updatedRecord (w_scratch a1) = Some (updated_record orig q (iso_string (clock a)))"
    and "\<exists>u. w_records a1 = rewrite_row (ctx_recordId ctx) u (clock a) (w_records a)"
    and "w_files a1 = w_files a" and "w_drafts a1 = w_drafts a" and "clock a1 = clock a"
proof -
  have s0: "same_stores a a0" using assms(2) em_relD' [OF stores_getRecord] by blast
  let ?b = "a0\<lparr>w_scratch := (w_scratch a0)\<lparr>sc_originalRecord := Some orig\<rparr>\<rparr>"
  let ?u = "updated_record orig q (iso_string (clock a0))"
  obtain x a2 where d: "db_updateRecord (ctx_recordId ctx) (request_updates q ?u) ?b = (Inr x, a2)"
    and v: "v = RecordV ?u" "a1 = a2\<lparr>w_scratch := (w_scratch a2)\<lparr>sc_updatedRecord := Some ?u\<rparr>\<rparr>"
    using assms by (auto simp: UpdateInRecords_def ebind_def eseq_def remember_def emodify_def now_iso_def eget_def
        ereturn_def Let_def split: prod.splits sum.splits)
  note k = db_updateRecord_ok [OF d]
  from s0 k v show "v = RecordV (updated_record orig q (iso_string (clock a)))"
    and "sc_originalRecord (w_scratch a1) = Some orig"
    and "sc_updatedRecord (w_scratch a1) = Some (updated_record orig q (iso_string (clock a)))"
    and "w_files a1 = w_files a" and "w_drafts a1 = w_drafts a" and "clock a1 = clock a"
    by (simp_all add: same_stores_def)
  from s0 k v show "\<exists>u. w_records a1 = rewrite_row (ctx_recordId ctx) u (clock a) (w_records a)"
    by (intro exI [of _ "request_updates q ?u"]) (simp add: same_stores_def)
qed

text \<open>What a record read back always has.\<close>

lemma parsed_fields:
  assumes "parseFromMarkdown env c p = Inr r"
  shows "jtruthy (rd_status r)" and "rd_content r \<noteq> None"
proof -
  obtain fm body where v: "validateRequiredFields fm p = None" and r: "r = record_of_fields fm body"
    using assms by (auto simp: parseFromMarkdown_def parse_fields_def split: sum.splits prod.splits if_splits option.splits)
  from v have "jtruthy (jget fm ''status'')"
    by (auto simp: validateRequiredFields_def required_fields_def Let_def filter_empty_conv split: if_splits)
  with r show "jtruthy (rd_status r)" and "rd_content r \<noteq> None" by (simp_all add: record_of_fields_def)
qed

lemma read_fields:
  assumes "getRecord env rid a = (Inr (Some orig), a0)"
  shows "rd_status orig \<noteq> JUndef" and "rd_content orig \<noteq> None" and "rd_workflowState orig \<noteq> JUndef"
proof -
  have "(\<exists>row. orig = record_of_row row) \<or> (\<exists>row parsed env c p. orig = merged_record row parsed \<and> parseFromMarkdown env c p = Inr parsed)"
    using assms by (auto simp: getRecord_def ebind_def ereturn_def ecatch_def parse_record_def split: prod.splits sum.splits option.splits)
  then have "rd_status orig \<noteq> JUndef \<and> rd_content orig \<noteq> None \<and> rd_workflowState orig \<noteq> JUndef"
  proof (elim disjE exE conjE)
    fix row assume "orig = record_of_row row"
    then show ?thesis by (auto simp: record_of_row_def jor_def col_def Let_def)
  next
    fix row parsed env c p assume "orig = merged_record row parsed" and "parseFromMarkdown env c p = Inr parsed"
    then show ?thesis using parsed_fields [of env c p parsed] by (auto simp: merged_record_def col_def)
  qed
  then show "rd_status orig \<noteq> JUndef" and "rd_content orig \<noteq> None" and "rd_workflowState orig \<noteq> JUndef" by simp_all
qed

text \<open>The compensation overwrites every column that an update may have written.\<close>

lemma restore_overrides:
  assumes "rd_title orig \<noteq> JUndef" and "rd_status orig \<noteq> JUndef" and "rd_workflowState orig \<noteq> JUndef"
    and "rd_content orig \<noteq> None" and "truthy (rd_path orig)"
  shows "apply_updates (original_updates orig) t (apply_updates u t' r) = apply_updates (original_updates orig) t r"
  using assms by (auto simp: apply_updates_def original_updates_def given_def given_col_def reset_col_def)

lemma set_again: "jm_get m k = Some v \<Longrightarrow> jm_set k v (jm_set k v' m) = m"
  by (induction m) (auto split: if_splits)

lemma set_same: "jm_get m k = Some v \<Longrightarrow> jm_set k v m = m"
  by (induction m) (auto split: if_splits)

lemma serialize_clock: "clock b = clock a \<Longrightarrow> fst (serialize_record env r b) = fst (serialize_record env r a)"
  by (simp add: serialize_record_def split: sum.split)

definition update_rest :: "record_env \<Rightarrow> record_step list" where
  "update_rest env =
     [make_step ''CommitToGit'' False 30000 (\<lambda>ctx. commit_step env ''Updated record and filePath not available in context'' sc_updatedRecord (\<lambda>_. ''Update'')) no_undo,
      make_step ''EmitHooks'' False 5000 (\<lambda>ctx. hook_step env no_updated ''record:updated'' sc_updatedRecord RecordV) no_undo]"

definition update_all :: "record_env \<Rightarrow> update_request \<Rightarrow> record_step list" where
  "update_all env q = make_step ''UpdateInRecords'' True 30000 (UpdateInRecords env q) undo_UpdateInRecords #
     make_step ''UpdateFile'' True 30000 (\<lambda>ctx. file_step env no_updated sc_updatedRecord) (undo_UpdateFile env) #
     update_rest env"

lemma update_steps: "sg_steps (UpdateRecordSaga env q) = update_all env q"
  by (simp add: UpdateRecordSaga_def update_all_def update_rest_def)

lemma plain_update: "list_all plain_step (sg_steps (UpdateRecordSaga env q))"
proof -
  have "plain (UpdateInRecords env q ctx)" for ctx
    unfolding UpdateInRecords_def now_iso_def Let_def by (rule plain_rules | simp)+
  then show ?thesis unfolding update_steps update_all_def update_rest_def by auto
qed

text \<open>The two compensations, when no call fails.\<close>

lemma undo_update_calm:
  assumes "faults a = []" and "sc_originalRecord (w_scratch a) = Some orig"
  obtains b where "snd (undo_UpdateInRecords ctx (Some v) a) = b" "w_files b = w_files a" "w_drafts b = w_drafts a"
    "w_records b = rewrite_row (ctx_recordId ctx) (original_updates orig) (clock a) (w_records a)"
proof -
  obtain b where b: "db_updateRecord (ctx_recordId ctx) (original_updates orig) a = (Inr (), b)"
    using db_updateRecord_calm [OF assms(1)] by blast
  then have "snd (undo_UpdateInRecords ctx (Some v) a) = b"
    using assms(2) by (simp add: undo_UpdateInRecords_def scratch_def ebind_def eget_def)
  then show thesis using that db_updateRecord_ok [OF b] by blast
qed

lemma undo_update_file_calm:
  assumes "faults a = []" and "sc_originalRecord (w_scratch a) = Some orig" and "p \<noteq> []"
    and "fst (serialize_record env orig a) = Inr c"
  shows "snd (undo_UpdateFile env ctx (Some (TextV p)) a) = a\<lparr>w_files := jm_set (full_path env p) c (w_files a)\<rparr>"
proof -
  have "serialize_record env orig a = (Inr c, a)"
    using assms(4) serialize_pure [of env orig a] by auto
  then show ?thesis
    using assms(1-3) by (simp add: undo_UpdateFile_def scratch_def ebind_def eget_def equiet_def write_file_def emodify_def)
qed

lemma update_rolls_back:
  assumes "json_survives js" and "1 \<le> i" and "faults a' = []"
    and "forward ex ctx 0 [] (sg_steps (UpdateRecordSaga env q)) a = (Some (StepError i e), rs, a')"
    and "getRecord env (ctx_recordId ctx) a = (Inr (Some orig), a0)"
    and "rd_title orig \<noteq> JUndef" and "rd_path orig = Some p" and "p \<noteq> []" and "uq_relativePath q = None"
    and "fst (serialize_record env orig a) = Inr c" and "jm_get (w_files a) (full_path env p) = Some c"
  shows "w_files (rollback js ctx (sg_steps (UpdateRecordSaga env q)) rs a') = w_files a \<and>
    w_drafts (rollback js ctx (sg_steps (UpdateRecordSaga env q)) rs a') = w_drafts a \<and>
    w_records (rollback js ctx (sg_steps (UpdateRecordSaga env q)) rs a') =
      rewrite_row (ctx_recordId ctx) (original_updates orig) (clock a) (w_records a)"
proof -
  note over = restore_overrides [OF assms(6) read_fields(1,3,2) [OF assms(5)]]
  let ?r = "updated_record orig q (iso_string (clock a))"
  have path: "rd_path ?r = Some p"
    using assms(7,9) by (simp add: updated_record_def updated_fields_def keep_or_def Let_def split: jv.splits)
  have restored: "rewrite_row (ctx_recordId ctx) (original_updates orig) t (rewrite_row (ctx_recordId ctx) u t rows) =
      rewrite_row (ctx_recordId ctx) (original_updates orig) t rows" for t u rows
  proof -
    have id: "rr_id (apply_updates u t r) = rr_id r" for r by (simp add: apply_updates_def)
    show ?thesis using over assms(7,8) by (auto simp: rewrite_row_def truthy_def id)
  qed
  show ?thesis
    unfolding update_steps
  proof (rule two_step_failure [OF assms(4) [unfolded update_steps update_all_def] assms(2), where js = js, folded update_all_def])
    show "list_all inert_step (butlast (update_rest env))" by (simp add: update_rest_def inert_step_def)
    show "list_all keeping_step (update_rest env)" by (auto simp: update_rest_def intro: stores_steps)
  next
    fix v0 a1
    assume r0: "UpdateInRecords env q ctx a = (Inr v0, a1)" and r1: "file_step env no_updated sc_updatedRecord a1 = (Inl e, a')"
      and rb: "rollback js ctx (update_all env q) rs a' = snd (undo_UpdateInRecords ctx (stored js v0) a')"
    note u = UpdateInRecords_ok [OF r0 assms(5)]
    have ss: "same_stores a1 a'" using r1 by (cases rule: file_step_cases) auto
    obtain x where x: "stored js v0 = Some x" using stored_some [OF assms(1)] u(1) by metis
    have "sc_originalRecord (w_scratch a') = Some orig" using ss u(2) by (simp add: same_stores_def)
    from undo_update_calm [OF assms(3) this, of ctx x] u ss rb x restored
    show "w_files (rollback js ctx (update_all env q) rs a') = w_files a \<and> w_drafts (rollback js ctx (update_all env q) rs a') = w_drafts a \<and>
      w_records (rollback js ctx (update_all env q) rs a') =
        rewrite_row (ctx_recordId ctx) (original_updates orig) (clock a) (w_records a)"
      by (auto simp: same_stores_def)
  next
    fix v0 a1 v1 a2
    assume r0: "UpdateInRecords env q ctx a = (Inr v0, a1)" and r1: "file_step env no_updated sc_updatedRecord a1 = (Inr v1, a2)"
      and ss: "same_stores a2 a'"
      and rb: "rollback js ctx (update_all env q) rs a' =
        snd (undo_UpdateInRecords ctx (stored js v0) (snd (undo_UpdateFile env ctx (stored js v1) a')))"
    note u = UpdateInRecords_ok [OF r0 assms(5)]
    obtain x where x: "stored js v0 = Some x" using stored_some [OF assms(1)] u(1) by metis
    obtain t where f: "v1 = TextV p" "w_files a2 = jm_set (full_path env p) t (w_files a1)" "w_records a2 = w_records a1"
      "w_drafts a2 = w_drafts a1" "clock a2 = clock a1" "sc_originalRecord (w_scratch a2) = Some orig"
      using r1 u(2,3) path assms(8) by (cases rule: file_step_cases) (auto simp: or_null_def split: list.splits)
    have o: "sc_originalRecord (w_scratch a') = Some orig" "clock a' = clock a" using ss f u(7) by (simp_all add: same_stores_def)
    have "fst (serialize_record env orig a') = Inr c" using serialize_clock [OF o(2)] assms(10) by simp
    note uf = undo_update_file_calm [OF assms(3) o(1) assms(8) this, of ctx]
    let ?b = "a'\<lparr>w_files := jm_set (full_path env p) c (w_files a')\<rparr>"
    have "w_files ?b = w_files a"
      using ss f u(5) set_again [OF assms(11)] by (simp add: same_stores_def)
    moreover obtain b where "snd (undo_UpdateInRecords ctx (Some x) ?b) = b" "w_files b = w_files ?b" "w_drafts b = w_drafts ?b"
      "w_records b = rewrite_row (ctx_recordId ctx) (original_updates orig) (clock ?b) (w_records ?b)"
      using undo_update_calm [of ?b orig ctx x] assms(3) o(1) by auto
    moreover obtain ups where "w_records a1 = rewrite_row (ctx_recordId ctx) ups (clock a) (w_records a)"
      using u(4) by blast
    ultimately show "w_files (rollback js ctx (update_all env q) rs a') = w_files a \<and> w_drafts (rollback js ctx (update_all env q) rs a') = w_drafts a \<and>
      w_records (rollback js ctx (update_all env q) rs a') =
        rewrite_row (ctx_recordId ctx) (original_updates orig) (clock a) (w_records a)"
      using rb x uf stored_text [OF assms(1,8)] f(1,3,4) ss u(6) o(2) restored by (simp add: same_stores_def)
  qed
qed

text \<open>What the row of a record must hold so that it says what the record says: a scalar column
  the value itself, a JSON column the text of the value or \<open>NULL\<close> for an absent one.\<close>

definition json_cell :: "jv \<Rightarrow> json_text option" where
  "json_cell v = (if jtruthy v then Some (Json (json_of v)) else None)"

definition row_saying :: "record_data \<Rightarrow> record_row \<Rightarrow> record_row" where
  "row_saying r row = row\<lparr>rr_title := rd_title r, rr_status := rd_status r, rr_workflow_state := rd_workflowState r,
     rr_content := rd_content r, rr_metadata := metadata_column r, rr_geography := json_cell (rd_geography r),
     rr_attached_files := json_cell (rd_attachedFiles r), rr_linked_records := json_cell (rd_linkedRecords r),
     rr_linked_geography_files := json_cell (rd_linkedGeographyFiles r), rr_path := rd_path r\<rparr>"

lemma stringify_if_cell: "stringify_if v = json_cell v"
  by (cases v) (simp_all add: stringify_if_def stringify_def json_cell_def)

lemma restored_row:
  assumes "rd_title orig \<noteq> JUndef" and "rd_status orig \<noteq> JUndef" and "rd_workflowState orig \<noteq> JUndef"
    and "rd_content orig \<noteq> None" and "truthy (rd_path orig)"
  shows "apply_updates (original_updates orig) t row = (row_saying orig row)\<lparr>rr_updated_at := t\<rparr>"
  using assms
  by (auto simp: apply_updates_def original_updates_def row_saying_def given_def given_col_def reset_col_def stringify_if_cell)

text \<open>C3: A failed update is taken back completely. When a step after the first fails and the
  compensations go through, the file again holds the text it held, the drafts are as before, and
  in the row of the record every column an update can write again says what the record said when
  it was read before the update, absent values included; only the time of the last change is new,
  and every other row is untouched. So where the row said the same as the record, the table is
  as before but for that time. (The file was written by the program, so that it is the text of
  the record, and the update moves nothing.)\<close>

theorem failed_update_is_taken_back:
  assumes "clear_run ex (UpdateRecordSaga env q) sid ctx w" and "json_survives (ex_js ex)"
    and "forward ex (keyed ex (UpdateRecordSaga env q) ctx) 0 [] (sg_steps (UpdateRecordSaga env q)) (w_app w) =
      (Some (StepError i e), rs, a')"
    and "1 \<le> i" and "faults a' = []"
    and "getRecord env (ctx_recordId ctx) (w_app w) = (Inr (Some orig), a0)"
    and "rd_title orig \<noteq> JUndef" and "rd_path orig = Some p" and "p \<noteq> []" and "uq_relativePath q = None"
    and "fst (serialize_record env orig (w_app w)) = Inr c" and "jm_get (w_files (w_app w)) (full_path env p) = Some c"
    and "execute ex (UpdateRecordSaga env q) sid ctx w = (r, w')"
  shows "(\<exists>err. r = Inl err) \<and> w_files (w_app w') = w_files (w_app w) \<and> w_drafts (w_app w') = w_drafts (w_app w) \<and>
    w_records (w_app w') = map (\<lambda>x. if rr_id x = ctx_recordId ctx
      then (row_saying orig x)\<lparr>rr_updated_at := clock (w_app w)\<rparr> else x) (w_records (w_app w)) \<and>
    ((\<forall>x \<in> set (w_records (w_app w)). rr_id x = ctx_recordId ctx \<longrightarrow> row_saying orig x = x) \<longrightarrow>
      w_records (w_app w') = map (\<lambda>x. if rr_id x = ctx_recordId ctx
        then x\<lparr>rr_updated_at := clock (w_app w)\<rparr> else x) (w_records (w_app w)))"
proof -
  let ?sg = "UpdateRecordSaga env q"
  have id: "ctx_recordId (keyed ex ?sg ctx) = ctx_recordId ctx"
    by (simp add: ctx_recordId_def keyed_def cong: option.case_cong)
  note f = failed_execution [OF assms(1) plain_update assms(3,13)]
  have "truthy (rd_path orig)" using assms(8,9) by (simp add: truthy_def)
  note row = restored_row [OF assms(7) read_fields(1,3,2) [OF assms(6)] this]
  from update_rolls_back [OF assms(2,4,5,3), unfolded id, OF assms(6-12)] f show ?thesis
    by (simp add: rewrite_row_def row cong: if_cong)
qed

definition demo_row_b1 :: record_row where
  "demo_row_b1 = \<lparr>rr_id = ''b1'', rr_title = JStr ''Noise'', rr_type = JStr ''bylaw'', rr_status = JStr ''adopted'',
     rr_workflow_state = JNull, rr_content = Some ''Text'', rr_metadata = None, rr_geography = None,
     rr_attached_files = None, rr_linked_records = None, rr_linked_geography_files = None,
     rr_path = Some ''records/bylaw/b1.md'', rr_author = JStr ''ada'', rr_created_at = 0, rr_updated_at = 0\<rparr>"

lemma demo_row_b1 [simp]: "rr_id demo_row_b1 = ''b1''" "rr_path demo_row_b1 = Some ''records/bylaw/b1.md''"
  "rr_title demo_row_b1 = JStr ''Noise''" "rr_geography demo_row_b1 = None"
  by (simp_all add: demo_row_b1_def)

definition demo_row_read :: record_row where
  "demo_row_read = demo_row_b1\<lparr>rr_metadata := Some (Json (JObj [(''read_at'', JArr [JStr ''1970-01-01T00:00:00.000Z''])]))\<rparr>"

lemma demo_row_read [simp]: "rr_id demo_row_read = ''b1''" "rr_path demo_row_read = Some ''records/bylaw/b1.md''"
  "rr_workflow_state demo_row_read = JNull"
  by (simp_all add: demo_row_read_def demo_row_b1_def)

definition demo_update :: update_request where
  "demo_update = \<lparr>uq_title = JStr ''Quiet'', uq_content = Some ''New'', uq_status = JUndef, uq_workflowState = JUndef,
     uq_relativePath = None, uq_skipSaga = False, uq_skipFileGeneration = False, uq_skipAudit = False, uq_skipHooks = False,
     uq_metadata = JUndef, uq_geography = JObj [(''id'', JStr ''g'')], uq_attachedFiles = JUndef, uq_linkedRecords = JUndef,
     uq_linkedGeographyFiles = JUndef, uq_authors = JUndef, uq_source = JUndef\<rparr>"

definition demo_read :: "record_data \<Rightarrow> bool" where
  "demo_read r \<longleftrightarrow> rd_title r = JStr ''Noise'' \<and> rd_status r = JStr ''adopted'' \<and> rd_content r = Some ''Text'' \<and>
     rd_source r = JUndef \<and> rd_authors r = JUndef \<and> rd_geography r = JUndef \<and> rd_attachedFiles r = JUndef \<and>
     rd_linkedRecords r = JUndef \<and> rd_linkedGeographyFiles r = JUndef \<and>
     rd_created_at r = JStr ''1970-01-01T00:00:00.000Z'' \<and> rd_updated_at r = JStr ''1970-01-01T00:00:00.000Z'' \<and>
     rd_metadata r = JObj [(''read_at'', JArr [JStr ''1970-01-01T00:00:00.000Z''])]"

lemma demo_parsed:
  obtains r where "\<And>c p a. clock a = 0 \<Longrightarrow> parse_record demo_rec_env c p a = (Inr r, a)" and "demo_read r"
proof -
  have "case parse_fields (demo_env demo_front ''Text'') None (JObj demo_front) ''Text'' of Inl e \<Rightarrow> False
     | Inr r \<Rightarrow> demo_read r"
    by code_simp
  then obtain r where r: "parse_fields (demo_env demo_front ''Text'') None (JObj demo_front) ''Text'' = Inr r" "demo_read r"
    by (auto split: sum.splits)
  have "parse_fields (demo_env demo_front ''Text'') p (JObj demo_front) ''Text'' = Inr r" for p
    using r(1) by (auto simp: parse_fields_def validateRequiredFields_def demo_env_def Let_def split: sum.splits if_splits)
  then have "clock a = 0 \<Longrightarrow> parse_record demo_rec_env c p a = (Inr r, a)" for c p and a :: rec_world
    by (simp add: parse_record_def parseFromMarkdown_def parser_now_def demo_rec_env_def demo_env_def)
  with r that show thesis by blast
qed

text \<open>The commit fails: the tenth call.\<close>

abbreviation demo_update_app :: "string \<Rightarrow> rec_world" where
  "demo_update_app c \<equiv> demo_app [False, False, False, False, False, False, False, False, False, True]
     [demo_row_read] [] [(full_path demo_rec_env ''records/bylaw/b1.md'', c)]"

lemma updated_plain:
  "rd_path (updated_record orig demo_update t) = rd_path orig" "rd_created_at (updated_record orig demo_update t) = rd_created_at orig"
  "rd_updated_at (updated_record orig demo_update t) = JStr t"
  "rd_source orig = JUndef \<Longrightarrow> rd_metadata orig = JObj [(''read_at'', v)] \<Longrightarrow>
     rd_source (updated_record orig demo_update t) = JUndef \<and> rd_metadata (updated_record orig demo_update t) = JObj [(''read_at'', v)]"
  by (simp_all add: updated_record_def updated_fields_def merged_metadata_def demo_update_def keep_or_def given_def source_object_def
      spread_def jor_def Let_def split: jv.splits)

lemma demo_update_forward:
  assumes "\<And>c p b. clock b = 0 \<Longrightarrow> parse_record demo_rec_env c p b = (Inr r, b)"
    and "\<And>b. clock b = 0 \<Longrightarrow> \<exists>c'. serialize_record demo_rec_env (updated_record (merged_record demo_row_read r) demo_update (iso_string 0)) b = (Inr c', b)"
    and "ctx_recordId ctx = ''b1''"
  shows "\<exists>i e rs a'. forward ex ctx 0 [] (sg_steps (UpdateRecordSaga demo_rec_env demo_update)) (demo_update_app c) =
    (Some (StepError i e), rs, a') \<and> 1 \<le> i \<and> faults a' = []"
proof -
  obtain c' where c: "clock b = 0 \<Longrightarrow> serialize_record demo_rec_env (updated_record (merged_record demo_row_read r) demo_update (iso_string 0)) b = (Inr (c' b), b)" for b
    using assms(2) by metis
  have p: "rd_path (updated_record (merged_record demo_row_read r) demo_update t) = Some ''records/bylaw/b1.md''" for t
    by (simp add: updated_plain merged_record_def)
  show ?thesis
    unfolding update_steps update_all_def update_rest_def
    by (simp add: forward_make_step UpdateInRecords_def getRecord_def file_step_def commit_step_def commit_files_def need_def scratch_def
      remember_def now_iso_def db_updateRecord_def db_getRecord_def find_record_def read_file_def indexRecord_def write_file_def
      ensureDirectoryForRecordPath_def git_commit_def sql_def fs_op_def external_def assms(1,3) c p demo_schema
      em_defs demo_app_def no_scratch_def apply_updates_def or_null_def Let_def del: forward.simps)
      (simp add: demo_rec_env_def)
qed

lemma failed_update_is_taken_back_witness:
  "\<exists>c w' err. execute demo_rec_executor (UpdateRecordSaga demo_rec_env demo_update) ''s1'' (demo_rec_ctx ''b1'')
       (demo_rec_world (demo_update_app c)) = (Inl err, w') \<and>
     jm_get (w_files (w_app w')) (full_path demo_rec_env ''records/bylaw/b1.md'') = Some c \<and>
     w_records (w_app w') = [demo_row_read]"
proof -
  let ?sg = "UpdateRecordSaga demo_rec_env demo_update" and ?ctx = "demo_rec_ctx ''b1''"
  obtain r where r: "\<And>c p b. clock b = 0 \<Longrightarrow> parse_record demo_rec_env c p b = (Inr r, b)" and demo_r: "demo_read r"
    by (rule demo_parsed) blast
  let ?orig = "merged_record demo_row_read r"
  have o: "rd_created_at ?orig = JStr ''1970-01-01T00:00:00.000Z''" "rd_updated_at ?orig = JStr ''1970-01-01T00:00:00.000Z''"
    "rd_source ?orig = JUndef" "rd_metadata ?orig = JObj [(''read_at'', JArr [JStr ''1970-01-01T00:00:00.000Z''])]"
    "rd_path ?orig = Some ''records/bylaw/b1.md''" "rd_title ?orig = JStr ''Noise''"
    using demo_r by (simp_all add: demo_read_def merged_record_def jor_def)
  have ser: "\<exists>c. serialize_record demo_rec_env ?orig b = (Inr c, b)" for b
    by (rule serialize_ok) (use o in simp_all)
  have ser': "\<exists>c. serialize_record demo_rec_env (updated_record ?orig demo_update (iso_string 0)) b = (Inr c, b)" for b
    by (rule serialize_ok) (use o updated_plain(4) [OF o(3,4)] in \<open>simp_all add: updated_plain\<close>)
  obtain c where "serialize_record demo_rec_env ?orig (demo_update_app []) = (Inr c, demo_update_app [])" using ser by blast
  then have c: "fst (serialize_record demo_rec_env ?orig (demo_update_app d)) = Inr c" for d
    using serialize_clock [of "demo_update_app d" "demo_update_app []"] by (simp add: demo_app_def)
  let ?w = "demo_rec_world (demo_update_app c)"
  have cid: "ctx_recordId (keyed demo_rec_executor ?sg ?ctx) = ''b1''" "ctx_recordId ?ctx = ''b1''"
    by (simp_all add: ctx_recordId_def keyed_def demo_rec_ctx_def)
  obtain i e rs a' where f: "forward demo_rec_executor (keyed demo_rec_executor ?sg ?ctx) 0 [] (sg_steps ?sg) (w_app ?w) =
      (Some (StepError i e), rs, a')" "1 \<le> i" "faults a' = []"
    using demo_update_forward [OF r ser' cid(1), of demo_rec_executor c] that by (auto simp: demo_rec_world_def)
  have k: "clear_run demo_rec_executor ?sg ''s1'' ?ctx ?w"
    by (intro demo_rec_clear)
       (use cid in \<open>simp_all add: well_named_def UpdateRecordSaga_def validation_errors_def keyed_def demo_rec_ctx_def saga_ctx_def\<close>)
  obtain a0 where g: "getRecord demo_rec_env (ctx_recordId ?ctx) (w_app ?w) = (Inr (Some ?orig), a0)"
    using cid r by (simp add: getRecord_def db_getRecord_def read_file_def find_record_def sql_def fs_op_def external_def em_defs
      demo_rec_world_def demo_app_def or_null_def)
  obtain res w' where x: "execute demo_rec_executor ?sg ''s1'' ?ctx ?w = (res, w')" by fastforce
  have "json_survives (ex_js demo_rec_executor)" by (simp add: demo_rec_executor_def tag_survives)
  note t = failed_update_is_taken_back [OF k this f g _ o(5) _ _ _ _ x]
  have same: "row_saying ?orig demo_row_read = demo_row_read"
    using demo_r by (simp add: demo_read_def row_saying_def merged_record_def demo_row_read_def demo_row_b1_def json_cell_def
        metadata_column_def stringify_def set_if_def col_def)
  have old: "w_records (w_app ?w) = [demo_row_read]" "clock (w_app ?w) = 0"
    "w_files (w_app ?w) = [(full_path demo_rec_env ''records/bylaw/b1.md'', c)]"
    by (simp_all add: demo_rec_world_def demo_app_def)
  have "(\<exists>err. res = Inl err) \<and> w_files (w_app w') = w_files (w_app ?w) \<and>
      w_records (w_app w') = map (\<lambda>x. if rr_id x = ctx_recordId ?ctx then x\<lparr>rr_updated_at := clock (w_app ?w)\<rparr> else x) (w_records (w_app ?w))"
    using t c o same old by (simp add: demo_rec_world_def demo_update_def)
  with x old cid show ?thesis
    by (intro exI [of _ c] exI [of _ w']) (auto simp: demo_row_read_def demo_row_b1_def)
qed

end
