(* ===== verification/Record_Saga_Gaps.thy ===== *)
theory Record_Saga_Gaps
  imports Record_Saga_Theorems
begin

section \<open>Where the record sagas fall short\<close>

text \<open>
  Runs that the compensations do not cover: an index failure inside the first step of a
  creation, a failed publish over an existing record, the file of an archived record, and a
  publish that is answered from the idempotency key although the draft was edited.
\<close>

subsection \<open>Creation and the index\<close>

text \<open>A creation can leave its row behind. When the row is inserted and the index write that
  belongs to the same step fails, the step has not completed and is not compensated: the error
  is reported and the record row stays, without a file.\<close>

theorem failed_index_keeps_created_row:
  assumes "clear_run ex (CreateRecordSaga env q user) sid ctx w"
    and "faults (w_app w) = [False, True] \<or> faults (w_app w) = [False, False, True]"
    and "create_id ctx (clock (w_app w)) \<notin> rr_id ` set (w_records (w_app w))"
    and "execute ex (CreateRecordSaga env q user) sid ctx w = (r, w')"
  shows "(\<exists>err. r = Inl err) \<and> w_files (w_app w') = w_files (w_app w) \<and>
    (\<exists>row. rr_id row = create_id ctx (clock (w_app w)) \<and> w_records (w_app w') = w_records (w_app w) @ [row])"
proof -
  let ?sg = "CreateRecordSaga env q user"
  let ?ctx = "keyed ex ?sg ctx" and ?a = "w_app w"
  have id: "create_id ?ctx = create_id ctx"
    by (simp add: fun_eq_iff create_id_def keyed_def cong: option.case_cong)
  have "\<exists>e a'. CreateInRecords env q user ?ctx ?a = (Inl e, a') \<and> w_files a' = w_files ?a \<and>
      (\<exists>row. rr_id row = create_id ctx (clock ?a) \<and> w_records a' = w_records ?a @ [row])"
    using assms(2,3)
    by (auto simp: CreateInRecords_def id db_createRecord_def insert_record_def indexRecord_def sql_def external_def em_defs
        row_of_record_def Let_def)
  then obtain e a' row where s: "CreateInRecords env q user ?ctx ?a = (Inl e, a')" "w_files a' = w_files ?a"
    "rr_id row = create_id ctx (clock ?a)" "w_records a' = w_records ?a @ [row]" by blast
  then have f: "forward ex ?ctx 0 [] (sg_steps ?sg) ?a = (Some (StepError 0 e), [], a')"
    by (simp add: create_steps create_all_def forward_make_step del: forward.simps)
  from failed_execution [OF assms(1) plain_create f assms(4)] s show ?thesis by (simp add: rollback_def)
qed

lemma failed_index_keeps_created_row_witness:
  "\<exists>w' err row. execute demo_rec_executor demo_create ''s1'' (demo_rec_ctx ''b1'')
       (demo_rec_world (demo_app [False, True] [] [] [])) = (Inl err, w') \<and>
     w_records (w_app w') = [row] \<and> rr_id row = ''b1'' \<and> w_files (w_app w') = []"
proof -
  let ?w = "demo_rec_world (demo_app [False, True] [] [] [])"
  obtain r w' where x: "execute demo_rec_executor demo_create ''s1'' (demo_rec_ctx ''b1'') ?w = (r, w')" by fastforce
  have c: "clear_run demo_rec_executor demo_create ''s1'' (demo_rec_ctx ''b1'') ?w"
    by (intro demo_rec_clear)
       (simp_all add: well_named_def CreateRecordSaga_def validation_errors_def keyed_def demo_request_def demo_rec_ctx_def saga_ctx_def)
  have "create_id (demo_rec_ctx ''b1'') t = ''b1''" for t by (simp add: create_id_def demo_rec_ctx_def)
  with failed_index_keeps_created_row [OF c _ _ x] x show ?thesis
    by (auto simp: demo_rec_world_def demo_app_def)
qed

subsection \<open>Publishing over an existing record\<close>

lemma find_record_rewrite: "find_record rid (rewrite_row rid u t rows) = map_option (apply_updates u t) (find_record rid rows)"
  by (induction rows) (auto simp: find_record_def rewrite_row_def apply_updates_def)

lemma parse_column_pure: "\<exists>x. parse_column d t a = (x, a)"
  by (cases t) (auto simp: parse_column_def em_defs split: json_text.split)

lemma draft_columns_ok:
  assumes "draft_columns d k a = (Inr r, b)"
  obtains m g f l lg where "k m g f l lg a = (Inr r, b)"
proof -
  obtain x1 where x1: "parse_column (JObj []) (dr_metadata d) a = (x1, a)" using parse_column_pure by blast
  obtain x2 where x2: "parse_column JUndef (dr_geography d) a = (x2, a)" using parse_column_pure by blast
  obtain x3 where x3: "parse_column JUndef (dr_attached_files d) a = (x3, a)" using parse_column_pure by blast
  obtain x4 where x4: "parse_column JUndef (dr_linked_records d) a = (x4, a)" using parse_column_pure by blast
  obtain x5 where x5: "parse_column JUndef (dr_linked_geography_files d) a = (x5, a)" using parse_column_pure by blast
  from assms x1 x2 x3 x4 x5 that show thesis
    by (auto simp: draft_columns_def ebind_def split: sum.splits)
qed

lemma select_draft_ok: "select_draft rid a = (Inr x, b) \<Longrightarrow> w_draft_column a \<Longrightarrow> x = find_draft rid (w_drafts a) \<and> same_stores a b"
  unfolding select_draft_def sql_def
  by (erule external_cases) (auto simp: eget_def same_stores_def map_option_case split: option.splits)

lemma eseq_remember: "eseq (remember f) m w = m (w\<lparr>w_scratch := f (w_scratch w)\<rparr>)"
  by (simp add: eseq_def ebind_def remember_def emodify_def)

lemma MoveToRecords_over:
  assumes "MoveToRecords env user st ctx a = (Inr v, a1)"
    and "find_record (ctx_draftId ctx) (w_records a) = Some row" and "rr_path row = Some p" and "p \<noteq> []"
    and "find_draft (ctx_draftId ctx) (w_drafts a) = Some d" and "w_draft_column a" and "\<not> is_nullish (dr_workflow_state d)"
  obtains r u where "v = RecordV r" "sc_record (w_scratch a1) = Some r" "rd_path r = Some p"
    "sc_recordExisted (w_scratch a1)" "w_records a1 = rewrite_row (ctx_draftId ctx) u (clock a) (w_records a)"
    "ru_title u = dr_title d" "w_files a1 = w_files a"
proof -
  obtain b where g: "db_getDraft (ctx_draftId ctx) a = (Inr (Some d), b)" and sb: "same_stores a b"
    using assms(1,5,6,7)
    by (auto simp: MoveToRecords_def ebind_def db_getDraft_def is_nullish_def ereturn_def dest: select_draft_ok
        split: prod.splits sum.splits option.splits)
  let ?st = "jor st (jor (dr_status d) (JStr ''draft''))"
  let ?b1 = "b\<lparr>w_scratch := (w_scratch b)\<lparr>sc_draft := Some d\<rparr>\<rparr>"
  have sb1: "w_records ?b1 = w_records a" "w_files ?b1 = w_files a" "clock ?b1 = clock a" using sb by (simp_all add: same_stores_def)
  obtain x c where q: "db_getRecord (ctx_draftId ctx) ?b1 = (x, c)" by fastforce
  have sc: "same_stores ?b1 c" using q em_relD' [OF stores_queries(1)] by blast
  let ?c1 = "c\<lparr>w_scratch := (w_scratch c)\<lparr>sc_recordExisted := True\<rparr>\<rparr>"
  let ?k = "\<lambda>m g f l lg. ebind (eget clock) (\<lambda>now. let r = republished env row d ?st m g f l lg now in
      eseq (db_updateRecord (ctx_draftId ctx) (publish_updates r)) (ereturn r))"
  have "x \<noteq> Inl err" for err
    using assms(1) q by (auto simp: MoveToRecords_def ebind_Inr [where m = "db_getDraft (ctx_draftId ctx)", OF g] ebind_Inl eseq_remember)
  then have q: "db_getRecord (ctx_draftId ctx) ?b1 = (Inr (Some row), c)"
    using q sb1(1) assms(2) unfolding db_getRecord_def sql_def
    by (auto elim!: external_cases simp: eget_def)
  have "MoveToRecords env user st ctx a =
      ebind (draft_columns d ?k) (\<lambda>r. eseq (remember (\<lambda>s. s\<lparr>sc_record := Some r\<rparr>)) (ereturn (RecordV r))) ?c1"
    by (simp add: MoveToRecords_def ebind_Inr [where m = "db_getDraft (ctx_draftId ctx)", OF g] ebind_Inr [where m = "db_getRecord (ctx_draftId ctx)", OF q] eseq_remember)
  then obtain r e where k: "draft_columns d ?k ?c1 = (Inr r, e)" and v: "v = RecordV r"
    and a1: "a1 = e\<lparr>w_scratch := (w_scratch e)\<lparr>sc_record := Some r\<rparr>\<rparr>"
    using assms(1) by (auto simp: ebind_def eseq_remember ereturn_def simp del: split_paired_Ex split: prod.splits sum.splits)
  obtain m g f l lg where kr: "?k m g f l lg ?c1 = (Inr r, e)" by (rule draft_columns_ok [OF k])
  then have r: "r = republished env row d ?st m g f l lg (clock ?c1)"
    and u: "\<exists>y. db_updateRecord (ctx_draftId ctx) (publish_updates r) ?c1 = (Inr y, e)"
    by (auto simp: ebind_def eseq_def eget_def ereturn_def Let_def split: prod.splits sum.splits)
  from u obtain y where "db_updateRecord (ctx_draftId ctx) (publish_updates r) ?c1 = (Inr y, e)" by blast
  note w = db_updateRecord_ok [OF this]
  have "or_null (rr_path row) = Some p" using assms(3,4) by simp
  then have "rd_path r = Some p" "ru_title (publish_updates r) = dr_title d"
    by (simp_all add: r republished_def publish_updates_def)
  with w sc sb1 v a1 show thesis
    by (intro that [of r "publish_updates r"]) (simp_all add: same_stores_def)
qed

definition publish_all :: "record_env \<Rightarrow> auth_user \<Rightarrow> jv \<Rightarrow> record_step list" where
  "publish_all env user st =
      [make_step ''MoveToRecords'' True 30000 (MoveToRecords env user st) undo_MoveToRecords,
       make_step ''CreateOrUpdateFile'' True 30000 (\<lambda>ctx. file_step env no_record sc_record) (undo_file env),
       make_step ''CommitToGit'' False 30000 (\<lambda>ctx. commit_step env ''Record and filePath not available in context'' sc_record
         (\<lambda>s. if sc_recordExisted s then ''Update'' else ''Create'')) no_undo,
       make_step ''DeleteDraft'' True 10000 DeleteDraft undo_DeleteDraft,
       make_step ''QueueIndexing'' False 5000 (\<lambda>ctx. queue_indexing env) no_undo,
       make_step ''EmitHooks'' False 5000 (\<lambda>ctx. hook_step env no_record ''record:published'' sc_record RecordV) no_undo]"

lemma publish_steps: "sg_steps (PublishDraftSaga env user st) = publish_all env user st"
  by (simp add: PublishDraftSaga_def publish_all_def)

lemma plain_drafts [simp, intro]: "plain (db_getDraft rid)" "plain (db_deleteDraft rid)" "plain (parse_column d t)"
proof -
  show "plain (parse_column d t)"
    unfolding parse_column_def by (auto intro!: plain_if split: option.split json_text.split)
  have "plain add_column"
    by (auto simp: plain_def add_column_def sql_def external_def split: list.split bool.split)
  then show "plain (db_getDraft rid)"
    unfolding db_getDraft_def select_draft_def has_column_def by (auto intro!: plain_rules)
  show "plain (db_deleteDraft rid)" unfolding db_deleteDraft_def by (intro plain_rules plain_basic)
qed

lemma plain_createRecordWithId [simp, intro]: "plain (createRecordWithId env rid q user)"
  unfolding createRecordWithId_def store_new_record_def createRecordFile_def write_record_file_def Let_def
  by (rule plain_rules | simp)+

lemma plain_publish: "list_all plain_step (sg_steps (PublishDraftSaga env user st))"
proof -
  have "plain (MoveToRecords env user st ctx)" for ctx
    unfolding MoveToRecords_def draft_columns_def Let_def by (rule plain_rules | simp)+
  moreover have "plain (DeleteDraft ctx)" for ctx
    unfolding DeleteDraft_def by (rule plain_rules | simp)+
  ultimately show ?thesis unfolding publish_steps publish_all_def by auto
qed

text \<open>C34: A failed republish destroys the published copy. When the commit of a publish over an
  existing record fails, the compensation deletes the record's file, which existed before, and
  the row keeps the title of the draft: the record is neither the old nor the new one.\<close>

theorem failed_republish_destroys_published_copy:
  assumes "clear_run ex (PublishDraftSaga env user st) sid ctx w" and "json_survives (ex_js ex)"
    and "forward ex (keyed ex (PublishDraftSaga env user st) ctx) 0 [] (sg_steps (PublishDraftSaga env user st)) (w_app w) =
      (Some (StepError 2 e), rs, a')" and "faults a' = []"
    and "find_record (ctx_draftId ctx) (w_records (w_app w)) = Some row" and "rr_path row = Some p" and "p \<noteq> []"
    and "find_draft (ctx_draftId ctx) (w_drafts (w_app w)) = Some d" and "w_draft_column (w_app w)"
    and "\<not> is_nullish (dr_workflow_state d)" and "dr_title d \<noteq> JUndef"
    and "execute ex (PublishDraftSaga env user st) sid ctx w = (r, w')"
  shows "(\<exists>err. r = Inl err) \<and> jm_get (w_files (w_app w')) (full_path env p) = None \<and>
    (\<exists>row'. find_record (ctx_draftId ctx) (w_records (w_app w')) = Some row' \<and> rr_title row' = dr_title d)"
proof -
  let ?sg = "PublishDraftSaga env user st"
  let ?ctx = "keyed ex ?sg ctx" and ?a = "w_app w"
  have id: "ctx_draftId ?ctx = ctx_draftId ctx"
    by (simp add: ctx_draftId_def keyed_def cong: option.case_cong)
  note f = failed_execution [OF assms(1) plain_publish assms(3,12)]
  obtain v0 a1 v1 a2 where r0: "MoveToRecords env user st ?ctx ?a = (Inr v0, a1)"
    and r1: "file_step env no_record sc_record a1 = (Inr v1, a2)"
    and r2: "commit_step env ''Record and filePath not available in context'' sc_record
         (\<lambda>s. if sc_recordExisted s then ''Update'' else ''Create'') a2 = (Inl e, a')" and rs: "rs = [v0, v1]"
    using assms(3) by (auto simp: publish_steps publish_all_def forward_make_step simp del: forward.simps
        split: prod.splits sum.splits dest: forward_StepError)
  obtain x u where m: "v0 = RecordV x" "sc_record (w_scratch a1) = Some x" "rd_path x = Some p"
    "sc_recordExisted (w_scratch a1)" "w_records a1 = rewrite_row (ctx_draftId ctx) u (clock ?a) (w_records ?a)"
    "ru_title u = dr_title d"
    using MoveToRecords_over [OF r0, unfolded id, OF assms(5-10)] by blast
  have ss: "same_stores a2 a'" using r2 em_relD' [OF stores_steps(1)] by blast
  have f1: "v1 = TextV p \<and> w_records a2 = w_records a1 \<and> sc_recordExisted (w_scratch a2)"
    using r1 m(2-4) assms(7) by (cases rule: file_step_cases) (auto simp: or_null_def split: list.splits)
  have "w_app w' = snd (undo_MoveToRecords ?ctx (stored (ex_js ex) v0) (snd (undo_file env ?ctx (stored (ex_js ex) v1) a')))"
    using f(2) by (simp add: rs publish_steps publish_all_def rollback_def undo_make_step)
  also have "\<dots> = a'\<lparr>w_files := jm_delete (full_path env p) (w_files a')\<rparr>"
    using f1 ss assms(2,4,7) stored_text [OF assms(2,7)]
    by (simp add: undo_file_calm undo_MoveToRecords_def scratch_def em_defs same_stores_def split: option.split step_value.split)
  finally have w': "w_app w' = a'\<lparr>w_files := jm_delete (full_path env p) (w_files a')\<rparr>" .
  have "w_records a' = rewrite_row (ctx_draftId ctx) u (clock ?a) (w_records ?a)"
    using ss f1 m(5) by (simp add: same_stores_def)
  then have "find_record (ctx_draftId ctx) (w_records (w_app w')) = Some (apply_updates u (clock ?a) row)"
    using w' assms(5) by (simp add: find_record_rewrite)
  moreover have "rr_title (apply_updates u (clock ?a) row) = dr_title d"
    using m(6) assms(11) by (simp add: apply_updates_def given_def)
  ultimately show ?thesis using f(1) w' by (simp add: jm_get_delete)
qed

definition demo_draft :: draft_row where
  "demo_draft = \<lparr>dr_id = ''b1'', dr_title = JStr ''Quiet'', dr_type = JStr ''bylaw'', dr_status = JStr ''adopted'',
     dr_workflow_state = JStr ''draft'', dr_markdown_body = Some ''New'', dr_metadata = None, dr_geography = None,
     dr_attached_files = None, dr_linked_records = None, dr_linked_geography_files = None, dr_author = JStr ''ada'',
     dr_created_by = JStr ''ada'', dr_saved_at = 0, dr_created_at = 0, dr_updated_at = 0\<rparr>"

lemma demo_draft [simp]: "dr_id demo_draft = ''b1''" "dr_title demo_draft = JStr ''Quiet''"
  "dr_workflow_state demo_draft = JStr ''draft''" "dr_metadata demo_draft = None" "dr_geography demo_draft = None"
  "dr_attached_files demo_draft = None" "dr_linked_records demo_draft = None" "dr_linked_geography_files demo_draft = None"
  by (simp_all add: demo_draft_def)

definition demo_draft_ctx :: saga_context where
  "demo_draft_ctx = (saga_ctx ''c1'' demo_user [''recordId'' \<mapsto> ''b1'', ''draftId'' \<mapsto> ''b1''])\<lparr>cx_draftId := Some ''b1'',
     cx_idempotencyKey := Some ''publish:b1:0f''\<rparr>"

text \<open>The commit fails: the tenth call.\<close>

abbreviation demo_publish_app :: rec_world where
  "demo_publish_app \<equiv> demo_app [False, False, False, False, False, False, False, False, False, True]
     [demo_row_b1] [demo_draft] [(full_path demo_rec_env ''records/bylaw/b1.md'', ''Text'')]"

lemma demo_publish_forward:
  assumes "ctx_draftId ctx = ''b1''"
  shows "\<exists>e rs a'. forward ex ctx 0 [] (sg_steps (PublishDraftSaga demo_rec_env demo_user JUndef)) demo_publish_app =
    (Some (StepError 2 e), rs, a') \<and> faults a' = []"
proof -
  have ex: "\<exists>c. serialize_record demo_rec_env (republished demo_rec_env demo_row_b1 demo_draft st (JObj []) g f l lg t) b = (Inr c, b)"
    for st g f l lg t and b :: rec_world
    by (rule serialize_ok) (simp_all add: republished_def)
  obtain c' where c: "serialize_record demo_rec_env (republished demo_rec_env demo_row_b1 demo_draft st (JObj []) g f l lg t) b =
      (Inr (c' st g f l lg t b), b)" for st g f l lg t and b :: rec_world
    using ex by metis
  have p: "rd_path (republished demo_rec_env demo_row_b1 demo_draft st m g f l lg t) = Some ''records/bylaw/b1.md''" for st m g f l lg t
    by (simp add: republished_def or_null_def)
  show ?thesis
    unfolding publish_steps publish_all_def
    by (simp add: forward_make_step MoveToRecords_def db_getDraft_def select_draft_def find_draft_def draft_columns_def parse_column_def
      file_step_def commit_step_def commit_files_def need_def scratch_def assms
      remember_def db_updateRecord_def db_getRecord_def find_record_def indexRecord_def write_file_def
      ensureDirectoryForRecordPath_def git_commit_def sql_def fs_op_def external_def c p demo_schema
      em_defs demo_app_def no_scratch_def apply_updates_def or_null_def Let_def del: forward.simps)
      (simp add: demo_rec_env_def)
qed

lemma failed_republish_destroys_published_copy_witness:
  "\<exists>w' err. execute demo_rec_executor (PublishDraftSaga demo_rec_env demo_user JUndef) ''s1'' demo_draft_ctx
       (demo_rec_world demo_publish_app) = (Inl err, w') \<and>
     jm_get (w_files (w_app w')) (full_path demo_rec_env ''records/bylaw/b1.md'') = None \<and>
     map_option rr_title (find_record ''b1'' (w_records (w_app w'))) = Some (JStr ''Quiet'')"
proof -
  let ?sg = "PublishDraftSaga demo_rec_env demo_user JUndef" and ?w = "demo_rec_world demo_publish_app"
  have cid: "ctx_draftId (keyed demo_rec_executor ?sg demo_draft_ctx) = ''b1''" "ctx_draftId demo_draft_ctx = ''b1''"
    by (simp_all add: ctx_draftId_def keyed_def demo_draft_ctx_def)
  obtain e rs a' where f: "forward demo_rec_executor (keyed demo_rec_executor ?sg demo_draft_ctx) 0 [] (sg_steps ?sg) (w_app ?w) =
      (Some (StepError 2 e), rs, a')" "faults a' = []"
    using demo_publish_forward [OF cid(1), of demo_rec_executor] that by (auto simp: demo_rec_world_def)
  have k: "clear_run demo_rec_executor ?sg ''s1'' demo_draft_ctx ?w"
    by (intro demo_rec_clear)
       (use cid in \<open>simp_all add: well_named_def PublishDraftSaga_def validation_errors_def keyed_def demo_draft_ctx_def saga_ctx_def\<close>)
  obtain r w' where x: "execute demo_rec_executor ?sg ''s1'' demo_draft_ctx ?w = (r, w')" by fastforce
  have j: "json_survives (ex_js demo_rec_executor)" by (simp add: demo_rec_executor_def tag_survives)
  have "(\<exists>err. r = Inl err) \<and> jm_get (w_files (w_app w')) (full_path demo_rec_env ''records/bylaw/b1.md'') = None \<and>
    (\<exists>row'. find_record (ctx_draftId demo_draft_ctx) (w_records (w_app w')) = Some row' \<and> rr_title row' = dr_title demo_draft)"
    by (rule failed_republish_destroys_published_copy [OF k j f _ _ _ _ _ _ _ x, where row = demo_row_b1])
       (simp_all add: cid demo_rec_world_def demo_app_def find_record_def find_draft_def is_nullish_def)
  with x cid show ?thesis by auto
qed

subsection \<open>An edit that the publish key does not see\<close>

text \<open>An edit of the attachments is not published. When a draft was published and then only its
  attachments, geography or links were changed, a second publish within the lifetime of the key
  is answered with the stored result of the first: no record, file, draft or commit changes, but
  the audit trail gains a \<open>publish_record\<close> entry.\<close>

theorem attachment_edit_is_answered_from_cache:
  assumes "saga_db_ok (w_db w)" and "faults (w_db w) = []" and "faults (w_app w) = []"
    and "find_draft did (w_drafts (w_app w)) = Some (published\<lparr>dr_attached_files := attached, dr_geography := geography,
      dr_linked_records := linked, dr_linked_geography_files := linked_files\<rparr>)"
    and "w_draft_column (w_app w)" and "\<not> is_nullish (dr_workflow_state published)"
    and "row \<in> set (states (w_db w))" and "st_status row = Completed"
    and "st_idempotencyKey row = cx_idempotencyKey (keyed ex (PublishDraftSaga env user st)
      (publish_ctx digest corr0 user st did (Some published)))"
    and "clock (w_db w) - st_startedAt row \<le> key_ttl (ex_idempotency ex) (the (st_idempotencyKey row))"
  shows "\<exists>w'. publishDraft env ex sid digest did user st corr w = (Inr (final_result (ex_js ex) (st_stepResults row)), w') \<and>
    w_records (w_app w') = w_records (w_app w) \<and> w_files (w_app w') = w_files (w_app w) \<and>
    w_drafts (w_app w') = w_drafts (w_app w) \<and> w_commits (w_app w') = w_commits (w_app w) \<and>
    w_audit (w_app w') = w_audit (w_app w) @ [(''publish_record'', did)]"
proof -
  let ?sg = "PublishDraftSaga env user st"
  let ?d = "published\<lparr>dr_attached_files := attached, dr_geography := geography,
      dr_linked_records := linked, dr_linked_geography_files := linked_files\<rparr>"
  let ?ctx = "publish_ctx digest (named (''publish-'' @ did @ ''-'' @ show_int (clock (w_app w))) corr) user st did (Some ?d)"
  let ?w = "w\<lparr>w_app := (w_app w)\<lparr>w_scratch := no_scratch\<rparr>\<rparr>"
  have same: "publish_fields did st (Some ?d) = publish_fields did st (Some published)"
    by (simp add: publish_fields_def)
  have key: "cx_idempotencyKey (keyed ex ?sg ?ctx) = st_idempotencyKey row"
    unfolding assms(9)
    by (simp add: keyed_def generateIdempotencyKey_def publish_ctx_def same saga_ctx_def user_or_anonymous_def)
  have draft: "db_getDraft did (w_app w) = (Inr (Some ?d), w_app w)"
    using assms(3-6) by (simp add: db_getDraft_def select_draft_def is_nullish_def em_defs)
  have cached: "execute ex ?sg sid ?ctx ?w = (Inr (cached_result (ex_js ex) (rowToState row)), ?w)"
    by (rule execute_cached) (use assms key in simp_all)
  have r: "er_result (cached_result (ex_js ex) (rowToState row)) = final_result (ex_js ex) (st_stepResults row)"
    by (simp add: cached_result_def rowToState_def)
  show ?thesis
    using assms(3) draft cached r
    by (simp add: publishDraft_def run_saga_def write_audit_def on_app_def em_defs)
qed

definition demo_published :: "string option \<Rightarrow> saga_state" where
  "demo_published key = (external_stub ''s0'' 900)\<lparr>st_sagaType := ''PublishDraft'', st_idempotencyKey := key,
     st_status := Completed, st_stepResults := [Some ''Rb1'']\<rparr>"

lemma attachment_edit_is_answered_from_cache_witness:
  "\<exists>w w'. find_draft ''b1'' (w_drafts (w_app w)) = Some (demo_draft\<lparr>dr_attached_files := Some (Json (JArr []))\<rparr>) \<and>
     publishDraft demo_rec_env demo_rec_executor ''s1'' (\<lambda>_. ''0f'') ''b1'' demo_user JUndef None w =
       (Inr (Some (RecordV (no_record_data\<lparr>rd_id := JStr ''b1''\<rparr>))), w') \<and>
     w_commits (w_app w') = [] \<and> w_audit (w_app w') = [(''publish_record'', ''b1'')]"
proof -
  let ?sg = "PublishDraftSaga demo_rec_env demo_user JUndef"
  let ?key = "cx_idempotencyKey (keyed demo_rec_executor ?sg (publish_ctx (\<lambda>_. ''0f'') ''c0'' demo_user JUndef ''b1'' (Some demo_draft)))"
  let ?d = "demo_draft\<lparr>dr_attached_files := Some (Json (JArr [])), dr_geography := None, dr_linked_records := None,
    dr_linked_geography_files := None\<rparr>"
  let ?a = "demo_app [] [demo_row_b1] [?d] []"
  let ?w = "(demo_rec_world ?a)\<lparr>w_db := (w_db (demo_rec_world ?a))\<lparr>states := [demo_published ?key]\<rparr>\<rparr>"
  have ttl: "100 \<le> key_ttl default_idempotency_manager k" for k
    by (simp add: key_ttl_def default_idempotency_manager_def)
  have "\<exists>w'. publishDraft demo_rec_env demo_rec_executor ''s1'' (\<lambda>_. ''0f'') ''b1'' demo_user JUndef None ?w =
      (Inr (final_result (ex_js demo_rec_executor) (st_stepResults (demo_published ?key))), w') \<and>
    w_records (w_app w') = w_records (w_app ?w) \<and> w_files (w_app w') = w_files (w_app ?w) \<and>
    w_drafts (w_app w') = w_drafts (w_app ?w) \<and> w_commits (w_app w') = w_commits (w_app ?w) \<and>
    w_audit (w_app w') = w_audit (w_app ?w) @ [(''publish_record'', ''b1'')]"
    by (rule attachment_edit_is_answered_from_cache [where published = demo_draft and attached = "Some (Json (JArr []))" and
          geography = None and linked = None and linked_files = None and row = "demo_published ?key" and ?corr0.0 = "''c0''"])
       (use ttl in \<open>simp_all add: demo_rec_world_def demo_app_def demo_published_def external_stub_def saga_db_ok_def idem_keys_def
          find_draft_def is_nullish_def demo_rec_executor_def map_filter_def\<close>)
  then obtain w' where p: "publishDraft demo_rec_env demo_rec_executor ''s1'' (\<lambda>_. ''0f'') ''b1'' demo_user JUndef None ?w =
      (Inr (final_result (ex_js demo_rec_executor) (st_stepResults (demo_published ?key))), w')"
    "w_commits (w_app w') = w_commits (w_app ?w)" "w_audit (w_app w') = w_audit (w_app ?w) @ [(''publish_record'', ''b1'')]"
    by blast
  have fr: "final_result (ex_js demo_rec_executor) (st_stepResults (demo_published ?key)) =
      Some (RecordV (no_record_data\<lparr>rd_id := JStr ''b1''\<rparr>))"
    by (simp add: demo_published_def final_result_def demo_rec_executor_def tag_js_def read_tag_def)
  have dr: "?d = demo_draft\<lparr>dr_attached_files := Some (Json (JArr []))\<rparr>" by (simp add: demo_draft_def)
  show ?thesis
  proof (intro exI conjI)
    show "find_draft ''b1'' (w_drafts (w_app ?w)) = Some (demo_draft\<lparr>dr_attached_files := Some (Json (JArr []))\<rparr>)"
      by (simp add: demo_rec_world_def demo_app_def find_draft_def dr [simplified])
    show "publishDraft demo_rec_env demo_rec_executor ''s1'' (\<lambda>_. ''0f'') ''b1'' demo_user JUndef None ?w =
       (Inr (Some (RecordV (no_record_data\<lparr>rd_id := JStr ''b1''\<rparr>))), w')" using p(1) fr by simp
    show "w_commits (w_app w') = []" "w_audit (w_app w') = [(''publish_record'', ''b1'')]"
      using p(2,3) by (simp_all add: demo_rec_world_def demo_app_def)
  qed
qed

subsection \<open>The file of an archived record\<close>

lemma rename_file_ok:
  "rename_file env p q w = (Inr x, w') \<Longrightarrow> full_path env q \<noteq> full_path env p \<Longrightarrow>
     w_records w' = w_records w \<and> w_drafts w' = w_drafts w \<and> clock w' = clock w \<and> w_scratch w' = w_scratch w \<and>
     (\<exists>c. w_files w' = jm_set (full_path env q) c (jm_delete (full_path env p) (w_files w)))"
  unfolding rename_file_def fs_op_def
  by (erule external_cases) (auto simp: em_defs split: option.splits)

lemma read_row:
  assumes "getRecord env rid a = (Inr (Some orig), a0)"
  obtains row where "find_record rid (w_records a) = Some row" "rr_path row = rd_path orig"
proof -
  obtain x b where d: "db_getRecord rid a = (x, b)" by fastforce
  have f: "x = Inr y \<Longrightarrow> y = find_record rid (w_records a)" for y
    using d unfolding db_getRecord_def sql_def by (auto elim!: external_cases simp: eget_def)
  from assms d obtain row where x: "x = Inr (Some row)"
    by (auto simp: getRecord_def ebind_def ereturn_def split: sum.splits option.splits)
  have "rr_path row = rd_path orig"
    using assms d x by (auto simp: getRecord_def ebind_def ereturn_def ecatch_def record_of_row_def merged_record_def Let_def
        split: sum.splits option.splits prod.splits)
  with f [OF x] that show thesis by metis
qed

lemma UpdateStatus_ok:
  assumes "UpdateStatusToArchived env user ctx a = (Inr v, a1)" and "getRecord env (ctx_recordId ctx) a = (Inr (Some orig), a0)"
  shows "sc_originalRecord (w_scratch a1) = Some orig" and "sc_originalFilePath (w_scratch a1) = rd_path orig"
    and "w_records a1 = rewrite_row (ctx_recordId ctx) (no_updates\<lparr>ru_status := JStr ''archived'',
      ru_metadata := Some (stringify (JObj (archived_metadata orig user (iso_string (clock a)))))\<rparr>) (clock a) (w_records a)"
    and "w_files a1 = w_files a" and "clock a1 = clock a"
proof -
  have s0: "same_stores a a0" using assms(2) em_relD' [OF stores_getRecord] by blast
  let ?b = "a0\<lparr>w_scratch := (w_scratch a0)\<lparr>sc_originalRecord := Some orig, sc_originalFilePath := rd_path orig\<rparr>\<rparr>"
  let ?u = "no_updates\<lparr>ru_status := JStr ''archived'',
      ru_metadata := Some (stringify (JObj (archived_metadata orig user (iso_string (clock a0)))))\<rparr>"
  obtain x a2 y where d: "db_updateRecord (ctx_recordId ctx) ?u ?b = (Inr x, a2)" and g: "getRecord env (ctx_recordId ctx) a2 = (Inr y, a1)"
    using assms by (auto simp: UpdateStatusToArchived_def ebind_def eseq_def remember_def emodify_def now_iso_def eget_def
        ereturn_def ethrow_def Let_def split: prod.splits sum.splits option.splits)
  note k = db_updateRecord_ok [OF d]
  have s1: "same_stores a2 a1" using g em_relD' [OF stores_getRecord] by blast
  from s0 k s1 show "sc_originalRecord (w_scratch a1) = Some orig" "sc_originalFilePath (w_scratch a1) = rd_path orig"
    "w_files a1 = w_files a" "clock a1 = clock a"
    "w_records a1 = rewrite_row (ctx_recordId ctx) (no_updates\<lparr>ru_status := JStr ''archived'',
      ru_metadata := Some (stringify (JObj (archived_metadata orig user (iso_string (clock a)))))\<rparr>) (clock a) (w_records a)"
    by (simp_all add: same_stores_def)
qed

lemma MoveFile_ok:
  assumes "MoveFileToArchive env ctx a1 = (Inr v, a2)" and "sc_originalRecord (w_scratch a1) = Some orig"
    and "sc_originalFilePath (w_scratch a1) = Some p" and "p \<noteq> []"
    and "full_path env (archive_path env orig p (clock a1)) \<noteq> full_path env p"
  shows "w_records a2 = w_records a1" and "clock a2 = clock a1"
    and "\<exists>c. w_files a2 = jm_set (full_path env (archive_path env orig p (clock a1))) c (jm_delete (full_path env p) (w_files a1))"
proof -
  let ?t = "archive_path env orig p (clock a1)"
  obtain b x c where e: "ensureDirectoryForRecordPath env ?t a1 = (Inr x, b)"
    and r: "\<exists>y. rename_file env p ?t b = (Inr y, c)" and a2: "a2 = c\<lparr>w_scratch := (w_scratch c)\<lparr>sc_archiveFilePath := Some ?t\<rparr>\<rparr>"
    using assms by (auto simp: MoveFileToArchive_def need_def scratch_def ebind_def eseq_def eget_def remember_def emodify_def
        ereturn_def split: prod.splits sum.splits)
  have "same_stores a1 b" using e em_relD' [OF stores_ensure] by blast
  with r rename_file_ok assms(5) a2 show "w_records a2 = w_records a1" "clock a2 = clock a1"
    "\<exists>c. w_files a2 = jm_set (full_path env ?t) c (jm_delete (full_path env p) (w_files a1))"
    by (fastforce simp: same_stores_def)+
qed

lemma spread_keys: "fst ` set (spread a b) = fst ` set a \<union> fst ` set b"
  unfolding spread_def
proof (induction b arbitrary: a)
  case (Cons kv b)
  then show ?case by (cases kv) (simp add: dom_update)
qed simp

lemma jmember_json_absent: "k \<notin> set (jm_keys kvs) \<Longrightarrow> jmember (json_of (JObj kvs)) k = JUndef"
  by (force intro!: jget_absent)

definition archive_all :: "record_env \<Rightarrow> auth_user \<Rightarrow> record_step list" where
  "archive_all env user =
      [make_step ''UpdateStatusToArchived'' True 30000 (UpdateStatusToArchived env user) undo_UpdateStatus,
       make_step ''MoveFileToArchive'' True 30000 (MoveFileToArchive env) (undo_MoveFile env),
       make_step ''CommitToGit'' False 30000 (CommitArchive env) no_undo,
       make_step ''RemoveFromIndex'' False 5000 RemoveFromIndex no_undo,
       make_step ''EmitHooks'' False 5000 (\<lambda>ctx. hook_step env ''Original record not available in context'' ''record:archived'' sc_originalRecord (\<lambda>_. BoolV True)) no_undo]"

lemma archive_steps: "sg_steps (ArchiveRecordSaga env user) = archive_all env user"
  by (simp add: ArchiveRecordSaga_def archive_all_def)

lemma plain_archive: "list_all plain_step (sg_steps (ArchiveRecordSaga env user))"
proof -
  have "plain (UpdateStatusToArchived env user ctx)" "plain (MoveFileToArchive env ctx)" "plain (CommitArchive env ctx)"
    "plain (RemoveFromIndex ctx)" for ctx
    unfolding UpdateStatusToArchived_def MoveFileToArchive_def CommitArchive_def RemoveFromIndex_def now_iso_def Let_def
    by (rule plain_rules | simp)+
  then show ?thesis unfolding archive_steps archive_all_def by auto
qed

text \<open>An archived record loses its authors and its source. After a successful archive the row
  still names the old path, where no file is any more, so reading the record falls back to the
  row; and the row's metadata were overwritten without the authors and the source, which other
  writers keep there. (The metadata of the record as it was read hold neither.)\<close>

theorem archived_record_loses_authors:
  assumes "clear_run ex (ArchiveRecordSaga env user) sid ctx w"
    and "getRecord env (ctx_recordId ctx) (w_app w) = (Inr (Some orig), a0)" and "rd_path orig = Some p" and "p \<noteq> []"
    and "full_path env (archive_path env orig p (clock (w_app w))) \<noteq> full_path env p"
    and "''authors'' \<notin> set (jm_keys (own_members (rd_metadata orig)))"
    and "''source'' \<notin> set (jm_keys (own_members (rd_metadata orig)))"
    and "execute ex (ArchiveRecordSaga env user) sid ctx w = (Inr res, w')" and "faults (w_app w') = []"
  shows "\<exists>r. getRecord env (ctx_recordId ctx) (w_app w') = (Inr (Some r), w_app w') \<and> rd_status r = JStr ''archived'' \<and>
    rd_path r = Some p \<and> jm_get (w_files (w_app w')) (full_path env p) = None \<and>
    rd_authors r = JUndef \<and> rd_source r = JUndef"
proof -
  let ?sg = "ArchiveRecordSaga env user"
  let ?ctx = "keyed ex ?sg ctx" and ?a = "w_app w"
  have id: "ctx_recordId ?ctx = ctx_recordId ctx"
    by (simp add: ctx_recordId_def keyed_def cong: option.case_cong)
  obtain out rs a' where f: "forward ex ?ctx 0 [] (sg_steps ?sg) ?a = (out, rs, a')" by (rule prod_cases3)
  have ne: "\<And>i e. out = Some (StepError i e) \<Longrightarrow> \<not> is_step_error e"
    using forward_plain [OF plain_archive] f by blast
  have "map_sum id er_result (fst (execute ex ?sg sid ctx w)) = saga_outcome ex ?sg ?ctx ?a"
    by (rule execute_clear(1) [OF assms(1) f]) (rule ne)
  then have out: "out = None"
    using assms(8) f by (auto simp: saga_outcome_def split: option.splits abort.splits)
  have "view sid (snd (execute ex ?sg sid ctx w)) = (atomic_effect ex ?sg ?ctx ?a, [],
       Some (map (js_stringify (ex_js ex)) rs, (if out = None then Completed else Failed), cx_idempotencyKey ?ctx, clock (w_db w)))"
    by (rule execute_clear(2) [OF assms(1) f]) (rule ne)
  then have w': "w_app w' = a'"
    using assms(8) f out by (simp add: view_def atomic_effect_def)
  obtain v0 a1 v1 a2 where r0: "UpdateStatusToArchived env user ?ctx ?a = (Inr v0, a1)"
    and r1: "MoveFileToArchive env ?ctx a1 = (Inr v1, a2)"
    and f2: "forward ex ?ctx 2 [v0, v1] (drop 2 (archive_all env user)) a2 = (None, rs, a')"
    using f out by (auto simp: archive_steps archive_all_def forward_make_step numeral_2_eq_2 simp del: forward.simps
        split: prod.splits sum.splits)
  have "list_all keeping_step (drop 2 (archive_all env user))"
    by (auto simp: archive_all_def intro: stores_steps)
  then have ss: "same_stores a2 a'" by (rule forward_keeps [OF _ f2])
  let ?m = "archived_metadata orig user (iso_string (clock ?a))"
  let ?u = "no_updates\<lparr>ru_status := JStr ''archived'', ru_metadata := Some (stringify (JObj ?m))\<rparr>"
  note u = UpdateStatus_ok [OF r0, unfolded id, OF assms(2)]
  have mv: "w_records a2 = w_records a1" "\<exists>t c. w_files a2 = jm_set t c (jm_delete (full_path env p) (w_files ?a)) \<and> t \<noteq> full_path env p"
    using MoveFile_ok [OF r1 u(1)] u(2,4,5) assms(3-5) by auto
  obtain row where row: "find_record (ctx_recordId ctx) (w_records ?a) = Some row" "rr_path row = Some p"
    using read_row [OF assms(2)] assms(3) by metis
  let ?row = "apply_updates ?u (clock ?a) row"
  have found: "find_record (ctx_recordId ctx) (w_records a') = Some ?row"
    using ss mv(1) u(3) row by (simp add: same_stores_def find_record_rewrite)
  have path: "rr_path ?row = Some p" by (simp add: apply_updates_def no_updates_def given_col_def row(2))
  have gone: "jm_get (w_files a') (full_path env p) = None"
    using ss mv(2) by (auto simp: same_stores_def jm_get_set jm_get_delete)
  have g: "getRecord env (ctx_recordId ctx) a' = (Inr (Some (record_of_row ?row)), a')"
    using assms(4,9) w' found path gone by (simp add: getRecord_def db_getRecord_def read_file_def em_defs)
  have keys: "''authors'' \<notin> set (jm_keys ?m)" "''source'' \<notin> set (jm_keys ?m)"
    using assms(6,7) by (simp_all add: archived_metadata_def spread_keys)
  have meta: "rr_metadata ?row = Some (Json (json_of (JObj ?m)))"
    by (simp add: apply_updates_def no_updates_def given_col_def stringify_def)
  then have m: "row_metadata (rr_metadata ?row) = json_of (JObj ?m)"
    by (simp add: row_metadata_def)
  have "rd_authors (record_of_row ?row) = JUndef" "rd_source (record_of_row ?row) = JUndef"
    using jmember_json_absent [OF keys(1)] jmember_json_absent [OF keys(2)]
    by (simp_all add: record_of_row_def m row_source_def Let_def del: json_of.simps)
  moreover have "rd_status (record_of_row ?row) = JStr ''archived''" "rd_path (record_of_row ?row) = Some p"
    using path by (simp_all add: record_of_row_def Let_def) (simp add: apply_updates_def no_updates_def given_def jor_def)
  ultimately show ?thesis using g gone w' by auto
qed

text \<open>A row whose file names an author.\<close>

definition demo_authors_env :: record_env where
  "demo_authors_env = demo_rec_env\<lparr>re_parser := demo_env [(''id'', JStr ''b1''), (''title'', JStr ''Noise''),
     (''type'', JStr ''bylaw''), (''status'', JStr ''adopted''), (''created'', JStr ''c''), (''updated'', JStr ''u''),
     (''authors'', JArr [JStr ''ada''])] ''Text''\<rparr>"

lemma demo_authors_parsed:
  obtains r where "\<And>c p a. clock a = 0 \<Longrightarrow> parse_record demo_authors_env c p a = (Inr r, a)"
    "rd_authors r = JArr [JStr ''ada'']" "rd_metadata r = JObj []" "rd_type r = JStr ''bylaw''" "rd_id r = JStr ''b1''"
proof -
  let ?f = "[(''id'', JStr ''b1''), (''title'', JStr ''Noise''),
     (''type'', JStr ''bylaw''), (''status'', JStr ''adopted''), (''created'', JStr ''c''), (''updated'', JStr ''u''),
     (''authors'', JArr [JStr ''ada''])]"
  have "case parse_fields (demo_env ?f ''Text'') None (JObj ?f) ''Text'' of Inl e \<Rightarrow> False
     | Inr r \<Rightarrow> rd_authors r = JArr [JStr ''ada''] \<and> rd_metadata r = JObj [] \<and> rd_type r = JStr ''bylaw'' \<and> rd_id r = JStr ''b1''"
    by code_simp
  then obtain r where r: "parse_fields (demo_env ?f ''Text'') None (JObj ?f) ''Text'' = Inr r"
    "rd_authors r = JArr [JStr ''ada'']" "rd_metadata r = JObj []" "rd_type r = JStr ''bylaw''" "rd_id r = JStr ''b1''"
    by (auto split: sum.splits)
  have "parse_fields (demo_env ?f ''Text'') p (JObj ?f) ''Text'' = Inr r" for p
    using r(1) by (auto simp: parse_fields_def validateRequiredFields_def demo_env_def Let_def split: sum.splits if_splits)
  then have "clock a = 0 \<Longrightarrow> parse_record demo_authors_env c p a = (Inr r, a)" for c p and a :: rec_world
    by (simp add: parse_record_def parseFromMarkdown_def parser_now_def demo_authors_env_def demo_rec_env_def demo_env_def)
  with r that show thesis by blast
qed

lemma demo_archive_path:
  "rd_type r = JStr ''bylaw'' \<Longrightarrow> rd_id r = JStr ''b1'' \<Longrightarrow>
     full_path demo_authors_env (archive_path demo_authors_env r ''records/bylaw/1970/b1.md'' t) = ''/data/archive/bylaw/1970/b1.md''"
  "full_path demo_authors_env ''records/bylaw/1970/b1.md'' = ''/data/records/bylaw/1970/b1.md''"
proof -
  have "pi_year (parseRecordRelativePath ''records/bylaw/1970/b1.md'') = Some ''1970''"
    "pi_type (parseRecordRelativePath ''records/bylaw/1970/b1.md'') = ''bylaw''" by code_simp+
  moreover have "path_join [''/data'', unbackslash (path_join [''archive'', ''bylaw'', ''1970'', ''b1.md''])] =
      ''/data/archive/bylaw/1970/b1.md''" by code_simp
  ultimately show "rd_type r = JStr ''bylaw'' \<Longrightarrow> rd_id r = JStr ''b1'' \<Longrightarrow>
     full_path demo_authors_env (archive_path demo_authors_env r ''records/bylaw/1970/b1.md'' t) = ''/data/archive/bylaw/1970/b1.md''"
    by (simp add: archive_path_def full_path_def demo_authors_env_def demo_rec_env_def truthy_def record_id_text_def Let_def)
  have "path_join [''/data'', ''records/bylaw/1970/b1.md''] = ''/data/records/bylaw/1970/b1.md''" by code_simp
  then show "full_path demo_authors_env ''records/bylaw/1970/b1.md'' = ''/data/records/bylaw/1970/b1.md''"
    by (simp add: full_path_def demo_authors_env_def demo_rec_env_def)
qed

definition demo_row_archived :: record_row where
  "demo_row_archived = demo_row_b1\<lparr>rr_path := Some ''records/bylaw/1970/b1.md''\<rparr>"

lemma demo_row_archived [simp]: "rr_id demo_row_archived = ''b1''" "rr_path demo_row_archived = Some ''records/bylaw/1970/b1.md''"
  by (simp_all add: demo_row_archived_def)

abbreviation demo_archive_app :: rec_world where
  "demo_archive_app \<equiv> demo_app [] [demo_row_archived] [] [(''/data/records/bylaw/1970/b1.md'', ''Text'')]"

lemma demo_archive_reads:
  assumes "\<And>c p b. clock b = 0 \<Longrightarrow> parse_record demo_authors_env c p b = (Inr r, b)"
    and "clock a = 0" and "faults a = []" and "find_record ''b1'' (w_records a) = Some row"
    and "rr_path row = Some ''records/bylaw/1970/b1.md''"
    and "jm_get (w_files a) ''/data/records/bylaw/1970/b1.md'' = Some c"
  shows "getRecord demo_authors_env ''b1'' a = (Inr (Some (merged_record row r)), a)"
  using assms by (simp add: getRecord_def db_getRecord_def read_file_def demo_archive_path em_defs)

lemma demo_archive_forward:
  assumes "\<And>c p b. clock b = 0 \<Longrightarrow> parse_record demo_authors_env c p b = (Inr r, b)"
    and "rd_type r = JStr ''bylaw''" and "rd_id r = JStr ''b1''" and "ctx_recordId ctx = ''b1''"
  shows "\<exists>rs a'. forward ex ctx 0 [] (sg_steps (ArchiveRecordSaga demo_authors_env demo_user)) demo_archive_app = (None, rs, a') \<and>
    faults a' = []"
proof -
  note reads = demo_archive_reads [OF assms(1)]
  have updated_row: "rr_id (apply_updates u t row) = rr_id row" "ru_path u = None \<Longrightarrow> rr_path (apply_updates u t row) = rr_path row"
    for u t row by (simp_all add: apply_updates_def given_col_def)
  have env: "re_no_git demo_authors_env = False" "re_hook_on demo_authors_env = (\<lambda>_. True)"
    by (simp_all add: demo_authors_env_def demo_rec_env_def)
  have no_path: "ru_path no_updates = None" by (simp add: no_updates_def)
  have merged: "rd_path (merged_record row r) = rr_path row" for row by (simp add: merged_record_def)
  have r: "rd_type (merged_record row r) = JStr ''bylaw''" "rd_id (merged_record row r) = JStr ''b1''" for row
    using assms(2,3) by (simp_all add: merged_record_def)
  let ?q = "archive_path demo_authors_env (merged_record demo_row_archived r) ''records/bylaw/1970/b1.md'' 0"
  have f: "full_path demo_authors_env ?q = ''/data/archive/bylaw/1970/b1.md''" by (rule demo_archive_path(1) [OF r])
  have "path_join [''/data'', []] \<noteq> ''/data/archive/bylaw/1970/b1.md''" by code_simp
  then have "?q \<noteq> []"
    using f by (auto simp: full_path_def demo_authors_env_def demo_rec_env_def)
  then obtain h t where "?q = h # t" by (cases ?q) blast+
  then have q: "?q = h # t" "full_path demo_authors_env (h # t) = ''/data/archive/bylaw/1970/b1.md''" using f by simp_all
  show ?thesis
    unfolding archive_steps archive_all_def
    by (simp add: forward_make_step UpdateStatusToArchived_def MoveFileToArchive_def CommitArchive_def RemoveFromIndex_def
      reads assms(4) commit_files_def need_def scratch_def hook_step_def now_iso_def
      remember_def db_updateRecord_def db_getRecord_def find_record_def removeRecordFromIndex_def rename_file_def
      ensureDirectoryForRecordPath_def git_commit_def sql_def fs_op_def external_def q r env demo_archive_path(2)
      em_defs demo_app_def no_scratch_def updated_row no_path indexRecord_def or_null_def Let_def merged emit_hook_def del: forward.simps)
      (simp add: em_defs)
qed

lemma archived_record_loses_authors_witness:
  "\<exists>w' res r. execute demo_rec_executor (ArchiveRecordSaga demo_authors_env demo_user) ''s1'' (demo_rec_ctx ''b1'')
       (demo_rec_world demo_archive_app) = (Inr res, w') \<and>
     (\<exists>r0. getRecord demo_authors_env ''b1'' demo_archive_app = (Inr (Some r0), demo_archive_app) \<and> rd_authors r0 = JArr [JStr ''ada'']) \<and>
     getRecord demo_authors_env ''b1'' (w_app w') = (Inr (Some r), w_app w') \<and> rd_status r = JStr ''archived'' \<and>
     rd_authors r = JUndef"
proof -
  let ?sg = "ArchiveRecordSaga demo_authors_env demo_user" and ?w = "demo_rec_world demo_archive_app"
  obtain r where r: "\<And>c p a. clock a = 0 \<Longrightarrow> parse_record demo_authors_env c p a = (Inr r, a)"
    "rd_authors r = JArr [JStr ''ada'']" "rd_metadata r = JObj []" "rd_type r = JStr ''bylaw''" "rd_id r = JStr ''b1''"
    using demo_authors_parsed by metis
  let ?o = "merged_record demo_row_archived r"
  have cid: "ctx_recordId (keyed demo_rec_executor ?sg (demo_rec_ctx ''b1'')) = ''b1''" "ctx_recordId (demo_rec_ctx ''b1'') = ''b1''"
    by (simp_all add: ctx_recordId_def keyed_def demo_rec_ctx_def)
  have k: "clear_run demo_rec_executor ?sg ''s1'' (demo_rec_ctx ''b1'') ?w"
    by (intro demo_rec_clear)
       (use cid in \<open>simp_all add: well_named_def ArchiveRecordSaga_def validation_errors_def keyed_def demo_rec_ctx_def saga_ctx_def\<close>)
  obtain rs a' where f: "forward demo_rec_executor (keyed demo_rec_executor ?sg (demo_rec_ctx ''b1'')) 0 [] (sg_steps ?sg) (w_app ?w) =
      (None, rs, a')" "faults a' = []"
    using demo_archive_forward [OF r(1,4,5) cid(1), of demo_rec_executor] by (auto simp: demo_rec_world_def)
  obtain x w' where x: "execute demo_rec_executor ?sg ''s1'' (demo_rec_ctx ''b1'') ?w = (x, w')" by fastforce
  have o: "map_sum id er_result x = saga_outcome demo_rec_executor ?sg (keyed demo_rec_executor ?sg (demo_rec_ctx ''b1'')) (w_app ?w)"
    "view ''s1'' w' = (a', [],
       Some (map (js_stringify (ex_js demo_rec_executor)) rs, Completed, cx_idempotencyKey (keyed demo_rec_executor ?sg (demo_rec_ctx ''b1'')),
         clock (w_db ?w)))"
    using execute_clear(1,2) [OF k f(1)] x f(1) by (simp_all add: atomic_effect_def)
  then obtain res where res: "x = Inr res" using f(1) by (cases x) (auto simp: saga_outcome_def)
  have w': "w_app w' = a'" using o(2) by (simp add: view_def)
  have g: "getRecord demo_authors_env ''b1'' demo_archive_app = (Inr (Some ?o), demo_archive_app)"
    by (rule demo_archive_reads [OF r(1)]) (simp_all add: demo_app_def find_record_def)
  have o2: "rd_authors ?o = JArr [JStr ''ada'']" "rd_metadata ?o = JObj []" "rd_type ?o = JStr ''bylaw''" "rd_id ?o = JStr ''b1''"
    "rd_path ?o = Some ''records/bylaw/1970/b1.md''"
    using r(2-5) by (simp_all add: merged_record_def)
  have "\<exists>r. getRecord demo_authors_env (ctx_recordId (demo_rec_ctx ''b1'')) (w_app w') = (Inr (Some r), w_app w') \<and>
      rd_status r = JStr ''archived'' \<and> rd_path r = Some ''records/bylaw/1970/b1.md'' \<and>
      jm_get (w_files (w_app w')) (full_path demo_authors_env ''records/bylaw/1970/b1.md'') = None \<and>
      rd_authors r = JUndef \<and> rd_source r = JUndef"
    by (rule archived_record_loses_authors [OF k _ o2(5) _ _ _ _ x [unfolded res], where ?a0.0 = demo_archive_app])
       (use g f(2) w' o2 in \<open>simp_all add: cid demo_rec_world_def demo_archive_path\<close>)
  with x res g o2(1) cid(2) show ?thesis by auto
qed

end
