(* ===== verification/Record_Round_Trip.thy ===== *)
theory Record_Round_Trip
  imports Record_Parser
begin

section \<open>A record survives its file\<close>

text \<open>
  Writing a record with \<open>serializeToMarkdown\<close> and reading the text with
  \<open>parseFromMarkdown\<close>. What the two libraries do with one field is a hypothesis: the YAML
  writer writes it as the lines of one entry of a block mapping, and these lines load back to
  the value (\<open>writes_plainly\<close>); the reader takes the frontmatter between the fences for the
  mapping of its entries, blank lines between them ignored, and the rest for the body
  (\<open>reads_mappings\<close>). That the file as a whole reads back is proved: each field of the
  frontmatter is formatted into its own lines, written exactly once, in a section or after
  them, and the lines of different fields are never mixed.
\<close>

subsection \<open>Lines\<close>

lemma split_lines_Nil [simp]: "split_lines [] = [[]]"
  by (simp add: split_lines_def)

lemma split_lines_Cons: "split_lines (c # s) = (if c = CHR 10 then [] # split_lines s
     else (c # hd (split_lines s)) # tl (split_lines s))"
  by (simp add: split_lines_def)

lemma split_lines_nonempty [simp]: "split_lines s \<noteq> []"
  by (cases s) (simp_all add: split_lines_Cons)

lemma split_lines_append: "CHR 10 \<notin> set l \<Longrightarrow> split_lines (l @ NL @ s) = l # split_lines s"
  by (induction l) (auto simp: split_lines_Cons NL_def)

lemma split_lines_single: "CHR 10 \<notin> set l \<Longrightarrow> split_lines l = [l]"
  by (induction l) (auto simp: split_lines_Cons)

lemma split_join_lines: "ls \<noteq> [] \<Longrightarrow> \<forall>l \<in> set ls. CHR 10 \<notin> set l \<Longrightarrow> split_lines (join_with NL ls) = ls"
  by (induction NL ls rule: join_with.induct) (simp_all add: split_lines_append split_lines_single)

lemma join_Cons: "xs \<noteq> [] \<Longrightarrow> join_with NL (x # xs) = x @ NL @ join_with NL xs"
  by (cases xs) simp_all

lemma join_append: "xs \<noteq> [] \<Longrightarrow> ys \<noteq> [] \<Longrightarrow> join_with NL (xs @ ys) = join_with NL xs @ NL @ join_with NL ys"
proof (induction xs)
  case (Cons x xs)
  then show ?case by (cases "xs = []") (simp_all add: join_Cons)
qed simp

lemma join_split_lines: "join_with NL (split_lines s) = s"
proof (induction s)
  case (Cons c s)
  obtain l ls where "split_lines s = l # ls" by (meson neq_Nil_conv split_lines_nonempty)
  with Cons show ?case by (cases ls) (auto simp: split_lines_Cons NL_def)
qed simp

lemma join_concat_lines: "xs \<noteq> [] \<Longrightarrow> join_with NL (concat (map split_lines xs)) = join_with NL xs"
proof (induction xs)
  case (Cons x xs)
  then show ?case
    by (cases "xs = []") (simp_all add: join_split_lines join_append join_Cons)
qed simp

subsection \<open>What the libraries do\<close>

text \<open>The lines of one entry of a block mapping: the first starts with the key, the others are
  indented, none is blank.\<close>

definition entry_shape :: "string list \<Rightarrow> bool" where
  "entry_shape l \<longleftrightarrow> l \<noteq> [] \<and> hd l \<noteq> [] \<and> \<not> is_space (hd (hd l)) \<and> hd (hd l) \<noteq> CHR ''-'' \<and>
     list_all (\<lambda>x. CHR 10 \<notin> set x) l \<and> list_all (\<lambda>x. x \<noteq> [] \<and> hd x = CHR '' '' \<and> trim x \<noteq> []) (tl l)"

text \<open>The lines of a block mapping: its entries in order, and blank lines anywhere between them.\<close>

inductive block_lines :: "string list list \<Rightarrow> string list \<Rightarrow> bool" where
  nothing: "block_lines [] []"
| blank: "block_lines es ls \<Longrightarrow> block_lines es ([] # ls)"
| entry: "block_lines es ls \<Longrightarrow> entry_shape l \<Longrightarrow> block_lines (l # es) (l @ ls)"

text \<open>\<open>load\<close> is what the reader makes of the lines of one entry: a key and a value, timestamps
  as \<open>Date\<close> objects, and \<open>None\<close> for lines that are no entry or whose value depends on the blank
  lines around them. The reader: a file whose frontmatter is a mapping of such entries with
  different keys gives an object of these members and the text after the closing fence.\<close>

type_synonym entry_loader = "string list \<Rightarrow> (string \<times> jv) option"

definition reads_mappings :: "parser_env \<Rightarrow> entry_loader \<Rightarrow> bool" where
  "reads_mappings env load \<longleftrightarrow> (\<forall>es ls text. block_lines es ls \<longrightarrow> es \<noteq> [] \<longrightarrow> None \<notin> load ` set es \<longrightarrow>
     distinct (map (\<lambda>l. fst (the (load l))) es) \<longrightarrow>
     (\<exists>data body. pe_matter env (''---'' @ NL @ join_with NL ls @ NL @ ''---'' @ NL @ text) = Inr (JObj data, body) \<and>
        jm_ok data \<and> set data = (\<lambda>l. the (load l)) ` set es \<and> trim body = trim text))"

text \<open>The writer: the member is written under its own key, unquoted, a value on the line of the
  key after one blank, and its lines load back.\<close>

definition written_lines :: "parser_env \<Rightarrow> string \<Rightarrow> jv \<Rightarrow> string list" where
  "written_lines env k v = (case pe_yaml env k v of None \<Rightarrow> []
     | Some doc \<Rightarrow> filter (\<lambda>line. trim line \<noteq> []) (split_lines doc))"

definition writes_plainly :: "parser_env \<Rightarrow> entry_loader \<Rightarrow> string \<Rightarrow> jv \<Rightarrow> bool" where
  "writes_plainly env load k v \<longleftrightarrow> (let ls = written_lines env k v; key = k @ '':'' in
     k \<noteq> [] \<and> CHR '':'' \<notin> set k \<and> entry_shape ls \<and> take (length key) (hd ls) = key \<and>
     (tl ls = [] \<longrightarrow> hd ls = key @ '' '' @ trim (drop (length key) (hd ls))) \<and>
     (case load ls of None \<Rightarrow> False | Some (k', w) \<Rightarrow> k' = k \<and> normalizeDateValues w = v))"

subsection \<open>Formatting one field\<close>

lemma after_key: "k \<noteq> [] \<Longrightarrow> CHR '':'' \<notin> set k \<Longrightarrow> after_colon (k @ '':'' @ s) = Some s"
proof -
  assume k: "k \<noteq> []" "CHR '':'' \<notin> set k"
  then have "takeWhile (\<lambda>c. c \<noteq> CHR '':'') (k @ '':'' @ s) = k" by (subst takeWhile_append2) auto
  with k show ?thesis by (simp add: after_colon_def Let_def)
qed

text \<open>The formatter keeps the lines of a field.\<close>

lemma formatted_lines:
  assumes "writes_plainly env load k v"
  shows "formatYamlField env k v = join_with NL (written_lines env k v)"
proof -
  let ?ls = "written_lines env k v"
  from assms have w: "k \<noteq> []" "CHR '':'' \<notin> set k" "entry_shape ?ls" "take (Suc (length k)) (hd ?ls) = k @ '':''"
    "tl ?ls = [] \<longrightarrow> hd ?ls = k @ '':'' @ '' '' @ trim (drop (Suc (length k)) (hd ?ls))"
    by (simp_all add: writes_plainly_def Let_def)
  from w(3) obtain l ls where ls: "?ls = l # ls" by (cases ?ls) (simp_all add: entry_shape_def)
  then obtain doc where doc: "pe_yaml env k v = Some doc" "filter (\<lambda>line. trim line \<noteq> []) (split_lines doc) = l # ls"
    by (auto simp: written_lines_def split: option.splits)
  define s where "s = drop (Suc (length k)) l"
  have l: "l = k @ '':'' @ s"
    using w(4) append_take_drop_id[of "Suc (length k)" l] by (simp add: ls s_def)
  then have after: "after_colon l = Some s" using after_key[OF w(1,2)] by simp
  show ?thesis
  proof (cases ls)
    case Nil
    then have "l = k @ '':'' @ '' '' @ trim s" using w(5) by (simp add: ls s_def)
    with Nil show ?thesis using after by (simp add: formatYamlField_def doc ls)
  next
    case (Cons x xs)
    then show ?thesis using after l by (simp add: formatYamlField_def doc ls)
  qed
qed

lemma written_shape: "writes_plainly env load k v \<Longrightarrow> entry_shape (written_lines env k v)"
  by (simp add: writes_plainly_def Let_def)

lemma written_loads:
  "writes_plainly env load k v \<Longrightarrow> \<exists>w. load (written_lines env k v) = Some (k, w) \<and> normalizeDateValues w = v"
  by (auto simp: writes_plainly_def Let_def split: option.splits)

subsection \<open>The whole frontmatter\<close>

text \<open>The list of lines the generator builds: a string for each entry and blank lines.\<close>

inductive items :: "string list list \<Rightarrow> string list \<Rightarrow> bool" where
  nothing: "items [] []"
| blank: "items es xs \<Longrightarrow> items es ([] # xs)"
| entry: "items es xs \<Longrightarrow> entry_shape l \<Longrightarrow> items (l # es) (join_with NL l # xs)"

lemma items_append: "items es xs \<Longrightarrow> items fs ys \<Longrightarrow> items (es @ fs) (xs @ ys)"
  by (induction rule: items.induct) (auto intro: items.intros)

lemma items_blank_end: "items es xs \<Longrightarrow> items es (xs @ [[]])"
  using items_append[of es xs "[]" "[[]]"] by (simp add: items.intros)

lemma items_separate: "items es xs \<Longrightarrow> items es (separate xs)"
  by (simp add: separate_def items_blank_end)

lemma shape_join: "entry_shape l \<Longrightarrow> split_lines (join_with NL l) = l \<and> join_with NL l \<noteq> []"
proof -
  assume l: "entry_shape l"
  then obtain x xs where "l = x # xs" "x \<noteq> []" by (cases l) (auto simp: entry_shape_def)
  moreover have "split_lines (join_with NL l) = l" using l by (intro split_join_lines) (auto simp: entry_shape_def list_all_iff)
  ultimately show ?thesis by (cases xs) auto
qed

lemma items_unblank: "items es zs \<Longrightarrow> zs = xs @ [[]] \<Longrightarrow> items es xs"
proof (induction arbitrary: xs rule: items.induct)
  case (blank es zs)
  then show ?case by (cases xs) (auto intro: items.intros)
next
  case (entry es zs l)
  then show ?case using shape_join[of l] by (cases xs) (auto intro: items.intros)
qed simp

lemma items_drop: "items es xs \<Longrightarrow> items es (drop_trailing xs)"
proof (induction xs rule: rev_induct)
  case (snoc x xs)
  then show ?case by (cases "x = []") (auto simp: drop_trailing_def dest: items_unblank)
qed (simp add: drop_trailing_def)

lemma items_lines: "items es xs \<Longrightarrow> block_lines es (concat (map split_lines xs))"
  by (induction rule: items.induct) (auto simp: shape_join intro: block_lines.intros)

definition field_lines :: "parser_env \<Rightarrow> members \<Rightarrow> string \<Rightarrow> string list" where
  "field_lines env fm k = written_lines env k (jget fm k)"

lemma items_fields:
  assumes "\<And>k. k \<in> set ks \<Longrightarrow> writes_plainly env load k (jget fm k)"
  shows "items (map (field_lines env fm) ks) (map (\<lambda>k. formatYamlField env k (jget fm k)) ks)"
  using assms
proof (induction ks)
  case (Cons k ks)
  then have "writes_plainly env load k (jget fm k)" by simp
  with Cons show ?case
    by (auto simp: formatted_lines[of env load] field_lines_def intro!: items.entry intro: written_shape)
qed (simp add: items.nothing)

definition present :: "members \<Rightarrow> string list \<Rightarrow> string list" where
  "present fm = filter (\<lambda>k. \<not> is_nullish (jget fm k))"

lemma items_sections:
  assumes "items es xs" and "\<And>k. k \<in> set (concat sections) \<Longrightarrow> \<not> is_nullish (jget fm k) \<Longrightarrow> writes_plainly env load k (jget fm k)"
  shows "items (es @ map (field_lines env fm) (concat (map (present fm) sections))) (add_sections env fm sections xs)"
  using assms
proof (induction sections arbitrary: es xs)
  case (Cons names sections)
  let ?own = "section_lines env fm names"
  have own: "items (map (field_lines env fm) (present fm names)) ?own"
    unfolding section_lines_def present_def using Cons.prems(2) by (intro items_fields) auto
  show ?case
  proof (cases "?own = []")
    case True
    then have "present fm names = []" by (simp add: section_lines_def present_def)
    with True Cons.IH[OF Cons.prems(1)] Cons.prems(2) show ?thesis by simp
  next
    case False
    have "items (es @ map (field_lines env fm) (present fm names)) (separate xs @ ?own @ [[]])"
      using items_append[OF items_separate[OF Cons.prems(1)] items_blank_end[OF own]] by simp
    from Cons.IH[OF this] Cons.prems(2) False show ?thesis by simp
  qed
qed simp

text \<open>The keys in the order in which they are written: each defined field once.\<close>

definition written_keys :: "members \<Rightarrow> string list" where
  "written_keys fm = concat (map (present fm) yaml_sections) @ remaining_fields fm"

lemma concat_present: "concat (map (present fm) sections) = present fm (concat sections)"
  by (simp add: present_def filter_concat)

lemma set_written_keys: "set (written_keys fm) = {k. jget fm k \<noteq> JUndef}"
proof -
  have "k \<in> set (jm_keys fm)" if "jget fm k \<noteq> JUndef" for k
    using that jget_absent[of k fm] by blast
  then show ?thesis
    unfolding written_keys_def concat_present
    by (auto simp: present_def remaining_fields_def is_nullish_def simp del: set_concat)
qed

lemma distinct_written_keys:
  assumes "jm_ok fm"
  shows "distinct (written_keys fm)"
proof -
  have "distinct (concat yaml_sections)" by (simp add: yaml_sections_def)
  with assms show ?thesis
    unfolding written_keys_def concat_present
    by (auto simp: present_def remaining_fields_def jm_ok_def simp del: set_concat)
qed

lemma generated_lines:
  assumes "\<And>k. jget fm k \<noteq> JUndef \<Longrightarrow> writes_plainly env load k (jget fm k)" and "written_keys fm \<noteq> []"
  obtains ls where "block_lines (map (field_lines env fm) (written_keys fm)) ls" and "generateOrderedYaml env fm = join_with NL ls"
proof -
  let ?F = "field_lines env fm"
  let ?s = "add_sections env fm yaml_sections []" and ?rest = "remaining_fields fm"
  have s: "items (map ?F (concat (map (present fm) yaml_sections))) ?s"
    using items_sections[OF items.nothing, of yaml_sections fm env load] assms(1) by (auto simp: is_nullish_def)
  have "items (map ?F ?rest) (map (\<lambda>k. formatYamlField env k (jget fm k)) ?rest)"
    by (rule items_fields[OF assms(1)]) (auto simp: remaining_fields_def)
  from items_append[OF items_separate[OF s] this] s
  have "items (map ?F (written_keys fm)) (if ?rest = [] then ?s else separate ?s @ map (\<lambda>k. formatYamlField env k (jget fm k)) ?rest)"
    by (simp add: written_keys_def)
  from items_drop[OF this] obtain xs where xs: "items (map ?F (written_keys fm)) xs"
    and gen: "generateOrderedYaml env fm = join_with NL xs @ NL"
    by (simp add: generateOrderedYaml_def Let_def that split del: if_split)
  have "xs \<noteq> []" using xs assms(2) by (auto elim: items.cases)
  then have "generateOrderedYaml env fm = join_with NL (concat (map split_lines (xs @ [[]])))"
    by (simp add: gen join_concat_lines[of "xs @ [[]]", simplified] join_append)
  with items_lines[OF items_blank_end[OF xs]] that show thesis by blast
qed

subsection \<open>The round trip\<close>

lemma trim_newline: "trim (NL @ s) = trim s"
  by (simp add: trim_def NL_def is_space_def)

lemma fields_read:
  assumes "reads_mappings env load" and fm: "buildFrontmatter env r = Inr fm" "jm_ok fm" "written_keys fm \<noteq> []"
    and plain: "\<And>k. jget fm k \<noteq> JUndef \<Longrightarrow> writes_plainly env load k (jget fm k)"
  obtains src data body where "serializeToMarkdown env r = Inr src" and "pe_matter env src = Inr (JObj data, body)"
    and "jm_ok data" and "defined data" and "trim body = trim (content_of r)"
    and "\<And>k. normalizeDateValues (jget data k) = jget fm k"
proof -
  let ?es = "map (field_lines env fm) (written_keys fm)"
  from generated_lines[OF plain fm(3)] obtain ls where ls: "block_lines ?es ls" "generateOrderedYaml env fm = join_with NL ls" .
  have "\<exists>w. load (field_lines env fm k) = Some (k, w) \<and> normalizeDateValues w = jget fm k" if "jget fm k \<noteq> JUndef" for k
    using written_loads[OF plain[OF that]] by (simp add: field_lines_def)
  then obtain val where val: "\<And>k. jget fm k \<noteq> JUndef \<Longrightarrow> load (field_lines env fm k) = Some (k, val k) \<and> normalizeDateValues (val k) = jget fm k"
    by metis
  have keys: "k \<in> set (written_keys fm) \<Longrightarrow> load (field_lines env fm k) = Some (k, val k)" for k
    using val by (simp add: set_written_keys)
  have "map (\<lambda>l. fst (the (load l))) ?es = written_keys fm" using keys by (simp add: map_idI)
  then have "distinct (map (\<lambda>l. fst (the (load l))) ?es)" by (simp only: distinct_written_keys[OF fm(2)])
  moreover have "None \<notin> load ` set ?es" using keys by fastforce
  moreover have "?es \<noteq> []" using fm(3) by simp
  ultimately obtain data body where read: "pe_matter env (''---'' @ NL @ join_with NL ls @ NL @ ''---'' @ NL @ NL @ content_of r) = Inr (JObj data, body)"
    "jm_ok data" "set data = (\<lambda>l. the (load l)) ` set ?es" "trim body = trim (NL @ content_of r)"
    using assms(1)[unfolded reads_mappings_def, rule_format, OF ls(1)] by blast
  from read(3) keys have data: "set data = (\<lambda>k. (k, val k)) ` set (written_keys fm)" by (auto simp: image_image)
  have same: "normalizeDateValues (jget data k) = jget fm k" for k
  proof (cases "jget fm k = JUndef")
    case True
    then have "k \<notin> set (jm_keys data)" using data by (auto simp: set_written_keys)
    with True show ?thesis by (simp add: jget_absent)
  next
    case False
    then have "(k, val k) \<in> set data" using data by (simp add: set_written_keys)
    then have "jget data k = val k" using read(2) by (simp add: jget_def jm_ok_def)
    with val[OF False] show ?thesis by simp
  qed
  have "val k \<noteq> JUndef" if "jget fm k \<noteq> JUndef" for k using val[OF that] norm_undef[of "val k"] that by metis
  then have "defined data" using data by (auto simp: defined_def set_written_keys)
  moreover have "serializeToMarkdown env r = Inr (''---'' @ NL @ join_with NL ls @ NL @ ''---'' @ NL @ NL @ content_of r)"
    by (simp add: serializeToMarkdown_def fm(1) ls(2) content_of_def)
  ultimately show thesis using that read(1,2,4) same by (simp add: trim_newline)
qed

text \<open>C10: Records survive their file. Given libraries that write and load the value of each
  field of the frontmatter as an entry of its own, and read a block of such entries as the object
  of their members, a tidy record is written to a text that parses to the same record: every
  field is kept, except that the body is trimmed, that the editorial state and the path, which
  never are in the file, are absent, and that the members of the metadata may come in another
  order. (A value whose YAML text has blank lines that matter is not covered: the formatter drops
  them, as \<open>blank_lines_are_dropped\<close> shows.)\<close>

theorem record_write_read_round_trip:
  assumes "tidy_record r" and "set (pe_extension env (rd_type r)) \<inter> set format_names = {}"
    and "reads_mappings env load"
    and "\<And>fm k. buildFrontmatter env r = Inr fm \<Longrightarrow> jget fm k \<noteq> JUndef \<Longrightarrow> writes_plainly env load k (jget fm k)"
    and "\<And>fm. buildFrontmatter env r = Inr fm \<Longrightarrow> accepts env (rd_type r) fm"
  shows "\<exists>src m m'. serializeToMarkdown env r = Inr src \<and>
    parseFromMarkdown env src path = Inr (r\<lparr>rd_workflowState := JUndef, rd_path := None,
      rd_content := Some (trim (content_of r)), rd_metadata := JObj m'\<rparr>) \<and>
    rd_metadata r = JObj m \<and> (\<forall>k. jget m' k = jget m k)"
proof -
  from assms(1) obtain m where m: "rd_metadata r = JObj m" by (auto simp: tidy_record_def)
  let ?ext = "pe_extension env (rd_type r)"
  obtain fm where fm: "buildFrontmatter env r = Inr fm" "\<And>k. jget fm k = frontmatter_field r m ?ext k" and ok: "jm_ok fm"
    using built_fields[OF assms(1) m assms(2)] by blast
  have base: "jget fm k = jget (base_list r) k" if "k \<in> set format_names" "k \<notin> set classification_fields" "k \<noteq> ''metadata''" for k
    using that assms(2) by (auto simp: fm(2) frontmatter_field_def)
  have required: "jget fm k = jget (base_list r) k" if "k \<in> set required_fields" for k
    using that by (intro base) (auto simp: required_fields_def format_names_def record_fields_def classification_fields_def)
  have truthy: "jtruthy (jget fm ''author'')" "jtruthy (jget fm ''created'')" "jtruthy (jget fm ''updated'')"
    using assms(1) required[of "''author''"] required[of "''created''"] required[of "''updated''"]
    by (simp_all add: required_fields_def base_list_def tidy_record_def)
  have old: "jget fm k = JUndef" if k: "k \<in> {''linkedRecords'', ''linkedGeographyFiles'', ''attachedFiles'', ''geography''}" for k
  proof -
    have "k \<in> set format_names" "k \<notin> set classification_fields" "k \<noteq> ''metadata''" "jget (base_list r) k = JUndef"
      using k unfolding format_names_def record_fields_def classification_fields_def base_list_def
      by (elim insertE emptyE, simp_all)+
    with base show ?thesis by simp
  qed
  have "jget fm ''author'' \<noteq> JUndef" using truthy(1) by auto
  then have "written_keys fm \<noteq> []" using set_written_keys[of fm] by force
  from fields_read[OF assms(3) fm(1) ok this assms(4)[OF fm(1)]] obtain src data body where src: "serializeToMarkdown env r = Inr src"
    and data: "pe_matter env src = Inr (JObj data, body)" "jm_ok data" "defined data" "trim body = trim (content_of r)"
    and same: "\<And>k. normalizeDateValues (jget data k) = jget fm k" by blast
  obtain fm' where fm': "normalizeFormat data = Inr fm'" "jm_ok fm'" "defined fm'" "\<And>k. jget fm' k = jget fm k"
    using normalize_written[OF data(2,3) same truthy old] by blast
  have of_type: "jget fm' ''type'' = rd_type r"
    using required[of "''type''"] by (simp add: fm'(4) required_fields_def base_list_def)
  have "fst (pe_schema env fm' (rd_type r))" using assms(5)[OF fm(1)] fm'(4) by (simp add: accepts_def)
  moreover have "validateRequiredFields fm' path = None"
    using required by (intro trim_required[OF assms(1)]) (auto simp: fm'(4))
  ultimately have "parseFromMarkdown env src path = Inr (record_of_fields fm' body)"
    by (auto simp: parseFromMarkdown_def parse_fields_def data(1) fm'(1) of_type split: prod.splits)
  moreover obtain m' where "record_of_fields fm' body = r\<lparr>rd_workflowState := JUndef, rd_path := None,
      rd_content := Some (trim body), rd_metadata := JObj m'\<rparr>" "\<forall>k. jget m' k = jget m k"
    using read_record[OF assms(1) m assms(2) fm'(2,3), of body] fm'(4) fm(2) by auto
  ultimately show ?thesis using src m data(4) by auto
qed

subsection \<open>A small YAML library and a record\<close>

text \<open>A reader and a writer for texts, lists of texts and objects of texts, which satisfy the
  hypotheses: the reader for every block of entries, the writer for the fields of the record.\<close>

definition demo_member :: "string \<Rightarrow> string \<times> jv" where
  "demo_member x = (let k = takeWhile (\<lambda>c. c \<noteq> CHR '':'') (drop 2 x) in (k, JStr (drop (length k + 4) x)))"

definition demo_scalar :: "string \<Rightarrow> jv" where
  "demo_scalar t = (if t = iso_string 0 then JDate 0 else JStr t)"

definition demo_load :: entry_loader where
  "demo_load ls = (case ls of [] \<Rightarrow> None | l # rest \<Rightarrow>
     let k = takeWhile (\<lambda>c. c \<noteq> CHR '':'') l in
     Some (k, if rest = [] then demo_scalar (drop (length k + 2) l)
       else if list_all (\<lambda>x. take 4 x = ''  - '') rest then JArr (map (\<lambda>x. JStr (drop 4 x)) rest)
       else JObj (map demo_member rest)))"

definition indented :: "string \<Rightarrow> bool" where
  "indented l \<longleftrightarrow> l \<noteq> [] \<and> hd l = CHR '' ''"

function group_entries :: "string list \<Rightarrow> string list list" where
  "group_entries [] = []"
| "group_entries (l # ls) = (l # takeWhile indented ls) # group_entries (dropWhile indented ls)"
  by pat_completeness auto
termination
  by (relation "measure length") (auto simp: le_imp_less_Suc length_dropWhile_le)

definition demo_matter :: "string \<Rightarrow> string + jv \<times> string" where
  "demo_matter src = (case split_lines src of [] \<Rightarrow> Inl ''empty'' | f # ls \<Rightarrow>
     let front = takeWhile (\<lambda>l. l \<noteq> ''---'') ls; es = group_entries (filter (\<lambda>l. l \<noteq> []) front) in
     if f \<noteq> ''---'' \<or> None \<in> demo_load ` set es then Inl ''no frontmatter''
     else Inr (JObj (map (\<lambda>l. the (demo_load l)) es), join_with NL (drop (Suc (length front)) ls)))"

fun demo_text :: "jv \<Rightarrow> string" where
  "demo_text (JStr s) = s"
| "demo_text _ = []"

fun demo_yaml :: "string \<Rightarrow> jv \<Rightarrow> string option" where
  "demo_yaml k (JStr s) = Some (k @ '': '' @ s @ NL)"
| "demo_yaml k (JArr xs) = Some (k @ '':'' @ NL @ concat (map (\<lambda>x. ''  - '' @ demo_text x @ NL) xs))"
| "demo_yaml k (JObj kvs) = Some (k @ '':'' @ NL @ concat (map (\<lambda>(j, v). ''  '' @ j @ '': '' @ demo_text v @ NL) kvs))"
| "demo_yaml k _ = None"

definition demo_files :: parser_env where
  "demo_files = \<lparr>pe_matter = demo_matter, pe_yaml = demo_yaml, pe_json = (\<lambda>_. ''null''),
     pe_schema = (\<lambda>_ _. (True, [])), pe_extension = (\<lambda>_. []), pe_now = 0\<rparr>"

lemma split_lines_join: "ls \<noteq> [] \<Longrightarrow> \<forall>l \<in> set ls. CHR 10 \<notin> set l \<Longrightarrow>
  split_lines (join_with NL ls @ NL @ s) = ls @ split_lines s"
proof (induction ls)
  case (Cons l ls)
  then show ?case by (cases "ls = []") (simp_all add: split_lines_append join_Cons)
qed simp

lemma entry_line:
  assumes "entry_shape l" and "y \<in> set l"
  shows "CHR 10 \<notin> set y \<and> y \<noteq> [] \<and> hd y \<noteq> CHR ''-''"
proof -
  from assms(2) obtain x xs where l: "l = x # xs" by (cases l) auto
  show ?thesis
  proof (cases "y = x")
    case True
    with assms(1) show ?thesis by (simp add: entry_shape_def l)
  next
    case False
    with assms(2) have "y \<in> set xs" by (simp add: l)
    with assms(1) show ?thesis by (auto simp: entry_shape_def l list_all_iff)
  qed
qed

lemma block_lines_safe: "block_lines es ls \<Longrightarrow> (\<forall>l \<in> set ls. CHR 10 \<notin> set l \<and> l \<noteq> ''---'') \<and>
  filter (\<lambda>l. l \<noteq> []) ls = concat es \<and> list_all entry_shape es \<and> (es \<noteq> [] \<longrightarrow> ls \<noteq> [])"
proof (induction rule: block_lines.induct)
  case (entry es ls l)
  note line = entry_line[OF entry.hyps(2)]
  then have "\<forall>y \<in> set l. CHR 10 \<notin> set y \<and> y \<noteq> ''---''" by fastforce
  moreover have "filter (\<lambda>y. y \<noteq> []) l = l" using line by (simp add: filter_id_conv)
  moreover have "l \<noteq> []" using entry.hyps(2) by (simp add: entry_shape_def)
  ultimately show ?case using entry by auto
qed auto

lemma group_concat: "list_all entry_shape es \<Longrightarrow> group_entries (concat es) = es"
proof (induction es)
  case (Cons l es)
  then obtain x xs where l: "l = x # xs" "list_all (\<lambda>y. y \<noteq> [] \<and> hd y = CHR '' '' \<and> trim y \<noteq> []) xs"
    by (cases l) (auto simp: entry_shape_def)
  then have xs: "\<forall>y \<in> set xs. indented y" by (auto simp: list_all_iff indented_def)
  have rest: "concat es = [] \<or> \<not> indented (hd (concat es))"
    using Cons.prems by (cases es) (auto simp: entry_shape_def indented_def is_space_def)
  then have "takeWhile indented (xs @ concat es) = xs" "dropWhile indented (xs @ concat es) = concat es"
    using xs by (auto simp: takeWhile_append dropWhile_append takeWhile_eq_Nil_iff dropWhile_eq_self_iff)
  with Cons l show ?case by simp
qed simp

lemma demo_reads: "reads_mappings demo_files demo_load"
  unfolding reads_mappings_def
proof (intro allI impI)
  fix es ls rest
  assume b: "block_lines es ls" and ne: "es \<noteq> []" and loads: "None \<notin> demo_load ` set es"
    and keys: "distinct (map (\<lambda>l. fst (the (demo_load l))) es)"
  note safe = block_lines_safe[OF b]
  have "split_lines (''---'' @ NL @ join_with NL ls @ NL @ ''---'' @ NL @ rest) = ''---'' # ls @ ''---'' # split_lines rest"
    using safe ne split_lines_append[of "''---''"] by (simp add: split_lines_join)
  moreover have "takeWhile (\<lambda>l. l \<noteq> ''---'') (ls @ ''---'' # split_lines rest) = ls"
    using safe by (subst takeWhile_append2) auto
  moreover have "group_entries (filter (\<lambda>l. l \<noteq> []) ls) = es" using safe group_concat by simp
  ultimately have "demo_matter (''---'' @ NL @ join_with NL ls @ NL @ ''---'' @ NL @ rest) =
      Inr (JObj (map (\<lambda>l. the (demo_load l)) es), rest)"
    using loads by (simp add: demo_matter_def Let_def join_split_lines)
  then show "\<exists>data body. pe_matter demo_files (''---'' @ NL @ join_with NL ls @ NL @ ''---'' @ NL @ rest) = Inr (JObj data, body) \<and>
      jm_ok data \<and> set data = (\<lambda>l. the (demo_load l)) ` set es \<and> trim body = trim rest"
    using keys by (intro exI[of _ "map (\<lambda>l. the (demo_load l)) es"] exI[of _ rest]) (simp add: demo_files_def jm_ok_def comp_def)
qed

definition demo_record :: record_data where
  "demo_record = \<lparr>rd_id = JStr ''b1'', rd_title = JStr ''Noise'', rd_type = JStr ''bylaw'', rd_status = JStr ''adopted'',
     rd_workflowState = JNull, rd_content = Some '' Text'',
     rd_metadata = JObj [(''tags'', JArr [JStr ''noise'', JStr ''night'']), (''page'', JStr ''three'')], rd_geography = JUndef,
     rd_attachedFiles = JUndef, rd_linkedRecords = JUndef, rd_linkedGeographyFiles = JArr [JStr ''zones''],
     rd_path = Some ''records/bylaw/1970/b1.md'', rd_author = JStr ''ada'', rd_authors = JUndef,
     rd_created_at = JStr ''1970-01-01T00:00:00.000Z'', rd_updated_at = JStr ''1970-01-01T00:00:00.000Z'',
     rd_source = JUndef, rd_commit_ref = JUndef, rd_commit_signature = JUndef\<rparr>"

definition demo_fields :: members where
  "demo_fields = [(''id'', JStr ''b1''), (''title'', JStr ''Noise''), (''type'', JStr ''bylaw''),
     (''status'', JStr ''adopted''), (''author'', JStr ''ada''), (''created'', JStr ''1970-01-01T00:00:00.000Z''),
     (''updated'', JStr ''1970-01-01T00:00:00.000Z''), (''tags'', JArr [JStr ''noise'', JStr ''night'']),
     (''linked_geography_files'', JArr [JStr ''zones'']), (''metadata'', JObj [(''page'', JStr ''three'')])]"

lemma demo_build: "buildFrontmatter demo_files demo_record = Inr demo_fields"
  by code_simp

lemma demo_tidy: "tidy_record demo_record"
  by (simp add: tidy_record_def demo_record_def optional_list_def text_or_none_def tidy_metadata_def defined_def
      classification_fields_def jm_ok_def)

lemma demo_plain: "list_all (\<lambda>(k, v). writes_plainly demo_files demo_load k v) demo_fields"
  by code_simp

lemma record_write_read_round_trip_witness:
  "\<exists>src r'. serializeToMarkdown demo_files demo_record = Inr src \<and>
     parseFromMarkdown demo_files src None = Inr r' \<and> rd_title r' = JStr ''Noise'' \<and> rd_content r' = Some ''Text'' \<and>
     rd_linkedGeographyFiles r' = JArr [JStr ''zones''] \<and> jmember (rd_metadata r') ''page'' = JStr ''three''"
proof -
  have plain: "writes_plainly demo_files demo_load k (jget demo_fields k)" if "jget demo_fields k \<noteq> JUndef" for k
  proof -
    have "(k, jget demo_fields k) \<in> set demo_fields"
      using that by (auto simp: jget_def split: option.splits dest: map_of_SomeD)
    with demo_plain show ?thesis by (auto simp: list_all_iff)
  qed
  have "\<exists>src m m'. serializeToMarkdown demo_files demo_record = Inr src \<and>
    parseFromMarkdown demo_files src None = Inr (demo_record\<lparr>rd_workflowState := JUndef, rd_path := None,
      rd_content := Some (trim (content_of demo_record)), rd_metadata := JObj m'\<rparr>) \<and>
    rd_metadata demo_record = JObj m \<and> (\<forall>k. jget m' k = jget m k)"
    by (rule record_write_read_round_trip[OF demo_tidy _ demo_reads])
      (use plain in \<open>simp_all add: demo_build accepts_def\<close>, simp_all add: demo_files_def)
  moreover have "trim (content_of demo_record) = ''Text''" by code_simp
  ultimately show ?thesis by (auto simp: demo_record_def)
qed

end
