(* ===== verification/Visibility.thy ===== *)
theory Visibility
  imports Complex_Main Civic_Prelude
begin

section \<open>Segment visibility\<close>

text \<open>
  \<open>services/transcription/src/visibility.ts\<close>: which parts of a recording may surface. A list
  of ranges denotes the set of its instants (\<open>spans\<close>), so that merging and subtracting ranges
  are union and difference of sets, up to the short pieces that \<open>subtractRanges\<close> drops.
  Seconds are rationals: the rounding of floating point arithmetic is left out.
\<close>

subsection \<open>Ranges, segments and captures\<close>

record time_range =
  rg_start :: rat
  rg_end :: rat

definition range_of :: "rat \<Rightarrow> rat \<Rightarrow> time_range" where
  "range_of a b = \<lparr>rg_start = a, rg_end = b\<rparr>"

text \<open>A field declared as a number: \<open>NotFinite\<close> is anything that is not a finite number.\<close>

datatype js_number = Finite rat | NotFinite

record capture_segment =
  cs_start :: js_number
  cs_end :: js_number
  cs_visibility :: string

record session_capture =
  cap_device :: "string option"
  cap_av_file :: "string option"
  cap_public_file :: "string option"
  cap_redaction_status :: "string option"
  cap_redaction_attempts :: nat
  cap_redaction_pending_since :: "msec option"
  cap_all_public :: bool
  cap_started_at :: "string option"
  cap_ended_at :: "string option"
  cap_duration_s :: js_number
  cap_segments :: "capture_segment list option"

definition DEFAULT_LEAD_PAD_S :: rat where "DEFAULT_LEAD_PAD_S = 3"
definition DEFAULT_TRAIL_PAD_S :: rat where "DEFAULT_TRAIL_PAD_S = 5"
definition FULL_COVER_EPSILON_S :: rat where "FULL_COVER_EPSILON_S = 1 / 2"
definition MIN_RANGE_S :: rat where "MIN_RANGE_S = 1 / 20"

record visibility_options =
  vo_leadPadS :: "rat option"
  vo_trailPadS :: "rat option"
  vo_mediaDurationS :: "rat option"

datatype visibility_decision =
  Hold string
| All_Public
| None_Public "time_range list"
| Partial "time_range list" "time_range list"

subsection \<open>Merging and subtracting\<close>

fun merge_into :: "time_range \<Rightarrow> time_range list \<Rightarrow> time_range list" where
  "merge_into latest [] = [latest]"
| "merge_into latest (r # rs) =
     (if rg_start r \<le> rg_end latest then merge_into (latest\<lparr>rg_end := max (rg_end latest) (rg_end r)\<rparr>) rs
      else latest # merge_into r rs)"

definition mergeRanges :: "time_range list \<Rightarrow> time_range list" where
  "mergeRanges rs = (case sort_key rg_start (filter (\<lambda>r. rg_start r < rg_end r) rs) of
     [] \<Rightarrow> [] | r # rest \<Rightarrow> merge_into r rest)"

text \<open>The inner loop of the subtraction: the cursor in one range against the merged subtrahend.\<close>

fun cut :: "rat \<Rightarrow> rat \<Rightarrow> time_range list \<Rightarrow> time_range list" where
  "cut cursor e [] = (if cursor < e then [range_of cursor e] else [])"
| "cut cursor e (s # ss) =
     (if rg_end s \<le> cursor then cut cursor e ss
      else if e \<le> rg_start s then (if cursor < e then [range_of cursor e] else [])
      else (if cursor < rg_start s then [range_of cursor (rg_start s)] else []) @
        (if e \<le> max cursor (rg_end s) then [] else cut (max cursor (rg_end s)) e ss))"

definition long_enough :: "time_range \<Rightarrow> bool" where
  "long_enough r = (MIN_RANGE_S \<le> rg_end r - rg_start r)"

definition subtractRanges :: "time_range list \<Rightarrow> time_range list \<Rightarrow> time_range list" where
  "subtractRanges a b =
     filter long_enough (concat (map (\<lambda>r. cut (rg_start r) (rg_end r) (mergeRanges b)) (mergeRanges a)))"

definition padRanges :: "time_range list \<Rightarrow> rat \<Rightarrow> rat \<Rightarrow> rat \<Rightarrow> time_range list" where
  "padRanges rs leadPadS trailPadS ceilingS =
     mergeRanges (map (\<lambda>r. range_of (max 0 (rg_start r - leadPadS)) (min ceilingS (rg_end r + trailPadS))) rs)"

subsection \<open>The decision\<close>

definition isMalformed :: "capture_segment \<Rightarrow> bool" where
  "isMalformed s = (case (cs_start s, cs_end s) of (Finite a, Finite b) \<Rightarrow> a < 0 \<or> b \<le> a | _ \<Rightarrow> True)"

primrec number_or :: "rat \<Rightarrow> js_number \<Rightarrow> rat" where
  "number_or d (Finite x) = x"
| "number_or d NotFinite = d"

definition segment_range :: "capture_segment \<Rightarrow> time_range" where
  "segment_range s = range_of (number_or 0 (cs_start s)) (number_or 0 (cs_end s))"

definition declared_duration :: "session_capture \<Rightarrow> capture_segment list \<Rightarrow> rat" where
  "declared_duration c segs = fold max (map (\<lambda>s. number_or 0 (cs_end s)) segs) (number_or 0 (cap_duration_s c))"

definition media_duration :: "session_capture \<Rightarrow> capture_segment list \<Rightarrow> visibility_options \<Rightarrow> rat" where
  "media_duration c segs opts = (let d = declared_duration c segs in
     max (case vo_mediaDurationS opts of None \<Rightarrow> d | Some m \<Rightarrow> m) d)"

definition public_segments :: "capture_segment list \<Rightarrow> time_range list" where
  "public_segments segs = map segment_range (filter (\<lambda>s. cs_visibility s = ''public'') segs)"

definition hidden_segments :: "capture_segment list \<Rightarrow> time_range list" where
  "hidden_segments segs = map segment_range (filter (\<lambda>s. cs_visibility s \<noteq> ''public'') segs)"

definition public_effective :: "capture_segment list \<Rightarrow> time_range list" where
  "public_effective segs = subtractRanges (mergeRanges (public_segments segs)) (mergeRanges (hidden_segments segs))"

definition full_cover :: "time_range list \<Rightarrow> rat \<Rightarrow> bool" where
  "full_cover ps m = (case ps of [p] \<Rightarrow> rg_start p \<le> 0 \<and> m - FULL_COVER_EPSILON_S \<le> rg_end p | _ \<Rightarrow> False)"

definition partialFrom :: "time_range list \<Rightarrow> time_range list \<Rightarrow> rat \<Rightarrow> rat \<Rightarrow> rat \<Rightarrow> visibility_decision" where
  "partialFrom publicMerged hidden leadPadS trailPadS mediaDurationS =
     (let hiddenRanges = padRanges hidden leadPadS trailPadS mediaDurationS;
          publicRanges = subtractRanges publicMerged hiddenRanges in
      if publicRanges = [] then None_Public hiddenRanges else Partial publicRanges hiddenRanges)"

definition lead_pad :: "visibility_options \<Rightarrow> rat" where
  "lead_pad opts = (case vo_leadPadS opts of None \<Rightarrow> DEFAULT_LEAD_PAD_S | Some x \<Rightarrow> x)"

definition trail_pad :: "visibility_options \<Rightarrow> rat" where
  "trail_pad opts = (case vo_trailPadS opts of None \<Rightarrow> DEFAULT_TRAIL_PAD_S | Some x \<Rightarrow> x)"

definition resolveVisibility :: "session_capture \<Rightarrow> visibility_options \<Rightarrow> visibility_decision" where
  "resolveVisibility c opts = (case cap_segments c of
     None \<Rightarrow> if cap_all_public c then All_Public else Hold ''no capture.segments declared and no all-public attestation''
   | Some [] \<Rightarrow> if cap_all_public c then All_Public else Hold ''no capture.segments declared and no all-public attestation''
   | Some segs \<Rightarrow>
       if list_ex isMalformed segs then Hold ''malformed capture.segments''
       else (let m = media_duration c segs opts; effective = public_effective segs in
         if cap_all_public c \<or> full_cover effective m then All_Public
         else partialFrom effective (subtractRanges [range_of 0 m] effective) (lead_pad opts) (trail_pad opts) m))"

subsection \<open>The instants of a list of ranges\<close>

definition span :: "time_range \<Rightarrow> rat set" where
  "span r = {rg_start r ..< rg_end r}"

definition spans :: "time_range list \<Rightarrow> rat set" where
  "spans rs = (\<Union>r\<in>set rs. span r)"

lemma spans_simps [simp]: "spans [] = {}" "spans (r # rs) = span r \<union> spans rs" "spans (xs @ ys) = spans xs \<union> spans ys"
  by (auto simp: spans_def)

lemma in_spans: "t \<in> spans rs \<longleftrightarrow> (\<exists>r\<in>set rs. rg_start r \<le> t \<and> t < rg_end r)"
  by (auto simp: spans_def span_def)

lemma range_of [simp]: "rg_start (range_of a b) = a" "rg_end (range_of a b) = b"
  by (simp_all add: range_of_def)

lemma span_range_of [simp]: "span (range_of a b) = {a ..< b}" by (simp add: span_def)

text \<open>Merged ranges: not empty, ascending, and apart from each other.\<close>

definition apart :: "time_range list \<Rightarrow> bool" where
  "apart rs = (sorted_wrt (\<lambda>r s. rg_end r < rg_start s) rs \<and> (\<forall>r\<in>set rs. rg_start r < rg_end r))"

lemma apart_Cons: "apart (r # rs) \<longleftrightarrow> rg_start r < rg_end r \<and> (\<forall>s\<in>set rs. rg_end r < rg_start s) \<and> apart rs"
  by (auto simp: apart_def)

lemma merge_into:
  assumes "sorted (map rg_start (latest # rs))" and "\<forall>r\<in>set (latest # rs). rg_start r < rg_end r"
  shows "spans (merge_into latest rs) = spans (latest # rs)" and "apart (merge_into latest rs)"
    and "\<forall>r\<in>set (merge_into latest rs). rg_start latest \<le> rg_start r"
  using assms
proof (induction latest rs rule: merge_into.induct)
  case (2 latest r rs)
  case 1
  then show ?case using "2.IH"(1,4) by (auto simp: span_def max_def split: if_splits)
next
  case (2 latest r rs)
  case 2
  then show ?case using "2.IH"(2,5,6) by (fastforce simp: apart_Cons max_def split: if_splits)
next
  case (2 latest r rs)
  case 3
  then show ?case using "2.IH"(3,6) by (fastforce simp: max_def split: if_splits)
qed (auto simp: apart_def)


lemma mergeRanges_spans [simp]: "spans (mergeRanges rs) = spans rs" and mergeRanges_apart [simp]: "apart (mergeRanges rs)"
proof -
  let ?s = "sort_key rg_start (filter (\<lambda>r. rg_start r < rg_end r) rs)"
  have set: "set ?s = {r \<in> set rs. rg_start r < rg_end r}" by simp
  then have sp: "spans ?s = spans rs" unfolding spans_def by (force simp: span_def)
  have "spans (mergeRanges rs) = spans rs \<and> apart (mergeRanges rs)"
  proof (cases ?s)
    case Nil
    then show ?thesis using sp by (simp add: mergeRanges_def apart_def)
  next
    case (Cons r rest)
    have "sorted (map rg_start (r # rest))" using Cons sorted_sort_key by metis
    moreover have "\<forall>x\<in>set (r # rest). rg_start x < rg_end x" using set Cons by auto
    ultimately show ?thesis using merge_into [of r rest] sp Cons by (simp add: mergeRanges_def)
  qed
  then show "spans (mergeRanges rs) = spans rs" "apart (mergeRanges rs)" by simp_all
qed

lemma cut_spans: "apart ss \<Longrightarrow> spans (cut c e ss) = {c ..< e} - spans ss"
proof (induction c e ss rule: cut.induct)
  case (2 c e s ss)
  have ss: "apart ss" "rg_start s < rg_end s" and gap: "\<And>t. t \<in> spans ss \<Longrightarrow> rg_end s < t"
    using "2.prems" by (auto simp: apart_Cons in_spans intro: less_le_trans)
  consider "rg_end s \<le> c" | "c < rg_end s" "e \<le> rg_start s" | "c < rg_end s" "rg_start s < e" by linarith
  then show ?case
  proof cases
    case 1
    then show ?thesis using "2.IH"(1) ss by (auto simp: span_def)
  next
    case 2
    then show ?thesis using gap ss by (auto simp: span_def dest!: gap)
  next
    case 3
    show ?thesis
    proof (cases "e \<le> max c (rg_end s)")
      case True
      then show ?thesis using 3 gap ss by (auto simp: span_def max_def split: if_splits dest!: gap)
    next
      case False
      then have "spans (cut (max c (rg_end s)) e ss) = {max c (rg_end s) ..< e} - spans ss"
        using "2.IH"(2) 3 ss by simp
      then show ?thesis using 3 False gap ss by (auto simp: span_def max_def split: if_splits dest!: gap)
    qed
  qed
qed auto

text \<open>A stretch of remaining instants lies in one piece.\<close>

lemma cut_contains:
  assumes "apart ss" and "c \<le> x" and "x < y" and "y \<le> e" and "{x ..< y} \<inter> spans ss = {}"
  shows "\<exists>r\<in>set (cut c e ss). rg_start r \<le> x \<and> y \<le> rg_end r"
  using assms
proof (induction c e ss rule: cut.induct)
  case (2 c e s ss)
  have ss: "apart ss" "rg_start s < rg_end s" "{x ..< y} \<inter> spans ss = {}" and d: "{x ..< y} \<inter> span s = {}"
    using "2.prems" by (auto simp: apart_Cons)
  have side: "y \<le> rg_start s \<or> rg_end s \<le> x"
  proof (rule ccontr)
    assume "\<not> ?thesis"
    then have "max x (rg_start s) \<in> {x ..< y} \<inter> span s" using \<open>x < y\<close> ss(2) by (auto simp: span_def max_def)
    with d show False by simp
  qed
  consider "rg_end s \<le> c" | "c < rg_end s" "e \<le> rg_start s" | "c < rg_end s" "rg_start s < e" by linarith
  then show ?case
  proof cases
    case 1
    then show ?thesis using "2.IH"(1) "2.prems"(2-4) ss by simp
  next
    case 2
    then show ?thesis using "2.prems"(2-4) by simp
  next
    case 3
    from side show ?thesis
    proof
      assume y: "y \<le> rg_start s"
      then have "c < rg_start s" using "2.prems"(2,3) by linarith
      then show ?thesis using 3 y "2.prems"(2) by simp
    next
      assume x: "rg_end s \<le> x"
      then have "\<not> e \<le> max c (rg_end s)" using "2.prems"(2-4) by linarith
      moreover have "max c (rg_end s) \<le> x" using x "2.prems"(2) by simp
      ultimately show ?thesis using "2.IH"(2) 3 "2.prems"(3,4) ss by auto
    qed
  qed
qed auto

lemma subtract_sub: "spans (subtractRanges a b) \<subseteq> spans a - spans b"
proof
  fix t assume "t \<in> spans (subtractRanges a b)"
  then obtain r p where r: "r \<in> set (mergeRanges a)" and p: "p \<in> set (cut (rg_start r) (rg_end r) (mergeRanges b))" "t \<in> span p"
    by (auto simp: subtractRanges_def spans_def)
  then have "t \<in> spans (cut (rg_start r) (rg_end r) (mergeRanges b))" by (auto simp: spans_def)
  then have "t \<in> span r - spans b" by (simp add: cut_spans span_def)
  then show "t \<in> spans a - spans b" using r mergeRanges_spans [of a] by (auto simp: spans_def)
qed

lemma mergeRanges_single: "a < b \<Longrightarrow> mergeRanges [range_of a b] = [range_of a b]"
  by (simp add: mergeRanges_def)

lemma subtract_contains:
  assumes "0 \<le> x" and "x + MIN_RANGE_S \<le> y" and "y \<le> m" and "{x ..< y} \<inter> spans b = {}"
  shows "\<exists>r\<in>set (subtractRanges [range_of 0 m] b). rg_start r \<le> x \<and> y \<le> rg_end r"
proof -
  have xy: "x < y" using assms(2) by (simp add: MIN_RANGE_S_def)
  then obtain r where r: "r \<in> set (cut 0 m (mergeRanges b))" "rg_start r \<le> x" "y \<le> rg_end r"
    using cut_contains [of "mergeRanges b" 0 x y m] assms by auto
  moreover have "long_enough r" using r(2,3) assms(2) by (simp add: long_enough_def)
  moreover have "mergeRanges [range_of 0 m] = [range_of 0 m]" by (rule mergeRanges_single) (use assms xy in linarith)
  ultimately show ?thesis by (auto simp: subtractRanges_def)
qed


subsection \<open>What may surface\<close>

text \<open>An instant is declared public when a public segment covers it and no segment that is not
  public does.\<close>

definition covers :: "capture_segment \<Rightarrow> rat \<Rightarrow> bool" where
  "covers s t = (number_or 0 (cs_start s) \<le> t \<and> t < number_or 0 (cs_end s))"

definition declared_public :: "capture_segment list \<Rightarrow> rat \<Rightarrow> bool" where
  "declared_public segs t =
     (list_ex (\<lambda>s. cs_visibility s = ''public'' \<and> covers s t) segs \<and>
      \<not> list_ex (\<lambda>s. cs_visibility s \<noteq> ''public'' \<and> covers s t) segs)"

text \<open>The variant that is made for a decision shows an instant.\<close>

fun may_surface :: "visibility_decision \<Rightarrow> rat \<Rightarrow> bool" where
  "may_surface (Hold _) t = False"
| "may_surface All_Public t = True"
| "may_surface (None_Public _) t = False"
| "may_surface (Partial pub hid) t = (\<not> list_ex (\<lambda>r. rg_start r \<le> t \<and> t < rg_end r) hid)"

lemma declared_public_spans: "declared_public segs t \<longleftrightarrow> t \<in> spans (public_segments segs) - spans (hidden_segments segs)"
  by (auto simp: declared_public_def covers_def list_ex_iff in_spans public_segments_def hidden_segments_def segment_range_def range_of_def)

lemma effective_declared: "t \<in> spans (public_effective segs) \<Longrightarrow> declared_public segs t"
  using subtract_sub [of "mergeRanges (public_segments segs)" "mergeRanges (hidden_segments segs)"]
  by (auto simp: public_effective_def declared_public_spans)

lemma resolve_unattested:
  assumes "cap_segments c = Some segs" and "\<not> cap_all_public c"
  obtains (hold) reason where "resolveVisibility c opts = Hold reason"
  | (all_public) "resolveVisibility c opts = All_Public" "full_cover (public_effective segs) (media_duration c segs opts)"
  | (parted) "resolveVisibility c opts = partialFrom (public_effective segs)
      (subtractRanges [range_of 0 (media_duration c segs opts)] (public_effective segs))
      (lead_pad opts) (trail_pad opts) (media_duration c segs opts)"
proof (cases "segs = [] \<or> list_ex isMalformed segs")
  case True
  then have "\<exists>reason. resolveVisibility c opts = Hold reason"
    using assms by (cases segs) (auto simp: resolveVisibility_def)
  with hold show thesis by blast
next
  case False
  let ?m = "media_duration c segs opts" and ?e = "public_effective segs"
  have "resolveVisibility c opts = (if full_cover ?e ?m then All_Public
      else partialFrom ?e (subtractRanges [range_of 0 ?m] ?e) (lead_pad opts) (trail_pad opts) ?m)"
    using False assms by (cases segs) (simp_all add: resolveVisibility_def Let_def)
  with all_public parted show thesis by (cases "full_cover ?e ?m") auto
qed

lemma pad_contains:
  assumes "r \<in> set rs" and "rg_start r \<le> x" and "y \<le> rg_end r" and "max 0 (x - lead) \<le> t" and "t < min m (y + trail)"
  shows "t \<in> spans (padRanges rs lead trail m)"
proof -
  have "max 0 (rg_start r - lead) \<le> t" "t < min m (rg_end r + trail)" using assms(2-5) by auto
  then show ?thesis using assms(1) by (force simp: padRanges_def in_spans)
qed

lemma partialFrom_cases:
  "partialFrom p h l tr m = None_Public (padRanges h l tr m) \<or>
   partialFrom p h l tr m = Partial (subtractRanges p (padRanges h l tr m)) (padRanges h l tr m)"
  by (simp add: partialFrom_def Let_def)

lemma full_cover_spans: "full_cover ps m \<Longrightarrow> 0 \<le> t \<Longrightarrow> t < m - FULL_COVER_EPSILON_S \<Longrightarrow> t \<in> spans ps"
  by (auto simp: full_cover_def span_def split: list.splits)

text \<open>The lengths that are known of a file: the probed one, the recorded duration of the capture,
  the end of each segment.\<close>

definition known_lengths :: "session_capture \<Rightarrow> capture_segment list \<Rightarrow> visibility_options \<Rightarrow> rat set" where
  "known_lengths c segs opts = {d. vo_mediaDurationS opts = Some d \<or> cap_duration_s c = Finite d \<or> Finite d \<in> cs_end ` set segs}"

lemma known_length_le:
  assumes "d \<in> known_lengths c segs opts"
  shows "d \<le> media_duration c segs opts"
proof -
  have fold_ge: "a \<le> fold max xs a" "x \<in> set xs \<Longrightarrow> x \<le> fold max xs a" for a x :: rat and xs
  proof (induction xs arbitrary: a)
    case (Cons y ys)
    { case 1 show ?case using Cons.IH(1) [of "max y a"] by simp }
    { case 2 then show ?case using Cons.IH(1) [of "max y a"] Cons.IH(2) [of "max y a"] by auto }
  qed simp_all
  have "cap_duration_s c = Finite d \<Longrightarrow> d \<le> declared_duration c segs"
    using fold_ge(1) [of "number_or 0 (cap_duration_s c)"] by (simp add: declared_duration_def number_or_def)
  moreover have "d \<le> declared_duration c segs" if "s \<in> set segs" "cs_end s = Finite d" for s
    using that fold_ge(2) [of d "map (\<lambda>s. number_or 0 (cs_end s)) segs"] by (force simp: declared_duration_def number_or_def)
  ultimately show ?thesis using assms by (force simp: known_lengths_def media_duration_def Let_def le_max_iff_disj)
qed

text \<open>C12: Only what is declared public surfaces. Without an attestation, in every stretch of at
  least 50 ms of which an instant surfaces, some instant is covered by a public segment and by no
  segment that is not public, unless the stretch reaches into the last half second of the file.
  The end of the file is wherever the probe, the recorded duration or a segment puts it, the
  latest of them. So a declared in-camera window, a gap between segments and a tail that only the
  probe knows of do not surface.\<close>

theorem only_declared_public_time_surfaces:
  assumes "cap_segments c = Some segs" and "\<not> cap_all_public c" and "may_surface (resolveVisibility c opts) t"
    and "0 \<le> x" and "x \<le> t" and "t < y" and "x + 1 / 20 \<le> y"
    and "d \<in> known_lengths c segs opts" and "y + 1 / 2 \<le> d" and "0 \<le> lead_pad opts" and "0 \<le> trail_pad opts"
  shows "\<exists>u. x \<le> u \<and> u < y \<and> declared_public segs u"
proof (rule ccontr)
  let ?m = "media_duration c segs opts" and ?e = "public_effective segs"
  have min: "x + MIN_RANGE_S \<le> y" using assms(7) by (simp add: MIN_RANGE_S_def)
  have last: "y \<le> ?m - FULL_COVER_EPSILON_S"
    using known_length_le [OF assms(8)] assms(9) by (simp add: FULL_COVER_EPSILON_S_def)
  assume "\<not> ?thesis"
  then have none: "{x ..< y} \<inter> spans ?e = {}" by (auto dest: effective_declared)
  from assms(1,2) show False
  proof (cases rule: resolve_unattested [where opts = opts])
    case all_public
    then have "t \<in> spans ?e" using assms(4-6) last by (intro full_cover_spans) auto
    then show False using none assms(5,6) by auto
  next
    case parted
    have "y \<le> ?m" using last by (simp add: FULL_COVER_EPSILON_S_def)
    then obtain r where r: "r \<in> set (subtractRanges [range_of 0 ?m] ?e)" "rg_start r \<le> x" "y \<le> rg_end r"
      using subtract_contains [OF assms(4) min _ none] by blast
    have "t \<in> spans (padRanges (subtractRanges [range_of 0 ?m] ?e) (lead_pad opts) (trail_pad opts) ?m)"
      by (rule pad_contains [OF r]) (use assms(4-6,10,11) \<open>y \<le> ?m\<close> in \<open>simp_all add: max_def\<close>)
    then show False
      using assms(3) partialFrom_cases [of ?e "subtractRanges [range_of 0 ?m] ?e" "lead_pad opts" "trail_pad opts" ?m] parted
      by (auto simp: in_spans list_ex_iff)
  qed (use assms(3) in simp)
qed

text \<open>Public until 60, in camera until 90, public until 120; the file has 130 seconds.\<close>

definition demo_segment :: "rat \<Rightarrow> rat \<Rightarrow> string \<Rightarrow> capture_segment" where
  "demo_segment a b v = \<lparr>cs_start = Finite a, cs_end = Finite b, cs_visibility = v\<rparr>"

definition demo_capture :: "bool \<Rightarrow> capture_segment list \<Rightarrow> session_capture" where
  "demo_capture attested segs = \<lparr>cap_device = Some ''d1'', cap_av_file = Some ''raw1'', cap_public_file = None,
     cap_redaction_status = Some ''pending'', cap_redaction_attempts = 0, cap_redaction_pending_since = None,
     cap_all_public = attested, cap_started_at = None, cap_ended_at = None, cap_duration_s = NotFinite,
     cap_segments = Some segs\<rparr>"

definition demo_segments :: "capture_segment list" where
  "demo_segments = [demo_segment 0 60 ''public'', demo_segment 60 90 ''in_camera'', demo_segment 90 120 ''public'']"

definition probed :: "rat \<Rightarrow> visibility_options" where
  "probed d = \<lparr>vo_leadPadS = None, vo_trailPadS = None, vo_mediaDurationS = Some d\<rparr>"

lemmas visibility_eval = resolveVisibility_def public_effective_def public_segments_def hidden_segments_def segment_range_def
  media_duration_def declared_duration_def subtractRanges_def mergeRanges_def padRanges_def partialFrom_def full_cover_def
  lead_pad_def trail_pad_def isMalformed_def long_enough_def MIN_RANGE_S_def FULL_COVER_EPSILON_S_def DEFAULT_LEAD_PAD_S_def
  DEFAULT_TRAIL_PAD_S_def demo_capture_def demo_segment_def probed_def Let_def range_of_def

lemma demo_decision:
  "resolveVisibility (demo_capture False demo_segments) (probed 130) =
     Partial [range_of 0 57, range_of 95 117] [range_of 57 95, range_of 117 130]"
  by code_simp

lemma only_declared_public_time_surfaces_witness:
  "may_surface (resolveVisibility (demo_capture False demo_segments) (probed 130)) 100 \<and>
     (\<exists>u. 98 \<le> u \<and> u < 102 \<and> declared_public demo_segments u)"
proof -
  have s: "may_surface (resolveVisibility (demo_capture False demo_segments) (probed 130)) 100"
    by (simp add: demo_decision)
  have d: "130 \<in> known_lengths (demo_capture False demo_segments) demo_segments (probed 130)"
    by (simp add: known_lengths_def probed_def)
  have p: "0 \<le> lead_pad (probed 130)" "0 \<le> trail_pad (probed 130)" by code_simp+
  have "\<exists>u. 98 \<le> u \<and> u < 102 \<and> declared_public demo_segments u"
    by (rule only_declared_public_time_surfaces [OF _ _ s _ _ _ _ d _ p]) (simp_all add: demo_capture_def)
  with s show ?thesis by simp
qed

text \<open>Hidden time takes its padding with it. When a recording is published in parts, every
  stretch of at least 50 ms without a declared public instant is blanked together with the
  padding before and after it.\<close>

theorem hidden_windows_are_padded:
  assumes "resolveVisibility c opts = Partial pub hid" and "cap_segments c = Some segs"
    and "0 \<le> x" and "x + MIN_RANGE_S \<le> y" and "y \<le> media_duration c segs opts"
    and "\<And>u. x \<le> u \<Longrightarrow> u < y \<Longrightarrow> \<not> declared_public segs u"
    and "max 0 (x - lead_pad opts) \<le> t" and "t < min (media_duration c segs opts) (y + trail_pad opts)"
  shows "\<exists>r. r \<in> set hid \<and> rg_start r \<le> t \<and> t < rg_end r"
proof -
  let ?m = "media_duration c segs opts" and ?e = "public_effective segs"
  let ?h = "subtractRanges [range_of 0 ?m] ?e"
  have none: "{x ..< y} \<inter> spans ?e = {}" using assms(6) by (auto dest: effective_declared)
  have "\<not> cap_all_public c"
    using assms(1,2) by (cases segs) (auto simp: resolveVisibility_def Let_def split: if_splits)
  then have "hid = padRanges ?h (lead_pad opts) (trail_pad opts) ?m"
    using partialFrom_cases [of ?e ?h "lead_pad opts" "trail_pad opts" ?m] assms(1)
    by (cases rule: resolve_unattested [OF assms(2), where opts = opts]) auto
  moreover obtain r where r: "r \<in> set ?h" "rg_start r \<le> x" "y \<le> rg_end r"
    using subtract_contains [OF assms(3,4,5) none] by blast
  moreover have "t \<in> spans (padRanges ?h (lead_pad opts) (trail_pad opts) ?m)"
    by (rule pad_contains [OF r]) (use assms(7,8) in simp_all)
  ultimately show ?thesis by (auto simp: in_spans)
qed

lemma hidden_windows_are_padded_witness:
  "\<exists>pub hid r. resolveVisibility (demo_capture False demo_segments) (probed 130) = Partial pub hid \<and>
     r \<in> set hid \<and> rg_start r \<le> 94 \<and> 94 < rg_end r"
proof -
  have m: "media_duration (demo_capture False demo_segments) demo_segments (probed 130) = 130"
    "lead_pad (probed 130) = 3" "trail_pad (probed 130) = 5" by code_simp+
  have n: "\<not> declared_public demo_segments u" if "60 \<le> u" "u < 90" for u
    using that by (simp add: declared_public_def covers_def demo_segments_def demo_segment_def)
  have "\<exists>r. r \<in> set [range_of 57 95, range_of 117 130] \<and> rg_start r \<le> 94 \<and> 94 < rg_end r"
    by (rule hidden_windows_are_padded [OF demo_decision, where x = 60 and y = 90 and segs = demo_segments])
       (use m n in \<open>simp_all add: demo_capture_def MIN_RANGE_S_def\<close>)
  then show ?thesis unfolding demo_decision by blast
qed

text \<open>What still surfaces: an attested capture hides nothing that its segments declare, a window
  of less than 50 ms is dropped, and so is a window in the last half second.\<close>

lemma attested_hides_nothing:
  assumes "cap_all_public c" and "\<And>segs. cap_segments c = Some segs \<Longrightarrow> \<not> list_ex isMalformed segs"
  shows "resolveVisibility c opts = All_Public"
  using assms by (auto simp: resolveVisibility_def Let_def split: option.split list.split)

lemma short_window_surfaces:
  "may_surface (resolveVisibility (demo_capture False
     [demo_segment 0 120 ''public'', demo_segment 30 (30 + 1 / 25) ''in_camera'', demo_segment 60 90 ''in_camera'']) (probed 120)) (30 + 1 / 50)"
  by code_simp

lemma final_half_second_surfaces:
  "resolveVisibility (demo_capture False [demo_segment 0 60 ''public'', demo_segment 60 (60 + 2 / 5) ''in_camera''])
     (probed (60 + 2 / 5)) = All_Public"
  by code_simp

end
