(* ===== verification/Broadcast_World.thy ===== *)
theory Broadcast_World
  imports Visibility Js_Values "HOL-Library.Word"
begin

section \<open>The state of the broadcast box module\<close>

text \<open>
  \<open>modules/broadcast-box/src\<close>: the tables of \<open>storage/migrations\<close> with the models over them
  (\<open>models/device.ts\<close>, \<open>broadcast-session.ts\<close>, \<open>enrollment-code.ts\<close>, \<open>device-event.ts\<close>), the
  connections of \<open>services/device-connection-tracker.ts\<close>, the session records with their capture
  block, the stored files, and the temporary directories of uploads (\<open>b_dirs\<close>, by upload). Every database, record or storage call takes one entry of
  \<open>faults\<close>. The methods of the device model and the event model that these services do not call
  are left out. A generated UUID is the next value of the parameter \<open>uuid\<close>.
\<close>

subsection \<open>Tables\<close>

datatype device_status = Enrolled | Active | Suspended | Revoked | Decommissioned

record device_row =
  dv_id :: string
  dv_organization_id :: string
  dv_device_uuid :: string
  dv_name :: string
  dv_room_location :: "string option"
  dv_status :: device_status
  dv_capabilities :: jv
  dv_config :: jv
  dv_public_key :: "string option"
  dv_last_seen_at :: "msec option"
  dv_created_at :: msec
  dv_updated_at :: msec

primrec device_status_text :: "device_status \<Rightarrow> string" where
  "device_status_text Enrolled = ''enrolled''"
| "device_status_text Active = ''active''"
| "device_status_text Suspended = ''suspended''"
| "device_status_text Revoked = ''revoked''"
| "device_status_text Decommissioned = ''decommissioned''"

text \<open>The \<open>CHECK\<close> of \<open>broadcast_devices\<close> lists four of the five states.\<close>

definition status_allowed :: "device_status \<Rightarrow> bool" where
  "status_allowed s = (s \<in> {Enrolled, Active, Suspended, Revoked})"

record enrollment_code =
  ec_id :: string
  ec_device_uuid :: string
  ec_hash :: string
  ec_created_at :: msec
  ec_expires_at :: msec
  ec_used_at :: "msec option"
  ec_created_by :: "int option"
  ec_ip_address :: "string option"
  ec_registration_ip :: "string option"

datatype session_status = Pending | Recording | Stopping | Encoding | Uploading | Complete | Failed

primrec session_status_text :: "session_status \<Rightarrow> string" where
  "session_status_text Pending = ''pending''"
| "session_status_text Recording = ''recording''"
| "session_status_text Stopping = ''stopping''"
| "session_status_text Encoding = ''encoding''"
| "session_status_text Uploading = ''uploading''"
| "session_status_text Complete = ''complete''"
| "session_status_text Failed = ''failed''"

record broadcast_session =
  bs_id :: string
  bs_device_id :: string
  bs_civicpress_id :: string
  bs_status :: session_status
  bs_started_at :: "msec option"
  bs_stopped_at :: "msec option"
  bs_completed_at :: "msec option"
  bs_error :: "string option"
  bs_metadata :: members
  bs_created_at :: msec
  bs_updated_at :: msec

datatype device_activity = Idle | Is_Recording | Is_Encoding | Is_Uploading

datatype health = Online | Degraded | Offline

record connection =
  cn_connected :: bool
  cn_client_id :: string
  cn_last_heartbeat :: msec
  cn_connected_at :: msec
  cn_health :: health
  cn_last_message_at :: msec
  cn_failures :: nat
  cn_activity :: device_activity
  cn_active_session :: "string option"

record attached_file =
  af_id :: string
  af_path :: string
  af_original_name :: string
  af_description :: string
  af_category :: string

text \<open>A \<open>session\<close> record: its type, the capture block of its file, the status that the metadata
  column of its row reports, its attachments and the ids it links to.\<close>

record session_record =
  sr_type :: string
  sr_capture :: "session_capture option"
  sr_row_status :: "string option"
  sr_attached :: "attached_file list"
  sr_linked :: "string list"

record session_draft =
  sd_type :: string
  sd_linked :: "string list"

record 'm stored_file =
  sf_id :: string
  sf_folder :: string
  sf_original_name :: string
  sf_content :: "'m option"

datatype upload_status = Up_Pending | Up_Uploading | Up_Processing | Up_Complete | Up_Failed

primrec upload_status_text :: "upload_status \<Rightarrow> string" where
  "upload_status_text Up_Pending = ''pending''"
| "upload_status_text Up_Uploading = ''uploading''"
| "upload_status_text Up_Processing = ''processing''"
| "upload_status_text Up_Complete = ''complete''"
| "upload_status_text Up_Failed = ''failed''"

record upload_row =
  up_id :: string
  up_session_id :: string
  up_device_id :: string
  up_file_name :: string
  up_file_size :: int
  up_file_hash :: string
  up_status :: upload_status
  up_progress :: int
  up_storage :: "string option"
  up_error :: "string option"

type_synonym byte = "8 word"

text \<open>How the device answers the next command.\<close>

datatype reply = Ack | Nack string | Not_Sent | Silent

record 'm bb_world = dbenv +
  b_devices :: "device_row list"
  b_codes :: "enrollment_code list"
  b_sessions :: "broadcast_session list"
  b_events :: "(string \<times> string) list"
  b_connections :: "(string \<times> connection) list"
  b_clients :: "(string \<times> string) list"
  b_records :: "(string \<times> session_record) list"
  b_drafts :: "(string \<times> session_draft) list"
  b_files :: "'m stored_file list"
  b_replies :: "reply list"
  b_serial :: nat
  b_uploads :: "upload_row list"
  b_dirs :: "(string \<times> (string \<times> byte list) list) list"
  b_revoked :: "(string \<times> msec) list"

type_synonym ('m, 'a) bb_op = "('m bb_world, string, 'a) em"

definition bb_call :: "('m, 'a) bb_op \<Rightarrow> ('m, 'a) bb_op" where
  "bb_call m = (\<lambda>w. case faults w of
     [] \<Rightarrow> m w
   | True # fs \<Rightarrow> (Inl ''adapter failure'', w\<lparr>faults := fs\<rparr>)
   | False # fs \<Rightarrow> m (w\<lparr>faults := fs\<rparr>))"

definition bb_now :: "('m, msec) bb_op" where
  "bb_now = eget clock"

definition fresh_uuid :: "(nat \<Rightarrow> string) \<Rightarrow> ('m, string) bb_op" where
  "fresh_uuid uuid = (\<lambda>w. (Inr (uuid (b_serial w)), w\<lparr>b_serial := Suc (b_serial w)\<rparr>))"

subsection \<open>Devices and events\<close>

definition getDevice :: "string \<Rightarrow> ('m, device_row option) bb_op" where
  "getDevice i = bb_call (eget (\<lambda>w. List.find (\<lambda>d. dv_id d = i) (b_devices w)))"

definition getDeviceByUuid :: "string \<Rightarrow> ('m, device_row option) bb_op" where
  "getDeviceByUuid u = bb_call (eget (\<lambda>w. List.find (\<lambda>d. dv_device_uuid d = u) (b_devices w)))"

definition create_device :: "device_row \<Rightarrow> ('m, device_row) bb_op" where
  "create_device d = ebind bb_now (\<lambda>now. let row = d\<lparr>dv_created_at := now, dv_updated_at := now\<rparr> in
     bb_call (\<lambda>w.
       if dv_id d \<in> dv_id ` set (b_devices w) \<or> dv_device_uuid d \<in> dv_device_uuid ` set (b_devices w)
       then (Inl ''UNIQUE constraint failed'', w)
       else if \<not> status_allowed (dv_status d) then (Inl ''CHECK constraint failed'', w)
       else (Inr row, w\<lparr>b_devices := b_devices w @ [row\<lparr>dv_room_location := or_null (dv_room_location d),
         dv_public_key := or_null (dv_public_key d)\<rparr>]\<rparr>)))"

text \<open>\<open>update\<close> of the device model with a change of some columns, never of the keys.\<close>

definition update_device :: "string \<Rightarrow> (device_row \<Rightarrow> device_row) \<Rightarrow> ('m, device_row) bb_op" where
  "update_device i f = ebind bb_now (\<lambda>now.
     eseq (bb_call (\<lambda>w. let rows = map (\<lambda>d. if dv_id d = i then (f d)\<lparr>dv_updated_at := now\<rparr> else d) (b_devices w) in
         if list_all (\<lambda>d. status_allowed (dv_status d)) rows then (Inr (), w\<lparr>b_devices := rows\<rparr>)
         else (Inl ''CHECK constraint failed'', w)))
     (ebind (getDevice i) (\<lambda>r. case r of
        None \<Rightarrow> ethrow (''Device not found after update: '' @ i) | Some d \<Rightarrow> ereturn d)))"

definition create_event :: "string \<Rightarrow> string \<Rightarrow> ('m, unit) bb_op" where
  "create_event deviceId eventType = bb_call (\<lambda>w.
     if deviceId \<in> dv_id ` set (b_devices w) then (Inr (), w\<lparr>b_events := b_events w @ [(deviceId, eventType)]\<rparr>)
     else (Inl ''FOREIGN KEY constraint failed'', w))"

subsection \<open>Recording sessions\<close>

definition find_session :: "string \<Rightarrow> broadcast_session list \<Rightarrow> broadcast_session option" where
  "find_session i rows = List.find (\<lambda>s. bs_id s = i) rows"

definition create_session :: "broadcast_session \<Rightarrow> ('m, broadcast_session) bb_op" where
  "create_session s = ebind bb_now (\<lambda>now. let row = s\<lparr>bs_created_at := now, bs_updated_at := now\<rparr> in
     bb_call (\<lambda>w.
       if bs_id s \<in> bs_id ` set (b_sessions w) then (Inl ''UNIQUE constraint failed'', w)
       else if bs_device_id s \<notin> dv_id ` set (b_devices w) then (Inl ''FOREIGN KEY constraint failed'', w)
       else (Inr row, w\<lparr>b_sessions := b_sessions w @ [row]\<rparr>)))"

definition getById :: "string \<Rightarrow> ('m, broadcast_session option) bb_op" where
  "getById i = bb_call (eget (\<lambda>w. find_session i (b_sessions w)))"

text \<open>The newest row of a record; rows of one instant come in the order of the table.\<close>

definition newest_first :: "broadcast_session list \<Rightarrow> broadcast_session list" where
  "newest_first rows = sort_key (\<lambda>s. - bs_created_at s) rows"

definition getByCivicPressSessionId :: "string \<Rightarrow> ('m, broadcast_session option) bb_op" where
  "getByCivicPressSessionId c = bb_call (eget (\<lambda>w.
     case newest_first (filter (\<lambda>s. bs_civicpress_id s = c) (b_sessions w)) of [] \<Rightarrow> None | s # _ \<Rightarrow> Some s))"

record session_filters =
  sl_deviceId :: "string option"
  sl_civicpressSessionId :: "string option"
  sl_status :: "session_status option"
  sl_limit :: nat
  sl_offset :: nat

definition session_listed :: "session_filters \<Rightarrow> broadcast_session \<Rightarrow> bool" where
  "session_listed f s =
     ((case or_null (sl_deviceId f) of None \<Rightarrow> True | Some d \<Rightarrow> bs_device_id s = d) \<and>
      (case or_null (sl_civicpressSessionId f) of None \<Rightarrow> True | Some c \<Rightarrow> bs_civicpress_id s = c) \<and>
      (case sl_status f of None \<Rightarrow> True | Some st \<Rightarrow> bs_status s = st))"

text \<open>An offset without a limit is not valid SQL in SQLite.\<close>

definition list_sessions :: "session_filters \<Rightarrow> ('m, broadcast_session list) bb_op" where
  "list_sessions f = bb_call (\<lambda>w. let rows = newest_first (filter (session_listed f) (b_sessions w)) in
     if sl_limit f = 0 then (if sl_offset f = 0 then Inr rows else Inl ''near OFFSET: syntax error'', w)
     else (Inr (take (sl_limit f) (drop (sl_offset f) rows)), w))"

definition rewrite_session :: "string \<Rightarrow> (broadcast_session \<Rightarrow> broadcast_session) \<Rightarrow> msec \<Rightarrow> broadcast_session list \<Rightarrow> broadcast_session list" where
  "rewrite_session i f now rows = map (\<lambda>s. if bs_id s = i then (f s)\<lparr>bs_updated_at := now\<rparr> else s) rows"

definition update_session :: "string \<Rightarrow> (broadcast_session \<Rightarrow> broadcast_session) \<Rightarrow> ('m, broadcast_session) bb_op" where
  "update_session i f = ebind bb_now (\<lambda>now.
     eseq (bb_call (emodify (\<lambda>w. w\<lparr>b_sessions := rewrite_session i f now (b_sessions w)\<rparr>)))
     (ebind (getById i) (\<lambda>r. case r of
        None \<Rightarrow> ethrow (''Session not found after update: '' @ i) | Some s \<Rightarrow> ereturn s)))"

definition delete_session :: "string \<Rightarrow> ('m, unit) bb_op" where
  "delete_session i = bb_call (emodify (\<lambda>w. w\<lparr>b_sessions := filter (\<lambda>s. bs_id s \<noteq> i) (b_sessions w)\<rparr>))"

subsection \<open>Connections\<close>

definition updateDeviceState :: "string \<Rightarrow> device_activity \<Rightarrow> string option \<Rightarrow> ('m, unit) bb_op" where
  "updateDeviceState deviceId activity active = emodify (\<lambda>w. case jm_get (b_connections w) deviceId of
     None \<Rightarrow> w
   | Some c \<Rightarrow> w\<lparr>b_connections := jm_set deviceId (c\<lparr>cn_activity := activity, cn_active_session := active\<rparr>) (b_connections w)\<rparr>)"

definition isConnected :: "string \<Rightarrow> 'm bb_world \<Rightarrow> bool" where
  "isConnected deviceId w = (case jm_get (b_connections w) deviceId of None \<Rightarrow> False | Some c \<Rightarrow> cn_connected c)"

definition activity_of :: "string \<Rightarrow> 'm bb_world \<Rightarrow> device_activity option" where
  "activity_of deviceId w = map_option cn_activity (jm_get (b_connections w) deviceId)"

subsection \<open>Session records\<close>

definition empty_capture :: session_capture where
  "empty_capture = \<lparr>cap_device = None, cap_av_file = None, cap_public_file = None, cap_redaction_status = None,
     cap_redaction_attempts = 0, cap_redaction_pending_since = None, cap_all_public = False, cap_started_at = None,
     cap_ended_at = None, cap_duration_s = NotFinite, cap_segments = None\<rparr>"

definition getRecord_session :: "string \<Rightarrow> ('m, session_record option) bb_op" where
  "getRecord_session rid = bb_call (eget (\<lambda>w. jm_get (b_records w) rid))"

definition append_attachment :: "attached_file option \<Rightarrow> attached_file list \<Rightarrow> attached_file list" where
  "append_attachment new fs = (case new of
     None \<Rightarrow> fs | Some f \<Rightarrow> if list_ex (\<lambda>x. af_id x = af_id f) fs then fs else fs @ [f])"

text \<open>\<open>mergeCapture\<close> of the record manager: under the lock of the record's capture block it reads the
  record, asks the precondition, overlays the given fields and updates the record, whose row then
  reports the new status. Acquiring the lock, reading and updating are calls that may fail.\<close>

definition mergeCapture :: "string \<Rightarrow> (session_capture \<Rightarrow> session_capture) \<Rightarrow> (session_capture \<Rightarrow> bool) \<Rightarrow>
    attached_file option \<Rightarrow> ('m, session_capture option) bb_op" where
  "mergeCapture rid patch precondition attach =
     eseq (bb_call (ereturn ()))
     (ebind (getRecord_session rid) (\<lambda>r. case r of
        None \<Rightarrow> ethrow (''Record not found: '' @ rid)
      | Some sr \<Rightarrow>
          let existing = (case sr_capture sr of None \<Rightarrow> empty_capture | Some c \<Rightarrow> c) in
          if \<not> precondition existing then ereturn None
          else (let merged = patch existing in
            eseq (bb_call (emodify (\<lambda>w. w\<lparr>b_records := jm_set rid (sr\<lparr>sr_capture := Some merged,
                sr_row_status := cap_redaction_status merged, sr_attached := append_attachment attach (sr_attached sr)\<rparr>) (b_records w)\<rparr>)))
            (ereturn (Some merged)))))"


subsection \<open>Frames\<close>

text \<open>A relation that no lookup, no fresh identifier, no event and no adapter failure can break is
  kept by every operation that only does that.\<close>

locale bb_frame = em_frame R for R :: "'m bb_world \<Rightarrow> 'm bb_world \<Rightarrow> bool" +
  assumes ignores_faults: "R w (w\<lparr>faults := fs\<rparr>)"
    and ignores_serial: "R w (w\<lparr>b_serial := n\<rparr>)"
    and ignores_events: "R w (w\<lparr>b_events := es\<rparr>)"
begin

lemma rel_call: "em_rel R m \<Longrightarrow> em_rel R (bb_call m)"
  unfolding em_rel_def bb_call_def
  by (auto simp: ignores_faults frame_refl split: list.split bool.split intro: frame_trans [OF ignores_faults])

lemma rel_modify: "(\<And>w. R w (f w)) \<Longrightarrow> em_rel R (emodify f)"
  by (simp add: em_rel_def emodify_def)

lemma rel_now: "em_rel R bb_now"
  unfolding bb_now_def by (rule rel_get)

lemma rel_fresh: "em_rel R (fresh_uuid uuid)"
  by (simp add: em_rel_def fresh_uuid_def ignores_serial)

lemma rel_event: "em_rel R (create_event d t)"
  unfolding create_event_def
  by (rule rel_call) (simp add: em_rel_def ignores_events frame_refl)

lemma rel_lookup: "em_rel R (getDevice i)" "em_rel R (getDeviceByUuid i)" "em_rel R (getById i)" "em_rel R (getRecord_session i)"
  "em_rel R (list_sessions f)"
  unfolding getDevice_def getDeviceByUuid_def getById_def getRecord_session_def list_sessions_def Let_def
  by (intro rel_call rel_get; simp add: em_rel_def frame_refl)+

lemma rel_bind_result:
  assumes "em_rel R m" and "\<And>s a s'. m s = (Inr a, s') \<Longrightarrow> em_rel R (f a)"
  shows "em_rel R (ebind m f)"
proof (rule em_relI)
  fix s
  obtain r t where m: "m s = (r, t)" by fastforce
  have st: "R s t" using em_relD' [OF assms(1) m] .
  show "R s (snd (ebind m f s))"
    using m st assms(2) [of s _ t] by (cases r) (auto simp: ebind_def dest: em_relD intro: frame_trans)
qed

lemmas bb_intros = rel_intros rel_call rel_now rel_fresh rel_event rel_lookup

end

lemma bb_call_no_faults [simp]: "faults w = [] \<Longrightarrow> bb_call m w = m w"
  by (simp add: bb_call_def)

lemma bb_call_cases:
  assumes "bb_call m w = (r, w')"
  obtains (fault) fs where "r = Inl ''adapter failure''" "w' = w\<lparr>faults := fs\<rparr>"
  | (runs) fs where "m (w\<lparr>faults := fs\<rparr>) = (r, w')"
proof -
  have w: "w\<lparr>faults := faults w\<rparr> = w" by simp
  show thesis
  proof (cases "faults w")
    case Nil
    then have "m w = (r, w')" using assms by (simp add: bb_call_def)
    then show thesis using that(2) [of "faults w"] w by (simp only:)
  next
    case (Cons b fs)
    then show thesis using assms that by (cases b) (auto simp: bb_call_def)
  qed
qed

lemma find_session_id: "find_session i rows = Some s \<Longrightarrow> bs_id s = i \<and> s \<in> set rows"
  by (auto simp: find_session_def find_Some_iff)

lemma set_rewrite_session:
  "set (rewrite_session i f now rows) = (\<lambda>s. if bs_id s = i then (f s)\<lparr>bs_updated_at := now\<rparr> else s) ` set rows"
  by (simp add: rewrite_session_def)

end
