(* ===== verification/Session_Controller.thy ===== *)
theory Session_Controller
  imports Broadcast_World
begin

section \<open>Recording sessions\<close>

text \<open>
  \<open>services/session-controller.ts\<close>, the acknowledged commands of
  \<open>services/device-command-service.ts\<close> and the session events a device sends
  (\<open>websocket/event-handlers.ts\<close>). A device answers a command with the next entry of
  \<open>b_replies\<close> and is silent when there is none. The room manager, the title and the content of a
  quick-started record are left out.
\<close>

subsection \<open>Commands\<close>

record bb_env =
  be_uuid :: "nat \<Rightarrow> string"
  be_rooms :: bool
  be_commands :: bool

definition command_timeout :: "string \<Rightarrow> nat" where
  "command_timeout action = (if action = ''preview.start'' \<or> action = ''preview.stop'' then 20000
     else if action = ''sources.set'' \<or> action = ''switch_source'' then 15000 else 5000)"

definition timed_out :: "string \<Rightarrow> string" where
  "timed_out action = ''Command timeout after '' @ show_nat (command_timeout action) @ ''ms: '' @ action"

definition sendCommandViaWebSocket :: "bb_env \<Rightarrow> string \<Rightarrow> string \<Rightarrow> ('m, unit) bb_op" where
  "sendCommandViaWebSocket env deviceUuid action =
     (if \<not> be_rooms env then ethrow ''RoomManager not available - realtime module required for device commands''
      else (\<lambda>w. case b_replies w of
          [] \<Rightarrow> (Inl (timed_out action), w)
        | Silent # rs \<Rightarrow> (Inl (timed_out action), w\<lparr>b_replies := rs\<rparr>)
        | Not_Sent # rs \<Rightarrow> (Inl (''Failed to send command to device '' @ deviceUuid), w\<lparr>b_replies := rs\<rparr>)
        | Nack e # rs \<Rightarrow> (Inl (if e = [] then ''Command failed on device'' else e), w\<lparr>b_replies := rs\<rparr>)
        | Ack # rs \<Rightarrow> (Inr (), w\<lparr>b_replies := rs\<rparr>)))"

definition logCommand :: "string \<Rightarrow> string \<Rightarrow> string \<Rightarrow> ('m, unit) bb_op" where
  "logCommand deviceId action status = equiet (create_event deviceId (''command.'' @ action @ ''.'' @ status))"

definition resolve_device :: "string \<Rightarrow> ('m, device_row option) bb_op" where
  "resolve_device deviceId = ebind (getDeviceByUuid deviceId) (\<lambda>d. case d of
     Some x \<Rightarrow> ereturn (Some x) | None \<Rightarrow> getDevice deviceId)"

definition attempt_command :: "bb_env \<Rightarrow> string \<Rightarrow> string \<Rightarrow> ('m, unit) bb_op" where
  "attempt_command env deviceId action =
     (if action = [] then ethrow ''Command action is required and must be a string''
      else if deviceId = [] then ethrow ''Device ID is required and must be a string''
      else ebind (resolve_device deviceId) (\<lambda>device. case device of
        None \<Rightarrow> ethrow (''Device not found: '' @ deviceId)
      | Some d \<Rightarrow> ebind (eget (isConnected (dv_id d))) (\<lambda>connected.
          if \<not> connected then ethrow (''Device '' @ deviceId @ '' is not connected'')
          else eseq (logCommand deviceId action ''pending'')
            (eseq (sendCommandViaWebSocket env (dv_device_uuid d) action) (logCommand (dv_id d) action ''success'')))))"

definition failed_command :: "string \<Rightarrow> string \<Rightarrow> ('m, unit) bb_op" where
  "failed_command deviceId action =
     ebind (ecatch (getDeviceByUuid deviceId) (\<lambda>_. ereturn None)) (\<lambda>d.
       let dbId = (case d of None \<Rightarrow> deviceId | Some x \<Rightarrow> dv_id x) in
       eseq (logCommand dbId action ''failed'') (equiet (create_event dbId ''command.error'')))"

text \<open>The response: \<open>None\<close> is success, \<open>Some\<close> an error message. Nothing is thrown.\<close>

definition executeCommand :: "bb_env \<Rightarrow> string \<Rightarrow> string \<Rightarrow> ('m, string option) bb_op" where
  "executeCommand env deviceId action =
     ecatch (eseq (attempt_command env deviceId action) (ereturn None))
       (\<lambda>e. eseq (failed_command deviceId action) (ereturn (Some e)))"

definition deliverToDevice :: "bb_env \<Rightarrow> string \<Rightarrow> ('m, unit) bb_op" where
  "deliverToDevice env deviceId =
     (if \<not> be_rooms env then ethrow ''RoomManager not available - realtime module required for session control''
      else eseq (getDevice deviceId) (ereturn ()))"

subsection \<open>Starting\<close>

definition is_session_record :: "string \<Rightarrow> ('m, unit) bb_op" where
  "is_session_record civicId =
     ebind (getRecord_session civicId) (\<lambda>r. case r of
       Some sr \<Rightarrow> if sr_type sr = ''session'' then ereturn ()
         else ethrow (''Record '' @ civicId @ '' is not a session record (type: '' @ sr_type sr @ '')'')
     | None \<Rightarrow> ebind (bb_call (eget (\<lambda>w. jm_get (b_drafts w) civicId))) (\<lambda>d. case d of
         Some x \<Rightarrow> if sd_type x = ''session'' then ereturn () else ethrow (''CivicPress session record not found: '' @ civicId)
       | None \<Rightarrow> ethrow (''CivicPress session record not found: '' @ civicId)))"

definition new_session :: "string \<Rightarrow> string \<Rightarrow> string \<Rightarrow> members \<Rightarrow> broadcast_session" where
  "new_session i deviceId civicId metadata = \<lparr>bs_id = i, bs_device_id = deviceId, bs_civicpress_id = civicId,
     bs_status = Pending, bs_started_at = None, bs_stopped_at = None, bs_completed_at = None, bs_error = None,
     bs_metadata = metadata, bs_created_at = 0, bs_updated_at = 0\<rparr>"

definition deliver_start :: "bb_env \<Rightarrow> string \<Rightarrow> ('m, unit) bb_op" where
  "deliver_start env deviceId =
     (if be_commands env
      then ebind (executeCommand env deviceId ''start_session'') (\<lambda>r. case r of
        None \<Rightarrow> ereturn ()
      | Some e \<Rightarrow> ethrow (if e = [] then ''Device did not acknowledge start_session'' else e))
      else deliverToDevice env deviceId)"

definition active_session_text :: "string \<Rightarrow> 'm bb_world \<Rightarrow> string" where
  "active_session_text deviceId w = (case jm_get (b_connections w) deviceId of
     None \<Rightarrow> ''undefined'' | Some c \<Rightarrow> (case cn_active_session c of None \<Rightarrow> ''undefined'' | Some i \<Rightarrow> i))"

text \<open>The checks and the pending row, up to the point where the device is asked.\<close>

definition open_session :: "bb_env \<Rightarrow> string \<Rightarrow> string \<Rightarrow> members \<Rightarrow> ('m, broadcast_session) bb_op" where
  "open_session env deviceId civicId metadata =
     ebind (getDevice deviceId) (\<lambda>device. case device of
       None \<Rightarrow> ethrow (''Device not found: '' @ deviceId)
     | Some d \<Rightarrow>
         if dv_status d \<noteq> Active then ethrow (''Device '' @ deviceId @ '' is not active. Current status: '' @ device_status_text (dv_status d))
         else ebind (eget (isConnected deviceId)) (\<lambda>connected.
           if \<not> connected then ethrow (''Device '' @ deviceId @ '' is not connected'')
           else ebind (eget (activity_of deviceId)) (\<lambda>activity.
             if activity = Some Is_Recording
             then ebind (eget (active_session_text deviceId)) (\<lambda>i.
               ethrow (''Device '' @ deviceId @ '' is already recording session: '' @ i))
             else eseq (is_session_record civicId)
               (ebind (fresh_uuid (be_uuid env)) (\<lambda>i. create_session (new_session i deviceId civicId metadata))))))"

definition fail_session :: "string \<Rightarrow> string \<Rightarrow> string \<Rightarrow> ('m, broadcast_session) bb_op" where
  "fail_session i deviceId e =
     eseq (update_session i (\<lambda>s. s\<lparr>bs_status := Failed\<rparr>))
     (eseq (create_event deviceId ''session.failed'') (ethrow e))"

definition confirm_session :: "string \<Rightarrow> string \<Rightarrow> ('m, broadcast_session) bb_op" where
  "confirm_session i deviceId =
     ebind bb_now (\<lambda>now.
       ebind (update_session i (\<lambda>s. s\<lparr>bs_status := Recording, bs_started_at := Some now\<rparr>)) (\<lambda>updated.
         eseq (updateDeviceState deviceId Is_Recording (Some i))
         (eseq (create_event deviceId ''session.started'') (ereturn updated))))"

definition ask_device :: "bb_env \<Rightarrow> string \<Rightarrow> broadcast_session \<Rightarrow> ('m, broadcast_session) bb_op" where
  "ask_device env deviceId created =
     ebind (ecatch (ebind (deliver_start env deviceId) (\<lambda>_. ereturn None)) (\<lambda>e. ereturn (Some e))) (\<lambda>r. case r of
       Some e \<Rightarrow> fail_session (bs_id created) deviceId e
     | None \<Rightarrow> confirm_session (bs_id created) deviceId)"

definition startSession :: "bb_env \<Rightarrow> string \<Rightarrow> string \<Rightarrow> members \<Rightarrow> ('m, broadcast_session) bb_op" where
  "startSession env deviceId civicId metadata =
     ebind (open_session env deviceId civicId metadata) (ask_device env deviceId)"

text \<open>\<open>createRecord\<close> of the record manager gives the new draft record a fresh id.\<close>

definition create_session_record :: "bb_env \<Rightarrow> string option \<Rightarrow> ('m, string) bb_op" where
  "create_session_record env meetingId = ebind (fresh_uuid (be_uuid env)) (\<lambda>i.
     eseq (bb_call (emodify (\<lambda>w. w\<lparr>b_records := jm_set i \<lparr>sr_type = ''session'', sr_capture = None, sr_row_status = None,
         sr_attached = [], sr_linked = (case or_null meetingId of None \<Rightarrow> [] | Some m \<Rightarrow> [m])\<rparr> (b_records w)\<rparr>)))
     (ereturn i))"

definition quickStartSession :: "bb_env \<Rightarrow> string \<Rightarrow> string option \<Rightarrow> ('m, broadcast_session \<times> string) bb_op" where
  "quickStartSession env deviceId meetingId =
     ebind (getDevice deviceId) (\<lambda>device. if device = None then ethrow (''Device not found: '' @ deviceId)
     else ebind (eget (isConnected deviceId)) (\<lambda>connected.
       if \<not> connected then ethrow (''Device '' @ deviceId @ '' is not connected'')
       else ebind (eget (activity_of deviceId)) (\<lambda>activity.
         if activity = Some Is_Recording then ethrow (''Device '' @ deviceId @ '' is already recording'')
         else ebind (case or_null meetingId of
              None \<Rightarrow> ereturn ()
            | Some m \<Rightarrow> ebind (getRecord_session m) (\<lambda>r. case r of
                Some sr \<Rightarrow> if sr_type sr = ''meeting'' then ereturn () else ethrow (''Meeting not found: '' @ m)
              | None \<Rightarrow> ethrow (''Meeting not found: '' @ m))) (\<lambda>_.
           ebind (create_session_record env meetingId) (\<lambda>rid.
             ebind (startSession env deviceId rid []) (\<lambda>s. ereturn (s, rid)))))))"

subsection \<open>Stopping, completing, failing, deleting\<close>

definition set_idle :: "string \<Rightarrow> ('m, unit) bb_op" where
  "set_idle deviceId = updateDeviceState deviceId Idle None"

definition stopSession :: "bb_env \<Rightarrow> string \<Rightarrow> ('m, broadcast_session) bb_op" where
  "stopSession env sessionId = ebind (getById sessionId) (\<lambda>found. case found of
     None \<Rightarrow> ethrow (''Session not found: '' @ sessionId)
   | Some s \<Rightarrow>
       if bs_status s = Stopping \<or> bs_status s = Complete then ereturn s
       else if bs_status s = Pending \<or> bs_status s = Failed then
         ebind bb_now (\<lambda>now.
           ebind (update_session sessionId (\<lambda>x. x\<lparr>bs_status := Complete, bs_stopped_at := Some now, bs_completed_at := Some now\<rparr>)) (\<lambda>u.
             eseq (set_idle (bs_device_id s)) (ereturn u)))
       else if bs_status s \<noteq> Recording then ethrow (''Session '' @ sessionId @ '' is not recording. Current status: '' @ session_status_text (bs_status s))
       else eseq (deliverToDevice env (bs_device_id s))
         (ebind bb_now (\<lambda>now.
           ebind (update_session sessionId (\<lambda>x. x\<lparr>bs_status := Stopping, bs_stopped_at := Some now\<rparr>)) (\<lambda>u.
             eseq (set_idle (bs_device_id s))
             (eseq (create_event (bs_device_id s) ''session.stopped'') (ereturn u))))))"

definition deleteSession :: "string \<Rightarrow> ('m, unit) bb_op" where
  "deleteSession sessionId = ebind (getById sessionId) (\<lambda>found. case found of
     None \<Rightarrow> ethrow (''Session not found: '' @ sessionId)
   | Some s \<Rightarrow> ebind (eget (\<lambda>w. case jm_get (b_connections w) (bs_device_id s) of
         None \<Rightarrow> False | Some c \<Rightarrow> cn_active_session c = Some sessionId)) (\<lambda>active.
       eseq (ewhen active (set_idle (bs_device_id s))) (delete_session sessionId)))"

definition handleSessionComplete :: "string \<Rightarrow> ('m, unit) bb_op" where
  "handleSessionComplete sessionId = ebind (getById sessionId) (\<lambda>found. case found of
     None \<Rightarrow> ereturn ()
   | Some s \<Rightarrow> if bs_status s = Complete then ereturn ()
       else ebind bb_now (\<lambda>now.
         eseq (update_session sessionId (\<lambda>x. x\<lparr>bs_status := Complete, bs_completed_at := Some now\<rparr>)) (set_idle (bs_device_id s))))"

definition handleSessionFailed :: "string \<Rightarrow> string \<Rightarrow> ('m, unit) bb_op" where
  "handleSessionFailed sessionId e = ebind (getById sessionId) (\<lambda>found. case found of
     None \<Rightarrow> ethrow (''Session not found: '' @ sessionId)
   | Some s \<Rightarrow>
       eseq (update_session sessionId (\<lambda>x. x\<lparr>bs_status := Failed, bs_error := or_null (Some e)\<rparr>)) (set_idle (bs_device_id s)))"

definition getSessionsForMeeting :: "string \<Rightarrow> ('m, broadcast_session list) bb_op" where
  "getSessionsForMeeting meetingId =
     ebind (list_sessions \<lparr>sl_deviceId = None, sl_civicpressSessionId = None, sl_status = None, sl_limit = 0, sl_offset = 0\<rparr>) (\<lambda>rows.
       foldr (\<lambda>s rest.
         ebind (ecatch (getRecord_session (bs_civicpress_id s)) (\<lambda>_. ereturn None)) (\<lambda>r.
           ebind (case r of
               Some sr \<Rightarrow> ereturn (sr_linked sr)
             | None \<Rightarrow> ebind (ecatch (bb_call (eget (\<lambda>w. jm_get (b_drafts w) (bs_civicpress_id s)))) (\<lambda>_. ereturn None))
                 (\<lambda>d. ereturn (case d of None \<Rightarrow> [] | Some x \<Rightarrow> sd_linked x))) (\<lambda>links.
             ebind rest (\<lambda>out. ereturn (if meetingId \<in> set links then s # out else out))))) rows (ereturn []))"

subsection \<open>Captures\<close>

definition linked_capture :: "string \<Rightarrow> string \<Rightarrow> session_capture \<Rightarrow> session_capture" where
  "linked_capture deviceId fileId c = c\<lparr>cap_device := Some deviceId, cap_av_file := Some fileId,
     cap_redaction_status := Some ''pending'', cap_public_file := None, cap_redaction_attempts := 0\<rparr>"

definition linkFileToSession :: "string \<Rightarrow> string \<Rightarrow> ('m, unit) bb_op" where
  "linkFileToSession sessionId fileId = ebind (getById sessionId) (\<lambda>found. case found of
     None \<Rightarrow> ethrow (''Session not found: '' @ sessionId)
   | Some s \<Rightarrow> ebind (getRecord_session (bs_civicpress_id s)) (\<lambda>r. case r of
       None \<Rightarrow> ethrow (''Session record not found: '' @ bs_civicpress_id s)
     | Some _ \<Rightarrow> ebind (mergeCapture (bs_civicpress_id s) (linked_capture (bs_device_id s) fileId)
           (\<lambda>c. cap_av_file c \<noteq> Some fileId) None) (\<lambda>merged. case merged of
         None \<Rightarrow> ereturn ()
       | Some _ \<Rightarrow> eseq (update_session sessionId (\<lambda>x. x\<lparr>bs_metadata := jm_set ''recording''
             (JObj [(''fileId'', JStr fileId), (''filePath'', JStr (''/api/v1/storage/files/'' @ fileId))]) (bs_metadata s)\<rparr>))
           (ereturn ()))))"

text \<open>The manifest of a device: only the keys it provides, and never the file.\<close>

record capture_manifest =
  mf_device :: "string option"
  mf_started_at :: "string option"
  mf_ended_at :: "string option"
  mf_duration_s :: "js_number option"
  mf_segments :: "capture_segment list option"

definition manifest_overlay :: "capture_manifest \<Rightarrow> session_capture \<Rightarrow> session_capture" where
  "manifest_overlay m c = c\<lparr>
     cap_device := (case mf_device m of None \<Rightarrow> cap_device c | Some d \<Rightarrow> Some d),
     cap_started_at := (case mf_started_at m of None \<Rightarrow> cap_started_at c | Some t \<Rightarrow> Some t),
     cap_ended_at := (case mf_ended_at m of None \<Rightarrow> cap_ended_at c | Some t \<Rightarrow> Some t),
     cap_duration_s := (case mf_duration_s m of None \<Rightarrow> cap_duration_s c | Some d \<Rightarrow> d),
     cap_segments := (case mf_segments m of None \<Rightarrow> cap_segments c | Some ss \<Rightarrow> Some ss)\<rparr>"

definition applySessionManifest :: "string \<Rightarrow> capture_manifest \<Rightarrow> ('m, unit) bb_op" where
  "applySessionManifest rid m = ebind (getRecord_session rid) (\<lambda>r. case r of
     None \<Rightarrow> ethrow (''Session record not found: '' @ rid)
   | Some _ \<Rightarrow> eseq (mergeCapture rid (manifest_overlay m) (\<lambda>_. True) None) (ereturn ()))"

datatype override_action = Retry | Publish_Public

definition override_patch :: "override_action \<Rightarrow> msec \<Rightarrow> session_capture \<Rightarrow> session_capture" where
  "override_patch action now c = (let p = c\<lparr>cap_redaction_status := Some ''pending'', cap_redaction_attempts := 0,
       cap_redaction_pending_since := Some now\<rparr> in
     case action of Publish_Public \<Rightarrow> p\<lparr>cap_all_public := True\<rparr> | Retry \<Rightarrow> p)"

definition overrideRedaction :: "string \<Rightarrow> override_action \<Rightarrow> ('m, session_capture) bb_op" where
  "overrideRedaction rid action = ebind (getRecord_session rid) (\<lambda>r. case r of
     None \<Rightarrow> ethrow (''Session record not found: '' @ rid)
   | Some sr \<Rightarrow>
       if or_null (case sr_capture sr of None \<Rightarrow> None | Some c \<Rightarrow> cap_av_file c) = None
       then ethrow (''Session '' @ rid @ '' has no captured recording (capture.av_file)'')
       else ebind bb_now (\<lambda>now. ebind (mergeCapture rid (override_patch action now) (\<lambda>_. True) None)
         (\<lambda>merged. ereturn (case merged of None \<Rightarrow> empty_capture | Some c \<Rightarrow> c))))"

subsection \<open>What a device reports\<close>

datatype device_event =
  Session_Started string
| Session_Stopped string
| Session_Complete string
| Session_Failed string
| Upload_Progress string
| Upload_Complete string

primrec on_device_event :: "string \<Rightarrow> device_event \<Rightarrow> ('m, unit) bb_op" where
  "on_device_event d (Session_Started s) = eseq (updateDeviceState d Is_Recording (Some s)) (create_event d ''session.started'')"
| "on_device_event d (Session_Stopped s) = eseq (updateDeviceState d Is_Encoding (Some s)) (create_event d ''session.stopped'')"
| "on_device_event d (Session_Complete s) = eseq (updateDeviceState d Idle None) (create_event d ''session.complete'')"
| "on_device_event d (Session_Failed s) = eseq (updateDeviceState d Idle None) (create_event d ''session.failed'')"
| "on_device_event d (Upload_Progress s) = eseq (updateDeviceState d Is_Uploading (Some s)) (create_event d ''upload.progress'')"
| "on_device_event d (Upload_Complete s) = eseq (updateDeviceState d Idle None) (create_event d ''upload.complete'')"

text \<open>The hook of a finished upload: both parts are attempted, neither throws.\<close>

definition onRecordingComplete :: "string \<Rightarrow> string \<Rightarrow> ('m, unit) bb_op" where
  "onRecordingComplete sessionId fileId =
     eseq (equiet (linkFileToSession sessionId fileId)) (equiet (handleSessionComplete sessionId))"


subsection \<open>Commands and acknowledgements\<close>

definition same_replies :: "'m bb_world \<Rightarrow> 'm bb_world \<Rightarrow> bool" where
  "same_replies w w' = (b_replies w' = b_replies w)"

interpretation replies: bb_frame same_replies
  by unfold_locales (auto simp: same_replies_def)

text \<open>No session is made to record.\<close>

definition no_new_recording :: "'m bb_world \<Rightarrow> 'm bb_world \<Rightarrow> bool" where
  "no_new_recording w w' = (\<forall>s. s \<in> set (b_sessions w') \<longrightarrow> bs_status s = Recording \<longrightarrow> s \<in> set (b_sessions w))"

interpretation recordings: bb_frame no_new_recording
  by unfold_locales (auto simp: no_new_recording_def)

lemma replies_log: "em_rel same_replies (logCommand d a s)"
  unfolding logCommand_def by (intro replies.bb_intros)

lemma replies_resolve: "em_rel same_replies (resolve_device d)"
  unfolding resolve_device_def by (auto intro!: replies.bb_intros split: option.split)

lemma replies_failed: "em_rel same_replies (failed_command d a)"
  unfolding failed_command_def by (auto intro!: replies.bb_intros replies_log simp: Let_def)

lemma acked_attempt:
  assumes "attempt_command env d a w = (Inr (), w')"
  shows "\<exists>rs. b_replies w = Ack # rs"
proof -
  obtain dev w1 where r: "resolve_device d w = (Inr (Some dev), w1)"
    and rest: "eseq (logCommand d a ''pending'') (eseq (sendCommandViaWebSocket env (dv_device_uuid dev) a) (logCommand (dv_id dev) a ''success'')) w1 = (Inr (), w')"
    using assms by (auto simp: attempt_command_def ebind_def eget_def ethrow_def split: if_splits prod.splits sum.splits option.splits)
  obtain w2 where l: "logCommand d a ''pending'' w1 = (Inr (), w2)"
    by (simp add: logCommand_def equiet_def)
  obtain w3 where "sendCommandViaWebSocket env (dv_device_uuid dev) a w2 = (Inr (), w3)"
    using rest l by (auto simp: eseq_def ebind_def split: prod.splits sum.splits)
  then have "\<exists>rs. b_replies w2 = Ack # rs"
    by (auto simp: sendCommandViaWebSocket_def ethrow_def split: if_splits list.splits reply.splits)
  moreover have "b_replies w1 = b_replies w" "b_replies w2 = b_replies w1"
    using em_relD' [OF replies_resolve r] em_relD' [OF replies_log l] by (simp_all add: same_replies_def)
  ultimately show ?thesis by simp
qed

lemma acked_start:
  assumes "deliver_start env d w = (Inr (), w')" and "be_commands env"
  shows "\<exists>rs. b_replies w = Ack # rs"
proof (cases "attempt_command env d ''start_session'' w")
  case (Pair r w1)
  show ?thesis
  proof (cases r)
    case (Inr u)
    with Pair show ?thesis using acked_attempt by (cases u) blast
  next
    case (Inl e)
    have "\<exists>x w2. eseq (failed_command d ''start_session'') (ereturn (Some e)) w1 = (x, w2) \<and> x \<noteq> Inr None"
      by (auto simp: eseq_def ebind_def ereturn_def split: prod.split sum.split)
    with Pair Inl assms show ?thesis
      by (auto simp: deliver_start_def executeCommand_def ecatch_def eseq_def ebind_def ereturn_def ethrow_def
          split: prod.splits sum.splits option.splits)
  qed
qed

end
