(* ===== verification/Device_Manager.thy ===== *)
theory Device_Manager
  imports Session_Controller
begin

section \<open>Devices, enrolment codes and connections\<close>

text \<open>
  \<open>services/device-manager.ts\<close>, \<open>models/enrollment-code.ts\<close> with the table of
  \<open>migrations/002\<close>, and \<open>services/device-connection-tracker.ts\<close>. Random bytes, generated
  identifiers and \<open>bcrypt\<close> are parameters (\<open>device_env\<close>): \<open>de_hash\<close> makes a salted hash and
  \<open>de_compare\<close> tests a text against one. The log is left out, and so are the streaming columns of
  a device that only the status messages write.
\<close>

subsection \<open>Enrolment codes\<close>

record device_env =
  de_uuid :: "nat \<Rightarrow> string"
  de_bytes :: "nat \<Rightarrow> byte list"
  de_hash :: "nat \<Rightarrow> string \<Rightarrow> string"
  de_compare :: "string \<Rightarrow> string \<Rightarrow> bool"

definition fresh :: "(nat \<Rightarrow> 'a) \<Rightarrow> ('m, 'a) bb_op" where
  "fresh f = (\<lambda>w. (Inr (f (b_serial w)), w\<lparr>b_serial := Suc (b_serial w)\<rparr>))"

definition code_chars :: string where
  "code_chars = ''ABCDEFGHJKLMNPQRSTUVWXYZ23456789''"

definition code_char :: "byte \<Rightarrow> char" where
  "code_char b = code_chars ! (unat b mod length code_chars)"

definition grouped_code :: "string \<Rightarrow> string" where
  "grouped_code c = take 4 c @ ''-'' @ take 4 (drop 4 c) @ ''-'' @ take 4 (drop 8 c)"

definition generateEnrollmentCode :: "byte list \<Rightarrow> string" where
  "generateEnrollmentCode bytes = grouped_code (map code_char (take 12 bytes))"

definition upper_char :: "char \<Rightarrow> char" where
  "upper_char c = (let n = (of_char c :: nat) in if 97 \<le> n \<and> n \<le> 122 then char_of (n - 32) else c)"

definition normalized_code :: "string \<Rightarrow> string" where
  "normalized_code s = map upper_char (trim s)"

definition ENROLLMENT_EXPIRY_MS :: msec where
  "ENROLLMENT_EXPIRY_MS = 15 * 60 * 1000"

definition create_code :: "string \<Rightarrow> string \<Rightarrow> string \<Rightarrow> msec \<Rightarrow> int option \<Rightarrow> string option \<Rightarrow> ('m, unit) bb_op" where
  "create_code i deviceUuid hash expiresAt createdBy ip = ebind bb_now (\<lambda>now. bb_call (\<lambda>w.
     if i \<in> ec_id ` set (b_codes w) \<or> deviceUuid \<in> ec_device_uuid ` set (b_codes w) then (Inl ''UNIQUE constraint failed'', w)
     else (Inr (), w\<lparr>b_codes := b_codes w @ [\<lparr>ec_id = i, ec_device_uuid = deviceUuid, ec_hash = hash, ec_created_at = now,
        ec_expires_at = expiresAt, ec_used_at = None, ec_created_by = createdBy, ec_ip_address = or_null ip, ec_registration_ip = None\<rparr>]\<rparr>)))"

definition newest_codes :: "enrollment_code list \<Rightarrow> enrollment_code list" where
  "newest_codes cs = sort_key (\<lambda>c. - ec_created_at c) cs"

definition findByCode :: "device_env \<Rightarrow> string \<Rightarrow> ('m, enrollment_code option) bb_op" where
  "findByCode env code = ebind bb_now (\<lambda>now.
     bb_call (eget (\<lambda>w. List.find (\<lambda>c. de_compare env (normalized_code code) (ec_hash c))
       (newest_codes (filter (\<lambda>c. ec_used_at c = None \<and> now - 24 * 60 * 60 * 1000 < ec_created_at c) (b_codes w))))))"

definition findByDeviceUuid :: "string \<Rightarrow> ('m, enrollment_code option) bb_op" where
  "findByDeviceUuid deviceUuid = bb_call (eget (\<lambda>w.
     case newest_codes (filter (\<lambda>c. ec_device_uuid c = deviceUuid) (b_codes w)) of [] \<Rightarrow> None | c # _ \<Rightarrow> Some c))"

definition markAsUsed :: "string \<Rightarrow> string option \<Rightarrow> ('m, unit) bb_op" where
  "markAsUsed i ip = ebind bb_now (\<lambda>now. bb_call (emodify (\<lambda>w. w\<lparr>b_codes :=
     map (\<lambda>c. if ec_id c = i then c\<lparr>ec_used_at := Some now, ec_registration_ip := or_null ip\<rparr> else c) (b_codes w)\<rparr>)))"

definition dead_code :: "msec \<Rightarrow> enrollment_code \<Rightarrow> bool" where
  "dead_code now c = (ec_expires_at c < now \<and> ec_used_at c = None)"

text \<open>Counting and deleting are two calls; with nothing to delete the second is not made.\<close>

definition deleteExpired :: "('m, nat) bb_op" where
  "deleteExpired = ebind bb_now (\<lambda>now.
     ebind (bb_call (eget (\<lambda>w. length (filter (dead_code now) (b_codes w))))) (\<lambda>n.
       eseq (ewhen (0 < n) (bb_call (emodify (\<lambda>w. w\<lparr>b_codes := filter (\<lambda>c. \<not> dead_code now c) (b_codes w)\<rparr>)))) (ereturn n)))"

definition deleteAllByDeviceUuid :: "string \<Rightarrow> ('m, nat) bb_op" where
  "deleteAllByDeviceUuid u =
     ebind (bb_call (eget (\<lambda>w. length (filter (\<lambda>c. ec_device_uuid c = u) (b_codes w))))) (\<lambda>n.
       eseq (bb_call (emodify (\<lambda>w. w\<lparr>b_codes := filter (\<lambda>c. ec_device_uuid c \<noteq> u) (b_codes w)\<rparr>))) (ereturn n))"

definition isExpired :: "msec \<Rightarrow> enrollment_code \<Rightarrow> bool" where
  "isExpired now c = (ec_expires_at c < now)"

definition isUsed :: "enrollment_code \<Rightarrow> bool" where
  "isUsed c = (ec_used_at c \<noteq> None)"

subsection \<open>Enrolment and registration\<close>

definition nonzero :: "int option \<Rightarrow> int option" where
  "nonzero u = (if u = Some 0 then None else u)"

definition enrollDevice :: "device_env \<Rightarrow> int option \<Rightarrow> string option \<Rightarrow> ('m, string \<times> string \<times> msec) bb_op" where
  "enrollDevice env createdBy ip =
     ebind (fresh (de_uuid env)) (\<lambda>deviceUuid.
     ebind (fresh (de_bytes env)) (\<lambda>bytes.
     ebind (fresh (de_hash env)) (\<lambda>hash.
     ebind bb_now (\<lambda>now.
     ebind (fresh (de_uuid env)) (\<lambda>i. let code = generateEnrollmentCode bytes; expiresAt = now + ENROLLMENT_EXPIRY_MS in
       eseq (create_code i deviceUuid (hash code) expiresAt (nonzero createdBy) ip)
         (ereturn (deviceUuid, code, expiresAt)))))))"

record registration =
  rg_deviceUuid :: string
  rg_name :: string
  rg_roomLocation :: "string option"
  rg_capabilities :: "jv option"
  rg_config :: "jv option"
  rg_publicKey :: "string option"
  rg_enrollmentCode :: string
  rg_registrationIp :: "string option"

definition no_capabilities :: jv where
  "no_capabilities = JObj [(''videoSources'', JArr []), (''audioSources'', JArr []), (''pipSupported'', JBool False), (''maxResolution'', JStr ''1080p'')]"

definition device_of :: "string \<Rightarrow> registration \<Rightarrow> device_row" where
  "device_of i d = \<lparr>dv_id = i, dv_organization_id = ''default'', dv_device_uuid = rg_deviceUuid d, dv_name = rg_name d,
     dv_room_location = rg_roomLocation d, dv_status = Enrolled,
     dv_capabilities = (case rg_capabilities d of None \<Rightarrow> no_capabilities | Some c \<Rightarrow> c),
     dv_config = (case rg_config d of None \<Rightarrow> JObj [] | Some c \<Rightarrow> c),
     dv_public_key = rg_publicKey d, dv_last_seen_at = None, dv_created_at = 0, dv_updated_at = 0\<rparr>"

definition rebind_key :: "registration \<Rightarrow> device_row \<Rightarrow> ('m, device_row) bb_op" where
  "rebind_key d existing = (case or_null (rg_publicKey d) of
     None \<Rightarrow> ereturn existing
   | Some k \<Rightarrow> eseq (update_device (dv_id existing) (\<lambda>x. x\<lparr>dv_public_key := Some k\<rparr>)) (ereturn (existing\<lparr>dv_public_key := Some k\<rparr>)))"

definition register_again :: "device_env \<Rightarrow> registration \<Rightarrow> enrollment_code \<Rightarrow> device_row \<Rightarrow> ('m, device_row) bb_op" where
  "register_again env d c existing =
     (if \<not> de_compare env (normalized_code (rg_enrollmentCode d)) (ec_hash c) then ethrow ''Invalid enrollment code''
      else ebind bb_now (\<lambda>now.
        if isExpired now c then ethrow ''Enrollment code expired''
        else if isUsed c then ethrow ''Enrollment code already used''
        else eseq (markAsUsed (ec_id c) (rg_registrationIp d)) (rebind_key d existing)))"

definition register_new :: "device_env \<Rightarrow> registration \<Rightarrow> enrollment_code \<Rightarrow> ('m, device_row) bb_op" where
  "register_new env d c = ebind bb_now (\<lambda>now.
     if isExpired now c then ethrow ''Enrollment code expired''
     else if \<not> de_compare env (normalized_code (rg_enrollmentCode d)) (ec_hash c) then ethrow ''Invalid enrollment code''
     else if isUsed c then ethrow ''Enrollment code already used''
     else ebind (fresh (de_uuid env)) (\<lambda>i.
       ebind (create_device (device_of i d)) (\<lambda>created.
         eseq (equiet (markAsUsed (ec_id c) (rg_registrationIp d)))
         (eseq (create_event (dv_id created) ''device.registered'') (ereturn created)))))"

definition registerDevice :: "device_env \<Rightarrow> registration \<Rightarrow> ('m, device_row) bb_op" where
  "registerDevice env d = ebind (findByCode env (rg_enrollmentCode d)) (\<lambda>found. case found of
     None \<Rightarrow> ethrow ''Invalid enrollment code''
   | Some c \<Rightarrow>
       if ec_device_uuid c \<noteq> rg_deviceUuid d then ethrow ''Invalid enrollment code''
       else ebind (getDeviceByUuid (rg_deviceUuid d)) (\<lambda>existing. case existing of
         Some x \<Rightarrow> register_again env d c x
       | None \<Rightarrow> register_new env d c))"

definition regenerateEnrollmentCode :: "device_env \<Rightarrow> string \<Rightarrow> int option \<Rightarrow> string option \<Rightarrow> ('m, string \<times> string \<times> msec) bb_op" where
  "regenerateEnrollmentCode env deviceId createdBy ip = ebind (getDevice deviceId) (\<lambda>found. case found of
     None \<Rightarrow> ethrow (''Device with ID '' @ deviceId @ '' not found'')
   | Some d \<Rightarrow> let u = dv_device_uuid d in
       eseq (deleteAllByDeviceUuid u)
       (ebind (findByDeviceUuid u) (\<lambda>left_over.
         eseq (case left_over of
             None \<Rightarrow> ereturn ()
           | Some _ \<Rightarrow> eseq (deleteAllByDeviceUuid u) (ebind (findByDeviceUuid u) (\<lambda>still. case still of
               None \<Rightarrow> ereturn () | Some _ \<Rightarrow> ethrow ''Failed to delete existing enrollment code'')))
         (ebind (fresh (de_bytes env)) (\<lambda>bytes.
          ebind (fresh (de_hash env)) (\<lambda>hash.
          ebind bb_now (\<lambda>now.
          ebind (fresh (de_uuid env)) (\<lambda>i. let code = generateEnrollmentCode bytes; expiresAt = now + ENROLLMENT_EXPIRY_MS in
            eseq (ecatch (create_code i u (hash code) expiresAt (nonzero createdBy) ip) (\<lambda>e.
                if e = ''UNIQUE constraint failed'' then ebind (findByDeviceUuid u) (\<lambda>_. ethrow ''UNIQUE constraint violation'') else ethrow e))
              (ereturn (u, code, expiresAt))))))))))"

subsection \<open>The life of a device\<close>

definition set_status :: "string \<Rightarrow> device_status \<Rightarrow> string \<Rightarrow> ('m, device_row) bb_op" where
  "set_status deviceId st eventType = ebind (getDevice deviceId) (\<lambda>found. case found of
     None \<Rightarrow> ethrow (''Device not found: '' @ deviceId)
   | Some _ \<Rightarrow> ebind (update_device deviceId (\<lambda>d. d\<lparr>dv_status := st\<rparr>)) (\<lambda>updated.
       eseq (create_event (dv_id updated) eventType) (ereturn updated)))"

definition revokeDevice :: "string \<Rightarrow> ('m, unit) bb_op" where
  "revokeDevice deviceId = eseq (set_status deviceId Revoked ''device.revoked'') (ereturn ())"

definition suspendDevice :: "string \<Rightarrow> ('m, device_row) bb_op" where
  "suspendDevice deviceId = set_status deviceId Suspended ''device.suspended''"

definition decommissionDevice :: "string \<Rightarrow> ('m, device_row) bb_op" where
  "decommissionDevice deviceId = set_status deviceId Decommissioned ''device.decommissioned''"

definition activateDevice :: "string \<Rightarrow> ('m, device_row) bb_op" where
  "activateDevice deviceId = ebind (getDevice deviceId) (\<lambda>found. case found of
     None \<Rightarrow> ethrow (''Device not found: '' @ deviceId)
   | Some d \<Rightarrow>
       if dv_status d \<noteq> Enrolled then ethrow (''Device '' @ deviceId @ '' cannot be activated. Current status: '' @ device_status_text (dv_status d))
       else ebind (findByDeviceUuid (dv_device_uuid d)) (\<lambda>code. ebind bb_now (\<lambda>now.
         if (case code of None \<Rightarrow> False | Some c \<Rightarrow> isExpired now c)
         then ethrow ''Enrollment code expired. Device must connect within the validity window.''
         else ebind (update_device deviceId (\<lambda>x. x\<lparr>dv_status := Active\<rparr>)) (\<lambda>updated.
           eseq (create_event (dv_id updated) ''device.activated'') (ereturn updated)))))"

record device_update =
  du_name :: "string option"
  du_room_location :: "string option"
  du_status :: "device_status option"
  du_config :: "members option"
  du_capabilities :: "members option"

definition updated_device :: "device_row \<Rightarrow> device_update \<Rightarrow> device_row \<Rightarrow> device_row" where
  "updated_device old u d = d\<lparr>
     dv_name := (case du_name u of None \<Rightarrow> dv_name d | Some n \<Rightarrow> n),
     dv_room_location := (case du_room_location u of None \<Rightarrow> dv_room_location d | Some r \<Rightarrow> or_null (Some r)),
     dv_status := (case du_status u of None \<Rightarrow> dv_status d | Some s \<Rightarrow> s),
     dv_config := (case du_config u of None \<Rightarrow> dv_config d | Some c \<Rightarrow> JObj (spread (own_members (dv_config old)) c)),
     dv_capabilities := (case du_capabilities u of None \<Rightarrow> dv_capabilities d | Some c \<Rightarrow> JObj (spread (own_members (dv_capabilities old)) c))\<rparr>"

definition updateDevice :: "string \<Rightarrow> device_update \<Rightarrow> ('m, device_row) bb_op" where
  "updateDevice deviceId u = ebind (getDevice deviceId) (\<lambda>found. case found of
     None \<Rightarrow> ethrow (''Device not found: '' @ deviceId)
   | Some old \<Rightarrow> ebind (if u = \<lparr>du_name = None, du_room_location = None, du_status = None, du_config = None, du_capabilities = None\<rparr>
         then ebind (getDevice deviceId) (\<lambda>r. case r of None \<Rightarrow> ethrow (''Device not found: '' @ deviceId) | Some d \<Rightarrow> ereturn d)
         else update_device deviceId (updated_device old u)) (\<lambda>updated.
       eseq (create_event (dv_id updated) ''device.updated'') (ereturn updated)))"

definition updateLastSeen :: "string \<Rightarrow> ('m, unit) bb_op" where
  "updateLastSeen deviceId = ebind bb_now (\<lambda>now. eseq (update_device deviceId (\<lambda>d. d\<lparr>dv_last_seen_at := Some now\<rparr>)) (ereturn ()))"

subsection \<open>Connections\<close>

definition new_connection :: "string \<Rightarrow> msec \<Rightarrow> connection" where
  "new_connection clientId now = \<lparr>cn_connected = True, cn_client_id = clientId, cn_last_heartbeat = now, cn_connected_at = now,
     cn_health = Online, cn_last_message_at = now, cn_failures = 0, cn_activity = Idle, cn_active_session = None\<rparr>"

definition registerConnection :: "string \<Rightarrow> string \<Rightarrow> ('m, unit) bb_op" where
  "registerConnection deviceId clientId = ebind bb_now (\<lambda>now.
     ebind (getDevice deviceId) (\<lambda>device.
       eseq (emodify (\<lambda>w. w\<lparr>b_connections := jm_set deviceId (new_connection clientId now) (b_connections w),
           b_clients := jm_set clientId deviceId (b_clients w)\<rparr>))
       (eseq (ewhen (case device of None \<Rightarrow> False | Some d \<Rightarrow> dv_status d = Enrolled) (equiet (activateDevice deviceId)))
       (eseq (updateLastSeen deviceId) (create_event deviceId ''device.connected'')))))"

definition unregisterConnection :: "string \<Rightarrow> string option \<Rightarrow> ('m, unit) bb_op" where
  "unregisterConnection deviceId clientId =
     ebind (eget (\<lambda>w. jm_get (b_connections w) deviceId)) (\<lambda>found. case found of
       None \<Rightarrow> ereturn ()
     | Some c \<Rightarrow> let client = (case or_null clientId of None \<Rightarrow> cn_client_id c | Some x \<Rightarrow> x) in
         eseq (emodify (\<lambda>w. w\<lparr>b_connections := jm_delete deviceId (b_connections w),
             b_clients := (if client = [] then b_clients w else jm_delete client (b_clients w))\<rparr>))
         (create_event deviceId ''device.disconnected''))"

definition update_connection :: "string \<Rightarrow> (connection \<Rightarrow> connection) \<Rightarrow> ('m, unit) bb_op" where
  "update_connection deviceId f = emodify (\<lambda>w. case jm_get (b_connections w) deviceId of
     None \<Rightarrow> w | Some c \<Rightarrow> w\<lparr>b_connections := jm_set deviceId (f c) (b_connections w)\<rparr>)"

definition updateHeartbeat :: "string \<Rightarrow> ('m, unit) bb_op" where
  "updateHeartbeat deviceId = ebind bb_now (\<lambda>now. ebind (eget (\<lambda>w. jm_get (b_connections w) deviceId)) (\<lambda>found.
     ewhen (found \<noteq> None) (eseq (update_connection deviceId (\<lambda>c. c\<lparr>cn_last_heartbeat := now\<rparr>)) (updateLastSeen deviceId))))"

definition recordMessageReceived :: "string \<Rightarrow> ('m, unit) bb_op" where
  "recordMessageReceived deviceId = ebind bb_now (\<lambda>now. update_connection deviceId (\<lambda>c.
     c\<lparr>cn_last_message_at := now, cn_health := (if cn_health c = Degraded then Online else cn_health c)\<rparr>))"

definition recordStatusFailure :: "string \<Rightarrow> ('m, unit) bb_op" where
  "recordStatusFailure deviceId = update_connection deviceId (\<lambda>c. let n = Suc (cn_failures c) in
     c\<lparr>cn_failures := n, cn_health := (if 3 \<le> n then Offline else cn_health c)\<rparr>)"

definition resetStatusFailures :: "string \<Rightarrow> ('m, unit) bb_op" where
  "resetStatusFailures deviceId = update_connection deviceId (\<lambda>c.
     c\<lparr>cn_failures := 0, cn_health := (if cn_health c = Offline then Online else cn_health c)\<rparr>)"

definition checked_health :: "msec \<Rightarrow> connection \<Rightarrow> connection" where
  "checked_health now c = (let elapsed = now - cn_last_message_at c in
     if \<not> cn_connected c then c
     else if 90000 < elapsed then c\<lparr>cn_health := Offline\<rparr>
     else if 60000 < elapsed then c\<lparr>cn_health := Degraded\<rparr> else c)"

definition checkHealth :: "('m, unit) bb_op" where
  "checkHealth = ebind bb_now (\<lambda>now. emodify (\<lambda>w. w\<lparr>b_connections := map (\<lambda>(d, c). (d, checked_health now c)) (b_connections w)\<rparr>))"

primrec unregister_all :: "string list \<Rightarrow> ('m, unit) bb_op" where
  "unregister_all [] = ereturn ()"
| "unregister_all (d # ds) = eseq (unregisterConnection d None) (unregister_all ds)"

definition cleanupStaleConnections :: "msec \<Rightarrow> ('m, unit) bb_op" where
  "cleanupStaleConnections timeoutMs = ebind bb_now (\<lambda>now.
     ebind (eget (\<lambda>w. map fst (filter (\<lambda>(d, c). timeoutMs < now - cn_last_message_at c) (b_connections w)))) unregister_all)"

definition getDeviceIdFromClient :: "string \<Rightarrow> 'm bb_world \<Rightarrow> string option" where
  "getDeviceIdFromClient clientId w = or_null (jm_get (b_clients w) clientId)"

definition getConnectedDevices :: "'m bb_world \<Rightarrow> string list" where
  "getConnectedDevices w = filter (\<lambda>d. isConnected d w) (map fst (b_connections w))"

end
