(* ===== verification/Session_Theorems.thy ===== *)
theory Session_Theorems
  imports Session_Controller
begin

section \<open>Properties of recording sessions\<close>

text \<open>
  A session is marked as recording only after its device has acknowledged the command, whatever
  else fails; and what the completion of an older session does to a device that records again.
\<close>

subsection \<open>No recording without acknowledgement\<close>

lemma recordings_state: "em_rel no_new_recording (updateDeviceState d a s)"
  unfolding updateDeviceState_def
  by (rule recordings.rel_modify) (simp add: no_new_recording_def split: option.split)

lemma recordings_create: "bs_status s \<noteq> Recording \<Longrightarrow> em_rel no_new_recording (create_session s)"
  unfolding create_session_def Let_def
  by (intro recordings.bb_intros) (auto simp: em_rel_def no_new_recording_def)

lemma recordings_update:
  assumes "\<And>s. bs_status (f s) \<noteq> Recording"
  shows "em_rel no_new_recording (update_session i f)"
  unfolding update_session_def
  by (intro recordings.bb_intros recordings.rel_modify)
     (use assms in \<open>auto simp: no_new_recording_def set_rewrite_session intro!: recordings.bb_intros split: option.split if_splits\<close>)

lemma recordings_log: "em_rel no_new_recording (logCommand d a s)"
  unfolding logCommand_def by (intro recordings.bb_intros)

lemma recordings_send: "em_rel no_new_recording (sendCommandViaWebSocket env d a)"
  unfolding sendCommandViaWebSocket_def
  by (auto simp: em_rel_def no_new_recording_def ethrow_def split: list.split reply.split)

lemma recordings_command: "em_rel no_new_recording (executeCommand env d a)"
  unfolding executeCommand_def attempt_command_def failed_command_def resolve_device_def Let_def
  by (auto intro!: recordings.bb_intros recordings_log recordings_send split: option.split)

lemma recordings_deliver: "em_rel no_new_recording (deliver_start env d)" "em_rel no_new_recording (deliverToDevice env d)"
  unfolding deliver_start_def deliverToDevice_def
  by (auto intro!: recordings.bb_intros recordings_command split: option.split)

lemma recordings_draft: "em_rel no_new_recording (bb_call (eget f))"
  by (intro recordings.bb_intros)

lemma recordings_open: "em_rel no_new_recording (open_session env d c m)"
  unfolding open_session_def is_session_record_def new_session_def
  by (auto intro!: recordings.bb_intros recordings_create split: option.split)

lemma replies_create: "em_rel same_replies (create_session s)"
  unfolding create_session_def Let_def
  by (intro replies.bb_intros) (auto simp: em_rel_def same_replies_def)

lemma replies_open: "em_rel same_replies (open_session env d c m)"
  unfolding open_session_def is_session_record_def
  by (auto intro!: replies.bb_intros replies_create split: option.split)

text \<open>A box that records the session \<open>b2\<close> while the upload of \<open>b1\<close> is still to complete.\<close>

definition demo_device :: device_row where
  "demo_device = \<lparr>dv_id = ''d1'', dv_organization_id = ''o1'', dv_device_uuid = ''u1'', dv_name = ''Council hall'',
     dv_room_location = None, dv_status = Active, dv_capabilities = JObj [], dv_config = JObj [], dv_public_key = None,
     dv_last_seen_at = None, dv_created_at = 0, dv_updated_at = 0\<rparr>"

definition demo_connection :: "device_activity \<Rightarrow> connection" where
  "demo_connection a = \<lparr>cn_connected = True, cn_client_id = ''c1'', cn_last_heartbeat = 0, cn_connected_at = 0, cn_health = Online,
     cn_last_message_at = 0, cn_failures = 0, cn_activity = a, cn_active_session = None\<rparr>"

definition demo_world :: "device_activity \<Rightarrow> broadcast_session list \<Rightarrow> reply list \<Rightarrow> unit bb_world" where
  "demo_world a rows replies = \<lparr>clock = 100, faults = [], b_devices = [demo_device], b_codes = [], b_sessions = rows, b_events = [],
     b_connections = [(''d1'', demo_connection a)], b_clients = [],
     b_records = [(''r1'', \<lparr>sr_type = ''session'', sr_capture = None, sr_row_status = None, sr_attached = [], sr_linked = []\<rparr>)],
     b_drafts = [], b_files = [], b_replies = replies, b_serial = 0, b_uploads = [], b_dirs = [], b_revoked = []\<rparr>"

definition demo_env :: bb_env where
  "demo_env = \<lparr>be_uuid = (\<lambda>n. replicate (Suc n) CHR ''s''), be_rooms = True, be_commands = True\<rparr>"

definition demo_row :: "string \<Rightarrow> session_status \<Rightarrow> broadcast_session" where
  "demo_row i st = (new_session i ''d1'' ''r1'' [])\<lparr>bs_status := st\<rparr>"

text \<open>C13: No session records without its device. When the device does not acknowledge the command,
  because it refuses, is silent or cannot be reached, starting a session throws and no row is
  in the state \<open>recording\<close> that was not there before, whichever adapter calls fail.\<close>

theorem no_recording_without_ack:
  assumes "be_commands env" and "\<nexists>rs. b_replies w = Ack # rs" and "startSession env d c m w = (r, w')"
  shows "(\<exists>e. r = Inl e) \<and>
    (\<forall>s. s \<in> set (b_sessions w') \<longrightarrow> bs_status s = Recording \<longrightarrow> s \<in> set (b_sessions w))"
proof -
  obtain x w1 where o: "open_session env d c m w = (x, w1)" by fastforce
  have rel1: "no_new_recording w w1" and rep: "b_replies w1 = b_replies w"
    using em_relD' [OF recordings_open o] em_relD' [OF replies_open o] by (simp_all add: same_replies_def)
  show ?thesis
  proof (cases x)
    case (Inl e)
    then show ?thesis using assms(3) o rel1 by (auto simp: startSession_def ebind_def no_new_recording_def)
  next
    case (Inr created)
    obtain y w2 where d: "deliver_start env d w1 = (y, w2)" by fastforce
    have rel2: "no_new_recording w1 w2" using em_relD' [OF recordings_deliver(1) d] .
    obtain e where y: "y = Inl e"
      using acked_start [of env d w1 w2] d assms(1,2) rep by (cases y) auto
    have "em_rel no_new_recording (fail_session (bs_id created) d e)"
      unfolding fail_session_def by (intro recordings.bb_intros recordings_update) simp
    moreover have f: "fail_session (bs_id created) d e w2 = (r, w')"
      using assms(3) o Inr d y by (simp add: startSession_def ask_device_def ebind_def ecatch_def ereturn_def)
    ultimately have rel3: "no_new_recording w2 w'" by (blast dest: em_relD')
    have "\<exists>e. r = Inl e"
      using f by (auto simp: fail_session_def eseq_def ebind_def ethrow_def split: prod.splits sum.splits)
    then show ?thesis using rel1 rel2 rel3 by (auto simp: no_new_recording_def)
  qed
qed

lemma no_recording_without_ack_witness:
  "\<exists>e w'. startSession demo_env ''d1'' ''r1'' [] (demo_world Idle [] [Nack ''disk full'']) = (Inl e, w') \<and>
     (\<forall>s. s \<in> set (b_sessions w') \<longrightarrow> bs_status s \<noteq> Recording)"
proof -
  let ?w = "demo_world Idle [] [Nack ''disk full'']"
  obtain r w' where run: "startSession demo_env ''d1'' ''r1'' [] ?w = (r, w')" by fastforce
  have "be_commands demo_env" "\<nexists>rs. b_replies ?w = Ack # rs" "b_sessions ?w = []"
    by (simp_all add: demo_env_def demo_world_def)
  then show ?thesis using no_recording_without_ack [OF _ _ run] run by auto
qed

subsection \<open>A completion frees the wrong recording\<close>

definition can_start :: "string \<Rightarrow> string \<Rightarrow> 'm bb_world \<Rightarrow> bool" where
  "can_start d c w = ((\<exists>dev. List.find (\<lambda>x. dv_id x = d) (b_devices w) = Some dev \<and> dv_status dev = Active) \<and>
     isConnected d w \<and> activity_of d w \<noteq> Some Is_Recording \<and>
     (\<exists>sr. jm_get (b_records w) c = Some sr \<and> sr_type sr = ''session''))"

lemma find_rewrite: "(\<And>x. bs_id (f x) = bs_id x) \<Longrightarrow> find_session i (rewrite_session j f now rows) =
    map_option (\<lambda>s. if bs_id s = j then (f s)\<lparr>bs_updated_at := now\<rparr> else s) (find_session i rows)"
  by (induction rows) (auto simp: find_session_def rewrite_session_def)

lemma find_session_append: "find_session i (xs @ ys) =
    (case find_session i xs of None \<Rightarrow> find_session i ys | Some s \<Rightarrow> Some s)"
  by (induction xs) (auto simp: find_session_def)

lemma find_session_None: "i \<notin> bs_id ` set rows \<Longrightarrow> find_session i rows = None"
  by (auto simp: find_session_def find_None_iff)

lemma rewrite_session_ids: "(\<And>x. bs_id (f x) = bs_id x) \<Longrightarrow> bs_id ` set (rewrite_session j f now rows) = bs_id ` set rows"
  by (induction rows) (auto simp: rewrite_session_def)

lemma rewrite_session_other: "j \<notin> bs_id ` set rows \<Longrightarrow> rewrite_session j f now (rows @ ys) = rows @ rewrite_session j f now ys"
  by (auto simp: rewrite_session_def intro!: map_idI)

lemma find_device_in: "List.find (\<lambda>x. dv_id x = d) ds = Some dev \<Longrightarrow> d \<in> dv_id ` set ds"
  by (auto simp: find_Some_iff)

lemma opened_session:
  assumes "faults w = []" and "can_start d c w" and "be_uuid env (b_serial w) \<notin> bs_id ` set (b_sessions w)"
  shows "open_session env d c m w = (let s = (new_session (be_uuid env (b_serial w)) d c m)\<lparr>bs_created_at := clock w, bs_updated_at := clock w\<rparr>
    in (Inr s, w\<lparr>b_serial := Suc (b_serial w), b_sessions := b_sessions w @ [s]\<rparr>))"
  using assms find_device_in [of d "b_devices w"]
  by (auto simp: can_start_def open_session_def is_session_record_def getDevice_def getRecord_session_def create_session_def
      fresh_uuid_def bb_now_def em_defs new_session_def Let_def)

lemma acked_command:
  assumes "faults w = []" and "can_start d c w" and "b_replies w = Ack # rs" and "be_rooms env" and "be_commands env" and "d \<noteq> []"
    and "List.find (\<lambda>x. dv_device_uuid x = d) (b_devices w) = None"
  shows "\<exists>es. deliver_start env d w = (Inr (), w\<lparr>b_replies := rs, b_events := es\<rparr>)"
proof -
  obtain dev where dev: "List.find (\<lambda>x. dv_id x = d) (b_devices w) = Some dev" and c: "isConnected d w"
    using assms(2) by (auto simp: can_start_def)
  have i: "dv_id dev = d" using dev by (auto simp: find_Some_iff)
  have k: "isConnected d (w\<lparr>b_events := es\<rparr>)" for es using c by (simp add: isConnected_def)
  show ?thesis
    using assms(1,3-7) dev c i find_device_in [OF dev]
    by (auto simp: deliver_start_def executeCommand_def attempt_command_def resolve_device_def getDevice_def
        getDeviceByUuid_def logCommand_def create_event_def sendCommandViaWebSocket_def em_defs)
qed


lemma updated_session:
  assumes "faults w = []" and "\<And>x. bs_id (f x) = bs_id x" and "find_session i (b_sessions w) = Some s"
  shows "update_session i f w = (Inr ((f s)\<lparr>bs_updated_at := clock w\<rparr>),
    w\<lparr>b_sessions := rewrite_session i f (clock w) (b_sessions w)\<rparr>)"
  using assms find_session_id [OF assms(3)]
  by (simp add: update_session_def getById_def bb_now_def em_defs find_rewrite)

lemma started_session:
  assumes "faults w = []" and "can_start d c w" and "b_replies w = Ack # rs" and "be_rooms env" and "be_commands env" and "d \<noteq> []"
    and "List.find (\<lambda>x. dv_device_uuid x = d) (b_devices w) = None"
    and "be_uuid env (b_serial w) \<notin> bs_id ` set (b_sessions w)"
  shows "\<exists>s w'. startSession env d c m w = (Inr s, w') \<and> bs_status s = Recording \<and> bs_device_id s = d \<and>
    bs_id s = be_uuid env (b_serial w) \<and> b_sessions w' = b_sessions w @ [s] \<and> activity_of d w' = Some Is_Recording"
proof -
  let ?i = "be_uuid env (b_serial w)"
  let ?s = "(new_session ?i d c m)\<lparr>bs_created_at := clock w, bs_updated_at := clock w\<rparr>"
  let ?w1 = "w\<lparr>b_serial := Suc (b_serial w), b_sessions := b_sessions w @ [?s]\<rparr>"
  have o: "open_session env d c m w = (Inr ?s, ?w1)" by (simp add: opened_session [OF assms(1,2,8)] Let_def)
  have c1: "can_start d c ?w1" using assms(2) by (simp add: can_start_def isConnected_def activity_of_def)
  obtain es where dl: "deliver_start env d ?w1 = (Inr (), ?w1\<lparr>b_replies := rs, b_events := es\<rparr>)"
    using acked_command [OF _ c1, of rs env] assms by auto
  let ?w2 = "?w1\<lparr>b_replies := rs, b_events := es\<rparr>"
  let ?f = "\<lambda>s. s\<lparr>bs_status := Recording, bs_started_at := Some (clock w)\<rparr>"
  have f: "find_session ?i (b_sessions w @ [?s]) = Some ?s"
    using assms(8) by (simp add: find_session_append find_session_None) (simp add: find_session_def new_session_def)
  have rw: "rewrite_session ?i ?f (clock w) (b_sessions w @ [?s]) = b_sessions w @ [(?f ?s)\<lparr>bs_updated_at := clock w\<rparr>]"
    using assms(8) by (simp add: rewrite_session_other) (simp add: rewrite_session_def new_session_def)
  have u: "update_session ?i ?f ?w2 = (Inr ((?f ?s)\<lparr>bs_updated_at := clock w\<rparr>),
      ?w2\<lparr>b_sessions := b_sessions w @ [(?f ?s)\<lparr>bs_updated_at := clock w\<rparr>]\<rparr>)"
    using updated_session [of ?w2 ?f ?i ?s] assms(1) f rw by simp
  obtain dev cn where dev: "List.find (\<lambda>x. dv_id x = d) (b_devices w) = Some dev" and cn: "jm_get (b_connections w) d = Some cn"
    using assms(2) by (auto simp: can_start_def isConnected_def split: option.splits)
  have i: "bs_id ?s = ?i" by (simp add: new_session_def)
  show ?thesis
    using o dl u dev cn find_device_in [OF dev] assms(1)
    by (simp add: startSession_def ask_device_def confirm_session_def bb_now_def updateDeviceState_def create_event_def em_defs
        i activity_of_def jm_get_set) (simp add: new_session_def)
qed

text \<open>A device can be made to record twice. While a device records one session, the upload of
  an older one completes: the completion marks the device idle, although it records, and a
  start that was refused before is accepted. Two sessions of the device are then \<open>recording\<close>.\<close>

theorem completion_frees_the_wrong_recording:
  assumes "faults w = []" and "List.find (\<lambda>x. dv_id x = d) (b_devices w) = Some dev" and "dv_status dev = Active"
    and "List.find (\<lambda>x. dv_device_uuid x = d) (b_devices w) = None" and "d \<noteq> []"
    and "jm_get (b_connections w) d = Some cn" and "cn_connected cn" and "cn_activity cn = Is_Recording"
    and "find_session old (b_sessions w) = Some before" and "bs_device_id before = d" and "bs_status before = Stopping"
    and "find_session current (b_sessions w) = Some running" and "bs_device_id running = d" and "bs_status running = Recording"
    and "jm_get (b_records w) c = Some sr" and "sr_type sr = ''session''"
    and "b_replies w = Ack # rs" and "be_rooms env" and "be_commands env"
    and "be_uuid env (b_serial w) \<notin> bs_id ` set (b_sessions w)"
  shows "\<exists>e w0 w1 s3 w2. startSession env d c m w = (Inl e, w0) \<and> handleSessionComplete old w = (Inr (), w1) \<and>
    startSession env d c m w1 = (Inr s3, w2) \<and> bs_status s3 = Recording \<and> bs_device_id s3 = d \<and> bs_id s3 \<noteq> current \<and>
    find_session current (b_sessions w2) = Some running \<and> s3 \<in> set (b_sessions w2)"
proof -
  let ?f = "\<lambda>x. x\<lparr>bs_status := Complete, bs_completed_at := Some (clock w)\<rparr>"
  let ?rows = "rewrite_session old ?f (clock w) (b_sessions w)"
  let ?w1 = "w\<lparr>b_sessions := ?rows, b_connections := jm_set d (cn\<lparr>cn_activity := Idle, cn_active_session := None\<rparr>) (b_connections w)\<rparr>"
  have busy: "\<exists>e. startSession env d c m w = (Inl e, w)"
    using assms(1-8)
    by (auto simp: startSession_def open_session_def getDevice_def isConnected_def activity_of_def em_defs)
  have freed: "handleSessionComplete old w = (Inr (), ?w1)"
    using assms(1,6,9-11) updated_session [of w ?f old before]
    by (simp add: handleSessionComplete_def getById_def bb_now_def set_idle_def updateDeviceState_def em_defs)
  have "can_start d c ?w1"
    using assms(2,3,7,15,16) by (simp add: can_start_def isConnected_def activity_of_def jm_get_set)
  moreover have ids: "bs_id ` set ?rows = bs_id ` set (b_sessions w)"
    by (simp add: rewrite_session_ids)
  ultimately obtain s3 w2 where s3: "startSession env d c m ?w1 = (Inr s3, w2)" "bs_status s3 = Recording" "bs_device_id s3 = d"
    "bs_id s3 = be_uuid env (b_serial w)" "b_sessions w2 = ?rows @ [s3]"
    using started_session [of ?w1 d c rs env m] assms by auto
  have "current \<noteq> old" using assms(9-14) by auto
  moreover have "bs_id running = current" "running \<in> set (b_sessions w)" using find_session_id [OF assms(12)] by auto
  ultimately have "find_session current ?rows = Some running" by (simp add: find_rewrite assms(12))
  then have "find_session current (b_sessions w2) = Some running" by (simp add: s3(5) find_session_append)
  moreover have "bs_id s3 \<noteq> current" using assms(20) s3(4) \<open>bs_id running = current\<close> \<open>running \<in> set (b_sessions w)\<close> by auto
  ultimately show ?thesis using busy freed s3 by auto
qed

lemma completion_frees_the_wrong_recording_witness:
  "let w = demo_world Is_Recording [demo_row ''b1'' Stopping, demo_row ''b2'' Recording] [Ack] in
   \<exists>w1 s w2. handleSessionComplete ''b1'' w = (Inr (), w1) \<and> startSession demo_env ''d1'' ''r1'' [] w1 = (Inr s, w2) \<and>
     bs_status s = Recording \<and> bs_id s \<noteq> ''b2'' \<and> find_session ''b2'' (b_sessions w2) = Some (demo_row ''b2'' Recording)"
proof -
  let ?w = "demo_world Is_Recording [demo_row ''b1'' Stopping, demo_row ''b2'' Recording] [Ack]"
  have "\<exists>e w0 w1 s3 w2. startSession demo_env ''d1'' ''r1'' [] ?w = (Inl e, w0) \<and> handleSessionComplete ''b1'' ?w = (Inr (), w1) \<and>
    startSession demo_env ''d1'' ''r1'' [] w1 = (Inr s3, w2) \<and> bs_status s3 = Recording \<and> bs_device_id s3 = ''d1'' \<and> bs_id s3 \<noteq> ''b2'' \<and>
    find_session ''b2'' (b_sessions w2) = Some (demo_row ''b2'' Recording) \<and> s3 \<in> set (b_sessions w2)"
    by (rule completion_frees_the_wrong_recording [where dev = demo_device and cn = "demo_connection Is_Recording" and
          before = "demo_row ''b1'' Stopping" and rs = "[]" and
          sr = "\<lparr>sr_type = ''session'', sr_capture = None, sr_row_status = None, sr_attached = [], sr_linked = []\<rparr>"])
       (simp_all add: demo_world_def demo_device_def demo_connection_def demo_env_def demo_row_def new_session_def find_session_def)
  then show ?thesis unfolding Let_def by blast
qed

end
