(* ===== verification/Device_Theorems.thy ===== *)
theory Device_Theorems
  imports Device_Manager Session_Theorems
begin

section \<open>Properties of devices\<close>

text \<open>
  An enrolment code registers only the device it was issued for and only once; a device that
  was enrolled comes online; and two defects, a state that cannot be stored and a connection
  that the end of an older one removes.
\<close>

subsection \<open>Codes\<close>

lemma find_sorted_in: "List.find P (newest_codes cs) = Some c \<Longrightarrow> c \<in> set cs \<and> P c"
  by (auto simp: newest_codes_def find_Some_iff) (metis nth_mem set_sort sort_key_simps length_sort)

lemma findByCode_result:
  assumes "findByCode env code w = (Inr (Some c), w1)"
  shows "c \<in> set (b_codes w) \<and> ec_used_at c = None \<and> de_compare env (normalized_code code) (ec_hash c) \<and>
    (\<exists>fs. w1 = w\<lparr>faults := fs\<rparr>)"
  using assms
  by (auto simp: findByCode_def bb_now_def ebind_def eget_def elim!: bb_call_cases dest!: find_sorted_in)

lemma getDeviceByUuid_result:
  "getDeviceByUuid u w = (Inr r, w1) \<Longrightarrow> (\<forall>d. r = Some d \<longrightarrow> dv_device_uuid d = u) \<and> (\<exists>fs. w1 = w\<lparr>faults := fs\<rparr>)"
  by (auto simp: getDeviceByUuid_def eget_def find_Some_iff elim!: bb_call_cases)

lemma register_again_result:
  "register_again env d c x w = (Inr dev, w') \<Longrightarrow> \<not> isExpired (clock w) c \<and> dv_device_uuid dev = dv_device_uuid x"
  by (auto simp: register_again_def rebind_key_def bb_now_def ebind_def eseq_def ereturn_def ethrow_def eget_def
      split: if_splits prod.splits sum.splits option.splits)

lemma create_device_result:
  "create_device d w = (Inr x, w') \<Longrightarrow> dv_device_uuid x = dv_device_uuid d"
  by (auto simp: create_device_def bb_now_def ebind_def eget_def Let_def split: if_splits elim!: bb_call_cases)

lemma register_new_result:
  "register_new env d c w = (Inr dev, w') \<Longrightarrow> \<not> isExpired (clock w) c \<and> dv_device_uuid dev = rg_deviceUuid d"
  by (auto simp: register_new_def bb_now_def ebind_def eseq_def ereturn_def ethrow_def eget_def fresh_def device_of_def
      split: if_splits prod.splits sum.splits dest!: create_device_result)

text \<open>C14: A code registers only the device it was issued for. Whoever registers a device, new or
  known, presented the text of a code that is stored unused and not expired and that was issued
  for the very UUID that is registered, whichever adapter calls fail. (Two comments of
  \<open>device-manager.ts\<close>, lines 173 and 190, say that a known device may register again with
  an expired code, as a recovery path; the code below them refuses expired and used codes, as its
  comment at line 220 says, and this statement is about the code.)\<close>

theorem registration_needs_the_code_of_the_device:
  assumes "registerDevice env d w = (Inr dev, w')"
  shows "dv_device_uuid dev = rg_deviceUuid d \<and>
    (\<exists>c. c \<in> set (b_codes w) \<and> ec_device_uuid c = rg_deviceUuid d \<and> ec_used_at c = None \<and> clock w \<le> ec_expires_at c \<and>
      de_compare env (normalized_code (rg_enrollmentCode d)) (ec_hash c))"
proof -
  obtain c w1 where f: "findByCode env (rg_enrollmentCode d) w = (Inr (Some c), w1)" and u: "ec_device_uuid c = rg_deviceUuid d"
    and rest: "ebind (getDeviceByUuid (rg_deviceUuid d)) (\<lambda>existing. case existing of
         Some x \<Rightarrow> register_again env d c x | None \<Rightarrow> register_new env d c) w1 = (Inr dev, w')"
    using assms by (auto simp: registerDevice_def ebind_def ethrow_def split: prod.splits sum.splits option.splits if_splits)
  obtain existing w2 where g: "getDeviceByUuid (rg_deviceUuid d) w1 = (Inr existing, w2)"
    and last: "(case existing of Some x \<Rightarrow> register_again env d c x | None \<Rightarrow> register_new env d c) w2 = (Inr dev, w')"
    using rest by (auto simp: ebind_def split: prod.splits sum.splits)
  have "clock w2 = clock w" using findByCode_result [OF f] getDeviceByUuid_result [OF g] by auto
  then show ?thesis
    using findByCode_result [OF f] getDeviceByUuid_result [OF g] u last
      register_again_result [of env d c _ w2] register_new_result [of env d c w2]
    by (cases existing) (fastforce simp: isExpired_def)+
qed

lemma set_newest_codes [simp]: "set (newest_codes cs) = set cs"
  by (simp add: newest_codes_def)

lemma findByCode_none: "faults w = [] \<Longrightarrow> (\<And>c. c \<in> set (b_codes w) \<Longrightarrow> ec_used_at c = None \<Longrightarrow>
    \<not> de_compare env (normalized_code code) (ec_hash c)) \<Longrightarrow> findByCode env code w = (Inr None, w)"
  by (auto simp: findByCode_def bb_now_def ebind_def eget_def find_None_iff)

text \<open>What a registration leaves of the codes when nothing fails.\<close>

definition spent_codes :: "string \<Rightarrow> msec \<Rightarrow> string option \<Rightarrow> enrollment_code list \<Rightarrow> enrollment_code list" where
  "spent_codes i now ip cs = map (\<lambda>c. if ec_id c = i then c\<lparr>ec_used_at := Some now, ec_registration_ip := or_null ip\<rparr> else c) cs"

lemma update_device_quiet: "faults w = [] \<Longrightarrow> update_device i f w = (r, w') \<Longrightarrow> faults w' = [] \<and> b_codes w' = b_codes w \<and> clock w' = clock w"
  by (auto simp: update_device_def bb_now_def getDevice_def em_defs Let_def split: if_splits option.splits)

lemma marked: "faults w = [] \<Longrightarrow> markAsUsed i ip w = (Inr (), w\<lparr>b_codes := spent_codes i (clock w) ip (b_codes w)\<rparr>)"
  by (simp add: markAsUsed_def bb_now_def em_defs spent_codes_def)

lemma register_again_spends:
  "faults w = [] \<Longrightarrow> register_again env d c x w = (Inr dev, w') \<Longrightarrow>
    faults w' = [] \<and> b_codes w' = spent_codes (ec_id c) (clock w) (rg_registrationIp d) (b_codes w)"
  by (auto simp: register_again_def rebind_key_def bb_now_def ebind_def eseq_def ereturn_def ethrow_def eget_def marked
      split: if_splits prod.splits sum.splits option.splits dest!: update_device_quiet [rotated])

lemma created: "faults w = [] \<Longrightarrow> create_device x w = (r, w') \<Longrightarrow> faults w' = [] \<and> b_codes w' = b_codes w \<and> clock w' = clock w"
  by (auto simp: create_device_def bb_now_def em_defs Let_def split: if_splits)

lemma register_new_spends:
  assumes "faults w = []" and "register_new env d c w = (Inr dev, w')"
  shows "faults w' = [] \<and> b_codes w' = spent_codes (ec_id c) (clock w) (rg_registrationIp d) (b_codes w)"
proof -
  obtain v where c: "create_device (device_of (de_uuid env (b_serial w)) d) (w\<lparr>b_serial := Suc (b_serial w)\<rparr>) = (Inr dev, v)"
    and rest: "eseq (equiet (markAsUsed (ec_id c) (rg_registrationIp d)))
      (eseq (create_event (dv_id dev) ''device.registered'') (ereturn dev)) v = (Inr dev, w')"
    using assms by (auto simp: register_new_def bb_now_def eget_def ebind_def eseq_def fresh_def ethrow_def ereturn_def
        split: if_splits prod.splits sum.splits)
  have v: "faults v = []" "b_codes v = b_codes w" "clock v = clock w" using created [OF _ c] assms(1) by simp_all
  show ?thesis using rest v by (auto simp: em_defs marked create_event_def split: if_splits)
qed

lemma registration_spends:
  assumes "faults w = []" and "registerDevice env d w = (Inr dev, w')"
  shows "\<exists>c. c \<in> set (b_codes w) \<and> ec_used_at c = None \<and> de_compare env (normalized_code (rg_enrollmentCode d)) (ec_hash c) \<and>
    faults w' = [] \<and> b_codes w' = spent_codes (ec_id c) (clock w) (rg_registrationIp d) (b_codes w)"
proof -
  obtain c w1 where f: "findByCode env (rg_enrollmentCode d) w = (Inr (Some c), w1)"
    and rest: "ebind (getDeviceByUuid (rg_deviceUuid d)) (\<lambda>existing. case existing of
         Some x \<Rightarrow> register_again env d c x | None \<Rightarrow> register_new env d c) w1 = (Inr dev, w')"
    using assms(2) by (auto simp: registerDevice_def ebind_def ethrow_def split: prod.splits sum.splits option.splits if_splits)
  have w1: "w1 = w" using f assms(1) by (simp add: findByCode_def bb_now_def ebind_def eget_def)
  obtain existing where "(case existing of Some x \<Rightarrow> register_again env d c x | None \<Rightarrow> register_new env d c) w = (Inr dev, w')"
    using rest assms(1) by (auto simp: w1 ebind_def getDeviceByUuid_def eget_def)
  then show ?thesis
    using findByCode_result [OF f] register_again_spends [OF assms(1)] register_new_spends [OF assms(1)]
    by (cases existing) auto
qed

text \<open>C37: A code registers once. When a registration has succeeded without a failing call, every
  later registration with the same code is refused, whatever it claims to be, provided that
  the text fits no other unused code.\<close>

theorem enrollment_code_is_single_use:
  assumes "registerDevice env d w = (Inr dev, w')" and "faults w = []"
    and "\<And>x y. x \<in> set (b_codes w) \<Longrightarrow> y \<in> set (b_codes w) \<Longrightarrow> ec_used_at x = None \<Longrightarrow> ec_used_at y = None \<Longrightarrow>
      de_compare env (normalized_code (rg_enrollmentCode d)) (ec_hash x) \<Longrightarrow>
      de_compare env (normalized_code (rg_enrollmentCode d)) (ec_hash y) \<Longrightarrow> x = y"
    and "rg_enrollmentCode d' = rg_enrollmentCode d"
  shows "registerDevice env d' (w'\<lparr>clock := later\<rparr>) = (Inl ''Invalid enrollment code'', w'\<lparr>clock := later\<rparr>)"
proof -
  obtain c where c: "c \<in> set (b_codes w)" "ec_used_at c = None" "de_compare env (normalized_code (rg_enrollmentCode d)) (ec_hash c)"
    and w': "faults w' = []" "b_codes w' = spent_codes (ec_id c) (clock w) (rg_registrationIp d) (b_codes w)"
    using registration_spends [OF assms(2,1)] by blast
  have "findByCode env (rg_enrollmentCode d') (w'\<lparr>clock := later\<rparr>) = (Inr None, w'\<lparr>clock := later\<rparr>)"
  proof (rule findByCode_none)
    fix e assume e: "e \<in> set (b_codes (w'\<lparr>clock := later\<rparr>))" "ec_used_at e = None"
    then have "e \<in> set (b_codes w)" "ec_id e \<noteq> ec_id c"
      by (auto simp: w'(2) spent_codes_def split: if_splits)
    then show "\<not> de_compare env (normalized_code (rg_enrollmentCode d')) (ec_hash e)"
      using assms(3) [OF c(1) _ c(2) e(2) c(3)] by (auto simp: assms(4))
  qed (simp add: w'(1))
  then show ?thesis by (simp add: registerDevice_def ebind_def ethrow_def)
qed

subsection \<open>States and connections\<close>

text \<open>No device can be decommissioned. The state exists in the code, but the table's \<open>CHECK\<close>
  does not know it: the call throws for every device, and no row changes.\<close>

theorem decommissioning_always_fails:
  "\<exists>e w'. decommissionDevice i w = (Inl e, w') \<and> b_devices w' = b_devices w"
proof -
  obtain r v where g: "getDevice i w = (r, v)" by fastforce
  have v: "b_devices v = b_devices w" and f: "\<And>d. r = Inr (Some d) \<Longrightarrow> dv_id d = i \<and> d \<in> set (b_devices w)"
    using g by (auto simp: getDevice_def eget_def find_Some_iff elim!: bb_call_cases)
  have "\<exists>e w'. update_device i (\<lambda>d. d\<lparr>dv_status := Decommissioned\<rparr>) v = (Inl e, w') \<and> b_devices w' = b_devices w"
    if "r = Inr (Some d)" for d
  proof -
    let ?rows = "map (\<lambda>d. if dv_id d = i then (d\<lparr>dv_status := Decommissioned\<rparr>)\<lparr>dv_updated_at := clock v\<rparr> else d) (b_devices w)"
    have "\<not> list_all (\<lambda>d. status_allowed (dv_status d)) ?rows"
    proof -
      have "(d\<lparr>dv_status := Decommissioned\<rparr>)\<lparr>dv_updated_at := clock v\<rparr> \<in> set ?rows" using f [OF that] by force
      then have "\<exists>x\<in>set ?rows. dv_status x = Decommissioned" by (rule rev_bexI) simp
      then show ?thesis unfolding list_all_iff status_allowed_def by fastforce
    qed
    then show ?thesis using v by (auto simp: update_device_def bb_now_def eseq_def ebind_def eget_def bb_call_def split: list.split bool.split)
  qed
  then show ?thesis using g v
    by (auto simp: decommissionDevice_def set_status_def ebind_def ethrow_def split: sum.split option.split)
qed

text \<open>The end of an old connection cuts the new one. A device reconnects with a new client
  before the server notices that the old socket is gone. When the old socket closes, its
  connection is removed by the device alone: the device counts as disconnected although the new
  client is registered, and every start of a recording on it is refused.\<close>

theorem late_disconnect_cuts_the_new_connection:
  assumes "faults w = []" and "jm_get (b_connections w) d = Some cn" and "cn_client_id cn = new" and "cn_connected cn"
    and "jm_get (b_clients w) new = Some d" and "old \<noteq> new" and "old \<noteq> []" and "d \<noteq> []"
    and "d \<in> dv_id ` set (b_devices w)" and "jm_ok (b_connections w)"
  shows "\<exists>w'. unregisterConnection d (Some old) w = (Inr (), w') \<and> isConnected d w \<and> \<not> isConnected d w' \<and>
    getDeviceIdFromClient new w' = Some d \<and> (\<exists>e w2. startSession env d c m w' = (Inl e, w2))"
proof -
  let ?w' = "w\<lparr>b_connections := jm_delete d (b_connections w), b_clients := jm_delete old (b_clients w),
    b_events := b_events w @ [(d, ''device.disconnected'')]\<rparr>"
  have old: "or_null (Some old) = Some old" using assms(7) by (cases old) (simp_all add: or_null_def)
  have run: "unregisterConnection d (Some old) w = (Inr (), ?w')"
    using assms(1,2,7,9) old by (simp add: unregisterConnection_def Let_def em_defs create_event_def)
  have gone: "\<not> isConnected d ?w'" by (simp add: isConnected_def jm_get_delete)
  have client: "getDeviceIdFromClient new ?w' = Some d"
    using assms(5,6,8) by (cases d) (simp_all add: getDeviceIdFromClient_def jm_get_delete or_null_def)
  have "\<exists>e w2. startSession env d c m ?w' = (Inl e, w2)"
    using gone assms(1) by (auto simp: startSession_def open_session_def getDevice_def em_defs split: option.split)
  then show ?thesis using run gone client assms(2,4) by (auto simp: isConnected_def)
qed

subsection \<open>Onboarding\<close>

lemma code_char_plain: "\<not> is_space (code_char b) \<and> upper_char (code_char b) = code_char b"
proof -
  have "length code_chars = 32" by (simp add: code_chars_def)
  then have "code_char b \<in> set code_chars" by (simp add: code_char_def)
  moreover have "list_all (\<lambda>c. \<not> is_space c \<and> upper_char c = c) code_chars" by code_simp
  ultimately show ?thesis by (auto simp: list_all_iff)
qed

lemma trim_id: "s \<noteq> [] \<Longrightarrow> \<not> is_space (hd s) \<Longrightarrow> \<not> is_space (last s) \<Longrightarrow> trim s = s"
proof -
  assume s: "s \<noteq> []" "\<not> is_space (hd s)" "\<not> is_space (last s)"
  then have "dropWhile is_space s = s" by (cases s) simp_all
  moreover have "\<not> is_space (hd (rev s))" using s by (simp add: hd_rev)
  then have "dropWhile is_space (rev s) = rev s" by (cases "rev s") simp_all
  ultimately show "trim s = s" by (simp add: trim_def)
qed

text \<open>A generated code survives the normalisation that its comparison applies.\<close>

lemma generated_code_normal: 
  assumes "12 \<le> length bytes"
  shows "normalized_code (generateEnrollmentCode bytes) = generateEnrollmentCode bytes"
proof -
  let ?s = "generateEnrollmentCode bytes"
  have chars: "list_all (\<lambda>c. c = CHR ''-'' \<or> (\<exists>b. c = code_char b)) ?s"
    by (auto simp: generateEnrollmentCode_def grouped_code_def list_all_iff dest!: in_set_takeD in_set_dropD)
  have plain: "\<not> is_space c \<and> upper_char c = c" if "c \<in> set ?s" for c
  proof -
    have dash: "\<not> is_space CHR ''-'' \<and> upper_char CHR ''-'' = CHR ''-''" by code_simp
    have "c = CHR ''-'' \<or> (\<exists>b. c = code_char b)" using chars that by (simp add: list_all_iff)
    then show ?thesis by (elim disjE exE; simp only: dash code_char_plain; simp)
  qed
  have ne: "?s \<noteq> []" by (simp add: generateEnrollmentCode_def grouped_code_def)
  then have "trim ?s = ?s"
    by (rule trim_id) (use ne plain [OF hd_in_set] plain [OF last_in_set] in blast)+
  moreover have "map upper_char ?s = ?s" by (rule map_idI) (use plain in blast)
  ultimately show ?thesis by (simp only: normalized_code_def)
qed

lemma find_only: "c \<in> set xs \<Longrightarrow> P c \<Longrightarrow> (\<And>x. x \<in> set xs \<Longrightarrow> P x \<Longrightarrow> x = c) \<Longrightarrow> List.find P xs = Some c"
proof (induction xs)
  case (Cons a xs)
  show ?case
  proof (cases "P a")
    case True
    then show ?thesis using Cons.prems(3) [of a] by simp
  next
    case False
    then have "c \<in> set xs" using Cons.prems(1,2) by auto
    then have "List.find P xs = Some c" using Cons.prems(2,3) by (intro Cons.IH) simp_all
    then show ?thesis using False by simp
  qed
qed simp

lemma find_last: "i \<notin> dv_id ` set ds \<Longrightarrow> dv_id r = i \<Longrightarrow> List.find (\<lambda>d. dv_id d = i) (ds @ [r]) = Some r"
  by (induction ds) auto

lemma update_last:
  assumes "faults w = []" and "b_devices w = ds @ [r]" and "dv_id r = i" and "i \<notin> dv_id ` set ds"
    and "list_all (\<lambda>d. status_allowed (dv_status d)) ds" and "status_allowed (dv_status (f r))" and "dv_id (f r) = i"
  shows "update_device i f w = (Inr ((f r)\<lparr>dv_updated_at := clock w\<rparr>), w\<lparr>b_devices := ds @ [(f r)\<lparr>dv_updated_at := clock w\<rparr>]\<rparr>)"
proof -
  have "map (\<lambda>d. if dv_id d = i then (f d)\<lparr>dv_updated_at := clock w\<rparr> else d) ds = ds"
    using assms(4) by (auto intro!: map_idI)
  then show ?thesis using assms
    by (simp add: update_device_def bb_now_def em_defs getDevice_def find_last Let_def)
qed

lemma event_logged: "faults w = [] \<Longrightarrow> i \<in> dv_id ` set (b_devices w) \<Longrightarrow> create_event i e w = (Inr (), w\<lparr>b_events := b_events w @ [(i, e)]\<rparr>)"
  by (simp add: create_event_def)

lemma first_connection:
  assumes "faults w = []" and "b_devices w = ds @ [r]" and "dv_id r = i" and "i \<notin> dv_id ` set ds"
    and "list_all (\<lambda>d. status_allowed (dv_status d)) ds" and "dv_status r = Enrolled"
    and "\<And>c. c \<in> set (b_codes w) \<Longrightarrow> ec_device_uuid c = dv_device_uuid r \<Longrightarrow> clock w \<le> ec_expires_at c"
  shows "\<exists>w' row. registerConnection i client w = (Inr (), w') \<and> isConnected i w' \<and> row \<in> set (b_devices w') \<and>
    dv_id row = i \<and> dv_device_uuid row = dv_device_uuid r \<and> dv_status row = Active"
proof -
  let ?v = "w\<lparr>b_connections := jm_set i (new_connection client (clock w)) (b_connections w), b_clients := jm_set client i (b_clients w)\<rparr>"
  let ?r = "r\<lparr>dv_status := Active, dv_updated_at := clock w\<rparr>"
  let ?v1 = "?v\<lparr>b_devices := ds @ [?r], b_events := b_events w @ [(i, ''device.activated'')]\<rparr>"
  let ?r2 = "?r\<lparr>dv_last_seen_at := Some (clock w), dv_updated_at := clock w\<rparr>"
  have found: "getDevice i w = (Inr (Some r), w)" "getDevice i ?v = (Inr (Some r), ?v)"
    using assms(1-4) by (simp_all add: getDevice_def eget_def find_last)
  obtain code where code: "findByDeviceUuid (dv_device_uuid r) ?v = (Inr code, ?v)" "\<And>c. code = Some c \<Longrightarrow> \<not> isExpired (clock w) c"
  proof (cases "newest_codes (filter (\<lambda>c. ec_device_uuid c = dv_device_uuid r) (b_codes w))")
    case Nil
    then show thesis using that assms(1) by (simp add: findByDeviceUuid_def eget_def)
  next
    case (Cons c cs)
    then have "c \<in> set (filter (\<lambda>c. ec_device_uuid c = dv_device_uuid r) (b_codes w))" using set_newest_codes by (metis list.set_intros(1))
    then have "clock w \<le> ec_expires_at c" by (intro assms(7)) simp_all
    then show thesis using that assms(1) Cons by (simp add: findByDeviceUuid_def eget_def isExpired_def)
  qed
  have "update_device i (\<lambda>x. x\<lparr>dv_status := Active\<rparr>) ?v = (Inr ?r, ?v\<lparr>b_devices := ds @ [?r]\<rparr>)"
    using update_last [of ?v ds r i "\<lambda>x. x\<lparr>dv_status := Active\<rparr>"] assms by (simp add: status_allowed_def)
  then have act: "activateDevice i ?v = (Inr ?r, ?v1)"
    using found code assms(1,3,6)
    by (cases code) (simp_all add: activateDevice_def ebind_def eseq_def ereturn_def eget_def bb_now_def event_logged)
  have "update_device i (\<lambda>d. d\<lparr>dv_last_seen_at := Some (clock w)\<rparr>) ?v1 = (Inr ?r2, ?v1\<lparr>b_devices := ds @ [?r2]\<rparr>)"
    using update_last [of ?v1 ds ?r i "\<lambda>d. d\<lparr>dv_last_seen_at := Some (clock w)\<rparr>"] assms by (simp add: status_allowed_def)
  then have seen: "updateLastSeen i ?v1 = (Inr (), ?v1\<lparr>b_devices := ds @ [?r2]\<rparr>)"
    by (simp add: updateLastSeen_def bb_now_def em_defs)
  have "registerConnection i client w = (Inr (), ?v1\<lparr>b_devices := ds @ [?r2], b_events := b_events w @ [(i, ''device.activated''), (i, ''device.connected'')]\<rparr>)"
    using found act seen assms(1,3,6)
    by (simp add: registerConnection_def bb_now_def ebind_def eseq_def eget_def emodify_def ewhen_def equiet_def event_logged)
  then show ?thesis using assms(3) by (fastforce simp: isConnected_def jm_get_set new_connection_def)
qed

text \<open>An enrolled device comes online. The code that an enrolment issues registers the device
  under the issued UUID at any moment of the next quarter of an hour, and its first connection
  activates it: the device is then active, connected, and can be asked to record.\<close>

theorem enrolled_device_comes_online:
  assumes "enrollDevice env by ip w = (Inr (u, code, expires), w1)" and "faults w = []"
    and "\<And>n. 12 \<le> length (de_bytes env n)" and "\<And>n s. de_compare env s (de_hash env n s)"
    and "\<And>c. c \<in> set (b_codes w) \<Longrightarrow> \<not> de_compare env code (ec_hash c)"
    and "clock w \<le> t" and "t \<le> clock w + 15 * 60 * 1000"
    and "\<And>n. de_uuid env n \<notin> dv_id ` set (b_devices w)" and "u \<notin> dv_device_uuid ` set (b_devices w)"
    and "list_all (\<lambda>d. status_allowed (dv_status d)) (b_devices w)"
    and "rg_deviceUuid d = u" and "rg_enrollmentCode d = code"
  shows "\<exists>dev w2 w3 row. registerDevice env d (w1\<lparr>clock := t\<rparr>) = (Inr dev, w2) \<and> dv_status dev = Enrolled \<and>
    registerConnection (dv_id dev) client w2 = (Inr (), w3) \<and> isConnected (dv_id dev) w3 \<and>
    row \<in> set (b_devices w3) \<and> dv_id row = dv_id dev \<and> dv_device_uuid row = u \<and> dv_status row = Active"
proof -
  let ?n = "b_serial w"
  let ?h = "de_hash env (Suc (Suc ?n)) code"
  let ?c = "\<lparr>ec_id = de_uuid env (Suc (Suc (Suc ?n))), ec_device_uuid = u, ec_hash = ?h, ec_created_at = clock w,
    ec_expires_at = clock w + 900000, ec_used_at = None, ec_created_by = nonzero by, ec_ip_address = or_null ip, ec_registration_ip = None\<rparr>"
  have code: "code = generateEnrollmentCode (de_bytes env (Suc ?n))" and uuid: "u = de_uuid env ?n"
    and w1: "w1 = w\<lparr>b_serial := ?n + 4, b_codes := b_codes w @ [?c]\<rparr>"
    and new: "u \<notin> ec_device_uuid ` set (b_codes w)" "de_uuid env (Suc (Suc (Suc ?n))) \<notin> ec_id ` set (b_codes w)"
    using assms(1,2) by (auto simp: enrollDevice_def fresh_def bb_now_def create_code_def Let_def em_defs ENROLLMENT_EXPIRY_MS_def split: if_splits)
  let ?v = "w1\<lparr>clock := t\<rparr>"
  let ?i = "de_uuid env (?n + 4)"
  have "normalized_code code = code" using generated_code_normal assms(3) code by blast
  then have match: "de_compare env (normalized_code code) ?h" "\<And>c. c \<in> set (b_codes w) \<Longrightarrow> \<not> de_compare env (normalized_code code) (ec_hash c)"
    using assms(4,5) by simp_all
  have f: "findByCode env code ?v = (Inr (Some ?c), ?v)"
  proof -
    have "List.find (\<lambda>c. de_compare env (normalized_code code) (ec_hash c))
       (newest_codes (filter (\<lambda>c. ec_used_at c = None \<and> t - 24 * 60 * 60 * 1000 < ec_created_at c) (b_codes ?v))) = Some ?c"
      by (rule find_only) (use match assms(7) in \<open>auto simp: w1\<close>)
    then show ?thesis using assms(2) by (simp add: findByCode_def bb_now_def ebind_def eget_def w1)
  qed
  let ?d = "(device_of ?i d)\<lparr>dv_created_at := t, dv_updated_at := t\<rparr>"
  let ?r = "?d\<lparr>dv_room_location := or_null (rg_roomLocation d), dv_public_key := or_null (rg_publicKey d)\<rparr>"
  let ?w2 = "?v\<lparr>b_serial := ?n + 5, b_devices := b_devices w @ [?r], b_codes := spent_codes (ec_id ?c) t (rg_registrationIp d) (b_codes w1),
    b_events := b_events w @ [(?i, ''device.registered'')]\<rparr>"
  have g: "getDeviceByUuid u ?v = (Inr None, ?v)"
    using assms(2,9) by (auto simp: getDeviceByUuid_def eget_def w1 find_None_iff)
  have "register_new env d ?c ?v = (Inr ?d, ?w2)"
    using match assms(2,6-9,11,12)
    by (simp add: register_new_def bb_now_def ebind_def eget_def isExpired_def isUsed_def fresh_def create_device_def Let_def
        eseq_def equiet_def marked w1 device_of_def status_allowed_def create_event_def ereturn_def emodify_def)
  then have reg: "registerDevice env d ?v = (Inr ?d, ?w2)"
    using f g assms(11,12) by (simp add: registerDevice_def ebind_def)
  have alive: "clock ?w2 \<le> ec_expires_at c" if mem: "c \<in> set (b_codes ?w2)" and own: "ec_device_uuid c = u" for c
  proof -
    obtain x where "x \<in> set (b_codes w1)"
      and "c = (if ec_id x = ec_id ?c then x\<lparr>ec_used_at := Some t, ec_registration_ip := or_null (rg_registrationIp d)\<rparr> else x)"
      using mem unfolding spent_codes_def by auto
    then have "x \<in> set (b_codes w1)" "ec_device_uuid x = u" "ec_expires_at c = ec_expires_at x"
      using own by (simp_all split: if_splits)
    then have "x = ?c" using new by (auto simp: w1)
    then show ?thesis using assms(7) \<open>ec_expires_at c = ec_expires_at x\<close> by simp
  qed
  have "\<exists>w3 row. registerConnection ?i client ?w2 = (Inr (), w3) \<and> isConnected ?i w3 \<and> row \<in> set (b_devices w3) \<and>
      dv_id row = ?i \<and> dv_device_uuid row = dv_device_uuid ?r \<and> dv_status row = Active"
    by (rule first_connection [where ds = "b_devices w" and r = ?r])
       (use assms(2,8,10,11) alive in \<open>simp_all add: w1 device_of_def\<close>)
  then show ?thesis using reg assms(11) by (auto simp: device_of_def)
qed

subsection \<open>A device that is enrolled, registered and connected\<close>

definition demo_devices :: device_env where
  "demo_devices = \<lparr>de_uuid = (\<lambda>n. replicate (Suc n) CHR ''u''), de_bytes = (\<lambda>n. replicate 12 (of_nat n)),
     de_hash = (\<lambda>n s. s), de_compare = (\<lambda>s h. s = h)\<rparr>"

definition demo_registration :: "string \<Rightarrow> registration" where
  "demo_registration u = \<lparr>rg_deviceUuid = u, rg_name = ''Hall'', rg_roomLocation = None, rg_capabilities = None, rg_config = None,
     rg_publicKey = None, rg_enrollmentCode = ''BBBB-BBBB-BBBB'', rg_registrationIp = None\<rparr>"

lemma demo_code: "generateEnrollmentCode (replicate 12 1) = ''BBBB-BBBB-BBBB''"
  by code_simp

lemma demo_enrolled: "\<exists>expires w1. enrollDevice demo_devices None None (demo_world Idle [] []) = (Inr (''u'', ''BBBB-BBBB-BBBB'', expires), w1)"
  using demo_code
  by (simp add: enrollDevice_def demo_devices_def demo_world_def fresh_def create_code_def bb_now_def em_defs Let_def)

lemma enrolled_device_comes_online_witness:
  "\<exists>expires w1 dev w2 w3 row. enrollDevice demo_devices None None (demo_world Idle [] []) = (Inr (''u'', ''BBBB-BBBB-BBBB'', expires), w1) \<and>
     registerDevice demo_devices (demo_registration ''u'') (w1\<lparr>clock := 100\<rparr>) = (Inr dev, w2) \<and>
     registerConnection (dv_id dev) ''c9'' w2 = (Inr (), w3) \<and> isConnected (dv_id dev) w3 \<and>
     row \<in> set (b_devices w3) \<and> dv_id row = dv_id dev \<and> dv_status row = Active"
proof -
  obtain expires w1 where run: "enrollDevice demo_devices None None (demo_world Idle [] []) = (Inr (''u'', ''BBBB-BBBB-BBBB'', expires), w1)"
    using demo_enrolled by blast
  have "replicate (Suc n) CHR ''u'' \<noteq> ''d1''" for n by (cases n) simp_all
  then have "\<exists>dev w2 w3 row. registerDevice demo_devices (demo_registration ''u'') (w1\<lparr>clock := 100\<rparr>) = (Inr dev, w2) \<and> dv_status dev = Enrolled \<and>
    registerConnection (dv_id dev) ''c9'' w2 = (Inr (), w3) \<and> isConnected (dv_id dev) w3 \<and>
    row \<in> set (b_devices w3) \<and> dv_id row = dv_id dev \<and> dv_device_uuid row = ''u'' \<and> dv_status row = Active"
    by (intro enrolled_device_comes_online [OF run])
       (simp_all add: demo_world_def demo_devices_def demo_device_def demo_registration_def status_allowed_def)
  then show ?thesis using run by blast
qed

text \<open>The code issued for the device \<open>u\<close>.\<close>

definition demo_issued :: enrollment_code where
  "demo_issued = \<lparr>ec_id = ''e1'', ec_device_uuid = ''u'', ec_hash = ''BBBB-BBBB-BBBB'', ec_created_at = 100, ec_expires_at = 900100,
     ec_used_at = None, ec_created_by = None, ec_ip_address = None, ec_registration_ip = None\<rparr>"

lemma demo_registered: "\<exists>dev w'. registerDevice demo_devices (demo_registration ''u'') ((demo_world Idle [] [])\<lparr>b_codes := [demo_issued]\<rparr>) = (Inr dev, w')"
proof -
  have "normalized_code ''BBBB-BBBB-BBBB'' = ''BBBB-BBBB-BBBB''" by code_simp
  then show ?thesis
    by (simp add: registerDevice_def findByCode_def newest_codes_def getDeviceByUuid_def register_new_def demo_devices_def demo_world_def
        demo_issued_def demo_registration_def demo_device_def isExpired_def isUsed_def fresh_def create_device_def device_of_def status_allowed_def
        markAsUsed_def create_event_def bb_now_def em_defs Let_def)
qed

lemma registration_needs_the_code_of_the_device_witness:
  "\<exists>dev w'. registerDevice demo_devices (demo_registration ''u'') ((demo_world Idle [] [])\<lparr>b_codes := [demo_issued]\<rparr>) = (Inr dev, w') \<and>
     dv_device_uuid dev = ''u''"
proof -
  obtain dev w' where r: "registerDevice demo_devices (demo_registration ''u'') ((demo_world Idle [] [])\<lparr>b_codes := [demo_issued]\<rparr>) = (Inr dev, w')"
    using demo_registered by blast
  then show ?thesis using registration_needs_the_code_of_the_device [OF r] by (simp add: demo_registration_def)
qed

lemma enrollment_code_is_single_use_witness:
  "\<exists>dev w'. registerDevice demo_devices (demo_registration ''u'') ((demo_world Idle [] [])\<lparr>b_codes := [demo_issued]\<rparr>) = (Inr dev, w') \<and>
     registerDevice demo_devices (demo_registration ''v'') (w'\<lparr>clock := 200\<rparr>) = (Inl ''Invalid enrollment code'', w'\<lparr>clock := 200\<rparr>)"
proof -
  obtain dev w' where r: "registerDevice demo_devices (demo_registration ''u'') ((demo_world Idle [] [])\<lparr>b_codes := [demo_issued]\<rparr>) = (Inr dev, w')"
    using demo_registered by blast
  have "registerDevice demo_devices (demo_registration ''v'') (w'\<lparr>clock := 200\<rparr>) = (Inl ''Invalid enrollment code'', w'\<lparr>clock := 200\<rparr>)"
    by (rule enrollment_code_is_single_use [OF r]) (simp_all add: demo_world_def demo_registration_def)
  then show ?thesis using r by blast
qed

lemma late_disconnect_cuts_the_new_connection_witness:
  "\<exists>w'. unregisterConnection ''d1'' (Some ''c0'') ((demo_world Idle [] [])\<lparr>b_clients := [(''c0'', ''d1''), (''c1'', ''d1'')]\<rparr>) = (Inr (), w') \<and>
     \<not> isConnected ''d1'' w' \<and> getDeviceIdFromClient ''c1'' w' = Some ''d1'' \<and>
     (\<exists>e w2. startSession demo_env ''d1'' ''r1'' [] w' = (Inl e, w2))"
proof -
  let ?w = "(demo_world Idle [] [])\<lparr>b_clients := [(''c0'', ''d1''), (''c1'', ''d1'')]\<rparr>"
  have "\<exists>w'. unregisterConnection ''d1'' (Some ''c0'') ?w = (Inr (), w') \<and> isConnected ''d1'' ?w \<and> \<not> isConnected ''d1'' w' \<and>
     getDeviceIdFromClient ''c1'' w' = Some ''d1'' \<and> (\<exists>e w2. startSession demo_env ''d1'' ''r1'' [] w' = (Inl e, w2))"
    by (rule late_disconnect_cuts_the_new_connection [where cn = "demo_connection Idle"])
       (simp_all add: demo_world_def demo_connection_def demo_device_def jm_ok_def)
  then show ?thesis by blast
qed

end
