(* ===== verification/Upload_Processor.thy ===== *)
theory Upload_Processor
  imports Session_Controller Document_Numbers
begin

section \<open>Uploads of recordings\<close>

text \<open>
  \<open>services/upload-processor.ts\<close> with \<open>models/upload-job.ts\<close>: a device declares an upload, sends
  its chunks into a temporary directory and finalises it; the chunks are combined, checked
  against the declared hash and size, stored, and the workflow trigger links the recording to
  its session. SHA-256, generated identifiers and the reading of a byte sequence as a medium are
  parameters (\<open>upload_env\<close>). Every call to the database, the file system and the storage service
  takes one entry of \<open>faults\<close>; the times and the type of an upload are left out.
\<close>

record 'm upload_env =
  ue_uuid :: "nat \<Rightarrow> string"
  ue_maxUploadBytes :: int
  ue_sha256 :: "byte list \<Rightarrow> string"
  ue_media :: "byte list \<Rightarrow> 'm"
  ue_hooks :: bool

definition MAX_SAFE_INTEGER :: int where
  "MAX_SAFE_INTEGER = 9007199254740991"

subsection \<open>The job rows\<close>

definition find_upload :: "string \<Rightarrow> upload_row list \<Rightarrow> upload_row option" where
  "find_upload i rows = List.find (\<lambda>u. up_id u = i) rows"

definition getUpload :: "string \<Rightarrow> ('m, upload_row option) bb_op" where
  "getUpload i = bb_call (eget (\<lambda>w. find_upload i (b_uploads w)))"

definition create_upload :: "upload_row \<Rightarrow> ('m, upload_row) bb_op" where
  "create_upload u = bb_call (\<lambda>w.
     if up_id u \<in> up_id ` set (b_uploads w) then (Inl ''UNIQUE constraint failed'', w)
     else if up_session_id u \<notin> bs_id ` set (b_sessions w) \<or> up_device_id u \<notin> dv_id ` set (b_devices w)
     then (Inl ''FOREIGN KEY constraint failed'', w)
     else (Inr u, w\<lparr>b_uploads := b_uploads w @ [u]\<rparr>))"

definition rewrite_upload :: "string \<Rightarrow> (upload_row \<Rightarrow> upload_row) \<Rightarrow> upload_row list \<Rightarrow> upload_row list" where
  "rewrite_upload i f rows = map (\<lambda>u. if up_id u = i then f u else u) rows"

definition update_upload :: "string \<Rightarrow> (upload_row \<Rightarrow> upload_row) \<Rightarrow> ('m, upload_row) bb_op" where
  "update_upload i f =
     eseq (bb_call (emodify (\<lambda>w. w\<lparr>b_uploads := rewrite_upload i f (b_uploads w)\<rparr>)))
     (ebind (getUpload i) (\<lambda>r. case r of
        None \<Rightarrow> ethrow (''Upload job not found after update: '' @ i) | Some u \<Rightarrow> ereturn u))"

subsection \<open>Declaring an upload\<close>

definition safe_file_name :: "string \<Rightarrow> bool" where
  "safe_file_name f = (f \<noteq> [] \<and> length f \<le> 255 \<and> f \<noteq> ''.'' \<and> f \<noteq> ''..'' \<and>
     list_all (\<lambda>c. (of_char c :: nat) \<notin> {47, 92, 0}) f)"

record upload_request =
  rq_sessionId :: string
  rq_fileName :: string
  rq_fileSize :: "int option"
  rq_fileHash :: string

text \<open>A size that is not an integer is \<open>None\<close>.\<close>

definition declared_size :: "'m upload_env \<Rightarrow> upload_request \<Rightarrow> int option" where
  "declared_size env q = (case rq_fileSize q of None \<Rightarrow> None | Some n \<Rightarrow>
     if \<bar>n\<bar> \<le> MAX_SAFE_INTEGER \<and> 0 < n \<and> n \<le> ue_maxUploadBytes env then Some n else None)"

definition session_device :: "string \<Rightarrow> ('m, string) bb_op" where
  "session_device sessionId = bb_call (eget (\<lambda>w. case find_session sessionId (b_sessions w) of
     None \<Rightarrow> [] | Some s \<Rightarrow> bs_device_id s))"

definition make_dir :: "string \<Rightarrow> ('m, unit) bb_op" where
  "make_dir i = bb_call (emodify (\<lambda>w. case jm_get (b_dirs w) i of
     Some _ \<Rightarrow> w | None \<Rightarrow> w\<lparr>b_dirs := jm_set i [] (b_dirs w)\<rparr>))"

definition createUpload :: "'m upload_env \<Rightarrow> upload_request \<Rightarrow> string option \<Rightarrow> ('m, upload_row) bb_op" where
  "createUpload env q expectedDeviceId =
     (if \<not> safe_file_name (rq_fileName q) then ethrow ''Invalid fileName: must be a plain file name''
      else (case declared_size env q of
        None \<Rightarrow> ethrow (''Invalid fileSize: must be a positive integer <= '' @ show_int (ue_maxUploadBytes env) @ '' bytes'')
      | Some declared \<Rightarrow> ebind (fresh_uuid (ue_uuid env)) (\<lambda>i.
          ebind (session_device (rq_sessionId q)) (\<lambda>owner.
            if (case expectedDeviceId of None \<Rightarrow> False | Some d \<Rightarrow> owner \<noteq> d)
            then ethrow (''Forbidden: device does not own session '' @ rq_sessionId q)
            else eseq (make_dir i) (create_upload \<lparr>up_id = i, up_session_id = rq_sessionId q, up_device_id = owner,
              up_file_name = rq_fileName q, up_file_size = declared, up_file_hash = rq_fileHash q, up_status = Up_Pending,
              up_progress = 0, up_storage = None, up_error = None\<rparr>)))))"

subsection \<open>Chunks\<close>

definition chunk_name :: "nat \<Rightarrow> string" where
  "chunk_name n = ''chunk-'' @ show_nat n"

definition is_chunk :: "string \<Rightarrow> bool" where
  "is_chunk f = str_starts_with f ''chunk-''"

text \<open>\<open>parseInt\<close> of the rest of the name.\<close>

definition chunk_index :: "string \<Rightarrow> nat" where
  "chunk_index f = parse_digits (takeWhile is_digit (drop 6 f))"

definition removeDir :: "string \<Rightarrow> ('m, unit) bb_op" where
  "removeDir i = equiet (bb_call (emodify (\<lambda>w. w\<lparr>b_dirs := jm_delete i (b_dirs w)\<rparr>)))"

definition readDir :: "string \<Rightarrow> ('m, (string \<times> byte list) list) bb_op" where
  "readDir i = bb_call (\<lambda>w. case jm_get (b_dirs w) i of None \<Rightarrow> (Inl ''ENOENT'', w) | Some d \<Rightarrow> (Inr d, w))"

definition writeFile :: "string \<Rightarrow> string \<Rightarrow> byte list \<Rightarrow> ('m, unit) bb_op" where
  "writeFile i f bytes = bb_call (\<lambda>w. case jm_get (b_dirs w) i of None \<Rightarrow> (Inl ''ENOENT'', w)
     | Some d \<Rightarrow> (Inr (), w\<lparr>b_dirs := jm_set i (jm_set f bytes d) (b_dirs w)\<rparr>))"

definition appendFile :: "string \<Rightarrow> string \<Rightarrow> byte list \<Rightarrow> ('m, unit) bb_op" where
  "appendFile i f bytes = bb_call (\<lambda>w. case jm_get (b_dirs w) i of None \<Rightarrow> (Inl ''ENOENT'', w)
     | Some d \<Rightarrow> (Inr (), w\<lparr>b_dirs := jm_set i (jm_set f ((case jm_get d f of None \<Rightarrow> [] | Some b \<Rightarrow> b) @ bytes) d) (b_dirs w)\<rparr>))"

definition bytes_on_disk :: "string \<Rightarrow> (string \<times> byte list) list \<Rightarrow> nat" where
  "bytes_on_disk except d = sum_list (map (\<lambda>(f, b). length b) (filter (\<lambda>(f, b). is_chunk f \<and> f \<noteq> except) d))"

definition owned_upload :: "string \<Rightarrow> string option \<Rightarrow> ('m, upload_row) bb_op" where
  "owned_upload i expectedDeviceId = ebind (getUpload i) (\<lambda>r. case r of
     None \<Rightarrow> ethrow (''Upload job not found: '' @ i)
   | Some u \<Rightarrow> if (case expectedDeviceId of None \<Rightarrow> False | Some d \<Rightarrow> up_device_id u \<noteq> d)
       then ethrow (''Forbidden: device does not own upload '' @ i) else ereturn u)"

text \<open>The checks, up to the point where the chunk may be written; a chunk over the budget fails the
  upload and removes its directory.\<close>

definition admit_chunk :: "string \<Rightarrow> byte list \<Rightarrow> int \<Rightarrow> string option \<Rightarrow> ('m, upload_row) bb_op" where
  "admit_chunk i chunk chunkNumber expectedDeviceId = ebind (owned_upload i expectedDeviceId) (\<lambda>u.
     if up_status u = Up_Complete then ethrow (''Upload '' @ i @ '' is already complete'')
     else if up_status u = Up_Failed then ethrow (''Upload '' @ i @ '' has failed'')
     else if chunkNumber < 0 \<or> MAX_SAFE_INTEGER < chunkNumber then ethrow ''Invalid chunkNumber: must be a non-negative integer''
     else ebind (readDir i) (\<lambda>d.
       if up_file_size u < int (bytes_on_disk (chunk_name (nat chunkNumber)) d + length chunk)
       then eseq (update_upload i (\<lambda>x. x\<lparr>up_status := Up_Failed, up_error := Some ''Upload exceeded declared fileSize''\<rparr>))
         (eseq (removeDir i) (ethrow (''Upload '' @ i @ '' exceeded its declared fileSize ('' @ show_int (up_file_size u) @ '' bytes)'')))
       else ereturn u))"

definition store_chunk :: "string \<Rightarrow> byte list \<Rightarrow> int \<Rightarrow> upload_row \<Rightarrow> ('m, unit) bb_op" where
  "store_chunk i chunk chunkNumber u =
     eseq (if up_status u = Up_Pending then eseq (update_upload i (\<lambda>x. x\<lparr>up_status := Up_Uploading\<rparr>)) (ereturn ()) else ereturn ())
     (eseq (writeFile i (chunk_name (nat chunkNumber)) chunk)
     (eseq (update_upload i (\<lambda>x. x\<lparr>up_progress := min (chunkNumber * 10 mod 100) 99\<rparr>)) (ereturn ())))"

definition processChunk :: "string \<Rightarrow> byte list \<Rightarrow> int \<Rightarrow> string option \<Rightarrow> ('m, unit) bb_op" where
  "processChunk i chunk chunkNumber expectedDeviceId =
     ebind (admit_chunk i chunk chunkNumber expectedDeviceId) (store_chunk i chunk chunkNumber)"

subsection \<open>Finalising\<close>

text \<open>The chunks are appended one by one to the combined file, each read as the directory then has it.\<close>

primrec combine :: "string \<Rightarrow> string \<Rightarrow> string list \<Rightarrow> ('m, unit) bb_op" where
  "combine i target [] = ereturn ()"
| "combine i target (f # fs) =
     ebind (readDir i) (\<lambda>d. case jm_get d f of
       None \<Rightarrow> ethrow ''ENOENT''
     | Some bytes \<Rightarrow> eseq (appendFile i target bytes) (combine i target fs))"

definition chunk_files :: "(string \<times> byte list) list \<Rightarrow> string list" where
  "chunk_files d = sort_key chunk_index (filter is_chunk (map fst d))"

definition uploadRaw :: "'m upload_env \<Rightarrow> upload_row \<Rightarrow> byte list \<Rightarrow> ('m, string) bb_op" where
  "uploadRaw env u bytes = ebind (fresh_uuid (ue_uuid env)) (\<lambda>i.
     eseq (bb_call (emodify (\<lambda>w. w\<lparr>b_files := b_files w @ [\<lparr>sf_id = i, sf_folder = ''recordings_raw'',
         sf_original_name = up_file_name u, sf_content = Some (ue_media env bytes)\<rparr>]\<rparr>)))
     (ereturn i))"

definition assemble :: "'m upload_env \<Rightarrow> upload_row \<Rightarrow> ('m, string) bb_op" where
  "assemble env u = (let i = up_id u; target = up_file_name u in
     ebind (readDir i) (\<lambda>d.
       eseq (writeFile i target [])
       (eseq (combine i target (chunk_files d))
       (ebind (readDir i) (\<lambda>e. let bytes = (case jm_get e target of None \<Rightarrow> [] | Some b \<Rightarrow> b) in
          if ue_sha256 env bytes \<noteq> up_file_hash u
          then ethrow (''Hash mismatch. Expected: '' @ up_file_hash u @ '', Got: '' @ ue_sha256 env bytes)
          else eseq (bb_call (ereturn ()))
            (if int (length bytes) \<noteq> up_file_size u 
             then ethrow (''Size mismatch. Declared: '' @ show_int (up_file_size u) @ '', Got: '' @ show_nat (length bytes))
             else uploadRaw env u bytes))))))"

definition finish_upload :: "'m upload_env \<Rightarrow> upload_row \<Rightarrow> ('m, string) bb_op" where
  "finish_upload env u = ebind (assemble env u) (\<lambda>fileId.
     eseq (update_upload (up_id u) (\<lambda>x. x\<lparr>up_status := Up_Complete, up_storage := Some fileId, up_progress := 100\<rparr>))
     (eseq (removeDir (up_id u))
     (eseq (ewhen (ue_hooks env \<and> up_session_id u \<noteq> []) (equiet (onRecordingComplete (up_session_id u) fileId)))
       (ereturn fileId))))"

definition finalizeUpload :: "'m upload_env \<Rightarrow> string \<Rightarrow> string option \<Rightarrow> ('m, string) bb_op" where
  "finalizeUpload env i expectedDeviceId = ebind (owned_upload i expectedDeviceId) (\<lambda>u.
     if up_status u \<noteq> Up_Uploading then ethrow (''Upload '' @ i @ '' is not in uploading state. Current status: '' @ upload_status_text (up_status u))
     else eseq (update_upload i (\<lambda>x. x\<lparr>up_status := Up_Processing\<rparr>))
       (ecatch (finish_upload env u) (\<lambda>e.
         eseq (update_upload i (\<lambda>x. x\<lparr>up_status := Up_Failed, up_error := or_null (Some e)\<rparr>)) (ethrow e))))"

end
