(* ===== verification/Redaction_Worker.thy ===== *)
theory Redaction_Worker
  imports Session_Controller
begin

section \<open>The redaction worker\<close>

text \<open>
  \<open>services/redaction-worker.ts\<close>: it makes the only variant of a recording that is served to
  the public, verifies it and writes it back. The media operations of \<open>redaction-ffmpeg.ts\<close>
  run \<open>ffmpeg\<close> and are a parameter (\<open>media\<close>) over an abstract type of media files; \<open>None\<close> is a
  process that fails. The content of a stored file is \<open>None\<close> when its path cannot be read. The
  scan sees the rows in the order of the table. A request to stop in the middle of a cycle, the
  temporary directory and the log are left out.
\<close>

subsection \<open>Probes\<close>

definition MAX_BLACK_LUMA :: nat where "MAX_BLACK_LUMA = 48"
definition MAX_SILENT_DB :: rat where "MAX_SILENT_DB = - 70"
definition DURATION_TOLERANCE_S :: rat where "DURATION_TOLERANCE_S = 3 / 2"
definition PROBE_EDGE_INSET_S :: rat where "PROBE_EDGE_INSET_S = 1 / 4"
definition AUDIO_PROBE_WINDOW_S :: rat where "AUDIO_PROBE_WINDOW_S = 1"
definition AUDIO_EDGE_MARGIN_S :: rat where "AUDIO_EDGE_MARGIN_S = 1 / 20"
definition EOF_GUARD_S :: rat where "EOF_GUARD_S = 1 / 10"

text \<open>\<open>t.toFixed(3)\<close>: the sign and the nearest number of milliseconds, a tie away from zero.\<close>

definition fixed3 :: "rat \<Rightarrow> bool \<times> int" where
  "fixed3 t = (t < 0, \<lfloor>\<bar>t\<bar> * 1000 + 1 / 2\<rfloor>)"

fun keep_new :: "(bool \<times> int) list \<Rightarrow> rat list \<Rightarrow> rat list" where
  "keep_new seen [] = []"
| "keep_new seen (t # ts) = (if fixed3 t \<in> set seen then keep_new seen ts else t # keep_new (fixed3 t # seen) ts)"

definition decodable_end :: "time_range \<Rightarrow> rat \<Rightarrow> rat" where
  "decodable_end r outDurationS = min (rg_end r) (outDurationS - EOF_GUARD_S)"

definition hiddenWindowProbes :: "time_range \<Rightarrow> rat \<Rightarrow> rat list" where
  "hiddenWindowProbes r outDurationS = (let e = decodable_end r outDurationS in
     if \<not> rg_start r < e then []
     else (let inset = min PROBE_EDGE_INSET_S ((e - rg_start r) / 4); first = rg_start r + inset; final = e - inset in
       keep_new [] [first, (first + final) / 2, final]))"

definition audioProbeWidthS :: "time_range \<Rightarrow> rat \<Rightarrow> rat \<Rightarrow> rat" where
  "audioProbeWidthS r atS outDurationS = (let e = decodable_end r outDurationS;
       halfInside = min (atS - rg_start r) (e - atS) - AUDIO_EDGE_MARGIN_S in
     if halfInside \<le> 0 then 0 else min AUDIO_PROBE_WINDOW_S (2 * halfInside))"

subsection \<open>Media\<close>

record media_probe =
  mp_durationS :: rat
  mp_hasAudio :: bool
  mp_hasVideo :: bool

datatype decibels = Minus_Infinity | Decibels rat

primrec audible :: "decibels \<Rightarrow> bool" where
  "audible Minus_Infinity = False"
| "audible (Decibels d) = (MAX_SILENT_DB < d)"

record 'm media =
  md_available :: bool
  md_probe :: "'m \<Rightarrow> media_probe option"
  md_copy :: "'m \<Rightarrow> 'm option"
  md_blank :: "'m \<Rightarrow> time_range list \<Rightarrow> media_probe \<Rightarrow> 'm option"
  md_frameMaxLuma :: "'m \<Rightarrow> rat \<Rightarrow> nat option"
  md_meanVolumeDb :: "'m \<Rightarrow> rat \<Rightarrow> rat \<Rightarrow> decibels option"

record 'm worker =
  wk_media :: "'m media"
  wk_uuid :: "nat \<Rightarrow> string"
  wk_leadPadS :: "rat option"
  wk_trailPadS :: "rat option"
  wk_visibilityTimeoutMs :: "msec option"
  wk_maxAttempts :: "nat option"

definition run_media :: "string \<Rightarrow> 'a option \<Rightarrow> ('m, 'a) bb_op" where
  "run_media what r = (case r of None \<Rightarrow> ethrow (what @ '' failed'') | Some x \<Rightarrow> ereturn x)"

definition blank :: "'m media \<Rightarrow> 'm \<Rightarrow> time_range list \<Rightarrow> media_probe \<Rightarrow> ('m, 'm) bb_op" where
  "blank md raw hidden p =
     (if hidden = [] then ethrow ''blank() called with no hidden ranges'' else run_media ''ffmpeg'' (md_blank md raw hidden p))"

subsection \<open>Verification of the output\<close>

definition verify_frame :: "'m media \<Rightarrow> 'm \<Rightarrow> media_probe \<Rightarrow> rat \<Rightarrow> ('m, unit) bb_op" where
  "verify_frame md out p atS =
     (if \<not> mp_hasVideo p then ereturn ()
      else ebind (run_media ''frame'' (md_frameMaxLuma md out atS)) (\<lambda>luma.
        if MAX_BLACK_LUMA < luma then ethrow ''verification failed: frame inside a hidden window is not black'' else ereturn ()))"

text \<open>Whether the probe could measure the audio.\<close>

definition verify_audio :: "'m media \<Rightarrow> 'm \<Rightarrow> media_probe \<Rightarrow> time_range \<Rightarrow> rat \<Rightarrow> rat \<Rightarrow> ('m, bool) bb_op" where
  "verify_audio md out p r outDurationS atS = (let width = audioProbeWidthS r atS outDurationS in
     if \<not> mp_hasAudio p \<or> \<not> 0 < width then ereturn False
     else ebind (run_media ''volumedetect'' (md_meanVolumeDb md out atS width)) (\<lambda>db.
       if audible db then ethrow ''verification failed: audio inside a hidden window is not silent'' else ereturn True))"

primrec verify_probes :: "'m media \<Rightarrow> 'm \<Rightarrow> media_probe \<Rightarrow> time_range \<Rightarrow> rat \<Rightarrow> bool \<Rightarrow> rat list \<Rightarrow> ('m, bool) bb_op" where
  "verify_probes md out p r outDurationS measured [] = ereturn measured"
| "verify_probes md out p r outDurationS measured (t # ts) =
     eseq (verify_frame md out p t)
       (ebind (verify_audio md out p r outDurationS t) (\<lambda>m. verify_probes md out p r outDurationS (measured \<or> m) ts))"

definition verify_window :: "'m media \<Rightarrow> 'm \<Rightarrow> media_probe \<Rightarrow> rat \<Rightarrow> time_range \<Rightarrow> ('m, unit) bb_op" where
  "verify_window md out p outDurationS r = (let probes = hiddenWindowProbes r outDurationS in
     ebind (verify_probes md out p r outDurationS False probes) (\<lambda>measured.
       if mp_hasAudio p \<and> probes \<noteq> [] \<and> \<not> measured
       then ethrow ''verification failed: hidden window is too short to verify audio silence'' else ereturn ()))"

primrec verify_windows :: "'m media \<Rightarrow> 'm \<Rightarrow> media_probe \<Rightarrow> rat \<Rightarrow> time_range list \<Rightarrow> ('m, unit) bb_op" where
  "verify_windows md out p outDurationS [] = ereturn ()"
| "verify_windows md out p outDurationS (r # rs) =
     eseq (verify_window md out p outDurationS r) (verify_windows md out p outDurationS rs)"

definition verifyOutput :: "'m media \<Rightarrow> 'm \<Rightarrow> time_range list \<Rightarrow> media_probe \<Rightarrow> ('m, unit) bb_op" where
  "verifyOutput md out hidden rawProbe =
     ebind (run_media ''ffprobe'' (md_probe md out)) (\<lambda>outProbe.
       if DURATION_TOLERANCE_S < \<bar>mp_durationS outProbe - mp_durationS rawProbe\<bar> then ethrow ''verification failed: duration drifted''
       else if mp_hasAudio rawProbe \<and> \<not> mp_hasAudio outProbe then ethrow ''verification failed: audio stream lost in redaction''
       else verify_windows md out rawProbe (mp_durationS outProbe) hidden)"

subsection \<open>Publishing\<close>

definition getFileById :: "string \<Rightarrow> ('m, 'm stored_file option) bb_op" where
  "getFileById i = bb_call (eget (\<lambda>w. List.find (\<lambda>f. sf_id f = i) (b_files w)))"

definition publish :: "'m worker \<Rightarrow> string \<Rightarrow> 'm \<Rightarrow> ('m, string) bb_op" where
  "publish wk recordId out = ebind (fresh_uuid (wk_uuid wk)) (\<lambda>i.
     eseq (bb_call (emodify (\<lambda>w. w\<lparr>b_files := b_files w @ [\<lparr>sf_id = i, sf_folder = ''recordings'',
         sf_original_name = ''recording-'' @ recordId @ ''-public.mp4'', sf_content = Some out\<rparr>]\<rparr>)))
     (ereturn i))"

definition public_attachment :: "string \<Rightarrow> string \<Rightarrow> attached_file" where
  "public_attachment recordId i = \<lparr>af_id = i, af_path = ''/api/v1/storage/files/'' @ i,
     af_original_name = ''recording-'' @ recordId @ ''-public.mp4'',
     af_description = ''Session recording (redacted public variant)'', af_category = ''Recording''\<rparr>"

definition completed_capture :: "string option \<Rightarrow> session_capture \<Rightarrow> session_capture" where
  "completed_capture publicFileId c = (let d = c\<lparr>cap_redaction_status := Some ''complete''\<rparr> in
     case publicFileId of None \<Rightarrow> d | Some i \<Rightarrow> d\<lparr>cap_public_file := Some i\<rparr>)"

definition writeBack :: "string \<Rightarrow> string option \<Rightarrow> ('m, unit) bb_op" where
  "writeBack recordId publicFileId =
     eseq (mergeCapture recordId (completed_capture publicFileId) (\<lambda>c. cap_redaction_status c \<noteq> Some ''complete'')
       (map_option (public_attachment recordId) publicFileId)) (ereturn ())"

definition ship :: "'m worker \<Rightarrow> string \<Rightarrow> 'm \<Rightarrow> ('m, unit) bb_op" where
  "ship wk recordId out = ebind (publish wk recordId out) (\<lambda>i. writeBack recordId (Some i))"

subsection \<open>Processing a session\<close>

datatype outcome = Published | Was_Held | Has_Failed

definition still_pending :: "session_capture \<Rightarrow> bool" where
  "still_pending c = (cap_redaction_status c = Some ''pending'')"

definition trackHold :: "'m worker \<Rightarrow> string \<Rightarrow> session_capture \<Rightarrow> ('m, unit) bb_op" where
  "trackHold wk recordId c = ebind bb_now (\<lambda>now. case cap_redaction_pending_since c of
     None \<Rightarrow> eseq (mergeCapture recordId (\<lambda>x. x\<lparr>cap_redaction_pending_since := Some now\<rparr>) still_pending None) (ereturn ())
   | Some since \<Rightarrow>
       if (case wk_visibilityTimeoutMs wk of None \<Rightarrow> 30 * 60 * 1000 | Some t \<Rightarrow> t) < now - since
       then eseq (mergeCapture recordId (\<lambda>x. x\<lparr>cap_redaction_status := Some ''awaiting_visibility''\<rparr>) still_pending None) (ereturn ())
       else ereturn ())"

definition failed_capture :: "nat \<Rightarrow> nat \<Rightarrow> session_capture \<Rightarrow> session_capture" where
  "failed_capture maxAttempts attempts c = (let d = c\<lparr>cap_redaction_attempts := attempts\<rparr> in
     if maxAttempts \<le> attempts then d\<lparr>cap_redaction_status := Some ''awaiting_visibility''\<rparr> else d)"

definition recordFailure :: "'m worker \<Rightarrow> string \<Rightarrow> session_capture \<Rightarrow> ('m, unit) bb_op" where
  "recordFailure wk recordId c =
     eseq (mergeCapture recordId (failed_capture (case wk_maxAttempts wk of None \<Rightarrow> 5 | Some n \<Rightarrow> n) (cap_redaction_attempts c + 1))
       still_pending None) (ereturn ())"

definition visibility_of :: "'m worker \<Rightarrow> session_capture \<Rightarrow> media_probe \<Rightarrow> visibility_decision" where
  "visibility_of wk c p = resolveVisibility c
     \<lparr>vo_leadPadS = wk_leadPadS wk, vo_trailPadS = wk_trailPadS wk, vo_mediaDurationS = Some (mp_durationS p)\<rparr>"

text \<open>The encoded variant, handed on only when it passes the verification.\<close>

definition verified_variant :: "'m media \<Rightarrow> 'm \<Rightarrow> media_probe \<Rightarrow> time_range list option \<Rightarrow> ('m, 'm) bb_op" where
  "verified_variant md raw p hidden =
     ebind (case hidden of None \<Rightarrow> run_media ''ffmpeg'' (md_copy md raw) | Some hs \<Rightarrow> blank md raw hs p) (\<lambda>out.
       eseq (verifyOutput md out (case hidden of None \<Rightarrow> [] | Some hs \<Rightarrow> hs) p) (ereturn out))"

definition process_raw :: "'m worker \<Rightarrow> string \<Rightarrow> session_capture \<Rightarrow> 'm \<Rightarrow> ('m, outcome) bb_op" where
  "process_raw wk recordId c raw =
     ebind (run_media ''ffprobe'' (md_probe (wk_media wk) raw)) (\<lambda>p. case visibility_of wk c p of
       Hold _ \<Rightarrow> eseq (trackHold wk recordId c) (ereturn Was_Held)
     | None_Public _ \<Rightarrow> eseq (writeBack recordId None) (ereturn Published)
     | All_Public \<Rightarrow> ebind (verified_variant (wk_media wk) raw p None) (\<lambda>out. eseq (ship wk recordId out) (ereturn Published))
     | Partial _ hidden \<Rightarrow>
         ebind (verified_variant (wk_media wk) raw p (Some hidden)) (\<lambda>out. eseq (ship wk recordId out) (ereturn Published)))"

definition processSession :: "'m worker \<Rightarrow> string \<Rightarrow> session_capture \<Rightarrow> string \<Rightarrow> ('m, outcome) bb_op" where
  "processSession wk recordId c avFile =
     ebind (getFileById avFile) (\<lambda>f. case f of
       None \<Rightarrow> ereturn Has_Failed
     | Some file \<Rightarrow> (case sf_content file of None \<Rightarrow> ereturn Has_Failed | Some raw \<Rightarrow> process_raw wk recordId c raw))"

subsection \<open>A cycle\<close>

definition TERMINAL_REDACTION_STATUS :: "string list" where
  "TERMINAL_REDACTION_STATUS = [''complete'', ''awaiting_visibility'']"

definition may_be_pending :: "session_record \<Rightarrow> bool" where
  "may_be_pending sr = (sr_type sr = ''session'' \<and>
     (case sr_row_status sr of None \<Rightarrow> True | Some s \<Rightarrow> s \<notin> set TERMINAL_REDACTION_STATUS))"

definition scanPendingSessionIds :: "('m, string list) bb_op" where
  "scanPendingSessionIds = bb_call (eget (\<lambda>w. map fst (filter (\<lambda>(i, sr). may_be_pending sr) (b_records w))))"

definition pending_av :: "session_record option \<Rightarrow> (session_capture \<times> string) option" where
  "pending_av r = (case r of None \<Rightarrow> None | Some sr \<Rightarrow> (case sr_capture sr of None \<Rightarrow> None | Some c \<Rightarrow>
     (case or_null (cap_av_file c) of None \<Rightarrow> None | Some f \<Rightarrow>
       if cap_redaction_status c = Some ''pending'' then Some (c, f) else None)))"

definition attempt_session :: "'m worker \<Rightarrow> string \<Rightarrow> session_capture \<Rightarrow> string \<Rightarrow> ('m, outcome option) bb_op" where
  "attempt_session wk i c avFile = ebind (ecatch (processSession wk i c avFile) (\<lambda>_. ereturn Has_Failed)) (\<lambda>result.
     eseq (ewhen (result = Has_Failed) (equiet (recordFailure wk i c))) (ereturn (Some result)))"

text \<open>One session of the cycle: its outcome, none when it is skipped.\<close>

definition cycle_session :: "'m worker \<Rightarrow> string \<Rightarrow> ('m, outcome option) bb_op" where
  "cycle_session wk i =
     ebind (ecatch (getRecord_session i) (\<lambda>_. ereturn None)) (\<lambda>r. case pending_av r of
       None \<Rightarrow> ereturn None
     | Some (c, f) \<Rightarrow> attempt_session wk i c f)"

primrec cycle_sessions :: "'m worker \<Rightarrow> string list \<Rightarrow> ('m, outcome list) bb_op" where
  "cycle_sessions wk [] = ereturn []"
| "cycle_sessions wk (i # is) = ebind (cycle_session wk i) (\<lambda>r.
     ebind (cycle_sessions wk is) (\<lambda>rs. ereturn (case r of None \<Rightarrow> rs | Some x \<Rightarrow> x # rs)))"

definition runOnce :: "'m worker \<Rightarrow> ('m, outcome list) bb_op" where
  "runOnce wk =
     (if \<not> md_available (wk_media wk) then ereturn []
      else ebind (ecatch scanPendingSessionIds (\<lambda>_. ereturn [])) (cycle_sessions wk))"

end
