(* ===== verification/Redaction_Theorems.thy ===== *)
theory Redaction_Theorems
  imports Redaction_Worker
begin

section \<open>Properties of the redaction worker\<close>

text \<open>
  The worker publishes only variants that it has verified against the decision for the very
  capture that they are published for, and leaves every capture alone that is not pending.
\<close>

subsection \<open>What the verification establishes\<close>

definition black_at :: "'m media \<Rightarrow> 'm \<Rightarrow> media_probe \<Rightarrow> rat \<Rightarrow> bool" where
  "black_at md out p t = (\<not> mp_hasVideo p \<or>
     (case md_frameMaxLuma md out t of None \<Rightarrow> False | Some l \<Rightarrow> l \<le> MAX_BLACK_LUMA))"

definition silent_around :: "'m media \<Rightarrow> 'm \<Rightarrow> media_probe \<Rightarrow> rat \<Rightarrow> rat \<Rightarrow> bool" where
  "silent_around md out p t width = (\<not> mp_hasAudio p \<or> \<not> 0 < width \<or>
     (case md_meanVolumeDb md out t width of None \<Rightarrow> False | Some db \<Rightarrow> \<not> audible db))"

definition window_clear :: "'m media \<Rightarrow> 'm \<Rightarrow> media_probe \<Rightarrow> rat \<Rightarrow> time_range \<Rightarrow> bool" where
  "window_clear md out p outDurationS r = (let probes = hiddenWindowProbes r outDurationS in
     list_all (\<lambda>t. black_at md out p t \<and> silent_around md out p t (audioProbeWidthS r t outDurationS)) probes \<and>
     (\<not> mp_hasAudio p \<or> probes = [] \<or> list_ex (\<lambda>t. 0 < audioProbeWidthS r t outDurationS) probes))"

definition variant_clear :: "'m media \<Rightarrow> 'm \<Rightarrow> media_probe \<Rightarrow> time_range list \<Rightarrow> bool" where
  "variant_clear md out p hidden = (case md_probe md out of None \<Rightarrow> False | Some q \<Rightarrow>
     \<bar>mp_durationS q - mp_durationS p\<bar> \<le> DURATION_TOLERANCE_S \<and> (\<not> mp_hasAudio p \<or> mp_hasAudio q) \<and>
     list_all (window_clear md out p (mp_durationS q)) hidden)"

lemma run_media_result: "run_media what x w = (Inr a, w') \<longleftrightarrow> x = Some a \<and> w' = w"
  by (auto simp: run_media_def ethrow_def ereturn_def split: option.split)

lemma ebind_result: "ebind m f w = (Inr b, w') \<longleftrightarrow> (\<exists>a v. m w = (Inr a, v) \<and> f a v = (Inr b, w'))"
  by (auto simp: ebind_def split: prod.split sum.split)

lemma eseq_result: "eseq m n w = (Inr b, w') \<longleftrightarrow> (\<exists>a v. m w = (Inr a, v) \<and> n v = (Inr b, w'))"
  by (simp add: eseq_def ebind_result)

lemma ereturn_result: "ereturn a w = (Inr b, w') \<longleftrightarrow> a = b \<and> w' = w"
  by (auto simp: ereturn_def)

lemma ethrow_result: "ethrow e w \<noteq> (Inr b, w')"
  by (simp add: ethrow_def)

lemmas em_results = run_media_result ebind_result eseq_result ereturn_result ethrow_result

lemma verify_frame_result: "verify_frame md out p t w = (Inr u, w') \<Longrightarrow> w' = w \<and> black_at md out p t"
  by (auto simp: verify_frame_def black_at_def em_results split: if_splits)

lemma verify_audio_result: "verify_audio md out p r d t w = (Inr m, w') \<Longrightarrow>
    w' = w \<and> silent_around md out p t (audioProbeWidthS r t d) \<and> (m \<longrightarrow> 0 < audioProbeWidthS r t d)"
  by (auto simp: verify_audio_def silent_around_def em_results Let_def split: if_splits)

lemma verify_probes_result: "verify_probes md out p r d m0 ts w = (Inr m, w') \<Longrightarrow>
    w' = w \<and> list_all (\<lambda>t. black_at md out p t \<and> silent_around md out p t (audioProbeWidthS r t d)) ts \<and>
    (m \<longrightarrow> m0 \<or> list_ex (\<lambda>t. 0 < audioProbeWidthS r t d) ts)"
proof (induction ts arbitrary: m0 w)
  case (Cons t ts)
  then obtain x v1 v2 where a: "verify_frame md out p t w = (Inr (), v1)" "verify_audio md out p r d t v1 = (Inr x, v2)"
    "verify_probes md out p r d (m0 \<or> x) ts v2 = (Inr m, w')"
    by (auto simp: em_results)
  then show ?case using verify_frame_result [OF a(1)] verify_audio_result [OF a(2)] Cons.IH [OF a(3)] by auto
qed (simp add: em_results)

lemma verify_window_result: "verify_window md out p d r w = (Inr u, w') \<Longrightarrow> w' = w \<and> window_clear md out p d r"
  by (auto simp: verify_window_def window_clear_def em_results Let_def split: if_splits dest!: verify_probes_result)

lemma verify_windows_result: "verify_windows md out p d rs w = (Inr u, w') \<Longrightarrow> w' = w \<and> list_all (window_clear md out p d) rs"
  by (induction rs arbitrary: w) (auto simp: em_results dest!: verify_window_result)

lemma verifyOutput_result: "verifyOutput md out hidden p w = (Inr u, w') \<Longrightarrow> w' = w \<and> variant_clear md out p hidden"
  by (auto simp: verifyOutput_def variant_clear_def em_results split: if_splits dest!: verify_windows_result)

lemma blank_result: "blank md raw hs p w = (Inr out, w') \<Longrightarrow> w' = w \<and> hs \<noteq> [] \<and> md_blank md raw hs p = Some out"
  by (auto simp: blank_def em_results split: if_splits)

lemma verified_variant_result: "verified_variant md raw p hidden w = (Inr out, w') \<Longrightarrow>
    w' = w \<and> variant_clear md out p (case hidden of None \<Rightarrow> [] | Some hs \<Rightarrow> hs)"
  by (auto simp: verified_variant_def em_results split: option.splits dest!: verifyOutput_result blank_result)

lemma pure_verify:
  "snd (verify_frame md out p t w) = w" "snd (verify_audio md out p r d t w) = w"
  by (auto simp: verify_frame_def verify_audio_def run_media_def em_defs Let_def split: option.split)

lemma pure_verify_probes: "snd (verify_probes md out p r d m ts w) = w"
proof (induction ts arbitrary: m)
  case (Cons t ts)
  then show ?case using pure_verify(1) [of md out p t w] pure_verify(2) [of md out p r d t w]
    by (auto simp: em_defs split: prod.split sum.split)
qed (simp add: em_defs)

lemma pure_verify_windows: "snd (verify_windows md out p d rs w) = w"
proof (induction rs)
  case (Cons r rs)
  then show ?case using pure_verify_probes [of md out p r d False "hiddenWindowProbes r d" w]
    by (auto simp: verify_window_def em_defs Let_def split: prod.split sum.split)
qed (simp add: em_defs)

lemma pure_verifyOutput: "snd (verifyOutput md out hidden p w) = w"
  by (simp add: verifyOutput_def run_media_def ebind_def ereturn_def ethrow_def pure_verify_windows split: option.split)

lemma pure_bind: "snd (m w) = w \<Longrightarrow> (\<And>a. snd (f a w) = w) \<Longrightarrow> snd (ebind m f w) = w"
  by (cases "m w") (auto simp: ebind_def split: sum.split)

lemma pure_variant: "snd (verified_variant md raw p hidden w) = w"
  unfolding verified_variant_def eseq_def blank_def
  by (intro pure_bind pure_verifyOutput) (auto simp: run_media_def ereturn_def ethrow_def split: option.split)

subsection \<open>What a merge of the capture changes\<close>

definition capture_of :: "string \<Rightarrow> 'm bb_world \<Rightarrow> session_capture" where
  "capture_of rid w = (case jm_get (b_records w) rid of None \<Rightarrow> empty_capture
     | Some sr \<Rightarrow> (case sr_capture sr of None \<Rightarrow> empty_capture | Some c \<Rightarrow> c))"

lemma merge_result:
  assumes "mergeCapture rid patch pre att w = (r, w')"
  obtains (same) fs where "w' = w\<lparr>faults := fs\<rparr>"
  | (merged) fs sr where "jm_get (b_records w) rid = Some sr" "pre (capture_of rid w)"
    "w' = w\<lparr>faults := fs, b_records := jm_set rid (sr\<lparr>sr_capture := Some (patch (capture_of rid w)),
       sr_row_status := cap_redaction_status (patch (capture_of rid w)), sr_attached := append_attachment att (sr_attached sr)\<rparr>) (b_records w)\<rparr>"
proof -
  have w: "w = w\<lparr>faults := faults w\<rparr>" by simp
  from assms show thesis using that w
    unfolding mergeCapture_def getRecord_session_def eseq_def ebind_def Let_def
    by (auto simp: ereturn_def ethrow_def eget_def emodify_def capture_of_def split: prod.splits sum.splits option.splits if_splits
        elim!: bb_call_cases)
qed

text \<open>What a writer of the redaction state cannot touch: the declarations of the capture.\<close>

definition declarations :: "session_capture \<Rightarrow> session_capture" where
  "declarations c = c\<lparr>cap_public_file := None, cap_redaction_status := None, cap_redaction_attempts := 0,
     cap_redaction_pending_since := None\<rparr>"

lemma visibility_declared:
  assumes "declarations c = declarations d"
  shows "visibility_of wk c p = visibility_of wk d p" and "cap_av_file c = cap_av_file d"
  using assms by (cases c; cases d; simp add: declarations_def visibility_of_def resolveVisibility_def media_duration_def declared_duration_def
      split: option.split list.split)+

subsection \<open>Only verified variants are published\<close>

text \<open>A variant that agrees with the decision for a capture of a raw file with the given probe.\<close>

definition agrees :: "'m worker \<Rightarrow> session_capture \<Rightarrow> media_probe \<Rightarrow> 'm \<Rightarrow> bool" where
  "agrees wk c p out = (case visibility_of wk c p of
     Hold _ \<Rightarrow> False
   | None_Public _ \<Rightarrow> False
   | All_Public \<Rightarrow> variant_clear (wk_media wk) out p []
   | Partial _ hidden \<Rightarrow> variant_clear (wk_media wk) out p hidden)"

definition stored :: "string \<Rightarrow> 'm \<Rightarrow> 'm bb_world \<Rightarrow> bool" where
  "stored i m w = (\<exists>f. f \<in> set (b_files w) \<and> sf_id f = i \<and> sf_content f = Some m)"

definition vetted :: "'m worker \<Rightarrow> string \<Rightarrow> string \<Rightarrow> 'm bb_world \<Rightarrow> bool" where
  "vetted wk rid i w = (\<exists>av raw p out. cap_av_file (capture_of rid w) = Some av \<and> stored av raw w \<and>
     md_probe (wk_media wk) raw = Some p \<and> stored i out w \<and> agrees wk (capture_of rid w) p out)"

definition publishes_vetted :: "'m worker \<Rightarrow> 'm bb_world \<Rightarrow> 'm bb_world \<Rightarrow> bool" where
  "publishes_vetted wk w w' = (set (b_files w) \<subseteq> set (b_files w') \<and>
     (\<forall>rid. declarations (capture_of rid w') = declarations (capture_of rid w)) \<and>
     (\<forall>rid i. cap_public_file (capture_of rid w') = Some i \<longrightarrow> cap_public_file (capture_of rid w) = Some i \<or> vetted wk rid i w'))"

lemma stored_mono: "stored i m w \<Longrightarrow> set (b_files w) \<subseteq> set (b_files w') \<Longrightarrow> stored i m w'"
  by (auto simp: stored_def)

lemma agrees_declared: "declarations c = declarations d \<Longrightarrow> agrees wk c p out = agrees wk d p out"
  using visibility_declared(1) [of c d wk p] by (simp add: agrees_def)

lemma vetted_mono:
  assumes "vetted wk rid i w" and "set (b_files w) \<subseteq> set (b_files w')"
    and "declarations (capture_of rid w') = declarations (capture_of rid w)"
  shows "vetted wk rid i w'"
  using assms(1) stored_mono [OF _ assms(2)] agrees_declared [OF assms(3)] visibility_declared [OF assms(3)]
  unfolding vetted_def by metis

interpretation vetting: bb_frame "publishes_vetted wk" for wk
proof unfold_locales
  show "publishes_vetted wk w w" for w :: "'a bb_world" by (simp add: publishes_vetted_def)
  show "publishes_vetted wk s u" if "publishes_vetted wk s t" "publishes_vetted wk t u" for s t u :: "'a bb_world"
    using that vetted_mono [of wk _ _ t u] unfolding publishes_vetted_def by (metis subset_trans)
qed (simp_all add: publishes_vetted_def capture_of_def)

lemma capture_of_merged [simp]: "capture_of j (w\<lparr>faults := fs, b_records := jm_set rid (sr\<lparr>sr_capture := Some c,
    sr_row_status := st, sr_attached := fs'\<rparr>) rs\<rparr>) = (if j = rid then c else capture_of j (w\<lparr>b_records := rs\<rparr>))"
  by (simp add: capture_of_def jm_get_set)

lemma capture_of_records [simp]: "capture_of j (w\<lparr>b_records := b_records w\<rparr>) = capture_of j w"
  "capture_of j (w\<lparr>faults := fs\<rparr>) = capture_of j w"
  by (simp_all add: capture_of_def)

lemma vetting_merge:
  assumes "\<And>c. declarations (patch c) = declarations c" and "\<And>c. cap_public_file (patch c) = cap_public_file c"
  shows "em_rel (publishes_vetted wk) (mergeCapture rid patch pre att :: ('a, session_capture option) bb_op)"
proof (rule em_relI)
  fix w :: "'a bb_world"
  obtain r w' where m: "mergeCapture rid patch pre att w = (r, w')" by fastforce
  from m have "publishes_vetted wk w w'"
    by (cases rule: merge_result) (use assms in \<open>auto simp: publishes_vetted_def\<close>)
  then show "publishes_vetted wk w (snd (mergeCapture rid patch pre att w))" by (simp add: m)
qed

lemma vetting_hold: "em_rel (publishes_vetted wk) (trackHold v rid c)"
  unfolding trackHold_def
  by (auto intro!: vetting.bb_intros vetting_merge simp: declarations_def split: option.split)

lemma vetting_failure: "em_rel (publishes_vetted wk) (recordFailure v rid c)"
  unfolding recordFailure_def
  by (auto intro!: vetting.bb_intros vetting_merge simp: declarations_def failed_capture_def Let_def)

lemma vetting_nothing: "em_rel (publishes_vetted wk) (writeBack rid None)"
  unfolding writeBack_def
  by (auto intro!: vetting.bb_intros vetting_merge simp: declarations_def completed_capture_def Let_def)

text \<open>Storing and writing back a variant that agrees with the capture.\<close>

lemma vetting_ship:
  assumes "cap_av_file (capture_of rid w) = Some av" and "stored av raw w" and "md_probe (wk_media wk) raw = Some p"
    and "agrees wk (capture_of rid w) p out"
  shows "publishes_vetted wk w (snd (ship wk rid out w))"
proof -
  obtain r w2 where p2: "publish wk rid out w = (r, w2)" by fastforce
  have files: "set (b_files w) \<subseteq> set (b_files w2)" and recs: "b_records w2 = b_records w"
    and new: "\<And>i. r = Inr i \<Longrightarrow> stored i out w2"
    using p2 by (auto simp: publish_def fresh_uuid_def stored_def eseq_def ebind_def emodify_def ereturn_def
        split: prod.splits sum.splits elim!: bb_call_cases)
  have same: "capture_of j w2 = capture_of j w" for j by (simp add: capture_of_def recs)
  have rel2: "publishes_vetted wk w w2" by (simp add: publishes_vetted_def files same)
  show ?thesis
  proof (cases r)
    case (Inl e)
    then show ?thesis using rel2 p2 by (simp add: ship_def ebind_def)
  next
    case (Inr i)
    obtain x w3 where m: "mergeCapture rid (completed_capture (Some i)) (\<lambda>c. cap_redaction_status c \<noteq> Some ''complete'')
        (map_option (public_attachment rid) (Some i)) w2 = (x, w3)" by fastforce
    have out: "snd (ship wk rid out w) = w3"
      using p2 Inr m by (simp add: ship_def writeBack_def eseq_def ebind_def ereturn_def split: sum.split)
    have patch: "declarations (completed_capture (Some i) c) = declarations c" "cap_public_file (completed_capture (Some i) c) = Some i" for c
      by (simp_all add: completed_capture_def declarations_def)
    from m have "publishes_vetted wk w2 w3"
    proof (cases rule: merge_result)
      case (merged fs sr)
      have f: "b_files w3 = b_files w2" using merged by simp
      have d: "declarations (capture_of j w3) = declarations (capture_of j w2)" for j
        using merged(3) by (simp add: patch)
      have "stored av raw w2" "stored i out w2" "cap_av_file (capture_of rid w2) = Some av" "agrees wk (capture_of rid w2) p out"
        using stored_mono [OF assms(2) files] new Inr assms(1,4) same by simp_all
      then have "vetted wk rid i w2" using assms(3) unfolding vetted_def by blast
      then have "vetted wk rid i w3" using vetted_mono [of wk rid i w2 w3] f d by simp
      moreover have "cap_public_file (capture_of j w3) = (if j = rid then Some i else cap_public_file (capture_of j w2))" for j
        using merged(3) by (simp add: patch)
      ultimately show ?thesis using f d by (simp add: publishes_vetted_def)
    qed (simp add: publishes_vetted_def)
    then show ?thesis using rel2 out vetting.frame_trans by blast
  qed
qed

lemma vetting_variant:
  assumes "declarations (capture_of rid w) = declarations c" and "cap_av_file c = Some av" and "stored av raw w"
    and "md_probe (wk_media wk) raw = Some p"
    and "\<And>out. variant_clear (wk_media wk) out p (case hidden of None \<Rightarrow> [] | Some hs \<Rightarrow> hs) \<Longrightarrow> agrees wk c p out"
  shows "publishes_vetted wk w (snd (ebind (verified_variant (wk_media wk) raw p hidden) (\<lambda>out. eseq (ship wk rid out) (ereturn Published)) w))"
proof -
  obtain y where v: "verified_variant (wk_media wk) raw p hidden w = (y, w)"
    using pure_variant [of "wk_media wk" raw p hidden w] by (metis prod.collapse)
  show ?thesis
  proof (cases y)
    case (Inl e)
    then show ?thesis using v by (simp add: ebind_def vetting.frame_refl)
  next
    case (Inr out)
    then have "agrees wk c p out" using verified_variant_result [of "wk_media wk" raw p hidden w out w] v assms(5) by simp
    then have "agrees wk (capture_of rid w) p out" by (simp add: agrees_declared [OF assms(1)])
    then have "publishes_vetted wk w (snd (ship wk rid out w))"
      using vetting_ship [of rid w av raw wk p out] assms(3,4) visibility_declared [OF assms(1)] assms(2) by simp
    moreover have "snd (eseq (ship wk rid out) (ereturn Published) w) = snd (ship wk rid out w)"
      by (simp add: eseq_def ebind_def ereturn_def split: prod.split sum.split)
    ultimately show ?thesis using v Inr by (simp add: ebind_def)
  qed
qed

lemma vetting_raw:
  assumes "declarations (capture_of rid w) = declarations c" and "cap_av_file c = Some av" and "stored av raw w"
  shows "publishes_vetted wk w (snd (process_raw wk rid c raw w))"
proof (cases "md_probe (wk_media wk) raw")
  case None
  then show ?thesis by (simp add: process_raw_def run_media_def em_defs vetting.frame_refl)
next
  case (Some p)
  have start: "process_raw wk rid c raw w = (case visibility_of wk c p of
       Hold _ \<Rightarrow> eseq (trackHold wk rid c) (ereturn Was_Held)
     | None_Public _ \<Rightarrow> eseq (writeBack rid None) (ereturn Published)
     | All_Public \<Rightarrow> ebind (verified_variant (wk_media wk) raw p None) (\<lambda>out. eseq (ship wk rid out) (ereturn Published))
     | Partial _ hidden \<Rightarrow>
         ebind (verified_variant (wk_media wk) raw p (Some hidden)) (\<lambda>out. eseq (ship wk rid out) (ereturn Published))) w"
    by (simp add: process_raw_def run_media_def Some ebind_def ereturn_def)
  have "em_rel (publishes_vetted wk) (eseq (trackHold wk rid c) (ereturn Was_Held))"
    "em_rel (publishes_vetted wk) (eseq (writeBack rid None) (ereturn Published))"
    by (intro vetting.bb_intros vetting_hold vetting_nothing)+
  then show ?thesis unfolding start
    using vetting_variant [OF assms Some, of None] vetting_variant [OF assms Some, of "Some hidden" for hidden]
    by (auto simp: agrees_def em_relD split: visibility_decision.split)
qed

lemma vetting_process:
  assumes "declarations (capture_of rid w) = declarations c" and "cap_av_file c = Some av"
  shows "publishes_vetted wk w (snd (processSession wk rid c av w))"
proof -
  obtain r w2 where g: "getFileById av w = (r, w2)" by fastforce
  have "(\<exists>fs. w2 = w\<lparr>faults := fs\<rparr>) \<and> (\<forall>x. r = Inr (Some x) \<longrightarrow> sf_id x = av \<and> x \<in> set (b_files w))"
    using g by (auto simp: getFileById_def eget_def find_Some_iff elim!: bb_call_cases)
  then obtain fs where w2: "w2 = w\<lparr>faults := fs\<rparr>" and f: "\<And>x. r = Inr (Some x) \<Longrightarrow> sf_id x = av \<and> x \<in> set (b_files w)"
    by blast
  have rel: "publishes_vetted wk w w2" using w2 vetting.ignores_faults by blast
  have "publishes_vetted wk w2 (snd (process_raw wk rid c raw w2))" if "r = Inr (Some x)" and "sf_content x = Some raw" for x raw
    by (rule vetting_raw) (use assms f that w2 in \<open>auto simp: stored_def\<close>)
  then have "publishes_vetted wk w (snd (process_raw wk rid c raw w2))" if "r = Inr (Some x)" and "sf_content x = Some raw" for x raw
    using that vetting.frame_trans [OF rel] by blast
  then show ?thesis using g rel
    by (auto simp: processSession_def ebind_def ereturn_def split: sum.split option.split)
qed

lemma vetting_session: "em_rel (publishes_vetted wk) (cycle_session wk i)"
proof (rule em_relI)
  fix w :: "'a bb_world"
  obtain r w2 where g: "ecatch (getRecord_session i) (\<lambda>_. ereturn None) w = (Inr r :: string + session_record option, w2)"
    by (cases "getRecord_session i w"; cases "fst (getRecord_session i w)") (auto simp: ecatch_def ereturn_def)
  have rel: "publishes_vetted wk w w2"
    by (rule em_relD' [where m = "ecatch (getRecord_session i) (\<lambda>_. ereturn None)", OF _ g]) (intro vetting.bb_intros)
  have c: "capture_of i w2 = c \<and> cap_av_file c = Some av" if "pending_av r = Some (c, av)" for c av
    using g that by (auto simp: getRecord_session_def ecatch_def ereturn_def eget_def pending_av_def capture_of_def or_null_def
        split: prod.splits sum.splits option.splits if_splits list.splits elim!: bb_call_cases)
  have "publishes_vetted wk w2 (snd (attempt_session wk i c av w2))"
    if p: "pending_av r = Some (c, av)" for c av
  proof -
    obtain d w3 where ps: "ecatch (processSession wk i c av) (\<lambda>_. ereturn Has_Failed) w2 = (Inr d :: string + outcome, w3)"
      by (cases "processSession wk i c av w2"; cases "fst (processSession wk i c av w2)") (auto simp: ecatch_def ereturn_def)
    then have "w3 = snd (processSession wk i c av w2)"
      by (auto simp: ecatch_def ereturn_def split: prod.splits sum.splits)
    then have st: "publishes_vetted wk w2 w3" using vetting_process [of i w2 c av] c [OF p] by simp
    have fin: "em_rel (publishes_vetted wk) (eseq (ewhen (d = Has_Failed) (equiet (recordFailure wk i c))) (ereturn (Some d)) :: ('a, outcome option) bb_op)"
      by (intro vetting.bb_intros vetting_failure)
    show ?thesis unfolding attempt_session_def ebind_Inr [where m = "ecatch (processSession wk i c av) (\<lambda>_. ereturn Has_Failed)", OF ps]
      by (rule vetting.frame_trans [OF st em_relD [OF fin]])
  qed
  then have "publishes_vetted wk w (snd (attempt_session wk i c av w2))" if "pending_av r = Some (c, av)" for c av
    using that vetting.frame_trans [OF rel] by blast
  then show "publishes_vetted wk w (snd (cycle_session wk i w))"
    unfolding cycle_session_def ebind_Inr [where m = "ecatch (getRecord_session i) (\<lambda>_. ereturn None)", OF g]
    using rel by (auto simp: ereturn_def split: option.split)
qed

lemma vetting_sessions: "em_rel (publishes_vetted wk) (cycle_sessions wk is)"
  by (induction "is") (auto intro!: vetting.bb_intros vetting_session)

lemma vetting_cycle: "em_rel (publishes_vetted wk) (runOnce wk)"
  unfolding runOnce_def scanPendingSessionIds_def
  by (auto intro!: vetting.bb_intros vetting_sessions)

text \<open>C11: The worker publishes only what it has verified. When a cycle sets the public file of a
  session, that file holds a variant of the very recording the capture names, and every probe
  of every window that the decision for the capture hides is black and silent in it, whichever
  adapter calls fail and in whichever order the sessions are processed.\<close>

theorem only_verified_variants_are_published:
  assumes "runOnce wk w = (r, w')" and "cap_public_file (capture_of rid w') = Some i"
    and "cap_public_file (capture_of rid w) \<noteq> Some i"
  shows "\<exists>av raw p out q. cap_av_file (capture_of rid w') = Some av \<and> stored av raw w' \<and> md_probe (wk_media wk) raw = Some p \<and>
    stored i out w' \<and> md_probe (wk_media wk) out = Some q \<and>
    (case visibility_of wk (capture_of rid w') p of
       All_Public \<Rightarrow> True
     | Partial _ hidden \<Rightarrow> list_all (window_clear (wk_media wk) out p (mp_durationS q)) hidden
     | _ \<Rightarrow> False)"
proof -
  have "vetted wk rid i w'"
    using em_relD' [OF vetting_cycle assms(1)] assms(2,3) by (auto simp: publishes_vetted_def)
  then obtain av raw p out where v: "cap_av_file (capture_of rid w') = Some av" "stored av raw w'" "md_probe (wk_media wk) raw = Some p"
    "stored i out w'" and a: "agrees wk (capture_of rid w') p out"
    unfolding vetted_def by blast
  from a obtain q where q: "md_probe (wk_media wk) out = Some q"
    by (auto simp: agrees_def variant_clear_def split: visibility_decision.splits option.splits)
  have "case visibility_of wk (capture_of rid w') p of All_Public \<Rightarrow> True
     | Partial _ hidden \<Rightarrow> list_all (window_clear (wk_media wk) out p (mp_durationS q)) hidden | _ \<Rightarrow> False"
    using a q by (simp add: agrees_def variant_clear_def split: visibility_decision.splits)
  then show ?thesis using v q by blast
qed

text \<open>A medium is the list of its blanked ranges; it lasts 130 seconds.\<close>

definition demo_probe :: media_probe where
  "demo_probe = \<lparr>mp_durationS = 130, mp_hasAudio = True, mp_hasVideo = True\<rparr>"

definition demo_blanked :: "time_range list \<Rightarrow> rat \<Rightarrow> bool" where
  "demo_blanked m t = list_ex (\<lambda>r. rg_start r \<le> t \<and> t \<le> rg_end r) m"

definition demo_media :: "time_range list media" where
  "demo_media = \<lparr>md_available = True, md_probe = (\<lambda>_. Some demo_probe), md_copy = Some,
     md_blank = (\<lambda>m rs _. Some (m @ rs)), md_frameMaxLuma = (\<lambda>m t. Some (if demo_blanked m t then 16 else 200)),
     md_meanVolumeDb = (\<lambda>m t wd. Some (if demo_blanked m (t - wd / 2) \<and> demo_blanked m (t + wd / 2) then Minus_Infinity else Decibels (- 20)))\<rparr>"

definition demo_worker :: "time_range list worker" where
  "demo_worker = \<lparr>wk_media = demo_media, wk_uuid = (\<lambda>n. replicate (Suc n) CHR ''p''), wk_leadPadS = None, wk_trailPadS = None,
     wk_visibilityTimeoutMs = None, wk_maxAttempts = None\<rparr>"

definition demo_archive :: "session_capture \<Rightarrow> time_range list bb_world" where
  "demo_archive c = \<lparr>clock = 100, faults = [], b_devices = [], b_codes = [], b_sessions = [], b_events = [], b_connections = [],
     b_clients = [], b_records = [(''r1'', \<lparr>sr_type = ''session'', sr_capture = Some c, sr_row_status = Some ''pending'',
       sr_attached = [], sr_linked = []\<rparr>)], b_drafts = [],
     b_files = [\<lparr>sf_id = ''raw1'', sf_folder = ''recordings_raw'', sf_original_name = ''a.mp4'', sf_content = Some []\<rparr>],
     b_replies = [], b_serial = 0, b_uploads = [], b_dirs = [], b_revoked = []\<rparr>"

lemma demo_verified: "verifyOutput demo_media [range_of 57 95, range_of 117 130] [range_of 57 95, range_of 117 130] demo_probe w = (Inr (), w)"
  by code_simp

lemma demo_visibility: "visibility_of demo_worker (demo_capture False demo_segments) demo_probe =
    Partial [range_of 0 57, range_of 95 117] [range_of 57 95, range_of 117 130]"
  using demo_decision by (simp add: visibility_of_def demo_worker_def demo_probe_def probed_def)

lemma demo_variant: "verified_variant demo_media [] demo_probe (Some [range_of 57 95, range_of 117 130]) w =
    (Inr [range_of 57 95, range_of 117 130], w)"
proof -
  have "blank demo_media [] [range_of 57 95, range_of 117 130] demo_probe w = (Inr [range_of 57 95, range_of 117 130], w)"
    by (simp add: blank_def run_media_def demo_media_def ereturn_def)
  then show ?thesis by (simp add: verified_variant_def demo_verified eseq_def ebind_def ereturn_def)
qed

text \<open>Shipping when nothing fails.\<close>

definition shipped :: "'m worker \<Rightarrow> string \<Rightarrow> 'm \<Rightarrow> session_record \<Rightarrow> session_capture \<Rightarrow> 'm bb_world \<Rightarrow> 'm bb_world" where
  "shipped wk rid out sr c w = (let i = wk_uuid wk (b_serial w); d = completed_capture (Some i) c in
     w\<lparr>b_serial := Suc (b_serial w),
       b_files := b_files w @ [\<lparr>sf_id = i, sf_folder = ''recordings'', sf_original_name = ''recording-'' @ rid @ ''-public.mp4'', sf_content = Some out\<rparr>],
       b_records := jm_set rid (sr\<lparr>sr_capture := Some d, sr_row_status := Some ''complete'',
         sr_attached := append_attachment (Some (public_attachment rid i)) (sr_attached sr)\<rparr>) (b_records w)\<rparr>)"

lemma ship_shipped:
  assumes "faults w = []" and "jm_get (b_records w) rid = Some sr" and "sr_capture sr = Some c"
    and "cap_redaction_status c \<noteq> Some ''complete''"
  shows "ship wk rid out w = (Inr (), shipped wk rid out sr c w)"
  using assms
  by (simp add: ship_def publish_def fresh_uuid_def writeBack_def mergeCapture_def getRecord_session_def em_defs shipped_def Let_def)
     (simp add: completed_capture_def)

lemma capture_of_shipped: "capture_of rid (shipped wk rid out sr c w) = completed_capture (Some (wk_uuid wk (b_serial w))) c"
  by (simp add: shipped_def Let_def capture_of_def jm_get_set)

lemma stored_shipped: "stored (wk_uuid wk (b_serial w)) out (shipped wk rid out sr c w)"
  by (fastforce simp: shipped_def Let_def stored_def)

lemma demo_cycle: "\<exists>w'. runOnce demo_worker (demo_archive (demo_capture False demo_segments)) = (Inr [Published], w') \<and>
    capture_of ''r1'' w' = completed_capture (Some ''p'') (demo_capture False demo_segments)"
proof -
  let ?c = "demo_capture False demo_segments"
  let ?w = "demo_archive ?c"
  let ?sr = "\<lparr>sr_type = ''session'', sr_capture = Some ?c, sr_row_status = Some ''pending'', sr_attached = [], sr_linked = []\<rparr>"
  let ?out = "[range_of 57 95, range_of 117 130]"
  have m: "wk_media demo_worker = demo_media" "md_available demo_media" "md_probe demo_media m = Some demo_probe" for m
    by (simp_all add: demo_worker_def demo_media_def)
  have w: "faults ?w = []" "jm_get (b_records ?w) ''r1'' = Some ?sr" "map fst (filter (\<lambda>(i, sr). may_be_pending sr) (b_records ?w)) = [''r1'']"
    by (simp_all add: demo_archive_def may_be_pending_def TERMINAL_REDACTION_STATUS_def)
  have p: "pending_av (Some ?sr) = Some (?c, ''raw1'')"
    by (simp add: pending_av_def demo_capture_def or_null_def)
  have f: "List.find (\<lambda>f. sf_id f = ''raw1'') (b_files ?w) =
      Some \<lparr>sf_id = ''raw1'', sf_folder = ''recordings_raw'', sf_original_name = ''a.mp4'', sf_content = Some []\<rparr>"
    by (simp add: demo_archive_def)
  have "ship demo_worker ''r1'' ?out ?w = (Inr (), shipped demo_worker ''r1'' ?out ?sr ?c ?w)"
    by (rule ship_shipped) (use w in \<open>simp_all add: demo_capture_def\<close>)
  then have raw: "process_raw demo_worker ''r1'' ?c [] ?w = (Inr Published, shipped demo_worker ''r1'' ?out ?sr ?c ?w)"
    by (simp add: process_raw_def m run_media_def demo_visibility ebind_def eseq_def ereturn_def demo_variant)
  have "runOnce demo_worker ?w = (Inr [Published], shipped demo_worker ''r1'' ?out ?sr ?c ?w)"
    by (simp add: runOnce_def m scanPendingSessionIds_def w cycle_session_def getRecord_session_def p attempt_session_def
        processSession_def getFileById_def f raw em_defs)
  then show ?thesis
    using capture_of_shipped [of "''r1''" demo_worker ?out ?sr ?c ?w] by (simp add: demo_worker_def demo_archive_def)
qed

lemma only_verified_variants_are_published_witness:
  "\<exists>w'. runOnce demo_worker (demo_archive (demo_capture False demo_segments)) = (Inr [Published], w') \<and>
     (\<exists>av raw p out q. cap_av_file (capture_of ''r1'' w') = Some av \<and> stored av raw w' \<and> md_probe (wk_media demo_worker) raw = Some p \<and>
       stored ''p'' out w' \<and> md_probe (wk_media demo_worker) out = Some q \<and>
       (case visibility_of demo_worker (capture_of ''r1'' w') p of
          All_Public \<Rightarrow> True
        | Partial _ hidden \<Rightarrow> list_all (window_clear (wk_media demo_worker) out p (mp_durationS q)) hidden
        | _ \<Rightarrow> False))"
proof -
  obtain w' where r: "runOnce demo_worker (demo_archive (demo_capture False demo_segments)) = (Inr [Published], w')"
    "capture_of ''r1'' w' = completed_capture (Some ''p'') (demo_capture False demo_segments)"
    using demo_cycle by blast
  have "cap_public_file (capture_of ''r1'' w') = Some ''p''" by (simp add: r(2) completed_capture_def)
  moreover have "cap_public_file (capture_of ''r1'' (demo_archive (demo_capture False demo_segments))) \<noteq> Some ''p''"
    by (simp add: demo_archive_def capture_of_def demo_capture_def)
  ultimately show ?thesis using r(1) only_verified_variants_are_published [OF r(1)] by blast
qed

subsection \<open>Where the probes lie\<close>

lemma keep_new_set: "set (keep_new seen ts) \<subseteq> set ts" and keep_new_length: "length (keep_new seen ts) \<le> length ts"
  by (induction seen ts rule: keep_new.induct) auto

lemma keep_new_first: "keep_new [] (t # ts) = t # keep_new [fixed3 t] ts"
  by simp

text \<open>A probe is one of three instants of the decodable part of the window.\<close>

lemma probe_cases:
  assumes "t \<in> set (hiddenWindowProbes r d)"
  obtains inset where "0 < inset" "inset \<le> (decodable_end r d - rg_start r) / 4" "rg_start r < decodable_end r d"
    "t = rg_start r + inset \<or> t = (rg_start r + decodable_end r d) / 2 \<or> t = decodable_end r d - inset"
proof -
  let ?e = "decodable_end r d"
  let ?i = "min PROBE_EDGE_INSET_S ((?e - rg_start r) / 4)"
  have lt: "rg_start r < ?e" using assms by (auto simp: hiddenWindowProbes_def Let_def split: if_splits)
  then have t: "t = rg_start r + ?i \<or> t = (rg_start r + ?i + (?e - ?i)) / 2 \<or> t = ?e - ?i"
    using assms keep_new_set by (fastforce simp: hiddenWindowProbes_def Let_def simp del: keep_new.simps)
  have "0 < ?i" using lt by (simp add: PROBE_EDGE_INSET_S_def)
  moreover have "?i \<le> (?e - rg_start r) / 4" by (rule min.cobounded2)
  moreover have "rg_start r + ?i + (?e - ?i) = rg_start r + ?e" by simp
  ultimately show thesis using that lt t by metis
qed

lemma probe_inside:
  assumes "t \<in> set (hiddenWindowProbes r d)"
  shows "rg_start r < t \<and> t < decodable_end r d"
  using assms by (cases rule: probe_cases) (auto simp: field_simps)

lemma width_inside:
  assumes "0 < audioProbeWidthS r t d"
  shows "rg_start r + AUDIO_EDGE_MARGIN_S \<le> t - audioProbeWidthS r t d / 2 \<and>
    t + audioProbeWidthS r t d / 2 \<le> decodable_end r d - AUDIO_EDGE_MARGIN_S \<and> audioProbeWidthS r t d \<le> AUDIO_PROBE_WINDOW_S"
proof -
  let ?h = "min (t - rg_start r) (decodable_end r d - t) - AUDIO_EDGE_MARGIN_S"
  have "0 < ?h" "audioProbeWidthS r t d = min AUDIO_PROBE_WINDOW_S (2 * ?h)"
    using assms by (auto simp: audioProbeWidthS_def Let_def split: if_splits)
  then have "audioProbeWidthS r t d / 2 \<le> ?h" "audioProbeWidthS r t d \<le> AUDIO_PROBE_WINDOW_S" by simp_all
  then show ?thesis by (auto simp: min_def split: if_splits)
qed

text \<open>C35: The verification looks only inside the hidden window, and looks there. Every probe lies
  strictly inside the window and before the last tenth of a second of the file; an audio
  measurement is at most a second wide and keeps a codec frame of 50 ms inside the window on both
  sides and off the last tenth of a second of the file, or is not made at all; there are at most
  three probes, and none only when the window starts in the last tenth of a second or is empty.\<close>

theorem probes_stay_inside_the_window:
  "(hiddenWindowProbes r d = [] \<longleftrightarrow> min (rg_end r) (d - 1 / 10) \<le> rg_start r) \<and> length (hiddenWindowProbes r d) \<le> 3 \<and>
   list_all (\<lambda>t. rg_start r < t \<and> t < rg_end r \<and> t < d - 1 / 10 \<and>
     (let wd = audioProbeWidthS r t d in 0 \<le> wd \<and> wd \<le> 1 \<and>
       (wd = 0 \<or> rg_start r + 1 / 20 \<le> t - wd / 2 \<and> t + wd / 2 \<le> min (rg_end r) (d - 1 / 10) - 1 / 20))) (hiddenWindowProbes r d)"
proof -
  have n: "hiddenWindowProbes r d = [] \<longleftrightarrow> decodable_end r d \<le> rg_start r"
    by (auto simp: hiddenWindowProbes_def Let_def)
  have "length (keep_new [] [x, y, z]) \<le> 3" for x y z using keep_new_length [of "[]" "[x, y, z]"] by simp
  then have l: "length (hiddenWindowProbes r d) \<le> 3" by (simp add: hiddenWindowProbes_def Let_def del: keep_new.simps)
  have e: "decodable_end r d = min (rg_end r) (d - 1 / 10)" by (simp add: decodable_end_def EOF_GUARD_S_def)
  have w0: "0 \<le> audioProbeWidthS r t d" for t
    by (auto simp: audioProbeWidthS_def Let_def AUDIO_PROBE_WINDOW_S_def)
  have "rg_start r < t \<and> t < rg_end r \<and> t < d - 1 / 10 \<and>
     (let wd = audioProbeWidthS r t d in 0 \<le> wd \<and> wd \<le> 1 \<and>
       (wd = 0 \<or> rg_start r + 1 / 20 \<le> t - wd / 2 \<and> t + wd / 2 \<le> min (rg_end r) (d - 1 / 10) - 1 / 20))"
    if "t \<in> set (hiddenWindowProbes r d)" for t
    using probe_inside [OF that] width_inside [of r t d] w0 [of t]
    by (cases "audioProbeWidthS r t d = 0") (auto simp: Let_def AUDIO_PROBE_WINDOW_S_def AUDIO_EDGE_MARGIN_S_def e)
  then show ?thesis using n l by (simp add: list_all_iff e)
qed

subsection \<open>What escapes the worker\<close>

lemma merge_runs:
  assumes "faults w = []" and "jm_get (b_records w) rid = Some sr" and "sr_capture sr = Some c" and "pre c"
  shows "mergeCapture rid patch pre att w = (Inr (Some (patch c)), w\<lparr>b_records := jm_set rid (sr\<lparr>sr_capture := Some (patch c),
    sr_row_status := cap_redaction_status (patch c), sr_attached := append_attachment att (sr_attached sr)\<rparr>) (b_records w)\<rparr>)"
  using assms by (simp add: mergeCapture_def getRecord_session_def em_defs Let_def)

lemma verified_copy:
  assumes "md_copy md raw = Some out" and "md_probe md out = Some q"
    and "\<bar>mp_durationS q - mp_durationS p\<bar> \<le> DURATION_TOLERANCE_S" and "mp_hasAudio p = mp_hasAudio q"
  shows "verified_variant md raw p None w = (Inr out, w)"
  using assms by (simp add: verified_variant_def verifyOutput_def run_media_def em_defs)

text \<open>C36: The manual override publishes what the segments hide. The comment on the override
  promises that in-camera segments win over the attestation and that no bypass ships raw
  bytes. After \<open>publish_public\<close> the worker publishes the plain copy of the recording and probes
  nothing, whatever well-formed segments the capture declares.\<close>

theorem override_publishes_declared_in_camera_time:
  assumes "faults w = []" and "jm_get (b_records w) rid = Some sr" and "sr_capture sr = Some c"
    and "cap_av_file c = Some av" and "av \<noteq> []"
    and "cap_segments c = Some segs" and "\<not> list_ex isMalformed segs" and "hidden_segments segs \<noteq> []"
    and "List.find (\<lambda>f. sf_id f = av) (b_files w) = Some stored_raw" and "sf_content stored_raw = Some raw"
    and "md_probe (wk_media wk) raw = Some p" and "md_copy (wk_media wk) raw = Some out" and "md_probe (wk_media wk) out = Some q"
    and "\<bar>mp_durationS q - mp_durationS p\<bar> \<le> DURATION_TOLERANCE_S" and "mp_hasAudio p = mp_hasAudio q"
  shows "\<exists>d w1 w2. overrideRedaction rid Publish_Public w = (Inr d, w1) \<and> cycle_session wk rid w1 = (Inr (Some Published), w2) \<and>
    cap_segments (capture_of rid w2) = Some segs \<and>
    (\<exists>i. cap_public_file (capture_of rid w2) = Some i \<and> stored i out w2)"
proof -
  let ?d = "override_patch Publish_Public (clock w) c"
  let ?sr = "sr\<lparr>sr_capture := Some ?d, sr_row_status := cap_redaction_status ?d\<rparr>"
  let ?w1 = "w\<lparr>b_records := jm_set rid ?sr (b_records w)\<rparr>"
  have d: "cap_av_file ?d = Some av" "cap_redaction_status ?d = Some ''pending''" "cap_segments ?d = Some segs" "cap_all_public ?d"
    using assms(4,6) by (simp_all add: override_patch_def Let_def)
  have or_av: "or_null (Some av) = Some av" using assms(5) by (cases av) (simp_all add: or_null_def)
  have run1: "overrideRedaction rid Publish_Public w = (Inr ?d, ?w1)"
    using assms(1-4) or_av merge_runs [OF assms(1-3), of "\<lambda>_. True" "override_patch Publish_Public (clock w)" None]
    by (simp add: overrideRedaction_def getRecord_session_def em_defs bb_now_def append_attachment_def)
  have vis: "visibility_of wk ?d p = All_Public"
    unfolding visibility_of_def using d assms(7) by (intro attested_hides_nothing) auto
  have f1: "faults ?w1 = []" "jm_get (b_records ?w1) rid = Some ?sr" "sr_capture ?sr = Some ?d"
    using assms(1) by (simp_all add: jm_get_set)
  have s: "ship wk rid out ?w1 = (Inr (), shipped wk rid out ?sr ?d ?w1)"
    by (rule ship_shipped [OF f1]) (simp add: d)
  have "pending_av (Some ?sr) = Some (?d, av)" using d or_av by (simp add: pending_av_def)
  then have run2: "cycle_session wk rid ?w1 = (Inr (Some Published), shipped wk rid out ?sr ?d ?w1)"
    using f1 assms(9-11) vis s verified_copy [OF assms(12-15)]
    by (simp add: cycle_session_def attempt_session_def getRecord_session_def processSession_def getFileById_def process_raw_def run_media_def em_defs)
  have after: "cap_segments (capture_of rid (shipped wk rid out ?sr ?d ?w1)) = Some segs"
    "cap_public_file (capture_of rid (shipped wk rid out ?sr ?d ?w1)) = Some (wk_uuid wk (b_serial ?w1))"
    by (simp_all add: capture_of_shipped completed_capture_def d)
  show ?thesis by (intro exI conjI, rule run1, rule run2, rule after(1), rule after(2), rule stored_shipped)
qed

text \<open>The council meets in camera from 60 to 90; the published copy shows it.\<close>

lemma override_publishes_declared_in_camera_time_witness:
  "\<exists>d w1 w2 i. overrideRedaction ''r1'' Publish_Public (demo_archive (demo_capture False demo_segments)) = (Inr d, w1) \<and>
     cycle_session demo_worker ''r1'' w1 = (Inr (Some Published), w2) \<and> cap_public_file (capture_of ''r1'' w2) = Some i \<and>
     stored i [] w2 \<and> \<not> black_at demo_media [] demo_probe 75 \<and> demo_segment 60 90 ''in_camera'' \<in> set demo_segments"
proof -
  let ?c = "demo_capture False demo_segments"
  let ?sr = "\<lparr>sr_type = ''session'', sr_capture = Some ?c, sr_row_status = Some ''pending'', sr_attached = [], sr_linked = []\<rparr>"
  let ?f = "\<lparr>sf_id = ''raw1'', sf_folder = ''recordings_raw'', sf_original_name = ''a.mp4'', sf_content = Some []\<rparr>"
  have "\<exists>d w1 w2. overrideRedaction ''r1'' Publish_Public (demo_archive ?c) = (Inr d, w1) \<and>
      cycle_session demo_worker ''r1'' w1 = (Inr (Some Published), w2) \<and> cap_segments (capture_of ''r1'' w2) = Some demo_segments \<and>
      (\<exists>i. cap_public_file (capture_of ''r1'' w2) = Some i \<and> stored i [] w2)"
    by (rule override_publishes_declared_in_camera_time [where sr = ?sr and c = ?c and av = "''raw1''" and stored_raw = ?f and raw = "[]"
          and p = demo_probe and q = demo_probe])
       (simp_all add: demo_archive_def demo_capture_def demo_worker_def demo_media_def demo_segments_def demo_segment_def
          hidden_segments_def isMalformed_def DURATION_TOLERANCE_S_def)
  moreover have "\<not> black_at demo_media [] demo_probe 75"
    by (simp add: black_at_def demo_media_def demo_blanked_def demo_probe_def MAX_BLACK_LUMA_def)
  moreover have "demo_segment 60 90 ''in_camera'' \<in> set demo_segments" by (simp add: demo_segments_def)
  ultimately show ?thesis by blast
qed

text \<open>A manifest that arrives during the encoding is lost. The variant is encoded and verified
  for the capture as it was read; the device then declares a window hidden, which the write-back
  does not notice because it only asks that the redaction is not complete. The old variant is
  published beside the new declaration, and the session is never scanned again.\<close>

theorem manifest_during_encoding_is_not_honoured:
  assumes "faults w = []" and "jm_get (b_records w) rid = Some sr" and "sr_capture sr = Some c" and "still_pending c"
    and "visibility_of wk c p = Partial pub hid" and "verified_variant (wk_media wk) raw p (Some hid) w = (Inr out, w)"
    and "visibility_of wk (manifest_overlay m c) p = Partial pub' hid'" and "r \<in> set hid'" and "rg_start r \<le> t" and "t < rg_end r"
    and "\<not> black_at (wk_media wk) out p t"
  and "jm_ok (b_records w)"
  shows "\<exists>w1 w2 i ids. applySessionManifest rid m w = (Inr (), w1) \<and> ship wk rid out w1 = (Inr (), w2) \<and>
    cap_public_file (capture_of rid w2) = Some i \<and> stored i out w2 \<and>
    list_ex (\<lambda>h. rg_start h \<le> t \<and> t < rg_end h)
      (case visibility_of wk (capture_of rid w2) p of Partial _ hs \<Rightarrow> hs | _ \<Rightarrow> []) \<and>
    scanPendingSessionIds w2 = (Inr ids, w2) \<and> rid \<notin> set ids"
proof -
  let ?d = "manifest_overlay m c"
  let ?sr = "sr\<lparr>sr_capture := Some ?d, sr_row_status := cap_redaction_status ?d\<rparr>"
  let ?w1 = "w\<lparr>b_records := jm_set rid ?sr (b_records w)\<rparr>"
  let ?w2 = "shipped wk rid out ?sr ?d ?w1"
  let ?i = "wk_uuid wk (b_serial ?w1)"
  have run1: "applySessionManifest rid m w = (Inr (), ?w1)"
    using assms(1-3) merge_runs [OF assms(1-3), of "\<lambda>_. True" "manifest_overlay m" None]
    by (simp add: applySessionManifest_def getRecord_session_def em_defs append_attachment_def)
  have run2: "ship wk rid out ?w1 = (Inr (), ?w2)"
    by (rule ship_shipped) (use assms(1,4) in \<open>simp_all add: jm_get_set manifest_overlay_def still_pending_def\<close>)
  have vis: "visibility_of wk (completed_capture (Some ?i) ?d) p = visibility_of wk ?d p"
    by (rule visibility_declared(1)) (simp add: completed_capture_def declarations_def)
  have hidden: "list_ex (\<lambda>h. rg_start h \<le> t \<and> t < rg_end h)
      (case visibility_of wk (capture_of rid ?w2) p of Partial _ hs \<Rightarrow> hs | _ \<Rightarrow> [])"
    unfolding capture_of_shipped vis using assms(7-10) by (auto simp: list_ex_iff)
  have pub: "cap_public_file (capture_of rid ?w2) = Some ?i" by (simp add: capture_of_shipped completed_capture_def)
  have scan: "scanPendingSessionIds ?w2 = (Inr (map fst (filter (\<lambda>(i, sr). may_be_pending sr) (b_records ?w2))), ?w2)"
    using assms(1) by (simp add: scanPendingSessionIds_def shipped_def Let_def eget_def)
  have last: "rid \<notin> set (map fst (filter (\<lambda>(i, sr). may_be_pending sr) (b_records ?w2)))"
  proof
    assume "rid \<in> set (map fst (filter (\<lambda>(i, sr). may_be_pending sr) (b_records ?w2)))"
    then obtain x where x: "(rid, x) \<in> set (b_records ?w2)" "may_be_pending x" by auto
    have "jm_ok (b_records ?w2)" using assms(12) by (simp add: shipped_def Let_def)
    then have "jm_get (b_records ?w2) rid = Some x" using x(1) by (simp add: jm_ok_def map_of_is_SomeI)
    then have "sr_row_status x = Some ''complete''" by (auto simp: shipped_def Let_def jm_get_set)
    then show False using x(2) by (simp add: may_be_pending_def TERMINAL_REDACTION_STATUS_def)
  qed
  show ?thesis by (intro exI conjI, rule run1, rule run2, rule pub, rule stored_shipped, rule hidden, rule scan, rule last)
qed

lemma demo_early_visibility: "visibility_of demo_worker (demo_capture False [demo_segment 0 120 ''public'']) demo_probe =
    Partial [range_of 0 117] [range_of 117 130]"
  by code_simp

lemma demo_early_verified: "verified_variant demo_media [] demo_probe (Some [range_of 117 130]) w = (Inr [range_of 117 130], w)"
  by code_simp

lemma manifest_during_encoding_is_not_honoured_witness:
  "\<exists>w1 w2 i ids. applySessionManifest ''r1'' \<lparr>mf_device = None, mf_started_at = None, mf_ended_at = None, mf_duration_s = None,
       mf_segments = Some demo_segments\<rparr> (demo_archive (demo_capture False [demo_segment 0 120 ''public''])) = (Inr (), w1) \<and>
     ship demo_worker ''r1'' [range_of 117 130] w1 = (Inr (), w2) \<and>
     cap_public_file (capture_of ''r1'' w2) = Some i \<and> stored i [range_of 117 130] w2 \<and>
     list_ex (\<lambda>h. rg_start h \<le> 75 \<and> 75 < rg_end h)
       (case visibility_of demo_worker (capture_of ''r1'' w2) demo_probe of Partial _ hs \<Rightarrow> hs | _ \<Rightarrow> []) \<and>
     scanPendingSessionIds w2 = (Inr ids, w2) \<and> ''r1'' \<notin> set ids"
proof -
  let ?c = "demo_capture False [demo_segment 0 120 ''public'']"
  let ?sr = "\<lparr>sr_type = ''session'', sr_capture = Some ?c, sr_row_status = Some ''pending'', sr_attached = [], sr_linked = []\<rparr>"
  let ?m = "\<lparr>mf_device = None, mf_started_at = None, mf_ended_at = None, mf_duration_s = None, mf_segments = Some demo_segments\<rparr>"
  have m: "wk_media demo_worker = demo_media" by (simp add: demo_worker_def)
  have v: "visibility_of demo_worker (manifest_overlay ?m ?c) demo_probe = Partial [range_of 0 57, range_of 95 117] [range_of 57 95, range_of 117 130]"
    using demo_visibility by (simp add: manifest_overlay_def demo_capture_def)
  have e: "verified_variant (wk_media demo_worker) [] demo_probe (Some [range_of 117 130]) (demo_archive ?c) = (Inr [range_of 117 130], demo_archive ?c)"
    by (simp add: m demo_early_verified)
  have b: "\<not> black_at (wk_media demo_worker) [range_of 117 130] demo_probe 75"
    by (simp add: m black_at_def demo_media_def demo_blanked_def demo_probe_def MAX_BLACK_LUMA_def)
  show ?thesis
    by (rule manifest_during_encoding_is_not_honoured [OF _ _ _ _ demo_early_visibility e v _ _ _ b, where sr = ?sr and r = "range_of 57 95"])
       (simp_all add: demo_archive_def demo_capture_def still_pending_def jm_ok_def)
qed

end
