(* ===== verification/Upload_Theorems.thy ===== *)
theory Upload_Theorems
  imports Upload_Processor Redaction_Theorems Session_Theorems "HOL-Library.Multiset"
begin

section \<open>Properties of uploads\<close>

text \<open>
  The chunks of an upload never exceed the declared size when requests come one by one, and can
  exceed it when two overlap; a recording sent in chunks, in any order, is stored as it was
  and reaches its session; one with the name of a chunk is lost.
\<close>

subsection \<open>The declared size as a budget\<close>

definition uploads_ok :: "'m bb_world \<Rightarrow> bool" where
  "uploads_ok w = (distinct (map up_id (b_uploads w)) \<and> (\<forall>u\<in>set (b_uploads w). case jm_get (b_dirs w) (up_id u) of
     None \<Rightarrow> True | Some d \<Rightarrow> jm_ok d \<and> int (bytes_on_disk [] d) \<le> up_file_size u))"

text \<open>There is room for so many bytes under the name in the directory of the upload.\<close>

definition fits :: "string \<Rightarrow> string \<Rightarrow> nat \<Rightarrow> 'm bb_world \<Rightarrow> bool" where
  "fits i f n w = (\<forall>u\<in>set (b_uploads w). up_id u = i \<longrightarrow> (case jm_get (b_dirs w) i of
     None \<Rightarrow> True | Some d \<Rightarrow> int (bytes_on_disk f d + n) \<le> up_file_size u))"

definition keeps_uploads :: "'m bb_world \<Rightarrow> 'm bb_world \<Rightarrow> bool" where
  "keeps_uploads w w' = (uploads_ok w \<longrightarrow> uploads_ok w')"

definition keeps_room :: "string \<Rightarrow> string \<Rightarrow> nat \<Rightarrow> 'm bb_world \<Rightarrow> 'm bb_world \<Rightarrow> bool" where
  "keeps_room i f n w w' = (uploads_ok w \<and> fits i f n w \<longrightarrow> uploads_ok w' \<and> fits i f n w')"

interpretation budget: bb_frame keeps_uploads
  by unfold_locales (auto simp: keeps_uploads_def uploads_ok_def)

interpretation room: bb_frame "keeps_room i f n" for i f n
  by unfold_locales (auto simp: keeps_room_def uploads_ok_def fits_def)

lemma rewrite_upload_ids: "(\<And>u. up_id (f u) = up_id u) \<Longrightarrow> map up_id (rewrite_upload i f rows) = map up_id rows"
  by (simp add: rewrite_upload_def comp_def if_distrib cong: if_cong)

lemma set_rewrite_upload: "u \<in> set (rewrite_upload i f rows) \<longleftrightarrow> (\<exists>x\<in>set rows. u = (if up_id x = i then f x else x))"
  by (simp only: rewrite_upload_def set_map image_iff)

lemma rewritten_ok:
  assumes "\<And>u. up_id (f u) = up_id u" and "\<And>u. up_file_size (f u) = up_file_size u"
  shows "uploads_ok w \<Longrightarrow> uploads_ok (w\<lparr>b_uploads := rewrite_upload i f (b_uploads w)\<rparr>)"
    and "fits j g n w \<Longrightarrow> fits j g n (w\<lparr>b_uploads := rewrite_upload i f (b_uploads w)\<rparr>)"
proof -
  have f: "up_id (if P then f x else x) = up_id x" "up_file_size (if P then f x else x) = up_file_size x" for P x
    by (simp_all add: assms)
  show "uploads_ok w \<Longrightarrow> uploads_ok (w\<lparr>b_uploads := rewrite_upload i f (b_uploads w)\<rparr>)"
    by (auto simp: uploads_ok_def rewrite_upload_ids assms set_rewrite_upload f cong: option.case_cong)
  show "fits j g n w \<Longrightarrow> fits j g n (w\<lparr>b_uploads := rewrite_upload i f (b_uploads w)\<rparr>)"
    by (auto simp: fits_def set_rewrite_upload assms f cong: option.case_cong)
qed

lemma budget_update:
  assumes "\<And>u. up_id (f u) = up_id u" and "\<And>u. up_file_size (f u) = up_file_size u"
  shows "em_rel keeps_uploads (update_upload i f)" and "em_rel (keeps_room j g n) (update_upload i f)"
  unfolding update_upload_def getUpload_def
  by (auto intro!: budget.bb_intros budget.rel_modify room.bb_intros room.rel_modify rewritten_ok assms
      simp: keeps_uploads_def keeps_room_def split: option.split)

lemma budget_remove: "em_rel keeps_uploads (removeDir i)"
  unfolding removeDir_def
  by (auto intro!: budget.bb_intros budget.rel_modify simp: keeps_uploads_def uploads_ok_def jm_get_delete)

lemma budget_read: "em_rel keeps_uploads (readDir i)"
  unfolding readDir_def by (rule budget.rel_call) (simp add: em_rel_def budget.frame_refl split: option.split)

lemma budget_owned: "em_rel keeps_uploads (owned_upload i e)"
  unfolding owned_upload_def getUpload_def
  by (auto intro!: budget.bb_intros split: option.split)

lemma budget_admit: "em_rel keeps_uploads (admit_chunk i c n e)"
  unfolding admit_chunk_def
  by (auto intro!: budget.bb_intros budget_read budget_owned budget_update budget_remove)

lemma not_chunk_Nil [simp]: "\<not> is_chunk []"
  by (simp add: is_chunk_def)

lemma bytes_on_disk_simps [simp]: "bytes_on_disk f [] = 0"
  "bytes_on_disk f ((g, b) # d) = (if is_chunk g \<and> g \<noteq> f then length b else 0) + bytes_on_disk f d"
  by (simp_all add: bytes_on_disk_def)

lemma bytes_on_disk_except: "bytes_on_disk f (jm_set f b d) = bytes_on_disk f d"
  by (induction d) auto

lemma bytes_on_disk_absent: "f \<notin> set (map fst d) \<Longrightarrow> bytes_on_disk f d = bytes_on_disk [] d"
  by (induction d) auto

lemma bytes_on_disk_set: "jm_ok d \<Longrightarrow> bytes_on_disk [] (jm_set f b d) = bytes_on_disk f d + (if is_chunk f then length b else 0)"
proof (induction d)
  case (Cons x d)
  obtain g c where x: "x = (g, c)" by fastforce
  show ?case
  proof (cases "g = f")
    case True
    then have "f \<notin> set (map fst d)" using Cons.prems by (simp add: jm_ok_def x)
    then show ?thesis using bytes_on_disk_absent [of f d] by (simp add: x True)
  next
    case False
    have "jm_ok d" using Cons.prems by (simp add: jm_ok_def x)
    then show ?thesis using Cons.IH False by (simp add: x)
  qed
qed simp

text \<open>Writing a chunk for which there is room.\<close>

lemma room_write: "is_chunk f \<Longrightarrow> em_rel (keeps_room i f (length c)) (writeFile i f c)"
  unfolding writeFile_def
  by (rule room.rel_call)
     (auto simp: em_rel_def keeps_room_def uploads_ok_def fits_def jm_get_set bytes_on_disk_set bytes_on_disk_except split: option.split)

lemma is_chunk_name [simp]: "is_chunk (chunk_name n)"
  by (simp add: is_chunk_def chunk_name_def)

lemma room_store: "em_rel (keeps_room i (chunk_name (nat n)) (length c)) (store_chunk i c n u)"
  unfolding store_chunk_def
  by (auto intro!: room.bb_intros room_write budget_update)

lemma getUpload_result: "getUpload i w = (Inr r, w1) \<Longrightarrow> r = find_upload i (b_uploads w) \<and> (\<exists>fs. w1 = w\<lparr>faults := fs\<rparr>)"
  by (auto simp: getUpload_def eget_def elim!: bb_call_cases)

lemma owned_result: "owned_upload i e w = (Inr u, w1) \<Longrightarrow> find_upload i (b_uploads w) = Some u \<and> (\<exists>fs. w1 = w\<lparr>faults := fs\<rparr>)"
proof -
  assume "owned_upload i e w = (Inr u, w1)"
  then obtain r v where g: "getUpload i w = (Inr r, v)" and "(case r of None \<Rightarrow> ethrow (''Upload job not found: '' @ i)
   | Some x \<Rightarrow> if (case e of None \<Rightarrow> False | Some d \<Rightarrow> up_device_id x \<noteq> d)
       then ethrow (''Forbidden: device does not own upload '' @ i) else ereturn x) v = (Inr u, w1)"
    unfolding owned_upload_def ebind_result by blast
  then have "r = Some u \<and> v = w1" by (cases r) (simp_all add: em_results split: if_splits)
  then show ?thesis using getUpload_result [OF g] by simp
qed

lemma readDir_result: "readDir i w = (Inr d, w1) \<Longrightarrow> jm_get (b_dirs w) i = Some d \<and> (\<exists>fs. w1 = w\<lparr>faults := fs\<rparr>)"
  by (auto simp: readDir_def split: option.splits elim!: bb_call_cases)

lemma find_upload_in: "find_upload i rows = Some u \<Longrightarrow> u \<in> set rows \<and> up_id u = i"
  by (auto simp: find_upload_def find_Some_iff)

lemma admitted_fits:
  assumes "admit_chunk i c n e w = (Inr u, w')" and "uploads_ok w"
  shows "uploads_ok w' \<and> fits i (chunk_name (nat n)) (length c) w'"
proof -
  obtain w1 d where o: "owned_upload i e w = (Inr u, w1)" and r: "readDir i w1 = (Inr d, w')"
    and room: "int (bytes_on_disk (chunk_name (nat n)) d + length c) \<le> up_file_size u"
    using assms(1) by (auto simp: admit_chunk_def em_results split: if_splits)
  have same: "b_uploads w' = b_uploads w" "b_dirs w' = b_dirs w" "jm_get (b_dirs w) i = Some d"
    using owned_result [OF o] readDir_result [OF r] by auto
  have u: "u \<in> set (b_uploads w)" "up_id u = i" using owned_result [OF o] find_upload_in by blast+
  have "x = u" if "x \<in> set (b_uploads w)" and "up_id x = i" for x
    using assms(2) that u by (auto simp: uploads_ok_def distinct_map dest: inj_onD)
  then show ?thesis using assms(2) room by (auto simp: fits_def uploads_ok_def same)
qed

text \<open>Requests that come one by one keep the declared size. Whatever chunk arrives, of whichever
  size and number and from whichever device, and whichever call fails, no directory of an
  upload holds more bytes of chunks than its job declared.\<close>

theorem processed_chunks_stay_within_the_declared_size:
  assumes "processChunk i c n e w = (r, w')" and "uploads_ok w"
  shows "uploads_ok w'"
proof -
  obtain x w1 where a: "admit_chunk i c n e w = (x, w1)" by fastforce
  show ?thesis
  proof (cases x)
    case (Inl err)
    then show ?thesis using assms a em_relD' [OF budget_admit a] by (simp add: processChunk_def ebind_def keeps_uploads_def)
  next
    case (Inr u)
    then have st: "store_chunk i c n u w1 = (r, w')" using assms(1) a by (simp add: processChunk_def ebind_def)
    show ?thesis
      using em_relD' [OF room_store st] admitted_fits [of i c n e w u w1] a Inr assms(2) by (simp add: keeps_room_def)
  qed
qed

text \<open>The requests when nothing fails.\<close>

lemma find_rewritten: "find_upload i rows = Some u \<Longrightarrow> up_id (f u) = i \<Longrightarrow> find_upload i (rewrite_upload i f rows) = Some (f u)"
  by (induction rows) (auto simp: find_upload_def rewrite_upload_def split: if_splits)

lemma update_upload_run: "faults w = [] \<Longrightarrow> find_upload i (b_uploads w) = Some u \<Longrightarrow> up_id (f u) = i \<Longrightarrow>
    update_upload i f w = (Inr (f u), w\<lparr>b_uploads := rewrite_upload i f (b_uploads w)\<rparr>)"
  by (simp add: update_upload_def getUpload_def em_defs find_rewritten)

lemma admit_run:
  assumes "faults w = []" and "find_upload i (b_uploads w) = Some u" and "up_status u \<in> {Up_Pending, Up_Uploading}"
    and "jm_get (b_dirs w) i = Some d" and "int n \<le> MAX_SAFE_INTEGER"
    and "int (bytes_on_disk (chunk_name n) d + length c) \<le> up_file_size u"
  shows "admit_chunk i c (int n) None w = (Inr u, w)"
  using assms by (auto simp: admit_chunk_def owned_upload_def getUpload_def readDir_def ebind_def eget_def ereturn_def)

definition progressed :: "nat \<Rightarrow> upload_row \<Rightarrow> upload_row" where
  "progressed n u = u\<lparr>up_status := Up_Uploading, up_progress := min (int n * 10 mod 100) 99\<rparr>"

lemma store_run:
  assumes "faults w = []" and "find_upload i (b_uploads w) = Some u" and "up_status u \<in> {Up_Pending, Up_Uploading}"
    and "jm_get (b_dirs w) i = Some d"
  shows "\<exists>us. store_chunk i c (int n) u w = (Inr (), w\<lparr>b_dirs := jm_set i (jm_set (chunk_name n) c d) (b_dirs w), b_uploads := us\<rparr>) \<and>
    find_upload i us = Some (progressed n u)"
proof -
  have i: "up_id u = i" using find_upload_in [OF assms(2)] by simp
  define us where "us = (if up_status u = Up_Pending then rewrite_upload i (\<lambda>x. x\<lparr>up_status := Up_Uploading\<rparr>) (b_uploads w) else b_uploads w)"
  have f: "find_upload i us = Some (u\<lparr>up_status := Up_Uploading\<rparr>)"
    using assms(2,3) i find_rewritten [OF assms(2), of "\<lambda>x. x\<lparr>up_status := Up_Uploading\<rparr>"] by (auto simp: us_def)
  have s1: "(if up_status u = Up_Pending then eseq (update_upload i (\<lambda>x. x\<lparr>up_status := Up_Uploading\<rparr>)) (ereturn ()) else ereturn ()) w =
      (Inr () :: string + unit, w\<lparr>b_uploads := us\<rparr>)"
    using assms(1,2) i by (simp add: us_def update_upload_run em_defs)
  let ?v = "w\<lparr>b_uploads := us, b_dirs := jm_set i (jm_set (chunk_name n) c d) (b_dirs w)\<rparr>"
  let ?g = "\<lambda>x. x\<lparr>up_progress := min (int n * 10 mod 100) 99\<rparr>"
  have s2: "writeFile i (chunk_name n) c (w\<lparr>b_uploads := us\<rparr>) = (Inr (), ?v)"
    using assms(1,4) by (simp add: writeFile_def)
  have s3: "update_upload i ?g ?v = (Inr (progressed n u), ?v\<lparr>b_uploads := rewrite_upload i ?g us\<rparr>)"
    using update_upload_run [of ?v i "u\<lparr>up_status := Up_Uploading\<rparr>" ?g] assms(1) f i by (simp add: progressed_def)
  have "store_chunk i c (int n) u w = (Inr (), ?v\<lparr>b_uploads := rewrite_upload i ?g us\<rparr>)"
    using s1 s2 s3 by (simp add: store_chunk_def eseq_def ebind_def ereturn_def)
  moreover have "find_upload i (rewrite_upload i ?g us) = Some (progressed n u)"
    using find_rewritten [OF f, of ?g] i by (simp add: progressed_def)
  ultimately show ?thesis by auto
qed

lemma chunk_name_inj [simp]: "chunk_name a = chunk_name b \<longleftrightarrow> a = b"
  using show_nat_inj by (auto simp: chunk_name_def)

text \<open>Requests that overlap break it. The budget is checked before the chunk is written, and
  nothing locks the directory: two chunks that fit one at a time, checked both before either is
  written, are both stored, and the upload holds more bytes than it declared.\<close>

theorem overlapping_chunks_exceed_the_declared_size:
  assumes "faults w = []" and "find_upload i (b_uploads w) = Some u" and "up_status u = Up_Uploading"
    and "jm_get (b_dirs w) i = Some d" and "jm_ok d"
    and "chunk_name a \<notin> set (map fst d)" and "chunk_name b \<notin> set (map fst d)" and "a \<noteq> b"
    and "int a \<le> MAX_SAFE_INTEGER" and "int b \<le> MAX_SAFE_INTEGER"
    and "int (bytes_on_disk [] d + length x) \<le> up_file_size u" and "int (bytes_on_disk [] d + length y) \<le> up_file_size u"
    and "up_file_size u < int (bytes_on_disk [] d + length x + length y)"
  shows "\<exists>w1 w2 d'. admit_chunk i x (int a) None w = (Inr u, w) \<and> admit_chunk i y (int b) None w = (Inr u, w) \<and>
    store_chunk i x (int a) u w = (Inr (), w1) \<and> store_chunk i y (int b) u w1 = (Inr (), w2) \<and>
    jm_get (b_dirs w2) i = Some d' \<and> up_file_size u < int (bytes_on_disk [] d')"
proof -
  have u: "up_status u \<in> {Up_Pending, Up_Uploading}" using assms(3) by simp
  have ab: "bytes_on_disk (chunk_name a) d = bytes_on_disk [] d" "bytes_on_disk (chunk_name b) d = bytes_on_disk [] d"
    using assms(6,7) bytes_on_disk_absent by blast+
  obtain us where s1: "store_chunk i x (int a) u w = (Inr (), w\<lparr>b_dirs := jm_set i (jm_set (chunk_name a) x d) (b_dirs w), b_uploads := us\<rparr>)"
    "find_upload i us = Some (progressed a u)"
    using store_run [OF assms(1,2) u assms(4), of x a] by blast
  let ?w1 = "w\<lparr>b_dirs := jm_set i (jm_set (chunk_name a) x d) (b_dirs w), b_uploads := us\<rparr>"
  let ?d1 = "jm_set (chunk_name a) x d"
  obtain us' where s2: "store_chunk i y (int b) (progressed a u) ?w1 =
      (Inr (), ?w1\<lparr>b_dirs := jm_set i (jm_set (chunk_name b) y ?d1) (b_dirs ?w1), b_uploads := us'\<rparr>)"
    using store_run [of ?w1 i "progressed a u" ?d1 y b] s1(2) assms(1) by (auto simp: jm_get_set progressed_def)
  have "store_chunk i y (int b) u ?w1 = store_chunk i y (int b) (progressed a u) ?w1"
    using assms(3) by (simp add: store_chunk_def progressed_def)
  then have s2': "store_chunk i y (int b) u ?w1 = (Inr (), ?w1\<lparr>b_dirs := jm_set i (jm_set (chunk_name b) y ?d1) (b_dirs ?w1), b_uploads := us'\<rparr>)"
    using s2 by simp
  have "chunk_name b \<notin> set (map fst ?d1)" using assms(7,8) by (simp add: update_keys)
  then have "bytes_on_disk [] (jm_set (chunk_name b) y ?d1) = bytes_on_disk [] d + length x + length y"
    using assms(5) ab(1) bytes_on_disk_absent [of "chunk_name b" ?d1] by (simp add: bytes_on_disk_set)
  moreover have "admit_chunk i x (int a) None w = (Inr u, w)" "admit_chunk i y (int b) None w = (Inr u, w)"
    using admit_run [OF assms(1,2) u assms(4)] assms(9-12) ab by simp_all
  ultimately show ?thesis using s1(1) s2' assms(13) by (auto simp: jm_get_set)
qed

subsection \<open>The chunks make up the recording\<close>

text \<open>Sending chunks, numbered, one request after the other.\<close>

primrec send_chunks :: "string \<Rightarrow> (nat \<times> byte list) list \<Rightarrow> ('m, unit) bb_op" where
  "send_chunks i [] = ereturn ()"
| "send_chunks i (c # cs) = eseq (processChunk i (snd c) (int (fst c)) None) (send_chunks i cs)"

definition as_files :: "(nat \<times> byte list) list \<Rightarrow> (string \<times> byte list) list" where
  "as_files cs = map (\<lambda>(n, b). (chunk_name n, b)) cs"

lemma as_files_keys: "chunk_name n \<in> set (map fst (as_files cs)) \<longleftrightarrow> n \<in> fst ` set cs"
  by (force simp: as_files_def)

lemma as_files_snoc: "n \<notin> fst ` set cs \<Longrightarrow> jm_set (chunk_name n) b (as_files cs) = as_files (cs @ [(n, b)])"
  by (induction cs) (auto simp: as_files_def)

lemma bytes_as_files: "bytes_on_disk [] (as_files cs) = length (concat (map snd cs))"
  by (induction cs) (auto simp: as_files_def is_chunk_def chunk_name_def)

lemma sent_chunks:
  assumes "faults w = []" and "find_upload i (b_uploads w) = Some u" and "up_status u \<in> {Up_Pending, Up_Uploading}"
    and "jm_get (b_dirs w) i = Some (as_files sent)" and "distinct (map fst (sent @ cs))"
    and "\<And>n. n \<in> fst ` set cs \<Longrightarrow> int n \<le> MAX_SAFE_INTEGER"
    and "int (length (concat (map snd (sent @ cs)))) \<le> up_file_size u" and "cs \<noteq> []"
  shows "\<exists>us pr ds. send_chunks i cs w = (Inr (), w\<lparr>b_dirs := ds, b_uploads := us\<rparr>) \<and> jm_get ds i = Some (as_files (sent @ cs)) \<and>
    find_upload i us = Some (u\<lparr>up_status := Up_Uploading, up_progress := pr\<rparr>)"
  using assms
proof (induction cs arbitrary: sent w u)
  case (Cons c cs)
  obtain n b where c: "c = (n, b)" by fastforce
  have new: "n \<notin> fst ` set sent" using Cons.prems(5) by (auto simp: c)
  then have room: "int (bytes_on_disk (chunk_name n) (as_files sent) + length b) \<le> up_file_size u"
    using Cons.prems(7) bytes_on_disk_absent [of "chunk_name n" "as_files sent"] as_files_keys [of n sent] by (simp add: bytes_as_files c)
  have "admit_chunk i b (int n) None w = (Inr u, w)"
    by (rule admit_run [OF Cons.prems(1-4) _ room]) (use Cons.prems(6) c in simp)
  moreover obtain us where st: "store_chunk i b (int n) u w =
      (Inr (), w\<lparr>b_dirs := jm_set i (as_files (sent @ [c])) (b_dirs w), b_uploads := us\<rparr>)" "find_upload i us = Some (progressed n u)"
    using store_run [OF Cons.prems(1-4), of b n] as_files_snoc [OF new, of b] by (auto simp: c)
  ultimately have first: "processChunk i b (int n) None w = (Inr (), w\<lparr>b_dirs := jm_set i (as_files (sent @ [c])) (b_dirs w), b_uploads := us\<rparr>)"
    by (simp add: processChunk_def ebind_def)
  let ?w1 = "w\<lparr>b_dirs := jm_set i (as_files (sent @ [c])) (b_dirs w), b_uploads := us\<rparr>"
  show ?case
  proof (cases "cs = []")
    case True
    show ?thesis
      by (rule exI [of _ us], rule exI [of _ "min (int n * 10 mod 100) 99"], rule exI [of _ "jm_set i (as_files (sent @ [c])) (b_dirs w)"])
         (use first st(2) True in \<open>simp add: c eseq_def ebind_def ereturn_def jm_get_set progressed_def\<close>)
  next
    case False
    have "\<exists>us' pr ds. send_chunks i cs ?w1 = (Inr (), ?w1\<lparr>b_dirs := ds, b_uploads := us'\<rparr>) \<and> jm_get ds i = Some (as_files ((sent @ [c]) @ cs)) \<and>
      find_upload i us' = Some (progressed n u\<lparr>up_status := Up_Uploading, up_progress := pr\<rparr>)"
      by (rule Cons.IH) (use Cons.prems False st(2) in \<open>auto simp: jm_get_set progressed_def\<close>)
    then show ?thesis using first by (auto simp: c eseq_def ebind_def progressed_def)
  qed
qed simp

lemma combined:
  assumes "faults w = []" and "jm_get (b_dirs w) i = Some d" and "t \<notin> set fs" and "\<And>f. f \<in> set fs \<Longrightarrow> jm_get d f = Some (g f)"
    and "jm_get d t = Some acc"
  shows "combine i t fs w = (Inr (), w\<lparr>b_dirs := jm_set i (jm_set t (acc @ concat (map g fs)) d) (b_dirs w)\<rparr>)"
  using assms
proof (induction fs arbitrary: w d acc)
  case Nil
  then show ?case by (simp add: ereturn_def update_triv)
next
  case (Cons f fs)
  let ?d = "jm_set t (acc @ g f) d"
  let ?w = "w\<lparr>b_dirs := jm_set i ?d (b_dirs w)\<rparr>"
  have "combine i t fs ?w = (Inr (), ?w\<lparr>b_dirs := jm_set i (jm_set t ((acc @ g f) @ concat (map g fs)) ?d) (b_dirs ?w)\<rparr>)"
    by (rule Cons.IH) (use Cons.prems in \<open>auto simp: jm_get_set\<close>)
  moreover have "readDir i w = (Inr d, w)" "appendFile i t (g f) w = (Inr (), ?w)" "jm_get d f = Some (g f)"
    using Cons.prems by (simp_all add: readDir_def appendFile_def)
  ultimately show ?case by (simp add: eseq_def ebind_def)
qed

text \<open>Sorting the names of the chunks puts them in the order of their numbers.\<close>

lemma chunk_index_name [simp]: "chunk_index (chunk_name n) = n"
  by (simp add: chunk_index_def chunk_name_def takeWhile_eq_all_conv [THEN iffD2] show_nat_digit)

lemma chunk_numbers:
  assumes "mset order = mset (enumerate 0 cs)"
  shows "mset (map fst order) = mset [0..<length cs]" and "distinct (map fst order)"
    and "length (concat (map snd order)) = length (concat cs)"
proof -
  show m: "mset (map fst order) = mset [0..<length cs]"
    using arg_cong [OF assms, of "image_mset fst"] by (simp add: map_fst_enumerate del: mset_map flip: mset_map)
  then show "distinct (map fst order)" using mset_eq_imp_distinct_iff by fastforce
  have total: "length (concat (map snd xs)) = (\<Sum>x\<in>#mset xs. length (snd x))" for xs :: "(nat \<times> 'a list) list"
    by (induction xs) auto
  show "length (concat (map snd order)) = length (concat cs)"
    using total [of order] total [of "enumerate 0 cs"] assms by simp
qed

lemma chunk_files_sorted:
  assumes "mset order = mset (enumerate 0 cs)"
  shows "chunk_files (as_files order) = map chunk_name [0..<length cs]"
proof -
  note chunk_numbers(1) [OF assms]
  then have "mset (map chunk_name (map fst order)) = mset (map chunk_name [0..<length cs])" by (simp only: mset_map)
  moreover have "filter is_chunk (map fst (as_files order)) = map chunk_name (map fst order)"
    by (auto simp: as_files_def filter_id_conv comp_def case_prod_unfold)
  ultimately show ?thesis
    unfolding chunk_files_def by (simp only:) (rule sort_key_inj_key_eq; simp add: inj_on_def comp_def)
qed

lemma merged_capture:
  assumes "faults w = []" and "jm_get (b_records w) rid = Some sr" and "pre (capture_of rid w)"
  shows "mergeCapture rid patch pre att w = (Inr (Some (patch (capture_of rid w))), w\<lparr>b_records := jm_set rid
    (sr\<lparr>sr_capture := Some (patch (capture_of rid w)), sr_row_status := cap_redaction_status (patch (capture_of rid w)),
      sr_attached := append_attachment att (sr_attached sr)\<rparr>) (b_records w)\<rparr>)"
  using assms by (cases "sr_capture sr") (simp_all add: mergeCapture_def getRecord_session_def em_defs Let_def capture_of_def)

lemma linked_and_completed:
  assumes "faults w = []" and "find_session sid (b_sessions w) = Some s" and "bs_status s \<noteq> Complete"
    and "jm_get (b_records w) (bs_civicpress_id s) = Some sr" and "cap_av_file (capture_of (bs_civicpress_id s) w) \<noteq> Some fid"
  shows "\<exists>w' s'. onRecordingComplete sid fid w = (Inr (), w') \<and> b_files w' = b_files w \<and> b_uploads w' = b_uploads w \<and> b_dirs w' = b_dirs w \<and>
    capture_of (bs_civicpress_id s) w' = linked_capture (bs_device_id s) fid (capture_of (bs_civicpress_id s) w) \<and>
    find_session sid (b_sessions w') = Some s' \<and> bs_status s' = Complete"
proof -
  let ?rid = "bs_civicpress_id s" and ?c = "capture_of (bs_civicpress_id s) w"
  let ?d = "linked_capture (bs_device_id s) fid ?c"
  let ?w1 = "w\<lparr>b_records := jm_set ?rid (sr\<lparr>sr_capture := Some ?d, sr_row_status := cap_redaction_status ?d,
    sr_attached := append_attachment None (sr_attached sr)\<rparr>) (b_records w)\<rparr>"
  let ?f = "\<lambda>x. x\<lparr>bs_metadata := jm_set ''recording''
             (JObj [(''fileId'', JStr fid), (''filePath'', JStr (''/api/v1/storage/files/'' @ fid))]) (bs_metadata s)\<rparr>"
  let ?w2 = "?w1\<lparr>b_sessions := rewrite_session sid ?f (clock w) (b_sessions w)\<rparr>"
  let ?g = "\<lambda>x. x\<lparr>bs_status := Complete, bs_completed_at := Some (clock w)\<rparr>"
  have id: "bs_id s = sid" using find_session_id [OF assms(2)] by simp
  have m: "mergeCapture ?rid (linked_capture (bs_device_id s) fid) (\<lambda>c. cap_av_file c \<noteq> Some fid) None w = (Inr (Some ?d), ?w1)"
    by (rule merged_capture) (use assms in simp_all)
  have u1: "update_session sid ?f ?w1 = (Inr ((?f s)\<lparr>bs_updated_at := clock w\<rparr>), ?w2)"
    using updated_session [of ?w1 ?f sid s] assms(1,2) by simp
  have "linkFileToSession sid fid w = (Inr (), ?w2)"
    using m u1 assms(1,2,4) by (simp add: linkFileToSession_def getById_def getRecord_session_def ebind_def eseq_def eget_def ereturn_def)
  then have q1: "equiet (linkFileToSession sid fid) w = (Inr () :: string + unit, ?w2)" by (simp add: equiet_def)
  have f2: "find_session sid (b_sessions ?w2) = Some ((?f s)\<lparr>bs_updated_at := clock w\<rparr>)"
    using find_rewrite [of ?f sid sid "clock w" "b_sessions w"] assms(2) id by simp
  let ?w3 = "?w2\<lparr>b_sessions := rewrite_session sid ?g (clock w) (b_sessions ?w2)\<rparr>"
  have u2: "update_session sid ?g ?w2 = (Inr ((?g ((?f s)\<lparr>bs_updated_at := clock w\<rparr>))\<lparr>bs_updated_at := clock w\<rparr>), ?w3)"
    using updated_session [of ?w2 ?g sid "(?f s)\<lparr>bs_updated_at := clock w\<rparr>"] assms(1) f2 by simp
  have "handleSessionComplete sid ?w2 = set_idle (bs_device_id s) ?w3"
    using u2 f2 assms(1,3) by (simp add: handleSessionComplete_def getById_def bb_now_def ebind_def eseq_def eget_def)
  then have q2: "equiet (handleSessionComplete sid) ?w2 = (Inr () :: string + unit, snd (set_idle (bs_device_id s) ?w3))" by (simp add: equiet_def)
  have idle: "b_files (snd (set_idle d v)) = b_files v" "b_uploads (snd (set_idle d v)) = b_uploads v"
    "b_dirs (snd (set_idle d v)) = b_dirs v" "b_records (snd (set_idle d v)) = b_records v" "b_sessions (snd (set_idle d v)) = b_sessions v" for d and v :: "'a bb_world"
    by (simp_all add: set_idle_def updateDeviceState_def emodify_def split: option.split)
  let ?s3 = "(?g ((?f s)\<lparr>bs_updated_at := clock w\<rparr>))\<lparr>bs_updated_at := clock w\<rparr>"
  let ?v = "snd (set_idle (bs_device_id s) ?w3)"
  have run: "onRecordingComplete sid fid w = (Inr (), ?v)" using q1 q2 by (simp add: onRecordingComplete_def eseq_def ebind_def)
  have same: "b_files ?v = b_files w" "b_uploads ?v = b_uploads w" "b_dirs ?v = b_dirs w" by (simp_all add: idle)
  have sess: "find_session sid (b_sessions ?v) = Some ?s3"
    unfolding idle using find_rewrite [of ?g sid sid "clock w" "b_sessions ?w2"] f2 id by simp
  have cap: "capture_of ?rid ?v = ?d" by (simp add: capture_of_def idle jm_get_set)
  have complete: "bs_status ?s3 = Complete" by simp
  show ?thesis by (intro exI conjI) (rule run same cap sess complete)+
qed

lemma chunk_contents:
  assumes "mset order = mset (enumerate 0 cs)" and "k < length cs"
  shows "jm_get (as_files order) (chunk_name k) = Some (cs ! k)"
proof -
  have mem: "(k, cs ! k) \<in> set order"
    using assms(2) mset_eq_setD [OF assms(1)] by (auto simp: in_set_enumerate_eq)
  have "distinct (map fst (as_files order))"
    using chunk_numbers(2) [OF assms(1)] by (simp add: as_files_def comp_def case_prod_unfold distinct_map inj_on_def)
  moreover have "(chunk_name k, cs ! k) \<in> set (as_files order)" using mem by (force simp: as_files_def)
  ultimately show ?thesis by (simp add: map_of_is_SomeI)
qed

lemma assembled:
  assumes "faults w = []" and "jm_get (b_dirs w) (up_id u) = Some (as_files order)" and "mset order = mset (enumerate 0 cs)"
    and "\<not> is_chunk (up_file_name u)" and "ue_sha256 env (concat cs) = up_file_hash u" and "int (length (concat cs)) = up_file_size u"
  shows "\<exists>ds. assemble env u w = (Inr (ue_uuid env (b_serial w)), w\<lparr>b_serial := Suc (b_serial w), b_dirs := ds,
    b_files := b_files w @ [\<lparr>sf_id = ue_uuid env (b_serial w), sf_folder = ''recordings_raw'', sf_original_name = up_file_name u,
      sf_content = Some (ue_media env (concat cs))\<rparr>]\<rparr>)"
proof -
  let ?i = "up_id u" and ?t = "up_file_name u" and ?d = "as_files order"
  let ?e = "jm_set ?t [] ?d"
  let ?v = "w\<lparr>b_dirs := jm_set ?i ?e (b_dirs w)\<rparr>"
  let ?ds = "jm_set ?i (jm_set ?t (concat cs) ?d) (b_dirs w)"
  have ne: "chunk_name k \<noteq> ?t" for k using assms(4) by (metis is_chunk_name)
  then have names: "?t \<notin> set (map chunk_name [0..<length cs])" by (metis (no_types, lifting) imageE set_map)
  have "combine ?i ?t (map chunk_name [0..<length cs]) ?v =
      (Inr (), ?v\<lparr>b_dirs := jm_set ?i (jm_set ?t ([] @ concat (map (\<lambda>f. cs ! chunk_index f) (map chunk_name [0..<length cs]))) ?e) (b_dirs ?v)\<rparr>)"
    by (rule combined) (use assms(1) names in \<open>auto simp: jm_get_set ne chunk_contents [OF assms(3)]\<close>)
  moreover have "map (\<lambda>f. cs ! chunk_index f) (map chunk_name [0..<length cs]) = cs"
    by (simp add: comp_def map_nth)
  ultimately have comb: "combine ?i ?t (chunk_files ?d) ?v = (Inr (), w\<lparr>b_dirs := ?ds\<rparr>)"
    by (simp add: chunk_files_sorted [OF assms(3)])
  have "readDir ?i w = (Inr ?d, w)" "writeFile ?i ?t [] w = (Inr (), ?v)"
    "readDir ?i (w\<lparr>b_dirs := ?ds\<rparr>) = (Inr (jm_set ?t (concat cs) ?d), w\<lparr>b_dirs := ?ds\<rparr>)"
    using assms(1,2) by (simp_all add: readDir_def writeFile_def jm_get_set)
  then have "assemble env u w = uploadRaw env u (concat cs) (w\<lparr>b_dirs := ?ds\<rparr>)"
    using comb assms(1,5,6) by (simp add: assemble_def Let_def ebind_def eseq_def jm_get_set ereturn_def)
  then show ?thesis using assms(1) by (intro exI [of _ ?ds]) (simp add: uploadRaw_def fresh_uuid_def em_defs)
qed

text \<open>C26: A recording sent in chunks reaches its session as it was. The chunks may come in any
  order; when all are there and the declared hash and size are those of the recording,
  finalising adds one stored file, with exactly the recording and its name, in the private folder
  \<open>recordings_raw\<close> and nothing to any other folder, removes the temporary files, completes the
  job, links the file to the session record, whose capture then waits for
  redaction with no public file, and completes the session.\<close>

theorem chunks_reach_the_session:
  assumes "faults w = []" and "find_upload i (b_uploads w) = Some u" and "up_status u = Up_Pending" and "jm_get (b_dirs w) i = Some []"
    and "mset order = mset (enumerate 0 cs)" and "cs \<noteq> []" and "int (length cs) \<le> MAX_SAFE_INTEGER"
    and "\<not> is_chunk (up_file_name u)" and "ue_sha256 env (concat cs) = up_file_hash u" and "int (length (concat cs)) = up_file_size u"
    and "ue_hooks env" and "up_session_id u = sid" and "sid \<noteq> []"
    and "find_session sid (b_sessions w) = Some s" and "bs_status s \<noteq> Complete" and "bs_civicpress_id s = rid"
    and "jm_get (b_records w) rid = Some sr" and "\<And>n. cap_av_file (capture_of rid w) \<noteq> Some (ue_uuid env n)"
  shows "\<exists>w1 fid w2 v s'. send_chunks i order w = (Inr (), w1) \<and> finalizeUpload env i None w1 = (Inr fid, w2) \<and>
    b_files w2 = b_files w @ [\<lparr>sf_id = fid, sf_folder = ''recordings_raw'', sf_original_name = up_file_name u,
      sf_content = Some (ue_media env (concat cs))\<rparr>] \<and> jm_get (b_dirs w2) i = None \<and>
    find_upload i (b_uploads w2) = Some v \<and> up_status v = Up_Complete \<and> up_storage v = Some fid \<and>
    capture_of rid w2 = linked_capture (bs_device_id s) fid (capture_of rid w) \<and>
    find_session sid (b_sessions w2) = Some s' \<and> bs_status s' = Complete"
proof -
  have id: "up_id u = i" using find_upload_in [OF assms(2)] by simp
  have "\<exists>us pr ds. send_chunks i order w = (Inr (), w\<lparr>b_dirs := ds, b_uploads := us\<rparr>) \<and> jm_get ds i = Some (as_files ([] @ order)) \<and>
    find_upload i us = Some (u\<lparr>up_status := Up_Uploading, up_progress := pr\<rparr>)"
  proof (rule sent_chunks)
    show "int n \<le> MAX_SAFE_INTEGER" if "n \<in> fst ` set order" for n
      using that mset_eq_setD [OF chunk_numbers(1) [OF assms(5)]] assms(7) by simp
    show "order \<noteq> []" using arg_cong [OF assms(5), of size] assms(6) by auto
  qed (use assms(1-4,10) chunk_numbers [OF assms(5)] in \<open>simp_all add: as_files_def\<close>)
  then obtain us pr ds where send: "send_chunks i order w = (Inr (), w\<lparr>b_dirs := ds, b_uploads := us\<rparr>)"
    and d: "jm_get ds i = Some (as_files order)" and f: "find_upload i us = Some (u\<lparr>up_status := Up_Uploading, up_progress := pr\<rparr>)" by auto
  let ?w1 = "w\<lparr>b_dirs := ds, b_uploads := us\<rparr>" and ?u = "u\<lparr>up_status := Up_Uploading, up_progress := pr\<rparr>"
  let ?p = "\<lambda>x. x\<lparr>up_status := Up_Processing\<rparr>" and ?fid = "ue_uuid env (b_serial w)"
  let ?g = "\<lambda>x. x\<lparr>up_status := Up_Complete, up_storage := Some ?fid, up_progress := 100\<rparr>"
  let ?us1 = "rewrite_upload i ?p us" and ?us2 = "rewrite_upload i ?g (rewrite_upload i ?p us)"
  have start: "update_upload i ?p ?w1 = (Inr (?p ?u), ?w1\<lparr>b_uploads := ?us1\<rparr>)"
    using update_upload_run [of ?w1 i ?u ?p] assms(1) f id by simp
  obtain ds' where asm: "assemble env ?u (?w1\<lparr>b_uploads := ?us1\<rparr>) = (Inr ?fid, ?w1\<lparr>b_uploads := ?us1, b_serial := Suc (b_serial w),
      b_dirs := ds', b_files := b_files w @ [\<lparr>sf_id = ?fid, sf_folder = ''recordings_raw'', sf_original_name = up_file_name u,
      sf_content = Some (ue_media env (concat cs))\<rparr>]\<rparr>)"
    using assembled [of "?w1\<lparr>b_uploads := ?us1\<rparr>" ?u order cs env] assms(1,5,8-10) d id by auto
  let ?w2 = "?w1\<lparr>b_uploads := ?us1, b_serial := Suc (b_serial w),
      b_dirs := ds', b_files := b_files w @ [\<lparr>sf_id = ?fid, sf_folder = ''recordings_raw'', sf_original_name = up_file_name u,
      sf_content = Some (ue_media env (concat cs))\<rparr>]\<rparr>"
  have f1: "find_upload i ?us1 = Some (?p ?u)" using find_rewritten [OF f, of ?p] id by simp
  have done2: "update_upload i ?g ?w2 = (Inr (?g (?p ?u)), ?w2\<lparr>b_uploads := ?us2\<rparr>)"
    using update_upload_run [of ?w2 i "?p ?u" ?g] assms(1) f1 id by simp
  let ?w3 = "?w2\<lparr>b_uploads := ?us2, b_dirs := jm_delete i ds'\<rparr>"
  have rm: "removeDir i (?w2\<lparr>b_uploads := ?us2\<rparr>) = (Inr (), ?w3)" using assms(1) by (simp add: removeDir_def equiet_def emodify_def)
  have cap: "capture_of rid ?w3 = capture_of rid w" by (simp add: capture_of_def)
  obtain w' s' where hook: "onRecordingComplete sid ?fid ?w3 = (Inr (), w')" "b_files w' = b_files ?w3" "b_uploads w' = b_uploads ?w3"
      "b_dirs w' = b_dirs ?w3" "capture_of rid w' = linked_capture (bs_device_id s) ?fid (capture_of rid ?w3)"
      "find_session sid (b_sessions w') = Some s'" "bs_status s' = Complete"
    using linked_and_completed [of ?w3 sid s sr ?fid] assms(1,14-18) cap by auto
  have "equiet (onRecordingComplete sid ?fid) ?w3 = (Inr () :: string + unit, w')" unfolding equiet_def hook(1) by simp
  then have "finish_upload env ?u (?w1\<lparr>b_uploads := ?us1\<rparr>) = (Inr ?fid, w')"
    using asm done2 rm assms(11-13) id by (simp add: finish_upload_def ebind_def eseq_def ewhen_def ereturn_def)
  then have fin: "finalizeUpload env i None ?w1 = (Inr ?fid, w')"
    using start f assms(1) by (simp add: finalizeUpload_def owned_upload_def getUpload_def ebind_def eseq_def eget_def ereturn_def ecatch_def)
  have f2: "find_upload i (b_uploads w') = Some (?g (?p ?u))"
    using find_rewritten [OF f1, of ?g] id by (simp add: hook(3))
  have st: "b_files w' = b_files w @ [\<lparr>sf_id = ?fid, sf_folder = ''recordings_raw'', sf_original_name = up_file_name u,
      sf_content = Some (ue_media env (concat cs))\<rparr>]" unfolding hook(2) by simp
  have rmd: "jm_get (b_dirs w') i = None" by (simp add: hook(4) jm_get_delete)
  have comp: "up_status (?g (?p ?u)) = Up_Complete" "up_storage (?g (?p ?u)) = Some ?fid" by simp_all
  show ?thesis
    by (intro exI conjI) (rule send fin st rmd f2 comp hook(5) [unfolded cap] hook(6,7))+
qed

subsection \<open>A name that collides\<close>

text \<open>A recording with the name of a chunk is lost. The name passes the check of file names,
  but the combined file is written into the directory of the chunks: opening it empties the
  chunk, the combination is empty, and finalising fails the upload for good although every
  byte had arrived.\<close>

theorem recording_named_like_a_chunk_is_lost:
  assumes "faults w = []" and "find_upload i (b_uploads w) = Some u" and "up_status u = Up_Uploading"
    and "up_file_name u = chunk_name n" and "jm_get (b_dirs w) i = Some (as_files [(n, c)])" and "c \<noteq> []"
    and "ue_sha256 env c = up_file_hash u" and "int (length c) = up_file_size u"
  shows "\<exists>e w' v. finalizeUpload env i None w = (Inl e, w') \<and> b_files w' = b_files w \<and>
    find_upload i (b_uploads w') = Some v \<and> up_status v = Up_Failed"
proof -
  have id: "up_id u = i" using find_upload_in [OF assms(2)] by simp
  let ?p = "\<lambda>x. x\<lparr>up_status := Up_Processing\<rparr>"
  let ?w1 = "w\<lparr>b_uploads := rewrite_upload i ?p (b_uploads w)\<rparr>"
  let ?w2 = "?w1\<lparr>b_dirs := jm_set i [(chunk_name n, [])] (b_dirs w)\<rparr>"
  have start: "update_upload i ?p w = (Inr (?p u), ?w1)" using update_upload_run [OF assms(1,2), of ?p] id by simp
  have f1: "find_upload i (b_uploads ?w1) = Some (?p u)" using find_rewritten [OF assms(2), of ?p] id by simp
  have "chunk_files (as_files [(n, c)]) = [chunk_name n]" by (simp add: chunk_files_def as_files_def)
  then have "\<exists>e. assemble env u ?w1 = (Inl e, ?w2)"
    using assms(1,4,5,6,8) id
    by (auto simp: assemble_def Let_def readDir_def writeFile_def appendFile_def as_files_def jm_get_set em_defs)
  then obtain e where e: "finish_upload env u ?w1 = (Inl e, ?w2)" by (auto simp: finish_upload_def ebind_def)
  let ?q = "\<lambda>x. x\<lparr>up_status := Up_Failed, up_error := or_null (Some e)\<rparr>"
  have stop: "update_upload i ?q ?w2 = (Inr (?q (?p u)), ?w2\<lparr>b_uploads := rewrite_upload i ?q (b_uploads ?w2)\<rparr>)"
    using update_upload_run [of ?w2 i "?p u" ?q] assms(1) f1 id by simp
  let ?w3 = "?w2\<lparr>b_uploads := rewrite_upload i ?q (b_uploads ?w2)\<rparr>"
  have fin: "finalizeUpload env i None w = (Inl e, ?w3)"
    using start e stop assms(1-3)
    by (simp add: finalizeUpload_def owned_upload_def getUpload_def ebind_def eseq_def eget_def ereturn_def ecatch_def ethrow_def)
  have f3: "find_upload i (b_uploads ?w3) = Some (?q (?p u))" using find_rewritten [OF f1, of ?q] id by simp
  have failed: "up_status (?q (?p u)) = Up_Failed" and files: "b_files ?w3 = b_files w" by simp_all
  show ?thesis by (intro exI conjI) (rule fin files f3 failed)+
qed

subsection \<open>An upload of three bytes\<close>

definition demo_uploading :: "string \<Rightarrow> upload_status \<Rightarrow> (string \<times> byte list) list \<Rightarrow> byte list bb_world" where
  "demo_uploading name st d = \<lparr>clock = 100, faults = [], b_devices = [demo_device], b_codes = [], b_sessions = [demo_row ''b1'' Stopping],
     b_events = [], b_connections = [], b_clients = [],
     b_records = [(''r1'', \<lparr>sr_type = ''session'', sr_capture = None, sr_row_status = None, sr_attached = [], sr_linked = []\<rparr>)],
     b_drafts = [], b_files = [], b_replies = [], b_serial = 0,
     b_uploads = [\<lparr>up_id = ''p1'', up_session_id = ''b1'', up_device_id = ''d1'', up_file_name = name, up_file_size = 3,
       up_file_hash = ''hhh'', up_status = st, up_progress = 0, up_storage = None, up_error = None\<rparr>], b_dirs = [(''p1'', d)], b_revoked = []\<rparr>"

definition demo_upload_env :: "byte list upload_env" where
  "demo_upload_env = \<lparr>ue_uuid = (\<lambda>n. replicate (Suc n) CHR ''f''), ue_maxUploadBytes = 1000,
     ue_sha256 = (\<lambda>b. replicate (length b) CHR ''h''), ue_media = (\<lambda>b. b), ue_hooks = True\<rparr>"

definition demo_upload :: "string \<Rightarrow> upload_status \<Rightarrow> upload_row" where
  "demo_upload name st = \<lparr>up_id = ''p1'', up_session_id = ''b1'', up_device_id = ''d1'', up_file_name = name, up_file_size = 3,
       up_file_hash = ''hhh'', up_status = st, up_progress = 0, up_storage = None, up_error = None\<rparr>"

lemma demo_uploading_parts [simp]: "faults (demo_uploading name st d) = []"
  "find_upload ''p1'' (b_uploads (demo_uploading name st d)) = Some (demo_upload name st)"
  "jm_get (b_dirs (demo_uploading name st d)) ''p1'' = Some d"
  "find_session ''b1'' (b_sessions (demo_uploading name st d)) = Some (demo_row ''b1'' Stopping)"
  "b_records (demo_uploading name st d) = [(''r1'', \<lparr>sr_type = ''session'', sr_capture = None, sr_row_status = None, sr_attached = [], sr_linked = []\<rparr>)]"
  by (simp_all add: demo_uploading_def find_upload_def demo_upload_def find_session_def demo_row_def new_session_def)

lemma processed_chunks_stay_within_the_declared_size_witness:
  "\<exists>r w'. processChunk ''p1'' [1, 2] 0 (Some ''d1'') (demo_uploading ''a.mp4'' Up_Pending []) = (r, w') \<and> uploads_ok w'"
proof -
  obtain r w' where run: "processChunk ''p1'' [1, 2] 0 (Some ''d1'') (demo_uploading ''a.mp4'' Up_Pending []) = (r, w')" by fastforce
  have "uploads_ok (demo_uploading ''a.mp4'' Up_Pending [])" by (simp add: uploads_ok_def demo_uploading_def)
  then show ?thesis using run processed_chunks_stay_within_the_declared_size [OF run] by blast
qed

lemma overlapping_chunks_exceed_the_declared_size_witness:
  "\<exists>w1 w2 d'. admit_chunk ''p1'' [1, 2] 0 None (demo_uploading ''a.mp4'' Up_Uploading []) = (Inr (demo_upload ''a.mp4'' Up_Uploading), demo_uploading ''a.mp4'' Up_Uploading []) \<and>
     store_chunk ''p1'' [1, 2] 0 (demo_upload ''a.mp4'' Up_Uploading) (demo_uploading ''a.mp4'' Up_Uploading []) = (Inr (), w1) \<and>
     store_chunk ''p1'' [3, 4] 1 (demo_upload ''a.mp4'' Up_Uploading) w1 = (Inr (), w2) \<and>
     jm_get (b_dirs w2) ''p1'' = Some d' \<and> up_file_size (demo_upload ''a.mp4'' Up_Uploading) < int (bytes_on_disk [] d')"
proof -
  have "\<exists>w1 w2 d'. admit_chunk ''p1'' [1, 2] (int 0) None (demo_uploading ''a.mp4'' Up_Uploading []) = (Inr (demo_upload ''a.mp4'' Up_Uploading), demo_uploading ''a.mp4'' Up_Uploading []) \<and>
     admit_chunk ''p1'' [3, 4] (int 1) None (demo_uploading ''a.mp4'' Up_Uploading []) = (Inr (demo_upload ''a.mp4'' Up_Uploading), demo_uploading ''a.mp4'' Up_Uploading []) \<and>
     store_chunk ''p1'' [1, 2] (int 0) (demo_upload ''a.mp4'' Up_Uploading) (demo_uploading ''a.mp4'' Up_Uploading []) = (Inr (), w1) \<and>
     store_chunk ''p1'' [3, 4] (int 1) (demo_upload ''a.mp4'' Up_Uploading) w1 = (Inr (), w2) \<and>
     jm_get (b_dirs w2) ''p1'' = Some d' \<and> up_file_size (demo_upload ''a.mp4'' Up_Uploading) < int (bytes_on_disk [] d')"
    by (rule overlapping_chunks_exceed_the_declared_size [where d = "[]"]) (simp_all add: demo_upload_def MAX_SAFE_INTEGER_def)
  then show ?thesis by auto
qed

lemma chunks_reach_the_session_witness:
  "\<exists>w1 fid w2. send_chunks ''p1'' [(1, [3]), (0, [1, 2])] (demo_uploading ''a.mp4'' Up_Pending []) = (Inr (), w1) \<and>
     finalizeUpload demo_upload_env ''p1'' None w1 = (Inr fid, w2) \<and>
     b_files w2 = [\<lparr>sf_id = fid, sf_folder = ''recordings_raw'', sf_original_name = ''a.mp4'', sf_content = Some [1, 2, 3]\<rparr>] \<and>
     capture_of ''r1'' w2 = linked_capture ''d1'' fid empty_capture"
proof -
  have c: "capture_of ''r1'' (demo_uploading ''a.mp4'' Up_Pending []) = empty_capture"
    by (simp add: capture_of_def demo_uploading_def)
  have "\<exists>w1 fid w2 v s'. send_chunks ''p1'' [(1, [3]), (0, [1, 2])] (demo_uploading ''a.mp4'' Up_Pending []) = (Inr (), w1) \<and>
    finalizeUpload demo_upload_env ''p1'' None w1 = (Inr fid, w2) \<and>
    b_files w2 = b_files (demo_uploading ''a.mp4'' Up_Pending []) @ [\<lparr>sf_id = fid, sf_folder = ''recordings_raw'',
      sf_original_name = up_file_name (demo_upload ''a.mp4'' Up_Pending),
      sf_content = Some (ue_media demo_upload_env (concat [[1, 2], [3]]))\<rparr>] \<and> jm_get (b_dirs w2) ''p1'' = None \<and>
    find_upload ''p1'' (b_uploads w2) = Some v \<and> up_status v = Up_Complete \<and> up_storage v = Some fid \<and>
    capture_of ''r1'' w2 = linked_capture (bs_device_id (demo_row ''b1'' Stopping)) fid (capture_of ''r1'' (demo_uploading ''a.mp4'' Up_Pending [])) \<and>
    find_session ''b1'' (b_sessions w2) = Some s' \<and> bs_status s' = Complete"
    by (rule chunks_reach_the_session [where u = "demo_upload ''a.mp4'' Up_Pending" and sid = "''b1''" and
          sr = "\<lparr>sr_type = ''session'', sr_capture = None, sr_row_status = None, sr_attached = [], sr_linked = []\<rparr>"])
       (simp_all add: c demo_upload_def demo_upload_env_def MAX_SAFE_INTEGER_def is_chunk_def demo_row_def new_session_def empty_capture_def)
  moreover have "b_files (demo_uploading ''a.mp4'' Up_Pending []) = []" by (simp add: demo_uploading_def)
  moreover have "up_file_name (demo_upload ''a.mp4'' Up_Pending) = ''a.mp4''" by (simp add: demo_upload_def)
  ultimately show ?thesis by (simp add: c demo_row_def new_session_def demo_upload_env_def) blast
qed

lemma recording_named_like_a_chunk_is_lost_witness:
  "safe_file_name ''chunk-0'' \<and> (\<exists>e w'. finalizeUpload demo_upload_env ''p1'' None (demo_uploading ''chunk-0'' Up_Uploading [(''chunk-0'', [1, 2, 3])]) = (Inl e, w') \<and>
     b_files w' = [])"
proof -
  have n: "chunk_name 0 = ''chunk-0''" by code_simp
  have "\<exists>e w' v. finalizeUpload demo_upload_env ''p1'' None (demo_uploading ''chunk-0'' Up_Uploading [(''chunk-0'', [1, 2, 3])]) = (Inl e, w') \<and>
     b_files w' = b_files (demo_uploading ''chunk-0'' Up_Uploading [(''chunk-0'', [1, 2, 3])]) \<and>
     find_upload ''p1'' (b_uploads w') = Some v \<and> up_status v = Up_Failed"
    by (rule recording_named_like_a_chunk_is_lost [where n = 0 and c = "[1, 2, 3]" and u = "demo_upload ''chunk-0'' Up_Uploading"])
       (simp_all add: n demo_upload_def demo_upload_env_def as_files_def)
  moreover have "safe_file_name ''chunk-0''" by code_simp
  ultimately show ?thesis by (auto simp: demo_uploading_def)
qed

end
