(* ===== verification/Account_World.thy ===== *)
theory Account_World
  imports Civic_Prelude
begin

section \<open>Accounts: tables and stores\<close>

text \<open>
  The tables \<open>users\<close>, \<open>sessions\<close>, \<open>api_keys\<close>, \<open>password_reset_tokens\<close>,
  \<open>email_verifications\<close> and \<open>audit_logs\<close> of \<open>core/src/database/schema/tables.ts\<close> and
  the methods of \<open>core/src/database/stores/user-store.ts\<close>, one call of the adapter per SQL
  statement. SQLite's \<open>AUTOINCREMENT\<close> never gives a number twice: each table has the last
  number it gave (\<open>a_sequences\<close>), and \<open>last_insert_rowid()\<close> is the number that the last
  insert of the connection gave, into whichever table (\<open>a_last_rowid\<close>).
\<close>

subsection \<open>Tables\<close>

record user_row =
  us_id :: nat
  us_username :: string
  us_role :: string
  us_email :: "string option"
  us_name :: "string option"
  us_avatar_url :: "string option"
  us_password_hash :: "string option"
  us_auth_provider :: "string option"
  us_provider_user_id :: "string option"
  us_email_verified :: bool
  us_pending_email :: "string option"
  us_pending_email_token :: "string option"
  us_pending_email_expires :: "msec option"

record session_row =
  se_id :: nat
  se_token_hash :: string
  se_user_id :: nat
  se_expires_at :: msec

record api_key_row =
  ak_id :: nat
  ak_key_hash :: string
  ak_user_id :: nat
  ak_name :: string
  ak_expires_at :: "msec option"

record reset_row =
  rt_id :: nat
  rt_user_id :: nat
  rt_token_hash :: string
  rt_expires_at :: msec
  rt_consumed_at :: "msec option"
  rt_created_ip :: "string option"

datatype verification_type = Initial | Change

record verification_row =
  ev_id :: nat
  ev_user_id :: nat
  ev_email :: string
  ev_token :: string
  ev_type :: verification_type
  ev_expires_at :: msec

datatype account_table = Users | Sessions | Api_Keys | Reset_Tokens | Email_Verifications | Audit_Logs

record account_world = dbenv +
  a_users :: "user_row list"
  a_sessions :: "session_row list"
  a_keys :: "api_key_row list"
  a_resets :: "reset_row list"
  a_verifications :: "verification_row list"
  a_audit :: "(nat option \<times> string) list"
  a_sequences :: "account_table \<Rightarrow> nat"
  a_last_rowid :: nat
  a_serial :: nat
  a_revoked :: "nat list"

type_synonym 'a acc_op = "(account_world, string, 'a) em"

definition acc_call :: "'a acc_op \<Rightarrow> 'a acc_op" where
  "acc_call m = (\<lambda>w. case faults w of
     [] \<Rightarrow> m w
   | True # fs \<Rightarrow> (Inl ''adapter failure'', w\<lparr>faults := fs\<rparr>)
   | False # fs \<Rightarrow> m (w\<lparr>faults := fs\<rparr>))"

definition acc_now :: "msec acc_op" where
  "acc_now = eget clock"

text \<open>The number a table gives next, and the state after it gave it.\<close>

definition next_id :: "account_table \<Rightarrow> account_world \<Rightarrow> nat" where
  "next_id t w = Suc (a_sequences w t)"

definition numbered :: "account_table \<Rightarrow> account_world \<Rightarrow> account_world" where
  "numbered t w = w\<lparr>a_sequences := (a_sequences w)(t := next_id t w), a_last_rowid := next_id t w\<rparr>"

definition last_insert_rowid :: "nat acc_op" where
  "last_insert_rowid = acc_call (eget a_last_rowid)"

subsection \<open>Users\<close>

definition user_of :: "nat \<Rightarrow> account_world \<Rightarrow> user_row option" where
  "user_of i w = List.find (\<lambda>u. us_id u = i) (a_users w)"

definition getUserById :: "nat \<Rightarrow> user_row option acc_op" where
  "getUserById i = acc_call (eget (user_of i))"

definition getUserByUsername :: "string \<Rightarrow> user_row option acc_op" where
  "getUserByUsername n = acc_call (eget (\<lambda>w. List.find (\<lambda>u. us_username u = n) (a_users w)))"

definition getUserByEmail :: "string \<Rightarrow> user_row option acc_op" where
  "getUserByEmail e = acc_call (eget (\<lambda>w. List.find (\<lambda>u. us_email u = Some e) (a_users w)))"

definition getUserByProvider :: "string \<Rightarrow> string \<Rightarrow> user_row option acc_op" where
  "getUserByProvider p i = acc_call (eget (\<lambda>w.
     List.find (\<lambda>u. us_auth_provider u = Some p \<and> us_provider_user_id u = Some i) (a_users w)))"

definition same_identity :: "user_row \<Rightarrow> user_row \<Rightarrow> bool" where
  "same_identity u v = (us_provider_user_id u \<noteq> None \<and> us_auth_provider u \<noteq> None \<and>
     us_provider_user_id u = us_provider_user_id v \<and> us_auth_provider u = us_auth_provider v)"

definition insert_user :: "user_row \<Rightarrow> unit acc_op" where
  "insert_user u = acc_call (\<lambda>w.
     if us_username u \<in> us_username ` set (a_users w) \<or> list_ex (same_identity u) (a_users w)
     then (Inl ''UNIQUE constraint failed'', w)
     else (Inr (), (numbered Users w)\<lparr>a_users := a_users w @ [u\<lparr>us_id := next_id Users w\<rparr>]\<rparr>))"

text \<open>Two statements, between which other requests may insert.\<close>

definition db_createUser :: "user_row \<Rightarrow> nat acc_op" where
  "db_createUser u = eseq (insert_user u) last_insert_rowid"

text \<open>\<open>createUserWithPassword\<close> of the store reads the row once more.\<close>

definition db_createUserWithPassword :: "user_row \<Rightarrow> nat acc_op" where
  "db_createUserWithPassword u = ebind (db_createUser u) (\<lambda>i. eseq (getUserById i) (ereturn i))"

record user_update =
  uu_email :: "string option"
  uu_name :: "string option"
  uu_role :: "string option"
  uu_passwordHash :: "string option"
  uu_avatar_url :: "string option"
  uu_provider_user_id :: "string option"
  uu_auth_provider :: "string option"
  uu_email_verified :: "bool option"

definition no_update :: user_update where
  "no_update = \<lparr>uu_email = None, uu_name = None, uu_role = None, uu_passwordHash = None, uu_avatar_url = None,
     uu_provider_user_id = None, uu_auth_provider = None, uu_email_verified = None\<rparr>"

definition given :: "'a option \<Rightarrow> 'a option \<Rightarrow> 'a option" where
  "given x old = (case x of None \<Rightarrow> old | Some _ \<Rightarrow> x)"

definition updated_user :: "user_update \<Rightarrow> user_row \<Rightarrow> user_row" where
  "updated_user c u = u\<lparr>us_email := given (uu_email c) (us_email u), us_name := given (uu_name c) (us_name u),
     us_role := (case uu_role c of None \<Rightarrow> us_role u | Some r \<Rightarrow> r),
     us_password_hash := given (uu_passwordHash c) (us_password_hash u), us_avatar_url := given (uu_avatar_url c) (us_avatar_url u),
     us_provider_user_id := given (uu_provider_user_id c) (us_provider_user_id u),
     us_auth_provider := given (uu_auth_provider c) (us_auth_provider u),
     us_email_verified := (case uu_email_verified c of None \<Rightarrow> us_email_verified u | Some b \<Rightarrow> b)\<rparr>"

definition rewrite_user :: "nat \<Rightarrow> (user_row \<Rightarrow> user_row) \<Rightarrow> user_row list \<Rightarrow> user_row list" where
  "rewrite_user i f us = map (\<lambda>u. if us_id u = i then f u else u) us"

text \<open>The update of one row is refused when another row holds the new identity.\<close>

definition db_updateUser :: "nat \<Rightarrow> user_update \<Rightarrow> bool acc_op" where
  "db_updateUser i c = (if c = no_update then ereturn False
     else acc_call (\<lambda>w.
       if list_ex (\<lambda>u. us_id u = i \<and> list_ex (\<lambda>v. us_id v \<noteq> i \<and> same_identity (updated_user c u) v) (a_users w)) (a_users w)
       then (Inl ''UNIQUE constraint failed'', w)
       else (Inr True, w\<lparr>a_users := rewrite_user i (updated_user c) (a_users w)\<rparr>)))"

text \<open>A statement on the pending address or the verification flag of one user.\<close>

definition set_user_columns :: "nat \<Rightarrow> (user_row \<Rightarrow> user_row) \<Rightarrow> unit acc_op" where
  "set_user_columns i f = acc_call (emodify (\<lambda>w. w\<lparr>a_users := rewrite_user i f (a_users w)\<rparr>))"

definition delete_user_row :: "nat \<Rightarrow> unit acc_op" where
  "delete_user_row i = acc_call (\<lambda>w.
     if i \<in> us_id ` set (a_users w) \<and>
        (i \<in> se_user_id ` set (a_sessions w) \<or> i \<in> ak_user_id ` set (a_keys w) \<or> Some i \<in> fst ` set (a_audit w))
     then (Inl ''FOREIGN KEY constraint failed'', w)
     else (Inr (), w\<lparr>a_users := filter (\<lambda>u. us_id u \<noteq> i) (a_users w),
        a_resets := filter (\<lambda>r. rt_user_id r \<noteq> i) (a_resets w),
        a_verifications := filter (\<lambda>v. ev_user_id v \<noteq> i) (a_verifications w)\<rparr>))"

subsection \<open>Sessions\<close>

definition insert_session :: "nat \<Rightarrow> string \<Rightarrow> msec \<Rightarrow> unit acc_op" where
  "insert_session userId hash expiresAt = acc_call (\<lambda>w.
     if hash \<in> se_token_hash ` set (a_sessions w) then (Inl ''UNIQUE constraint failed'', w)
     else if userId \<notin> us_id ` set (a_users w) then (Inl ''FOREIGN KEY constraint failed'', w)
     else (Inr (), (numbered Sessions w)\<lparr>a_sessions := a_sessions w @
        [\<lparr>se_id = next_id Sessions w, se_token_hash = hash, se_user_id = userId, se_expires_at = expiresAt\<rparr>]\<rparr>))"

definition db_createSession :: "nat \<Rightarrow> string \<Rightarrow> msec \<Rightarrow> nat acc_op" where
  "db_createSession userId hash expiresAt = eseq (insert_session userId hash expiresAt) last_insert_rowid"

text \<open>The row of a live session, joined with its user.\<close>

definition live_session :: "string \<Rightarrow> msec \<Rightarrow> account_world \<Rightarrow> (session_row \<times> user_row) option" where
  "live_session hash now w = (case List.find (\<lambda>s. se_token_hash s = hash \<and> now < se_expires_at s) (a_sessions w) of
     None \<Rightarrow> None | Some s \<Rightarrow> (case user_of (se_user_id s) w of None \<Rightarrow> None | Some u \<Rightarrow> Some (s, u)))"

definition getSessionByToken :: "string \<Rightarrow> (session_row \<times> user_row) option acc_op" where
  "getSessionByToken hash = ebind acc_now (\<lambda>now. acc_call (eget (live_session hash now)))"

definition keep_sessions :: "(session_row \<Rightarrow> bool) \<Rightarrow> unit acc_op" where
  "keep_sessions P = acc_call (emodify (\<lambda>w. w\<lparr>a_sessions := filter P (a_sessions w)\<rparr>))"

definition db_deleteSession :: "nat \<Rightarrow> unit acc_op" where
  "db_deleteSession i = keep_sessions (\<lambda>s. se_id s \<noteq> i)"

definition db_deleteUserSessions :: "nat \<Rightarrow> unit acc_op" where
  "db_deleteUserSessions userId = keep_sessions (\<lambda>s. se_user_id s \<noteq> userId)"

definition cleanupExpiredSessions :: "unit acc_op" where
  "cleanupExpiredSessions = ebind acc_now (\<lambda>now. keep_sessions (\<lambda>s. now < se_expires_at s))"

text \<open>The newest \<open>keep\<close> numbers of the sessions of a user.\<close>

definition newest_ids :: "nat \<Rightarrow> nat \<Rightarrow> session_row list \<Rightarrow> nat list" where
  "newest_ids userId n ss = take n (rev (sort (map se_id (filter (\<lambda>s. se_user_id s = userId) ss))))"

definition pruneUserSessions :: "nat \<Rightarrow> int \<Rightarrow> unit acc_op" where
  "pruneUserSessions userId keep = (if keep \<le> 0 then ereturn ()
     else acc_call (emodify (\<lambda>w. w\<lparr>a_sessions :=
       filter (\<lambda>s. se_user_id s \<noteq> userId \<or> se_id s \<in> set (newest_ids userId (nat keep) (a_sessions w))) (a_sessions w)\<rparr>)))"

subsection \<open>API keys\<close>

definition insert_api_key :: "nat \<Rightarrow> string \<Rightarrow> string \<Rightarrow> msec option \<Rightarrow> unit acc_op" where
  "insert_api_key userId hash name expiresAt = acc_call (\<lambda>w.
     if hash \<in> ak_key_hash ` set (a_keys w) then (Inl ''UNIQUE constraint failed'', w)
     else if userId \<notin> us_id ` set (a_users w) then (Inl ''FOREIGN KEY constraint failed'', w)
     else (Inr (), (numbered Api_Keys w)\<lparr>a_keys := a_keys w @
        [\<lparr>ak_id = next_id Api_Keys w, ak_key_hash = hash, ak_user_id = userId, ak_name = name, ak_expires_at = expiresAt\<rparr>]\<rparr>))"

definition db_createApiKey :: "nat \<Rightarrow> string \<Rightarrow> string \<Rightarrow> msec option \<Rightarrow> nat acc_op" where
  "db_createApiKey userId hash name expiresAt = eseq (insert_api_key userId hash name expiresAt) last_insert_rowid"

definition key_of :: "string \<Rightarrow> account_world \<Rightarrow> (api_key_row \<times> user_row) option" where
  "key_of hash w = (case List.find (\<lambda>k. ak_key_hash k = hash) (a_keys w) of
     None \<Rightarrow> None | Some k \<Rightarrow> (case user_of (ak_user_id k) w of None \<Rightarrow> None | Some u \<Rightarrow> Some (k, u)))"

definition getApiKeyByHash :: "string \<Rightarrow> (api_key_row \<times> user_row) option acc_op" where
  "getApiKeyByHash hash = acc_call (eget (key_of hash))"

definition db_deleteApiKey :: "nat \<Rightarrow> unit acc_op" where
  "db_deleteApiKey i = acc_call (emodify (\<lambda>w. w\<lparr>a_keys := filter (\<lambda>k. ak_id k \<noteq> i) (a_keys w)\<rparr>))"

text \<open>Sessions and keys go first, the history is detached, then the row of the user.\<close>

definition db_deleteUser :: "nat \<Rightarrow> unit acc_op" where
  "db_deleteUser i =
     eseq (db_deleteUserSessions i)
     (eseq (acc_call (emodify (\<lambda>w. w\<lparr>a_keys := filter (\<lambda>k. ak_user_id k \<noteq> i) (a_keys w)\<rparr>)))
     (eseq (acc_call (emodify (\<lambda>w. w\<lparr>a_audit := map (\<lambda>(u, a). (if u = Some i then None else u, a)) (a_audit w)\<rparr>)))
       (delete_user_row i)))"

subsection \<open>Reset tokens\<close>

definition keep_resets :: "(reset_row \<Rightarrow> bool) \<Rightarrow> unit acc_op" where
  "keep_resets P = acc_call (emodify (\<lambda>w. w\<lparr>a_resets := filter P (a_resets w)\<rparr>))"

definition insert_reset :: "nat \<Rightarrow> string \<Rightarrow> msec \<Rightarrow> string option \<Rightarrow> unit acc_op" where
  "insert_reset userId hash expiresAt ip = acc_call (\<lambda>w.
     if hash \<in> rt_token_hash ` set (a_resets w) then (Inl ''UNIQUE constraint failed'', w)
     else if userId \<notin> us_id ` set (a_users w) then (Inl ''FOREIGN KEY constraint failed'', w)
     else (Inr (), (numbered Reset_Tokens w)\<lparr>a_resets := a_resets w @
        [\<lparr>rt_id = next_id Reset_Tokens w, rt_user_id = userId, rt_token_hash = hash, rt_expires_at = expiresAt,
          rt_consumed_at = None, rt_created_ip = ip\<rparr>]\<rparr>))"

definition db_createPasswordResetToken :: "nat \<Rightarrow> string \<Rightarrow> msec \<Rightarrow> string option \<Rightarrow> nat acc_op" where
  "db_createPasswordResetToken userId hash expiresAt ip =
     eseq (keep_resets (\<lambda>r. rt_user_id r \<noteq> userId \<or> rt_consumed_at r \<noteq> None))
     (eseq (insert_reset userId hash expiresAt ip) last_insert_rowid)"

definition live_reset :: "string \<Rightarrow> msec \<Rightarrow> reset_row \<Rightarrow> bool" where
  "live_reset hash now r = (rt_token_hash r = hash \<and> rt_consumed_at r = None \<and> now < rt_expires_at r)"

definition getLivePasswordResetToken :: "string \<Rightarrow> reset_row option acc_op" where
  "getLivePasswordResetToken hash = ebind acc_now (\<lambda>now.
     acc_call (eget (\<lambda>w. List.find (live_reset hash now) (a_resets w))))"

text \<open>Whether the statement changed a row.\<close>

definition consumePasswordResetToken :: "nat \<Rightarrow> bool acc_op" where
  "consumePasswordResetToken i = ebind acc_now (\<lambda>now. acc_call (\<lambda>w.
     (Inr (list_ex (\<lambda>r. rt_id r = i \<and> rt_consumed_at r = None) (a_resets w)),
      w\<lparr>a_resets := map (\<lambda>r. if rt_id r = i \<and> rt_consumed_at r = None then r\<lparr>rt_consumed_at := Some now\<rparr> else r) (a_resets w)\<rparr>)))"

definition deleteUserPasswordResetTokens :: "nat \<Rightarrow> unit acc_op" where
  "deleteUserPasswordResetTokens userId = keep_resets (\<lambda>r. rt_user_id r \<noteq> userId)"

definition cleanupExpiredPasswordResetTokens :: "unit acc_op" where
  "cleanupExpiredPasswordResetTokens = ebind acc_now (\<lambda>now. keep_resets (\<lambda>r. rt_consumed_at r = None \<and> now < rt_expires_at r))"

subsection \<open>Audit\<close>

text \<open>\<open>logAuditEvent\<close>: an entry whose actor is gone is kept without the reference.\<close>

definition logAuditEvent :: "nat option \<Rightarrow> string \<Rightarrow> unit acc_op" where
  "logAuditEvent userId action =
     ecatch (acc_call (\<lambda>w. case userId of
         Some i \<Rightarrow> if i \<in> us_id ` set (a_users w) then (Inr (), (numbered Audit_Logs w)\<lparr>a_audit := a_audit w @ [(userId, action)]\<rparr>)
           else (Inl ''FOREIGN KEY constraint failed'', w)
       | None \<Rightarrow> (Inr (), (numbered Audit_Logs w)\<lparr>a_audit := a_audit w @ [(None, action)]\<rparr>)))
     (\<lambda>e. if userId \<noteq> None \<and> str_includes e ''FOREIGN KEY''
       then acc_call (emodify (\<lambda>w. (numbered Audit_Logs w)\<lparr>a_audit := a_audit w @ [(None, action)]\<rparr>)) else ethrow e)"

definition logAuthEvent :: "nat option \<Rightarrow> string \<Rightarrow> unit acc_op" where
  "logAuthEvent userId action = equiet (logAuditEvent userId action)"

end
