(* ===== verification/Login_Throttle.thy ===== *)
theory Login_Throttle
  imports Civic_Prelude
begin

section \<open>Login throttling\<close>

text \<open>
  \<open>core/src/auth/login-throttle.ts\<close> and the password login of
  \<open>core/src/auth/auth-service/password-ops.ts\<close> that uses it. The table
  \<open>login_attempts\<close> has one row per normalised user name. Every method fails open: an
  adapter failure reads as no row, or as a failure not recorded. What the user table and
  bcrypt answer is the \<open>attempt\<close>.
\<close>

subsection \<open>Durations\<close>

definition is_digit :: "char \<Rightarrow> bool" where
  "is_digit c \<longleftrightarrow> (let n = (of_char c :: nat) in 48 \<le> n \<and> n \<le> 57)"

definition digits_value :: "string \<Rightarrow> int" where
  "digits_value ds = foldl (\<lambda>n c. 10 * n + int (of_char c - 48)) 0 ds"

definition unit_factor :: "string \<Rightarrow> int option" where
  "unit_factor u = (if u = ''ms'' then Some 1 else if u = ''s'' then Some 1000
     else if u = ''h'' then Some (60 * 60 * 1000) else if u = ''d'' then Some (24 * 60 * 60 * 1000)
     else if u = ''m'' \<or> u = [] then Some (60 * 1000) else None)"

text \<open>The pattern \<open>^(\d+)\s*(ms|s|m|h|d)?$\<close> on the trimmed text.\<close>

definition parseDurationMs :: "string \<Rightarrow> msec \<Rightarrow> msec" where
  "parseDurationMs v fallback =
     (let t = trim v; ds = takeWhile is_digit t; u = dropWhile is_space (dropWhile is_digit t) in
      if ds = [] then fallback
      else (case unit_factor u of Some f \<Rightarrow> digits_value ds * f | None \<Rightarrow> fallback))"

subsection \<open>The throttle\<close>

record login_row =
  lr_username :: string
  lr_failed_count :: nat
  lr_first_failed_at :: msec
  lr_last_failed_at :: msec
  lr_locked_until :: "msec option"

record throttle_db = dbenv +
  attempts :: "login_row list"
  alerts :: "string list"

record throttle_options =
  to_maxAttempts :: nat
  to_lockoutMs :: msec

datatype account_locked_error = AccountLockedError msec

definition normalized_user :: "string \<Rightarrow> string" where
  "normalized_user u = to_lower (trim u)"

definition find_row :: "string \<Rightarrow> login_row list \<Rightarrow> login_row option" where
  "find_row k rs = find (\<lambda>r. lr_username r = k) rs"

definition getRow :: "string \<Rightarrow> (throttle_db, 'e, login_row option) em" where
  "getRow k = ecatch (db_call (\<lambda>db. (Inr (find_row k (attempts db)), db))) (\<lambda>_. ereturn None)"

definition assertNotLocked :: "string \<Rightarrow> (throttle_db, account_locked_error, unit) em" where
  "assertNotLocked username =
     ebind date_now (\<lambda>now.
     ebind (getRow (normalized_user username)) (\<lambda>row.
       case row of
         None \<Rightarrow> ereturn ()
       | Some r \<Rightarrow> (case lr_locked_until r of
           None \<Rightarrow> ereturn ()
         | Some t \<Rightarrow> if now < t then ethrow (AccountLockedError (t - now)) else ereturn ())))"

definition prior_expired :: "login_row option \<Rightarrow> msec \<Rightarrow> bool" where
  "prior_expired row now \<longleftrightarrow> (case row of None \<Rightarrow> False
     | Some r \<Rightarrow> (case lr_locked_until r of None \<Rightarrow> False | Some t \<Rightarrow> t \<le> now))"

definition failures :: "login_row option \<Rightarrow> nat" where
  "failures row = (case row of None \<Rightarrow> 0 | Some r \<Rightarrow> lr_failed_count r)"

definition next_count :: "login_row option \<Rightarrow> msec \<Rightarrow> nat" where
  "next_count row now = (if prior_expired row now then 0 else failures row) + 1"

definition update_row :: "string \<Rightarrow> nat \<Rightarrow> msec \<Rightarrow> msec option \<Rightarrow> (throttle_db, db_error, bool) em" where
  "update_row k count now locked = db_call (\<lambda>db.
     (Inr (list_ex (\<lambda>r. lr_username r = k) (attempts db)),
      db\<lparr>attempts := map (\<lambda>r. if lr_username r = k
         then r\<lparr>lr_failed_count := count, lr_last_failed_at := now, lr_locked_until := locked\<rparr> else r) (attempts db)\<rparr>))"

definition insert_row :: "string \<Rightarrow> nat \<Rightarrow> msec \<Rightarrow> msec option \<Rightarrow> (throttle_db, db_error, unit) em" where
  "insert_row k count now locked = db_call (\<lambda>db.
     if find_row k (attempts db) \<noteq> None then (Inl UniqueViolation, db)
     else (Inr (), db\<lparr>attempts := attempts db @ [\<lparr>lr_username = k, lr_failed_count = count,
        lr_first_failed_at = now, lr_last_failed_at = now, lr_locked_until = locked\<rparr>]\<rparr>))"

definition recordFailure :: "throttle_options \<Rightarrow> string \<Rightarrow> (throttle_db, 'e, bool) em" where
  "recordFailure opts username =
     ebind date_now (\<lambda>now.
       let k = normalized_user username in
       ecatch
         (ebind (getRow k) (\<lambda>row.
            let count = next_count row now;
                lock = to_maxAttempts opts \<le> count;
                lockedUntil = (if lock then Some (now + to_lockoutMs opts) else None);
                storedCount = (if lock then 0 else count) in
            ebind (update_row k storedCount now lockedUntil) (\<lambda>changed.
            eseq (ewhen (\<not> changed) (insert_row k storedCount now lockedUntil))
              (ereturn lock))))
         (\<lambda>_. ereturn False))"

definition recordSuccess :: "string \<Rightarrow> (throttle_db, 'e, unit) em" where
  "recordSuccess username = equiet (db_call (\<lambda>db.
     (Inr (), db\<lparr>attempts := filter (\<lambda>r. lr_username r \<noteq> normalized_user username) (attempts db)\<rparr>)
       :: (db_error + unit) \<times> throttle_db))"

definition stale_row :: "msec \<Rightarrow> msec \<Rightarrow> login_row \<Rightarrow> bool" where
  "stale_row now retention r \<longleftrightarrow>
     (case lr_locked_until r of None \<Rightarrow> True | Some t \<Rightarrow> t \<le> now) \<and> lr_last_failed_at r \<le> now - retention"

definition cleanupStaleAttempts :: "msec \<Rightarrow> (throttle_db, 'e, nat) em" where
  "cleanupStaleAttempts retention = ebind date_now (\<lambda>now. ecatch
     (db_call (\<lambda>db. (Inr (length (filter (stale_row now retention) (attempts db))),
        db\<lparr>attempts := filter (\<lambda>r. \<not> stale_row now retention r) (attempts db)\<rparr>)))
     (\<lambda>_. ereturn 0))"

subsection \<open>The password login\<close>

text \<open>What a request meets after the lockout check: no such user, a wrong password, the right
  one, a failing user store, or a failing session store after the right password.\<close>

datatype attempt = UnknownUser | WrongPassword | RightPassword | UserStoreError | SessionError

datatype login_result = LockedOut msec | InvalidCredentials | LoggedIn

record password_config =
  pw_maxLoginAttempts :: nat
  pw_lockoutDuration :: "string option"

text \<open>\<open>getThrottle\<close>: the options from the loaded configuration, if any.\<close>

definition getThrottle :: "password_config option \<Rightarrow> throttle_options" where
  "getThrottle pc = (case pc of
     None \<Rightarrow> \<lparr>to_maxAttempts = 5, to_lockoutMs = 15 * 60 * 1000\<rparr>
   | Some p \<Rightarrow> \<lparr>to_maxAttempts = (if 0 < pw_maxLoginAttempts p then pw_maxLoginAttempts p else 5),
       to_lockoutMs = (case or_null (pw_lockoutDuration p) of
          Some d \<Rightarrow> parseDurationMs d (15 * 60 * 1000) | None \<Rightarrow> 15 * 60 * 1000)\<rparr>)"

text \<open>A lock is reported to the operator (\<open>alerts\<close>). The two halves of \<open>authenticateWithPassword\<close>, between which other requests run:
  the check before the password is compared, and the recording of its outcome.\<close>

definition notifyAccountLocked :: "string \<Rightarrow> throttle_db \<Rightarrow> throttle_db" where
  "notifyAccountLocked username db = db\<lparr>alerts := alerts db @ [username]\<rparr>"

definition finish_login :: "throttle_options \<Rightarrow> string \<Rightarrow> attempt \<Rightarrow> throttle_db \<Rightarrow> login_result \<times> throttle_db" where
  "finish_login opts username a db =
     (case a of
        RightPassword \<Rightarrow> (LoggedIn, snd ((recordSuccess username :: (throttle_db, unit, unit) em) db))
      | SessionError \<Rightarrow> (InvalidCredentials, snd ((recordSuccess username :: (throttle_db, unit, unit) em) db))
      | UserStoreError \<Rightarrow> (InvalidCredentials, db)
      | _ \<Rightarrow> (case (recordFailure opts username :: (throttle_db, unit, bool) em) db of
          (Inr True, db1) \<Rightarrow> (InvalidCredentials, notifyAccountLocked username db1)
        | (_, db1) \<Rightarrow> (InvalidCredentials, db1)))"

definition authenticateWithPassword :: "throttle_options \<Rightarrow> string \<Rightarrow> attempt \<Rightarrow> nat \<Rightarrow> throttle_db \<Rightarrow>
    login_result \<times> throttle_db" where
  "authenticateWithPassword opts username a elapsed db =
     (case assertNotLocked username db of
        (Inl (AccountLockedError t), db1) \<Rightarrow> (LockedOut t, db1)
      | (Inr _, db1) \<Rightarrow> finish_login opts username a (db1\<lparr>clock := clock db1 + int elapsed\<rparr>))"

subsection \<open>Without adapter failures\<close>

definition one_per_user :: "throttle_db \<Rightarrow> bool" where
  "one_per_user db \<longleftrightarrow> distinct (map lr_username (attempts db))"

abbreviation row_of :: "throttle_db \<Rightarrow> string \<Rightarrow> login_row option" where
  "row_of db u \<equiv> find_row (normalized_user u) (attempts db)"

definition locked_until :: "login_row option \<Rightarrow> msec option" where
  "locked_until row = (case row of None \<Rightarrow> None | Some r \<Rightarrow> lr_locked_until r)"

lemma find_row_map:
  "find_row k (map (\<lambda>r. if lr_username r = k then f r else r) rs) =
     (if find_row k rs = None then None else map_option f (find_row k rs))"
  if "\<And>r. lr_username (f r) = lr_username r"
  using that by (induction rs) (auto simp: find_row_def)

lemma find_row_None: "find_row k rs = None \<longleftrightarrow> \<not> list_ex (\<lambda>r. lr_username r = k) rs"
  by (auto simp: find_row_def find_None_iff list_ex_iff)

lemma find_row_append: "find_row k (rs @ [r]) = (case find_row k rs of None \<Rightarrow> if lr_username r = k then Some r else None | Some x \<Rightarrow> Some x)"
  by (induction rs) (auto simp: find_row_def)

lemma assertNotLocked_plain:
  "faults db = [] \<Longrightarrow> assertNotLocked u db =
     ((case locked_until (row_of db u) of
        Some t \<Rightarrow> if clock db < t then Inl (AccountLockedError (t - clock db)) else Inr ()
      | None \<Rightarrow> Inr ()), db)"
  by (auto simp: assertNotLocked_def getRow_def em_defs date_now_def locked_until_def split: option.splits)

lemma recordFailure_plain:
  assumes "faults db = []"
    and n_def: "next_count (row_of db u) (clock db) = n"
  obtains db' where "recordFailure opts u db = (Inr (to_maxAttempts opts \<le> n), db')" "faults db' = []"
    "clock db' = clock db"
    "failures (row_of db' u) = (if to_maxAttempts opts \<le> n then 0 else n)"
    "locked_until (row_of db' u) = (if to_maxAttempts opts \<le> n then Some (clock db + to_lockoutMs opts) else None)"
proof -
  let ?k = "normalized_user u"
  have get: "(getRow ?k :: (throttle_db, db_error, login_row option) em) db = (Inr (row_of db u), db)"
    using assms(1) by (simp add: getRow_def ecatch_def)
  let ?lk = "to_maxAttempts opts \<le> n"
  let ?cnt = "if ?lk then 0 else n" and ?until = "if ?lk then Some (clock db + to_lockoutMs opts) else None"
  let ?upd = "\<lambda>r. r\<lparr>lr_failed_count := ?cnt, lr_last_failed_at := clock db, lr_locked_until := ?until\<rparr>"
  let ?db1 = "db\<lparr>attempts := map (\<lambda>r. if lr_username r = ?k then ?upd r else r) (attempts db)\<rparr>"
  let ?new = "\<lparr>lr_username = ?k, lr_failed_count = ?cnt, lr_first_failed_at = clock db,
    lr_last_failed_at = clock db, lr_locked_until = ?until\<rparr>"
  have body: "recordFailure opts u db = ecatch (ebind (update_row ?k ?cnt (clock db) ?until)
      (\<lambda>changed. eseq (ewhen (\<not> changed) (insert_row ?k ?cnt (clock db) ?until)) (ereturn ?lk)))
      (\<lambda>_. ereturn False) db"
    using get unfolding recordFailure_def Let_def n_def [symmetric]
    by (simp add: date_now_def ebind_def eget_def ecatch_def)
  have upd: "update_row ?k ?cnt (clock db) ?until db = (Inr (row_of db u \<noteq> None), ?db1)"
    using assms(1) find_row_None [of ?k "attempts db"] by (simp add: update_row_def)
  have row1: "row_of ?db1 u = map_option ?upd (row_of db u)"
    by (cases "row_of db u") (simp_all add: find_row_map)
  show thesis
  proof (cases "row_of db u")
    case None
    let ?db2 = "?db1\<lparr>attempts := attempts ?db1 @ [?new]\<rparr>"
    from None row1 have r1: "row_of ?db1 u = None" by simp
    then have ins: "insert_row ?k ?cnt (clock db) ?until ?db1 = (Inr (), ?db2)"
      using assms(1) by (simp add: insert_row_def)
    have row2: "row_of ?db2 u = Some ?new" using r1 by (simp add: find_row_append)
    have run: "recordFailure opts u db = (Inr ?lk, ?db2)"
      unfolding body using None upd ins by (simp add: ecatch_def ebind_def eseq_def ewhen_def ereturn_def)
    show thesis
      by (rule that [OF run]) (use assms(1) row2 in \<open>simp_all add: failures_def locked_until_def\<close>)
  next
    case (Some r)
    have run: "recordFailure opts u db = (Inr ?lk, ?db1)"
      unfolding body using Some upd by (simp add: ecatch_def ebind_def eseq_def ewhen_def ereturn_def)
    show thesis
      by (rule that [OF run]) (use assms(1) row1 Some in \<open>simp_all add: failures_def locked_until_def\<close>)
  qed
qed


lemma wrong_password_counts:
  assumes "faults db = []" and "locked_until (row_of db u) = None"
    and "Suc (failures (row_of db u)) < to_maxAttempts opts"
  obtains db' where "authenticateWithPassword opts u WrongPassword d db = (InvalidCredentials, db')"
    "faults db' = []" "locked_until (row_of db' u) = None" "failures (row_of db' u) = Suc (failures (row_of db u))"
proof -
  let ?db = "db\<lparr>clock := clock db + int d\<rparr>"
  have n: "next_count (row_of ?db u) (clock ?db) = Suc (failures (row_of db u))"
    using assms(2) by (auto simp: next_count_def prior_expired_def locked_until_def split: option.splits)
  obtain db' where "(recordFailure opts u :: (throttle_db, unit, bool) em) ?db = (Inr (to_maxAttempts opts \<le> Suc (failures (row_of db u))), db')"
    "faults db' = []" "failures (row_of db' u) = (if to_maxAttempts opts \<le> Suc (failures (row_of db u)) then 0 else Suc (failures (row_of db u)))"
    "locked_until (row_of db' u) = (if to_maxAttempts opts \<le> Suc (failures (row_of db u)) then Some (clock ?db + to_lockoutMs opts) else None)"
    using recordFailure_plain [OF _ n, of opts] assms(1) by auto
  with assms show thesis
    by (intro that [of db']) (simp_all add: authenticateWithPassword_def assertNotLocked_plain finish_login_def)
qed

lemma last_failure_locks:
  assumes "faults db = []" and "locked_until (row_of db u) = None"
    and "Suc (failures (row_of db u)) = to_maxAttempts opts"
  obtains db' where "authenticateWithPassword opts u WrongPassword d db = (InvalidCredentials, db')"
    "faults db' = []" "locked_until (row_of db' u) = Some (clock db' + to_lockoutMs opts)"
proof -
  let ?db = "db\<lparr>clock := clock db + int d\<rparr>"
  have n: "next_count (row_of ?db u) (clock ?db) = to_maxAttempts opts"
    using assms(2,3) by (auto simp: next_count_def prior_expired_def locked_until_def split: option.splits)
  obtain db' where "(recordFailure opts u :: (throttle_db, unit, bool) em) ?db = (Inr True, db')"
    "faults db' = []" "clock db' = clock ?db" "locked_until (row_of db' u) = Some (clock ?db + to_lockoutMs opts)"
    using recordFailure_plain [OF _ n, of opts] assms(1) by auto
  with assms show thesis
    by (intro that [of "notifyAccountLocked u db'"])
       (simp_all add: authenticateWithPassword_def assertNotLocked_plain finish_login_def notifyAccountLocked_def)
qed

primrec wrong_logins :: "throttle_options \<Rightarrow> string \<Rightarrow> nat list \<Rightarrow> throttle_db \<Rightarrow> throttle_db" where
  "wrong_logins opts u [] db = db"
| "wrong_logins opts u (d # ds) db = wrong_logins opts u ds (snd (authenticateWithPassword opts u WrongPassword d db))"

lemma wrong_logins_lock:
  assumes "faults db = []" and "locked_until (row_of db u) = None"
    and "failures (row_of db u) + length ds = to_maxAttempts opts" and "ds \<noteq> []"
  shows "faults (wrong_logins opts u ds db) = [] \<and>
    locked_until (row_of (wrong_logins opts u ds db) u) = Some (clock (wrong_logins opts u ds db) + to_lockoutMs opts)"
  using assms
proof (induction ds arbitrary: db)
  case (Cons d ds)
  show ?case
  proof (cases "ds = []")
    case True
    with Cons.prems(3) have "Suc (failures (row_of db u)) = to_maxAttempts opts" by simp
    then obtain db' where "authenticateWithPassword opts u WrongPassword d db = (InvalidCredentials, db')"
      "faults db' = []" "locked_until (row_of db' u) = Some (clock db' + to_lockoutMs opts)"
      using last_failure_locks [OF Cons.prems(1,2)] by blast
    with True show ?thesis by simp
  next
    case False
    with Cons.prems(3) have "Suc (failures (row_of db u)) < to_maxAttempts opts" by (cases ds) auto
    then obtain db' where "authenticateWithPassword opts u WrongPassword d db = (InvalidCredentials, db')"
      "faults db' = []" "locked_until (row_of db' u) = None" "failures (row_of db' u) = Suc (failures (row_of db u))"
      using wrong_password_counts [OF Cons.prems(1,2)] by blast
    with Cons.IH [of db'] Cons.prems(3) False show ?thesis by simp
  qed
qed simp

subsection \<open>Properties\<close>

text \<open>C21: Lockout. From a clean counter, after \<open>maxAttempts\<close> wrong passwords, one after the
  other and however long each takes, every further login of that account is refused for the
  whole lockout duration, the right password included, and the refusal names the remaining
  time.\<close>

theorem account_locks_after_max_failures:
  assumes "faults db = []" and "failures (row_of db u) = 0" and "locked_until (row_of db u) = None"
    and "length ds = to_maxAttempts opts" and "ds \<noteq> []" and "int d < to_lockoutMs opts"
  shows "fst (authenticateWithPassword opts u a e
      ((wrong_logins opts u ds db)\<lparr>clock := clock (wrong_logins opts u ds db) + int d\<rparr>)) =
    LockedOut (to_lockoutMs opts - int d)"
  using wrong_logins_lock [of db u ds opts] assms
  by (simp add: authenticateWithPassword_def assertNotLocked_plain)

lemma account_locks_after_max_failures_witness:
  "fst (authenticateWithPassword (getThrottle None) ''ann'' RightPassword 80
      ((wrong_logins (getThrottle None) ''ann'' [80, 90, 80, 75, 80] \<lparr>clock = 0, faults = [], attempts = [], alerts = []\<rparr>)
        \<lparr>clock := clock (wrong_logins (getThrottle None) ''ann'' [80, 90, 80, 75, 80]
           \<lparr>clock = 0, faults = [], attempts = [], alerts = []\<rparr>) + int 60000\<rparr>)) = LockedOut 840000"
proof -
  let ?db = "\<lparr>clock = 0, faults = [], attempts = [], alerts = []\<rparr>"
  have "failures (row_of ?db ''ann'') = 0" and "locked_until (row_of ?db ''ann'') = None"
    by (simp_all add: failures_def locked_until_def find_row_def)
  then show ?thesis
    using account_locks_after_max_failures [of ?db "''ann''" "[80, 90, 80, 75, 80]" "getThrottle None" 60000 RightPassword 80]
    by (simp add: getThrottle_def)
qed

text \<open>A late failure lifts the lock. When the wrong password of a request that passed the
  check before the account was locked is recorded afterwards, the lock is cleared: the next
  login of the account is admitted at once.\<close>

theorem late_failure_lifts_the_lock:
  assumes "faults db = []" and "locked_until (row_of db u) = Some t" and "clock db < t"
    and "failures (row_of db u) = 0" and "1 < to_maxAttempts opts"
    and "a = WrongPassword \<or> a = UnknownUser"
  shows "fst (assertNotLocked u (snd (finish_login opts u a db))) = Inr ()"
proof -
  have n: "next_count (row_of db u) (clock db) = 1"
    using assms(2-4) by (auto simp: next_count_def prior_expired_def locked_until_def split: option.splits)
  obtain db' where "(recordFailure opts u :: (throttle_db, unit, bool) em) db = (Inr False, db')" "faults db' = []"
    "locked_until (row_of db' u) = None"
    using recordFailure_plain [OF assms(1) n, of opts] assms(5) by auto
  with assms(6) show ?thesis by (auto simp: finish_login_def assertNotLocked_plain)
qed

lemma late_failure_lifts_the_lock_witness:
  "fst (assertNotLocked ''ann'' (snd (finish_login (getThrottle None) ''ann'' WrongPassword
     \<lparr>clock = 1000, faults = [], attempts = [\<lparr>lr_username = ''ann'', lr_failed_count = 0,
        lr_first_failed_at = 1, lr_last_failed_at = 900, lr_locked_until = Some 900900\<rparr>], alerts = []\<rparr>))) = Inr ()"
  by (rule late_failure_lifts_the_lock [where t = 900900]) code_simp+

text \<open>The sweep keeps what still matters. Whatever adapter calls fail, the cleanup of old
  attempts never removes a lock that has not run out nor a failure inside the retention
  window.\<close>

theorem cleanup_keeps_live_rows:
  assumes "r \<in> set (attempts db)"
    and "clock db < the (lr_locked_until r) \<and> lr_locked_until r \<noteq> None \<or> clock db - retention < lr_last_failed_at r"
  shows "r \<in> set (attempts (snd ((cleanupStaleAttempts retention :: (throttle_db, unit, nat) em) db)))"
  using assms
  by (auto simp: cleanupStaleAttempts_def em_defs date_now_def db_call_def stale_row_def
      split: list.splits bool.splits option.splits)

lemma cleanup_keeps_live_rows_witness:
  "\<lparr>lr_username = ''ann'', lr_failed_count = 0, lr_first_failed_at = 1, lr_last_failed_at = 1,
      lr_locked_until = Some 900900\<rparr> \<in> set (attempts (snd ((cleanupStaleAttempts 10 :: (throttle_db, unit, nat) em)
     \<lparr>clock = 1000, faults = [False], attempts = [\<lparr>lr_username = ''ann'', lr_failed_count = 0,
        lr_first_failed_at = 1, lr_last_failed_at = 1, lr_locked_until = Some 900900\<rparr>], alerts = []\<rparr>)))"
  by (rule cleanup_keeps_live_rows) simp_all

end
