(* ===== verification/Account_Service.thy ===== *)
theory Account_Service
  imports Account_World Login_Throttle "HOL-Library.Word"
begin

section \<open>Accounts: sessions, keys, passwords, addresses and external logins\<close>

text \<open>
  \<open>core/src/auth/auth-service.ts\<close> with its collaborators \<open>user-ops.ts\<close>,
  \<open>session-ops.ts\<close>, \<open>api-key-ops.ts\<close>, \<open>password-ops.ts\<close> and \<open>oauth-ops.ts\<close>,
  \<open>core/src/auth/email-validation-service.ts\<close>, the signatures of
  \<open>core/src/security/secrets.ts\<close> and the password policy of \<open>core/src/auth/auth-config.ts\<close>.
  Random tokens and bcrypt salts are functions at a counter in the state; SHA-256, HMAC and
  bcrypt are functions of the environment. Sending mail fails quietly in the code and is
  left out.
\<close>

subsection \<open>Signatures\<close>

type_synonym octet = "8 word"

definition hex_digit :: "nat \<Rightarrow> char" where
  "hex_digit n = ''0123456789abcdef'' ! n"

definition to_hex :: "octet list \<Rightarrow> string" where
  "to_hex bs = concat (map (\<lambda>b. [hex_digit (unat b div 16), hex_digit (unat b mod 16)]) bs)"

definition hex_value :: "char \<Rightarrow> nat option" where
  "hex_value c = (let n = (of_char c :: nat) in
     if 48 \<le> n \<and> n \<le> 57 then Some (n - 48)
     else if 97 \<le> n \<and> n \<le> 102 then Some (n - 87)
     else if 65 \<le> n \<and> n \<le> 70 then Some (n - 55) else None)"

text \<open>\<open>Buffer.from(s, 'hex')\<close> stops at the first pair that is not hexadecimal.\<close>

fun from_hex :: "string \<Rightarrow> octet list" where
  "from_hex (a # b # s) = (case (hex_value a, hex_value b) of
     (Some x, Some y) \<Rightarrow> word_of_nat (16 * x + y) # from_hex s | _ \<Rightarrow> [])"
| "from_hex _ = []"

datatype key_scope = Session_Key | Api_Key | Token_Key

record password_policy =
  pp_minLength :: nat
  pp_requireUppercase :: bool
  pp_requireLowercase :: bool
  pp_requireNumbers :: bool
  pp_requireSpecialChars :: bool

record security_config =
  sc_sessionTimeout :: "string option"
  sc_maxConcurrentSessions :: "int option"

record account_env =
  ae_token :: "nat \<Rightarrow> string"
  ae_sha256 :: "string \<Rightarrow> string"
  ae_hmac :: "(key_scope \<Rightarrow> string \<Rightarrow> octet list) option"
  ae_bcrypt_hash :: "nat \<Rightarrow> string \<Rightarrow> string"
  ae_bcrypt_compare :: "string \<Rightarrow> string \<Rightarrow> bool"
  ae_security :: "security_config option"
  ae_policy :: password_policy
  ae_defaultRole :: string
  ae_validRole :: "string \<Rightarrow> bool"
  ae_NODE_ENV :: "string option"
  ae_ALLOW_SIMULATED :: "string option"

definition verify_signature :: "(string \<Rightarrow> octet list) \<Rightarrow> string \<Rightarrow> string \<Rightarrow> bool" where
  "verify_signature hmac payload signature = (from_hex signature = hmac payload)"

definition signed :: "account_env \<Rightarrow> key_scope \<Rightarrow> string \<Rightarrow> string" where
  "signed env scope token = (case ae_hmac env of
     None \<Rightarrow> token | Some hmac \<Rightarrow> token @ ''.'' @ to_hex (hmac scope token))"

text \<open>The token without its signature, if the signature is there and right.\<close>

definition unwrapToken :: "account_env \<Rightarrow> key_scope \<Rightarrow> string \<Rightarrow> string option" where
  "unwrapToken env scope token = (case ae_hmac env of
     None \<Rightarrow> Some token
   | Some hmac \<Rightarrow> (case split_char CHR ''.'' token of
       [raw, signature] \<Rightarrow> if verify_signature (hmac scope) raw signature then Some raw else None
     | _ \<Rightarrow> None))"

definition drawn :: "(nat \<Rightarrow> 'a) \<Rightarrow> 'a acc_op" where
  "drawn f = (\<lambda>w. (Inr (f (a_serial w)), w\<lparr>a_serial := Suc (a_serial w)\<rparr>))"

subsection \<open>Sessions\<close>

record auth_user =
  au_id :: nat
  au_username :: string
  au_role :: string
  au_email :: "string option"
  au_name :: "string option"
  au_avatar_url :: "string option"

definition auth_user_of :: "user_row \<Rightarrow> auth_user" where
  "auth_user_of u = \<lparr>au_id = us_id u, au_username = us_username u, au_role = us_role u, au_email = us_email u,
     au_name = us_name u, au_avatar_url = us_avatar_url u\<rparr>"

definition session_timeout :: "account_env \<Rightarrow> msec" where
  "session_timeout env = (case ae_security env of
     None \<Rightarrow> 24 * 60 * 60 * 1000
   | Some sc \<Rightarrow> (case or_null (sc_sessionTimeout sc) of
       None \<Rightarrow> 24 * 60 * 60 * 1000 | Some t \<Rightarrow> parseDurationMs t (24 * 60 * 60 * 1000)))"

definition max_concurrent :: "account_env \<Rightarrow> int" where
  "max_concurrent env = (case ae_security env of
     None \<Rightarrow> 5 | Some sc \<Rightarrow> (case sc_maxConcurrentSessions sc of None \<Rightarrow> 5 | Some n \<Rightarrow> n))"

definition createSession :: "account_env \<Rightarrow> nat \<Rightarrow> int option \<Rightarrow> (string \<times> session_row) acc_op" where
  "createSession env userId expiresInHours =
     ebind (drawn (ae_token env)) (\<lambda>token.
     ebind acc_now (\<lambda>now. let hash = ae_sha256 env token;
         lifetime = (case expiresInHours of None \<Rightarrow> session_timeout env | Some h \<Rightarrow> h * 60 * 60 * 1000) in
       eseq (db_createSession userId hash (now + lifetime))
       (eseq (if 0 < max_concurrent env then pruneUserSessions userId (max_concurrent env) else ereturn ())
       (ebind (getSessionByToken hash) (\<lambda>r. case r of
          None \<Rightarrow> ethrow ''Failed to create session''
        | Some (s, _) \<Rightarrow> ereturn (signed env Session_Key token, s))))))"

text \<open>No error leaves the validation.\<close>

definition validateSession :: "account_env \<Rightarrow> string \<Rightarrow> auth_user option acc_op" where
  "validateSession env token = ecatch
     (case unwrapToken env Session_Key token of
        None \<Rightarrow> ereturn None
      | Some raw \<Rightarrow> ebind (getSessionByToken (ae_sha256 env raw)) (\<lambda>r. case r of
          None \<Rightarrow> ereturn None
        | Some (s, _) \<Rightarrow> ebind (getUserById (se_user_id s)) (\<lambda>u. ereturn (map_option auth_user_of u))))
     (\<lambda>_ :: string. ereturn None)"

definition deleteUserSessions :: "nat \<Rightarrow> unit acc_op" where
  "deleteUserSessions userId =
     eseq (db_deleteUserSessions userId) (emodify (\<lambda>w. w\<lparr>a_revoked := a_revoked w @ [userId]\<rparr>))"

definition revokeSessionByToken :: "account_env \<Rightarrow> string \<Rightarrow> bool acc_op" where
  "revokeSessionByToken env token = (case unwrapToken env Session_Key token of
     None \<Rightarrow> ereturn False
   | Some raw \<Rightarrow> ebind (getSessionByToken (ae_sha256 env raw)) (\<lambda>r. case r of
       None \<Rightarrow> ereturn False
     | Some (s, _) \<Rightarrow> eseq (db_deleteSession (se_id s)) (ereturn True)))"

definition logout :: "account_env \<Rightarrow> string option \<Rightarrow> unit acc_op" where
  "logout env token =
     eseq (case or_null token of None \<Rightarrow> ereturn False | Some t \<Rightarrow> revokeSessionByToken env t) (logAuthEvent None ''logout'')"

subsection \<open>API keys\<close>

definition createApiKey :: "account_env \<Rightarrow> nat \<Rightarrow> string \<Rightarrow> msec option \<Rightarrow> (string \<times> api_key_row) acc_op" where
  "createApiKey env userId name expiresAt =
     ebind (drawn (ae_token env)) (\<lambda>key. let hash = ae_sha256 env key in
       eseq (db_createApiKey userId hash name expiresAt)
       (ebind (getApiKeyByHash hash) (\<lambda>r. case r of
          None \<Rightarrow> ethrow ''Failed to create API key''
        | Some (k, _) \<Rightarrow> ereturn (signed env Api_Key key, k))))"

text \<open>The joined row gives the name of the key, not of its user, under \<open>name\<close>.\<close>

definition validateApiKey :: "account_env \<Rightarrow> string \<Rightarrow> auth_user option acc_op" where
  "validateApiKey env key = ecatch
     (case unwrapToken env Api_Key key of
        None \<Rightarrow> ereturn None
      | Some raw \<Rightarrow> ebind (getApiKeyByHash (ae_sha256 env raw)) (\<lambda>r. case r of
          None \<Rightarrow> ereturn None
        | Some (k, u) \<Rightarrow> ebind acc_now (\<lambda>now.
            if (case ak_expires_at k of None \<Rightarrow> False | Some t \<Rightarrow> t < now)
            then eseq (db_deleteApiKey (ak_id k)) (ereturn None)
            else ereturn (Some ((auth_user_of u)\<lparr>au_name := Some (ak_name k)\<rparr>)))))
     (\<lambda>_ :: string. ereturn None)"

subsection \<open>Users\<close>

definition canSetPassword :: "user_row \<Rightarrow> bool" where
  "canSetPassword u = (us_auth_provider u = Some ''password'' \<or> or_null (us_auth_provider u) = None)"

definition getUserAuthProvider :: "user_row \<Rightarrow> string" where
  "getUserAuthProvider u = (case or_null (us_auth_provider u) of None \<Rightarrow> ''password'' | Some p \<Rightarrow> p)"

record new_user =
  nu_username :: string
  nu_role :: "string option"
  nu_email :: "string option"
  nu_name :: "string option"
  nu_avatar_url :: "string option"
  nu_passwordHash :: "string option"
  nu_auth_provider :: "string option"
  nu_provider_user_id :: "string option"
  nu_email_verified :: bool

definition row_of_new :: "account_env \<Rightarrow> new_user \<Rightarrow> user_row" where
  "row_of_new env n = \<lparr>us_id = 0, us_username = nu_username n,
     us_role = (case or_null (nu_role n) of None \<Rightarrow> ae_defaultRole env | Some r \<Rightarrow> r), us_email = nu_email n, us_name = nu_name n,
     us_avatar_url = nu_avatar_url n, us_password_hash = nu_passwordHash n,
     us_auth_provider = Some (case or_null (nu_auth_provider n) of None \<Rightarrow> ''password'' | Some p \<Rightarrow> p),
     us_provider_user_id = nu_provider_user_id n, us_email_verified = nu_email_verified n,
     us_pending_email = None, us_pending_email_token = None, us_pending_email_expires = None\<rparr>"

definition created_user :: "nat acc_op \<Rightarrow> auth_user acc_op" where
  "created_user insert_it = ebind insert_it (\<lambda>i. ebind (getUserById i) (\<lambda>u. case u of
     None \<Rightarrow> ethrow ''Failed to create user'' | Some x \<Rightarrow> ereturn (auth_user_of x)))"

definition createUser :: "account_env \<Rightarrow> new_user \<Rightarrow> auth_user acc_op" where
  "createUser env n = created_user (db_createUser (row_of_new env (n\<lparr>nu_passwordHash := None\<rparr>)))"

definition createUserWithPassword :: "account_env \<Rightarrow> new_user \<Rightarrow> auth_user acc_op" where
  "createUserWithPassword env n = created_user (db_createUserWithPassword (row_of_new env (n\<lparr>nu_provider_user_id := None\<rparr>)))"

text \<open>\<open>updateUser\<close>, for the columns an administrator edits; failures are results.\<close>

definition updateUser :: "nat \<Rightarrow> user_update \<Rightarrow> (bool \<times> string \<times> auth_user option) acc_op" where
  "updateUser userId c = ecatch
     (ebind (getUserById userId) (\<lambda>found. case found of
        None \<Rightarrow> ethrow ''User not found''
      | Some u \<Rightarrow>
          if truthy (uu_passwordHash c) \<and> \<not> canSetPassword u
          then ethrow (''Users authenticated via '' @ getUserAuthProvider u @
            '' cannot set passwords. Password management is handled by the external authentication.'')
          else ebind (db_updateUser userId c) (\<lambda>updated.
            if \<not> updated then ethrow ''Failed to update user''
            else ebind (getUserById userId) (\<lambda>r. case r of
              None \<Rightarrow> ethrow ''User not found after update''
            | Some v \<Rightarrow> eseq (ewhen (truthy (uu_passwordHash c)) (logAuthEvent (Some userId) ''password_changed''))
                (ereturn (True, ''User updated successfully'', Some (auth_user_of v)))))))
     (\<lambda>e. ereturn (False, e, None))"

definition deleteUser :: "nat \<Rightarrow> bool acc_op" where
  "deleteUser userId = ebind (getUserById userId) (\<lambda>found. case found of
     None \<Rightarrow> ethrow ''User not found''
   | Some _ \<Rightarrow> eseq (db_deleteUser userId) (ereturn True))"

end
