(* ===== verification/Account_Flows.thy ===== *)
theory Account_Flows
  imports Account_Service
begin

section \<open>Accounts: passwords, addresses and external logins\<close>

text \<open>
  \<open>core/src/auth/auth-service/password-ops.ts\<close> but for the login itself (see
  \<open>Login_Throttle\<close>, dashes of the messages in ASCII), \<open>core/src/auth/email-validation-service.ts\<close>,
  \<open>core/src/auth/auth-service/oauth-ops.ts\<close> and \<open>simulated-auth-policy.ts\<close>.
\<close>

subsection \<open>The password policy\<close>

definition has_char :: "(nat \<Rightarrow> bool) \<Rightarrow> string \<Rightarrow> bool" where
  "has_char P s = list_ex (\<lambda>c. P (of_char c)) s"

definition special_chars :: string where
  "special_chars = ''!@#$%^&*(),.?'' @ [CHR 0x22] @ '':{}|<>''"

definition validatePassword :: "password_policy \<Rightarrow> string \<Rightarrow> string list" where
  "validatePassword p pw =
     (if length pw < pp_minLength p then [''Password must be at least '' @ show_nat (pp_minLength p) @ '' characters long''] else []) @
     (if pp_requireUppercase p \<and> \<not> has_char (\<lambda>n. 65 \<le> n \<and> n \<le> 90) pw then [''Password must contain at least one uppercase letter''] else []) @
     (if pp_requireLowercase p \<and> \<not> has_char (\<lambda>n. 97 \<le> n \<and> n \<le> 122) pw then [''Password must contain at least one lowercase letter''] else []) @
     (if pp_requireNumbers p \<and> \<not> has_char (\<lambda>n. 48 \<le> n \<and> n \<le> 57) pw then [''Password must contain at least one number''] else []) @
     (if pp_requireSpecialChars p \<and> \<not> list_ex (\<lambda>c. c \<in> set special_chars) pw then [''Password must contain at least one special character''] else [])"

definition policy_message :: "string list \<Rightarrow> string" where
  "policy_message errors = ''Password does not meet requirements: '' @ join_with ''; '' errors"

subsection \<open>Changing and resetting\<close>

type_synonym result = "bool \<times> string"

text \<open>The sessions go before the new hash is stored.\<close>

definition replace_password :: "account_env \<Rightarrow> nat \<Rightarrow> string \<Rightarrow> bool acc_op" where
  "replace_password env userId newPassword =
     ebind (drawn (ae_bcrypt_hash env)) (\<lambda>hash.
       eseq (deleteUserSessions userId) (db_updateUser userId (no_update\<lparr>uu_passwordHash := Some (hash newPassword)\<rparr>)))"

definition current_password_ok :: "account_env \<Rightarrow> user_row \<Rightarrow> string option \<Rightarrow> bool acc_op" where
  "current_password_ok env u currentPassword = (case or_null currentPassword of
     None \<Rightarrow> ereturn True
   | Some pw \<Rightarrow> ebind (getUserByUsername (us_username u)) (\<lambda>r.
       ereturn (case r of None \<Rightarrow> True | Some x \<Rightarrow> (case or_null (us_password_hash x) of
         None \<Rightarrow> True | Some h \<Rightarrow> ae_bcrypt_compare env pw h))))"

definition changePassword :: "account_env \<Rightarrow> nat \<Rightarrow> string \<Rightarrow> string option \<Rightarrow> result acc_op" where
  "changePassword env userId newPassword currentPassword = ecatch
     (ebind (getUserById userId) (\<lambda>found. case found of
        None \<Rightarrow> ethrow ''User not found''
      | Some u \<Rightarrow>
          if \<not> canSetPassword u then ereturn (False, ''Users authenticated via '' @ getUserAuthProvider u @
            '' cannot change passwords. Password management is handled by the external authentication.'')
          else let errors = validatePassword (ae_policy env) newPassword in
          if errors \<noteq> [] then ereturn (False, policy_message errors)
          else ebind (current_password_ok env u currentPassword) (\<lambda>ok.
            if \<not> ok then ereturn (False, ''Current password is incorrect'')
            else ebind (replace_password env userId newPassword) (\<lambda>updated.
              if \<not> updated then ereturn (False, ''Failed to update password'')
              else eseq (logAuthEvent (Some userId) ''password_changed'')
                (ereturn (True, ''Password successfully changed. For your security you have been signed out on every device, including this one - please sign in again with your new password.''))))))
     (\<lambda>_ :: string. ethrow ''Failed to change password'')"

definition setUserPassword :: "account_env \<Rightarrow> nat \<Rightarrow> string \<Rightarrow> nat \<Rightarrow> result acc_op" where
  "setUserPassword env userId newPassword adminUserId = ecatch
     (ebind (getUserById userId) (\<lambda>found. case found of
        None \<Rightarrow> ethrow ''User not found''
      | Some u \<Rightarrow>
          if \<not> canSetPassword u then ereturn (False, ''Cannot set password for users authenticated via '' @ getUserAuthProvider u @
            ''. Password management is handled by the external authentication.'')
          else let errors = validatePassword (ae_policy env) newPassword in
          if errors \<noteq> [] then ereturn (False, policy_message errors)
          else ebind (replace_password env userId newPassword) (\<lambda>updated.
            if \<not> updated then ereturn (False, ''Failed to set password'')
            else eseq (logAuthEvent (Some adminUserId) ''admin_password_set'') (ereturn (True, ''Password set successfully'')))))
     (\<lambda>_ :: string. ethrow ''Failed to set password'')"

definition RESET_TOKEN_TTL_MS :: msec where
  "RESET_TOKEN_TTL_MS = 60 * 60 * 1000"

definition findResetEligibleUser :: "string \<Rightarrow> user_row option acc_op" where
  "findResetEligibleUser identifier = (let i = trim identifier in
     if i = [] then ereturn None
     else ebind (getUserByUsername i) (\<lambda>byName.
       ebind (case byName of Some u \<Rightarrow> ereturn (Some u) | None \<Rightarrow> getUserByEmail i) (\<lambda>found.
         ereturn (case found of None \<Rightarrow> None | Some u \<Rightarrow> if canSetPassword u then Some u else None))))"

definition mintResetTokenForUser :: "account_env \<Rightarrow> nat \<Rightarrow> string option \<Rightarrow> string acc_op" where
  "mintResetTokenForUser env userId ip =
     ebind (drawn (ae_token env)) (\<lambda>token. ebind acc_now (\<lambda>now.
       eseq (db_createPasswordResetToken userId (ae_sha256 env token) (now + RESET_TOKEN_TTL_MS) ip)
       (eseq (logAuthEvent (Some userId) ''password_reset_requested'') (ereturn token))))"

definition createPasswordResetToken :: "account_env \<Rightarrow> string \<Rightarrow> string option \<Rightarrow> (user_row \<times> string) option acc_op" where
  "createPasswordResetToken env identifier ip = ebind (findResetEligibleUser identifier) (\<lambda>found. case found of
     None \<Rightarrow> ereturn None
   | Some u \<Rightarrow> ebind (mintResetTokenForUser env (us_id u) ip) (\<lambda>t. ereturn (Some (u, t))))"

definition invalid_link :: result where
  "invalid_link = (False, ''This password reset link is invalid or has expired.'')"

definition reset_done :: string where
  "reset_done = ''Your password has been reset. For your security, any existing '' @
     ''sessions have been signed out - please sign in with your new password.''"

definition redeem :: "account_env \<Rightarrow> reset_row \<Rightarrow> user_row \<Rightarrow> string \<Rightarrow> result acc_op" where
  "redeem env row u newPassword = ebind (consumePasswordResetToken (rt_id row)) (\<lambda>consumed.
     if \<not> consumed then ereturn invalid_link
     else ebind (replace_password env (us_id u) newPassword) (\<lambda>updated.
       if \<not> updated then ereturn (False, ''Failed to reset password.'')
       else eseq (deleteUserPasswordResetTokens (us_id u))
         (eseq (logAuthEvent (Some (us_id u)) ''password_reset'') (ereturn (True, reset_done)))))"

definition resetPasswordWithToken :: "account_env \<Rightarrow> string \<Rightarrow> string \<Rightarrow> result acc_op" where
  "resetPasswordWithToken env token newPassword = (let t = trim token in
     if t = [] then ereturn invalid_link
     else ebind (getLivePasswordResetToken (ae_sha256 env t)) (\<lambda>found. case found of
       None \<Rightarrow> ereturn invalid_link
     | Some row \<Rightarrow> ebind (getUserById (rt_user_id row)) (\<lambda>owner. case owner of
         None \<Rightarrow> ereturn invalid_link
       | Some u \<Rightarrow>
           if \<not> canSetPassword u
           then ereturn (False, ''Password management is handled by '' @ getUserAuthProvider u @ '' for this account.'')
           else let errors = validatePassword (ae_policy env) newPassword in
           if errors \<noteq> [] then ereturn (False, policy_message errors)
           else redeem env row u newPassword)))"

subsection \<open>Verifying an address\<close>

definition inner_dot :: "string \<Rightarrow> bool" where
  "inner_dot d = (CHR ''.'' \<in> set (butlast (tl d)))"

definition isValidEmailFormat :: "string \<Rightarrow> bool" where
  "isValidEmailFormat e = (e \<noteq> [] \<and> length e \<le> 254 \<and> \<not> str_includes e ''..'' \<and>
     hd e \<noteq> CHR ''.'' \<and> last e \<noteq> CHR ''.'' \<and> \<not> list_ex is_space e \<and>
     (case split_char CHR ''@'' e of [l, d] \<Rightarrow> l \<noteq> [] \<and> inner_dot d | _ \<Rightarrow> False))"

definition isEmailInUse :: "string \<Rightarrow> nat option \<Rightarrow> bool acc_op" where
  "isEmailInUse e exclude = ecatch
     (acc_call (eget (\<lambda>w. list_ex (\<lambda>u. us_email u = Some e \<and> (case exclude of None \<Rightarrow> True | Some i \<Rightarrow> i = 0 \<or> us_id u \<noteq> i)) (a_users w))))
     (\<lambda>_ :: string. ethrow ''Failed to validate email uniqueness'')"

definition keep_verifications :: "(verification_row \<Rightarrow> bool) \<Rightarrow> unit acc_op" where
  "keep_verifications P = acc_call (emodify (\<lambda>w. w\<lparr>a_verifications := filter P (a_verifications w)\<rparr>))"

definition insert_verification :: "nat \<Rightarrow> string \<Rightarrow> string \<Rightarrow> verification_type \<Rightarrow> msec \<Rightarrow> unit acc_op" where
  "insert_verification userId e hash t expiresAt = acc_call (\<lambda>w.
     if hash \<in> ev_token ` set (a_verifications w) then (Inl ''UNIQUE constraint failed'', w)
     else if userId \<notin> us_id ` set (a_users w) then (Inl ''FOREIGN KEY constraint failed'', w)
     else (Inr (), (numbered Email_Verifications w)\<lparr>a_verifications := a_verifications w @
        [\<lparr>ev_id = next_id Email_Verifications w, ev_user_id = userId, ev_email = e, ev_token = hash, ev_type = t,
          ev_expires_at = expiresAt\<rparr>]\<rparr>))"

definition TOKEN_EXPIRY_MS :: msec where
  "TOKEN_EXPIRY_MS = 24 * 60 * 60 * 1000"

definition createVerificationToken :: "account_env \<Rightarrow> nat \<Rightarrow> string \<Rightarrow> verification_type \<Rightarrow> string acc_op" where
  "createVerificationToken env userId e t = ecatch
     (ebind (drawn (ae_token env)) (\<lambda>token. ebind acc_now (\<lambda>now.
        eseq (keep_verifications (\<lambda>v. ev_user_id v \<noteq> userId \<or> ev_type v \<noteq> t))
        (eseq (insert_verification userId e (ae_sha256 env token) t (now + TOKEN_EXPIRY_MS))
          (ereturn (signed env Token_Key token))))))
     (\<lambda>_ :: string. ethrow ''Failed to create email verification token'')"

text \<open>A token without exactly one dot is looked up as it is, signed or not.\<close>

definition verification_lookup :: "account_env \<Rightarrow> string \<Rightarrow> string option" where
  "verification_lookup env token = (case ae_hmac env of
     None \<Rightarrow> Some token
   | Some hmac \<Rightarrow> (case split_char CHR ''.'' token of
       [raw, signature] \<Rightarrow> if verify_signature (hmac Token_Key) raw signature then Some raw else None
     | _ \<Rightarrow> Some token))"

definition verifyToken :: "account_env \<Rightarrow> string \<Rightarrow> verification_row option acc_op" where
  "verifyToken env token = ecatch
     (case verification_lookup env token of
        None \<Rightarrow> ereturn None
      | Some t \<Rightarrow> ebind (acc_call (eget (\<lambda>w. List.find (\<lambda>v. ev_token v = ae_sha256 env t) (a_verifications w)))) (\<lambda>found. case found of
          None \<Rightarrow> ereturn None
        | Some v \<Rightarrow> ebind acc_now (\<lambda>now.
            if ev_expires_at v \<le> now then eseq (equiet (keep_verifications (\<lambda>x. ev_id x \<noteq> ev_id v))) (ereturn None)
            else ereturn (Some v))))
     (\<lambda>_ :: string. ethrow ''Failed to verify email token'')"

definition sendEmailVerification :: "account_env \<Rightarrow> nat \<Rightarrow> (result \<times> string option) acc_op" where
  "sendEmailVerification env userId = ecatch
     (ebind (getUserById userId) (\<lambda>found. case found of
        None \<Rightarrow> ereturn ((False, ''User not found''), None)
      | Some u \<Rightarrow> (case or_null (us_email u) of
          None \<Rightarrow> ereturn ((False, ''User has no email address to verify''), None)
        | Some e \<Rightarrow>
            if us_email_verified u then ereturn ((False, ''Email address is already verified''), None)
            else ebind (createVerificationToken env userId e Initial) (\<lambda>t.
              ereturn ((True, ''Verification email sent successfully''), Some t)))))
     (\<lambda>_ :: string. ethrow ''Failed to send email verification'')"

definition verifyCurrentEmail :: "account_env \<Rightarrow> string \<Rightarrow> result acc_op" where
  "verifyCurrentEmail env token = ecatch
     (ebind (verifyToken env token) (\<lambda>found. case found of
        None \<Rightarrow> ereturn (False, ''Invalid or expired verification token'')
      | Some v \<Rightarrow>
          if ev_type v \<noteq> Initial then ereturn (False, ''Invalid verification token type'')
          else eseq (set_user_columns (ev_user_id v) (\<lambda>u. u\<lparr>us_email_verified := True\<rparr>))
            (eseq (keep_verifications (\<lambda>x. ev_id x \<noteq> ev_id v)) (ereturn (True, ''Email address verified successfully'')))))
     (\<lambda>_ :: string. ethrow ''Failed to verify email address'')"

subsection \<open>Changing an address\<close>

definition requestEmailChange :: "account_env \<Rightarrow> nat \<Rightarrow> string \<Rightarrow> (result \<times> string option) acc_op" where
  "requestEmailChange env userId newEmail = ecatch
     (ebind (ecatch (getUserById userId) (\<lambda>_ :: string. ereturn None)) (\<lambda>known. case known of
        None \<Rightarrow> ethrow ''User not found''
      | Some _ \<Rightarrow> let e = trim (to_lower newEmail) in
          if \<not> isValidEmailFormat e then ereturn ((False, ''Invalid email format''), None)
          else ebind (isEmailInUse e (Some userId)) (\<lambda>used.
            if used then ereturn ((False, ''Email address is already in use by another account''), None)
            else ebind (getUserById userId) (\<lambda>found. case found of
              None \<Rightarrow> ereturn ((False, ''User not found''), None)
            | Some _ \<Rightarrow> ebind (createVerificationToken env userId e Change) (\<lambda>t. ebind acc_now (\<lambda>now.
                eseq (set_user_columns userId (\<lambda>u. u\<lparr>us_pending_email := Some e, us_pending_email_token := Some t,
                    us_pending_email_expires := Some (now + 24 * 60 * 60 * 1000)\<rparr>))
                  (ereturn ((True, ''Email verification sent to new address''), Some t))))))))
     (\<lambda>_ :: string. ethrow ''Failed to process email change request'')"

definition no_pending :: "user_row \<Rightarrow> user_row" where
  "no_pending u = u\<lparr>us_pending_email := None, us_pending_email_token := None, us_pending_email_expires := None\<rparr>"

definition completeEmailChange :: "account_env \<Rightarrow> string \<Rightarrow> result acc_op" where
  "completeEmailChange env token = ecatch
     (ebind (verifyToken env token) (\<lambda>found. case found of
        None \<Rightarrow> ereturn (False, ''Invalid or expired verification token'')
      | Some v \<Rightarrow>
          if ev_type v \<noteq> Change then ereturn (False, ''Invalid token type for email change'')
          else ebind (getUserById (ev_user_id v)) (\<lambda>owner. case owner of
            None \<Rightarrow> ereturn (False, ''User not found'')
          | Some u \<Rightarrow>
              if us_pending_email u \<noteq> Some (ev_email v) then ereturn (False, ''Email change token mismatch'')
              else ebind (isEmailInUse (ev_email v) (Some (ev_user_id v))) (\<lambda>used.
                if used then ereturn (False, ''Email address is no longer available'')
                else eseq (set_user_columns (ev_user_id v) (\<lambda>x. (no_pending x)\<lparr>us_email := Some (ev_email v), us_email_verified := True\<rparr>))
                  (eseq (keep_verifications (\<lambda>x. ev_id x \<noteq> ev_id v))
                  (eseq (logAuditEvent (Some (ev_user_id v)) ''email_changed'')
                    (ereturn (True, ''Email address successfully updated''))))))))
     (\<lambda>_ :: string. ethrow ''Failed to complete email change'')"

definition cancelEmailChange :: "nat \<Rightarrow> result acc_op" where
  "cancelEmailChange userId = ecatch
     (eseq (set_user_columns userId no_pending)
       (eseq (keep_verifications (\<lambda>v. ev_user_id v \<noteq> userId \<or> ev_type v \<noteq> Change)) (ereturn (True, ''Email change request cancelled''))))
     (\<lambda>_ :: string. ethrow ''Failed to cancel email change'')"

text \<open>Counting the removed rows is part of the first statement. No error leaves the sweep.\<close>

definition cleanupExpiredTokens :: "nat acc_op" where
  "cleanupExpiredTokens = ebind acc_now (\<lambda>now. ecatch
     (eseq (acc_call (ereturn ()))
     (ebind (acc_call (\<lambda>w. (Inr (length (filter (\<lambda>v. ev_expires_at v \<le> now) (a_verifications w))),
          w\<lparr>a_verifications := filter (\<lambda>v. \<not> ev_expires_at v \<le> now) (a_verifications w)\<rparr>))) (\<lambda>n.
       eseq (acc_call (emodify (\<lambda>w. w\<lparr>a_users := map (\<lambda>u. case us_pending_email_expires u of
           None \<Rightarrow> u | Some t \<Rightarrow> if t \<le> now then no_pending u else u) (a_users w)\<rparr>)))
         (ereturn n))))
     (\<lambda>_ :: string. ereturn 0))"

subsection \<open>External logins\<close>

text \<open>The number at the provider is \<open>providerUserId\<close>, or \<open>id\<close> without it.\<close>

record oauth_user =
  ou_id :: "string option"
  ou_username :: string
  ou_email :: "string option"
  ou_name :: "string option"
  ou_avatar_url :: "string option"

text \<open>The name with the provider, then with a number from 2 to 49, until it is free.\<close>

primrec deconflict :: "nat \<Rightarrow> string \<Rightarrow> string \<Rightarrow> string acc_op" where
  "deconflict 0 base name = ebind (getUserByUsername name) (\<lambda>_. ereturn name)"
| "deconflict (Suc m) base name = ebind (getUserByUsername name) (\<lambda>r. case r of
     None \<Rightarrow> ereturn name | Some _ \<Rightarrow> deconflict m base (base @ ''-'' @ show_nat (49 - m)))"

definition free_username :: "string \<Rightarrow> string \<Rightarrow> user_row option \<Rightarrow> string acc_op" where
  "free_username name provider holder = (case holder of
     None \<Rightarrow> ereturn name
   | Some _ \<Rightarrow> let base = name @ ''-'' @ provider in deconflict 48 base base)"

definition can_adopt :: "string \<Rightarrow> string option \<Rightarrow> user_row option \<Rightarrow> user_row option" where
  "can_adopt provider pid holder = (case holder of
     None \<Rightarrow> None
   | Some u \<Rightarrow> if pid \<noteq> None \<and> us_auth_provider u = Some provider \<and> or_null (us_provider_user_id u) = None then Some u else None)"

definition oauth_account :: "account_env \<Rightarrow> string \<Rightarrow> oauth_user \<Rightarrow> string \<Rightarrow> new_user" where
  "oauth_account env provider ou name = \<lparr>nu_username = name, nu_role = Some (ae_defaultRole env), nu_email = ou_email ou, nu_name = ou_name ou,
     nu_avatar_url = ou_avatar_url ou, nu_passwordHash = None, nu_auth_provider = Some provider,
     nu_provider_user_id = or_null (ou_id ou), nu_email_verified = True\<rparr>"

text \<open>The account a provider's user belongs to: by identity, by adoption, or a new one.\<close>

definition match_account :: "account_env \<Rightarrow> string \<Rightarrow> oauth_user \<Rightarrow> nat acc_op" where
  "match_account env provider ou = (let pid = or_null (ou_id ou) in
     ebind (case pid of None \<Rightarrow> ereturn None | Some i \<Rightarrow> getUserByProvider provider i) (\<lambda>known. case known of
       Some u \<Rightarrow> ereturn (us_id u)
     | None \<Rightarrow> ebind (getUserByUsername (ou_username ou)) (\<lambda>holder. case can_adopt provider pid holder of
         Some u \<Rightarrow> ereturn (us_id u)
       | None \<Rightarrow> ebind (free_username (ou_username ou) provider holder) (\<lambda>name.
           ebind (createUser env (oauth_account env provider ou name)) (\<lambda>c. ereturn (au_id c))))))"

definition fresh_value :: "string option \<Rightarrow> string option \<Rightarrow> string option" where
  "fresh_value new old = (case or_null new of None \<Rightarrow> None | Some x \<Rightarrow> if Some x = old then None else Some x)"

definition oauth_update :: "string \<Rightarrow> oauth_user \<Rightarrow> user_row option \<Rightarrow> user_update" where
  "oauth_update provider ou current = no_update\<lparr>
     uu_auth_provider := Some provider, uu_email_verified := Some True, uu_provider_user_id := or_null (ou_id ou),
     uu_email := fresh_value (ou_email ou) (Option.bind current us_email),
     uu_name := fresh_value (ou_name ou) (Option.bind current us_name),
     uu_avatar_url := fresh_value (ou_avatar_url ou) (Option.bind current us_avatar_url)\<rparr>"

text \<open>What follows once the account is known: bind the identity, open a session.\<close>

definition enter_account :: "account_env \<Rightarrow> string \<Rightarrow> oauth_user \<Rightarrow> nat \<Rightarrow> (string \<times> auth_user \<times> msec) acc_op" where
  "enter_account env provider ou i =
     ebind (getUserById i) (\<lambda>current.
     eseq (db_updateUser i (oauth_update provider ou current))
     (ebind (getUserById i) (\<lambda>found. case found of
        None \<Rightarrow> ethrow ''Failed to create or retrieve user''
      | Some u \<Rightarrow> ebind (createSession env (us_id u) None) (\<lambda>(t, s).
          eseq (logAuthEvent (Some (us_id u)) (provider @ ''_login'')) (ereturn (t, auth_user_of u, se_expires_at s))))))"

text \<open>The provider answers with a user, or refuses.\<close>

definition authenticateWithOAuth :: "account_env \<Rightarrow> string \<Rightarrow> oauth_user option \<Rightarrow> (string \<times> auth_user \<times> msec) acc_op" where
  "authenticateWithOAuth env provider answer = ecatch
     (case answer of
        None \<Rightarrow> ethrow ''invalid token''
      | Some ou \<Rightarrow> ebind (match_account env provider ou) (enter_account env provider ou))
     (\<lambda>_ :: string. ethrow (provider @ '' authentication failed''))"

subsection \<open>Simulated accounts\<close>

definition isSimulatedAuthEnabled :: "account_env \<Rightarrow> bool" where
  "isSimulatedAuthEnabled env = (ae_NODE_ENV env = Some ''test'' \<or>
     ae_NODE_ENV env = Some ''development'' \<and> ae_ALLOW_SIMULATED env = Some ''true'')"

definition createSimulatedUser :: "account_env \<Rightarrow> new_user \<Rightarrow> string \<Rightarrow> auth_user acc_op" where
  "createSimulatedUser env n role =
     ebind (ecatch (getUserByUsername (nu_username n)) (\<lambda>_ :: string. ereturn None)) (\<lambda>existing. case existing of
       Some u \<Rightarrow>
         if us_role u \<noteq> role then ebind (updateUser (us_id u) (no_update\<lparr>uu_role := Some role\<rparr>)) (\<lambda>(ok, _, v). case (ok, v) of
           (True, Some x) \<Rightarrow> ereturn x | _ \<Rightarrow> ethrow (''Failed to update user '' @ nu_username n @ '' role''))
         else ereturn (auth_user_of u)
     | None \<Rightarrow>
         if \<not> ae_validRole env role then ethrow (''Invalid role: '' @ role)
         else ebind (createUser env (n\<lparr>nu_role := Some role\<rparr>)) (\<lambda>u.
           eseq (logAuthEvent (Some (au_id u)) ''simulated_user_created'') (ereturn u)))"

definition authenticateWithSimulatedAccount :: "account_env \<Rightarrow> new_user \<Rightarrow> string \<Rightarrow> (string \<times> auth_user \<times> msec) acc_op" where
  "authenticateWithSimulatedAccount env n role =
     (if \<not> isSimulatedAuthEnabled env then ethrow ''Simulated authentication is disabled in this environment''
      else ecatch
        (ebind (createSimulatedUser env n role) (\<lambda>u. ebind (createSession env (au_id u) None) (\<lambda>(t, s).
          eseq (logAuthEvent (Some (au_id u)) ''simulated_login'') (ereturn (t, u, se_expires_at s)))))
        (\<lambda>_ :: string. ethrow ''Simulated authentication failed''))"

subsection \<open>A small deployment\<close>

definition demo_env :: account_env where
  "demo_env = \<lparr>ae_token = \<lambda>n. CHR ''t'' # show_nat n, ae_sha256 = \<lambda>s. CHR ''#'' # s, ae_hmac = Some (\<lambda>_ s. [of_nat (length s)]),
     ae_bcrypt_hash = \<lambda>n pw. show_nat n @ CHR ''$'' # pw, ae_bcrypt_compare = \<lambda>pw h. tl (dropWhile (\<lambda>c. c \<noteq> CHR ''$'') h) = pw,
     ae_security = None,
     ae_policy = \<lparr>pp_minLength = 3, pp_requireUppercase = False, pp_requireLowercase = False, pp_requireNumbers = False,
       pp_requireSpecialChars = False\<rparr>,
     ae_defaultRole = ''public'', ae_validRole = \<lambda>_. True, ae_NODE_ENV = None, ae_ALLOW_SIMULATED = None\<rparr>"

definition demo_user :: "nat \<Rightarrow> string \<Rightarrow> user_row" where
  "demo_user i n = \<lparr>us_id = i, us_username = n, us_role = ''public'', us_email = Some (n @ ''@a.b''), us_name = None, us_avatar_url = None,
     us_password_hash = Some ''0$old'', us_auth_provider = Some ''password'', us_provider_user_id = None, us_email_verified = False,
     us_pending_email = None, us_pending_email_token = None, us_pending_email_expires = None\<rparr>"

text \<open>Two users, a session and a reset link of the first, and an adapter that fails as given.\<close>

definition demo_accounts :: "bool list \<Rightarrow> account_world" where
  "demo_accounts fs = \<lparr>clock = 1000, faults = fs,
     a_users = [demo_user 1 ''ann'', demo_user 2 ''bob''],
     a_sessions = [\<lparr>se_id = 1, se_token_hash = ''#s'', se_user_id = 1, se_expires_at = 5000\<rparr>], a_keys = [],
     a_resets = [\<lparr>rt_id = 1, rt_user_id = 1, rt_token_hash = ''#r'', rt_expires_at = 9000, rt_consumed_at = None, rt_created_ip = None\<rparr>],
     a_verifications = [], a_audit = [(Some 1, ''password_login'')],
     a_sequences = (\<lambda>_. 0)(Users := 2, Sessions := 1, Reset_Tokens := 1, Audit_Logs := 1), a_last_rowid = 1, a_serial = 4, a_revoked = []\<rparr>"

end
