(* ===== verification/Account_Theorems.thy ===== *)
theory Account_Theorems
  imports Account_Flows
begin

section \<open>Accounts: properties\<close>

text \<open>
  A password is never replaced while a session opened under the old one lives, and a reset
  link works once, for every pattern of adapter failures. The locale \<open>acc_frame\<close> carries what
  both proofs, and those of \<open>Account_Tables\<close>, share: a relation on states that lookups, random
  values and audit entries preserve.
\<close>

locale acc_frame = em_frame R for R :: "account_world \<Rightarrow> account_world \<Rightarrow> bool" +
  assumes ignores_faults: "R w (w\<lparr>faults := fs\<rparr>)"
    and ignores_serial: "R w (w\<lparr>a_serial := n\<rparr>)"
    and ignores_audit: "R w ((numbered Audit_Logs w)\<lparr>a_audit := es\<rparr>)"
begin

lemma rel_call: "em_rel R m \<Longrightarrow> em_rel R (acc_call m)"
  unfolding em_rel_def acc_call_def
  by (auto simp: ignores_faults frame_refl split: list.split bool.split intro: frame_trans [OF ignores_faults])

lemma rel_modify: "(\<And>w. R w (f w)) \<Longrightarrow> em_rel R (emodify f)"
  by (simp add: em_rel_def emodify_def)

lemma rel_now: "em_rel R acc_now"
  unfolding acc_now_def by (rule rel_get)

lemma rel_drawn: "em_rel R (drawn f)"
  by (simp add: em_rel_def drawn_def ignores_serial)

lemma rel_lookups: "em_rel R (getUserById i)" "em_rel R (getUserByUsername n)" "em_rel R (getUserByEmail e)"
  "em_rel R (getUserByProvider p q)" "em_rel R (getSessionByToken h)" "em_rel R (getApiKeyByHash h)" "em_rel R last_insert_rowid"
  "em_rel R (getLivePasswordResetToken h)" "em_rel R (isEmailInUse e x)" "em_rel R (current_password_ok env u cur)"
  unfolding getUserById_def getUserByUsername_def getUserByEmail_def getUserByProvider_def getSessionByToken_def getApiKeyByHash_def
    last_insert_rowid_def getLivePasswordResetToken_def isEmailInUse_def current_password_ok_def
  by (auto intro!: rel_intros rel_call rel_now split: option.split)

lemma rel_audit: "em_rel R (logAuditEvent u a)" "em_rel R (logAuthEvent u a)"
proof -
  have plain: "em_rel R (acc_call (emodify (\<lambda>w. (numbered Audit_Logs w)\<lparr>a_audit := a_audit w @ [(None, a)]\<rparr>)))"
    by (intro rel_call rel_modify ignores_audit)
  have first: "em_rel R (acc_call (\<lambda>w. case u of
         Some i \<Rightarrow> if i \<in> us_id ` set (a_users w) then (Inr (), (numbered Audit_Logs w)\<lparr>a_audit := a_audit w @ [(u, a)]\<rparr>)
           else (Inl ''FOREIGN KEY constraint failed'', w)
       | None \<Rightarrow> (Inr (), (numbered Audit_Logs w)\<lparr>a_audit := a_audit w @ [(None, a)]\<rparr>)))"
    by (rule rel_call) (auto simp: em_rel_def ignores_audit frame_refl split: option.split)
  show "em_rel R (logAuditEvent u a)"
    unfolding logAuditEvent_def using plain by (auto intro!: rel_catch first rel_throw)
  then show "em_rel R (logAuthEvent u a)" unfolding logAuthEvent_def by (rule rel_quiet)
qed

lemmas acc_intros = rel_intros rel_call rel_now rel_drawn rel_lookups rel_audit

end

lemma acc_call_no_faults [simp]: "faults w = [] \<Longrightarrow> acc_call m w = m w"
  by (simp add: acc_call_def)

lemma acc_call_cases:
  assumes "acc_call m w = (r, w')"
  obtains (fault) fs where "r = Inl ''adapter failure''" "w' = w\<lparr>faults := fs\<rparr>"
  | (runs) fs where "m (w\<lparr>faults := fs\<rparr>) = (r, w')"
proof -
  have w: "w\<lparr>faults := faults w\<rparr> = w" by simp
  show thesis
  proof (cases "faults w")
    case Nil
    then have "m w = (r, w')" using assms by (simp add: acc_call_def)
    then show thesis using that(2) [of "faults w"] w by (simp only:)
  next
    case (Cons b fs)
    then show thesis using assms that by (cases b) (auto simp: acc_call_def)
  qed
qed

lemma user_of_faults [simp]: "user_of i (w\<lparr>faults := fs\<rparr>) = user_of i w"
  by (simp add: user_of_def)

lemma user_of_id: "user_of i w = Some u \<Longrightarrow> us_id u = i \<and> u \<in> set (a_users w)"
  by (auto simp: user_of_def find_Some_iff)

lemma user_of_rewritten:
  assumes "\<And>u. us_id (f u) = us_id u"
  shows "List.find (\<lambda>u. us_id u = j) (rewrite_user i f us) =
    map_option (\<lambda>u. if j = i then f u else u) (List.find (\<lambda>u. us_id u = j) us)"
  by (induction us) (auto simp: rewrite_user_def assms)

subsection \<open>Passwords and sessions\<close>

text \<open>No session appears, and a user whose password differs has none.\<close>

definition password_at :: "nat \<Rightarrow> account_world \<Rightarrow> string option option" where
  "password_at j w = map_option us_password_hash (user_of j w)"

definition sessions_follow :: "account_world \<Rightarrow> account_world \<Rightarrow> bool" where
  "sessions_follow w w' = (set (a_sessions w') \<subseteq> set (a_sessions w) \<and>
     (\<forall>j. password_at j w' \<noteq> password_at j w \<longrightarrow> j \<notin> se_user_id ` set (a_sessions w')))"

interpretation follow: acc_frame sessions_follow
proof
  fix w v u
  assume "sessions_follow w v" "sessions_follow v u"
  then show "sessions_follow w u" by (auto simp: sessions_follow_def) (metis imageI subsetD)+
qed (auto simp: sessions_follow_def password_at_def user_of_def numbered_def)

lemma follow_resets: "em_rel sessions_follow (consumePasswordResetToken i)" "em_rel sessions_follow (deleteUserPasswordResetTokens u)"
proof -
  have "sessions_follow w (w\<lparr>a_resets := rs\<rparr>)" for w rs
    by (simp add: sessions_follow_def password_at_def user_of_def)
  then show "em_rel sessions_follow (consumePasswordResetToken i)" "em_rel sessions_follow (deleteUserPasswordResetTokens u)"
    unfolding consumePasswordResetToken_def deleteUserPasswordResetTokens_def keep_resets_def
    by (intro follow.acc_intros follow.rel_modify; simp add: em_rel_def)+
qed

lemma ended_sessions:
  assumes "deleteUserSessions i w = (r, w')"
  shows "a_users w' = a_users w \<and> set (a_sessions w') \<subseteq> set (a_sessions w) \<and>
    (r = Inr () \<longrightarrow> i \<notin> se_user_id ` set (a_sessions w'))"
  using assms
  by (auto simp: deleteUserSessions_def db_deleteUserSessions_def keep_sessions_def eseq_def ebind_def emodify_def
      split: prod.splits sum.splits elim!: acc_call_cases)

lemma stored_update:
  assumes "db_updateUser i c w = (r, w')"
  shows "a_sessions w' = a_sessions w \<and> (j \<noteq> i \<longrightarrow> user_of j w' = user_of j w)"
  using assms
  by (auto simp: db_updateUser_def ereturn_def user_of_def user_of_rewritten updated_user_def option.map_ident
      split: if_splits elim!: acc_call_cases)

lemma follow_replace: "em_rel sessions_follow (replace_password env i pw)"
proof (rule em_relI)
  fix w :: account_world
  let ?w1 = "w\<lparr>a_serial := Suc (a_serial w)\<rparr>"
  obtain d w2 where d: "deleteUserSessions i ?w1 = (d, w2)" by fastforce
  let ?c = "no_update\<lparr>uu_passwordHash := Some (ae_bcrypt_hash env (a_serial w) pw)\<rparr>"
  obtain r w3 where u: "db_updateUser i ?c w2 = (r, w3)" by fastforce
  note e = ended_sessions [OF d] and s = stored_update [OF u]
  have "snd (replace_password env i pw w) = (case d of Inl _ \<Rightarrow> w2 | Inr _ \<Rightarrow> w3)"
    using d u by (auto simp: replace_password_def drawn_def eseq_def ebind_def split: sum.split)
  moreover have "sessions_follow w w2"
    using e by (auto simp: sessions_follow_def password_at_def user_of_def)
  moreover have "sessions_follow w w3" if "d = Inr ()"
  proof -
    have pw: "password_at j w3 = password_at j w" if "j \<noteq> i" for j
      using s [of j] e that by (simp add: password_at_def user_of_def)
    have "j \<notin> se_user_id ` set (a_sessions w3)" if "password_at j w3 \<noteq> password_at j w" for j
      using pw [of j] that e s \<open>d = Inr ()\<close> by (cases "j = i") auto
    then show ?thesis using e s by (simp add: sessions_follow_def)
  qed
  ultimately show "sessions_follow w (snd (replace_password env i pw w))" by (cases d) auto
qed

datatype password_request =
  Change_Own nat string "string option"
| Set_By_Admin nat string nat
| Reset_With string string

primrec perform :: "account_env \<Rightarrow> password_request \<Rightarrow> result acc_op" where
  "perform env (Change_Own i pw cur) = changePassword env i pw cur"
| "perform env (Set_By_Admin i pw admin) = setUserPassword env i pw admin"
| "perform env (Reset_With t pw) = resetPasswordWithToken env t pw"

lemma follow_perform: "em_rel sessions_follow (perform env q)"
  by (cases q) (auto simp: changePassword_def setUserPassword_def resetPasswordWithToken_def redeem_def Let_def
      intro!: follow.acc_intros follow_replace follow_resets split: option.split)

text \<open>C15: A password is never replaced over a living session. When a change by the user, a reset
  by an administrator or a reset by link leaves a user with another password than before, that
  user has no session, whichever adapter calls fail; and none of them ever adds a session.\<close>

theorem no_session_outlives_a_password:
  assumes "perform env q w = (r, w')" and "user_of j w = Some u" and "user_of j w' = Some v"
    and "us_password_hash v \<noteq> us_password_hash u"
  shows "set (a_sessions w') \<subseteq> set (a_sessions w) \<and> j \<notin> se_user_id ` set (a_sessions w')"
  using em_relD' [OF follow_perform assms(1)] assms(2-4) by (auto simp: sessions_follow_def password_at_def)

lemma demo_reset: "user_of 1 (demo_accounts [False]) = Some (demo_user 1 ''ann'')"
  "user_of 1 (snd (perform demo_env (Reset_With ''r'' ''new'') (demo_accounts [False]))) =
    Some ((demo_user 1 ''ann'')\<lparr>us_password_hash := Some ''4$new''\<rparr>)"
  by code_simp+

theorem no_session_outlives_a_password_witness:
  "1 \<notin> se_user_id ` set (a_sessions (snd (perform demo_env (Reset_With ''r'' ''new'') (demo_accounts [False]))))"
  using no_session_outlives_a_password [OF prod.collapse [symmetric] demo_reset] by (simp add: demo_user_def)

subsection \<open>Reset links\<close>

text \<open>No token with this hash can be redeemed.\<close>

definition spent :: "string \<Rightarrow> account_world \<Rightarrow> bool" where
  "spent h w = (\<forall>r. r \<in> set (a_resets w) \<longrightarrow> rt_token_hash r = h \<longrightarrow> rt_consumed_at r \<noteq> None)"

definition stays_spent :: "string \<Rightarrow> account_world \<Rightarrow> account_world \<Rightarrow> bool" where
  "stays_spent h w w' = (spent h w \<longrightarrow> spent h w')"

interpretation spending: acc_frame "stays_spent h" for h
  by unfold_locales (auto simp: stays_spent_def spent_def numbered_def)

lemma spent_resets: "em_rel (stays_spent h) (deleteUserPasswordResetTokens u)"
  unfolding deleteUserPasswordResetTokens_def keep_resets_def
  by (intro spending.rel_call spending.rel_modify) (auto simp: stays_spent_def spent_def)

lemma spent_replace: "em_rel (stays_spent h) (replace_password env i pw)"
  unfolding replace_password_def deleteUserSessions_def db_deleteUserSessions_def keep_sessions_def db_updateUser_def
  by (auto intro!: spending.acc_intros spending.rel_modify simp: stays_spent_def spent_def)
    (auto simp: em_rel_def stays_spent_def spent_def)

text \<open>Only a redemption changes a user, and it spends the token first.\<close>

lemma consumed_token:
  assumes "consumePasswordResetToken i w = (r, w')" and "row \<in> set (a_resets w)" and "rt_id row = i"
    and "distinct (map rt_token_hash (a_resets w))"
  shows "a_users w' = a_users w \<and> (r = Inr True \<longrightarrow> spent (rt_token_hash row) w')"
proof -
  have same: "rt_id r = i" if "r \<in> set (a_resets w)" "rt_token_hash r = rt_token_hash row" for r
    using assms(2-4) that by (auto simp: distinct_map dest: inj_onD)
  let ?mark = "map (\<lambda>r. if rt_id r = i \<and> rt_consumed_at r = None then r\<lparr>rt_consumed_at := Some (clock w)\<rparr> else r)"
  have "acc_call (\<lambda>v. (Inr (list_ex (\<lambda>r. rt_id r = i \<and> rt_consumed_at r = None) (a_resets v)), v\<lparr>a_resets := ?mark (a_resets v)\<rparr>)) w = (r, w')"
    using assms(1) by (simp add: consumePasswordResetToken_def acc_now_def ebind_def eget_def)
  then show ?thesis
  proof (cases rule: acc_call_cases)
    case (runs fs)
    then have "a_users w' = a_users w" and rs: "a_resets w' = ?mark (a_resets w)" by auto
    have "rt_consumed_at (if rt_id r = i \<and> rt_consumed_at r = None then r\<lparr>rt_consumed_at := Some (clock w)\<rparr> else r) \<noteq> None"
      if "r \<in> set (a_resets w)" "rt_token_hash r = rt_token_hash row" for r
      using same [OF that] by simp
    then show ?thesis using \<open>a_users w' = a_users w\<close> by (fastforce simp: spent_def rs split: if_splits)
  qed auto
qed

lemma live_reset_result:
  assumes "getLivePasswordResetToken h w = (Inr (Some row), w')"
  shows "row \<in> set (a_resets w) \<and> rt_token_hash row = h \<and> rt_consumed_at row = None \<and> (\<exists>fs. w' = w\<lparr>faults := fs\<rparr>)"
  using assms by (auto simp: getLivePasswordResetToken_def acc_now_def ebind_def eget_def live_reset_def find_Some_iff elim!: acc_call_cases)

lemma only_faults:
  "acc_call (eget f) w = (r, w') \<Longrightarrow> \<exists>fs. w' = w\<lparr>faults := fs\<rparr>"
  by (auto simp: eget_def elim!: acc_call_cases)

lemma redeemed:
  assumes "redeem env row u pw w = (r, w')" and "row \<in> set (a_resets w)" and "distinct (map rt_token_hash (a_resets w))"
    and "a_users w' \<noteq> a_users w"
  shows "spent (rt_token_hash row) w'"
proof -
  obtain c w1 where c: "consumePasswordResetToken (rt_id row) w = (c, w1)" by fastforce
  note t = consumed_token [OF c assms(2) refl assms(3)]
  have "c = Inr True"
    using assms(1,4) c t by (auto simp: redeem_def ebind_def ereturn_def split: sum.splits if_splits)
  then have s: "spent (rt_token_hash row) w1" using t by simp
  let ?rest = "ebind (replace_password env (us_id u) pw) (\<lambda>updated.
       if \<not> updated then ereturn (False, ''Failed to reset password.'')
       else eseq (deleteUserPasswordResetTokens (us_id u))
         (eseq (logAuthEvent (Some (us_id u)) ''password_reset'') (ereturn (True, reset_done))))"
  have "?rest w1 = (r, w')" using assms(1) c \<open>c = Inr True\<close> by (simp add: redeem_def ebind_def)
  moreover have "em_rel (stays_spent (rt_token_hash row)) ?rest"
    by (auto intro!: spending.acc_intros spent_resets spent_replace)
  ultimately show ?thesis using s by (auto simp: stays_spent_def dest: em_relD')
qed

lemma spent_link:
  assumes "resetPasswordWithToken env t pw w = (r, w')" and "spent (ae_sha256 env (trim t)) w"
  shows "a_users w' = a_users w \<and> (r = Inr invalid_link \<or> (\<exists>e. r = Inl e))"
proof (cases "trim t = []")
  case True
  then show ?thesis using assms(1) by (simp add: resetPasswordWithToken_def ereturn_def)
next
  case False
  obtain x w1 where g: "getLivePasswordResetToken (ae_sha256 env (trim t)) w = (x, w1)" by fastforce
  have w1: "\<exists>fs. w1 = w\<lparr>faults := fs\<rparr>"
    using g by (auto simp: getLivePasswordResetToken_def acc_now_def ebind_def eget_def dest!: only_faults elim!: acc_call_cases)
  have "x = Inr None \<or> (\<exists>e. x = Inl e)"
    using live_reset_result [of "ae_sha256 env (trim t)" w _ w1] g assms(2)
    by (cases x; cases "projr x") (auto simp: spent_def)
  then show ?thesis using assms(1) g w1 False
    by (auto simp: resetPasswordWithToken_def Let_def ebind_def ereturn_def)
qed

lemma used_link:
  assumes "resetPasswordWithToken env t pw w = (r, w')" and "a_users w' \<noteq> a_users w"
    and "distinct (map rt_token_hash (a_resets w))"
  shows "spent (ae_sha256 env (trim t)) w'"
proof -
  obtain row w1 where g: "getLivePasswordResetToken (ae_sha256 env (trim t)) w = (Inr (Some row), w1)"
  proof -
    obtain x w1 where g: "getLivePasswordResetToken (ae_sha256 env (trim t)) w = (x, w1)" by fastforce
    have "\<exists>fs. w1 = w\<lparr>faults := fs\<rparr>"
      using g by (auto simp: getLivePasswordResetToken_def acc_now_def ebind_def eget_def dest!: only_faults elim!: acc_call_cases)
    then show thesis using assms(1,2) g that
      by (auto simp: resetPasswordWithToken_def Let_def ebind_def ereturn_def split: if_splits sum.splits option.splits)
  qed
  note l = live_reset_result [OF g]
  obtain x w2 where o: "getUserById (rt_user_id row) w1 = (x, w2)" by fastforce
  have w2: "\<exists>fs. w2 = w1\<lparr>faults := fs\<rparr>" using o by (auto simp: getUserById_def dest: only_faults)
  obtain u where "redeem env row u pw w2 = (r, w')"
    using assms(1,2) g o l w2
    by (auto simp: resetPasswordWithToken_def Let_def ebind_def ereturn_def split: if_splits sum.splits option.splits)
  then show ?thesis using redeemed [of env row u pw w2 r w'] l w2 assms(2,3) by auto
qed

text \<open>C16: A reset link changes one password once. Once a redemption has changed a user, whatever
  failed in it, every later redemption of the same link is answered as invalid or throws and
  changes no user, whatever else has happened to the accounts and whichever calls fail.\<close>

theorem reset_link_works_once:
  assumes "resetPasswordWithToken env t pw w = (r, w')" and "a_users w' \<noteq> a_users w" and "distinct (map rt_token_hash (a_resets w))"
    and "trim t' = trim t" and "a_resets v = a_resets w'" and "resetPasswordWithToken env t' pw' v = (s, v')"
  shows "a_users v' = a_users v \<and> (s = Inr invalid_link \<or> (\<exists>e. s = Inl e))"
proof -
  have "spent (ae_sha256 env (trim t')) v" using used_link [OF assms(1-3)] assms(4,5) by (simp add: spent_def)
  then show ?thesis by (rule spent_link [OF assms(6)])
qed

theorem reset_link_works_once_witness:
  "fst (resetPasswordWithToken demo_env ''  r'' ''other'' (snd (resetPasswordWithToken demo_env ''r'' ''new'' (demo_accounts [False])))) =
    Inr (invalid_link) \<and>
   a_users (snd (resetPasswordWithToken demo_env ''  r'' ''other'' (snd (resetPasswordWithToken demo_env ''r'' ''new'' (demo_accounts [False]))))) \<noteq>
    a_users (demo_accounts [])"
proof -
  let ?w = "demo_accounts [False]"
  let ?r = "resetPasswordWithToken demo_env ''r'' ''new'' ?w"
  let ?s = "resetPasswordWithToken demo_env ''  r'' ''other'' (snd ?r)"
  have p: "?r = (fst ?r, snd ?r)" "?s = (fst ?s, snd ?s)" by simp_all
  have c: "a_users (snd ?r) \<noteq> a_users ?w" by code_simp
  have d: "distinct (map rt_token_hash (a_resets ?w))" by (simp add: demo_accounts_def)
  have t: "trim ''  r'' = trim ''r''" by code_simp
  have "a_users (snd ?s) = a_users (snd ?r)" "fst ?s = Inr invalid_link \<or> (\<exists>e. fst ?s = Inl e)"
    using reset_link_works_once [OF p(1) c d t refl p(2)] by simp_all
  moreover have "isl (fst ?s) = False" by code_simp
  moreover have "a_users ?w = a_users (demo_accounts [])" by (simp add: demo_accounts_def)
  ultimately show ?thesis using c by auto
qed

end
