(* ===== verification/Account_Tables.thy ===== *)
theory Account_Tables
  imports Account_Theorems
begin

section \<open>Accounts: the constraints of the tables\<close>

text \<open>
  Every request keeps the tables consistent, whichever adapter calls fail: numbers and unique
  columns are distinct, no number runs ahead of its sequence, every session, key and token
  has its user, and no external identity has two accounts.
\<close>

definition table_ok :: "('r \<Rightarrow> nat) \<Rightarrow> ('r \<Rightarrow> string) \<Rightarrow> ('r \<Rightarrow> nat) \<Rightarrow> nat set \<Rightarrow> nat \<Rightarrow> 'r list \<Rightarrow> bool" where
  "table_ok number key owner owners latest rows =
     (distinct (map number rows) \<and> distinct (map key rows) \<and> (\<forall>r. r \<in> set rows \<longrightarrow> number r \<le> latest \<and> owner r \<in> owners))"

lemma table_ok_filter: "table_ok f k g us n rs \<Longrightarrow> table_ok f k g us n (filter P rs)"
  by (simp add: table_ok_def distinct_map_filter)

lemma table_ok_append:
  "table_ok f k g us n rs \<Longrightarrow> f r = Suc n \<Longrightarrow> k r \<notin> k ` set rs \<Longrightarrow> g r \<in> us \<Longrightarrow> table_ok f k g us (Suc n) (rs @ [r])"
  by (auto simp: table_ok_def)

lemma table_ok_mono: "table_ok f k g us n rs \<Longrightarrow> us \<subseteq> vs \<Longrightarrow> table_ok f k g vs n rs"
  by (auto simp: table_ok_def)

lemma table_ok_owners:
  "table_ok f k g us n rs \<Longrightarrow> (\<And>r. r \<in> set rs \<Longrightarrow> g r \<in> vs) \<Longrightarrow> table_ok f k g vs n rs"
  by (auto simp: table_ok_def)

lemma table_ok_map:
  assumes "\<And>r. f (h r) = f r" and "\<And>r. k (h r) = k r" and "\<And>r. g (h r) = g r"
  shows "table_ok f k g us n (map h rs) = table_ok f k g us n rs"
  by (auto simp: table_ok_def assms o_def)

definition user_ids :: "account_world \<Rightarrow> nat set" where
  "user_ids w = us_id ` set (a_users w)"

definition users_ok :: "nat \<Rightarrow> user_row list \<Rightarrow> bool" where
  "users_ok latest us = (distinct (map us_id us) \<and> distinct (map us_username us) \<and>
     (\<forall>u v. u \<in> set us \<longrightarrow> v \<in> set us \<longrightarrow> us_id u \<le> latest \<and> (same_identity u v \<longrightarrow> us_id u = us_id v)))"

definition accounts_ok :: "account_world \<Rightarrow> bool" where
  "accounts_ok w = (users_ok (a_sequences w Users) (a_users w) \<and>
     table_ok se_id se_token_hash se_user_id (user_ids w) (a_sequences w Sessions) (a_sessions w) \<and>
     table_ok ak_id ak_key_hash ak_user_id (user_ids w) (a_sequences w Api_Keys) (a_keys w) \<and>
     table_ok rt_id rt_token_hash rt_user_id (user_ids w) (a_sequences w Reset_Tokens) (a_resets w) \<and>
     table_ok ev_id ev_token ev_user_id (user_ids w) (a_sequences w Email_Verifications) (a_verifications w))"

definition keeps_tables :: "account_world \<Rightarrow> account_world \<Rightarrow> bool" where
  "keeps_tables w w' = (accounts_ok w \<longrightarrow> accounts_ok w')"

interpretation tables: acc_frame keeps_tables
  by unfold_locales (auto simp: keeps_tables_def accounts_ok_def user_ids_def numbered_def)

subsection \<open>The statements\<close>

lemma users_ok_filter: "users_ok n us \<Longrightarrow> users_ok n (filter P us)"
  by (auto simp: users_ok_def distinct_map_filter)

lemma users_ok_append:
  assumes "users_ok n us" and "us_username u \<notin> us_username ` set us" and "\<not> list_ex (same_identity u) us"
  shows "users_ok (Suc n) (us @ [u\<lparr>us_id := Suc n\<rparr>])"
proof -
  have "same_identity v (u\<lparr>us_id := Suc n\<rparr>) = same_identity u v" "same_identity (u\<lparr>us_id := Suc n\<rparr>) v = same_identity u v" for v
    by (auto simp: same_identity_def)
  then show ?thesis using assms by (fastforce simp: users_ok_def list_ex_iff)
qed

lemma users_ok_rewrite:
  assumes "users_ok n us" and "\<And>u. us_id (f u) = us_id u" and "\<And>u. us_username (f u) = us_username u"
    and "\<And>u v. u \<in> set us \<Longrightarrow> v \<in> set us \<Longrightarrow> us_id u = i \<Longrightarrow> us_id v \<noteq> i \<Longrightarrow> \<not> same_identity (f u) v"
  shows "users_ok n (rewrite_user i f us)"
proof -
  have names: "map us_id (rewrite_user i f us) = map us_id us" "map us_username (rewrite_user i f us) = map us_username us"
    by (simp_all add: rewrite_user_def assms(2,3))
  have sym: "same_identity u v \<longleftrightarrow> same_identity v u" for u v by (auto simp: same_identity_def)
  have old: "us_id u \<le> n" "same_identity u v \<Longrightarrow> us_id u = us_id v" if "u \<in> set us" "v \<in> set us" for u v
    using assms(1) that by (auto simp: users_ok_def)
  have "us_id x \<le> n \<and> (same_identity x y \<longrightarrow> us_id x = us_id y)"
    if "x \<in> set (rewrite_user i f us)" "y \<in> set (rewrite_user i f us)" for x y
  proof -
    from that obtain u v where uv: "u \<in> set us" "v \<in> set us" and x: "x = (if us_id u = i then f u else u)"
      and y: "y = (if us_id v = i then f v else v)"
      by (auto simp: rewrite_user_def)
    have "us_id x = us_id u" "us_id y = us_id v" by (simp_all add: x y assms(2))
    moreover have "us_id u = us_id v" if "same_identity x y"
      using that old(2) [OF uv] assms(4) [OF uv] assms(4) [OF uv(2,1)] sym [of x y]
      by (cases "us_id u = i"; cases "us_id v = i") (simp_all add: x y)
    ultimately show ?thesis using old(1) [OF uv] by simp
  qed
  then show ?thesis using assms(1) names by (simp add: users_ok_def)
qed

lemma rewrite_ids:
  assumes "\<And>u. us_id (f u) = us_id u"
  shows "us_id ` set (rewrite_user i f us) = us_id ` set us"
proof -
  have "map us_id (rewrite_user i f us) = map us_id us" by (simp add: rewrite_user_def assms)
  then show ?thesis by (metis set_map)
qed

lemma tables_insert_user: "em_rel keeps_tables (insert_user u)"
  unfolding insert_user_def
proof (rule tables.rel_call, rule em_relI)
  fix w :: account_world
  let ?m = "\<lambda>w. if us_username u \<in> us_username ` set (a_users w) \<or> list_ex (same_identity u) (a_users w)
     then (Inl ''UNIQUE constraint failed'', w)
     else (Inr (), (numbered Users w)\<lparr>a_users := a_users w @ [u\<lparr>us_id := next_id Users w\<rparr>]\<rparr>)"
  show "keeps_tables w (snd (?m w))"
    using users_ok_append [of "a_sequences w Users" "a_users w" u]
    by (auto simp: keeps_tables_def accounts_ok_def numbered_def next_id_def user_ids_def intro: table_ok_mono)
qed

lemma tables_update: "em_rel keeps_tables (db_updateUser i c)"
proof -
  have "accounts_ok (w\<lparr>a_users := rewrite_user i (updated_user c) (a_users w)\<rparr>)" if "accounts_ok w"
    "\<not> list_ex (\<lambda>u. us_id u = i \<and> list_ex (\<lambda>v. us_id v \<noteq> i \<and> same_identity (updated_user c u) v) (a_users w)) (a_users w)" for w
    using that users_ok_rewrite [of "a_sequences w Users" "a_users w" "updated_user c" i]
    by (auto simp: accounts_ok_def user_ids_def rewrite_ids updated_user_def list_ex_iff)
  then show ?thesis
    unfolding db_updateUser_def by (auto intro!: tables.acc_intros) (auto simp: em_rel_def keeps_tables_def)
qed

lemma tables_columns:
  assumes "\<And>u. us_id (f u) = us_id u" and "\<And>u. us_username (f u) = us_username u"
    and "\<And>u. us_auth_provider (f u) = us_auth_provider u" and "\<And>u. us_provider_user_id (f u) = us_provider_user_id u"
  shows "em_rel keeps_tables (set_user_columns i f)"
proof -
  have "same_identity (f u) v = same_identity u v" for u v by (simp add: same_identity_def assms)
  then have "users_ok n (rewrite_user i f us)" if "users_ok n us" for n us
    using that by (intro users_ok_rewrite) (auto simp: assms users_ok_def)
  then show ?thesis
    unfolding set_user_columns_def
    by (intro tables.rel_call tables.rel_modify) (auto simp: keeps_tables_def accounts_ok_def user_ids_def rewrite_ids assms)
qed

lemma tables_delete_row: "em_rel keeps_tables (delete_user_row i)"
  unfolding delete_user_row_def
proof (rule tables.rel_call, rule em_relI)
  fix w :: account_world
  let ?blocked = "i \<in> us_id ` set (a_users w) \<and>
        (i \<in> se_user_id ` set (a_sessions w) \<or> i \<in> ak_user_id ` set (a_keys w) \<or> Some i \<in> fst ` set (a_audit w))"
  let ?w' = "w\<lparr>a_users := filter (\<lambda>u. us_id u \<noteq> i) (a_users w),
        a_resets := filter (\<lambda>r. rt_user_id r \<noteq> i) (a_resets w),
        a_verifications := filter (\<lambda>v. ev_user_id v \<noteq> i) (a_verifications w)\<rparr>"
  have ids: "user_ids ?w' = user_ids w - {i}" by (auto simp: user_ids_def)
  have "accounts_ok ?w'" if ok: "accounts_ok w" and "\<not> ?blocked"
  proof -
    have own: "se_user_id s \<in> user_ids w - {i}" if "s \<in> set (a_sessions w)" for s
      using ok \<open>\<not> ?blocked\<close> that by (auto simp: accounts_ok_def table_ok_def user_ids_def)
    have own': "ak_user_id s \<in> user_ids w - {i}" if "s \<in> set (a_keys w)" for s
      using ok \<open>\<not> ?blocked\<close> that by (auto simp: accounts_ok_def table_ok_def user_ids_def)
    show ?thesis
      unfolding accounts_ok_def ids
      using ok own own' by (auto simp: accounts_ok_def users_ok_filter table_ok_filter table_ok_def distinct_map_filter)
  qed
  then show "keeps_tables w (snd (if ?blocked then (Inl ''FOREIGN KEY constraint failed'', w) else (Inr (), ?w')))"
    by (auto simp: keeps_tables_def)
qed

lemma tables_inserts:
  "em_rel keeps_tables (insert_session i h t)" "em_rel keeps_tables (insert_api_key i h n e)"
  "em_rel keeps_tables (insert_reset i h t ip)" "em_rel keeps_tables (insert_verification i m h ty t)"
  unfolding insert_session_def insert_api_key_def insert_reset_def insert_verification_def
  by (intro tables.rel_call em_relI;
      auto simp: keeps_tables_def accounts_ok_def numbered_def next_id_def user_ids_def intro!: table_ok_append)+

lemma tables_filters:
  "em_rel keeps_tables (keep_sessions P)" "em_rel keeps_tables (keep_resets Q)" "em_rel keeps_tables (keep_verifications V)"
  "em_rel keeps_tables (db_deleteApiKey k)" "em_rel keeps_tables (pruneUserSessions i n)"
  unfolding keep_sessions_def keep_resets_def keep_verifications_def db_deleteApiKey_def pruneUserSessions_def
  by (auto intro!: tables.acc_intros tables.rel_modify simp: keeps_tables_def accounts_ok_def user_ids_def table_ok_filter)

lemma tables_consume: "em_rel keeps_tables (consumePasswordResetToken i)"
proof -
  have "accounts_ok (w\<lparr>a_resets := map (\<lambda>r. if rt_id r = i \<and> rt_consumed_at r = None then r\<lparr>rt_consumed_at := Some now\<rparr> else r) (a_resets w)\<rparr>) =
      accounts_ok w" for w now
    unfolding accounts_ok_def by (simp add: user_ids_def table_ok_map)
  then show ?thesis
    unfolding consumePasswordResetToken_def by (intro tables.acc_intros) (auto simp: em_rel_def keeps_tables_def)
qed

subsection \<open>The operations\<close>

lemma tables_clear: "em_rel keeps_tables (acc_call (emodify (\<lambda>w. w\<lparr>a_keys := filter P (a_keys w)\<rparr>)))"
  "em_rel keeps_tables (acc_call (emodify (\<lambda>w. w\<lparr>a_audit := g (a_audit w)\<rparr>)))"
  "em_rel keeps_tables (emodify (\<lambda>w. w\<lparr>a_revoked := h (a_revoked w)\<rparr>))"
  by (auto intro!: tables.rel_call tables.rel_modify simp: keeps_tables_def accounts_ok_def user_ids_def table_ok_filter)

lemma tables_deleteUser: "em_rel keeps_tables (db_deleteUser i)"
  unfolding db_deleteUser_def db_deleteUserSessions_def by (intro tables.acc_intros tables_filters tables_clear tables_delete_row)

lemma tables_end_sessions: "em_rel keeps_tables (deleteUserSessions i)"
  unfolding deleteUserSessions_def db_deleteUserSessions_def by (intro tables.acc_intros tables_filters tables_clear)

lemma tables_createSession: "em_rel keeps_tables (createSession env i h)"
  unfolding createSession_def db_createSession_def Let_def
  by (auto intro!: tables.acc_intros tables_inserts tables_filters split: option.split)

lemma tables_created: "em_rel keeps_tables (createUser env n)" "em_rel keeps_tables (createUserWithPassword env n)"
  unfolding createUser_def createUserWithPassword_def created_user_def db_createUserWithPassword_def db_createUser_def
  by (auto intro!: tables.acc_intros tables_insert_user split: option.split)

lemma tables_replace: "em_rel keeps_tables (replace_password env i pw)"
  unfolding replace_password_def by (intro tables.acc_intros tables_end_sessions tables_update)

lemma tables_mint: "em_rel keeps_tables (mintResetTokenForUser env i ip)"
  unfolding mintResetTokenForUser_def db_createPasswordResetToken_def
  by (intro tables.acc_intros tables_inserts tables_filters)

lemma tables_verification: "em_rel keeps_tables (createVerificationToken env i e t)" "em_rel keeps_tables (verifyToken env x)"
  unfolding createVerificationToken_def verifyToken_def
  by (auto intro!: tables.acc_intros tables_inserts tables_filters split: option.split)

lemma users_ok_map:
  assumes "\<And>u. us_id (f u) = us_id u" and "\<And>u. us_username (f u) = us_username u"
    and "\<And>u v. same_identity (f u) (f v) = same_identity u v" and "users_ok n us"
  shows "users_ok n (map f us)"
  using assms(4) by (auto simp: users_ok_def assms(1-3) o_def)

lemma tables_sweep: "em_rel keeps_tables cleanupExpiredTokens"
proof -
  have "accounts_ok (w\<lparr>a_users := map (\<lambda>u. case us_pending_email_expires u of None \<Rightarrow> u | Some t \<Rightarrow> if t \<le> now then no_pending u else u) (a_users w)\<rparr>)"
    if "accounts_ok w" for w now
  proof -
    define f where "f u = (case us_pending_email_expires u of None \<Rightarrow> u | Some t \<Rightarrow> if t \<le> now then no_pending u else u)" for u
    have f: "us_id (f u) = us_id u" "us_username (f u) = us_username u" "same_identity (f u) (f v) = same_identity u v" for u v
      by (auto simp: f_def no_pending_def same_identity_def split: option.split)
    have "us_id ` f ` set (a_users w) = us_id ` set (a_users w)" by (simp add: image_image f)
    then have "accounts_ok (w\<lparr>a_users := map f (a_users w)\<rparr>)"
      using that users_ok_map [OF f] by (simp add: accounts_ok_def user_ids_def)
    then show ?thesis by (simp add: f_def [abs_def])
  qed
  moreover have "accounts_ok (w\<lparr>a_verifications := filter P (a_verifications w)\<rparr>)" if "accounts_ok w" for w P
    using that by (simp add: accounts_ok_def user_ids_def table_ok_filter)
  ultimately show ?thesis
    unfolding cleanupExpiredTokens_def
    by (intro tables.acc_intros tables.rel_modify) (auto simp: em_rel_def keeps_tables_def)
qed

lemma tables_updateUser: "em_rel keeps_tables (updateUser i c)"
  unfolding updateUser_def by (auto intro!: tables.acc_intros tables_update split: option.split)

lemma tables_deconflict: "em_rel keeps_tables (deconflict n base name)"
  by (induction n arbitrary: name) (auto intro!: tables.acc_intros split: option.split)

lemma tables_match: "em_rel keeps_tables (match_account env p ou)"
  unfolding match_account_def free_username_def Let_def
  by (auto intro!: tables.acc_intros tables_created tables_deconflict split: option.split)

lemma tables_enter: "em_rel keeps_tables (enter_account env p ou i)"
  unfolding enter_account_def by (auto intro!: tables.acc_intros tables_update tables_createSession split: option.split)

lemma tables_simulated: "em_rel keeps_tables (createSimulatedUser env n role)"
  unfolding createSimulatedUser_def
  by (auto intro!: tables.acc_intros tables_created tables_updateUser split: option.split bool.split)

datatype account_request =
  Open_Session nat "int option"
| Check_Session string
| Log_Out "string option"
| Sweep_Sessions
| Create_Key nat string "msec option"
| Check_Key string
| Delete_Key nat
| Create_User new_user
| Create_User_With_Password new_user
| Update_User nat user_update
| Delete_User nat
| Password password_request
| Ask_Reset string "string option"
| Sweep_Resets
| Send_Verification nat
| Verify_Address string
| Ask_Address nat string
| Complete_Address string
| Cancel_Address nat
| Sweep_Verifications
| Login_With string "oauth_user option"
| Login_Simulated new_user string

abbreviation done_with :: "'a acc_op \<Rightarrow> unit acc_op" where
  "done_with m \<equiv> eseq m (ereturn ())"

primrec serve :: "account_env \<Rightarrow> account_request \<Rightarrow> unit acc_op" where
  "serve env (Open_Session i h) = done_with (createSession env i h)"
| "serve env (Check_Session t) = done_with (validateSession env t)"
| "serve env (Log_Out t) = logout env t"
| "serve env Sweep_Sessions = cleanupExpiredSessions"
| "serve env (Create_Key i n e) = done_with (createApiKey env i n e)"
| "serve env (Check_Key k) = done_with (validateApiKey env k)"
| "serve env (Delete_Key i) = db_deleteApiKey i"
| "serve env (Create_User n) = done_with (createUser env n)"
| "serve env (Create_User_With_Password n) = done_with (createUserWithPassword env n)"
| "serve env (Update_User i c) = done_with (updateUser i c)"
| "serve env (Delete_User i) = done_with (deleteUser i)"
| "serve env (Password q) = done_with (perform env q)"
| "serve env (Ask_Reset x ip) = done_with (createPasswordResetToken env x ip)"
| "serve env Sweep_Resets = cleanupExpiredPasswordResetTokens"
| "serve env (Send_Verification i) = done_with (sendEmailVerification env i)"
| "serve env (Verify_Address t) = done_with (verifyCurrentEmail env t)"
| "serve env (Ask_Address i e) = done_with (requestEmailChange env i e)"
| "serve env (Complete_Address t) = done_with (completeEmailChange env t)"
| "serve env (Cancel_Address i) = done_with (cancelEmailChange i)"
| "serve env Sweep_Verifications = done_with cleanupExpiredTokens"
| "serve env (Login_With p a) = done_with (authenticateWithOAuth env p a)"
| "serve env (Login_Simulated n role) = done_with (authenticateWithSimulatedAccount env n role)"

lemma tables_perform: "em_rel keeps_tables (perform env q)"
  by (cases q) (auto simp: changePassword_def setUserPassword_def resetPasswordWithToken_def redeem_def deleteUserPasswordResetTokens_def Let_def
      intro!: tables.acc_intros tables_replace tables_consume tables_filters split: option.split)

lemma tables_serve: "em_rel keeps_tables (serve env q)"
proof (cases q)
  case (Log_Out t)
  then show ?thesis
    by (auto simp: logout_def revokeSessionByToken_def db_deleteSession_def intro!: tables.acc_intros tables_filters split: option.split)
next
  case (Create_Key i n e)
  then show ?thesis
    by (auto simp: createApiKey_def db_createApiKey_def Let_def intro!: tables.acc_intros tables_inserts split: option.split)
next
  case (Ask_Reset x ip)
  then show ?thesis
    by (auto simp: createPasswordResetToken_def findResetEligibleUser_def Let_def intro!: tables.acc_intros tables_mint split: option.split)
next
  case (Verify_Address t)
  then show ?thesis
    by (auto simp: verifyCurrentEmail_def intro!: tables.acc_intros tables_verification tables_columns tables_filters split: option.split)
next
  case (Ask_Address i e)
  then show ?thesis
    by (auto simp: requestEmailChange_def Let_def intro!: tables.acc_intros tables_verification tables_columns split: option.split)
next
  case (Complete_Address t)
  then show ?thesis
    by (auto simp: completeEmailChange_def no_pending_def intro!: tables.acc_intros tables_verification tables_columns tables_filters split: option.split)
next
  case (Cancel_Address i)
  then show ?thesis
    by (auto simp: cancelEmailChange_def no_pending_def intro!: tables.acc_intros tables_columns tables_filters)
next
  case (Login_With p a)
  then show ?thesis
    by (auto simp: authenticateWithOAuth_def intro!: tables.acc_intros tables_match tables_enter split: option.split)
next
  case (Login_Simulated n role)
  then show ?thesis
    by (auto simp: authenticateWithSimulatedAccount_def intro!: tables.acc_intros tables_simulated tables_createSession)
qed (auto simp: validateSession_def validateApiKey_def cleanupExpiredSessions_def cleanupExpiredPasswordResetTokens_def sendEmailVerification_def
    deleteUser_def intro!: tables.acc_intros tables_createSession tables_filters tables_created tables_updateUser tables_deleteUser tables_perform
    tables_verification tables_sweep split: option.split)

primrec serve_all :: "account_env \<Rightarrow> account_request list \<Rightarrow> account_world \<Rightarrow> account_world" where
  "serve_all env [] w = w"
| "serve_all env (q # qs) w = serve_all env qs (snd (serve env q w))"

text \<open>The consistency of the tables, which the theorems of \<open>Account_Identity\<close> and
  \<open>Account_Runs\<close> assume of the state they start in, holds in every state that requests of any
  kind reach from a consistent one, whichever adapter calls fail.\<close>

lemma accounts_stay_ok:
  assumes "accounts_ok w"
  shows "accounts_ok (serve_all env qs w)"
  using assms
proof (induction qs arbitrary: w)
  case (Cons q qs)
  have "accounts_ok (snd (serve env q w))" using em_relD [OF tables_serve] Cons.prems by (simp add: keeps_tables_def)
  then show ?case using Cons.IH by simp
qed simp

lemma demo_accounts_ok: "accounts_ok (demo_accounts fs)"
  by (auto simp: accounts_ok_def users_ok_def table_ok_def user_ids_def demo_accounts_def demo_user_def same_identity_def)

end
