(* ===== verification/Account_Identity.thy ===== *)
theory Account_Identity
  imports Account_Tables "HOL-Library.Multiset"
begin

section \<open>Accounts: sessions and identities\<close>

text \<open>
  What a token proves: the round trip of a session from opening to expiry, the account a
  provider's user enters, and the runs in which an account or an address is not the one that
  was proved.
\<close>

subsection \<open>Signed tokens\<close>

lemma hex_value_digit:
  assumes "n < 16"
  shows "hex_value (hex_digit n) = Some n \<and> hex_digit n \<noteq> CHR ''.''"
proof -
  have "list_all (\<lambda>n. hex_value (hex_digit n) = Some n \<and> hex_digit n \<noteq> CHR ''.'') [0..<16]" by code_simp
  then show ?thesis using assms by (simp add: list_all_iff)
qed

lemma octet_nibbles: "unat (b :: octet) div 16 < 16" "unat b mod 16 < 16"
proof -
  have "unat b < 2 ^ LENGTH(8)" by (rule unsigned_less)
  then have "unat b < 256" by simp
  then show "unat b div 16 < 16" by linarith
qed simp

lemma from_to_hex: "from_hex (to_hex bs) = bs"
proof (induction bs)
  case (Cons b bs)
  have "word_of_nat (16 * (unat b div 16) + unat b mod 16) = b" by simp
  then show ?case using Cons octet_nibbles [of b] by (simp add: to_hex_def hex_value_digit)
qed (simp add: to_hex_def)

lemma to_hex_no_dot: "CHR ''.'' \<notin> set (to_hex bs)"
  using hex_value_digit [OF octet_nibbles(1)] hex_value_digit [OF octet_nibbles(2)]
  by (auto simp: to_hex_def eq_commute [of "CHR ''.''"])

lemma split_char_none: "c \<notin> set xs \<Longrightarrow> split_char c xs = [xs]"
  by (induction xs) auto

lemma split_char_two: "c \<notin> set xs \<Longrightarrow> c \<notin> set ys \<Longrightarrow> split_char c (xs @ c # ys) = [xs, ys]"
  by (induction xs) (auto simp: split_char_none)

lemma unwrap_signed: "CHR ''.'' \<notin> set t \<Longrightarrow> unwrapToken env k (signed env k t) = Some t"
  by (auto simp: unwrapToken_def signed_def split_char_two to_hex_no_dot verify_signature_def from_to_hex split: option.split)

lemma unwrap_unsigned: "CHR ''.'' \<notin> set t \<Longrightarrow> ae_hmac env \<noteq> None \<Longrightarrow> unwrapToken env k t = None"
  by (auto simp: unwrapToken_def split_char_none)

subsection \<open>Sessions\<close>

lemma find_sole:
  assumes "x \<in> set xs" and "P x" and "\<And>y. y \<in> set xs \<Longrightarrow> P y \<Longrightarrow> y = x"
  shows "List.find P xs = Some x"
  using assms
proof (induction xs)
  case (Cons y ys)
  show ?case
  proof (cases "P y")
    case True
    then have "y = x" using Cons.prems(3) by simp
    then show ?thesis using True by simp
  next
    case False
    then show ?thesis using Cons by fastforce
  qed
qed simp

lemma newest_ids_last:
  assumes "\<And>s. s \<in> set ss \<Longrightarrow> se_id s \<le> se_id x" and "se_user_id x = i" and "0 < n"
  shows "se_id x \<in> set (newest_ids i n (ss @ [x]))"
proof -
  let ?ids = "map se_id (filter (\<lambda>s. se_user_id s = i) ss)"
  have "sort (?ids @ [se_id x]) = sort ?ids @ [se_id x]"
    using assms(1) by (intro properties_for_sort) (auto simp: sorted_append)
  then show ?thesis using assms(2,3) by (cases n) (simp_all add: newest_ids_def)
qed

lemma kept_sessions:
  assumes "distinct (map se_id ss)"
  shows "length (filter (\<lambda>s. se_user_id s = i) (filter (\<lambda>s. se_user_id s \<noteq> i \<or> se_id s \<in> set (newest_ids i n ss)) ss)) \<le> n"
proof -
  let ?k = "filter (\<lambda>s. se_user_id s = i \<and> se_id s \<in> set (newest_ids i n ss)) ss"
  have "length ?k = card (se_id ` set ?k)"
    using distinct_card [of "map se_id ?k"] assms by (simp add: distinct_map_filter)
  also have "\<dots> \<le> card (set (newest_ids i n ss))" by (rule card_mono) auto
  also have "\<dots> \<le> n" using card_length [of "newest_ids i n ss"] by (simp add: newest_ids_def)
  finally have "length ?k \<le> n" .
  moreover have "filter (\<lambda>s. se_user_id s = i) (filter (\<lambda>s. se_user_id s \<noteq> i \<or> se_id s \<in> set (newest_ids i n ss)) ss) = ?k"
    by (auto intro: filter_cong)
  ultimately show ?thesis by simp
qed

definition opened_session :: "account_env \<Rightarrow> nat \<Rightarrow> account_world \<Rightarrow> session_row" where
  "opened_session env i w = \<lparr>se_id = next_id Sessions w, se_token_hash = ae_sha256 env (ae_token env (a_serial w)), se_user_id = i,
     se_expires_at = clock w + session_timeout env\<rparr>"

definition sessions_after :: "account_env \<Rightarrow> nat \<Rightarrow> account_world \<Rightarrow> session_row list" where
  "sessions_after env i w = (let ss = a_sessions w @ [opened_session env i w] in
     if 0 < max_concurrent env
     then filter (\<lambda>s. se_user_id s \<noteq> i \<or> se_id s \<in> set (newest_ids i (nat (max_concurrent env)) ss)) ss else ss)"

definition after_opening :: "account_env \<Rightarrow> nat \<Rightarrow> account_world \<Rightarrow> account_world" where
  "after_opening env i w = w\<lparr>a_serial := Suc (a_serial w), a_sequences := (a_sequences w)(Sessions := next_id Sessions w),
     a_last_rowid := next_id Sessions w, a_sessions := sessions_after env i w\<rparr>"

lemma opened_in_sessions:
  assumes "accounts_ok w"
  shows "opened_session env i w \<in> set (sessions_after env i w)"
proof -
  have "se_id s \<le> se_id (opened_session env i w)" if "s \<in> set (a_sessions w)" for s
    using assms that by (fastforce simp: accounts_ok_def table_ok_def opened_session_def next_id_def)
  then show ?thesis using newest_ids_last [of "a_sessions w" "opened_session env i w" i "nat (max_concurrent env)"]
    by (auto simp: sessions_after_def opened_session_def Let_def)
qed

lemma live_opened:
  assumes "accounts_ok w" and "user_of i w = Some u" and "ae_sha256 env (ae_token env (a_serial w)) \<notin> se_token_hash ` set (a_sessions w)"
    and "a_sessions v = sessions_after env i w" and "user_of i v = Some u"
  shows "live_session (ae_sha256 env (ae_token env (a_serial w))) t v =
    (if t < clock w + session_timeout env then Some (opened_session env i w, u) else None)"
proof -
  let ?h = "ae_sha256 env (ae_token env (a_serial w))"
  have only: "s = opened_session env i w" if "s \<in> set (sessions_after env i w)" "se_token_hash s = ?h" for s
    using that assms(3) by (auto simp: sessions_after_def Let_def image_iff split: if_splits)
  have "List.find (\<lambda>s. se_token_hash s = ?h \<and> t < se_expires_at s) (sessions_after env i w) =
      (if t < clock w + session_timeout env then Some (opened_session env i w) else None)"
  proof (cases "t < clock w + session_timeout env")
    case True
    then show ?thesis using opened_in_sessions [OF assms(1)] only
      by (auto intro!: find_sole simp: opened_session_def)
  next
    case False
    then show ?thesis using only by (fastforce simp: find_None_iff opened_session_def)
  qed
  then show ?thesis using assms(5) by (simp add: live_session_def assms(4) opened_session_def)
qed

lemma opened:
  assumes "faults w = []" and "accounts_ok w" and "user_of i w = Some u" and "0 < session_timeout env"
    and "ae_sha256 env (ae_token env (a_serial w)) \<notin> se_token_hash ` set (a_sessions w)"
  shows "createSession env i None w = (Inr (signed env Session_Key (ae_token env (a_serial w)), opened_session env i w), after_opening env i w)"
proof -
  have i: "i \<in> us_id ` set (a_users w)" using user_of_id [OF assms(3)] by blast
  let ?v = "w\<lparr>a_serial := Suc (a_serial w), a_sequences := (a_sequences w)(Sessions := next_id Sessions w),
     a_last_rowid := next_id Sessions w, a_sessions := a_sessions w @ [opened_session env i w]\<rparr>"
  have "insert_session i (ae_sha256 env (ae_token env (a_serial w))) (clock w + session_timeout env) (w\<lparr>a_serial := Suc (a_serial w)\<rparr>) = (Inr (), ?v)"
    using assms(1,5) i by (simp add: insert_session_def numbered_def next_id_def opened_session_def)
  moreover have "(if 0 < max_concurrent env then pruneUserSessions i (max_concurrent env) else ereturn ()) ?v = (Inr (), after_opening env i w)"
    using assms(1) by (simp add: pruneUserSessions_def emodify_def ereturn_def after_opening_def sessions_after_def Let_def)
  moreover have "live_session (ae_sha256 env (ae_token env (a_serial w))) (clock w) (after_opening env i w) = Some (opened_session env i w, u)"
    using live_opened [OF assms(2,3,5), of "after_opening env i w" "clock w"] assms(3,4) by (simp add: after_opening_def user_of_def)
  ultimately show ?thesis
    using assms(1)
    by (simp add: createSession_def drawn_def ebind_def eseq_def acc_now_def eget_def db_createSession_def last_insert_rowid_def Let_def
        getSessionByToken_def ereturn_def after_opening_def)
qed

text \<open>C17: A session lives exactly as long as configured. A session opened for a user is recognised
  by its token until the configured lifetime is over and not after; with signing configured the
  bare token is refused at any time; and the user then has no more sessions than configured,
  the new one among them.\<close>

theorem session_lives_until_it_expires:
  assumes "faults w = []" and "accounts_ok w" and "user_of i w = Some u" and "0 < session_timeout env"
    and "ae_sha256 env (ae_token env (a_serial w)) \<notin> se_token_hash ` set (a_sessions w)"
    and "CHR ''.'' \<notin> set (ae_token env (a_serial w))"
  shows "\<exists>token s w'. createSession env i None w = (Inr (token, s), w') \<and>
    (\<forall>t. fst (validateSession env token (w'\<lparr>clock := t\<rparr>)) =
       Inr (if t < clock w + session_timeout env then Some (auth_user_of u) else None :: auth_user option)) \<and>
    (ae_hmac env \<noteq> None \<longrightarrow> (\<forall>v. fst (validateSession env (ae_token env (a_serial w)) v) = Inr None)) \<and>
    s \<in> set (a_sessions w') \<and>
    (0 < max_concurrent env \<longrightarrow> int (length (filter (\<lambda>x. se_user_id x = i) (a_sessions w'))) \<le> max_concurrent env)"
proof -
  let ?w' = "after_opening env i w" and ?tok = "ae_token env (a_serial w)"
  have user: "user_of i (?w'\<lparr>clock := t\<rparr>) = Some u" for t using assms(3) by (simp add: after_opening_def user_of_def)
  have "live_session (ae_sha256 env ?tok) t (?w'\<lparr>clock := t\<rparr>) =
      (if t < clock w + session_timeout env then Some (opened_session env i w, u) else None)" for t
    using live_opened [OF assms(2,3,5), of "?w'\<lparr>clock := t\<rparr>" t] user by (simp add: after_opening_def)
  moreover have "faults (?w'\<lparr>clock := t\<rparr>) = []" for t using assms(1) by (simp add: after_opening_def)
  ultimately have valid: "fst (validateSession env (signed env Session_Key ?tok) (?w'\<lparr>clock := t\<rparr>)) =
      Inr (if t < clock w + session_timeout env then Some (auth_user_of u) else None :: auth_user option)" for t
    using user [of t] unwrap_signed [OF assms(6)]
    by (simp add: validateSession_def getSessionByToken_def getUserById_def acc_now_def ecatch_def ebind_def eget_def ereturn_def opened_session_def)
  have "fst (validateSession env ?tok v) = Inr None" if "ae_hmac env \<noteq> None" for v
    using unwrap_unsigned [OF assms(6) that] by (simp add: validateSession_def ecatch_def ereturn_def)
  moreover have "distinct (map se_id (a_sessions w @ [opened_session env i w]))"
    using assms(2) by (fastforce simp: accounts_ok_def table_ok_def opened_session_def next_id_def)
  then have "int (length (filter (\<lambda>x. se_user_id x = i) (a_sessions ?w'))) \<le> max_concurrent env" if "0 < max_concurrent env"
    using kept_sessions [of "a_sessions w @ [opened_session env i w]" i "nat (max_concurrent env)"] that
    by (simp add: after_opening_def sessions_after_def Let_def le_nat_iff)
  moreover have "opened_session env i w \<in> set (a_sessions ?w')"
    using opened_in_sessions [OF assms(2)] by (simp add: after_opening_def)
  ultimately show ?thesis using opened [OF assms(1-5)] valid by blast
qed

theorem session_lives_until_it_expires_witness:
  "\<exists>token s w'. createSession demo_env 2 None (demo_accounts []) = (Inr (token, s), w') \<and>
    fst (validateSession demo_env token (w'\<lparr>clock := 86400999\<rparr>)) = Inr (Some (auth_user_of (demo_user 2 ''bob''))) \<and>
    fst (validateSession demo_env token (w'\<lparr>clock := 86401000\<rparr>)) = Inr None"
proof -
  let ?w = "demo_accounts []"
  have "faults ?w = []" "clock ?w = 1000" "user_of 2 ?w = Some (demo_user 2 ''bob'')" "session_timeout demo_env = 86400000"
    "ae_sha256 demo_env (ae_token demo_env (a_serial ?w)) \<notin> se_token_hash ` set (a_sessions ?w)"
    "CHR ''.'' \<notin> set (ae_token demo_env (a_serial ?w))"
    by code_simp+
  moreover from this obtain token s w' where "createSession demo_env 2 None ?w = (Inr (token, s), w')"
    and "\<And>t. fst (validateSession demo_env token (w'\<lparr>clock := t\<rparr>)) =
       Inr (if t < clock ?w + session_timeout demo_env then Some (auth_user_of (demo_user 2 ''bob'')) else None)"
    using session_lives_until_it_expires [of ?w 2 "demo_user 2 ''bob''" demo_env] demo_accounts_ok by auto
  ultimately show ?thesis by (intro exI conjI) auto
qed

subsection \<open>The account of an identity\<close>

definition fewer_faults :: "account_world \<Rightarrow> account_world \<Rightarrow> bool" where
  "fewer_faults w w' = (\<exists>fs. w' = w\<lparr>faults := fs\<rparr>)"

interpretation fewer: em_frame fewer_faults
proof
  show "fewer_faults w w" for w unfolding fewer_faults_def by (rule exI [of _ "faults w"]) simp
qed (auto simp: fewer_faults_def)

lemma fewer_read: "em_rel fewer_faults (acc_call (eget f))"
  by (rule em_relI) (simp add: fewer_faults_def only_faults [OF prod.collapse [symmetric]])

lemma fewer_deconflict: "em_rel fewer_faults (deconflict n base name)"
  by (induction n arbitrary: name)
    (auto simp: getUserByUsername_def intro!: fewer.rel_intros fewer_read split: option.split)

lemma read_result:
  assumes "acc_call (eget f) w = (Inr x, w')" and "\<And>fs. f (w\<lparr>faults := fs\<rparr>) = f w"
  shows "x = f w \<and> a_users w' = a_users w \<and> a_sequences w' = a_sequences w"
  using assms by (auto simp: eget_def elim!: acc_call_cases)

lemma number_of_created:
  assumes "createUser env n w = (Inr c, w')"
  shows "au_id c = Suc (a_sequences w Users)"
proof -
  let ?row = "row_of_new env (n\<lparr>nu_passwordHash := None\<rparr>)"
  obtain w1 where i: "insert_user ?row w = (Inr (), w1)"
    using assms by (auto simp: createUser_def created_user_def db_createUser_def eseq_def ebind_def split: prod.splits sum.splits)
  obtain i w2 where l: "last_insert_rowid w1 = (Inr i, w2)"
    using assms i by (auto simp: createUser_def created_user_def db_createUser_def eseq_def ebind_def split: prod.splits sum.splits)
  obtain u w3 where g: "getUserById i w2 = (Inr (Some u), w3)" and c: "c = auth_user_of u"
    using assms i l
    by (auto simp: createUser_def created_user_def db_createUser_def eseq_def ebind_def ereturn_def ethrow_def split: prod.splits sum.splits option.splits)
  have "a_last_rowid w1 = Suc (a_sequences w Users)"
    using i unfolding insert_user_def by (cases rule: acc_call_cases) (auto simp: numbered_def next_id_def split: if_splits)
  moreover have "i = a_last_rowid w1"
    using l unfolding last_insert_rowid_def by (auto simp: eget_def elim!: acc_call_cases)
  moreover have "us_id u = i"
    using g unfolding getUserById_def by (auto simp: eget_def dest: user_of_id elim!: acc_call_cases)
  ultimately show ?thesis by (simp add: c auth_user_of_def)
qed

text \<open>What a provider's user may enter: an account bound to the same identity, or one of the
  provider's own that no identity is bound to yet.\<close>

definition enterable :: "string \<Rightarrow> oauth_user \<Rightarrow> user_row \<Rightarrow> bool" where
  "enterable p ou u = (or_null (ou_id ou) \<noteq> None \<and> us_auth_provider u = Some p \<and>
     (us_provider_user_id u = or_null (ou_id ou) \<or> or_null (us_provider_user_id u) = None \<and> us_username u = ou_username ou))"

lemma ebind_succeeds:
  assumes "ebind m f w = (Inr y, w')"
  obtains x v where "m w = (Inr x, v)" "f x v = (Inr y, w')"
  using assms by (auto simp: ebind_def split: prod.splits sum.splits)

lemma matched:
  assumes "match_account env p ou w = (Inr i, w')"
  shows "(\<exists>u. u \<in> set (a_users w) \<and> us_id u = i \<and> enterable p ou u) \<or> i = Suc (a_sequences w Users)"
proof -
  let ?known = "case or_null (ou_id ou) of None \<Rightarrow> ereturn None | Some i \<Rightarrow> getUserByProvider p i"
  obtain known w1 where k: "?known w = (Inr known, w1)"
    and rest: "(case known of Some u \<Rightarrow> ereturn (us_id u)
     | None \<Rightarrow> ebind (getUserByUsername (ou_username ou)) (\<lambda>holder. case can_adopt p (or_null (ou_id ou)) holder of
         Some u \<Rightarrow> ereturn (us_id u)
       | None \<Rightarrow> ebind (free_username (ou_username ou) p holder) (\<lambda>name.
           ebind (createUser env (oauth_account env p ou name)) (\<lambda>c. ereturn (au_id c))))) w1 = (Inr i, w')"
    using assms unfolding match_account_def Let_def by (rule ebind_succeeds)
  have same: "a_users w1 = a_users w \<and> a_sequences w1 = a_sequences w \<and>
      (\<forall>u. known = Some u \<longrightarrow> u \<in> set (a_users w) \<and> enterable p ou u)"
    using k by (auto simp: getUserByProvider_def ereturn_def enterable_def find_Some_iff split: option.splits dest!: read_result)
  show ?thesis
  proof (cases known)
    case (Some u)
    then show ?thesis using rest same by (auto simp: ereturn_def)
  next
    case None
    obtain holder w2 where h: "getUserByUsername (ou_username ou) w1 = (Inr holder, w2)"
      and rest2: "(case can_adopt p (or_null (ou_id ou)) holder of Some u \<Rightarrow> ereturn (us_id u)
       | None \<Rightarrow> ebind (free_username (ou_username ou) p holder) (\<lambda>name.
           ebind (createUser env (oauth_account env p ou name)) (\<lambda>c. ereturn (au_id c)))) w2 = (Inr i, w')"
      using rest None by (auto elim: ebind_succeeds)
    have holder: "a_users w2 = a_users w \<and> a_sequences w2 = a_sequences w \<and> (\<forall>u. holder = Some u \<longrightarrow> u \<in> set (a_users w) \<and> us_username u = ou_username ou)"
      using h same by (auto simp: getUserByUsername_def find_Some_iff dest!: read_result)
    show ?thesis
    proof (cases "can_adopt p (or_null (ou_id ou)) holder")
      case (Some u)
      then have "holder = Some u \<and> enterable p ou u"
        using holder by (auto simp: can_adopt_def enterable_def split: option.splits if_splits)
      then show ?thesis using rest2 Some holder by (auto simp: ereturn_def)
    next
      case None
      obtain name w3 c w4 where f: "free_username (ou_username ou) p holder w2 = (Inr name, w3)"
        and c: "createUser env (oauth_account env p ou name) w3 = (Inr c, w4)" and i: "i = au_id c"
        using rest2 None by (auto simp: ereturn_def elim!: ebind_succeeds)
      have fr: "em_rel fewer_faults (free_username (ou_username ou) p holder)"
        unfolding free_username_def Let_def by (auto intro!: fewer.rel_intros fewer_deconflict split: option.split)
      have "a_sequences w3 = a_sequences w" using em_relD' [OF fr f] holder by (auto simp: fewer_faults_def)
      then show ?thesis using number_of_created [OF c] i by simp
    qed
  qed
qed

lemma entered:
  assumes "enter_account env p ou i w = (Inr (t, a, x), w')"
  shows "au_id a = i"
  using assms unfolding enter_account_def
  by (auto simp: ereturn_def ethrow_def eseq_def getUserById_def auth_user_of_def split: option.splits prod.splits
      elim!: ebind_succeeds dest!: read_result user_of_id)

text \<open>C20: A provider's user enters no account but its own. When an external login is answered with an
  account that was there before, the account belongs to that provider, the provider gave an
  identity, and the account is bound to this identity or, being bound to none, has the
  provider's user name; whichever adapter calls fail.\<close>

theorem provider_login_enters_its_own_account:
  assumes "authenticateWithOAuth env p (Some ou) w = (Inr (t, a, x), w')" and "accounts_ok w"
    and "u \<in> set (a_users w)" and "us_id u = au_id a"
  shows "enterable p ou u"
proof -
  obtain i v where m: "match_account env p ou w = (Inr i, v)" and e: "enter_account env p ou i v = (Inr (t, a, x), w')"
    using assms(1) by (auto simp: authenticateWithOAuth_def ecatch_def ethrow_def split: prod.splits sum.splits elim!: ebind_succeeds)
  have i: "us_id u = i" using entered [OF e] assms(4) by simp
  have ids: "inj_on us_id (set (a_users w))" "us_id u \<le> a_sequences w Users"
    using assms(2,3) by (auto simp: accounts_ok_def users_ok_def distinct_map)
  then show ?thesis using matched [OF m] i assms(3) by (auto dest: inj_onD)
qed

theorem provider_login_enters_its_own_account_witness:
  "enterable ''github'' \<lparr>ou_id = Some ''77'', ou_username = ''ann'', ou_email = None, ou_name = None, ou_avatar_url = None\<rparr>
    ((demo_user 3 ''ann-github'')\<lparr>us_auth_provider := Some ''github'', us_provider_user_id := Some ''77''\<rparr>)"
proof (rule provider_login_enters_its_own_account)
  let ?ou = "\<lparr>ou_id = Some ''77'', ou_username = ''ann'', ou_email = None, ou_name = None, ou_avatar_url = None\<rparr>"
  let ?u = "(demo_user 3 ''ann-github'')\<lparr>us_auth_provider := Some ''github'', us_provider_user_id := Some ''77''\<rparr>"
  let ?w = "(demo_accounts [])\<lparr>a_users := a_users (demo_accounts []) @ [?u], a_sequences := (a_sequences (demo_accounts []))(Users := 3)\<rparr>"
  let ?r = "authenticateWithOAuth demo_env ''github'' (Some ?ou) ?w"
  have r: "\<not> isl (fst ?r)" "au_id (fst (snd (projr (fst ?r)))) = 3" by code_simp+
  show "?r = (Inr (fst (projr (fst ?r)), fst (snd (projr (fst ?r))), snd (snd (projr (fst ?r)))), snd ?r)"
    using r(1) by (cases ?r) (auto simp: sum.collapse)
  show "accounts_ok ?w"
    by (auto simp: accounts_ok_def users_ok_def table_ok_def user_ids_def demo_accounts_def demo_user_def same_identity_def)
  show "?u \<in> set (a_users ?w)" by simp
  show "us_id ?u = au_id (fst (snd (projr (fst ?r))))" unfolding r(2) by (simp add: demo_user_def)
qed

end
