(* ===== verification/Account_Runs.thy ===== *)
theory Account_Runs
  imports Account_Identity
begin

section \<open>Accounts: runs that prove too little\<close>

text \<open>
  Three runs in which the account service confirms what was not shown: a registration answered
  with another account because \<open>last_insert_rowid()\<close> belongs to the connection, an address
  marked as verified by the link sent to an earlier one, and a password edited by an
  administrator over living sessions.
\<close>

subsection \<open>An insert between two statements\<close>

text \<open>\<open>createUserWithPassword\<close> when another request's statement runs after the \<open>INSERT\<close> and
  before the \<open>SELECT last_insert_rowid()\<close>.\<close>

definition createUserWithPassword_across :: "account_env \<Rightarrow> new_user \<Rightarrow> unit acc_op \<Rightarrow> auth_user acc_op" where
  "createUserWithPassword_across env n other = created_user
     (ebind (eseq (insert_user (row_of_new env (n\<lparr>nu_provider_user_id := None\<rparr>))) (eseq other last_insert_rowid))
       (\<lambda>i. eseq (getUserById i) (ereturn i)))"

lemma across_nothing: "createUserWithPassword_across env n (ereturn ()) = createUserWithPassword env n"
  by (simp add: createUserWithPassword_across_def createUserWithPassword_def db_createUserWithPassword_def db_createUser_def
      eseq_def ebind_def ereturn_def fun_eq_iff)

lemma inserted_user:
  assumes "faults w = []" and "us_username u \<notin> us_username ` set (a_users w)" and "us_provider_user_id u = None"
  shows "insert_user u w = (Inr (), (numbered Users w)\<lparr>a_users := a_users w @ [u\<lparr>us_id := next_id Users w\<rparr>]\<rparr>)"
  using assms by (simp add: insert_user_def same_identity_def list_ex_iff)

lemma find_in_append: "List.find P (xs @ ys) = (case List.find P xs of None \<Rightarrow> List.find P ys | Some x \<Rightarrow> Some x)"
  by (induction xs) auto

lemma user_of_appended:
  "user_of i w = Some v \<Longrightarrow> user_of i (w\<lparr>a_users := a_users w @ us\<rparr>) = Some v"
  by (simp add: user_of_def find_in_append)

text \<open>A registration is answered with somebody else's account. When another request writes an entry of
  the audit log between the two statements of an insert, the person who registers is told the
  number, name, role and address of the account that bears the number of that entry.\<close>

theorem registration_answers_with_another_account:
  assumes "faults w = []" and "nu_username n \<notin> us_username ` set (a_users w)" and "user_of (next_id Audit_Logs w) w = Some v"
  shows "fst (createUserWithPassword_across env n (logAuditEvent None entry) w) = Inr (auth_user_of v)"
proof -
  let ?u = "row_of_new env (n\<lparr>nu_provider_user_id := None\<rparr>)"
  let ?w1 = "(numbered Users w)\<lparr>a_users := a_users w @ [?u\<lparr>us_id := next_id Users w\<rparr>]\<rparr>"
  let ?w2 = "(numbered Audit_Logs ?w1)\<lparr>a_audit := a_audit w @ [(None, entry)]\<rparr>"
  have "insert_user ?u w = (Inr (), ?w1)"
    using assms(1,2) by (intro inserted_user) (simp_all add: row_of_new_def)
  moreover have "logAuditEvent None entry ?w1 = (Inr (), ?w2)"
    using assms(1) by (simp add: logAuditEvent_def ecatch_def numbered_def)
  moreover have "last_insert_rowid ?w2 = (Inr (next_id Audit_Logs w), ?w2)"
    using assms(1) by (simp add: last_insert_rowid_def eget_def numbered_def next_id_def)
  moreover have "getUserById (next_id Audit_Logs w) ?w2 = (Inr (Some v), ?w2)"
    using assms(1,3) user_of_appended [of "next_id Audit_Logs w" w v]
    by (simp add: getUserById_def eget_def numbered_def user_of_def)
  ultimately show ?thesis
    by (simp add: createUserWithPassword_across_def created_user_def eseq_def ebind_def ereturn_def)
qed

definition demo_registration :: new_user where
  "demo_registration = \<lparr>nu_username = ''eve'', nu_role = Some ''public'', nu_email = None, nu_name = None, nu_avatar_url = None,
     nu_passwordHash = Some ''h'', nu_auth_provider = None, nu_provider_user_id = None, nu_email_verified = False\<rparr>"

theorem registration_answers_with_another_account_witness:
  "fst (createUserWithPassword_across demo_env demo_registration (logAuditEvent None ''login_failed'') (demo_accounts [])) =
    Inr (auth_user_of (demo_user 2 ''bob''))"
proof (rule registration_answers_with_another_account)
  show "faults (demo_accounts []) = []" "nu_username demo_registration \<notin> us_username ` set (a_users (demo_accounts []))"
    "user_of (next_id Audit_Logs (demo_accounts [])) (demo_accounts []) = Some (demo_user 2 ''bob'')"
    by code_simp+
qed

subsection \<open>A link sent to the former address\<close>

text \<open>The state after a link was sent: the user's earlier links are replaced by one to this address.\<close>

definition linked :: "account_env \<Rightarrow> nat \<Rightarrow> string \<Rightarrow> account_world \<Rightarrow> account_world" where
  "linked env i e w = w\<lparr>a_serial := Suc (a_serial w), a_sequences := (a_sequences w)(Email_Verifications := next_id Email_Verifications w),
     a_last_rowid := next_id Email_Verifications w,
     a_verifications := filter (\<lambda>v. ev_user_id v \<noteq> i \<or> ev_type v \<noteq> Initial) (a_verifications w) @
       [\<lparr>ev_id = next_id Email_Verifications w, ev_user_id = i, ev_email = e, ev_token = ae_sha256 env (ae_token env (a_serial w)),
         ev_type = Initial, ev_expires_at = clock w + TOKEN_EXPIRY_MS\<rparr>]\<rparr>"

lemma link_sent:
  assumes "faults w = []" and "user_of i w = Some u" and "us_email u = Some e" and "e \<noteq> []" and "\<not> us_email_verified u"
    and "ae_sha256 env (ae_token env (a_serial w)) \<notin> ev_token ` set (a_verifications w)"
  shows "sendEmailVerification env i w =
    (Inr ((True, ''Verification email sent successfully''), Some (signed env Token_Key (ae_token env (a_serial w)))), linked env i e w)"
proof -
  let ?w1 = "w\<lparr>a_serial := Suc (a_serial w), a_verifications := filter (\<lambda>v. ev_user_id v \<noteq> i \<or> ev_type v \<noteq> Initial) (a_verifications w)\<rparr>"
  have "i \<in> us_id ` set (a_users w)" using user_of_id [OF assms(2)] by blast
  then have ins: "insert_verification i e (ae_sha256 env (ae_token env (a_serial w))) Initial (clock w + TOKEN_EXPIRY_MS) ?w1 = (Inr (), linked env i e w)"
    using assms(1,6) by (auto simp: insert_verification_def linked_def numbered_def next_id_def)
  have "createVerificationToken env i e Initial w = (Inr (signed env Token_Key (ae_token env (a_serial w))), linked env i e w)"
    using assms(1) ins
    by (simp add: createVerificationToken_def ecatch_def ebind_def eseq_def drawn_def acc_now_def eget_def keep_verifications_def
        emodify_def ereturn_def)
  then show ?thesis
    using assms(1-5)
    by (simp add: sendEmailVerification_def ecatch_def ebind_def getUserById_def eget_def ereturn_def)
qed

text \<open>The state after an edit that leaves the identity alone.\<close>

definition edited :: "nat \<Rightarrow> user_update \<Rightarrow> account_world \<Rightarrow> account_world" where
  "edited i c w = w\<lparr>a_users := rewrite_user i (updated_user c) (a_users w)\<rparr>"

lemma user_of_edited: "user_of i w = Some u \<Longrightarrow> user_of i (edited i c w) = Some (updated_user c u)"
  by (simp add: user_of_def edited_def user_of_rewritten updated_user_def)

lemma stored_edit:
  assumes "faults w = []" and "users_ok n (a_users w)" and "c \<noteq> no_update"
    and "uu_auth_provider c = None" and "uu_provider_user_id c = None"
  shows "db_updateUser i c w = (Inr True, edited i c w)"
proof -
  have "same_identity (updated_user c u) v = same_identity u v" for u v
    using assms(4,5) by (simp add: same_identity_def updated_user_def given_def)
  then show ?thesis using assms(1-3)
    by (fastforce simp: db_updateUser_def edited_def list_ex_iff users_ok_def)
qed

lemma edit_confirmed:
  assumes "faults w = []" and "users_ok n (a_users w)" and "c \<noteq> no_update" and "uu_auth_provider c = None"
    and "uu_provider_user_id c = None" and "user_of i w = Some u" and "truthy (uu_passwordHash c) \<Longrightarrow> canSetPassword u"
  shows "updateUser i c w = (Inr (True, ''User updated successfully'', Some (auth_user_of (updated_user c u))),
    snd (ewhen (truthy (uu_passwordHash c)) (logAuthEvent (Some i) ''password_changed'') (edited i c w)))"
proof -
  have "faults (edited i c w) = []" using assms(1) by (simp add: edited_def)
  then show ?thesis
    using assms(1,6,7) stored_edit [OF assms(1-5)] user_of_edited [OF assms(6)]
    by (auto simp: updateUser_def ecatch_def ebind_def eseq_def getUserById_def eget_def ereturn_def ewhen_def logAuthEvent_def equiet_def
        split: prod.splits sum.splits)
qed

text \<open>A link sent to one address verifies another. After a link was sent to the address of a user, an
  edit gives the user a different address, unproved; following the link then still succeeds,
  and marks as verified the address that was never written to.\<close>

theorem stale_link_verifies_a_new_address:
  assumes "faults w = []" and "accounts_ok w" and "user_of i w = Some u" and "us_email u = Some e" and "e \<noteq> []" and "\<not> us_email_verified u"
    and "ae_sha256 env (ae_token env (a_serial w)) \<notin> ev_token ` set (a_verifications w)"
    and "CHR ''.'' \<notin> set (ae_token env (a_serial w))"
  shows "\<exists>m t w1 m' v w2 m'' w3 u'. sendEmailVerification env i w = (Inr ((True, m), Some t), w1) \<and>
    updateUser i (no_update\<lparr>uu_email := Some e'\<rparr>) w1 = (Inr (True, m', Some v), w2) \<and>
    verifyCurrentEmail env t w2 = (Inr (True, m''), w3) \<and>
    user_of i w3 = Some u' \<and> us_email u' = Some e' \<and> us_email_verified u'"
proof -
  let ?c = "no_update\<lparr>uu_email := Some e'\<rparr>" and ?t = "ae_token env (a_serial w)"
  let ?w1 = "linked env i e w" and ?row = "\<lparr>ev_id = next_id Email_Verifications w, ev_user_id = i, ev_email = e, ev_token = ae_sha256 env ?t,
         ev_type = Initial, ev_expires_at = clock w + TOKEN_EXPIRY_MS\<rparr>"
  let ?w2 = "edited i ?c ?w1"
  have u1: "user_of i ?w1 = Some u" using assms(3) by (simp add: linked_def user_of_def)
  have up: "updateUser i ?c ?w1 = (Inr (True, ''User updated successfully'', Some (auth_user_of (updated_user ?c u))), ?w2)"
    using edit_confirmed [OF _ _ _ _ _ u1, of "a_sequences w Users" ?c] assms(1,2)
    by (simp add: linked_def accounts_ok_def no_update_def truthy_def ewhen_def ereturn_def)
  have "verification_lookup env (signed env Token_Key ?t) = Some ?t"
    using assms(8) by (auto simp: verification_lookup_def signed_def split_char_two to_hex_no_dot verify_signature_def from_to_hex split: option.split)
  moreover have "List.find (\<lambda>v. ev_token v = ae_sha256 env ?t)
      (filter (\<lambda>v. ev_user_id v \<noteq> i \<or> ev_type v \<noteq> Initial) (a_verifications w)) = None"
    using assms(7) by (auto simp: find_None_iff image_iff)
  then have "List.find (\<lambda>v. ev_token v = ae_sha256 env ?t) (a_verifications ?w2) = Some ?row"
    by (simp add: edited_def linked_def find_in_append)
  ultimately have tok: "verifyToken env (signed env Token_Key ?t) ?w2 = (Inr (Some ?row), ?w2)"
    using assms(1) by (simp add: verifyToken_def ecatch_def ebind_def eget_def ereturn_def acc_now_def edited_def linked_def TOKEN_EXPIRY_MS_def)
  let ?w3 = "?w2\<lparr>a_users := rewrite_user i (\<lambda>u. u\<lparr>us_email_verified := True\<rparr>) (a_users ?w2),
    a_verifications := filter (\<lambda>x. ev_id x \<noteq> ev_id ?row) (a_verifications ?w2)\<rparr>"
  have "verifyCurrentEmail env (signed env Token_Key ?t) ?w2 = (Inr (True, ''Email address verified successfully''), ?w3)"
    using tok assms(1)
    by (simp add: verifyCurrentEmail_def ecatch_def ebind_def eseq_def ereturn_def set_user_columns_def keep_verifications_def emodify_def
        edited_def linked_def)
  moreover have "user_of i ?w3 = Some ((updated_user ?c u)\<lparr>us_email_verified := True\<rparr>)"
    using user_of_edited [OF u1, of ?c] by (simp add: user_of_def user_of_rewritten)
  moreover have "us_email (updated_user ?c u) = Some e'" by (simp add: updated_user_def given_def)
  moreover note link_sent [OF assms(1) assms(3-7)] up
  ultimately show ?thesis by fastforce
qed

theorem stale_link_verifies_a_new_address_witness:
  "\<exists>m t w1 m' v w2 m'' w3 u'. sendEmailVerification demo_env 2 (demo_accounts []) = (Inr ((True, m), Some t), w1) \<and>
    updateUser 2 (no_update\<lparr>uu_email := Some ''x@y.z''\<rparr>) w1 = (Inr (True, m', Some v), w2) \<and>
    verifyCurrentEmail demo_env t w2 = (Inr (True, m''), w3) \<and>
    user_of 2 w3 = Some u' \<and> us_email u' = Some ''x@y.z'' \<and> us_email_verified u'"
proof (rule stale_link_verifies_a_new_address)
  show "faults (demo_accounts []) = []" "user_of 2 (demo_accounts []) = Some (demo_user 2 ''bob'')"
    "us_email (demo_user 2 ''bob'') = Some ''bob@a.b''" "''bob@a.b'' \<noteq> []" "\<not> us_email_verified (demo_user 2 ''bob'')"
    "ae_sha256 demo_env (ae_token demo_env (a_serial (demo_accounts []))) \<notin> ev_token ` set (a_verifications (demo_accounts []))"
    "CHR ''.'' \<notin> set (ae_token demo_env (a_serial (demo_accounts [])))"
    by code_simp+
qed (rule demo_accounts_ok)

subsection \<open>A password edited by an administrator\<close>

lemma validation_result:
  assumes "faults w = []"
  shows "fst (validateSession env token w) = Inr (case unwrapToken env Session_Key token of None \<Rightarrow> None
    | Some raw \<Rightarrow> (case map_option fst (live_session (ae_sha256 env raw) (clock w) w) of None \<Rightarrow> None
      | Some s \<Rightarrow> map_option auth_user_of (user_of (se_user_id s) w)))"
  using assms
  by (auto simp: validateSession_def ecatch_def ebind_def ereturn_def getSessionByToken_def getUserById_def acc_now_def eget_def split: option.split)

text \<open>An edited password leaves its sessions alive. The edit of a user by \<open>PUT /users/:id\<close> or the command
  line stores a new password hash and, unlike the three password operations, ends no session:
  every token is answered afterwards as before.\<close>

theorem edited_password_keeps_sessions:
  assumes "faults w = []" and "accounts_ok w" and "user_of i w = Some u" and "canSetPassword u" and "h \<noteq> []"
  shows "\<exists>m v w' u'. updateUser i (no_update\<lparr>uu_passwordHash := Some h\<rparr>) w = (Inr (True, m, Some v), w') \<and>
    user_of i w' = Some u' \<and> us_password_hash u' = Some h \<and>
    (\<forall>token. fst (validateSession env token w') = fst (validateSession env token w))"
proof -
  let ?c = "no_update\<lparr>uu_passwordHash := Some h\<rparr>"
  let ?w1 = "edited i ?c w"
  let ?w2 = "snd (logAuthEvent (Some i) ''password_changed'' ?w1)"
  have up: "updateUser i ?c w = (Inr (True, ''User updated successfully'', Some (auth_user_of (updated_user ?c u))), ?w2)"
    using edit_confirmed [OF assms(1) _ _ _ _ assms(3), of "a_sequences w Users" ?c] assms(2,4,5)
    by (simp add: accounts_ok_def no_update_def truthy_def ewhen_def)
  have audit: "em_rel (\<lambda>w w'. a_users w' = a_users w \<and> a_sessions w' = a_sessions w \<and> clock w' = clock w \<and> (faults w = [] \<longrightarrow> faults w' = []))
      (logAuthEvent (Some i) ''password_changed'')"
    by (rule em_relI) (auto simp: logAuthEvent_def equiet_def logAuditEvent_def ecatch_def acc_call_def numbered_def emodify_def ethrow_def split: list.splits bool.splits)
  have same: "a_users ?w2 = a_users ?w1" "a_sessions ?w2 = a_sessions w" "clock ?w2 = clock w" "faults ?w2 = []"
    using em_relD [OF audit, of ?w1] assms(1) by (simp_all add: edited_def)
  have user: "user_of j ?w2 = map_option (\<lambda>x. if j = i then updated_user ?c x else x) (user_of j w)" for j
    unfolding user_of_def same(1) by (simp add: edited_def user_of_rewritten updated_user_def)
  have "auth_user_of (updated_user ?c x) = auth_user_of x" for x
    by (simp add: auth_user_of_def updated_user_def no_update_def given_def)
  then have known: "map_option auth_user_of (user_of j ?w2) = map_option auth_user_of (user_of j w)" for j
    by (cases "user_of j w") (simp_all add: user)
  have live: "map_option fst (live_session k t ?w2) = map_option fst (live_session k t w)" for k t
    by (simp add: live_session_def same(2) user split: option.split)
  have "fst (validateSession env token ?w2) = fst (validateSession env token w)" for token
    using known by (simp add: validation_result [OF same(4)] validation_result [OF assms(1)] same(3) live split: option.split)
  then show ?thesis using up user [of i] assms(3) by (auto simp: updated_user_def given_def no_update_def)
qed

theorem edited_password_keeps_sessions_witness:
  "\<exists>m v w' u'. updateUser 1 (no_update\<lparr>uu_passwordHash := Some ''new''\<rparr>) (demo_accounts []) = (Inr (True, m, Some v), w') \<and>
    user_of 1 w' = Some u' \<and> us_password_hash u' = Some ''new'' \<and>
    (\<forall>token. fst (validateSession demo_env token w') = fst (validateSession demo_env token (demo_accounts [])))"
proof (rule edited_password_keeps_sessions)
  show "faults (demo_accounts []) = []" "user_of 1 (demo_accounts []) = Some (demo_user 1 ''ann'')" "canSetPassword (demo_user 1 ''ann'')"
    "''new'' \<noteq> []"
    by code_simp+
qed (rule demo_accounts_ok)

end
