(* ===== verification/Config_Values.thy ===== *)
theory Config_Values
  imports Civic_Prelude
begin

section \<open>Configured lists\<close>

text \<open>
  The YAML configuration of roles and workflows gives a list either directly or wrapped in
  a metadata object with a \<open>value\<close>; both readers treat everything else as the empty list.
\<close>

datatype list_spec = DirectList "string list" | MetaList "string list option"

fun spec_list :: "list_spec option \<Rightarrow> string list" where
  "spec_list (Some (DirectList xs)) = xs"
| "spec_list (Some (MetaList (Some xs))) = xs"
| "spec_list (Some (MetaList None)) = []"
| "spec_list None = []"

end
