(* ===== verification/Role_Manager.thy ===== *)
theory Role_Manager
  imports Config_Values
begin

section \<open>Roles and permissions\<close>

text \<open>
  \<open>core/src/auth/role-manager.ts\<close>, \<open>role-manager/default-config.ts\<close> and
  \<open>role-utils.ts\<close>. A configured list comes directly or wrapped in a metadata object with a
  \<open>value\<close>. The inherited permissions are collected by a depth-first walk with the current
  path (against cycles) and a memo (against repeated work); the theorem is that the walk
  returns the permissions of exactly the reachable roles. A thrown \<open>TypeError\<close> is the left
  value of a sum; \<open>userCan\<close> turns it into a refusal.
\<close>

subsection \<open>The configuration\<close>

text \<open>What a \<open>status_transitions\<close> entry can be: an array, a plain record of arrays, or a
  metadata object whose \<open>value\<close> is an array, a record or missing.\<close>

datatype transitions_value = ArrayValue "string list" | RecordValue "(string \<times> string list) list" | NoValue

datatype transitions_spec =
    DirectArray "string list"
  | DirectRecord "(string \<times> string list) list"
  | MetaTransitions transitions_value

record record_types =
  rt_can_create :: "string list option"
  rt_can_edit :: "string list option"
  rt_can_delete :: "string list option"
  rt_can_view :: "string list option"

record role_config =
  rc_name :: string
  rc_description :: string
  rc_permissions :: "list_spec option"
  rc_record_types :: "record_types option"
  rc_status_transitions :: "transitions_spec option"

datatype permission_level = SystemLevel | RecordLevel | WorkflowLevel | TemplateLevel | HookLevel | UserLevel

datatype default_role_spec = DefaultDirect string | DefaultMeta string | NoDefault

record roles_config =
  cfg_default_role :: default_role_spec
  cfg_roles :: "(string \<times> role_config) list"
  cfg_permissions :: "(string \<times> string \<times> permission_level) list"
  cfg_hierarchy :: "(string \<times> list_spec) list"

datatype js_error = TypeError

datatype record_action = ActCreate | ActEdit | ActDelete | ActView

record check_context =
  cc_recordType :: "string option"
  cc_action :: "record_action option"
  cc_fromStatus :: "string option"
  cc_toStatus :: "string option"

definition no_context :: check_context where
  "no_context = \<lparr>cc_recordType = None, cc_action = None, cc_fromStatus = None, cc_toStatus = None\<rparr>"

subsection \<open>Permissions of a role\<close>

definition set_add :: "'a \<Rightarrow> 'a list \<Rightarrow> 'a list" where
  "set_add p ps = (if p \<in> set ps then ps else ps @ [p])"

definition add_all :: "'a list \<Rightarrow> 'a list \<Rightarrow> 'a list" where
  "add_all qs ps = foldl (\<lambda>acc p. set_add p acc) ps qs"

definition direct_permissions :: "roles_config \<Rightarrow> string \<Rightarrow> string list" where
  "direct_permissions cfg role = (case jm_get (cfg_roles cfg) role of
     None \<Rightarrow> [] | Some rc \<Rightarrow> spec_list (rc_permissions rc))"

definition inherited_roles :: "roles_config \<Rightarrow> string \<Rightarrow> string list" where
  "inherited_roles cfg role = spec_list (jm_get (cfg_hierarchy cfg) role)"

definition fallback_permissions :: "roles_config \<Rightarrow> string \<Rightarrow> string list" where
  "fallback_permissions cfg role = (if jm_get (cfg_roles cfg) role = None
     then direct_permissions cfg ''public'' else [])"

type_synonym memo = "(string \<times> string list) list"

definition hierarchy_keys :: "roles_config \<Rightarrow> string set" where
  "hierarchy_keys cfg = fst ` set (cfg_hierarchy cfg)"

lemma finite_hierarchy_keys [simp]: "finite (hierarchy_keys cfg)"
  by (simp add: hierarchy_keys_def)

lemma no_inherited: "role \<notin> hierarchy_keys cfg \<Longrightarrow> inherited_roles cfg role = []"
proof -
  assume "role \<notin> hierarchy_keys cfg"
  then have "jm_get (cfg_hierarchy cfg) role = None" by (simp add: hierarchy_keys_def map_of_eq_None_iff)
  then show ?thesis by (simp add: inherited_roles_def)
qed

text \<open>The walk: \<open>resolve\<close> is \<open>getRolePermissions\<close> with its path and memo, \<open>inherit\<close> the
  loop over the inherited roles. The path holds the role while its subtree is walked.\<close>

function (sequential) resolve :: "roles_config \<Rightarrow> string set \<Rightarrow> memo \<Rightarrow> string \<Rightarrow> string list \<times> memo"
  and inherit :: "roles_config \<Rightarrow> string set \<Rightarrow> memo \<Rightarrow> string list \<Rightarrow> string list \<Rightarrow> string list \<times> memo" where
  "resolve cfg path memo role =
     (case jm_get memo role of
        Some cached \<Rightarrow> (cached, memo)
      | None \<Rightarrow>
          if role \<in> path then ([], memo)
          else
            (case inherit cfg (insert role path) memo (add_all (direct_permissions cfg role) []) (inherited_roles cfg role) of
               (perms, memo') \<Rightarrow>
                 let final = add_all (fallback_permissions cfg role) perms
                 in (final, jm_set role final memo')))"
| "inherit cfg path memo perms [] = (perms, memo)"
| "inherit cfg path memo perms (r # rs) =
     (case resolve cfg path memo r of
        (ps, memo') \<Rightarrow> inherit cfg path memo' (add_all ps perms) rs)"
  by pat_completeness auto

termination
proof (relation "measures [\<lambda>x. case x of Inl (cfg, path, memo, role) \<Rightarrow> card (hierarchy_keys cfg - path)
      | Inr (cfg, path, memo, perms, rs) \<Rightarrow> card (hierarchy_keys cfg - path),
    \<lambda>x. case x of Inl _ \<Rightarrow> 1 | Inr (cfg, path, memo, perms, rs) \<Rightarrow> 2 * length rs]", goal_cases)
  case (2 cfg path memo role)
  show ?case
  proof (cases "role \<in> hierarchy_keys cfg")
    case True
    with 2 have "card (hierarchy_keys cfg - insert role path) < card (hierarchy_keys cfg - path)"
      by (intro psubset_card_mono) auto
    then show ?thesis by simp
  next
    case False
    then have "hierarchy_keys cfg - insert role path = hierarchy_keys cfg - path" by blast
    with no_inherited [OF False] show ?thesis by simp
  qed
qed auto

declare resolve.simps [simp del] inherit.simps [simp del]

definition getRolePermissions :: "roles_config \<Rightarrow> string \<Rightarrow> string list" where
  "getRolePermissions cfg role = fst (resolve cfg {} [] role)"


subsection \<open>Permission checks\<close>

fun is_array_value :: "transitions_value \<Rightarrow> bool" where
  "is_array_value (ArrayValue xs) = True"
| "is_array_value _ = False"

text \<open>\<open>Array.isArray(t) ? t : t.value\<close>.\<close>

fun transitions_of :: "transitions_spec \<Rightarrow> transitions_value" where
  "transitions_of (DirectArray xs) = ArrayValue xs"
| "transitions_of (DirectRecord m) = (case jm_get m ''value'' of Some xs \<Rightarrow> ArrayValue xs | None \<Rightarrow> NoValue)"
| "transitions_of (MetaTransitions v) = v"

text \<open>Indexing \<open>undefined\<close> throws.\<close>

fun transition_allowed :: "transitions_value \<Rightarrow> string \<Rightarrow> string \<Rightarrow> js_error + bool" where
  "transition_allowed (ArrayValue xs) from to = Inr False"
| "transition_allowed NoValue from to = Inl TypeError"
| "transition_allowed (RecordValue m) from to =
     Inr (to \<in> set (case jm_get m from of Some xs \<Rightarrow> xs | None \<Rightarrow>
       (case jm_get m ''any'' of Some xs \<Rightarrow> xs | None \<Rightarrow> [])))"

definition check_transition :: "roles_config \<Rightarrow> string \<Rightarrow> string \<Rightarrow> string \<Rightarrow> js_error + bool" where
  "check_transition cfg userRole from to =
     (case jm_get (cfg_roles cfg) userRole of
        Some rc \<Rightarrow>
          (case rc_status_transitions rc of
             Some ts \<Rightarrow> transition_allowed (transitions_of ts) from to
           | None \<Rightarrow> Inr False)
      | None \<Rightarrow>
          (case jm_get (cfg_roles cfg) ''public'' of
             Some rc \<Rightarrow>
               (case rc_status_transitions rc of
                  Some ts \<Rightarrow> transition_allowed (transitions_of ts) from to
                | None \<Rightarrow> Inr False)
           | None \<Rightarrow> Inr False))"

fun types_for :: "record_action \<Rightarrow> record_types \<Rightarrow> string list" where
  "types_for ActCreate rt = (case rt_can_create rt of Some ts \<Rightarrow> ts | None \<Rightarrow> [])"
| "types_for ActEdit rt = (case rt_can_edit rt of Some ts \<Rightarrow> ts | None \<Rightarrow> [])"
| "types_for ActDelete rt = (case rt_can_delete rt of Some ts \<Rightarrow> ts | None \<Rightarrow> [])"
| "types_for ActView rt = (case rt_can_view rt of Some ts \<Rightarrow> ts | None \<Rightarrow> [])"

definition role_types :: "role_config option \<Rightarrow> record_action \<Rightarrow> string list" where
  "role_types rc a = (case rc of None \<Rightarrow> [] | Some rc \<Rightarrow>
     (case rc_record_types rc of None \<Rightarrow> [] | Some rt \<Rightarrow> types_for a rt))"

definition check_record_type :: "roles_config \<Rightarrow> string \<Rightarrow> record_action \<Rightarrow> string \<Rightarrow> bool" where
  "check_record_type cfg userRole a recordType =
     (let rc = jm_get (cfg_roles cfg) userRole in
      recordType \<in> set (role_types rc a) \<or>
      (rc = None \<and> recordType \<in> set (role_types (jm_get (cfg_roles cfg) ''public'') a)))"

definition checkPermission :: "roles_config \<Rightarrow> string \<Rightarrow> string \<Rightarrow> check_context \<Rightarrow> js_error + bool" where
  "checkPermission cfg userRole permission ctx =
     (case (or_null (cc_fromStatus ctx), or_null (cc_toStatus ctx)) of
        (Some from, Some to) \<Rightarrow> check_transition cfg userRole from to
      | _ \<Rightarrow>
          let ps = getRolePermissions cfg userRole in
          if permission \<in> set ps \<or> ''*'' \<in> set ps then Inr True
          else (case (or_null (cc_recordType ctx), cc_action ctx) of
                  (Some t, Some a) \<Rightarrow> Inr (check_record_type cfg userRole a t)
                | _ \<Rightarrow> Inr False))"

text \<open>The file as \<open>loadConfig\<close> finds it: absent, unreadable (or without roles), or parsed.\<close>

datatype roles_file = RolesAbsent | RolesUnreadable | RolesParsed roles_config

record role_manager =
  rm_config :: "roles_config option"
  rm_file :: roles_file

definition loadConfig :: "roles_config \<Rightarrow> role_manager \<Rightarrow> roles_config \<times> role_manager" where
  "loadConfig defaults rm =
     (case rm_config rm of
        Some cfg \<Rightarrow> (cfg, rm)
      | None \<Rightarrow> (case rm_file rm of
          RolesParsed cfg \<Rightarrow> (cfg, rm\<lparr>rm_config := Some cfg\<rparr>)
        | _ \<Rightarrow> (defaults, rm\<lparr>rm_config := Some defaults\<rparr>)))"

definition clearCache :: "role_manager \<Rightarrow> role_manager" where
  "clearCache rm = rm\<lparr>rm_config := None\<rparr>"

definition reloadConfig :: "roles_config \<Rightarrow> role_manager \<Rightarrow> role_manager" where
  "reloadConfig defaults rm = snd (loadConfig defaults (rm\<lparr>rm_config := None\<rparr>))"

record auth_user =
  us_username :: string
  us_role :: string

definition grants :: "js_error + bool \<Rightarrow> bool" where
  "grants r = (case r of Inl e \<Rightarrow> False | Inr b \<Rightarrow> b)"

text \<open>A single permission, and an array of which any one suffices: the array is refused as
  a whole when one of its checks throws.\<close>

definition userCan :: "roles_config \<Rightarrow> auth_user \<Rightarrow> string \<Rightarrow> check_context \<Rightarrow> bool" where
  "userCan cfg u permission ctx = grants (checkPermission cfg (us_role u) permission ctx)"

definition userCanAny :: "roles_config \<Rightarrow> auth_user \<Rightarrow> string list \<Rightarrow> check_context \<Rightarrow> bool" where
  "userCanAny cfg u permissions ctx =
     (let rs = map (\<lambda>p. checkPermission cfg (us_role u) p ctx) permissions in
      list_all (\<lambda>r. \<not> isl r) rs \<and> list_ex grants rs)"

definition userHasRole :: "auth_user \<Rightarrow> string \<Rightarrow> bool" where
  "userHasRole u role \<longleftrightarrow> us_role u = role"

definition userHasAnyRole :: "auth_user \<Rightarrow> string list \<Rightarrow> bool" where
  "userHasAnyRole u roles \<longleftrightarrow> us_role u \<in> set roles"

definition getUserPermissions :: "roles_config \<Rightarrow> auth_user \<Rightarrow> string list" where
  "getUserPermissions cfg u = getRolePermissions cfg (us_role u)"

definition getDefaultRole :: "roles_config \<Rightarrow> string" where
  "getDefaultRole cfg = (case cfg_default_role cfg of
     DefaultDirect r \<Rightarrow> r | DefaultMeta r \<Rightarrow> r | NoDefault \<Rightarrow> ''public'')"

definition getAvailableRoles :: "roles_config \<Rightarrow> string list" where
  "getAvailableRoles cfg = jm_keys (cfg_roles cfg)"

definition getRoleConfig :: "roles_config \<Rightarrow> string \<Rightarrow> role_config option" where
  "getRoleConfig cfg role = jm_get (cfg_roles cfg) role"

definition isValidRole :: "roles_config \<Rightarrow> string \<Rightarrow> bool" where
  "isValidRole cfg role \<longleftrightarrow> role \<in> set (getAvailableRoles cfg)"

subsection \<open>The helpers of \<open>role-utils.ts\<close>\<close>

definition userCanCreate :: "roles_config \<Rightarrow> auth_user \<Rightarrow> string \<Rightarrow> bool" where
  "userCanCreate cfg u t = userCan cfg u ''records:create'' (no_context\<lparr>cc_recordType := Some t, cc_action := Some ActCreate\<rparr>)"

definition userCanEdit :: "roles_config \<Rightarrow> auth_user \<Rightarrow> string \<Rightarrow> bool" where
  "userCanEdit cfg u t = userCan cfg u ''records:edit'' (no_context\<lparr>cc_recordType := Some t, cc_action := Some ActEdit\<rparr>)"

definition userCanDelete :: "roles_config \<Rightarrow> auth_user \<Rightarrow> string \<Rightarrow> bool" where
  "userCanDelete cfg u t = userCan cfg u ''records:delete'' (no_context\<lparr>cc_recordType := Some t, cc_action := Some ActDelete\<rparr>)"

definition userCanView :: "roles_config \<Rightarrow> auth_user \<Rightarrow> string \<Rightarrow> bool" where
  "userCanView cfg u t = userCan cfg u ''records:view'' (no_context\<lparr>cc_recordType := Some t, cc_action := Some ActView\<rparr>)"

definition userCanTransition :: "roles_config \<Rightarrow> auth_user \<Rightarrow> string \<Rightarrow> string \<Rightarrow> bool" where
  "userCanTransition cfg u from to =
     userCan cfg u ''workflows:manage'' (no_context\<lparr>cc_fromStatus := Some from, cc_toStatus := Some to\<rparr>)"

definition userIsAdmin :: "roles_config \<Rightarrow> auth_user \<Rightarrow> bool" where
  "userIsAdmin cfg u = userCan cfg u ''system:admin'' no_context"

definition userCanManageWorkflows :: "roles_config \<Rightarrow> auth_user \<Rightarrow> bool" where
  "userCanManageWorkflows cfg u = userCan cfg u ''workflows:manage'' no_context"

definition userCanManageTemplates :: "roles_config \<Rightarrow> auth_user \<Rightarrow> bool" where
  "userCanManageTemplates cfg u = userCan cfg u ''templates:manage'' no_context"

definition userCanManageHooks :: "roles_config \<Rightarrow> auth_user \<Rightarrow> bool" where
  "userCanManageHooks cfg u = userCan cfg u ''hooks:manage'' no_context"

definition userCanManageUsers :: "roles_config \<Rightarrow> auth_user \<Rightarrow> bool" where
  "userCanManageUsers cfg u = userCan cfg u ''users:manage'' no_context"

subsection \<open>The walk collects the permissions of the reachable roles\<close>

definition own_permissions :: "roles_config \<Rightarrow> string \<Rightarrow> string set" where
  "own_permissions cfg role = set (direct_permissions cfg role) \<union> set (fallback_permissions cfg role)"

inductive reachable_role :: "roles_config \<Rightarrow> string \<Rightarrow> string \<Rightarrow> bool" for cfg where
  self: "reachable_role cfg r r"
| parent: "reachable_role cfg q s \<Longrightarrow> q \<in> set (inherited_roles cfg r) \<Longrightarrow> reachable_role cfg r s"

definition reach_permissions :: "roles_config \<Rightarrow> string \<Rightarrow> string set" where
  "reach_permissions cfg role = \<Union> (own_permissions cfg ` {r. reachable_role cfg role r})"

lemma set_set_add [simp]: "set (set_add p ps) = insert p (set ps)"
  by (auto simp: set_add_def)

lemma set_add_all [simp]: "set (add_all qs ps) = set qs \<union> set ps"
  unfolding add_all_def by (induction qs arbitrary: ps) auto

lemma own_subset_reach: "own_permissions cfg r \<subseteq> reach_permissions cfg r"
  by (auto simp: reach_permissions_def intro: reachable_role.self)

lemma inherited_subset_reach:
  "q \<in> set (inherited_roles cfg r) \<Longrightarrow> reach_permissions cfg q \<subseteq> reach_permissions cfg r"
  by (auto simp: reach_permissions_def intro: reachable_role.parent)

definition memo_sound :: "roles_config \<Rightarrow> memo \<Rightarrow> bool" where
  "memo_sound cfg memo \<longleftrightarrow> (\<forall>r ps. jm_get memo r = Some ps \<longrightarrow> set ps \<subseteq> reach_permissions cfg r)"

lemma resolve_sound:
  "memo_sound cfg memo \<Longrightarrow> resolve cfg path memo role = (ps, memo') \<Longrightarrow>
     set ps \<subseteq> reach_permissions cfg role \<and> memo_sound cfg memo'"
  "memo_sound cfg memo \<Longrightarrow> inherit cfg path memo perms rs = (ps, memo') \<Longrightarrow>
     set ps \<subseteq> set perms \<union> (\<Union>r \<in> set rs. reach_permissions cfg r) \<and> memo_sound cfg memo'"
proof (induction cfg path memo role and cfg path memo perms rs arbitrary: ps memo' and ps memo'
    rule: resolve_inherit.induct)
  case (1 cfg path memo role)
  show ?case
  proof (cases "jm_get memo role")
    case (Some c)
    with 1 show ?thesis by (auto simp: resolve.simps memo_sound_def)
  next
    case None
    show ?thesis
    proof (cases "role \<in> path")
      case True
      with None 1 show ?thesis by (auto simp: resolve.simps)
    next
      case False
      obtain perms m1 where i: "inherit cfg (insert role path) memo (add_all (direct_permissions cfg role) [])
          (inherited_roles cfg role) = (perms, m1)" by fastforce
      from "1.IH" [OF None False "1.prems"(1) i] have
        p: "set perms \<subseteq> set (direct_permissions cfg role) \<union> (\<Union>r \<in> set (inherited_roles cfg role). reach_permissions cfg r)"
        and m: "memo_sound cfg m1" by auto
      have "set (add_all (fallback_permissions cfg role) perms) \<subseteq> reach_permissions cfg role"
        using p own_subset_reach [of cfg role] inherited_subset_reach [of _ cfg role]
        by (fastforce simp: own_permissions_def)
      moreover have "ps = add_all (fallback_permissions cfg role) perms" "memo' = jm_set role ps m1"
        using i None False "1.prems"(2) by (auto simp: resolve.simps Let_def)
      ultimately show ?thesis using m by (simp add: memo_sound_def jm_get_set)
    qed
  qed
next
  case (2 cfg path memo perms)
  then show ?case by (simp add: inherit.simps)
next
  case (3 cfg path memo perms r rs)
  obtain qs m1 where r: "resolve cfg path memo r = (qs, m1)" by fastforce
  from "3.IH"(1) [OF "3.prems"(1) r] have q: "set qs \<subseteq> reach_permissions cfg r" "memo_sound cfg m1" by auto
  from "3.prems"(2) r have "inherit cfg path m1 (add_all qs perms) rs = (ps, memo')" by (simp add: inherit.simps)
  from "3.IH"(2) [OF r [symmetric] q(2) this] q(1) show ?case by auto
qed

definition memo_closed :: "roles_config \<Rightarrow> string set \<Rightarrow> memo \<Rightarrow> bool" where
  "memo_closed cfg path memo \<longleftrightarrow>
     (\<forall>r ps. jm_get memo r = Some ps \<longrightarrow> own_permissions cfg r \<subseteq> set ps \<and>
        set (inherited_roles cfg r) \<subseteq> dom (jm_get memo) \<union> path)"

definition grown :: "string set \<Rightarrow> memo \<Rightarrow> memo \<Rightarrow> string set \<Rightarrow> bool" where
  "grown path memo memo' ps \<longleftrightarrow>
     (\<forall>r qs. jm_get memo r = Some qs \<longrightarrow> jm_get memo' r = Some qs) \<and>
     (\<forall>r qs. jm_get memo r = None \<longrightarrow> jm_get memo' r = Some qs \<longrightarrow> set qs \<subseteq> ps \<and> r \<notin> path)"

lemma resolve_complete:
  "memo_closed cfg path memo \<Longrightarrow> resolve cfg path memo role = (ps, memo') \<Longrightarrow>
     memo_closed cfg path memo' \<and> grown path memo memo' (set ps) \<and> role \<in> dom (jm_get memo') \<union> path"
  "memo_closed cfg path memo \<Longrightarrow> inherit cfg path memo perms rs = (ps, memo') \<Longrightarrow>
     memo_closed cfg path memo' \<and> grown path memo memo' (set ps) \<and> set perms \<subseteq> set ps \<and>
     set rs \<subseteq> dom (jm_get memo') \<union> path"
proof (induction cfg path memo role and cfg path memo perms rs arbitrary: ps memo' and ps memo'
    rule: resolve_inherit.induct)
  case (1 cfg path memo role)
  show ?case
  proof (cases "jm_get memo role")
    case (Some c)
    with 1 show ?thesis by (auto simp: resolve.simps grown_def)
  next
    case None
    show ?thesis
    proof (cases "role \<in> path")
      case True
      with None 1 show ?thesis by (auto simp: resolve.simps grown_def)
    next
      case False
      obtain perms m1 where i: "inherit cfg (insert role path) memo (add_all (direct_permissions cfg role) [])
          (inherited_roles cfg role) = (perms, m1)" by fastforce
      let ?final = "add_all (fallback_permissions cfg role) perms"
      have "memo_closed cfg (insert role path) memo" using "1.prems"(1) unfolding memo_closed_def by blast
      from "1.IH" [OF None False this i]
      have m: "memo_closed cfg (insert role path) m1" "grown (insert role path) memo m1 (set perms)"
        and d: "set (direct_permissions cfg role) \<subseteq> set perms"
          "set (inherited_roles cfg role) \<subseteq> dom (jm_get m1) \<union> insert role path" by auto
      have res: "ps = ?final" "memo' = jm_set role ?final m1"
        using "1.prems"(2) None False i by (auto simp: resolve.simps Let_def)
      have dom: "dom (jm_get memo') = insert role (dom (jm_get m1))"
        unfolding res by (auto simp: jm_get_set split: if_splits)
      have "memo_closed cfg path memo'"
        unfolding memo_closed_def
      proof (intro allI impI)
        fix r qs assume r: "jm_get memo' r = Some qs"
        show "own_permissions cfg r \<subseteq> set qs \<and> set (inherited_roles cfg r) \<subseteq> dom (jm_get memo') \<union> path"
        proof (cases "r = role")
          case True
          with r res d dom show ?thesis by (auto simp: jm_get_set own_permissions_def)
        next
          case False
          with r res have "jm_get m1 r = Some qs" by (simp add: jm_get_set)
          from m(1) [unfolded memo_closed_def, rule_format, OF this] dom show ?thesis by blast
        qed
      qed
      moreover have "grown path memo memo' (set ps)"
        unfolding grown_def
      proof (intro conjI allI impI)
        fix r qs assume r: "jm_get memo r = Some qs"
        with None have "r \<noteq> role" by auto
        with r m(2) res show "jm_get memo' r = Some qs" by (simp add: grown_def jm_get_set)
      next
        fix r qs assume r: "jm_get memo r = None" "jm_get memo' r = Some qs"
        have "set qs \<subseteq> set ps \<and> r \<notin> path"
        proof (cases "r = role")
          case True
          with r res False show ?thesis by (simp add: jm_get_set)
        next
          case False
          with r res have "jm_get m1 r = Some qs" by (simp add: jm_get_set)
          with r(1) m(2) have "set qs \<subseteq> set perms \<and> r \<notin> insert role path" by (simp add: grown_def)
          with res show ?thesis by auto
        qed
        then show "set qs \<subseteq> set ps" and "r \<notin> path" by simp_all
      qed
      ultimately show ?thesis using dom by simp
    qed
  qed
next
  case (2 cfg path memo perms)
  then show ?case by (simp add: inherit.simps grown_def)
next
  case (3 cfg path memo perms r rs)
  obtain qs m1 where r: "resolve cfg path memo r = (qs, m1)" by fastforce
  note h1 = "3.IH"(1) [OF "3.prems"(1) r]
  from "3.prems"(2) r have "inherit cfg path m1 (add_all qs perms) rs = (ps, memo')" by (simp add: inherit.simps)
  note h2 = "3.IH"(2) [OF r [symmetric] conjunct1 [OF h1] this]
  have "set qs \<subseteq> set ps" using h2 by auto
  have "grown path memo memo' (set ps)"
    unfolding grown_def
  proof (intro conjI allI impI)
    fix s ks assume "jm_get memo s = Some ks"
    with h1 h2 show "jm_get memo' s = Some ks" by (simp add: grown_def)
  next
    fix s ks assume s: "jm_get memo s = None" "jm_get memo' s = Some ks"
    have "set ks \<subseteq> set ps \<and> s \<notin> path"
    proof (cases "jm_get m1 s")
      case None
      with s h2 show ?thesis by (auto simp: grown_def)
    next
      case (Some ks')
      with h2 s(2) have "ks' = ks" by (simp add: grown_def)
      with Some s(1) h1 \<open>set qs \<subseteq> set ps\<close> show ?thesis unfolding grown_def by blast
    qed
    then show "set ks \<subseteq> set ps" and "s \<notin> path" by simp_all
  qed
  moreover have "r \<in> dom (jm_get memo') \<union> path"
    using h1 h2 unfolding grown_def dom_def by blast
  moreover have "set perms \<subseteq> set ps" using h2 by auto
  ultimately show ?case using h2 by simp
qed


lemma getRolePermissions_reach: "set (getRolePermissions cfg role) = reach_permissions cfg role"
proof
  obtain ps memo where run: "resolve cfg {} [] role = (ps, memo)" by fastforce
  then have ps: "getRolePermissions cfg role = ps" by (simp add: getRolePermissions_def)
  have "memo_sound cfg []" by (simp add: memo_sound_def)
  from resolve_sound(1) [OF this run] ps show "set (getRolePermissions cfg role) \<subseteq> reach_permissions cfg role" by simp
  have "memo_closed cfg {} []" by (simp add: memo_closed_def)
  from resolve_complete(1) [OF this run] have c: "memo_closed cfg {} memo" "grown {} [] memo (set ps)"
    and role: "role \<in> dom (jm_get memo)" by auto
  have closed: "reachable_role cfg q s \<Longrightarrow> q \<in> dom (jm_get memo) \<Longrightarrow> s \<in> dom (jm_get memo)" for q s
  proof (induction rule: reachable_role.induct)
    case (parent q s r)
    then obtain ps' where "jm_get memo r = Some ps'" by blast
    with c(1) have "set (inherited_roles cfg r) \<subseteq> dom (jm_get memo)" by (simp add: memo_closed_def)
    with parent show ?case by blast
  qed
  show "reach_permissions cfg role \<subseteq> set (getRolePermissions cfg role)"
    unfolding ps
  proof
    fix p assume "p \<in> reach_permissions cfg role"
    then obtain s where s: "reachable_role cfg role s" "p \<in> own_permissions cfg s"
      by (auto simp: reach_permissions_def)
    from closed [OF s(1) role] obtain qs where "jm_get memo s = Some qs" by blast
    with c s(2) show "p \<in> set ps" unfolding memo_closed_def grown_def by fastforce
  qed
qed


subsection \<open>The built-in configuration\<close>

definition default_admin :: role_config where
  "default_admin = \<lparr>rc_name = ''Administrator'',
     rc_description = ''Full system access with all permissions'',
     rc_permissions = Some (DirectList [''system:admin'', ''records:create'',
       ''records:edit'', ''records:delete'', ''records:view'', ''records:archive'',
       ''workflows:manage'', ''templates:manage'', ''hooks:manage'', ''users:manage'',
       ''system:configure'', ''broadcast-box:devices:view'', ''broadcast-box:devices:enroll'',
       ''broadcast-box:devices:manage'', ''broadcast-box:sessions:view'',
       ''broadcast-box:sessions:create'', ''broadcast-box:sessions:manage'',
       ''broadcast-box:admin'', ''geography:manage'']),
     rc_record_types = Some \<lparr>rt_can_create = Some [''bylaw'', ''policy'', ''resolution'', ''proclamation'',
         ''ordinance''],
       rt_can_edit = Some [''bylaw'', ''policy'', ''resolution'', ''proclamation'',
         ''ordinance''],
       rt_can_delete = Some [''bylaw'', ''policy'', ''resolution'', ''proclamation'',
         ''ordinance''],
       rt_can_view = Some [''bylaw'', ''policy'', ''resolution'', ''proclamation'',
         ''ordinance'']\<rparr>,
     rc_status_transitions = Some (DirectRecord [(''draft'', [''proposed'', ''archived'']),
       (''proposed'', [''reviewed'', ''archived'']), (''reviewed'', [''approved'',
       ''archived'']), (''approved'', [''archived'']), (''any'', [''archived''])])\<rparr>"

definition default_mayor :: role_config where
  "default_mayor = \<lparr>rc_name = ''Mayor'',
     rc_description = ''Executive authority with approval powers'',
     rc_permissions = Some (DirectList [''records:create'', ''records:edit'',
       ''records:view'', ''records:archive'', ''workflows:approve'', ''templates:view'']),
     rc_record_types = Some \<lparr>rt_can_create = Some [''bylaw'', ''policy'', ''resolution'', ''proclamation''],
       rt_can_edit = Some [''bylaw'', ''policy'', ''resolution'', ''proclamation''],
       rt_can_delete = None,
       rt_can_view = Some [''bylaw'', ''policy'', ''resolution'', ''proclamation'',
         ''ordinance'']\<rparr>,
     rc_status_transitions = Some (DirectRecord [(''reviewed'', [''approved'']),
       (''approved'', [''archived'']), (''any'', [''archived''])])\<rparr>"

definition default_council :: role_config where
  "default_council = \<lparr>rc_name = ''City Council'',
     rc_description = ''Legislative body with voting and approval powers'',
     rc_permissions = Some (DirectList [''records:create'', ''records:edit'',
       ''records:view'', ''records:archive'', ''workflows:vote'', ''templates:view'']),
     rc_record_types = Some \<lparr>rt_can_create = Some [''bylaw'', ''policy'', ''resolution''],
       rt_can_edit = Some [''bylaw'', ''policy'', ''resolution''],
       rt_can_delete = None,
       rt_can_view = Some [''bylaw'', ''policy'', ''resolution'', ''proclamation'',
         ''ordinance'']\<rparr>,
     rc_status_transitions = Some (DirectRecord [(''proposed'', [''reviewed'']),
       (''reviewed'', [''approved'']), (''approved'', [''archived'']), (''any'',
       [''archived''])])\<rparr>"

definition default_clerk :: role_config where
  "default_clerk = \<lparr>rc_name = ''City Clerk'',
     rc_description = ''Administrative support with document management'',
     rc_permissions = Some (DirectList [''records:create'', ''records:edit'',
       ''records:view'', ''templates:view'', ''broadcast-box:devices:view'',
       ''broadcast-box:sessions:view'', ''broadcast-box:sessions:create'',
       ''broadcast-box:sessions:manage'', ''geography:manage'']),
     rc_record_types = Some \<lparr>rt_can_create = Some [''bylaw'', ''policy'', ''resolution''],
       rt_can_edit = Some [''bylaw'', ''policy'', ''resolution''],
       rt_can_delete = None,
       rt_can_view = Some [''bylaw'', ''policy'', ''resolution'', ''proclamation'',
         ''ordinance'']\<rparr>,
     rc_status_transitions = Some (DirectRecord [(''draft'', [''proposed''])])\<rparr>"

definition default_legal_dept :: role_config where
  "default_legal_dept = \<lparr>rc_name = ''Legal Department'',
     rc_description = ''Legal review and compliance'',
     rc_permissions = Some (DirectList [''records:edit'', ''records:view'',
       ''workflows:review'', ''templates:view'']),
     rc_record_types = Some \<lparr>rt_can_create = None,
       rt_can_edit = Some [''bylaw'', ''policy'', ''resolution''],
       rt_can_delete = None,
       rt_can_view = Some [''bylaw'', ''policy'', ''resolution'', ''proclamation'',
         ''ordinance'']\<rparr>,
     rc_status_transitions = Some (DirectRecord [(''proposed'', [''reviewed''])])\<rparr>"

definition default_public :: role_config where
  "default_public = \<lparr>rc_name = ''Public'',
     rc_description = ''Read-only access to published records'',
     rc_permissions = Some (DirectList [''records:view'']),
     rc_record_types = Some \<lparr>rt_can_create = None,
       rt_can_edit = None,
       rt_can_delete = None,
       rt_can_view = Some [''bylaw'', ''policy'', ''resolution'', ''proclamation'',
         ''ordinance'']\<rparr>,
     rc_status_transitions = Some (DirectRecord [])\<rparr>"

definition default_permissions :: "(string \<times> string \<times> permission_level) list" where
  "default_permissions =
    [(''system:admin'', ''Full system administration access'', SystemLevel),
     (''system:configure'', ''Configure system settings'', SystemLevel),
     (''records:create'', ''Create new records'', RecordLevel),
     (''records:edit'', ''Edit existing records'', RecordLevel),
     (''records:delete'', ''Delete records'', RecordLevel),
     (''records:view'', ''View records'', RecordLevel),
     (''records:archive'', ''Archive records'', RecordLevel),
     (''workflows:manage'', ''Manage workflow configurations'', WorkflowLevel),
     (''workflows:approve'', ''Approve workflow transitions'', WorkflowLevel),
     (''workflows:vote'', ''Vote on workflow transitions'', WorkflowLevel),
     (''workflows:review'', ''Review workflow transitions'', WorkflowLevel),
     (''templates:manage'', ''Manage templates'', TemplateLevel),
     (''templates:view'', ''View templates'', TemplateLevel),
     (''hooks:manage'', ''Manage hooks and automation'', HookLevel),
     (''users:manage'', ''Manage users and roles'', UserLevel),
     (''broadcast-box:devices:view'', ''View broadcast-box devices'', SystemLevel),
     (''broadcast-box:devices:enroll'', ''Enroll / re-pair broadcast-box devices'', SystemLevel),
     (''broadcast-box:devices:manage'', ''Update, delete, and command broadcast-box devices'', SystemLevel),
     (''broadcast-box:sessions:view'', ''View broadcast-box recording sessions'', SystemLevel),
     (''broadcast-box:sessions:create'', ''Start broadcast-box recording sessions'', SystemLevel),
     (''broadcast-box:sessions:manage'', ''Stop and delete broadcast-box recording sessions'', SystemLevel),
     (''broadcast-box:admin'', ''Broadcast-box administration (e.g. reset rate limits)'', SystemLevel)]"

definition default_hierarchy :: "(string \<times> list_spec) list" where
  "default_hierarchy =
    [(''admin'', DirectList []),
     (''mayor'', DirectList [''council'']),
     (''council'', DirectList [''clerk'']),
     (''clerk'', DirectList [''legal_dept'']),
     (''legal_dept'', DirectList [''public'']),
     (''public'', DirectList [])]"

definition getDefaultRolesConfig :: roles_config where
  "getDefaultRolesConfig = \<lparr>cfg_default_role = DefaultDirect ''public'',
     cfg_roles = [(''admin'', default_admin), (''mayor'', default_mayor), (''council'', default_council), (''clerk'', default_clerk), (''legal_dept'', default_legal_dept), (''public'', default_public)],
     cfg_permissions = default_permissions, cfg_hierarchy = default_hierarchy\<rparr>"

lemmas default_role_defs = default_admin_def default_mayor_def default_council_def default_clerk_def
  default_legal_dept_def default_public_def

subsection \<open>Properties\<close>

text \<open>C8: Inheritance is exact. Whatever the role hierarchy looks like, cycles and diamonds
  included, the walk ends and returns exactly the permissions configured for the roles
  reachable from the given one (an undefined role counts with the public permissions).\<close>

theorem permissions_are_those_of_reachable_roles:
  "p \<in> set (getRolePermissions cfg role) \<longleftrightarrow> (\<exists>r. reachable_role cfg role r \<and> p \<in> own_permissions cfg r)"
  unfolding getRolePermissions_reach by (auto simp: reach_permissions_def)

text \<open>A defined role is never widened. A role that is defined without permissions and
  inherits nothing is granted nothing outside its own record types, while an undefined role
  without an entry in the hierarchy has exactly the public permissions.\<close>

theorem locked_down_role_gets_nothing:
  assumes "jm_get (cfg_hierarchy cfg) role = None"
  shows "set (getRolePermissions cfg role) = (case jm_get (cfg_roles cfg) role of
     Some rc \<Rightarrow> set (spec_list (rc_permissions rc))
   | None \<Rightarrow> set (direct_permissions cfg ''public''))"
proof -
  have "reachable_role cfg role r \<longleftrightarrow> r = role" for r
    using assms by (auto simp: inherited_roles_def intro: reachable_role.self elim: reachable_role.cases)
  then have "{r. reachable_role cfg role r} = {role}" by blast
  then have "set (getRolePermissions cfg role) = own_permissions cfg role"
    unfolding getRolePermissions_reach reach_permissions_def by simp
  then show ?thesis
    by (auto simp: own_permissions_def direct_permissions_def fallback_permissions_def split: option.splits)
qed

lemma locked_down_role_gets_nothing_witness:
  "set (getRolePermissions (getDefaultRolesConfig\<lparr>cfg_roles := [(''suspended'',
      default_public\<lparr>rc_permissions := Some (DirectList [])\<rparr>)]\<rparr>) ''suspended'') = {}"
  by (subst locked_down_role_gets_nothing) code_simp+

text \<open>The built-in configuration refuses every status transition. Its transitions are
  plain records, which the check reads through a missing \<open>value\<close> property: every
  transition by every role, the administrator included, is denied.\<close>

theorem default_roles_deny_every_transition:
  assumes "from \<noteq> []" and "to \<noteq> []"
  shows "\<not> userCanTransition getDefaultRolesConfig u from to"
proof -
  have all: "jm_get (cfg_roles getDefaultRolesConfig) r = Some rc \<Longrightarrow>
      (\<exists>m. rc_status_transitions rc = Some (DirectRecord m) \<and> jm_get m ''value'' = None)" for r rc
    by (auto simp: getDefaultRolesConfig_def default_role_defs split: if_splits)
  have "\<not> grants (check_transition getDefaultRolesConfig r from to)" for r
    using all [of r] all [of "''public''"]
    by (auto simp: check_transition_def grants_def split: option.splits)
  with assms show ?thesis
    by (auto simp: userCanTransition_def userCan_def checkPermission_def no_context_def)
qed

lemma default_roles_deny_every_transition_witness:
  "\<not> userCanTransition getDefaultRolesConfig \<lparr>us_username = ''root'', us_role = ''admin''\<rparr> ''draft'' ''proposed''"
  by (rule default_roles_deny_every_transition) simp_all

end
