(* ===== verification/Workflow_Config.thy ===== *)
theory Workflow_Config
  imports Config_Values
begin

section \<open>The editorial workflow\<close>

text \<open>
  \<open>core/src/config/workflow-config.ts\<close> and the guard every write path of the API calls,
  \<open>modules/api/src/services/records-service/status-transition-guard.ts\<close>: which status
  changes the transition graph and a role's own list allow. The configuration is the parsed
  \<open>workflows.yml\<close>, or the built-in one.
\<close>

subsection \<open>The configuration\<close>

record role_rules =
  rr_can_transition :: "(string \<times> list_spec) list option"
  rr_can_create :: "list_spec option"
  rr_can_edit :: "list_spec option"
  rr_can_delete :: "list_spec option"
  rr_can_view :: "list_spec option"

record workflow_config =
  wc_statuses :: "list_spec option"
  wc_transitions :: "(string \<times> list_spec) list"
  wc_roles :: "(string \<times> role_rules) list"
  wc_recordTypes :: "(string \<times> list_spec option) list"

datatype workflows_file = WorkflowsAbsent | WorkflowsUnreadable | WorkflowsParsed workflow_config

record workflow_manager =
  wm_config :: "workflow_config option"
  wm_file :: workflows_file

definition workflow_default_config :: workflow_config where
  "workflow_default_config =
    \<lparr>wc_statuses = Some (DirectList [''draft'', ''proposed'', ''reviewed'', ''approved'', ''archived'']),
     wc_transitions =
       [(''draft'', DirectList [''proposed'']),
        (''proposed'', DirectList [''reviewed'', ''archived'']),
        (''reviewed'', DirectList [''approved'', ''archived'']),
        (''approved'', DirectList [''archived'']),
        (''archived'', DirectList [])],
     wc_roles =
       [(''clerk'', \<lparr>rr_can_transition = Some [(''draft'', DirectList [''proposed'']),
            (''proposed'', DirectList [''reviewed''])],
          rr_can_create = Some (DirectList [''bylaw'', ''policy'', ''resolution'']),
          rr_can_edit = Some (DirectList [''bylaw'', ''policy'', ''resolution'']),
          rr_can_delete = None, rr_can_view = None\<rparr>),
        (''council'', \<lparr>rr_can_transition = Some [(''reviewed'', DirectList [''approved'']),
            (''any'', DirectList [''archived''])],
          rr_can_create = Some (DirectList [''bylaw'', ''policy'', ''resolution'']),
          rr_can_edit = Some (DirectList [''bylaw'', ''policy'', ''resolution'']),
          rr_can_delete = None, rr_can_view = None\<rparr>),
        (''public'', \<lparr>rr_can_transition = Some [], rr_can_create = None, rr_can_edit = None,
          rr_can_delete = None, rr_can_view = Some (DirectList [''bylaw'', ''policy'', ''resolution''])\<rparr>)],
     wc_recordTypes = []\<rparr>"

definition load_workflows :: "workflow_manager \<Rightarrow> workflow_config \<times> workflow_manager" where
  "load_workflows wm =
     (case wm_config wm of
        Some cfg \<Rightarrow> (cfg, wm)
      | None \<Rightarrow>
          let cfg = (case wm_file wm of WorkflowsParsed c \<Rightarrow> c | _ \<Rightarrow> workflow_default_config)
          in (cfg, wm\<lparr>wm_config := Some cfg\<rparr>))"

subsection \<open>Queries\<close>

definition getAvailableStatuses :: "workflow_config \<Rightarrow> string option \<Rightarrow> string list" where
  "getAvailableStatuses cfg recordType =
     (case or_null recordType of
        Some t \<Rightarrow> (case jm_get (wc_recordTypes cfg) t of
            Some (Some statuses) \<Rightarrow> spec_list (Some statuses)
          | _ \<Rightarrow> spec_list (wc_statuses cfg))
      | None \<Rightarrow> spec_list (wc_statuses cfg))"

definition allowed_transitions :: "workflow_config \<Rightarrow> string \<Rightarrow> string list" where
  "allowed_transitions cfg from = spec_list (jm_get (wc_transitions cfg) from)"

definition role_transitions :: "role_rules \<Rightarrow> string \<Rightarrow> string list" where
  "role_transitions rules from = (case rr_can_transition rules of
     None \<Rightarrow> []
   | Some m \<Rightarrow> spec_list (jm_get m from) @ spec_list (jm_get m ''any''))"

definition getControlledStatuses :: "workflow_config \<Rightarrow> string list" where
  "getControlledStatuses cfg = remdups (concat (map (\<lambda>(_, spec). spec_list (Some spec)) (wc_transitions cfg)))"

definition getAvailableTransitions :: "workflow_config \<Rightarrow> string \<Rightarrow> string option \<Rightarrow> string list" where
  "getAvailableTransitions cfg from role =
     (let all = allowed_transitions cfg from in
      case or_null role of
        None \<Rightarrow> all
      | Some r \<Rightarrow> (case jm_get (wc_roles cfg) r of
          None \<Rightarrow> []
        | Some rules \<Rightarrow>
            let own = role_transitions rules from in
            if own = [] then all else filter (\<lambda>t. t \<in> set own) all))"

definition getRoles :: "workflow_config \<Rightarrow> string list" where
  "getRoles cfg = jm_keys (wc_roles cfg)"

subsection \<open>Validation\<close>

type_synonym verdict = "bool \<times> string option"

definition quoted :: "string \<Rightarrow> string" where
  "quoted s = [CHR 39] @ s @ [CHR 39]"

fun comma_join :: "string list \<Rightarrow> string" where
  "comma_join [] = []"
| "comma_join [x] = x"
| "comma_join (x # y # xs) = x @ '', '' @ comma_join (y # xs)"

definition similar_status :: "workflow_config \<Rightarrow> string \<Rightarrow> string option" where
  "similar_status cfg to = find (\<lambda>s. str_includes (to_lower s) (to_lower to) \<or> str_includes (to_lower to) (to_lower s))
     (getAvailableStatuses cfg None)"

definition suggestion :: "workflow_config \<Rightarrow> string \<Rightarrow> string" where
  "suggestion cfg to = (case or_null (similar_status cfg to) of
     Some s \<Rightarrow> if s \<noteq> to then '' Did you mean '' @ quoted s @ ''?'' else []
   | None \<Rightarrow> [])"

definition not_allowed_reason :: "workflow_config \<Rightarrow> string \<Rightarrow> string \<Rightarrow> string" where
  "not_allowed_reason cfg from to =
     (let allowed = allowed_transitions cfg from in
      ''Transition from '' @ quoted from @ '' to '' @ quoted to @ '' is not allowed. Allowed transitions: '' @
      (if allowed \<noteq> [] then comma_join allowed else ''none (final status)'') @ ''.'' @ suggestion cfg to)"

definition validateTransition :: "workflow_config \<Rightarrow> string \<Rightarrow> string \<Rightarrow> string option \<Rightarrow> verdict" where
  "validateTransition cfg from to role =
     (if to \<notin> set (allowed_transitions cfg from) then (False, Some (not_allowed_reason cfg from to))
      else (case or_null role of
          None \<Rightarrow> (True, None)
        | Some r \<Rightarrow> (case jm_get (wc_roles cfg) r of
            None \<Rightarrow> (False, Some (''Role '' @ quoted r @ '' not found in configuration''))
          | Some rules \<Rightarrow>
              if to \<notin> set (role_transitions rules from)
              then (False, Some (''Role '' @ quoted r @ '' cannot transition from '' @ quoted from @ '' to '' @ quoted to))
              else (True, None))))"

datatype workflow_action = WfCreate | WfEdit | WfDelete | WfView

fun show_action :: "workflow_action \<Rightarrow> string" where
  "show_action WfCreate = ''create''"
| "show_action WfEdit = ''edit''"
| "show_action WfDelete = ''delete''"
| "show_action WfView = ''view''"

fun action_rule :: "role_rules \<Rightarrow> workflow_action \<Rightarrow> list_spec option" where
  "action_rule rules WfCreate = rr_can_create rules"
| "action_rule rules WfEdit = rr_can_edit rules"
| "action_rule rules WfDelete = rr_can_delete rules"
| "action_rule rules WfView = rr_can_view rules"

definition validateAction :: "workflow_config \<Rightarrow> workflow_action \<Rightarrow> string \<Rightarrow> string option \<Rightarrow> verdict" where
  "validateAction cfg action recordType role =
     (case or_null role of
        None \<Rightarrow> (True, None)
      | Some r \<Rightarrow> (case jm_get (wc_roles cfg) r of
          None \<Rightarrow> (False, Some (''Role '' @ quoted r @ '' not found in configuration''))
        | Some rules \<Rightarrow>
            let denied = (False, Some (''Role '' @ quoted r @ '' cannot '' @ show_action action @
                  '' records of type '' @ quoted recordType));
                allowed = spec_list (action_rule rules action) in
            if action_rule rules action = None then denied
            else if allowed \<noteq> [] then (if recordType \<notin> set allowed then denied else (True, None))
            else denied))"

subsection \<open>The guard of the write paths\<close>

datatype http_error = HttpError nat string string

definition assertStatusWritableByRole :: "workflow_config \<Rightarrow> string \<Rightarrow> string \<Rightarrow> string \<Rightarrow> http_error + unit" where
  "assertStatusWritableByRole cfg from to userRole =
     (if from = to then Inr ()
      else if to \<notin> set (getControlledStatuses cfg) then Inr ()
      else (case validateTransition cfg from to (Some userRole) of
          (True, _) \<Rightarrow> Inr ()
        | (False, reason) \<Rightarrow> Inl (HttpError 403
            (case or_null reason of Some r \<Rightarrow> r
             | None \<Rightarrow> ''Invalid status transition from '' @ quoted from @ '' to '' @ quoted to @
                 '' for role '' @ quoted userRole)
            ''INVALID_STATUS_TRANSITION'')))"

text \<open>One write by a user of a role, and the statuses a record can take under a set of roles.\<close>

inductive status_reached :: "workflow_config \<Rightarrow> string set \<Rightarrow> string \<Rightarrow> string \<Rightarrow> bool" for cfg roles s0 where
  start: "status_reached cfg roles s0 s0"
| write_status: "status_reached cfg roles s0 s \<Longrightarrow> r \<in> roles \<Longrightarrow> assertStatusWritableByRole cfg s t r = Inr () \<Longrightarrow>
    status_reached cfg roles s0 t"

subsection \<open>Properties\<close>

lemma controlled_iff: "t \<in> set (getControlledStatuses cfg) \<longleftrightarrow> (\<exists>from spec. (from, spec) \<in> set (wc_transitions cfg) \<and> t \<in> set (spec_list (Some spec)))"
  by (auto simp: getControlledStatuses_def)

lemma validate_Some:
  "r \<noteq> [] \<Longrightarrow> fst (validateTransition cfg from to (Some r)) \<longleftrightarrow>
     to \<in> set (allowed_transitions cfg from) \<and>
     (\<exists>rules. jm_get (wc_roles cfg) r = Some rules \<and> to \<in> set (role_transitions rules from))"
  by (auto simp: validateTransition_def split: option.splits)

text \<open>What the guard lets through. A user with a role may write a status exactly when it is
  unchanged, or no transition leads to it, or the graph has the edge and the role exists and
  lists the target for the old status or for \<open>any\<close>; every other write is refused with status
  403 and a reason.\<close>

theorem guard_lets_through:
  assumes "role \<noteq> []"
  shows "case assertStatusWritableByRole cfg from to role of
     Inr _ \<Rightarrow> from = to \<or> to \<notin> set (getControlledStatuses cfg) \<or>
       to \<in> set (allowed_transitions cfg from) \<and>
       (\<exists>rules. jm_get (wc_roles cfg) role = Some rules \<and> to \<in> set (role_transitions rules from))
   | Inl (HttpError status reason kind) \<Rightarrow> status = 403 \<and> reason \<noteq> [] \<and> kind = ''INVALID_STATUS_TRANSITION'' \<and>
       from \<noteq> to \<and> to \<in> set (getControlledStatuses cfg) \<and>
       \<not> (to \<in> set (allowed_transitions cfg from) \<and>
         (\<exists>rules. jm_get (wc_roles cfg) role = Some rules \<and> to \<in> set (role_transitions rules from)))"
  using validate_Some [OF assms, of cfg "from" to]
  by (cases "validateTransition cfg from to (Some role)")
     (auto simp: assertStatusWritableByRole_def split: bool.splits option.splits)

lemma guard_lets_through_witness:
  "assertStatusWritableByRole workflow_default_config ''proposed'' ''archived'' ''clerk'' \<noteq> Inr ()"
proof -
  have "''archived'' \<in> set (getControlledStatuses workflow_default_config)" by code_simp
  moreover have "''archived'' \<notin> set (role_transitions rules ''proposed'')"
    if "jm_get (wc_roles workflow_default_config) ''clerk'' = Some rules" for rules
    using that by (auto simp: workflow_default_config_def role_transitions_def)
  ultimately show ?thesis
    using guard_lets_through [where role = "''clerk''" and cfg = workflow_default_config and ?from = "''proposed''"
        and to = "''archived''"]
    by (auto split: sum.splits)
qed

text \<open>The offered transitions are the valid ones, for a role that has any transition of
  its own from the status.\<close>

theorem offered_transitions_are_valid:
  assumes "jm_get (wc_roles cfg) r = Some rules" and "role_transitions rules from \<noteq> []" and "r \<noteq> []"
  shows "to \<in> set (getAvailableTransitions cfg from (Some r)) \<longleftrightarrow> fst (validateTransition cfg from to (Some r))"
  using assms by (auto simp: getAvailableTransitions_def validateTransition_def Let_def)

lemma offered_transitions_are_valid_witness:
  "''reviewed'' \<in> set (getAvailableTransitions workflow_default_config ''proposed'' (Some ''clerk'')) \<longleftrightarrow>
     fst (validateTransition workflow_default_config ''proposed'' ''reviewed'' (Some ''clerk''))"
proof -
  obtain rules where rules: "jm_get (wc_roles workflow_default_config) ''clerk'' = Some rules"
    and t: "rr_can_transition rules = Some [(''draft'', DirectList [''proposed'']), (''proposed'', DirectList [''reviewed''])]"
    by (simp add: workflow_default_config_def)
  from t have "role_transitions rules ''proposed'' \<noteq> []" by (simp add: role_transitions_def)
  with rules show ?thesis by (intro offered_transitions_are_valid) simp_all
qed

text \<open>A role without transitions is offered all of them. When a role may do nothing from
  a status, the query still offers every transition of the graph, and each of them is
  rejected by the validation.\<close>

theorem powerless_role_is_offered_everything:
  assumes "jm_get (wc_roles cfg) r = Some rules" and "role_transitions rules from = []" and "r \<noteq> []"
  shows "getAvailableTransitions cfg from (Some r) = allowed_transitions cfg from \<and>
    \<not> fst (validateTransition cfg from to (Some r))"
  using assms by (auto simp: getAvailableTransitions_def validateTransition_def Let_def)

lemma powerless_role_is_offered_everything_witness:
  "getAvailableTransitions workflow_default_config ''reviewed'' (Some ''clerk'') = [''approved'', ''archived''] \<and>
   \<not> fst (validateTransition workflow_default_config ''reviewed'' ''approved'' (Some ''clerk''))"
proof -
  let ?rules = "\<lparr>rr_can_transition = Some [(''draft'', DirectList [''proposed'']), (''proposed'', DirectList [''reviewed''])],
    rr_can_create = Some (DirectList [''bylaw'', ''policy'', ''resolution'']),
    rr_can_edit = Some (DirectList [''bylaw'', ''policy'', ''resolution'']), rr_can_delete = None, rr_can_view = None\<rparr>"
  have "jm_get (wc_roles workflow_default_config) ''clerk'' = Some ?rules" by (simp add: workflow_default_config_def)
  moreover have "role_transitions ?rules ''reviewed'' = []" by code_simp
  moreover have "allowed_transitions workflow_default_config ''reviewed'' = [''approved'', ''archived'']" by code_simp
  ultimately show ?thesis
    using powerless_role_is_offered_everything [of workflow_default_config "''clerk''" ?rules "''reviewed''" "''approved''"]
    by simp
qed

lemma only_council_decides:
  assumes "jm_get (wc_roles workflow_default_config) r = Some rules" and "t \<in> set (role_transitions rules s)"
    and "t \<noteq> ''proposed''" and "t \<noteq> ''reviewed''"
  shows "r = ''council''"
proof (rule ccontr)
  assume "r \<noteq> ''council''"
  with assms(1) have "rr_can_transition rules = Some [(''draft'', DirectList [''proposed'']),
      (''proposed'', DirectList [''reviewed''])] \<or> rr_can_transition rules = Some []"
    by (auto simp: workflow_default_config_def split: if_splits)
  with assms(2-4) show False by (auto simp: role_transitions_def split: if_splits)
qed

text \<open>Separation of duties. Under the built-in workflow a record that starts as a draft
  never becomes approved or archived through the guarded write paths unless a council
  member writes, whatever the other users do and in whatever order (an empty role name
  would count as no role and skip the role check).\<close>

theorem approval_needs_council:
  assumes "status_reached workflow_default_config roles ''draft'' s" and "''council'' \<notin> roles" and "[] \<notin> roles"
  shows "s \<noteq> ''approved'' \<and> s \<noteq> ''archived''"
proof -
  have graph: "s = t \<or> r = ''council''"
    if ok: "assertStatusWritableByRole workflow_default_config s t r = Inr ()" and t: "t = ''approved'' \<or> t = ''archived''"
      and r: "r \<noteq> []" for s t r
  proof -
    have "''approved'' \<in> set (getControlledStatuses workflow_default_config)"
      and "''archived'' \<in> set (getControlledStatuses workflow_default_config)" by code_simp+
    with ok t have "s = t \<or> fst (validateTransition workflow_default_config s t (Some r))"
      by (auto simp: assertStatusWritableByRole_def split: if_splits prod.splits bool.splits)
    then show ?thesis
    proof
      assume "fst (validateTransition workflow_default_config s t (Some r))"
      with r obtain rules where "jm_get (wc_roles workflow_default_config) r = Some rules" "t \<in> set (role_transitions rules s)"
        by (auto simp: validate_Some)
      with only_council_decides t show ?thesis by auto
    qed simp
  qed
  from assms(1) show ?thesis
  proof (induction rule: status_reached.induct)
    case (write_status s r t)
    with graph [of s t r] assms(2,3) show ?case by auto
  qed simp
qed

lemma approval_needs_council_witness:
  "status_reached workflow_default_config {''clerk''} ''draft'' ''reviewed'' \<and>
   \<not> status_reached workflow_default_config {''clerk''} ''draft'' ''approved''"
proof
  have "status_reached workflow_default_config {''clerk''} ''draft'' ''proposed''"
    by (rule status_reached.write_status [OF status_reached.start, of "''clerk''"]) (simp, code_simp)
  then show "status_reached workflow_default_config {''clerk''} ''draft'' ''reviewed''"
    by (rule status_reached.write_status [of _ _ _ _ "''clerk''"]) (simp, code_simp)
  show "\<not> status_reached workflow_default_config {''clerk''} ''draft'' ''approved''"
    using approval_needs_council [of "{''clerk''}" "''approved''"] by auto
qed

end
