(* ===== verification/Records_Api.thy ===== *)
theory Records_Api
  imports Record_Sagas Role_Manager Workflow_Config
begin

section \<open>The records service of the API\<close>

text \<open>
  \<open>modules/api/src/services/records-service\<close>: \<open>crud.ts\<close>, \<open>drafts.ts\<close>, \<open>listing.ts\<close> (status
  changes) and \<open>frontmatter-and-publish.ts\<close>, with the routes of
  \<open>modules/api/src/routes/records\<close> that write and the check of
  \<open>modules/api/src/middleware/auth.ts\<close> before them. Each method checks the permission of the
  user, the workflow guard on the status, and calls the record manager. The shape of the
  response (dates normalised, columns parsed) is left out: a method returns the row or record
  it is built from.
\<close>

subsection \<open>Users and parameters\<close>

record api_user =
  ap_id :: jv
  ap_username :: string
  ap_role :: string
  ap_email :: jv
  ap_name :: jv

record api_env =
  ai_roles :: roles_config
  ai_workflow :: workflow_config
  ai_records :: record_env
  ai_executor :: record_executor
  ai_digest :: "publish_fields \<Rightarrow> string"
  ai_create_text :: "create_request \<Rightarrow> string"
  ai_update_text :: "update_request \<Rightarrow> string"

definition record_user :: "api_user \<Rightarrow> Record_Manager.auth_user" where
  "record_user u = Record_Manager.auth_user.make (ap_id u) (JStr (ap_username u)) (JStr (ap_role u)) (ap_email u) (ap_name u)"

definition role_user :: "api_user \<Rightarrow> Role_Manager.auth_user" where
  "role_user u = Role_Manager.auth_user.make (ap_username u) (ap_role u)"

datatype api_error = Refused http_error | Failed saga_error

type_synonym 'a api_op = "(rec_world world, api_error, 'a) em"

definition core :: "'a app_op \<Rightarrow> 'a api_op" where
  "core m = emap_err Failed m"

definition rec_call :: "'a rec_op \<Rightarrow> 'a api_op" where
  "rec_call m = core (on_app m)"

definition http_fail :: "nat \<Rightarrow> string \<Rightarrow> string \<Rightarrow> 'a api_op" where
  "http_fail status msg code = ethrow (Refused (HttpError status msg code))"

definition fail_with :: "string \<Rightarrow> 'a api_op" where
  "fail_with msg = ethrow (Failed (OtherError msg))"

subsection \<open>Permission and status\<close>

definition type_arg :: "jv \<Rightarrow> string option" where
  "type_arg t = (if is_nullish t then None else Some (js_text t))"

definition can_do :: "api_env \<Rightarrow> api_user \<Rightarrow> record_action \<Rightarrow> jv \<Rightarrow> bool" where
  "can_do e u a t = userCan (ai_roles e) (role_user u)
     (case a of ActCreate \<Rightarrow> ''records:create'' | ActEdit \<Rightarrow> ''records:edit'' | ActDelete \<Rightarrow> ''records:delete'' | ActView \<Rightarrow> ''records:view'')
     (no_context\<lparr>cc_recordType := type_arg t, cc_action := Some a\<rparr>)"

definition require :: "bool \<Rightarrow> string \<Rightarrow> jv \<Rightarrow> unit api_op" where
  "require ok what t = (if ok then ereturn () else fail_with (''Permission denied: Cannot '' @ what @ quoted (js_text t)))"

text \<open>\<open>assertStatusWritableByRole\<close> from a status that need not be a string: nothing but the string
  itself equals a string, and the transition is looked up under its text.\<close>

definition status_writable :: "workflow_config \<Rightarrow> jv \<Rightarrow> string \<Rightarrow> string \<Rightarrow> http_error + unit" where
  "status_writable cfg from to userRole = (case from of
     JStr f \<Rightarrow> assertStatusWritableByRole cfg f to userRole
   | _ \<Rightarrow> if to \<notin> set (getControlledStatuses cfg) then Inr ()
       else (case validateTransition cfg (js_text from) to (Some userRole) of
          (True, _) \<Rightarrow> Inr ()
        | (False, reason) \<Rightarrow> Inl (HttpError 403 (case or_null reason of Some r \<Rightarrow> r
             | None \<Rightarrow> ''Invalid status transition from '' @ quoted (js_text from) @ '' to '' @ quoted to @ '' for role '' @ quoted userRole)
            ''INVALID_STATUS_TRANSITION'')))"

definition guard_status :: "api_env \<Rightarrow> api_user \<Rightarrow> jv \<Rightarrow> string \<Rightarrow> unit api_op" where
  "guard_status e u from to = (case status_writable (ai_workflow e) from to (ap_role u) of
     Inl h \<Rightarrow> ethrow (Refused h) | Inr _ \<Rightarrow> ereturn ())"

text \<open>The first status of a type, if it is there and not empty.\<close>

definition initial_status :: "api_env \<Rightarrow> jv \<Rightarrow> string option" where
  "initial_status e t = (case getAvailableStatuses (ai_workflow e) (type_arg t) of [] \<Rightarrow> None | s # _ \<Rightarrow> or_null (Some s))"

subsection \<open>Records\<close>

text \<open>What a request may set besides title and type.\<close>

record record_fields_in =
  ri_status :: jv
  ri_workflowState :: jv
  ri_content :: "string option"
  ri_metadata :: jv
  ri_geography :: jv
  ri_attachedFiles :: jv
  ri_linkedRecords :: jv
  ri_linkedGeographyFiles :: jv
  ri_authors :: jv
  ri_source :: jv

definition create_request_of :: "string \<Rightarrow> string \<Rightarrow> record_fields_in \<Rightarrow> create_request" where
  "create_request_of title type d = \<lparr>cq_title = title, cq_type = type, cq_content = ri_content d, cq_metadata = ri_metadata d,
     cq_status = ri_status d, cq_workflowState = ri_workflowState d, cq_createdAt = None, cq_updatedAt = None,
     cq_relativePath = None, cq_skipFileGeneration = False, cq_geography = ri_geography d, cq_attachedFiles = ri_attachedFiles d,
     cq_linkedRecords = ri_linkedRecords d, cq_linkedGeographyFiles = ri_linkedGeographyFiles d, cq_authors = ri_authors d,
     cq_source = ri_source d\<rparr>"

definition update_request_of :: "jv \<Rightarrow> record_fields_in \<Rightarrow> update_request" where
  "update_request_of title d = \<lparr>uq_title = title, uq_content = ri_content d, uq_status = ri_status d,
     uq_workflowState = ri_workflowState d, uq_relativePath = None, uq_skipSaga = False, uq_skipFileGeneration = False,
     uq_skipAudit = False, uq_skipHooks = False, uq_metadata = ri_metadata d, uq_geography = ri_geography d,
     uq_attachedFiles = ri_attachedFiles d, uq_linkedRecords = ri_linkedRecords d,
     uq_linkedGeographyFiles = ri_linkedGeographyFiles d, uq_authors = ri_authors d, uq_source = ri_source d\<rparr>"

definition no_fields :: record_fields_in where
  "no_fields = \<lparr>ri_status = JUndef, ri_workflowState = JUndef, ri_content = None, ri_metadata = JUndef, ri_geography = JUndef,
     ri_attachedFiles = JUndef, ri_linkedRecords = JUndef, ri_linkedGeographyFiles = JUndef, ri_authors = JUndef, ri_source = JUndef\<rparr>"

text \<open>The inline guard of \<open>crud.ts\<close>: its refusal has a text of its own.\<close>

definition crud_guard :: "api_env \<Rightarrow> api_user \<Rightarrow> jv \<Rightarrow> string \<Rightarrow> string \<Rightarrow> unit api_op" where
  "crud_guard e u from to fallback =
     (if to \<notin> set (getControlledStatuses (ai_workflow e)) \<or> from = JStr to then ereturn ()
      else case validateTransition (ai_workflow e) (js_text from) to (Some (ap_role u)) of
          (True, _) \<Rightarrow> ereturn ()
        | (False, reason) \<Rightarrow> http_fail 403 (case or_null reason of Some r \<Rightarrow> r | None \<Rightarrow> fallback) ''INVALID_STATUS_TRANSITION'')"

definition api_createRecord :: "api_env \<Rightarrow> string \<Rightarrow> string \<Rightarrow> string \<Rightarrow> record_fields_in \<Rightarrow> api_user \<Rightarrow> step_value option api_op" where
  "api_createRecord e sid title type d u =
     eseq (require (can_do e u ActCreate (JStr type)) ''create records of type '' (JStr type))
     (eseq (case (ri_status d, initial_status e (JStr type)) of
        (JStr s, Some s0) \<Rightarrow> crud_guard e u (JStr s0) s
          (''Cannot create a record directly at status '' @ quoted s @ '' (role '' @ quoted (ap_role u) @ '')'')
      | _ \<Rightarrow> ereturn ())
     (let q = create_request_of title type d in core (createRecord (ai_records e) (ai_executor e) sid (ai_create_text e q) q (record_user u))))"

definition api_getRecord :: "api_env \<Rightarrow> string \<Rightarrow> record_data option api_op" where
  "api_getRecord e rid = rec_call (getRecord (ai_records e) rid)"

definition api_updateRecord :: "api_env \<Rightarrow> string \<Rightarrow> string \<Rightarrow> jv \<Rightarrow> record_fields_in \<Rightarrow> api_user \<Rightarrow> step_value option api_op" where
  "api_updateRecord e sid rid title d u = ebind (api_getRecord e rid) (\<lambda>found. case found of
     None \<Rightarrow> ereturn None
   | Some r \<Rightarrow>
       eseq (require (can_do e u ActEdit (rd_type r)) ''edit records of type '' (rd_type r))
       (eseq (case ri_status d of
          JStr s \<Rightarrow> crud_guard e u (rd_status r) s (''Invalid status transition from '' @ quoted (js_text (rd_status r)) @
            '' to '' @ quoted s @ '' for role '' @ quoted (ap_role u))
        | _ \<Rightarrow> ereturn ())
       (let q = update_request_of title d in
        core (updateRecord (ai_records e) (ai_executor e) sid (ai_update_text e q) rid q (record_user u)))))"

definition api_deleteRecord :: "api_env \<Rightarrow> string \<Rightarrow> string \<Rightarrow> api_user \<Rightarrow> step_value option api_op" where
  "api_deleteRecord e sid rid u = ebind (api_getRecord e rid) (\<lambda>found. case found of
     None \<Rightarrow> ereturn None
   | Some r \<Rightarrow>
       eseq (require (can_do e u ActDelete (rd_type r)) ''delete records of type '' (rd_type r))
         (core (archiveRecordSaga (ai_records e) (ai_executor e) sid rid (record_user u) None)))"

definition status_change_metadata :: "record_data \<Rightarrow> api_user \<Rightarrow> jv \<Rightarrow> string \<Rightarrow> jv" where
  "status_change_metadata r u comment now = JObj (spread (spread [] (own_members (rd_metadata r)))
     [(''statusChangedBy'', JStr (ap_username u)), (''statusChangedAt'', JStr now), (''statusChangeComment'', comment),
      (''previousStatus'', rd_status r)])"

text \<open>A refusal is a result.\<close>

definition changeRecordStatus :: "api_env \<Rightarrow> string \<Rightarrow> string \<Rightarrow> string \<Rightarrow> api_user \<Rightarrow> jv \<Rightarrow> (bool \<times> string) api_op" where
  "changeRecordStatus e sid rid newStatus u comment = ebind (api_getRecord e rid) (\<lambda>found. case found of
     None \<Rightarrow> ereturn (False, ''Record not found'')
   | Some r \<Rightarrow>
       if \<not> can_do e u ActEdit (rd_type r)
       then ereturn (False, ''Permission denied: Cannot edit records of type '' @ quoted (js_text (rd_type r)))
       else (case validateTransition (ai_workflow e) (js_text (rd_status r)) newStatus (Some (ap_role u)) of
          (False, reason) \<Rightarrow> ereturn (False, case or_null reason of Some x \<Rightarrow> x
            | None \<Rightarrow> ''Invalid status transition from '' @ quoted (js_text (rd_status r)) @ '' to '' @ quoted newStatus @
                '' for role '' @ quoted (ap_role u))
        | (True, _) \<Rightarrow> ebind (rec_call now_iso) (\<lambda>now.
            let q = update_request_of JUndef (no_fields\<lparr>ri_status := JStr newStatus,
              ri_metadata := status_change_metadata r u comment now\<rparr>) in
            ebind (core (updateRecord (ai_records e) (ai_executor e) sid (ai_update_text e q) rid q (record_user u))) (\<lambda>x.
              ereturn (case x of None \<Rightarrow> (False, ''Failed to update record'') | Some _ \<Rightarrow> (True, []))))))"

definition getAllowedTransitions :: "api_env \<Rightarrow> string \<Rightarrow> api_user \<Rightarrow> string list api_op" where
  "getAllowedTransitions e rid u = ebind (api_getRecord e rid) (\<lambda>found. ereturn (case found of
     None \<Rightarrow> [] | Some r \<Rightarrow> getAvailableTransitions (ai_workflow e) (js_text (rd_status r)) (Some (ap_role u))))"

subsection \<open>Drafts\<close>

definition draft_author :: "api_user \<Rightarrow> jv" where
  "draft_author u = (if ap_username u \<noteq> [] then JStr (ap_username u) else if jtruthy (ap_name u) then ap_name u
     else if is_nullish (ap_id u) \<or> js_text (ap_id u) = [] then JStr ''unknown'' else JStr (js_text (ap_id u)))"

definition draft_owner :: "api_user \<Rightarrow> jv" where
  "draft_owner u = (if jtruthy (ap_id u) then JStr (js_text (ap_id u)) else draft_author u)"

definition json_list_column :: "jv \<Rightarrow> json_text option" where
  "json_list_column v = (if has_length v then stringify v else None)"

definition given_state :: "jv \<Rightarrow> bool" where
  "given_state v \<longleftrightarrow> \<not> is_nullish v \<and> v \<noteq> JStr []"

definition new_draft :: "string \<Rightarrow> jv \<Rightarrow> jv \<Rightarrow> record_fields_in \<Rightarrow> api_user \<Rightarrow> draft_row" where
  "new_draft rid title type d u = \<lparr>dr_id = rid, dr_title = title, dr_type = type, dr_status = jor (ri_status d) (JStr ''draft''),
     dr_workflow_state = (if given_state (ri_workflowState d) then ri_workflowState d else JStr ''draft''),
     dr_markdown_body = or_null (ri_content d), dr_metadata = stringify_if (ri_metadata d), dr_geography = stringify_if (ri_geography d),
     dr_attached_files = json_list_column (ri_attachedFiles d), dr_linked_records = json_list_column (ri_linkedRecords d),
     dr_linked_geography_files = json_list_column (ri_linkedGeographyFiles d), dr_author = draft_author u,
     dr_created_by = draft_owner u, dr_saved_at = 0, dr_created_at = 0, dr_updated_at = 0\<rparr>"

definition api_createDraft :: "api_env \<Rightarrow> jv \<Rightarrow> jv \<Rightarrow> record_fields_in \<Rightarrow> api_user \<Rightarrow> string option \<Rightarrow> draft_row api_op" where
  "api_createDraft e title type d u recordId =
     eseq (require (can_do e u ActCreate type) ''create records of type '' type)
     (eseq (case (ri_status d, initial_status e type) of
        (JStr s, Some s0) \<Rightarrow> guard_status e u (JStr s0) s | _ \<Rightarrow> ereturn ())
     (ebind (rec_call (eget clock)) (\<lambda>now.
       let rid = (case or_null recordId of Some i \<Rightarrow> i | None \<Rightarrow> ''record-'' @ show_int now) in
       eseq (rec_call (db_createDraft (new_draft rid title type d u)))
       (ebind (rec_call (db_getDraft rid)) (\<lambda>found. case found of
          None \<Rightarrow> fail_with (''Draft not found after create: '' @ rid)
        | Some x \<Rightarrow> ereturn (x\<lparr>dr_workflow_state :=
            (if given_state (ri_workflowState d) \<and> ri_workflowState d \<noteq> JStr ''draft'' then ri_workflowState d
             else if given_state (dr_workflow_state x) then dr_workflow_state x else JStr ''draft'')\<rparr>))))))"

definition draft_updates_of :: "jv \<Rightarrow> jv \<Rightarrow> record_fields_in \<Rightarrow> jv \<Rightarrow> draft_updates" where
  "draft_updates_of title type d existingState = \<lparr>du_title = title, du_type = type, du_status = ri_status d,
     du_workflow_state = (if given_state (ri_workflowState d) then ri_workflowState d
       else if given_state existingState then existingState else JUndef),
     du_markdown_body = ri_content d, du_metadata = stringify_if (ri_metadata d), du_geography = stringify_if (ri_geography d),
     du_attached_files = stringify_if (ri_attachedFiles d), du_linked_records = stringify_if (ri_linkedRecords d),
     du_linked_geography_files = stringify_if (ri_linkedGeographyFiles d)\<rparr>"

text \<open>The permission is asked for the new type, twice, and never for the old one.\<close>

definition api_updateDraft :: "api_env \<Rightarrow> string \<Rightarrow> jv \<Rightarrow> jv \<Rightarrow> record_fields_in \<Rightarrow> api_user \<Rightarrow> draft_row api_op" where
  "api_updateDraft e rid title type d u = ebind (rec_call (db_getDraft rid)) (\<lambda>found. case found of
     None \<Rightarrow> fail_with (''Draft not found: '' @ rid)
   | Some old \<Rightarrow> let recordType = jor type (dr_type old) in
       eseq (require (can_do e u ActEdit recordType) ''edit records of type '' recordType)
       (eseq (if jtruthy type \<and> type \<noteq> dr_type old
          then require (can_do e u ActEdit type) ''change record type to '' type else ereturn ())
       (eseq (case ri_status d of JStr s \<Rightarrow> guard_status e u (jor (dr_status old) (JStr ''draft'')) s | _ \<Rightarrow> ereturn ())
       (ebind (rec_call (db_getDraft rid)) (\<lambda>again.
         let state = (case again of None \<Rightarrow> JUndef | Some x \<Rightarrow> dr_workflow_state x) in
         eseq (rec_call (db_updateDraft rid (draft_updates_of title type d state)))
         (ebind (rec_call (db_getDraft rid)) (\<lambda>updated. case updated of
            None \<Rightarrow> fail_with (''Draft not found after update: '' @ rid)
          | Some x \<Rightarrow> ereturn (x\<lparr>dr_workflow_state :=
              (if given_state (ri_workflowState d) then ri_workflowState d
               else if given_state state then state
               else if given_state (dr_workflow_state x) then dr_workflow_state x else JStr ''draft'')\<rparr>))))))))"

datatype draft_or_record = IsDraft draft_row | IsRecord record_data

text \<open>An anonymous caller, and one without the permission to edit, sees the published record. The
  store never returns a draft without its editorial state, so the migration of the column in
  this method does not run.\<close>

definition getDraftOrRecord :: "api_env \<Rightarrow> string \<Rightarrow> api_user option \<Rightarrow> draft_or_record option api_op" where
  "getDraftOrRecord e rid user =
     ebind (case user of
         Some u \<Rightarrow> if can_do e u ActEdit JUndef then rec_call (db_getDraft rid) else ereturn None
       | None \<Rightarrow> ereturn None) (\<lambda>draft. case draft of
       Some x \<Rightarrow> ereturn (Some (IsDraft (x\<lparr>dr_workflow_state :=
         (if given_state (dr_workflow_state x) then dr_workflow_state x else JStr ''draft'')\<rparr>)))
     | None \<Rightarrow> ebind (api_getRecord e rid) (\<lambda>r. ereturn (map_option (\<lambda>x. IsRecord (x\<lparr>rd_workflowState :=
         jor (rd_workflowState x) (JStr ''draft'')\<rparr>)) r)))"

definition api_deleteDraft :: "string \<Rightarrow> unit api_op" where
  "api_deleteDraft rid = rec_call (db_deleteDraft rid)"

text \<open>The status the record will have: the target, or else the draft's own.\<close>

definition effective_status :: "jv \<Rightarrow> draft_row \<Rightarrow> jv" where
  "effective_status targetStatus d = (case targetStatus of JStr s \<Rightarrow> targetStatus | _ \<Rightarrow> dr_status d)"

definition published_status :: "record_data option \<Rightarrow> jv" where
  "published_status r = (case r of None \<Rightarrow> JUndef | Some x \<Rightarrow> rd_status x)"

definition publish_guard :: "api_env \<Rightarrow> string \<Rightarrow> api_user \<Rightarrow> jv \<Rightarrow> draft_row \<Rightarrow> unit api_op" where
  "publish_guard e rid u targetStatus d = (case effective_status targetStatus d of
     JStr s \<Rightarrow> ebind (ecatch (api_getRecord e rid) (\<lambda>_ :: api_error. ereturn None)) (\<lambda>published.
       let from = jor (published_status published) (case initial_status e (dr_type d) of None \<Rightarrow> JUndef | Some s0 \<Rightarrow> JStr s0) in
       if jtruthy from then guard_status e u from s else ereturn ())
   | _ \<Rightarrow> ereturn ())"

definition api_publishDraft :: "api_env \<Rightarrow> string \<Rightarrow> string \<Rightarrow> api_user \<Rightarrow> jv \<Rightarrow> step_value option api_op" where
  "api_publishDraft e sid rid u targetStatus = ebind (rec_call (db_getDraft rid)) (\<lambda>found. case found of
     None \<Rightarrow> fail_with (''Draft not found: '' @ rid)
   | Some d \<Rightarrow>
       eseq (require (can_do e u ActEdit (dr_type d)) ''publish records of type '' (dr_type d))
       (eseq (publish_guard e rid u targetStatus d)
       (ebind (rec_call (eget clock)) (\<lambda>now.
         core (publishDraft (ai_records e) (ai_executor e) sid (ai_digest e) rid (record_user u) targetStatus
           (Some (''publish-'' @ rid @ ''-'' @ show_int now)))))))"

subsection \<open>Routes\<close>

text \<open>The type the check before a route looks at is the one in the body of the request.\<close>

definition requireRecordPermission :: "api_env \<Rightarrow> api_user \<Rightarrow> record_action \<Rightarrow> jv \<Rightarrow> unit api_op" where
  "requireRecordPermission e u a bodyType =
     (if can_do e u a bodyType then ereturn () else http_fail 403 ''Permission denied'' ''INSUFFICIENT_PERMISSIONS'')"

definition save_draft :: "api_env \<Rightarrow> string \<Rightarrow> jv \<Rightarrow> jv \<Rightarrow> record_fields_in \<Rightarrow> api_user \<Rightarrow> draft_row api_op" where
  "save_draft e rid title type d u = ebind (getDraftOrRecord e rid (Some u)) (\<lambda>found. case found of
     Some (IsDraft _) \<Rightarrow> api_updateDraft e rid title type d u
   | _ \<Rightarrow> if \<not> jtruthy title \<or> \<not> jtruthy type then http_fail 400 ''Title and type are required for new drafts'' []
       else api_createDraft e title type d u (Some rid))"

definition delete_draft :: "api_env \<Rightarrow> string \<Rightarrow> api_user \<Rightarrow> unit api_op" where
  "delete_draft e rid u = ebind (getDraftOrRecord e rid (Some u)) (\<lambda>found. case found of
     Some (IsDraft x) \<Rightarrow>
       if dr_created_by x \<noteq> JStr (js_text (ap_id u)) \<and> dr_created_by x \<noteq> JStr (ap_username u)
       then http_fail 403 ''Permission denied: You can only delete your own drafts'' []
       else api_deleteDraft rid
   | _ \<Rightarrow> http_fail 404 ''Draft not found'' ''DRAFT_NOT_FOUND'')"

datatype record_request =
  Post_Record string string record_fields_in
| Put_Record string jv jv record_fields_in
| Delete_Record string jv
| Post_Status string jv string jv
| Put_Draft string jv jv record_fields_in
| Delete_Draft string jv
| Post_Publish string jv jv

text \<open>\<open>POST /records\<close> creates a draft; status and editorial state default to \<open>draft\<close>.\<close>

definition posted_fields :: "record_fields_in \<Rightarrow> record_fields_in" where
  "posted_fields d = d\<lparr>ri_status := jor (ri_status d) (JStr ''draft''), ri_workflowState := jor (ri_workflowState d) (JStr ''draft'')\<rparr>"

definition clean_user :: "api_user \<Rightarrow> api_user" where
  "clean_user u = u\<lparr>ap_username := (if ap_username u = [] then ''unknown'' else ap_username u)\<rparr>"

abbreviation finish :: "'a api_op \<Rightarrow> unit api_op" where
  "finish m \<equiv> eseq m (ereturn ())"

primrec serve_record :: "api_env \<Rightarrow> string \<Rightarrow> api_user \<Rightarrow> record_request \<Rightarrow> unit api_op" where
  "serve_record e sid u (Post_Record title type d) =
     eseq (requireRecordPermission e u ActCreate (JStr type)) (finish (api_createDraft e (JStr title) (JStr type) (posted_fields d) (clean_user u) None))"
| "serve_record e sid u (Put_Record rid title type d) =
     eseq (requireRecordPermission e u ActEdit type) (ebind (api_updateRecord e sid rid title d u) (\<lambda>r.
       case r of None \<Rightarrow> http_fail 404 ''Record not found'' ''RECORD_NOT_FOUND'' | Some _ \<Rightarrow> ereturn ()))"
| "serve_record e sid u (Delete_Record rid type) =
     eseq (requireRecordPermission e u ActDelete type) (ebind (api_getRecord e rid) (\<lambda>r.
       case r of None \<Rightarrow> http_fail 404 ''Record not found'' ''RECORD_NOT_FOUND'' | Some _ \<Rightarrow> finish (api_deleteRecord e sid rid u)))"
| "serve_record e sid u (Post_Status rid type newStatus comment) =
     eseq (requireRecordPermission e u ActEdit type) (ebind (api_getRecord e rid) (\<lambda>r.
       case r of None \<Rightarrow> http_fail 404 ''Record not found'' ''RECORD_NOT_FOUND''
       | Some _ \<Rightarrow> ebind (changeRecordStatus e sid rid newStatus u comment) (\<lambda>(ok, msg).
           if ok then ereturn () else http_fail 400 msg ''STATUS_CHANGE_FAILED'')))"
| "serve_record e sid u (Put_Draft rid title type d) =
     eseq (requireRecordPermission e u ActEdit type) (finish (save_draft e rid title type d u))"
| "serve_record e sid u (Delete_Draft rid type) = eseq (requireRecordPermission e u ActEdit type) (delete_draft e rid u)"
| "serve_record e sid u (Post_Publish rid type targetStatus) =
     eseq (requireRecordPermission e u ActEdit type) (finish (api_publishDraft e sid rid u targetStatus))"

primrec serve_records :: "api_env \<Rightarrow> (string \<times> api_user \<times> record_request) list \<Rightarrow> rec_world world \<Rightarrow> rec_world world" where
  "serve_records e [] w = w"
| "serve_records e (q # qs) w = (case q of (sid, u, r) \<Rightarrow> serve_records e qs (snd (serve_record e sid u r w)))"

end
