(* ===== verification/Saga_App_Frame.thy ===== *)
theory Saga_App_Frame
  imports Saga_Executor
begin

section \<open>What an execution does to the application\<close>

text \<open>
  The counterpart of \<open>Saga_Executor_Frame\<close> for the application's own state: the executor
  changes it only through the steps and the compensations of the saga. The locale
  \<open>app_effects\<close> states that each of them keeps a relation, and concludes that a whole
  execution keeps it, for every configuration, context, stored state and pattern of adapter
  failures.
\<close>

definition on_app_part :: "('w \<Rightarrow> 'w \<Rightarrow> bool) \<Rightarrow> 'w world \<Rightarrow> 'w world \<Rightarrow> bool" where
  "on_app_part R w w' \<longleftrightarrow> R (w_app w) (w_app w')"

lemma on_app_part_frame: "em_frame R \<Longrightarrow> em_frame (on_app_part R)"
  unfolding em_frame_def on_app_part_def by blast

lemma on_app_part_on_app: "em_rel R m \<Longrightarrow> em_rel (on_app_part R) (on_app m)"
  by (auto simp: em_rel_def on_app_part_def on_app_def ezoom_def split: prod.splits) (metis snd_conv)

locale app_effects = em_frame R for R :: "'w \<Rightarrow> 'w \<Rightarrow> bool" +
  fixes sg :: "('w, 'r) saga"
  assumes step_keeps: "step \<in> set (sg_steps sg) \<Longrightarrow> sp_execute step ctx a = (out, n, a') \<Longrightarrow> R a a'"
    and undo_keeps: "step \<in> set (sg_steps sg) \<Longrightarrow> sp_compensate step = Some undo \<Longrightarrow> em_rel R (undo ctx r)"
begin

lemma lifted: "em_frame (on_app_part R)"
  by (rule on_app_part_frame) (rule em_frame_axioms)

lemmas lifted_intros = em_frame.rel_intros [OF lifted]

lemma keeps_on_db: "em_rel (on_app_part R) (on_db m)"
  by (auto simp: em_rel_def on_app_part_def on_db_def ezoom_def frame_refl split: prod.splits)

lemma keeps_store: "em_rel (on_app_part R) (store m)"
  unfolding store_def by (intro em_frame.rel_map_err [OF lifted] keeps_on_db)

lemma keeps_emodify: "(\<And>w. w_app (f w) = w_app w) \<Longrightarrow> em_rel (on_app_part R) (emodify f)"
  by (simp add: em_rel_def on_app_part_def emodify_def frame_refl)

lemma keeps_audit: "em_rel (on_app_part R) (auditSagaLifecycle ex name ctx phase i d e)"
  unfolding auditSagaLifecycle_def audit_record_def
  by (auto intro!: lifted_intros keeps_on_db keeps_emodify)

lemma keeps_race: "step \<in> set (sg_steps sg) \<Longrightarrow> em_rel (on_app_part R) (run_race ex step ctx i)"
proof (rule em_relI)
  fix w :: "'w world"
  assume step: "step \<in> set (sg_steps sg)"
  obtain out n app where s: "sp_execute step ctx (w_app w) = (out, n, app)" by (cases "sp_execute step ctx (w_app w)")
  then show "on_app_part R w (snd (run_race ex step ctx i w))"
    using step_keeps [OF step s] by (auto simp: run_race_def on_app_part_def Let_def split: step_outcome.splits)
qed

lemma keeps_run_steps: "set steps \<subseteq> set (sg_steps sg) \<Longrightarrow> em_rel (on_app_part R) (run_steps ex ctx sid i rs steps)"
  by (induction steps arbitrary: i rs) (auto intro!: lifted_intros keeps_store keeps_race simp: persist_results_def)

lemma keeps_executeSaga: "em_rel (on_app_part R) (executeSaga ex sg ctx sid)"
  unfolding executeSaga_def by (auto intro!: lifted_intros keeps_store keeps_run_steps split: abort.splits)

lemma keeps_compensate_loop: "n \<le> length (sg_steps sg) \<Longrightarrow> em_rel (on_app_part R) (compensate_loop ex sg ctx sid n cr)"
proof (induction n arbitrary: cr)
  case (Suc n)
  have "sg_steps sg ! n \<in> set (sg_steps sg)" using Suc.prems by simp
  then show ?case
    using Suc by (auto intro!: lifted_intros keeps_store on_app_part_on_app undo_keeps
        simp: compensate_step_def Let_def split: prod.splits bool.splits option.splits)
qed (simp add: em_frame.rel_return [OF lifted])

lemma found_index: "find_index P xs = Some i \<Longrightarrow> i < length xs"
  by (induction xs arbitrary: i) (auto split: if_splits)

lemma keeps_compensate: "em_rel (on_app_part R) (compensate ex sg ctx sid name)"
  unfolding compensate_def
  by (auto intro!: lifted_intros keeps_store keeps_compensate_loop dest: found_index split: option.splits)

lemma keeps_handle_error: "em_rel (on_app_part R) (handle_error ex sg ctx sid t e)"
  unfolding handle_error_def mark_failed_def
  by (auto intro!: lifted_intros keeps_on_db keeps_store keeps_audit keeps_compensate split: saga_error.splits)

lemma keeps_body: "em_rel (on_app_part R) (saga_body ex sg ctx st0 t)"
  unfolding saga_body_def claim_key_def Let_def
  by (auto intro!: lifted_intros keeps_store keeps_on_db keeps_audit keeps_executeSaga split: option.splits)

lemma keeps_acquire_phase: "em_rel (on_app_part R) (acquire_phase ex rk st0)"
  unfolding acquire_phase_def Let_def by (auto intro!: lifted_intros keeps_store keeps_on_db split: option.splits)

lemma keeps_cleanup: "em_rel (on_app_part R) (cleanup ex rk lock sid)"
  unfolding cleanup_def by (auto intro!: lifted_intros keeps_store split: option.splits)

lemma keeps_run_locked: "em_rel (on_app_part R) (run_locked ex sg ctx sid t)"
proof (rule em_relI)
  fix w :: "'w world"
  let ?st0 = "initial_state ex sg ctx sid (clock (w_db w))"
  let ?rk = "getResourceKey ctx"
  obtain r w1 where a: "acquire_phase ex ?rk ?st0 w = (r, w1)" by fastforce
  have one: "on_app_part R w w1" by (rule em_relD' [OF keeps_acquire_phase a])
  have two: "em_rel (on_app_part R) (efinally (handle_error ex sg ctx sid t e) (cleanup ex ?rk None sid))"
    "em_rel (on_app_part R) (efinally (ecatch (saga_body ex sg ctx ?st0 t) (handle_error ex sg ctx sid t)) (cleanup ex ?rk lock sid))"
    for e lock
    by (intro lifted_intros keeps_body keeps_handle_error keeps_cleanup)+
  show "on_app_part R w (snd (run_locked ex sg ctx sid t w))"
    using a one em_relD [OF two(1), where s = w1] em_relD [OF two(2), where s = w1]
    by (cases r) (auto simp: run_locked_def Let_def on_app_part_def intro: frame_trans)
qed

lemma execute_app: "em_rel (on_app_part R) (execute ex sg sid ctx)"
  unfolding execute_def Let_def
  by (auto intro!: lifted_intros keeps_on_db keeps_run_locked split: option.splits)

end

end
