(* ===== verification/Em_Ensures.thy ===== *)
theory Em_Ensures
  imports Civic_Prelude
begin

section \<open>Invariants with results\<close>

text \<open>
  \<open>ensures I m Q\<close>: from a state with the invariant \<open>I\<close> the computation \<open>m\<close> ends in a state with
  \<open>I\<close>, whether it throws or not, and a result it returns satisfies \<open>Q\<close>. The frame conditions of
  the prelude say nothing of results; here what a read returns can be used by the write after it.
\<close>

definition ensures :: "('s \<Rightarrow> bool) \<Rightarrow> ('s, 'e, 'a) em \<Rightarrow> ('a \<Rightarrow> bool) \<Rightarrow> bool" where
  "ensures I m Q \<longleftrightarrow> (\<forall>s. I s \<longrightarrow> I (snd (m s)) \<and> (\<forall>a. fst (m s) = Inr a \<longrightarrow> Q a))"

abbreviation any :: "'a \<Rightarrow> bool" where
  "any \<equiv> \<lambda>_. True"

named_theorems ensures_intros \<open>rules for invariants with results\<close>

lemma ensuresI: "(\<And>s. I s \<Longrightarrow> I (snd (m s))) \<Longrightarrow> (\<And>s a. I s \<Longrightarrow> fst (m s) = Inr a \<Longrightarrow> Q a) \<Longrightarrow> ensures I m Q"
  by (auto simp: ensures_def)

lemma ensuresD: "ensures I m Q \<Longrightarrow> I s \<Longrightarrow> m s = (r, s') \<Longrightarrow> I s' \<and> (\<forall>a. r = Inr a \<longrightarrow> Q a)"
  unfolding ensures_def by (metis fst_conv snd_conv)

lemma ensures_post: "ensures I m P \<Longrightarrow> (\<And>a. P a \<Longrightarrow> Q a) \<Longrightarrow> ensures I m Q"
  by (auto simp: ensures_def)

lemma ensures_any: "ensures I m P \<Longrightarrow> ensures I m any"
  by (auto simp: ensures_def)

lemma ensures_bind:
  assumes "ensures I m P" and "\<And>a. P a \<Longrightarrow> ensures I (f a) Q"
  shows "ensures I (ebind m f) Q"
proof -
  have "I (snd (ebind m f s)) \<and> (\<forall>b. fst (ebind m f s) = Inr b \<longrightarrow> Q b)" if "I s" for s
  proof -
    obtain r t where m: "m s = (r, t)" by (cases "m s")
    note t = ensuresD [OF assms(1) that m]
    show ?thesis
    proof (cases r)
      case (Inl e)
      with m t show ?thesis by (simp add: ebind_def)
    next
      case (Inr a)
      with t have "P a" and it: "I t" by auto
      from assms(2) [OF this(1)] it show ?thesis using m Inr by (auto simp: ebind_def ensures_def)
    qed
  qed
  then show ?thesis by (simp add: ensures_def)
qed

lemma ensures_seq: "ensures I m any \<Longrightarrow> ensures I n Q \<Longrightarrow> ensures I (eseq m n) Q"
  unfolding eseq_def by (rule ensures_bind)

lemma ensures_return [ensures_intros]: "Q a \<Longrightarrow> ensures I (ereturn a) Q"
  by (simp add: ensures_def ereturn_def)

lemma ensures_throw [ensures_intros]: "ensures I (ethrow e) Q"
  by (simp add: ensures_def ethrow_def)

lemma ensures_get: "(\<And>s. I s \<Longrightarrow> Q (f s)) \<Longrightarrow> ensures I (eget f) Q"
  by (simp add: ensures_def eget_def)

lemma ensures_modify: "(\<And>s. I s \<Longrightarrow> I (f s)) \<Longrightarrow> ensures I (emodify f) any"
  by (simp add: ensures_def emodify_def)

lemma ensures_catch: "ensures I m Q \<Longrightarrow> (\<And>e. ensures I (h e) Q) \<Longrightarrow> ensures I (ecatch m h) Q"
  unfolding ensures_def ecatch_def by (auto split: prod.splits sum.splits)

lemma ensures_quiet: "ensures I m any \<Longrightarrow> ensures I (equiet m) any"
  by (simp add: ensures_def equiet_def)

lemma ensures_when: "ensures I m any \<Longrightarrow> ensures I (ewhen b m) any"
  by (simp add: ewhen_def ensures_return)

lemma ensures_map_err: "ensures I m Q \<Longrightarrow> ensures I (emap_err f m) Q"
  unfolding ensures_def emap_err_def by (auto split: prod.splits sum.splits)

lemmas ensures_control = ensures_return ensures_throw ensures_seq ensures_catch ensures_quiet ensures_when ensures_map_err

lemma ensures_rel: "ensures I m any \<longleftrightarrow> em_rel (\<lambda>s t. I s \<longrightarrow> I t) m"
  by (simp add: ensures_def em_rel_def)

lemma ensures_zoom:
  assumes "ensures I m Q" and "\<And>t s. get (put s t) = s"
  shows "ensures (\<lambda>t. I (get t)) (ezoom get put m) Q"
  using assms unfolding ensures_def ezoom_def by (auto split: prod.splits)

end
