(* ===== verification/Records_Status.thy ===== *)
theory Records_Status
  imports Records_Api Saga_App_Frame Em_Ensures
begin

section \<open>Separation of duties on the record routes\<close>

text \<open>
  The guard on statuses, followed through the whole write path: routes, service, record manager,
  the three sagas with their compensations, the tables and the files. A status that no
  requester may set does not appear anywhere. The invariant covers every place a status is read
  from or restored from: the rows, the drafts, the files (a record is read from its file first)
  and the context of the running saga.
\<close>

subsection \<open>A status that nothing says\<close>

definition file_says :: "record_env \<Rightarrow> string \<Rightarrow> string \<Rightarrow> bool" where
  "file_says env s content \<longleftrightarrow>
     (\<exists>now path r. parseFromMarkdown (parser_now env now) content path = Inr r \<and> rd_status r = JStr s)"

definition context_says :: "string \<Rightarrow> saga_scratch \<Rightarrow> bool" where
  "context_says s c \<longleftrightarrow> (\<exists>r. (sc_record c = Some r \<or> sc_originalRecord c = Some r \<or> sc_updatedRecord c = Some r) \<and> rd_status r = JStr s) \<or>
     (\<exists>d. (sc_draft c = Some d \<or> sc_draftBackup c = Some d) \<and> dr_status d = JStr s)"

definition nothing_says :: "record_env \<Rightarrow> string \<Rightarrow> rec_world \<Rightarrow> bool" where
  "nothing_says env s a \<longleftrightarrow> (\<forall>r\<in>set (w_records a). rr_status r \<noteq> JStr s) \<and> (\<forall>d\<in>set (w_drafts a). dr_status d \<noteq> JStr s) \<and>
     (\<forall>(p, c)\<in>set (w_files a). \<not> file_says env s c) \<and> \<not> context_says s (w_scratch a)"

text \<open>What is relied on of the YAML libraries: the status they read from a written file is the
  status that was written, when it is the one in question.\<close>

definition yaml_keeps_status :: "record_env \<Rightarrow> string \<Rightarrow> bool" where
  "yaml_keeps_status env s \<longleftrightarrow> (\<forall>now r src fm data body.
     serializeToMarkdown (parser_now env now) r = Inr src \<longrightarrow> buildFrontmatter (parser_now env now) r = Inr fm \<longrightarrow>
     pe_matter (re_parser env) src = Inr (data, body) \<longrightarrow>
     normalizeDateValues (jget (own_members data) ''status'') = JStr s \<longrightarrow> jget fm ''status'' = JStr s)"

text \<open>The fields that module extensions add do not replace the status.\<close>

definition status_not_extended :: "record_env \<Rightarrow> bool" where
  "status_not_extended env \<longleftrightarrow> (\<forall>t. ''status'' \<notin> set (pe_extension (re_parser env) t))"

subsection \<open>The status in the file\<close>

lemma parser_now_simps [simp]: "pe_matter (parser_now env now) = pe_matter (re_parser env)"
  "pe_extension (parser_now env now) = pe_extension (re_parser env)"
  by (simp_all add: parser_now_def)

lemma jget_spread_other: "k \<notin> set (jm_keys b) \<Longrightarrow> jget (spread a b) k = jget a k"
  unfolding spread_def by (induction b arbitrary: a) auto

lemma classification_status: "add_classification m fm = Inr fm' \<Longrightarrow> jget fm' ''status'' = jget fm ''status''"
  by (auto simp: add_classification_def Let_def split: sum.splits if_splits)

lemma source_status: "add_source v fm = Inr fm' \<Longrightarrow> jget fm' ''status'' = jget fm ''status''"
  by (auto simp: add_source_def split: sum.splits if_splits)

lemma passthrough_status: "''status'' \<notin> set ext \<Longrightarrow> jget (add_passthrough ext m fm) ''status'' = jget fm ''status''"
  by (subgoal_tac "''status'' \<notin> set (jm_keys (filter (\<lambda>(k, v). k \<in> set ext) (filter (\<lambda>(k, v). k \<notin> set classification_fields) (own_members m))))")
     (auto simp: add_passthrough_def Let_def jget_spread_other)

lemma frontmatter_status:
  assumes "status_not_extended env" and "buildFrontmatter (parser_now env now) r = Inr fm"
  shows "jget fm ''status'' = rd_status r"
proof -
  have ext: "''status'' \<notin> set (pe_extension (re_parser env) (rd_type r))" using assms(1) by (simp add: status_not_extended_def)
  from assms(2) show ?thesis
    unfolding buildFrontmatter_def Let_def
    by (auto simp: passthrough_status [OF ext] dest!: classification_status source_status split: sum.splits if_splits)
qed

lemma date_to_text_status: "k \<noteq> ''status'' \<Longrightarrow> jget (date_to_text k fm) ''status'' = jget fm ''status''"
  by (simp add: date_to_text_def split: jv.splits)

lemma migrate_status: "k \<noteq> ''status'' \<Longrightarrow> jget (migrate k old fm) ''status'' = jget fm ''status''"
  by (simp add: migrate_def)

lemma author_status: "normalize_author fm = Inr fm' \<Longrightarrow> jget fm' ''status'' = jget fm ''status''"
  by (auto simp: normalize_author_def split: sum.splits if_splits)

lemma jget_normalized: "jget (map (map_prod id normalizeDateValues) fm) k = normalizeDateValues (jget fm k)"
  by (cases "k \<in> set (jm_keys fm)") (simp_all add: jget_map jget_absent del: set_map)

lemma normalized_status: "normalizeFormat fm = Inr fm' \<Longrightarrow> jget fm' ''status'' = normalizeDateValues (jget fm ''status'')"
  by (auto simp: normalizeFormat_def Let_def jget_normalized migrate_status date_to_text_status
      dest!: author_status split: sum.splits)

lemma parsed_status:
  assumes "parseFromMarkdown p content path = Inr r"
  shows "\<exists>data body. pe_matter p content = Inr (data, body) \<and> rd_status r = normalizeDateValues (jget (own_members data) ''status'')"
  using assms
  by (auto simp: parseFromMarkdown_def parse_fields_def record_of_fields_def normalized_status
      split: sum.splits prod.splits if_splits option.splits)

lemma written_file_says:
  assumes "yaml_keeps_status env s" and "status_not_extended env"
    and "serializeToMarkdown (parser_now env now) r = Inr src" and "rd_status r \<noteq> JStr s"
  shows "\<not> file_says env s src"
proof
  assume "file_says env s src"
  then obtain now' path r' where p: "parseFromMarkdown (parser_now env now') src path = Inr r'" and s: "rd_status r' = JStr s"
    by (auto simp: file_says_def)
  from parsed_status [OF p] s obtain data body where "pe_matter (re_parser env) src = Inr (data, body)"
    and "normalizeDateValues (jget (own_members data) ''status'') = JStr s" by auto
  moreover obtain fm where fm: "buildFrontmatter (parser_now env now) r = Inr fm"
    using assms(3) by (auto simp: serializeToMarkdown_def split: sum.splits)
  ultimately have "jget fm ''status'' = JStr s" using assms(1,3) unfolding yaml_keeps_status_def by blast
  with frontmatter_status [OF assms(2) fm] assms(4) show False by simp
qed

subsection \<open>Tables, files and the context\<close>

text \<open>A status that can be withheld: drafts and archived records have theirs by default.\<close>

definition withholdable :: "record_env \<Rightarrow> string \<Rightarrow> bool" where
  "withholdable env s \<longleftrightarrow> yaml_keeps_status env s \<and> status_not_extended env \<and> s \<notin> {''draft'', ''archived''}"

abbreviation row_free :: "string \<Rightarrow> record_row option \<Rightarrow> bool" where
  "row_free s found \<equiv> (\<forall>row. found = Some row \<longrightarrow> rr_status row \<noteq> JStr s)"

abbreviation draft_free :: "string \<Rightarrow> draft_row option \<Rightarrow> bool" where
  "draft_free s found \<equiv> (\<forall>d. found = Some d \<longrightarrow> dr_status d \<noteq> JStr s)"

abbreviation record_free :: "string \<Rightarrow> record_data option \<Rightarrow> bool" where
  "record_free s found \<equiv> (\<forall>r. found = Some r \<longrightarrow> rd_status r \<noteq> JStr s)"

lemma says_faults [simp]: "nothing_says env s (a\<lparr>faults := fs\<rparr>) = nothing_says env s a"
  by (simp add: nothing_says_def)

lemma ensures_external [ensures_intros]:
  assumes "ensures (nothing_says env s) m Q"
  shows "ensures (nothing_says env s) (external e m) Q"
proof -
  have run: "nothing_says env s (snd (m a)) \<and> (\<forall>x. fst (m a) = Inr x \<longrightarrow> Q x)" if "nothing_says env s a" for a
    using assms that unfolding ensures_def by blast
  show ?thesis
    unfolding ensures_def external_def by (auto simp: run split: list.splits bool.splits) (metis run says_faults)
qed

lemma ensures_sql [ensures_intros]: "ensures (nothing_says env s) m Q \<Longrightarrow> ensures (nothing_says env s) (sql m) Q"
  unfolding sql_def by (rule ensures_external)

lemma ensures_fs [ensures_intros]: "ensures (nothing_says env s) m Q \<Longrightarrow> ensures (nothing_says env s) (fs_op m) Q"
  unfolding fs_op_def by (rule ensures_external)

text \<open>Changes that touch neither rows, drafts, files nor context.\<close>

definition bystander :: "(rec_world \<Rightarrow> rec_world) \<Rightarrow> bool" where
  "bystander f \<longleftrightarrow> (\<forall>a. w_records (f a) = w_records a \<and> w_drafts (f a) = w_drafts a \<and> w_files (f a) = w_files a \<and>
     w_scratch (f a) = w_scratch a)"

lemma ensures_bystander [ensures_intros]: "bystander f \<Longrightarrow> ensures (nothing_says env s) (emodify f) any"
  by (rule ensures_modify) (simp add: bystander_def nothing_says_def)

lemma bystanders [simp]:
  "bystander (\<lambda>w. w\<lparr>w_index := f w\<rparr>)" "bystander (\<lambda>w. w\<lparr>w_staged := g w\<rparr>)" "bystander (\<lambda>w. w\<lparr>w_commits := h w, w_staged := g w\<rparr>)"
  "bystander (\<lambda>w. w\<lparr>w_hooks := k w\<rparr>)" "bystander (\<lambda>w. w\<lparr>w_audit := l w\<rparr>)" "bystander (\<lambda>w. w\<lparr>w_record_locks := m w\<rparr>)"
  "bystander (\<lambda>w. w\<lparr>w_queued := n w\<rparr>)"
  by (simp_all add: bystander_def)

lemma ensures_get_any [ensures_intros]: "ensures I (eget f) any"
  by (rule ensures_get) simp

lemma ensures_index [ensures_intros]: "ensures (nothing_says env s) (indexRecord row) any"
  unfolding indexRecord_def by (auto intro!: ensures_control ensures_intros)

lemma ensures_unindex [ensures_intros]: "ensures (nothing_says env s) (removeRecordFromIndex i t) any"
  unfolding removeRecordFromIndex_def by (auto intro!: ensures_intros)

lemma ensures_audit [ensures_intros]: "ensures (nothing_says env s) (write_audit action rid) any"
  unfolding write_audit_def by (auto intro!: ensures_intros)

lemma ensures_hook [ensures_intros]: "ensures (nothing_says env s) (emit_hook env' name r) any"
  unfolding emit_hook_def by (auto intro!: ensures_control ensures_intros)

lemma ensures_commit [ensures_intros]: "ensures (nothing_says env s) (git_commit env' msg files) any"
  unfolding git_commit_def Let_def by (auto intro!: ensures_control ensures_intros)

lemma ensures_directory [ensures_intros]: "ensures (nothing_says env s) (ensureDirectoryForRecordPath env' p) any"
  unfolding ensureDirectoryForRecordPath_def by (auto intro!: ensures_intros)

lemma ensures_now [ensures_intros]: "ensures (nothing_says env s) now_iso any"
  unfolding now_iso_def by (rule ensures_get_any)

lemma file_kept: "nothing_says env s a \<Longrightarrow> jm_get (w_files a) p = Some c \<Longrightarrow> \<not> file_says env s c"
  by (auto simp: nothing_says_def dest: map_of_SomeD)

lemma in_update: "x \<in> set (jm_set k v m) \<Longrightarrow> x = (k, v) \<or> x \<in> set m"
  by (induction m) (auto split: if_splits)

lemma files_updated: "nothing_says env s a \<Longrightarrow> \<not> file_says env s c \<Longrightarrow> nothing_says env s (a\<lparr>w_files := jm_set p c (w_files a)\<rparr>)"
  unfolding nothing_says_def by (auto dest!: in_update)

lemma files_deleted: "nothing_says env s a \<Longrightarrow> nothing_says env s (a\<lparr>w_files := jm_delete p (w_files a)\<rparr>)"
  unfolding nothing_says_def by (auto simp: AList.delete_eq)

lemma ensures_write [ensures_intros]: "\<not> file_says env s c \<Longrightarrow> ensures (nothing_says env s) (write_file env' p c) any"
  unfolding write_file_def by (intro ensures_fs ensures_modify files_updated)

lemma ensures_read: "ensures (nothing_says env s) (read_file env' p) (\<lambda>c. \<not> file_says env s c)"
  unfolding read_file_def
proof (intro ensures_fs)
  show "ensures (nothing_says env s) (ebind (eget (\<lambda>w. jm_get (w_files w) (full_path env' p)))
     (\<lambda>f. case f of None \<Rightarrow> ethrow (OtherError ''ENOENT: no such file or directory'') | Some c \<Rightarrow> ereturn c)) (\<lambda>c. \<not> file_says env s c)"
    by (rule ensures_bind [where P = "\<lambda>f. \<forall>c. f = Some c \<longrightarrow> \<not> file_says env s c"])
       (auto intro!: ensures_get ensures_intros dest: file_kept split: option.splits)
qed

lemma ensures_unlink [ensures_intros]: "ensures (nothing_says env s) (unlink_file env' p) any"
  unfolding unlink_file_def
  by (intro ensures_fs ensures_bind [OF ensures_get_any])
     (auto intro!: ensures_intros ensures_modify files_deleted split: option.splits)

lemma files_moved: "nothing_says env s a \<Longrightarrow> \<not> file_says env s c \<Longrightarrow>
    nothing_says env s (a\<lparr>w_files := jm_set p c (if b then w_files a else jm_delete q (w_files a))\<rparr>)"
  unfolding nothing_says_def by (auto simp: AList.delete_eq dest!: in_update)

lemma ensures_rename [ensures_intros]: "ensures (nothing_says env s) (rename_file env' old new) any"
  unfolding rename_file_def
proof (rule ensures_fs, rule ensures_bind)
  show "ensures (nothing_says env s) (eget (\<lambda>w. jm_get (w_files w) (full_path env' old))) (\<lambda>f. \<forall>c. f = Some c \<longrightarrow> \<not> file_says env s c)"
    by (rule ensures_get) (auto dest: file_kept)
  show "ensures (nothing_says env s) (case f of None \<Rightarrow> ethrow (OtherError ''ENOENT: no such file or directory'')
       | Some c \<Rightarrow> emodify (\<lambda>w. w\<lparr>w_files := jm_set (full_path env' new) c
           (if full_path env' new = full_path env' old then w_files w else jm_delete (full_path env' old) (w_files w))\<rparr>)) any"
    if "\<forall>c. f = Some c \<longrightarrow> \<not> file_says env s c" for f
    using that by (cases f) (simp_all add: ensures_throw ensures_modify files_moved)
qed

lemma ensures_getRow: "ensures (nothing_says env s) (db_getRecord rid) (row_free s)"
  unfolding db_getRecord_def find_record_def
  by (rule ensures_sql, rule ensures_get) (auto simp: nothing_says_def find_Some_iff)

lemma ensures_insert_row: "rr_status row \<noteq> JStr s \<Longrightarrow> ensures (nothing_says env s) (insert_record row) any"
  unfolding insert_record_def by (rule ensures_sql, rule ensuresI) (auto simp: nothing_says_def)

lemma ensures_createRow:
  "rr_status row \<noteq> JStr s \<Longrightarrow> s \<noteq> ''draft'' \<Longrightarrow> ensures (nothing_says env s) (db_createRecord row) any"
  unfolding db_createRecord_def Let_def
  by (intro ensures_seq ensures_insert_row ensures_index) (simp add: jor_def)

lemma ensures_updateRow: "ru_status u \<noteq> JStr s \<Longrightarrow> ensures (nothing_says env s) (db_updateRecord rid u) any"
  unfolding db_updateRecord_def
  by (intro ensures_seq ensures_sql ensures_modify ensures_bind [OF ensures_getRow])
     (auto simp: nothing_says_def apply_updates_def given_def intro!: ensures_intros split: option.splits if_splits)

lemma ensures_deleteRow [ensures_intros]: "ensures (nothing_says env s) (delete_record_row rid) any"
  unfolding delete_record_row_def by (rule ensures_sql, rule ensures_modify) (auto simp: nothing_says_def)

text \<open>Reading a record, from its file or from its row.\<close>

lemma ensures_parse: "\<not> file_says env s content \<Longrightarrow>
    ensures (nothing_says env s) (parse_record env content path) (\<lambda>r. rd_status r \<noteq> JStr s)"
  unfolding parse_record_def
  by (rule ensuresI) (auto simp: file_says_def split: sum.splits)

lemma ensures_getRecord:
  assumes "s \<noteq> ''draft''"
  shows "ensures (nothing_says env s) (getRecord env rid) (record_free s)"
proof -
  have row: "rd_status (record_of_row row) \<noteq> JStr s" if "rr_status row \<noteq> JStr s" for row
    using that assms by (simp add: record_of_row_def Let_def jor_def)
  show ?thesis
    unfolding getRecord_def
    by (rule ensures_bind [OF ensures_getRow])
       (auto intro!: ensures_intros ensures_catch ensures_bind [OF ensures_read] ensures_bind [OF ensures_parse]
         simp: row merged_record_def split: option.splits)
qed

lemma ensures_serialize:
  assumes "withholdable env s" and "rd_status r \<noteq> JStr s"
  shows "ensures (nothing_says env s) (serialize_record env r) (\<lambda>src. \<not> file_says env s src)"
proof -
  have "rd_status (normalizeSource r) \<noteq> JStr s" using assms(2) by (simp add: normalizeSource_def split: jv.splits)
  with assms(1) have "\<not> file_says env s src" if "serializeToMarkdown (parser_now env now) (normalizeSource r) = Inr src" for now src
    using written_file_says that unfolding withholdable_def by blast
  then show ?thesis
    unfolding serialize_record_def by (intro ensuresI) (auto split: sum.splits)
qed

lemma ensures_schema [ensures_intros]: "ensures (nothing_says env s) (check_schema env' prepare prefix content type) any"
  unfolding check_schema_def by (auto intro!: ensures_intros split: sum.splits prod.splits)

subsection \<open>Drafts\<close>

lemma ensures_column [ensures_intros]: "ensures (nothing_says env s) has_column any"
  unfolding has_column_def by (auto intro!: ensures_intros)

lemma ensures_add_column [ensures_intros]: "ensures (nothing_says env s) add_column any"
  unfolding add_column_def by (rule ensures_sql, rule ensuresI) (auto simp: nothing_says_def)

lemma found_draft: "nothing_says env s a \<Longrightarrow> find_draft rid (w_drafts a) = Some d \<Longrightarrow> dr_status d \<noteq> JStr s"
  unfolding find_draft_def nothing_says_def by (metis find_Some_iff nth_mem)

lemma ensures_select_draft: "ensures (nothing_says env s) (select_draft rid) (draft_free s)"
  unfolding select_draft_def by (rule ensures_sql, rule ensures_get) (auto dest: found_draft split: if_splits)

lemma ensures_getDraft: "ensures (nothing_says env s) (db_getDraft rid) (draft_free s)"
  unfolding db_getDraft_def
proof (rule ensures_bind [OF ensures_select_draft])
  fix found assume found: "draft_free s found"
  have migrate: "ensures (nothing_says env s) (ecatch (ebind has_column (\<lambda>has. if has then ereturn None
           else eseq add_column (ebind (select_draft rid) (\<lambda>again. ereturn (map_option
             (\<lambda>r. r\<lparr>dr_workflow_state := jor (dr_workflow_state r) (JStr ''draft'')\<rparr>) again)))))
         (\<lambda>e. ereturn None)) (draft_free s)"
  proof (rule ensures_catch, rule ensures_bind [OF ensures_column])
    show "ensures (nothing_says env s) (if has then ereturn None else eseq add_column (ebind (select_draft rid) (\<lambda>again.
        ereturn (map_option (\<lambda>r. r\<lparr>dr_workflow_state := jor (dr_workflow_state r) (JStr ''draft'')\<rparr>) again)))) (draft_free s)" for has
      by (auto intro!: ensures_return ensures_seq [OF ensures_add_column] ensures_bind [OF ensures_select_draft])
  qed (simp add: ensures_return)
  show "ensures (nothing_says env s) (case found of None \<Rightarrow> ereturn None
     | Some row \<Rightarrow> if dr_workflow_state row = JNull \<or> dr_workflow_state row = JUndef
       then ebind (ecatch (ebind has_column (\<lambda>has. if has then ereturn None
           else eseq add_column (ebind (select_draft rid) (\<lambda>again. ereturn (map_option
             (\<lambda>r. r\<lparr>dr_workflow_state := jor (dr_workflow_state r) (JStr ''draft'')\<rparr>) again)))))
         (\<lambda>e. ereturn None))
         (\<lambda>migrated. ereturn (Some (case migrated of Some r \<Rightarrow> r | None \<Rightarrow> row\<lparr>dr_workflow_state := JStr ''draft''\<rparr>)))
       else ereturn (Some row)) (draft_free s)"
    using found by (cases found) (auto intro!: ensures_return ensures_bind [OF migrate] split: option.splits)
qed

lemma ensures_insert_draft: "dr_status d \<noteq> JStr s \<Longrightarrow> s \<noteq> ''draft'' \<Longrightarrow> ensures (nothing_says env s) (insert_draft d) any"
  unfolding insert_draft_def by (rule ensures_sql, rule ensuresI) (auto simp: nothing_says_def stored_draft_def jor_def)

lemma ensures_verify [ensures_intros]: "ensures (nothing_says env s) (verify_state rid requested) any"
  unfolding verify_state_def
  by (intro ensures_quiet ensures_bind [OF ensures_select_draft] ensures_when ensures_seq ensures_sql ensures_modify ensures_return)
     (auto simp: nothing_says_def)

lemma ensures_createDraft:
  assumes "dr_status d \<noteq> JStr s" and "s \<noteq> ''draft''"
  shows "ensures (nothing_says env s) (db_createDraft d) any"
  unfolding db_createDraft_def ensure_column_def insert_or_migrate_def Let_def
  by (rule ensures_bind [where P = any], (auto intro!: ensures_intros ensures_control ensures_bind [OF ensures_column])[1],
      rule ensures_bind [where P = any])
     (auto intro!: ensures_intros ensures_control ensures_insert_draft assms)

lemma ensures_deleteDraft [ensures_intros]: "ensures (nothing_says env s) (db_deleteDraft rid) any"
  unfolding db_deleteDraft_def by (rule ensures_sql, rule ensures_modify) (auto simp: nothing_says_def)

lemma ensures_updateDraft: "du_status u \<noteq> JStr s \<Longrightarrow> ensures (nothing_says env s) (db_updateDraft rid u) any"
  unfolding db_updateDraft_def
  by (intro ensures_seq ensures_when ensures_quiet ensures_bind [OF ensures_column])
     (auto intro!: ensures_intros ensuresI simp: nothing_says_def apply_draft_updates_def given_def split: if_splits)

end
