(* ===== verification/Records_Duties.thy ===== *)
theory Records_Duties
  imports Records_Status
begin

section \<open>Separation of duties: sagas and routes\<close>

text \<open>
  The steps and compensations of the update, archive and publish sagas keep the invariant of
  \<open>Records_Status\<close>, so by \<open>app_effects\<close> a whole execution does; then the methods of the service
  and the routes. The requests may be of any kind, by several users, in any order, with any
  pattern of failing calls.
\<close>

subsection \<open>The context of a saga\<close>

lemma ensures_remember:
  assumes "\<And>c. \<not> context_says s c \<Longrightarrow> \<not> context_says s (f c)"
  shows "ensures (nothing_says env s) (remember f) any"
  unfolding remember_def by (rule ensures_modify) (use assms in \<open>auto simp: nothing_says_def\<close>)

lemma ensures_scratch:
  assumes "\<And>c. \<not> context_says s c \<Longrightarrow> P (f c)"
  shows "ensures (nothing_says env s) (scratch f) P"
  unfolding scratch_def by (rule ensures_get) (use assms in \<open>auto simp: nothing_says_def\<close>)

lemma ensures_need:
  assumes "\<And>c a. \<not> context_says s c \<Longrightarrow> f c = Some a \<Longrightarrow> P a"
    and "\<And>a. P a \<Longrightarrow> ensures (nothing_says env s) (k a) Q"
  shows "ensures (nothing_says env s) (need msg f k) Q"
  unfolding need_def
proof (rule ensures_bind)
  show "ensures (nothing_says env s) (scratch f) (\<lambda>x. \<forall>a. x = Some a \<longrightarrow> P a)"
    by (rule ensures_scratch) (use assms(1) in blast)
  show "ensures (nothing_says env s) (case x of None \<Rightarrow> ethrow (OtherError msg) | Some a \<Rightarrow> k a) Q" if "\<forall>a. x = Some a \<longrightarrow> P a" for x
    using that assms(2) by (cases x) (simp_all add: ensures_throw)
qed

lemma remember_path [ensures_intros]:
  "ensures (nothing_says env s) (remember (\<lambda>c. c\<lparr>sc_filePath := p\<rparr>)) any"
  "ensures (nothing_says env s) (remember (\<lambda>c. c\<lparr>sc_commitHash := h\<rparr>)) any"
  "ensures (nothing_says env s) (remember (\<lambda>c. c\<lparr>sc_archiveFilePath := p\<rparr>)) any"
  "ensures (nothing_says env s) (remember (\<lambda>c. c\<lparr>sc_recordExisted := b\<rparr>)) any"
  by (auto intro!: ensures_remember simp: context_says_def)

lemma remember_record:
  assumes "rd_status r \<noteq> JStr s"
  shows "ensures (nothing_says env s) (remember (\<lambda>c. c\<lparr>sc_record := Some r\<rparr>)) any"
    and "ensures (nothing_says env s) (remember (\<lambda>c. c\<lparr>sc_updatedRecord := Some r\<rparr>)) any"
    and "ensures (nothing_says env s) (remember (\<lambda>c. c\<lparr>sc_originalRecord := Some r\<rparr>)) any"
    and "ensures (nothing_says env s) (remember (\<lambda>c. c\<lparr>sc_originalRecord := Some r, sc_originalFilePath := p\<rparr>)) any"
  using assms by (auto intro!: ensures_remember simp: context_says_def)

lemma remember_draft:
  assumes "draft_free s found"
  shows "ensures (nothing_says env s) (remember (\<lambda>c. c\<lparr>sc_draft := found\<rparr>)) any"
    and "ensures (nothing_says env s) (remember (\<lambda>c. c\<lparr>sc_draftBackup := found\<rparr>)) any"
  using assms by (auto intro!: ensures_remember simp: context_says_def)

lemma ensures_need_any:
  assumes "\<And>a. ensures (nothing_says env s) (k a) Q"
  shows "ensures (nothing_says env s) (need msg f k) Q"
  by (rule ensures_need [where P = any]) (simp_all add: assms)

subsection \<open>Steps\<close>

definition frees :: "string \<Rightarrow> (saga_scratch \<Rightarrow> record_data option) \<Rightarrow> bool" where
  "frees s f \<longleftrightarrow> (\<forall>c r. \<not> context_says s c \<longrightarrow> f c = Some r \<longrightarrow> rd_status r \<noteq> JStr s)"

lemma frees_context [simp]: "frees s sc_record" "frees s sc_updatedRecord" "frees s sc_originalRecord"
  by (auto simp: frees_def context_says_def)

lemma ensures_file_step [ensures_intros]:
  assumes "withholdable env s" and "frees s f"
  shows "ensures (nothing_says env s) (file_step env missing f) any"
  unfolding file_step_def
proof (rule ensures_need)
  show "rd_status r \<noteq> JStr s" if "\<not> context_says s c" "f c = Some r" for c r
    using assms(2) that by (auto simp: frees_def)
  show "ensures (nothing_says env s) (case or_null (rd_path r) of
       None \<Rightarrow> ethrow (OtherError (''Record '' @ record_id_text r @ '' has no path''))
     | Some p \<Rightarrow> ebind (serialize_record env r) (\<lambda>content.
         eseq (check_schema env saga_frontmatter ''Schema validation failed: '' content (rd_type r))
         (eseq (ensureDirectoryForRecordPath env p)
         (eseq (write_file env p content)
         (eseq (remember (\<lambda>s. s\<lparr>sc_filePath := Some p\<rparr>)) (ereturn (TextV p))))))) any"
    if "rd_status r \<noteq> JStr s" for r
    by (auto intro!: ensures_throw ensures_bind [OF ensures_serialize [OF assms(1) that]] ensures_seq ensures_intros split: option.splits)
qed

lemma ensures_undo_file [ensures_intros]: "ensures (nothing_says env s) (undo_file env ctx r) any"
  unfolding undo_file_def by (auto intro!: ensures_intros ensures_quiet split: option.splits step_value.splits)

lemma ensures_commit_files [ensures_intros]: "ensures (nothing_says env s) (commit_files env msg files) any"
  unfolding commit_files_def by (auto intro!: ensures_bind [OF ensures_commit] ensures_seq ensures_intros)

lemma ensures_commit_step [ensures_intros]: "ensures (nothing_says env s) (commit_step env missing f verb) any"
  unfolding commit_step_def
  by (intro ensures_need_any ensures_bind [where P = any] ensures_scratch ensures_commit_files TrueI)

lemma ensures_queue [ensures_intros]: "ensures (nothing_says env s) (queue_indexing env) any"
  unfolding queue_indexing_def
  by (rule ensures_bind [where P = any]) (auto intro!: ensures_scratch ensures_seq ensures_when ensures_intros split: option.splits)

lemma ensures_hook_step [ensures_intros]: "ensures (nothing_says env s) (hook_step env missing name f result) any"
  unfolding hook_step_def by (intro ensures_need_any ensures_seq ensures_quiet ensures_hook ensures_return TrueI)

lemma ensures_no_undo [ensures_intros]: "ensures (nothing_says env s) (no_undo ctx r) any"
  unfolding no_undo_def by (rule ensures_return) simp

subsection \<open>Update\<close>

lemma updated_status: "rd_status (updated_record r q now) = given (uq_status q) (rd_status r)"
  by (simp add: updated_record_def updated_fields_def Let_def split: jv.splits)

lemma ensures_UpdateInRecords:
  assumes "s \<noteq> ''draft''" and "uq_status q \<noteq> JStr s"
  shows "ensures (nothing_says env s) (UpdateInRecords env q ctx) any"
  unfolding UpdateInRecords_def
  by (rule ensures_bind [OF ensures_getRecord [OF assms(1)]])
     (use assms in \<open>auto intro!: ensures_throw ensures_seq ensures_bind [OF ensures_now] ensures_updateRow remember_record
        ensures_return simp: Let_def request_updates_def updated_status given_def split: option.splits if_splits\<close>)

lemma ensures_undo_UpdateInRecords [ensures_intros]: "ensures (nothing_says env s) (undo_UpdateInRecords ctx r) any"
  unfolding undo_UpdateInRecords_def
  by (rule ensures_bind [where P = "record_free s"])
     (auto intro!: ensures_scratch ensures_updateRow ensures_return simp: original_updates_def context_says_def split: option.splits)

lemma ensures_undo_UpdateFile [ensures_intros]:
  assumes "withholdable env s"
  shows "ensures (nothing_says env s) (undo_UpdateFile env ctx r) any"
  unfolding undo_UpdateFile_def
  by (rule ensures_bind [where P = "record_free s"])
     (auto intro!: ensures_scratch ensures_return ensures_quiet ensures_bind [OF ensures_serialize [OF assms]] ensures_write
       simp: context_says_def split: option.splits step_value.splits)

lemma ensures_updateFile:
  assumes "withholdable env s" and "rd_status r \<noteq> JStr s"
  shows "ensures (nothing_says env s) (updateRecordFile env r) any"
  unfolding updateRecordFile_def write_record_file_def
  by (auto intro!: ensures_return ensures_bind [OF ensures_serialize [OF assms]] ensures_seq ensures_intros split: option.splits)

lemma ensures_update_direct:
  assumes "withholdable env s" and "uq_status q \<noteq> JStr s"
  shows "ensures (nothing_says env s) (updateRecord_direct env rid q) any"
proof -
  have s: "s \<noteq> ''draft''" using assms(1) by (simp add: withholdable_def)
  have kept: "rd_status (updated_record r q now) \<noteq> JStr s" if "rd_status r \<noteq> JStr s" for r now
    using that assms(2) by (simp add: updated_status given_def)
  show ?thesis
    unfolding updateRecord_direct_def Let_def
    by (rule ensures_bind [OF ensures_getRecord [OF s]])
       (auto intro!: ensures_return ensures_bind [OF ensures_now] ensures_seq ensures_when ensures_updateRow ensures_intros
         ensures_updateFile [OF assms(1)] kept simp: request_updates_def assms(2) split: option.splits)
qed

subsection \<open>Archive\<close>

lemma ensures_UpdateStatus:
  assumes "withholdable env s"
  shows "ensures (nothing_says env s) (UpdateStatusToArchived env user ctx) any"
proof -
  have s: "s \<noteq> ''draft''" "s \<noteq> ''archived''" using assms by (auto simp: withholdable_def)
  show ?thesis
    unfolding UpdateStatusToArchived_def
    by (rule ensures_bind [OF ensures_getRecord [OF s(1)]])
       (use s in \<open>auto intro!: ensures_throw ensures_return ensures_seq ensures_bind [OF ensures_now] ensures_bind [OF ensures_getRecord]
          ensures_updateRow remember_record simp: no_updates_def split: option.splits\<close>)
qed

lemma ensures_undo_UpdateStatus [ensures_intros]: "ensures (nothing_says env s) (undo_UpdateStatus ctx r) any"
  unfolding undo_UpdateStatus_def
  by (rule ensures_bind [where P = "record_free s"])
     (auto intro!: ensures_scratch ensures_updateRow ensures_return simp: context_says_def split: option.splits)

lemma ensures_MoveFile [ensures_intros]: "ensures (nothing_says env s) (MoveFileToArchive env ctx) any"
  unfolding MoveFileToArchive_def
  by (intro ensures_need_any ensures_bind [OF ensures_get_any] ensures_seq ensures_directory ensures_rename remember_path ensures_return TrueI)

lemma ensures_undo_MoveFile [ensures_intros]: "ensures (nothing_says env s) (undo_MoveFile env ctx r) any"
  unfolding undo_MoveFile_def
  by (rule ensures_bind [where P = any])
     (auto intro!: ensures_scratch ensures_return ensures_quiet ensures_seq ensures_intros split: option.splits step_value.splits)

lemma ensures_CommitArchive [ensures_intros]: "ensures (nothing_says env s) (CommitArchive env ctx) any"
  unfolding CommitArchive_def by (intro ensures_need_any ensures_commit_files)

lemma ensures_RemoveFromIndex [ensures_intros]: "ensures (nothing_says env s) (RemoveFromIndex ctx) any"
  unfolding RemoveFromIndex_def
  by (rule ensures_bind [where P = any])
     (auto intro!: ensures_scratch ensures_return ensures_seq ensures_quiet ensures_intros split: option.splits)

subsection \<open>Publish\<close>

lemma ensures_column_value [ensures_intros]: "ensures (nothing_says env s) (parse_column d t) any"
  unfolding parse_column_def by (auto intro!: ensures_intros split: option.splits json_text.splits)

lemma ensures_draft_columns:
  assumes "\<And>m g a l lg. ensures (nothing_says env s) (k m g a l lg) Q"
  shows "ensures (nothing_says env s) (draft_columns d k) Q"
  unfolding draft_columns_def by (intro ensures_bind [OF ensures_column_value] assms)

lemma ensures_store_new:
  assumes "withholdable env s" and "rd_status r \<noteq> JStr s"
  shows "ensures (nothing_says env s) (store_new_record env q rid r) (\<lambda>x. rd_status x \<noteq> JStr s)"
proof -
  have "ensures (nothing_says env s) (createRecordFile env r) any"
    unfolding createRecordFile_def write_record_file_def
    by (auto intro!: ensures_return ensures_bind [OF ensures_serialize [OF assms]] ensures_seq ensures_intros split: option.splits)
  moreover have "rr_status (row_of_record rid r) \<noteq> JStr s" using assms(2) by (simp add: row_of_record_def)
  moreover have "s \<noteq> ''draft''" using assms(1) by (simp add: withholdable_def)
  ultimately show ?thesis
    unfolding store_new_record_def using assms(2)
    by (intro ensures_seq ensures_createRow ensures_when ensures_audit ensures_hook ensures_return) auto
qed

lemma ensures_createWithId:
  assumes "withholdable env s" and "cq_status q \<noteq> JStr s"
  shows "ensures (nothing_says env s) (createRecordWithId env rid q user) (\<lambda>x. rd_status x \<noteq> JStr s)"
  unfolding createRecordWithId_def
  by (rule ensures_bind [OF ensures_get_any], rule ensures_store_new [OF assms(1)])
     (use assms in \<open>auto simp: withholdable_def plain_record_def record_of_request_def jor_def\<close>)

lemma ensures_MoveToRecords:
  assumes "withholdable env s" and "target \<noteq> JStr s"
  shows "ensures (nothing_says env s) (MoveToRecords env user target ctx) any"
  unfolding MoveToRecords_def
proof (rule ensures_bind [OF ensures_getDraft])
  fix found assume found: "draft_free s found"
  show "ensures (nothing_says env s) (case found of None \<Rightarrow> ethrow (OtherError (''Draft not found: '' @ ctx_draftId ctx))
   | Some d \<Rightarrow>
       eseq (remember (\<lambda>s. s\<lparr>sc_draft := Some d\<rparr>))
       (ebind (db_getRecord (ctx_draftId ctx)) (\<lambda>existing.
         let status = jor target (jor (dr_status d) (JStr ''draft'')) in
         eseq (remember (\<lambda>s. s\<lparr>sc_recordExisted := (existing \<noteq> None)\<rparr>))
         (ebind (draft_columns d (\<lambda>m g a l lg. ebind (eget clock) (\<lambda>now. case existing of
            Some row \<Rightarrow> let r = republished env row d status m g a l lg now in
              eseq (db_updateRecord (ctx_draftId ctx) (publish_updates r)) (ereturn r)
          | None \<Rightarrow> createRecordWithId env (ctx_draftId ctx) (publish_request d status m g a l lg (iso_string now)) user)))
         (\<lambda>r. eseq (remember (\<lambda>s. s\<lparr>sc_record := Some r\<rparr>)) (ereturn (RecordV r))))))) any"
  proof (cases found)
    case (Some d)
    let ?status = "jor target (jor (dr_status d) (JStr ''draft''))"
    have status: "?status \<noteq> JStr s" using assms found Some by (auto simp: withholdable_def jor_def)
    have saved: "ensures (nothing_says env s) (draft_columns d (\<lambda>m g a l lg. ebind (eget clock) (\<lambda>now. case existing of
            Some row \<Rightarrow> let r = republished env row d ?status m g a l lg now in
              eseq (db_updateRecord (ctx_draftId ctx) (publish_updates r)) (ereturn r)
          | None \<Rightarrow> createRecordWithId env (ctx_draftId ctx) (publish_request d ?status m g a l lg (iso_string now)) user)))
        (\<lambda>r. rd_status r \<noteq> JStr s)" for existing
      by (rule ensures_draft_columns, rule ensures_bind [OF ensures_get_any])
         (auto intro!: ensures_seq ensures_updateRow ensures_return ensures_createWithId [OF assms(1)]
           simp: status publish_updates_def no_updates_def republished_def publish_request_def Let_def split: option.splits)
    have "ensures (nothing_says env s) (remember (\<lambda>s. s\<lparr>sc_draft := Some d\<rparr>)) any"
      by (rule remember_draft) (use found Some in simp)
    then show ?thesis
      unfolding Some option.case Let_def
      by (intro ensures_seq ensures_bind [OF ensures_getRow] ensures_bind [OF saved [unfolded Let_def]] remember_path remember_record ensures_return) auto
  qed (simp add: ensures_throw)
qed

lemma ensures_undo_MoveToRecords [ensures_intros]: "ensures (nothing_says env s) (undo_MoveToRecords ctx r) any"
  unfolding undo_MoveToRecords_def
  by (rule ensures_bind [where P = any])
     (auto intro!: ensures_scratch ensures_return ensures_intros split: option.splits step_value.splits)

lemma ensures_DeleteDraft [ensures_intros]: "ensures (nothing_says env s) (DeleteDraft ctx) any"
  unfolding DeleteDraft_def
  by (rule ensures_bind [OF ensures_getDraft], intro ensures_seq ensures_when remember_draft ensures_deleteDraft ensures_return) auto

lemma ensures_undo_DeleteDraft:
  assumes "s \<noteq> ''draft''"
  shows "ensures (nothing_says env s) (undo_DeleteDraft ctx r) any"
  unfolding undo_DeleteDraft_def
  by (rule ensures_bind [where P = "draft_free s"])
     (auto intro!: ensures_scratch ensures_return ensures_quiet ensures_createDraft simp: context_says_def assms split: option.splits)

subsection \<open>Whole executions\<close>

definition stays_unsaid :: "record_env \<Rightarrow> string \<Rightarrow> bool \<Rightarrow> rec_world \<Rightarrow> rec_world \<Rightarrow> bool" where
  "stays_unsaid env s ok a b \<longleftrightarrow> (withholdable env s \<longrightarrow> ok \<longrightarrow> nothing_says env s a \<longrightarrow> nothing_says env s b)"

lemma unsaid_run:
  assumes "\<And>ctx. withholdable env s \<Longrightarrow> ok \<Longrightarrow> ensures (nothing_says env s) (run ctx) any"
  shows "sp_execute (make_step name c t run undo) ctx a = (out, n, b) \<Longrightarrow> stays_unsaid env s ok a b"
  using assms [of ctx] unfolding stays_unsaid_def ensures_def make_step_def
  by (auto split: prod.splits sum.splits) (metis snd_conv)+

lemma unsaid_undo:
  assumes "\<And>ctx r. withholdable env s \<Longrightarrow> ok \<Longrightarrow> ensures (nothing_says env s) (undo ctx r) any"
  shows "sp_compensate (make_step name c t run undo) = Some u \<Longrightarrow> em_rel (stays_unsaid env s ok) (u ctx r)"
  using assms [of ctx r] by (auto simp: stays_unsaid_def ensures_def make_step_def em_rel_def)

lemma unsaid_frame: "em_frame (stays_unsaid env s ok)"
  by unfold_locales (auto simp: stays_unsaid_def)

lemma withholdable_named: "withholdable env s \<Longrightarrow> s \<noteq> ''draft''" "withholdable env s \<Longrightarrow> s \<noteq> ''archived''"
  by (auto simp: withholdable_def)

interpretation update_effects: app_effects "stays_unsaid env s (uq_status q \<noteq> JStr s)" "UpdateRecordSaga env q" for env s q
proof (rule app_effects.intro [OF unsaid_frame], unfold_locales)
  fix step ctx a out n b
  assume "step \<in> set (sg_steps (UpdateRecordSaga env q))" and "sp_execute step ctx a = (out, n, b)"
  then show "stays_unsaid env s (uq_status q \<noteq> JStr s) a b"
    by (auto simp: UpdateRecordSaga_def elim!: unsaid_run [rotated]
        intro!: ensures_intros ensures_UpdateInRecords withholdable_named)
next
  fix step ctx undo r
  assume "step \<in> set (sg_steps (UpdateRecordSaga env q))" and "sp_compensate step = Some undo"
  then show "em_rel (stays_unsaid env s (uq_status q \<noteq> JStr s)) (undo ctx r)"
    by (auto simp: UpdateRecordSaga_def elim!: unsaid_undo [rotated] intro!: ensures_intros)
qed

interpretation archive_effects: app_effects "stays_unsaid env s True" "ArchiveRecordSaga env user" for env s user
proof (rule app_effects.intro [OF unsaid_frame], unfold_locales)
  fix step ctx a out n b
  assume "step \<in> set (sg_steps (ArchiveRecordSaga env user))" and "sp_execute step ctx a = (out, n, b)"
  then show "stays_unsaid env s True a b"
    by (auto simp: ArchiveRecordSaga_def withholdable_named elim!: unsaid_run [rotated]
        intro!: ensures_intros ensures_UpdateStatus)
next
  fix step ctx undo r
  assume "step \<in> set (sg_steps (ArchiveRecordSaga env user))" and "sp_compensate step = Some undo"
  then show "em_rel (stays_unsaid env s True) (undo ctx r)"
    by (auto simp: ArchiveRecordSaga_def elim!: unsaid_undo [rotated] intro!: ensures_intros)
qed

interpretation publish_effects: app_effects "stays_unsaid env s (target \<noteq> JStr s)" "PublishDraftSaga env user target" for env s target user
proof (rule app_effects.intro [OF unsaid_frame], unfold_locales)
  fix step ctx a out n b
  assume "step \<in> set (sg_steps (PublishDraftSaga env user target))" and "sp_execute step ctx a = (out, n, b)"
  then show "stays_unsaid env s (target \<noteq> JStr s) a b"
    by (auto simp: PublishDraftSaga_def elim!: unsaid_run [rotated] intro!: ensures_intros ensures_MoveToRecords)
next
  fix step ctx undo r
  assume "step \<in> set (sg_steps (PublishDraftSaga env user target))" and "sp_compensate step = Some undo"
  then show "em_rel (stays_unsaid env s (target \<noteq> JStr s)) (undo ctx r)"
    by (auto simp: PublishDraftSaga_def elim!: unsaid_undo [rotated]
        intro!: ensures_intros ensures_undo_DeleteDraft withholdable_named)
qed

end
