(* ===== verification/Records_Gaps.thy ===== *)
theory Records_Gaps
  imports Records_Api Record_Saga_Gaps
begin

section \<open>Where the record routes fall short\<close>

text \<open>
  The permission to change a record of a type is looked up with the type in the body of the
  request or in the draft. A draft is stored under any id, also under that of a record of
  another type, and publishing it goes to that record.
\<close>

subsection \<open>What a publish leaves alone after its first step\<close>

definition same_records :: "rec_world \<Rightarrow> rec_world \<Rightarrow> bool" where
  "same_records a b \<longleftrightarrow> w_records b = w_records a"

interpretation rows: em_frame same_records
  by unfold_locales (auto simp: same_records_def)

lemma rows_external:
  "em_rel same_records m \<Longrightarrow> em_rel same_records (external err m)"
  "em_rel same_records m \<Longrightarrow> em_rel same_records (sql m)"
  "em_rel same_records m \<Longrightarrow> em_rel same_records (fs_op m)"
  unfolding sql_def fs_op_def by (rule rel_external [OF rows.em_frame_axioms]; simp add: same_records_def)+

lemma rows_modify: "(\<And>w. w_records (f w) = w_records w) \<Longrightarrow> em_rel same_records (emodify f)"
  by (simp add: em_rel_def same_records_def emodify_def)

lemma rows_stores: "em_rel same_stores m \<Longrightarrow> em_rel same_records m"
  by (auto simp: em_rel_def same_stores_def same_records_def)

lemma rows_remember: "em_rel same_records (remember f)"
  unfolding remember_def by (rule rows_modify) simp

lemma rows_need: "(\<And>a. em_rel same_records (k a)) \<Longrightarrow> em_rel same_records (need msg f k)"
  unfolding need_def scratch_def by (intro rows.rel_bind rows.rel_get) (simp add: rows.rel_intros split: option.split)

lemma rows_drafts: "em_rel same_records (db_getDraft rid)" "em_rel same_records (db_deleteDraft rid)"
proof -
  have "em_rel same_records add_column"
    unfolding add_column_def
    by (rule rows_external(2)) (simp add: em_rel_def same_records_def)
  then show "em_rel same_records (db_getDraft rid)"
    unfolding db_getDraft_def select_draft_def has_column_def
    by (auto intro!: rows.rel_intros rows_external split: option.split)
  show "em_rel same_records (db_deleteDraft rid)"
    unfolding db_deleteDraft_def by (auto intro!: rows_external rows_modify)
qed

lemma rows_file_step: "em_rel same_records (file_step env missing f)"
  unfolding file_step_def write_file_def ensureDirectoryForRecordPath_def
  by (auto intro!: rows_need rows.rel_intros rows_external rows_modify rows_remember rows_stores [OF stores_pure(2)]
      rows_stores [OF stores_pure(3)] split: option.split)

lemma rows_publish_rest:
  "step \<in> set (tl (publish_all env user st)) \<Longrightarrow> sp_execute step ctx a = (out, n, b) \<Longrightarrow> w_records b = w_records a"
proof -
  have run: "w_records b = w_records a"
    if "em_rel same_records (run ctx)" "sp_execute (make_step name c t run undo) ctx a = (out, n, b)" for run name c t undo
    using that by (auto simp: make_step_def same_records_def dest: em_relD' split: prod.splits sum.splits)
  have "em_rel same_records (DeleteDraft c)" for c
    unfolding DeleteDraft_def by (intro rows.rel_intros rows_drafts rows_remember)
  then show "step \<in> set (tl (publish_all env user st)) \<Longrightarrow> sp_execute step ctx a = (out, n, b) \<Longrightarrow> w_records b = w_records a"
    by (auto simp: publish_all_def elim!: run [rotated] intro!: rows_file_step rows_stores [OF stores_steps(1)]
        rows_stores [OF stores_steps(2)] rows_stores [OF stores_steps(3)])
qed

lemma forward_keeps_rows:
  assumes "\<And>step a b out n. step \<in> set steps \<Longrightarrow> sp_execute step ctx a = (out, n, b) \<Longrightarrow> w_records b = w_records a"
  shows "forward ex ctx i rs steps a = (r, rs', b) \<Longrightarrow> w_records b = w_records (a :: rec_world)"
  using assms
proof (induction steps arbitrary: i rs a)
  case (Cons s ss)
  obtain out n a1 where x: "sp_execute s ctx a = (out, n, a1)" by (cases "sp_execute s ctx a")
  then have s: "w_records a1 = w_records a" using Cons.prems(2) by (metis list.set_intros(1))
  show ?case
  proof (cases out)
    case (Returned v)
    then have "forward ex ctx (Suc i) (rs @ [v]) ss a1 = (r, rs', b)" using Cons.prems(1) x by simp
    moreover have "w_records c = w_records b'" if "step \<in> set ss" "sp_execute step ctx b' = (o1, k, c)" for step b' c o1 k
      using Cons.prems(2) [OF _ that(2)] that(1) by simp
    ultimately have "w_records b = w_records a1" by (rule Cons.IH)
    with s show ?thesis by simp
  qed (use Cons.prems(1) x s in auto)
qed simp

subsection \<open>A record under the draft of another type\<close>

text \<open>The saga and the context of a publish by a user of the API, which starts without results.\<close>

definition api_publish_saga :: "api_env \<Rightarrow> api_user \<Rightarrow> (rec_world, step_value) saga" where
  "api_publish_saga e u = PublishDraftSaga (ai_records e) (record_user u) JUndef"

definition no_results :: "rec_world world \<Rightarrow> rec_world world" where
  "no_results w = w\<lparr>w_app := (w_app w)\<lparr>w_scratch := no_scratch\<rparr>\<rparr>"

definition api_publish_ctx :: "api_env \<Rightarrow> string \<Rightarrow> api_user \<Rightarrow> jv \<Rightarrow> draft_row \<Rightarrow> msec \<Rightarrow> saga_context" where
  "api_publish_ctx e rid u target d now = publish_ctx (ai_digest e) (''publish-'' @ rid @ ''-'' @ show_int now) (record_user u) target rid (Some d)"

lemma db_getDraft_calm:
  assumes "faults a = []" and "find_draft rid (w_drafts a) = Some d" and "w_draft_column a" and "\<not> is_nullish (dr_workflow_state d)"
  shows "db_getDraft rid a = (Inr (Some d), a)"
  using assms by (simp add: db_getDraft_def select_draft_def is_nullish_def em_defs)

lemma getRecord_calm: "faults a = [] \<Longrightarrow> snd (getRecord env rid a) = a"
  by (simp add: getRecord_def db_getRecord_def read_file_def parse_record_def em_defs split: option.split sum.split)

lemma getRecord_calm_Inr: "faults a = [] \<Longrightarrow> \<exists>r. getRecord env rid a = (Inr r, a)"
  by (simp add: getRecord_def db_getRecord_def read_file_def parse_record_def em_defs split: option.split sum.split)

lemma uncontrolled_guard: "s \<notin> set (getControlledStatuses (ai_workflow e)) \<Longrightarrow> guard_status e u from s = ereturn ()"
  by (simp add: guard_status_def status_writable_def assertStatusWritableByRole_def split: jv.split)

lemma uncontrolled_publish:
  assumes "faults (w_app w) = []" and "dr_status d = JStr s" and "s \<notin> set (getControlledStatuses (ai_workflow e))"
  shows "publish_guard e rid u JUndef d w = (Inr (), w)"
proof -
  obtain x where x: "(ecatch (api_getRecord e rid) (\<lambda>_ :: api_error. ereturn None) :: record_data option api_op) w = (Inr x, w)"
  proof -
    obtain r a where g: "getRecord (ai_records e) rid (w_app w) = (r, a)" by fastforce
    with getRecord_calm [OF assms(1), of "ai_records e" rid] have "a = w_app w" by simp
    with g that show thesis
      by (cases r) (auto simp: api_getRecord_def rec_call_def core_def on_app_def em_defs)
  qed
  show ?thesis
    using assms(2,3)
    by (simp add: publish_guard_def effective_status_def ebind_Inr [where m = "ecatch (api_getRecord e rid) (\<lambda>_ :: api_error. ereturn None)", OF x] uncontrolled_guard Let_def) (simp add: ereturn_def)
qed

text \<open>Any id will do for a new draft: a user who may create and edit records of a type saves a draft of
  that type under an id that has no draft, whether or not a record of another type has it.\<close>

lemma draft_under_any_id:
  assumes "faults (w_app w) = []" and "w_draft_column (w_app w)" and "find_draft rid (w_drafts (w_app w)) = None" and "rid \<noteq> []"
    and "can_do e u ActEdit (JStr t)" and "can_do e u ActCreate (JStr t)" and "t \<noteq> []" and "jtruthy title"
  shows "\<exists>w' d'. serve_record e sid u (Put_Draft rid title (JStr t) no_fields) w = (Inr (), w') \<and>
    find_draft rid (w_drafts (w_app w')) = Some d' \<and> dr_type d' = JStr t \<and> w_records (w_app w') = w_records (w_app w)"
proof -
  let ?a = "w_app w"
  let ?new = "new_draft rid title (JStr t) no_fields u"
  let ?a' = "?a\<lparr>w_drafts := w_drafts ?a @ [stored_draft ?new (clock ?a)]\<rparr>"
  have fresh: "rid \<notin> dr_id ` set (w_drafts ?a)" using assms(3) by (auto simp: find_draft_def find_None_iff)
  have new: "dr_id ?new = rid" "dr_workflow_state ?new = JStr ''draft''" by (simp_all add: new_draft_def no_fields_def given_state_def is_nullish_def)
  have created: "db_createDraft ?new ?a = (Inr (), ?a')"
    using assms(1,2) fresh new
    by (simp add: db_createDraft_def ensure_column_def insert_or_migrate_def insert_draft_def has_column_def em_defs Let_def)
  have stored: "find_draft rid (w_drafts ?a') = Some (stored_draft ?new (clock ?a))"
  proof -
    have "find_draft rid (ds @ [stored_draft ?new t]) = Some (stored_draft ?new t)" if "find_draft rid ds = None" for ds t
      using that new(1) by (induction ds) (auto simp: find_draft_def stored_draft_def split: if_splits)
    with assms(3) show ?thesis by simp
  qed
  have read: "db_getDraft rid ?a' = (Inr (Some (stored_draft ?new (clock ?a))), ?a')"
    by (rule db_getDraft_calm) (use assms(1,2) stored new in \<open>simp_all add: stored_draft_def is_nullish_def jor_def\<close>)
  have none: "db_getDraft rid ?a = (Inr None, ?a)" using assms(1-3) by (simp add: db_getDraft_def select_draft_def em_defs)
  obtain r where get: "getRecord (ai_records e) rid ?a = (Inr r, ?a)"
    using getRecord_calm_Inr [OF assms(1), of "ai_records e" rid] by blast
  obtain x where x: "getDraftOrRecord e rid (Some u) w = (Inr x, w)" "\<And>d. x \<noteq> Some (IsDraft d)"
    using none get by (auto simp: getDraftOrRecord_def rec_call_def core_def on_app_def api_getRecord_def em_defs)
  have "save_draft e rid title (JStr t) no_fields u w = api_createDraft e title (JStr t) no_fields u (Some rid) w"
    using x assms(7,8) by (cases x) (auto simp: save_draft_def em_defs split: draft_or_record.split)
  also have "\<exists>y. \<dots> = (Inr y, w\<lparr>w_app := ?a'\<rparr>)"
    using created read assms(4,6)
    by (simp add: api_createDraft_def require_def rec_call_def core_def on_app_def em_defs no_fields_def [THEN arg_cong [where f = ri_status]] Let_def)
  finally obtain y where "save_draft e rid title (JStr t) no_fields u w = (Inr y, w\<lparr>w_app := ?a'\<rparr>)" by blast
  then have "serve_record e sid u (Put_Draft rid title (JStr t) no_fields) w = (Inr (), w\<lparr>w_app := ?a'\<rparr>)"
    using assms(5) by (simp add: requireRecordPermission_def em_defs)
  moreover have "dr_type (stored_draft ?new (clock ?a)) = JStr t" by (simp add: stored_draft_def new_draft_def)
  ultimately show ?thesis using stored by simp
qed

text \<open>C38: A right for one type overwrites records of another. A user who may edit records of one
  type publishes a draft of that type whose id is that of a record of a type the user may not
  edit: the check before the route and the check of the service look at the draft's type, and
  the record gets the draft's title, under its own type.\<close>

theorem publish_overwrites_record_of_another_type:
  assumes calm: "faults (w_app w) = []"
    and draft: "find_draft rid (w_drafts (w_app w)) = Some d" "w_draft_column (w_app w)" "\<not> is_nullish (dr_workflow_state d)"
      "dr_type d = JStr t" "dr_title d \<noteq> JUndef" "dr_status d = JStr s" "s \<notin> set (getControlledStatuses (ai_workflow e))"
    and row: "find_record rid (w_records (w_app w)) = Some row" "rr_path row = Some p" "p \<noteq> []"
    and allowed: "can_do e u ActEdit (JStr t)" "\<not> can_do e u ActEdit (rr_type row)"
    and clear: "clear_run (ai_executor e) (api_publish_saga e u) sid (api_publish_ctx e rid u JUndef d (clock (w_app w))) (no_results w)"
    and run: "forward (ai_executor e) (keyed (ai_executor e) (api_publish_saga e u) (api_publish_ctx e rid u JUndef d (clock (w_app w))))
         0 [] (sg_steps (api_publish_saga e u)) (w_app (no_results w)) = (None, rs, a')"
      "faults a' = []"
  shows "\<exists>w'. serve_record e sid u (Post_Publish rid (JStr t) JUndef) w = (Inr (), w') \<and>
    (\<exists>row'. find_record rid (w_records (w_app w')) = Some row' \<and> rr_title row' = dr_title d \<and> rr_type row' = rr_type row)"
proof -
  let ?ex = "ai_executor e" and ?env = "ai_records e"
  let ?sg = "api_publish_saga e u" and ?fresh = "no_results w"
  let ?plain = "api_publish_ctx e rid u JUndef d (clock (w_app w))"
  let ?ctx = "keyed ?ex ?sg ?plain"
  note sg = api_publish_saga_def
  have id: "ctx_draftId ?ctx = rid"
    by (simp add: ctx_draftId_def keyed_def api_publish_ctx_def publish_ctx_def)
  obtain x w1 where x: "execute ?ex ?sg sid ?plain ?fresh = (x, w1)" by fastforce
  from execute_clear(1,2) [OF clear run(1)] x run(1)
  have out: "map_sum id er_result x = Inr (last_result rs)" and app: "w_app w1 = a'"
    by (simp_all add: saga_outcome_def atomic_effect_def view_def)
  obtain v a1 where m: "MoveToRecords ?env (record_user u) JUndef ?ctx (w_app ?fresh) = (Inr v, a1)"
    and rest: "forward ?ex ?ctx 1 [v] (tl (publish_all ?env (record_user u) JUndef)) a1 = (None, rs, a')"
    using run(1) by (auto simp: sg publish_steps publish_all_def forward_make_step simp del: forward.simps split: prod.splits sum.splits)
  have "w_records a' = w_records a1" by (rule forward_keeps_rows [OF rows_publish_rest rest])
  moreover obtain q where "w_records a1 = rewrite_row rid q (clock (w_app ?fresh)) (w_records (w_app ?fresh))" "ru_title q = dr_title d"
    by (rule MoveToRecords_over [OF m, unfolded id, where row = row and p = p and d = d]) (use draft row in \<open>simp_all add: no_results_def\<close>)
  ultimately have rows: "find_record rid (w_records a') = Some (apply_updates q (clock (w_app w)) row)" "ru_title q = dr_title d"
    using row(1) by (simp_all add: no_results_def find_record_rewrite)
  obtain y where y: "x = Inr y" using out by (cases x) auto
  have d: "db_getDraft rid (w_app w) = (Inr (Some d), w_app w)" by (rule db_getDraft_calm) (use calm draft in simp_all)
  have publish: "publishDraft ?env ?ex sid (ai_digest e) rid (record_user u) JUndef (Some (''publish-'' @ rid @ ''-'' @ show_int (clock (w_app w)))) w =
      (Inr (er_result y), w1\<lparr>w_app := a'\<lparr>w_audit := w_audit a' @ [(''publish_record'', rid)]\<rparr>\<rparr>)"
    using d x y app run(2)
    by (simp add: publishDraft_def run_saga_def write_audit_def on_app_def em_defs sg api_publish_ctx_def named_def no_results_def)
  have "serve_record e sid u (Post_Publish rid (JStr t) JUndef) w = (Inr (), w1\<lparr>w_app := a'\<lparr>w_audit := w_audit a' @ [(''publish_record'', rid)]\<rparr>\<rparr>)"
    using d publish allowed(1) draft(4) uncontrolled_publish [OF calm draft(6,7), of rid u]
    by (simp add: requireRecordPermission_def require_def api_publishDraft_def rec_call_def core_def on_app_def em_defs)
  moreover have "rr_title (apply_updates q (clock (w_app w)) row) = dr_title d" "rr_type (apply_updates q (clock (w_app w)) row) = rr_type row"
    using rows(2) draft(5) by (simp_all add: apply_updates_def given_def)
  ultimately show ?thesis using rows(1) by simp
qed

definition demo_policy_roles :: roles_config where
  "demo_policy_roles = \<lparr>cfg_default_role = DefaultDirect ''public'', cfg_roles = [(''clerk'', \<lparr>rc_name = ''Clerk'', rc_description = [],
     rc_permissions = None, rc_record_types = Some \<lparr>rt_can_create = Some [''policy''], rt_can_edit = Some [''policy''],
       rt_can_delete = None, rt_can_view = None\<rparr>, rc_status_transitions = None\<rparr>)], cfg_permissions = [], cfg_hierarchy = []\<rparr>"

definition demo_api :: api_env where
  "demo_api = \<lparr>ai_roles = demo_policy_roles, ai_workflow = workflow_default_config, ai_records = demo_rec_env,
     ai_executor = demo_rec_executor, ai_digest = (\<lambda>_. ''0f''), ai_create_text = (\<lambda>_. ''{}''), ai_update_text = (\<lambda>_. ''{}'')\<rparr>"

definition demo_clerk :: api_user where
  "demo_clerk = \<lparr>ap_id = JNum 4, ap_username = ''ada'', ap_role = ''clerk'', ap_email = JUndef, ap_name = JUndef\<rparr>"

definition demo_policy_draft :: draft_row where
  "demo_policy_draft = demo_draft\<lparr>dr_type := JStr ''policy''\<rparr>"

lemma demo_policy_draft [simp]: "dr_id demo_policy_draft = ''b1''" "dr_title demo_policy_draft = JStr ''Quiet''"
  "dr_workflow_state demo_policy_draft = JStr ''draft''" "dr_metadata demo_policy_draft = None" "dr_geography demo_policy_draft = None"
  "dr_attached_files demo_policy_draft = None" "dr_linked_records demo_policy_draft = None" "dr_linked_geography_files demo_policy_draft = None" "dr_type demo_policy_draft = JStr ''policy''"
  "dr_status demo_policy_draft = JStr ''adopted''"
  by (simp_all add: demo_policy_draft_def demo_draft_def)

abbreviation demo_overwrite :: "rec_world world" where
  "demo_overwrite \<equiv> demo_rec_world (demo_app [] [demo_row_b1] [demo_policy_draft] [(full_path demo_rec_env ''records/bylaw/b1.md'', ''Text'')])"

lemma demo_overwrite_forward:
  assumes "ctx_draftId ctx = ''b1''"
  shows "\<exists>rs a'. forward ex ctx 0 [] (sg_steps (PublishDraftSaga demo_rec_env user JUndef)) (w_app demo_overwrite) = (None, rs, a') \<and> faults a' = []"
proof -
  have ex: "\<exists>c. serialize_record demo_rec_env (republished demo_rec_env demo_row_b1 demo_policy_draft st (JObj []) g f l lg t) b = (Inr c, b)"
    for st g f l lg t and b :: rec_world
    by (rule serialize_ok) (simp_all add: republished_def)
  obtain c' where c: "serialize_record demo_rec_env (republished demo_rec_env demo_row_b1 demo_policy_draft st (JObj []) g f l lg t) b =
      (Inr (c' st g f l lg t b), b)" for st g f l lg t and b :: rec_world
    using ex by metis
  have p: "rd_path (republished demo_rec_env demo_row_b1 d st m g f l lg t) = Some ''records/bylaw/b1.md''" for d st m g f l lg t
    by (simp add: republished_def or_null_def)
  show ?thesis
    unfolding publish_steps publish_all_def demo_rec_world_def
    by (simp add: forward_make_step MoveToRecords_def db_getDraft_def select_draft_def find_draft_def draft_columns_def parse_column_def
      file_step_def commit_step_def commit_files_def need_def scratch_def assms
      remember_def db_updateRecord_def db_getRecord_def db_deleteDraft_def DeleteDraft_def queue_indexing_def hook_step_def emit_hook_def
      find_record_def indexRecord_def write_file_def ensureDirectoryForRecordPath_def git_commit_def sql_def fs_op_def external_def c p demo_schema
      em_defs demo_app_def no_scratch_def apply_updates_def or_null_def Let_def del: forward.simps)
      (simp add: demo_rec_env_def)
qed

lemma publish_overwrites_record_of_another_type_witness:
  "\<exists>w'. serve_record demo_api ''s1'' demo_clerk (Post_Publish ''b1'' (JStr ''policy'') JUndef) demo_overwrite = (Inr (), w') \<and>
     (\<exists>row'. find_record ''b1'' (w_records (w_app w')) = Some row' \<and> rr_title row' = JStr ''Quiet'' \<and> rr_type row' = JStr ''bylaw'')"
proof -
  let ?ctx = "api_publish_ctx demo_api ''b1'' demo_clerk JUndef demo_policy_draft (clock (w_app demo_overwrite))"
  let ?sg = "api_publish_saga demo_api demo_clerk"
  have env: "ai_records demo_api = demo_rec_env" "ai_executor demo_api = demo_rec_executor" "ai_workflow demo_api = workflow_default_config"
    by (simp_all add: demo_api_def)
  have fresh: "no_results demo_overwrite = demo_overwrite" by (simp add: no_results_def demo_rec_world_def demo_app_def)
  have cid: "ctx_draftId (keyed demo_rec_executor ?sg ?ctx) = ''b1''" "ctx_draftId ?ctx = ''b1''"
    by (simp_all add: ctx_draftId_def keyed_def api_publish_ctx_def publish_ctx_def)
  obtain rs a' where f: "forward demo_rec_executor (keyed demo_rec_executor ?sg ?ctx) 0 [] (sg_steps ?sg) (w_app demo_overwrite) = (None, rs, a')"
    "faults a' = []"
    using demo_overwrite_forward [OF cid(1)] that unfolding api_publish_saga_def env by blast
  have k: "clear_run demo_rec_executor ?sg ''s1'' ?ctx demo_overwrite"
    by (intro demo_rec_clear)
       (use cid in \<open>simp_all add: well_named_def PublishDraftSaga_def api_publish_saga_def validation_errors_def keyed_def
          api_publish_ctx_def publish_ctx_def saga_ctx_def\<close>)
  have "can_do demo_api demo_clerk ActEdit (JStr ''policy'')" "\<not> can_do demo_api demo_clerk ActEdit (rr_type demo_row_b1)"
    by code_simp+
  moreover have "''adopted'' \<notin> set (getControlledStatuses (ai_workflow demo_api))" unfolding env by code_simp
  moreover have "faults (w_app demo_overwrite) = []" "find_draft ''b1'' (w_drafts (w_app demo_overwrite)) = Some demo_policy_draft"
    "w_draft_column (w_app demo_overwrite)" "\<not> is_nullish (dr_workflow_state demo_policy_draft)"
    "find_record ''b1'' (w_records (w_app demo_overwrite)) = Some demo_row_b1"
    by (simp_all add: demo_rec_world_def demo_app_def find_draft_def find_record_def is_nullish_def)
  moreover have "clear_run (ai_executor demo_api) ?sg ''s1'' ?ctx (no_results demo_overwrite)" unfolding env fresh by (rule k)
  moreover have "forward (ai_executor demo_api) (keyed (ai_executor demo_api) ?sg ?ctx) 0 [] (sg_steps ?sg) (w_app (no_results demo_overwrite)) =
      (None, rs, a')" unfolding env fresh by (rule f(1))
  ultimately have "\<exists>w'. serve_record demo_api ''s1'' demo_clerk (Post_Publish ''b1'' (JStr ''policy'') JUndef) demo_overwrite = (Inr (), w') \<and>
     (\<exists>row'. find_record ''b1'' (w_records (w_app w')) = Some row' \<and> rr_title row' = dr_title demo_policy_draft \<and> rr_type row' = rr_type demo_row_b1)"
    using f(2)
    by (intro publish_overwrites_record_of_another_type [where d = demo_policy_draft and row = demo_row_b1 and s = "''adopted''" and
        p = "''records/bylaw/b1.md''" and rs = rs and a' = a']) (assumption | simp only: demo_policy_draft demo_row_b1 | simp)+
  then show ?thesis by (simp add: demo_row_b1_def)
qed

end
