(* ===== verification/Records_Approval.thy ===== *)
theory Records_Approval
  imports Records_Duties Records_Gaps
begin

section \<open>Separation of duties: the service\<close>

text \<open>
  The methods of the records service and the routes over the sagas of \<open>Records_Duties\<close>, and the
  theorem: a status that none of the requesters' roles may set is not set, whatever they send.
\<close>

subsection \<open>Who may set a status\<close>

text \<open>The workflow controls the status and the role's own transitions never lead to it.\<close>

definition withholds :: "workflow_config \<Rightarrow> string \<Rightarrow> string \<Rightarrow> bool" where
  "withholds cfg s role \<longleftrightarrow> s \<in> set (getControlledStatuses cfg) \<and> role \<noteq> [] \<and>
     (case jm_get (wc_roles cfg) role of
        None \<Rightarrow> True
      | Some rules \<Rightarrow> (case rr_can_transition rules of
          None \<Rightarrow> True
        | Some m \<Rightarrow> list_all (\<lambda>(_, spec). s \<notin> set (spec_list (Some spec))) m))"

text \<open>Every type has a first status, and it is another one.\<close>

definition starts_elsewhere :: "api_env \<Rightarrow> string \<Rightarrow> bool" where
  "starts_elsewhere e s \<longleftrightarrow> (\<forall>t. \<exists>s0. initial_status e t = Some s0 \<and> s0 \<noteq> s)"

abbreviation unsaid :: "api_env \<Rightarrow> string \<Rightarrow> rec_world world \<Rightarrow> bool" where
  "unsaid e s w \<equiv> nothing_says (ai_records e) s (w_app w)"

lemma withheld_transition:
  assumes "withholds cfg s role"
  shows "\<not> fst (validateTransition cfg from s (Some role))"
proof -
  have own: "s \<notin> set (spec_list (jm_get m k))" if "list_all (\<lambda>(_, spec). s \<notin> set (spec_list (Some spec))) m" for m k
    using that by (cases "jm_get m k") (auto simp: list_all_iff dest!: map_of_SomeD)
  with assms show ?thesis
    by (auto simp: withholds_def validate_Some role_transitions_def dest: own split: option.splits)
qed

lemma withheld_verdict: "withholds cfg s role \<Longrightarrow> \<exists>reason. validateTransition cfg from s (Some role) = (False, reason)"
  using withheld_transition [of cfg s role "from"] by (cases "validateTransition cfg from s (Some role)") auto

lemma guard_refuses:
  assumes "withholds cfg s role" and "from \<noteq> JStr s"
  shows "\<exists>h. status_writable cfg from s role = Inl h"
proof -
  have c: "s \<in> set (getControlledStatuses cfg)" using assms(1) by (simp add: withholds_def)
  have v: "\<exists>reason. validateTransition cfg f s (Some role) = (False, reason)" for f by (rule withheld_verdict [OF assms(1)])
  show ?thesis
  proof (cases "from")
    case (JStr f)
    with v [of f] assms(2) c show ?thesis by (auto simp: status_writable_def assertStatusWritableByRole_def)
  qed (use v [of "js_text from"] c in \<open>auto simp: status_writable_def\<close>)
qed

lemma ensures_guard:
  assumes "withholds (ai_workflow e) s (ap_role u)"
  shows "ensures I (guard_status e u from to) (\<lambda>_. from \<noteq> JStr s \<longrightarrow> to \<noteq> s)"
  using guard_refuses [OF assms, of "from"]
  by (cases "from \<noteq> JStr s \<and> to = s")
     (auto simp: guard_status_def intro!: ensures_throw ensures_return split: sum.splits)

lemma ensures_crud_guard:
  assumes "withholds (ai_workflow e) s (ap_role u)"
  shows "ensures I (crud_guard e u from to msg) (\<lambda>_. from \<noteq> JStr s \<longrightarrow> to \<noteq> s)"
proof (cases "from \<noteq> JStr s \<and> to = s")
  case True
  then show ?thesis
    using withheld_verdict [OF assms, of "js_text from"] assms
    by (auto simp: crud_guard_def http_fail_def withholds_def intro!: ensures_throw)
next
  case False
  then show ?thesis
    by (auto simp: crud_guard_def http_fail_def intro!: ensures_throw ensures_return split: prod.splits bool.splits)
qed

subsection \<open>Calls into the core\<close>

lemma ensures_core: "ensures I m Q \<Longrightarrow> ensures I (core m) Q"
  unfolding core_def by (rule ensures_map_err)

lemma ensures_on_app: "ensures I m Q \<Longrightarrow> ensures (\<lambda>w. I (w_app w)) (on_app m) Q"
  unfolding on_app_def by (rule ensures_zoom) simp_all

lemma ensures_rec: "ensures I m Q \<Longrightarrow> ensures (\<lambda>w. I (w_app w)) (rec_call m) Q"
  unfolding rec_call_def by (intro ensures_core ensures_on_app)

lemma ensures_require [ensures_intros]: "ensures I (require ok what t) any"
  unfolding require_def fail_with_def by (auto intro!: ensures_return ensures_throw)

lemma ensures_fail [ensures_intros]: "ensures I (http_fail status msg code) Q" "ensures I (fail_with msg) Q"
  by (simp_all add: http_fail_def fail_with_def ensures_throw)

lemma ensures_run_saga:
  assumes "withholdable env s" and "ok"
    and "\<And>ctx. em_rel (on_app_part (stays_unsaid env s ok)) (execute ex sg sid ctx)"
  shows "ensures (\<lambda>w. nothing_says env s (w_app w)) (run_saga ex sg sid ctx) any"
proof -
  have "ensures (\<lambda>w. nothing_says env s (w_app w)) (on_app (emodify (\<lambda>a. a\<lparr>w_scratch := no_scratch\<rparr>))) any"
    by (rule ensures_on_app, rule ensures_modify) (simp add: nothing_says_def context_says_def no_scratch_def)
  moreover have "ensures (\<lambda>w. nothing_says env s (w_app w)) (execute ex sg sid ctx) any"
    using assms by (auto simp: ensures_def em_rel_def on_app_part_def stays_unsaid_def)
  ultimately show ?thesis
    unfolding run_saga_def by (intro ensures_seq ensures_bind [where P = any] ensures_return) auto
qed

lemma ensures_updateRecord:
  assumes "withholdable env s" and "uq_status q \<noteq> JStr s"
  shows "ensures (\<lambda>w. nothing_says env s (w_app w)) (updateRecord env ex sid payload rid q user) any"
proof -
  let ?I = "\<lambda>w. nothing_says env s (w_app w)"
  have saga: "ensures ?I (run_saga ex (UpdateRecordSaga env q) sid ctx) any" for ctx
    by (rule ensures_run_saga [OF assms(1)]) (rule assms(2), rule update_effects.execute_app)
  have saga: "ensures ?I (updateRecordSaga env ex sid payload rid q user corr) any" for corr
    unfolding updateRecordSaga_def Let_def
    by (rule ensures_bind [OF ensures_on_app [OF ensures_get_any]], rule ensures_bind [OF saga])
       (auto intro!: ensures_seq ensures_on_app ensures_audit ensures_return)
  have direct: "ensures ?I (on_app (ebind (updateRecord_direct env rid q) (\<lambda>r. ereturn (map_option RecordV r)))) any"
    by (intro ensures_on_app ensures_bind [OF ensures_update_direct [OF assms]] ensures_return TrueI)
  show ?thesis
    unfolding updateRecord_def
    by (rule ensures_bind [OF ensures_on_app [OF ensures_getRecord [OF withholdable_named(1) [OF assms(1)]]]])
       (auto intro!: ensures_return saga direct split: option.splits)
qed

lemma ensures_archive:
  assumes "withholdable env s"
  shows "ensures (\<lambda>w. nothing_says env s (w_app w)) (archiveRecordSaga env ex sid rid user corr) any"
proof -
  have saga: "ensures (\<lambda>w. nothing_says env s (w_app w)) (run_saga ex (ArchiveRecordSaga env user) sid ctx) any" for ctx
    by (rule ensures_run_saga [OF assms TrueI]) (rule archive_effects.execute_app)
  show ?thesis
    unfolding archiveRecordSaga_def Let_def
    by (rule ensures_bind [OF ensures_on_app [OF ensures_get_any]], rule ensures_bind [OF saga])
       (auto intro!: ensures_seq ensures_on_app ensures_audit ensures_return)
qed

lemma ensures_publish:
  assumes "withholdable env s" and "target \<noteq> JStr s"
  shows "ensures (\<lambda>w. nothing_says env s (w_app w)) (publishDraft env ex sid digest rid user target corr) any"
proof -
  have saga: "ensures (\<lambda>w. nothing_says env s (w_app w)) (run_saga ex (PublishDraftSaga env user target) sid ctx) any" for ctx
    by (rule ensures_run_saga [OF assms(1)]) (rule assms(2), rule publish_effects.execute_app)
  have found: "ensures (\<lambda>w. nothing_says env s (w_app w)) (ecatch (on_app (db_getDraft rid)) (\<lambda>e. ereturn None)) (draft_free s)"
    by (intro ensures_catch ensures_on_app ensures_getDraft ensures_return) simp
  show ?thesis
    unfolding publishDraft_def
    by (rule ensures_bind [OF found], rule ensures_bind [OF ensures_on_app [OF ensures_get_any]], rule ensures_bind [OF saga])
       (auto intro!: ensures_seq ensures_on_app ensures_audit ensures_return)
qed

subsection \<open>The methods of the service\<close>

text \<open>The requester's role withholds the status, the status can be withheld and no type starts with it.\<close>

definition refuses :: "api_env \<Rightarrow> string \<Rightarrow> api_user \<Rightarrow> bool" where
  "refuses e s u \<longleftrightarrow> withholdable (ai_records e) s \<and> starts_elsewhere e s \<and> withholds (ai_workflow e) s (ap_role u)"

lemma refusesD:
  assumes "refuses e s u"
  shows "withholdable (ai_records e) s" "s \<noteq> ''draft''" "withholds (ai_workflow e) s (ap_role u)"
  using assms by (auto simp: refuses_def withholdable_def)

lemma refuses_clean: "refuses e s u \<Longrightarrow> refuses e s (clean_user u)"
  by (simp add: refuses_def clean_user_def)

lemma ensures_seq_post: "ensures I m P \<Longrightarrow> (\<And>a. P a \<Longrightarrow> ensures I n Q) \<Longrightarrow> ensures I (eseq m n) Q"
  unfolding eseq_def by (rule ensures_bind)

lemma ensures_initial_guard:
  assumes "refuses e s u"
  shows "ensures I (case (v, initial_status e t) of (JStr x, Some s0) \<Rightarrow> guard_status e u (JStr s0) x | _ \<Rightarrow> ereturn ())
    (\<lambda>_. v \<noteq> JStr s)"
proof -
  obtain s0 where s0: "initial_status e t = Some s0" "s0 \<noteq> s" using assms unfolding refuses_def starts_elsewhere_def by blast
  show ?thesis
    using s0 ensures_post [OF ensures_guard [OF refusesD(3) [OF assms], of I "JStr s0"]]
    by (cases v) (auto intro!: ensures_return)
qed

lemma ensures_api_get: "refuses e s u \<Longrightarrow> ensures (unsaid e s) (api_getRecord e rid) (record_free s)"
  unfolding api_getRecord_def by (intro ensures_rec ensures_getRecord refusesD(2))

lemma ensures_api_createDraft:
  assumes "refuses e s u"
  shows "ensures (unsaid e s) (api_createDraft e title type d u recordId) any"
  unfolding api_createDraft_def Let_def
proof (rule ensures_seq [OF ensures_require], rule ensures_seq_post [OF ensures_initial_guard [OF assms]])
  assume d: "ri_status d \<noteq> JStr s"
  have "dr_status (new_draft rid title type d u) \<noteq> JStr s" for rid
    using d refusesD(2) [OF assms] by (auto simp: new_draft_def jor_def)
  then show "ensures (unsaid e s) (ebind (rec_call (eget clock)) (\<lambda>now.
       eseq (rec_call (db_createDraft (new_draft (case or_null recordId of None \<Rightarrow> ''record-'' @ show_int now | Some i \<Rightarrow> i) title type d u)))
       (ebind (rec_call (db_getDraft (case or_null recordId of None \<Rightarrow> ''record-'' @ show_int now | Some i \<Rightarrow> i))) (\<lambda>found. case found of
          None \<Rightarrow> fail_with (''Draft not found after create: '' @ (case or_null recordId of None \<Rightarrow> ''record-'' @ show_int now | Some i \<Rightarrow> i))
        | Some x \<Rightarrow> ereturn (x\<lparr>dr_workflow_state :=
            (if given_state (ri_workflowState d) \<and> ri_workflowState d \<noteq> JStr ''draft'' then ri_workflowState d
             else if given_state (dr_workflow_state x) then dr_workflow_state x else JStr ''draft'')\<rparr>))))) any"
    by (intro ensures_bind [OF ensures_rec [OF ensures_get_any]] ensures_seq ensures_rec [OF ensures_createDraft]
        ensures_bind [OF ensures_rec [OF ensures_getDraft]] refusesD(2) [OF assms])
       (auto intro!: ensures_return ensures_fail split: option.splits)
qed

lemma ensures_api_updateDraft:
  assumes "refuses e s u"
  shows "ensures (unsaid e s) (api_updateDraft e rid title type d u) any"
  unfolding api_updateDraft_def
proof (rule ensures_bind [OF ensures_rec [OF ensures_getDraft]])
  fix found assume found: "draft_free s found"
  let ?guard = "\<lambda>old. case ri_status d of JStr x \<Rightarrow> guard_status e u (jor (dr_status old) (JStr ''draft'')) x | _ \<Rightarrow> ereturn ()"
  have guard: "ensures (unsaid e s) (?guard old) (\<lambda>_. ri_status d \<noteq> JStr s)" if "dr_status old \<noteq> JStr s" for old
  proof -
    have "jor (dr_status old) (JStr ''draft'') \<noteq> JStr s" using that refusesD(2) [OF assms] by (simp add: jor_def)
    then show ?thesis
      using ensures_post [OF ensures_guard [OF refusesD(3) [OF assms], of "unsaid e s" "jor (dr_status old) (JStr ''draft'')"]]
      by (cases "ri_status d") (auto intro!: ensures_return)
  qed
  have save: "ensures (unsaid e s) (rec_call (db_updateDraft rid (draft_updates_of title type d state))) any" if "ri_status d \<noteq> JStr s" for state
    by (rule ensures_rec, rule ensures_updateDraft) (use that in \<open>simp add: draft_updates_of_def\<close>)
  show "ensures (unsaid e s) (case found of
     None \<Rightarrow> fail_with (''Draft not found: '' @ rid)
   | Some old \<Rightarrow> let recordType = jor type (dr_type old) in
       eseq (require (can_do e u ActEdit recordType) ''edit records of type '' recordType)
       (eseq (if jtruthy type \<and> type \<noteq> dr_type old
          then require (can_do e u ActEdit type) ''change record type to '' type else ereturn ())
       (eseq (?guard old)
       (ebind (rec_call (db_getDraft rid)) (\<lambda>again.
         let state = (case again of None \<Rightarrow> JUndef | Some x \<Rightarrow> dr_workflow_state x) in
         eseq (rec_call (db_updateDraft rid (draft_updates_of title type d state)))
         (ebind (rec_call (db_getDraft rid)) (\<lambda>updated. case updated of
            None \<Rightarrow> fail_with (''Draft not found after update: '' @ rid)
          | Some x \<Rightarrow> ereturn (x\<lparr>dr_workflow_state :=
              (if given_state (ri_workflowState d) then ri_workflowState d
               else if given_state state then state
               else if given_state (dr_workflow_state x) then dr_workflow_state x else JStr ''draft'')\<rparr>)))))))) any"
  proof (cases found)
    case (Some old)
    then have "dr_status old \<noteq> JStr s" using found by simp
    note g = guard [OF this]
    show ?thesis
      unfolding Some option.case Let_def
      by (rule ensures_seq [OF ensures_require], rule ensures_seq, simp add: ensures_require ensures_return,
          rule ensures_seq_post [OF g], rule ensures_bind [OF ensures_rec [OF ensures_getDraft]], rule ensures_seq [OF save],
          assumption, rule ensures_bind [OF ensures_rec [OF ensures_getDraft]])
         (auto intro!: ensures_return ensures_fail split: option.splits)
  qed (simp add: ensures_fail)
qed

lemma ensures_api_updateRecord:
  assumes "refuses e s u"
  shows "ensures (unsaid e s) (api_updateRecord e sid rid title d u) any"
  unfolding api_updateRecord_def Let_def
proof (rule ensures_bind [OF ensures_api_get [OF assms]])
  fix found assume found: "record_free s found"
  let ?guard = "\<lambda>r. case ri_status d of JStr x \<Rightarrow> crud_guard e u (rd_status r) x (''Invalid status transition from '' @
      quoted (js_text (rd_status r)) @ '' to '' @ quoted x @ '' for role '' @ quoted (ap_role u)) | _ \<Rightarrow> ereturn ()"
  have guard: "ensures (unsaid e s) (?guard r) (\<lambda>_. ri_status d \<noteq> JStr s)" if "rd_status r \<noteq> JStr s" for r
    using that ensures_post [OF ensures_crud_guard [OF refusesD(3) [OF assms], of "unsaid e s" "rd_status r"]]
    by (cases "ri_status d") (auto intro!: ensures_return)
  have save: "ensures (unsaid e s) (core (updateRecord (ai_records e) (ai_executor e) sid payload rid (update_request_of title d) user)) any"
    if "ri_status d \<noteq> JStr s" for payload user
    by (rule ensures_core, rule ensures_updateRecord [OF refusesD(1) [OF assms]]) (use that in \<open>simp add: update_request_of_def\<close>)
  show "ensures (unsaid e s) (case found of
     None \<Rightarrow> ereturn None
   | Some r \<Rightarrow> eseq (require (can_do e u ActEdit (rd_type r)) ''edit records of type '' (rd_type r))
       (eseq (?guard r) (core (updateRecord (ai_records e) (ai_executor e) sid (ai_update_text e (update_request_of title d)) rid
         (update_request_of title d) (record_user u))))) any"
  proof (cases found)
    case (Some r)
    then have "rd_status r \<noteq> JStr s" using found by simp
    note g = guard [OF this]
    show ?thesis
      unfolding Some option.case by (rule ensures_seq [OF ensures_require], rule ensures_seq_post [OF g], rule save)
  qed (simp add: ensures_return)
qed

lemma ensures_api_deleteRecord:
  assumes "refuses e s u"
  shows "ensures (unsaid e s) (api_deleteRecord e sid rid u) any"
  unfolding api_deleteRecord_def
  by (rule ensures_bind [OF ensures_api_get [OF assms]])
     (auto intro!: ensures_return ensures_seq ensures_require ensures_core ensures_archive refusesD(1) [OF assms] split: option.splits)

lemma ensures_changeStatus:
  assumes "refuses e s u"
  shows "ensures (unsaid e s) (changeRecordStatus e sid rid newStatus u comment) any"
proof -
  have save: "ensures (unsaid e s) (core (updateRecord (ai_records e) (ai_executor e) sid payload rid
      (update_request_of JUndef (no_fields\<lparr>ri_status := JStr newStatus, ri_metadata := m\<rparr>)) user)) any"
    if "validateTransition (ai_workflow e) from newStatus (Some (ap_role u)) = (True, reason)" for payload user m "from" reason
  proof -
    from that have "newStatus \<noteq> s" using withheld_transition [OF refusesD(3) [OF assms], of "from"] by auto
    then show ?thesis
      by (intro ensures_core ensures_updateRecord [OF refusesD(1) [OF assms]]) (simp add: update_request_of_def)
  qed
  have now: "ensures (unsaid e s) (rec_call now_iso) any" by (rule ensures_rec [OF ensures_now])
  show ?thesis
    unfolding changeRecordStatus_def Let_def
    by (rule ensures_bind [OF ensures_api_get [OF assms]])
       (auto intro!: ensures_return ensures_bind [OF now] ensures_bind [OF save] split: option.splits prod.splits bool.splits)
qed

lemma ensures_publish_guard:
  assumes "refuses e s u" and "dr_status d \<noteq> JStr s"
  shows "ensures (unsaid e s) (publish_guard e rid u target d) (\<lambda>_. target \<noteq> JStr s)"
proof (cases "target = JStr s")
  case False
  have read: "ensures (unsaid e s) (ecatch (api_getRecord e rid) (\<lambda>_ :: api_error. ereturn None)) any"
    by (rule ensures_any, rule ensures_catch [OF ensures_api_get [OF assms(1)]]) (simp add: ensures_return)
  have guard: "ensures (unsaid e s) (guard_status e u from x) any" for "from" x
    by (rule ensures_any [OF ensures_guard [OF refusesD(3) [OF assms(1)]]])
  have "ensures (unsaid e s) (publish_guard e rid u target d) any"
    unfolding publish_guard_def Let_def
    by (auto intro!: ensures_return ensures_bind [OF read] guard split: jv.splits)
  then show ?thesis by (rule ensures_post) (simp add: False)
next
  case True
  then have eff: "effective_status target d = JStr s" by (simp add: effective_status_def)
  obtain s0 where s0: "initial_status e (dr_type d) = Some s0" "s0 \<noteq> s" using assms(1) unfolding refuses_def starts_elsewhere_def by blast
  then have "s0 \<noteq> []" by (auto simp: initial_status_def split: list.splits)
  have read: "ensures (unsaid e s) (ecatch (api_getRecord e rid) (\<lambda>_ :: api_error. ereturn None)) (record_free s)"
    by (rule ensures_catch [OF ensures_api_get [OF assms(1)]]) (simp add: ensures_return)
  have guard: "ensures (unsaid e s) (guard_status e u (jor (published_status r) (JStr s0)) s) (\<lambda>_. target \<noteq> JStr s)"
    if "record_free s r" for r
  proof -
    have "jor (published_status r) (JStr s0) \<noteq> JStr s"
      using that s0(2) refusesD(2) [OF assms(1)] by (auto simp: jor_def published_status_def split: option.splits)
    then show ?thesis by (intro ensures_post [OF ensures_guard [OF refusesD(3) [OF assms(1)]]]) auto
  qed
  have "jtruthy (jor (published_status r) (JStr s0))" for r using \<open>s0 \<noteq> []\<close> by (simp add: jor_def)
  then show ?thesis
    unfolding publish_guard_def eff Let_def jv.case s0(1) option.case
    by (intro ensures_bind [OF read]) (simp add: guard)
qed

lemma ensures_api_publish:
  assumes "refuses e s u"
  shows "ensures (unsaid e s) (api_publishDraft e sid rid u target) any"
  unfolding api_publishDraft_def
proof (rule ensures_bind [OF ensures_rec [OF ensures_getDraft]])
  fix found assume found: "draft_free s found"
  show "ensures (unsaid e s) (case found of
     None \<Rightarrow> fail_with (''Draft not found: '' @ rid)
   | Some d \<Rightarrow> eseq (require (can_do e u ActEdit (dr_type d)) ''publish records of type '' (dr_type d))
       (eseq (publish_guard e rid u target d)
       (ebind (rec_call (eget clock)) (\<lambda>now.
         core (publishDraft (ai_records e) (ai_executor e) sid (ai_digest e) rid (record_user u) target
           (Some (''publish-'' @ rid @ ''-'' @ show_int now))))))) any"
  proof (cases found)
    case (Some d)
    then have d: "dr_status d \<noteq> JStr s" using found by simp
    show ?thesis
      unfolding Some option.case
      by (rule ensures_seq [OF ensures_require], rule ensures_seq_post [OF ensures_publish_guard [OF assms d]],
          rule ensures_bind [OF ensures_rec [OF ensures_get_any]], rule ensures_core,
          rule ensures_publish [OF refusesD(1) [OF assms]])
  qed (simp add: ensures_fail)
qed

subsection \<open>The routes\<close>

lemma ensures_permission [ensures_intros]: "ensures I (requireRecordPermission e u a t) any"
  unfolding requireRecordPermission_def by (auto intro!: ensures_return ensures_fail)

lemma ensures_read_draft:
  assumes "refuses e s u"
  shows "ensures (unsaid e s) (getDraftOrRecord e rid user) any"
proof -
  have draft: "ensures (unsaid e s) (rec_call (db_getDraft rid)) any" by (rule ensures_any [OF ensures_rec [OF ensures_getDraft]])
  have "ensures (unsaid e s) (case user of
         Some v \<Rightarrow> if can_do e v ActEdit JUndef then rec_call (db_getDraft rid) else ereturn None
       | None \<Rightarrow> ereturn None) any"
    by (auto intro!: ensures_return draft split: option.splits)
  then show ?thesis
    unfolding getDraftOrRecord_def
    by (rule ensures_bind) (auto intro!: ensures_return ensures_bind [OF ensures_api_get [OF assms]] split: option.splits)
qed

lemma ensures_serve:
  assumes "refuses e s u"
  shows "ensures (unsaid e s) (serve_record e sid u q) any"
proof -
  note refused = ensures_permission ensures_fail ensures_return
  note get = ensures_bind [OF ensures_api_get [OF assms]]
  show ?thesis
  proof (cases q)
    case (Put_Draft rid title type d)
    have "ensures (unsaid e s) (save_draft e rid title type d u) any"
      unfolding save_draft_def
      by (rule ensures_bind [OF ensures_read_draft [OF assms]])
         (auto intro!: ensures_api_updateDraft [OF assms] ensures_api_createDraft [OF assms] refused
           split: option.splits draft_or_record.splits)
    then show ?thesis by (auto simp: Put_Draft intro!: ensures_seq refused)
  next
    case (Delete_Draft rid type)
    have "ensures (unsaid e s) (delete_draft e rid u) any"
      unfolding delete_draft_def api_deleteDraft_def
      by (rule ensures_bind [OF ensures_read_draft [OF assms]])
         (auto intro!: ensures_rec ensures_deleteDraft refused split: option.splits draft_or_record.splits)
    then show ?thesis by (auto simp: Delete_Draft intro!: ensures_seq refused)
  next
    case (Post_Status rid type newStatus comment)
    then show ?thesis
      by (auto intro!: ensures_seq get ensures_bind [OF ensures_changeStatus [OF assms]] refused split: option.splits)
  qed (auto intro!: ensures_seq get ensures_bind [OF ensures_api_updateRecord [OF assms]] ensures_api_createDraft [OF refuses_clean [OF assms]]
         ensures_api_deleteRecord [OF assms] ensures_api_publish [OF assms] refused split: option.splits)
qed

text \<open>C9: Separation of duties, through the whole write path. When every requester's role withholds
  a status (the workflow controls it and no transition of the role leads to it), no type starts
  with it, and no row, draft, file or running saga has it, then none has it after any sequence
  of requests that create, edit, publish, archive or delete records and drafts, whatever the
  bodies, the failing calls and the compensations. The YAML libraries are taken to read back
  the status that was written, and module extensions to declare no field of that name.\<close>

theorem withheld_status_is_never_set:
  assumes "withholdable (ai_records e) s" and "starts_elsewhere e s"
    and "\<And>sid u q. (sid, u, q) \<in> set qs \<Longrightarrow> withholds (ai_workflow e) s (ap_role u)"
    and "nothing_says (ai_records e) s (w_app w)"
  shows "nothing_says (ai_records e) s (w_app (serve_records e qs w))"
  using assms(3,4)
proof (induction qs arbitrary: w)
  case (Cons q qs)
  obtain sid u r where q: "q = (sid, u, r)" by (cases q)
  have "refuses e s u" using assms(1,2) Cons.prems(1) [of sid u r] by (simp add: refuses_def q)
  then have "nothing_says (ai_records e) s (w_app (snd (serve_record e sid u r w)))"
    using Cons.prems(2) by (simp add: ensures_serve [unfolded ensures_def])
  then have "nothing_says (ai_records e) s (w_app (serve_records e qs (snd (serve_record e sid u r w))))"
    using Cons.IH Cons.prems(1) by auto
  then show ?case by (simp add: q)
qed simp

definition approve_body :: record_fields_in where
  "approve_body = no_fields\<lparr>ri_status := JStr ''approved''\<rparr>"

lemma withheld_status_is_never_set_witness:
  "nothing_says demo_rec_env ''approved'' (w_app (serve_records demo_api
     [(''s1'', demo_clerk, Post_Record ''Noise'' ''policy'' approve_body), (''s2'', demo_clerk, Put_Draft ''b1'' (JStr ''Quiet'') (JStr ''policy'') approve_body),
      (''s3'', demo_clerk, Post_Publish ''b1'' (JStr ''policy'') (JStr ''approved''))] demo_overwrite))"
proof -
  have env: "ai_records demo_api = demo_rec_env" "ai_workflow demo_api = workflow_default_config" by (simp_all add: demo_api_def)
  have w: "withholdable (ai_records demo_api) ''approved''"
    by (auto simp: withholdable_def yaml_keeps_status_def status_not_extended_def env demo_rec_env_def demo_env_def demo_front_def)
  have i: "initial_status demo_api t = Some ''draft''" for t
    by (simp add: initial_status_def env getAvailableStatuses_def workflow_default_config_def or_null_def split: option.split list.split)
  have s: "starts_elsewhere demo_api ''approved''" by (simp add: starts_elsewhere_def i)
  have r: "withholds (ai_workflow demo_api) ''approved'' (ap_role demo_clerk)" unfolding env by code_simp
  have "\<not> file_says demo_rec_env ''approved'' c" for c
    unfolding file_says_def by (auto dest!: parsed_status simp: parser_now_def demo_rec_env_def demo_env_def demo_front_def)
  then have n: "nothing_says (ai_records demo_api) ''approved'' (w_app demo_overwrite)"
    by (simp add: env nothing_says_def context_says_def demo_rec_world_def demo_app_def no_scratch_def demo_row_b1_def
        demo_policy_draft_def demo_draft_def)
  let ?qs = "[(''s1'', demo_clerk, Post_Record ''Noise'' ''policy'' approve_body), (''s2'', demo_clerk, Put_Draft ''b1'' (JStr ''Quiet'') (JStr ''policy'') approve_body),
      (''s3'', demo_clerk, Post_Publish ''b1'' (JStr ''policy'') (JStr ''approved''))]"
  have "nothing_says (ai_records demo_api) ''approved'' (w_app (serve_records demo_api ?qs demo_overwrite))"
    by (rule withheld_status_is_never_set [OF w s _ n]) (use r in auto)
  then show ?thesis by (simp only: env)
qed

end
