(* ===== verification/Record_Locks.thy ===== *)
theory Record_Locks
  imports Records_Gaps
begin

section \<open>Edit locks\<close>

text \<open>
  The table \<open>record_locks\<close> with the statements of \<open>core/src/database/database-service.ts\<close>, the
  methods of \<open>modules/api/src/services/records-service/locks.ts\<close> and the routes of
  \<open>modules/api/src/routes/records/lock-handlers.ts\<close>. Expiries are stored as ISO text and compared
  as text, with \<open>new Date().toISOString()\<close> in one statement and with \<open>CURRENT_TIMESTAMP\<close> in another.
\<close>

subsection \<open>The table\<close>

text \<open>The binary order of texts.\<close>

fun text_before :: "string \<Rightarrow> string \<Rightarrow> bool" where
  "text_before s [] = False"
| "text_before [] (d # t) = True"
| "text_before (c # s) (d # t) = ((of_char c :: int) < of_char d \<or> c = d \<and> text_before s t)"

record lock_row =
  lk_record_id :: string
  lk_locked_by :: string
  lk_locked_at :: msec
  lk_expires_at :: string

record lock_world = dbenv +
  w_lock_rows :: "lock_row list"

type_synonym 'a lock_op = "(lock_world, saga_error, 'a) em"

definition lock_sql :: "'a lock_op \<Rightarrow> 'a lock_op" where
  "lock_sql m = (\<lambda>w. case faults w of
     [] \<Rightarrow> m w
   | True # fs \<Rightarrow> (Inl (DbFailure DbIo), w\<lparr>faults := fs\<rparr>)
   | False # fs \<Rightarrow> m (w\<lparr>faults := fs\<rparr>))"

definition lock_of :: "string \<Rightarrow> lock_row list \<Rightarrow> lock_row option" where
  "lock_of rid rows = List.find (\<lambda>r. lk_record_id r = rid) rows"

text \<open>One statement: insert, or take over an expired row or one of the same holder.\<close>

definition db_acquireLock :: "string \<Rightarrow> string \<Rightarrow> string \<Rightarrow> bool lock_op" where
  "db_acquireLock rid by expires = lock_sql (\<lambda>w. case lock_of rid (w_lock_rows w) of
     None \<Rightarrow> (Inr True, w\<lparr>w_lock_rows := w_lock_rows w @ [\<lparr>lk_record_id = rid, lk_locked_by = by, lk_locked_at = clock w,
       lk_expires_at = expires\<rparr>]\<rparr>)
   | Some r \<Rightarrow> if \<not> text_before (iso_string (clock w)) (lk_expires_at r) \<or> lk_locked_by r = by
       then (Inr True, w\<lparr>w_lock_rows := map (\<lambda>x. if lk_record_id x = rid
         then x\<lparr>lk_locked_by := by, lk_expires_at := expires\<rparr> else x) (w_lock_rows w)\<rparr>)
       else (Inr False, w))"

definition db_releaseLock :: "string \<Rightarrow> string \<Rightarrow> bool lock_op" where
  "db_releaseLock rid by = lock_sql (\<lambda>w.
     (Inr (\<exists>r\<in>set (w_lock_rows w). lk_record_id r = rid \<and> lk_locked_by r = by),
      w\<lparr>w_lock_rows := filter (\<lambda>r. \<not> (lk_record_id r = rid \<and> lk_locked_by r = by)) (w_lock_rows w)\<rparr>))"

definition db_getLock :: "string \<Rightarrow> lock_row option lock_op" where
  "db_getLock rid = eseq
     (lock_sql (emodify (\<lambda>w. w\<lparr>w_lock_rows := filter (\<lambda>r. \<not> text_before (lk_expires_at r) (sql_time (clock w))) (w_lock_rows w)\<rparr>)))
     (lock_sql (eget (\<lambda>w. lock_of rid (w_lock_rows w))))"

definition db_refreshLock :: "string \<Rightarrow> string \<Rightarrow> string \<Rightarrow> bool lock_op" where
  "db_refreshLock rid by expires = lock_sql (\<lambda>w.
     (Inr (\<exists>r\<in>set (w_lock_rows w). lk_record_id r = rid \<and> lk_locked_by r = by),
      w\<lparr>w_lock_rows := map (\<lambda>r. if lk_record_id r = rid \<and> lk_locked_by r = by then r\<lparr>lk_expires_at := expires\<rparr> else r) (w_lock_rows w)\<rparr>))"

subsection \<open>The service and the routes\<close>

definition lock_holder :: "api_user \<Rightarrow> string" where
  "lock_holder u = (let i = (if is_nullish (ap_id u) then [] else js_text (ap_id u)) in if i \<noteq> [] then i else ap_username u)"

definition expiry :: "int \<Rightarrow> msec \<Rightarrow> string" where
  "expiry minutes now = iso_string (now + minutes * 60000)"

definition acquireLock :: "string \<Rightarrow> api_user \<Rightarrow> int \<Rightarrow> bool lock_op" where
  "acquireLock rid u minutes = ebind (eget clock) (\<lambda>now. db_acquireLock rid (lock_holder u) (expiry minutes now))"

definition releaseLock :: "string \<Rightarrow> api_user \<Rightarrow> bool lock_op" where
  "releaseLock rid u = db_releaseLock rid (lock_holder u)"

definition refreshLock :: "string \<Rightarrow> api_user \<Rightarrow> int \<Rightarrow> bool lock_op" where
  "refreshLock rid u minutes = ebind (eget clock) (\<lambda>now. db_refreshLock rid (lock_holder u) (expiry minutes now))"

datatype lock_request = Post_Lock string | Delete_Lock string | Get_Lock string

text \<open>What a route answers. The check before each route is \<open>requireRecordPermission('edit')\<close>.\<close>

datatype lock_answer = Locked | NotLocked | Held "lock_row option" | Refused_Lock "lock_row option" | Forbidden

primrec answer_lock :: "api_user \<Rightarrow> lock_request \<Rightarrow> lock_answer lock_op" where
  "answer_lock u (Post_Lock rid) = ebind (acquireLock rid u 30) (\<lambda>ok.
     if ok then ereturn Locked else ebind (db_getLock rid) (\<lambda>l. ereturn (Refused_Lock l)))"
| "answer_lock u (Delete_Lock rid) = ebind (releaseLock rid u) (\<lambda>ok. ereturn (if ok then NotLocked else Locked))"
| "answer_lock u (Get_Lock rid) = ebind (db_getLock rid) (\<lambda>l. ereturn (Held l))"

definition serve_lock :: "api_env \<Rightarrow> api_user \<Rightarrow> jv \<Rightarrow> lock_request \<Rightarrow> lock_answer lock_op" where
  "serve_lock e u bodyType q = (if can_do e u ActEdit bodyType then answer_lock u q else ereturn Forbidden)"

text \<open>Requests at the given instants, with their answers.\<close>

type_synonym lock_event = "msec \<times> api_user \<times> jv \<times> lock_request"

fun serve_locks :: "api_env \<Rightarrow> lock_event list \<Rightarrow> lock_world \<Rightarrow> (saga_error + lock_answer) list \<times> lock_world" where
  "serve_locks e [] w = ([], w)"
| "serve_locks e ((t, u, ty, q) # qs) w = (case serve_lock e u ty q (w\<lparr>clock := t\<rparr>) of (r, w1) \<Rightarrow>
     (case serve_locks e qs w1 of (rs, w2) \<Rightarrow> (r # rs, w2)))"

subsection \<open>The order of timestamps\<close>

lemma text_before_append:
  "length a = length b \<Longrightarrow> text_before (a @ x) (b @ y) \<longleftrightarrow> text_before a b \<or> a = b \<and> text_before x y"
  by (induction a b rule: list_induct2) auto

lemma text_before_prefix: "length a = length b \<Longrightarrow> text_before a b \<Longrightarrow> text_before (a @ x) (b @ y)"
  by (simp add: text_before_append)

text \<open>An instant of a year with four digits.\<close>

definition four_digits :: "msec \<Rightarrow> bool" where
  "four_digits t \<longleftrightarrow> 11 \<le> length (iso_string t) \<and> iso_string t ! 10 = CHR ''T''"

lemma four_digits_split:
  assumes "four_digits t"
  obtains r where "iso_string t = take 10 (iso_string t) @ CHR ''T'' # r" "length (take 10 (iso_string t)) = 10"
proof -
  have "iso_string t = take 10 (iso_string t) @ iso_string t ! 10 # drop (Suc 10) (iso_string t)"
    by (rule id_take_nth_drop) (use assms in \<open>simp add: four_digits_def\<close>)
  with assms that show thesis by (auto simp: four_digits_def)
qed

text \<open>Against \<open>CURRENT_TIMESTAMP\<close> only the day counts.\<close>

lemma before_current:
  assumes "four_digits e" and "four_digits now"
  shows "text_before (iso_string e) (sql_time now) \<longleftrightarrow> text_before (take 10 (iso_string e)) (take 10 (iso_string now))"
proof -
  obtain r where r: "iso_string e = take 10 (iso_string e) @ CHR ''T'' # r" "length (take 10 (iso_string e)) = 10"
    by (rule four_digits_split [OF assms(1)])
  obtain q where q: "length (take 10 (iso_string now)) = 10" by (rule four_digits_split [OF assms(2)])
  have "text_before (iso_string e) (sql_time now) \<longleftrightarrow>
      text_before (take 10 (iso_string e) @ CHR ''T'' # r) (take 10 (iso_string now) @ '' '' @ take 8 (drop 11 (iso_string now)))"
    using r(1) by (simp add: sql_time_def Let_def)
  also have "\<dots> \<longleftrightarrow> text_before (take 10 (iso_string e)) (take 10 (iso_string now))"
    by (subst text_before_append) (use r(2) q in auto)
  finally show ?thesis .
qed

lemma current_before_iso:
  assumes "four_digits e" and "four_digits now" and "text_before (iso_string e) (sql_time now)"
  shows "text_before (iso_string e) (iso_string now)"
proof -
  obtain r where r: "iso_string e = take 10 (iso_string e) @ CHR ''T'' # r" "length (take 10 (iso_string e)) = 10"
    by (rule four_digits_split [OF assms(1)])
  obtain q where q: "iso_string now = take 10 (iso_string now) @ CHR ''T'' # q" "length (take 10 (iso_string now)) = 10"
    by (rule four_digits_split [OF assms(2)])
  from assms(3) before_current [OF assms(1,2)] have "text_before (take 10 (iso_string e)) (take 10 (iso_string now))" by simp
  then have "text_before (take 10 (iso_string e) @ CHR ''T'' # r) (take 10 (iso_string now) @ CHR ''T'' # q)"
    by (rule text_before_prefix [rotated]) (use r q in simp)
  with r(1) q(1) show ?thesis by metis
qed

lemma text_before_asym: "text_before s t \<Longrightarrow> \<not> text_before t s"
  by (induction s t rule: text_before.induct) auto

subsection \<open>Exclusion\<close>

text \<open>The row of a record, its holder and expiry; rows of other records play no part.\<close>

definition held :: "string \<Rightarrow> string \<Rightarrow> string \<Rightarrow> lock_world \<Rightarrow> bool" where
  "held rid by expires w \<longleftrightarrow> (\<exists>r. lock_of rid (w_lock_rows w) = Some r \<and> lk_locked_by r = by \<and> lk_expires_at r = expires)"

lemma lock_of_append: "lock_of rid (xs @ ys) = (case lock_of rid xs of None \<Rightarrow> lock_of rid ys | Some r \<Rightarrow> Some r)"
  unfolding lock_of_def by (induction xs) auto

lemma lock_of_filter: "lock_of rid rows = Some r \<Longrightarrow> P r \<Longrightarrow> lock_of rid (filter P rows) = Some r"
  unfolding lock_of_def by (induction rows) (auto split: if_splits)

lemma lock_of_id: "lock_of rid rows = Some r \<Longrightarrow> lk_record_id r = rid"
  unfolding lock_of_def by (auto simp: find_Some_iff)

lemma lock_of_map: "(\<And>r. lk_record_id (f r) = lk_record_id r) \<Longrightarrow> lock_of rid (map f rows) = map_option f (lock_of rid rows)"
  unfolding lock_of_def by (induction rows) auto

lemma lock_sql_cases:
  assumes "lock_sql m w = (x, w')"
  obtains (fault) fs err where "x = Inl err" "w' = w\<lparr>faults := fs\<rparr>" | (runs) fs where "m (w\<lparr>faults := fs\<rparr>) = (x, w')"
proof (cases "faults w")
  case Nil
  then have "w\<lparr>faults := []\<rparr> = w" by simp
  with Nil assms runs [of "[]"] show thesis by (simp add: lock_sql_def)
next
  case (Cons b fs)
  with assms fault runs show thesis by (cases b) (auto simp: lock_sql_def)
qed

lemma held_faults [simp]: "held rid by x (w\<lparr>faults := fs\<rparr>) = held rid by x w" "held rid by x (w\<lparr>clock := t\<rparr>) = held rid by x w"
  by (simp_all add: held_def)

lemma held_acquire:
  assumes "held rid by x w" and "text_before (iso_string (clock w)) x" and "by' \<noteq> by"
    and "db_acquireLock rid' by' x' w = (r, w')"
  shows "held rid by x w'" and "rid' = rid \<Longrightarrow> r \<noteq> Inr True" and "clock w' = clock w"
proof -
  have "held rid by x w' \<and> (rid' = rid \<longrightarrow> r \<noteq> Inr True) \<and> clock w' = clock w"
    using assms(4) unfolding db_acquireLock_def
  proof (cases rule: lock_sql_cases)
    case (fault fs err)
    with assms(1) show ?thesis by simp
  next
    case (runs fs)
    then show ?thesis
      using assms(1-3)
      by (cases "rid' = rid")
         (auto simp: held_def lock_of_append lock_of_map dest: lock_of_id split: option.splits if_splits)
  qed
  then show "held rid by x w'" "rid' = rid \<Longrightarrow> r \<noteq> Inr True" "clock w' = clock w" by auto
qed

lemma held_release:
  assumes "held rid by x w" and "by' \<noteq> by" and "db_releaseLock rid' by' w = (r, w')"
  shows "held rid by x w'"
  using assms(3) unfolding db_releaseLock_def
proof (cases rule: lock_sql_cases)
  case (runs fs)
  with assms(1,2) show ?thesis by (auto simp: held_def lock_of_filter)
qed (use assms(1) in simp)

lemma held_get:
  assumes "held rid by (iso_string e) w" and "four_digits e" and "four_digits (clock w)" and "text_before (iso_string (clock w)) (iso_string e)"
    and "db_getLock rid' w = (r, w')"
  shows "held rid by (iso_string e) w'"
proof -
  have live: "\<not> text_before (iso_string e) (sql_time (clock w))"
    using current_before_iso [OF assms(2,3)] text_before_asym [OF assms(4)] by blast
  obtain y v where y: "lock_sql (emodify (\<lambda>w. w\<lparr>w_lock_rows := filter (\<lambda>r. \<not> text_before (lk_expires_at r) (sql_time (clock w))) (w_lock_rows w)\<rparr>)) w = (y, v)"
    by fastforce
  then have v: "held rid by (iso_string e) v"
  proof (cases rule: lock_sql_cases)
    case (runs fs)
    with assms(1) live show ?thesis by (auto simp: emodify_def held_def lock_of_filter)
  qed (use assms(1) in simp)
  show ?thesis
  proof (cases y)
    case (Inl err)
    with assms(5) y v show ?thesis by (simp add: db_getLock_def eseq_def ebind_def)
  next
    case (Inr u)
    with assms(5) y have "lock_sql (eget (\<lambda>w. lock_of rid' (w_lock_rows w))) v = (r, w')" by (simp add: db_getLock_def eseq_def ebind_def)
    then show ?thesis
      by (cases rule: lock_sql_cases) (use v in \<open>auto simp: eget_def\<close>)
  qed
qed

lemma held_serve:
  assumes "held rid by (iso_string e) w" and "four_digits e" and "four_digits (clock w)" and "text_before (iso_string (clock w)) (iso_string e)"
    and "lock_holder u \<noteq> by" and "serve_lock env u ty q w = (r, w')"
  shows "held rid by (iso_string e) w' \<and> (q = Post_Lock rid \<longrightarrow> r \<noteq> Inr Locked)"
proof (cases "can_do env u ActEdit ty")
  case True
  with assms(6) have a: "answer_lock u q w = (r, w')" by (simp add: serve_lock_def)
  show ?thesis
  proof (cases q)
    case (Post_Lock rid')
    obtain ok v where g: "db_acquireLock rid' (lock_holder u) (expiry 30 (clock w)) w = (ok, v)" by fastforce
    note h = held_acquire [OF assms(1,4,5) g]
    show ?thesis
    proof (cases ok)
      case (Inl err)
      with a g h Post_Lock show ?thesis by (auto simp: acquireLock_def em_defs)
    next
      case (Inr b)
      show ?thesis
      proof (cases b)
        case True
        with Inr a g h Post_Lock show ?thesis by (auto simp: acquireLock_def em_defs)
      next
        case False
        obtain l v' where l: "db_getLock rid' v = (l, v')" by fastforce
        have "held rid by (iso_string e) v'"
          by (rule held_get [OF h(1) assms(2) _ _ l]) (use assms(3,4) h(3) in simp_all)
        with False Inr a g l Post_Lock show ?thesis by (cases l) (auto simp: acquireLock_def em_defs)
      qed
    qed
  next
    case (Delete_Lock rid')
    obtain ok v where g: "db_releaseLock rid' (lock_holder u) w = (ok, v)" by fastforce
    from held_release [OF assms(1,5) g] a g Delete_Lock show ?thesis by (cases ok) (auto simp: releaseLock_def em_defs)
  next
    case (Get_Lock rid')
    obtain l v where g: "db_getLock rid' w = (l, v)" by fastforce
    from held_get [OF assms(1-4) g] a g Get_Lock show ?thesis by (cases l) (auto simp: em_defs)
  qed
qed (use assms in \<open>auto simp: serve_lock_def ereturn_def\<close>)

text \<open>C19: An edit lock excludes the others. While the expiry of a held lock lies ahead, every request
  of another holder to lock that record is refused or fails, and the lock stays with its holder,
  whatever requests on locks the others send and whichever statements fail (instants of years
  with four digits, whose texts are ordered as the code compares them).\<close>

theorem edit_lock_excludes_others:
  assumes "held rid by (iso_string e) w" and "four_digits e"
    and "\<And>t u ty q. (t, u, ty, q) \<in> set qs \<Longrightarrow> four_digits t \<and> text_before (iso_string t) (iso_string e) \<and> lock_holder u \<noteq> by"
    and "serve_locks env qs w = (rs, w')"
  shows "held rid by (iso_string e) w' \<and> (\<forall>i < length qs. snd (snd (snd (qs ! i))) = Post_Lock rid \<longrightarrow> rs ! i \<noteq> Inr Locked)"
  using assms(1,3,4)
proof (induction qs arbitrary: w rs w')
  case (Cons q qs)
  obtain t u ty r where q: "q = (t, u, ty, r)" by (metis prod.exhaust)
  obtain x w1 where x: "serve_lock env u ty r (w\<lparr>clock := t\<rparr>) = (x, w1)" by fastforce
  obtain ys w2 where ys: "serve_locks env qs w1 = (ys, w2)" by fastforce
  have now: "four_digits t" "text_before (iso_string t) (iso_string e)" "lock_holder u \<noteq> by"
    using Cons.prems(2) [of t u ty r] by (simp_all add: q)
  have one: "held rid by (iso_string e) w1 \<and> (r = Post_Lock rid \<longrightarrow> x \<noteq> Inr Locked)"
    by (rule held_serve [OF _ assms(2) _ _ now(3) x]) (use Cons.prems(1) now in simp_all)
  have rest: "held rid by (iso_string e) w2 \<and> (\<forall>i < length qs. snd (snd (snd (qs ! i))) = Post_Lock rid \<longrightarrow> ys ! i \<noteq> Inr Locked)"
    by (rule Cons.IH [OF _ _ ys]) (use one Cons.prems(2) in auto)
  from Cons.prems(3) q x ys have "rs = x # ys" "w' = w2" by simp_all
  with one rest show ?case by (auto simp: q nth_Cons split: nat.split)
qed simp

text \<open>An expired lock goes on being reported: on the day of its expiry, \<open>CURRENT_TIMESTAMP\<close> is text
  before every ISO text, and the clean-up deletes nothing of that day.\<close>

lemma expired_lock_is_reported_all_day:
  assumes "held rid by (iso_string e) w" and "four_digits e" and "four_digits (clock w)" and "faults w = []"
    and "take 10 (iso_string e) = take 10 (iso_string (clock w))" and "can_do env u ActEdit ty"
  shows "\<exists>l w'. serve_lock env u ty (Get_Lock rid) w = (Inr (Held (Some l)), w') \<and> lk_locked_by l = by"
proof -
  have irr: "\<not> text_before s s" for s using text_before_asym [of s s] by blast
  obtain l where l: "lock_of rid (w_lock_rows w) = Some l" "lk_locked_by l = by" "lk_expires_at l = iso_string e"
    using assms(1) by (auto simp: held_def)
  have "\<not> text_before (iso_string e) (sql_time (clock w))" using before_current [OF assms(2,3)] assms(5) irr by simp
  then have "lock_of rid (filter (\<lambda>r. \<not> text_before (lk_expires_at r) (sql_time (clock w))) (w_lock_rows w)) = Some l"
    by (intro lock_of_filter l(1)) (simp add: l(3))
  then show ?thesis
    using assms(4,6) l(2) by (simp add: serve_lock_def db_getLock_def lock_sql_def em_defs)
qed

definition demo_locks :: lock_world where
  "demo_locks = \<lparr>clock = 0, faults = [], w_lock_rows = [\<lparr>lk_record_id = ''b1'', lk_locked_by = ''7'', lk_locked_at = 0,
     lk_expires_at = iso_string 1800000\<rparr>]\<rparr>"

lemma edit_lock_excludes_others_witness:
  "\<exists>rs w'. serve_locks demo_api [(60000, demo_clerk, JStr ''policy'', Post_Lock ''b1''), (120000, demo_clerk, JStr ''policy'', Get_Lock ''b1''),
      (180000, demo_clerk, JStr ''policy'', Delete_Lock ''b1''), (240000, demo_clerk, JStr ''policy'', Post_Lock ''b1'')] demo_locks = (rs, w') \<and>
    held ''b1'' ''7'' (iso_string 1800000) w' \<and> rs ! 3 \<noteq> Inr Locked"
proof -
  let ?qs = "[((60000 :: msec), demo_clerk, JStr ''policy'', Post_Lock ''b1''), (120000, demo_clerk, JStr ''policy'', Get_Lock ''b1''),
      (180000, demo_clerk, JStr ''policy'', Delete_Lock ''b1''), (240000, demo_clerk, JStr ''policy'', Post_Lock ''b1'')]"
  let ?run = "serve_locks demo_api ?qs demo_locks"
  define rs w' where "rs = fst ?run" and "w' = snd ?run"
  then have x: "?run = (rs, w')" by (simp only: prod.collapse)
  have h: "held ''b1'' ''7'' (iso_string 1800000) demo_locks" by (auto simp: held_def demo_locks_def lock_of_def)
  have iso: "iso_string 60000 = ''1970-01-01T00:01:00.000Z''" "iso_string 120000 = ''1970-01-01T00:02:00.000Z''"
    "iso_string 180000 = ''1970-01-01T00:03:00.000Z''" "iso_string 240000 = ''1970-01-01T00:04:00.000Z''"
    "iso_string 1800000 = ''1970-01-01T00:30:00.000Z''" by code_simp+
  have t: "list_all (\<lambda>t. four_digits t \<and> text_before (iso_string t) (iso_string 1800000)) [60000, 120000, 180000, 240000]"
    "four_digits 1800000" by (simp_all add: four_digits_def iso)
  have holder: "lock_holder demo_clerk = ''4''" by code_simp
  have both: "held ''b1'' ''7'' (iso_string 1800000) w' \<and> (\<forall>i < length ?qs. snd (snd (snd (?qs ! i))) = Post_Lock ''b1'' \<longrightarrow> rs ! i \<noteq> Inr Locked)"
    by (rule edit_lock_excludes_others [OF h t(2) _ x]) (use t(1) holder in auto)
  have "rs ! 3 \<noteq> Inr Locked" by (rule spec [OF conjunct2 [OF both], of 3, THEN mp, THEN mp]) simp_all
  with x conjunct1 [OF both] show ?thesis by blast
qed

end
