(* ===== verification/Records_Listing.thy ===== *)
theory Records_Listing
  imports Records_Api "HOL-Library.Multiset" "HOL-Library.List_Lexorder" "HOL-Library.Product_Lexorder" "HOL-Library.Char_ord"
begin

section \<open>Lists of records\<close>

text \<open>
  \<open>listRecords\<close> of \<open>core/src/database/stores/record-store.ts\<close> with the pages of
  \<open>modules/api/src/services/records-service/listing.ts\<close>, the summary, and the list of unpublished
  records of \<open>drafts.ts\<close>, which is paged by a cursor. SQLite returns rows with equal sort keys in
  an order of its own: it is a parameter of a query, a rearrangement of the rows before a stable
  sort. A \<open>DATETIME\<close> column holds whole seconds.
\<close>

subsection \<open>Filters and orders\<close>

definition comma_filter :: "string \<Rightarrow> string list" where
  "comma_filter s = map trim (split_char CHR '','' s)"

definition col_in :: "string list \<Rightarrow> jv \<Rightarrow> bool" where
  "col_in ts v = list_ex (\<lambda>t. v = JStr t) ts"

definition not_internal :: "record_row \<Rightarrow> bool" where
  "not_internal r \<longleftrightarrow> rr_workflow_state r = JNull \<or> rr_workflow_state r \<noteq> JStr ''internal_only''"

definition optional_filter :: "string option \<Rightarrow> (string \<Rightarrow> string list) \<Rightarrow> jv \<Rightarrow> bool" where
  "optional_filter f split v = (case or_null f of None \<Rightarrow> True | Some s \<Rightarrow> col_in (split s) v)"

text \<open>The identifiers of the elements of a JSON array.\<close>

definition links_geography :: "string option \<Rightarrow> record_row \<Rightarrow> bool" where
  "links_geography g r = (case or_null g of None \<Rightarrow> True | Some i \<Rightarrow> (case rr_linked_geography_files r of
     Some (Json (JArr xs)) \<Rightarrow> list_ex (\<lambda>x. jmember x ''id'' = JStr i) xs
   | Some (Json (JObj kvs)) \<Rightarrow> list_ex (\<lambda>(k, x). jmember x ''id'' = JStr i) kvs
   | _ \<Rightarrow> False))"

text \<open>\<open>json_extract\<close> of text that is no JSON is an error of the whole query.\<close>

definition kind_priority :: "record_row \<Rightarrow> saga_error + nat" where
  "kind_priority r = (case rr_metadata r of
     None \<Rightarrow> Inr 1
   | Some (Malformed s) \<Rightarrow> Inl (OtherError ''malformed JSON'')
   | Some (Json v) \<Rightarrow> Inr (if jmember v ''kind'' = JStr ''root'' then 3 else if jmember v ''kind'' = JStr ''chapter'' then 2 else 1))"

definition priority :: "record_row \<Rightarrow> nat" where
  "priority r = (case kind_priority r of Inl e \<Rightarrow> 1 | Inr n \<Rightarrow> n)"

definition seconds :: "msec \<Rightarrow> int" where
  "seconds t = t div 1000"

definition lower_title :: "record_row \<Rightarrow> string" where
  "lower_title r = to_lower (js_text (rr_title r))"

definition desc_by :: "('a \<Rightarrow> 'b::linorder) \<Rightarrow> 'a list \<Rightarrow> 'a list" where
  "desc_by f xs = rev (sort_key f (rev xs))"

definition user_sort :: "string \<Rightarrow> record_row list \<Rightarrow> record_row list" where
  "user_sort sorting rows = (let newest = desc_by (\<lambda>r. seconds (rr_created_at r)) rows in
     if sorting = ''updated_desc'' then desc_by (\<lambda>r. seconds (rr_updated_at r)) newest
     else if sorting = ''title_asc'' then sort_key lower_title newest
     else if sorting = ''title_desc'' then desc_by lower_title newest
     else newest)"

definition buildOrderByClause :: "string \<Rightarrow> record_row list \<Rightarrow> record_row list" where
  "buildOrderByClause sorting rows = sort_key priority (user_sort sorting rows)"

subsection \<open>Pages by number\<close>

datatype page_limit = AllRows | Rows nat

record list_options =
  lo_type :: "string option"
  lo_status :: "string option"
  lo_limit :: page_limit
  lo_offset :: nat
  lo_sort :: "string option"
  lo_geography :: "string option"

definition ALL_ROWS_HARD_CAP :: nat where "ALL_ROWS_HARD_CAP = 100000"

definition list_filter :: "list_options \<Rightarrow> record_row \<Rightarrow> bool" where
  "list_filter opts r \<longleftrightarrow> not_internal r \<and> optional_filter (lo_type opts) comma_filter (rr_type r) \<and>
     optional_filter (lo_status opts) comma_filter (rr_status r) \<and> links_geography (lo_geography opts) r"

definition sort_option :: "string option \<Rightarrow> string" where
  "sort_option s = (case or_null s of None \<Rightarrow> ''created_desc'' | Some x \<Rightarrow> x)"

definition page_of :: "page_limit \<Rightarrow> nat \<Rightarrow> 'a list \<Rightarrow> 'a list" where
  "page_of limit offset rows = (case limit of
     AllRows \<Rightarrow> if offset = 0 then rows else take ALL_ROWS_HARD_CAP (drop offset rows)
   | Rows n \<Rightarrow> take n (drop offset rows))"

definition ordered_rows :: "(record_row list \<Rightarrow> record_row list) \<Rightarrow> list_options \<Rightarrow> record_row list \<Rightarrow> record_row list" where
  "ordered_rows ties opts rows = buildOrderByClause (sort_option (lo_sort opts)) (ties (filter (list_filter opts) rows))"

text \<open>Two statements, the count and the page.\<close>

definition db_listRecords :: "(record_row list \<Rightarrow> record_row list) \<Rightarrow> list_options \<Rightarrow> (record_row list \<times> nat) rec_op" where
  "db_listRecords ties opts =
     ebind (sql (eget (\<lambda>w. length (filter (list_filter opts) (w_records w))))) (\<lambda>found.
       if lo_limit opts = AllRows \<and> ALL_ROWS_HARD_CAP < found
       then ethrow (OtherError (''listRecords: refusing to materialize '' @ show_nat found @ '' rows for limit:'' @ quoted ''all'' @
         '' (cap '' @ show_nat ALL_ROWS_HARD_CAP @ ''). Pass an explicit numeric limit and page through the results instead.''))
       else ebind (sql (\<lambda>w. if list_ex (\<lambda>r. isl (kind_priority r)) (filter (list_filter opts) (w_records w))
           then (Inl (OtherError ''malformed JSON''), w)
           else (Inr (page_of (lo_limit opts) (lo_offset opts) (ordered_rows ties opts (w_records w))), w)))
         (\<lambda>rows. ereturn (rows, found)))"

record api_page =
  pg_records :: "(record_row \<times> bool option) list"
  pg_totalCount :: nat
  pg_currentPage :: nat
  pg_totalPages :: nat
  pg_pageSize :: nat

text \<open>Pages and limits start from 1: the route refuses any other.\<close>

definition pages_for :: "nat \<Rightarrow> nat \<Rightarrow> nat" where
  "pages_for found limit = (found + limit - 1) div limit"

text \<open>Which of the listed records have a draft, in batches of 999; a failure is swallowed and
  leaves what the batches before it found.\<close>

fun draft_ids :: "string list list \<Rightarrow> string list \<Rightarrow> string list rec_op" where
  "draft_ids [] found = ereturn found"
| "draft_ids (b # bs) found = (\<lambda>w. case sql (eget (\<lambda>w. filter (\<lambda>i. i \<in> set b) (map dr_id (w_drafts w)))) w of
     (Inl e, w') \<Rightarrow> (Inr found, w') | (Inr ids, w') \<Rightarrow> draft_ids bs (found @ ids) w')"

function batches :: "string list \<Rightarrow> string list list" where
  "batches ids = (if ids = [] then [] else take 999 ids # batches (drop 999 ids))"
  by pat_completeness auto

termination by (relation "measure length") (auto simp: Suc_le_eq)

declare batches.simps [simp del]

definition valid_lister :: "api_user option \<Rightarrow> record_row list \<Rightarrow> bool" where
  "valid_lister user rows = (case user of None \<Rightarrow> False | Some u \<Rightarrow> ap_role u \<noteq> [] \<and> ap_username u \<noteq> [] \<and> rows \<noteq> [])"

definition api_listRecords :: "api_env \<Rightarrow> (record_row list \<Rightarrow> record_row list) \<Rightarrow> string option \<Rightarrow> string option \<Rightarrow> nat \<Rightarrow> nat \<Rightarrow>
    string option \<Rightarrow> string option \<Rightarrow> api_user option \<Rightarrow> api_page api_op" where
  "api_listRecords e ties type status limit page sorting geography user =
     ebind (rec_call (db_listRecords ties \<lparr>lo_type = type, lo_status = status, lo_limit = Rows limit, lo_offset = (page - 1) * limit,
       lo_sort = sorting, lo_geography = geography\<rparr>)) (\<lambda>(rows, found).
     ebind (if valid_lister user rows \<and> (case user of Some u \<Rightarrow> can_do e u ActEdit JUndef | None \<Rightarrow> False)
         then rec_call (draft_ids (batches (map rr_id rows)) []) else ereturn []) (\<lambda>drafts.
       ereturn \<lparr>pg_records = map (\<lambda>r. (r, if valid_lister user rows then Some (rr_id r \<in> set drafts) else None)) rows,
         pg_totalCount = found, pg_currentPage = page, pg_totalPages = pages_for found limit, pg_pageSize = limit\<rparr>))"

subsection \<open>The summary\<close>

text \<open>\<open>buildFilterClause\<close>: empty names are dropped; a filter without names is none.\<close>

definition clause_names :: "string \<Rightarrow> string list" where
  "clause_names s = filter (\<lambda>t. t \<noteq> []) (comma_filter s)"

definition buildFilterClause :: "string option \<Rightarrow> string option \<Rightarrow> record_row \<Rightarrow> bool" where
  "buildFilterClause type status r \<longleftrightarrow> not_internal r \<and>
     (case or_null type of None \<Rightarrow> True | Some s \<Rightarrow> clause_names s = [] \<or> col_in (clause_names s) (rr_type r)) \<and>
     (case or_null status of None \<Rightarrow> True | Some s \<Rightarrow> clause_names s = [] \<or> col_in (clause_names s) (rr_status r))"

definition group_counts :: "jv list \<Rightarrow> (string \<times> nat) list" where
  "group_counts vs = map (\<lambda>v. (js_text v, count_list vs v)) (filter jtruthy (remdups vs))"

definition getRecordSummary :: "string option \<Rightarrow> string option \<Rightarrow> (nat \<times> (string \<times> nat) list \<times> (string \<times> nat) list) rec_op" where
  "getRecordSummary type status =
     ebind (sql (eget (\<lambda>w. group_counts (map rr_type (filter (buildFilterClause type status) (w_records w)))))) (\<lambda>types.
     ebind (sql (eget (\<lambda>w. group_counts (map rr_status (filter (buildFilterClause type status) (w_records w)))))) (\<lambda>statuses.
     ebind (sql (eget (\<lambda>w. length (filter (buildFilterClause type status) (w_records w))))) (\<lambda>found.
       ereturn (found, types, statuses))))"

subsection \<open>Pages by cursor\<close>

definition unpublished_states :: "string list" where
  "unpublished_states = [''draft'', ''under_review'', ''ready_for_publication'']"

definition unpublished :: "string option \<Rightarrow> record_row \<Rightarrow> bool" where
  "unpublished type r \<longleftrightarrow> col_in unpublished_states (rr_workflow_state r) \<and> optional_filter type comma_filter (rr_type r)"

text \<open>\<open>ORDER BY updated_at DESC, id ASC\<close>.\<close>

definition update_key :: "record_row \<Rightarrow> int \<times> string" where
  "update_key r = (- seconds (rr_updated_at r), rr_id r)"

record cursor_page =
  cp_records :: "record_row list"
  cp_nextCursor :: "string option"
  cp_hasMore :: bool
  cp_total :: nat

definition cursor_position :: "string option \<Rightarrow> record_row list \<Rightarrow> msec option" where
  "cursor_position cursor rows = (case or_null cursor of None \<Rightarrow> None
   | Some i \<Rightarrow> map_option rr_updated_at (List.find (\<lambda>r. rr_id r = i) rows))"

definition after_cursor :: "string option \<Rightarrow> msec option \<Rightarrow> record_row \<Rightarrow> bool" where
  "after_cursor cursor position r = (case position of None \<Rightarrow> True
   | Some t \<Rightarrow> seconds (rr_updated_at r) < seconds t \<or>
       seconds (rr_updated_at r) = seconds t \<and> (case cursor of None \<Rightarrow> False | Some i \<Rightarrow> i < rr_id r))"

definition cursor_page_of :: "nat \<Rightarrow> record_row list \<Rightarrow> nat \<Rightarrow> cursor_page" where
  "cursor_page_of limit rows found = (let more = limit < length rows; window = (if more then take limit rows else rows) in
     \<lparr>cp_records = window, cp_nextCursor = (if more \<and> window \<noteq> [] then or_null (Some (rr_id (last window))) else None),
      cp_hasMore = more, cp_total = found\<rparr>)"

definition listUnpublishedRecords :: "string option \<Rightarrow> nat \<Rightarrow> string option \<Rightarrow> cursor_page rec_op" where
  "listUnpublishedRecords type limit cursor =
     ebind (sql (eget (\<lambda>w. length (filter (unpublished type) (w_records w))))) (\<lambda>found.
     ebind (if truthy cursor then sql (eget (\<lambda>w. cursor_position cursor (filter (unpublished type) (w_records w)))) else ereturn None) (\<lambda>position.
     ebind (sql (eget (\<lambda>w. take (limit + 1) (sort_key update_key
         (filter (\<lambda>r. unpublished type r \<and> after_cursor cursor position r) (w_records w)))))) (\<lambda>rows.
       ereturn (cursor_page_of limit rows found))))"

subsection \<open>What the pages show\<close>

lemma set_desc_by [simp]: "set (desc_by f xs) = set xs"
  by (simp add: desc_by_def)

lemma length_ordered: "length (ordered_rows ties opts rows) = length (ties (filter (list_filter opts) rows))"
  by (simp add: ordered_rows_def buildOrderByClause_def user_sort_def desc_by_def Let_def)

lemma pages_partition:
  assumes "0 < limit"
  shows "concat (map (\<lambda>p. take limit (drop (p * limit) xs)) [0..<m]) = take (m * limit) xs"
proof (induction m)
  case (Suc m)
  have "take (Suc m * limit) xs = take (m * limit) xs @ take limit (drop (m * limit) xs)"
    using take_add [of "m * limit" limit xs] by (simp add: add.commute)
  with Suc show ?case by simp
qed simp

lemma enough_pages: "0 < limit \<Longrightarrow> n \<le> pages_for n limit * limit"
proof -
  assume l: "0 < limit"
  have "n + limit - 1 = (n + limit - 1) div limit * limit + (n + limit - 1) mod limit" by simp
  moreover have "(n + limit - 1) mod limit < limit" using l by simp
  ultimately have "n + limit - 1 < (n + limit - 1) div limit * limit + limit" by linarith
  then show "n \<le> pages_for n limit * limit" unfolding pages_for_def using l by linarith
qed

subsection \<open>Cursors\<close>

definition unpublished_rows :: "string option \<Rightarrow> record_row list \<Rightarrow> record_row list" where
  "unpublished_rows type rows = sort_key update_key (filter (unpublished type) rows)"

text \<open>The list as it was paged before: the whole list, the place of the cursor, a slice.\<close>

definition after_index :: "string option \<Rightarrow> record_row list \<Rightarrow> nat" where
  "after_index cursor rows = (case or_null cursor of None \<Rightarrow> 0
   | Some i \<Rightarrow> let n = length (takeWhile (\<lambda>r. rr_id r \<noteq> i) rows) in if n < length rows then Suc n else 0)"

definition sliced_page :: "string option \<Rightarrow> nat \<Rightarrow> string option \<Rightarrow> record_row list \<Rightarrow> cursor_page" where
  "sliced_page type limit cursor rows = (let whole = unpublished_rows type rows; start = after_index cursor whole;
       window = take limit (drop start whole); more = start + limit < length whole in
     \<lparr>cp_records = window, cp_nextCursor = (if more \<and> window \<noteq> [] then or_null (Some (rr_id (last window))) else None),
      cp_hasMore = more, cp_total = length whole\<rparr>)"

lemma key_strict:
  assumes "distinct (map rr_id rows)"
  shows "sorted_wrt (\<lambda>a b. update_key a < update_key b) (unpublished_rows type rows)"
proof -
  let ?xs = "unpublished_rows type rows"
  have "distinct (map rr_id (filter (unpublished type) rows))" using assms by (rule distinct_map_filter)
  then have "distinct (map update_key (filter (unpublished type) rows))"
    by (auto simp: distinct_map inj_on_def update_key_def)
  then have "distinct (map update_key ?xs)"
    unfolding unpublished_rows_def by (metis distinct_map distinct_sort set_sort)
  moreover have "sorted (map update_key ?xs)" by (simp add: unpublished_rows_def)
  ultimately have "sorted_wrt (<) (map update_key ?xs)" by (simp add: strict_sorted_iff)
  then show ?thesis by (simp add: sorted_wrt_map)
qed

lemma filter_after:
  assumes "sorted_wrt (\<lambda>a b. f a < (f b :: 'b::linorder)) (xs @ y # ys)"
  shows "filter (\<lambda>r. f y < f r) (xs @ y # ys) = ys"
  using assms by (auto simp: sorted_wrt_append filter_empty_conv intro!: filter_True)

lemma after_is_key: "after_cursor (Some (rr_id y)) (Some (rr_updated_at y)) r \<longleftrightarrow> update_key y < update_key r"
  by (auto simp: after_cursor_def update_key_def less_prod_def)

lemma found_member: "List.find P xs = Some z \<Longrightarrow> z \<in> set xs \<and> P z"
  by (induction xs) (auto split: if_splits)

lemma rows_after:
  assumes "distinct (map rr_id rows)"
  shows "sort_key update_key (filter (\<lambda>r. unpublished type r \<and>
      after_cursor cursor (if truthy cursor then cursor_position cursor (filter (unpublished type) rows) else None) r) rows) =
    drop (after_index cursor (unpublished_rows type rows)) (unpublished_rows type rows)"
proof -
  let ?m = "filter (unpublished type) rows" and ?w = "unpublished_rows type rows"
  let ?p = "if truthy cursor then cursor_position cursor ?m else None"
  have split: "sort_key update_key (filter (\<lambda>r. unpublished type r \<and> after_cursor cursor ?p r) rows) = filter (after_cursor cursor ?p) ?w"
    by (simp add: unpublished_rows_def filter_sort [symmetric] conj_commute)
  have tr: "truthy cursor \<longleftrightarrow> or_null cursor \<noteq> None"
    by (auto simp: truthy_def or_null_def split: option.splits list.splits)
  show ?thesis
  proof (cases "\<exists>i y. or_null cursor = Some i \<and> y \<in> set ?m \<and> rr_id y = i")
    case False
    have "cursor_position cursor ?m = None"
      using False by (auto simp: cursor_position_def find_None_iff split: option.split)
    then have "?p = None" by simp
    moreover have "after_index cursor ?w = 0"
    proof (cases "or_null cursor")
      case (Some i)
      have "rr_id r \<noteq> i" if "r \<in> set ?w" for r using False Some that by (auto simp: unpublished_rows_def)
      then have "takeWhile (\<lambda>r. rr_id r \<noteq> i) ?w = ?w" by (simp add: takeWhile_eq_all_conv)
      then show ?thesis by (simp only: after_index_def Some option.case Let_def less_irrefl if_False)
    qed (simp add: after_index_def)
    ultimately show ?thesis unfolding split by (simp add: after_cursor_def)
  next
    case True
    then obtain i y where i: "or_null cursor = Some i" and y: "y \<in> set ?m" "rr_id y = i" by blast
    have c: "cursor = Some i" using i by (auto simp: or_null_def split: option.splits list.splits)
    have uniq: "r = y" if "r \<in> set ?m" "rr_id r = i" for r
      using assms that y by (auto simp: distinct_map inj_on_def)
    obtain z where z: "List.find (\<lambda>r. rr_id r = i) ?m = Some z" using y by (cases "List.find (\<lambda>r. rr_id r = i) ?m") (auto simp: find_None_iff)
    then have "z \<in> set ?m" and "rr_id z = i" using found_member [OF z] by simp_all
    then have "z = y" by (rule uniq)
    with z i tr have p: "?p = Some (rr_updated_at y)" by (simp add: cursor_position_def)
    have "y \<in> set ?w" using y by (simp add: unpublished_rows_def)
    then obtain xs ys where w: "?w = xs @ y # ys" by (auto simp: in_set_conv_decomp)
    have other: "rr_id r \<noteq> i" if "r \<in> set xs" for r
    proof
      assume "rr_id r = i"
      moreover have "r \<in> set ?w" using w that by simp
      then have "r \<in> set ?m" by (simp add: unpublished_rows_def)
      ultimately have "r = y" by (intro uniq)
      with key_strict [OF assms, of type] that show False by (auto simp: w sorted_wrt_append)
    qed
    have "takeWhile (\<lambda>r. rr_id r \<noteq> i) (xs @ y # ys) = xs" using other y(2) by (simp add: takeWhile_append2)
    then have idx: "after_index cursor ?w = Suc (length xs)" by (simp add: after_index_def i w Let_def)
    have pred: "after_cursor cursor ?p = (\<lambda>r. update_key y < update_key r)"
      by (rule ext) (simp only: p, simp only: c y(2) [symmetric] after_is_key)
    have "filter (after_cursor cursor ?p) ?w = filter (\<lambda>r. update_key y < update_key r) (xs @ y # ys)"
      by (simp only: pred w)
    also have "\<dots> = ys" by (rule filter_after) (use key_strict [OF assms, of type] w in simp)
    finally show ?thesis unfolding split idx by (simp add: w)
  qed
qed

lemma keyset_page:
  assumes "distinct (map rr_id (w_records w))" and "faults w = []"
  shows "listUnpublishedRecords type limit cursor w = (Inr (sliced_page type limit cursor (w_records w)), w)"
proof -
  let ?w = "unpublished_rows type (w_records w)" and ?start = "after_index cursor (unpublished_rows type (w_records w))"
  have "listUnpublishedRecords type limit cursor w =
      (Inr (cursor_page_of limit (take (limit + 1) (drop ?start ?w)) (length (filter (unpublished type) (w_records w)))), w)"
    using assms(2) rows_after [OF assms(1), of type cursor]
    by (cases "truthy cursor") (simp_all add: listUnpublishedRecords_def sql_def external_def em_defs)
  moreover have "cursor_page_of limit (take (limit + 1) (drop ?start ?w)) (length (filter (unpublished type) (w_records w))) =
      sliced_page type limit cursor (w_records w)"
  proof -
    have len: "length (filter (unpublished type) (w_records w)) = length ?w" by (simp add: unpublished_rows_def)
    have more: "limit < length (take (limit + 1) (drop ?start ?w)) \<longleftrightarrow> ?start + limit < length ?w" by auto
    have win: "(if limit < length (take (limit + 1) (drop ?start ?w)) then take limit (take (limit + 1) (drop ?start ?w))
        else take (limit + 1) (drop ?start ?w)) = take limit (drop ?start ?w)"
      by (auto simp: min_def)
    show ?thesis unfolding cursor_page_of_def sliced_page_def Let_def win unfolding more len by (rule refl)
  qed
  ultimately show ?thesis by simp
qed

text \<open>Keyset pages are the slices they replaced. When the identifiers of the rows differ, the page
  that is read from the database after a cursor is the slice of the whole sorted list after the
  row of that identifier, with the same cursor for the next page and the same total; a cursor
  that names no listed row starts from the beginning.\<close>

theorem keyset_pages_are_slices:
  assumes "distinct (map rr_id (w_records w))" and "faults w = []"
  shows "listUnpublishedRecords type limit cursor w = (Inr (sliced_page type limit cursor (w_records w)), w)"
  by (rule keyset_page [OF assms])

lemma after_index_at:
  assumes "distinct (map rr_id rows)" and "i < length rows" and "rr_id (rows ! i) \<noteq> []"
  shows "after_index (Some (rr_id (rows ! i))) rows = Suc i"
proof -
  have "takeWhile (\<lambda>r. rr_id r \<noteq> rr_id (rows ! i)) rows = take i rows"
  proof (rule takeWhile_eq_take_P_nth)
    show "rr_id (rows ! j) \<noteq> rr_id (rows ! i)" if "j < i" "j < length rows" for j
      using assms(1,2) that nth_eq_iff_index_eq [OF assms(1), of j i] by auto
  qed auto
  moreover have "or_null (Some (rr_id (rows ! i))) = Some (rr_id (rows ! i))" using assms(3) by simp
  ultimately show ?thesis using assms(2) by (simp add: after_index_def Let_def)
qed

text \<open>Following the cursors, with fuel for the pages. \<open>None\<close>: the fuel ran out.\<close>

fun browse :: "nat \<Rightarrow> string option \<Rightarrow> nat \<Rightarrow> string option \<Rightarrow> rec_world \<Rightarrow> record_row list option" where
  "browse 0 type limit cursor w = None"
| "browse (Suc fuel) type limit cursor w = (case listUnpublishedRecords type limit cursor w of
     (Inl e, w') \<Rightarrow> None
   | (Inr page, w') \<Rightarrow> if cp_hasMore page then map_option ((@) (cp_records page)) (browse fuel type limit (cp_nextCursor page) w')
       else Some (cp_records page))"

lemma browse_from:
  assumes "distinct (map rr_id (w_records w))" and "faults w = []" and "[] \<notin> rr_id ` set (w_records w)" and "0 < limit"
    and "length (unpublished_rows type (w_records w)) - after_index cursor (unpublished_rows type (w_records w)) < fuel * limit + 1"
    and "0 < fuel"
  shows "browse fuel type limit cursor w = Some (drop (after_index cursor (unpublished_rows type (w_records w))) (unpublished_rows type (w_records w)))"
  using assms(5,6)
proof (induction fuel arbitrary: cursor)
  case (Suc fuel)
  let ?w = "unpublished_rows type (w_records w)" and ?start = "after_index cursor (unpublished_rows type (w_records w))"
  let ?page = "sliced_page type limit cursor (w_records w)"
  note page = keyset_page [OF assms(1,2), of type limit cursor]
  show ?case
  proof (cases "?start + limit < length ?w")
    case False
    then show ?thesis by (simp add: page sliced_page_def Let_def)
  next
    case True
    let ?l = "?w ! (?start + limit - 1)"
    have last: "last (take limit (drop ?start ?w)) = ?l" and ne: "take limit (drop ?start ?w) \<noteq> []"
      using True assms(4) by (auto simp: last_conv_nth)
    have mem: "?l \<in> set ?w" using True by simp
    then have "?l \<in> set (w_records w)" by (simp add: unpublished_rows_def)
    then have "rr_id ?l \<noteq> []" using assms(3) by (metis imageI)
    then have onward: "cp_nextCursor ?page = Some (rr_id ?l)" "cp_hasMore ?page" "cp_records ?page = take limit (drop ?start ?w)"
      using True ne last by (simp_all add: sliced_page_def Let_def or_null_def split: list.split)
    have "distinct (map rr_id ?w)"
      using distinct_map_filter [OF assms(1)] unfolding unpublished_rows_def by (metis distinct_map distinct_sort set_sort)
    then have idx: "after_index (Some (rr_id ?l)) ?w = ?start + limit"
      using True assms(4) \<open>rr_id ?l \<noteq> []\<close> by (simp add: after_index_at)
    have "0 < fuel" using Suc.prems(1) True by (cases fuel) auto
    moreover have "length ?w - (?start + limit) < fuel * limit + 1" using Suc.prems(1) True by simp
    ultimately have "browse fuel type limit (Some (rr_id ?l)) w = Some (drop (?start + limit) ?w)"
      by (intro Suc.IH [of "Some (rr_id ?l)", unfolded idx])
    then show ?thesis
      by (simp add: page onward) (metis append_take_drop_id drop_drop add.commute)
  qed
qed simp

text \<open>C18: Following the cursors lists every unpublished record once. From the first page on, with any
  page size but zero and as many requests as the rows fill pages, and one for an empty list, the
  pages put together are the whole list, sorted by the time of the last change and the identifier.\<close>

theorem cursors_list_everything_once:
  assumes "distinct (map rr_id (w_records w))" and "faults w = []" and "[] \<notin> rr_id ` set (w_records w)" and "0 < limit"
    and "max 1 (pages_for (length (filter (unpublished type) (w_records w))) limit) \<le> requests"
  shows "browse requests type limit None w = Some (unpublished_rows type (w_records w)) \<and>
    mset (unpublished_rows type (w_records w)) = mset (filter (unpublished type) (w_records w))"
proof -
  have "length (unpublished_rows type (w_records w)) \<le> requests * limit"
    using enough_pages [OF assms(4), of "length (filter (unpublished type) (w_records w))"] assms(5)
    by (simp add: unpublished_rows_def) (meson le_trans mult_le_mono1)
  then have "browse requests type limit None w = Some (drop (after_index None (unpublished_rows type (w_records w))) (unpublished_rows type (w_records w)))"
    using assms(5) by (intro browse_from [OF assms(1-4)]) simp_all
  then show ?thesis by (simp add: after_index_def unpublished_rows_def)
qed

subsection \<open>Pages by number\<close>

text \<open>With one and the same order of ties in all queries the numbered pages are the whole list.\<close>

lemma numbered_pages:
  assumes "0 < limit" and "\<And>xs. length (ties xs) = length xs"
  shows "concat (map (\<lambda>p. page_of (Rows limit) ((p - 1) * limit) (ordered_rows ties opts rows))
      [1..<Suc (pages_for (length (filter (list_filter opts) rows)) limit)]) = ordered_rows ties opts rows"
proof -
  let ?xs = "ordered_rows ties opts rows" and ?m = "pages_for (length (filter (list_filter opts) rows)) limit"
  have "map (\<lambda>p. page_of (Rows limit) ((p - 1) * limit) ?xs) [1..<Suc ?m] = map (\<lambda>p. take limit (drop (p * limit) ?xs)) [0..<?m]"
    by (simp add: page_of_def map_Suc_upt [symmetric] del: upt_Suc)
  moreover have "length ?xs \<le> ?m * limit" using enough_pages [OF assms(1)] assms(2) by (simp add: length_ordered)
  ultimately show ?thesis by (simp add: pages_partition [OF assms(1)])
qed

text \<open>A record may be on no page. The order of the numbered list is not total: when two records
  were created in one second, two queries for pages of one record can both return the first of
  them, and no page shows the other, because nothing binds the database to return ties in the
  same order twice.\<close>

theorem a_record_may_be_on_no_page:
  assumes "filter (list_filter opts) (w_records w) = [a, b]" and "lo_sort opts = None" and "faults w = []"
    and "seconds (rr_created_at a) = seconds (rr_created_at b)" and "kind_priority a = Inr n" and "kind_priority b = Inr n"
  shows "\<exists>ties ties'. (\<forall>xs. mset (ties xs) = mset xs \<and> mset (ties' xs) = mset xs) \<and>
    db_listRecords ties (opts\<lparr>lo_limit := Rows 1, lo_offset := 0\<rparr>) w = (Inr ([a], 2), w) \<and>
    db_listRecords ties' (opts\<lparr>lo_limit := Rows 1, lo_offset := 1\<rparr>) w = (Inr ([a], 2), w)"
proof (intro exI conjI allI)
  show "mset (id xs) = mset xs" and "mset (rev xs) = mset xs" for xs :: "record_row list" by simp_all
  have order: "buildOrderByClause ''created_desc'' [x, y] = [x, y]" if "{x, y} = {a, b}" for x y
  proof -
    have "seconds (rr_created_at x) = seconds (rr_created_at y)" and "priority x = priority y"
      using that assms(4-6) by (auto simp: doubleton_eq_iff priority_def)
    then show ?thesis by (simp add: buildOrderByClause_def user_sort_def desc_by_def Let_def)
  qed
  have same: "list_filter (opts\<lparr>lo_limit := l, lo_offset := k\<rparr>) = list_filter opts" for l k
    by (rule ext) (simp add: list_filter_def)
  have page: "db_listRecords ties (opts\<lparr>lo_limit := Rows 1, lo_offset := k\<rparr>) w =
      (Inr (take 1 (drop k (buildOrderByClause ''created_desc'' (ties [a, b]))), 2), w)" for ties k
    using assms(1-3,5,6)
    by (simp add: db_listRecords_def same ordered_rows_def sort_option_def page_of_def sql_def external_def em_defs)
  show "db_listRecords id (opts\<lparr>lo_limit := Rows 1, lo_offset := 0\<rparr>) w = (Inr ([a], 2), w)"
    unfolding page using order [of a b] by simp
  show "db_listRecords rev (opts\<lparr>lo_limit := Rows 1, lo_offset := 1\<rparr>) w = (Inr ([a], 2), w)"
    unfolding page using order [of b a] by (simp add: insert_commute)
qed

text \<open>One row whose metadata is no JSON fails the whole list, under every order; only the filter on
  geography is guarded against such text.\<close>

lemma malformed_metadata_fails_the_list:
  assumes "r \<in> set (w_records w)" and "list_filter opts r" and "rr_metadata r = Some (Malformed s)" and "faults w = []"
    and "lo_limit opts = Rows n"
  shows "db_listRecords ties opts w = (Inl (OtherError ''malformed JSON''), w)"
proof -
  have "list_ex (\<lambda>r. isl (kind_priority r)) (filter (list_filter opts) (w_records w))"
    using assms(1-3) by (auto simp: list_ex_iff kind_priority_def)
  then show ?thesis using assms(4,5) by (simp add: db_listRecords_def sql_def external_def em_defs)
qed

subsection \<open>Concrete lists\<close>

definition listed_row :: "string \<Rightarrow> msec \<Rightarrow> record_row" where
  "listed_row i t = \<lparr>rr_id = i, rr_title = JStr i, rr_type = JStr ''bylaw'', rr_status = JStr ''draft'', rr_workflow_state = JStr ''draft'',
     rr_content = None, rr_metadata = None, rr_geography = None, rr_attached_files = None, rr_linked_records = None,
     rr_linked_geography_files = None, rr_path = None, rr_author = JStr ''ada'', rr_created_at = t, rr_updated_at = t\<rparr>"

definition listed_world :: rec_world where
  "listed_world = \<lparr>clock = 0, faults = [], w_records = [listed_row ''a'' 1000, listed_row ''c'' 5000, listed_row ''b'' 5000],
     w_drafts = [], w_draft_column = True, w_index = [], w_files = [], w_staged = [], w_commits = [], w_hooks = [], w_audit = [],
     w_record_locks = [], w_queued = [], w_scratch = no_scratch\<rparr>"

definition any_list :: list_options where
  "any_list = \<lparr>lo_type = None, lo_status = None, lo_limit = AllRows, lo_offset = 0, lo_sort = None, lo_geography = None\<rparr>"

lemma listed_ids: "distinct (map rr_id (w_records listed_world))" "faults listed_world = []" "[] \<notin> rr_id ` set (w_records listed_world)"
  by (simp_all add: listed_world_def listed_row_def)

lemma listed_order: "unpublished_rows None (w_records listed_world) = [listed_row ''b'' 5000, listed_row ''c'' 5000, listed_row ''a'' 1000]"
  by (simp add: unpublished_rows_def listed_world_def unpublished_def col_in_def unpublished_states_def optional_filter_def
      update_key_def seconds_def listed_row_def less_prod_def less_eq_prod_def less_char_def less_eq_char_def)

lemma keyset_pages_are_slices_witness:
  "\<exists>page. listUnpublishedRecords None 1 (Some ''b'') listed_world = (Inr page, listed_world) \<and>
     cp_records page = [listed_row ''c'' 5000] \<and> cp_nextCursor page = Some ''c'' \<and> cp_total page = 3"
  using keyset_pages_are_slices [OF listed_ids(1,2), of None 1 "Some ''b''"]
  by (simp add: sliced_page_def listed_order after_index_def or_null_def Let_def) (simp add: listed_row_def)

lemma cursors_list_everything_once_witness:
  "browse 2 None 2 None listed_world = Some [listed_row ''b'' 5000, listed_row ''c'' 5000, listed_row ''a'' 1000]"
proof -
  have "length (filter (unpublished None) (w_records listed_world)) = 3"
    using arg_cong [OF listed_order, of length] by (simp add: unpublished_rows_def)
  then have "browse 2 None 2 None listed_world = Some (unpublished_rows None (w_records listed_world)) \<and>
    mset (unpublished_rows None (w_records listed_world)) = mset (filter (unpublished None) (w_records listed_world))"
    by (intro cursors_list_everything_once listed_ids) (simp_all add: pages_for_def)
  then show ?thesis by (simp add: listed_order)
qed

lemma a_record_may_be_on_no_page_witness:
  "\<exists>w ties ties'. db_listRecords ties (any_list\<lparr>lo_limit := Rows 1, lo_offset := 0\<rparr>) w = (Inr ([listed_row ''a'' 1000], 2), w) \<and>
    db_listRecords ties' (any_list\<lparr>lo_limit := Rows 1, lo_offset := 1\<rparr>) w = (Inr ([listed_row ''a'' 1000], 2), w)"
proof -
  let ?w = "listed_world\<lparr>w_records := [listed_row ''a'' 1000, listed_row ''b'' 1900]\<rparr>"
  have "\<exists>ties ties'. (\<forall>xs. mset (ties xs) = mset xs \<and> mset (ties' xs) = mset xs) \<and>
    db_listRecords ties (any_list\<lparr>lo_limit := Rows 1, lo_offset := 0\<rparr>) ?w = (Inr ([listed_row ''a'' 1000], 2), ?w) \<and>
    db_listRecords ties' (any_list\<lparr>lo_limit := Rows 1, lo_offset := 1\<rparr>) ?w = (Inr ([listed_row ''a'' 1000], 2), ?w)"
    by (rule a_record_may_be_on_no_page [where b = "listed_row ''b'' 1900" and n = 1])
       (simp_all add: any_list_def listed_world_def listed_row_def list_filter_def not_internal_def optional_filter_def
          links_geography_def seconds_def kind_priority_def)
  then show ?thesis by blast
qed

end
