(* ===== verification/Circuit_Breaker.thy ===== *)
theory Circuit_Breaker
  imports Civic_Prelude
begin

section \<open>The storage circuit breaker\<close>

text \<open>
  \<open>modules/storage/src/circuit-breaker/circuit-breaker.ts\<close>. \<open>execute\<close> awaits the
  operation, so other calls run between its admission and its outcome: \<open>admit\<close> is the
  code before the \<open>await\<close>, \<open>complete\<close> the code after it, and the step relation
  interleaves them freely. The configuration is one that the constructor builds.
\<close>

subsection \<open>State and transitions\<close>

datatype circuit_state = Closed | Open | HalfOpen

record breaker_opts =
  bo_failureThreshold :: "nat option"
  bo_successThreshold :: "nat option"
  bo_timeout :: "nat option"
  bo_halfOpenMaxCalls :: "nat option"

record breaker_config =
  bc_failureThreshold :: nat
  bc_successThreshold :: nat
  bc_timeout :: nat
  bc_halfOpenMaxCalls :: nat

record breaker =
  cb_provider :: string
  cb_config :: breaker_config
  cb_state :: circuit_state
  cb_failureCount :: nat
  cb_successCount :: nat
  cb_lastFailureTime :: "msec option"
  cb_halfOpenCalls :: nat

definition or_nat :: "nat option \<Rightarrow> nat \<Rightarrow> nat" where
  "or_nat x d = (case x of None \<Rightarrow> d | Some n \<Rightarrow> if n = 0 then d else n)"

definition breaker_config_of :: "breaker_opts \<Rightarrow> breaker_config" where
  "breaker_config_of bo = \<lparr>bc_failureThreshold = or_nat (bo_failureThreshold bo) 5,
     bc_successThreshold = or_nat (bo_successThreshold bo) 2,
     bc_timeout = or_nat (bo_timeout bo) 60000,
     bc_halfOpenMaxCalls = or_nat (bo_halfOpenMaxCalls bo) 3\<rparr>"

definition new_breaker :: "string \<Rightarrow> breaker_opts \<Rightarrow> breaker" where
  "new_breaker provider bo = \<lparr>cb_provider = provider, cb_config = breaker_config_of bo, cb_state = Closed,
     cb_failureCount = 0, cb_successCount = 0, cb_lastFailureTime = None, cb_halfOpenCalls = 0\<rparr>"

definition transitionToClosed :: "breaker \<Rightarrow> breaker" where
  "transitionToClosed b = b\<lparr>cb_state := Closed, cb_failureCount := 0, cb_successCount := 0,
     cb_halfOpenCalls := 0, cb_lastFailureTime := None\<rparr>"

definition transitionToOpen :: "msec \<Rightarrow> breaker \<Rightarrow> breaker" where
  "transitionToOpen now b = b\<lparr>cb_state := Open, cb_lastFailureTime := Some now, cb_successCount := 0,
     cb_halfOpenCalls := 0\<rparr>"

definition transitionToHalfOpen :: "breaker \<Rightarrow> breaker" where
  "transitionToHalfOpen b = b\<lparr>cb_state := HalfOpen, cb_successCount := 0, cb_halfOpenCalls := 0\<rparr>"

definition shouldAttemptHalfOpen :: "msec \<Rightarrow> breaker \<Rightarrow> bool" where
  "shouldAttemptHalfOpen now b = (case cb_lastFailureTime b of None \<Rightarrow> False
     | Some t \<Rightarrow> int (bc_timeout (cb_config b)) \<le> now - t)"

definition onSuccess :: "breaker \<Rightarrow> breaker" where
  "onSuccess b = (case cb_state b of
     HalfOpen \<Rightarrow>
       let b1 = b\<lparr>cb_successCount := cb_successCount b + 1, cb_halfOpenCalls := cb_halfOpenCalls b + 1\<rparr>
       in if bc_successThreshold (cb_config b) \<le> cb_successCount b1 then transitionToClosed b1 else b1
   | Closed \<Rightarrow> b\<lparr>cb_failureCount := 0\<rparr>
   | Open \<Rightarrow> b)"

definition onFailure :: "msec \<Rightarrow> breaker \<Rightarrow> breaker" where
  "onFailure now b = (case cb_state b of
     HalfOpen \<Rightarrow> transitionToOpen now b
   | Closed \<Rightarrow>
       let b1 = b\<lparr>cb_failureCount := cb_failureCount b + 1, cb_lastFailureTime := Some now\<rparr>
       in if bc_failureThreshold (cb_config b) \<le> cb_failureCount b1 then transitionToOpen now b1 else b1
   | Open \<Rightarrow> b)"

subsection \<open>A call\<close>

datatype breaker_error = CircuitOpen string | HalfOpenLimit string nat

definition half_open_gate :: "breaker \<Rightarrow> (breaker_error + unit) \<times> breaker" where
  "half_open_gate b =
     (if cb_state b = HalfOpen \<and> bc_halfOpenMaxCalls (cb_config b) \<le> cb_halfOpenCalls b
      then (Inl (HalfOpenLimit (cb_provider b) (bc_halfOpenMaxCalls (cb_config b))), b) else (Inr (), b))"

definition admit :: "msec \<Rightarrow> breaker \<Rightarrow> (breaker_error + unit) \<times> breaker" where
  "admit now b =
     (if cb_state b = Open
      then (if shouldAttemptHalfOpen now b then half_open_gate (transitionToHalfOpen b)
            else (Inl (CircuitOpen (cb_provider b)), b))
      else half_open_gate b)"

text \<open>How an operation ends: with a result, an error the caller declared expected, or a fault.\<close>

datatype op_end = Succeeded | ExpectedError | Failed

definition complete :: "op_end \<Rightarrow> msec \<Rightarrow> breaker \<Rightarrow> breaker" where
  "complete out now b = (case out of
     Succeeded \<Rightarrow> onSuccess b | ExpectedError \<Rightarrow> b | Failed \<Rightarrow> onFailure now b)"

text \<open>An undisturbed \<open>execute\<close>: \<open>Inl\<close> when the call was blocked.\<close>

definition breaker_execute :: "op_end \<Rightarrow> msec \<Rightarrow> msec \<Rightarrow> breaker \<Rightarrow> (breaker_error + op_end) \<times> breaker" where
  "breaker_execute out now done b = (case admit now b of
     (Inl e, b1) \<Rightarrow> (Inl e, b1)
   | (Inr _, b1) \<Rightarrow> (Inr out, complete out done b1))"

definition breaker_reset :: "breaker \<Rightarrow> breaker" where
  "breaker_reset b = transitionToClosed b"

subsection \<open>The manager\<close>

record breaker_manager =
  bm_breakers :: "(string \<times> breaker) list"
  bm_opts :: breaker_opts

definition getBreaker :: "string \<Rightarrow> breaker_manager \<Rightarrow> breaker \<times> breaker_manager" where
  "getBreaker provider bm = (case jm_get (bm_breakers bm) provider of
     Some b \<Rightarrow> (b, bm)
   | None \<Rightarrow> let b = new_breaker provider (bm_opts bm)
             in (b, bm\<lparr>bm_breakers := jm_set provider b (bm_breakers bm)\<rparr>))"

definition resetBreaker :: "string \<Rightarrow> breaker_manager \<Rightarrow> breaker_manager" where
  "resetBreaker provider bm = (case jm_get (bm_breakers bm) provider of
     None \<Rightarrow> bm
   | Some b \<Rightarrow> bm\<lparr>bm_breakers := jm_set provider (breaker_reset b) (bm_breakers bm)\<rparr>)"

definition resetAll :: "breaker_manager \<Rightarrow> breaker_manager" where
  "resetAll bm = bm\<lparr>bm_breakers := map (\<lambda>(p, b). (p, breaker_reset b)) (bm_breakers bm)\<rparr>"

subsection \<open>Interleaved calls\<close>

text \<open>The system: the time, the breaker and the number of operations in flight.\<close>

record breaker_system =
  bs_now :: msec
  bs_breaker :: breaker
  bs_pending :: nat

inductive breaker_step :: "breaker_system \<Rightarrow> breaker_system \<Rightarrow> bool" where
  blocked: "admit (bs_now s) (bs_breaker s) = (Inl e, b) \<Longrightarrow> breaker_step s (s\<lparr>bs_breaker := b\<rparr>)"
| admitted: "admit (bs_now s) (bs_breaker s) = (Inr (), b) \<Longrightarrow>
    breaker_step s (s\<lparr>bs_breaker := b, bs_pending := Suc (bs_pending s)\<rparr>)"
| finished: "bs_pending s = Suc n \<Longrightarrow>
    breaker_step s (s\<lparr>bs_breaker := complete out (bs_now s) (bs_breaker s), bs_pending := n\<rparr>)"
| tick: "breaker_step s (s\<lparr>bs_now := bs_now s + int d\<rparr>)"

inductive_cases breaker_stepE: "breaker_step s t"

abbreviation breaker_run :: "breaker_system \<Rightarrow> breaker_system \<Rightarrow> bool" where
  "breaker_run \<equiv> breaker_step\<^sup>*\<^sup>*"

definition breaker_inv :: "breaker \<Rightarrow> bool" where
  "breaker_inv b \<longleftrightarrow> (case cb_state b of
     Closed \<Rightarrow> cb_failureCount b < bc_failureThreshold (cb_config b) \<and> cb_successCount b = 0 \<and> cb_halfOpenCalls b = 0
   | Open \<Rightarrow> cb_lastFailureTime b \<noteq> None \<and> cb_successCount b = 0 \<and> cb_halfOpenCalls b = 0
   | HalfOpen \<Rightarrow> cb_lastFailureTime b \<noteq> None \<and> cb_successCount b = cb_halfOpenCalls b \<and>
       cb_successCount b < bc_successThreshold (cb_config b))"

lemmas transition_defs = transitionToClosed_def transitionToOpen_def transitionToHalfOpen_def

lemma admit_inv:
  "breaker_inv b \<Longrightarrow> 0 < bc_successThreshold (cb_config b) \<Longrightarrow> admit now b = (r, b') \<Longrightarrow>
     breaker_inv b' \<and> cb_config b' = cb_config b"
  by (auto simp: admit_def half_open_gate_def breaker_inv_def transition_defs shouldAttemptHalfOpen_def
      split: if_splits circuit_state.splits option.splits)

lemma complete_inv:
  "breaker_inv b \<Longrightarrow> 0 < bc_failureThreshold (cb_config b) \<Longrightarrow>
     breaker_inv (complete out now b) \<and> cb_config (complete out now b) = cb_config b"
  by (auto simp: complete_def onSuccess_def onFailure_def breaker_inv_def transition_defs Let_def
      split: op_end.splits circuit_state.splits)

subsection \<open>Properties\<close>

text \<open>The counters stay consistent. However calls interleave, a closed breaker has fewer
  failures than its threshold, an open one knows when it failed, and a half-open one has
  counted as many successes as calls and fewer than it needs to close.\<close>

theorem breaker_counters_consistent:
  assumes "breaker_run \<lparr>bs_now = t, bs_breaker = new_breaker provider bo, bs_pending = 0\<rparr> s"
  shows "breaker_inv (bs_breaker s) \<and> cb_config (bs_breaker s) = breaker_config_of bo"
  using assms
proof (induction rule: rtranclp_induct)
  case base
  show ?case by (simp add: breaker_inv_def new_breaker_def breaker_config_of_def or_nat_def split: option.splits)
next
  case (step s s')
  have pos: "0 < bc_successThreshold (breaker_config_of bo)" "0 < bc_failureThreshold (breaker_config_of bo)"
    by (simp_all add: breaker_config_of_def or_nat_def split: option.splits)
  from step(2) show ?case
  proof (cases rule: breaker_step.cases)
    case (blocked e b)
    with admit_inv [OF _ _ blocked(2)] step(3) pos show ?thesis by simp
  next
    case (admitted b)
    with admit_inv [OF _ _ admitted(2)] step(3) pos show ?thesis by simp
  next
    case (finished n out)
    with complete_inv [of "bs_breaker s"] step(3) pos show ?thesis by simp
  qed (use step(3) in simp)
qed

lemma breaker_counters_consistent_witness:
  "breaker_inv (complete Failed 10 (new_breaker ''s3'' \<lparr>bo_failureThreshold = None, bo_successThreshold = None,
     bo_timeout = None, bo_halfOpenMaxCalls = None\<rparr>))"
proof -
  let ?bo = "\<lparr>bo_failureThreshold = None, bo_successThreshold = None, bo_timeout = None, bo_halfOpenMaxCalls = None\<rparr>"
  define s where "s = \<lparr>bs_now = 10, bs_breaker = new_breaker ''s3'' ?bo, bs_pending = 0\<rparr>"
  let ?s1 = "s\<lparr>bs_breaker := bs_breaker s, bs_pending := Suc (bs_pending s)\<rparr>"
  have "breaker_step s ?s1"
    by (rule breaker_step.admitted) (simp add: s_def admit_def half_open_gate_def new_breaker_def)
  moreover have "breaker_step ?s1 (?s1\<lparr>bs_breaker := complete Failed (bs_now ?s1) (bs_breaker ?s1), bs_pending := bs_pending s\<rparr>)"
    by (rule breaker_step.finished) simp
  ultimately have "breaker_run s (?s1\<lparr>bs_breaker := complete Failed (bs_now ?s1) (bs_breaker ?s1), bs_pending := bs_pending s\<rparr>)"
    by (rule converse_rtranclp_into_rtranclp [OF _ r_into_rtranclp])
  from breaker_counters_consistent [OF this [unfolded s_def]] show ?thesis by simp
qed

text \<open>An open breaker before its timeout.\<close>

definition open_until :: "msec \<Rightarrow> breaker \<Rightarrow> bool" where
  "open_until t b \<longleftrightarrow> cb_state b = Open \<and>
     (\<exists>f. cb_lastFailureTime b = Some f \<and> t = f + int (bc_timeout (cb_config b)))"

lemma open_blocks: "open_until t b \<Longrightarrow> now < t \<Longrightarrow> admit now b = (Inl (CircuitOpen (cb_provider b)), b)"
  by (auto simp: open_until_def admit_def shouldAttemptHalfOpen_def)

lemma step_time: "breaker_step s s' \<Longrightarrow> bs_now s \<le> bs_now s'"
  by (erule breaker_step.cases) auto

text \<open>An open circuit stays open. From the moment the breaker opened until its timeout has
  passed, whatever calls arrive and whichever earlier operations finish, the circuit stays
  open and every call is blocked without running its operation.\<close>

theorem open_circuit_blocks_until_timeout:
  assumes "open_until t (bs_breaker s)" and "breaker_run s s'" and "bs_now s' < t"
  shows "open_until t (bs_breaker s') \<and>
    admit (bs_now s') (bs_breaker s') = (Inl (CircuitOpen (cb_provider (bs_breaker s'))), bs_breaker s')"
proof -
  have "open_until t (bs_breaker s')"
    using assms(2,3)
  proof (induction rule: rtranclp_induct)
    case base
    show ?case by (rule assms(1))
  next
    case (step s1 s2)
    from step_time [OF step(2)] step(4) have now: "bs_now s1 < t" by simp
    with step(3) have o1: "open_until t (bs_breaker s1)" by simp
    from step(2) show ?case
    proof (cases rule: breaker_step.cases)
      case (finished n out)
      have "complete out (bs_now s1) (bs_breaker s1) = bs_breaker s1"
        using o1 by (simp add: open_until_def complete_def onSuccess_def onFailure_def split: op_end.splits)
      with finished o1 show ?thesis by simp
    qed (use o1 open_blocks [OF o1 now] in simp_all)
  qed
  with open_blocks assms(3) show ?thesis by blast
qed

definition demo_open :: breaker where
  "demo_open = (new_breaker ''s3'' \<lparr>bo_failureThreshold = Some 1, bo_successThreshold = None,
     bo_timeout = None, bo_halfOpenMaxCalls = None\<rparr>)"

lemma open_circuit_blocks_until_timeout_witness:
  "admit 59999 (complete Failed 0 demo_open) = (Inl (CircuitOpen ''s3''), complete Failed 0 demo_open)"
proof -
  define s where "s = \<lparr>bs_now = 0, bs_breaker = complete Failed 0 demo_open, bs_pending = 0\<rparr>"
  have "open_until 60000 (bs_breaker s)"
    by (simp add: s_def open_until_def demo_open_def new_breaker_def breaker_config_of_def or_nat_def complete_def
        onFailure_def transitionToOpen_def Let_def)
  moreover have "breaker_run s (s\<lparr>bs_now := bs_now s + int 59999\<rparr>)"
    by (rule r_into_rtranclp) (rule breaker_step.tick)
  moreover have "bs_now (s\<lparr>bs_now := bs_now s + int 59999\<rparr>) < 60000" by (simp add: s_def)
  ultimately have "admit (bs_now (s\<lparr>bs_now := bs_now s + int 59999\<rparr>)) (bs_breaker (s\<lparr>bs_now := bs_now s + int 59999\<rparr>)) =
      (Inl (CircuitOpen (cb_provider (bs_breaker (s\<lparr>bs_now := bs_now s + int 59999\<rparr>)))),
       bs_breaker (s\<lparr>bs_now := bs_now s + int 59999\<rparr>))"
    by (rule open_circuit_blocks_until_timeout [THEN conjunct2])
  moreover have "cb_provider (complete Failed 0 demo_open) = ''s3''"
    by (simp add: demo_open_def new_breaker_def complete_def onFailure_def transitionToOpen_def Let_def)
  ultimately show ?thesis by (simp add: s_def)
qed

text \<open>A half-open circuit can wedge. When more successes are needed to close than calls
  are let through, the breaker that has let its calls through and has nothing in flight
  never moves again: every later call is blocked, however much time passes.\<close>

theorem half_open_circuit_wedges:
  assumes "cb_state (bs_breaker s) = HalfOpen" and "bs_pending s = 0"
    and "bc_halfOpenMaxCalls (cb_config (bs_breaker s)) \<le> cb_halfOpenCalls (bs_breaker s)"
    and "breaker_run s s'"
  shows "bs_breaker s' = bs_breaker s \<and> bs_pending s' = 0 \<and>
    fst (admit (bs_now s') (bs_breaker s')) = Inl (HalfOpenLimit (cb_provider (bs_breaker s))
      (bc_halfOpenMaxCalls (cb_config (bs_breaker s))))"
proof -
  have gate: "admit now (bs_breaker s) = (Inl (HalfOpenLimit (cb_provider (bs_breaker s))
      (bc_halfOpenMaxCalls (cb_config (bs_breaker s)))), bs_breaker s)" for now
    using assms(1,3) by (simp add: admit_def half_open_gate_def)
  have "bs_breaker s' = bs_breaker s \<and> bs_pending s' = 0"
    using assms(4)
  proof (induction rule: rtranclp_induct)
    case (step s1 s2)
    from step(2) show ?case by (cases rule: breaker_step.cases) (use step(3) gate in auto)
  qed (simp add: assms(2))
  then show ?thesis using gate by simp
qed

definition demo_wedge :: breaker where
  "demo_wedge = (let b = new_breaker ''s3'' \<lparr>bo_failureThreshold = Some 1, bo_successThreshold = Some 5,
       bo_timeout = None, bo_halfOpenMaxCalls = None\<rparr>;
     ok = (\<lambda>b. snd (breaker_execute Succeeded 70000 70000 b))
   in ok (ok (ok (complete Failed 0 b))))"

lemma half_open_circuit_wedges_witness:
  "fst (admit 999999999 demo_wedge) = Inl (HalfOpenLimit ''s3'' 3)"
proof -
  define s where "s = \<lparr>bs_now = 0, bs_breaker = demo_wedge, bs_pending = 0\<rparr>"
  have d: "cb_state demo_wedge = HalfOpen" "bc_halfOpenMaxCalls (cb_config demo_wedge) = 3"
    "cb_halfOpenCalls demo_wedge = 3" "cb_provider demo_wedge = ''s3''"
    by (simp_all add: demo_wedge_def new_breaker_def breaker_config_of_def or_nat_def breaker_execute_def admit_def
        half_open_gate_def shouldAttemptHalfOpen_def complete_def onFailure_def onSuccess_def transition_defs Let_def)
  have "breaker_run s (s\<lparr>bs_now := bs_now s + int 999999999\<rparr>)"
    by (rule r_into_rtranclp) (rule breaker_step.tick)
  from half_open_circuit_wedges [OF _ _ _ this]
  have "fst (admit (bs_now (s\<lparr>bs_now := bs_now s + int 999999999\<rparr>))
      (bs_breaker (s\<lparr>bs_now := bs_now s + int 999999999\<rparr>))) = Inl (HalfOpenLimit ''s3'' 3)"
    using d by (simp add: s_def)
  then show ?thesis by (simp add: s_def)
qed

end
