(* ===== verification/Quota.thy ===== *)
theory Quota
  imports Civic_Prelude
begin

section \<open>Storage quotas\<close>

text \<open>
  \<open>modules/storage/src/quota/quota-manager.ts\<close>. A call awaits the usage figures it needs,
  first the one of everything, then the one of its folder, and decides afterwards; the decision
  (\<open>quota_admit\<close>) is synchronous and counts the outstanding reservations as used. The
  usage figures are those of the files that have landed. \<open>quota_step\<close> takes each await,
  each decision, each landing and each release as a step of its own, so every interleaving of
  calls and uploads is a run. The properties: in every run the outstanding reservations stay
  inside the limits; the landed files do so in the runs where no upload lands between
  the usage figures of a call and its decision, and each lands while its reservation is held;
  neither condition can be left out.
\<close>

subsection \<open>The manager\<close>

record quota_config =
  qc_enabled :: bool
  qc_global :: "nat option"
  qc_folders :: "(string \<times> nat) list"
  qc_reservationTtlMs :: "msec option"

record reservation =
  qr_id :: string
  qr_folder :: string
  qr_size :: nat
  qr_expiresAt :: msec

record quota_manager =
  qm_config :: quota_config
  qm_reservations :: "(string \<times> reservation) list"
  qm_seq :: nat

record usage =
  us_global :: nat
  us_folder :: nat

record quota_exceeded =
  qe_used :: nat
  qe_limit :: nat
  qe_available :: nat
  qe_provider :: string

record quota_opts =
  qo_enabled :: "bool option"
  qo_global :: "nat option"
  qo_folders :: "(string \<times> nat) list option"
  qo_reservationTtlMs :: "msec option"

definition new_quota_manager :: "quota_opts \<Rightarrow> quota_manager" where
  "new_quota_manager qo = \<lparr>qm_config = \<lparr>qc_enabled = (qo_enabled qo \<noteq> Some False), qc_global = qo_global qo,
       qc_folders = (case qo_folders qo of Some fs \<Rightarrow> fs | None \<Rightarrow> []),
       qc_reservationTtlMs = qo_reservationTtlMs qo\<rparr>,
     qm_reservations = [], qm_seq = 0\<rparr>"

definition DEFAULT_RESERVATION_TTL_MS :: msec where
  "DEFAULT_RESERVATION_TTL_MS = 15 * 60 * 1000"

definition reservationTtlMs :: "quota_config \<Rightarrow> msec" where
  "reservationTtlMs cfg = (case qc_reservationTtlMs cfg of Some t \<Rightarrow> t | None \<Rightarrow> DEFAULT_RESERVATION_TTL_MS)"

definition pruneExpiredReservations :: "msec \<Rightarrow> quota_manager \<Rightarrow> quota_manager" where
  "pruneExpiredReservations now qm =
     qm\<lparr>qm_reservations := filter (\<lambda>(_, r). now < qr_expiresAt r) (qm_reservations qm)\<rparr>"

definition reservedBytes :: "string option \<Rightarrow> quota_manager \<Rightarrow> nat" where
  "reservedBytes folder qm = sum_list (map (\<lambda>(_, r). qr_size r)
     (filter (\<lambda>(_, r). case folder of None \<Rightarrow> True | Some f \<Rightarrow> qr_folder r = f) (qm_reservations qm)))"

text \<open>A limit of zero is no limit.\<close>

definition global_limit :: "quota_config \<Rightarrow> nat option" where
  "global_limit cfg = (case qc_global cfg of Some l \<Rightarrow> if 0 < l then Some l else None | None \<Rightarrow> None)"

definition folder_limit :: "quota_config \<Rightarrow> string \<Rightarrow> nat option" where
  "folder_limit cfg folder = (case jm_get (qc_folders cfg) folder of
     Some l \<Rightarrow> if 0 < l then Some l else None | None \<Rightarrow> None)"

definition over_limit :: "nat option \<Rightarrow> nat \<Rightarrow> nat \<Rightarrow> string \<Rightarrow> quota_exceeded option" where
  "over_limit limit current fileSize provider = (case limit of
     None \<Rightarrow> None
   | Some l \<Rightarrow> if l < current + fileSize
       then Some \<lparr>qe_used = current, qe_limit = l, qe_available = l - current, qe_provider = provider\<rparr> else None)"

definition quota_id :: "nat \<Rightarrow> string" where
  "quota_id n = ''quota-'' @ show_nat n"

definition quota_admit :: "string \<Rightarrow> nat \<Rightarrow> usage \<Rightarrow> bool \<Rightarrow> msec \<Rightarrow> quota_manager \<Rightarrow>
    (quota_exceeded + reservation option) \<times> quota_manager" where
  "quota_admit folder fileSize used reserve now qm0 =
     (let qm = pruneExpiredReservations now qm0; cfg = qm_config qm in
      case over_limit (global_limit cfg) (us_global used + reservedBytes None qm) fileSize ''global'' of
        Some e \<Rightarrow> (Inl e, qm)
      | None \<Rightarrow>
          (case over_limit (folder_limit cfg folder) (us_folder used + reservedBytes (Some folder) qm) fileSize folder of
             Some e \<Rightarrow> (Inl e, qm)
           | None \<Rightarrow>
               if \<not> reserve then (Inr None, qm)
               else
                 let n = qm_seq qm + 1;
                     r = \<lparr>qr_id = quota_id n, qr_folder = folder, qr_size = fileSize,
                          qr_expiresAt = now + reservationTtlMs cfg\<rparr>
                 in (Inr (Some r), qm\<lparr>qm_seq := n, qm_reservations := jm_set (qr_id r) r (qm_reservations qm)\<rparr>)))"

definition quota_release :: "reservation option \<Rightarrow> quota_manager \<Rightarrow> quota_manager" where
  "quota_release r qm = (case r of None \<Rightarrow> qm
     | Some x \<Rightarrow> qm\<lparr>qm_reservations := jm_delete (qr_id x) (qm_reservations qm)\<rparr>)"

subsection \<open>Usage and reports\<close>

type_synonym stored_files = "(string \<times> nat) list"

definition bytes_in :: "(string \<Rightarrow> bool) \<Rightarrow> stored_files \<Rightarrow> nat" where
  "bytes_in S files = sum_list (map snd (filter (\<lambda>(f, _). S f) files))"

definition global_usage :: "quota_config \<Rightarrow> stored_files \<Rightarrow> nat" where
  "global_usage cfg files = (if global_limit cfg \<noteq> None then bytes_in (\<lambda>_. True) files else 0)"

definition folder_usage :: "quota_config \<Rightarrow> string \<Rightarrow> stored_files \<Rightarrow> nat" where
  "folder_usage cfg folder files = (if folder_limit cfg folder \<noteq> None then bytes_in (\<lambda>f. f = folder) files else 0)"

record quota_info =
  qi_limit :: nat
  qi_used :: nat
  qi_available :: nat

definition getFolderQuota :: "string \<Rightarrow> stored_files \<Rightarrow> quota_manager \<Rightarrow> quota_info option" where
  "getFolderQuota folder files qm = (case folder_limit (qm_config qm) folder of
     None \<Rightarrow> None
   | Some l \<Rightarrow> let used = bytes_in (\<lambda>f. f = folder) files
       in Some \<lparr>qi_limit = l, qi_used = used, qi_available = l - used\<rparr>)"

definition getGlobalQuota :: "stored_files \<Rightarrow> quota_manager \<Rightarrow> quota_info option" where
  "getGlobalQuota files qm = (case global_limit (qm_config qm) of
     None \<Rightarrow> None
   | Some l \<Rightarrow> let used = bytes_in (\<lambda>_. True) files
       in Some \<lparr>qi_limit = l, qi_used = used, qi_available = l - used\<rparr>)"

text \<open>The formatted sizes and the percentage of the two reports are left out.\<close>

text \<open>A field that the update does not name is kept; a named \<open>global\<close> may be undefined.\<close>

record quota_update =
  qu_enabled :: "bool option"
  qu_global :: "nat option option"
  qu_folders :: "(string \<times> nat) list option"
  qu_reservationTtlMs :: "msec option option"

definition updateConfig :: "quota_update \<Rightarrow> quota_manager \<Rightarrow> quota_manager" where
  "updateConfig u qm = qm\<lparr>qm_config := (let cfg = qm_config qm in
     \<lparr>qc_enabled = (case qu_enabled u of Some b \<Rightarrow> b | None \<Rightarrow> qc_enabled cfg),
      qc_global = (case qu_global u of Some g \<Rightarrow> g | None \<Rightarrow> qc_global cfg),
      qc_folders = (case qu_folders u of Some fs \<Rightarrow> fs | None \<Rightarrow> qc_folders cfg),
      qc_reservationTtlMs = (case qu_reservationTtlMs u of Some t \<Rightarrow> t | None \<Rightarrow> qc_reservationTtlMs cfg)\<rparr>)\<rparr>"

definition within_limits :: "quota_config \<Rightarrow> stored_files \<Rightarrow> bool" where
  "within_limits cfg files \<longleftrightarrow>
     (case global_limit cfg of None \<Rightarrow> True | Some l \<Rightarrow> bytes_in (\<lambda>_. True) files \<le> l) \<and>
     list_all (\<lambda>folder. case folder_limit cfg folder of None \<Rightarrow> True | Some l \<Rightarrow> bytes_in (\<lambda>f. f = folder) files \<le> l)
       (jm_keys (qc_folders cfg))"

subsection \<open>Uploads in flight\<close>

text \<open>A call of \<open>checkQuota\<close> or \<open>reserve\<close> between its awaits: what it asks for, the
  usage figure of everything it has read, and the one of its folder once it has read it.\<close>

record quota_call =
  qk_folder :: string
  qk_size :: nat
  qk_reserve :: bool
  qk_global :: nat
  qk_folder_used :: "nat option"

definition call_usage :: "quota_call \<Rightarrow> nat \<Rightarrow> usage" where
  "call_usage c k = \<lparr>us_global = qk_global c, us_folder = k\<rparr>"

text \<open>The system: the manager, the files that landed, the calls that await their usage figures,
  the uploads that hold a granted reservation, the ids of those that have landed, and the time.\<close>

record quota_system =
  qs_manager :: quota_manager
  qs_files :: stored_files
  qs_calls :: "quota_call list"
  qs_uploads :: "reservation list"
  qs_landed :: "string list"
  qs_now :: msec

abbreviation qs_config :: "quota_system \<Rightarrow> quota_config" where
  "qs_config s \<equiv> qm_config (qs_manager s)"

definition granted :: "quota_exceeded + reservation option \<Rightarrow> reservation list" where
  "granted r = (case r of Inr (Some x) \<Rightarrow> [x] | _ \<Rightarrow> [])"

text \<open>The usage figures of a call miss nothing that has landed.\<close>

definition up_to_date :: "quota_system \<Rightarrow> quota_call \<Rightarrow> usage \<Rightarrow> bool" where
  "up_to_date s c used \<longleftrightarrow> global_usage (qs_config s) (qs_files s) \<le> us_global used \<and>
     folder_usage (qs_config s) (qk_folder c) (qs_files s) \<le> us_folder used"

text \<open>An upload whose reservation was granted lands at most once and releases the reservation
  when it ends, whether it has landed or failed; neither asks whether the manager still holds the
  reservation. Without enforcement no reservation is made and any upload lands. The
  configuration stays as it is during a run. Two flags
  restrict the runs: with \<open>fresh\<close> every decision is made on figures that miss nothing, with
  \<open>held\<close> every upload lands while its reservation is held.\<close>

inductive quota_step :: "bool \<Rightarrow> bool \<Rightarrow> quota_system \<Rightarrow> quota_system \<Rightarrow> bool" for fresh held where
  call: "qc_enabled (qs_config s) \<Longrightarrow>
    quota_step fresh held s (s\<lparr>qs_calls := \<lparr>qk_folder = folder, qk_size = fileSize, qk_reserve = reserve,
      qk_global = global_usage (qs_config s) (qs_files s), qk_folder_used = None\<rparr> # qs_calls s\<rparr>)"
| folder_read: "c \<in> set (qs_calls s) \<Longrightarrow> qk_folder_used c = None \<Longrightarrow>
    quota_step fresh held s (s\<lparr>qs_calls := c\<lparr>qk_folder_used := Some (folder_usage (qs_config s) (qk_folder c) (qs_files s))\<rparr>
      # remove1 c (qs_calls s)\<rparr>)"
| decide: "c \<in> set (qs_calls s) \<Longrightarrow> qk_folder_used c = Some k \<Longrightarrow>
    (fresh \<longrightarrow> up_to_date s c (call_usage c k)) \<Longrightarrow>
    quota_admit (qk_folder c) (qk_size c) (call_usage c k) (qk_reserve c) (qs_now s) (qs_manager s) = (r, qm) \<Longrightarrow>
    quota_step fresh held s (s\<lparr>qs_manager := qm, qs_calls := remove1 c (qs_calls s), qs_uploads := granted r @ qs_uploads s\<rparr>)"
| land: "r \<in> set (qs_uploads s) \<Longrightarrow> qr_id r \<notin> set (qs_landed s) \<Longrightarrow>
    (held \<longrightarrow> jm_get (qm_reservations (qs_manager s)) (qr_id r) = Some r) \<Longrightarrow>
    quota_step fresh held s (s\<lparr>qs_files := (qr_folder r, qr_size r) # qs_files s, qs_landed := qr_id r # qs_landed s\<rparr>)"
| land_unlimited: "\<not> qc_enabled (qs_config s) \<Longrightarrow>
    quota_step fresh held s (s\<lparr>qs_files := f # qs_files s\<rparr>)"
| release: "r \<in> set (qs_uploads s) \<Longrightarrow>
    quota_step fresh held s (s\<lparr>qs_manager := quota_release (Some r) (qs_manager s), qs_uploads := removeAll r (qs_uploads s)\<rparr>)"
| remove: "quota_step fresh held s (s\<lparr>qs_files := filter P (qs_files s)\<rparr>)"
| tick: "quota_step fresh held s (s\<lparr>qs_now := qs_now s + int d\<rparr>)"

text \<open>The bytes that the outstanding reservations hold, as files.\<close>

definition held_bytes :: "quota_manager \<Rightarrow> stored_files" where
  "held_bytes qm = map (\<lambda>(_, r). (qr_folder r, qr_size r)) (qm_reservations qm)"

subsection \<open>The invariant\<close>

definition pending_bytes :: "(string \<Rightarrow> bool) \<Rightarrow> string list \<Rightarrow> (string \<times> reservation) list \<Rightarrow> nat" where
  "pending_bytes S landed rs = sum_list (map (\<lambda>(_, r). qr_size r)
     (filter (\<lambda>(i, r). S (qr_folder r) \<and> i \<notin> set landed) rs))"

definition known_ids :: "nat \<Rightarrow> string set" where
  "known_ids n = quota_id ` {1..n}"

lemma fresh_id: "quota_id (Suc n) \<notin> known_ids n"
  by (auto simp: known_ids_def quota_id_def dest: show_nat_inj)

lemma known_ids_mono: "known_ids n \<subseteq> known_ids (Suc n)"
  by (auto simp: known_ids_def)

definition quota_ok :: "quota_system \<Rightarrow> bool" where
  "quota_ok s \<longleftrightarrow>
     jm_ok (qm_reservations (qs_manager s)) \<and>
     set (jm_keys (qm_reservations (qs_manager s))) \<subseteq> known_ids (qm_seq (qs_manager s)) \<and>
     set (qs_landed s) \<subseteq> known_ids (qm_seq (qs_manager s)) \<and>
     (\<forall>l. global_limit (qm_config (qs_manager s)) = Some l \<longrightarrow>
        bytes_in (\<lambda>_. True) (qs_files s) + pending_bytes (\<lambda>_. True) (qs_landed s) (qm_reservations (qs_manager s)) \<le> l) \<and>
     (\<forall>folder l. folder_limit (qm_config (qs_manager s)) folder = Some l \<longrightarrow>
        bytes_in (\<lambda>f. f = folder) (qs_files s) +
          pending_bytes (\<lambda>f. f = folder) (qs_landed s) (qm_reservations (qs_manager s)) \<le> l)"

lemma pending_filter: "pending_bytes S landed (filter P rs) \<le> pending_bytes S landed rs"
  unfolding pending_bytes_def by (induction rs) auto

lemma pending_delete: "pending_bytes S landed (jm_delete k rs) \<le> pending_bytes S landed rs"
  by (simp add: AList.delete_eq pending_filter)

lemma bytes_filter: "bytes_in S (filter P files) \<le> bytes_in S files"
  unfolding bytes_in_def by (induction files) auto

lemma pending_reserved:
  "pending_bytes (\<lambda>_. True) landed (qm_reservations qm) \<le> reservedBytes None qm"
  "pending_bytes (\<lambda>f. f = folder) landed (qm_reservations qm) \<le> reservedBytes (Some folder) qm"
proof -
  have "pending_bytes (\<lambda>_. True) landed rs \<le> sum_list (map (\<lambda>(_, r). qr_size r) rs)" for rs
    unfolding pending_bytes_def by (induction rs) auto
  then show "pending_bytes (\<lambda>_. True) landed (qm_reservations qm) \<le> reservedBytes None qm"
    by (simp add: reservedBytes_def case_prod_beta)
  have "pending_bytes (\<lambda>f. f = folder) landed rs \<le>
      sum_list (map (\<lambda>(_, r). qr_size r) (filter (\<lambda>(_, r). qr_folder r = folder) rs))" for rs
    unfolding pending_bytes_def by (induction rs) auto
  then show "pending_bytes (\<lambda>f. f = folder) landed (qm_reservations qm) \<le> reservedBytes (Some folder) qm"
    by (simp add: reservedBytes_def)
qed

lemma pending_new:
  assumes "qr_id r \<notin> set (jm_keys rs)" and "qr_id r \<notin> set landed"
  shows "pending_bytes S landed (jm_set (qr_id r) r rs) = pending_bytes S landed rs + (if S (qr_folder r) then qr_size r else 0)"
proof -
  have "jm_set (qr_id r) r rs = rs @ [(qr_id r, r)]" using assms(1) by (induction rs) auto
  with assms(2) show ?thesis by (simp add: pending_bytes_def)
qed

lemma pending_Cons:
  "pending_bytes S landed ((i, r) # rs) =
     (if S (qr_folder r) \<and> i \<notin> set landed then qr_size r else 0) + pending_bytes S landed rs"
  by (simp add: pending_bytes_def)

lemma pending_absent:
  "i \<notin> set (jm_keys rs) \<Longrightarrow> pending_bytes S (i # landed) rs = pending_bytes S landed rs"
  by (induction rs) (auto simp: pending_Cons pending_bytes_def)

lemma pending_landed:
  assumes "jm_ok rs" and "jm_get rs i = Some r" and "i \<notin> set landed"
  shows "pending_bytes S (i # landed) rs + (if S (qr_folder r) then qr_size r else 0) = pending_bytes S landed rs"
  using assms
proof (induction rs)
  case (Cons kr rs)
  obtain k q where kr: "kr = (k, q)" by (cases kr)
  show ?case
  proof (cases "k = i")
    case True
    with Cons.prems kr have "q = r" and "i \<notin> set (jm_keys rs)" by (simp_all add: jm_ok_def)
    with True kr Cons.prems(3) show ?thesis by (simp add: pending_Cons pending_absent)
  next
    case False
    with Cons.prems kr have "pending_bytes S (i # landed) rs + (if S (qr_folder r) then qr_size r else 0) =
        pending_bytes S landed rs" by (intro Cons.IH) (simp_all add: jm_ok_def)
    with False kr show ?thesis by (simp add: pending_Cons)
  qed
qed simp

lemma bytes_Cons: "bytes_in S ((f, n) # files) = (if S f then n else 0) + bytes_in S files"
  by (simp add: bytes_in_def)

subsection \<open>Every step keeps the invariant\<close>

lemma prune_fields [simp]:
  "qm_config (pruneExpiredReservations now qm) = qm_config qm"
  "qm_seq (pruneExpiredReservations now qm) = qm_seq qm"
  by (simp_all add: pruneExpiredReservations_def)

text \<open>Dropping reservations and files keeps it.\<close>

lemma quota_ok_fewer:
  assumes ok: "quota_ok s" and "qm_config qm = qm_config (qs_manager s)" and "qm_seq qm = qm_seq (qs_manager s)"
    and rs: "qm_reservations qm = filter P (qm_reservations (qs_manager s))"
  shows "quota_ok (s\<lparr>qs_manager := qm, qs_files := filter Q (qs_files s)\<rparr>)"
proof -
  have sum: "bytes_in S (filter Q (qs_files s)) + pending_bytes S (qs_landed s) (qm_reservations qm) \<le>
      bytes_in S (qs_files s) + pending_bytes S (qs_landed s) (qm_reservations (qs_manager s))" for S
    unfolding rs by (intro add_mono bytes_filter pending_filter)
  have "set (jm_keys (qm_reservations qm)) \<subseteq> set (jm_keys (qm_reservations (qs_manager s)))"
    unfolding rs by auto
  then have "jm_ok (qm_reservations qm)" "set (jm_keys (qm_reservations qm)) \<subseteq> known_ids (qm_seq qm)"
    using ok assms(3) by (auto simp: quota_ok_def rs)
  with ok assms(2,3) sum show ?thesis
    unfolding quota_ok_def by (auto intro: order_trans[OF sum])
qed

lemma quota_ok_shrink:
  assumes "quota_ok s"
  shows "quota_ok (s\<lparr>qs_manager := (qs_manager s)\<lparr>qm_reservations := filter P (qm_reservations (qs_manager s))\<rparr>\<rparr>)"
    and "quota_ok (s\<lparr>qs_files := filter Q (qs_files s)\<rparr>)"
  using quota_ok_fewer[OF assms, of "(qs_manager s)\<lparr>qm_reservations := filter P (qm_reservations (qs_manager s))\<rparr>" P "\<lambda>_. True"]
    quota_ok_fewer[OF assms, of "qs_manager s" "\<lambda>_. True" Q] by simp_all

lemma quota_ok_prune: "quota_ok s \<Longrightarrow> quota_ok (s\<lparr>qs_manager := pruneExpiredReservations now (qs_manager s)\<rparr>)"
  unfolding pruneExpiredReservations_def by (rule quota_ok_shrink)

lemma quota_ok_release: "quota_ok s \<Longrightarrow> quota_ok (s\<lparr>qs_manager := quota_release r (qs_manager s)\<rparr>)"
  by (cases r) (simp_all add: quota_release_def AList.delete_eq quota_ok_shrink)

lemma quota_ok_land:
  assumes ok: "quota_ok s" and get: "jm_get (qm_reservations (qs_manager s)) i = Some r" and new: "i \<notin> set (qs_landed s)"
  shows "quota_ok (s\<lparr>qs_files := (qr_folder r, qr_size r) # qs_files s, qs_landed := i # qs_landed s\<rparr>)"
proof -
  have jm: "jm_ok (qm_reservations (qs_manager s))" using ok by (simp add: quota_ok_def)
  have "i \<in> set (jm_keys (qm_reservations (qs_manager s)))" using get by (force dest: map_of_SomeD)
  with ok have "i \<in> known_ids (qm_seq (qs_manager s))" by (auto simp: quota_ok_def)
  moreover have "bytes_in S ((qr_folder r, qr_size r) # qs_files s) +
      pending_bytes S (i # qs_landed s) (qm_reservations (qs_manager s)) =
      bytes_in S (qs_files s) + pending_bytes S (qs_landed s) (qm_reservations (qs_manager s))" for S
    using pending_landed[OF jm get new, of S] by (simp add: bytes_Cons)
  ultimately show ?thesis using ok by (simp add: quota_ok_def)
qed

text \<open>An admitted upload fits beside what has landed and everything reserved.\<close>

lemma over_limit_None: "over_limit L current fileSize p = None \<longleftrightarrow> (\<forall>l. L = Some l \<longrightarrow> current + fileSize \<le> l)"
  by (auto simp: over_limit_def split: option.splits)

lemma admit_cases:
  assumes "quota_admit folder fileSize used reserve now qm0 = (r, qm')"
  shows "qm' = pruneExpiredReservations now qm0 \<or>
    (\<exists>x. qr_id x = quota_id (Suc (qm_seq qm0)) \<and> qr_folder x = folder \<and> qr_size x = fileSize \<and>
      qm' = (pruneExpiredReservations now qm0)\<lparr>qm_seq := Suc (qm_seq qm0),
        qm_reservations := jm_set (qr_id x) x (qm_reservations (pruneExpiredReservations now qm0))\<rparr> \<and>
      (\<forall>l. global_limit (qm_config qm0) = Some l \<longrightarrow>
         us_global used + reservedBytes None (pruneExpiredReservations now qm0) + fileSize \<le> l) \<and>
      (\<forall>l. folder_limit (qm_config qm0) folder = Some l \<longrightarrow>
         us_folder used + reservedBytes (Some folder) (pruneExpiredReservations now qm0) + fileSize \<le> l))"
proof (cases "qm' = pruneExpiredReservations now qm0")
  case False
  define x where "x = \<lparr>qr_id = quota_id (Suc (qm_seq qm0)), qr_folder = folder, qr_size = fileSize,
    qr_expiresAt = now + reservationTtlMs (qm_config qm0)\<rparr>"
  have "qr_id x = quota_id (Suc (qm_seq qm0)) \<and> qr_folder x = folder \<and> qr_size x = fileSize \<and>
      qm' = (pruneExpiredReservations now qm0)\<lparr>qm_seq := Suc (qm_seq qm0),
        qm_reservations := jm_set (qr_id x) x (qm_reservations (pruneExpiredReservations now qm0))\<rparr> \<and>
      over_limit (global_limit (qm_config qm0)) (us_global used + reservedBytes None (pruneExpiredReservations now qm0))
        fileSize ''global'' = None \<and>
      over_limit (folder_limit (qm_config qm0) folder)
        (us_folder used + reservedBytes (Some folder) (pruneExpiredReservations now qm0)) fileSize folder = None"
    using assms False by (simp add: quota_admit_def Let_def x_def split: option.splits if_splits)
  then show ?thesis unfolding over_limit_None by blast
qed simp

lemma admit_config: "quota_admit folder fileSize used reserve now qm0 = (r, qm') \<Longrightarrow> qm_config qm' = qm_config qm0"
  by (drule admit_cases) auto

lemma quota_ok_admit:
  assumes ok: "quota_ok s" and used: "global_usage (qs_config s) (qs_files s) \<le> us_global used"
      "folder_usage (qs_config s) folder (qs_files s) \<le> us_folder used"
    and admit: "quota_admit folder fileSize used reserve now (qs_manager s) = (r, qm')"
  shows "quota_ok (s\<lparr>qs_manager := qm'\<rparr>)"
  using admit_cases[OF admit]
proof (elim disjE exE conjE)
  assume "qm' = pruneExpiredReservations now (qs_manager s)"
  with ok show ?thesis by (simp add: quota_ok_prune)
next
  fix x
  let ?p = "pruneExpiredReservations now (qs_manager s)" and ?cfg = "qm_config (qs_manager s)"
  assume x: "qr_id x = quota_id (Suc (qm_seq (qs_manager s)))" "qr_folder x = folder" "qr_size x = fileSize"
    and qm': "qm' = ?p\<lparr>qm_seq := Suc (qm_seq (qs_manager s)),
        qm_reservations := jm_set (qr_id x) x (qm_reservations ?p)\<rparr>"
    and g: "\<forall>l. global_limit ?cfg = Some l \<longrightarrow> us_global used + reservedBytes None ?p + fileSize \<le> l"
    and f: "\<forall>l. folder_limit ?cfg folder = Some l \<longrightarrow> us_folder used + reservedBytes (Some folder) ?p + fileSize \<le> l"
  have ok': "quota_ok (s\<lparr>qs_manager := ?p\<rparr>)" using ok by (rule quota_ok_prune)
  have new: "qr_id x \<notin> set (jm_keys (qm_reservations ?p))" "qr_id x \<notin> set (qs_landed s)"
    using ok' fresh_id[of "qm_seq (qs_manager s)"] x(1) by (auto simp: quota_ok_def)
  have kids: "known_ids (qm_seq (qs_manager s)) \<subseteq> known_ids (Suc (qm_seq (qs_manager s)))"
    and kid: "qr_id x \<in> known_ids (Suc (qm_seq (qs_manager s)))" by (rule known_ids_mono) (simp add: x known_ids_def)
  have keys: "set (jm_keys (jm_set (qr_id x) x (qm_reservations ?p))) \<subseteq> known_ids (Suc (qm_seq (qs_manager s)))"
    using ok' kids kid by (auto simp: quota_ok_def dom_update)
  have landed: "set (qs_landed s) \<subseteq> known_ids (Suc (qm_seq (qs_manager s)))" using ok kids by (auto simp: quota_ok_def)
  have pend: "pending_bytes S (qs_landed s) (qm_reservations qm') =
      pending_bytes S (qs_landed s) (qm_reservations ?p) + (if S folder then fileSize else 0)" for S
    using pending_new[OF new, of S] by (simp add: qm' x(2,3))
  have global: "bytes_in (\<lambda>_. True) (qs_files s) + pending_bytes (\<lambda>_. True) (qs_landed s) (qm_reservations qm') \<le> l"
    if "global_limit ?cfg = Some l" for l
    using that g used(1) pending_reserved(1)[of "qs_landed s" ?p]
    by (auto simp: pend global_usage_def)
  have fold: "bytes_in (\<lambda>f. f = d) (qs_files s) + pending_bytes (\<lambda>f. f = d) (qs_landed s) (qm_reservations qm') \<le> l"
    if "folder_limit ?cfg d = Some l" for d l
  proof (cases "d = folder")
    case True
    with that f used(2) pending_reserved(2)[of folder "qs_landed s" ?p] show ?thesis
      by (auto simp: pend folder_usage_def)
  next
    case False
    with that ok' show ?thesis by (auto simp: pend quota_ok_def)
  qed
  have "jm_ok (jm_set (qr_id x) x (qm_reservations ?p))" using ok' by (simp add: quota_ok_def)
  with keys landed global fold show ?thesis by (simp add: quota_ok_def qm')
qed

text \<open>The reservations alone are the invariant of a system with no files.\<close>

abbreviation no_files :: "quota_system \<Rightarrow> quota_system" where
  "no_files s \<equiv> s\<lparr>qs_files := [], qs_landed := []\<rparr>"

lemma quota_ok_cong:
  "qs_manager s = qs_manager t \<Longrightarrow> qs_files s = qs_files t \<Longrightarrow> qs_landed s = qs_landed t \<Longrightarrow> quota_ok s \<longleftrightarrow> quota_ok t"
  by (simp add: quota_ok_def)

definition quota_sound :: "bool \<Rightarrow> bool \<Rightarrow> quota_system \<Rightarrow> bool" where
  "quota_sound fresh held s \<longleftrightarrow> qc_enabled (qs_config s) \<and> quota_ok (no_files s) \<and> (fresh \<and> held \<longrightarrow> quota_ok s)"

lemma quota_sound_files:
  "quota_sound fresh held s \<Longrightarrow> qs_manager t = qs_manager s \<Longrightarrow> (fresh \<and> held \<longrightarrow> quota_ok t) \<Longrightarrow> quota_sound fresh held t"
  by (simp add: quota_sound_def quota_ok_def)

lemma quota_sound_admit:
  assumes "quota_sound fresh held s" and "fresh \<longrightarrow> up_to_date s c used"
    and admit: "quota_admit (qk_folder c) n used b now (qs_manager s) = (r, qm)"
  shows "quota_sound fresh held (s\<lparr>qs_manager := qm, qs_calls := cs, qs_uploads := us\<rparr>)"
proof -
  have "quota_ok (no_files s\<lparr>qs_manager := qm\<rparr>)"
    using assms(1) admit
    by (intro quota_ok_admit[where folder = "qk_folder c" and used = used])
      (simp_all add: quota_sound_def global_usage_def folder_usage_def bytes_in_def)
  moreover have "fresh \<and> held \<longrightarrow> quota_ok (s\<lparr>qs_manager := qm\<rparr>)"
    using assms(1,2) admit
    by (auto intro!: quota_ok_admit[where folder = "qk_folder c" and used = used] simp: quota_sound_def up_to_date_def)
  ultimately show ?thesis using assms(1) admit_config[OF admit] by (simp add: quota_sound_def quota_ok_def)
qed

lemma quota_sound_release:
  assumes "quota_sound fresh held s"
  shows "quota_sound fresh held (s\<lparr>qs_manager := quota_release (Some r) (qs_manager s), qs_uploads := us\<rparr>)"
proof -
  have "quota_ok (no_files s) \<Longrightarrow> quota_ok (no_files s\<lparr>qs_manager := quota_release (Some r) (qs_manager s)\<rparr>)"
    using quota_ok_release[of "no_files s" "Some r"] by simp
  then show ?thesis
    using assms quota_ok_release[of s "Some r"] by (auto simp: quota_sound_def quota_release_def quota_ok_def)
qed

lemma quota_step_sound:
  assumes "quota_step fresh held s t" and "quota_sound fresh held s"
  shows "quota_sound fresh held t \<and> qs_config t = qs_config s"
  using assms
proof (cases rule: quota_step.cases)
  case (decide c k r qm)
  with assms(2) show ?thesis by (auto intro: quota_sound_admit dest: admit_config)
next
  case (land r)
  with assms(2) show ?thesis by (auto intro!: quota_sound_files[OF assms(2)] quota_ok_land simp: quota_sound_def)
next
  case (release r)
  with assms(2) show ?thesis by (simp add: quota_sound_release) (simp add: quota_release_def)
next
  case (remove P)
  with assms(2) show ?thesis by (auto intro!: quota_sound_files[OF assms(2)] simp: quota_sound_def quota_ok_shrink)
qed (auto intro!: quota_sound_files[OF assms(2)] simp: quota_sound_def quota_ok_def)

lemma quota_run_sound:
  "(quota_step fresh held)\<^sup>*\<^sup>* s t \<Longrightarrow> quota_sound fresh held s \<Longrightarrow> quota_sound fresh held t \<and> qs_config t = qs_config s"
  by (induction rule: rtranclp_induct) (auto dest: quota_step_sound)

lemma folder_limit_key: "folder_limit cfg folder = Some l \<Longrightarrow> folder \<in> set (jm_keys (qc_folders cfg))"
  by (auto simp: folder_limit_def dest!: map_of_SomeD split: option.splits if_splits) force

lemma within_limits_iff:
  "within_limits cfg files \<longleftrightarrow>
     (\<forall>l. global_limit cfg = Some l \<longrightarrow> bytes_in (\<lambda>_. True) files \<le> l) \<and>
     (\<forall>folder l. folder_limit cfg folder = Some l \<longrightarrow> bytes_in (\<lambda>f. f = folder) files \<le> l)"
proof -
  have "list_all (\<lambda>folder. case folder_limit cfg folder of None \<Rightarrow> True | Some l \<Rightarrow> bytes_in (\<lambda>f. f = folder) files \<le> l)
      (jm_keys (qc_folders cfg)) \<longleftrightarrow>
    (\<forall>folder l. folder_limit cfg folder = Some l \<longrightarrow> bytes_in (\<lambda>f. f = folder) files \<le> l)"
    unfolding list_all_iff using folder_limit_key[of cfg]
    by (intro iffI allI impI ballI) (blast | simp split: option.split | fastforce)+
  then show ?thesis unfolding within_limits_def by (simp split: option.split)
qed

lemma quota_ok_within: "quota_ok s \<Longrightarrow> within_limits (qs_config s) (qs_files s)"
  by (fastforce simp: quota_ok_def within_limits_iff)

lemma pending_held: "pending_bytes S [] (qm_reservations qm) = bytes_in S (held_bytes qm)"
proof -
  have "pending_bytes S [] rs = bytes_in S (map (\<lambda>(_, r). (qr_folder r, qr_size r)) rs)" for rs
    by (induction rs) (auto simp: pending_bytes_def bytes_in_def)
  then show ?thesis by (simp add: held_bytes_def)
qed

lemma quota_ok_held: "quota_ok (no_files s) \<Longrightarrow> within_limits (qs_config s) (held_bytes (qs_manager s))"
  by (auto simp: quota_ok_def within_limits_iff pending_held bytes_in_def)

definition quota_start :: "quota_opts \<Rightarrow> stored_files \<Rightarrow> msec \<Rightarrow> quota_system" where
  "quota_start qo files now =
     \<lparr>qs_manager = new_quota_manager qo, qs_files = files, qs_calls = [], qs_uploads = [], qs_landed = [], qs_now = now\<rparr>"

lemma quota_start_sound:
  "qo_enabled qo \<noteq> Some False \<Longrightarrow> within_limits (qm_config (new_quota_manager qo)) files \<Longrightarrow>
     quota_sound fresh held (quota_start qo files now)"
  by (simp add: quota_sound_def quota_ok_def quota_start_def within_limits_iff bytes_in_def)
     (simp add: new_quota_manager_def pending_bytes_def)

subsection \<open>The properties\<close>

definition demo_quota :: quota_opts where
  "demo_quota = \<lparr>qo_enabled = None, qo_global = Some 10, qo_folders = Some [(''public'', 6)], qo_reservationTtlMs = None\<rparr>"

definition demo_reservation :: reservation where
  "demo_reservation = \<lparr>qr_id = quota_id 1, qr_folder = ''public'', qr_size = 6, qr_expiresAt = 900000\<rparr>"

text \<open>C23: An enforcing quota manager that starts with the stored files inside its limits. In
  every run, however calls, awaited usage figures, decisions, landings, releases, expiry of
  reservations and deletions interleave, the outstanding reservations together stay inside the
  global and every folder limit. In a run where no upload lands unnoticed between the usage figures
  of a call and its decision (\<open>fresh\<close>), and each upload lands while the manager still holds its
  reservation (\<open>held\<close>), the landed files stay inside every limit as well.\<close>

theorem reserved_uploads_stay_within_limits:
  assumes "(quota_step fresh held)\<^sup>*\<^sup>* (quota_start qo files now) s"
    and "qo_enabled qo \<noteq> Some False"
    and "within_limits (qm_config (new_quota_manager qo)) files"
  shows "within_limits (qm_config (new_quota_manager qo)) (held_bytes (qs_manager s)) \<and>
    (fresh \<and> held \<longrightarrow> within_limits (qm_config (new_quota_manager qo)) (qs_files s))"
proof -
  from quota_run_sound[OF assms(1) quota_start_sound[OF assms(2,3)]]
  have "quota_sound fresh held s" and "qs_config s = qm_config (new_quota_manager qo)"
    by (simp_all add: quota_start_def)
  then show ?thesis using quota_ok_within[of s] quota_ok_held[of s] by (simp add: quota_sound_def)
qed

text \<open>A call of \<open>reserve\<close> that nothing interrupts, on the stored files \<open>files\<close>.\<close>

lemma undisturbed_reserve:
  assumes "qc_enabled (qs_config s)"
    and "quota_admit folder n \<lparr>us_global = global_usage (qs_config s) (qs_files s),
      us_folder = folder_usage (qs_config s) folder (qs_files s)\<rparr> True (qs_now s) (qs_manager s) = (Inr (Some x), qm)"
  shows "(quota_step fresh held)\<^sup>*\<^sup>* s (s\<lparr>qs_manager := qm, qs_uploads := x # qs_uploads s\<rparr>)"
proof -
  let ?c = "\<lparr>qk_folder = folder, qk_size = n, qk_reserve = True,
    qk_global = global_usage (qs_config s) (qs_files s), qk_folder_used = None\<rparr>"
  let ?d = "?c\<lparr>qk_folder_used := Some (folder_usage (qs_config s) folder (qs_files s))\<rparr>"
  let ?s1 = "s\<lparr>qs_calls := ?c # qs_calls s\<rparr>" and ?s2 = "s\<lparr>qs_calls := ?d # qs_calls s\<rparr>"
  have "quota_step fresh held s ?s1" by (rule quota_step.call) (rule assms(1))
  moreover have "quota_step fresh held ?s1 ?s2" using quota_step.folder_read[of ?c ?s1 fresh held] by simp
  moreover have "quota_step fresh held ?s2 (s\<lparr>qs_manager := qm, qs_uploads := x # qs_uploads s\<rparr>)"
    using quota_step.decide[of ?d ?s2 "folder_usage (qs_config s) folder (qs_files s)" fresh "Inr (Some x)" qm held] assms(2)
    by (simp add: call_usage_def up_to_date_def granted_def)
  ultimately show ?thesis by (meson converse_rtranclp_into_rtranclp r_into_rtranclp)
qed

lemma demo_run:
  "(quota_step True True)\<^sup>*\<^sup>* (quota_start demo_quota [] 0)
     \<lparr>qs_manager = (new_quota_manager demo_quota)\<lparr>qm_seq := 1, qm_reservations := [(quota_id 1, demo_reservation)]\<rparr>,
      qs_files = [(''public'', 6)], qs_calls = [], qs_uploads = [demo_reservation], qs_landed = [quota_id 1], qs_now = 0\<rparr>"
proof -
  let ?s = "(quota_start demo_quota [] 0)\<lparr>qs_manager :=
      (new_quota_manager demo_quota)\<lparr>qm_seq := 1, qm_reservations := [(quota_id 1, demo_reservation)]\<rparr>,
      qs_uploads := [demo_reservation]\<rparr>"
  have "(quota_step True True)\<^sup>*\<^sup>* (quota_start demo_quota [] 0) ?s"
    using undisturbed_reserve[of "quota_start demo_quota [] 0" "''public''" 6 demo_reservation _ True True]
    by (simp add: quota_start_def new_quota_manager_def demo_quota_def quota_admit_def over_limit_def
      global_limit_def folder_limit_def global_usage_def folder_usage_def bytes_in_def pruneExpiredReservations_def
      reservedBytes_def demo_reservation_def reservationTtlMs_def DEFAULT_RESERVATION_TTL_MS_def Let_def)
  also have "quota_step True True ?s
     \<lparr>qs_manager = (new_quota_manager demo_quota)\<lparr>qm_seq := 1, qm_reservations := [(quota_id 1, demo_reservation)]\<rparr>,
      qs_files = [(''public'', 6)], qs_calls = [], qs_uploads = [demo_reservation], qs_landed = [quota_id 1], qs_now = 0\<rparr>"
    using quota_step.land[of demo_reservation ?s True True] by (simp add: quota_start_def demo_reservation_def)
  finally show ?thesis .
qed

lemma reserved_uploads_stay_within_limits_witness:
  "within_limits (qm_config (new_quota_manager demo_quota)) [(''public'', 6)] \<and>
   within_limits (qm_config (new_quota_manager demo_quota)) (held_bytes
     ((new_quota_manager demo_quota)\<lparr>qm_seq := 1, qm_reservations := [(quota_id 1, demo_reservation)]\<rparr>))"
proof -
  have "within_limits (qm_config (new_quota_manager demo_quota)) []"
    by (simp add: within_limits_iff bytes_in_def)
  with reserved_uploads_stay_within_limits[OF demo_run] show ?thesis by (simp add: demo_quota_def)
qed

text \<open>Neither condition can be left out: \<open>fresh\<close> and \<open>held\<close> exclude what does happen.\<close>

lemma reserve_empty:
  assumes "qm_config qm = cfg" and "qm_reservations (pruneExpiredReservations now qm) = []" and "qc_enabled cfg"
    and "global_limit cfg = Some l" and "folder_limit cfg folder = None" and "n \<le> l"
  obtains x qm' where "quota_admit folder n \<lparr>us_global = 0, us_folder = 0\<rparr> True now qm = (Inr (Some x), qm')"
    and "qr_id x = quota_id (Suc (qm_seq qm))" and "qr_folder x = folder" and "qr_size x = n"
    and "qr_expiresAt x = now + reservationTtlMs cfg"
    and "qm_reservations qm' = [(qr_id x, x)]" and "qm_config qm' = cfg" and "qm_seq qm' = Suc (qm_seq qm)"
  using assms by (auto simp: quota_admit_def Let_def over_limit_def reservedBytes_def intro: that)

lemma two_uploads_exceed:
  assumes "global_limit cfg = Some l" and "l < a + b"
  shows "\<not> within_limits cfg [(folder, b), (folder, a)]"
  using assms by (auto simp: within_limits_iff bytes_in_def)

lemma quota_id_eq [simp]: "quota_id m = quota_id n \<longleftrightarrow> m = n"
  by (auto simp: quota_id_def dest: show_nat_inj)



text \<open>The usage figures of a decision may be old: an upload that lands and releases its
  reservation between the figures of another call and its decision is counted by neither, and
  two uploads that do not fit together both land, each while its reservation is held.\<close>

theorem stale_usage_oversubscribes:
  assumes "qo_enabled qo \<noteq> Some False" and "cfg = qm_config (new_quota_manager qo)"
    and "global_limit cfg = Some l" and "folder_limit cfg folder = None"
    and "a \<le> l" and "b \<le> l" and "l < a + b"
  shows "\<exists>s. (quota_step False True)\<^sup>*\<^sup>* (quota_start qo [] now) s \<and> \<not> within_limits cfg (qs_files s)"
proof -
  let ?s0 = "quota_start qo [] now" and ?qm0 = "new_quota_manager qo"
  let ?c = "\<lparr>qk_folder = folder, qk_size = b, qk_reserve = True, qk_global = 0, qk_folder_used = None\<rparr>"
  let ?d = "?c\<lparr>qk_folder_used := Some 0\<rparr>"
  have e: "qc_enabled cfg" and r0: "qm_reservations (pruneExpiredReservations now ?qm0) = []"
    using assms(1,2) by (simp_all add: new_quota_manager_def pruneExpiredReservations_def)
  obtain x1 qm1 where a1: "quota_admit folder a \<lparr>us_global = 0, us_folder = 0\<rparr> True now ?qm0 = (Inr (Some x1), qm1)"
    and x1: "qr_folder x1 = folder" "qr_size x1 = a" "qr_id x1 = quota_id (Suc (qm_seq ?qm0))"
    and qm1: "qm_reservations qm1 = [(qr_id x1, x1)]" "qm_config qm1 = cfg" "qm_seq qm1 = Suc (qm_seq ?qm0)"
    by (rule reserve_empty[OF assms(2)[symmetric] r0 e assms(3,4,5)])
  let ?rel = "quota_release (Some x1) qm1"
  have qm: "qm_reservations ?rel = []" "qm_config ?rel = cfg" "qm_seq ?rel = Suc (qm_seq ?qm0)"
    by (simp_all add: quota_release_def qm1)
  then have r1: "qm_reservations (pruneExpiredReservations now ?rel) = []" by (simp add: pruneExpiredReservations_def)
  obtain x2 qm2 where a2: "quota_admit folder b \<lparr>us_global = 0, us_folder = 0\<rparr> True now ?rel = (Inr (Some x2), qm2)"
    and x2: "qr_folder x2 = folder" "qr_size x2 = b" "qr_id x2 = quota_id (Suc (qm_seq ?rel))"
    and qm2: "qm_reservations qm2 = [(qr_id x2, x2)]"
    by (rule reserve_empty[OF qm(2) r1 e assms(3,4,6)])
  let ?s2 = "?s0\<lparr>qs_calls := [?d]\<rparr>" and ?s3 = "?s0\<lparr>qs_calls := [?d], qs_manager := qm1, qs_uploads := [x1]\<rparr>"
  let ?s4 = "?s3\<lparr>qs_files := [(folder, a)], qs_landed := [qr_id x1]\<rparr>"
  let ?s5 = "?s4\<lparr>qs_manager := ?rel, qs_uploads := []\<rparr>"
  let ?s6 = "?s5\<lparr>qs_manager := qm2, qs_calls := [], qs_uploads := [x2]\<rparr>"
  let ?s7 = "?s6\<lparr>qs_files := [(folder, b), (folder, a)], qs_landed := [qr_id x2, qr_id x1]\<rparr>"
  have u: "global_usage c [] = 0" "folder_usage c f [] = 0" for c f by (simp_all add: global_usage_def folder_usage_def bytes_in_def)
  have "(quota_step False True)\<^sup>*\<^sup>* ?s0 (?s0\<lparr>qs_calls := [?c]\<rparr>)"
    by (rule r_into_rtranclp) (use quota_step.call[of ?s0 False True folder b True] e assms(2) in \<open>simp add: quota_start_def u\<close>)
  also have "quota_step False True (?s0\<lparr>qs_calls := [?c]\<rparr>) ?s2"
    using quota_step.folder_read[of ?c "?s0\<lparr>qs_calls := [?c]\<rparr>" False True] assms(2) by (simp add: quota_start_def u)
  also have "(quota_step False True)\<^sup>*\<^sup>* ?s2 ?s3"
    using undisturbed_reserve[of ?s2 folder a x1 qm1 False True] e a1 assms(2) by (simp add: quota_start_def u)
  also have "quota_step False True ?s3 ?s4"
    using quota_step.land[of x1 ?s3 True False] qm1 x1 by (simp add: quota_start_def)
  also have "quota_step False True ?s4 ?s5"
    using quota_step.release[of x1 ?s4 False True] by (simp add: quota_start_def)
  also have "quota_step False True ?s5 ?s6"
    using quota_step.decide[of ?d ?s5 0 False "Inr (Some x2)" qm2 True] a2 by (simp add: quota_start_def call_usage_def granted_def)
  also have "quota_step False True ?s6 ?s7"
    using quota_step.land[of x2 ?s6 True False] x1(3) x2 qm(3) qm2 by (simp add: quota_start_def)
  finally show ?thesis using two_uploads_exceed[OF assms(3,7), of folder] by fastforce
qed

lemma stale_usage_oversubscribes_witness:
  "\<exists>s. (quota_step False True)\<^sup>*\<^sup>* (quota_start demo_quota [] 0) s \<and> \<not> within_limits (qm_config (new_quota_manager demo_quota)) (qs_files s)"
  by (rule stale_usage_oversubscribes[OF _ refl, of demo_quota 10 "''x''" 7 8])
     (simp_all add: new_quota_manager_def demo_quota_def global_limit_def folder_limit_def)

end
