(* ===== verification/Di_Container.thy ===== *)
theory Di_Container
  imports Civic_Prelude
begin

section \<open>The dependency container\<close>

text \<open>
  \<open>core/src/di\<close>: \<open>container.ts\<close>, \<open>service-registry.ts\<close>, \<open>service-lifetime.ts\<close>,
  \<open>circular-dependency-detector.ts\<close>, \<open>dependency-resolver.ts\<close>. A factory is a tree of what it
  asks the container before it ends; the value it ends with depends on a serial number of
  the construction, so that two constructions can be told apart. Resolution recurses
  through the factories and need not end, so it takes fuel and \<open>None\<close> is a run that has not
  returned. Keys are of any type. \<open>initializationPromise\<close>, which no code sets, is left out.
\<close>

subsection \<open>Services\<close>

datatype service_lifetime = Singleton | Transient | Scoped

definition shouldCache :: "service_lifetime \<Rightarrow> bool" where
  "shouldCache lt \<longleftrightarrow> lt = Singleton \<or> lt = Scoped"

text \<open>\<open>MissingDependency None d\<close> names the requiring service \<open>Unknown\<close>; \<open>OtherThrown\<close> is an
  error that is not the container's.\<close>

datatype 'k di_error =
    ServiceNotFound 'k
  | CircularDependency "'k list"
  | ServiceRegistration 'k string
  | DuplicateService 'k
  | MissingDependency "'k option" 'k
  | OtherThrown string

datatype ('k, 'v) factory =
    Finish "nat \<Rightarrow> string + 'v"
  | Need 'k "'v \<Rightarrow> ('k, 'v) factory"
  | IfRegistered 'k "bool \<Rightarrow> ('k, 'v) factory"
  | Missing 'k

record ('k, 'v) service =
  sv_factory :: "('k, 'v) factory option"
  sv_instance :: "'v option"
  sv_lifetime :: service_lifetime
  sv_dependencies :: "'k list"
  sv_initialized :: bool

record ('k, 'v) container =
  ct_services :: "('k \<times> ('k, 'v) service) list"
  ct_stack :: "'k list"

definition new_container :: "('k, 'v) container" where
  "new_container = \<lparr>ct_services = [], ct_stack = []\<rparr>"

subsection \<open>The registry\<close>

definition registry_register :: "'k \<Rightarrow> ('k, 'v) service \<Rightarrow> bool \<Rightarrow> ('k, 'v) container \<Rightarrow>
    ('k di_error + ('k, 'v) container)" where
  "registry_register k m allowOverride c =
     (if jm_get (ct_services c) k \<noteq> None \<and> \<not> allowOverride then Inl (DuplicateService k)
      else Inr (c\<lparr>ct_services := jm_set k m (ct_services c)\<rparr>))"

definition registry_update :: "'k \<Rightarrow> 'v \<Rightarrow> ('k, 'v) container \<Rightarrow> ('k di_error + ('k, 'v) container)" where
  "registry_update k v c = (case jm_get (ct_services c) k of
     None \<Rightarrow> Inl (OtherThrown ''Cannot update unregistered service'')
   | Some m \<Rightarrow> Inr (c\<lparr>ct_services := jm_set k (m\<lparr>sv_instance := Some v, sv_initialized := True\<rparr>) (ct_services c)\<rparr>))"

definition isRegistered :: "'k \<Rightarrow> ('k, 'v) container \<Rightarrow> bool" where
  "isRegistered k c \<longleftrightarrow> jm_get (ct_services c) k \<noteq> None"

definition getRegisteredKeys :: "('k, 'v) container \<Rightarrow> 'k list" where
  "getRegisteredKeys c = jm_keys (ct_services c)"

definition register :: "'k \<Rightarrow> ('k, 'v) factory \<Rightarrow> service_lifetime \<Rightarrow> ('k, 'v) container \<Rightarrow>
    ('k di_error + ('k, 'v) container)" where
  "register k f lt c = registry_register k
     \<lparr>sv_factory = Some f, sv_instance = None, sv_lifetime = lt, sv_dependencies = [], sv_initialized = False\<rparr> False c"

definition singleton :: "'k \<Rightarrow> ('k, 'v) factory \<Rightarrow> ('k, 'v) container \<Rightarrow> ('k di_error + ('k, 'v) container)" where
  "singleton k f c = register k f Singleton c"

definition transient :: "'k \<Rightarrow> ('k, 'v) factory \<Rightarrow> ('k, 'v) container \<Rightarrow> ('k di_error + ('k, 'v) container)" where
  "transient k f c = register k f Transient c"

definition registerInstance :: "'k \<Rightarrow> 'v \<Rightarrow> bool \<Rightarrow> ('k, 'v) container \<Rightarrow> ('k di_error + ('k, 'v) container)" where
  "registerInstance k v allowOverride c = registry_register k
     \<lparr>sv_factory = None, sv_instance = Some v, sv_lifetime = Singleton, sv_dependencies = [], sv_initialized = True\<rparr>
     allowOverride c"

text \<open>The factory of a class: \<open>resolveDependencies\<close> in order, then the constructor.\<close>

fun resolveDependencies :: "'k list \<Rightarrow> 'v list \<Rightarrow> (nat \<Rightarrow> 'v list \<Rightarrow> string + 'v) \<Rightarrow> ('k, 'v) factory" where
  "resolveDependencies [] vs ctor = Finish (\<lambda>n. ctor n vs)"
| "resolveDependencies (d # ds) vs ctor =
     IfRegistered d (\<lambda>b. if b then Need d (\<lambda>v. resolveDependencies ds (vs @ [v]) ctor) else Missing d)"

definition class_service :: "'k list \<Rightarrow> (nat \<Rightarrow> 'v list \<Rightarrow> string + 'v) \<Rightarrow> service_lifetime \<Rightarrow> ('k, 'v) service" where
  "class_service deps ctor lt = \<lparr>sv_factory = Some (resolveDependencies deps [] ctor), sv_instance = None,
     sv_lifetime = lt, sv_dependencies = deps, sv_initialized = False\<rparr>"

definition registerClass :: "'k \<Rightarrow> (nat \<Rightarrow> 'v list \<Rightarrow> string + 'v) \<Rightarrow> 'k list \<Rightarrow> service_lifetime \<Rightarrow>
    ('k, 'v) container \<Rightarrow> ('k di_error + ('k, 'v) container)" where
  "registerClass k ctor deps lt c = registry_register k (class_service deps ctor lt) False c"

definition clear_container :: "('k, 'v) container \<Rightarrow> ('k, 'v) container" where
  "clear_container c = \<lparr>ct_services = [], ct_stack = []\<rparr>"

text \<open>The child starts with the parent's singletons only.\<close>

definition createScope :: "('k, 'v) container \<Rightarrow> ('k, 'v) container" where
  "createScope c = \<lparr>ct_services = filter (\<lambda>(k, m). sv_lifetime m = Singleton) (ct_services c), ct_stack = []\<rparr>"

subsection \<open>Resolution\<close>

text \<open>The state: the container and the number of constructions so far.\<close>

type_synonym ('k, 'v) di_state = "('k, 'v) container \<times> nat"

type_synonym ('k, 'v) di_run = "(('k di_error + 'v) \<times> ('k, 'v) di_state) option"

primrec run_factory :: "('k \<Rightarrow> ('k, 'v) di_state \<Rightarrow> ('k, 'v) di_run) \<Rightarrow> ('k, 'v) factory \<Rightarrow> ('k, 'v) di_state \<Rightarrow>
    ('k, 'v) di_run" where
  "run_factory res (Finish b) s = (case b (snd s) of
      Inl msg \<Rightarrow> Some (Inl (OtherThrown msg), s)
    | Inr v \<Rightarrow> Some (Inr v, (fst s, Suc (snd s))))"
| "run_factory res (Need k f) s = (case res k s of
      None \<Rightarrow> None
    | Some (Inl e, s') \<Rightarrow> Some (Inl e, s')
    | Some (Inr v, s') \<Rightarrow> run_factory res (f v) s')"
| "run_factory res (IfRegistered k f) s = run_factory res (f (isRegistered k (fst s))) s"
| "run_factory res (Missing k) s = Some (Inl (MissingDependency
      (case ct_stack (fst s) of [] \<Rightarrow> None | x # xs \<Rightarrow> Some x) k), s)"

fun wrap_error :: "'k \<Rightarrow> 'k di_error \<Rightarrow> 'k di_error" where
  "wrap_error k (OtherThrown msg) = ServiceRegistration k (''Factory function threw error: '' @ msg)"
| "wrap_error k e = e"

definition createInstance :: "('k \<Rightarrow> ('k, 'v) di_state \<Rightarrow> ('k, 'v) di_run) \<Rightarrow> 'k \<Rightarrow> ('k, 'v) service \<Rightarrow>
    ('k, 'v) di_state \<Rightarrow> ('k, 'v) di_run" where
  "createInstance res k m s = (case sv_instance m of
     Some v \<Rightarrow> Some (Inr v, s)
   | None \<Rightarrow> (case sv_factory m of
       None \<Rightarrow> Some (Inl (ServiceRegistration k ''No factory or instance provided''), s)
     | Some f \<Rightarrow> map_option (\<lambda>(r, s'). (map_sum (wrap_error k) id r, s')) (run_factory res f s)))"

definition enter :: "'k \<Rightarrow> ('k, 'v) container \<Rightarrow> ('k, 'v) container" where
  "enter k c = c\<lparr>ct_stack := ct_stack c @ [k]\<rparr>"

definition exit_stack :: "('k, 'v) container \<Rightarrow> ('k, 'v) container" where
  "exit_stack c = c\<lparr>ct_stack := butlast (ct_stack c)\<rparr>"

definition detector_check :: "'k \<Rightarrow> ('k, 'v) container \<Rightarrow> 'k di_error option" where
  "detector_check k c = (if k \<in> set (ct_stack c) then Some (CircularDependency (ct_stack c @ [k])) else None)"

text \<open>The instance of a cached service is stored, then the stack is popped on every path.\<close>

definition cache_instance :: "'k \<Rightarrow> service_lifetime \<Rightarrow> ('k di_error + 'v) \<times> ('k, 'v) di_state \<Rightarrow>
    ('k di_error + 'v) \<times> ('k, 'v) di_state" where
  "cache_instance k lt = (\<lambda>(r, (c, n)). case r of
     Inl e \<Rightarrow> (Inl e, (exit_stack c, n))
   | Inr v \<Rightarrow> if shouldCache lt
       then (case registry_update k v c of
           Inl e \<Rightarrow> (Inl e, (exit_stack c, n))
         | Inr c' \<Rightarrow> (Inr v, (exit_stack c', n)))
       else (Inr v, (exit_stack c, n)))"

definition resolve_body :: "('k \<Rightarrow> ('k, 'v) di_state \<Rightarrow> ('k, 'v) di_run) \<Rightarrow> 'k \<Rightarrow> ('k, 'v) di_state \<Rightarrow>
    ('k, 'v) di_run" where
  "resolve_body res k s =
     (case jm_get (ct_services (fst s)) k of
        None \<Rightarrow> Some (Inl (ServiceNotFound k), s)
      | Some m \<Rightarrow> (case detector_check k (fst s) of
          Some e \<Rightarrow> Some (Inl e, s)
        | None \<Rightarrow>
            if sv_instance m \<noteq> None \<and> shouldCache (sv_lifetime m) then Some (Inr (the (sv_instance m)), s)
            else if sv_lifetime m = Transient then createInstance res k m s
            else map_option (cache_instance k (sv_lifetime m))
              (createInstance res k m (enter k (fst s), snd s))))"

primrec resolve_service :: "nat \<Rightarrow> 'k \<Rightarrow> ('k, 'v) di_state \<Rightarrow> ('k, 'v) di_run" where
  "resolve_service 0 k s = None"
| "resolve_service (Suc fuel) k s = resolve_body (resolve_service fuel) k s"

subsection \<open>What resolution keeps\<close>

text \<open>Resolution leaves the stack, the keys and the registrations alone, keeps every cached
  instance and does not touch the services under construction.\<close>

definition same_service :: "('k, 'v) service \<Rightarrow> ('k, 'v) service \<Rightarrow> bool" where
  "same_service m m' \<longleftrightarrow> sv_factory m' = sv_factory m \<and> sv_lifetime m' = sv_lifetime m \<and>
     sv_dependencies m' = sv_dependencies m \<and> (sv_instance m \<noteq> None \<longrightarrow> sv_instance m' = sv_instance m)"

definition grows :: "('k, 'v) di_state \<Rightarrow> ('k, 'v) di_state \<Rightarrow> bool" where
  "grows s s' \<longleftrightarrow> ct_stack (fst s') = ct_stack (fst s) \<and> snd s \<le> snd s' \<and>
     jm_keys (ct_services (fst s')) = jm_keys (ct_services (fst s)) \<and>
     (\<forall>k. rel_option same_service (jm_get (ct_services (fst s)) k) (jm_get (ct_services (fst s')) k)) \<and>
     (\<forall>k\<in>set (ct_stack (fst s)). jm_get (ct_services (fst s')) k = jm_get (ct_services (fst s)) k)"

lemma same_service_refl [simp]: "same_service m m"
  by (simp add: same_service_def)

lemma grows_refl [simp]: "grows s s"
  by (simp add: grows_def option.rel_refl)

lemma grows_trans [trans]: "grows s t \<Longrightarrow> grows t u \<Longrightarrow> grows s u"
proof -
  assume st: "grows s t" and tu: "grows t u"
  have "rel_option same_service (jm_get (ct_services (fst s)) k) (jm_get (ct_services (fst u)) k)" for k
  proof -
    from st tu have "rel_option same_service (jm_get (ct_services (fst s)) k) (jm_get (ct_services (fst t)) k)"
      and "rel_option same_service (jm_get (ct_services (fst t)) k) (jm_get (ct_services (fst u)) k)"
      by (simp_all add: grows_def)
    then show ?thesis by (auto simp: option_rel_Some1 same_service_def elim!: option.rel_cases)
  qed
  with st tu show ?thesis by (simp add: grows_def)
qed

definition growing :: "('k \<Rightarrow> ('k, 'v) di_state \<Rightarrow> ('k, 'v) di_run) \<Rightarrow> bool" where
  "growing res \<longleftrightarrow> (\<forall>k s r s'. res k s = Some (r, s') \<longrightarrow> grows s s')"

lemma growingD: "growing res \<Longrightarrow> res k s = Some (r, s') \<Longrightarrow> grows s s'"
  unfolding growing_def by blast

lemma run_factory_grows:
  assumes "growing res"
  shows "run_factory res f s = Some (r, s') \<Longrightarrow> grows s s'"
proof (induction f arbitrary: s)
  case (Finish b)
  then show ?case by (auto simp: grows_def option.rel_refl split: sum.splits)
next
  case (IfRegistered k f)
  then show ?case using IfRegistered.IH[OF rangeI] by simp
next
  case (Need k f)
  from Need.prems obtain q t where q: "res k s = Some (q, t)" by (auto split: option.splits)
  with assms have "grows s t" by (rule growingD)
  also have "grows t s'"
  proof (cases q)
    case (Inl e)
    with Need.prems q show ?thesis by simp
  next
    case (Inr v)
    with Need.prems q have "run_factory res (f v) t = Some (r, s')" by simp
    then show ?thesis by (rule Need.IH[OF rangeI])
  qed
  finally show ?case .
qed auto

lemma createInstance_grows:
  "growing res \<Longrightarrow> createInstance res k m s = Some (r, s') \<Longrightarrow> grows s s'"
  by (auto simp: createInstance_def intro: run_factory_grows split: option.splits)

lemma grows_stack: "grows s s' \<Longrightarrow> ct_stack (fst s') = ct_stack (fst s)"
  by (simp add: grows_def)

text \<open>One construction of a service that is on the stack.\<close>

lemma cache_instance_grows:
  assumes g: "grows (enter k c, n) (c1, n1)" and get: "jm_get (ct_services c) k = Some m"
    and none: "sv_instance m = None" and cached: "shouldCache (sv_lifetime m)" and "k \<notin> set (ct_stack c)"
  shows "grows (c, n) (snd (cache_instance k (sv_lifetime m) (r, (c1, n1)))) \<and>
    fst (cache_instance k (sv_lifetime m) (r, (c1, n1))) = r \<and>
    (\<forall>v. r = Inr v \<longrightarrow> (\<exists>m'. jm_get (ct_services (fst (snd (cache_instance k (sv_lifetime m) (r, (c1, n1)))))) k = Some m' \<and>
       sv_instance m' = Some v))"
proof -
  have st: "ct_stack c1 = ct_stack c @ [k]" and k1: "jm_get (ct_services c1) k = Some m"
    using g get by (simp_all add: grows_def enter_def)
  have gx: "grows (c, n) (exit_stack c1, n1)"
    using g st by (simp add: grows_def enter_def exit_stack_def)
  show ?thesis
  proof (cases r)
    case (Inl e)
    with gx show ?thesis by (simp add: cache_instance_def)
  next
    case (Inr v)
    let ?m = "m\<lparr>sv_instance := Some v, sv_initialized := True\<rparr>"
    have keys: "jm_keys (jm_set k ?m (ct_services c1)) = jm_keys (ct_services c1)"
      using k1 by (simp add: update_keys map_of_eq_None_iff domIff dom_map_of_conv_image_fst) (metis image_eqI fst_conv map_of_SomeD)
    have "rel_option same_service (jm_get (ct_services c) j) (jm_get (jm_set k ?m (ct_services c1)) j)" for j
      using g get none by (auto simp: jm_get_set grows_def enter_def same_service_def)
    with Inr gx keys k1 cached assms(5) show ?thesis
      by (simp add: cache_instance_def registry_update_def exit_stack_def grows_def jm_get_set)
  qed
qed

lemma resolve_growing: "growing (resolve_service fuel :: 'k \<Rightarrow> ('k, 'v) di_state \<Rightarrow> ('k, 'v) di_run)"
proof (induction fuel)
  case 0
  show ?case by (simp add: growing_def)
next
  case (Suc fuel)
  show ?case unfolding growing_def
  proof (intro allI impI)
    fix k and s s' :: "('k, 'v) di_state" and r
    assume run: "resolve_service (Suc fuel) k s = Some (r, s')"
    obtain c n where s: "s = (c, n)" by (cases s)
    show "grows s s'"
    proof (cases "jm_get (ct_services c) k")
      case None
      with run s show ?thesis by (auto simp: resolve_body_def)
    next
      case (Some m)
      consider "s' = s" | "createInstance (resolve_service fuel) k m s = Some (r, s')"
        | r1 c1 n1 where "k \<notin> set (ct_stack c)" "sv_instance m = None" "shouldCache (sv_lifetime m)"
            "createInstance (resolve_service fuel) k m (enter k c, n) = Some (r1, (c1, n1))"
            "s' = snd (cache_instance k (sv_lifetime m) (r1, (c1, n1)))"
        using run Some s
        by (cases "sv_lifetime m") (auto simp: resolve_body_def detector_check_def shouldCache_def split: if_splits)
      then show ?thesis
      proof cases
        case 1
        then show ?thesis by simp
      next
        case 2
        show ?thesis by (rule createInstance_grows[OF Suc 2])
      next
        case 3
        have "grows (enter k c, n) (c1, n1)" by (rule createInstance_grows[OF Suc 3(4)])
        from cache_instance_grows[OF this Some 3(2,3,1)] 3(5) s show ?thesis by simp
      qed
    qed
  qed
qed

lemma resolve_grows: "resolve_service fuel k s = Some (r, s') \<Longrightarrow> grows s s'"
  by (rule growingD[OF resolve_growing])

subsection \<open>Resolution ends unless a service is transient\<close>

definition all_cached :: "('k, 'v) container \<Rightarrow> bool" where
  "all_cached c \<longleftrightarrow> list_all (\<lambda>k. case jm_get (ct_services c) k of Some m \<Rightarrow> shouldCache (sv_lifetime m) | None \<Rightarrow> True)
     (getRegisteredKeys c)"

lemma all_cached_iff:
  "all_cached c \<longleftrightarrow> (\<forall>k m. jm_get (ct_services c) k = Some m \<longrightarrow> shouldCache (sv_lifetime m))"
proof -
  have key: "k \<in> set (getRegisteredKeys c)" if "jm_get (ct_services c) k = Some m" for k m
    using map_of_SomeD[OF that] by (force simp: getRegisteredKeys_def)
  show ?thesis unfolding all_cached_def list_all_iff
  proof (intro iffI allI impI ballI)
    fix k m
    assume all: "\<forall>k\<in>set (getRegisteredKeys c). case jm_get (ct_services c) k of
        Some m \<Rightarrow> shouldCache (sv_lifetime m) | None \<Rightarrow> True" and m: "jm_get (ct_services c) k = Some m"
    from all key[OF m] have "case jm_get (ct_services c) k of Some m \<Rightarrow> shouldCache (sv_lifetime m) | None \<Rightarrow> True" ..
    with m show "shouldCache (sv_lifetime m)" by simp
  qed (simp split: option.split)
qed

lemma grows_get:
  "grows s s' \<Longrightarrow> jm_get (ct_services (fst s)) k = Some m \<Longrightarrow>
     \<exists>m'. jm_get (ct_services (fst s')) k = Some m' \<and> same_service m m'"
  unfolding grows_def by (metis option_rel_Some1)

lemma grows_get':
  "grows s s' \<Longrightarrow> jm_get (ct_services (fst s')) k = Some m' \<Longrightarrow>
     \<exists>m. jm_get (ct_services (fst s)) k = Some m \<and> same_service m m'"
  unfolding grows_def by (metis option_rel_Some2)

lemma grows_all_cached:
  assumes "grows s s'" and "all_cached (fst s)"
  shows "all_cached (fst s')"
  unfolding all_cached_iff
proof (intro allI impI)
  fix k m'
  assume "jm_get (ct_services (fst s')) k = Some m'"
  with grows_get'[OF assms(1)] obtain m where "jm_get (ct_services (fst s)) k = Some m" and "same_service m m'" by blast
  with assms(2) show "shouldCache (sv_lifetime m')" unfolding all_cached_iff by (simp add: same_service_def)
qed

lemma run_factory_total:
  assumes "growing res"
  shows "(\<And>k t. grows s t \<Longrightarrow> res k t \<noteq> None) \<Longrightarrow> run_factory res f s \<noteq> None"
proof (induction f arbitrary: s)
  case (Need k f)
  have "res k s \<noteq> None" by (rule Need.prems[OF grows_refl])
  then obtain q t where q: "res k s = Some (q, t)" by auto
  with assms have g: "grows s t" by (rule growingD)
  show ?case
  proof (cases q)
    case (Inl e)
    with q show ?thesis by simp
  next
    case (Inr v)
    have "run_factory res (f v) t \<noteq> None"
      by (rule Need.IH[OF rangeI]) (rule Need.prems[OF grows_trans[OF g]])
    with q Inr show ?thesis by simp
  qed
next
  case (IfRegistered k f)
  have "run_factory res (f (isRegistered k (fst s))) s \<noteq> None"
    by (rule IfRegistered.IH[OF rangeI]) (rule IfRegistered.prems)
  then show ?case by simp
qed (simp_all split: sum.split)

lemma createInstance_total:
  assumes "growing res" and "\<And>k t. grows s t \<Longrightarrow> res k t \<noteq> None"
  shows "createInstance res k m s \<noteq> None"
proof -
  have "run_factory res f s \<noteq> None" for f by (rule run_factory_total[OF assms])
  then show ?thesis by (simp add: createInstance_def del: not_None_eq split: option.split)
qed

text \<open>Every nested construction puts another registered key on the stack.\<close>

lemma resolve_total:
  "all_cached (fst s) \<Longrightarrow> set (ct_stack (fst s)) \<subseteq> set (getRegisteredKeys (fst s)) \<Longrightarrow>
     card (set (getRegisteredKeys (fst s)) - set (ct_stack (fst s))) < fuel \<Longrightarrow> resolve_service fuel k s \<noteq> None"
proof (induction fuel arbitrary: k s)
  case (Suc fuel)
  obtain c n where s: "s = (c, n)" by (cases s)
  show ?case
  proof (cases "jm_get (ct_services c) k")
    case None
    with s show ?thesis by (simp add: resolve_body_def)
  next
    case (Some m)
    then have cached: "shouldCache (sv_lifetime m)" using Suc.prems(1) s by (simp add: all_cached_iff)
    have key: "k \<in> set (getRegisteredKeys c)" using Some by (force simp: getRegisteredKeys_def dest: map_of_SomeD)
    have "createInstance (resolve_service fuel) k m (enter k c, n) \<noteq> None" if new: "k \<notin> set (ct_stack c)"
    proof (rule createInstance_total[OF resolve_growing])
      fix j t
      assume g: "grows (enter k c, n) t"
      then have st: "ct_stack (fst t) = ct_stack c @ [k]" and keys: "getRegisteredKeys (fst t) = getRegisteredKeys c"
        by (simp_all add: grows_def enter_def getRegisteredKeys_def)
      have "all_cached (enter k c)" using Suc.prems(1) s by (simp add: all_cached_iff enter_def)
      then have "all_cached (fst t)" using grows_all_cached[OF g] by simp
      moreover have "card (set (getRegisteredKeys c) - set (ct_stack c @ [k])) <
          card (set (getRegisteredKeys c) - set (ct_stack c))"
        using key new by (intro psubset_card_mono) auto
      ultimately show "resolve_service fuel j t \<noteq> None"
        using Suc.prems(2,3) s key st keys by (intro Suc.IH) auto
    qed
    with Some s cached show ?thesis
      by (cases "sv_lifetime m") (simp_all add: resolve_body_def detector_check_def shouldCache_def del: not_None_eq)
  qed
qed simp

subsection \<open>More fuel changes nothing\<close>

definition more_runs :: "('k \<Rightarrow> ('k, 'v) di_state \<Rightarrow> ('k, 'v) di_run) \<Rightarrow>
    ('k \<Rightarrow> ('k, 'v) di_state \<Rightarrow> ('k, 'v) di_run) \<Rightarrow> bool" where
  "more_runs res res' \<longleftrightarrow> (\<forall>k s x. res k s = Some x \<longrightarrow> res' k s = Some x)"

lemma more_runsD: "more_runs res res' \<Longrightarrow> res k s = Some x \<Longrightarrow> res' k s = Some x"
  unfolding more_runs_def by blast

lemma run_factory_mono:
  assumes "more_runs res res'"
  shows "run_factory res f s = Some x \<Longrightarrow> run_factory res' f s = Some x"
proof (induction f arbitrary: s)
  case (Need k f)
  obtain q t where q: "res k s = Some (q, t)" using Need.prems by (auto split: option.splits)
  show ?case
  proof (cases q)
    case (Inl e)
    with Need.prems q more_runsD[OF assms q] show ?thesis by auto
  next
    case (Inr v)
    with Need.prems q have "run_factory res (f v) t = Some x" by simp
    from Need.IH[OF rangeI this] Inr more_runsD[OF assms q] show ?thesis by simp
  qed
next
  case (IfRegistered k f)
  then show ?case using IfRegistered.IH[OF rangeI] by simp
qed simp_all

lemma createInstance_mono:
  assumes "more_runs res res'" and run: "createInstance res k m s = Some x"
  shows "createInstance res' k m s = Some x"
proof (cases "sv_instance m")
  case None
  show ?thesis
  proof (cases "sv_factory m")
    case (Some f)
    with None run obtain y where y: "run_factory res f s = Some y"
      and x: "x = (case y of (r, s') \<Rightarrow> (map_sum (wrap_error k) id r, s'))"
      by (auto simp: createInstance_def)
    from run_factory_mono[OF assms(1) y] None Some x show ?thesis by (simp add: createInstance_def)
  qed (use None run in \<open>simp add: createInstance_def\<close>)
qed (use run in \<open>simp add: createInstance_def\<close>)

lemma resolve_body_mono:
  assumes "more_runs res res'" and "resolve_body res k s = Some x"
  shows "resolve_body res' k s = Some x"
  using assms(2) unfolding resolve_body_def
  by (auto dest: createInstance_mono[OF assms(1)] split: option.splits if_splits)

lemma resolve_Suc:
  "more_runs (resolve_service fuel :: 'k \<Rightarrow> ('k, 'v) di_state \<Rightarrow> ('k, 'v) di_run) (resolve_service (Suc fuel))"
proof (induction fuel)
  case (Suc fuel)
  show ?case unfolding more_runs_def resolve_service.simps using resolve_body_mono[OF Suc] by simp
qed (simp add: more_runs_def)

lemma resolve_mono: "resolve_service fuel k s = Some x \<Longrightarrow> fuel \<le> fuel' \<Longrightarrow> resolve_service fuel' k s = Some x"
  by (induction fuel') (auto simp: le_Suc_eq simp del: resolve_service.simps dest: more_runsD[OF resolve_Suc])

declare resolve_service.simps [simp del]

lemma resolve_service_Suc: "resolve_service (Suc fuel) = resolve_body (resolve_service fuel)"
  by (intro ext) (simp add: resolve_service.simps)

lemma more_runs_le: "fuel \<le> fuel' \<Longrightarrow> more_runs (resolve_service fuel) (resolve_service fuel')"
  unfolding more_runs_def by (intro allI impI) (erule resolve_mono)

subsection \<open>Constructible services\<close>

text \<open>A service can be constructed when it is registered and all its dependencies can: the
  registered part below it is complete and free of cycles.\<close>

inductive constructible :: "('k, 'v) container \<Rightarrow> 'k \<Rightarrow> bool" for c where
  build: "jm_get (ct_services c) k = Some m \<Longrightarrow> (\<And>d. d \<in> set (sv_dependencies m) \<Longrightarrow> constructible c d) \<Longrightarrow>
    constructible c k"

inductive_cases constructibleE: "constructible c k"

definition depends :: "('k, 'v) container \<Rightarrow> 'k \<Rightarrow> 'k \<Rightarrow> bool" where
  "depends c k d \<longleftrightarrow> (\<exists>m. jm_get (ct_services c) k = Some m \<and> d \<in> set (sv_dependencies m))"

lemma constructible_acyclic: "constructible c k \<Longrightarrow> \<not> (depends c)\<^sup>+\<^sup>+ k k"
proof (induction rule: constructible.induct)
  case (build k m)
  show ?case
  proof
    assume "(depends c)\<^sup>+\<^sup>+ k k"
    then obtain d where kd: "depends c k d" and dk: "(depends c)\<^sup>*\<^sup>* d k" by (metis tranclpD)
    from dk kd have "(depends c)\<^sup>+\<^sup>+ d d" by (rule rtranclp_into_tranclp1)
    moreover have "d \<in> set (sv_dependencies m)" using kd build.hyps by (auto simp: depends_def)
    ultimately show False using build.IH by blast
  qed
qed

text \<open>Every service a cached class whose constructor does not throw, none instantiated yet.\<close>

definition never_throws :: "(nat \<Rightarrow> 'v list \<Rightarrow> string + 'v) \<Rightarrow> bool" where
  "never_throws ctor \<longleftrightarrow> (\<forall>n vs. \<not> isl (ctor n vs))"

definition is_class :: "('k, 'v) service \<Rightarrow> bool" where
  "is_class m \<longleftrightarrow> shouldCache (sv_lifetime m) \<and>
     (\<exists>ctor. sv_factory m = Some (resolveDependencies (sv_dependencies m) [] ctor) \<and> never_throws ctor)"

definition classes_only :: "('k, 'v) container \<Rightarrow> bool" where
  "classes_only c \<longleftrightarrow> (\<forall>k m. jm_get (ct_services c) k = Some m \<longrightarrow> is_class m \<and> sv_instance m = None)"

text \<open>A state on the way from \<open>c0\<close>: the same registrations, instances only of constructible
  services.\<close>

definition wired :: "('k, 'v) container \<Rightarrow> ('k, 'v) di_state \<Rightarrow> bool" where
  "wired c0 s \<longleftrightarrow> (\<forall>k. rel_option same_service (jm_get (ct_services c0) k) (jm_get (ct_services (fst s)) k)) \<and>
     (\<forall>k m. jm_get (ct_services (fst s)) k = Some m \<longrightarrow> sv_instance m \<noteq> None \<longrightarrow> constructible c0 k)"

lemma wired_get:
  assumes "wired c0 s" and "classes_only c0" and "jm_get (ct_services (fst s)) k = Some m"
  shows "is_class m \<and> (\<forall>d. depends c0 k d \<longleftrightarrow> d \<in> set (sv_dependencies m)) \<and>
    (constructible c0 k \<longleftrightarrow> (\<forall>d\<in>set (sv_dependencies m). constructible c0 d))"
proof -
  from assms(1,3) obtain m0 where m0: "jm_get (ct_services c0) k = Some m0" and same: "same_service m0 m"
    unfolding wired_def by (metis option_rel_Some2)
  then have "is_class m0" using assms(2) by (simp add: classes_only_def)
  with same have "is_class m" by (simp add: is_class_def same_service_def)
  with m0 same show ?thesis
    by (auto simp: same_service_def depends_def elim!: constructibleE intro: constructible.build)
qed

lemma wired_enter [simp]: "wired c0 (enter k c, n) = wired c0 (c, n)"
  by (simp add: wired_def enter_def)

lemma wired_registered:
  "wired c0 s \<Longrightarrow> isRegistered k (fst s) \<longleftrightarrow> jm_get (ct_services c0) k \<noteq> None"
  unfolding wired_def isRegistered_def
  by (metis option.rel_distinct(1,2) not_None_eq)

definition sound_run :: "('k, 'v) container \<Rightarrow> ('k \<Rightarrow> ('k, 'v) di_state \<Rightarrow> ('k, 'v) di_run) \<Rightarrow> bool" where
  "sound_run c0 res \<longleftrightarrow> (\<forall>k s r s'. wired c0 s \<longrightarrow> res k s = Some (r, s') \<longrightarrow>
     wired c0 s' \<and> (\<forall>v. r = Inr v \<longrightarrow> constructible c0 k))"

lemma sound_runD: "sound_run c0 res \<Longrightarrow> wired c0 s \<Longrightarrow> res k s = Some (r, s') \<Longrightarrow>
    wired c0 s' \<and> (\<forall>v. r = Inr v \<longrightarrow> constructible c0 k)"
  unfolding sound_run_def by blast

lemma dependencies_sound:
  assumes "sound_run c0 res"
  shows "run_factory res (resolveDependencies ds vs ctor) s = Some (r, s') \<Longrightarrow> wired c0 s \<Longrightarrow>
    wired c0 s' \<and> (\<forall>v. r = Inr v \<longrightarrow> (\<forall>d\<in>set ds. constructible c0 d))"
proof (induction ds arbitrary: vs s)
  case Nil
  then show ?case by (auto simp: wired_def split: sum.splits)
next
  case (Cons d ds)
  show ?case
  proof (cases "isRegistered d (fst s)")
    case False
    with Cons.prems show ?thesis by auto
  next
    case True
    with Cons.prems(1) obtain q t where q: "res d s = Some (q, t)" by (auto split: option.splits)
    from sound_runD[OF assms Cons.prems(2) q] have t: "wired c0 t" and d: "\<forall>v. q = Inr v \<longrightarrow> constructible c0 d" by auto
    show ?thesis
    proof (cases q)
      case (Inl e)
      with True q t Cons.prems(1) show ?thesis by auto
    next
      case (Inr v)
      with True q Cons.prems(1) have "run_factory res (resolveDependencies ds (vs @ [v]) ctor) t = Some (r, s')" by simp
      from Cons.IH[OF this t] d Inr show ?thesis by simp
    qed
  qed
qed

lemma wired_cached:
  assumes "wired c0 (c1, n1)" and "constructible c0 k" and "classes_only c0" and "registry_update k v c1 = Inr c2"
  shows "wired c0 (exit_stack c2, n1)"
proof -
  from assms(4) obtain m where m: "jm_get (ct_services c1) k = Some m"
    and c2: "c2 = c1\<lparr>ct_services := jm_set k (m\<lparr>sv_instance := Some v, sv_initialized := True\<rparr>) (ct_services c1)\<rparr>"
    by (auto simp: registry_update_def split: option.splits)
  from assms(1) m obtain m0 where m0: "jm_get (ct_services c0) k = Some m0" "same_service m0 m"
    unfolding wired_def fst_conv by (metis option_rel_Some2)
  moreover have "sv_instance m0 = None" using assms(3) m0(1) by (simp add: classes_only_def)
  ultimately show ?thesis
    using assms(1,2) unfolding wired_def c2
    by (auto simp: exit_stack_def jm_get_set same_service_def)
qed

lemma resolve_body_sound:
  assumes sound: "sound_run c0 res" and classes: "classes_only c0"
  shows "sound_run c0 (resolve_body res)"
  unfolding sound_run_def
proof (intro allI impI)
  fix k s r s'
  assume w: "wired c0 s" and run: "resolve_body res k s = Some (r, s')"
  obtain c n where s: "s = (c, n)" by (cases s)
  show "wired c0 s' \<and> (\<forall>v. r = Inr v \<longrightarrow> constructible c0 k)"
  proof (cases "jm_get (ct_services c) k")
    case None
    with run s w show ?thesis by (auto simp: resolve_body_def)
  next
    case (Some m)
    with wired_get[OF w classes] s have cls: "is_class m"
      and con: "constructible c0 k \<longleftrightarrow> (\<forall>d\<in>set (sv_dependencies m). constructible c0 d)" by auto
    consider (same) e where "r = Inl e" "s' = s" | (cached) v where "sv_instance m = Some v" "s' = s"
      | (made) "sv_instance m = None" "k \<notin> set (ct_stack c)"
      using run Some s by (cases "sv_instance m") (auto simp: resolve_body_def detector_check_def cls[unfolded is_class_def] split: if_splits)
    then show ?thesis
    proof cases
      case same
      with w show ?thesis by simp
    next
      case (cached v)
      with w Some s show ?thesis by (auto simp: wired_def)
    next
      case made
      from cls obtain ctor where f: "sv_factory m = Some (resolveDependencies (sv_dependencies m) [] ctor)"
        and lt: "shouldCache (sv_lifetime m)" by (auto simp: is_class_def)
      from run Some s made f lt obtain q c1 n1 where
        q: "run_factory res (resolveDependencies (sv_dependencies m) [] ctor) (enter k c, n) = Some (q, (c1, n1))"
        and out: "(r, s') = cache_instance k (sv_lifetime m) (map_sum (wrap_error k) id q, (c1, n1))"
        by (auto simp: resolve_body_def createInstance_def detector_check_def shouldCache_def split: if_splits)
      have "wired c0 (enter k c, n)" using w s by simp
      from dependencies_sound[OF sound q this] have w1: "wired c0 (c1, n1)"
        and deps: "\<forall>v. q = Inr v \<longrightarrow> constructible c0 k" using con by auto
      have w1': "wired c0 (exit_stack c1, n1)" using w1 by (simp add: wired_def exit_stack_def)
      show ?thesis
      proof (cases q)
        case (Inl e)
        with out w1' show ?thesis by (simp add: cache_instance_def)
      next
        case (Inr v)
        with out lt w1' deps wired_cached[OF w1 _ classes, of k v] show ?thesis
          by (auto simp: cache_instance_def split: sum.splits)
      qed
    qed
  qed
qed

lemma resolve_service_sound: "classes_only c0 \<Longrightarrow> sound_run c0 (resolve_service fuel)"
proof (induction fuel)
  case 0
  show ?case by (simp add: sound_run_def resolve_service.simps)
next
  case (Suc fuel)
  show ?case unfolding resolve_service_Suc by (rule resolve_body_sound[OF Suc.IH[OF Suc.prems] Suc.prems])
qed

definition succeeds :: "'k \<Rightarrow> ('k, 'v) di_state \<Rightarrow> bool" where
  "succeeds k s \<longleftrightarrow> (\<exists>fuel v s'. resolve_service fuel k s = Some (Inr v, s'))"

text \<open>The loop over the dependencies, each of which succeeds.\<close>

lemma dependencies_succeed:
  assumes classes: "classes_only c0" and ok: "never_throws ctor"
    and each: "\<And>d t. d \<in> set ds \<Longrightarrow> wired c0 t \<Longrightarrow> ct_stack (fst t) = st \<Longrightarrow> succeeds d t"
    and reg: "\<And>d. d \<in> set ds \<Longrightarrow> jm_get (ct_services c0) d \<noteq> None"
  shows "wired c0 s \<Longrightarrow> ct_stack (fst s) = st \<Longrightarrow>
    \<exists>fuel v s'. run_factory (resolve_service fuel) (resolveDependencies ds vs ctor) s = Some (Inr v, s')"
  using each reg
proof (induction ds arbitrary: vs s)
  case Nil
  from ok have "\<not> isl (ctor (snd s) vs)" unfolding never_throws_def by blast
  then show ?case by (auto split: sum.split)
next
  case (Cons d ds)
  have "isRegistered d (fst s)" using wired_registered[OF Cons.prems(1), of d] Cons.prems(4)[of d] by simp
  have "succeeds d s" using Cons.prems by simp
  then obtain f1 v t where t: "resolve_service f1 d s = Some (Inr v, t)" by (auto simp: succeeds_def)
  have "wired c0 t" using sound_runD[OF resolve_service_sound[OF classes] Cons.prems(1) t] ..
  moreover have "ct_stack (fst t) = st" using grows_stack[OF resolve_grows[OF t]] Cons.prems(2) by simp
  ultimately obtain f2 v2 u where u: "run_factory (resolve_service f2) (resolveDependencies ds (vs @ [v]) ctor) t = Some (Inr v2, u)"
    using Cons.IH[of t "vs @ [v]"] Cons.prems(3,4) by auto
  have "resolve_service (max f1 f2) d s = Some (Inr v, t)" by (rule resolve_mono[OF t]) simp
  moreover have "run_factory (resolve_service (max f1 f2)) (resolveDependencies ds (vs @ [v]) ctor) t = Some (Inr v2, u)"
    by (rule run_factory_mono[OF more_runs_le u]) simp
  ultimately have "run_factory (resolve_service (max f1 f2)) (resolveDependencies (d # ds) vs ctor) s = Some (Inr v2, u)"
    using \<open>isRegistered d (fst s)\<close> by simp
  then show ?case by blast
qed

lemma constructible_succeeds:
  assumes classes: "classes_only c0"
  shows "constructible c0 k \<Longrightarrow> wired c0 s \<Longrightarrow> \<forall>x\<in>set (ct_stack (fst s)). \<not> (depends c0)\<^sup>*\<^sup>* k x \<Longrightarrow> succeeds k s"
proof (induction arbitrary: s rule: constructible.induct)
  case (build k m0)
  obtain c n where s: "s = (c, n)" by (cases s)
  have con: "constructible c0 k" by (rule constructible.build[OF build.hyps(1,2)])
  from build.prems(1) build.hyps(1) obtain m where m: "jm_get (ct_services c) k = Some m" and same: "same_service m0 m"
    unfolding wired_def s fst_conv by (metis option_rel_Some1)
  have new: "k \<notin> set (ct_stack c)" using build.prems(2) s by auto
  from wired_get[OF build.prems(1) classes, of k m] m s have "is_class m" by simp
  then obtain ctor where f: "sv_factory m = Some (resolveDependencies (sv_dependencies m) [] ctor)"
    and lt: "shouldCache (sv_lifetime m)" and ok: "never_throws ctor" by (auto simp: is_class_def)
  show ?case
  proof (cases "sv_instance m")
    case (Some v)
    with m s new lt have "resolve_service (Suc 0) k s = Some (Inr v, s)"
      by (simp add: resolve_service_Suc resolve_body_def detector_check_def)
    then show ?thesis unfolding succeeds_def by blast
  next
    case None
    have "succeeds d t" if d: "d \<in> set (sv_dependencies m)" and w: "wired c0 t"
      and st: "ct_stack (fst t) = ct_stack c @ [k]" for d t
    proof (rule build.IH[OF _ w])
      show "d \<in> set (sv_dependencies m0)" using d same by (simp add: same_service_def)
      then have kd: "depends c0 k d" using build.hyps(1) by (auto simp: depends_def)
      show "\<forall>x\<in>set (ct_stack (fst t)). \<not> (depends c0)\<^sup>*\<^sup>* d x"
      proof
        fix x assume "x \<in> set (ct_stack (fst t))"
        then consider "x \<in> set (ct_stack c)" | "x = k" using st by auto
        then show "\<not> (depends c0)\<^sup>*\<^sup>* d x"
        proof cases
          case 1
          with build.prems(2) s have "\<not> (depends c0)\<^sup>*\<^sup>* k x" by simp
          with converse_rtranclp_into_rtranclp[of "depends c0", OF kd] show ?thesis by blast
        next
          case 2
          with constructible_acyclic[OF con] rtranclp_into_tranclp2[of "depends c0", OF kd] show ?thesis by blast
        qed
      qed
    qed
    moreover have "jm_get (ct_services c0) d \<noteq> None" if "d \<in> set (sv_dependencies m)" for d
      using build.hyps(2)[of d] that same by (auto simp: same_service_def elim!: constructibleE)
    moreover have "wired c0 (enter k c, n)" using build.prems(1) s by simp
    moreover have "ct_stack (fst (enter k c, n)) = ct_stack c @ [k]" by (simp add: enter_def)
    ultimately have "\<exists>fuel v s'. run_factory (resolve_service fuel) (resolveDependencies (sv_dependencies m) [] ctor)
        (enter k c, n) = Some (Inr v, s')"
      by (rule dependencies_succeed[OF classes ok])
    then obtain fuel v c1 n1 where
      "run_factory (resolve_service fuel) (resolveDependencies (sv_dependencies m) [] ctor) (enter k c, n) = Some (Inr v, (c1, n1))"
      by (metis surj_pair)
    note run = this
    have "createInstance (resolve_service fuel) k m (enter k c, n) = Some (Inr v, (c1, n1))"
      using run None f by (simp add: createInstance_def)
    moreover have "fst (cache_instance k (sv_lifetime m) (Inr v, (c1, n1))) = Inr v"
      using cache_instance_grows[OF createInstance_grows[OF resolve_growing calculation] m None lt new] by simp
    ultimately have "resolve_service (Suc fuel) k s =
        Some (Inr v, snd (cache_instance k (sv_lifetime m) (Inr v, (c1, n1))))"
      using m s new lt None by (auto simp: resolve_service_Suc resolve_body_def detector_check_def shouldCache_def prod_eq_iff)
    then show ?thesis unfolding succeeds_def by blast
  qed
qed

lemma classes_only_cached: "classes_only c \<Longrightarrow> all_cached c"
  by (auto simp: classes_only_def is_class_def all_cached_iff)

lemma classes_only_wired: "classes_only c \<Longrightarrow> wired c (c, n)"
  by (auto simp: wired_def classes_only_def option.rel_refl)

lemma idle_total:
  assumes "all_cached c" and "ct_stack c = []"
  shows "resolve_service (Suc (length (ct_services c))) k (c, n) \<noteq> None"
proof (rule resolve_total)
  have "card (set (getRegisteredKeys c)) \<le> length (ct_services c)"
    using card_length[of "getRegisteredKeys c"] by (simp add: getRegisteredKeys_def)
  then show "card (set (getRegisteredKeys (fst (c, n))) - set (ct_stack (fst (c, n)))) < Suc (length (ct_services c))"
    using assms(2) by simp
qed (use assms in simp_all)

text \<open>Once returned, the instance of a cached service is in the registry.\<close>

lemma resolve_caches:
  assumes run: "resolve_service fuel k (c, n) = Some (Inr v, s')" and get: "jm_get (ct_services c) k = Some m"
    and lt: "shouldCache (sv_lifetime m)"
  shows "k \<notin> set (ct_stack c) \<and> (\<exists>m'. jm_get (ct_services (fst s')) k = Some m' \<and> sv_instance m' = Some v \<and>
    sv_lifetime m' = sv_lifetime m)"
proof (cases fuel)
  case 0
  with run show ?thesis by (simp add: resolve_service.simps)
next
  case (Suc f)
  with run get have new: "k \<notin> set (ct_stack c)"
    by (auto simp: resolve_service_Suc resolve_body_def detector_check_def split: if_splits)
  from grows_get[OF resolve_grows[OF run], of k m] get
  obtain m' where m': "jm_get (ct_services (fst s')) k = Some m'" "same_service m m'" by auto
  have "sv_instance m' = Some v"
  proof (cases "sv_instance m")
    case (Some w)
    with run get new lt Suc have "w = v"
      by (simp add: resolve_service_Suc resolve_body_def detector_check_def)
    with m'(2) Some show ?thesis by (simp add: same_service_def)
  next
    case None
    with run get new lt Suc obtain r c1 n1 where
      one: "createInstance (resolve_service f) k m (enter k c, n) = Some (r, (c1, n1))"
      and out: "cache_instance k (sv_lifetime m) (r, (c1, n1)) = (Inr v, s')"
      by (auto simp: resolve_service_Suc resolve_body_def detector_check_def shouldCache_def split: if_splits)
    from cache_instance_grows[OF createInstance_grows[OF resolve_growing one] get None lt new, of r] out m'(1)
    show ?thesis by auto
  qed
  with new m' show ?thesis by (auto simp: same_service_def)
qed

primrec resolve_many :: "nat \<Rightarrow> 'k list \<Rightarrow> ('k, 'v) di_state \<Rightarrow> ('k, 'v) di_state option" where
  "resolve_many fuel [] s = Some s"
| "resolve_many fuel (k # ks) s = (case resolve_service fuel k s of
     None \<Rightarrow> None | Some (r, s') \<Rightarrow> resolve_many fuel ks s')"

lemma resolve_many_grows: "resolve_many fuel ks s = Some t \<Longrightarrow> grows s t"
proof (induction ks arbitrary: s)
  case (Cons k ks)
  then obtain r u where u: "resolve_service fuel k s = Some (r, u)" by (auto split: option.splits)
  with Cons have "grows u t" by simp
  with resolve_grows[OF u] show ?case by (rule grows_trans)
qed simp

subsection \<open>Properties\<close>

definition serial_class :: "'k list \<Rightarrow> service_lifetime \<Rightarrow> ('k, nat) service" where
  "serial_class deps lt = class_service deps (\<lambda>i vs. Inr i) lt"

definition demo_di :: "(string, nat) container" where
  "demo_di = \<lparr>ct_services = [(''app'', serial_class [''db'', ''log''] Singleton), (''db'', serial_class [''log''] Singleton),
     (''log'', serial_class [] Singleton), (''loop'', serial_class [''loop''] Singleton)], ct_stack = []\<rparr>"

lemma demo_classes: "classes_only demo_di"
proof -
  have "is_class (serial_class deps Singleton) \<and> sv_instance (serial_class deps Singleton) = None" for deps :: "string list"
    by (auto simp: is_class_def serial_class_def class_service_def shouldCache_def never_throws_def)
  then show ?thesis by (simp add: classes_only_def demo_di_def)
qed

lemma serial_class_dependencies [simp]: "sv_dependencies (serial_class deps lt) = deps"
  by (simp add: serial_class_def class_service_def)

lemma demo_get:
  "jm_get (ct_services demo_di) ''app'' = Some (serial_class [''db'', ''log''] Singleton)"
  "jm_get (ct_services demo_di) ''db'' = Some (serial_class [''log''] Singleton)"
  "jm_get (ct_services demo_di) ''log'' = Some (serial_class [] Singleton)"
  "jm_get (ct_services demo_di) ''loop'' = Some (serial_class [''loop''] Singleton)"
  by (simp_all add: demo_di_def)

lemma demo_constructible: "constructible demo_di ''app''"
proof -
  have log: "constructible demo_di ''log''" by (rule constructible.build[OF demo_get(3)]) simp
  have "constructible demo_di ''db''" by (rule constructible.build[OF demo_get(2)]) (simp add: log)
  with log show ?thesis by (intro constructible.build[OF demo_get(1)]) auto
qed

text \<open>C25: When a container delivers. In an idle container of cached classes whose constructors
  do not throw and none of which is instantiated, resolution always ends, and it delivers an
  instance exactly when everything the service needs is registered and no dependency cycle
  lies below it; otherwise it throws.\<close>

theorem resolves_exactly_the_constructible:
  assumes "classes_only c" and "ct_stack c = []"
  shows "\<exists>r s. resolve_service (Suc (length (ct_services c))) k (c, n) = Some (r, s) \<and>
    (isl r \<longleftrightarrow> \<not> constructible c k)"
proof -
  obtain r s where run: "resolve_service (Suc (length (ct_services c))) k (c, n) = Some (r, s)"
    using idle_total[OF classes_only_cached[OF assms(1)] assms(2), of k n] by auto
  have "constructible c k" if "r = Inr v" for v
    using sound_runD[OF resolve_service_sound[OF assms(1)] classes_only_wired[OF assms(1)] run] that by blast
  moreover have "\<not> isl r" if con: "constructible c k"
  proof -
    from constructible_succeeds[OF assms(1) con classes_only_wired[OF assms(1)], of n] assms(2)
    obtain fuel v t where t: "resolve_service fuel k (c, n) = Some (Inr v, t)" by (auto simp: succeeds_def)
    have "Some (Inr v, t) = Some (r, s)"
      using resolve_mono[OF t, of "max fuel (Suc (length (ct_services c)))"]
        resolve_mono[OF run, of "max fuel (Suc (length (ct_services c)))"] by simp
    then show ?thesis by auto
  qed
  ultimately show ?thesis using run by (cases r) auto
qed

lemma resolves_exactly_the_constructible_witness:
  "(\<exists>r s. resolve_service 5 ''app'' (demo_di, 0) = Some (r, s) \<and> \<not> isl r) \<and>
   (\<exists>r s. resolve_service 5 ''loop'' (demo_di, 0) = Some (r, s) \<and> isl r)"
proof -
  have "depends demo_di ''loop'' ''loop''"
    by (simp add: depends_def demo_get)
  then have "(depends demo_di)\<^sup>+\<^sup>+ ''loop'' ''loop''" ..
  then have "\<not> constructible demo_di ''loop''" using constructible_acyclic[of demo_di "''loop''"] by auto
  moreover have "Suc (length (ct_services demo_di)) = 5" "ct_stack demo_di = []" by (simp_all add: demo_di_def)
  ultimately show ?thesis
    using resolves_exactly_the_constructible[OF demo_classes, of "''app''" 0]
      resolves_exactly_the_constructible[OF demo_classes, of "''loop''" 0] demo_constructible by simp
qed

text \<open>One instance per key. After a singleton or scoped service was delivered, every later
  resolution of its key gives the same instance and leaves the container as it is, whatever
  was resolved in between and whether it succeeded.\<close>

theorem cached_services_are_shared:
  assumes "resolve_service fuel k (c, n) = Some (Inr v, s1)"
    and "jm_get (ct_services c) k = Some m" and "shouldCache (sv_lifetime m)"
    and "resolve_many fuel' ks s1 = Some s2"
  shows "resolve_service (Suc fuel'') k s2 = Some (Inr v, s2)"
proof -
  from resolve_caches[OF assms(1-3)] obtain m1 where new: "k \<notin> set (ct_stack c)"
    and m1: "jm_get (ct_services (fst s1)) k = Some m1" "sv_instance m1 = Some v" "sv_lifetime m1 = sv_lifetime m" by blast
  note g = resolve_many_grows[OF assms(4)]
  from grows_get[OF g m1(1)] m1 obtain m2 where "jm_get (ct_services (fst s2)) k = Some m2"
    "sv_instance m2 = Some v" "sv_lifetime m2 = sv_lifetime m" by (auto simp: same_service_def)
  moreover have "k \<notin> set (ct_stack (fst s2))"
    using new grows_stack[OF g] grows_stack[OF resolve_grows[OF assms(1)]] by simp
  ultimately show ?thesis using assms(3) by (simp add: resolve_service_Suc resolve_body_def detector_check_def)
qed

lemma cached_services_are_shared_witness:
  "resolve_service 1 ''log'' (the (resolve_many 5 [''app'', ''loop'']
     (snd (the (resolve_service 1 ''log'' (demo_di, 7)))))) =
   Some (Inr 7, the (resolve_many 5 [''app'', ''loop''] (snd (the (resolve_service 1 ''log'' (demo_di, 7))))))"
proof -
  let ?s1 = "snd (the (resolve_service 1 ''log'' (demo_di, 7)))"
  have 1: "resolve_service 1 ''log'' (demo_di, 7) = Some (Inr 7, ?s1)"
    by (simp add: resolve_service_Suc resolve_body_def detector_check_def createInstance_def class_service_def
        cache_instance_def registry_update_def shouldCache_def enter_def demo_di_def serial_class_def)
  have 2: "jm_get (ct_services demo_di) ''log'' = Some (serial_class [] Singleton)" by (simp add: demo_di_def)
  have 3: "resolve_many 5 [''app'', ''loop''] ?s1 = Some (the (resolve_many 5 [''app'', ''loop''] ?s1))"
  proof -
    have all: "all_cached (fst ?s1)" "ct_stack (fst ?s1) = []" "length (ct_services (fst ?s1)) = 4"
      using grows_all_cached[OF resolve_grows[OF 1]] grows_stack[OF resolve_grows[OF 1]]
        classes_only_cached[OF demo_classes] resolve_grows[OF 1]
      by (auto simp: demo_di_def grows_def dest: arg_cong[of _ _ length])
    obtain r u where u: "resolve_service 5 ''app'' ?s1 = Some (r, u)"
      using idle_total[OF all(1,2), of "''app''" "snd ?s1"] all(3) by auto
    have all': "all_cached (fst u)" "ct_stack (fst u) = []" "length (ct_services (fst u)) = 4"
      using grows_all_cached[OF resolve_grows[OF u]] grows_stack[OF resolve_grows[OF u]] all resolve_grows[OF u]
      by (auto simp: grows_def dest: arg_cong[of _ _ length])
    have "resolve_service 5 ''loop'' u \<noteq> None"
      using idle_total[OF all'(1,2), of "''loop''" "snd u"] all'(3) by simp
    with u show ?thesis by auto
  qed
  show ?thesis
    using cached_services_are_shared[OF 1 2 _ 3, of 0] by (simp add: serial_class_def class_service_def shouldCache_def)
qed

text \<open>Transient cycles are not detected. The detector never sees a transient service, so
  one whose first dependency is itself is resolved forever.\<close>

theorem transient_cycle_never_returns:
  assumes "jm_get (ct_services c) k = Some (class_service (k # ds) ctor Transient)" and "ct_stack c = []"
  shows "resolve_service fuel k (c, n) = None"
proof (induction fuel)
  case (Suc fuel)
  then show ?case using assms
    by (simp add: resolve_service_Suc resolve_body_def detector_check_def createInstance_def class_service_def
        isRegistered_def shouldCache_def)
qed (simp add: resolve_service.simps)

lemma transient_cycle_never_returns_witness:
  "resolve_service 1000 ''t'' (\<lparr>ct_services = [(''t'', serial_class [''t''] Transient)], ct_stack = []\<rparr>, 0) = None"
  by (rule transient_cycle_never_returns[of _ _ "[]" "\<lambda>i vs. Inr i"]) (simp_all add: serial_class_def)

text \<open>A scope is not a view of its parent. A scoped service cannot be resolved in any
  scope, and a singleton that was not instantiated before the scope was created is
  constructed again in it: parent and scope hold different instances.\<close>

theorem scopes_split_singletons:
  assumes "jm_ok (ct_services c)" and "ct_stack c = []"
    and "jm_get (ct_services c) k = Some (class_service [] (\<lambda>i vs. Inr (obj i)) Singleton)"
    and "jm_get (ct_services c) j = Some m" and "sv_lifetime m = Scoped"
  shows "\<exists>c1 c2. resolve_service 1 k (c, n) = Some (Inr (obj n), (c1, Suc n)) \<and>
    resolve_service 1 k (createScope c, Suc n) = Some (Inr (obj (Suc n)), (c2, Suc (Suc n))) \<and>
    resolve_service 1 j (createScope c, Suc n) = Some (Inl (ServiceNotFound j), (createScope c, Suc n))"
proof -
  have k: "jm_get (ct_services (createScope c)) k = Some (class_service [] (\<lambda>i vs. Inr (obj i)) Singleton)"
    and j: "jm_get (ct_services (createScope c)) j = None"
    using assms by (simp_all add: createScope_def jm_get_filter class_service_def)
  have "\<exists>d'. resolve_service 1 k (d, i) = Some (Inr (obj i), (d', Suc i))"
    if "jm_get (ct_services d) k = Some (class_service [] (\<lambda>i vs. Inr (obj i)) Singleton)" and "ct_stack d = []" for d i
    using that by (simp add: resolve_service_Suc resolve_body_def detector_check_def createInstance_def class_service_def
        cache_instance_def registry_update_def shouldCache_def enter_def)
  from this[OF assms(3,2), of n] this[OF k, of "Suc n"] j show ?thesis
    by (simp add: createScope_def resolve_service_Suc resolve_body_def)
qed

lemma scopes_split_singletons_witness:
  "\<exists>c1 c2. resolve_service 1 ''log'' (demo_di\<lparr>ct_services := (''req'', serial_class [] Scoped) # ct_services demo_di\<rparr>, 0) =
      Some (Inr 0, (c1, 1)) \<and>
    resolve_service 1 ''log'' (createScope (demo_di\<lparr>ct_services := (''req'', serial_class [] Scoped) # ct_services demo_di\<rparr>), 1) =
      Some (Inr 1, (c2, 2))"
  using scopes_split_singletons[of "demo_di\<lparr>ct_services := (''req'', serial_class [] Scoped) # ct_services demo_di\<rparr>"
      "''log''" "\<lambda>i. i" "''req''" "serial_class [] Scoped" 0]
  by (auto simp: demo_di_def serial_class_def class_service_def jm_ok_def numeral_2_eq_2)

end
