(* ===== verification/Di_Graph.thy ===== *)
theory Di_Graph
  imports Di_Container
begin

section \<open>The dependency graph of a container\<close>

text \<open>
  \<open>getDependencyGraph\<close> of \<open>core/src/di/container.ts\<close>: the nodes and edges of the registered
  services under their display names, and the cycles a depth-first search reports. The
  search shares one visited set between the roots and stops at the first cycle of a root;
  the property is that it reports some cycle exactly when the declared dependencies have one
  between the display names, which two services may share.
\<close>

record graph_node =
  gn_key :: string
  gn_type :: string
  gn_lifetime :: service_lifetime

record dependency_graph =
  dg_nodes :: "graph_node list"
  dg_edges :: "(string \<times> string) list"
  dg_circular :: "string list list"

definition targets :: "(string \<times> string) list \<Rightarrow> string \<Rightarrow> string list" where
  "targets edges node = map snd (filter (\<lambda>e. fst e = node) edges)"

definition sources :: "(string \<times> string) list \<Rightarrow> string set" where
  "sources edges = fst ` set edges"

lemma finite_sources [simp]: "finite (sources edges)"
  by (simp add: sources_def)

lemma targets_empty: "node \<notin> sources edges \<Longrightarrow> targets edges node = []"
  by (auto simp: targets_def sources_def filter_empty_conv)

lemma set_targets: "y \<in> set (targets edges x) \<longleftrightarrow> (x, y) \<in> set edges"
  by (force simp: targets_def)

text \<open>The result and the visited set; the recursion stack is the path from the root.\<close>

function (sequential) detectCycle :: "(string \<times> string) list \<Rightarrow> string set \<Rightarrow> string set \<Rightarrow> string \<Rightarrow>
    string list option \<times> string set"
  and detectEdges :: "(string \<times> string) list \<Rightarrow> string set \<Rightarrow> string set \<Rightarrow> string list \<Rightarrow>
    string list option \<times> string set" where
  "detectCycle edges path visited node =
     (if node \<in> path then (Some [node], visited)
      else if node \<in> visited then (None, visited)
      else (case detectEdges edges (insert node path) (insert node visited) (targets edges node) of
          (Some cycle, v) \<Rightarrow> (Some (node # cycle), v)
        | (None, v) \<Rightarrow> (None, v)))"
| "detectEdges edges path visited [] = (None, visited)"
| "detectEdges edges path visited (t # ts) =
     (case detectCycle edges path visited t of
        (Some cycle, v) \<Rightarrow> (Some cycle, v)
      | (None, v) \<Rightarrow> detectEdges edges path v ts)"
  by pat_completeness auto
termination
proof (relation "measures [\<lambda>x. case x of Inl (edges, path, visited, node) \<Rightarrow> card (sources edges - path)
      | Inr (edges, path, visited, ts) \<Rightarrow> card (sources edges - path),
    \<lambda>x. case x of Inl _ \<Rightarrow> 1 | Inr (edges, path, visited, ts) \<Rightarrow> 2 * length ts]", goal_cases)
  case (2 edges path visited node)
  show ?case
  proof (cases "node \<in> sources edges")
    case True
    with 2 have "card (sources edges - insert node path) < card (sources edges - path)"
      by (intro psubset_card_mono) auto
    then show ?thesis by simp
  next
    case False
    then have "sources edges - insert node path = sources edges - path" by blast
    with targets_empty[OF False] show ?thesis by simp
  qed
qed auto

declare detectCycle.simps [simp del] detectEdges.simps(2) [simp del]

primrec search_cycles :: "(string \<times> string) list \<Rightarrow> string set \<Rightarrow> string list \<Rightarrow> string list list" where
  "search_cycles edges visited [] = []"
| "search_cycles edges visited (n # ns) =
     (if n \<in> visited then search_cycles edges visited ns
      else (case detectCycle edges {} visited n of
          (Some cycle, v) \<Rightarrow> cycle # search_cycles edges v ns
        | (None, v) \<Rightarrow> search_cycles edges v ns))"

definition graph_edges :: "('k \<Rightarrow> string) \<Rightarrow> ('k, 'v) container \<Rightarrow> (string \<times> string) list" where
  "graph_edges name c = concat (map (\<lambda>k. case jm_get (ct_services c) k of None \<Rightarrow> []
     | Some m \<Rightarrow> map (\<lambda>d. (name k, name d)) (sv_dependencies m)) (getRegisteredKeys c))"

text \<open>\<open>kind\<close> tells string keys from class keys.\<close>

definition graph_nodes :: "('k \<Rightarrow> string) \<Rightarrow> ('k \<Rightarrow> string) \<Rightarrow> ('k, 'v) container \<Rightarrow> graph_node list" where
  "graph_nodes kind name c = concat (map (\<lambda>k. case jm_get (ct_services c) k of None \<Rightarrow> []
     | Some m \<Rightarrow> [\<lparr>gn_key = name k, gn_type = kind k, gn_lifetime = sv_lifetime m\<rparr>]) (getRegisteredKeys c))"

definition getDependencyGraph :: "('k \<Rightarrow> string) \<Rightarrow> ('k \<Rightarrow> string) \<Rightarrow> ('k, 'v) container \<Rightarrow> dependency_graph" where
  "getDependencyGraph kind name c = \<lparr>dg_nodes = graph_nodes kind name c, dg_edges = graph_edges name c,
     dg_circular = search_cycles (graph_edges name c) {} (map gn_key (graph_nodes kind name c))\<rparr>"

subsection \<open>A reported cycle is one\<close>

abbreviation edge :: "(string \<times> string) list \<Rightarrow> string \<Rightarrow> string \<Rightarrow> bool" where
  "edge edges x y \<equiv> (x, y) \<in> set edges"

fun walk :: "(string \<times> string) list \<Rightarrow> string list \<Rightarrow> bool" where
  "walk edges (x # y # ys) \<longleftrightarrow> edge edges x y \<and> walk edges (y # ys)"
| "walk edges _ \<longleftrightarrow> True"

definition closes :: "string set \<Rightarrow> string list \<Rightarrow> bool" where
  "closes path c \<longleftrightarrow> c \<noteq> [] \<and> last c \<in> path \<union> set (butlast c)"

lemma detect_sound:
  "detectCycle edges path visited node = (Some c, v) \<Longrightarrow> closes path c \<and> walk edges c \<and> hd c = node"
  "detectEdges edges path visited ts = (Some c, v) \<Longrightarrow> closes path c \<and> walk edges c \<and> hd c \<in> set ts"
proof (induction edges path visited node and edges path visited ts arbitrary: c v and c v
    rule: detectCycle_detectEdges.induct)
  case (1 edges path visited node)
  show ?case
  proof (cases "node \<in> path")
    case True
    with "1.prems" show ?thesis by (auto simp: detectCycle.simps closes_def)
  next
    case False
    with "1.prems" obtain c' where new: "node \<notin> visited" and c: "c = node # c'"
      and r: "detectEdges edges (insert node path) (insert node visited) (targets edges node) = (Some c', v)"
      by (auto simp: detectCycle.simps[of edges path visited node] split: if_splits prod.splits option.splits)
    from "1.IH"[OF False new r] have c': "closes (insert node path) c'" "walk edges c'"
      and "edge edges node (hd c')" by (simp_all add: set_targets)
    then have "walk edges c" using c by (cases c') (auto simp: closes_def)
    moreover have "closes path c" using c'(1) c by (auto simp: closes_def)
    ultimately show ?thesis using c by simp
  qed
next
  case (2 edges path visited)
  then show ?case by (simp add: detectEdges.simps)
next
  case (3 edges path visited t ts)
  obtain r w where one: "detectCycle edges path visited t = (r, w)" by fastforce
  show ?case
  proof (cases r)
    case None
    with 3(2)[OF one[symmetric]] "3.prems" one show ?thesis by (simp add: detectEdges.simps)
  next
    case (Some c')
    with 3(1)[of c' w] "3.prems" one show ?thesis by (simp add: detectEdges.simps)
  qed
qed

lemma walk_tranclp: "walk edges (x # zs @ [y]) \<Longrightarrow> (edge edges)\<^sup>+\<^sup>+ x y"
proof (induction zs arbitrary: x)
  case Nil
  then show ?case by (simp add: tranclp.r_into_trancl)
next
  case (Cons z zs)
  from Cons.prems have "edge edges x z" and "walk edges (z # zs @ [y])" by simp_all
  with Cons.IH show ?case by (meson tranclp_into_tranclp2)
qed

lemma walk_suffix: "walk edges (ys @ zs) \<Longrightarrow> walk edges zs"
  by (induction edges ys rule: walk.induct) (auto split: list.splits elim: walk.elims)

lemma closed_walk_cycle:
  assumes "closes {} c" and "walk edges c"
  shows "\<exists>x. (edge edges)\<^sup>+\<^sup>+ x x"
proof -
  from assms(1) have "c \<noteq> []" and "last c \<in> set (butlast c)" by (simp_all add: closes_def)
  then obtain ys zs where "butlast c = ys @ last c # zs" by (meson split_list)
  with \<open>c \<noteq> []\<close> have "c = ys @ last c # zs @ [last c]" by (metis append.assoc append_Cons append_butlast_last_id)
  with assms(2) have "walk edges (last c # zs @ [last c])" using walk_suffix by metis
  then show ?thesis using walk_tranclp by blast
qed

subsection \<open>A search without a report has seen everything\<close>

text \<open>A set that the search has finished with: closed under the edges and without cycles.\<close>

definition finished :: "(string \<times> string) list \<Rightarrow> string set \<Rightarrow> bool" where
  "finished edges F \<longleftrightarrow> (\<forall>x\<in>F. (\<forall>y. edge edges x y \<longrightarrow> y \<in> F) \<and> \<not> (edge edges)\<^sup>+\<^sup>+ x x)"

lemma finished_closed: "(edge edges)\<^sup>+\<^sup>+ x y \<Longrightarrow> finished edges F \<Longrightarrow> x \<in> F \<Longrightarrow> y \<in> F"
  by (induction rule: tranclp_induct) (auto simp: finished_def)

lemma finished_insert:
  assumes F: "finished edges F" and new: "node \<notin> F" and succ: "\<And>y. edge edges node y \<Longrightarrow> y \<in> F"
  shows "finished edges (insert node F)"
proof -
  have "\<not> (edge edges)\<^sup>+\<^sup>+ node node"
  proof
    assume "(edge edges)\<^sup>+\<^sup>+ node node"
    then obtain y where "edge edges node y" and "(edge edges)\<^sup>*\<^sup>* y node" by (metis tranclpD)
    with succ F new show False by (metis finished_closed rtranclpD)
  qed
  with F succ show ?thesis by (auto simp: finished_def)
qed

lemma detect_complete:
  "detectCycle edges path visited node = (None, v) \<Longrightarrow> path \<subseteq> visited \<Longrightarrow> finished edges (visited - path) \<Longrightarrow>
     visited \<subseteq> v \<and> finished edges (v - path) \<and> node \<in> v - path"
  "detectEdges edges path visited ts = (None, v) \<Longrightarrow> path \<subseteq> visited \<Longrightarrow> finished edges (visited - path) \<Longrightarrow>
     visited \<subseteq> v \<and> finished edges (v - path) \<and> set ts \<subseteq> v - path"
proof (induction edges path visited node and edges path visited ts arbitrary: v and v
    rule: detectCycle_detectEdges.induct)
  case (1 edges path visited node)
  show ?case
  proof (cases "node \<in> path \<or> node \<in> visited")
    case True
    with "1.prems" show ?thesis by (auto simp: detectCycle.simps split: if_splits)
  next
    case False
    with "1.prems"(1) have r: "detectEdges edges (insert node path) (insert node visited) (targets edges node) = (None, v)"
      by (auto simp: detectCycle.simps[of edges path visited node] split: prod.splits option.splits)
    have "insert node visited - insert node path = visited - path" using False by auto
    with "1.IH"[OF _ _ r] False "1.prems"(2,3) have v: "insert node visited \<subseteq> v" "finished edges (v - insert node path)"
      and succ: "set (targets edges node) \<subseteq> v - insert node path" by auto
    have "finished edges (insert node (v - insert node path))"
      by (rule finished_insert[OF v(2)]) (use succ set_targets[of _ edges node] in auto)
    moreover have "insert node (v - insert node path) = v - path" using v(1) False by auto
    ultimately show ?thesis using v(1) False by auto
  qed
next
  case (2 edges path visited)
  then show ?case by (simp add: detectEdges.simps)
next
  case (3 edges path visited t ts)
  obtain w where one: "detectCycle edges path visited t = (None, w)" and rest: "detectEdges edges path w ts = (None, v)"
    using "3.prems"(1) by (auto simp: detectEdges.simps split: prod.splits option.splits)
  from 3(1)[OF one "3.prems"(2,3)] have w: "visited \<subseteq> w" "finished edges (w - path)" "t \<in> w - path" by auto
  with 3(2)[OF one[symmetric] refl rest] "3.prems"(2) show ?case by auto
qed

lemma search_empty:
  "search_cycles edges visited ns = [] \<Longrightarrow> finished edges visited \<Longrightarrow>
     \<exists>F. finished edges F \<and> visited \<subseteq> F \<and> set ns \<subseteq> F"
proof (induction ns arbitrary: visited)
  case (Cons n ns)
  show ?case
  proof (cases "n \<in> visited")
    case True
    with Cons.prems have "search_cycles edges visited ns = []" by simp
    from Cons.IH[OF this Cons.prems(2)] True show ?thesis by auto
  next
    case False
    with Cons.prems(1) obtain v where v: "detectCycle edges {} visited n = (None, v)" and rest: "search_cycles edges v ns = []"
      by (auto split: prod.splits option.splits)
    from detect_complete(1)[OF v] Cons.prems(2) have "visited \<subseteq> v" "finished edges v" "n \<in> v" by auto
    with Cons.IH[OF rest] show ?thesis by auto
  qed
qed auto

lemma search_nonempty: "search_cycles edges visited ns \<noteq> [] \<Longrightarrow> \<exists>x. (edge edges)\<^sup>+\<^sup>+ x x"
proof (induction ns arbitrary: visited)
  case (Cons n ns)
  then show ?case
    by (auto split: if_splits prod.splits option.splits dest: detect_sound(1) intro: closed_walk_cycle)
qed simp

lemma edge_source: "edge (graph_edges name c) x y \<Longrightarrow> x \<in> set (map gn_key (graph_nodes kind name c))"
  by (force simp: graph_edges_def graph_nodes_def split: option.splits)

subsection \<open>Cycles of names and cycles of services\<close>

text \<open>The graph speaks of services by their display names. \<open>named_dependency\<close> is the declared
  dependency between the services that bear two names.\<close>

definition named_dependency :: "('k \<Rightarrow> string) \<Rightarrow> ('k, 'v) container \<Rightarrow> string \<Rightarrow> string \<Rightarrow> bool" where
  "named_dependency name c x y \<longleftrightarrow> (\<exists>k d. depends c k d \<and> x = name k \<and> y = name d)"

lemma edge_named: "edge (graph_edges name c) = named_dependency name c"
proof (intro ext iffI)
  fix x y
  show "edge (graph_edges name c) x y \<Longrightarrow> named_dependency name c x y"
    by (auto simp: graph_edges_def named_dependency_def depends_def split: option.splits) metis
  assume "named_dependency name c x y"
  then obtain k m d where k: "jm_get (ct_services c) k = Some m" "d \<in> set (sv_dependencies m)" "x = name k" "y = name d"
    by (auto simp: named_dependency_def depends_def)
  then have "k \<in> set (getRegisteredKeys c)" by (force simp: getRegisteredKeys_def dest: map_of_SomeD)
  with k show "edge (graph_edges name c) x y" by (force simp: graph_edges_def)
qed

definition declared_keys :: "('k, 'v) container \<Rightarrow> 'k set" where
  "declared_keys c = {k. \<exists>d. depends c k d \<or> depends c d k}"

lemma named_path:
  assumes "(named_dependency name c)\<^sup>+\<^sup>+ x y" and "inj_on name (declared_keys c)"
  shows "\<exists>k d. x = name k \<and> y = name d \<and> (depends c)\<^sup>+\<^sup>+ k d \<and> k \<in> declared_keys c \<and> d \<in> declared_keys c"
  using assms(1)
proof (induction rule: tranclp_induct)
  case (base y)
  then show ?case by (auto simp: named_dependency_def declared_keys_def)
next
  case (step y z)
  from step.IH obtain k d where k: "x = name k" "y = name d" "(depends c)\<^sup>+\<^sup>+ k d" "k \<in> declared_keys c" "d \<in> declared_keys c"
    by blast
  from step.hyps(2) obtain d' e where e: "depends c d' e" "y = name d'" "z = name e" by (auto simp: named_dependency_def)
  then have "d' = d" using assms(2) k(2,5) by (auto simp: declared_keys_def dest: inj_onD)
  with e k show ?case by (intro exI [of _ k] exI [of _ e]) (auto simp: declared_keys_def intro: tranclp.trancl_into_trancl)
qed

lemma path_named: "(depends c)\<^sup>+\<^sup>+ k d \<Longrightarrow> (named_dependency name c)\<^sup>+\<^sup>+ (name k) (name d)"
proof (induction rule: tranclp_induct)
  case (step d e)
  then show ?case by (meson named_dependency_def tranclp.trancl_into_trancl)
qed (auto simp: named_dependency_def)

lemma circular_iff_names:
  "dg_circular (getDependencyGraph kind name c) \<noteq> [] \<longleftrightarrow> (\<exists>x. (named_dependency name c)\<^sup>+\<^sup>+ x x)"
proof
  assume "dg_circular (getDependencyGraph kind name c) \<noteq> []"
  then show "\<exists>x. (named_dependency name c)\<^sup>+\<^sup>+ x x"
    by (auto simp: getDependencyGraph_def edge_named [symmetric] dest: search_nonempty)
next
  assume "\<exists>x. (named_dependency name c)\<^sup>+\<^sup>+ x x"
  then obtain x where x: "(edge (graph_edges name c))\<^sup>+\<^sup>+ x x" by (auto simp: edge_named)
  from tranclpD [OF x] obtain y where "edge (graph_edges name c) x y" by blast
  then have "x \<in> set (map gn_key (graph_nodes kind name c))" by (rule edge_source)
  then show "dg_circular (getDependencyGraph kind name c) \<noteq> []"
    using x search_empty [of "graph_edges name c" "{}" "map gn_key (graph_nodes kind name c)"]
    unfolding getDependencyGraph_def finished_def by fastforce
qed

text \<open>C31: Cycle reports. The graph of a container reports a circular dependency exactly when the
  declared dependencies have a cycle between display names. So every service that through its
  declared dependencies depends on itself is reported; and when the services that declare
  dependencies or are declared as one have different names, nothing else is.\<close>

theorem circular_iff_cycle:
  "(dg_circular (getDependencyGraph kind name c) \<noteq> [] \<longleftrightarrow> (\<exists>x. (named_dependency name c)\<^sup>+\<^sup>+ x x)) \<and>
   ((\<exists>k. (depends c)\<^sup>+\<^sup>+ k k) \<longrightarrow> dg_circular (getDependencyGraph kind name c) \<noteq> []) \<and>
   (inj_on name (declared_keys c) \<longrightarrow>
     (dg_circular (getDependencyGraph kind name c) \<noteq> [] \<longleftrightarrow> (\<exists>k. (depends c)\<^sup>+\<^sup>+ k k)))"
proof -
  have "\<exists>x. (named_dependency name c)\<^sup>+\<^sup>+ x x" if "(depends c)\<^sup>+\<^sup>+ k k" for k
    using path_named [OF that] by blast
  moreover have "\<exists>k. (depends c)\<^sup>+\<^sup>+ k k" if "(named_dependency name c)\<^sup>+\<^sup>+ x x" "inj_on name (declared_keys c)" for x
    using named_path [OF that] that(2) by (auto dest: inj_onD)
  ultimately show ?thesis unfolding circular_iff_names by blast
qed

definition demo_circle :: "(nat, nat) container" where
  "demo_circle = \<lparr>ct_services = [(1, serial_class [3, 2] Singleton), (2, serial_class [1] Singleton), (3, serial_class [] Singleton)],
     ct_stack = []\<rparr>"

lemma demo_circle_depends: "depends demo_circle k d \<longleftrightarrow> (k, d) \<in> {(1, 3), (1, 2), (2, 1)}"
  by (auto simp: depends_def demo_circle_def serial_class_def class_service_def)

lemma circular_iff_cycle_witness:
  "dg_circular (getDependencyGraph (\<lambda>_. ''class'') (\<lambda>k. replicate k CHR ''s'') demo_circle) \<noteq> [] \<and> (\<exists>k. (depends demo_circle)\<^sup>+\<^sup>+ k k)"
proof -
  have "inj_on (\<lambda>k. replicate k CHR ''s'') (declared_keys demo_circle)"
    by (auto intro: inj_onI simp: replicate_eq_replicate)
  moreover have "(depends demo_circle)\<^sup>+\<^sup>+ 1 1"
    by (rule tranclp_trans [of _ 1 2]) (simp_all add: demo_circle_depends tranclp.r_into_trancl)
  ultimately show ?thesis using circular_iff_cycle by blast
qed

text \<open>Two classes of the same name are one node to the search: where one declares the other as a
  dependency, a circular dependency is reported though no service depends on itself.\<close>

lemma namesakes_are_reported:
  assumes "ct_services c = [(k, serial_class [d] l), (d, serial_class [] l')]" and "k \<noteq> d" and "name k = name d"
  shows "dg_circular (getDependencyGraph kind name c) \<noteq> []" and "\<not> (depends c)\<^sup>+\<^sup>+ x x"
proof -
  have dep: "depends c a b \<longleftrightarrow> a = k \<and> b = d" for a b
    using assms(1,2) by (auto simp: depends_def serial_class_def class_service_def)
  then have "named_dependency name c (name k) (name k)" using assms(3) by (auto simp: named_dependency_def)
  then show "dg_circular (getDependencyGraph kind name c) \<noteq> []" using circular_iff_names by blast
  show "\<not> (depends c)\<^sup>+\<^sup>+ x x"
  proof
    assume "(depends c)\<^sup>+\<^sup>+ x x"
    then obtain y where "depends c x y" "(depends c)\<^sup>*\<^sup>* y x" by (metis tranclpD)
    then show False using dep assms(2) by (metis converse_rtranclpE)
  qed
qed

end
