(* ===== verification/Storage_World.thy ===== *)
theory Storage_World
  imports Complex_Main Record_Paths Quota Circuit_Breaker
begin

section \<open>The state of the storage service\<close>

text \<open>
  What \<open>modules/storage/src/cloud-uuid-storage\<close> works on: the configured providers and folders,
  the table \<open>storage_files\<close> with \<open>core/src/database/stores/storage-file-store.ts\<close>, the local
  files, the objects of the cloud providers, the quota manager and the circuit breakers of
  \<open>Quota\<close> and \<open>Circuit_Breaker\<close>, and the cached folder listings. The clients of the
  cloud providers are functions of the environment on an object store of any type. Every call
  that leaves the process fails by the list of booleans of the state; an operation that loses the
  race against its timer takes effect all the same, at that moment.
\<close>

subsection \<open>Names of stored files\<close>

text \<open>The last component of a path, as \<open>path.extname\<close> and \<open>path.basename\<close> see it.\<close>

definition last_component :: "string \<Rightarrow> string" where
  "last_component s = last (split_path (rev (dropWhile (\<lambda>c. c = CHR ''/'') (rev s))))"

definition extname :: "string \<Rightarrow> string" where
  "extname s = (let b = last_component s; e = rev (takeWhile (\<lambda>c. c \<noteq> CHR ''.'') (rev b)) in
     if CHR ''.'' \<notin> set b \<or> length b = Suc (length e) \<or> b = ''..'' then [] else CHR ''.'' # e)"

definition basename_without :: "string \<Rightarrow> string" where
  "basename_without s = (let b = last_component s in take (length b - length (extname s)) b)"

definition alnum :: "char \<Rightarrow> bool" where
  "alnum c \<longleftrightarrow> (let n = (of_char c :: nat) in (48 \<le> n \<and> n \<le> 57) \<or> (65 \<le> n \<and> n \<le> 90) \<or> (97 \<le> n \<and> n \<le> 122))"

definition generateStoredFilenameFromName :: "string \<Rightarrow> string \<Rightarrow> string" where
  "generateStoredFilenameFromName originalName fileId =
     map (\<lambda>c. if alnum c \<or> c = CHR ''-'' \<or> c = CHR ''_'' then c else CHR ''_'') (basename_without originalName) @ ''_'' @ fileId @
     filter (\<lambda>c. alnum c \<or> c = CHR ''.'') (extname originalName)"

definition SIDECAR_SUFFIX :: string where
  "SIDECAR_SUFFIX = ''.meta.json''"

subsection \<open>Sizes\<close>

definition is_digit :: "char \<Rightarrow> bool" where
  "is_digit c \<longleftrightarrow> (let n = (of_char c :: nat) in 48 \<le> n \<and> n \<le> 57)"

definition digits_value :: "string \<Rightarrow> nat" where
  "digits_value s = foldl (\<lambda>n c. 10 * n + (of_char c - 48)) 0 s"

definition upper_char :: "char \<Rightarrow> char" where
  "upper_char c = (let n = (of_char c :: nat) in if 97 \<le> n \<and> n \<le> 122 then char_of (n - 32) else c)"

text \<open>The parts of the regular expression: the number, then the unit after any spaces.\<close>

definition size_parts :: "string \<Rightarrow> (rat \<times> string) option" where
  "size_parts s = (let whole = takeWhile is_digit s; rest = dropWhile is_digit s;
       (frac, rest') = (case rest of c # r \<Rightarrow> if c = CHR ''.'' \<and> takeWhile is_digit r \<noteq> []
           then (takeWhile is_digit r, dropWhile is_digit r) else ([], rest) | [] \<Rightarrow> ([], rest));
       unit_text = map upper_char (dropWhile is_space rest')
     in if whole \<noteq> [] \<and> unit_text \<in> {''B'', ''KB'', ''MB'', ''GB'', ''TB''}
        then Some (of_nat (digits_value whole) + of_nat (digits_value frac) / 10 ^ length frac, unit_text) else None)"

definition size_units :: "(string \<times> nat) list" where
  "size_units = [(''B'', 1), (''KB'', 1024), (''MB'', 1024 * 1024), (''GB'', 1024 * 1024 * 1024)]"

definition parseSizeString :: "string \<Rightarrow> rat" where
  "parseSizeString s = (case size_parts s of
     None \<Rightarrow> 1024 * 1024
   | Some (v, u) \<Rightarrow> v * of_nat (case map_of size_units u of Some n \<Rightarrow> n | None \<Rightarrow> 1))"

subsection \<open>Configuration\<close>

datatype provider_type = LocalDisk | S3 | Azure | Gcs | OtherType string

record provider =
  pv_type :: provider_type
  pv_path :: "string option"
  pv_bucket :: "string option"
  pv_prefix :: "string option"
  pv_account_name :: "string option"
  pv_container_name :: "string option"

record folder =
  fo_path :: string
  fo_allowed_types :: "string list"
  fo_max_size :: string
  fo_quota :: "string option"

record storage_config =
  sg_providers :: "(string \<times> provider) list"
  sg_active_provider :: "string option"
  sg_folders :: "(string \<times> folder) list"
  sg_quota_enforcement :: "bool option"
  sg_global_quota :: "string option"

definition active_provider :: "storage_config \<Rightarrow> string" where
  "active_provider cfg = (case or_null (sg_active_provider cfg) of Some p \<Rightarrow> p | None \<Rightarrow> ''local'')"

text \<open>An undefined value in a template text.\<close>

definition in_text :: "string option \<Rightarrow> string" where
  "in_text x = (case x of None \<Rightarrow> ''undefined'' | Some s \<Rightarrow> s)"

subsection \<open>Rows\<close>

record file_row =
  sf_id :: string
  sf_original_name :: string
  sf_stored_filename :: string
  sf_folder :: string
  sf_relative_path :: string
  sf_provider_path :: string
  sf_size :: nat
  sf_mime_type :: string
  sf_description :: "string option"
  sf_uploaded_by :: "string option"
  sf_created_at :: msec
  sf_updated_at :: msec

record 'o store_world = dbenv +
  sw_rows :: "file_row list"
  sw_files :: "(string \<times> string) list"
  sw_objects :: 'o
  sw_s3 :: bool
  sw_azure :: "string option"
  sw_gcs :: "string option"
  sw_quota :: "quota_manager option"
  sw_breakers :: "breaker_manager option"
  sw_cache :: "(string \<times> file_row list) list option"
  sw_timers :: "bool list"
  sw_uuids :: nat

text \<open>Failures. The text of a message is left out; the value says which message it is.\<close>

datatype st_error =
    IoError
  | RowExists
  | FolderNotFound string
  | InvalidFile "string list"
  | ProviderNotFound string
  | UnsupportedType
  | QuotaExceeded quota_exceeded
  | Blocked breaker_error
  | TimedOut string
  | PathEscapes string
  | NoClient provider_type
  | NoCredentials
  | NotFoundError string
  | NoSourceGiven
  | SourceFailed
  | Status404
  | BadRange
  | AllFailed nat

type_synonym ('o, 'a) st_op = "('o store_world, st_error, 'a) em"

text \<open>The environment: the clients of the cloud providers, by container and key, with the error they
  raise for a missing object; random ids; MIME lookup; JSON of manifests; the order in which rows of one second and directory entries come.\<close>

record 'o storage_env =
  se_config :: storage_config
  se_cwd :: string
  se_base :: string
  se_put :: "provider_type \<Rightarrow> string \<Rightarrow> string \<Rightarrow> string \<Rightarrow> 'o \<Rightarrow> 'o"
  se_get :: "provider_type \<Rightarrow> string \<Rightarrow> string \<Rightarrow> 'o \<Rightarrow> string option"
  se_range :: "provider_type \<Rightarrow> string \<Rightarrow> string \<Rightarrow> nat option \<times> int option \<Rightarrow> 'o \<Rightarrow> st_error + string"
  se_delete :: "provider_type \<Rightarrow> string \<Rightarrow> string \<Rightarrow> 'o \<Rightarrow> 'o"
  se_keys :: "provider_type \<Rightarrow> string \<Rightarrow> string \<Rightarrow> 'o \<Rightarrow> string list"
  se_missing :: "provider_type \<Rightarrow> st_error"
  se_credentials :: "provider_type \<Rightarrow> bool"
  se_uuid :: "nat \<Rightarrow> string"
  se_mime :: "string \<Rightarrow> string option"
  se_manifest :: "file_row \<Rightarrow> string"
  se_read_manifest :: "string \<Rightarrow> file_row option"
  se_row_order :: "file_row list \<Rightarrow> file_row list"
  se_dir_order :: "string list \<Rightarrow> string list"

subsection \<open>Effects\<close>

definition ext :: "('o, 'a) st_op \<Rightarrow> ('o, 'a) st_op" where
  "ext m = (\<lambda>w. case faults w of
     [] \<Rightarrow> m w
   | True # fs \<Rightarrow> (Inl IoError, w\<lparr>faults := fs\<rparr>)
   | False # fs \<Rightarrow> m (w\<lparr>faults := fs\<rparr>))"

definition withTimeout :: "string \<Rightarrow> ('o, 'a) st_op \<Rightarrow> ('o, 'a) st_op" where
  "withTimeout what m = (\<lambda>w. case sw_timers w of
     [] \<Rightarrow> m w
   | late # ts \<Rightarrow> (case m (w\<lparr>sw_timers := ts\<rparr>) of (r, w') \<Rightarrow> (if late then Inl (TimedOut what) else r, w')))"

definition put_breaker :: "string \<Rightarrow> breaker \<Rightarrow> 'o store_world \<Rightarrow> 'o store_world" where
  "put_breaker p b w = w\<lparr>sw_breakers := map_option (\<lambda>bm. bm\<lparr>bm_breakers := jm_set p b (bm_breakers bm)\<rparr>) (sw_breakers w)\<rparr>"

definition ended :: "(st_error \<Rightarrow> bool) \<Rightarrow> st_error + 'a \<Rightarrow> op_end" where
  "ended expected r = (case r of Inr _ \<Rightarrow> Succeeded | Inl x \<Rightarrow> if expected x then ExpectedError else Failed)"

definition guarded :: "string \<Rightarrow> (st_error \<Rightarrow> bool) \<Rightarrow> ('o, 'a) st_op \<Rightarrow> ('o, 'a) st_op" where
  "guarded p expected m = (\<lambda>w. case sw_breakers w of
     None \<Rightarrow> m w
   | Some bm \<Rightarrow> (case admit (clock w) (fst (getBreaker p bm)) of
       (Inl e, b) \<Rightarrow> (Inl (Blocked e), put_breaker p b w)
     | (Inr _, b) \<Rightarrow> (case m (put_breaker p b w) of
         (r, w') \<Rightarrow> (r, put_breaker p (complete (ended expected r) (clock w') b) w'))))"

subsection \<open>The table\<close>

definition seconds_of :: "msec \<Rightarrow> msec" where
  "seconds_of t = t div 1000 * 1000"

definition row_by_id :: "string \<Rightarrow> file_row list \<Rightarrow> file_row option" where
  "row_by_id i rows = find (\<lambda>r. sf_id r = i) rows"

definition stored_row :: "msec \<Rightarrow> file_row \<Rightarrow> file_row" where
  "stored_row now r = r\<lparr>sf_description := or_null (sf_description r), sf_uploaded_by := or_null (sf_uploaded_by r),
     sf_created_at := seconds_of now, sf_updated_at := seconds_of now\<rparr>"

definition createStorageFile :: "file_row \<Rightarrow> ('o, unit) st_op" where
  "createStorageFile r = ext (\<lambda>w. if sf_id r \<in> sf_id ` set (sw_rows w) then (Inl RowExists, w)
     else (Inr (), w\<lparr>sw_rows := sw_rows w @ [stored_row (clock w) r]\<rparr>))"

text \<open>\<open>INSERT OR REPLACE\<close>: the row of the same id goes, the new one comes last.\<close>

definition upsertStorageFile :: "file_row \<Rightarrow> ('o, unit) st_op" where
  "upsertStorageFile r = ext (emodify (\<lambda>w. w\<lparr>sw_rows := filter (\<lambda>x. sf_id x \<noteq> sf_id r) (sw_rows w) @ [stored_row (clock w) r]\<rparr>))"

definition getStorageFileById :: "string \<Rightarrow> ('o, file_row option) st_op" where
  "getStorageFileById i = ext (eget (\<lambda>w. row_by_id i (sw_rows w)))"

definition newest_first :: "'o storage_env \<Rightarrow> file_row list \<Rightarrow> file_row list" where
  "newest_first e rows = rev (sort_key sf_created_at (rev (se_row_order e rows)))"

definition getStorageFilesByFolder :: "'o storage_env \<Rightarrow> string \<Rightarrow> ('o, file_row list) st_op" where
  "getStorageFilesByFolder e f = ext (eget (\<lambda>w. newest_first e (filter (\<lambda>r. sf_folder r = f) (sw_rows w))))"

definition getAllStorageFiles :: "'o storage_env \<Rightarrow> ('o, file_row list) st_op" where
  "getAllStorageFiles e = ext (eget (\<lambda>w. newest_first e (sw_rows w)))"

definition deleteStorageFile :: "string \<Rightarrow> ('o, bool) st_op" where
  "deleteStorageFile i = ecatch (ext (\<lambda>w. (Inr True, w\<lparr>sw_rows := filter (\<lambda>r. sf_id r \<noteq> i) (sw_rows w)\<rparr>)))
     (\<lambda>_ :: st_error. ereturn False)"

definition updateStorageFile :: "string \<Rightarrow> string option \<Rightarrow> ('o, bool) st_op" where
  "updateStorageFile i description = ecatch (case description of
       None \<Rightarrow> ereturn True
     | Some d \<Rightarrow> ext (\<lambda>w. (Inr True, w\<lparr>sw_rows := map (\<lambda>r. if sf_id r = i
         then r\<lparr>sf_description := Some d, sf_updated_at := seconds_of (clock w)\<rparr> else r) (sw_rows w)\<rparr>)))
     (\<lambda>_ :: st_error. ereturn False)"

subsection \<open>Local files\<close>

text \<open>\<open>path.resolve\<close> of an absolute path and another.\<close>

definition path_resolve :: "string \<Rightarrow> string \<Rightarrow> string" where
  "path_resolve base p = (let full = (if p \<noteq> [] \<and> hd p = CHR ''/'' then p else base @ ''/'' @ p) in
     ''/'' @ join_with ''/'' (rev (fold (push_segment True) (split_path full) [])))"

definition is_absolute :: "string \<Rightarrow> bool" where
  "is_absolute p \<longleftrightarrow> p \<noteq> [] \<and> hd p = CHR ''/''"

definition or_storage :: "string option \<Rightarrow> string" where
  "or_storage p = (case or_null p of Some s \<Rightarrow> s | None \<Rightarrow> ''storage'')"

definition getLocalStoragePath :: "'o storage_env \<Rightarrow> string" where
  "getLocalStoragePath e = (let base = path_resolve (se_cwd e) (se_base e) in
     case map_of (sg_providers (se_config e)) ''local'' of
       Some p \<Rightarrow> if is_absolute (or_storage (pv_path p)) then or_storage (pv_path p) else path_resolve base (or_storage (pv_path p))
     | None \<Rightarrow> path_resolve base ''storage'')"

text \<open>Below a directory: its segments are a prefix of the path's.\<close>

definition segments :: "string \<Rightarrow> string list" where
  "segments p = rev (fold (push_segment True) (split_path p) [])"

definition under :: "string \<Rightarrow> string \<Rightarrow> bool" where
  "under dir p \<longleftrightarrow> take (length (segments dir)) (segments p) = segments dir"

definition resolveLocalStoragePath :: "'o storage_env \<Rightarrow> string \<Rightarrow> ('o, string) st_op" where
  "resolveLocalStoragePath e relativePath =
     (let base = getLocalStoragePath e; resolved = path_resolve base relativePath in
      if under base resolved then ereturn resolved else ethrow (PathEscapes relativePath))"

definition fs_writeFile :: "string \<Rightarrow> string \<Rightarrow> ('o, unit) st_op" where
  "fs_writeFile p data = ext (emodify (\<lambda>w. w\<lparr>sw_files := jm_set p data (sw_files w)\<rparr>))"

definition fs_remove :: "string \<Rightarrow> ('o, unit) st_op" where
  "fs_remove p = ext (emodify (\<lambda>w. w\<lparr>sw_files := jm_delete p (sw_files w)\<rparr>))"

definition fs_pathExists :: "string \<Rightarrow> ('o, bool) st_op" where
  "fs_pathExists p = ext (eget (\<lambda>w. map_of (sw_files w) p \<noteq> None))"

definition fs_readFile :: "string \<Rightarrow> ('o, string) st_op" where
  "fs_readFile p = ext (\<lambda>w. case map_of (sw_files w) p of Some s \<Rightarrow> (Inr s, w) | None \<Rightarrow> (Inl IoError, w))"

definition fs_ensureDir :: "('o, unit) st_op" where
  "fs_ensureDir = ext (ereturn ())"

subsection \<open>Cached listings\<close>

definition cache_get :: "string \<Rightarrow> ('o, file_row list option) st_op" where
  "cache_get f = eget (\<lambda>w. case sw_cache w of None \<Rightarrow> None | Some c \<Rightarrow> map_of c f)"

definition cache_set :: "string \<Rightarrow> file_row list \<Rightarrow> ('o, unit) st_op" where
  "cache_set f rows = emodify (\<lambda>w. w\<lparr>sw_cache := map_option (jm_set f rows) (sw_cache w)\<rparr>)"

definition invalidateFolder :: "string \<Rightarrow> ('o, unit) st_op" where
  "invalidateFolder f = emodify (\<lambda>w. w\<lparr>sw_cache := map_option (jm_delete f) (sw_cache w)\<rparr>)"

end
