(* ===== verification/Storage_Service.thy ===== *)
theory Storage_Service
  imports Storage_World
begin

section \<open>The storage service\<close>

text \<open>
  \<open>modules/storage/src/cloud-uuid-storage-service.ts\<close> and its collaborators in
  \<open>cloud-uuid-storage\<close>: uploads from a buffer and from a stream, reads, range reads, lists, updates,
  deletes and batches. An upload takes a quota reservation, runs on the active provider behind its
  timer and its circuit breaker, then writes the row and, on local disks, a manifest beside the
  file. The concurrency limiter only delays calls and is left out, as are log lines; the operations
  of one slice of a batch run one after the other.
\<close>

subsection \<open>Validation\<close>

definition EXECUTABLE_EXTENSIONS :: "string list" where
  "EXECUTABLE_EXTENSIONS = [''exe'', ''bat'', ''cmd'', ''com'', ''scr'', ''msi'', ''cpl'', ''vbs'', ''vbe'', ''jse'', ''wsf'', ''wsh'',
     ''ps1'', ''psm1'', ''reg'', ''sh'', ''bash'', ''zsh'', ''ksh'', ''csh'', ''jar'', ''deb'', ''rpm'', ''apk'']"

definition validateFile :: "string \<Rightarrow> nat \<Rightarrow> folder \<Rightarrow> string list" where
  "validateFile name fileSize f = (let x = drop 1 (to_lower (extname name)) in
     (if ''*'' \<in> set (fo_allowed_types f) \<or> x \<in> set (fo_allowed_types f) then [] else [''File type not allowed'']) @
     (if parseSizeString (fo_max_size f) < of_nat fileSize then [''File size exceeds limit''] else []) @
     (if x \<in> set EXECUTABLE_EXTENSIONS then [''Executable file type''] else []))"

subsection \<open>The cloud providers\<close>

definition object_key :: "provider \<Rightarrow> string \<Rightarrow> string" where
  "object_key pv rel = (case or_null (pv_prefix pv) of Some p \<Rightarrow> p @ ''/'' @ rel | None \<Rightarrow> rel)"

definition uri_prefix :: "provider \<Rightarrow> string" where
  "uri_prefix pv = (case pv_type pv of
     S3 \<Rightarrow> ''s3://'' @ in_text (pv_bucket pv) @ ''/''
   | Azure \<Rightarrow> ''azure://'' @ in_text (pv_account_name pv) @ ''/'' @ in_text (pv_container_name pv) @ ''/''
   | Gcs \<Rightarrow> ''gs://'' @ in_text (pv_bucket pv) @ ''/''
   | _ \<Rightarrow> [])"

text \<open>\<open>replace\<close> of a text by nothing: its first occurrence goes.\<close>

fun remove_first :: "string \<Rightarrow> string \<Rightarrow> string" where
  "remove_first p [] = []"
| "remove_first p (c # s) = (if str_starts_with (c # s) p then drop (length p) (c # s) else c # remove_first p s)"

definition key_of_path :: "provider \<Rightarrow> string \<Rightarrow> string" where
  "key_of_path pv path = remove_first (uri_prefix pv) path"

text \<open>The container a call goes to: S3 names the bucket in each call, the others have opened theirs.\<close>

definition container_of :: "provider \<Rightarrow> 'o store_world \<Rightarrow> string option" where
  "container_of pv w = (case pv_type pv of
     S3 \<Rightarrow> if sw_s3 w then Some (in_text (pv_bucket pv)) else None
   | Azure \<Rightarrow> sw_azure w
   | Gcs \<Rightarrow> sw_gcs w
   | _ \<Rightarrow> None)"

definition in_container :: "provider \<Rightarrow> (string \<Rightarrow> ('o, 'a) st_op) \<Rightarrow> ('o, 'a) st_op" where
  "in_container pv f = ebind (eget (container_of pv)) (\<lambda>c. case c of None \<Rightarrow> ethrow (NoClient (pv_type pv)) | Some b \<Rightarrow> f b)"

definition open_s3 :: "'o storage_env \<Rightarrow> provider \<Rightarrow> ('o, unit) st_op" where
  "open_s3 e pv = ebind (eget sw_s3) (\<lambda>ready. if pv_type pv \<noteq> S3 \<or> ready then ereturn ()
     else if se_credentials e S3 then emodify (\<lambda>w. w\<lparr>sw_s3 := True\<rparr>) else ethrow NoCredentials)"

definition put_object :: "'o storage_env \<Rightarrow> provider \<Rightarrow> string \<Rightarrow> string \<Rightarrow> ('o, string) st_op" where
  "put_object e pv rel data = in_container pv (\<lambda>b.
     eseq (ext (emodify (\<lambda>w. w\<lparr>sw_objects := se_put e (pv_type pv) b (object_key pv rel) data (sw_objects w)\<rparr>)))
       (ereturn (uri_prefix pv @ object_key pv rel)))"

definition is_cloud :: "provider \<Rightarrow> bool" where
  "is_cloud pv \<longleftrightarrow> pv_type pv \<in> {S3, Azure, Gcs}"

subsection \<open>Writing\<close>

definition uploadToLocal :: "'o storage_env \<Rightarrow> string \<Rightarrow> string \<Rightarrow> ('o, string) st_op" where
  "uploadToLocal e rel data = ebind (resolveLocalStoragePath e rel) (\<lambda>path.
     eseq fs_ensureDir (eseq (fs_writeFile path data) (ereturn path)))"

definition executeUpload :: "'o storage_env \<Rightarrow> provider \<Rightarrow> string \<Rightarrow> string \<Rightarrow> ('o, string) st_op" where
  "executeUpload e pv rel data = (if pv_type pv = LocalDisk then uploadToLocal e rel data
     else if is_cloud pv then eseq (open_s3 e pv) (put_object e pv rel data) else ethrow UnsupportedType)"

definition on_provider :: "'o storage_env \<Rightarrow> (provider \<Rightarrow> ('o, 'a) st_op) \<Rightarrow> ('o, 'a) st_op" where
  "on_provider e f = (case map_of (sg_providers (se_config e)) (active_provider (se_config e)) of
     None \<Rightarrow> ethrow (ProviderNotFound (active_provider (se_config e))) | Some pv \<Rightarrow> f pv)"

definition provider_call :: "'o storage_env \<Rightarrow> string \<Rightarrow> (st_error \<Rightarrow> bool) \<Rightarrow> (provider \<Rightarrow> ('o, 'a) st_op) \<Rightarrow> ('o, 'a) st_op" where
  "provider_call e what expected f =
     on_provider e (\<lambda>pv. guarded (active_provider (se_config e)) expected (withTimeout what (f pv)))"

definition writeSidecarManifest :: "'o storage_env \<Rightarrow> file_row \<Rightarrow> ('o, unit) st_op" where
  "writeSidecarManifest e r = (if active_provider (se_config e) \<noteq> ''local'' then ereturn ()
     else ebind (resolveLocalStoragePath e (sf_relative_path r)) (\<lambda>path. fs_writeFile (path @ SIDECAR_SUFFIX) (se_manifest e r)))"

definition uuidv4 :: "'o storage_env \<Rightarrow> ('o, string) st_op" where
  "uuidv4 e = (\<lambda>w. (Inr (se_uuid e (sw_uuids w)), w\<lparr>sw_uuids := Suc (sw_uuids w)\<rparr>))"

definition used_bytes :: "file_row list \<Rightarrow> stored_files" where
  "used_bytes rows = map (\<lambda>r. (sf_folder r, sf_size r)) rows"

text \<open>Each usage figure is awaited where there is a limit; the decision that follows is one step.\<close>

definition measure_usage :: "nat option \<Rightarrow> (stored_files \<Rightarrow> nat) \<Rightarrow> ('o, nat) st_op" where
  "measure_usage limit figure = (if limit = None then ereturn 0 else ext (eget (\<lambda>w. figure (used_bytes (sw_rows w)))))"

definition decide :: "string \<Rightarrow> nat \<Rightarrow> usage \<Rightarrow> ('o, reservation option) st_op" where
  "decide f fileSize used = (\<lambda>w. case sw_quota w of
     None \<Rightarrow> (Inr None, w)
   | Some qm \<Rightarrow> (case quota_admit f fileSize used True (clock w) qm of
       (Inl x, qm') \<Rightarrow> (Inl (QuotaExceeded x), w\<lparr>sw_quota := Some qm'\<rparr>)
     | (Inr res, qm') \<Rightarrow> (Inr res, w\<lparr>sw_quota := Some qm'\<rparr>)))"

definition reserve :: "string \<Rightarrow> nat \<Rightarrow> ('o, reservation option) st_op" where
  "reserve f fileSize = ebind (eget sw_quota) (\<lambda>q. case q of
     None \<Rightarrow> ereturn None
   | Some qm \<Rightarrow> if \<not> qc_enabled (qm_config qm) then ereturn None else
       ebind (measure_usage (global_limit (qm_config qm)) (global_usage (qm_config qm))) (\<lambda>g.
       ebind (measure_usage (folder_limit (qm_config qm) f) (folder_usage (qm_config qm) f)) (\<lambda>k.
         decide f fileSize \<lparr>us_global = g, us_folder = k\<rparr>)))"

definition release :: "reservation option \<Rightarrow> ('o, unit) st_op" where
  "release res = emodify (\<lambda>w. w\<lparr>sw_quota := map_option (quota_release res) (sw_quota w)\<rparr>)"

record store_request =
  sq_name :: string
  sq_folder :: string
  sq_size :: nat
  sq_mime :: "string option"
  sq_description :: "string option"
  sq_uploaded_by :: "string option"

definition mime_of :: "'o storage_env \<Rightarrow> store_request \<Rightarrow> string" where
  "mime_of e q = (case or_null (sq_mime q) of Some m \<Rightarrow> m | None \<Rightarrow>
     (case or_null (se_mime e (sq_name q)) of Some m \<Rightarrow> m | None \<Rightarrow> ''application/octet-stream''))"

definition relative_path_of :: "store_request \<Rightarrow> string \<Rightarrow> string" where
  "relative_path_of q i = sq_folder q @ ''/'' @ generateStoredFilenameFromName (sq_name q) i"

definition new_row :: "'o storage_env \<Rightarrow> store_request \<Rightarrow> string \<Rightarrow> string \<Rightarrow> nat \<Rightarrow> msec \<Rightarrow> file_row" where
  "new_row e q i path bytes now = \<lparr>sf_id = i, sf_original_name = sq_name q,
     sf_stored_filename = generateStoredFilenameFromName (sq_name q) i, sf_folder = sq_folder q,
     sf_relative_path = relative_path_of q i, sf_provider_path = path, sf_size = bytes, sf_mime_type = mime_of e q,
     sf_description = sq_description q, sf_uploaded_by = sq_uploaded_by q, sf_created_at = now, sf_updated_at = now\<rparr>"

definition record_upload :: "'o storage_env \<Rightarrow> store_request \<Rightarrow> string \<Rightarrow> string \<Rightarrow> nat \<Rightarrow> ('o, file_row) st_op" where
  "record_upload e q i path bytes = ebind date_now (\<lambda>now. let r = new_row e q i path bytes now in
     eseq (createStorageFile r) (eseq (equiet (writeSidecarManifest e r)) (eseq (invalidateFolder (sq_folder q)) (ereturn r))))"

text \<open>What comes after the validation; the reservation is released however it ends.\<close>

definition reserved :: "string \<Rightarrow> nat \<Rightarrow> ('o, 'a) st_op \<Rightarrow> ('o, 'a) st_op" where
  "reserved f bytes m = ebind (reserve f bytes) (\<lambda>res. efinally m (release res :: ('o, unit) st_op))"

definition uploadFile :: "'o storage_env \<Rightarrow> store_request \<Rightarrow> string \<Rightarrow> ('o, file_row) st_op" where
  "uploadFile e q data = (case map_of (sg_folders (se_config e)) (sq_folder q) of
     None \<Rightarrow> ethrow (FolderNotFound (sq_folder q))
   | Some f \<Rightarrow> (case validateFile (sq_name q) (sq_size q) f of
       x # xs \<Rightarrow> ethrow (InvalidFile (x # xs))
     | [] \<Rightarrow> reserved (sq_folder q) (sq_size q) (ebind (uuidv4 e) (\<lambda>i.
         ebind (provider_call e ''upload'' (\<lambda>_. False) (\<lambda>pv. executeUpload e pv (relative_path_of q i) data)) (\<lambda>path.
           record_upload e q i path (sq_size q))))))"

subsection \<open>Streams\<close>

text \<open>A source yields its bytes or breaks after some of them; then a local file keeps what came.\<close>

datatype source = NoSource | Yields string | Breaks string

definition uploadStreamToLocal :: "'o storage_env \<Rightarrow> string \<Rightarrow> source \<Rightarrow> ('o, string) st_op" where
  "uploadStreamToLocal e rel s = ebind (resolveLocalStoragePath e rel) (\<lambda>path. eseq fs_ensureDir (case s of
     Yields data \<Rightarrow> eseq (fs_writeFile path data) (ereturn path)
   | Breaks data \<Rightarrow> eseq (fs_writeFile path data) (ethrow SourceFailed)
   | NoSource \<Rightarrow> ethrow NoSourceGiven))"

definition stat_size :: "string \<Rightarrow> ('o, nat) st_op" where
  "stat_size path = ebind (fs_readFile path) (\<lambda>data. ereturn (length data))"

definition uploadFileStream :: "'o storage_env \<Rightarrow> store_request \<Rightarrow> source \<Rightarrow> ('o, file_row) st_op" where
  "uploadFileStream e q s = (if s = NoSource then ethrow NoSourceGiven else
     case map_of (sg_folders (se_config e)) (sq_folder q) of
     None \<Rightarrow> ethrow (FolderNotFound (sq_folder q))
   | Some f \<Rightarrow> (case validateFile (sq_name q) (sq_size q) f of
       x # xs \<Rightarrow> ethrow (InvalidFile (x # xs))
     | [] \<Rightarrow>
       (if 0 < sq_size q then reserved (sq_folder q) (sq_size q) else (\<lambda>m. m)) (ebind (uuidv4 e) (\<lambda>i.
         on_provider e (\<lambda>pv.
           if pv_type pv = LocalDisk then
             ebind (uploadStreamToLocal e (relative_path_of q i) s) (\<lambda>path.
             ebind (stat_size path) (\<lambda>bytes. record_upload e q i path bytes))
           else if is_cloud pv then (case s of
               Yields data \<Rightarrow> ebind (put_object e pv (relative_path_of q i) data) (\<lambda>path. record_upload e q i path (length data))
             | _ \<Rightarrow> in_container pv (\<lambda>_. ethrow SourceFailed))
           else ethrow UnsupportedType)))))"

subsection \<open>Reading\<close>

definition getFileById :: "string \<Rightarrow> ('o, file_row option) st_op" where
  "getFileById i = ecatch (getStorageFileById i) (\<lambda>_ :: st_error. ereturn None)"

definition get_object :: "'o storage_env \<Rightarrow> provider \<Rightarrow> file_row \<Rightarrow> ('o, string) st_op" where
  "get_object e pv r = in_container pv (\<lambda>b. ext (\<lambda>w.
     case se_get e (pv_type pv) b (key_of_path pv (sf_provider_path r)) (sw_objects w) of
       Some data \<Rightarrow> (Inr data, w)
     | None \<Rightarrow> (Inl (if pv_type pv = Gcs then NotFoundError (sf_id r) else se_missing e (pv_type pv)), w)))"

definition getFileContentFromLocal :: "file_row \<Rightarrow> ('o, string) st_op" where
  "getFileContentFromLocal r = ebind (fs_pathExists (sf_provider_path r)) (\<lambda>there.
     if there then fs_readFile (sf_provider_path r) else ethrow (NotFoundError (sf_id r)))"

definition executeDownload :: "'o storage_env \<Rightarrow> provider \<Rightarrow> file_row \<Rightarrow> ('o, string) st_op" where
  "executeDownload e pv r = (if pv_type pv = LocalDisk then getFileContentFromLocal r
     else if is_cloud pv then get_object e pv r else ethrow UnsupportedType)"

definition isNotFound :: "st_error \<Rightarrow> bool" where
  "isNotFound x \<longleftrightarrow> (case x of NotFoundError _ \<Rightarrow> True | Status404 \<Rightarrow> True | _ \<Rightarrow> False)"

definition getFileContent :: "'o storage_env \<Rightarrow> string \<Rightarrow> ('o, string option) st_op" where
  "getFileContent e i = ecatch (ebind (getFileById i) (\<lambda>found. case found of
       None \<Rightarrow> ereturn None
     | Some r \<Rightarrow> ebind (provider_call e ''download'' isNotFound (\<lambda>pv. executeDownload e pv r)) (\<lambda>data. ereturn (Some data))))
     (\<lambda>_ :: st_error. ereturn None)"

text \<open>What \<open>createReadStream\<close> delivers of a local file.\<close>

definition slice :: "nat \<Rightarrow> nat option \<Rightarrow> string \<Rightarrow> string" where
  "slice from stop s = drop from (case stop of None \<Rightarrow> s | Some n \<Rightarrow> take (Suc n) s)"

definition zero_default :: "nat option \<Rightarrow> nat" where
  "zero_default x = (case x of None \<Rightarrow> 0 | Some n \<Rightarrow> n)"

text \<open>The range that a cloud provider is asked for: the text \<open>bytes=start-end\<close> of S3, where an end of
  \<open>0\<close> is falsy and left out; an offset and a count for Azure.\<close>

definition range_request :: "provider_type \<Rightarrow> nat option \<Rightarrow> nat option \<Rightarrow> nat option \<times> int option" where
  "range_request t from stop = (if t = S3 then
       (if from = None \<and> stop = None then (None, None) else (Some (zero_default from), if stop = Some 0 then None else map_option int stop))
     else (from, map_option (\<lambda>n. int n - int (zero_default from) + 1) stop))"

definition get_range :: "'o storage_env \<Rightarrow> provider \<Rightarrow> file_row \<Rightarrow> nat option \<Rightarrow> nat option \<Rightarrow> ('o, string) st_op" where
  "get_range e pv r from stop = in_container pv (\<lambda>b. ext (\<lambda>w.
     (se_range e (pv_type pv) b (key_of_path pv (sf_provider_path r)) (range_request (pv_type pv) from stop) (sw_objects w), w)))"

text \<open>\<open>None\<close> inside is a stream that ends with an error: a missing local file shows only when it is read.\<close>

definition downloadStreamFromLocal :: "file_row \<Rightarrow> nat option \<Rightarrow> nat option \<Rightarrow> ('o, string option) st_op" where
  "downloadStreamFromLocal r from stop = (if (case (from, stop) of (Some a, Some b) \<Rightarrow> b < a | _ \<Rightarrow> False) then ethrow BadRange
     else ebind (ecatch (ebind (fs_readFile (sf_provider_path r)) (\<lambda>data. ereturn (Some data))) (\<lambda>_ :: st_error. ereturn None))
       (\<lambda>data. ereturn (map_option (slice (zero_default from) stop) data)))"

text \<open>The calls on the providers are returned without \<open>await\<close>, so their errors pass the handler by: it
  sees only those of its own body.\<close>

definition downloadFileStream :: "'o storage_env \<Rightarrow> string \<Rightarrow> nat option \<Rightarrow> nat option \<Rightarrow> ('o, string option option) st_op" where
  "downloadFileStream e i from stop = ebind (getFileById i) (\<lambda>found. case found of
       None \<Rightarrow> ethrow (NotFoundError i)
     | Some r \<Rightarrow> (case map_of (sg_providers (se_config e)) (active_provider (se_config e)) of
         None \<Rightarrow> ereturn None
       | Some pv \<Rightarrow>
           if pv_type pv = LocalDisk then ebind (downloadStreamFromLocal r from stop) (\<lambda>part. ereturn (Some part))
           else if pv_type pv \<in> {S3, Azure} then ebind (get_range e pv r from stop) (\<lambda>part. ereturn (Some (Some part)))
           else ereturn None))"

definition listFiles :: "'o storage_env \<Rightarrow> string \<Rightarrow> ('o, file_row list) st_op" where
  "listFiles e f = ecatch (withTimeout ''list'' (ebind (cache_get f) (\<lambda>cached. case cached of
       Some rows \<Rightarrow> ereturn rows
     | None \<Rightarrow> ebind (getStorageFilesByFolder e f) (\<lambda>rows. eseq (cache_set f rows) (ereturn rows)))))
     (\<lambda>_ :: st_error. ereturn [])"

subsection \<open>Changing and deleting\<close>

definition deleteFromLocal :: "file_row \<Rightarrow> ('o, unit) st_op" where
  "deleteFromLocal r = ebind (fs_pathExists (sf_provider_path r)) (\<lambda>there.
     eseq (ewhen there (fs_remove (sf_provider_path r))) (fs_remove (sf_provider_path r @ SIDECAR_SUFFIX)))"

definition delete_object :: "'o storage_env \<Rightarrow> provider \<Rightarrow> string \<Rightarrow> ('o, unit) st_op" where
  "delete_object e pv path = in_container pv (\<lambda>b.
     ext (emodify (\<lambda>w. w\<lparr>sw_objects := se_delete e (pv_type pv) b (key_of_path pv path) (sw_objects w)\<rparr>)))"

definition executeDelete :: "'o storage_env \<Rightarrow> provider \<Rightarrow> file_row \<Rightarrow> ('o, unit) st_op" where
  "executeDelete e pv r = (if pv_type pv = LocalDisk then deleteFromLocal r
     else if is_cloud pv then delete_object e pv (sf_provider_path r) else ethrow UnsupportedType)"

definition deleteFile :: "'o storage_env \<Rightarrow> string \<Rightarrow> ('o, bool) st_op" where
  "deleteFile e i = ecatch (ebind (getFileById i) (\<lambda>found. case found of
       None \<Rightarrow> ereturn False
     | Some r \<Rightarrow> eseq (provider_call e ''delete'' (\<lambda>_. False) (\<lambda>pv. executeDelete e pv r))
         (ebind (deleteStorageFile i) (\<lambda>deleted. eseq (ewhen deleted (invalidateFolder (sf_folder r))) (ereturn deleted)))))
     (\<lambda>_ :: st_error. ereturn False)"

definition updateFile :: "string \<Rightarrow> string option \<Rightarrow> ('o, bool) st_op" where
  "updateFile i description = ebind (updateStorageFile i description) (\<lambda>updated.
     eseq (ebind (eget (\<lambda>w. sw_cache w \<noteq> None)) (\<lambda>cached. if \<not> updated \<or> \<not> cached then ereturn () else
       ebind (getFileById i) (\<lambda>found. case found of None \<Rightarrow> ereturn () | Some r \<Rightarrow> invalidateFolder (sf_folder r))))
     (ereturn updated))"

subsection \<open>Batches\<close>

record batch_file =
  bf_name :: string
  bf_size :: nat
  bf_mime :: "string option"
  bf_buffer :: string
  bf_on_disk :: "source option"

definition validateBatchUpload :: "'o storage_env \<Rightarrow> string \<Rightarrow> batch_file list \<Rightarrow> string list" where
  "validateBatchUpload e f files = (case map_of (sg_folders (se_config e)) f of
     None \<Rightarrow> [''Folder not found'']
   | Some fo \<Rightarrow> (if 50 < length files then [''Batch size exceeds maximum''] else []) @
       (if 524288000 < sum_list (map bf_size files) then [''Total batch size exceeds maximum''] else []) @
       concat (map (\<lambda>x. if validateFile (bf_name x) (bf_size x) fo = [] then [] else [bf_name x]) files))"

definition batch_request :: "string \<Rightarrow> string option \<Rightarrow> batch_file \<Rightarrow> store_request" where
  "batch_request f by x = \<lparr>sq_name = bf_name x, sq_folder = f, sq_size = bf_size x, sq_mime = bf_mime x,
     sq_description = None, sq_uploaded_by = by\<rparr>"

definition processFile :: "'o storage_env \<Rightarrow> string \<Rightarrow> string option \<Rightarrow> batch_file \<Rightarrow> ('o, st_error + file_row) st_op" where
  "processFile e f by x = ecatch (ebind (case (bf_on_disk x, bf_buffer x) of
       (Some s, []) \<Rightarrow> uploadFileStream e (batch_request f by x) s
     | _ \<Rightarrow> uploadFile e (batch_request f by x) (bf_buffer x)) (\<lambda>r. ereturn (Inr r))) (\<lambda>err :: st_error. ereturn (Inl err))"

primrec each :: "('x \<Rightarrow> ('o, 'a) st_op) \<Rightarrow> 'x list \<Rightarrow> ('o, 'a list) st_op" where
  "each f [] = ereturn []"
| "each f (x # xs) = ebind (f x) (\<lambda>a. ebind (each f xs) (\<lambda>as. ereturn (a # as)))"

definition answer_batch :: "string list \<Rightarrow> (st_error + 'a) list \<Rightarrow> ('o, (st_error + 'a) list) st_op" where
  "answer_batch folders results =
     eseq (ebind (each invalidateFolder folders) (\<lambda>_. ereturn ()))
     (if results \<noteq> [] \<and> list_all isl results then ethrow (AllFailed (length results)) else ereturn results)"

definition batchUpload :: "'o storage_env \<Rightarrow> string \<Rightarrow> string option \<Rightarrow> batch_file list \<Rightarrow> ('o, (st_error + file_row) list) st_op" where
  "batchUpload e f by files = (case validateBatchUpload e f files of
     x # xs \<Rightarrow> ereturn (map (\<lambda>_. Inl (InvalidFile (x # xs))) files)
   | [] \<Rightarrow> ebind (each (processFile e f by) files) (\<lambda>results. answer_batch (if list_ex (\<lambda>r. \<not> isl r) results then [f] else []) results))"

definition processDelete :: "'o storage_env \<Rightarrow> string \<Rightarrow> ('o, string option \<times> (st_error + unit)) st_op" where
  "processDelete e i = ebind (getFileById i) (\<lambda>found. ebind (deleteFile e i) (\<lambda>ok.
     ereturn (map_option sf_folder found, if ok then Inr () else Inl (case found of None \<Rightarrow> NotFoundError i | Some _ \<Rightarrow> IoError))))"

definition batchDelete :: "'o storage_env \<Rightarrow> string list \<Rightarrow> ('o, (st_error + unit) list) st_op" where
  "batchDelete e ids = (if ids = [] then ereturn [] else ebind (each (processDelete e) ids) (\<lambda>rs.
     answer_batch (remdups (List.map_filter fst rs)) (map snd rs)))"

end
