(* ===== verification/Storage_Frame.thy ===== *)
theory Storage_Frame
  imports Storage_Service Em_Ensures
begin

section \<open>What the storage operations keep\<close>

text \<open>
  The id of a stored file can be read off its path: the name is the sanitised base, the id and the
  extension, and a manifest only appends its suffix. So the operations on one file touch no path of
  another. The locale \<open>storage_effects\<close> states what an invariant needs of each primitive write
  and proves that every operation of the service then keeps it, whatever fails.
\<close>

subsection \<open>Paths and ids\<close>

definition uuid_ok :: "string \<Rightarrow> bool" where
  "uuid_ok i \<longleftrightarrow> CHR ''_'' \<notin> set i \<and> CHR ''.'' \<notin> set i \<and> CHR ''/'' \<notin> set i \<and> CHR 92 \<notin> set i"

definition uuids_ok :: "'o storage_env \<Rightarrow> bool" where
  "uuids_ok e \<longleftrightarrow> inj (se_uuid e) \<and> (\<forall>n. uuid_ok (se_uuid e n))"

definition file_id :: "string \<Rightarrow> string" where
  "file_id n = rev (takeWhile (\<lambda>c. c \<noteq> CHR ''_'') (rev (takeWhile (\<lambda>c. c \<noteq> CHR ''.'') n)))"

definition path_id :: "string \<Rightarrow> string" where
  "path_id p = file_id (last (split_path p))"

lemma split_path_nonempty: "split_path s \<noteq> []"
  by (induction s) auto

lemma split_path_app: "split_path (x @ CHR ''/'' # y) = split_path x @ split_path y"
  by (induction x) (auto simp: split_path_nonempty)

lemma last_split_app: "last (split_path (x @ CHR ''/'' # y)) = last (split_path y)"
  by (simp add: split_path_app split_path_nonempty)

lemma split_path_suffix: "CHR ''/'' \<notin> set s \<Longrightarrow> split_path (p @ s) = butlast (split_path p) @ [last (split_path p) @ s]"
proof (induction p)
  case (Cons c p)
  show ?case using Cons split_path_nonempty [of p] by (cases "split_path p") (auto split: if_splits)
qed simp

lemma last_split_suffix: "CHR ''/'' \<notin> set s \<Longrightarrow> last (split_path (p @ s)) = last (split_path p) @ s"
  by (simp add: split_path_suffix)

lemma alnum_plain: "alnum c \<Longrightarrow> c \<noteq> CHR ''.'' \<and> c \<noteq> CHR ''/'' \<and> c \<noteq> CHR 92"
  by (auto simp: alnum_def)

lemma extname_dot: "extname s = [] \<or> hd (extname s) = CHR ''.''"
  by (simp add: extname_def Let_def)

lemma extname_dots: "CHR ''.'' \<notin> set (tl (extname s))"
  by (auto simp: extname_def Let_def dest: set_takeWhileD)

lemma stored_name_parts:
  obtains b x where "generateStoredFilenameFromName name i = b @ ''_'' @ i @ x"
    and "\<forall>c\<in>set b. c \<noteq> CHR ''.'' \<and> c \<noteq> CHR ''/'' \<and> c \<noteq> CHR 92"
    and "\<forall>c\<in>set x. c \<noteq> CHR ''/'' \<and> c \<noteq> CHR 92" and "x = [] \<or> hd x = CHR ''.''" and "CHR ''.'' \<notin> set (tl x)"
proof
  let ?b = "map (\<lambda>c. if alnum c \<or> c = CHR ''-'' \<or> c = CHR ''_'' then c else CHR ''_'') (basename_without name)"
  let ?x = "filter (\<lambda>c. alnum c \<or> c = CHR ''.'') (extname name)"
  show "generateStoredFilenameFromName name i = ?b @ ''_'' @ i @ ?x" by (simp add: generateStoredFilenameFromName_def)
  show "\<forall>c\<in>set ?b. c \<noteq> CHR ''.'' \<and> c \<noteq> CHR ''/'' \<and> c \<noteq> CHR 92" using alnum_plain by auto
  show "\<forall>c\<in>set ?x. c \<noteq> CHR ''/'' \<and> c \<noteq> CHR 92" using alnum_plain by auto
  show "?x = [] \<or> hd ?x = CHR ''.''" using extname_dot [of name] by (cases "extname name") auto
  show "CHR ''.'' \<notin> set (tl ?x)" using extname_dots [of name] extname_dot [of name] by (cases "extname name") auto
qed

lemma file_id_stored:
  assumes "uuid_ok i" and "s = [] \<or> hd s = CHR ''.''"
  shows "file_id (generateStoredFilenameFromName name i @ s) = i"
proof -
  obtain b x where n: "generateStoredFilenameFromName name i = b @ ''_'' @ i @ x"
    and b: "\<forall>c\<in>set b. c \<noteq> CHR ''.'' \<and> c \<noteq> CHR ''/'' \<and> c \<noteq> CHR 92" and x: "x = [] \<or> hd x = CHR ''.''"
    by (rule stored_name_parts)
  let ?stem = "b @ ''_'' @ i"
  have "\<forall>c\<in>set ?stem. c \<noteq> CHR ''.''" using b assms(1) by (auto simp: uuid_ok_def)
  moreover have "takeWhile (\<lambda>c. c \<noteq> CHR ''.'') (x @ s) = []" using x assms(2) by (cases x; cases s) auto
  ultimately have "takeWhile (\<lambda>c. c \<noteq> CHR ''.'') (?stem @ x @ s) = ?stem" by (simp add: takeWhile_append2)
  moreover have "takeWhile (\<lambda>c. c \<noteq> CHR ''_'') (rev i @ CHR ''_'' # rev b) = rev i"
    using assms(1) by (subst takeWhile_append2) (auto simp: uuid_ok_def)
  ultimately show ?thesis using n by (simp add: file_id_def)
qed

lemma plain_stored: "uuid_ok i \<Longrightarrow> plain_name (generateStoredFilenameFromName name i)"
proof -
  assume i: "uuid_ok i"
  obtain b x where n: "generateStoredFilenameFromName name i = b @ ''_'' @ i @ x"
    and b: "\<forall>c\<in>set b. c \<noteq> CHR ''.'' \<and> c \<noteq> CHR ''/'' \<and> c \<noteq> CHR 92" and x: "\<forall>c\<in>set x. c \<noteq> CHR ''/'' \<and> c \<noteq> CHR 92"
    by (rule stored_name_parts)
  have "CHR ''_'' \<in> set (b @ ''_'' @ i @ x)" by simp
  then have "b @ ''_'' @ i @ x \<noteq> ''.''" and "b @ ''_'' @ i @ x \<noteq> ''..''" by (auto dest: arg_cong [of _ _ set])
  with n b x i show ?thesis by (auto simp: plain_name_def uuid_ok_def)
qed

lemma join_snoc: "join_with sep (ys @ [n]) = (if ys = [] then n else join_with sep ys @ sep @ n)"
  by (induction sep ys rule: join_with.induct) auto

lemma last_resolve:
  assumes "plain_name n"
  shows "last (split_path (path_resolve base (f @ ''/'' @ n))) = n"
proof -
  let ?p = "f @ ''/'' @ n"
  define x where "x = (if hd ?p = CHR ''/'' then f else base @ ''/'' @ f)"
  have full: "(if ?p \<noteq> [] \<and> hd ?p = CHR ''/'' then ?p else base @ ''/'' @ ?p) = x @ CHR ''/'' # n"
    by (simp add: x_def)
  have n: "split_path n = [n]" using assms by (simp add: plain_name_def)
  have push: "push_segment True n out = n # out" for out using assms by (auto simp: push_segment_def plain_name_def)
  define ys where "ys = rev (fold (push_segment True) (split_path x) [])"
  have "path_resolve base ?p = ''/'' @ join_with ''/'' (ys @ [n])"
    unfolding path_resolve_def Let_def full split_path_app by (simp add: n push ys_def)
  moreover have "last (split_path (''/'' @ join_with ''/'' (ys @ [n]))) = n"
    using last_split_app [of "[]" n] last_split_app [of "CHR ''/'' # join_with ''/'' ys" n] n by (cases "ys = []") (simp_all add: join_snoc split_path_nonempty)
  ultimately show ?thesis by simp
qed

lemma path_id_suffix: "path_id (p @ SIDECAR_SUFFIX) = file_id (last (split_path p) @ SIDECAR_SUFFIX)"
  unfolding path_id_def by (subst last_split_suffix) (auto simp: SIDECAR_SUFFIX_def)

lemma file_id_suffix:
  assumes "s \<noteq> []" and "hd s = CHR ''.''"
  shows "file_id (n @ s) = file_id n"
proof -
  have "takeWhile (\<lambda>c. c \<noteq> CHR ''.'') (n @ s) = takeWhile (\<lambda>c. c \<noteq> CHR ''.'') n"
    using assms by (induction n) (cases s, auto)+
  then show ?thesis by (simp add: file_id_def)
qed

lemma path_id_sidecar [simp]: "path_id (p @ SIDECAR_SUFFIX) = path_id p"
  unfolding path_id_suffix by (subst file_id_suffix) (auto simp: SIDECAR_SUFFIX_def path_id_def)

lemma path_id_local: "uuid_ok i \<Longrightarrow> path_id (path_resolve base (relative_path_of q i)) = i"
  using file_id_stored [of i "[]" "sq_name q"]
  by (simp add: path_id_def relative_path_of_def last_resolve [OF plain_stored] del: append_Cons append_assoc)

lemma path_id_object: "uuid_ok i \<Longrightarrow> path_id (uri @ object_key pv (relative_path_of q i)) = i"
proof -
  assume i: "uuid_ok i"
  let ?n = "generateStoredFilenameFromName (sq_name q) i"
  obtain x where "uri @ object_key pv (relative_path_of q i) = x @ CHR ''/'' # ?n"
    by (cases "or_null (pv_prefix pv)") (auto simp: object_key_def relative_path_of_def
        intro: that [of "uri @ sq_folder q"] that [of "uri @ _ @ ''/'' @ sq_folder q"])
  moreover have "split_path ?n = [?n]" using plain_stored [OF i] by (simp add: plain_name_def)
  ultimately show ?thesis using file_id_stored [OF i, of "[]"] by (simp add: path_id_def last_split_app)
qed

lemma row_by_id_Some: "row_by_id i rows = Some r \<Longrightarrow> r \<in> set rows \<and> sf_id r = i"
  by (auto simp: row_by_id_def find_Some_iff)

subsection \<open>Requests\<close>

datatype storage_request =
    Upload store_request string
  | Upload_Stream store_request source
  | Batch_Upload string "string option" "batch_file list"
  | Read string
  | Read_Range string "nat option" "nat option"
  | List_Folder string
  | Update string "string option"
  | Delete string
  | Batch_Delete "string list"

primrec serve_storage :: "'o storage_env \<Rightarrow> storage_request \<Rightarrow> ('o, unit) st_op" where
  "serve_storage e (Upload q data) = eseq (uploadFile e q data) (ereturn ())"
| "serve_storage e (Upload_Stream q s) = eseq (uploadFileStream e q s) (ereturn ())"
| "serve_storage e (Batch_Upload f by files) = eseq (batchUpload e f by files) (ereturn ())"
| "serve_storage e (Read i) = eseq (getFileContent e i) (ereturn ())"
| "serve_storage e (Read_Range i from stop) = eseq (downloadFileStream e i from stop) (ereturn ())"
| "serve_storage e (List_Folder f) = eseq (listFiles e f) (ereturn ())"
| "serve_storage e (Update i d) = eseq (updateFile i d) (ereturn ())"
| "serve_storage e (Delete i) = eseq (deleteFile e i) (ereturn ())"
| "serve_storage e (Batch_Delete ids) = eseq (batchDelete e ids) (ereturn ())"

fun run_storage :: "'o storage_env \<Rightarrow> storage_request list \<Rightarrow> 'o store_world \<Rightarrow> 'o store_world" where
  "run_storage e [] w = w"
| "run_storage e (q # qs) w = run_storage e qs (snd (serve_storage e q w))"

text \<open>The files a request asks to delete.\<close>

primrec touches :: "storage_request \<Rightarrow> string \<Rightarrow> bool" where
  "touches (Upload q data) i = False"
| "touches (Upload_Stream q s) i = False"
| "touches (Batch_Upload f by files) i = False"
| "touches (Read j) i = False"
| "touches (Read_Range j from stop) i = False"
| "touches (List_Folder f) i = False"
| "touches (Update j d) i = False"
| "touches (Delete j) i = (i = j)"
| "touches (Batch_Delete ids) i = (i \<in> set ids)"

subsection \<open>Invariants\<close>

text \<open>An invariant \<open>I\<close> and the ids \<open>mine\<close> that the operations may work on.\<close>

locale storage_effects =
  fixes e :: "'o storage_env" and I :: "'o store_world \<Rightarrow> bool" and mine :: "string \<Rightarrow> bool"
  assumes uuids: "I w \<Longrightarrow> uuids_ok e"
    and rows_named: "I w \<Longrightarrow> r \<in> set (sw_rows w) \<Longrightarrow> path_id (sf_provider_path r) = sf_id r"
    and keeps_aside: "I w \<Longrightarrow> I (w\<lparr>faults := fs, sw_timers := ts, sw_breakers := bs, sw_cache := c, sw_objects := obj, sw_s3 := s3\<rparr>)"
    and keeps_quota: "I w \<Longrightarrow> map_option qm_config q = map_option qm_config (sw_quota w) \<Longrightarrow> I (w\<lparr>sw_quota := q\<rparr>)"
    and keeps_fresh: "I w \<Longrightarrow> I (w\<lparr>sw_uuids := Suc (sw_uuids w)\<rparr>) \<and> mine (se_uuid e (sw_uuids w))"
    and keeps_write: "I w \<Longrightarrow> mine (path_id p) \<Longrightarrow> I (w\<lparr>sw_files := jm_set p data (sw_files w)\<rparr>)"
    and keeps_remove: "I w \<Longrightarrow> mine (path_id p) \<Longrightarrow> I (w\<lparr>sw_files := jm_delete p (sw_files w)\<rparr>)"
    and keeps_insert: "I w \<Longrightarrow> mine (sf_id r) \<Longrightarrow> path_id (sf_provider_path r) = sf_id r \<Longrightarrow> I (w\<lparr>sw_rows := sw_rows w @ [stored_row t r]\<rparr>)"
    and keeps_delete: "I w \<Longrightarrow> mine i \<Longrightarrow> I (w\<lparr>sw_rows := filter (\<lambda>r. sf_id r \<noteq> i) (sw_rows w)\<rparr>)"
    and keeps_update: "I w \<Longrightarrow> I (w\<lparr>sw_rows := map (\<lambda>r. if sf_id r = i then r\<lparr>sf_description := d, sf_updated_at := t\<rparr> else r) (sw_rows w)\<rparr>)"
begin

lemma aside [simp]:
  "I w \<Longrightarrow> I (w\<lparr>faults := fs\<rparr>)" "I w \<Longrightarrow> I (w\<lparr>sw_timers := ts\<rparr>)" "I w \<Longrightarrow> I (w\<lparr>sw_breakers := bs\<rparr>)"
  "I w \<Longrightarrow> I (w\<lparr>sw_cache := c\<rparr>)" "I w \<Longrightarrow> I (w\<lparr>sw_objects := obj\<rparr>)" "I w \<Longrightarrow> I (w\<lparr>sw_s3 := s3\<rparr>)"
  using keeps_aside [of w "sw_s3 w" "sw_objects w" "sw_cache w" "sw_breakers w" "sw_timers w" fs]
    keeps_aside [of w "sw_s3 w" "sw_objects w" "sw_cache w" "sw_breakers w" ts "faults w"]
    keeps_aside [of w "sw_s3 w" "sw_objects w" "sw_cache w" bs "sw_timers w" "faults w"]
    keeps_aside [of w "sw_s3 w" "sw_objects w" c "sw_breakers w" "sw_timers w" "faults w"]
    keeps_aside [of w "sw_s3 w" obj "sw_cache w" "sw_breakers w" "sw_timers w" "faults w"]
    keeps_aside [of w s3 "sw_objects w" "sw_cache w" "sw_breakers w" "sw_timers w" "faults w"] by simp_all

lemma ensures_ext [ensures_intros]:
  assumes "ensures I m Q"
  shows "ensures I (ext m) Q"
proof -
  have "I (snd (ext m w)) \<and> (\<forall>a. fst (ext m w) = Inr a \<longrightarrow> Q a)" if w: "I w" for w
  proof (cases "faults w")
    case Nil
    with assms w show ?thesis by (simp add: ext_def ensures_def)
  next
    case (Cons b fs)
    have "I (w\<lparr>faults := fs\<rparr>)" using w by simp
    with assms Cons show ?thesis by (cases b) (simp_all add: ext_def ensures_def)
  qed
  then show ?thesis by (simp add: ensures_def)
qed

lemma ensures_timeout [ensures_intros]:
  assumes "ensures I m Q"
  shows "ensures I (withTimeout what m) Q"
proof -
  have "I (snd (withTimeout what m w)) \<and> (\<forall>a. fst (withTimeout what m w) = Inr a \<longrightarrow> Q a)" if w: "I w" for w
  proof (cases "sw_timers w")
    case Nil
    with assms w show ?thesis by (simp add: withTimeout_def ensures_def)
  next
    case (Cons b ts)
    have t: "I (w\<lparr>sw_timers := ts\<rparr>)" using w by simp
    obtain r w' where m: "m (w\<lparr>sw_timers := ts\<rparr>) = (r, w')" by (cases "m (w\<lparr>sw_timers := ts\<rparr>)")
    from ensuresD [OF assms t m] Cons m show ?thesis by (simp add: withTimeout_def)
  qed
  then show ?thesis by (simp add: ensures_def)
qed

lemma put_breaker_I [simp]: "I w \<Longrightarrow> I (put_breaker p b w)"
  by (simp add: put_breaker_def)

lemma ensures_guarded [ensures_intros]:
  assumes "ensures I m Q"
  shows "ensures I (guarded p expected m) Q"
proof (rule ensuresI)
  fix w assume w: "I w"
  have "I (snd (guarded p expected m w)) \<and> (\<forall>a. fst (guarded p expected m w) = Inr a \<longrightarrow> Q a)"
  proof (cases "sw_breakers w")
    case None
    with w assms show ?thesis by (simp add: guarded_def ensures_def)
  next
    case (Some bm)
    obtain x b where a: "admit (clock w) (fst (getBreaker p bm)) = (x, b)" by (cases "admit (clock w) (fst (getBreaker p bm))")
    obtain r w' where m: "m (put_breaker p b w) = (r, w')" by (cases "m (put_breaker p b w)")
    from ensuresD [OF assms put_breaker_I [OF w] m] Some a m w show ?thesis
      by (cases x) (simp_all add: guarded_def)
  qed
  then show "I (snd (guarded p expected m w))" and "\<And>a. fst (guarded p expected m w) = Inr a \<Longrightarrow> Q a" by auto
qed

lemma ensures_uuid [ensures_intros]: "ensures I (uuidv4 e) (\<lambda>i. mine i \<and> uuid_ok i)"
  using keeps_fresh uuids by (auto simp: ensures_def uuidv4_def uuids_ok_def)

lemma ensures_write_file [ensures_intros]: "mine (path_id p) \<Longrightarrow> ensures I (fs_writeFile p data) any"
  unfolding fs_writeFile_def by (intro ensures_ext ensures_modify) (rule keeps_write)

lemma ensures_remove [ensures_intros]: "mine (path_id p) \<Longrightarrow> ensures I (fs_remove p) any"
  unfolding fs_remove_def by (intro ensures_ext ensures_modify) (rule keeps_remove)

lemma ensures_reads [ensures_intros]:
  "ensures I (fs_pathExists p) any" "ensures I (fs_readFile p) any" "ensures I fs_ensureDir any"
  "ensures I (invalidateFolder f) any" "ensures I (cache_set f rows) any" "ensures I (cache_get f) any"
  by (auto simp: fs_pathExists_def fs_readFile_def fs_ensureDir_def invalidateFolder_def cache_set_def cache_get_def
      intro!: ensures_ext ensures_get ensures_modify ensures_return) (auto simp: ensures_def split: option.splits)

lemma ensures_row [ensures_intros]:
  "ensures I (getStorageFileById i) (\<lambda>x. \<forall>r. x = Some r \<longrightarrow> sf_id r = i \<and> path_id (sf_provider_path r) = i)"
  unfolding getStorageFileById_def by (intro ensures_ext ensures_get) (auto dest: row_by_id_Some rows_named)

lemma ensures_getFileById [ensures_intros]:
  "ensures I (getFileById i) (\<lambda>x. \<forall>r. x = Some r \<longrightarrow> sf_id r = i \<and> path_id (sf_provider_path r) = i)"
  unfolding getFileById_def by (intro ensures_catch ensures_row ensures_return) simp

lemma ensures_tables [ensures_intros]:
  "ensures I (getStorageFilesByFolder e f) any" "ensures I (getAllStorageFiles e) any"
  by (auto simp: getStorageFilesByFolder_def getAllStorageFiles_def intro!: ensures_ext ensures_get)

lemma ensures_create [ensures_intros]:
  "mine (sf_id r) \<Longrightarrow> path_id (sf_provider_path r) = sf_id r \<Longrightarrow> ensures I (createStorageFile r) any"
  unfolding createStorageFile_def by (intro ensures_ext) (auto simp: ensures_def keeps_insert)

lemma ensures_delete_row [ensures_intros]: "mine i \<Longrightarrow> ensures I (deleteStorageFile i) any"
  unfolding deleteStorageFile_def by (intro ensures_catch ensures_ext ensures_return) (auto simp: ensures_def keeps_delete)

lemma ensures_update_row [ensures_intros]: "ensures I (updateStorageFile i d) any"
  unfolding updateStorageFile_def
proof (intro ensures_catch)
  show "ensures I (case d of None \<Rightarrow> ereturn True
     | Some d \<Rightarrow> ext (\<lambda>w. (Inr True, w\<lparr>sw_rows := map (\<lambda>r. if sf_id r = i
         then r\<lparr>sf_description := Some d, sf_updated_at := seconds_of (clock w)\<rparr> else r) (sw_rows w)\<rparr>))) any"
    by (cases d) (auto simp: ensures_def keeps_update ereturn_def intro!: ensures_ext [unfolded ensures_def, rule_format, THEN conjunct1])
qed (rule ensures_return, simp)

lemmas ensures_bind_post = ensures_bind [where P = any]

lemma ensures_resolve [ensures_intros]:
  "uuid_ok i \<Longrightarrow> ensures I (resolveLocalStoragePath e (relative_path_of q i)) (\<lambda>p. path_id p = i)"
  by (simp add: resolveLocalStoragePath_def Let_def ensures_def ereturn_def ethrow_def path_id_local)

lemma ensures_upload_local: "mine i \<Longrightarrow> uuid_ok i \<Longrightarrow> ensures I (uploadToLocal e (relative_path_of q i) data) (\<lambda>p. path_id p = i)"
  unfolding uploadToLocal_def
  by (rule ensures_bind [OF ensures_resolve]) (auto intro!: ensures_seq ensures_write_file ensures_reads ensures_return)

lemma ensures_in_container: "(\<And>b. ensures I (f b) Q) \<Longrightarrow> ensures I (in_container pv f) Q"
  unfolding in_container_def
  by (rule ensures_bind [OF ensures_get [where Q = any]]) (auto intro: ensures_throw split: option.splits)

lemma ensures_put: "uuid_ok i \<Longrightarrow> ensures I (put_object e pv (relative_path_of q i) data) (\<lambda>p. path_id p = i)"
  unfolding put_object_def
  by (intro ensures_in_container ensures_seq ensures_ext ensures_modify ensures_return path_id_object) simp

lemma ensures_open_s3: "ensures I (open_s3 e pv) any"
  unfolding open_s3_def
  by (rule ensures_bind [OF ensures_get [where Q = any]]) (auto intro!: ensures_return ensures_modify ensures_throw)

lemma ensures_executeUpload: "mine i \<Longrightarrow> uuid_ok i \<Longrightarrow> ensures I (executeUpload e pv (relative_path_of q i) data) (\<lambda>p. path_id p = i)"
  unfolding executeUpload_def
  by (auto intro!: ensures_upload_local ensures_seq ensures_put ensures_open_s3 ensures_throw)

lemma ensures_on_provider: "(\<And>pv. ensures I (f pv) Q) \<Longrightarrow> ensures I (on_provider e f) Q"
  unfolding on_provider_def by (auto intro: ensures_throw split: option.splits)

lemma ensures_provider_call: "(\<And>pv. ensures I (f pv) Q) \<Longrightarrow> ensures I (provider_call e what expected f) Q"
  unfolding provider_call_def by (intro ensures_on_provider ensures_guarded ensures_timeout)

lemma ensures_sidecar: "mine i \<Longrightarrow> uuid_ok i \<Longrightarrow> sf_relative_path r = relative_path_of q i \<Longrightarrow> ensures I (writeSidecarManifest e r) any"
  unfolding writeSidecarManifest_def
  by (auto intro!: ensures_return ensures_bind [OF ensures_resolve] ensures_write_file)

lemma ensures_record_upload:
  "mine i \<Longrightarrow> uuid_ok i \<Longrightarrow> path_id p = i \<Longrightarrow> ensures I (record_upload e q i p n) any"
  unfolding record_upload_def date_now_def Let_def
  by (rule ensures_bind [OF ensures_get [where Q = any]])
    (auto intro!: ensures_seq ensures_create ensures_quiet ensures_sidecar ensures_reads ensures_return simp: new_row_def)

lemma ensures_measure: "ensures I (measure_usage l figure) any"
  unfolding measure_usage_def by (auto intro!: ensures_return ensures_ext ensures_get)

lemma ensures_decide: "ensures I (decide f n used) any"
proof (rule ensuresI)
  fix w assume w: "I w"
  show "I (snd (decide f n used w))"
  proof (cases "sw_quota w")
    case (Some qm)
    obtain x qm' where q: "quota_admit f n used True (clock w) qm = (x, qm')"
      by (cases "quota_admit f n used True (clock w) qm")
    then have "I (w\<lparr>sw_quota := Some qm'\<rparr>)"
      by (intro keeps_quota [OF w]) (simp add: Some admit_config [OF q])
    then show ?thesis by (cases x) (simp_all add: decide_def Some q)
  qed (simp add: decide_def w)
qed simp

lemma ensures_reserve: "ensures I (reserve f n) any"
  unfolding reserve_def
  by (rule ensures_bind [OF ensures_get [where Q = any]])
    (auto intro!: ensures_return ensures_bind [OF ensures_measure] ensures_decide split: option.splits)

lemma ensures_release: "ensures I (release res) any"
  unfolding release_def
  by (intro ensures_modify keeps_quota) (auto simp: quota_release_def option.map_comp comp_def intro!: option.map_cong split: option.splits)

lemma ensures_finally: "ensures I m Q \<Longrightarrow> ensures I f any \<Longrightarrow> ensures I (efinally m f) Q"
  unfolding ensures_def efinally_def by (auto split: prod.splits)

lemma ensures_reserved: "ensures I m Q \<Longrightarrow> ensures I (reserved f n m) Q"
  unfolding reserved_def by (rule ensures_bind [OF ensures_reserve]) (intro ensures_finally ensures_release)

lemma ensures_upload: "ensures I (uploadFile e q data) any"
  unfolding uploadFile_def
  by (auto intro!: ensures_throw ensures_reserved ensures_bind [OF ensures_uuid] ensures_bind [OF ensures_provider_call]
      ensures_executeUpload ensures_record_upload split: option.splits list.splits)

lemma ensures_stream_local: "mine i \<Longrightarrow> uuid_ok i \<Longrightarrow> ensures I (uploadStreamToLocal e (relative_path_of q i) s) (\<lambda>p. path_id p = i)"
  unfolding uploadStreamToLocal_def
  by (rule ensures_bind [OF ensures_resolve])
    (auto intro!: ensures_seq ensures_write_file ensures_reads ensures_return ensures_throw split: source.splits)

lemma ensures_stat: "ensures I (stat_size p) any"
  unfolding stat_size_def by (rule ensures_bind [OF ensures_reads(2)]) (intro ensures_return, simp)

lemma ensures_upload_stream: "ensures I (uploadFileStream e q s) any"
proof -
  have body: "ensures I (ebind (uuidv4 e) (\<lambda>i. on_provider e (\<lambda>pv.
           if pv_type pv = LocalDisk then
             ebind (uploadStreamToLocal e (relative_path_of q i) s) (\<lambda>path.
             ebind (stat_size path) (\<lambda>bytes. record_upload e q i path bytes))
           else if is_cloud pv then (case s of
               Yields data \<Rightarrow> ebind (put_object e pv (relative_path_of q i) data) (\<lambda>path. record_upload e q i path (length data))
             | _ \<Rightarrow> in_container pv (\<lambda>_. ethrow SourceFailed))
           else ethrow UnsupportedType))) any"
    by (rule ensures_bind [OF ensures_uuid])
      (auto intro!: ensures_on_provider ensures_throw ensures_in_container ensures_bind [OF ensures_stream_local] ensures_bind [OF ensures_stat]
        ensures_bind [OF ensures_put] ensures_record_upload split: source.splits)
  then show ?thesis
    unfolding uploadFileStream_def by (auto intro!: ensures_throw ensures_reserved split: option.splits list.splits)
qed

lemma ensures_get_object: "ensures I (get_object e pv r) any"
  unfolding get_object_def by (intro ensures_in_container ensures_ext) (auto simp: ensures_def split: option.splits)

lemma ensures_executeDownload: "ensures I (executeDownload e pv r) any"
  unfolding executeDownload_def getFileContentFromLocal_def
  by (auto intro!: ensures_get_object ensures_throw ensures_bind [OF ensures_reads(1)] ensures_reads)

lemma ensures_content: "ensures I (getFileContent e i) any"
  unfolding getFileContent_def
  by (intro ensures_catch ensures_return ensures_bind [OF ensures_getFileById])
    (auto intro!: ensures_return ensures_bind [OF ensures_provider_call [OF ensures_executeDownload]] split: option.splits)

lemma ensures_local_stream: "ensures I (ecatch (ebind (fs_readFile p) (\<lambda>data. ereturn (Some data))) (\<lambda>_ :: st_error. ereturn None)) any"
  by (intro ensures_catch ensures_bind [OF ensures_reads(2)] ensures_return) simp_all

lemma ensures_get_range: "ensures I (get_range e pv r from stop) any"
  unfolding get_range_def by (intro ensures_in_container ensures_ext) (simp add: ensures_def)

lemma ensures_stream_from_local: "ensures I (downloadStreamFromLocal r from stop) any"
  unfolding downloadStreamFromLocal_def
  by (auto intro!: ensures_throw ensures_bind [OF ensures_local_stream] ensures_return)

lemma ensures_download_stream: "ensures I (downloadFileStream e i from stop) any"
  unfolding downloadFileStream_def
  by (rule ensures_bind [OF ensures_getFileById])
    (auto intro!: ensures_throw ensures_return ensures_bind [OF ensures_stream_from_local] ensures_bind [OF ensures_get_range] split: option.splits)

lemma ensures_list: "ensures I (listFiles e f) any"
  unfolding listFiles_def
  by (intro ensures_catch ensures_return ensures_timeout ensures_bind [OF ensures_reads(6)])
    (auto intro!: ensures_return ensures_bind [OF ensures_tables(1)] ensures_seq ensures_reads split: option.splits)

lemma ensures_executeDelete:
  assumes "mine (sf_id r)" and "path_id (sf_provider_path r) = sf_id r"
  shows "ensures I (executeDelete e pv r) any"
  unfolding executeDelete_def deleteFromLocal_def delete_object_def using assms
  by (auto intro!: ensures_bind [OF ensures_reads(1)] ensures_seq ensures_when ensures_remove ensures_in_container
      ensures_ext ensures_modify ensures_throw)

lemma ensures_delete: "mine i \<Longrightarrow> ensures I (deleteFile e i) any"
  unfolding deleteFile_def
  by (intro ensures_catch ensures_return ensures_bind [OF ensures_getFileById])
    (auto intro!: ensures_return ensures_seq ensures_when ensures_reads ensures_provider_call ensures_executeDelete
      ensures_bind [OF ensures_delete_row] split: option.splits)

lemma ensures_update: "ensures I (updateFile i d) any"
  unfolding updateFile_def
  by (rule ensures_bind [OF ensures_update_row], intro ensures_seq ensures_return ensures_bind [OF ensures_get [where Q = any]])
    (auto intro!: ensures_return ensures_bind [OF ensures_getFileById] ensures_reads split: option.splits)

lemma ensures_each: "(\<And>x. x \<in> set xs \<Longrightarrow> ensures I (f x) any) \<Longrightarrow> ensures I (each f xs) any"
proof (induction xs)
  case (Cons x xs)
  then show ?case by (auto intro!: ensures_bind [where P = any] ensures_return)
qed (simp add: ensures_return)

lemma ensures_answer: "ensures I (answer_batch fs rs) any"
  unfolding answer_batch_def
  by (auto intro!: ensures_seq ensures_bind [OF ensures_each] ensures_return ensures_reads ensures_throw)

lemma ensures_processFile: "ensures I (processFile e f by x) any"
  unfolding processFile_def
  by (intro ensures_catch ensures_return ensures_bind [where P = any])
    (auto intro!: ensures_upload ensures_upload_stream ensures_return split: option.splits list.splits)

lemma ensures_batch_upload: "ensures I (batchUpload e f by files) any"
  unfolding batchUpload_def
  by (auto intro!: ensures_return ensures_bind [OF ensures_each] ensures_processFile ensures_answer split: list.splits)

lemma ensures_batch_delete: "(\<And>i. i \<in> set ids \<Longrightarrow> mine i) \<Longrightarrow> ensures I (batchDelete e ids) any"
  unfolding batchDelete_def processDelete_def
  by (auto intro!: ensures_return ensures_bind [OF ensures_each] ensures_bind [OF ensures_getFileById] ensures_bind [OF ensures_delete] ensures_answer)

lemma ensures_request: "(\<And>i. touches q i \<Longrightarrow> mine i) \<Longrightarrow> ensures I (serve_storage e q) any"
  by (cases q)
    (auto intro!: ensures_seq ensures_return ensures_upload ensures_upload_stream ensures_batch_upload ensures_content ensures_download_stream
      ensures_list ensures_update ensures_delete ensures_batch_delete)

lemma serve_keeps: "(\<And>q i. q \<in> set qs \<Longrightarrow> touches q i \<Longrightarrow> mine i) \<Longrightarrow> I w \<Longrightarrow> I (run_storage e qs w)"
proof (induction qs arbitrary: w)
  case (Cons q qs)
  obtain r w' where s: "serve_storage e q w = (r, w')" by (cases "serve_storage e q w")
  have "I w'" using ensuresD [OF ensures_request Cons.prems(2) s] Cons.prems(1) by auto
  with Cons.IH [of w'] Cons.prems(1) have "I (run_storage e qs w')" by (meson list.set_intros(2))
  with s show ?case by simp
qed simp

end

end
