(* ===== verification/Storage_Upkeep.thy ===== *)
theory Storage_Upkeep
  imports Storage_Service
begin

section \<open>Upkeep of the stored files\<close>

text \<open>
  The start of the service with its configuration (\<open>storage-services.ts\<close>,
  \<open>storage-config-manager.ts\<close>, \<open>provider-init.ts\<close>), the reconstruction of the table from the
  manifests, the lifecycle policies (\<open>lifecycle/lifecycle-manager.ts\<close>) and the cleaner of
  orphaned files (\<open>cleanup/orphaned-file-cleaner.ts\<close>). A walk through directories and a paged
  listing of objects count as one call, as do the check for a bucket and its creation.
\<close>

subsection \<open>Starting\<close>

definition initializeStorage :: "'o storage_env \<Rightarrow> ('o, unit) st_op" where
  "initializeStorage e = on_provider e (\<lambda>pv. case pv_type pv of
     LocalDisk \<Rightarrow> eseq fs_ensureDir (ebind (each (\<lambda>_. fs_ensureDir) (sg_folders (se_config e))) (\<lambda>_. ereturn ()))
   | S3 \<Rightarrow> if se_credentials e S3 then emodify (\<lambda>w. w\<lparr>sw_s3 := True\<rparr>) else ethrow NoCredentials
   | Azure \<Rightarrow> if \<not> se_credentials e Azure then ethrow NoCredentials
       else (case or_null (pv_container_name pv) of None \<Rightarrow> ethrow (NoClient Azure)
             | Some c \<Rightarrow> eseq (emodify (\<lambda>w. w\<lparr>sw_azure := Some c\<rparr>)) (equiet (ext (ereturn ()) :: ('o, unit) st_op)))
   | Gcs \<Rightarrow> if \<not> se_credentials e Gcs then ethrow NoCredentials
       else (case or_null (pv_bucket pv) of None \<Rightarrow> ethrow (NoClient Gcs)
             | Some b \<Rightarrow> eseq (emodify (\<lambda>w. w\<lparr>sw_gcs := Some b\<rparr>)) (ext (ereturn ())))
   | OtherType _ \<Rightarrow> ethrow UnsupportedType)"

text \<open>A limit is a number of bytes; the part below one byte makes no difference to a comparison of
  whole sizes with it.\<close>

definition limit_of :: "string \<Rightarrow> nat" where
  "limit_of s = nat \<lfloor>parseSizeString s\<rfloor>"

definition folder_quotas :: "storage_config \<Rightarrow> (string \<times> nat) list" where
  "folder_quotas cfg = List.map_filter (\<lambda>(n, f). case or_null (fo_quota f) of
     None \<Rightarrow> None | Some q \<Rightarrow> if q = ''0'' then None else Some (n, limit_of q)) (sg_folders cfg)"

definition setDatabaseService :: "storage_config \<Rightarrow> 'o store_world \<Rightarrow> 'o store_world" where
  "setDatabaseService cfg w = (if sg_quota_enforcement cfg = Some False then w
     else w\<lparr>sw_quota := Some (new_quota_manager \<lparr>qo_enabled = Some True, qo_global = map_option limit_of (or_null (sg_global_quota cfg)),
       qo_folders = Some (folder_quotas cfg), qo_reservationTtlMs = None\<rparr>)\<rparr>)"

definition default_folder :: "string \<Rightarrow> string list \<Rightarrow> string \<Rightarrow> string \<times> folder" where
  "default_folder name types maxSize = (name, \<lparr>fo_path = name, fo_allowed_types = types, fo_max_size = maxSize, fo_quota = None\<rparr>)"

definition local_provider :: provider where
  "local_provider = \<lparr>pv_type = LocalDisk, pv_path = Some ''storage'', pv_bucket = None, pv_prefix = None,
     pv_account_name = None, pv_container_name = None\<rparr>"

definition default_storage_config :: storage_config where
  "default_storage_config = \<lparr>sg_providers = [(''local'', local_provider)], sg_active_provider = Some ''local'',
     sg_folders = [
       default_folder ''public'' [''jpg'', ''jpeg'', ''png'', ''gif'', ''pdf'', ''txt'', ''md''] ''10MB'',
       default_folder ''sessions'' [''mp4'', ''webm'', ''mp3'', ''wav'', ''pdf'', ''md''] ''100MB'',
       default_folder ''recordings'' [''mp4'', ''webm'', ''mov'', ''mkv'', ''mp3'', ''wav'', ''m4a''] ''4096MB'',
       default_folder ''recordings_raw'' [''mp4'', ''webm'', ''mov'', ''mkv'', ''mp3'', ''wav'', ''m4a''] ''4096MB'',
       default_folder ''transcripts'' [''vtt'', ''srt'', ''txt'', ''json'', ''md''] ''25MB'',
       default_folder ''permits'' [''pdf'', ''jpg'', ''jpeg'', ''png''] ''5MB'',
       default_folder ''private'' [''pdf'', ''doc'', ''docx'', ''xls'', ''xlsx''] ''25MB'',
       default_folder ''icons'' [''png'', ''svg'', ''jpg'', ''jpeg'', ''gif'', ''webp'', ''ico''] ''2MB''],
     sg_quota_enforcement = None, sg_global_quota = None\<rparr>"

definition mergeWithDefaults :: "storage_config \<Rightarrow> storage_config" where
  "mergeWithDefaults cfg = cfg\<lparr>sg_folders := fold (\<lambda>(n, f). jm_set n f) (sg_folders cfg) (sg_folders default_storage_config)\<rparr>"

definition updateConfig :: "'o storage_env \<Rightarrow> storage_config \<Rightarrow> 'o store_world \<Rightarrow> ((st_error + unit) \<times> 'o store_world) \<times> 'o storage_env" where
  "updateConfig e cfg w = (let e' = e\<lparr>se_config := cfg\<rparr> in (initializeStorage e' w, e'))"

text \<open>The service as the container registers it, then its first use with the configuration file. A
  failure whose message says that something was not found leads to a second initialisation.\<close>

definition new_service :: "storage_config \<Rightarrow> 'o storage_env \<Rightarrow> 'o store_world \<Rightarrow> 'o storage_env \<times> 'o store_world" where
  "new_service cfg e w = (e\<lparr>se_config := cfg\<rparr>,
     w\<lparr>sw_s3 := False, sw_azure := None, sw_gcs := None, sw_quota := None, sw_cache := Some [],
       sw_breakers := Some \<lparr>bm_breakers = [], bm_opts = \<lparr>bo_failureThreshold = Some 5, bo_successThreshold = None,
         bo_timeout = Some 60000, bo_halfOpenMaxCalls = None\<rparr>\<rparr>\<rparr>)"

definition registerStorage :: "'o storage_env \<Rightarrow> 'o store_world \<Rightarrow> 'o storage_env \<times> 'o store_world" where
  "registerStorage e w = (case new_service default_storage_config e w of
     (e', w') \<Rightarrow> (e', setDatabaseService (se_config e') w'))"

definition says_not_found :: "st_error \<Rightarrow> bool" where
  "says_not_found x \<longleftrightarrow> (case x of ProviderNotFound _ \<Rightarrow> True | NoCredentials \<Rightarrow> True | _ \<Rightarrow> False)"

definition initializeStorageService :: "'o storage_env \<Rightarrow> storage_config option \<Rightarrow> 'o store_world \<Rightarrow>
    ((st_error + unit) \<times> 'o store_world) \<times> 'o storage_env" where
  "initializeStorageService e file w = (case file of
     Some cfg \<Rightarrow> (case updateConfig e (mergeWithDefaults cfg) w of
         ((Inl x, w'), e') \<Rightarrow> (if says_not_found x then initializeStorage e' w' else (Inl x, w'), e')
       | ((Inr _, w'), e') \<Rightarrow> ((Inr (), w'), e'))
   | None \<Rightarrow> (initializeStorage e w, e))"

subsection \<open>Reconstruction\<close>

definition sidecars :: "'o storage_env \<Rightarrow> 'o store_world \<Rightarrow> string list" where
  "sidecars e w = se_dir_order e (filter (\<lambda>p. under (getLocalStoragePath e) p \<and> ends_with p SIDECAR_SUFFIX) (map fst (sw_files w)))"

definition restore_from :: "'o storage_env \<Rightarrow> string \<Rightarrow> ('o, bool) st_op" where
  "restore_from e p = ecatch (ebind (fs_readFile p) (\<lambda>data. case se_read_manifest e data of
       None \<Rightarrow> ethrow IoError
     | Some m \<Rightarrow> eseq (upsertStorageFile m) (ereturn True))) (\<lambda>_ :: st_error. ereturn False)"

definition reconstructFromManifests :: "'o storage_env \<Rightarrow> ('o, nat \<times> nat) st_op" where
  "reconstructFromManifests e = ebind (ecatch (ext (eget (sidecars e))) (\<lambda>_ :: st_error. ereturn [])) (\<lambda>ps.
     ebind (each (restore_from e) ps) (\<lambda>oks. ereturn (length (filter id oks), length (filter Not oks))))"

subsection \<open>Lifecycle policies\<close>

record lifecycle_policy =
  lp_name :: string
  lp_folder :: "string option"
  lp_retentionDays :: "nat option"
  lp_archiveAfterDays :: "nat option"
  lp_deleteAfterDays :: "nat option"
  lp_enabled :: bool

datatype verdict = Archive_File | Delete_File | Retain_File

definition day_ms :: msec where
  "day_ms = 1000 * 60 * 60 * 24"

text \<open>A threshold of zero days is falsy.\<close>

definition reached :: "nat option \<Rightarrow> msec \<Rightarrow> bool" where
  "reached days age \<longleftrightarrow> (case days of None \<Rightarrow> False | Some n \<Rightarrow> n \<noteq> 0 \<and> int n * day_ms \<le> age)"

definition not_yet :: "nat option \<Rightarrow> msec \<Rightarrow> bool" where
  "not_yet days age \<longleftrightarrow> (case days of None \<Rightarrow> False | Some n \<Rightarrow> n \<noteq> 0 \<and> age < int n * day_ms)"

definition evaluatePolicy :: "msec \<Rightarrow> file_row \<Rightarrow> lifecycle_policy \<Rightarrow> verdict option" where
  "evaluatePolicy now r p = (let age = now - sf_created_at r in
     if reached (lp_deleteAfterDays p) age then Some Delete_File
     else if reached (lp_archiveAfterDays p) age then None
     else if not_yet (lp_retentionDays p) age then Some Retain_File
     else None)"

definition getApplicablePolicies :: "lifecycle_policy list \<Rightarrow> string \<Rightarrow> lifecycle_policy list" where
  "getApplicablePolicies ps f = filter (\<lambda>p. case or_null (lp_folder p) of None \<Rightarrow> True | Some g \<Rightarrow> g = f) ps"

definition winner :: "verdict list \<Rightarrow> verdict option" where
  "winner vs = (if Delete_File \<in> set vs then Some Delete_File else if Archive_File \<in> set vs then Some Archive_File
     else if Retain_File \<in> set vs then Some Retain_File else None)"

definition file_verdict :: "lifecycle_policy list \<Rightarrow> msec \<Rightarrow> file_row \<Rightarrow> verdict option" where
  "file_verdict ps now r = winner (List.map_filter (evaluatePolicy now r) (filter lp_enabled (getApplicablePolicies ps (sf_folder r))))"

definition evaluateLifecycle :: "'o storage_env \<Rightarrow> lifecycle_policy list \<Rightarrow> string option \<Rightarrow> ('o, (file_row \<times> verdict) list) st_op" where
  "evaluateLifecycle e ps f = ebind (case or_null f of Some g \<Rightarrow> listFiles e g | None \<Rightarrow> getAllStorageFiles e) (\<lambda>rows.
     ebind date_now (\<lambda>now. ereturn (List.map_filter (\<lambda>r. map_option (Pair r) (file_verdict ps now r)) rows)))"

record lifecycle_result =
  lr_processed :: nat
  lr_archived :: nat
  lr_deleted :: nat
  lr_retained :: nat

definition counted :: "bool \<Rightarrow> verdict \<Rightarrow> lifecycle_result \<Rightarrow> lifecycle_result" where
  "counted dryRun v s = (let s1 = s\<lparr>lr_processed := Suc (lr_processed s)\<rparr> in
     if v = Delete_File then s1\<lparr>lr_deleted := Suc (lr_deleted s)\<rparr>
     else if v = Retain_File \<or> dryRun then s1\<lparr>lr_retained := Suc (lr_retained s)\<rparr> else s1)"

text \<open>What \<open>deleteFile\<close> answers is not looked at, and it never throws.\<close>

primrec executeLifecycle :: "'o storage_env \<Rightarrow> bool \<Rightarrow> (file_row \<times> verdict) list \<Rightarrow> lifecycle_result \<Rightarrow> ('o, lifecycle_result) st_op" where
  "executeLifecycle e dryRun [] s = ereturn s"
| "executeLifecycle e dryRun (a # as) s =
     eseq (if snd a = Delete_File \<and> \<not> dryRun then ebind (deleteFile e (sf_id (fst a))) (\<lambda>_. ereturn ()) else ereturn ())
       (executeLifecycle e dryRun as (counted dryRun (snd a) s))"

subsection \<open>Orphaned files\<close>

datatype orphan_type = InStorage | InDatabase | Mismatched

record orphan =
  or_id :: "string option"
  or_path :: string
  or_type :: orphan_type
  or_provider :: string

text \<open>The directory is resolved against the working directory, not against the base path of the
  service.\<close>

definition listed_dir :: "'o storage_env \<Rightarrow> provider \<Rightarrow> string" where
  "listed_dir e pv = (if is_absolute (or_storage (pv_path pv)) then or_storage (pv_path pv)
     else path_resolve (path_resolve (se_cwd e) ''.system-data'') (or_storage (pv_path pv)))"

definition listLocalFiles :: "'o storage_env \<Rightarrow> provider \<Rightarrow> ('o, string list) st_op" where
  "listLocalFiles e pv = ext (eget (\<lambda>w. se_dir_order e (filter (under (listed_dir e pv)) (map fst (sw_files w)))))"

definition listObjects :: "'o storage_env \<Rightarrow> provider \<Rightarrow> ('o, string list) st_op" where
  "listObjects e pv = in_container pv (\<lambda>b. ext (eget (\<lambda>w.
     map (\<lambda>k. uri_prefix pv @ k) (se_keys e (pv_type pv) b (case pv_prefix pv of None \<Rightarrow> [] | Some p \<Rightarrow> p) (sw_objects w)))))"

definition listStorageFiles :: "'o storage_env \<Rightarrow> string \<Rightarrow> ('o, string list) st_op" where
  "listStorageFiles e name = (case map_of (sg_providers (se_config e)) name of
     None \<Rightarrow> ethrow (ProviderNotFound name)
   | Some pv \<Rightarrow> if pv_type pv = LocalDisk then listLocalFiles e pv
       else if pv_type pv \<in> {S3, Azure} then listObjects e pv else ethrow UnsupportedType)"

definition orphan_in_storage :: "file_row list \<Rightarrow> string \<Rightarrow> string \<Rightarrow> orphan option" where
  "orphan_in_storage rows name p = (case find (\<lambda>r. sf_provider_path r = p) rows of
     None \<Rightarrow> Some \<lparr>or_id = None, or_path = p, or_type = InStorage, or_provider = name\<rparr>
   | Some r \<Rightarrow> if sf_provider_path r \<noteq> p
       then Some \<lparr>or_id = Some (sf_id r), or_path = p, or_type = Mismatched, or_provider = name\<rparr> else None)"

definition orphan_in_database :: "string list \<Rightarrow> string \<Rightarrow> file_row \<Rightarrow> orphan option" where
  "orphan_in_database listed name r = (if sf_provider_path r \<in> set listed then None
     else Some \<lparr>or_id = Some (sf_id r), or_path = sf_provider_path r, or_type = InDatabase, or_provider = name\<rparr>)"

definition findOrphanedFiles :: "'o storage_env \<Rightarrow> string \<Rightarrow> ('o, orphan list) st_op" where
  "findOrphanedFiles e name = ebind (getAllStorageFiles e) (\<lambda>rows. ebind (listStorageFiles e name) (\<lambda>all_paths.
     let listed = remdups (filter (\<lambda>p. \<not> ends_with p SIDECAR_SUFFIX) all_paths) in
     ereturn (List.map_filter (orphan_in_storage rows name) listed @ List.map_filter (orphan_in_database listed name) rows)))"

definition deleteFromStorage :: "'o storage_env \<Rightarrow> string \<Rightarrow> string \<Rightarrow> ('o, unit) st_op" where
  "deleteFromStorage e path name = (case map_of (sg_providers (se_config e)) name of
     None \<Rightarrow> ethrow (ProviderNotFound name)
   | Some pv \<Rightarrow> if pv_type pv = LocalDisk then fs_remove path
       else if pv_type pv \<in> {S3, Azure} then delete_object e pv path else ethrow UnsupportedType)"

definition clean_one :: "'o storage_env \<Rightarrow> orphan \<Rightarrow> ('o, bool) st_op" where
  "clean_one e x = ecatch (eseq
       (if or_type x \<in> {InStorage, Mismatched} then deleteFromStorage e (or_path x) (or_provider x) else ereturn ())
       (case (or_type x, or_id x) of
          (InStorage, _) \<Rightarrow> ereturn True
        | (_, Some i) \<Rightarrow> ebind (deleteStorageFile i) (\<lambda>_. ereturn True)
        | _ \<Rightarrow> ereturn True))
     (\<lambda>_ :: st_error. ereturn False)"

text \<open>The number cleaned and the number of errors.\<close>

definition cleanupOrphanedFiles :: "'o storage_env \<Rightarrow> bool \<Rightarrow> orphan list \<Rightarrow> ('o, nat \<times> nat) st_op" where
  "cleanupOrphanedFiles e dryRun xs = (if dryRun then ereturn (length xs, 0)
     else ebind (each (clean_one e) xs) (\<lambda>oks. ereturn (length (filter id oks), length (filter Not oks))))"

text \<open>A cleaning run for one provider.\<close>

definition clean_provider :: "'o storage_env \<Rightarrow> string \<Rightarrow> ('o, nat \<times> nat) st_op" where
  "clean_provider e name = ebind (findOrphanedFiles e name) (cleanupOrphanedFiles e False)"

end
