(* ===== verification/Storage_Demo.thy ===== *)
theory Storage_Demo
  imports Storage_Frame Storage_Upkeep
begin

section \<open>A small store\<close>

text \<open>A configuration with one folder on a local disk and one upload, for concrete runs.\<close>

definition demo_folder :: folder where
  "demo_folder = \<lparr>fo_path = ''public'', fo_allowed_types = [''*''], fo_max_size = ''9B'', fo_quota = Some ''2B''\<rparr>"

definition demo_config :: storage_config where
  "demo_config = \<lparr>sg_providers = [(''local'', local_provider)], sg_active_provider = Some ''local'', sg_folders = [(''public'', demo_folder)],
     sg_quota_enforcement = None, sg_global_quota = None\<rparr>"

definition demo_storage :: "unit storage_env" where
  "demo_storage = \<lparr>se_config = demo_config, se_cwd = ''/srv'', se_base = ''data'', se_put = \<lambda>_ _ _ _ u. u, se_get = \<lambda>_ _ _ _. None,
     se_range = \<lambda>_ _ _ _ _. Inl IoError, se_delete = \<lambda>_ _ _ u. u, se_keys = \<lambda>_ _ _ _. [], se_missing = \<lambda>_. IoError, se_credentials = \<lambda>_. True,
     se_uuid = \<lambda>n. CHR ''u'' # show_nat n, se_mime = \<lambda>_. None, se_manifest = \<lambda>r. sf_id r, se_read_manifest = \<lambda>_. None,
     se_row_order = id, se_dir_order = id\<rparr>"

definition empty_store :: "unit store_world" where
  "empty_store = \<lparr>clock = 0, faults = [], sw_rows = [], sw_files = [], sw_objects = (), sw_s3 = False, sw_azure = None, sw_gcs = None,
     sw_quota = None, sw_breakers = None, sw_cache = None, sw_timers = [], sw_uuids = 0\<rparr>"

definition demo_request :: "string \<Rightarrow> store_request" where
  "demo_request name = \<lparr>sq_name = name, sq_folder = ''public'', sq_size = 2, sq_mime = Some ''text/plain'', sq_description = None, sq_uploaded_by = None\<rparr>"

lemma demo_name: "extname ''a.txt'' = ''.txt''" "basename_without ''a.txt'' = ''a''"
  by (simp_all add: extname_def basename_without_def last_component_def Let_def)

lemma demo_stored: "generateStoredFilenameFromName ''a.txt'' i = ''a_'' @ i @ ''.txt''"
  by (simp add: generateStoredFilenameFromName_def demo_name alnum_def)

lemma demo_size: "parseSizeString ''9B'' = 9"
  by (simp add: parseSizeString_def size_parts_def is_digit_def digits_value_def upper_char_def is_space_def size_units_def Let_def)

lemma demo_valid: "validateFile ''a.txt'' 2 demo_folder = []"
  by (simp add: validateFile_def demo_folder_def demo_size demo_name to_lower_def lower_char_def EXECUTABLE_EXTENSIONS_def Let_def)

lemma terabytes: "parseSizeString ''2TB'' = 2"
  by (simp add: parseSizeString_def size_parts_def is_digit_def digits_value_def upper_char_def is_space_def size_units_def Let_def)

lemma demo_uuids: "uuids_ok demo_storage"
proof -
  have "inj (\<lambda>n. CHR ''u'' # show_nat n)" by (auto simp: inj_def dest: show_nat_inj)
  moreover have "uuid_ok (CHR ''u'' # show_nat n)" for n
    using show_nat_chars [of "CHR ''_''" n] show_nat_chars [of "CHR ''.''" n] show_nat_chars [of "CHR ''/''" n] show_nat_chars [of "CHR 92" n]
    by (auto simp: uuid_ok_def)
  ultimately show ?thesis by (simp add: uuids_ok_def demo_storage_def)
qed

lemma demo_active: "map_of (sg_providers (se_config demo_storage)) (active_provider (se_config demo_storage)) = Some local_provider"
  by (simp add: demo_storage_def demo_config_def active_provider_def or_null_def)

definition demo_path :: string where
  "demo_path = ''/srv/data/storage/public/a_u0.txt''"

definition demo_row :: file_row where
  "demo_row = new_row demo_storage (demo_request ''a.txt'') ''u0'' demo_path 2 0"

definition demo_store :: "string \<Rightarrow> unit store_world" where
  "demo_store data = empty_store\<lparr>sw_rows := [stored_row 0 demo_row],
     sw_files := [(demo_path, data), (demo_path @ SIDECAR_SUFFIX, ''u0'')], sw_uuids := Suc 0\<rparr>"

lemma demo_u0: "se_uuid demo_storage 0 = ''u0''"
  by (simp add: demo_storage_def show_nat.simps char_of_def bit_0)

lemma demo_fields: "active_provider (se_config demo_storage) = ''local''" "se_manifest demo_storage r = sf_id r"
  by (simp_all add: demo_storage_def demo_config_def active_provider_def or_null_def)

lemma demo_relative: "relative_path_of (demo_request ''a.txt'') ''u0'' = ''public/a_u0.txt''"
  by (simp add: relative_path_of_def demo_request_def demo_stored)

lemma demo_paths:
  "path_resolve ''/srv'' ''data'' = ''/srv/data''" "path_resolve ''/srv/data'' ''storage'' = ''/srv/data/storage''"
  "path_resolve ''/srv/data/storage'' ''public/a_u0.txt'' = demo_path" "under ''/srv/data/storage'' demo_path"
  by code_simp+

lemma demo_local: "getLocalStoragePath demo_storage = ''/srv/data/storage''"
proof -
  have "se_cwd demo_storage = ''/srv''" "se_base demo_storage = ''data''" "map_of (sg_providers (se_config demo_storage)) ''local'' = Some local_provider"
    by (simp_all add: demo_storage_def demo_config_def)
  moreover have "or_storage (pv_path local_provider) = ''storage''" by (simp add: local_provider_def or_storage_def or_null_def)
  ultimately show ?thesis by (simp add: getLocalStoragePath_def demo_paths is_absolute_def Let_def)
qed

lemma demo_resolved: "resolveLocalStoragePath demo_storage ''public/a_u0.txt'' w = (Inr demo_path, w)"
  by (simp add: resolveLocalStoragePath_def demo_local demo_paths ereturn_def Let_def)

lemma demo_upload: "uploadFile demo_storage (demo_request ''a.txt'') data empty_store = (Inr demo_row, demo_store data)"
proof -
  let ?q = "demo_request ''a.txt''"
  let ?w1 = "empty_store\<lparr>sw_uuids := Suc 0\<rparr>"
  let ?w2 = "?w1\<lparr>sw_files := [(demo_path, data)]\<rparr>"
  have folder: "map_of (sg_folders (se_config demo_storage)) (sq_folder ?q) = Some demo_folder" "sq_name ?q = ''a.txt''" "sq_size ?q = 2"
    by (simp_all add: demo_storage_def demo_config_def demo_request_def)
  have reserve: "reserve f n empty_store = (Inr None, empty_store)" for f n
    by (simp add: reserve_def decide_def empty_store_def eget_def ebind_def eseq_def ewhen_def ereturn_def)
  have uuid: "uuidv4 demo_storage empty_store = (Inr ''u0'', ?w1)" by (simp add: uuidv4_def empty_store_def demo_u0)
  have call: "provider_call demo_storage ''upload'' (\<lambda>_. False) (\<lambda>pv. executeUpload demo_storage pv (relative_path_of ?q ''u0'') data) ?w1
      = (Inr demo_path, ?w2)"
    by (simp add: provider_call_def on_provider_def demo_active guarded_def withTimeout_def executeUpload_def local_provider_def
        uploadToLocal_def demo_relative demo_resolved fs_ensureDir_def fs_writeFile_def ext_def emodify_def ebind_def eseq_def ereturn_def empty_store_def)
  have recorded: "record_upload demo_storage ?q ''u0'' demo_path 2 ?w2 = (Inr demo_row, demo_store data)"
  proof -
    have row: "new_row demo_storage ?q ''u0'' demo_path 2 0 = demo_row" by (simp add: demo_row_def)
    have fields: "sf_id demo_row = ''u0''" "sf_relative_path demo_row = ''public/a_u0.txt''" by (simp_all add: demo_row_def new_row_def demo_relative)
    have created: "createStorageFile demo_row ?w2 = (Inr (), ?w2\<lparr>sw_rows := [stored_row 0 demo_row]\<rparr>)"
      by (simp add: createStorageFile_def ext_def empty_store_def)
    have manifest: "writeSidecarManifest demo_storage demo_row (?w2\<lparr>sw_rows := [stored_row 0 demo_row]\<rparr>) = (Inr (), demo_store data)"
      using fields by (simp add: writeSidecarManifest_def demo_resolved fs_writeFile_def ext_def emodify_def ebind_def demo_store_def empty_store_def demo_fields
          SIDECAR_SUFFIX_def)
    have "clock ?w2 = 0" by (simp add: empty_store_def)
    with row created manifest show ?thesis
      by (simp add: record_upload_def date_now_def eget_def ebind_def eseq_def equiet_def ereturn_def Let_def invalidateFolder_def emodify_def)
        (simp add: demo_store_def empty_store_def)
  qed
  show ?thesis
    by (simp add: uploadFile_def folder demo_valid reserved_def reserve ebind_def efinally_def uuid call recorded release_def emodify_def)
      (simp add: demo_store_def empty_store_def)
qed

end
