(* ===== verification/Storage_Theorems.thy ===== *)
theory Storage_Theorems
  imports Storage_Demo
begin

section \<open>Stored files\<close>

text \<open>
  An uploaded file stays readable whatever else is uploaded, changed or deleted and whatever
  fails: an interpretation of \<open>storage_effects\<close> keeps its row and its bytes.
\<close>

subsection \<open>Successful calls\<close>

lemma in_map_filter: "y \<in> set (List.map_filter f xs) \<longleftrightarrow> (\<exists>x\<in>set xs. f x = Some y)"
  by (induction xs) (auto split: option.splits)

lemma ebind_success: "ebind m f w = (Inr b, w') \<longleftrightarrow> (\<exists>a w1. m w = (Inr a, w1) \<and> f a w1 = (Inr b, w'))"
  by (auto simp: ebind_def split: prod.splits sum.splits)

lemma eseq_success: "eseq m n w = (Inr b, w') \<longleftrightarrow> (\<exists>a w1. m w = (Inr a, w1) \<and> n w1 = (Inr b, w'))"
  by (simp add: eseq_def ebind_success)

lemma ereturn_success: "ereturn a w = (Inr b, w') \<longleftrightarrow> b = a \<and> w' = w"
  by (auto simp: ereturn_def)

lemmas success_simps = ebind_success eseq_success ereturn_success

text \<open>Two worlds with the same table, files and ids.\<close>

definition same_store :: "'o store_world \<Rightarrow> 'o store_world \<Rightarrow> bool" where
  "same_store w w' \<longleftrightarrow> sw_rows w' = sw_rows w \<and> sw_files w' = sw_files w \<and> sw_uuids w' = sw_uuids w"

lemma same_store_refl [simp]: "same_store w w"
  by (simp add: same_store_def)

lemma same_store_trans: "same_store u v \<Longrightarrow> same_store v w \<Longrightarrow> same_store u w"
  by (simp add: same_store_def)

lemma ext_success:
  assumes "ext m w = (Inr a, w')"
  obtains w0 where "same_store w w0" and "clock w0 = clock w" and "m w0 = (Inr a, w')"
proof (cases "faults w")
  case Nil
  with assms that [of w] show ?thesis by (simp add: ext_def)
next
  case (Cons b fs)
  with assms that [of "w\<lparr>faults := fs\<rparr>"] show ?thesis by (cases b) (simp_all add: ext_def same_store_def)
qed

lemma timeout_success:
  assumes "withTimeout what m w = (Inr a, w')"
  obtains w0 where "same_store w w0" and "m w0 = (Inr a, w')"
proof (cases "sw_timers w")
  case Nil
  with assms that [of w] show ?thesis by (simp add: withTimeout_def)
next
  case (Cons b ts)
  with assms that [of "w\<lparr>sw_timers := ts\<rparr>"] show ?thesis
    by (auto simp: withTimeout_def same_store_def split: prod.splits if_splits)
qed

lemma put_breaker_store [simp]: "same_store (put_breaker p b w) w' \<longleftrightarrow> same_store w w'" "same_store w (put_breaker p b w') \<longleftrightarrow> same_store w w'"
  by (simp_all add: same_store_def put_breaker_def)

lemma guarded_success:
  assumes "guarded p expected m w = (Inr a, w')"
  obtains w0 w1 where "same_store w w0" and "m w0 = (Inr a, w1)" and "same_store w1 w'"
proof (cases "sw_breakers w")
  case None
  with assms that [of w w'] show ?thesis by (simp add: guarded_def)
next
  case (Some bm)
  obtain x b where x: "admit (clock w) (fst (getBreaker p bm)) = (x, b)" by (cases "admit (clock w) (fst (getBreaker p bm))")
  obtain r v where m: "m (put_breaker p b w) = (r, v)" by (cases "m (put_breaker p b w)")
  from assms Some x m that [of "put_breaker p b w" v] show ?thesis by (cases x) (auto simp: guarded_def)
qed

lemma call_success:
  assumes "provider_call e what expected f w = (Inr a, w')" and "map_of (sg_providers (se_config e)) (active_provider (se_config e)) = Some pv"
  obtains w0 w1 where "same_store w w0" and "f pv w0 = (Inr a, w1)" and "same_store w1 w'"
proof -
  from assms have g: "guarded (active_provider (se_config e)) expected (withTimeout what (f pv)) w = (Inr a, w')"
    by (simp add: provider_call_def on_provider_def)
  then obtain u v where u: "same_store w u" "withTimeout what (f pv) u = (Inr a, v)" "same_store v w'" by (rule guarded_success)
  from u(2) obtain w0 where "same_store u w0" "f pv w0 = (Inr a, v)" by (rule timeout_success)
  with u show ?thesis by (blast intro: that same_store_trans)
qed

interpretation store: em_frame same_store
  by unfold_locales (auto intro: same_store_trans)

lemma decide_store: "em_rel same_store (decide f n used)"
  by (auto simp: em_rel_def decide_def same_store_def split: option.splits prod.splits sum.splits)

lemma measure_store: "em_rel same_store (measure_usage l figure)"
  by (auto simp: em_rel_def measure_usage_def ext_def eget_def ereturn_def same_store_def split: list.splits bool.splits)

lemma reserve_store: "em_rel same_store (reserve f n)"
  unfolding reserve_def by (auto intro!: store.rel_intros measure_store decide_store split: option.splits)

lemma release_store: "same_store w (snd (release res w))"
  by (simp add: release_def emodify_def same_store_def)

text \<open>What a successful upload to a local disk leaves.\<close>

definition landed :: "file_row \<Rightarrow> string \<Rightarrow> 'o store_world \<Rightarrow> 'o store_world \<Rightarrow> bool" where
  "landed f data w w' \<longleftrightarrow> (\<exists>t. sw_rows w' = sw_rows w @ [stored_row t f]) \<and> sf_id f \<notin> sf_id ` set (sw_rows w) \<and>
     sw_uuids w' = Suc (sw_uuids w) \<and> map_of (sw_files w') (sf_provider_path f) = Some data"

lemma stored_name_no_suffix:
  assumes "uuid_ok i"
  shows "\<not> ends_with (generateStoredFilenameFromName name i) SIDECAR_SUFFIX"
proof
  let ?n = "generateStoredFilenameFromName name i"
  assume "ends_with ?n SIDECAR_SUFFIX"
  then obtain u where u: "?n = u @ SIDECAR_SUFFIX" by (metis append_take_drop_id ends_with.simps)
  obtain b x where n: "?n = b @ ''_'' @ i @ x" and b: "\<forall>c\<in>set b. c \<noteq> CHR ''.'' \<and> c \<noteq> CHR ''/'' \<and> c \<noteq> CHR 92"
    and x: "CHR ''.'' \<notin> set (tl x)"
    by (rule stored_name_parts)
  have "length (filter (\<lambda>c. c = CHR ''.'') ?n) \<le> 1"
  proof -
    have "filter (\<lambda>c. c = CHR ''.'') b = []" and "filter (\<lambda>c. c = CHR ''.'') i = []"
      using b assms by (auto simp: filter_empty_conv uuid_ok_def)
    moreover have "filter (\<lambda>c. c = CHR ''.'') (tl x) = []" using x by (auto simp: filter_empty_conv)
    then have "length (filter (\<lambda>c. c = CHR ''.'') x) \<le> 1" by (cases x) simp_all
    ultimately show ?thesis by (simp add: n)
  qed
  moreover have "2 \<le> length (filter (\<lambda>c. c = CHR ''.'') (u @ SIDECAR_SUFFIX))" by (simp add: SIDECAR_SUFFIX_def)
  ultimately show False using u by simp
qed

lemma upload_local_success:
  assumes "uploadToLocal e rel data w = (Inr p, w')"
  shows "p = path_resolve (getLocalStoragePath e) rel \<and> sw_rows w' = sw_rows w \<and> sw_uuids w' = sw_uuids w \<and> map_of (sw_files w') p = Some data"
proof -
  from assms obtain a u where "resolveLocalStoragePath e rel w = (Inr p, u)"
    and d: "fs_ensureDir u = (Inr (), a)" and p: "fs_writeFile p data a = (Inr (), w')"
    unfolding uploadToLocal_def success_simps by auto
  then have "p = path_resolve (getLocalStoragePath e) rel" and u: "u = w"
    by (auto simp: resolveLocalStoragePath_def Let_def ereturn_def ethrow_def split: if_splits)
  moreover from d obtain b where "same_store u b" "a = b" unfolding fs_ensureDir_def by (auto elim!: ext_success simp: ereturn_success)
  moreover from p obtain c where "same_store a c" "w' = c\<lparr>sw_files := jm_set p data (sw_files c)\<rparr>"
    unfolding fs_writeFile_def by (auto elim!: ext_success simp: emodify_def)
  ultimately show ?thesis by (simp add: same_store_def jm_get_set)
qed

lemma create_success:
  assumes "createStorageFile r w = (Inr u, w')"
  shows "sf_id r \<notin> sf_id ` set (sw_rows w) \<and> sw_rows w' = sw_rows w @ [stored_row (clock w) r] \<and> sw_files w' = sw_files w \<and> sw_uuids w' = sw_uuids w"
proof -
  from assms obtain w0 where "same_store w w0" "clock w0 = clock w"
    "(if sf_id r \<in> sf_id ` set (sw_rows w0) then (Inl RowExists, w0) else (Inr (), w0\<lparr>sw_rows := sw_rows w0 @ [stored_row (clock w0) r]\<rparr>)) = (Inr u, w')"
    unfolding createStorageFile_def by (rule ext_success)
  then show ?thesis by (auto simp: same_store_def split: if_splits)
qed

lemma sidecar_store: "sw_rows (snd (writeSidecarManifest e r w)) = sw_rows w \<and> sw_uuids (snd (writeSidecarManifest e r w)) = sw_uuids w"
  by (auto simp: writeSidecarManifest_def ereturn_def resolveLocalStoragePath_def ethrow_def ebind_def Let_def fs_writeFile_def
        ext_def emodify_def split: list.splits bool.splits)

lemma sidecar_keeps:
  "p \<noteq> path_resolve (getLocalStoragePath e) (sf_relative_path r) @ SIDECAR_SUFFIX \<Longrightarrow>
     map_of (sw_files (snd (writeSidecarManifest e r w))) p = map_of (sw_files w) p"
  by (auto simp: writeSidecarManifest_def ereturn_def resolveLocalStoragePath_def ethrow_def ebind_def Let_def fs_writeFile_def
        ext_def emodify_def jm_get_set split: list.splits bool.splits if_splits)

lemma record_success:
  assumes "record_upload e q i p n w = (Inr f, w')"
  shows "f = new_row e q i p n (clock w) \<and> sw_rows w' = sw_rows w @ [stored_row (clock w) f] \<and> i \<notin> sf_id ` set (sw_rows w) \<and>
    sw_uuids w' = sw_uuids w \<and>
    (\<forall>x. x \<noteq> path_resolve (getLocalStoragePath e) (relative_path_of q i) @ SIDECAR_SUFFIX \<longrightarrow> map_of (sw_files w') x = map_of (sw_files w) x)"
proof -
  from assms obtain u v where f: "f = new_row e q i p n (clock w)" and c: "createStorageFile f w = (Inr (), u)"
    and v: "v = snd (writeSidecarManifest e f u)" and w': "w' = v\<lparr>sw_cache := map_option (jm_delete (sq_folder q)) (sw_cache v)\<rparr>"
    unfolding record_upload_def success_simps Let_def date_now_def eget_def equiet_def invalidateFolder_def emodify_def by auto
  have rel: "sf_relative_path f = relative_path_of q i" "sf_id f = i" by (simp_all add: f new_row_def)
  show ?thesis using create_success [OF c] sidecar_keeps [where e = e and r = f and w = u] sidecar_store [of e f u] by (simp add: f [symmetric] rel v w')
qed

lemma reserved_success:
  assumes "reserved f n m w = (Inr a, w')"
  obtains w0 w1 where "same_store w w0" and "m w0 = (Inr a, w1)" and "same_store w1 w'"
proof -
  from assms obtain res w0 where "reserve f n w = (Inr res, w0)" and "efinally m (release res :: (_, unit) st_op) w0 = (Inr a, w')"
    unfolding reserved_def success_simps by blast
  moreover obtain r w1 where "m w0 = (r, w1)" by (cases "m w0")
  ultimately show ?thesis
    using em_relD' [OF reserve_store] release_store [of w1 res] by (intro that [of w0 w1]) (auto simp: efinally_def)
qed

lemma upload_landed:
  assumes "uploadFile e q data w = (Inr f, w')" and "map_of (sg_providers (se_config e)) (active_provider (se_config e)) = Some pv"
    and "pv_type pv = LocalDisk"
  shows "landed f data w w' \<and> sf_id f = se_uuid e (sw_uuids w) \<and>
    sf_provider_path f = path_resolve (getLocalStoragePath e) (relative_path_of q (sf_id f))"
proof -
  let ?i = "se_uuid e (sw_uuids w)"
  from assms(1) obtain w0 w5 where w0: "same_store w w0" and w5: "same_store w5 w'"
    and body: "ebind (uuidv4 e) (\<lambda>i. ebind (provider_call e ''upload'' (\<lambda>_. False) (\<lambda>pv. executeUpload e pv (relative_path_of q i) data))
      (\<lambda>path. record_upload e q i path (sq_size q))) w0 = (Inr f, w5)"
    unfolding uploadFile_def by (auto simp: ethrow_def elim!: reserved_success split: option.splits list.splits)
  let ?w1 = "w0\<lparr>sw_uuids := Suc (sw_uuids w0)\<rparr>"
  have i: "se_uuid e (sw_uuids w0) = ?i" using w0 by (simp add: same_store_def)
  from body obtain p w4 where c: "provider_call e ''upload'' (\<lambda>_. False) (\<lambda>pv. executeUpload e pv (relative_path_of q ?i) data) ?w1 = (Inr p, w4)"
    and r: "record_upload e q ?i p (sq_size q) w4 = (Inr f, w5)"
    unfolding success_simps uuidv4_def i by auto
  from c assms(2) obtain w2 w3 where "same_store ?w1 w2" and "executeUpload e pv (relative_path_of q ?i) data w2 = (Inr p, w3)" and "same_store w3 w4"
    by (rule call_success)
  with upload_local_success [of e "relative_path_of q ?i" data w2 p w3] record_success [OF r] w0 w5 assms(3)
  show ?thesis by (auto simp: executeUpload_def landed_def same_store_def new_row_def SIDECAR_SUFFIX_def)
qed

subsection \<open>An uploaded file stays readable\<close>

definition rows_named :: "'o store_world \<Rightarrow> bool" where
  "rows_named w \<longleftrightarrow> (\<forall>r\<in>set (sw_rows w). path_id (sf_provider_path r) = sf_id r)"

text \<open>The file of one id: its row and its bytes.\<close>

definition holds_file :: "'o storage_env \<Rightarrow> string \<Rightarrow> string \<Rightarrow> string \<Rightarrow> 'o store_world \<Rightarrow> bool" where
  "holds_file e i p data w \<longleftrightarrow> uuids_ok e \<and> rows_named w \<and> i \<in> sf_id ` set (sw_rows w) \<and>
     (\<forall>r\<in>set (sw_rows w). sf_id r = i \<longrightarrow> sf_provider_path r = p) \<and>
     map_of (sw_files w) p = Some data \<and> path_id p = i \<and> (\<exists>k < sw_uuids w. se_uuid e k = i)"

lemma same_ids: "sf_id ` set (map (\<lambda>r. if sf_id r = j then r\<lparr>sf_description := d, sf_updated_at := t\<rparr> else r) rows) = sf_id ` set rows"
  by (induction rows) auto

lemma updated_row: "r' \<in> set (map (\<lambda>r. if sf_id r = j then r\<lparr>sf_description := d, sf_updated_at := t\<rparr> else r) rows) \<Longrightarrow>
    \<exists>r\<in>set rows. sf_id r = sf_id r' \<and> sf_provider_path r = sf_provider_path r'"
  by (induction rows) (auto split: if_splits)

interpretation kept: storage_effects e "holds_file e i p data" "\<lambda>j. j \<noteq> i"
proof unfold_locales
  fix w
  assume w: "holds_file e i p data w"
  show "uuids_ok e" using w by (simp add: holds_file_def)
  show "path_id (sf_provider_path r) = sf_id r" if "r \<in> set (sw_rows w)" for r
    using w that by (simp add: holds_file_def rows_named_def)
  show "holds_file e i p data (w\<lparr>faults := fs, sw_timers := ts, sw_breakers := bs, sw_cache := c, sw_objects := obj, sw_s3 := s3\<rparr>)" for fs ts bs c obj s3
    using w by (simp add: holds_file_def rows_named_def)
  show "holds_file e i p data (w\<lparr>sw_quota := q\<rparr>)" for q
    using w by (simp add: holds_file_def rows_named_def)
  show "holds_file e i p data (w\<lparr>sw_uuids := Suc (sw_uuids w)\<rparr>) \<and> se_uuid e (sw_uuids w) \<noteq> i"
  proof -
    from w obtain k where "k < sw_uuids w" "se_uuid e k = i" by (auto simp: holds_file_def)
    moreover have "inj (se_uuid e)" using w by (simp add: holds_file_def uuids_ok_def)
    ultimately have "se_uuid e (sw_uuids w) \<noteq> i" by (metis injD less_irrefl)
    then show ?thesis using w by (auto simp: holds_file_def rows_named_def less_Suc_eq)
  qed
  show "holds_file e i p data (w\<lparr>sw_files := jm_set x d (sw_files w)\<rparr>)" if "path_id x \<noteq> i" for x d
    using w that by (auto simp: holds_file_def rows_named_def jm_get_set)
  show "holds_file e i p data (w\<lparr>sw_files := jm_delete x (sw_files w)\<rparr>)" if "path_id x \<noteq> i" for x
    using w that by (auto simp: holds_file_def rows_named_def jm_get_delete)
  show "holds_file e i p data (w\<lparr>sw_rows := sw_rows w @ [stored_row t r]\<rparr>)" if "sf_id r \<noteq> i" "path_id (sf_provider_path r) = sf_id r" for r t
    using w that by (auto simp: holds_file_def rows_named_def stored_row_def)
  show "holds_file e i p data (w\<lparr>sw_rows := filter (\<lambda>r. sf_id r \<noteq> j) (sw_rows w)\<rparr>)" if "j \<noteq> i" for j
    using w that by (auto simp: holds_file_def rows_named_def)
  show "holds_file e i p data (w\<lparr>sw_rows := map (\<lambda>r. if sf_id r = j then r\<lparr>sf_description := d, sf_updated_at := t\<rparr> else r) (sw_rows w)\<rparr>)" for j d t
    using w same_ids [where j = j and d = d and t = t and rows = "sw_rows w"] 
    unfolding holds_file_def rows_named_def by (auto simp del: set_map dest!: updated_row)
qed

text \<open>No call fails, and the circuit breaker of the active provider lets a call pass.\<close>

definition calm :: "'o storage_env \<Rightarrow> 'o store_world \<Rightarrow> bool" where
  "calm e w \<longleftrightarrow> faults w = [] \<and> sw_timers w = [] \<and> (case sw_breakers w of None \<Rightarrow> True
     | Some bm \<Rightarrow> \<not> isl (fst (admit (clock w) (fst (getBreaker (active_provider (se_config e)) bm)))))"

lemma calm_call:
  assumes "calm e w" and "map_of (sg_providers (se_config e)) (active_provider (se_config e)) = Some pv"
  obtains w0 where "same_store w w0" and "faults w0 = []" and "sw_timers w0 = []"
    and "fst (provider_call e what expected f w) = fst (f pv w0)"
proof (cases "sw_breakers w")
  case None
  with assms that [of w] show ?thesis by (simp add: calm_def provider_call_def on_provider_def guarded_def withTimeout_def)
next
  case (Some bm)
  let ?p = "active_provider (se_config e)"
  obtain u b where a: "admit (clock w) (fst (getBreaker ?p bm)) = (Inr u, b)"
    using assms(1) Some by (cases "admit (clock w) (fst (getBreaker ?p bm))"; cases "fst (admit (clock w) (fst (getBreaker ?p bm)))") (auto simp: calm_def)
  have "fst (provider_call e what expected f w) = fst (f pv (put_breaker ?p b w))"
    using assms Some a by (auto simp: calm_def provider_call_def on_provider_def guarded_def withTimeout_def put_breaker_def split: prod.splits)
  with assms(1) that [of "put_breaker ?p b w"] show ?thesis by (simp add: calm_def put_breaker_def same_store_def)
qed

lemma held_is_read:
  assumes "holds_file e i p data w" and "calm e w" and "map_of (sg_providers (se_config e)) (active_provider (se_config e)) = Some pv"
    and "pv_type pv = LocalDisk"
  shows "fst (getFileContent e i w) = Inr (Some data)"
proof -
  obtain r where r: "row_by_id i (sw_rows w) = Some r" "sf_provider_path r = p"
  proof (cases "row_by_id i (sw_rows w)")
    case None
    with assms(1) show ?thesis by (auto simp: holds_file_def row_by_id_def find_None_iff)
  next
    case (Some r)
    with assms(1) that [of r] show ?thesis by (auto simp: holds_file_def dest: row_by_id_Some)
  qed
  have get: "getFileById i w = (Inr (Some r), w)"
    using assms(2) r by (simp add: getFileById_def getStorageFileById_def ext_def calm_def ecatch_def eget_def)
  from assms(2,3) obtain w0 where w0: "same_store w w0" "faults w0 = []"
    and c: "fst (provider_call e ''download'' isNotFound (\<lambda>pv. executeDownload e pv r) w) = fst (executeDownload e pv r w0)"
    by (rule calm_call)
  have "fst (executeDownload e pv r w0) = Inr data"
    using assms(1,4) r w0 by (simp add: executeDownload_def getFileContentFromLocal_def fs_pathExists_def fs_readFile_def ext_def eget_def
        ebind_def holds_file_def same_store_def)
  then have "fst (provider_call e ''download'' isNotFound (\<lambda>pv. executeDownload e pv r) w) = Inr data" by (simp only: c)
  with get show ?thesis by (auto simp: getFileContent_def ecatch_def ebind_def ereturn_def split: prod.splits)
qed

text \<open>C22: An uploaded file stays readable. After an upload to a local disk has answered with a row,
  and after any further uploads, streams, batches, reads, lists, updates and deletes of other files,
  with any failing calls, timers and open circuits among them, a read that meets no failure returns
  exactly the bytes that were uploaded. The paths of two files never meet because the ids are
  different random ids of the usual form.\<close>

theorem uploaded_file_stays_readable:
  assumes "uuids_ok e" and "rows_named w"
    and "map_of (sg_providers (se_config e)) (active_provider (se_config e)) = Some pv" and "pv_type pv = LocalDisk"
    and "uploadFile e q data w = (Inr f, w')"
    and "\<And>r. r \<in> set qs \<Longrightarrow> \<not> touches r (sf_id f)"
    and "calm e (run_storage e qs w')"
  shows "fst (getFileContent e (sf_id f) (run_storage e qs w')) = Inr (Some data)"
proof -
  note up = upload_landed [OF assms(5,3,4)]
  have path: "path_id (sf_provider_path f) = sf_id f"
    using up path_id_local [of "sf_id f"] assms(1) by (simp add: uuids_ok_def)
  from up obtain t where rows: "sw_rows w' = sw_rows w @ [stored_row t f]" by (auto simp: landed_def)
  have "holds_file e (sf_id f) (sf_provider_path f) data w'"
    using up assms(1,2) path rows by (auto simp: holds_file_def rows_named_def landed_def stored_row_def image_iff)
  then have "holds_file e (sf_id f) (sf_provider_path f) data (run_storage e qs w')"
    using assms(6) by (intro kept.serve_keeps) auto
  from held_is_read [OF this assms(7,3,4)] show ?thesis .
qed

lemma uploaded_file_stays_readable_witness:
  "fst (getFileContent demo_storage ''u0'' (run_storage demo_storage [Upload (demo_request ''b.exe'') ''yo'', Delete ''u1'', Update ''u0'' (Some ''x'')]
     (demo_store ''hi''))) = Inr (Some ''hi'')"
proof -
  let ?qs = "[Upload (demo_request ''b.exe'') ''yo'', Delete ''u1'', Update ''u0'' (Some ''x'')]"
  have id: "sf_id demo_row = ''u0''" by (simp add: demo_row_def new_row_def)
  have "extname ''b.exe'' = ''.exe''" by (simp add: extname_def last_component_def Let_def)
  then have "validateFile ''b.exe'' 2 demo_folder = [''Executable file type'']"
    by (simp add: validateFile_def demo_folder_def demo_size to_lower_def lower_char_def EXECUTABLE_EXTENSIONS_def Let_def)
  then have up: "snd (serve_storage demo_storage (Upload (demo_request ''b.exe'') ''yo'') w) = w" for w
    by (simp add: uploadFile_def demo_request_def demo_storage_def demo_config_def eseq_def ebind_def ethrow_def)
  have del: "snd (serve_storage demo_storage (Delete ''u1'') (demo_store ''hi'')) = demo_store ''hi''"
    by (simp add: deleteFile_def getFileById_def getStorageFileById_def ext_def eget_def ecatch_def ebind_def eseq_def ereturn_def
        row_by_id_def demo_store_def empty_store_def stored_row_def id)
  have "calm demo_storage (run_storage demo_storage ?qs (demo_store ''hi''))"
    using up del by (simp add: updateFile_def updateStorageFile_def ext_def eget_def ecatch_def ebind_def eseq_def ereturn_def
        demo_store_def empty_store_def calm_def)
  moreover have "rows_named empty_store" by (simp add: rows_named_def empty_store_def)
  ultimately have "fst (getFileContent demo_storage (sf_id demo_row) (run_storage demo_storage ?qs (demo_store ''hi''))) = Inr (Some ''hi'')"
    by (intro uploaded_file_stays_readable [OF demo_uuids _ demo_active _ demo_upload [of "''hi''"]]) (auto simp: local_provider_def id)
  then show ?thesis by (simp add: id)
qed

end
