(* ===== verification/Storage_Lifecycle.thy ===== *)
theory Storage_Lifecycle
  imports Storage_Theorems
begin

section \<open>Lifecycle runs\<close>

text \<open>
  A run evaluates all files and deletes those with a verdict to delete. Without failures that
  leaves exactly the files for which no enabled policy of their folder has reached its threshold,
  in whatever order the policies stand, and whether or not another policy would retain the file.
\<close>

subsection \<open>Calls behind a closed circuit\<close>

definition steady :: "'o storage_env \<Rightarrow> 'o store_world \<Rightarrow> bool" where
  "steady e w \<longleftrightarrow> faults w = [] \<and> sw_timers w = [] \<and>
     (\<forall>bm. sw_breakers w = Some bm \<longrightarrow> cb_state (fst (getBreaker (active_provider (se_config e)) bm)) = Closed)"

definition local_active :: "'o storage_env \<Rightarrow> bool" where
  "local_active e \<longleftrightarrow> (case map_of (sg_providers (se_config e)) (active_provider (se_config e)) of
     Some pv \<Rightarrow> pv_type pv = LocalDisk | None \<Rightarrow> False)"

lemma closed_admits: "cb_state b = Closed \<Longrightarrow> admit t b = (Inr (), b)"
  by (simp add: admit_def half_open_gate_def)

lemma closed_succeeds: "cb_state b = Closed \<Longrightarrow> cb_state (complete Succeeded t b) = Closed"
  by (simp add: complete_def onSuccess_def)

lemma put_breaker_gets: "cb_state b = Closed \<Longrightarrow> sw_breakers (put_breaker p b w) = Some bm \<Longrightarrow> cb_state (fst (getBreaker p bm)) = Closed"
  by (auto simp: put_breaker_def getBreaker_def jm_get_set)

lemma steady_breaker: "cb_state b = Closed \<Longrightarrow> faults w = [] \<Longrightarrow> sw_timers w = [] \<Longrightarrow> steady e (put_breaker (active_provider (se_config e)) b w)"
  using put_breaker_gets by (fastforce simp: steady_def put_breaker_def)

lemma put_breaker_fields [simp]:
  "faults (put_breaker p b w) = faults w" "sw_timers (put_breaker p b w) = sw_timers w" "clock (put_breaker p b w) = clock w"
  "sw_rows (put_breaker p b w) = sw_rows w" "sw_files (put_breaker p b w) = sw_files w"
  by (simp_all add: put_breaker_def)

subsection \<open>Deleting without failures\<close>

lemma local_delete_plain:
  assumes "faults w = []"
  obtains fs where "deleteFromLocal r w = (Inr (), w\<lparr>sw_files := fs\<rparr>)"
proof (cases "map_of (sw_files w) (sf_provider_path r)")
  case None
  with assms that show ?thesis
    by (simp add: deleteFromLocal_def fs_pathExists_def fs_remove_def ext_def eget_def emodify_def ebind_def eseq_def ewhen_def ereturn_def)
next
  case (Some s)
  with assms that show ?thesis
    by (simp add: deleteFromLocal_def fs_pathExists_def fs_remove_def ext_def eget_def emodify_def ebind_def eseq_def ewhen_def ereturn_def)
qed

lemma call_deletes:
  assumes "steady e w" and "local_active e"
  obtains w' where "provider_call e ''delete'' (\<lambda>_. False) (\<lambda>pv. executeDelete e pv r) w = (Inr (), w')"
    and "steady e w'" and "sw_rows w' = sw_rows w" and "clock w' = clock w"
proof -
  let ?p = "active_provider (se_config e)"
  obtain pv where pv: "map_of (sg_providers (se_config e)) ?p = Some pv" "pv_type pv = LocalDisk"
    using assms(2) by (auto simp: local_active_def split: option.splits)
  show ?thesis
  proof (cases "sw_breakers w")
    case None
    obtain fs where "deleteFromLocal r w = (Inr (), w\<lparr>sw_files := fs\<rparr>)"
      using assms(1) by (auto simp: steady_def intro: local_delete_plain [of w r])
    with assms(1) pv None that [of "w\<lparr>sw_files := fs\<rparr>"] show ?thesis
      by (simp add: provider_call_def on_provider_def guarded_def withTimeout_def executeDelete_def steady_def)
  next
    case (Some bm)
    define b where "b = fst (getBreaker ?p bm)"
    have b: "cb_state b = Closed" using assms(1) Some by (simp add: steady_def b_def)
    let ?v = "put_breaker ?p b w"
    have v: "faults ?v = []" "sw_timers ?v = []" using assms(1) by (simp_all add: steady_def)
    obtain fs where d: "deleteFromLocal r ?v = (Inr (), ?v\<lparr>sw_files := fs\<rparr>)" using v(1) by (rule local_delete_plain)
    let ?w' = "put_breaker ?p (complete Succeeded (clock w) b) (?v\<lparr>sw_files := fs\<rparr>)"
    have "provider_call e ''delete'' (\<lambda>_. False) (\<lambda>pv. executeDelete e pv r) w = (Inr (), ?w')"
      using pv Some v d b by (simp add: provider_call_def on_provider_def guarded_def withTimeout_def executeDelete_def ended_def
          closed_admits b_def [symmetric])
    moreover have "steady e ?w'" using b v by (intro steady_breaker) (simp_all add: closed_succeeds)
    ultimately show ?thesis by (intro that [of ?w']) simp_all
  qed
qed

lemma steady_ext: "steady e w \<Longrightarrow> ext m w = m w"
  by (simp add: steady_def ext_def)

lemma delete_steady:
  assumes "steady e w" and "local_active e"
  obtains ok w' where "deleteFile e i w = (Inr ok, w')" and "steady e w'" and "clock w' = clock w"
    and "sw_rows w' = filter (\<lambda>r. sf_id r \<noteq> i) (sw_rows w)"
proof (cases "row_by_id i (sw_rows w)")
  case None
  then have "filter (\<lambda>r. sf_id r \<noteq> i) (sw_rows w) = sw_rows w"
    by (auto simp: row_by_id_def find_None_iff intro: filter_True)
  with None assms(1) that [of False w] show ?thesis
    by (simp add: deleteFile_def getFileById_def getStorageFileById_def steady_ext eget_def ecatch_def ebind_def ereturn_def)
next
  case (Some r)
  obtain u where u: "provider_call e ''delete'' (\<lambda>_. False) (\<lambda>pv. executeDelete e pv r) w = (Inr (), u)"
    "steady e u" "sw_rows u = sw_rows w" "clock u = clock w" using assms by (rule call_deletes)
  let ?w' = "u\<lparr>sw_rows := filter (\<lambda>r. sf_id r \<noteq> i) (sw_rows u), sw_cache := map_option (jm_delete (sf_folder r)) (sw_cache u)\<rparr>"
  have "steady e ?w'" using u(2) by (simp add: steady_def)
  moreover have "deleteFile e i w = (Inr True, ?w')"
    using assms(1) Some u by (simp add: deleteFile_def getFileById_def getStorageFileById_def deleteStorageFile_def invalidateFolder_def
        steady_ext eget_def emodify_def ecatch_def ebind_def eseq_def ewhen_def ereturn_def)
  ultimately show ?thesis using u by (intro that [of True ?w']) simp_all
qed

subsection \<open>A run\<close>

lemma execute_deletes:
  assumes "steady e w" and "local_active e" and "executeLifecycle e False as s w = (res, w')"
  shows "steady e w' \<and> sw_rows w' = filter (\<lambda>r. (sf_id r, Delete_File) \<notin> (\<lambda>(x, v). (sf_id x, v)) ` set as) (sw_rows w)"
  using assms
proof (induction as arbitrary: w s)
  case Nil
  then show ?case by (simp add: ereturn_def)
next
  case (Cons a as)
  show ?case
  proof (cases "snd a = Delete_File")
    case True
    obtain ok u where u: "deleteFile e (sf_id (fst a)) w = (Inr ok, u)" "steady e u"
      "sw_rows u = filter (\<lambda>r. sf_id r \<noteq> sf_id (fst a)) (sw_rows w)"
      using Cons.prems(1,2) by (rule delete_steady)
    have rest: "executeLifecycle e False as (counted False (snd a) s) u = (res, w')"
      using Cons.prems(3) True u(1) by (simp add: eseq_def ebind_def ereturn_def)
    from Cons.IH [OF u(2) Cons.prems(2) rest] u(3) True show ?thesis
      by (cases a) (auto intro!: filter_cong)
  next
    case False
    then have "executeLifecycle e False as (counted False (snd a) s) w = (res, w')"
      using Cons.prems(3) by (simp add: eseq_def ebind_def ereturn_def)
    from Cons.IH [OF Cons.prems(1,2) this] False show ?thesis
      by (cases a) (auto intro!: filter_cong)
  qed
qed

text \<open>The file has an enabled policy, for its folder or for all, whose threshold its age has reached.\<close>

definition expired :: "lifecycle_policy list \<Rightarrow> msec \<Rightarrow> file_row \<Rightarrow> bool" where
  "expired ps now r \<longleftrightarrow> (\<exists>p\<in>set ps. lp_enabled p \<and> (lp_folder p = None \<or> lp_folder p = Some [] \<or> lp_folder p = Some (sf_folder r)) \<and>
     (\<exists>n. lp_deleteAfterDays p = Some n \<and> 0 < n \<and> sf_created_at r + int n * day_ms \<le> now))"

lemma policy_deletes: "evaluatePolicy now r p = Some Delete_File \<longleftrightarrow> reached (lp_deleteAfterDays p) (now - sf_created_at r)"
  by (simp add: evaluatePolicy_def Let_def)

lemma reached_at: "reached d (now - t) \<longleftrightarrow> (\<exists>n. d = Some n \<and> 0 < n \<and> t + int n * day_ms \<le> now)"
  by (cases d) (auto simp: reached_def)

lemma applies_to: "(case or_null g of None \<Rightarrow> True | Some h \<Rightarrow> h = f) \<longleftrightarrow> g = None \<or> g = Some [] \<or> g = Some f"
  by (cases g; cases "the g") (auto simp: or_null_def)

lemma verdict_expired: "file_verdict ps now r = Some Delete_File \<longleftrightarrow> expired ps now r"
proof -
  have "file_verdict ps now r = Some Delete_File \<longleftrightarrow>
      (\<exists>p\<in>set ps. (case or_null (lp_folder p) of None \<Rightarrow> True | Some g \<Rightarrow> g = sf_folder r) \<and> lp_enabled p \<and> evaluatePolicy now r p = Some Delete_File)"
    by (auto simp: file_verdict_def winner_def in_map_filter getApplicablePolicies_def)
  then show ?thesis unfolding policy_deletes reached_at applies_to expired_def by blast
qed

text \<open>Whatever fails, each verdict to delete counts as a deleted file.\<close>

lemma executed_counts:
  assumes "executeLifecycle e False as s w = (Inr s', w')"
  shows "lr_deleted s' = lr_deleted s + length (filter (\<lambda>a. snd a = Delete_File) as)"
  using assms
proof (induction as arbitrary: s w)
  case Nil
  then show ?case by (simp add: ereturn_def)
next
  case (Cons a as)
  then obtain u where "executeLifecycle e False as (counted False (snd a) s) u = (Inr s', w')"
    by (auto simp: eseq_def ebind_def split: prod.splits sum.splits)
  from Cons.IH [OF this] show ?case by (auto simp: counted_def Let_def)
qed

text \<open>C24: A lifecycle run deletes exactly the expired files. On a local disk, without failures, a run
  over all files leaves the rows of those files for which no enabled policy, of their folder or of
  all folders, has a positive number of days for deletion that has passed since the creation; the
  order of the policies does not matter, and a policy to retain the file does not save it. The
  number of deletions of the answer is the number of verdicts.\<close>

theorem lifecycle_deletes_exactly_the_expired:
  assumes "steady e w" and "local_active e" and "distinct (map sf_id (sw_rows w))"
    and "\<And>rs. set (se_row_order e rs) = set rs"
    and "evaluateLifecycle e ps None w = (Inr as, w1)" and "executeLifecycle e False as s w1 = (Inr s', w2)"
  shows "sw_rows w2 = filter (\<lambda>r. \<not> expired ps (clock w) r) (sw_rows w)
     \<and> lr_deleted s' = lr_deleted s + length (filter (\<lambda>a. snd a = Delete_File) as)"
proof -
  have as: "as = List.map_filter (\<lambda>r. map_option (Pair r) (file_verdict ps (clock w) r)) (newest_first e (sw_rows w))" and w1: "w1 = w"
    using assms(1,5) by (auto simp: evaluateLifecycle_def or_null_def getAllStorageFiles_def steady_ext eget_def ebind_def date_now_def ereturn_def)
  have rows: "set (newest_first e (sw_rows w)) = set (sw_rows w)" by (simp add: newest_first_def assms(4))
  have "(sf_id r, Delete_File) \<in> (\<lambda>(x, v). (sf_id x, v)) ` set as \<longleftrightarrow> expired ps (clock w) r" if r: "r \<in> set (sw_rows w)" for r
  proof -
    have "(sf_id r, Delete_File) \<in> (\<lambda>(x, v). (sf_id x, v)) ` set as \<longleftrightarrow>
        (\<exists>x\<in>set (sw_rows w). sf_id x = sf_id r \<and> file_verdict ps (clock w) x = Some Delete_File)"
    proof
      assume "(sf_id r, Delete_File) \<in> (\<lambda>(x, v). (sf_id x, v)) ` set as"
      then show "\<exists>x\<in>set (sw_rows w). sf_id x = sf_id r \<and> file_verdict ps (clock w) x = Some Delete_File"
        unfolding as by (auto simp: in_map_filter rows)
    next
      assume "\<exists>x\<in>set (sw_rows w). sf_id x = sf_id r \<and> file_verdict ps (clock w) x = Some Delete_File"
      then obtain x where x: "x \<in> set (sw_rows w)" "sf_id x = sf_id r" "file_verdict ps (clock w) x = Some Delete_File" by blast
      then have "(x, Delete_File) \<in> set as" unfolding as in_map_filter rows by force
      with x(2) show "(sf_id r, Delete_File) \<in> (\<lambda>(x, v). (sf_id x, v)) ` set as" by force
    qed
    also have "\<dots> \<longleftrightarrow> expired ps (clock w) r"
      using r assms(3) verdict_expired by (metis distinct_map inj_onD)
    finally show ?thesis .
  qed
  then have "filter (\<lambda>r. (sf_id r, Delete_File) \<notin> (\<lambda>(x, v). (sf_id x, v)) ` set as) (sw_rows w) = filter (\<lambda>r. \<not> expired ps (clock w) r) (sw_rows w)"
    by (intro filter_cong) auto
  with execute_deletes [OF assms(1,2)] assms(6) w1 executed_counts [OF assms(6)] show ?thesis by simp
qed

definition demo_policies :: "lifecycle_policy list" where
  "demo_policies = [
     \<lparr>lp_name = ''keep'', lp_folder = None, lp_retentionDays = Some 365, lp_archiveAfterDays = None, lp_deleteAfterDays = None, lp_enabled = True\<rparr>,
     \<lparr>lp_name = ''drop'', lp_folder = Some ''public'', lp_retentionDays = None, lp_archiveAfterDays = None, lp_deleteAfterDays = Some 1, lp_enabled = True\<rparr>]"

lemma lifecycle_deletes_exactly_the_expired_witness:
  "\<exists>as w1 s' w2. evaluateLifecycle demo_storage demo_policies None ((demo_store ''hi'')\<lparr>clock := day_ms\<rparr>) = (Inr as, w1) \<and>
     executeLifecycle demo_storage False as \<lparr>lr_processed = 0, lr_archived = 0, lr_deleted = 0, lr_retained = 0\<rparr> w1 = (Inr s', w2) \<and>
     sw_rows w2 = [] \<and> lr_deleted s' = 1"
proof -
  let ?w = "(demo_store ''hi'')\<lparr>clock := day_ms\<rparr>" and ?s = "\<lparr>lr_processed = 0, lr_archived = 0, lr_deleted = 0, lr_retained = 0\<rparr>"
  let ?r = "stored_row 0 demo_row" and ?as = "[(stored_row 0 demo_row, Delete_File)]"
  have row: "sf_folder ?r = ''public''" "sf_created_at ?r = 0"
    by (simp_all add: stored_row_def seconds_of_def demo_row_def new_row_def demo_request_def)
  have w: "steady demo_storage ?w" "sw_rows ?w = [?r]" by (simp_all add: steady_def demo_store_def empty_store_def)
  have active: "local_active demo_storage" by (simp add: local_active_def demo_active local_provider_def)
  have expired: "expired demo_policies day_ms ?r" by (simp add: expired_def demo_policies_def row)
  have order: "se_row_order demo_storage rs = rs" for rs by (simp add: demo_storage_def)
  have eval: "evaluateLifecycle demo_storage demo_policies None ?w = (Inr ?as, ?w)"
    using w expired verdict_expired [of demo_policies day_ms ?r]
    by (simp add: evaluateLifecycle_def or_null_def getAllStorageFiles_def steady_ext eget_def ebind_def date_now_def ereturn_def
        newest_first_def order)
  obtain ok u where "deleteFile demo_storage (sf_id ?r) ?w = (Inr ok, u)" using w(1) active by (rule delete_steady)
  then obtain s' w2 where run: "executeLifecycle demo_storage False ?as ?s ?w = (Inr s', w2)"
    by (simp add: eseq_def ebind_def ereturn_def)
  have "sw_rows w2 = filter (\<lambda>r. \<not> expired demo_policies (clock ?w) r) (sw_rows ?w)
     \<and> lr_deleted s' = lr_deleted ?s + length (filter (\<lambda>a. snd a = Delete_File) ?as)"
    by (rule lifecycle_deletes_exactly_the_expired [OF w(1) active _ _ eval run]) (simp_all add: w(2) order)
  with eval run w(2) expired show ?thesis by auto
qed

end
