(* ===== verification/Storage_Cleaning.thy ===== *)
theory Storage_Cleaning
  imports Storage_Theorems
begin

section \<open>Cleaning orphaned files\<close>

text \<open>
  A cleaning run for one provider compares the files listed there with all rows of the table, also
  with those of files on other providers. Two runs, one for each of two providers, leave no row.
\<close>

text \<open>Removing from a provider changes at most its content.\<close>

definition only_content :: "'o store_world \<Rightarrow> 'o store_world \<Rightarrow> bool" where
  "only_content w w' \<longleftrightarrow> faults w' = [] \<and> sw_s3 w' = sw_s3 w \<and> sw_rows w' = sw_rows w \<and> set (map fst (sw_files w')) \<subseteq> set (map fst (sw_files w))"

lemma remove_content: "faults w = [] \<Longrightarrow> only_content w (snd (fs_remove p w))"
  by (auto simp: only_content_def fs_remove_def ext_def emodify_def delete_keys)

lemma object_content: "faults w = [] \<Longrightarrow> only_content w (snd (delete_object e pv p w))"
  by (auto simp: only_content_def delete_object_def in_container_def ext_def emodify_def eget_def ebind_def ethrow_def split: option.splits)

lemma storage_content: "faults w = [] \<Longrightarrow> only_content w (snd (deleteFromStorage e p name w))"
  using remove_content [of w p] object_content [of w e _ p]
  by (simp add: deleteFromStorage_def ethrow_def split: option.split) (simp add: only_content_def)

lemma clean_row:
  assumes "faults w = []" and "or_type x \<noteq> Mismatched"
  obtains ok w' where "clean_one e x w = (Inr ok, w')" and "faults w' = []" and "sw_s3 w' = sw_s3 w"
    and "sw_rows w' = filter (\<lambda>r. \<not> (or_type x = InDatabase \<and> or_id x = Some (sf_id r))) (sw_rows w)"
    and "set (map fst (sw_files w')) \<subseteq> set (map fst (sw_files w))"
proof (cases "or_type x")
  case InStorage
  obtain res w' where d: "deleteFromStorage e (or_path x) (or_provider x) w = (res, w')" by (cases "deleteFromStorage e (or_path x) (or_provider x) w")
  with storage_content [OF assms(1), of e "or_path x" "or_provider x"] have "only_content w w'" by simp
  moreover obtain ok where "clean_one e x w = (Inr ok, w')"
    using d InStorage by (cases res) (auto simp: clean_one_def ecatch_def eseq_def ebind_def ereturn_def)
  ultimately show ?thesis using InStorage by (intro that [of ok w']) (auto simp: only_content_def)
next
  case InDatabase
  show ?thesis
  proof (cases "or_id x")
    case None
    with InDatabase assms show ?thesis
      by (intro that [of True w]) (auto simp: clean_one_def ecatch_def eseq_def ebind_def ereturn_def)
  next
    case (Some i)
    let ?w = "w\<lparr>sw_rows := filter (\<lambda>r. sf_id r \<noteq> i) (sw_rows w)\<rparr>"
    have "filter (\<lambda>r. \<not> (or_type x = InDatabase \<and> or_id x = Some (sf_id r))) (sw_rows w) = sw_rows ?w"
      using InDatabase Some by (auto intro!: filter_cong)
    with InDatabase Some assms show ?thesis
      by (intro that [of True ?w]) (auto simp: clean_one_def ecatch_def eseq_def ebind_def ereturn_def deleteStorageFile_def ext_def)
  qed
qed (use assms in simp)

lemma clean_rows:
  assumes "faults w = []" and "\<forall>x\<in>set xs. or_type x \<noteq> Mismatched"
  obtains oks w' where "each (clean_one e) xs w = (Inr oks, w')" and "faults w' = []" and "sw_s3 w' = sw_s3 w"
    and "sw_rows w' = filter (\<lambda>r. \<not> (\<exists>x\<in>set xs. or_type x = InDatabase \<and> or_id x = Some (sf_id r))) (sw_rows w)"
    and "set (map fst (sw_files w')) \<subseteq> set (map fst (sw_files w))"
  using assms
proof (induction xs arbitrary: w thesis)
  case Nil
  then show ?case by (auto simp: ereturn_def)
next
  case (Cons x xs)
  obtain ok u where u: "clean_one e x w = (Inr ok, u)" "faults u = []" "sw_s3 u = sw_s3 w"
    "sw_rows u = filter (\<lambda>r. \<not> (or_type x = InDatabase \<and> or_id x = Some (sf_id r))) (sw_rows w)"
    "set (map fst (sw_files u)) \<subseteq> set (map fst (sw_files w))"
    using Cons.prems(2,3) by (auto intro: clean_row [of w x e])
  obtain oks v where v: "each (clean_one e) xs u = (Inr oks, v)" "faults v = []" "sw_s3 v = sw_s3 u"
    "sw_rows v = filter (\<lambda>r. \<not> (\<exists>x\<in>set xs. or_type x = InDatabase \<and> or_id x = Some (sf_id r))) (sw_rows u)"
    "set (map fst (sw_files v)) \<subseteq> set (map fst (sw_files u))"
    using Cons.prems(3) by (auto intro: Cons.IH [OF _ u(2)])
  show ?case
    by (rule Cons.prems(1) [of "ok # oks" v]) (use u v in \<open>auto simp: ebind_def ereturn_def intro!: filter_cong\<close>)
qed

text \<open>A run for a provider whose files are listed.\<close>

lemma clean_listed:
  assumes "clean_provider e name w = (r, w')" and "faults w = []" and "listStorageFiles e name w = (Inr ps, w)"
    and "\<And>rs. set (se_row_order e rs) = set rs"
  shows "faults w' = [] \<and> sw_s3 w' = sw_s3 w \<and> set (sw_rows w') \<subseteq> set (sw_rows w) \<and>
    (\<forall>r\<in>set (sw_rows w'). sf_provider_path r \<in> set ps) \<and> set (map fst (sw_files w')) \<subseteq> set (map fst (sw_files w))"
proof -
  let ?listed = "remdups (filter (\<lambda>p. \<not> ends_with p SIDECAR_SUFFIX) ps)" and ?rows = "newest_first e (sw_rows w)"
  let ?xs = "List.map_filter (orphan_in_storage ?rows name) ?listed @ List.map_filter (orphan_in_database ?listed name) ?rows"
  have rows: "set ?rows = set (sw_rows w)" by (simp add: newest_first_def assms(4))
  have kinds: "or_type x = InStorage" if "orphan_in_storage rs name p = Some x" for rs p x
    using that by (auto simp: orphan_in_storage_def find_Some_iff split: option.splits if_splits)
  have "\<forall>x\<in>set ?xs. or_type x \<noteq> Mismatched"
  proof
    fix x assume "x \<in> set ?xs"
    then consider p where "orphan_in_storage ?rows name p = Some x" | r where "orphan_in_database ?listed name r = Some x"
      by (auto simp: in_map_filter)
    then show "or_type x \<noteq> Mismatched"
      by cases (simp add: kinds, auto simp: orphan_in_database_def split: if_splits)
  qed
  with assms(2) obtain oks u where u: "each (clean_one e) ?xs w = (Inr oks, u)" "faults u = []" "sw_s3 u = sw_s3 w"
    "sw_rows u = filter (\<lambda>r. \<not> (\<exists>x\<in>set ?xs. or_type x = InDatabase \<and> or_id x = Some (sf_id r))) (sw_rows w)"
    "set (map fst (sw_files u)) \<subseteq> set (map fst (sw_files w))"
    by (rule clean_rows [of w ?xs e])
  have "findOrphanedFiles e name w = (Inr ?xs, w)"
    using assms(2,3) by (simp add: findOrphanedFiles_def getAllStorageFiles_def ext_def eget_def ebind_def ereturn_def Let_def)
  with assms(1) u(1) have w': "w' = u"
    by (auto simp: clean_provider_def ebind_def cleanupOrphanedFiles_def ereturn_def)
  have "sf_provider_path r \<in> set ps" if "r \<in> set (sw_rows u)" for r
  proof (rule ccontr)
    assume no: "sf_provider_path r \<notin> set ps"
    let ?x = "\<lparr>or_id = Some (sf_id r), or_path = sf_provider_path r, or_type = InDatabase, or_provider = name\<rparr>"
    have "orphan_in_database ?listed name r = Some ?x" using no by (simp add: orphan_in_database_def)
    moreover have "r \<in> set ?rows" using that u(4) rows by simp
    ultimately have "?x \<in> set ?xs" by (auto simp: in_map_filter)
    with that u(4) show False by force
  qed
  with u w' show ?thesis by auto
qed

lemma no_rows_no_content: "faults w = [] \<Longrightarrow> sw_rows w = [] \<Longrightarrow> fst (getFileContent e i w) = Inr None"
  by (simp add: getFileContent_def getFileById_def getStorageFileById_def ext_def eget_def ecatch_def ebind_def ereturn_def row_by_id_def)

text \<open>C39: Cleaning two providers forgets every file. A run for a local provider and a run for an
  S3 provider, without any failure, leave the table of files empty: each run takes the rows of
  files on the other provider for rows without a file. Then no file can be read any more.\<close>

theorem cleaning_two_providers_forgets_every_file:
  assumes "map_of (sg_providers (se_config e)) p = Some pl" and "pv_type pl = LocalDisk"
    and "map_of (sg_providers (se_config e)) q = Some ps" and "pv_type ps = S3"
    and "\<And>rs. set (se_row_order e rs) = set rs" and "\<And>ds. set (se_dir_order e ds) = set ds"
    and "faults w = []" and "sw_s3 w" and "\<And>x. x \<in> set (map fst (sw_files w)) \<Longrightarrow> is_absolute x"
    and "clean_provider e p w = (r1, w1)" and "clean_provider e q w1 = (r2, w2)"
  shows "sw_rows w2 = [] \<and> fst (getFileContent e i w2) = Inr None"
proof -
  have "listStorageFiles e p w = (Inr (se_dir_order e (filter (under (listed_dir e pl)) (map fst (sw_files w)))), w)"
    using assms(1,2,7) by (simp add: listStorageFiles_def listLocalFiles_def ext_def eget_def)
  from clean_listed [OF assms(10,7) this assms(5)]
  have w1: "faults w1 = []" "sw_s3 w1" and local: "\<forall>r\<in>set (sw_rows w1). is_absolute (sf_provider_path r)"
    using assms(6,8,9) by auto
  let ?objects = "map (\<lambda>k. uri_prefix ps @ k) (se_keys e S3 (in_text (pv_bucket ps)) (case pv_prefix ps of None \<Rightarrow> [] | Some x \<Rightarrow> x) (sw_objects w1))"
  have "listStorageFiles e q w1 = (Inr ?objects, w1)"
    using assms(3,4) w1 by (simp add: listStorageFiles_def listObjects_def in_container_def container_of_def ext_def eget_def ebind_def)
  from clean_listed [OF assms(11) w1(1) this assms(5)] have w2: "faults w2 = []" "set (sw_rows w2) \<subseteq> set (sw_rows w1)"
    and cloud: "\<forall>r\<in>set (sw_rows w2). sf_provider_path r \<in> set ?objects" by auto
  have "sw_rows w2 = []"
  proof (rule ccontr)
    assume "sw_rows w2 \<noteq> []"
    then obtain r where r: "r \<in> set (sw_rows w2)" by (cases "sw_rows w2") auto
    with w2(2) local have "is_absolute (sf_provider_path r)" by auto
    with r cloud assms(4) show False by (auto simp: is_absolute_def uri_prefix_def)
  qed
  with no_rows_no_content [OF w2(1)] show ?thesis by simp
qed

text \<open>A store with one file on the disk and one in a bucket.\<close>

definition two_provider_storage :: "unit storage_env" where
  "two_provider_storage = demo_storage\<lparr>se_config := demo_config\<lparr>sg_providers := [(''local'', local_provider),
     (''s3'', \<lparr>pv_type = S3, pv_path = None, pv_bucket = Some ''town'', pv_prefix = None, pv_account_name = None, pv_container_name = None\<rparr>)]\<rparr>,
     se_keys := \<lambda>_ _ _ _. [''public/b_u1.txt'']\<rparr>"

definition two_file_store :: "unit store_world" where
  "two_file_store = (demo_store ''hi'')\<lparr>sw_s3 := True,
     sw_rows := [demo_row, demo_row\<lparr>sf_id := ''u1'', sf_provider_path := ''s3://town/public/b_u1.txt''\<rparr>]\<rparr>"

lemma cleaning_two_providers_forgets_every_file_witness:
  "length (sw_rows two_file_store) = 2 \<and> (\<exists>r1 w1 r2 w2. clean_provider two_provider_storage ''local'' two_file_store = (r1, w1) \<and>
     clean_provider two_provider_storage ''s3'' w1 = (r2, w2) \<and> sw_rows w2 = [] \<and> fst (getFileContent two_provider_storage ''u0'' w2) = Inr None)"
proof -
  obtain r1 w1 where a: "clean_provider two_provider_storage ''local'' two_file_store = (r1, w1)"
    by (cases "clean_provider two_provider_storage ''local'' two_file_store")
  obtain r2 w2 where b: "clean_provider two_provider_storage ''s3'' w1 = (r2, w2)" by (cases "clean_provider two_provider_storage ''s3'' w1")
  have "sw_rows w2 = [] \<and> fst (getFileContent two_provider_storage ''u0'' w2) = Inr None"
    by (rule cleaning_two_providers_forgets_every_file [OF _ _ _ _ _ _ _ _ _ a b])
      (auto simp: two_provider_storage_def two_file_store_def demo_storage_def demo_config_def local_provider_def demo_store_def
        empty_store_def demo_path_def is_absolute_def)
  with a b show ?thesis by (auto simp: two_file_store_def)
qed

end
