(* ===== verification/Storage_Quotas.thy ===== *)
theory Storage_Quotas
  imports Storage_Theorems
begin

section \<open>Quotas of the loaded configuration\<close>

text \<open>
  The container registers the service with the default configuration and builds the quota manager
  from it; the configuration file is applied at the first use, by \<open>updateConfig\<close>, which builds no
  quota manager. So no quota of the file is ever enforced.
\<close>

definition quotas_stay :: "'o storage_env \<Rightarrow> quota_config option \<Rightarrow> 'o store_world \<Rightarrow> bool" where
  "quotas_stay e c w \<longleftrightarrow> uuids_ok e \<and> rows_named w \<and> map_option qm_config (sw_quota w) = c"

interpretation quotas: storage_effects e "quotas_stay e c" "\<lambda>_. True"
  by unfold_locales (auto simp: quotas_stay_def rows_named_def stored_row_def dest: updated_row)

definition same_quota :: "'o store_world \<Rightarrow> 'o store_world \<Rightarrow> bool" where
  "same_quota w w' \<longleftrightarrow> sw_quota w' = sw_quota w \<and> sw_rows w' = sw_rows w"

interpretation starting: em_frame same_quota
  by unfold_locales (auto simp: same_quota_def)

lemma ext_starting: "em_rel same_quota m \<Longrightarrow> em_rel same_quota (ext m)"
proof (rule em_relI)
  fix w
  assume "em_rel same_quota m"
  then have "same_quota (w\<lparr>faults := fs\<rparr>) (snd (m (w\<lparr>faults := fs\<rparr>)))" and "same_quota w (snd (m w))" for fs by (auto dest: em_relD)
  then show "same_quota w (snd (ext m w))" by (auto simp: ext_def same_quota_def split: list.splits bool.splits)
qed

lemma ensure_starting: "em_rel same_quota fs_ensureDir"
  unfolding fs_ensureDir_def by (intro ext_starting starting.rel_return)

lemma each_starting: "em_rel same_quota (each (\<lambda>_. fs_ensureDir) xs)"
  by (induction xs) (auto intro!: starting.rel_intros ensure_starting)

lemma initialize_starting: "em_rel same_quota (initializeStorage e)"
proof -
  have modify: "em_rel same_quota (emodify f)" if "\<And>w. same_quota w (f w)" for f
    using that by (simp add: em_rel_def emodify_def)
  show ?thesis
    unfolding initializeStorage_def on_provider_def
    by (auto intro!: starting.rel_intros ensure_starting each_starting modify ext_starting simp: same_quota_def
        split: option.splits provider_type.splits)
qed

lemma default_has_no_quotas: "folder_quotas default_storage_config = []"
  by (simp add: folder_quotas_def default_storage_config_def default_folder_def List.map_filter_def)

lemma reserve_without_limits:
  assumes "sw_quota w = Some qm" and "qm_config qm = c" and "qc_global c = None" and "qc_folders c = []"
  shows "fst (reserve f n w) \<noteq> Inl (QuotaExceeded x)"
proof -
  have l: "global_limit c = None" "folder_limit c g = None" for g
    using assms(3,4) by (simp_all add: global_limit_def folder_limit_def)
  have "qm_config (pruneExpiredReservations t qm) = c" for t by (simp add: pruneExpiredReservations_def assms(2))
  with assms(1,2) l show ?thesis
    by (auto simp: reserve_def decide_def eget_def ebind_def measure_usage_def ereturn_def quota_admit_def
        over_limit_def Let_def)
qed

text \<open>C40: The quotas of the configuration file are never enforced. Whatever limits \<open>storage.yml\<close>
  sets for folders or for everything, after the service has been registered and initialised with
  it, and after any requests, the quota gate of an upload refuses nothing: the quota manager is
  the one of the default configuration, which has no quotas.\<close>

theorem loaded_quotas_are_never_enforced:
  assumes "uuids_ok e" and "rows_named w"
    and "registerStorage e w = (e1, w1)" and "initializeStorageService e1 (Some cfg) w1 = ((r, w2), e2)"
  shows "se_config e2 = mergeWithDefaults cfg \<and> fst (reserve f n (run_storage e2 qs w2)) \<noteq> Inl (QuotaExceeded x)"
proof -
  have e2: "e2 = e\<lparr>se_config := mergeWithDefaults cfg\<rparr>" and i: "same_quota w1 w2"
  proof -
    have "se_config e1 = default_storage_config \<and> (\<exists>c. e1 = e\<lparr>se_config := c\<rparr>)"
      using assms(3) by (auto simp: registerStorage_def new_service_def)
    then obtain c where e1: "e1 = e\<lparr>se_config := c\<rparr>" by blast
    obtain r1 u where u: "initializeStorage (e\<lparr>se_config := mergeWithDefaults cfg\<rparr>) w1 = (r1, u)" by (cases "initializeStorage (e\<lparr>se_config := mergeWithDefaults cfg\<rparr>) w1")
    from em_relD' [OF initialize_starting this] have s1: "same_quota w1 u" .
    have run: "initializeStorageService e1 (Some cfg) w1 = (case r1 of
         Inl x \<Rightarrow> (if says_not_found x then initializeStorage (e\<lparr>se_config := mergeWithDefaults cfg\<rparr>) u else (Inl x, u))
       | Inr _ \<Rightarrow> (Inr (), u), e\<lparr>se_config := mergeWithDefaults cfg\<rparr>)"
      using u e1 by (cases r1) (simp_all add: initializeStorageService_def updateConfig_def Let_def)
    with assms(4) show "e2 = e\<lparr>se_config := mergeWithDefaults cfg\<rparr>" by simp
    have "w2 = u \<or> (\<exists>r. initializeStorage (e\<lparr>se_config := mergeWithDefaults cfg\<rparr>) u = (r, w2))"
      using assms(4) run by (auto split: sum.splits if_splits)
    with s1 show "same_quota w1 w2"
      by (auto simp: same_quota_def dest!: em_relD' [OF initialize_starting])
  qed
  define c where "c = \<lparr>qc_enabled = True, qc_global = None, qc_folders = ([] :: (string \<times> nat) list), qc_reservationTtlMs = None\<rparr>"
  have w1: "map_option qm_config (sw_quota w1) = Some c" "sw_rows w1 = sw_rows w"
    using assms(3) default_has_no_quotas
    by (auto simp: registerStorage_def new_service_def setDatabaseService_def default_storage_config_def new_quota_manager_def c_def)
  from i w1 assms(1,2) have "quotas_stay e2 (Some c) w2"
    by (simp add: quotas_stay_def same_quota_def rows_named_def e2 uuids_ok_def)
  then have "quotas_stay e2 (Some c) (run_storage e2 qs w2)" by (intro quotas.serve_keeps) auto
  then obtain qm where "sw_quota (run_storage e2 qs w2) = Some qm" "qm_config qm = c" by (auto simp: quotas_stay_def)
  with reserve_without_limits [of _ qm c] e2 show ?thesis by (simp add: c_def)
qed

lemma loaded_quotas_are_never_enforced_witness:
  "\<exists>e1 w1 r w2 e2. registerStorage demo_storage empty_store = (e1, w1) \<and> initializeStorageService e1 (Some demo_config) w1 = ((r, w2), e2) \<and>
     fo_quota demo_folder = Some ''2B'' \<and> \<not> (\<exists>x. fst (reserve ''public'' 9 (run_storage e2 [Delete ''u0''] w2)) = Inl (QuotaExceeded x))"
proof -
  obtain e1 w1 where a: "registerStorage demo_storage empty_store = (e1, w1)" by (cases "registerStorage demo_storage empty_store")
  obtain r w2 e2 where b: "initializeStorageService e1 (Some demo_config) w1 = ((r, w2), e2)"
    by (metis prod.collapse)
  have named: "rows_named empty_store" by (simp add: rows_named_def empty_store_def)
  have "fst (reserve ''public'' 9 (run_storage e2 [Delete ''u0''] w2)) \<noteq> Inl (QuotaExceeded x)" for x
    using loaded_quotas_are_never_enforced [OF demo_uuids named a b] by (rule conjunct2)
  moreover have "fo_quota demo_folder = Some ''2B''" by (simp add: demo_folder_def)
  ultimately show ?thesis using a b by blast
qed

end
