(* ===== verification/Spec2Isabelle.thy ===== *)
theory Spec2Isabelle
  imports Saga_Theorems Saga_Recovery Record_Saga_Gaps Record_Round_Trip Device_Theorems Upload_Theorems Account_Runs Records_Approval Record_Locks Records_Listing Role_Manager Workflow_Config Login_Throttle Circuit_Breaker Quota Di_Graph Storage_Lifecycle Storage_Cleaning Storage_Quotas
begin

text \<open>
  \<^bold>\<open>CivicPress: a verification library of its core logic\<close>

  CivicPress keeps the records of a municipality as Markdown files in a git repository, with
  an SQLite (or Postgres) database beside it. Every change of a record runs as a
  \<^emph>\<open>saga\<close>: a list of steps over database, file system and git, with a compensation for
  each step, a lock on the record, an idempotency key and a persisted state from which a
  restart recovers. Around that core stand the authorisation of users (roles, the editorial
  workflow, the accounts with their sessions and passwords, the login throttle), the container
  that wires the services, the storage module (files on local disks and cloud providers behind
  quotas and circuit breakers), the records service of the HTTP API with its permission checks,
  drafts, lists and edit locks, and the broadcast box: recording devices that are enrolled, asked
  to record the sessions of the council, upload the recording in chunks, and a worker that blanks
  what was not public before anything is published.
  All paths below are relative to \<open>src/\<close>.

  \<^bold>\<open>Theories and what they model\<close>

  \<^item> \<open>Civic_Prelude\<close>: computations that may throw (\<open>em\<close>: a state function with the
    error on the left of a sum), the database clock and the script of adapter failures
    (\<open>dbenv\<close>), tables as lists of rows, JavaScript maps as association lists, strings,
    decimal numbers.
  \<^item> \<open>Saga_Types\<close>: \<open>core/src/saga/types.ts\<close>, \<open>errors.ts\<close> and the tables
    \<open>saga_states\<close> and \<open>saga_resource_locks\<close> of
    \<open>core/src/database/schema/tables.ts\<close> with their constraints (\<open>saga_db_ok\<close>).
  \<^item> \<open>Saga_State_Store\<close>: \<open>saga-state-store.ts\<close>, one definition per method.
  \<^item> \<open>Saga_Locks\<close>: \<open>resource-lock.ts\<close>, with the foreign key of the lock table.
  \<^item> \<open>Saga_Idempotency\<close>: \<open>idempotency.ts\<close>; SHA-256 and JSON are parameters.
  \<^item> \<open>Saga_Executor\<close>: \<open>saga-executor.ts\<close> and the channel of
    \<open>core/src/audit/audit-channel.ts\<close>: \<open>execute\<close> is composed as the code composes it
    (\<open>acquire_phase\<close>, \<open>claim_key\<close>, \<open>run_steps\<close>, \<open>compensate\<close>,
    \<open>handle_error\<close>, \<open>cleanup\<close>).
  \<^item> \<open>Saga_Executor_Frame\<close>: the locales \<open>saga_row_effects\<close> and \<open>saga_effects\<close>,
    the laws of a property of the tables that every primitive write keeps and the lemmas
    that every operation of the executor then keeps it; interpreted on integrity, on the
    locks of others, on the rows of others and on the execution's own body.
  \<^item> \<open>Saga_Atomicity\<close>: the abstract specification (\<open>atomic_effect\<close>: run the steps
    forward and, on a failure, the compensations of the completed ones backward) and the
    simulation of the engine by it.
  \<^item> \<open>Saga_Theorems\<close>, \<open>Saga_Recovery\<close>: the properties of the executor;
    \<open>saga-recovery.ts\<close> and its properties.
  \<^item> \<open>Js_Values\<close>: the JavaScript values of records and requests (\<open>jv\<close>) with
    truthiness, member lookup, spread, JSON and \<open>Date\<close> texts.
  \<^item> \<open>Record_Paths\<close>, \<open>Document_Numbers\<close>, \<open>Record_Parser\<close>:
    \<open>core/src/utils/record-paths.ts\<close> on directory trees,
    \<open>document-number-generator.ts\<close>, and \<open>core/src/records/record-parser.ts\<close> (front
    matter read, normalised, built and written). \<open>Record_Round_Trip\<close>: what is written of a
    record is read back, given what the YAML library and gray-matter do with single fields.
  \<^item> \<open>Record_World\<close>: the state of the record operations (\<open>records\<close>,
    \<open>record_drafts\<close>, \<open>search_index\<close>, files, staged paths, commits, hooks, audit) and
    the methods of \<open>core/src/database/stores/record-store.ts\<close> and \<open>draft-store.ts\<close>, the
    commit of \<open>core/src/git/git-engine.ts\<close>.
  \<^item> \<open>Record_Manager\<close>, \<open>Record_Sagas\<close>: \<open>core/src/records/record-manager.ts\<close> with its
    \<open>helpers.ts\<close>, \<open>file-ops.ts\<close> and \<open>sagas.ts\<close>, and the four sagas
    \<open>core/src/saga/{create,update,archive}-record-saga.ts\<close>, \<open>publish-draft-saga.ts\<close> as
    sagas of the executor above.
  \<^item> \<open>Record_Saga_Steps\<close>, \<open>Record_Saga_Theorems\<close>, \<open>Record_Saga_Gaps\<close>: what the steps
    keep, the runs that are taken back completely, and the runs that are not.
  \<^item> \<open>Config_Values\<close>, \<open>Role_Manager\<close>: \<open>core/src/auth/role-manager.ts\<close>,
    \<open>role-manager/default-config.ts\<close> and \<open>role-utils.ts\<close>; the inheritance walk is
    proved to compute reachability on every hierarchy.
  \<^item> \<open>Workflow_Config\<close>: \<open>core/src/config/workflow-config.ts\<close> and the guard of the
    write paths, \<open>modules/api/src/services/records-service/status-transition-guard.ts\<close>.
  \<^item> \<open>Login_Throttle\<close>: \<open>core/src/auth/login-throttle.ts\<close> and the password login of
    \<open>auth-service/password-ops.ts\<close>.
  \<^item> \<open>Account_World\<close>, \<open>Account_Service\<close>, \<open>Account_Flows\<close>: the tables of users, sessions,
    keys and tokens with \<open>core/src/database/stores/user-store.ts\<close>, one call per statement, and
    \<open>core/src/auth/auth-service.ts\<close> with its collaborators: sessions, API keys, users,
    password changes and reset links, \<open>email-validation-service.ts\<close>, external logins.
  \<^item> \<open>Account_Theorems\<close>, \<open>Account_Tables\<close>, \<open>Account_Identity\<close>, \<open>Account_Runs\<close>: the locale
    \<open>acc_frame\<close> with its interpretations (sessions follow passwords, spent reset links, the
    constraints of the tables), the life of a session, the account of an external identity, and
    the runs in which too little is proved before something is confirmed.
  \<^item> \<open>Em_Ensures\<close>, \<open>Saga_App_Frame\<close>: triples over throwing computations (\<open>ensures\<close>: what
    holds after a normal result, what after a throw) and the locale \<open>app_effects\<close>: a relation on
    the application state that every step and compensation keeps is kept by every execution.
  \<^item> \<open>Records_Api\<close>: \<open>modules/api/src/services/records-service\<close> (\<open>crud.ts\<close>,
    \<open>drafts.ts\<close>, \<open>frontmatter-and-publish.ts\<close>, \<open>listing.ts\<close>, the status guard) and the routes
    that write records, drafts and states (\<open>modules/api/src/routes/records\<close>).
  \<^item> \<open>Records_Status\<close>, \<open>Records_Duties\<close>, \<open>Records_Approval\<close>: a status that no requester may set
    appears in no row, draft or file. The first says what that means of tables, files and
    contexts, the second that the four sagas keep it whatever fails, the third that every
    request does. \<open>Records_Gaps\<close>: publishing over a record of another type.
  \<^item> \<open>Record_Locks\<close>: the edit locks, \<open>records-service/locks.ts\<close>, \<open>lock-handlers.ts\<close> and the
    lock statements of \<open>core/src/database/database-service.ts\<close>.
  \<^item> \<open>Records_Listing\<close>: lists of records with filters, order and pages (\<open>listRecords\<close> of
    \<open>record-store.ts\<close> and \<open>listing.ts\<close>), the summary, and the cursor pages of
    \<open>listUnpublishedRecords\<close>.
  \<^item> \<open>Circuit_Breaker\<close>, \<open>Quota\<close>: \<open>modules/storage/src/circuit-breaker\<close> and
    \<open>quota\<close>, each with a step relation for interleaved callers. The steps of \<open>Quota\<close> are the
    awaited usage figures, the decisions, the landings and the releases of any number of calls.
  \<^item> \<open>Storage_World\<close>, \<open>Storage_Service\<close>, \<open>Storage_Upkeep\<close>: the rest of
    \<open>modules/storage/src\<close> over the table of files
    (\<open>core/src/database/stores/storage-file-store.ts\<close>), local files, objects of cloud providers
    and cached lists: the operations of \<open>cloud-uuid-storage\<close>, behind their quota, circuit breaker
    and timer; then the start of the service with its configuration, the reconstruction from
    manifests, lifecycle runs and the cleaner of orphaned files.
  \<^item> \<open>Storage_Frame\<close>, \<open>Storage_Theorems\<close>: the id in the path of a file and the locale
    \<open>storage_effects\<close>, by which an invariant of the primitive writes holds after every request;
    an uploaded file stays readable. \<open>Storage_Lifecycle\<close>, \<open>Storage_Cleaning\<close>,
    \<open>Storage_Quotas\<close>: what a lifecycle run and cleaning runs delete, and the quotas of a loaded
    configuration; \<open>Storage_Demo\<close>: a small store for concrete runs.
  \<^item> \<open>Di_Container\<close>, \<open>Di_Graph\<close>: \<open>core/src/di\<close>. A factory is a tree of the calls it
    makes to the container; the properties say which services resolve, what is shared and
    which cycles the dependency graph reports.

  \<^item> \<open>Visibility\<close>: \<open>services/transcription/src/visibility.ts\<close>, which part of a recording
    may surface, on sets of instants.
  \<^item> \<open>Broadcast_World\<close>: the tables, connections, files and records that the broadcast box
    shares (\<open>modules/broadcast-box/src/models\<close>, \<open>mergeCapture\<close> of
    \<open>core/src/records/record-manager.ts\<close>), and the locale \<open>bb_frame\<close>: a relation on
    states that every primitive keeps is kept by every operation. Each safety property below
    is an interpretation of it.
  \<^item> \<open>Session_Controller\<close>, \<open>Session_Theorems\<close>: \<open>session-controller.ts\<close>,
    \<open>device-command-service.ts\<close> and the session events of \<open>event-handlers.ts\<close>.
  \<^item> \<open>Redaction_Worker\<close>, \<open>Redaction_Theorems\<close>: \<open>redaction-worker.ts\<close>, the probes, the
    verification and the publication.
  \<^item> \<open>Device_Manager\<close>, \<open>Device_Theorems\<close>: \<open>device-manager.ts\<close>, the enrolment codes
    and \<open>device-connection-tracker.ts\<close>.
  \<^item> \<open>Upload_Processor\<close>, \<open>Upload_Theorems\<close>: \<open>upload-processor.ts\<close>, from the declared
    upload through its chunks to the linked file.

  \<^bold>\<open>Conventions\<close>

  A number of milliseconds is an \<open>int\<close>; a stored ISO timestamp is the number it denotes. A
  method that may throw returns \<open>Inl\<close> of an error; every throw, early return and
  swallowed exception of the source is a branch. Adapter failures are a list of booleans in
  the state, one per coming call, so that \<open>whatever fails\<close> is a quantifier over states and
  \<open>without adapter failures\<close> is the empty list. The steps and compensations of a saga are
  functions on an application state of any type, which makes the executor's theorems hold
  for every saga. A step that loses the race against a timer is a step outcome of its own;
  its promise is not continued in the background. Object property lookups are lookups in
  the configured entries (no prototype properties). Logging is left out.

  In the record theories a column that holds JSON is the value or a malformed text; the
  adapter, the file system and git fail by the same list of booleans, one per call that
  leaves the process. The front matter parser (gray-matter), the YAML emitter, the schema
  validator, SHA-256 and the date parser of the platform are fields of an environment.
  Steps take no time on the clock. No search service is installed, so the index is the
  table the stores fall back to.

  In the account theories random tokens and bcrypt salts are functions at a counter in the
  state; SHA-256, HMAC and bcrypt are functions of an environment, and a signature is a list
  of 8-bit words written in hexadecimal. \<open>AUTOINCREMENT\<close> is a counter per table, and
  \<open>last_insert_rowid()\<close> belongs to the connection. Requests run one after another but in the
  run that puts a statement of another request between two of an insert.

  In the broadcast theories seconds are rationals (no rounding of floating-point sums), the
  answers of a device to the coming commands are a script in the state, and uuids, random
  bytes, bcrypt, SHA-256 and ffmpeg are functions in an environment; a fresh value is the
  function at a counter in the state. A capture merge is one step, because the code makes it
  under its lock. The temporary directory of an upload is a map from file names to bytes.

  In the storage theories the clients of S3, Azure and GCS are functions of an environment on an
  object store of any type, with the range texts they are sent. A timer that strikes is a boolean
  per call, and the operation that lost against it takes effect. The operations of one batch run
  one after the other, and cached lists do not expire.

  \<^bold>\<open>Termination and bounds\<close>

  Only \<open>resolve_service\<close> takes fuel, because factories may resolve themselves forever
  (\<open>transient_cycle_never_returns\<close>); for cached classes the number of services plus one is
  enough (\<open>resolves_exactly_the_constructible\<close>). The retry of \<open>acquireLock\<close> after deleting an expired lock and
  the inheritance walk of the role manager are recursive functions with termination proofs;
  the loops over steps, orphaned sagas and reservations are structural recursions.

  \<^bold>\<open>Not modelled\<close>

  The response shapes and body validation of the records routes and the routes of the other
  resources, the schema builder and the search service, the realtime module, device tokens and the
  other messages of the broadcast box, diagnostics, notifications, templates, geography,
  the credentials and reports of the storage module, the command line and the user interface: the manifest
  lists each with its reason. They are the plan for extending the library, in this order:
  device tokens; searching records; the unified cache; realtime rooms; notifications; hooks.
\<close>

end
